(* ===== verification/Prelude.thy ===== *)
theory Prelude
  imports Main "HOL-Library.AList" "HOL-Library.Sublist"
begin

text \<open>
  What every theory of the development shares: the named collections that carry the
  component proofs, the representation of Go maps as association lists, the byte-string
  functions of Go's \<^verbatim>\<open>strings\<close>, \<^verbatim>\<open>strconv\<close>, \<^verbatim>\<open>path\<close> and \<^verbatim>\<open>encoding/hex\<close> packages
  that the sources call, and the generic lemmas about them.

  A Go \<^verbatim>\<open>string\<close> or \<^verbatim>\<open>[]byte\<close> is a \<^typ>\<open>string\<close>: a list of bytes. A Go map is an
  association list with distinct keys; the order of the list stands for the order in
  which a \<^verbatim>\<open>range\<close> loop visits the map, so a theorem about every list is a theorem
  about every iteration order. A \<^verbatim>\<open>time.Time\<close> is an \<^typ>\<open>int\<close> number of nanoseconds.
\<close>

section \<open>Collections and names of types\<close>

named_theorems gomap_simps \<open>lookup laws of association-list maps\<close>
named_theorems frame_simps \<open>what an operation leaves unchanged\<close>

type_synonym bytes = string
type_synonym ('k, 'v) gomap = "('k \<times> 'v) list"
type_synonym time = int

abbreviation second :: time where
  "second \<equiv> 1000000000"

abbreviation go_lookup :: "('k, 'v) gomap \<Rightarrow> 'k \<Rightarrow> 'v option" where
  "go_lookup \<equiv> map_of"

abbreviation go_update :: "'k \<Rightarrow> 'v \<Rightarrow> ('k, 'v) gomap \<Rightarrow> ('k, 'v) gomap" where
  "go_update \<equiv> AList.update"

abbreviation go_delete :: "'k \<Rightarrow> ('k, 'v) gomap \<Rightarrow> ('k, 'v) gomap" where
  "go_delete \<equiv> AList.delete"

abbreviation go_wf :: "('k, 'v) gomap \<Rightarrow> bool" where
  "go_wf m \<equiv> distinct (map fst m)"

section \<open>Byte strings\<close>

text \<open>\<^verbatim>\<open>strings.HasPrefix\<close>, \<^verbatim>\<open>HasSuffix\<close>, \<^verbatim>\<open>TrimPrefix\<close>, \<^verbatim>\<open>TrimSuffix\<close>,
  \<^verbatim>\<open>ContainsAny\<close> (for ASCII cut sets) and \<^verbatim>\<open>Contains\<close>.\<close>

definition HasPrefix :: "string \<Rightarrow> string \<Rightarrow> bool" where
  "HasPrefix s p \<longleftrightarrow> take (length p) s = p"

definition HasSuffix :: "string \<Rightarrow> string \<Rightarrow> bool" where
  "HasSuffix s p \<longleftrightarrow> HasPrefix (rev s) (rev p)"

definition TrimPrefix :: "string \<Rightarrow> string \<Rightarrow> string" where
  "TrimPrefix s p = (if HasPrefix s p then drop (length p) s else s)"

definition TrimSuffix :: "string \<Rightarrow> string \<Rightarrow> string" where
  "TrimSuffix s p = (if HasSuffix s p then take (length s - length p) s else s)"

definition ContainsAny :: "string \<Rightarrow> string \<Rightarrow> bool" where
  "ContainsAny s cs \<longleftrightarrow> list_ex (\<lambda>c. c \<in> set cs) s"

fun Contains :: "string \<Rightarrow> string \<Rightarrow> bool" where
  "Contains [] sub \<longleftrightarrow> sub = []"
| "Contains (x # xs) sub \<longleftrightarrow> HasPrefix (x # xs) sub \<or> Contains xs sub"

text \<open>\<^verbatim>\<open>strings.Split\<close> on a one-byte separator: always at least one part.\<close>

fun Split :: "char \<Rightarrow> string \<Rightarrow> string list" where
  "Split c [] = [[]]"
| "Split c (x # xs) =
     (if x = c then [] # Split c xs
      else (case Split c xs of [] \<Rightarrow> [[x]] | p # ps \<Rightarrow> (x # p) # ps))"

fun Join :: "char \<Rightarrow> string list \<Rightarrow> string" where
  "Join c [] = []"
| "Join c [p] = p"
| "Join c (p # q # ps) = p @ c # Join c (q # ps)"

text \<open>ASCII letter case (\<^verbatim>\<open>strings.ToLower\<close> and \<^verbatim>\<open>ToUpper\<close> on the ASCII strings the sources
  pass to them) and \<^verbatim>\<open>strings.TrimSpace\<close>.\<close>

definition lower_char :: "char \<Rightarrow> char" where
  "lower_char c =
     (if 65 \<le> (of_char c :: nat) \<and> (of_char c :: nat) \<le> 90 then char_of ((of_char c :: nat) + 32) else c)"

definition upper_char :: "char \<Rightarrow> char" where
  "upper_char c =
     (if 97 \<le> (of_char c :: nat) \<and> (of_char c :: nat) \<le> 122 then char_of ((of_char c :: nat) - 32) else c)"

definition ToLower :: "string \<Rightarrow> string" where
  "ToLower s = map lower_char s"

definition ToUpper :: "string \<Rightarrow> string" where
  "ToUpper s = map upper_char s"

definition EqualFold :: "string \<Rightarrow> string \<Rightarrow> bool" where
  "EqualFold s t \<longleftrightarrow> ToLower s = ToLower t"

definition is_space :: "char \<Rightarrow> bool" where
  "is_space c \<longleftrightarrow> c \<in> set [CHR '' '', CHR 0x09, CHR 0x0A, CHR 0x0B, CHR 0x0C, CHR 0x0D]"

definition TrimSpace :: "string \<Rightarrow> string" where
  "TrimSpace s = rev (dropWhile is_space (rev (dropWhile is_space s)))"

text \<open>Character classes of the regular expressions.\<close>

definition in_range :: "char \<Rightarrow> char \<Rightarrow> char \<Rightarrow> bool" where
  "in_range lo hi c \<longleftrightarrow> (of_char lo :: nat) \<le> of_char c \<and> (of_char c :: nat) \<le> of_char hi"

definition is_lower :: "char \<Rightarrow> bool" where
  "is_lower c \<longleftrightarrow> in_range (CHR ''a'') (CHR ''z'') c"

definition is_upper :: "char \<Rightarrow> bool" where
  "is_upper c \<longleftrightarrow> in_range (CHR ''A'') (CHR ''Z'') c"

definition is_digit :: "char \<Rightarrow> bool" where
  "is_digit c \<longleftrightarrow> in_range (CHR ''0'') (CHR ''9'') c"

text \<open>Decimal formatting of \<^verbatim>\<open>%d\<close> and the zero-padded \<^verbatim>\<open>%020d\<close>, and its inverse.\<close>

definition digit_char :: "nat \<Rightarrow> char" where
  "digit_char d = ''0123456789'' ! (d mod 10)"

fun nat_digits :: "nat \<Rightarrow> string" where
  "nat_digits n = (if n < 10 then [digit_char n] else nat_digits (n div 10) @ [digit_char n])"

declare nat_digits.simps [simp del]

definition int_digits :: "int \<Rightarrow> string" where
  "int_digits i = (if i < 0 then CHR ''-'' # nat_digits (nat (- i)) else nat_digits (nat i))"

definition digit_val :: "char \<Rightarrow> nat" where
  "digit_val c = of_char c - 48"

definition digits_val :: "string \<Rightarrow> nat" where
  "digits_val s = foldl (\<lambda>a c. 10 * a + digit_val c) 0 s"

definition pad20 :: "string \<Rightarrow> string" where
  "pad20 s = replicate (20 - length s) CHR ''0'' @ s"

text \<open>\<^verbatim>\<open>hex.EncodeToString\<close>.\<close>

definition hex_char :: "nat \<Rightarrow> char" where
  "hex_char d = ''0123456789abcdef'' ! (d mod 16)"

definition hex_byte :: "char \<Rightarrow> string" where
  "hex_byte c = [hex_char (of_char c div 16), hex_char (of_char c)]"

definition hex_encode :: "bytes \<Rightarrow> string" where
  "hex_encode s = concat (map hex_byte s)"

section \<open>Paths\<close>

text \<open>
  \<^verbatim>\<open>path.Clean\<close>, by its documented rules: split on slashes, drop empty and \<^verbatim>\<open>.\<close>
  elements, let \<^verbatim>\<open>..\<close> eliminate the element before it (at the root it disappears, in
  a relative path it stays), and answer \<^verbatim>\<open>.\<close> for the empty result.
\<close>

fun clean_parts :: "bool \<Rightarrow> string list \<Rightarrow> string list \<Rightarrow> string list" where
  "clean_parts rooted acc [] = rev acc"
| "clean_parts rooted acc (p # ps) =
     (if p = [] \<or> p = ''.'' then clean_parts rooted acc ps
      else if p = ''..'' then
        (case acc of
           [] \<Rightarrow> clean_parts rooted (if rooted then [] else [p]) ps
         | a # acc' \<Rightarrow> clean_parts rooted (if a = ''..'' then p # acc else acc') ps)
      else clean_parts rooted (p # acc) ps)"

definition path_Clean :: "string \<Rightarrow> string" where
  "path_Clean s =
     (let rooted = HasPrefix s ''/'';
          out = Join CHR ''/'' (clean_parts rooted [] (Split CHR ''/'' s))
      in if rooted then CHR ''/'' # out else if out = [] then ''.'' else out)"

section \<open>Lemmas on maps\<close>

lemma go_lookup_update [gomap_simps]:
  "go_lookup (go_update k v m) k' = (if k' = k then Some v else go_lookup m k')"
  by (simp add: AList.update_conv')

lemma go_lookup_delete [gomap_simps]:
  "go_lookup (go_delete k m) k' = (if k' = k then None else go_lookup m k')"
  by (simp add: AList.delete_conv')

lemma go_wf_update [simp, intro]: "go_wf m \<Longrightarrow> go_wf (go_update k v m)"
  by (rule AList.distinct_update)

lemma go_wf_delete [simp, intro]: "go_wf m \<Longrightarrow> go_wf (go_delete k m)"
  by (rule AList.distinct_delete)

lemma go_wf_filter [simp, intro]: "go_wf m \<Longrightarrow> go_wf (filter P m)"
  by (rule distinct_map_filter)

lemma go_lookup_in: "go_lookup m k = Some v \<Longrightarrow> (k, v) \<in> set m"
  by (rule map_of_SomeD)

lemma go_in_lookup: "go_wf m \<Longrightarrow> (k, v) \<in> set m \<longleftrightarrow> go_lookup m k = Some v"
  by (auto intro: map_of_is_SomeI dest: map_of_SomeD)

lemma go_lookup_filter:
  "go_wf m \<Longrightarrow> go_lookup (filter (\<lambda>(k, v). P k v) m) k =
     (case go_lookup m k of None \<Rightarrow> None | Some v \<Rightarrow> if P k v then Some v else None)"
proof (induction m)
  case (Cons a m)
  then show ?case
    by (cases a) (auto split: option.splits simp: map_of_eq_None_iff image_iff)
qed simp

lemma length_go_update:
  "length (go_update k v m) = (if go_lookup m k = None then Suc (length m) else length m)"
  by (induction m) (auto split: if_splits)

lemma length_go_delete_le: "length (go_delete k m) \<le> length m"
  by (simp add: AList.delete_eq)

lemma go_in_update:
  "go_wf m \<Longrightarrow> (k', v') \<in> set (go_update k v m) \<longleftrightarrow>
     (k' = k \<and> v' = v) \<or> (k' \<noteq> k \<and> (k', v') \<in> set m)"
  using go_in_lookup [of "go_update k v m"] go_in_lookup [of m]
  by (auto simp: gomap_simps)

lemma go_in_delete:
  "(k', v') \<in> set (go_delete k m) \<longleftrightarrow> k' \<noteq> k \<and> (k', v') \<in> set m"
  by (auto simp: AList.delete_eq)

section \<open>Lemmas on strings\<close>

lemma HasPrefix_iff: "HasPrefix s p \<longleftrightarrow> (\<exists>t. s = p @ t)"
  by (metis HasPrefix_def append_eq_conv_conj append_take_drop_id)

lemma HasSuffix_iff: "HasSuffix s p \<longleftrightarrow> (\<exists>t. s = t @ p)"
  by (metis HasPrefix_iff HasSuffix_def rev_append rev_rev_ident)

lemma Split_nonempty [simp]: "Split c s \<noteq> []"
  by (induction s) (auto split: list.splits)

lemma Join_Split [simp]: "Join c (Split c s) = s"
proof (induction s)
  case (Cons x xs)
  show ?case
  proof (cases "x = c")
    case True
    obtain p ps where "Split c xs = p # ps" by (cases "Split c xs") auto
    with Cons True show ?thesis by simp
  next
    case False
    obtain p ps where "Split c xs = p # ps" by (cases "Split c xs") auto
    with Cons False show ?thesis by (cases ps) auto
  qed
qed simp

lemma Split_no_sep: "p \<in> set (Split c s) \<Longrightarrow> c \<notin> set p"
  by (induction s arbitrary: p) (auto split: list.splits if_splits)

lemma Split_single: "c \<notin> set p \<Longrightarrow> Split c p = [p]"
  by (induction p) auto

lemma Split_append: "c \<notin> set p \<Longrightarrow> Split c (p @ c # s) = p # Split c s"
  by (induction p) auto

lemma Split_Join:
  "ps \<noteq> [] \<Longrightarrow> (\<And>p. p \<in> set ps \<Longrightarrow> c \<notin> set p) \<Longrightarrow> Split c (Join c ps) = ps"
  by (induction c ps rule: Join.induct) (auto simp: Split_single Split_append)

lemma digit_val_digit_char: "digit_val (digit_char d) = d mod 10"
proof -
  have "d mod 10 \<in> {0,1,2,3,4,5,6,7,8,9}"
    using mod_less_divisor [of 10 d] by (simp only: insert_iff empty_iff) arith
  then show ?thesis
    by (elim insertE emptyE) (simp_all add: digit_val_def digit_char_def)
qed

lemma digits_val_append [simp]: "digits_val (s @ [c]) = 10 * digits_val s + digit_val c"
  by (simp add: digits_val_def)

lemma digits_val_nat_digits [simp]: "digits_val (nat_digits n) = n"
proof (induction n rule: nat_digits.induct)
  case (1 n)
  show ?case
  proof (cases "n < 10")
    case True
    then show ?thesis
      by (simp add: nat_digits.simps [of n] digits_val_def digit_val_digit_char)
  next
    case False
    with 1 show ?thesis
      by (simp add: nat_digits.simps [of n] digit_val_digit_char)
  qed
qed

lemma nat_digits_inject [simp]: "nat_digits m = nat_digits n \<longleftrightarrow> m = n"
  by (metis digits_val_nat_digits)

lemma is_digit_digit_char [simp]: "is_digit (digit_char d)"
proof -
  have "d mod 10 \<in> {0,1,2,3,4,5,6,7,8,9}"
    using mod_less_divisor [of 10 d] by (simp only: insert_iff empty_iff) arith
  then show ?thesis
    by (elim insertE emptyE) (simp_all add: is_digit_def in_range_def digit_char_def)
qed

lemma nat_digits_is_digit: "c \<in> set (nat_digits n) \<Longrightarrow> is_digit c"
  by (induction n rule: nat_digits.induct) (subst (asm) (2) nat_digits.simps, auto split: if_splits)

lemma int_digits_inject [simp]: "int_digits i = int_digits j \<longleftrightarrow> i = j"
proof -
  have minus: "CHR ''-'' # s \<noteq> nat_digits n" for s n
  proof
    assume "CHR ''-'' # s = nat_digits n"
    then have "CHR ''-'' \<in> set (nat_digits n)" by (metis list.set_intros(1))
    from nat_digits_is_digit [OF this] show False
      by (simp add: is_digit_def in_range_def)
  qed
  show ?thesis
    by (auto simp: int_digits_def minus minus [symmetric] split: if_splits)
qed

lemma digits_val_pad20 [simp]: "digits_val (pad20 s) = digits_val s"
proof -
  have zero: "foldl (\<lambda>a c. 10 * a + digit_val c) 0 (replicate k CHR ''0'' @ s)
      = foldl (\<lambda>a c. 10 * a + digit_val c) 0 s" for k
    by (induction k) (simp_all add: digit_val_def)
  show ?thesis by (simp only: digits_val_def pad20_def zero)
qed

lemma length_hex_encode [simp]: "length (hex_encode s) = 2 * length s"
  by (induction s) (simp_all add: hex_encode_def hex_byte_def)

lemma clean_parts_no_dots:
  assumes "set acc \<inter> {[], ''.'', ''..''} = {}"
  shows "set (clean_parts True acc ps) \<inter> {[], ''.'', ''..''} = {}"
  using assms
  by (induction "True" acc ps rule: clean_parts.induct) (auto split: list.splits)

lemma clean_parts_subset: "set (clean_parts r acc ps) \<subseteq> set acc \<union> set ps"
  by (induction r acc ps rule: clean_parts.induct) (auto split: list.splits if_splits)

end
