(* ===== verification/Seal.thy ===== *)
theory Seal
  imports Prelude
begin

text \<open>
  The sealing layer of the credential broker
  (\<^verbatim>\<open>services/credential-broker/internal/seal/seal.go\<close>): AES-256-GCM boxes with a
  random nonce in front of the ciphertext, purpose-separated key derivation, digests and
  random tokens in raw URL base64.

  The cryptographic primitives of Go's standard library (SHA-256, HMAC, AES-GCM) are the
  fields of the record \<open>crypto\<close>, an argument of every definition that uses them;
  \<open>gcm_ok\<close> and \<open>sha_ok\<close> state the documented behaviour the sources rely on. Base64 is
  written out.
\<close>

section \<open>Primitives\<close>

record crypto =
  sha256 :: "bytes \<Rightarrow> bytes"
  hmac_sha256 :: "bytes \<Rightarrow> bytes \<Rightarrow> bytes"
  gcm_seal :: "bytes \<Rightarrow> bytes \<Rightarrow> bytes \<Rightarrow> bytes \<Rightarrow> bytes"
  gcm_open :: "bytes \<Rightarrow> bytes \<Rightarrow> bytes \<Rightarrow> bytes \<Rightarrow> bytes option"

definition gcm_ok :: "'a crypto_scheme \<Rightarrow> bool" where
  "gcm_ok K \<longleftrightarrow>
     (\<forall>key nonce plain aad. length nonce = 12 \<longrightarrow>
        gcm_open K key nonce (gcm_seal K key nonce plain aad) aad = Some plain \<and>
        length (gcm_seal K key nonce plain aad) = length plain + 16)"

definition sha_ok :: "'a crypto_scheme \<Rightarrow> bool" where
  "sha_ok K \<longleftrightarrow> (\<forall>x. length (sha256 K x) = 32)"

section \<open>Base64 (RawURLEncoding)\<close>

definition b64_char :: "nat \<Rightarrow> char" where
  "b64_char d =
     (let m = d mod 64 in
      if m < 26 then char_of (65 + m)
      else if m < 52 then char_of (71 + m)
      else if m < 62 then char_of (m - 4)
      else if m = 62 then CHR ''-'' else CHR ''_'')"

definition b64_val :: "char \<Rightarrow> nat option" where
  "b64_val c =
     (let n = (of_char c :: nat) in
      if 65 \<le> n \<and> n \<le> 90 then Some (n - 65)
      else if 97 \<le> n \<and> n \<le> 122 then Some (n - 71)
      else if 48 \<le> n \<and> n \<le> 57 then Some (n + 4)
      else if n = 45 then Some 62
      else if n = 95 then Some 63
      else None)"

fun b64_nums :: "nat list \<Rightarrow> string" where
  "b64_nums [] = []"
| "b64_nums [a] = [b64_char (a div 4), b64_char (a mod 4 * 16)]"
| "b64_nums [a, b] = [b64_char (a div 4), b64_char (a mod 4 * 16 + b div 16), b64_char (b mod 16 * 4)]"
| "b64_nums (a # b # d # xs) =
     b64_char (a div 4) # b64_char (a mod 4 * 16 + b div 16) #
     b64_char (b mod 16 * 4 + d div 64) # b64_char (d mod 64) # b64_nums xs"

definition b64_encode :: "bytes \<Rightarrow> string" where
  "b64_encode s = b64_nums (map of_char s)"

fun b64_join :: "nat list \<Rightarrow> nat list option" where
  "b64_join [] = Some []"
| "b64_join [x] = None"
| "b64_join [x, y] = (if y mod 16 = 0 then Some [x * 4 + y div 16] else None)"
| "b64_join [x, y, z] =
     (if z mod 4 = 0 then Some [x * 4 + y div 16, y mod 16 * 16 + z div 4] else None)"
| "b64_join (x # y # z # w # xs) =
     map_option (\<lambda>r. (x * 4 + y div 16) # (y mod 16 * 16 + z div 4) # (z mod 4 * 64 + w) # r)
       (b64_join xs)"

text \<open>\<^verbatim>\<open>RawURLEncoding.Strict().DecodeString\<close>: line breaks are skipped, any other byte
  outside the alphabet is an error, trailing bits must be zero.\<close>

definition b64_decode :: "string \<Rightarrow> bytes option" where
  "b64_decode s =
     (let t = filter (\<lambda>c. c \<noteq> CHR 0x0D \<and> c \<noteq> CHR 0x0A) s in
      if list_ex (\<lambda>c. b64_val c = None) t then None
      else map_option (map char_of) (b64_join (map (\<lambda>c. the (b64_val c)) t)))"

section \<open>The package\<close>

text \<open>\<^verbatim>\<open>New\<close>: a box is its key, which must have 32 bytes.\<close>

definition seal_New :: "bytes \<Rightarrow> bytes option" where
  "seal_New key = (if length key \<noteq> 32 then None else Some key)"

definition Derive :: "'a crypto_scheme \<Rightarrow> bytes \<Rightarrow> string \<Rightarrow> bytes" where
  "Derive K master purpose = hmac_sha256 K master (''hermes-credential-broker/v1/'' @ purpose)"

definition box_Seal :: "'a crypto_scheme \<Rightarrow> bytes \<Rightarrow> bytes \<Rightarrow> bytes \<Rightarrow> bytes \<Rightarrow> bytes" where
  "box_Seal K key nonce plain aad = nonce @ gcm_seal K key nonce plain aad"

definition box_Open :: "'a crypto_scheme \<Rightarrow> bytes \<Rightarrow> bytes \<Rightarrow> bytes \<Rightarrow> bytes option" where
  "box_Open K key data aad =
     (if length data < 12 + 16 then None
      else gcm_open K key (take 12 data) (drop 12 data) aad)"

definition Random :: "bytes \<Rightarrow> string" where
  "Random p = b64_encode p"

definition Digest :: "'a crypto_scheme \<Rightarrow> string \<Rightarrow> string" where
  "Digest K v = b64_encode (sha256 K v)"

definition seal_Equal :: "string \<Rightarrow> string \<Rightarrow> bool" where
  "seal_Equal a b \<longleftrightarrow> a = b"

section \<open>Lemmas\<close>

lemma box_Open_Seal [simp]:
  "gcm_ok K \<Longrightarrow> length nonce = 12 \<Longrightarrow> box_Open K key (box_Seal K key nonce plain aad) aad = Some plain"
  by (simp add: box_Open_def box_Seal_def gcm_ok_def)

lemma length_box_Seal [simp]:
  "gcm_ok K \<Longrightarrow> length nonce = 12 \<Longrightarrow> length (box_Seal K key nonce plain aad) = length plain + 28"
  by (simp add: box_Seal_def gcm_ok_def)

lemma b64_val_char [simp]: "b64_val (b64_char d) = Some (d mod 64)"
proof -
  have "d mod 64 < 64" by simp
  then show ?thesis
    unfolding b64_char_def b64_val_def Let_def by (auto simp: not_less)
qed

lemma b64_char_not_break: "b64_char d \<noteq> CHR 0x0D" "b64_char d \<noteq> CHR 0x0A"
proof -
  have "b64_val (CHR 0x0D) = None" "b64_val (CHR 0x0A) = None"
    by (simp_all add: b64_val_def)
  then show "b64_char d \<noteq> CHR 0x0D" "b64_char d \<noteq> CHR 0x0A"
    using b64_val_char [of d] by (metis option.distinct(1))+
qed

lemma b64_nums_chars: "c \<in> set (b64_nums ns) \<Longrightarrow> \<exists>d. c = b64_char d"
  by (induction ns rule: b64_nums.induct) auto

lemma b64_fields:
  fixes x y k :: nat
  assumes "y < k" "0 < k"
  shows "(x * k + y) div k = x" and "(x * k + y) mod k = y"
  using assms by simp_all

lemma b64_group:
  fixes a b d :: nat
  assumes "a < 256" "b < 256" "d < 256"
  shows "a div 4 mod 64 * 4 + (a mod 4 * 16 + b div 16) mod 64 div 16 = a"
    and "(a mod 4 * 16 + b div 16) mod 64 mod 16 * 16 + (b mod 16 * 4 + d div 64) mod 64 div 4 = b"
    and "(a mod 4 * 16 + b div 16) mod 64 mod 16 * 16 + b mod 16 = b"
    and "(b mod 16 * 4 + d div 64) mod 64 mod 4 * 64 + d mod 64 = d"
proof -
  have "b div 16 < 16" "d div 64 < 4" using assms by auto
  note ab = b64_fields [OF this(1), of "a mod 4"] and bd = b64_fields [OF this(2), of "b mod 16"]
  have "a mod 4 < 4" "b mod 16 < 16" by simp_all
  then have "a mod 4 * 16 + b div 16 < 64" "b mod 16 * 4 + d div 64 < 64"
    using \<open>b div 16 < 16\<close> \<open>d div 64 < 4\<close> by linarith+
  moreover have "a div 4 < 64" using assms by auto
  ultimately have small: "(a mod 4 * 16 + b div 16) mod 64 = a mod 4 * 16 + b div 16"
    "(b mod 16 * 4 + d div 64) mod 64 = b mod 16 * 4 + d div 64" "a div 4 mod 64 = a div 4"
    by (simp_all only: mod_less)
  have pos: "(0::nat) < 16" "(0::nat) < 4" by simp_all
  show "a div 4 mod 64 * 4 + (a mod 4 * 16 + b div 16) mod 64 div 16 = a"
    "(a mod 4 * 16 + b div 16) mod 64 mod 16 * 16 + (b mod 16 * 4 + d div 64) mod 64 div 4 = b"
    "(a mod 4 * 16 + b div 16) mod 64 mod 16 * 16 + b mod 16 = b"
    "(b mod 16 * 4 + d div 64) mod 64 mod 4 * 64 + d mod 64 = d"
    by (simp_all only: small ab [OF pos(1)] bd [OF pos(2)] div_mult_mod_eq)
qed

lemma b64_join_nums:
  "(\<And>n. n \<in> set ns \<Longrightarrow> n < 256) \<Longrightarrow>
     b64_join (map (\<lambda>c. the (b64_val c)) (b64_nums ns)) = Some ns"
proof (induction ns rule: b64_nums.induct)
  case (3 a b)
  then have "a < 256" "b < 256" by auto
  note g = b64_group(1,2) [OF this, of 0, unfolded div_0 add_0_right]
  have "b mod 16 < 16" by simp
  then have "b mod 16 * 4 mod 64 = b mod 16 * 4" by (intro mod_less) linarith
  then have "b mod 16 * 4 mod 64 mod 4 = 0" by (simp only: mod_mult_self2_is_0)
  with g show ?case
    by (simp only: b64_nums.simps list.map b64_val_char option.sel b64_join.simps simp_thms if_True zero_less_numeral)
next
  case (4 a b d xs)
  then have "a < 256" "b < 256" "d < 256" by auto
  note g = b64_group(1,2,4) [OF this]
  have "b64_join (map (\<lambda>c. the (b64_val c)) (b64_nums xs)) = Some xs"
    using 4 by (meson list.set_intros(2))
  with g show ?case
    by (simp only: b64_nums.simps list.map b64_val_char option.sel b64_join.simps option.map mod_mod_trivial)
qed simp_all

text \<open>Decoding inverts encoding, for every byte string.\<close>

lemma b64_decode_encode [simp]: "b64_decode (b64_encode s) = Some s"
proof -
  let ?ns = "map of_char s :: nat list"
  have keep: "filter (\<lambda>c. c \<noteq> CHR 0x0D \<and> c \<noteq> CHR 0x0A) (b64_nums ?ns) = b64_nums ?ns"
    using b64_nums_chars [of _ ?ns] b64_char_not_break by (fastforce simp: filter_id_conv)
  have ok: "\<not> list_ex (\<lambda>c. b64_val c = None) (b64_nums ?ns)"
    using b64_nums_chars [of _ ?ns] b64_val_char by (fastforce simp: list_ex_iff)
  have "b64_join (map (\<lambda>c. the (b64_val c)) (b64_nums ?ns)) = Some ?ns"
    by (rule b64_join_nums) auto
  with keep ok show ?thesis
    by (simp add: b64_decode_def b64_encode_def Let_def o_def)
qed

lemma b64_encode_inject [simp]: "b64_encode s = b64_encode t \<longleftrightarrow> s = t"
  by (metis b64_decode_encode option.inject)

lemma length_b64_nums: "length (b64_nums ns) = (length ns * 4 + 2) div 3"
  by (induction ns rule: b64_nums.induct) auto

lemma length_Digest: "sha_ok K \<Longrightarrow> length (Digest K v) = 43"
  by (simp add: Digest_def b64_encode_def length_b64_nums sha_ok_def)

lemma Digest_inject:
  "inj (sha256 K) \<Longrightarrow> Digest K v = Digest K w \<longleftrightarrow> v = w"
  by (auto simp: Digest_def dest: injD)

end
