(* ===== verification/Journal.thy ===== *)
theory Journal
  imports Seal
begin

text \<open>
  The bounded, encrypted, hash-chained append journal of the credential broker
  (\<^verbatim>\<open>services/credential-broker/internal/journal/journal.go\<close>): opening and strict replay,
  appending, framing and lossless compaction of a ledger file.

  The struct \<^verbatim>\<open>Journal\<close> is split in three: \<open>Ledger\<close> holds the fields that a replay of the
  file determines, \<open>JCore\<close> adds the file itself (its bytes), the box key, the limit, the
  poison flag and the outcomes of the disk operations still to come, and the datatype
  \<open>Journal\<close> adds the pointers to the recovery journal and the anchor. Disk faults are
  values: every disk operation consumes one outcome from a tape, an empty tape is a disk
  that works. \<^verbatim>\<open>encoding/json\<close> on a \<^verbatim>\<open>Record\<close> and \<^verbatim>\<open>compress/zlib\<close> are fields of the
  environment record, with \<open>env_ok\<close> for the round trips the sources rely on.
\<close>

section \<open>Data\<close>

definition MaxRecord :: nat where
  "MaxRecord = 1048576"

record Record =
  rec_Sequence :: nat
  rec_Previous :: string
  rec_Kind :: string
  rec_Data :: bytes

datatype jerr = JUnavailable | JOther string

datatype io = IoOk | IoFail nat

record journal_env = crypto +
  deflate :: "bytes \<Rightarrow> bytes"
  inflate :: "bytes \<Rightarrow> bytes option"
  json_record :: "Record \<Rightarrow> bytes"
  parse_record :: "bytes \<Rightarrow> Record option"
  nonces :: "nat \<Rightarrow> bytes"

definition env_ok :: "'a journal_env_scheme \<Rightarrow> bool" where
  "env_ok E \<longleftrightarrow> gcm_ok E \<and> (\<forall>x. inflate E (deflate E x) = Some x) \<and>
     (\<forall>r. parse_record E (json_record E r) = Some r) \<and> (\<forall>n. length (nonces E n) = 12)"

record Ledger =
  j_seq :: nat
  j_prev :: string
  j_size :: nat
  j_records :: "Record list"
  j_offsets :: "nat list"
  j_legacy :: bool

record JCore = Ledger +
  j_file :: "bytes option"
  j_lock :: bool
  j_box :: bytes
  j_limit :: nat
  j_poisoned :: bool
  j_io :: "io list"
  j_rng :: nat

record Anchor =
  a_box :: bytes
  a_files :: "(string, bytes) gomap"
  a_io :: "io list"
  a_rng :: nat

datatype Journal = Journal (j_core: JCore) (j_recovery: "Journal option") (j_anchor: "Anchor option")

text \<open>What \<^verbatim>\<open>Open\<close> finds: the directory and key checks of \<^verbatim>\<open>securefs\<close>, the advisory lock,
  the permission bits and the bytes of \<^verbatim>\<open>ledger.bin\<close>.\<close>

record LedgerDir =
  ld_secure :: bool
  ld_locked :: bool
  ld_private :: bool
  ld_bytes :: bytes

section \<open>Disk outcomes\<close>

definition pop_io :: "io list \<Rightarrow> io \<times> io list" where
  "pop_io xs = (case xs of [] \<Rightarrow> (IoOk, []) | x # xs' \<Rightarrow> (x, xs'))"

definition io_next :: "JCore \<Rightarrow> io \<times> JCore" where
  "io_next c = (let (x, xs) = pop_io (j_io c) in (x, c\<lparr>j_io := xs\<rparr>))"

text \<open>A sequence of operations that stops at the first failure.\<close>

fun io_run :: "nat \<Rightarrow> JCore \<Rightarrow> bool \<times> JCore" where
  "io_run 0 c = (True, c)"
| "io_run (Suc n) c = (case io_next c of (IoOk, c') \<Rightarrow> io_run n c' | (IoFail _, c') \<Rightarrow> (False, c'))"

section \<open>Frames\<close>

text \<open>\<^verbatim>\<open>binary.BigEndian\<close> on four bytes; bit 31 marks a compressed frame.\<close>

definition put_u32 :: "nat \<Rightarrow> bytes" where
  "put_u32 n = [char_of (n div 16777216), char_of (n div 65536), char_of (n div 256), char_of n]"

definition get_u32 :: "bytes \<Rightarrow> nat" where
  "get_u32 h = foldl (\<lambda>a c. a * 256 + of_char c) 0 (take 4 h)"

definition ledger_aad :: bytes where
  "ledger_aad = ''ledger/v1''"

definition frame :: "'a journal_env_scheme \<Rightarrow> JCore \<Rightarrow> bytes \<Rightarrow> JCore \<times> (jerr + bytes \<times> bool)" where
  "frame E c plain =
     (let payload = deflate E plain;
          compressed = length payload < length plain;
          source = (if compressed then payload else plain)
      in case io_next c of
           (IoFail _, c') \<Rightarrow> (c', Inl (JOther ''nonce''))
         | (IoOk, c') \<Rightarrow>
             (let enc = box_Seal E (j_box c') (nonces E (j_rng c')) source ledger_aad;
                  c'' = c'\<lparr>j_rng := Suc (j_rng c')\<rparr>
              in if length enc > MaxRecord then (c'', Inl JUnavailable)
                 else (c'', Inr (put_u32 (length enc + (if compressed then 2147483648 else 0)) @ enc,
                                 compressed))))"

section \<open>Replay\<close>

definition empty_ledger :: Ledger where
  "empty_ledger = \<lparr>j_seq = 0, j_prev = [], j_size = 0, j_records = [], j_offsets = [], j_legacy = False\<rparr>"

definition record_hash :: "'a crypto_scheme \<Rightarrow> bytes \<Rightarrow> string" where
  "record_hash E plain = hex_encode (sha256 E plain)"

text \<open>The frame's plaintext: decompressed, and bounded after decompression.\<close>

definition unpack :: "'a journal_env_scheme \<Rightarrow> bool \<Rightarrow> bytes \<Rightarrow> bytes option" where
  "unpack E compressed plain =
     (if compressed
      then (case inflate E plain of
              None \<Rightarrow> None
            | Some decoded \<Rightarrow> if length decoded > MaxRecord - 28 then None else Some decoded)
      else Some plain)"

text \<open>One accepted record: the in-memory fields after it.\<close>

definition accept :: "'a crypto_scheme \<Rightarrow> 'b Ledger_scheme \<Rightarrow> Record \<Rightarrow> bytes \<Rightarrow> nat \<Rightarrow> bool \<Rightarrow> 'b Ledger_scheme" where
  "accept E j r plain n compressed =
     j\<lparr>j_prev := record_hash E plain, j_seq := rec_Sequence r, j_size := j_size j + n,
       j_records := j_records j @ [r], j_offsets := j_offsets j @ [j_size j + n],
       j_legacy := j_legacy j \<or> \<not> compressed\<rparr>"

text \<open>The loop of \<^verbatim>\<open>Open\<close>: any frame that is short, oversized, not authentic, not strict JSON
  or out of sequence makes the whole journal unavailable.\<close>

function open_loop :: "'a journal_env_scheme \<Rightarrow> bytes \<Rightarrow> Ledger \<Rightarrow> bytes \<Rightarrow> jerr + Ledger" where
  "open_loop E box j f =
     (if f = [] then Inr j
      else if length f < 4 then Inl JUnavailable
      else
        let frameSize = get_u32 f;
            compressed = (frameSize \<ge> 2147483648);
            sz = frameSize mod 2147483648;
            rest = drop 4 f
        in if sz < 28 \<or> sz > MaxRecord then Inl JUnavailable
           else if length rest < sz then Inl JUnavailable
           else case box_Open E box (take sz rest) ledger_aad of
             None \<Rightarrow> Inl JUnavailable
           | Some sealed \<Rightarrow>
               (case unpack E compressed sealed of
                  None \<Rightarrow> Inl JUnavailable
                | Some plain \<Rightarrow>
                    (case parse_record E plain of
                       None \<Rightarrow> Inl JUnavailable
                     | Some r \<Rightarrow>
                         if rec_Sequence r \<noteq> j_seq j + 1 \<or> rec_Previous r \<noteq> j_prev j \<or> rec_Kind r = []
                         then Inl JUnavailable
                         else open_loop E box (accept E j r plain (sz + 4) compressed) (drop sz rest))))"
  by pat_completeness auto
termination
  by (relation "measure (\<lambda>(E, box, j, f). length f)") auto

declare open_loop.simps [simp del]

section \<open>Compaction\<close>

text \<open>The rewriting loop of \<^verbatim>\<open>compactLocked\<close>: previous hash, size, offsets, bytes written and
  the new legacy flag.\<close>

fun compact_loop :: "'a journal_env_scheme \<Rightarrow> JCore \<Rightarrow> Record list \<Rightarrow> string \<Rightarrow> nat \<Rightarrow> nat list \<Rightarrow> bytes \<Rightarrow> bool
    \<Rightarrow> JCore \<times> (jerr + string \<times> nat \<times> nat list \<times> bytes \<times> bool)" where
  "compact_loop E c [] prev sz offsets out legacy = (c, Inr (prev, sz, offsets, out, legacy))"
| "compact_loop E c (r # rs) prev sz offsets out legacy =
     (let plain = json_record E r in
      if rec_Previous r \<noteq> prev then (c, Inl JUnavailable)
      else case frame E c plain of
        (c', Inl e) \<Rightarrow> (c', Inl e)
      | (c', Inr (buf, compressed)) \<Rightarrow>
          (case io_next c' of
             (IoFail _, c'') \<Rightarrow> (c'', Inl (JOther ''write''))
           | (IoOk, c'') \<Rightarrow>
               compact_loop E c'' rs (record_hash E plain) (sz + length buf)
                 (offsets @ [sz + length buf]) (out @ buf) (legacy \<or> \<not> compressed)))"

text \<open>
  \<^verbatim>\<open>compactLocked\<close>: the random name, opening and locking the temporary file (three
  operations), the loop, then flush, sync, seek and rename (four), and the sync of the
  directory, whose failure poisons the journal. Until the rename the ledger file keeps its
  old bytes.
\<close>

definition compactLocked :: "'a journal_env_scheme \<Rightarrow> JCore \<Rightarrow> JCore \<times> (jerr + unit)" where
  "compactLocked E c =
     (case io_run 3 c of
        (False, c1) \<Rightarrow> (c1, Inl (JOther ''temp''))
      | (True, c1) \<Rightarrow>
          (case compact_loop E c1 (j_records c1) [] 0 [] [] False of
             (c2, Inl e) \<Rightarrow> (c2, Inl e)
           | (c2, Inr (prev, sz, offsets, out, legacy)) \<Rightarrow>
               if prev \<noteq> j_prev c2 then (c2, Inl JUnavailable)
               else if sz \<ge> j_size c2 then (c2, Inr ())
               else case io_run 4 c2 of
                 (False, c3) \<Rightarrow> (c3, Inl (JOther ''replace''))
               | (True, c3) \<Rightarrow>
                   (let c4 = c3\<lparr>j_file := Some out, j_size := sz, j_offsets := offsets, j_legacy := legacy\<rparr>
                    in case io_next c4 of
                         (IoFail _, c5) \<Rightarrow> (c5\<lparr>j_poisoned := True\<rparr>, Inl (JOther ''syncdir''))
                       | (IoOk, c5) \<Rightarrow> (c5, Inr ()))))"

section \<open>Opening\<close>

definition Open :: "'a journal_env_scheme \<Rightarrow> LedgerDir \<Rightarrow> bytes \<Rightarrow> nat \<Rightarrow> io list \<Rightarrow> nat \<Rightarrow> jerr + Journal" where
  "Open E dir key limit ios rng =
     (if limit < MaxRecord \<or> limit > 1073741824 then Inl (JOther ''invalid journal limit'')
      else if \<not> ld_secure dir then Inl (JOther ''unsafe filesystem object'')
      else case seal_New key of
        None \<Rightarrow> Inl (JOther ''key must contain exactly 32 bytes'')
      | Some box \<Rightarrow>
          if ld_locked dir then Inl JUnavailable
          else if \<not> ld_private dir \<or> length (ld_bytes dir) > limit then Inl JUnavailable
          else case open_loop E box empty_ledger (ld_bytes dir) of
            Inl e \<Rightarrow> Inl e
          | Inr l \<Rightarrow>
              (let c = Ledger.extend l \<lparr>j_file = Some (ld_bytes dir), j_lock = True, j_box = box,
                         j_limit = limit, j_poisoned = False, j_io = ios, j_rng = rng\<rparr>
               in case io_next c of
                    (IoFail _, c') \<Rightarrow> Inl (JOther ''syncdir'')
                  | (IoOk, c') \<Rightarrow>
                      if j_legacy c' \<and> j_size c' > j_limit c' div 3
                      then (case compactLocked E c' of
                              (_, Inl e) \<Rightarrow> Inl e
                            | (c'', Inr _) \<Rightarrow> Inr (Journal c'' None None))
                      else Inr (Journal c' None None)))"

section \<open>The anchor\<close>

text \<open>The files of the anchor directory (\<^verbatim>\<open>recovery.go\<close>): \<^verbatim>\<open>securefs.Create\<close> refuses an existing
  name, and removes the file again when writing it fails.\<close>

definition commit_name :: "nat \<Rightarrow> string" where
  "commit_name seq = ''commit-'' @ pad20 (nat_digits seq)"

definition anchor_create :: "'a journal_env_scheme \<Rightarrow> Anchor \<Rightarrow> string \<Rightarrow> bytes \<Rightarrow> Anchor \<times> bool" where
  "anchor_create E a name plain =
     (case pop_io (a_io a) of
        (IoFail _, xs) \<Rightarrow> (a\<lparr>a_io := xs\<rparr>, False)
      | (IoOk, xs) \<Rightarrow>
          (let enc = box_Seal E (a_box a) (nonces E (a_rng a)) plain name;
               a1 = a\<lparr>a_io := xs, a_rng := Suc (a_rng a)\<rparr>
           in if go_lookup (a_files a1) name \<noteq> None then (a1, False)
              else case pop_io (a_io a1) of
                (IoFail _, ys) \<Rightarrow> (a1\<lparr>a_io := ys\<rparr>, False)
              | (IoOk, ys) \<Rightarrow>
                  (let a2 = a1\<lparr>a_io := ys, a_files := go_update name enc (a_files a1)\<rparr>
                   in case pop_io ys of
                        (IoFail _, zs) \<Rightarrow> (a2\<lparr>a_io := zs\<rparr>, False)
                      | (IoOk, zs) \<Rightarrow> (a2\<lparr>a_io := zs\<rparr>, True))))"

definition anchor_commit :: "'a journal_env_scheme \<Rightarrow> Anchor \<Rightarrow> nat \<Rightarrow> string \<Rightarrow> Anchor \<times> bool" where
  "anchor_commit E a seq hash = anchor_create E a (commit_name seq) hash"

section \<open>Appending\<close>

abbreviation poison :: "JCore \<Rightarrow> JCore" where
  "poison c \<equiv> c\<lparr>j_poisoned := True\<rparr>"

text \<open>Writing the frame to the file: a failed write leaves a prefix of the frame on disk.\<close>

definition write_frame :: "JCore \<Rightarrow> bytes \<Rightarrow> JCore \<times> bool" where
  "write_frame c buf =
     (case io_next c of
        (IoFail n, c') \<Rightarrow> (c'\<lparr>j_file := map_option (\<lambda>f. f @ take n buf) (j_file c')\<rparr>, False)
      | (IoOk, c') \<Rightarrow>
          (let c'' = c'\<lparr>j_file := map_option (\<lambda>f. f @ buf) (j_file c')\<rparr>
           in case io_next c'' of (IoFail _, c3) \<Rightarrow> (c3, False) | (IoOk, c3) \<Rightarrow> (c3, True)))"

text \<open>The frame of a record and the room for it: a legacy journal is compacted once when the
  frame does not fit, and a journal that is still full is poisoned.\<close>

definition reserve :: "'a journal_env_scheme \<Rightarrow> JCore \<Rightarrow> bytes \<Rightarrow> JCore \<times> (jerr + bytes \<times> bool)" where
  "reserve E c plain =
     (case frame E c plain of
        (c1, Inl e) \<Rightarrow> (c1, Inl e)
      | (c1, Inr (buf, compressed)) \<Rightarrow>
          (case (if j_size c1 + length buf > j_limit c1 \<and> j_legacy c1
                 then compactLocked E c1 else (c1, Inr ())) of
             (c2, Inl _) \<Rightarrow> (poison c2, Inl JUnavailable)
           | (c2, Inr _) \<Rightarrow>
               if j_size c2 + length buf > j_limit c2 then (poison c2, Inl JUnavailable)
               else (c2, Inr (buf, compressed))))"

fun Append :: "'a journal_env_scheme \<Rightarrow> string \<Rightarrow> bytes \<Rightarrow> Journal \<Rightarrow> Journal \<times> (jerr + nat)" where
  "Append E kind raw (Journal c rec anc) =
     (if j_poisoned c \<or> j_file c = None \<or> kind = [] then (Journal c rec anc, Inl JUnavailable)
      else
        let r = \<lparr>rec_Sequence = j_seq c + 1, rec_Previous = j_prev c, rec_Kind = kind, rec_Data = raw\<rparr>;
            plain = json_record E r
        in if length plain + 28 > MaxRecord then (Journal c rec anc, Inl (JOther ''record too large''))
           else case reserve E c plain of
             (c2, Inl e) \<Rightarrow> (Journal c2 rec anc, Inl e)
           | (c2, Inr (buf, compressed)) \<Rightarrow>
               (case (case rec of
                        None \<Rightarrow> (None, True)
                      | Some rj \<Rightarrow> (case Append E kind raw rj of
                                     (rj', Inl _) \<Rightarrow> (Some rj', False)
                                   | (rj', Inr _) \<Rightarrow> (Some rj', True))) of
                  (rec', False) \<Rightarrow> (Journal (poison c2) rec' anc, Inl JUnavailable)
                | (rec', True) \<Rightarrow>
                    (case write_frame c2 buf of
                       (c3, False) \<Rightarrow> (Journal (poison c3) rec' anc, Inl JUnavailable)
                     | (c3, True) \<Rightarrow>
                         (case (case anc of
                                  None \<Rightarrow> (None, True)
                                | Some a \<Rightarrow> (case anchor_commit E a (rec_Sequence r) (record_hash E plain) of
                                              (a', ok) \<Rightarrow> (Some a', ok))) of
                            (anc', False) \<Rightarrow> (Journal (poison c3) rec' anc', Inl JUnavailable)
                          | (anc', True) \<Rightarrow>
                              (Journal (accept E c3 r plain (length buf) compressed) rec' anc',
                               Inr (rec_Sequence r))))))"

declare Append.simps [simp del]

definition Records :: "Journal \<Rightarrow> Record list" where
  "Records j = j_records (j_core j)"

definition journal_Healthy :: "Journal \<Rightarrow> bool" where
  "journal_Healthy j \<longleftrightarrow> \<not> j_poisoned (j_core j) \<and> j_file (j_core j) \<noteq> None"

fun journal_Close :: "Journal \<Rightarrow> Journal" where
  "journal_Close (Journal c rec anc) =
     (if j_file c = None then Journal c rec anc
      else Journal (c\<lparr>j_file := None, j_lock := False\<rparr>)
             (case rec of None \<Rightarrow> None | Some rj \<Rightarrow> Some (journal_Close rj)) anc)"

end
