(* ===== verification/Journal_Laws.thy ===== *)
theory Journal_Laws
  imports Journal
begin

text \<open>
  What the journal guarantees: the invariant that it is in step with its disk, the hash
  chain, the effect of every append on success and on failure, lossless compaction, and
  that opening the file again gives back the history. The locale \<open>ledger\<close> is the interface
  the broker relies on; it is interpreted by the journal of \<open>Journal\<close>.
\<close>

section \<open>The invariant\<close>

text \<open>
  A journal is in step with its disk when replaying the bytes of its file gives exactly its
  in-memory fields (but for the \<^verbatim>\<open>legacy\<close> flag, which only says that a compaction may
  pay off); \<open>numbered\<close> is the sequence check of the replay, \<open>bounded_records\<close> the size
  check of \<^verbatim>\<open>Append\<close>.
\<close>

definition synced :: "'a journal_env_scheme \<Rightarrow> JCore \<Rightarrow> bool" where
  "synced E c \<longleftrightarrow>
     (\<exists>f leg. j_file c = Some f \<and>
        open_loop E (j_box c) empty_ledger f = Inr (Ledger.truncate (c\<lparr>j_legacy := leg\<rparr>)))"

fun numbered :: "nat \<Rightarrow> Record list \<Rightarrow> bool" where
  "numbered n [] \<longleftrightarrow> True"
| "numbered n (r # rs) \<longleftrightarrow> rec_Sequence r = Suc n \<and> rec_Kind r \<noteq> [] \<and> numbered (Suc n) rs"

definition bounded_records :: "'a journal_env_scheme \<Rightarrow> Record list \<Rightarrow> bool" where
  "bounded_records E rs \<longleftrightarrow> list_all (\<lambda>r. length (json_record E r) + 28 \<le> MaxRecord) rs"

text \<open>The hash chain: every record names the hash of the record before it, the head is the hash of
  the last one.\<close>

fun chained :: "'a journal_env_scheme \<Rightarrow> string \<Rightarrow> Record list \<Rightarrow> string \<Rightarrow> bool" where
  "chained E prev [] head \<longleftrightarrow> head = prev"
| "chained E prev (r # rs) head \<longleftrightarrow>
     rec_Previous r = prev \<and> chained E (record_hash E (json_record E r)) rs head"

definition journal_ok :: "'a journal_env_scheme \<Rightarrow> JCore \<Rightarrow> bool" where
  "journal_ok E c \<longleftrightarrow> synced E c \<and> bounded_records E (j_records c) \<and> j_size c \<le> j_limit c \<and>
     chained E [] (j_records c) (j_prev c)"

section \<open>Lemmas on disk outcomes and frames\<close>

text \<open>Everything but the tape and the nonce counter.\<close>

definition erase :: "JCore \<Rightarrow> JCore" where
  "erase c = c\<lparr>j_io := [], j_rng := 0\<rparr>"

lemma erase_eqD:
  assumes "erase c' = erase c"
  shows "Ledger.truncate c' = Ledger.truncate c" "j_file c' = j_file c" "j_lock c' = j_lock c"
    "j_box c' = j_box c" "j_limit c' = j_limit c" "j_poisoned c' = j_poisoned c"
    "j_seq c' = j_seq c" "j_prev c' = j_prev c" "j_size c' = j_size c" "j_records c' = j_records c"
    "j_offsets c' = j_offsets c" "j_legacy c' = j_legacy c"
  using assms by (cases c; cases c'; simp add: erase_def Ledger.truncate_def)+

lemma erase_update [simp]: "erase (c\<lparr>j_io := xs\<rparr>) = erase c" "erase (c\<lparr>j_rng := n\<rparr>) = erase c"
  by (simp_all add: erase_def)

lemma io_next_shape: "io_next c = (x, c') \<Longrightarrow> erase c' = erase c"
  by (auto simp: io_next_def split: prod.splits)

lemma io_next_eq: "io_next c = (x, c') \<Longrightarrow> c' = c\<lparr>j_io := snd (pop_io (j_io c))\<rparr>"
  by (auto simp: io_next_def split: prod.splits)

lemma io_run_shape: "io_run n c = (b, c') \<Longrightarrow> erase c' = erase c"
  by (induction n arbitrary: c) (auto split: prod.splits io.splits dest: io_next_shape)

lemma frame_shape: "frame E c plain = (c', res) \<Longrightarrow> erase c' = erase c"
  by (auto simp: frame_def Let_def split: prod.splits io.splits if_splits dest!: io_next_shape)

lemma div_shift: "(x::nat) div (b * 256) * 256 + x div b mod 256 = x div b"
  by (simp add: div_mult2_eq)

lemma length_put_u32 [simp]: "length (put_u32 n) = 4"
  by (simp add: put_u32_def)

lemma get_put_u32:
  assumes "n < 4294967296"
  shows "get_u32 (put_u32 n @ rest) = n"
proof -
  have "n div 16777216 < 256" using assms by (simp add: less_mult_imp_div_less)
  then have "n div 16777216 mod 256 = n div 16777216" by simp
  moreover note div_shift [of n 65536] div_shift [of n 256] div_shift [of n 1]
  ultimately show ?thesis
    by (simp add: get_u32_def put_u32_def)
qed

lemma frame_bytes:
  assumes "env_ok E" "frame E c plain = (c', Inr (buf, compressed))"
  obtains payload where
    "buf = put_u32 (length payload + 28 + (if compressed then 2147483648 else 0)) @
           box_Seal E (j_box c) (nonces E (j_rng c)) payload ledger_aad"
    "payload = (if compressed then deflate E plain else plain)"
    "length payload + 28 \<le> MaxRecord" "length payload \<le> length plain"
proof -
  from assms(2) obtain xs where io: "io_next c = (IoOk, c\<lparr>j_io := xs\<rparr>)"
    by (auto simp: frame_def Let_def split: prod.splits io.splits dest: io_next_eq)
  let ?cmp = "length (deflate E plain) < length plain"
  let ?pay = "if ?cmp then deflate E plain else plain"
  have len: "length (box_Seal E (j_box c) (nonces E (j_rng c)) ?pay ledger_aad) = length ?pay + 28"
    using assms(1) by (intro length_box_Seal) (auto simp: env_ok_def)
  from assms(2) io have "compressed = ?cmp"
    by (auto simp: frame_def Let_def split: if_splits)
  moreover from assms(2) io len have "length ?pay + 28 \<le> MaxRecord"
    by (auto simp: frame_def Let_def split: if_splits)
  moreover from assms(2) io have "buf = put_u32 (length (box_Seal E (j_box c) (nonces E (j_rng c)) ?pay ledger_aad)
      + (if ?cmp then 2147483648 else 0)) @ box_Seal E (j_box c) (nonces E (j_rng c)) ?pay ledger_aad"
    by (auto simp: frame_def Let_def split: if_splits)
  ultimately show thesis
    using len by (intro that [of ?pay]) auto
qed

lemma frame_length:
  assumes "env_ok E" "frame E c plain = (c', Inr (buf, compressed))"
  shows "32 \<le> length buf"
proof -
  from assms obtain payload where
    "buf = put_u32 (length payload + 28 + (if compressed then 2147483648 else 0)) @
           box_Seal E (j_box c) (nonces E (j_rng c)) payload ledger_aad"
    by (rule frame_bytes)
  with assms(1) show ?thesis by (simp add: env_ok_def)
qed

text \<open>Replaying a frame that \<^verbatim>\<open>frame\<close> built gives back the record it was built from.\<close>

lemma open_loop_frame:
  assumes E: "env_ok E" and fr: "frame E c (json_record E r) = (c', Inr (buf, compressed))"
    and len: "length (json_record E r) + 28 \<le> MaxRecord"
    and ok: "rec_Sequence r = Suc (j_seq l)" "rec_Previous r = j_prev l" "rec_Kind r \<noteq> []"
  shows "open_loop E (j_box c) l (buf @ rest)
       = open_loop E (j_box c) (accept E l r (json_record E r) (length buf) compressed) rest"
proof -
  let ?plain = "json_record E r"
  from E fr obtain payload where
    buf: "buf = put_u32 (length payload + 28 + (if compressed then 2147483648 else 0)) @
           box_Seal E (j_box c) (nonces E (j_rng c)) payload ledger_aad"
    and payload: "payload = (if compressed then deflate E ?plain else ?plain)"
    and bound: "length payload + 28 \<le> MaxRecord"
    by (rule frame_bytes)
  have gcm: "gcm_ok E" and non: "length (nonces E (j_rng c)) = 12"
    using E by (auto simp: env_ok_def)
  let ?enc = "box_Seal E (j_box c) (nonces E (j_rng c)) payload ledger_aad"
  have enc: "length ?enc = length payload + 28" using gcm non by simp
  have max: "MaxRecord = 1048576" by (simp add: MaxRecord_def)
  let ?n = "length payload + 28 + (if compressed then 2147483648 else 0)"
  have "?n < 4294967296" using bound max by auto
  then have hdr: "get_u32 (buf @ rest) = ?n" using get_put_u32 buf by auto
  have "length payload + 28 < 2147483648" using bound max by simp
  then have sz: "?n mod 2147483648 = length payload + 28"
    by (cases compressed) (simp_all only: if_True if_False mod_add_self2 mod_less add_0_right)
  have flag: "(2147483648 \<le> ?n) = compressed" using bound max by auto
  have unp: "unpack E compressed payload = Some ?plain"
    using E len payload by (auto simp: unpack_def env_ok_def)
  have bl: "length buf = length payload + 28 + 4" using buf enc by simp
  have "buf \<noteq> []" "\<not> length (buf @ rest) < 4" using bl by auto
  moreover have "drop 4 (buf @ rest) = ?enc @ rest" using buf by simp
  ultimately show ?thesis
    using E ok bound enc gcm non
    by (subst open_loop.simps) (simp add: hdr sz flag unp bl Let_def env_ok_def)
qed

lemma open_loop_Nil [simp]: "open_loop E box l [] = Inr l"
  by (subst open_loop.simps) simp

text \<open>Replay of a concatenation: if a prefix is accepted, the rest continues from there.\<close>

lemma open_loop_append:
  "open_loop E box l f = Inr l' \<Longrightarrow> open_loop E box l (f @ g) = open_loop E box l' g"
proof (induction E box l f rule: open_loop.induct)
  case (1 E box l f)
  show ?case
  proof (cases "f = []")
    case True
    with 1 show ?thesis by simp
  next
    case False
    let ?sz = "get_u32 f mod 2147483648"
    from False "1.prems" have len: "\<not> length f < 4"
      and sz: "\<not> (?sz < 28 \<or> ?sz > MaxRecord)" and room: "\<not> length (drop 4 f) < ?sz"
      by (subst (asm) open_loop.simps, auto simp: Let_def split: if_splits)+
    have same: "get_u32 (f @ g) = get_u32 f" "take ?sz (drop 4 (f @ g)) = take ?sz (drop 4 f)"
      "drop ?sz (drop 4 (f @ g)) = drop ?sz (drop 4 f) @ g"
      using len room by (simp_all add: get_u32_def)
    have more: "\<not> length (drop 4 (f @ g)) < ?sz" "\<not> length (f @ g) < 4" using len room by auto
    obtain sealed plain r where
      o: "box_Open E box (take ?sz (drop 4 f)) ledger_aad = Some sealed"
      and u: "unpack E (2147483648 \<le> get_u32 f) sealed = Some plain"
      and p: "parse_record E plain = Some r"
      and s: "\<not> (rec_Sequence r \<noteq> j_seq l + 1 \<or> rec_Previous r \<noteq> j_prev l \<or> rec_Kind r = [])"
      and go: "open_loop E box (accept E l r plain (?sz + 4) (2147483648 \<le> get_u32 f))
                   (drop ?sz (drop 4 f)) = Inr l'"
      using False len sz room "1.prems"
      by (subst (asm) open_loop.simps) (auto simp: Let_def split: if_splits option.splits)
    note IH = "1.IH" [OF False len refl refl refl refl sz room o u p s go]
    show ?thesis
      using False len sz room more o u p s
      by (subst open_loop.simps) (simp only: same Let_def append_is_Nil_conv if_False IH option.case simp_thms)
  qed
qed

text \<open>What an accepted replay establishes: numbering from the start, and the sizes.\<close>

lemma numbered_append: "numbered n (rs @ ss) \<longleftrightarrow> numbered n rs \<and> numbered (n + length rs) ss"
  by (induction rs arbitrary: n) auto

lemma open_loop_numbered:
  "open_loop E box l f = Inr l' \<Longrightarrow>
     \<exists>rs. j_records l' = j_records l @ rs \<and> numbered (j_seq l) rs \<and>
          j_seq l' = j_seq l + length rs \<and> j_size l' = j_size l + length f \<and> 32 * length rs \<le> length f"
proof (induction E box l f rule: open_loop.induct)
  case (1 E box l f)
  show ?case
  proof (cases "f = []")
    case True
    with 1 show ?thesis by auto
  next
    case False
    let ?sz = "get_u32 f mod 2147483648"
    from False "1.prems" have len: "\<not> length f < 4"
      and sz: "\<not> (?sz < 28 \<or> ?sz > MaxRecord)" and room: "\<not> length (drop 4 f) < ?sz"
      by (subst (asm) open_loop.simps, auto simp: Let_def split: if_splits)+
    obtain sealed plain r where
      o: "box_Open E box (take ?sz (drop 4 f)) ledger_aad = Some sealed"
      and u: "unpack E (2147483648 \<le> get_u32 f) sealed = Some plain"
      and p: "parse_record E plain = Some r"
      and s: "\<not> (rec_Sequence r \<noteq> j_seq l + 1 \<or> rec_Previous r \<noteq> j_prev l \<or> rec_Kind r = [])"
      and go: "open_loop E box (accept E l r plain (?sz + 4) (2147483648 \<le> get_u32 f))
                   (drop ?sz (drop 4 f)) = Inr l'"
      using False len sz room "1.prems"
      by (subst (asm) open_loop.simps) (auto simp: Let_def split: if_splits option.splits)
    from "1.IH" [OF False len refl refl refl refl sz room o u p s go] obtain rs where
      "j_records l' = j_records l @ r # rs" "numbered (Suc (j_seq l)) rs"
      "j_seq l' = j_seq l + length (r # rs)"
      "j_size l' = j_size l + (?sz + 4) + length (drop ?sz (drop 4 f))"
      "32 * length rs \<le> length (drop ?sz (drop 4 f))"
      using s by (auto simp: accept_def)
    with s len room sz show ?thesis
      by (intro exI [of _ "r # rs"]) (auto simp: not_less)
  qed
qed

lemma chained_snoc:
  "chained E p (rs @ [r]) h \<longleftrightarrow> chained E p rs (rec_Previous r) \<and> h = record_hash E (json_record E r)"
  by (induction rs arbitrary: p) auto

lemma synced_facts:
  assumes "synced E c"
  shows "numbered 0 (j_records c)" "j_seq c = length (j_records c)"
    "\<exists>f. j_file c = Some f \<and> j_size c = length f" "32 * length (j_records c) \<le> j_size c"
proof -
  from assms obtain f leg where f: "j_file c = Some f"
    and o: "open_loop E (j_box c) empty_ledger f = Inr (Ledger.truncate (c\<lparr>j_legacy := leg\<rparr>))"
    by (auto simp: synced_def)
  from open_loop_numbered [OF o] f show "numbered 0 (j_records c)" "j_seq c = length (j_records c)"
    "\<exists>f. j_file c = Some f \<and> j_size c = length f" "32 * length (j_records c) \<le> j_size c"
    by (auto simp: empty_ledger_def Ledger.truncate_def)
qed

section \<open>Lemmas on compaction\<close>

lemma compact_loop_shape:
  "compact_loop E c rs prev sz offs out leg = (c', res) \<Longrightarrow> erase c' = erase c"
  by (induction rs arbitrary: c prev sz offs out leg)
    (auto simp: Let_def split: if_splits sum.splits prod.splits io.splits
       dest!: frame_shape io_next_shape)

text \<open>The bytes the loop writes replay to the records it was given.\<close>

lemma compact_loop_replay:
  assumes E: "env_ok E"
  shows "compact_loop E c rs prev sz offs out leg = (c', Inr (prev', sz', offs', out', leg')) \<Longrightarrow>
    open_loop E (j_box c) empty_ledger out =
      Inr \<lparr>j_seq = n, j_prev = prev, j_size = sz, j_records = done, j_offsets = offs, j_legacy = leg\<rparr> \<Longrightarrow>
    numbered n rs \<Longrightarrow> bounded_records E rs \<Longrightarrow>
    open_loop E (j_box c) empty_ledger out' =
      Inr \<lparr>j_seq = n + length rs, j_prev = prev', j_size = sz', j_records = done @ rs,
           j_offsets = offs', j_legacy = leg'\<rparr>"
proof (induction rs arbitrary: c prev sz offs out leg n "done")
  case Nil
  then show ?case by simp
next
  case (Cons r rs)
  let ?plain = "json_record E r"
  from Cons.prems(1) have prev: "rec_Previous r = prev" by (auto simp: Let_def split: if_splits)
  from Cons.prems(1) prev obtain c1 buf cmp c2 where
    fr: "frame E c ?plain = (c1, Inr (buf, cmp))" and io: "io_next c1 = (IoOk, c2)"
    and go: "compact_loop E c2 rs (record_hash E ?plain) (sz + length buf) (offs @ [sz + length buf])
               (out @ buf) (leg \<or> \<not> cmp) = (c', Inr (prev', sz', offs', out', leg'))"
    by (auto simp: Let_def split: sum.splits prod.splits io.splits)
  have box: "j_box c2 = j_box c"
    using frame_shape [OF fr] io_next_shape [OF io] by (metis erase_eqD(4))
  let ?l = "\<lparr>j_seq = n, j_prev = prev, j_size = sz, j_records = done, j_offsets = offs, j_legacy = leg\<rparr>"
  have "open_loop E (j_box c) empty_ledger (out @ buf)
      = open_loop E (j_box c) ?l (buf @ [])"
    using open_loop_append [OF Cons.prems(2)] by simp
  also have "\<dots> = Inr (accept E ?l r ?plain (length buf) cmp)"
    using open_loop_frame [OF E fr, of ?l "[]"] Cons.prems(3,4) prev
    by (simp add: bounded_records_def)
  finally have "open_loop E (j_box c2) empty_ledger (out @ buf) =
      Inr \<lparr>j_seq = Suc n, j_prev = record_hash E ?plain, j_size = sz + length buf,
           j_records = done @ [r], j_offsets = offs @ [sz + length buf], j_legacy = leg \<or> \<not> cmp\<rparr>"
    using Cons.prems(3) by (simp add: accept_def box)
  from Cons.IH [OF go this] Cons.prems(3,4) box show ?case
    by (simp add: bounded_records_def)
qed

text \<open>
  Compaction keeps the history: on every path that does not poison the journal it stays in
  step with its disk, with the same records and head, and it never grows; before the rename
  the file still has its old bytes.
\<close>

lemma compactLocked_ok:
  assumes E: "env_ok E" and ok: "journal_ok E c" and step: "compactLocked E c = (c', res)"
  shows "j_records c' = j_records c \<and> j_seq c' = j_seq c \<and> j_prev c' = j_prev c \<and>
    j_box c' = j_box c \<and> j_limit c' = j_limit c \<and> j_size c' \<le> j_size c \<and> journal_ok E c' \<and>
    (res = Inr () \<longrightarrow> j_poisoned c' = j_poisoned c)"
proof -
  obtain b1 c1 where r1: "io_run 3 c = (b1, c1)" by fastforce
  note e1 = io_run_shape [OF r1]
  have ok1: "journal_ok E d" if "erase d = erase c" for d
    using ok erase_eqD [OF that] by (simp add: journal_ok_def synced_def Ledger.truncate_def)
  show ?thesis
  proof (cases b1)
    case False
    with step r1 have "c' = c1" and "res \<noteq> Inr ()" by (auto simp: compactLocked_def)
    with e1 ok1 erase_eqD [OF e1] show ?thesis by simp
  next
    case True
    obtain c2 y where lp: "compact_loop E c1 (j_records c1) [] 0 [] [] False = (c2, y)" by fastforce
    have e2: "erase c2 = erase c" using compact_loop_shape [OF lp] e1 by simp
    show ?thesis
    proof (cases "\<exists>prev sz offs out leg. y = Inr (prev, sz, offs, out, leg) \<and> prev = j_prev c2 \<and> sz < j_size c2")
      case False
      with step r1 True lp have "c' = c2"
        by (auto simp: compactLocked_def not_less split: sum.splits if_splits)
      with e2 ok1 erase_eqD [OF e2] show ?thesis by simp
    next
      case True
      then obtain sz offs out leg where y: "y = Inr (j_prev c2, sz, offs, out, leg)"
        and small: "sz < j_size c2" by blast
      obtain b3 c3 where r3: "io_run 4 c2 = (b3, c3)" by fastforce
      have e3: "erase c3 = erase c" using io_run_shape [OF r3] e2 by simp
      show ?thesis
      proof (cases b3)
        case False
        with step r1 \<open>b1\<close> lp y small r3 have "c' = c3" "res \<noteq> Inr ()"
          by (auto simp: compactLocked_def)
        with e3 ok1 erase_eqD [OF e3] show ?thesis by simp
      next
        case True
        let ?c4 = "c3\<lparr>j_file := Some out, j_size := sz, j_offsets := offs, j_legacy := leg\<rparr>"
        obtain x c5 where r5: "io_next ?c4 = (x, c5)" by fastforce
        note e5 = erase_eqD [OF io_next_shape [OF r5]]
        have c': "c' = (case x of IoOk \<Rightarrow> c5 | IoFail _ \<Rightarrow> poison c5)"
          and res: "res = Inr () \<Longrightarrow> x = IoOk"
          using step r1 \<open>b1\<close> lp y small r3 True r5
          by (auto simp: compactLocked_def Let_def split: io.splits)
        have recs: "j_records c1 = j_records c" "j_box c1 = j_box c" using erase_eqD [OF e1] by auto
        have num: "numbered 0 (j_records c1)" and bnd: "bounded_records E (j_records c1)"
          using ok synced_facts recs by (auto simp: journal_ok_def)
        have replay: "open_loop E (j_box c) empty_ledger out =
            Inr \<lparr>j_seq = length (j_records c), j_prev = j_prev c2, j_size = sz, j_records = j_records c,
              j_offsets = offs, j_legacy = leg\<rparr>"
          using compact_loop_replay [OF E lp [unfolded y], of 0 "[]"] num bnd recs
          by (simp add: empty_ledger_def)
        have seq: "j_seq c = length (j_records c)" using ok synced_facts by (auto simp: journal_ok_def)
        have "j_size c' = sz" "j_records c' = j_records c" "j_seq c' = j_seq c" "j_prev c' = j_prev c"
          "j_box c' = j_box c" "j_limit c' = j_limit c" "j_file c' = Some out" "j_offsets c' = offs"
          "j_legacy c' = leg"
          using c' e5 erase_eqD [OF e3] by (auto split: io.splits)
        moreover have "x = IoOk \<Longrightarrow> j_poisoned c' = j_poisoned c"
          using c' e5 erase_eqD [OF e3] by auto
        moreover have "sz \<le> j_size c" using small erase_eqD [OF e2] by simp
        ultimately show ?thesis
          using ok res replay seq erase_eqD [OF e2]
          by (auto simp: journal_ok_def synced_def Ledger.truncate_def)
      qed
    qed
  qed
qed

section \<open>Lemmas on appending\<close>

lemma journal_ok_erase: "erase d = erase c \<Longrightarrow> journal_ok E c \<Longrightarrow> journal_ok E d"
  using erase_eqD [of d c] by (simp add: journal_ok_def synced_def Ledger.truncate_def)

lemma journal_ok_poison: "journal_ok E (poison c) \<longleftrightarrow> journal_ok E c"
  by (simp add: journal_ok_def synced_def Ledger.truncate_def)

lemma reserve_ok:
  assumes E: "env_ok E" and ok: "journal_ok E c" and step: "reserve E c plain = (c2, res)"
  shows "j_records c2 = j_records c \<and> j_seq c2 = j_seq c \<and> j_prev c2 = j_prev c \<and> j_box c2 = j_box c \<and>
    j_limit c2 = j_limit c \<and> journal_ok E c2"
    and "res = Inr (buf, compressed) \<Longrightarrow>
      journal_ok E c2 \<and> j_poisoned c2 = j_poisoned c \<and> j_size c2 + length buf \<le> j_limit c2 \<and>
      (\<exists>c1. frame E c plain = (c1, Inr (buf, compressed)))"
proof -
  obtain c1 x where fr: "frame E c plain = (c1, x)" by fastforce
  note e1 = frame_shape [OF fr]
  have ok1: "journal_ok E c1" using journal_ok_erase [OF e1 ok] .
  note same = erase_eqD [OF e1]
  have goal: "(j_records c2 = j_records c \<and> j_seq c2 = j_seq c \<and> j_prev c2 = j_prev c \<and>
      j_box c2 = j_box c \<and> j_limit c2 = j_limit c \<and> journal_ok E c2) \<and>
    (res = Inr (buf, compressed) \<longrightarrow>
      journal_ok E c2 \<and> j_poisoned c2 = j_poisoned c \<and> j_size c2 + length buf \<le> j_limit c2 \<and>
      (\<exists>c1. frame E c plain = (c1, Inr (buf, compressed))))" for buf compressed
  proof (cases x)
    case (Inl e)
    with step fr have "c2 = c1" "res = Inl e" by (auto simp: reserve_def)
    with same ok1 show ?thesis by simp
  next
    case (Inr p)
    obtain b cm where p: "p = (b, cm)" by fastforce
    obtain d y where d: "(if j_size c1 + length b > j_limit c1 \<and> j_legacy c1
                 then compactLocked E c1 else (c1, Inr ())) = (d, y)" by fastforce
    have dk: "j_records d = j_records c1 \<and> j_seq d = j_seq c1 \<and> j_prev d = j_prev c1 \<and>
        j_box d = j_box c1 \<and> j_limit d = j_limit c1 \<and> journal_ok E d \<and>
        (y = Inr () \<longrightarrow> j_poisoned d = j_poisoned c1)"
    proof (cases "j_size c1 + length b > j_limit c1 \<and> j_legacy c1")
      case True
      with d have "compactLocked E c1 = (d, y)" by simp
      from compactLocked_ok [OF E ok1 this] show ?thesis by simp
    next
      case False
      with d ok1 show ?thesis by auto
    qed
    from step fr Inr p d have "(c2, res) =
      (case y of Inl _ \<Rightarrow> (poison d, Inl JUnavailable)
       | Inr _ \<Rightarrow> if j_size d + length b > j_limit d then (poison d, Inl JUnavailable)
                else (d, Inr (b, cm)))"
      by (simp add: reserve_def)
    with dk same fr Inr p show ?thesis
      by (auto simp: journal_ok_poison split: sum.splits if_splits)
  qed
  from goal show "j_records c2 = j_records c \<and> j_seq c2 = j_seq c \<and> j_prev c2 = j_prev c \<and>
      j_box c2 = j_box c \<and> j_limit c2 = j_limit c \<and> journal_ok E c2" by blast
  from goal show "res = Inr (buf, compressed) \<Longrightarrow>
      journal_ok E c2 \<and> j_poisoned c2 = j_poisoned c \<and> j_size c2 + length buf \<le> j_limit c2 \<and>
      (\<exists>c1. frame E c plain = (c1, Inr (buf, compressed)))" by blast
qed

text \<open>A write that is reported as done has put the whole frame at the end of the file.\<close>

lemma write_frame_ok:
  assumes "write_frame c buf = (c3, b)"
  shows "Ledger.truncate c3 = Ledger.truncate c" "j_box c3 = j_box c" "j_limit c3 = j_limit c"
    "j_poisoned c3 = j_poisoned c" "b \<Longrightarrow> j_file c3 = map_option (\<lambda>f. f @ buf) (j_file c)"
proof -
  obtain x c1 where r1: "io_next c = (x, c1)" by fastforce
  note e1 = erase_eqD [OF io_next_shape [OF r1]]
  let ?c2 = "c1\<lparr>j_file := map_option (\<lambda>f. f @ buf) (j_file c1)\<rparr>"
  obtain y c2 where r2: "io_next ?c2 = (y, c2)" by fastforce
  note e2 = erase_eqD [OF io_next_shape [OF r2]]
  show "Ledger.truncate c3 = Ledger.truncate c" "j_box c3 = j_box c" "j_limit c3 = j_limit c"
    "j_poisoned c3 = j_poisoned c" "b \<Longrightarrow> j_file c3 = map_option (\<lambda>f. f @ buf) (j_file c)"
    using assms r1 r2 e1 e2
    by (auto simp: write_frame_def Let_def Ledger.truncate_def split: io.splits)
qed

lemma truncate_eqD:
  assumes "Ledger.truncate c' = Ledger.truncate c"
  shows "j_seq c' = j_seq c" "j_prev c' = j_prev c" "j_size c' = j_size c" "j_records c' = j_records c"
    "j_offsets c' = j_offsets c" "j_legacy c' = j_legacy c"
  using assms by (simp_all add: Ledger.truncate_def)

text \<open>The record an append writes.\<close>

definition next_record :: "'a Ledger_scheme \<Rightarrow> string \<Rightarrow> bytes \<Rightarrow> Record" where
  "next_record c kind raw =
     \<lparr>rec_Sequence = j_seq c + 1, rec_Previous = j_prev c, rec_Kind = kind, rec_Data = raw\<rparr>"

text \<open>The frame written and accepted: the journal is again in step with its disk.\<close>

lemma accept_ok:
  assumes E: "env_ok E" and ok: "journal_ok E c2" and kind: "kind \<noteq> []"
    and fr: "frame E c (json_record E (next_record c2 kind raw)) = (c1, Inr (buf, compressed))"
    and box: "j_box c2 = j_box c" and len: "length (json_record E (next_record c2 kind raw)) + 28 \<le> MaxRecord"
    and room: "j_size c2 + length buf \<le> j_limit c2" and wr: "write_frame c2 buf = (c3, True)"
  shows "journal_ok E (accept E c3 (next_record c2 kind raw) (json_record E (next_record c2 kind raw))
           (length buf) compressed)" (is "journal_ok E ?c4")
proof -
  let ?r = "next_record c2 kind raw"
  note w = write_frame_ok [OF wr] and t = truncate_eqD [OF write_frame_ok(1) [OF wr]]
  from ok obtain f leg where f: "j_file c2 = Some f"
    and o: "open_loop E (j_box c2) empty_ledger f = Inr (Ledger.truncate (c2\<lparr>j_legacy := leg\<rparr>))"
    by (auto simp: journal_ok_def synced_def)
  have disk: "j_file c3 = Some (f @ buf)" using w f by simp
  have "open_loop E (j_box c2) empty_ledger (f @ buf)
      = open_loop E (j_box c2) (Ledger.truncate (c2\<lparr>j_legacy := leg\<rparr>)) (buf @ [])"
    using open_loop_append [OF o] by simp
  also have "\<dots> = Inr (accept E (Ledger.truncate (c2\<lparr>j_legacy := leg\<rparr>)) ?r (json_record E ?r) (length buf) compressed)"
    using open_loop_frame [OF E fr len, of "Ledger.truncate (c2\<lparr>j_legacy := leg\<rparr>)" "[]"] kind box
    by (simp add: next_record_def Ledger.truncate_def)
  also have "accept E (Ledger.truncate (c2\<lparr>j_legacy := leg\<rparr>)) ?r (json_record E ?r) (length buf) compressed
      = Ledger.truncate (?c4\<lparr>j_legacy := leg \<or> \<not> compressed\<rparr>)"
    using t by (simp add: accept_def Ledger.truncate_def)
  finally have "synced E ?c4"
    using disk w(2) unfolding synced_def by (auto simp: accept_def)
  moreover have "bounded_records E (j_records ?c4)"
    using ok len t by (simp add: journal_ok_def bounded_records_def accept_def)
  moreover have "j_size ?c4 \<le> j_limit ?c4" using room t w(3) by (simp add: accept_def)
  moreover have "chained E [] (j_records ?c4) (j_prev ?c4)"
    using ok t by (simp add: journal_ok_def chained_snoc accept_def next_record_def)
  ultimately show ?thesis by (simp add: journal_ok_def)
qed

lemma write_frame_poison_ok:
  "write_frame c buf = (c3, b) \<Longrightarrow> j_records c3 = j_records c \<and> j_seq c3 = j_seq c \<and> j_prev c3 = j_prev c"
  using truncate_eqD [OF write_frame_ok(1)] by blast

text \<open>
  What one append does to the core: on success exactly one record is added and the journal
  stays in step with its disk; on failure the records are unchanged, and the journal is
  either poisoned or still in step.
\<close>

lemma Append_core:
  assumes E: "env_ok E" and ok: "journal_ok E c"
    and step: "Append E kind raw (Journal c rec anc) = (Journal c' rec' anc', res)"
  shows "case res of
      Inl _ \<Rightarrow> j_records c' = j_records c \<and> j_seq c' = j_seq c \<and> j_prev c' = j_prev c \<and>
              (j_poisoned c' \<or> journal_ok E c')
    | Inr n \<Rightarrow> j_records c' = j_records c @ [next_record c kind raw] \<and> n = Suc (j_seq c) \<and>
              j_seq c' = n \<and> journal_ok E c' \<and> \<not> j_poisoned c' \<and> j_box c' = j_box c \<and> j_limit c' = j_limit c"
proof (cases "j_poisoned c \<or> j_file c = None \<or> kind = [] \<or>
    length (json_record E (next_record c kind raw)) + 28 > MaxRecord")
  case True
  with step ok show ?thesis
    by (auto simp: Append.simps next_record_def Let_def split: if_splits)
next
  case False
  then have live: "\<not> j_poisoned c" "j_file c \<noteq> None" "kind \<noteq> []"
    and len: "length (json_record E (next_record c kind raw)) + 28 \<le> MaxRecord" by auto
  let ?plain = "json_record E (next_record c kind raw)"
  obtain c2 x where rs: "reserve E c ?plain = (c2, x)" by fastforce
  note r1 = reserve_ok(1) [OF E ok rs]
  show ?thesis
  proof (cases x)
    case (Inl e)
    with step live len rs r1 show ?thesis
      by (auto simp: Append.simps next_record_def Let_def)
  next
    case (Inr p)
    obtain buf cmp where p: "p = (buf, cmp)" by fastforce
    from reserve_ok(2) [OF E ok rs, of buf cmp] Inr p obtain c1 where
      ok2: "journal_ok E c2" and pz: "\<not> j_poisoned c2" and room: "j_size c2 + length buf \<le> j_limit c2"
      and fr: "frame E c ?plain = (c1, Inr (buf, cmp))"
      using live by blast
    have nr: "next_record c2 kind raw = next_record c kind raw"
      using r1 by (simp add: next_record_def)
    obtain c3 b where wr: "write_frame c2 buf = (c3, b)" by fastforce
    note w = write_frame_poison_ok [OF wr] write_frame_ok(2,3,4) [OF wr]
    from step live len rs Inr p wr have cases:
      "(\<exists>e. res = Inl e \<and> (c' = poison c2 \<or> c' = poison c3)) \<or>
       (b \<and> res = Inr (Suc (j_seq c)) \<and>
        c' = accept E c3 (next_record c kind raw) ?plain (length buf) cmp)"
      by (auto simp: Append.simps next_record_def Let_def split: option.splits prod.splits sum.splits bool.splits)
    have fin: "b \<Longrightarrow> journal_ok E (accept E c3 (next_record c kind raw) ?plain (length buf) cmp)"
      using accept_ok [OF E ok2 live(3), of c raw c1 buf cmp c3] fr r1 len room wr nr by simp
    from cases show ?thesis
      using r1 w pz fin by (auto simp: accept_def next_record_def)
  qed
qed

section \<open>On a disk without faults\<close>

lemma io_next_clean: "j_io c = [] \<Longrightarrow> io_next c = (IoOk, c)"
  by (cases c) (simp add: io_next_def pop_io_def)

lemma io_run_clean: "j_io c = [] \<Longrightarrow> io_run n c = (True, c)"
  by (induction n) (simp_all add: io_next_clean)

lemma frame_clean:
  assumes "env_ok E" "j_io c = []" "length plain + 28 \<le> MaxRecord"
  shows "\<exists>c' buf cmp. frame E c plain = (c', Inr (buf, cmp)) \<and> j_io c' = [] \<and> length buf \<le> length plain + 32"
proof -
  let ?pay = "if length (deflate E plain) < length plain then deflate E plain else plain"
  have "length (box_Seal E (j_box c) (nonces E (j_rng c)) ?pay ledger_aad) = length ?pay + 28"
    using assms(1) by (intro length_box_Seal) (auto simp: env_ok_def)
  then show ?thesis
    using assms(2,3) by (simp add: frame_def io_next_clean Let_def)
qed

lemma compact_loop_clean:
  assumes E: "env_ok E"
  shows "j_io c = [] \<Longrightarrow> chained E prev rs head \<Longrightarrow> bounded_records E rs \<Longrightarrow>
    \<exists>c' sz' offs' out' leg'. compact_loop E c rs prev sz offs out leg = (c', Inr (head, sz', offs', out', leg'))
      \<and> j_io c' = []"
proof (induction rs arbitrary: c prev sz offs out leg)
  case (Cons r rs)
  from Cons.prems have "length (json_record E r) + 28 \<le> MaxRecord" by (simp add: bounded_records_def)
  from frame_clean [OF E Cons.prems(1) this] obtain c' buf cmp where
    "frame E c (json_record E r) = (c', Inr (buf, cmp))" "j_io c' = []" by blast
  with Cons show ?case by (simp add: Let_def io_next_clean bounded_records_def)
qed simp

lemma compactLocked_clean:
  assumes E: "env_ok E" and ok: "journal_ok E c" and io: "j_io c = []"
  shows "\<exists>c'. compactLocked E c = (c', Inr ())"
proof -
  from ok have "chained E [] (j_records c) (j_prev c)" "bounded_records E (j_records c)"
    by (simp_all add: journal_ok_def)
  from compact_loop_clean [OF E io this, of 0 "[]" "[]" False] obtain c' sz offs out leg where
    lp: "compact_loop E c (j_records c) [] 0 [] [] False = (c', Inr (j_prev c, sz, offs, out, leg))"
    and io': "j_io c' = []" by blast
  have "j_prev c' = j_prev c" using erase_eqD(8) [OF compact_loop_shape [OF lp]] .
  then show ?thesis
    using lp io io' by (simp add: compactLocked_def io_run_clean io_next_clean Let_def)
qed

abbreviation intact_dir :: "bytes \<Rightarrow> LedgerDir" where
  "intact_dir f \<equiv> \<lparr>ld_secure = True, ld_locked = False, ld_private = True, ld_bytes = f\<rparr>"

definition usable_limit :: "nat \<Rightarrow> bool" where
  "usable_limit limit \<longleftrightarrow> MaxRecord \<le> limit \<and> limit \<le> 1073741824"

text \<open>Opening the bytes of a journal that is in step with its disk gives back its history.\<close>

lemma Open_synced:
  assumes E: "env_ok E" and ok: "journal_ok E c" and box: "length (j_box c) = 32"
    and lim: "usable_limit (j_limit c)"
  shows "\<exists>J. Open E (intact_dir (the (j_file c))) (j_box c) (j_limit c) [] rng = Inr J \<and>
    Records J = j_records c \<and> j_prev (j_core J) = j_prev c \<and> journal_ok E (j_core J) \<and>
    journal_Healthy J \<and> j_recovery J = None \<and> j_anchor J = None \<and> j_seq (j_core J) = j_seq c \<and>
    j_limit (j_core J) = j_limit c \<and> j_box (j_core J) = j_box c \<and> j_size (j_core J) \<le> j_size c"
proof -
  from ok obtain f leg where f: "j_file c = Some f"
    and o: "open_loop E (j_box c) empty_ledger f = Inr (Ledger.truncate (c\<lparr>j_legacy := leg\<rparr>))"
    by (auto simp: journal_ok_def synced_def)
  have size: "length f \<le> j_limit c"
    using ok f synced_facts(3) [of E c] by (auto simp: journal_ok_def)
  define d where "d = Ledger.extend (Ledger.truncate (c\<lparr>j_legacy := leg\<rparr>)) \<lparr>j_file = Some f, j_lock = True, j_box = j_box c,
      j_limit = j_limit c, j_poisoned = False, j_io = [], j_rng = rng\<rparr>"
  have dd: "Ledger.truncate d = Ledger.truncate (c\<lparr>j_legacy := leg\<rparr>)" "j_file d = Some f" "j_box d = j_box c"
    "j_limit d = j_limit c" "\<not> j_poisoned d" "j_io d = []"
    by (simp_all add: d_def Ledger.defs)
  note td = truncate_eqD [OF dd(1)]
  have okd: "journal_ok E d"
    using ok o dd td unfolding journal_ok_def synced_def by (auto simp: Ledger.truncate_def)
  have hd: "j_file d' \<noteq> None" if "journal_ok E d'" for d'
    using that by (auto simp: journal_ok_def synced_def)
  have opn: "Open E (intact_dir f) (j_box c) (j_limit c) [] rng =
    (if j_legacy d \<and> j_limit d div 3 < j_size d
     then (case compactLocked E d of (_, Inl e) \<Rightarrow> Inl e | (c'', Inr _) \<Rightarrow> Inr (Journal c'' None None))
     else Inr (Journal d None None))"
    using box lim size o dd(6)
    by (simp add: Open_def usable_limit_def seal_New_def d_def [symmetric] io_next_clean Let_def)
  show ?thesis
  proof (cases "j_legacy d \<and> j_limit d div 3 < j_size d")
    case True
    from compactLocked_clean [OF E okd dd(6)] obtain d' where cp: "compactLocked E d = (d', Inr ())" by blast
    from compactLocked_ok [OF E okd cp] show ?thesis
      using opn True cp f dd td hd by (auto simp: Records_def journal_Healthy_def)
  next
    case False
    then show ?thesis
      using opn okd f dd td hd by (auto simp: Records_def journal_Healthy_def)
  qed
qed

text \<open>An append that fits succeeds on a working disk.\<close>

lemma Append_clean:
  assumes E: "env_ok E" and ok: "journal_ok E c" and live: "\<not> j_poisoned c" and io: "j_io c = []"
    and kind: "kind \<noteq> []" and len: "length (json_record E (next_record c kind raw)) + 28 \<le> MaxRecord"
    and room: "j_size c + length (json_record E (next_record c kind raw)) + 32 \<le> j_limit c"
  shows "\<exists>c'. Append E kind raw (Journal c None None) = (Journal c' None None, Inr (Suc (j_seq c)))"
proof -
  let ?plain = "json_record E (next_record c kind raw)"
  from ok have f: "j_file c \<noteq> None" by (auto simp: journal_ok_def synced_def)
  from frame_clean [OF E io len] obtain c1 buf cmp where
    fr: "frame E c ?plain = (c1, Inr (buf, cmp))" and io1: "j_io c1 = []"
    and small: "length buf \<le> length ?plain + 32" by blast
  have "j_size c1 + length buf \<le> j_limit c1"
    using erase_eqD [OF frame_shape [OF fr]] small room by simp
  then have rs: "reserve E c ?plain = (c1, Inr (buf, cmp))"
    using fr by (simp add: reserve_def)
  obtain c3 where wr: "write_frame c1 buf = (c3, True)"
    using io1 by (simp add: write_frame_def io_next_clean Let_def)
  show ?thesis
    using live f kind len rs wr by (simp add: Append.simps next_record_def Let_def)
qed

section \<open>What a failed append leaves on disk\<close>

lemma write_frame_file:
  assumes "write_frame c buf = (c3, b)"
  shows "\<exists>n. j_file c3 = map_option (\<lambda>f. f @ take n buf) (j_file c)"
proof -
  obtain x c1 where r1: "io_next c = (x, c1)" by fastforce
  note e1 = erase_eqD [OF io_next_shape [OF r1]]
  let ?c2 = "c1\<lparr>j_file := map_option (\<lambda>f. f @ buf) (j_file c1)\<rparr>"
  obtain y c2 where r2: "io_next ?c2 = (y, c2)" by fastforce
  note e2 = erase_eqD [OF io_next_shape [OF r2]]
  have "(\<exists>n. j_file c3 = map_option (\<lambda>f. f @ take n buf) (j_file c)) \<or>
      j_file c3 = map_option (\<lambda>f. f @ buf) (j_file c)"
    using assms r1 r2 e1 e2 by (auto simp: write_frame_def Let_def split: io.splits)
  then show ?thesis
  proof
    assume "j_file c3 = map_option (\<lambda>f. f @ buf) (j_file c)"
    then show ?thesis by (intro exI [of _ "length buf"]) simp
  qed
qed

text \<open>A torn frame is never accepted.\<close>

lemma open_loop_torn:
  assumes E: "env_ok E" and fr: "frame E c plain = (c', Inr (buf, compressed))"
    and n: "0 < n" "n < length buf"
  shows "open_loop E box l (take n buf) = Inl JUnavailable"
proof -
  from E fr obtain payload where
    buf: "buf = put_u32 (length payload + 28 + (if compressed then 2147483648 else 0)) @
           box_Seal E (j_box c) (nonces E (j_rng c)) payload ledger_aad"
    and bound: "length payload + 28 \<le> MaxRecord"
    by (rule frame_bytes)
  let ?n = "length payload + 28 + (if compressed then 2147483648 else 0)"
  have max: "MaxRecord = 1048576" by (simp add: MaxRecord_def)
  have bl: "length buf = length payload + 32" using E buf by (simp add: env_ok_def)
  have ne: "take n buf \<noteq> []" using n by auto
  show ?thesis
  proof (cases "n < 4")
    case True
    with ne n show ?thesis by (subst open_loop.simps) simp
  next
    case False
    have "?n < 4294967296" using bound max by auto
    moreover have "take n buf = put_u32 ?n @ take (n - 4) (box_Seal E (j_box c) (nonces E (j_rng c)) payload ledger_aad)"
      using buf False by simp
    ultimately have hdr: "get_u32 (take n buf) = ?n" using get_put_u32 by metis
    have "length payload + 28 < 2147483648" using bound max by simp
    then have "?n mod 2147483648 = length payload + 28"
      by (cases compressed) (simp_all only: if_True if_False mod_add_self2 mod_less add_0_right)
    then have sz: "get_u32 (take n buf) mod 2147483648 = length payload + 28" using hdr by simp
    have "length (drop 4 (take n buf)) < length payload + 28" "\<not> length (take n buf) < 4"
      using n False bl by auto
    with ne sz show ?thesis
      by (subst open_loop.simps) (simp only: Let_def if_True if_False if_cancel)
  qed
qed

text \<open>The file after a failed append: a ledger with the old history, followed by some prefix
  of the frame of the refused record.\<close>

lemma Append_disk:
  assumes E: "env_ok E" and ok: "journal_ok E c"
    and step: "Append E kind raw (Journal c rec anc) = (Journal c' rec' anc', Inl e)"
  shows "\<exists>c2 g. journal_ok E c2 \<and> j_records c2 = j_records c \<and> j_seq c2 = j_seq c \<and> j_prev c2 = j_prev c \<and>
    j_box c2 = j_box c \<and> j_limit c2 = j_limit c \<and> j_file c' = Some (the (j_file c2) @ g) \<and>
    (g = [] \<or> (kind \<noteq> [] \<and> length (json_record E (next_record c kind raw)) + 28 \<le> MaxRecord \<and>
      (\<exists>c1 buf cmp n. frame E c (json_record E (next_record c kind raw)) = (c1, Inr (buf, cmp)) \<and>
        j_size c2 + length buf \<le> j_limit c2 \<and> g = take n buf)))"
proof -
  let ?plain = "json_record E (next_record c kind raw)"
  have fl: "j_file d = Some (the (j_file d) @ [])" if "journal_ok E d" for d
    using that by (auto simp: journal_ok_def synced_def)
  show ?thesis
  proof (cases "j_poisoned c \<or> j_file c = None \<or> kind = [] \<or> length ?plain + 28 > MaxRecord")
    case True
    with step have "c' = c" by (auto simp: Append.simps next_record_def Let_def split: if_splits)
    with ok fl show ?thesis by blast
  next
    case False
    obtain c2 x where rs: "reserve E c ?plain = (c2, x)" by fastforce
    note r1 = reserve_ok(1) [OF E ok rs]
    show ?thesis
    proof (cases x)
      case (Inl e)
      with step False rs have "c' = c2" by (auto simp: Append.simps next_record_def Let_def)
      with r1 fl show ?thesis by blast
    next
      case (Inr p)
      obtain buf cmp where p: "p = (buf, cmp)" by fastforce
      obtain c3 b where wr: "write_frame c2 buf = (c3, b)" by fastforce
      from write_frame_file [OF wr] fl r1 obtain n where
        n: "j_file c3 = Some (the (j_file c2) @ take n buf)" by (metis option.map(2) append_Nil2)
      from step False rs Inr p wr have "c' = poison c2 \<or> c' = poison c3"
        by (auto simp: Append.simps next_record_def Let_def split: option.splits prod.splits sum.splits bool.splits)
      then show ?thesis
      proof
        assume "c' = poison c2"
        then show ?thesis using r1 fl [of c2] by (intro exI [of _ c2] exI [of _ "[]"]) simp
      next
        assume "c' = poison c3"
        then show ?thesis
          using r1 n False reserve_ok(2) [OF E ok rs, of buf cmp] Inr p
          by (intro exI [of _ c2] exI [of _ "take n buf"]) (auto simp: not_less)
      qed
    qed
  qed
qed

text \<open>The same ledger with the frame complete.\<close>

lemma complete_frame_ok:
  assumes E: "env_ok E" and ok: "journal_ok E c2" and kind: "kind \<noteq> []"
    and same: "j_seq c2 = j_seq c" "j_prev c2 = j_prev c" "j_box c2 = j_box c"
    and fr: "frame E c (json_record E (next_record c kind raw)) = (c1, Inr (buf, compressed))"
    and len: "length (json_record E (next_record c kind raw)) + 28 \<le> MaxRecord"
    and room: "j_size c2 + length buf \<le> j_limit c2"
  shows "\<exists>c4. journal_ok E c4 \<and> j_file c4 = Some (the (j_file c2) @ buf) \<and> j_box c4 = j_box c2 \<and>
    j_limit c4 = j_limit c2 \<and> j_records c4 = j_records c2 @ [next_record c kind raw]"
proof -
  let ?d = "c2\<lparr>j_io := []\<rparr>"
  have okd: "journal_ok E ?d" using journal_ok_erase [OF _ ok] by simp
  have nr: "next_record ?d kind raw = next_record c kind raw" using same by (simp add: next_record_def)
  obtain c3 where wr: "write_frame ?d buf = (c3, True)"
    by (simp add: write_frame_def io_next_def pop_io_def Let_def)
  from accept_ok [OF E okd kind _ _ _ _ wr, of c raw c1 compressed] fr len room same nr
  have "journal_ok E (accept E c3 (next_record c kind raw) (json_record E (next_record c kind raw)) (length buf) compressed)"
    by simp
  moreover have "j_file c2 \<noteq> None" using ok by (auto simp: journal_ok_def synced_def)
  ultimately show ?thesis
    using write_frame_ok [OF wr] truncate_eqD [OF write_frame_ok(1) [OF wr]] by (force simp: accept_def)
qed

section \<open>The ledger interface\<close>

text \<open>
  What a client of a ledger may rely on: an acknowledged append adds exactly the record it
  was given, numbered one above the last, and a refused one adds nothing; the invariant is
  kept. The broker keeps its state by these laws only.
\<close>

locale ledger =
  fixes append :: "'j \<Rightarrow> string \<Rightarrow> bytes \<Rightarrow> 'j \<times> ('e + nat)"
    and records :: "'j \<Rightarrow> Record list"
    and ok :: "'j \<Rightarrow> bool"
  assumes append_acknowledged:
      "ok j \<Longrightarrow> append j kind raw = (j', Inr n) \<Longrightarrow>
         ok j' \<and> n = Suc (length (records j)) \<and>
         (\<exists>p. records j' = records j @ [\<lparr>rec_Sequence = n, rec_Previous = p, rec_Kind = kind, rec_Data = raw\<rparr>])"
    and append_refused: "ok j \<Longrightarrow> append j kind raw = (j', Inl e) \<Longrightarrow> ok j' \<and> records j' = records j"
begin

text \<open>A sequence of appends, with the ones that were acknowledged.\<close>

fun append_all :: "'j \<Rightarrow> (string \<times> bytes) list \<Rightarrow> 'j \<times> (string \<times> bytes) list" where
  "append_all j [] = (j, [])"
| "append_all j ((kind, raw) # xs) =
     (case append j kind raw of
        (j', Inl _) \<Rightarrow> append_all j' xs
      | (j', Inr _) \<Rightarrow> (case append_all j' xs of (j'', acks) \<Rightarrow> (j'', (kind, raw) # acks)))"

lemma append_all_ok: "ok j \<Longrightarrow> append_all j xs = (j', acks) \<Longrightarrow>
    ok j' \<and> map (\<lambda>r. (rec_Kind r, rec_Data r)) (records j') =
      map (\<lambda>r. (rec_Kind r, rec_Data r)) (records j) @ acks"
proof (induction xs arbitrary: j acks)
  case (Cons x xs)
  obtain kind raw where x: "x = (kind, raw)" by fastforce
  obtain j1 res where a: "append j kind raw = (j1, res)" by fastforce
  show ?case
  proof (cases res)
    case (Inl e)
    with a append_refused [OF Cons.prems(1)] have "ok j1" "records j1 = records j" by blast+
    with Cons.IH [of j1 acks] Cons.prems(2) x a Inl show ?thesis by simp
  next
    case (Inr n)
    with a append_acknowledged [OF Cons.prems(1)] obtain p where "ok j1"
      "records j1 = records j @ [\<lparr>rec_Sequence = n, rec_Previous = p, rec_Kind = kind, rec_Data = raw\<rparr>]"
      by blast
    with Cons.IH [of j1] Cons.prems(2) x a Inr show ?thesis by (auto split: prod.splits)
  qed
qed simp

end

definition journal_inv :: "'a journal_env_scheme \<Rightarrow> Journal \<Rightarrow> bool" where
  "journal_inv E J \<longleftrightarrow> env_ok E \<and> (journal_Healthy J \<longrightarrow> journal_ok E (j_core J))"

lemma Append_unhealthy: "\<not> journal_Healthy J \<Longrightarrow> Append E kind raw J = (J, Inl JUnavailable)"
  by (cases J) (auto simp: journal_Healthy_def Append.simps)

lemma Append_inv:
  assumes inv: "journal_inv E J" and step: "Append E kind raw J = (J', res)"
  shows "case res of
      Inl _ \<Rightarrow> journal_inv E J' \<and> Records J' = Records J
    | Inr n \<Rightarrow> journal_inv E J' \<and> n = Suc (length (Records J)) \<and>
        Records J' = Records J @ [next_record (j_core J) kind raw]"
proof (cases "journal_Healthy J")
  case False
  with step Append_unhealthy [OF False, of E kind raw] inv show ?thesis by auto
next
  case True
  obtain c rec anc where J: "J = Journal c rec anc" by (cases J)
  obtain c' rec' anc' where J': "J' = Journal c' rec' anc'" by (cases J')
  from inv True have E: "env_ok E" and ok: "journal_ok E c" by (auto simp: journal_inv_def J)
  have "j_seq c = length (j_records c)" using ok synced_facts by (auto simp: journal_ok_def)
  with Append_core [OF E ok step [unfolded J J']] E show ?thesis
    by (auto simp: J J' journal_inv_def Records_def journal_Healthy_def split: sum.splits)
qed

interpretation jl: ledger "\<lambda>J kind raw. Append E kind raw J" Records "journal_inv E" for E :: "'a journal_env_scheme"
proof unfold_locales
  fix J kind raw J' n
  assume inv: "journal_inv E J" and step: "Append E kind raw J = (J', Inr n)"
  from step have "journal_Healthy J" using Append_unhealthy by (metis Inl_Inr_False snd_conv)
  with inv have "j_seq (j_core J) = length (Records J)"
    using synced_facts by (auto simp: journal_inv_def journal_ok_def Records_def)
  with Append_inv [OF inv step] show "journal_inv E J' \<and> n = Suc (length (Records J)) \<and>
     (\<exists>p. Records J' = Records J @ [\<lparr>rec_Sequence = n, rec_Previous = p, rec_Kind = kind, rec_Data = raw\<rparr>])"
    by (auto simp: next_record_def)
next
  fix J kind raw J' e
  assume "journal_inv E J" "Append E kind raw J = (J', Inl e)"
  from Append_inv [OF this] show "journal_inv E J' \<and> Records J' = Records J" by simp
qed

end
