(* ===== verification/Demo_Env.thy ===== *)
theory Demo_Env
  imports Journal_Laws
begin

text \<open>
  A concrete environment: functions that meet every hypothesis the theorems put on the
  parameters (a box that appends a tag, a hash that only prefixes its input, no compression,
  a length-prefixed encoding of journal records). The witnesses evaluate the model on it.
\<close>

definition demo_json :: "Record \<Rightarrow> bytes" where
  "demo_json r =
     nat_digits (rec_Sequence r) @ ''|'' @ nat_digits (length (rec_Previous r)) @ ''|'' @
     nat_digits (length (rec_Kind r)) @ ''|'' @ rec_Previous r @ rec_Kind r @ rec_Data r"

definition demo_field :: "bytes \<Rightarrow> nat \<times> bytes" where
  "demo_field s = (digits_val (takeWhile (\<lambda>c. c \<noteq> CHR ''|'') s), tl (dropWhile (\<lambda>c. c \<noteq> CHR ''|'') s))"

definition demo_parse :: "bytes \<Rightarrow> Record option" where
  "demo_parse s =
     (let (n, s1) = demo_field s; (p, s2) = demo_field s1; (k, s3) = demo_field s2
      in Some \<lparr>rec_Sequence = n, rec_Previous = take p s3, rec_Kind = take k (drop p s3),
               rec_Data = drop (p + k) s3\<rparr>)"

definition demo_env :: journal_env where
  "demo_env =
     \<lparr>sha256 = (\<lambda>x. CHR ''#'' # x), hmac_sha256 = (\<lambda>k m. CHR ''#'' # k @ m),
      gcm_seal = (\<lambda>k n p a. p @ replicate 16 CHR ''t''),
      gcm_open = (\<lambda>k n c a. Some (take (length c - 16) c)),
      deflate = id, inflate = Some, json_record = demo_json, parse_record = demo_parse,
      nonces = (\<lambda>_. replicate 12 CHR ''n'')\<rparr>"

definition demo_key :: bytes where
  "demo_key = replicate 32 CHR ''k''"

text \<open>An empty journal with the smallest limit.\<close>

definition demo_core :: JCore where
  "demo_core =
     \<lparr>j_seq = 0, j_prev = [], j_size = 0, j_records = [], j_offsets = [], j_legacy = False,
      j_file = Some [], j_lock = True, j_box = demo_key, j_limit = 1048576, j_poisoned = False,
      j_io = [], j_rng = 0\<rparr>"

lemma digit_not_bar: "c \<in> set (nat_digits n) \<Longrightarrow> c \<noteq> CHR ''|''"
  using nat_digits_is_digit [of "CHR ''|''" n] by (auto simp: is_digit_def in_range_def)

lemma demo_field_digits: "demo_field (nat_digits n @ CHR ''|'' # s) = (n, s)"
  using digit_not_bar [of _ n]
  by (simp add: demo_field_def takeWhile_append2 dropWhile_append2)

lemma demo_parse_json: "demo_parse (demo_json r) = Some r"
  by (simp add: demo_parse_def demo_json_def demo_field_digits)

lemma demo_env_ok: "env_ok demo_env"
  by (simp add: env_ok_def gcm_ok_def demo_env_def demo_parse_json)

lemma demo_env_sha: "inj (sha256 demo_env)" "sha256 demo_env x \<noteq> []"
  by (simp_all add: demo_env_def inj_def)

lemma demo_core_ok: "journal_ok demo_env demo_core"
  by (auto simp: journal_ok_def synced_def demo_core_def empty_ledger_def Ledger.truncate_def
      bounded_records_def)

end
