(* ===== verification/Journal_Recovery.thy ===== *)
theory Journal_Recovery
  imports Demo_Env
begin

text \<open>
  The replicated journal (\<^verbatim>\<open>services/credential-broker/internal/journal/recovery.go\<close>): a second,
  independently encrypted ledger that is written before the primary one, and an anchor
  directory whose immutable \<^verbatim>\<open>commit-...\<close> files name the last acknowledged sequence number
  and its hash. Opening truncates both ledgers to the anchored commit, refuses a rollback
  behind it, and rebuilds a lost or lagging primary from the recovery ledger.

  An open that is refused returns the error alone. The anchor directory holds regular files
  only; reading it consumes outcomes of the anchor's own tape.
\<close>

section \<open>The anchor directory\<close>

text \<open>\<^verbatim>\<open>securefs.Read\<close>: \<open>Inr None\<close> is \<^verbatim>\<open>os.IsNotExist\<close>.\<close>

definition securefs_Read :: "Anchor \<Rightarrow> string \<Rightarrow> nat \<Rightarrow> Anchor \<times> (jerr + bytes option)" where
  "securefs_Read a name limit =
     (case go_lookup (a_files a) name of
        None \<Rightarrow> (a, Inr None)
      | Some b \<Rightarrow>
          (case pop_io (a_io a) of
             (IoFail _, xs) \<Rightarrow> (a\<lparr>a_io := xs\<rparr>, Inl (JOther ''read''))
           | (IoOk, xs) \<Rightarrow>
               (a\<lparr>a_io := xs\<rparr>, if length b > limit then Inl (JOther ''unsafe filesystem object'') else Inr (Some b))))"

definition anchor_initialized :: "'a journal_env_scheme \<Rightarrow> Anchor \<Rightarrow> Anchor \<times> (jerr + bool)" where
  "anchor_initialized E a =
     (case securefs_Read a ''initialized'' 128 of
        (a', Inr None) \<Rightarrow> (a', Inr False)
      | (a', Inl _) \<Rightarrow> (a', Inl JUnavailable)
      | (a', Inr (Some enc)) \<Rightarrow>
          (a', if box_Open E (a_box a') enc ''initialized'' \<noteq> Some ''v1'' then Inl JUnavailable else Inr True))"

definition anchor_markInitialized :: "'a journal_env_scheme \<Rightarrow> Anchor \<Rightarrow> Anchor \<times> bool" where
  "anchor_markInitialized E a = anchor_create E a ''initialized'' ''v1''"

text \<open>\<^verbatim>\<open>fmt.Sscanf(name, "commit-%020d", &seq)\<close> followed by the comparison with the formatted
  number: exactly twenty decimal digits within the range of \<^verbatim>\<open>uint64\<close>.\<close>

definition commit_seq :: "string \<Rightarrow> nat option" where
  "commit_seq name =
     (let ds = drop 7 name; seq = digits_val ds in
      if length name \<noteq> 27 \<or> \<not> list_all is_digit ds \<or> seq \<ge> 18446744073709551616 \<or> commit_name seq \<noteq> name
      then None else Some seq)"

fun latest_loop :: "nat \<Rightarrow> string list \<Rightarrow> nat option" where
  "latest_loop latest [] = Some latest"
| "latest_loop latest (name # names) =
     (if \<not> HasPrefix name ''commit-'' then latest_loop latest names
      else case commit_seq name of
        None \<Rightarrow> None
      | Some seq \<Rightarrow> latest_loop (if seq > latest then seq else latest) names)"

definition is_hex :: "char \<Rightarrow> bool" where
  "is_hex c \<longleftrightarrow> is_digit c \<or> in_range (CHR ''a'') (CHR ''f'') c \<or> in_range (CHR ''A'') (CHR ''F'') c"

definition anchor_latest :: "'a journal_env_scheme \<Rightarrow> Anchor \<Rightarrow> Anchor \<times> (jerr + nat \<times> string)" where
  "anchor_latest E a =
     (case pop_io (a_io a) of
        (IoFail _, xs) \<Rightarrow> (a\<lparr>a_io := xs\<rparr>, Inl (JOther ''readdir''))
      | (IoOk, xs) \<Rightarrow>
          (let a1 = a\<lparr>a_io := xs\<rparr> in
           case latest_loop 0 (map fst (a_files a1)) of
             None \<Rightarrow> (a1, Inl JUnavailable)
           | Some latest \<Rightarrow>
               if latest = 0 then (a1, Inr (0, []))
               else case securefs_Read a1 (commit_name latest) 256 of
                 (a2, Inl _) \<Rightarrow> (a2, Inl JUnavailable)
               | (a2, Inr None) \<Rightarrow> (a2, Inl JUnavailable)
               | (a2, Inr (Some enc)) \<Rightarrow>
                   (a2, case box_Open E (a_box a2) enc (commit_name latest) of
                          None \<Rightarrow> Inl JUnavailable
                        | Some plain \<Rightarrow>
                            if length plain \<noteq> 64 \<or> \<not> list_all is_hex plain then Inl JUnavailable
                            else Inr (latest, plain))))"

section \<open>Truncation to the anchored commit\<close>

definition truncateTo :: "nat \<Rightarrow> JCore \<Rightarrow> JCore \<times> (jerr + unit)" where
  "truncateTo seq c =
     (if seq \<ge> j_seq c then (c, Inl JUnavailable)
      else
        let sz = (if seq > 0 then j_offsets c ! (seq - 1) else 0);
            prev = (if seq > 0 then rec_Previous (j_records c ! seq) else [])
        in case io_next c of
             (IoFail _, c1) \<Rightarrow> (c1, Inl (JOther ''truncate''))
           | (IoOk, c1) \<Rightarrow>
               (case io_run 2 (c1\<lparr>j_file := map_option (take sz) (j_file c1)\<rparr>) of
                  (False, c2) \<Rightarrow> (c2, Inl (JOther ''sync''))
                | (True, c2) \<Rightarrow>
                    (c2\<lparr>j_records := take seq (j_records c2), j_offsets := take seq (j_offsets c2),
                        j_seq := seq, j_prev := prev, j_size := sz\<rparr>, Inr ())))"

section \<open>Opening a replicated journal\<close>

text \<open>The anchor stage of \<^verbatim>\<open>openReplicated\<close>: every refusal is \<^verbatim>\<open>ErrUnavailable\<close>.\<close>

definition cut_to :: "nat \<Rightarrow> JCore \<Rightarrow> jerr + JCore" where
  "cut_to latest c =
     (if j_seq c > latest
      then (case truncateTo latest c of (_, Inl _) \<Rightarrow> Inl JUnavailable | (c', Inr _) \<Rightarrow> Inr c')
      else Inr c)"

definition anchor_stage :: "'a journal_env_scheme \<Rightarrow> Anchor \<Rightarrow> JCore \<Rightarrow> JCore \<Rightarrow> jerr + (JCore \<times> JCore \<times> Anchor)" where
  "anchor_stage E a primary recovery =
     (case anchor_latest E a of
        (_, Inl _) \<Rightarrow> Inl JUnavailable
      | (a1, Inr (latest, hash)) \<Rightarrow>
          (case anchor_initialized E a1 of
             (_, Inl _) \<Rightarrow> Inl JUnavailable
           | (a2, Inr initialized) \<Rightarrow>
               if latest > j_seq recovery \<or>
                  (latest = 0 \<and> \<not> initialized \<and> (j_seq primary > 0 \<or> j_seq recovery > 0))
               then Inl JUnavailable
               else case (if latest = 0 \<and> \<not> initialized then anchor_markInitialized E a2 else (a2, True)) of
                 (_, False) \<Rightarrow> Inl JUnavailable
               | (a3, True) \<Rightarrow>
                   if latest > 0 \<and>
                      record_hash E (json_record E (j_records recovery ! (latest - 1))) \<noteq> hash
                   then Inl JUnavailable
                   else case cut_to latest recovery of
                     Inl e \<Rightarrow> Inl e
                   | Inr recovery' \<Rightarrow>
                       (case cut_to latest primary of
                          Inl e \<Rightarrow> Inl e
                        | Inr primary' \<Rightarrow> Inr (primary', recovery', a3))))"

definition validPrefix :: "Record list \<Rightarrow> Record list \<Rightarrow> bool" where
  "validPrefix ps rs \<longleftrightarrow> length ps \<le> length rs \<and> list_all2 (\<lambda>p r. p = r) ps (take (length ps) rs)"

fun replay_missing :: "'a journal_env_scheme \<Rightarrow> Journal \<Rightarrow> Record list \<Rightarrow> Journal \<times> (jerr + unit)" where
  "replay_missing E J [] = (J, Inr ())"
| "replay_missing E J (r # rs) =
     (if rec_Sequence r \<le> j_seq (j_core J) then replay_missing E J rs
      else case Append E (rec_Kind r) (rec_Data r) J of
        (J', Inl e) \<Rightarrow> (J', Inl e)
      | (J', Inr _) \<Rightarrow> replay_missing E J' rs)"

definition openReplicated :: "'a journal_env_scheme \<Rightarrow> LedgerDir \<Rightarrow> LedgerDir \<Rightarrow> bytes \<Rightarrow> bytes \<Rightarrow> nat \<Rightarrow>
    io list \<Rightarrow> nat \<Rightarrow> io list \<Rightarrow> nat \<Rightarrow> Anchor option \<Rightarrow> jerr + Journal" where
  "openReplicated E primaryDir recoveryDir primaryKey recoveryKey limit iosP rngP iosR rngR anchor =
     (case Open E recoveryDir recoveryKey limit iosR rngR of
        Inl e \<Rightarrow> Inl e
      | Inr R \<Rightarrow>
          (case Open E primaryDir primaryKey limit iosP rngP of
             Inl e \<Rightarrow> Inl e
           | Inr P \<Rightarrow>
               (case (case anchor of
                        None \<Rightarrow> Inr (j_core P, j_core R, None)
                      | Some a \<Rightarrow> (case anchor_stage E a (j_core P) (j_core R) of
                                    Inl e \<Rightarrow> Inl e
                                  | Inr (p, r, a') \<Rightarrow> Inr (p, r, Some a'))) of
                  Inl e \<Rightarrow> Inl e
                | Inr (p, r, anchor') \<Rightarrow>
                    if \<not> validPrefix (j_records p) (j_records r) then Inl JUnavailable
                    else case replay_missing E (Journal p None None) (j_records r) of
                      (_, Inl e) \<Rightarrow> Inl e
                    | (P', Inr _) \<Rightarrow> Inr (Journal (j_core P') (Some (Journal r None None)) anchor'))))"

definition OpenReplicatedAnchored :: "'a journal_env_scheme \<Rightarrow> LedgerDir \<Rightarrow> LedgerDir \<Rightarrow>
    bool \<Rightarrow> (string, bytes) gomap \<Rightarrow> bytes \<Rightarrow> bytes \<Rightarrow> nat \<Rightarrow>
    io list \<Rightarrow> nat \<Rightarrow> io list \<Rightarrow> nat \<Rightarrow> io list \<Rightarrow> nat \<Rightarrow> jerr + Journal" where
  "OpenReplicatedAnchored E primaryDir recoveryDir anchorSecure files primaryKey recoveryKey limit
      iosP rngP iosR rngR iosA rngA =
     (if \<not> anchorSecure then Inl (JOther ''unsafe filesystem object'')
      else case seal_New (Derive E recoveryKey ''journal-anchor'') of
        None \<Rightarrow> Inl (JOther ''key must contain exactly 32 bytes'')
      | Some box \<Rightarrow>
          openReplicated E primaryDir recoveryDir primaryKey recoveryKey limit iosP rngP iosR rngR
            (Some \<lparr>a_box = box, a_files = files, a_io = iosA, a_rng = rngA\<rparr>))"

section \<open>Seeding a replica\<close>

fun seed_append :: "'a journal_env_scheme \<Rightarrow> Journal \<Rightarrow> Record list \<Rightarrow> Journal \<times> (jerr + unit)" where
  "seed_append E J [] = (J, Inr ())"
| "seed_append E J (r # rs) =
     (case Append E (rec_Kind r) (rec_Data r) J of
        (J', Inl e) \<Rightarrow> (J', Inl e)
      | (J', Inr _) \<Rightarrow> seed_append E J' rs)"

text \<open>\<^verbatim>\<open>SeedReplicatedFromOpen\<close>: the recovery ledger and the anchor after it, with the result.\<close>

definition SeedReplicatedFromOpen :: "'a journal_env_scheme \<Rightarrow> JCore \<Rightarrow> LedgerDir \<Rightarrow> bool \<Rightarrow> (string, bytes) gomap \<Rightarrow>
    bytes \<Rightarrow> nat \<Rightarrow> io list \<Rightarrow> nat \<Rightarrow> io list \<Rightarrow> nat \<Rightarrow>
    bytes \<times> (string, bytes) gomap \<times> (jerr + unit)" where
  "SeedReplicatedFromOpen E primary recoveryDir anchorSecure files recoveryKey limit iosR rngR iosA rngA =
     (let disk = ld_bytes recoveryDir in
      if \<not> anchorSecure then (disk, files, Inl (JOther ''unsafe filesystem object''))
      else case seal_New (Derive E recoveryKey ''journal-anchor'') of
        None \<Rightarrow> (disk, files, Inl (JOther ''key must contain exactly 32 bytes''))
      | Some box \<Rightarrow>
          (case Open E recoveryDir recoveryKey limit iosR rngR of
             Inl e \<Rightarrow> (disk, files, Inl e)
           | Inr R \<Rightarrow>
               (let d = (\<lambda>J. the (j_file (j_core J))) in
                case anchor_latest E \<lparr>a_box = box, a_files = files, a_io = iosA, a_rng = rngA\<rparr> of
                  (_, Inl _) \<Rightarrow> (d R, files, Inl JUnavailable)
                | (a1, Inr (latest, hash)) \<Rightarrow>
                    if latest > j_seq primary \<or> length (Records R) > length (j_records primary)
                    then (d R, files, Inl JUnavailable)
                    else if latest > 0 \<and>
                      record_hash E (json_record E (j_records primary ! (latest - 1))) \<noteq> hash
                    then (d R, files, Inl JUnavailable)
                    else if \<not> validPrefix (Records R) (j_records primary)
                    then (d R, files, Inl JUnavailable)
                    else case seed_append E R (drop (length (Records R)) (j_records primary)) of
                      (R', Inl e) \<Rightarrow> (d R', files, Inl e)
                    | (R', Inr _) \<Rightarrow>
                        if j_seq primary > latest
                        then (case anchor_commit E a1 (j_seq primary) (j_prev primary) of
                                (a2, ok) \<Rightarrow> (d R', a_files a2, if ok then Inr () else Inl (JOther ''commit'')))
                        else (d R', files, Inr ()))))"

definition SeedReplicated :: "'a journal_env_scheme \<Rightarrow> LedgerDir \<Rightarrow> bytes \<Rightarrow> io list \<Rightarrow> nat \<Rightarrow>
    LedgerDir \<Rightarrow> bool \<Rightarrow> (string, bytes) gomap \<Rightarrow> bytes \<Rightarrow> nat \<Rightarrow> io list \<Rightarrow> nat \<Rightarrow> io list \<Rightarrow> nat \<Rightarrow>
    bytes \<times> (string, bytes) gomap \<times> (jerr + unit)" where
  "SeedReplicated E primaryDir primaryKey iosP rngP recoveryDir anchorSecure files recoveryKey limit iosR rngR iosA rngA =
     (case Open E primaryDir primaryKey limit iosP rngP of
        Inl e \<Rightarrow> (ld_bytes recoveryDir, files, Inl e)
      | Inr P \<Rightarrow>
          SeedReplicatedFromOpen E (j_core P) recoveryDir anchorSecure files recoveryKey limit iosR rngR iosA rngA)"

section \<open>Induction over an accepted replay\<close>

lemma open_loop_step:
  assumes "open_loop E box l f = Inr l'" "f \<noteq> []"
  obtains f1 f2 r plain cmp where "f = f1 @ f2" "f1 \<noteq> []"
    "open_loop E box l f1 = Inr (accept E l r plain (length f1) cmp)"
    "parse_record E plain = Some r" "rec_Sequence r = Suc (j_seq l)" "rec_Previous r = j_prev l" "rec_Kind r \<noteq> []"
    "open_loop E box (accept E l r plain (length f1) cmp) f2 = Inr l'"
proof -
  let ?sz = "get_u32 f mod 2147483648"
  from assms have len: "\<not> length f < 4"
    and sz: "\<not> (?sz < 28 \<or> ?sz > MaxRecord)" and room: "\<not> length (drop 4 f) < ?sz"
    by (subst (asm) open_loop.simps, auto simp: Let_def split: if_splits)+
  obtain sealed plain r where
    o: "box_Open E box (take ?sz (drop 4 f)) ledger_aad = Some sealed"
    and u: "unpack E (2147483648 \<le> get_u32 f) sealed = Some plain"
    and p: "parse_record E plain = Some r"
    and s: "\<not> (rec_Sequence r \<noteq> j_seq l + 1 \<or> rec_Previous r \<noteq> j_prev l \<or> rec_Kind r = [])"
    and go: "open_loop E box (accept E l r plain (?sz + 4) (2147483648 \<le> get_u32 f))
                 (drop ?sz (drop 4 f)) = Inr l'"
    using len sz room assms
    by (subst (asm) open_loop.simps) (auto simp: Let_def split: if_splits option.splits)
  let ?f1 = "take (?sz + 4) f"
  have n: "length ?f1 = ?sz + 4" using len room by simp
  have hd: "get_u32 ?f1 = get_u32 f" by (simp add: get_u32_def min_def)
  have body: "drop 4 ?f1 = take ?sz (drop 4 f)" by (simp add: drop_take)
  have lb: "length (take ?sz (drop 4 f)) = ?sz" using room by simp
  have one: "open_loop E box l ?f1 = Inr (accept E l r plain (length ?f1) (2147483648 \<le> get_u32 f))"
    using n sz o u p s lb assms(2)
    by (subst open_loop.simps) (simp only: hd body Let_def n, simp)
  show thesis
  proof (rule that)
    show "f = ?f1 @ drop ?sz (drop 4 f)" by (simp add: add.commute)
    show "?f1 \<noteq> []" using assms(2) by simp
    show "open_loop E box (accept E l r plain (length ?f1) (2147483648 \<le> get_u32 f)) (drop ?sz (drop 4 f)) = Inr l'"
      using go n by simp
  qed (use one p s in auto)
qed

lemma open_loop_accepted_induct [consumes 1, case_names Nil Frame]:
  assumes "open_loop E box l f = Inr l'"
    and "\<And>l. P l [] l"
    and "\<And>l f1 f2 r plain cmp l'. f1 \<noteq> [] \<Longrightarrow>
      open_loop E box l f1 = Inr (accept E l r plain (length f1) cmp) \<Longrightarrow>
      parse_record E plain = Some r \<Longrightarrow> rec_Sequence r = Suc (j_seq l) \<Longrightarrow> rec_Previous r = j_prev l \<Longrightarrow> rec_Kind r \<noteq> [] \<Longrightarrow>
      open_loop E box (accept E l r plain (length f1) cmp) f2 = Inr l' \<Longrightarrow>
      P (accept E l r plain (length f1) cmp) f2 l' \<Longrightarrow> P l (f1 @ f2) l'"
  shows "P l f l'"
  using assms(1)
proof (induction "length f" arbitrary: l f rule: less_induct)
  case less
  show ?case
  proof (cases "f = []")
    case True
    with less.prems assms(2) show ?thesis by simp
  next
    case False
    from less.prems False obtain f1 f2 r plain cmp where d: "f = f1 @ f2" "f1 \<noteq> []"
      "open_loop E box l f1 = Inr (accept E l r plain (length f1) cmp)"
      "parse_record E plain = Some r" "rec_Sequence r = Suc (j_seq l)" "rec_Previous r = j_prev l" "rec_Kind r \<noteq> []"
      "open_loop E box (accept E l r plain (length f1) cmp) f2 = Inr l'"
      by (rule open_loop_step)
    have "P (accept E l r plain (length f1) cmp) f2 l'" using less.hyps [OF _ d(8)] d(1,2) by simp
    with assms(3) [OF d(2-8)] d(1) show ?thesis by simp
  qed
qed

section \<open>Truncation keeps a prefix of the history\<close>

lemma open_loop_extends:
  "open_loop E box l f = Inr l' \<Longrightarrow>
     \<exists>rs os. j_records l' = j_records l @ rs \<and> j_offsets l' = j_offsets l @ os \<and> length os = length rs"
proof (induction rule: open_loop_accepted_induct)
  case (Frame l f1 f2 r plain cmp l')
  then obtain rs os where "j_records l' = (j_records l @ [r]) @ rs" "length os = length rs"
    "j_offsets l' = (j_offsets l @ [j_size l + length f1]) @ os"
    by (auto simp: accept_def)
  then show ?case by (intro exI [of _ "r # rs"] exI [of _ "(j_size l + length f1) # os"]) simp
qed auto

text \<open>The size of the file after its first \<open>k\<close> records.\<close>

definition cut_size :: "'a Ledger_scheme \<Rightarrow> 'b Ledger_scheme \<Rightarrow> nat \<Rightarrow> nat" where
  "cut_size l l' k = (if k = length (j_records l) then j_size l else j_offsets l' ! (k - 1))"

lemma open_loop_prefix:
  "open_loop E box l f = Inr l' \<Longrightarrow> length (j_offsets l) = length (j_records l) \<Longrightarrow>
     j_seq l = length (j_records l) \<Longrightarrow>
     length (j_records l) \<le> k \<Longrightarrow> k < length (j_records l') \<Longrightarrow>
     j_size l \<le> cut_size l l' k \<and> cut_size l l' k \<le> j_size l' \<and>
     (\<exists>leg. open_loop E box l (take (cut_size l l' k - j_size l) f) =
        Inr (l\<lparr>j_seq := k, j_prev := rec_Previous (j_records l' ! k), j_size := cut_size l l' k,
               j_records := take k (j_records l'), j_offsets := take k (j_offsets l'), j_legacy := leg\<rparr>))"
proof (induction rule: open_loop_accepted_induct)
  case (Frame l f1 f2 r plain cmp l')
  let ?l1 = "accept E l r plain (length f1) cmp"
  have shape: "j_records ?l1 = j_records l @ [r]" "j_size ?l1 = j_size l + length f1"
    "j_offsets ?l1 = j_offsets l @ [j_size l + length f1]" "j_seq ?l1 = Suc (j_seq l)"
    using Frame by (simp_all add: accept_def)
  from open_loop_extends [OF Frame(7)] obtain rs os where
    ext: "j_records l' = j_records l @ r # rs" "j_offsets l' = j_offsets l @ (j_size l + length f1) # os"
    "length os = length rs" by (auto simp: accept_def)
  from open_loop_numbered [OF Frame(7)] have big: "j_size ?l1 \<le> j_size l'" by auto
  show ?case
  proof (cases "k = length (j_records l)")
    case True
    then have eq: "l = l\<lparr>j_seq := k, j_prev := rec_Previous (j_records l' ! k), j_size := cut_size l l' k,
        j_records := take k (j_records l'), j_offsets := take k (j_offsets l'), j_legacy := j_legacy l\<rparr>"
      using ext Frame by (simp add: cut_size_def)
    have "open_loop E box l (take (cut_size l l' k - j_size l) (f1 @ f2)) = Inr l"
      using True by (simp add: cut_size_def)
    note run = trans [OF this arg_cong [where f = Inr, OF eq]]
    have "j_size l \<le> cut_size l l' k \<and> cut_size l l' k \<le> j_size l'"
      using True big shape by (simp add: cut_size_def)
    with run show ?thesis by blast
  next
    case False
    then have k: "length (j_records ?l1) \<le> k" using Frame by (simp add: shape)
    have cut: "cut_size ?l1 l' k = cut_size l l' k"
      using False ext Frame by (auto simp: cut_size_def shape nth_append)
    from Frame.IH [OF _ _ k] Frame.prems obtain leg where
      le: "j_size ?l1 \<le> cut_size l l' k" "cut_size l l' k \<le> j_size l'"
      and run: "open_loop E box ?l1 (take (cut_size l l' k - j_size ?l1) f2) =
        Inr (?l1\<lparr>j_seq := k, j_prev := rec_Previous (j_records l' ! k), j_size := cut_size l l' k,
               j_records := take k (j_records l'), j_offsets := take k (j_offsets l'), j_legacy := leg\<rparr>)"
      unfolding cut by (auto simp: shape)
    have "take (cut_size l l' k - j_size l) (f1 @ f2) = f1 @ take (cut_size l l' k - j_size ?l1) f2"
      using le shape by simp
    moreover have same: "?l1\<lparr>j_seq := k, j_prev := p, j_size := sz, j_records := rr, j_offsets := oo, j_legacy := leg\<rparr>
        = l\<lparr>j_seq := k, j_prev := p, j_size := sz, j_records := rr, j_offsets := oo, j_legacy := leg\<rparr>" for p sz rr oo
      by (simp add: accept_def)
    ultimately have "open_loop E box l (take (cut_size l l' k - j_size l) (f1 @ f2)) =
        Inr (l\<lparr>j_seq := k, j_prev := rec_Previous (j_records l' ! k), j_size := cut_size l l' k,
               j_records := take k (j_records l'), j_offsets := take k (j_offsets l'), j_legacy := leg\<rparr>)"
      using open_loop_append [OF Frame(2), of "take (cut_size l l' k - j_size ?l1) f2"] run by metis
    with le shape show ?thesis by auto
  qed
qed simp

lemma chained_take:
  "chained E p rs h \<Longrightarrow> k < length rs \<Longrightarrow> chained E p (take k rs) (rec_Previous (rs ! k))"
proof (induction rs arbitrary: p k)
  case (Cons r rs)
  then show ?case by (cases k) auto
qed simp

lemma truncateTo_ok:
  assumes ok: "journal_ok E c" and step: "truncateTo n c = (c', Inr ())"
  shows "journal_ok E c' \<and> j_records c' = take n (j_records c) \<and> j_seq c' = n \<and> j_box c' = j_box c \<and>
    j_limit c' = j_limit c \<and> j_poisoned c' = j_poisoned c"
proof -
  from ok obtain f leg where f: "j_file c = Some f" and
    o: "open_loop E (j_box c) empty_ledger f = Inr (Ledger.truncate (c\<lparr>j_legacy := leg\<rparr>))"
    by (auto simp: journal_ok_def synced_def)
  let ?l' = "Ledger.truncate (c\<lparr>j_legacy := leg\<rparr>)"
  have seq: "j_seq c = length (j_records c)" using ok synced_facts by (auto simp: journal_ok_def)
  from step have n: "n < length (j_records c)" by (auto simp: truncateTo_def seq split: if_splits)
  let ?sz = "if n > 0 then j_offsets c ! (n - 1) else 0"
  let ?prev = "if n > 0 then rec_Previous (j_records c ! n) else []"
  have sz: "cut_size empty_ledger ?l' n = ?sz" by (simp add: cut_size_def empty_ledger_def Ledger.truncate_def)
  have ch: "chained E [] (take n (j_records c)) (rec_Previous (j_records c ! n))"
    using chained_take n ok by (auto simp: journal_ok_def)
  then have prev: "rec_Previous (j_records c ! n) = ?prev" by (cases n) auto
  from open_loop_prefix [OF o, of n] n sz obtain leg' where
    small: "?sz \<le> j_size c" and
    run: "open_loop E (j_box c) empty_ledger (take ?sz f) =
       Inr \<lparr>j_seq = n, j_prev = ?prev, j_size = ?sz, j_records = take n (j_records c),
             j_offsets = take n (j_offsets c), j_legacy = leg'\<rparr>"
    unfolding prev [symmetric] sz [symmetric]
    by (auto simp: empty_ledger_def Ledger.truncate_def)
  obtain x c1 where r1: "io_next c = (x, c1)" by fastforce
  note e1 = erase_eqD [OF io_next_shape [OF r1]]
  obtain b c2 where r2: "io_run 2 (c1\<lparr>j_file := map_option (take ?sz) (j_file c1)\<rparr>) = (b, c2)" by fastforce
  note e2 = erase_eqD [OF io_run_shape [OF r2]]
  have c': "c' = c2\<lparr>j_records := take n (j_records c2), j_offsets := take n (j_offsets c2),
      j_seq := n, j_prev := ?prev, j_size := ?sz\<rparr>"
    using step r1 r2 n by (auto simp: truncateTo_def seq Let_def split: io.splits bool.splits)
  have "synced E c'"
    unfolding synced_def using c' e1 e2 f run
    by (intro exI [of _ "take ?sz f"] exI [of _ leg']) (simp add: Ledger.truncate_def)
  moreover have "bounded_records E (take n (j_records c))"
    using ok by (auto simp: journal_ok_def bounded_records_def list_all_iff dest: in_set_takeD)
  ultimately show ?thesis
    using ok ch prev small c' e1 e2 by (simp add: journal_ok_def)
qed

lemma truncateTo_clean: "j_io c = [] \<Longrightarrow> n < j_seq c \<Longrightarrow> \<exists>c'. truncateTo n c = (c', Inr ()) \<and> j_io c' = []"
  by (simp add: truncateTo_def io_next_clean io_run_clean Let_def)

section \<open>What every open and append does to the records\<close>

lemma compactLocked_records:
  assumes step: "compactLocked E c = (c', res)"
  shows "j_records c' = j_records c \<and> j_prev c' = j_prev c \<and> j_seq c' = j_seq c"
proof -
  obtain b1 c1 where r1: "io_run 3 c = (b1, c1)" by fastforce
  obtain c2 y where lp: "compact_loop E c1 (j_records c1) [] 0 [] [] False = (c2, y)" by fastforce
  obtain b3 c3 where r3: "io_run 4 c2 = (b3, c3)" by fastforce
  have e1: "erase c1 = erase c" and e2: "erase c2 = erase c" and e3: "erase c3 = erase c"
    using io_run_shape [OF r1] compact_loop_shape [OF lp] io_run_shape [OF r3] by simp_all
  have last: "j_records d = j_records c \<and> j_prev d = j_prev c \<and> j_seq d = j_seq c"
    if "io_next (c3\<lparr>j_file := f, j_size := n, j_offsets := os, j_legacy := l\<rparr>) = (x, d)" for f n os l x d
    using erase_eqD(7,8,10) [OF io_next_shape [OF that]] erase_eqD(7,8,10) [OF e3] by simp
  have "c' = c1 \<or> c' = c2 \<or> c' = c3 \<or>
      (\<exists>f n os l x d. io_next (c3\<lparr>j_file := f, j_size := n, j_offsets := os, j_legacy := l\<rparr>) = (x, d) \<and>
        (c' = d \<or> c' = poison d))"
    using step r1 lp r3
    by (cases b1; cases b3)
      (auto simp: compactLocked_def Let_def split: sum.splits if_splits prod.splits io.splits, blast+)
  then show ?thesis
    using erase_eqD(7,8,10) [OF e1] erase_eqD(7,8,10) [OF e2] erase_eqD(7,8,10) [OF e3] last by auto
qed

lemma Open_records:
  assumes "Open E dir key limit ios rng = Inr J"
  shows "\<exists>l. open_loop E key empty_ledger (ld_bytes dir) = Inr l \<and>
    Records J = j_records l \<and> j_prev (j_core J) = j_prev l \<and> j_seq (j_core J) = j_seq l"
proof -
  from assms obtain l where o: "open_loop E key empty_ledger (ld_bytes dir) = Inr l"
    by (auto simp: Open_def seal_New_def Let_def split: if_splits option.splits sum.splits)
  let ?c = "Ledger.extend l \<lparr>j_file = Some (ld_bytes dir), j_lock = True, j_box = key,
              j_limit = limit, j_poisoned = False, j_io = ios, j_rng = rng\<rparr>"
  obtain x c' where io: "io_next ?c = (x, c')" by fastforce
  have c': "j_records c' = j_records l \<and> j_prev c' = j_prev l \<and> j_seq c' = j_seq l"
    using erase_eqD(7,8,10) [OF io_next_shape [OF io]] by (simp add: Ledger.defs)
  have "J = Journal c' None None \<or> (\<exists>c''. compactLocked E c' = (c'', Inr ()) \<and> J = Journal c'' None None)"
    using assms o io
    by (auto simp: Open_def seal_New_def Let_def split: if_splits option.splits sum.splits io.splits prod.splits)
  with o c' show ?thesis by (auto simp: Records_def dest!: compactLocked_records)
qed

lemma Open_length: "Open E dir key limit ios rng = Inr J \<Longrightarrow> j_seq (j_core J) = length (Records J)"
  using Open_records [of E dir key limit ios rng J] open_loop_numbered [of E key empty_ledger]
  by (fastforce simp: empty_ledger_def)

lemma frame_records:
  "frame E c plain = (c', res) \<Longrightarrow> j_records c' = j_records c \<and> j_prev c' = j_prev c \<and> j_seq c' = j_seq c"
  using erase_eqD(7,8,10) [OF frame_shape] by blast

lemma reserve_records:
  "reserve E c plain = (c2, res) \<Longrightarrow> j_records c2 = j_records c \<and> j_prev c2 = j_prev c \<and> j_seq c2 = j_seq c"
  by (auto simp: reserve_def split: prod.splits sum.splits if_splits
      dest!: frame_records compactLocked_records)

lemma Append_records:
  assumes "Append E kind raw (Journal c rec anc) = (Journal c' rec' anc', Inr n)"
  shows "j_records c' = j_records c @ [next_record c kind raw] \<and> j_seq c' = Suc (j_seq c)"
proof -
  let ?plain = "json_record E (next_record c kind raw)"
  obtain c2 x where rs: "reserve E c ?plain = (c2, x)" by fastforce
  note r = reserve_records [OF rs]
  obtain buf cmp where x: "x = Inr (buf, cmp)"
    using assms rs by (cases x) (auto simp: Append.simps next_record_def Let_def split: if_splits)
  obtain c3 b where wr: "write_frame c2 buf = (c3, b)" by fastforce
  from assms rs x wr have "c' = accept E c3 (next_record c kind raw) ?plain (length buf) cmp"
    by (auto simp: Append.simps next_record_def Let_def
        split: if_splits option.splits prod.splits sum.splits bool.splits)
  with write_frame_poison_ok [OF wr] r show ?thesis by (simp add: accept_def next_record_def)
qed

text \<open>Kind and data of a record: what the broker wrote.\<close>

abbreviation entry :: "Record \<Rightarrow> string \<times> bytes" where
  "entry r \<equiv> (rec_Kind r, rec_Data r)"

lemma replay_missing_records:
  "replay_missing E (Journal c rec anc) rs = (Journal c' rec' anc', Inr ()) \<Longrightarrow> numbered k rs \<Longrightarrow>
     k \<le> j_seq c \<Longrightarrow> j_seq c \<le> k + length rs \<Longrightarrow>
     map entry (j_records c') = map entry (j_records c) @ map entry (drop (j_seq c - k) rs) \<and>
     j_seq c' = k + length rs"
proof (induction rs arbitrary: c rec anc k)
  case (Cons r rs)
  show ?case
  proof (cases "rec_Sequence r \<le> j_seq c")
    case True
    with Cons.prems have "Suc k \<le> j_seq c" by simp
    then have "drop (j_seq c - k) (r # rs) = drop (j_seq c - Suc k) rs"
      using Suc_diff_Suc [of k "j_seq c"] by (metis Suc_le_lessD drop_Suc_Cons)
    with Cons.IH [of c rec anc "Suc k"] Cons.prems True show ?thesis by simp
  next
    case False
    with Cons.prems have k: "j_seq c = k" by simp
    from False Cons.prems(1) obtain c1 rec1 anc1 n where
      a: "Append E (rec_Kind r) (rec_Data r) (Journal c rec anc) = (Journal c1 rec1 anc1, Inr n)"
      and go: "replay_missing E (Journal c1 rec1 anc1) rs = (Journal c' rec' anc', Inr ())"
      by (auto split: prod.splits sum.splits) (metis Journal.exhaust)
    from Append_records [OF a] k have "j_seq c1 = Suc k"
      "j_records c1 = j_records c @ [next_record c (rec_Kind r) (rec_Data r)]" by simp_all
    with Cons.IH [OF go, of "Suc k"] Cons.prems k show ?thesis by (simp add: next_record_def)
  qed
qed simp

end
