(* ===== verification/Journal_Props.thy ===== *)
theory Journal_Props
  imports Journal_Recovery
begin

text \<open>
  The journal's properties, each with a witness on the environment of \<open>Demo_Env\<close>.
\<close>

section \<open>Helpers\<close>

text \<open>The plaintexts of an accepted replay, linked by their hashes.\<close>

fun linked :: "'a journal_env_scheme \<Rightarrow> string \<Rightarrow> bytes list \<Rightarrow> string \<Rightarrow> bool" where
  "linked E prev [] head \<longleftrightarrow> head = prev"
| "linked E prev (p # ps) head \<longleftrightarrow>
     (\<exists>r. parse_record E p = Some r \<and> rec_Previous r = prev) \<and> linked E (record_hash E p) ps head"

text \<open>The plaintexts of the frames of a file.\<close>

function plaintexts :: "'a journal_env_scheme \<Rightarrow> bytes \<Rightarrow> bytes \<Rightarrow> bytes list" where
  "plaintexts E box f =
     (let sz = get_u32 f mod 2147483648; rest = drop 4 f in
      if length f < 4 \<or> length rest < sz then []
      else case box_Open E box (take sz rest) ledger_aad of
        None \<Rightarrow> []
      | Some sealed \<Rightarrow>
          (case unpack E (get_u32 f \<ge> 2147483648) sealed of
             None \<Rightarrow> []
           | Some plain \<Rightarrow> plain # plaintexts E box (drop sz rest)))"
  by pat_completeness auto
termination
  by (relation "measure (\<lambda>(E, box, f). length f)") auto

declare plaintexts.simps [simp del]

lemma open_loop_linked:
  "open_loop E box l f = Inr l' \<Longrightarrow>
     linked E (j_prev l) (plaintexts E box f) (j_prev l') \<and>
     map Some (j_records l') = map Some (j_records l) @ map (parse_record E) (plaintexts E box f)"
proof (induction E box l f rule: open_loop.induct)
  case (1 E box l f)
  show ?case
  proof (cases "f = []")
    case True
    with 1 show ?thesis by (simp add: plaintexts.simps)
  next
    case False
    let ?sz = "get_u32 f mod 2147483648"
    from False "1.prems" have len: "\<not> length f < 4"
      and sz: "\<not> (?sz < 28 \<or> ?sz > MaxRecord)" and room: "\<not> length (drop 4 f) < ?sz"
      by (subst (asm) open_loop.simps, auto simp: Let_def split: if_splits)+
    obtain sealed plain r where
      o: "box_Open E box (take ?sz (drop 4 f)) ledger_aad = Some sealed"
      and u: "unpack E (2147483648 \<le> get_u32 f) sealed = Some plain"
      and p: "parse_record E plain = Some r"
      and s: "\<not> (rec_Sequence r \<noteq> j_seq l + 1 \<or> rec_Previous r \<noteq> j_prev l \<or> rec_Kind r = [])"
      and go: "open_loop E box (accept E l r plain (?sz + 4) (2147483648 \<le> get_u32 f))
                   (drop ?sz (drop 4 f)) = Inr l'"
      using False len sz room "1.prems"
      by (subst (asm) open_loop.simps) (auto simp: Let_def split: if_splits option.splits)
    have "plaintexts E box f = plain # plaintexts E box (drop ?sz (drop 4 f))"
      using len room o u by (subst plaintexts.simps) (simp add: Let_def)
    with "1.IH" [OF False len refl refl refl refl sz room o u p s go] s p show ?thesis
      by (simp add: accept_def)
  qed
qed

lemma linked_snoc:
  "linked E prev (ps @ [p]) head \<longleftrightarrow>
     (\<exists>r. parse_record E p = Some r \<and> linked E prev ps (rec_Previous r)) \<and> head = record_hash E p"
  by (induction ps arbitrary: prev) auto

lemma hex_encode_eq_Nil [simp]: "hex_encode s = [] \<longleftrightarrow> s = []"
  by (cases s) (simp_all add: hex_encode_def hex_byte_def)

lemma hex_byte_inject: "hex_byte a = hex_byte b \<longleftrightarrow> a = b"
proof -
  have val: "hex_char i = hex_char j \<Longrightarrow> i mod 16 = j mod 16" for i j :: nat
  proof -
    have "distinct ''0123456789abcdef''" by simp
    then show "hex_char i = hex_char j \<Longrightarrow> i mod 16 = j mod 16"
      unfolding hex_char_def by (subst (asm) nth_eq_iff_index_eq) auto
  qed
  have "of_char a = (of_char b :: nat)" if "hex_byte a = hex_byte b"
  proof -
    have "of_char a div 16 < (16::nat)" "of_char b div 16 < (16::nat)"
      using nat_of_char_less_256 [of a] nat_of_char_less_256 [of b] by (simp_all add: less_mult_imp_div_less)
    moreover from that have "(of_char a div 16) mod 16 = (of_char b div 16) mod (16::nat)"
      "of_char a mod 16 = of_char b mod (16::nat)"
      using val unfolding hex_byte_def by blast+
    ultimately show ?thesis by (metis div_mult_mod_eq mod_less)
  qed
  then show ?thesis by auto
qed

lemma hex_encode_inject [simp]: "hex_encode s = hex_encode t \<longleftrightarrow> s = t"
proof (induction s arbitrary: t)
  case Nil
  show ?case using hex_encode_eq_Nil [of t] by (auto simp: hex_encode_def)
next
  case (Cons a s)
  show ?case
  proof (cases t)
    case Nil
    then show ?thesis using hex_encode_eq_Nil [of "a # s"] by (simp add: hex_encode_def)
  next
    case (Cons b t')
    have "hex_encode (a # s) = hex_encode (b # t') \<longleftrightarrow>
        hex_byte a = hex_byte b \<and> hex_encode s = hex_encode t'"
      by (auto simp: hex_encode_def hex_byte_def)
    with Cons Cons.IH hex_byte_inject show ?thesis by simp
  qed
qed

text \<open>Two linked histories that end in the same hash are the same.\<close>

lemma linked_unique:
  assumes inj: "inj_on (sha256 E) (set ps \<union> set qs)" and ne: "\<And>x. sha256 E x \<noteq> []"
    and "linked E [] ps h" "linked E [] qs h"
  shows "ps = qs"
  using assms(1,3,4)
proof (induction ps arbitrary: qs h rule: rev_induct)
  case Nil
  then have "linked E [] qs []" by simp
  then show ?case
    using ne by (cases qs rule: rev_cases) (auto simp: linked_snoc record_hash_def dest: sym)
next
  case (snoc p ps)
  then obtain q qs' where qs: "qs = qs' @ [q]"
    using ne by (cases qs rule: rev_cases) (auto simp: linked_snoc record_hash_def dest: sym)
  from snoc.prems qs have "sha256 E p = sha256 E q" by (auto simp: linked_snoc record_hash_def)
  with inj_onD [OF snoc.prems(1), of p q] qs have pq: "p = q" by simp
  have "inj_on (sha256 E) (set ps \<union> set qs')"
    using snoc.prems(1) qs by (auto elim: inj_on_subset)
  from snoc.IH [OF this] snoc.prems(2,3) qs pq show ?case by (auto simp: linked_snoc)
qed

lemma demo_append:
  "\<exists>c'. Append demo_env ''mutation.v1'' ''{}'' (Journal demo_core None None) = (Journal c' None None, Inr 1)"
  using Append_clean [OF demo_env_ok demo_core_ok, of "''mutation.v1''" "''{}''"]
  by (simp add: demo_core_def next_record_def demo_env_def demo_json_def MaxRecord_def nat_digits.simps)

lemma reserve_refused: "reserve E c plain = (c2, Inl e) \<Longrightarrow> erase c2 = erase c \<or> j_poisoned c2"
  by (auto simp: reserve_def split: sum.splits prod.splits if_splits dest!: frame_shape)

lemma Append_refused:
  assumes "Append E kind raw (Journal c rec anc) = (Journal c' rec' anc', Inl e)"
  shows "erase c' = erase c \<or> j_poisoned c'"
proof -
  let ?plain = "json_record E (next_record c kind raw)"
  obtain c2 x where rs: "reserve E c ?plain = (c2, x)" by fastforce
  show ?thesis
  proof (cases x)
    case (Inl e')
    with assms rs reserve_refused [of E c ?plain c2 e'] show ?thesis
      by (auto simp: Append.simps next_record_def Let_def split: if_splits)
  next
    case (Inr p)
    with assms rs show ?thesis
      by (auto simp: Append.simps next_record_def Let_def
          split: if_splits option.splits prod.splits sum.splits bool.splits)
  qed
qed

section \<open>Properties\<close>

text \<open>
  C6: An acknowledged append is durable. After \<^verbatim>\<open>Append\<close> returns a sequence number, opening
  the ledger file again with the same key succeeds on a working disk and gives back every
  earlier record followed by exactly the new one, in a healthy journal.
\<close>

theorem acknowledged_append_survives_reopen:
  assumes "env_ok E" and "journal_ok E c" and "length (j_box c) = 32" and "usable_limit (j_limit c)"
    and "Append E kind raw (Journal c rec anc) = (Journal c' rec' anc', Inr n)"
  shows "\<exists>J. Open E (intact_dir (the (j_file c'))) (j_box c) (j_limit c) [] rng = Inr J \<and>
    journal_Healthy J \<and> n = Suc (length (j_records c)) \<and>
    Records J = j_records c @ [\<lparr>rec_Sequence = n, rec_Previous = j_prev c, rec_Kind = kind, rec_Data = raw\<rparr>]"
proof -
  have seq: "j_seq c = length (j_records c)"
    using assms(2) synced_facts(2) by (auto simp: journal_ok_def)
  from Append_core [OF assms(1,2,5)] have c': "journal_ok E c'" "j_box c' = j_box c" "j_limit c' = j_limit c"
    "n = Suc (j_seq c)" "j_records c' = j_records c @ [next_record c kind raw]"
    by simp_all
  from Open_synced [OF assms(1) c'(1), of rng] assms(3,4) c' seq show ?thesis
    by (auto simp: next_record_def)
qed

theorem acknowledged_append_survives_reopen_witness:
  "\<exists>c' J. Append demo_env ''mutation.v1'' ''{}'' (Journal demo_core None None) = (Journal c' None None, Inr 1) \<and>
     Open demo_env (intact_dir (the (j_file c'))) (j_box demo_core) (j_limit demo_core) [] 0 = Inr J \<and>
     Records J = [\<lparr>rec_Sequence = 1, rec_Previous = [], rec_Kind = ''mutation.v1'', rec_Data = ''{}''\<rparr>]"
proof -
  from demo_append obtain c' where
    a: "Append demo_env ''mutation.v1'' ''{}'' (Journal demo_core None None) = (Journal c' None None, Inr 1)"
    by blast
  have "length (j_box demo_core) = 32" "usable_limit (j_limit demo_core)"
    by (simp_all add: demo_core_def demo_key_def usable_limit_def MaxRecord_def)
  from acknowledged_append_survives_reopen [OF demo_env_ok demo_core_ok this a, of 0] a show ?thesis
    by (auto simp: demo_core_def)
qed

text \<open>
  The replay is tamper evident. If two ledger files are both accepted by \<^verbatim>\<open>Open\<close> and
  end in the same head hash, they hold the same records, whatever the bytes between: as long
  as the hash does not collide on the plaintexts of the two files, no record can be altered,
  dropped or inserted without changing the head.
\<close>

theorem journal_head_determines_history:
  assumes "inj_on (sha256 E) (set (plaintexts E key (ld_bytes dir)) \<union> set (plaintexts E key' (ld_bytes dir')))"
    and "\<forall>x. sha256 E x \<noteq> []"
    and "Open E dir key limit ios rng = Inr J" and "Open E dir' key' limit' ios' rng' = Inr J'"
    and "j_prev (j_core J) = j_prev (j_core J')"
  shows "Records J = Records J'"
proof -
  from Open_records [OF assms(3)] obtain l where l: "open_loop E key empty_ledger (ld_bytes dir) = Inr l"
    "Records J = j_records l" "j_prev (j_core J) = j_prev l" by blast
  from Open_records [OF assms(4)] obtain l' where l': "open_loop E key' empty_ledger (ld_bytes dir') = Inr l'"
    "Records J' = j_records l'" "j_prev (j_core J') = j_prev l'" by blast
  from open_loop_linked [OF l(1)] open_loop_linked [OF l'(1)]
  have "linked E [] (plaintexts E key (ld_bytes dir)) (j_prev l)"
    "map Some (j_records l) = map (parse_record E) (plaintexts E key (ld_bytes dir))"
    "linked E [] (plaintexts E key' (ld_bytes dir')) (j_prev l')"
    "map Some (j_records l') = map (parse_record E) (plaintexts E key' (ld_bytes dir'))"
    by (simp_all add: empty_ledger_def)
  with linked_unique [OF assms(1)] assms(2,5) l l' have "map Some (Records J) = map Some (Records J')"
    by metis
  then show ?thesis by (simp add: inj_map_eq_map)
qed

theorem journal_head_determines_history_witness:
  "\<exists>f J J'. Open demo_env (intact_dir f) demo_key 1048576 [] 0 = Inr J \<and>
     Open demo_env (intact_dir f) demo_key 2097152 [] 5 = Inr J' \<and> length (Records J) = 1 \<and> Records J = Records J'"
proof -
  obtain c' where c': "journal_ok demo_env c'" "j_box c' = demo_key" "j_limit c' = 1048576"
    "length (j_records c') = 1"
    using demo_append Append_core [OF demo_env_ok demo_core_ok] by (fastforce simp: demo_core_def)
  let ?d = "c'\<lparr>j_limit := 2097152\<rparr>"
  have d: "journal_ok demo_env ?d" using c' by (simp add: journal_ok_def synced_def Ledger.truncate_def)
  have k: "length demo_key = 32" "usable_limit 1048576" "usable_limit 2097152"
    by (simp_all add: demo_key_def usable_limit_def MaxRecord_def)
  from Open_synced [OF demo_env_ok c'(1), of 0] Open_synced [OF demo_env_ok d, of 5] c' k obtain J J' where
    "Open demo_env (intact_dir (the (j_file c'))) demo_key 1048576 [] 0 = Inr J" "length (Records J) = 1"
    "Open demo_env (intact_dir (the (j_file c'))) demo_key 2097152 [] 5 = Inr J'"
    "j_prev (j_core J) = j_prev (j_core J')"
    by auto
  with journal_head_determines_history [OF _ _ this(1,3,4)] demo_env_sha show ?thesis
    by (blast intro: inj_on_subset)
qed

text \<open>
  A failed append never loses or rewrites history. Whatever the disk did (a torn write, a
  failed sync, a failed compaction or a refusing replica), the next \<^verbatim>\<open>Open\<close> of the file
  either finds exactly the old records, or the old records and the complete refused one, or
  refuses the file as unavailable; it never accepts a part of a record.
\<close>

theorem failed_append_is_atomic_on_disk:
  assumes "env_ok E" and "journal_ok E c" and "length (j_box c) = 32" and "usable_limit (j_limit c)"
    and "Append E kind raw (Journal c rec anc) = (Journal c' rec' anc', Inl e)"
  shows "case Open E (intact_dir (the (j_file c'))) (j_box c) (j_limit c) [] rng of
      Inl e' \<Rightarrow> e' = JUnavailable
    | Inr J \<Rightarrow> Records J = j_records c \<or>
        Records J = j_records c @ [\<lparr>rec_Sequence = j_seq c + 1, rec_Previous = j_prev c,
                                    rec_Kind = kind, rec_Data = raw\<rparr>]"
proof -
  let ?plain = "json_record E (next_record c kind raw)"
  from Append_disk [OF assms(1,2,5)] obtain c2 g where
    ok2: "journal_ok E c2" and same: "j_records c2 = j_records c" "j_seq c2 = j_seq c"
      "j_prev c2 = j_prev c" "j_box c2 = j_box c" "j_limit c2 = j_limit c"
    and f: "j_file c' = Some (the (j_file c2) @ g)"
    and g: "g = [] \<or> (kind \<noteq> [] \<and> length ?plain + 28 \<le> MaxRecord \<and>
      (\<exists>c1 buf cmp n. frame E c ?plain = (c1, Inr (buf, cmp)) \<and>
        j_size c2 + length buf \<le> j_limit c2 \<and> g = take n buf))"
    by blast
  note opn = Open_synced [OF assms(1), of _ rng]
  show ?thesis
  proof (cases "g = []")
    case True
    with opn [OF ok2] same f assms(3,4) show ?thesis by auto
  next
    case False
    with g obtain c1 buf cmp n where fr: "frame E c ?plain = (c1, Inr (buf, cmp))" and "kind \<noteq> []"
      and "length ?plain + 28 \<le> MaxRecord" and room: "j_size c2 + length buf \<le> j_limit c2"
      and gn: "g = take n buf" by blast
    from complete_frame_ok [OF assms(1) ok2 this(2) same(2,3,4) fr this(3,4)] obtain c4 where
      c4: "journal_ok E c4" "j_file c4 = Some (the (j_file c2) @ buf)" "j_box c4 = j_box c"
        "j_limit c4 = j_limit c" "j_records c4 = j_records c @ [next_record c kind raw]"
      using same by auto
    show ?thesis
    proof (cases "length buf \<le> n")
      case True
      with opn [OF c4(1)] c4 gn f assms(3,4) show ?thesis by (auto simp: next_record_def)
    next
      case torn: False
      from ok2 obtain h leg where h: "j_file c2 = Some h" "length h = j_size c2"
        "open_loop E (j_box c) empty_ledger h = Inr (Ledger.truncate (c2\<lparr>j_legacy := leg\<rparr>))"
        using same synced_facts(3) [of E c2] by (auto simp: journal_ok_def synced_def)
      have "0 < n" using False gn by (cases n) auto
      then have "open_loop E (j_box c) empty_ledger (h @ g) = Inl JUnavailable"
        using open_loop_append [OF h(3)] open_loop_torn [OF assms(1) fr] torn gn by simp
      moreover have "length (h @ g) \<le> j_limit c" using h(2) room gn same by simp
      ultimately show ?thesis
        using f h(1) assms(3,4) by (simp add: Open_def usable_limit_def seal_New_def)
    qed
  qed
qed

text \<open>The second disk operation of an append on the demonstration journal, the write, fails
  after nine bytes.\<close>

definition faulty_core :: JCore where
  "faulty_core = demo_core\<lparr>j_io := [IoOk, IoFail 9]\<rparr>"

lemma faulty_append:
  "\<exists>c'. Append demo_env ''mutation.v1'' ''{}'' (Journal faulty_core None None) =
     (Journal c' None None, Inl JUnavailable) \<and> length (the (j_file c')) = 9"
  by (simp add: Append.simps reserve_def frame_def faulty_core_def demo_core_def io_next_def pop_io_def
      demo_env_def demo_json_def MaxRecord_def nat_digits.simps write_frame_def box_Seal_def Let_def put_u32_def)

lemma faulty_core_ok: "journal_ok demo_env faulty_core"
  using journal_ok_erase [OF _ demo_core_ok, of faulty_core] by (simp add: faulty_core_def)

theorem failed_append_is_atomic_on_disk_witness:
  "\<exists>c'. Append demo_env ''mutation.v1'' ''{}'' (Journal faulty_core None None) = (Journal c' None None, Inl JUnavailable) \<and>
     length (the (j_file c')) = 9 \<and>
     (case Open demo_env (intact_dir (the (j_file c'))) demo_key 1048576 [] 0 of
        Inl e' \<Rightarrow> e' = JUnavailable
      | Inr J \<Rightarrow> Records J = [] \<or> Records J = [\<lparr>rec_Sequence = 1, rec_Previous = [],
                                    rec_Kind = ''mutation.v1'', rec_Data = ''{}''\<rparr>])"
proof -
  have k: "length (j_box faulty_core) = 32" "usable_limit (j_limit faulty_core)"
    by (simp_all add: faulty_core_def demo_core_def demo_key_def usable_limit_def MaxRecord_def)
  from faulty_append obtain c' where
    c': "Append demo_env ''mutation.v1'' ''{}'' (Journal faulty_core None None) = (Journal c' None None, Inl JUnavailable)"
    "length (the (j_file c')) = 9" by blast
  from failed_append_is_atomic_on_disk [OF demo_env_ok faulty_core_ok k c'(1), of 0] c' show ?thesis
    by (intro exI [of _ c']) (auto simp: faulty_core_def demo_core_def split: sum.splits)
qed

text \<open>
  The journal is fail-stop. An append that is refused either left the ledger file, the
  records and the health of the journal as they were, or the journal is unhealthy from then
  on: every later append is refused as unavailable and changes nothing. No append is ever
  attempted on top of a file whose tail is in doubt.
\<close>

theorem failed_append_is_fail_stop:
  assumes "Append E kind raw J = (J', Inl e)"
  shows "(j_file (j_core J') = j_file (j_core J) \<and> Records J' = Records J \<and>
          journal_Healthy J' = journal_Healthy J) \<or>
    (\<not> journal_Healthy J' \<and> (\<forall>kind' raw'. Append E kind' raw' J' = (J', Inl JUnavailable)))"
proof -
  obtain c rec anc where J: "J = Journal c rec anc" by (cases J)
  obtain c' rec' anc' where J': "J' = Journal c' rec' anc'" by (cases J')
  from Append_refused [OF assms [unfolded J J']] show ?thesis
  proof
    assume "erase c' = erase c"
    from erase_eqD [OF this] show ?thesis by (simp add: J J' Records_def journal_Healthy_def)
  next
    assume "j_poisoned c'"
    then have "\<not> journal_Healthy J'" by (simp add: J' journal_Healthy_def)
    with Append_unhealthy [OF this] show ?thesis by blast
  qed
qed

theorem failed_append_is_fail_stop_witness:
  "\<exists>J'. Append demo_env ''mutation.v1'' ''{}'' (Journal faulty_core None None) = (J', Inl JUnavailable) \<and>
     j_file (j_core J') \<noteq> Some [] \<and>
     (\<forall>kind' raw'. Append demo_env kind' raw' J' = (J', Inl JUnavailable))"
proof -
  from faulty_append obtain c' where
    c': "Append demo_env ''mutation.v1'' ''{}'' (Journal faulty_core None None) = (Journal c' None None, Inl JUnavailable)"
    "length (the (j_file c')) = 9" by blast
  moreover have "j_file c' \<noteq> Some []" "j_file faulty_core = Some []"
    using c'(2) by (auto simp: faulty_core_def demo_core_def)
  ultimately show ?thesis
    using failed_append_is_fail_stop [OF c'(1)] by auto
qed

text \<open>
  The whole life of a journal, as a sequence of appends of which some are refused: the
  records are exactly the acknowledged ones, in their order, behind the records it started
  from. While it is healthy its sequence number is the number of its records, and 32 bytes
  per record fit in the limit, so it stays far below the range of the \<^verbatim>\<open>uint64\<close> of the source.
\<close>

theorem journal_run_keeps_acknowledged:
  assumes "journal_inv E J"
    and "ledger.append_all (\<lambda>J kind raw. Append E kind raw J) J xs = (J', acks)"
  shows "map (\<lambda>r. (rec_Kind r, rec_Data r)) (Records J') = map (\<lambda>r. (rec_Kind r, rec_Data r)) (Records J) @ acks \<and>
    (journal_Healthy J' \<longrightarrow> j_seq (j_core J') = length (Records J') \<and>
           32 * j_seq (j_core J') \<le> j_size (j_core J') \<and> j_size (j_core J') \<le> j_limit (j_core J'))"
proof -
  from jl.append_all_ok [OF assms] have inv: "journal_inv E J'"
    and recs: "map (\<lambda>r. (rec_Kind r, rec_Data r)) (Records J') = map (\<lambda>r. (rec_Kind r, rec_Data r)) (Records J) @ acks"
    by simp_all
  from inv synced_facts [of E "j_core J'"] recs show ?thesis
    by (auto simp: journal_inv_def journal_ok_def Records_def)
qed

theorem journal_run_keeps_acknowledged_witness:
  "\<exists>J' acks. ledger.append_all (\<lambda>J kind raw. Append demo_env kind raw J) (Journal demo_core None None)
      [(''a'', ''1''), ([], ''2'')] = (J', acks) \<and>
    map (\<lambda>r. (rec_Kind r, rec_Data r)) (Records J') = acks"
proof -
  have inv: "journal_inv demo_env (Journal demo_core None None)"
    using demo_env_ok demo_core_ok by (simp add: journal_inv_def)
  obtain J' acks where run: "ledger.append_all (\<lambda>J kind raw. Append demo_env kind raw J) (Journal demo_core None None)
      [(''a'', ''1''), ([], ''2'')] = (J', acks)" by fastforce
  from journal_run_keeps_acknowledged [OF inv run] run show ?thesis
    by (auto simp: Records_def demo_core_def)
qed

text \<open>
  Compaction is lossless and crash safe. Whatever disk operation of \<^verbatim>\<open>compactLocked\<close>
  fails, and also when none does, the ledger file opens to the same records and the same
  head hash as before, and the file has not grown.
\<close>

theorem compaction_is_lossless:
  assumes "env_ok E" and "journal_ok E c" and "length (j_box c) = 32" and "usable_limit (j_limit c)"
    and "compactLocked E c = (c', res)"
  shows "\<exists>J. Open E (intact_dir (the (j_file c'))) (j_box c) (j_limit c) [] rng = Inr J \<and>
    Records J = j_records c \<and> j_prev (j_core J) = j_prev c \<and>
    length (the (j_file c')) \<le> length (the (j_file c))"
proof -
  note cp = compactLocked_ok [OF assms(1,2,5)]
  have "length (the (j_file d)) = j_size d" if "journal_ok E d" for d
    using synced_facts(3) [of E d] that by (auto simp: journal_ok_def)
  with Open_synced [OF assms(1), of c' rng] cp assms(2,3,4) show ?thesis by auto
qed

theorem compaction_is_lossless_witness:
  "\<exists>c' res J. compactLocked demo_env faulty_core = (c', res) \<and> res \<noteq> Inr () \<and>
     Open demo_env (intact_dir (the (j_file c'))) demo_key 1048576 [] 0 = Inr J \<and> Records J = []"
proof -
  have k: "length (j_box faulty_core) = 32" "usable_limit (j_limit faulty_core)"
    by (simp_all add: faulty_core_def demo_core_def demo_key_def usable_limit_def MaxRecord_def)
  obtain c' where c': "compactLocked demo_env faulty_core = (c', Inl (JOther ''temp''))"
    by (simp add: compactLocked_def faulty_core_def demo_core_def io_next_def pop_io_def numeral_3_eq_3)
  from compaction_is_lossless [OF demo_env_ok faulty_core_ok k c', of 0] c' show ?thesis
    by (auto simp: faulty_core_def demo_core_def)
qed

text \<open>
  Progress. On a working disk a healthy journal in step with its file acknowledges every
  record that fits its limit, with the next sequence number, and is ready for the next one.
\<close>

theorem journal_makes_progress:
  assumes "env_ok E" and "journal_ok E c" and "\<not> j_poisoned c" and "j_io c = []" and "kind \<noteq> []"
    and "length (json_record E \<lparr>rec_Sequence = j_seq c + 1, rec_Previous = j_prev c, rec_Kind = kind, rec_Data = raw\<rparr>)
           + 28 \<le> MaxRecord"
    and "j_size c + length (json_record E \<lparr>rec_Sequence = j_seq c + 1, rec_Previous = j_prev c, rec_Kind = kind, rec_Data = raw\<rparr>)
           + 32 \<le> j_limit c"
  shows "\<exists>c'. Append E kind raw (Journal c None None) = (Journal c' None None, Inr (j_seq c + 1)) \<and>
    journal_ok E c' \<and> journal_Healthy (Journal c' None None)"
proof -
  from Append_clean [OF assms(1-5)] assms(6,7) obtain c' where
    c': "Append E kind raw (Journal c None None) = (Journal c' None None, Inr (j_seq c + 1))"
    by (auto simp: next_record_def)
  from Append_core [OF assms(1,2) c'] c' show ?thesis
    by (auto simp: journal_Healthy_def journal_ok_def synced_def)
qed

theorem journal_makes_progress_witness:
  "\<exists>c'. Append demo_env ''mutation.v1'' ''{}'' (Journal demo_core None None) = (Journal c' None None, Inr 1) \<and>
     journal_Healthy (Journal c' None None)"
  using journal_makes_progress [OF demo_env_ok demo_core_ok, of "''mutation.v1''" "''{}''"]
  by (auto simp: demo_core_def demo_env_def demo_json_def MaxRecord_def nat_digits.simps)

end
