(* ===== verification/Recovery_Props.thy ===== *)
theory Recovery_Props
  imports Journal_Recovery
begin

text \<open>
  What the replicated journal guarantees: an open is pinned to the anchored commit, every
  acknowledged record survives the loss of the primary ledger, and a seeded replica holds
  the primary's history.
\<close>

section \<open>Pinned to the anchor\<close>

lemma truncateTo_records:
  assumes "truncateTo n c = (c', Inr ())"
  shows "j_records c' = take n (j_records c) \<and> j_seq c' = n"
proof -
  obtain x c1 where r1: "io_next c = (x, c1)" by fastforce
  note e1 = erase_eqD [OF io_next_shape [OF r1]]
  let ?sz = "if n > 0 then j_offsets c ! (n - 1) else 0"
  obtain b c2 where r2: "io_run 2 (c1\<lparr>j_file := map_option (take ?sz) (j_file c1)\<rparr>) = (b, c2)" by fastforce
  note e2 = erase_eqD [OF io_run_shape [OF r2]]
  from assms r1 r2 have "c' = c2\<lparr>j_records := take n (j_records c2), j_offsets := take n (j_offsets c2),
      j_seq := n, j_prev := if n > 0 then rec_Previous (j_records c ! n) else [], j_size := ?sz\<rparr>"
    by (auto simp: truncateTo_def Let_def split: if_splits io.splits bool.splits)
  then show ?thesis using e1 e2 by simp
qed

lemma cut_to_records:
  assumes "cut_to n c = Inr c'" "j_seq c = length (j_records c)"
  shows "j_records c' = take n (j_records c) \<and> j_seq c' = length (j_records c')"
  using assms truncateTo_records
  by (force simp: cut_to_def split: if_splits prod.splits sum.splits)

lemma anchor_stage_accepted:
  assumes "anchor_stage E a p r = Inr (p', r', a')" "j_seq p = length (j_records p)" "j_seq r = length (j_records r)"
  shows "\<exists>a1 n h. anchor_latest E a = (a1, Inr (n, h)) \<and> n \<le> length (j_records r) \<and>
    j_records r' = take n (j_records r) \<and> j_records p' = take n (j_records p) \<and>
    j_seq p' = length (j_records p') \<and> j_seq r' = n \<and>
    (n > 0 \<longrightarrow> record_hash E (json_record E (j_records r ! (n - 1))) = h)"
proof -
  obtain a1 x where l: "anchor_latest E a = (a1, x)" by fastforce
  from assms(1) l obtain n h where x: "x = Inr (n, h)"
    by (cases x) (auto simp: anchor_stage_def)
  obtain a2 y where i: "anchor_initialized E a1 = (a2, y)" by fastforce
  from assms(1) l x i obtain b where y: "y = Inr b"
    by (cases y) (auto simp: anchor_stage_def)
  obtain a3 m where k: "(if n = 0 \<and> \<not> b then anchor_markInitialized E a2 else (a2, True)) = (a3, m)" by fastforce
  have le: "n \<le> j_seq r" and h: "n > 0 \<longrightarrow> record_hash E (json_record E (j_records r ! (n - 1))) = h"
    and c: "cut_to n r = Inr r'" "cut_to n p = Inr p'"
    using assms(1) l x i y k by (auto simp: anchor_stage_def split: if_splits bool.splits sum.splits)
  from cut_to_records [OF c(1)] cut_to_records [OF c(2)] l x le h assms(2,3) show ?thesis by auto
qed

section \<open>Rebuilding the primary\<close>

text \<open>The bytes a record takes in a ledger.\<close>

definition frame_size :: "'a journal_env_scheme \<Rightarrow> Record \<Rightarrow> nat" where
  "frame_size E r = min (length (deflate E (json_record E r))) (length (json_record E r)) + 32"

lemma frame_exact:
  assumes "env_ok E" "j_io c = []" "length (json_record E r) + 28 \<le> MaxRecord"
  shows "\<exists>c' buf cmp. frame E c (json_record E r) = (c', Inr (buf, cmp)) \<and> j_io c' = [] \<and> length buf = frame_size E r"
proof -
  let ?plain = "json_record E r"
  let ?pay = "if length (deflate E ?plain) < length ?plain then deflate E ?plain else ?plain"
  have "length (box_Seal E (j_box c) (nonces E (j_rng c)) ?pay ledger_aad) = length ?pay + 28"
    using assms(1) by (intro length_box_Seal) (auto simp: env_ok_def)
  then show ?thesis
    using assms(2,3)
    by (cases "length (deflate E ?plain) < length ?plain")
      (auto simp: frame_def io_next_clean Let_def frame_size_def)
qed

lemma Append_exact:
  assumes E: "env_ok E" and ok: "journal_ok E c" and live: "\<not> j_poisoned c" and io: "j_io c = []"
    and kind: "kind \<noteq> []" and len: "length (json_record E (next_record c kind raw)) + 28 \<le> MaxRecord"
    and room: "j_size c + frame_size E (next_record c kind raw) \<le> j_limit c"
  shows "\<exists>c'. Append E kind raw (Journal c None None) = (Journal c' None None, Inr (Suc (j_seq c))) \<and>
    j_io c' = [] \<and> j_size c' = j_size c + frame_size E (next_record c kind raw)"
proof -
  let ?plain = "json_record E (next_record c kind raw)"
  from ok have f: "j_file c \<noteq> None" by (auto simp: journal_ok_def synced_def)
  from frame_exact [OF E io len] obtain c1 buf cmp where
    fr: "frame E c ?plain = (c1, Inr (buf, cmp))" and io1: "j_io c1 = []"
    and n: "length buf = frame_size E (next_record c kind raw)" by blast
  have s1: "j_size c1 = j_size c" "j_limit c1 = j_limit c" using erase_eqD [OF frame_shape [OF fr]] by simp_all
  then have rs: "reserve E c ?plain = (c1, Inr (buf, cmp))"
    using fr n room by (simp add: reserve_def)
  obtain c3 where wr: "write_frame c1 buf = (c3, True)" "j_io c3 = []" "j_size c3 = j_size c"
    using io1 s1 by (simp add: write_frame_def io_next_clean Let_def)
  show ?thesis
    using live f kind len rs wr n by (simp add: Append.simps next_record_def Let_def accept_def)
qed

lemma replay_missing_clean:
  assumes E: "env_ok E"
  shows "journal_ok E c \<Longrightarrow> \<not> j_poisoned c \<Longrightarrow> j_io c = [] \<Longrightarrow> chained E (j_prev c) rs h \<Longrightarrow>
    numbered (j_seq c) rs \<Longrightarrow> bounded_records E rs \<Longrightarrow>
    j_size c + sum_list (map (frame_size E) rs) \<le> j_limit c \<Longrightarrow>
    \<exists>c'. replay_missing E (Journal c None None) rs = (Journal c' None None, Inr ()) \<and> journal_ok E c' \<and>
      \<not> j_poisoned c' \<and> j_records c' = j_records c @ rs"
proof (induction rs arbitrary: c)
  case (Cons r rs)
  let ?J = "Journal c None None"
  from Cons.prems have r: "next_record c (rec_Kind r) (rec_Data r) = r"
    by (cases r) (simp add: next_record_def)
  from Append_exact [OF E Cons.prems(1-3), of "rec_Kind r" "rec_Data r"] Cons.prems r obtain c1 where
    a: "Append E (rec_Kind r) (rec_Data r) ?J = (Journal c1 None None, Inr (Suc (j_seq c)))"
    and io: "j_io c1 = []" "j_size c1 = j_size c + frame_size E r"
    by (auto simp: bounded_records_def)
  from Append_core [OF E Cons.prems(1) a] have c1: "journal_ok E c1" "\<not> j_poisoned c1" "j_seq c1 = Suc (j_seq c)"
    "j_records c1 = j_records c @ [r]" "j_limit c1 = j_limit c" using r by simp_all
  have prev: "j_prev c1 = record_hash E (json_record E r)"
    using c1 by (simp add: journal_ok_def chained_snoc)
  from Cons.IH [OF c1(1,2) io(1)] Cons.prems prev c1 io show ?case
    by (auto simp: a bounded_records_def)
qed auto

lemma seed_append_replay:
  "numbered (j_seq c) rs \<Longrightarrow> seed_append E (Journal c rec anc) rs = replay_missing E (Journal c rec anc) rs"
proof (induction rs arbitrary: c rec anc)
  case (Cons r rs)
  obtain J x where a: "Append E (rec_Kind r) (rec_Data r) (Journal c rec anc) = (J, x)" by fastforce
  show ?case
  proof (cases x)
    case (Inr n)
    obtain c' rec' anc' where J: "J = Journal c' rec' anc'" by (cases J)
    from Append_records [OF a [unfolded Inr J]] Cons a Inr J show ?thesis by simp
  qed (use a Cons.prems in simp)
qed simp

lemma seed_append_core:
  assumes E: "env_ok E"
  shows "journal_ok E c \<Longrightarrow> seed_append E (Journal c rec anc) rs = (Journal c' rec' anc', Inr ()) \<Longrightarrow>
    j_box c' = j_box c \<and> j_limit c' = j_limit c"
proof (induction rs arbitrary: c rec anc)
  case (Cons r rs)
  from Cons.prems(2) obtain c1 rec1 anc1 n where
    a: "Append E (rec_Kind r) (rec_Data r) (Journal c rec anc) = (Journal c1 rec1 anc1, Inr n)"
    and go: "seed_append E (Journal c1 rec1 anc1) rs = (Journal c' rec' anc', Inr ())"
    by (auto split: prod.splits sum.splits) (metis Journal.exhaust)
  from Append_core [OF E Cons.prems(1) a] have "journal_ok E c1" "j_box c1 = j_box c" "j_limit c1 = j_limit c"
    by simp_all
  with Cons.IH [OF _ go] show ?case by simp
qed simp

section \<open>The anchor of an acknowledged journal\<close>

text \<open>The anchor directory after the commit of record \<open>n\<close> with hash \<open>h\<close>.\<close>

definition anchored :: "'a journal_env_scheme \<Rightarrow> Anchor \<Rightarrow> nat \<Rightarrow> string \<Rightarrow> bool" where
  "anchored E a n h \<longleftrightarrow>
     (\<forall>name \<in> fst ` set (a_files a). name = ''initialized'' \<or> (\<exists>k. 0 < k \<and> k \<le> n \<and> name = commit_name k)) \<and>
     (\<forall>enc. go_lookup (a_files a) ''initialized'' = Some enc \<longrightarrow>
        length enc \<le> 128 \<and> box_Open E (a_box a) enc ''initialized'' = Some ''v1'') \<and>
     (n > 0 \<longrightarrow> (\<exists>enc. go_lookup (a_files a) (commit_name n) = Some enc \<and> length enc \<le> 256 \<and>
        box_Open E (a_box a) enc (commit_name n) = Some h))"

definition seq_bound :: nat where
  "seq_bound = 1073741824"

lemma nat_digits_length: "n < 10 ^ k \<Longrightarrow> 0 < k \<Longrightarrow> length (nat_digits n) \<le> k"
proof (induction k arbitrary: n)
  case (Suc k)
  show ?case
  proof (cases "n < 10")
    case True
    then show ?thesis by (simp add: nat_digits.simps)
  next
    case False
    with Suc.prems have "0 < k" "n div 10 < 10 ^ k" by (cases k; auto simp: less_mult_imp_div_less)+
    with Suc.IH False show ?thesis by (subst nat_digits.simps) simp
  qed
qed simp

lemma commit_seq_name: "k \<le> seq_bound \<Longrightarrow> commit_seq (commit_name k) = Some k"
proof -
  assume k: "k \<le> seq_bound"
  then have "length (nat_digits k) \<le> 20" by (intro nat_digits_length) (simp_all add: seq_bound_def)
  then have len: "length (commit_name k) = 27" by (simp add: commit_name_def pad20_def)
  have ds: "drop 7 (commit_name k) = pad20 (nat_digits k)" by (simp add: commit_name_def)
  have "list_all is_digit (pad20 (nat_digits k))"
    using nat_digits_is_digit by (auto simp: pad20_def list_all_iff is_digit_def in_range_def)
  with k len ds show ?thesis by (simp add: commit_seq_def Let_def seq_bound_def)
qed

lemma commit_name_inject: "commit_name j = commit_name k \<longleftrightarrow> j = k"
proof
  assume "commit_name j = commit_name k"
  then have "digits_val (pad20 (nat_digits j)) = digits_val (pad20 (nat_digits k))"
    by (simp only: commit_name_def same_append_eq)
  then show "j = k" by simp
qed simp

lemma latest_loop_max:
  assumes "\<forall>name \<in> set names. name = ''initialized'' \<or> (\<exists>k. 0 < k \<and> k \<le> n \<and> name = commit_name k)"
    and "n \<le> seq_bound" "m \<le> n"
  shows "\<exists>l. latest_loop m names = Some l \<and> m \<le> l \<and> l \<le> n \<and> (n \<noteq> m \<longrightarrow> commit_name n \<in> set names \<longrightarrow> l = n)"
  using assms(1,3)
proof (induction names arbitrary: m)
  case (Cons name names)
  show ?case
  proof (cases "name = ''initialized''")
    case True
    then have "\<not> HasPrefix name ''commit-''" "name \<noteq> commit_name n"
      by (simp_all add: HasPrefix_def commit_name_def)
    with Cons show ?thesis by auto
  next
    case False
    with Cons.prems obtain k where k: "k \<le> n" "name = commit_name k" by auto
    then have "HasPrefix name ''commit-''" "commit_seq name = Some k"
      using commit_seq_name [of k] assms(2) by (simp_all add: HasPrefix_def commit_name_def)
    with Cons.IH [of "if k > m then k else m"] Cons.prems k show ?thesis
      by (auto simp: commit_name_inject split: if_splits)
  qed
qed simp

lemma is_hex_char: "is_hex (hex_char d)"
proof -
  have "list_all is_hex ''0123456789abcdef''"
    by (simp add: is_hex_def is_digit_def in_range_def)
  moreover have "hex_char d \<in> set ''0123456789abcdef''"
    unfolding hex_char_def by (rule nth_mem) simp
  ultimately show ?thesis by (simp only: list_all_iff)
qed

lemma hex_encode_is_hex: "list_all is_hex (hex_encode s)"
  using is_hex_char by (auto simp: hex_encode_def hex_byte_def list_all_iff)

lemma pop_io_Nil [simp]: "pop_io [] = (IoOk, [])"
  by (simp add: pop_io_def)

lemma anchored_latest:
  assumes "anchored E a n h" "n \<le> seq_bound" "a_io a = []" "n > 0 \<Longrightarrow> length h = 64 \<and> list_all is_hex h"
  shows "anchor_latest E a = (a, Inr (n, if n > 0 then h else []))"
proof -
  have same: "a\<lparr>a_io := []\<rparr> = a" using assms(3) by simp
  from latest_loop_max [of "map fst (a_files a)" n 0] assms(1,2) obtain l where
    l: "latest_loop 0 (map fst (a_files a)) = Some l" "l \<le> n"
      "n \<noteq> 0 \<longrightarrow> commit_name n \<in> set (map fst (a_files a)) \<longrightarrow> l = n"
    by (auto simp: anchored_def)
  show ?thesis
  proof (cases "n = 0")
    case True
    with l assms(3) same show ?thesis by (simp add: anchor_latest_def)
  next
    case False
    with assms(1) obtain enc where enc: "go_lookup (a_files a) (commit_name n) = Some enc" "length enc \<le> 256"
      "box_Open E (a_box a) enc (commit_name n) = Some h" by (auto simp: anchored_def)
    then have "l = n" using l False by (force dest: go_lookup_in)
    with enc l False assms(3,4) same show ?thesis by (simp add: anchor_latest_def securefs_Read_def)
  qed
qed

lemma anchored_initialized:
  assumes "anchored E a n h" "a_io a = []"
  shows "anchor_initialized E a = (a, Inr (go_lookup (a_files a) ''initialized'' \<noteq> None))"
  using assms by (cases "go_lookup (a_files a) ''initialized''")
    (auto simp: anchor_initialized_def securefs_Read_def anchored_def)

lemma markInitialized_clean:
  "a_io a = [] \<Longrightarrow> go_lookup (a_files a) ''initialized'' = None \<Longrightarrow> \<exists>a'. anchor_markInitialized E a = (a', True)"
  by (simp add: anchor_markInitialized_def anchor_create_def Let_def)

lemma anchor_create_ok:
  assumes "anchor_create E a name plain = (a', True)"
  shows "a_box a' = a_box a \<and> go_lookup (a_files a) name = None \<and>
    a_files a' = go_update name (box_Seal E (a_box a) (nonces E (a_rng a)) plain name) (a_files a)"
  using assms by (auto simp: anchor_create_def Let_def split: prod.splits io.splits if_splits)

lemma anchor_commit_anchored:
  assumes E: "env_ok E" and anc: "anchored E a n h" and h: "length h' = 64" and m: "n < m"
    and step: "anchor_commit E a m h' = (a', True)"
  shows "anchored E a' m h' \<and> a_box a' = a_box a"
proof -
  note c = anchor_create_ok [OF step [unfolded anchor_commit_def]]
  have ne: "commit_name m \<noteq> ''initialized''" by (simp add: commit_name_def)
  have keys: "fst ` set (a_files a') = insert (commit_name m) (fst ` set (a_files a))"
    using c by (auto simp: gomap_simps dom_def simp flip: dom_map_of_conv_image_fst)
  have gcm: "gcm_ok E" "length (nonces E k) = 12" for k using E by (simp_all add: env_ok_def)
  have old: "name = ''initialized'' \<or> (\<exists>k. 0 < k \<and> k \<le> m \<and> name = commit_name k)"
    if "name \<in> fst ` set (a_files a)" for name
  proof -
    from anc that have "name = ''initialized'' \<or> (\<exists>k. 0 < k \<and> k \<le> n \<and> name = commit_name k)"
      unfolding anchored_def by blast
    then show ?thesis
    proof (elim disjE exE conjE)
      fix k
      assume "0 < k" "k \<le> n" "name = commit_name k"
      with m show ?thesis by (intro disjI2 exI [of _ k]) simp
    qed simp
  qed
  have ini: "length enc \<le> 128 \<and> box_Open E (a_box a) enc ''initialized'' = Some ''v1''"
    if "go_lookup (a_files a) ''initialized'' = Some enc" for enc
    using anc that unfolding anchored_def by blast
  have new: "go_lookup (a_files a') (commit_name m) = Some (box_Seal E (a_box a) (nonces E (a_rng a)) h' (commit_name m))"
    "go_lookup (a_files a') ''initialized'' = go_lookup (a_files a) ''initialized''"
    using c ne by (simp_all add: gomap_simps)
  have "0 < m" using m by simp
  then show ?thesis
    unfolding anchored_def keys new using old ini c gcm h by auto
qed

section \<open>Recovery of a lost primary\<close>

abbreviation refits :: "'a journal_env_scheme \<Rightarrow> nat \<Rightarrow> Record list \<Rightarrow> bool" where
  "refits E limit rs \<equiv> sum_list (map (frame_size E) rs) \<le> limit"

lemma chained_last:
  "chained E p rs h \<Longrightarrow> rs \<noteq> [] \<Longrightarrow> record_hash E (json_record E (rs ! (length rs - 1))) = h"
  by (induction rs arbitrary: p) (auto simp: nth_Cons' split: if_splits)

lemma Open_empty:
  assumes "length key = 32" "usable_limit limit"
  shows "Open E (intact_dir []) key limit [] rng =
    Inr (Journal \<lparr>j_seq = 0, j_prev = [], j_size = 0, j_records = [], j_offsets = [], j_legacy = False,
      j_file = Some [], j_lock = True, j_box = key, j_limit = limit, j_poisoned = False, j_io = [], j_rng = rng\<rparr> None None)"
  using assms by (simp add: Open_def usable_limit_def seal_New_def empty_ledger_def Ledger.defs io_next_def)

lemma primary_loss_core:
  assumes E: "env_ok E" and ok: "journal_ok E rc" and key: "length (j_box rc) = 32" "length pkey = 32"
    and lim: "usable_limit (j_limit rc)" and fits: "refits E (j_limit rc) (j_records rc)"
    and anc: "anchored E a (j_seq rc) (j_prev rc)" and io: "a_io a = []"
    and hex: "j_records rc \<noteq> [] \<Longrightarrow> length (j_prev rc) = 64 \<and> list_all is_hex (j_prev rc)"
  shows "\<exists>K. openReplicated E (intact_dir []) (intact_dir (the (j_file rc))) pkey (j_box rc) (j_limit rc)
      [] rngP [] rngR (Some a) = Inr K \<and> Records K = j_records rc \<and> journal_Healthy K \<and>
      j_prev (j_core K) = j_prev rc"
proof -
  from Open_synced [OF E ok key(1) lim, of rngR] obtain R where
    R: "Open E (intact_dir (the (j_file rc))) (j_box rc) (j_limit rc) [] rngR = Inr R"
      "j_records (j_core R) = j_records rc" "j_prev (j_core R) = j_prev rc" "journal_ok E (j_core R)"
      "j_seq (j_core R) = j_seq rc"
    by (auto simp: Records_def)
  define p where "p = \<lparr>j_seq = 0, j_prev = [], j_size = 0, j_records = [], j_offsets = [], j_legacy = False,
      j_file = Some [], j_lock = True, j_box = pkey, j_limit = j_limit rc, j_poisoned = False, j_io = [], j_rng = rngP\<rparr>"
  have P: "Open E (intact_dir []) pkey (j_limit rc) [] rngP = Inr (Journal p None None)"
    unfolding p_def by (rule Open_empty [OF key(2) lim])
  have okp: "journal_ok E p"
    by (auto simp: p_def journal_ok_def synced_def Ledger.truncate_def empty_ledger_def bounded_records_def)
  have facts: "j_seq rc = length (j_records rc)" "numbered 0 (j_records rc)" "bounded_records E (j_records rc)"
    "chained E [] (j_records rc) (j_prev rc)" "32 * length (j_records rc) \<le> j_limit rc"
    using ok synced_facts [of E rc] by (auto simp: journal_ok_def)
  have bound: "j_seq rc \<le> seq_bound" using facts(1,5) lim by (simp add: usable_limit_def seq_bound_def)
  have la: "anchor_latest E a = (a, Inr (j_seq rc, if j_seq rc > 0 then j_prev rc else []))"
    using anchored_latest [OF anc bound io] hex facts(1) by simp
  note ini = anchored_initialized [OF anc io]
  have hash: "0 < j_seq rc \<longrightarrow> record_hash E (json_record E (j_records rc ! (j_seq rc - 1))) = j_prev rc"
    using chained_last [OF facts(4)] facts(1) by auto
  have "\<exists>a'. anchor_stage E a p (j_core R) = Inr (p, j_core R, a')"
    using la ini markInitialized_clean [OF io, of E] hash R facts(1)
    by (cases "go_lookup (a_files a) ''initialized''")
      (auto simp: anchor_stage_def p_def cut_to_def)
  then obtain a' where stage: "anchor_stage E a p (j_core R) = Inr (p, j_core R, a')" by blast
  from replay_missing_clean [OF E okp, of "j_records rc" "j_prev rc"] facts fits obtain c' where
    c': "replay_missing E (Journal p None None) (j_records rc) = (Journal c' None None, Inr ())"
      "journal_ok E c'" "\<not> j_poisoned c'" "j_records c' = j_records rc"
    by (auto simp: p_def)
  have prev: "j_prev c' = j_prev rc"
    using c'(2,4) facts(4) by (cases "j_records rc" rule: rev_cases) (auto simp: journal_ok_def chained_snoc)
  have "j_file c' \<noteq> None" using c'(2) by (auto simp: journal_ok_def synced_def)
  with R P stage c' prev show ?thesis
    by (simp add: openReplicated_def validPrefix_def Records_def journal_Healthy_def p_def)
qed

section \<open>Acknowledged records are replicated\<close>

text \<open>The state between two appends: the replica holds the same records and the anchor names the
  last of them.\<close>

definition replicated :: "'a journal_env_scheme \<Rightarrow> JCore \<Rightarrow> JCore \<Rightarrow> Anchor \<Rightarrow> bool" where
  "replicated E c rc a \<longleftrightarrow> journal_ok E c \<and> journal_ok E rc \<and> j_records rc = j_records c \<and>
     anchored E a (j_seq c) (j_prev c)"

lemma journal_ok_prev:
  assumes "journal_ok E c" "journal_ok E d" "j_records c = j_records d"
  shows "j_prev c = j_prev d" "j_seq c = j_seq d"
  using assms synced_facts(2) [of E]
  by (cases "j_records d" rule: rev_cases; auto simp: journal_ok_def chained_snoc)+

lemma record_hash_hex: "sha_ok E \<Longrightarrow> length (record_hash E p) = 64 \<and> list_all is_hex (record_hash E p)"
  by (simp add: record_hash_def sha_ok_def hex_encode_is_hex)

lemma Append_replicated:
  assumes E: "env_ok E" "sha_ok E" and rep: "replicated E c rc a"
    and step: "Append E kind raw (Journal c (Some (Journal rc None None)) (Some a)) = (J', Inr n)"
  obtains c' rc' a' where "J' = Journal c' (Some (Journal rc' None None)) (Some a')" "replicated E c' rc' a'"
    "j_records c' = j_records c @ [next_record c kind raw]" "j_box rc' = j_box rc" "j_limit rc' = j_limit rc"
    "a_box a' = a_box a"
proof -
  let ?r = "next_record c kind raw"
  obtain c' rec' anc' where J': "J' = Journal c' rec' anc'" by (cases J')
  obtain rj x where ra: "Append E kind raw (Journal rc None None) = (rj, x)" by fastforce
  obtain a' b where an: "anchor_commit E a (Suc (j_seq c)) (record_hash E (json_record E ?r)) = (a', b)" by fastforce
  from step ra an have parts: "rec' = Some rj" "anc' = Some a'" "b" "\<exists>m. x = Inr m"
    unfolding J'
    by (auto simp: Append.simps next_record_def Let_def split: if_splits prod.splits sum.splits bool.splits)
  obtain rc' rr ra' where rj: "rj = Journal rc' rr ra'" by (cases rj)
  from ra parts(4) rj have none: "rr = None" "ra' = None"
    by (auto simp: Append.simps Let_def split: if_splits prod.splits sum.splits bool.splits)
  from rep have ok: "journal_ok E c" "journal_ok E rc" "j_records rc = j_records c" by (auto simp: replicated_def)
  note same = journal_ok_prev [OF ok(2,1,3)]
  from Append_core [OF E(1) ok(1) step [unfolded J']] have c': "journal_ok E c'" "j_seq c' = Suc (j_seq c)"
    "j_records c' = j_records c @ [?r]" by simp_all
  from parts(4) ra rj none Append_core [OF E(1) ok(2)] have rc': "journal_ok E rc'"
    "j_records rc' = j_records rc @ [next_record rc kind raw]" "j_box rc' = j_box rc" "j_limit rc' = j_limit rc"
    by fastforce+
  have nr: "next_record rc kind raw = ?r" using same by (simp add: next_record_def)
  have prev: "j_prev c' = record_hash E (json_record E ?r)" using c' by (simp add: journal_ok_def chained_snoc)
  from anchor_commit_anchored [OF E(1) _ _ lessI, of a "j_seq c" "j_prev c"] an parts(3) rep
    record_hash_hex [OF E(2)] c'(2) prev
  have "anchored E a' (j_seq c') (j_prev c')" "a_box a' = a_box a" by (auto simp: replicated_def)
  then show thesis
    using that [of c' rc' a'] J' parts rj none c' rc' ok(3) nr by (simp add: replicated_def)
qed

lemma replicated_reopens:
  assumes E: "env_ok E" "sha_ok E" and rep: "replicated E c rc a" and key: "length (j_box rc) = 32" "length pkey = 32"
    and lim: "usable_limit (j_limit rc)" and fits: "refits E (j_limit rc) (j_records c)"
    and box: "a_box a = Derive E (j_box rc) ''journal-anchor''" "length (a_box a) = 32"
  shows "\<exists>K. OpenReplicatedAnchored E (intact_dir []) (intact_dir (the (j_file rc))) True (a_files a)
      pkey (j_box rc) (j_limit rc) [] rngP [] rngR [] rngA = Inr K \<and> Records K = j_records c \<and>
      journal_Healthy K \<and> j_prev (j_core K) = j_prev c"
proof -
  from rep have ok: "journal_ok E c" "journal_ok E rc" "j_records rc = j_records c" by (auto simp: replicated_def)
  note same = journal_ok_prev [OF ok(2,1,3)]
  let ?a = "\<lparr>a_box = a_box a, a_files = a_files a, a_io = [], a_rng = rngA\<rparr>"
  have anc: "anchored E ?a (j_seq rc) (j_prev rc)"
    using rep same by (simp add: replicated_def anchored_def)
  have hex: "j_records rc \<noteq> [] \<Longrightarrow> length (j_prev rc) = 64 \<and> list_all is_hex (j_prev rc)"
    using ok(2) record_hash_hex [OF E(2)]
    by (cases "j_records rc" rule: rev_cases) (auto simp: journal_ok_def chained_snoc)
  from primary_loss_core [OF E(1) ok(2) key lim _ anc _ hex, of rngP rngR] fits ok same box show ?thesis
    by (auto simp: OpenReplicatedAnchored_def seal_New_def)
qed

text \<open>An environment with hashes and derived keys of the right length.\<close>

definition fixed_env :: journal_env where
  "fixed_env = demo_env\<lparr>sha256 := \<lambda>x. replicate 32 CHR ''#'', hmac_sha256 := \<lambda>k m. replicate 32 CHR ''h''\<rparr>"

lemma fixed_env_ok: "env_ok fixed_env" "sha_ok fixed_env"
  by (simp_all add: fixed_env_def env_ok_def gcm_ok_def demo_env_def demo_parse_json sha_ok_def)

definition fresh_anchor :: Anchor where
  "fresh_anchor = \<lparr>a_box = replicate 32 CHR ''h'', a_files = [], a_io = [], a_rng = 0\<rparr>"

lemma fixed_core_ok: "journal_ok fixed_env demo_core"
  by (auto simp: journal_ok_def synced_def demo_core_def empty_ledger_def Ledger.truncate_def bounded_records_def)

lemma fixed_replicated: "replicated fixed_env demo_core demo_core fresh_anchor"
  using fixed_core_ok by (simp add: replicated_def anchored_def fresh_anchor_def demo_core_def)

lemma fixed_append:
  "\<exists>c' rc' a'. Append fixed_env ''m'' ''1'' (Journal demo_core (Some (Journal demo_core None None)) (Some fresh_anchor)) =
     (Journal c' (Some (Journal rc' None None)) (Some a'), Inr 1) \<and> refits fixed_env 1048576 (j_records c')"
  by (simp add: Append.simps reserve_def frame_def demo_core_def io_next_def fixed_env_def demo_env_def demo_json_def
      MaxRecord_def nat_digits.simps write_frame_def box_Seal_def Let_def put_u32_def anchor_commit_def anchor_create_def
      fresh_anchor_def accept_def frame_size_def)

lemma fixed_reopens:
  "\<exists>(rc' :: JCore) (a' :: Anchor) K. OpenReplicatedAnchored fixed_env (intact_dir []) (intact_dir (the (j_file rc'))) True (a_files a')
      (replicate 32 CHR ''p'') demo_key 1048576 [] 0 [] 0 [] 0 = Inr K \<and> length (Records K) = 1"
proof -
  from fixed_append obtain c' rc' a' where a: "Append fixed_env ''m'' ''1'' (Journal demo_core (Some (Journal demo_core None None)) (Some fresh_anchor)) =
     (Journal c' (Some (Journal rc' None None)) (Some a'), Inr 1)" "refits fixed_env 1048576 (j_records c')"
    by blast
  have r0: "replicated fixed_env c' rc' a'" "j_records c' = j_records demo_core @ [next_record demo_core ''m'' ''1'']"
    "j_box rc' = j_box demo_core" "j_limit rc' = j_limit demo_core" "a_box a' = a_box fresh_anchor"
    by (rule Append_replicated [OF fixed_env_ok fixed_replicated a(1)]; simp)+
  have r: "replicated fixed_env c' rc' a'" "length (j_records c') = 1" "j_box rc' = demo_key" "j_limit rc' = 1048576"
    "a_box a' = a_box fresh_anchor" using r0 by (simp_all add: demo_core_def)
  have hyps: "length demo_key = 32" "length (replicate 32 CHR ''p'') = 32" "usable_limit 1048576"
    "a_box fresh_anchor = Derive fixed_env demo_key ''journal-anchor''" "length (a_box fresh_anchor) = 32"
    by (simp_all add: demo_key_def usable_limit_def MaxRecord_def fresh_anchor_def fixed_env_def Derive_def)
  from replicated_reopens [OF fixed_env_ok r(1), unfolded r(3,4,5), OF hyps(1,2,3) a(2) hyps(4,5), of 0 0 0]
  obtain K where "OpenReplicatedAnchored fixed_env (intact_dir []) (intact_dir (the (j_file rc'))) True (a_files a')
      (replicate 32 CHR ''p'') demo_key 1048576 [] 0 [] 0 [] 0 = Inr K" "Records K = j_records c'"
    by (elim exE conjE) (rule that)
  then show ?thesis using r(2) by (intro exI [of _ rc'] exI [of _ a'] exI [of _ K]) simp
qed

section \<open>Properties\<close>

text \<open>
  C24: A replicated open is pinned to the anchor: it succeeds only when the recovery ledger
  reaches the last committed sequence number and the record there has the committed hash, so
  a rolled back or swapped recovery ledger is refused. What it then serves is exactly the
  committed history: what was written after the commit but never acknowledged is dropped, in
  both ledgers, and a lagging or lost primary is completed.
\<close>

theorem open_is_pinned_to_anchor:
  assumes "OpenReplicatedAnchored E primaryDir recoveryDir secure files primaryKey recoveryKey limit
      iosP rngP iosR rngR iosA rngA = Inr J"
  shows "\<exists>R a1 n h. Open E recoveryDir recoveryKey limit iosR rngR = Inr R \<and>
    anchor_latest E \<lparr>a_box = Derive E recoveryKey ''journal-anchor'', a_files = files, a_io = iosA, a_rng = rngA\<rparr>
      = (a1, Inr (n, h)) \<and> n \<le> length (Records R) \<and>
    (n > 0 \<longrightarrow> record_hash E (json_record E (Records R ! (n - 1))) = h) \<and>
    map entry (Records J) = map entry (take n (Records R)) \<and> j_seq (j_core J) = n"
proof -
  let ?a = "\<lparr>a_box = Derive E recoveryKey ''journal-anchor'', a_files = files, a_io = iosA, a_rng = rngA\<rparr>"
  from assms obtain R P where R: "Open E recoveryDir recoveryKey limit iosR rngR = Inr R"
    and P: "Open E primaryDir primaryKey limit iosP rngP = Inr P"
    by (auto simp: OpenReplicatedAnchored_def openReplicated_def seal_New_def split: if_splits sum.splits)
  from assms R P obtain p r a' where stage: "anchor_stage E ?a (j_core P) (j_core R) = Inr (p, r, a')"
    by (auto simp: OpenReplicatedAnchored_def openReplicated_def seal_New_def split: if_splits sum.splits)
  from assms R P stage obtain P' where vp: "validPrefix (j_records p) (j_records r)"
    and go: "replay_missing E (Journal p None None) (j_records r) = (P', Inr ())"
    and J: "J = Journal (j_core P') (Some (Journal r None None)) (Some a')"
    by (auto simp: OpenReplicatedAnchored_def openReplicated_def seal_New_def split: if_splits sum.splits prod.splits)
  note len = Open_length [OF P, unfolded Records_def] Open_length [OF R, unfolded Records_def]
  from anchor_stage_accepted [OF stage len, folded Records_def] obtain a1 n h where st:
    "anchor_latest E ?a = (a1, Inr (n, h))" "n \<le> length (Records R)" "j_records r = take n (Records R)"
    "j_seq p = length (j_records p)" "n > 0 \<longrightarrow> record_hash E (json_record E (Records R ! (n - 1))) = h"
    by (elim exE conjE) (rule that)
  from Open_records [OF R] obtain l where l: "open_loop E recoveryKey empty_ledger (ld_bytes recoveryDir) = Inr l"
    "Records R = j_records l" by blast
  from open_loop_numbered [OF l(1)] l(2) have "numbered 0 (Records R)" by (auto simp: empty_ledger_def)
  then have num: "numbered 0 (j_records r)"
    using st(3) numbered_append [of 0 "take n (Records R)" "drop n (Records R)"] by simp
  obtain c' rc' ac' where P': "P' = Journal c' rc' ac'" by (cases P')
  from vp have vp': "length (j_records p) \<le> length (j_records r)" "take (length (j_records p)) (j_records r) = j_records p"
    by (auto simp: validPrefix_def list.rel_eq)
  from replay_missing_records [OF go [unfolded P'] num] st(4) vp'
  have "map entry (j_records c') = map entry (j_records p) @ map entry (drop (length (j_records p)) (j_records r))"
    "j_seq c' = length (j_records r)" by auto
  moreover have "map entry (j_records p) @ map entry (drop (length (j_records p)) (j_records r)) = map entry (j_records r)"
    using append_take_drop_id [of "length (j_records p)" "j_records r"] vp'(2) by (simp flip: map_append)
  ultimately have "map entry (Records J) = map entry (take n (Records R))" "j_seq (j_core J) = n"
    using J P' st(2,3) by (simp_all add: Records_def)
  with R st(1,2,5) show ?thesis by blast
qed

theorem open_is_pinned_to_anchor_witness:
  "\<exists>(rc' :: JCore) (a' :: Anchor) K R a1 h. OpenReplicatedAnchored fixed_env (intact_dir []) (intact_dir (the (j_file rc'))) True (a_files a')
      (replicate 32 CHR ''p'') demo_key 1048576 [] 0 [] 0 [] 0 = Inr K \<and>
    anchor_latest fixed_env \<lparr>a_box = Derive fixed_env demo_key ''journal-anchor'', a_files = a_files a', a_io = [], a_rng = 0\<rparr>
      = (a1, Inr (1, h)) \<and> record_hash fixed_env (json_record fixed_env (Records R ! 0)) = h \<and>
    map entry (Records K) = map entry (take 1 (Records R))"
proof -
  from fixed_reopens obtain rc' :: JCore and a' :: Anchor and K where
    o: "OpenReplicatedAnchored fixed_env (intact_dir []) (intact_dir (the (j_file rc'))) True (a_files a')
      (replicate 32 CHR ''p'') demo_key 1048576 [] 0 [] 0 [] 0 = Inr K" "length (Records K) = 1" by blast
  from open_is_pinned_to_anchor [OF o(1)] obtain R a1 n h where
    r: "anchor_latest fixed_env \<lparr>a_box = Derive fixed_env demo_key ''journal-anchor'', a_files = a_files a', a_io = [], a_rng = 0\<rparr>
      = (a1, Inr (n, h))" "n \<le> length (Records R)" "n > 0 \<longrightarrow> record_hash fixed_env (json_record fixed_env (Records R ! (n - 1))) = h"
    "map entry (Records K) = map entry (take n (Records R))" by blast
  from arg_cong [where f = length, OF r(4)] o(2) r(2) have "n = 1" by simp
  with o r show ?thesis
    by (intro exI [of _ rc'] exI [of _ a'] exI [of _ K] exI [of _ R] exI [of _ a1] exI [of _ h]) simp
qed

text \<open>
  C10: Acknowledged records survive the loss of the primary. Once a replicated journal has
  acknowledged an append, destroying its primary ledger loses nothing: opening the recovery
  ledger and the anchor with an empty primary directory rebuilds a healthy journal with every
  earlier record and the new one.
\<close>

theorem acknowledged_survives_primary_loss:
  assumes "env_ok E" and "sha_ok E" and "replicated E c rc a"
    and "Append E kind raw (Journal c (Some (Journal rc None None)) (Some a)) =
      (Journal c' (Some (Journal rc' None None)) (Some a'), Inr n)"
    and "length (j_box rc) = 32" and "length pkey = 32" and "usable_limit (j_limit rc)"
    and "a_box a = Derive E (j_box rc) ''journal-anchor''" and "length (a_box a) = 32"
    and "refits E (j_limit rc) (j_records c')"
  shows "\<exists>K. OpenReplicatedAnchored E (intact_dir []) (intact_dir (the (j_file rc'))) True (a_files a')
      pkey (j_box rc) (j_limit rc) [] rngP [] rngR [] rngA = Inr K \<and> journal_Healthy K \<and>
    Records K = j_records c @ [\<lparr>rec_Sequence = j_seq c + 1, rec_Previous = j_prev c, rec_Kind = kind, rec_Data = raw\<rparr>]"
proof -
  from Append_replicated [OF assms(1-4)] have
    r: "replicated E c' rc' a'" "j_records c' = j_records c @ [next_record c kind raw]" "j_box rc' = j_box rc"
      "j_limit rc' = j_limit rc" "a_box a' = a_box a" by auto
  from replicated_reopens [OF assms(1,2) r(1), of pkey rngP rngR rngA] assms(5-10) r show ?thesis
    by (auto simp: next_record_def)
qed

theorem acknowledged_survives_primary_loss_witness:
  "\<exists>(rc' :: JCore) (a' :: Anchor) K. OpenReplicatedAnchored fixed_env (intact_dir []) (intact_dir (the (j_file rc'))) True (a_files a')
      (replicate 32 CHR ''p'') demo_key 1048576 [] 0 [] 0 [] 0 = Inr K \<and> journal_Healthy K \<and>
    Records K = [\<lparr>rec_Sequence = 1, rec_Previous = [], rec_Kind = ''m'', rec_Data = ''1''\<rparr>]"
proof -
  from fixed_append obtain c' rc' a' where a: "Append fixed_env ''m'' ''1'' (Journal demo_core (Some (Journal demo_core None None)) (Some fresh_anchor)) =
     (Journal c' (Some (Journal rc' None None)) (Some a'), Inr 1)" "refits fixed_env 1048576 (j_records c')"
    by blast
  note rec = acknowledged_survives_primary_loss [OF fixed_env_ok fixed_replicated a(1), of "replicate 32 CHR ''p''" 0 0 0]
  have core: "j_box demo_core = demo_key" "j_limit demo_core = 1048576" "j_records demo_core = []"
    "j_prev demo_core = []" "j_seq demo_core = 0" by (simp_all add: demo_core_def)
  have hyps: "length demo_key = 32" "length (replicate 32 CHR ''p'') = 32" "usable_limit 1048576"
    "a_box fresh_anchor = Derive fixed_env demo_key ''journal-anchor''" "length (a_box fresh_anchor) = 32"
    by (simp_all add: demo_key_def usable_limit_def MaxRecord_def fresh_anchor_def fixed_env_def Derive_def)
  from rec [unfolded core, OF hyps a(2)] obtain K where
    "OpenReplicatedAnchored fixed_env (intact_dir []) (intact_dir (the (j_file rc'))) True (a_files a')
      (replicate 32 CHR ''p'') demo_key 1048576 [] 0 [] 0 [] 0 = Inr K" "journal_Healthy K"
    "Records K = [\<lparr>rec_Sequence = 0 + 1, rec_Previous = [], rec_Kind = ''m'', rec_Data = ''1''\<rparr>]" by auto
  then show ?thesis by (intro exI [of _ rc'] exI [of _ a'] exI [of _ K]) simp
qed

text \<open>
  Seeding. On working disks \<^verbatim>\<open>SeedReplicatedFromOpen\<close> into an empty recovery directory
  succeeds for a primary whose records fit, and the replica alone then gives back exactly the
  primary's history.
\<close>

theorem seeded_replica_restores_primary:
  assumes "env_ok E" and "sha_ok E" and "journal_ok E c"
    and "length rkey = 32" and "length pkey = 32" and "usable_limit limit"
    and "length (Derive E rkey ''journal-anchor'') = 32"
    and "refits E limit (j_records c)"
  shows "\<exists>disk files K. SeedReplicatedFromOpen E c (intact_dir []) True [] rkey limit [] rngR [] rngA = (disk, files, Inr ()) \<and>
    OpenReplicatedAnchored E (intact_dir []) (intact_dir disk) True files pkey rkey limit [] rngP [] rngR' [] rngA' = Inr K \<and>
    Records K = j_records c"
proof -
  let ?box = "Derive E rkey ''journal-anchor''"
  let ?a = "\<lparr>a_box = ?box, a_files = [], a_io = [], a_rng = rngA\<rparr>"
  define r0 where "r0 = \<lparr>j_seq = 0, j_prev = [], j_size = 0, j_records = [], j_offsets = [], j_legacy = False,
      j_file = Some [], j_lock = True, j_box = rkey, j_limit = limit, j_poisoned = False, j_io = [], j_rng = rngR\<rparr>"
  have R: "Open E (intact_dir []) rkey limit [] rngR = Inr (Journal r0 None None)"
    unfolding r0_def by (rule Open_empty [OF assms(4,6)])
  have ok0: "journal_ok E r0" and io0: "\<not> j_poisoned r0" "j_io r0 = []" "j_prev r0 = []" "j_seq r0 = 0" "j_records r0 = []"
    "j_size r0 = 0" "j_limit r0 = limit" "j_box r0 = rkey"
    by (auto simp: r0_def journal_ok_def synced_def Ledger.truncate_def empty_ledger_def bounded_records_def)
  have facts: "j_seq c = length (j_records c)" "numbered 0 (j_records c)" "bounded_records E (j_records c)"
    "chained E [] (j_records c) (j_prev c)"
    using assms(3) synced_facts [of E c] by (auto simp: journal_ok_def)
  from replay_missing_clean [OF assms(1) ok0 io0(1,2), of "j_records c" "j_prev c"] io0 facts assms(8) obtain rc where
    "replay_missing E (Journal r0 None None) (j_records c) = (Journal rc None None, Inr ())"
    and rc: "journal_ok E rc" "j_records rc = j_records c"
    by auto
  with seed_append_replay [of r0 "j_records c" E None None] facts io0 have
    seed: "seed_append E (Journal r0 None None) (j_records c) = (Journal rc None None, Inr ())" by simp
  note box = seed_append_core [OF assms(1) ok0 seed]
  have anc0: "anchored E ?a 0 []" by (simp add: anchored_def)
  note la = anchored_latest [OF anc0]
  obtain a2 b where cm: "anchor_commit E ?a (j_seq c) (j_prev c) = (a2, b)" by fastforce
  then have b: "b" by (auto simp: anchor_commit_def anchor_create_def Let_def)
  let ?files = "if j_seq c > 0 then a_files a2 else []"
  let ?a2 = "\<lparr>a_box = ?box, a_files = ?files, a_io = [], a_rng = rngA'\<rparr>"
  have sd: "SeedReplicatedFromOpen E c (intact_dir []) True [] rkey limit [] rngR [] rngA = (the (j_file rc), ?files, Inr ())"
    using assms(7) R la seed cm b io0
    by (simp add: SeedReplicatedFromOpen_def seal_New_def validPrefix_def Records_def Let_def)
  have "anchored E ?a2 (j_seq c) (j_prev c)"
  proof (cases "j_seq c = 0")
    case True
    then show ?thesis by (simp add: anchored_def)
  next
    case False
    then have "length (j_prev c) = 64"
      using facts(1,4) record_hash_hex [OF assms(2)] by (cases "j_records c" rule: rev_cases) (auto simp: chained_snoc)
    from anchor_commit_anchored [OF assms(1) anc0 this, of "j_seq c" a2] cm b False show ?thesis
      by (auto simp: anchored_def)
  qed
  then have "replicated E c rc ?a2" using assms(3) rc by (simp add: replicated_def)
  from replicated_reopens [OF assms(1,2) this, of pkey rngP rngR' rngA'] assms box io0 obtain K where
    "OpenReplicatedAnchored E (intact_dir []) (intact_dir (the (j_file rc))) True ?files pkey rkey limit [] rngP [] rngR' [] rngA' = Inr K"
    "Records K = j_records c" by auto
  with sd show ?thesis by blast
qed

theorem seeded_replica_restores_primary_witness:
  "\<exists>c disk files K. j_records c \<noteq> [] \<and>
    SeedReplicatedFromOpen fixed_env c (intact_dir []) True [] demo_key 1048576 [] 0 [] 0 = (disk, files, Inr ()) \<and>
    OpenReplicatedAnchored fixed_env (intact_dir []) (intact_dir disk) True files (replicate 32 CHR ''p'') demo_key
      1048576 [] 0 [] 0 [] 0 = Inr K \<and> Records K = j_records c"
proof -
  from fixed_append obtain c' rc' a' where a: "Append fixed_env ''m'' ''1'' (Journal demo_core (Some (Journal demo_core None None)) (Some fresh_anchor)) =
     (Journal c' (Some (Journal rc' None None)) (Some a'), Inr 1)" "refits fixed_env 1048576 (j_records c')"
    by blast
  have c': "journal_ok fixed_env c'" "j_records c' \<noteq> []"
    using Append_core [OF fixed_env_ok(1) fixed_core_ok a(1)] by simp_all
  have hyps: "length demo_key = 32" "length (replicate 32 CHR ''p'') = 32" "usable_limit 1048576"
    "length (Derive fixed_env demo_key ''journal-anchor'') = 32"
    by (simp_all add: demo_key_def usable_limit_def MaxRecord_def fixed_env_def Derive_def)
  from seeded_replica_restores_primary [OF fixed_env_ok c'(1) hyps a(2), of 0 0 0 0 0] c'(2) show ?thesis
    by blast
qed

end
