(* ===== verification/Strict_Json.thy ===== *)
theory Strict_Json
  imports Journal
begin

text \<open>
  The strict JSON gate at the broker's trust boundaries
  (\<^verbatim>\<open>services/credential-broker/internal/strictjson/json.go\<close>): valid UTF-8, at most 32 levels of
  nesting, no duplicate key in any object and nothing after the value.

  \<^verbatim>\<open>utf8.Valid\<close> is written out. The tokenizer of \<^verbatim>\<open>encoding/json\<close> is a field of the environment:
  it gives the tokens of the input up to the first error, and whether the input ended there
  (\<^verbatim>\<open>io.EOF\<close>). \<^verbatim>\<open>d.Decode(dst)\<close> is a further argument, the typed decoder of the caller.
\<close>

section \<open>UTF-8\<close>

definition utf8_cont :: "char \<Rightarrow> bool" where
  "utf8_cont c \<longleftrightarrow> in_range (CHR 0x80) (CHR 0xBF) c"

fun utf8_valid :: "bytes \<Rightarrow> bool" where
  "utf8_valid [] \<longleftrightarrow> True"
| "utf8_valid (a # s) \<longleftrightarrow>
     (if in_range (CHR 0x00) (CHR 0x7F) a then utf8_valid s
      else case s of
        [] \<Rightarrow> False
      | b # s1 \<Rightarrow>
          if in_range (CHR 0xC2) (CHR 0xDF) a then utf8_cont b \<and> utf8_valid s1
          else case s1 of
            [] \<Rightarrow> False
          | c # s2 \<Rightarrow>
              if in_range (CHR 0xE0) (CHR 0xEF) a
              then (if a = CHR 0xE0 then in_range (CHR 0xA0) (CHR 0xBF) b
                    else if a = CHR 0xED then in_range (CHR 0x80) (CHR 0x9F) b
                    else utf8_cont b) \<and> utf8_cont c \<and> utf8_valid s2
              else case s2 of
                [] \<Rightarrow> False
              | d # s3 \<Rightarrow>
                  in_range (CHR 0xF0) (CHR 0xF4) a \<and>
                  (if a = CHR 0xF0 then in_range (CHR 0x90) (CHR 0xBF) b
                   else if a = CHR 0xF4 then in_range (CHR 0x80) (CHR 0x8F) b
                   else utf8_cont b) \<and> utf8_cont c \<and> utf8_cont d \<and> utf8_valid s3)"

section \<open>The token stream\<close>

datatype token = ObjOpen | ObjClose | ArrOpen | ArrClose | TStr string | TScalar bytes

record json_env = journal_env +
  json_tokens :: "bytes \<Rightarrow> token list \<times> bool"

text \<open>\<^verbatim>\<open>d.More()\<close>: another element before the closing delimiter.\<close>

fun More :: "token list \<Rightarrow> bool" where
  "More [] \<longleftrightarrow> False"
| "More (t # ts) \<longleftrightarrow> t \<noteq> ObjClose \<and> t \<noteq> ArrClose"

text \<open>\<^verbatim>\<open>value\<close> with its two loops; the result is the rest of the stream. The fuel bounds the
  recursion: every second call consumes a token, so twice the number of tokens is enough.\<close>

fun json_value :: "nat \<Rightarrow> nat \<Rightarrow> token list \<Rightarrow> token list option"
  and json_members :: "nat \<Rightarrow> nat \<Rightarrow> string list \<Rightarrow> token list \<Rightarrow> token list option"
  and json_elements :: "nat \<Rightarrow> nat \<Rightarrow> token list \<Rightarrow> token list option" where
  "json_value 0 depth ts = None"
| "json_value (Suc n) depth ts =
     (if depth > 32 then None
      else case ts of
        [] \<Rightarrow> None
      | t # ts' \<Rightarrow>
          (case t of
             ObjOpen \<Rightarrow> json_members n depth [] ts'
           | ArrOpen \<Rightarrow> json_elements n depth ts'
           | ObjClose \<Rightarrow> None
           | ArrClose \<Rightarrow> None
           | TStr _ \<Rightarrow> Some ts'
           | TScalar _ \<Rightarrow> Some ts'))"
| "json_members 0 depth seen ts = None"
| "json_members (Suc n) depth seen ts =
     (if More ts
      then (case ts of
              TStr s # ts' \<Rightarrow>
                if s \<in> set seen then None
                else (case json_value n (depth + 1) ts' of
                        None \<Rightarrow> None
                      | Some r \<Rightarrow> json_members n depth (s # seen) r)
            | _ \<Rightarrow> None)
      else (case ts of ObjClose # r \<Rightarrow> Some r | _ \<Rightarrow> None))"
| "json_elements 0 depth ts = None"
| "json_elements (Suc n) depth ts =
     (if More ts
      then (case json_value n (depth + 1) ts of
              None \<Rightarrow> None
            | Some r \<Rightarrow> json_elements n depth r)
      else (case ts of ArrClose # r \<Rightarrow> Some r | _ \<Rightarrow> None))"

definition strict_tokens :: "token list \<times> bool \<Rightarrow> bool" where
  "strict_tokens st = (json_value (2 * length (fst st) + 2) 0 (fst st) = Some [] \<and> snd st)"

definition strictjson_Valid :: "'a json_env_scheme \<Rightarrow> bytes \<Rightarrow> bool" where
  "strictjson_Valid E data \<longleftrightarrow> utf8_valid data \<and> strict_tokens (json_tokens E data)"

definition strictjson_Decode :: "'a json_env_scheme \<Rightarrow> (bytes \<Rightarrow> 'v option) \<Rightarrow> bytes \<Rightarrow> 'v option" where
  "strictjson_Decode E decode data =
     (if \<not> utf8_valid data then None
      else if \<not> strict_tokens (json_tokens E data) then None
      else decode data)"

section \<open>The reference: documents as trees\<close>

datatype json = JObj "(string \<times> json) list" | JArr "json list" | JStr string | JScalar bytes

fun flatten :: "json \<Rightarrow> token list"
  and flatten_members :: "(string \<times> json) list \<Rightarrow> token list"
  and flatten_list :: "json list \<Rightarrow> token list" where
  "flatten (JObj ms) = ObjOpen # flatten_members ms @ [ObjClose]"
| "flatten (JArr js) = ArrOpen # flatten_list js @ [ArrClose]"
| "flatten (JStr s) = [TStr s]"
| "flatten (JScalar b) = [TScalar b]"
| "flatten_members [] = []"
| "flatten_members ((k, j) # ms) = TStr k # flatten j @ flatten_members ms"
| "flatten_list [] = []"
| "flatten_list (j # js) = flatten j @ flatten_list js"

text \<open>A strict document below \<open>depth\<close> levels.\<close>

fun strict :: "nat \<Rightarrow> json \<Rightarrow> bool"
  and strict_members :: "nat \<Rightarrow> (string \<times> json) list \<Rightarrow> bool"
  and strict_list :: "nat \<Rightarrow> json list \<Rightarrow> bool" where
  "strict depth (JObj ms) \<longleftrightarrow> depth \<le> 32 \<and> distinct (map fst ms) \<and> strict_members (depth + 1) ms"
| "strict depth (JArr js) \<longleftrightarrow> depth \<le> 32 \<and> strict_list (depth + 1) js"
| "strict depth (JStr s) \<longleftrightarrow> depth \<le> 32"
| "strict depth (JScalar b) \<longleftrightarrow> depth \<le> 32"
| "strict_members depth [] \<longleftrightarrow> True"
| "strict_members depth ((k, j) # ms) \<longleftrightarrow> strict depth j \<and> strict_members depth ms"
| "strict_list depth [] \<longleftrightarrow> True"
| "strict_list depth (j # js) \<longleftrightarrow> strict depth j \<and> strict_list depth js"

section \<open>Soundness and completeness\<close>

lemma json_sound:
  "json_value n depth ts = Some r \<Longrightarrow> \<exists>j. ts = flatten j @ r \<and> strict depth j"
  "json_members n depth seen ts = Some r \<Longrightarrow>
     \<exists>ms. ts = flatten_members ms @ ObjClose # r \<and> strict_members (depth + 1) ms \<and>
          distinct (map fst ms) \<and> set (map fst ms) \<inter> set seen = {}"
  "json_elements n depth ts = Some r \<Longrightarrow>
     \<exists>js. ts = flatten_list js @ ArrClose # r \<and> strict_list (depth + 1) js"
proof (induction n depth ts and n depth seen ts and n depth ts arbitrary: r and r and r
    rule: json_value_json_members_json_elements.induct)
  case (2 n depth ts)
  then obtain t ts' where ts: "ts = t # ts'" and d: "depth \<le> 32"
    by (cases ts) (auto split: if_splits)
  show ?case
  proof (cases t)
    case ObjOpen
    with 2 ts d obtain ms where "ts' = flatten_members ms @ ObjClose # r" "strict_members (depth + 1) ms"
      "distinct (map fst ms)" by fastforce
    with ts d ObjOpen show ?thesis by (intro exI [of _ "JObj ms"]) simp
  next
    case ArrOpen
    with 2 ts d obtain js where "ts' = flatten_list js @ ArrClose # r" "strict_list (depth + 1) js" by fastforce
    with ts d ArrOpen show ?thesis by (intro exI [of _ "JArr js"]) simp
  next
    case (TStr s)
    with 2 ts d show ?thesis by (intro exI [of _ "JStr s"]) simp
  next
    case (TScalar b)
    with 2 ts d show ?thesis by (intro exI [of _ "JScalar b"]) simp
  qed (use 2 ts d in auto)
next
  case (4 n depth seen ts)
  show ?case
  proof (cases "More ts")
    case True
    with "4.prems" obtain s ts' r' where ts: "ts = TStr s # ts'" "s \<notin> set seen"
      and v: "json_value n (depth + 1) ts' = Some r'" and go: "json_members n depth (s # seen) r' = Some r"
      by (auto split: list.splits token.splits if_splits option.splits)
    from "4.IH"(1) [OF True ts(1) refl ts(2) v] obtain j where
      j: "ts' = flatten j @ r'" "strict (depth + 1) j" by blast
    from "4.IH"(2) [OF True ts(1) refl ts(2) v go] obtain ms where
      "r' = flatten_members ms @ ObjClose # r" "strict_members (depth + 1) ms"
      "distinct (map fst ms)" "set (map fst ms) \<inter> set (s # seen) = {}" by blast
    with j ts show ?thesis by (intro exI [of _ "(s, j) # ms"]) auto
  next
    case False
    with "4.prems" have "ts = ObjClose # r" by (auto split: list.splits token.splits)
    then show ?thesis by (intro exI [of _ "[]"]) simp
  qed
next
  case (6 n depth ts)
  show ?case
  proof (cases "More ts")
    case True
    with "6.prems" obtain r' where v: "json_value n (depth + 1) ts = Some r'"
      and go: "json_elements n depth r' = Some r" by (auto split: option.splits)
    from "6.IH"(1) [OF True v] obtain j where j: "ts = flatten j @ r'" "strict (depth + 1) j" by blast
    from "6.IH"(2) [OF True v go] obtain js where
      "r' = flatten_list js @ ArrClose # r" "strict_list (depth + 1) js" by blast
    with j show ?thesis by (intro exI [of _ "j # js"]) simp
  next
    case False
    with "6.prems" have "ts = ArrClose # r" by (auto split: list.splits token.splits)
    then show ?thesis by (intro exI [of _ "[]"]) simp
  qed
qed auto

lemma More_flatten [simp]: "More (flatten j @ r)"
  by (cases j) simp_all

lemma json_complete:
  "strict depth j \<Longrightarrow> 2 * length (flatten j) \<le> n + 1 \<Longrightarrow> json_value n depth (flatten j @ r) = Some r"
  "strict_members (depth' + 1) ms \<Longrightarrow> 2 * length (flatten_members ms) + 1 \<le> n \<Longrightarrow> distinct (map fst ms) \<Longrightarrow>
     set (map fst ms) \<inter> set seen = {} \<Longrightarrow>
     json_members n depth' seen (flatten_members ms @ ObjClose # r) = Some r"
  "strict_list (depth'' + 1) js \<Longrightarrow> 2 * length (flatten_list js) + 1 \<le> n \<Longrightarrow>
     json_elements n depth'' (flatten_list js @ ArrClose # r) = Some r"
proof (induction j and ms and js arbitrary: depth n r and depth' n seen r and depth'' n r
    rule: flatten_flatten_members_flatten_list.induct)
  case (1 ms)
  then obtain m where "n = Suc m" by (cases n) auto
  with 1 show ?case by simp
next
  case (2 js)
  then obtain m where "n = Suc m" by (cases n) auto
  with 2 show ?case by simp
next
  case (3 s)
  then obtain m where "n = Suc m" by (cases n) auto
  with 3 show ?case by simp
next
  case (4 b)
  then obtain m where "n = Suc m" by (cases n) auto
  with 4 show ?case by simp
next
  case 5
  then obtain m where "n = Suc m" by (cases n) auto
  then show ?case by simp
next
  case (6 k j ms)
  then obtain m where n: "n = Suc m" by (cases n) auto
  have "json_value m (depth' + 1) (flatten j @ flatten_members ms @ ObjClose # r)
      = Some (flatten_members ms @ ObjClose # r)"
    using 6 n by (intro "6.IH"(1)) auto
  moreover have "json_members m depth' (k # seen) (flatten_members ms @ ObjClose # r) = Some r"
    using 6 n by (intro "6.IH"(2)) auto
  ultimately show ?case using n "6.prems" by simp
next
  case 7
  then obtain m where "n = Suc m" by (cases n) auto
  then show ?case by simp
next
  case (8 j js)
  then obtain m where n: "n = Suc m" by (cases n) auto
  have "flatten j \<noteq> []" by (cases j) simp_all
  then have "length (flatten j) \<ge> 1" by (cases "flatten j") simp_all
  then have "json_value m (depth'' + 1) (flatten j @ flatten_list js @ ArrClose # r)
      = Some (flatten_list js @ ArrClose # r)" "json_elements m depth'' (flatten_list js @ ArrClose # r) = Some r"
    using 8 n by (intro "8.IH"; auto)+
  then show ?case using n by simp
qed

section \<open>Property\<close>

text \<open>
  C26: The strict gate accepts exactly the strict documents: bytes that are valid UTF-8 and
  whose whole token stream spells one JSON value with at most 32 levels below the top and no
  object with a repeated key.
\<close>

theorem strictjson_Valid_iff_strict_document:
  "strictjson_Valid E data \<longleftrightarrow>
     utf8_valid data \<and> (\<exists>j. json_tokens E data = (flatten j, True) \<and> strict 0 j)"
proof -
  obtain ts e where t: "json_tokens E data = (ts, e)" by fastforce
  have "json_value (2 * length ts + 2) 0 ts = Some [] \<longleftrightarrow> (\<exists>j. ts = flatten j \<and> strict 0 j)"
  proof
    assume "json_value (2 * length ts + 2) 0 ts = Some []"
    from json_sound(1) [OF this] show "\<exists>j. ts = flatten j \<and> strict 0 j" by simp
  next
    assume "\<exists>j. ts = flatten j \<and> strict 0 j"
    then obtain j where "ts = flatten j" "strict 0 j" by blast
    with json_complete(1) [of 0 j "2 * length ts + 2" "[]"] show "json_value (2 * length ts + 2) 0 ts = Some []"
      by simp
  qed
  with t show ?thesis by (auto simp: strictjson_Valid_def strict_tokens_def)
qed

end
