(* ===== verification/Identity.thy ===== *)
theory Identity
  imports Strict_Json
begin

text \<open>
  The identity-assertion boundary (\<^verbatim>\<open>services/credential-broker/identity/identity.go\<close>): canonical
  identifiers, the actor a trusted Hub asserts, and the signing and verification of
  assertions. Ed25519 and the JSON codec of \<^verbatim>\<open>Claims\<close> are fields of the environment.
  Timestamps are \<^verbatim>\<open>int64\<close> seconds; the subtraction that could overflow is written with its
  wrap-around.
\<close>

section \<open>Data\<close>

text \<open>\<^verbatim>\<open>^[a-z][a-z0-9_-]{0,39}$\<close>\<close>

definition ValidID :: "string \<Rightarrow> bool" where
  "ValidID s \<longleftrightarrow>
     (case s of
        [] \<Rightarrow> False
      | c # cs \<Rightarrow> is_lower c \<and> length cs \<le> 39 \<and>
          list_all (\<lambda>c. is_lower c \<or> is_digit c \<or> c = CHR ''_'' \<or> c = CHR ''-'') cs)"

record Actor =
  a_PrincipalID :: string
  a_ContextID :: string
  a_RuntimeID :: string
  a_ExternalIdentityID :: string
  a_ConversationID :: string
  a_PolicyVersion :: string
  a_ContextManager :: bool
  a_BindingID :: string
  a_WorkloadID :: string

definition Actor_Valid :: "Actor \<Rightarrow> bool" where
  "Actor_Valid a \<longleftrightarrow>
     \<not> (\<not> ValidID (a_PrincipalID a) \<or> \<not> ValidID (a_ContextID a) \<or> \<not> ValidID (a_RuntimeID a) \<or>
        a_PolicyVersion a = [] \<or> length (a_PolicyVersion a) > 128) \<and>
     list_all (\<lambda>s. \<not> (s \<noteq> [] \<and> \<not> ValidID s))
       [a_ExternalIdentityID a, a_ConversationID a, a_BindingID a, a_WorkloadID a]"

definition no_actor :: Actor where
  "no_actor = \<lparr>a_PrincipalID = [], a_ContextID = [], a_RuntimeID = [], a_ExternalIdentityID = [],
     a_ConversationID = [], a_PolicyVersion = [], a_ContextManager = False, a_BindingID = [], a_WorkloadID = []\<rparr>"

record Claims =
  cl_Version :: int
  cl_KeyID :: string
  cl_Issuer :: string
  cl_Audience :: string
  cl_IssuedAt :: int
  cl_ExpiresAt :: int
  cl_Method :: string
  cl_RequestURI :: string
  cl_BodySHA256 :: string
  cl_Actor :: Actor

record TrustedKey =
  tk_PublicKey :: bytes
  tk_Issuer :: string
  tk_Audiences :: "string list"

record id_env = json_env +
  json_claims :: "Claims \<Rightarrow> bytes"
  decode_claims :: "bytes \<Rightarrow> Claims option"
  ed25519_sign :: "bytes \<Rightarrow> bytes \<Rightarrow> bytes"
  ed25519_verify :: "bytes \<Rightarrow> bytes \<Rightarrow> bytes \<Rightarrow> bool"

definition wrap64 :: "int \<Rightarrow> int" where
  "wrap64 x = (x + 9223372036854775808) mod 18446744073709551616 - 9223372036854775808"

definition int64 :: "int \<Rightarrow> bool" where
  "int64 x \<longleftrightarrow> - 9223372036854775808 \<le> x \<and> x < 9223372036854775808"

section \<open>Signing and verification\<close>

definition Hash :: "'a id_env_scheme \<Rightarrow> bytes \<Rightarrow> string" where
  "Hash E body = hex_encode (sha256 E body)"

definition assertion_prefix :: string where
  "assertion_prefix = ''hermes-credential-broker/assertion/v1.''"

definition Sign :: "'a id_env_scheme \<Rightarrow> bytes \<Rightarrow> Claims \<Rightarrow> string option" where
  "Sign E privkey c =
     (if length privkey \<noteq> 64 \<or> \<not> Actor_Valid (cl_Actor c) then None
      else
        let payload = b64_encode (json_claims E (c\<lparr>cl_Version := 1\<rparr>));
            sig = ed25519_sign E privkey (assertion_prefix @ payload)
        in Some (payload @ ''.'' @ b64_encode sig))"

definition claims_fresh :: "Claims \<Rightarrow> int \<Rightarrow> bool" where
  "claims_fresh c unix \<longleftrightarrow>
     \<not> (cl_ExpiresAt c \<le> unix \<or> cl_IssuedAt c > unix + 5 \<or> cl_ExpiresAt c \<le> cl_IssuedAt c \<or>
        wrap64 (cl_ExpiresAt c - cl_IssuedAt c) > 120 \<or> cl_IssuedAt c < unix - 120)"

definition Verify :: "'a id_env_scheme \<Rightarrow> (string, TrustedKey) gomap \<Rightarrow> int \<Rightarrow>
    string \<Rightarrow> string \<Rightarrow> string \<Rightarrow> string \<Rightarrow> bytes \<Rightarrow> Actor option" where
  "Verify E trusted unix tok audience meth uri body =
     (if length tok > 4096 then None
      else case Split CHR ''.'' tok of
        [p0, p1] \<Rightarrow>
          (case b64_decode p0 of
             None \<Rightarrow> None
           | Some payload \<Rightarrow>
               (case b64_decode p1 of
                  None \<Rightarrow> None
                | Some sig \<Rightarrow>
                    (case strictjson_Decode E (decode_claims E) payload of
                       None \<Rightarrow> None
                     | Some c \<Rightarrow>
                         (case go_lookup trusted (cl_KeyID c) of
                            None \<Rightarrow> None
                          | Some k \<Rightarrow>
                              if length (tk_PublicKey k) \<noteq> 32 \<or> audience \<notin> set (tk_Audiences k) then None
                              else if \<not> ed25519_verify E (tk_PublicKey k) (assertion_prefix @ p0) sig then None
                              else if cl_Version c \<noteq> 1 \<or> cl_Issuer c \<noteq> tk_Issuer k \<or> cl_Audience c \<noteq> audience \<or>
                                \<not> claims_fresh c unix then None
                              else if cl_Method c \<noteq> meth \<or> cl_RequestURI c \<noteq> uri \<or> cl_BodySHA256 c \<noteq> Hash E body \<or>
                                \<not> Actor_Valid (cl_Actor c) then None
                              else if audience = ''broker:runtime'' \<and>
                                (\<not> ValidID (a_BindingID (cl_Actor c)) \<or> \<not> ValidID (a_WorkloadID (cl_Actor c))) then None
                              else Some (cl_Actor c)))))
      | _ \<Rightarrow> None)"

section \<open>Lemmas\<close>

lemma wrap64_id: "int64 x \<Longrightarrow> wrap64 x = x"
  by (simp add: wrap64_def int64_def)

lemma b64_no_dot: "CHR ''.'' \<notin> set (b64_encode s)"
proof
  assume "CHR ''.'' \<in> set (b64_encode s)"
  then obtain d where "CHR ''.'' = b64_char d" by (auto simp: b64_encode_def dest: b64_nums_chars)
  then have "b64_val (CHR ''.'') = Some (d mod 64)" using b64_val_char [of d] by simp
  then show False by (simp add: b64_val_def)
qed

text \<open>The freshness window. The subtraction cannot overflow: an assertion issued before the epoch
  is too old.\<close>

lemma claims_fresh_window:
  assumes "claims_fresh c unix" "int64 (cl_IssuedAt c)" "int64 (cl_ExpiresAt c)" "120 \<le> unix"
  shows "unix - 120 \<le> cl_IssuedAt c \<and> cl_IssuedAt c \<le> unix + 5 \<and> unix < cl_ExpiresAt c \<and>
    cl_ExpiresAt c \<le> cl_IssuedAt c + 120"
proof -
  let ?d = "cl_ExpiresAt c - cl_IssuedAt c"
  from assms have win: "unix - 120 \<le> cl_IssuedAt c" "cl_IssuedAt c \<le> unix + 5" "unix < cl_ExpiresAt c"
    and d: "wrap64 ?d \<le> 120" "0 < ?d" by (auto simp: claims_fresh_def)
  have "wrap64 ?d = ?d" using d win assms by (intro wrap64_id) (simp add: int64_def)
  with win d show ?thesis by simp
qed

lemma VerifyE:
  assumes "Verify E trusted unix tok audience meth uri body = Some a"
  obtains p0 p1 sig c k where "tok = p0 @ ''.'' @ p1" "b64_decode p1 = Some sig"
    "Option.bind (b64_decode p0) (strictjson_Decode E (decode_claims E)) = Some c"
    "go_lookup trusted (cl_KeyID c) = Some k" "audience \<in> set (tk_Audiences k)"
    "ed25519_verify E (tk_PublicKey k) (assertion_prefix @ p0) sig"
    "cl_Issuer c = tk_Issuer k" "cl_Audience c = audience" "claims_fresh c unix"
    "cl_Method c = meth" "cl_RequestURI c = uri" "cl_BodySHA256 c = Hash E body" "Actor_Valid a" "a = cl_Actor c"
    "audience = ''broker:runtime'' \<Longrightarrow> ValidID (a_BindingID a) \<and> ValidID (a_WorkloadID a)"
proof -
  from assms obtain p0 p1 where sp: "Split CHR ''.'' tok = [p0, p1]"
    by (auto simp: Verify_def split: if_splits list.splits)
  then have tok: "tok = p0 @ ''.'' @ p1" using Join_Split [of "CHR ''.''" tok] by simp
  from assms sp obtain payload sig c k where
    d: "b64_decode p0 = Some payload" "b64_decode p1 = Some sig"
    "strictjson_Decode E (decode_claims E) payload = Some c" "go_lookup trusted (cl_KeyID c) = Some k"
    by (auto simp: Verify_def split: if_splits option.splits)
  with assms sp tok show thesis
    by (intro that [of p0 p1 sig c k]) (auto simp: Verify_def split: if_splits)
qed

section \<open>Properties\<close>

text \<open>
  C8: What a verified assertion means. If \<^verbatim>\<open>Verify\<close> accepts a token, then a key that is trusted
  for exactly this audience signed its payload, and the payload was issued by that key's
  issuer for this audience, method, request URI and body, at most 120 seconds ago and at most
  5 in the future, with a lifetime of at most 120 seconds that has not passed; the actor has
  canonical identifiers and, on the runtime audience, a binding and a workload.
\<close>

theorem verified_assertion_is_authentic:
  assumes "Verify E trusted unix tok audience meth uri body = Some a"
    and "\<forall>p c. decode_claims E p = Some c \<longrightarrow> int64 (cl_IssuedAt c) \<and> int64 (cl_ExpiresAt c)"
    and "120 \<le> unix"
  shows "\<exists>p0 p1 sig c k. tok = p0 @ ''.'' @ p1 \<and> b64_decode p1 = Some sig \<and>
    Option.bind (b64_decode p0) (decode_claims E) = Some c \<and> go_lookup trusted (cl_KeyID c) = Some k \<and>
    audience \<in> set (tk_Audiences k) \<and> ed25519_verify E (tk_PublicKey k) (assertion_prefix @ p0) sig \<and>
    cl_Issuer c = tk_Issuer k \<and> cl_Audience c = audience \<and> cl_Method c = meth \<and> cl_RequestURI c = uri \<and>
    cl_BodySHA256 c = Hash E body \<and> a = cl_Actor c \<and> Actor_Valid a \<and>
    unix - 120 \<le> cl_IssuedAt c \<and> cl_IssuedAt c \<le> unix + 5 \<and> unix < cl_ExpiresAt c \<and>
    cl_ExpiresAt c \<le> cl_IssuedAt c + 120 \<and>
    (audience = ''broker:runtime'' \<longrightarrow> ValidID (a_BindingID a) \<and> ValidID (a_WorkloadID a))"
  using assms(1)
proof (rule VerifyE)
  fix p0 p1 sig c k
  assume v: "tok = p0 @ ''.'' @ p1" "b64_decode p1 = Some sig"
    "Option.bind (b64_decode p0) (strictjson_Decode E (decode_claims E)) = Some c"
    "go_lookup trusted (cl_KeyID c) = Some k" "audience \<in> set (tk_Audiences k)"
    "ed25519_verify E (tk_PublicKey k) (assertion_prefix @ p0) sig"
    "cl_Issuer c = tk_Issuer k" "cl_Audience c = audience" "claims_fresh c unix"
    "cl_Method c = meth" "cl_RequestURI c = uri" "cl_BodySHA256 c = Hash E body" "Actor_Valid a" "a = cl_Actor c"
    "audience = ''broker:runtime'' \<Longrightarrow> ValidID (a_BindingID a) \<and> ValidID (a_WorkloadID a)"
  from v(3) obtain payload where p: "b64_decode p0 = Some payload" "decode_claims E payload = Some c"
    by (cases "b64_decode p0") (auto simp: strictjson_Decode_def split: if_splits)
  have d: "Option.bind (b64_decode p0) (decode_claims E) = Some c" using p by simp
  from p(2) assms(2) have "int64 (cl_IssuedAt c)" "int64 (cl_ExpiresAt c)" by auto
  note w = claims_fresh_window [OF v(9) this assms(3)]
  show ?thesis
    by (intro exI [of _ p0] exI [of _ p1] exI [of _ sig] exI [of _ c] exI [of _ k])
      (use v d w in simp)
qed

text \<open>A concrete environment for the witnesses: one assertion, with signatures that repeat their
  message.\<close>

definition demo_actor :: Actor where
  "demo_actor = \<lparr>a_PrincipalID = ''artem'', a_ContextID = ''home'', a_RuntimeID = ''rt1'', a_ExternalIdentityID = [],
     a_ConversationID = [], a_PolicyVersion = ''p1'', a_ContextManager = False, a_BindingID = ''b1'', a_WorkloadID = ''w1''\<rparr>"

definition demo_claims :: Claims where
  "demo_claims = \<lparr>cl_Version = 1, cl_KeyID = ''k'', cl_Issuer = ''hub'', cl_Audience = ''broker:runtime'', cl_IssuedAt = 1000,
     cl_ExpiresAt = 1060, cl_Method = ''POST'', cl_RequestURI = ''/v1/leases'', cl_BodySHA256 = hex_encode ''#{}'',
     cl_Actor = demo_actor\<rparr>"

definition demo_id_env :: id_env where
  "demo_id_env =
     \<lparr>sha256 = (\<lambda>x. CHR ''#'' # x), hmac_sha256 = (\<lambda>k m. CHR ''#'' # k @ m),
      gcm_seal = (\<lambda>k n p a. p @ replicate 16 CHR ''t''), gcm_open = (\<lambda>k n c a. Some (take (length c - 16) c)),
      deflate = id, inflate = Some, json_record = (\<lambda>r. []), parse_record = (\<lambda>b. None),
      nonces = (\<lambda>_. replicate 12 CHR ''n''), json_tokens = (\<lambda>b. ([TScalar b], True)),
      json_claims = (\<lambda>c. ''{}''), decode_claims = (\<lambda>b. Some demo_claims),
      ed25519_sign = (\<lambda>k m. m), ed25519_verify = (\<lambda>k m s. s = m)\<rparr>"

definition demo_trusted :: "(string, TrustedKey) gomap" where
  "demo_trusted = [(''k'', \<lparr>tk_PublicKey = replicate 32 CHR ''p'', tk_Issuer = ''hub'', tk_Audiences = [''broker:runtime'']\<rparr>)]"

definition demo_token :: string where
  "demo_token = b64_encode ''{}'' @ ''.'' @ b64_encode (assertion_prefix @ b64_encode ''{}'')"

lemma demo_actor_valid: "Actor_Valid demo_actor"
  by (simp add: Actor_Valid_def demo_actor_def ValidID_def is_lower_def is_digit_def in_range_def)

lemma demo_token_length: "length demo_token \<le> 4096"
  by (simp add: demo_token_def b64_encode_def length_b64_nums assertion_prefix_def)

lemma demo_decode: "strictjson_Decode demo_id_env (decode_claims demo_id_env) ''{}'' = Some demo_claims"
  by (simp add: strictjson_Decode_def strict_tokens_def demo_id_env_def in_range_def numeral_nat)

lemma demo_Sign: "Sign demo_id_env (replicate 64 CHR ''s'') demo_claims = Some demo_token"
  using demo_actor_valid by (simp add: Sign_def demo_id_env_def demo_token_def Let_def demo_claims_def)

lemma demo_Verify:
  "Verify demo_id_env demo_trusted 1010 demo_token ''broker:runtime'' ''POST'' ''/v1/leases'' ''{}'' = Some demo_actor"
proof -
  have sp: "Split CHR ''.'' demo_token = [b64_encode ''{}'', b64_encode (assertion_prefix @ b64_encode ''{}'')]"
    unfolding demo_token_def using b64_no_dot by (simp add: Split_append Split_single)
  have "claims_fresh demo_claims 1010" by (simp add: claims_fresh_def demo_claims_def wrap64_def)
  moreover have "ValidID (a_BindingID demo_actor)" "ValidID (a_WorkloadID demo_actor)"
    by (simp_all add: demo_actor_def ValidID_def is_lower_def is_digit_def in_range_def)
  moreover have "cl_KeyID demo_claims = ''k''" "cl_Version demo_claims = 1" "cl_Issuer demo_claims = ''hub''"
    "cl_Audience demo_claims = ''broker:runtime''" "cl_Method demo_claims = ''POST''" "cl_RequestURI demo_claims = ''/v1/leases''"
    "cl_BodySHA256 demo_claims = Hash demo_id_env ''{}''" "cl_Actor demo_claims = demo_actor"
    by (simp_all add: demo_claims_def Hash_def demo_id_env_def)
  moreover have "ed25519_verify demo_id_env k m m" for k m by (simp add: demo_id_env_def)
  ultimately show ?thesis
    using demo_token_length demo_actor_valid demo_decode sp
    by (simp add: Verify_def demo_trusted_def)
qed

theorem verified_assertion_is_authentic_witness:
  "\<exists>c p0. Option.bind (b64_decode p0) (decode_claims demo_id_env) = Some c \<and> cl_Actor c = demo_actor \<and>
     cl_IssuedAt c \<le> 1015 \<and> 1010 < cl_ExpiresAt c \<and> ValidID (a_BindingID demo_actor)"
proof -
  have range: "\<forall>p c. decode_claims demo_id_env p = Some c \<longrightarrow> int64 (cl_IssuedAt c) \<and> int64 (cl_ExpiresAt c)"
    by (simp add: demo_id_env_def demo_claims_def int64_def)
  have "(120 :: int) \<le> 1010" by simp
  from verified_assertion_is_authentic [OF demo_Verify range this] obtain p0 c where
    "Option.bind (b64_decode p0) (decode_claims demo_id_env) = Some c" "demo_actor = cl_Actor c"
    "cl_IssuedAt c \<le> 1010 + 5" "1010 < cl_ExpiresAt c" "ValidID (a_BindingID demo_actor)" by blast
  then show ?thesis by (intro exI [of _ c] exI [of _ p0]) simp
qed

text \<open>
  Round trip. A token that \<^verbatim>\<open>Sign\<close> produces for valid claims is accepted by \<^verbatim>\<open>Verify\<close> under
  the matching trusted key, within its window and for the request it names, and yields
  exactly the actor that was signed.
\<close>

theorem signed_assertion_verifies:
  assumes "strictjson_Decode E (decode_claims E) (json_claims E (c\<lparr>cl_Version := 1\<rparr>)) = Some (c\<lparr>cl_Version := 1\<rparr>)"
    and "\<forall>m. ed25519_verify E pub m (ed25519_sign E privkey m)"
    and "Sign E privkey c = Some tok" and "length tok \<le> 4096"
    and "go_lookup trusted (cl_KeyID c) = Some \<lparr>tk_PublicKey = pub, tk_Issuer = cl_Issuer c, tk_Audiences = auds\<rparr>"
    and "length pub = 32" and "cl_Audience c \<in> set auds"
    and "cl_IssuedAt c \<le> unix" and "unix < cl_ExpiresAt c" and "cl_ExpiresAt c \<le> cl_IssuedAt c + 120"
    and "cl_BodySHA256 c = Hash E body"
    and "cl_Audience c = ''broker:runtime'' \<longrightarrow> ValidID (a_BindingID (cl_Actor c)) \<and> ValidID (a_WorkloadID (cl_Actor c))"
  shows "Verify E trusted unix tok (cl_Audience c) (cl_Method c) (cl_RequestURI c) body = Some (cl_Actor c)"
proof -
  let ?c = "c\<lparr>cl_Version := 1\<rparr>"
  let ?p = "b64_encode (json_claims E ?c)"
  from assms(3) have act: "Actor_Valid (cl_Actor c)" and tok: "tok = ?p @ CHR ''.'' # b64_encode (ed25519_sign E privkey (assertion_prefix @ ?p))"
    by (auto simp: Sign_def Let_def split: if_splits)
  have sp: "Split CHR ''.'' tok = [?p, b64_encode (ed25519_sign E privkey (assertion_prefix @ ?p))]"
    unfolding tok using b64_no_dot by (subst Split_append) (auto simp: Split_single)
  have "wrap64 (cl_ExpiresAt c - cl_IssuedAt c) = cl_ExpiresAt c - cl_IssuedAt c"
    using assms(8-10) by (intro wrap64_id) (simp add: int64_def)
  then have fr: "claims_fresh ?c unix" using assms(8-10) by (simp add: claims_fresh_def)
  show ?thesis
    using assms(1,2,4-7,11,12) sp fr act by (auto simp: Verify_def)
qed

theorem signed_assertion_verifies_witness:
  "Sign demo_id_env (replicate 64 CHR ''s'') demo_claims = Some demo_token \<and>
   Verify demo_id_env demo_trusted 1010 demo_token ''broker:runtime'' ''POST'' ''/v1/leases'' ''{}'' = Some demo_actor"
proof -
  have c: "demo_claims\<lparr>cl_Version := 1\<rparr> = demo_claims" by (simp add: demo_claims_def)
  have dec: "strictjson_Decode demo_id_env (decode_claims demo_id_env) (json_claims demo_id_env (demo_claims\<lparr>cl_Version := 1\<rparr>))
      = Some (demo_claims\<lparr>cl_Version := 1\<rparr>)"
    using demo_decode c by (simp add: demo_id_env_def)
  have sg: "\<forall>m. ed25519_verify demo_id_env (replicate 32 CHR ''p'') m (ed25519_sign demo_id_env (replicate 64 CHR ''s'') m)"
    by (simp add: demo_id_env_def)
  have bind: "ValidID (a_BindingID (cl_Actor demo_claims)) \<and> ValidID (a_WorkloadID (cl_Actor demo_claims))"
    by (simp add: demo_claims_def demo_actor_def ValidID_def is_lower_def is_digit_def in_range_def)
  have tr: "go_lookup demo_trusted (cl_KeyID demo_claims) = Some \<lparr>tk_PublicKey = replicate 32 CHR ''p'',
      tk_Issuer = cl_Issuer demo_claims, tk_Audiences = [''broker:runtime'']\<rparr>"
    by (simp add: demo_trusted_def demo_claims_def)
  have "Verify demo_id_env demo_trusted 1010 demo_token (cl_Audience demo_claims) (cl_Method demo_claims)
      (cl_RequestURI demo_claims) ''{}'' = Some (cl_Actor demo_claims)"
    by (rule signed_assertion_verifies [OF dec sg demo_Sign demo_token_length tr])
      (use bind in \<open>simp_all add: demo_claims_def Hash_def demo_id_env_def\<close>)
  with demo_Sign show ?thesis by (simp add: demo_claims_def)
qed

end
