(* ===== verification/Contract.thy ===== *)
theory Contract
  imports Identity
begin

text \<open>
  Credential contracts (\<^verbatim>\<open>services/credential-broker/contract/contract.go\<close>): the schema of a
  credential, its deliveries, session state and proxy routes, the structural rules every
  contract has to meet, request-scoped extras, the validation of submitted values, and the
  routing and compatibility tests.

  \<^verbatim>\<open>url.Parse\<close>, \<^verbatim>\<open>pem.Decode\<close>, the \<^verbatim>\<open>x509\<close> parsers and the JSON encoding of a contract are fields
  of the environment. The regular expressions are written out as tests on characters. All
  errors of the package are the one value \<^verbatim>\<open>ErrContract\<close> or \<^verbatim>\<open>ErrValues\<close>, so validation is a
  truth value here.
\<close>

section \<open>Data\<close>

definition MaxBundle :: nat where
  "MaxBundle = 262144"

definition MaxExtraInputs :: nat where
  "MaxExtraInputs = 64"

type_synonym Bundle = "(string, bytes) gomap"

record Field =
  f_ID :: string
  f_Label :: string
  f_LabelI18n :: "(string, string) gomap"
  f_Kind :: string
  f_Required :: bool
  f_MaxBytes :: int

record Delivery =
  d_Type :: string
  d_Field :: string
  d_Target :: string
  d_EnvName :: string
  d_Mapping :: "(string, string) gomap"

record StateFile =
  sf_Name :: string
  sf_MaxBytes :: int
  sf_JSON :: bool

record State =
  st_Target :: string
  st_Files :: "StateFile list"

record Route =
  r_ID :: string
  r_BaseURL :: string
  r_PathPrefixes :: "string list"
  r_Methods :: "string list"
  r_Auth :: string
  r_Field :: string
  r_PasswordField :: string
  r_Header :: string
  r_StaticHeaders :: "(string, string) gomap"

record Contract =
  c_ID :: string
  c_Revision :: int
  c_Title :: string
  c_Storage :: string
  c_Fields :: "Field list"
  c_Deliveries :: "Delivery list"
  c_State :: "State option"
  c_Routes :: "Route list"
  c_OAuthProvider :: string
  c_Intake :: string
  c_AllowShared :: bool
  c_TitleI18n :: "(string, string) gomap"

record Extra =
  x_Fields :: "Field list"
  x_Deliveries :: "Delivery list"

record URL =
  u_Scheme :: string
  u_Hostname :: string
  u_User :: bool
  u_RawQuery :: string
  u_Fragment :: string
  u_RawPath :: string
  u_Path :: string
  u_Host :: string
  u_Port :: string

record PemBlock =
  pem_Type :: string
  pem_Headers :: nat
  pem_Bytes :: bytes

record contract_env = id_env +
  parse_url :: "string \<Rightarrow> URL option"
  pem_decode :: "bytes \<Rightarrow> (PemBlock \<times> bytes) option"
  x509_parses :: "string \<Rightarrow> bytes \<Rightarrow> bool"
  json_contract :: "Contract \<Rightarrow> bytes"

section \<open>Names\<close>

text \<open>\<^verbatim>\<open>^[a-z][a-z0-9_]{0,39}$\<close>, \<^verbatim>\<open>^[A-Z][A-Z0-9_]{0,79}$\<close>, \<^verbatim>\<open>^[a-zA-Z0-9_][a-zA-Z0-9_.-]{0,79}$\<close> and
  \<^verbatim>\<open>^[a-z]{2,8}(-[A-Za-z0-9]{1,8}){0,3}$\<close>\<close>

definition fieldID :: "string \<Rightarrow> bool" where
  "fieldID s \<longleftrightarrow>
     (case s of [] \<Rightarrow> False
      | c # cs \<Rightarrow> is_lower c \<and> length cs \<le> 39 \<and>
          list_all (\<lambda>c. is_lower c \<or> is_digit c \<or> c = CHR ''_'') cs)"

definition envName :: "string \<Rightarrow> bool" where
  "envName s \<longleftrightarrow>
     (case s of [] \<Rightarrow> False
      | c # cs \<Rightarrow> is_upper c \<and> length cs \<le> 79 \<and>
          list_all (\<lambda>c. is_upper c \<or> is_digit c \<or> c = CHR ''_'') cs)"

definition alnum :: "char \<Rightarrow> bool" where
  "alnum c \<longleftrightarrow> is_lower c \<or> is_upper c \<or> is_digit c"

definition stateName :: "string \<Rightarrow> bool" where
  "stateName s \<longleftrightarrow>
     (case s of [] \<Rightarrow> False
      | c # cs \<Rightarrow> (alnum c \<or> c = CHR ''_'') \<and> length cs \<le> 79 \<and>
          list_all (\<lambda>c. alnum c \<or> c = CHR ''_'' \<or> c = CHR ''.'' \<or> c = CHR ''-'') cs)"

definition i18nTag :: "string \<Rightarrow> bool" where
  "i18nTag s \<longleftrightarrow>
     (case Split CHR ''-'' s of [] \<Rightarrow> False
      | t # ts \<Rightarrow> 2 \<le> length t \<and> length t \<le> 8 \<and> list_all is_lower t \<and> length ts \<le> 3 \<and>
          list_all (\<lambda>u. 1 \<le> length u \<and> length u \<le> 8 \<and> list_all alnum u) ts)"

definition validI18n :: "(string, string) gomap \<Rightarrow> bool" where
  "validI18n table \<longleftrightarrow> \<not> length table > 8 \<and>
     list_all (\<lambda>(tag, text). \<not> (\<not> i18nTag tag \<or> length text = 0 \<or> length text > 240)) table"

definition table_get :: "(string, string) gomap \<Rightarrow> string \<Rightarrow> string" where
  "table_get t k = (case go_lookup t k of None \<Rightarrow> [] | Some v \<Rightarrow> v)"

definition Localize :: "(string, string) gomap \<Rightarrow> string \<Rightarrow> string \<Rightarrow> string" where
  "Localize table lang base =
     (let lang = ToLower (TrimSpace lang) in
      if table_get table lang \<noteq> [] then table_get table lang
      else
        let pre = takeWhile (\<lambda>c. c \<noteq> CHR ''-'' \<and> c \<noteq> CHR ''_'') lang in
        if pre \<noteq> lang \<and> table_get table pre \<noteq> [] then table_get table pre
        else base)"

definition TitleFor :: "Contract \<Rightarrow> string \<Rightarrow> string" where
  "TitleFor c lang = Localize (c_TitleI18n c) lang (c_Title c)"

definition LabelFor :: "Field \<Rightarrow> string \<Rightarrow> string" where
  "LabelFor f lang = Localize (f_LabelI18n f) lang (f_Label f)"

section \<open>Paths and headers\<close>

definition SafeTarget :: "string \<Rightarrow> bool" where
  "SafeTarget s \<longleftrightarrow>
     (if \<not> HasPrefix s ''/'' \<or> path_Clean s \<noteq> s \<or> s = ''/'' \<or>
         ContainsAny s [CHR 0x5C, CHR 0x00, CHR 0x0D, CHR 0x0A]
      then False
      else if list_ex (\<lambda>p. s = p \<or> HasPrefix s (p @ ''/''))
                [''/proc'', ''/sys'', ''/dev'', ''/etc'', ''/bin'', ''/sbin'', ''/usr'', ''/var/run'']
      then False
      else length s \<le> 240)"

definition SafeRelative :: "string \<Rightarrow> bool" where
  "SafeRelative p \<longleftrightarrow>
     (if \<not> HasPrefix p ''/'' \<or> HasPrefix p ''//'' \<or>
         ContainsAny p [CHR 0x5C, CHR 0x00, CHR 0x0D, CHR 0x0A, CHR ''%'', CHR ''?'', CHR ''#''] \<or> path_Clean p \<noteq> p
      then False else length p \<le> 2048)"

definition HeaderName :: "string \<Rightarrow> bool" where
  "HeaderName s \<longleftrightarrow>
     (if s = [] \<or> length s > 80 then False
      else list_all (\<lambda>r. is_lower r \<or> is_upper r \<or> is_digit r \<or> r = CHR ''-'') s)"

definition forbiddenHeader :: "string \<Rightarrow> bool" where
  "forbiddenHeader h \<longleftrightarrow>
     ToLower h \<in> set [''host'', ''connection'', ''proxy-authorization'', ''proxy-authenticate'', ''cookie'', ''set-cookie'',
       ''transfer-encoding'', ''content-length'', ''upgrade'', ''trailer'', ''te''] \<or>
     HasPrefix (ToLower h) ''x-forwarded-''"

section \<open>Structural validation\<close>

definition kinds :: "string list" where
  "kinds = [''secret'', ''string'', ''json'', ''pem'', ''blob'']"

definition field_bad :: "string list \<Rightarrow> Field \<Rightarrow> bool" where
  "field_bad seen f \<longleftrightarrow>
     \<not> fieldID (f_ID f) \<or> f_ID f = ''csrf'' \<or> f_ID f \<in> set seen \<or> length (f_Label f) = 0 \<or> length (f_Label f) > 120 \<or>
     f_MaxBytes f < 1 \<or> f_MaxBytes f > 65536 \<or> f_Kind f \<notin> set kinds \<or> \<not> validI18n (f_LabelI18n f)"

text \<open>The loop over the fields: the set of declared field IDs, or \<^verbatim>\<open>ErrContract\<close>.\<close>

fun fields_loop :: "string list \<Rightarrow> Field list \<Rightarrow> string list option" where
  "fields_loop seen [] = Some seen"
| "fields_loop seen (f # fs) = (if field_bad seen f then None else fields_loop (f_ID f # seen) fs)"

definition delivery_bad :: "string list \<Rightarrow> Delivery \<Rightarrow> bool" where
  "delivery_bad flds d \<longleftrightarrow>
     (if d_Type d = ''env'' then
        \<not> envName (d_Target d) \<or> d_Field d \<notin> set flds \<or> d_EnvName d \<noteq> [] \<or> length (d_Mapping d) \<noteq> 0
      else if d_Type d = ''file'' then
        \<not> SafeTarget (d_Target d) \<or> d_Field d \<notin> set flds \<or> length (d_Mapping d) \<noteq> 0
      else if d_Type d = ''json_file'' then
        \<not> SafeTarget (d_Target d) \<or> d_Field d \<noteq> [] \<or> length (d_Mapping d) = 0 \<or> length (d_Mapping d) > 32 \<or>
        list_ex (\<lambda>(k, v). length k = 0 \<or> length k > 80 \<or> v \<notin> set flds) (d_Mapping d)
      else True)"

fun deliveries_loop :: "string list \<Rightarrow> string list \<Rightarrow> Delivery list \<Rightarrow> string list option" where
  "deliveries_loop flds targets [] = Some targets"
| "deliveries_loop flds targets (d # ds) =
     (if d_Target d \<in> set targets then None
      else
        let targets1 = d_Target d # targets in
        if delivery_bad flds d then None
        else if d_EnvName d \<noteq> [] \<and> (\<not> envName (d_EnvName d) \<or> d_EnvName d \<in> set targets1) then None
        else deliveries_loop flds (if d_EnvName d \<noteq> [] then d_EnvName d # targets1 else targets1) ds)"

fun state_files_loop :: "string list \<Rightarrow> StateFile list \<Rightarrow> bool" where
  "state_files_loop names [] \<longleftrightarrow> True"
| "state_files_loop names (f # fs) \<longleftrightarrow>
     (if \<not> stateName (sf_Name f) \<or> Contains (sf_Name f) ''..'' \<or> sf_Name f \<in> set names \<or>
         sf_MaxBytes f < 1 \<or> sf_MaxBytes f > 65536
      then False else state_files_loop (sf_Name f # names) fs)"

definition state_valid :: "bool \<Rightarrow> string list \<Rightarrow> State \<Rightarrow> bool" where
  "state_valid allowShared targets st \<longleftrightarrow>
     \<not> (\<not> SafeTarget (st_Target st) \<or> length (st_Files st) = 0 \<or> length (st_Files st) > 16 \<or> allowShared) \<and>
     state_files_loop [] (st_Files st) \<and>
     list_all (\<lambda>t. \<not> (t = st_Target st \<or> HasPrefix t (st_Target st @ ''/''))) targets"

definition base_url_bad :: "'a contract_env_scheme \<Rightarrow> string \<Rightarrow> bool" where
  "base_url_bad E raw \<longleftrightarrow>
     (case parse_url E raw of
        None \<Rightarrow> True
      | Some u \<Rightarrow> u_Scheme u \<noteq> ''https'' \<or> u_Hostname u = [] \<or> u_User u \<or> u_RawQuery u \<noteq> [] \<or> u_Fragment u \<noteq> [] \<or>
          u_RawPath u \<noteq> [] \<or> (u_Path u \<noteq> [] \<and> u_Path u \<noteq> ''/'') \<or> HasSuffix (u_Hostname u) ''.'')"

definition route_auth_bad :: "string list \<Rightarrow> string \<Rightarrow> Route \<Rightarrow> bool" where
  "route_auth_bad flds oauth r \<longleftrightarrow>
     (if r_Auth r = ''bearer'' then r_Field r \<notin> set flds
      else if r_Auth r = ''header'' then
        r_Field r \<notin> set flds \<or> \<not> HeaderName (r_Header r) \<or> forbiddenHeader (r_Header r)
      else if r_Auth r = ''basic'' \<or> r_Auth r = ''mtls'' then
        r_Field r \<notin> set flds \<or> r_PasswordField r \<notin> set flds
      else if r_Auth r = ''oauth2'' then oauth = []
      else True)"

definition static_header_bad :: "Route \<Rightarrow> string \<times> string \<Rightarrow> bool" where
  "static_header_bad r kv \<longleftrightarrow>
     (case kv of (k, v) \<Rightarrow>
        \<not> HeaderName k \<or> forbiddenHeader k \<or> EqualFold k ''Authorization'' \<or> EqualFold k (r_Header r) \<or>
        ContainsAny v [CHR 0x0D, CHR 0x0A, CHR 0x00] \<or> length v > 1024)"

fun routes_loop :: "'a contract_env_scheme \<Rightarrow> string list \<Rightarrow> string \<Rightarrow> string list \<Rightarrow> Route list \<Rightarrow> bool" where
  "routes_loop E flds oauth routeIDs [] \<longleftrightarrow> True"
| "routes_loop E flds oauth routeIDs (r # rs) \<longleftrightarrow>
     (if base_url_bad E (r_BaseURL r) \<or> r_ID r \<in> set routeIDs \<or> \<not> ValidID (r_ID r) then False
      else if length (r_PathPrefixes r) = 0 \<or> length (r_PathPrefixes r) > 16 \<or> length (r_Methods r) = 0 then False
      else if list_ex (\<lambda>p. \<not> SafeRelative p) (r_PathPrefixes r) then False
      else if list_ex (\<lambda>m. m \<notin> set [''GET'', ''HEAD'', ''POST'', ''PUT'', ''PATCH'', ''DELETE'']) (r_Methods r) then False
      else if route_auth_bad flds oauth r then False
      else if list_ex (static_header_bad r) (r_StaticHeaders r) then False
      else routes_loop E flds oauth (r_ID r # routeIDs) rs)"

definition ValidateStructure :: "'a contract_env_scheme \<Rightarrow> Contract \<Rightarrow> bool" where
  "ValidateStructure E c \<longleftrightarrow>
     (if \<not> ValidID (c_ID c) \<or> c_Revision c < 1 \<or> c_Revision c > 100000 \<or> length (c_Title c) = 0 \<or> length (c_Title c) > 120 \<or>
         \<not> ValidID (c_Storage c) \<or> \<not> validI18n (c_TitleI18n c)
      then False
      else case fields_loop [] (c_Fields c) of
        None \<Rightarrow> False
      | Some flds \<Rightarrow>
          if c_OAuthProvider c \<noteq> [] \<and> \<not> ValidID (c_OAuthProvider c) then False
          else if c_Intake c \<noteq> [] \<and> c_Intake c \<noteq> ''telegram_qr'' then False
          else if length (c_Fields c) = 0 \<and> c_OAuthProvider c = [] then False
          else case deliveries_loop flds [] (c_Deliveries c) of
            None \<Rightarrow> False
          | Some targets \<Rightarrow>
              (case c_State c of None \<Rightarrow> True | Some st \<Rightarrow> state_valid (c_AllowShared c) targets st) \<and>
              routes_loop E flds (c_OAuthProvider c) [] (c_Routes c))"

definition Contract_Validate :: "'a contract_env_scheme \<Rightarrow> Contract \<Rightarrow> bool" where
  "Contract_Validate E c \<longleftrightarrow>
     (if length (c_Fields c) > 32 \<or> length (c_Deliveries c) > 32 \<or> length (c_Routes c) > 8 then False
      else ValidateStructure E c)"

section \<open>Extras\<close>

fun extra_fields_loop :: "string list \<Rightarrow> Field list \<Rightarrow> string list option" where
  "extra_fields_loop seen [] = Some seen"
| "extra_fields_loop seen (f # fs) =
     (if f_Required f \<or> field_bad seen f then None else extra_fields_loop (f_ID f # seen) fs)"

fun extra_deliveries_loop :: "string list \<Rightarrow> string list \<Rightarrow> Delivery list \<Rightarrow> string list option" where
  "extra_deliveries_loop flds targets [] = Some flds"
| "extra_deliveries_loop flds targets (d # ds) =
     (if d_Type d \<noteq> ''env'' \<or> \<not> envName (d_Target d) \<or> d_Target d \<in> set targets \<or> d_Field d \<notin> set flds \<or>
         d_EnvName d \<noteq> [] \<or> length (d_Mapping d) \<noteq> 0
      then None
      else extra_deliveries_loop (removeAll (d_Field d) flds) (d_Target d # targets) ds)"

definition Extra_Validate :: "Extra option \<Rightarrow> bool" where
  "Extra_Validate e \<longleftrightarrow>
     (case e of
        None \<Rightarrow> True
      | Some x \<Rightarrow>
          if length (x_Fields x) > MaxExtraInputs \<or> length (x_Deliveries x) > MaxExtraInputs then False
          else case extra_fields_loop [] (x_Fields x) of
            None \<Rightarrow> False
          | Some flds \<Rightarrow>
              (case extra_deliveries_loop flds [] (x_Deliveries x) of
                 None \<Rightarrow> False
               | Some rest \<Rightarrow> length rest = 0))"

section \<open>Values, digests, routing, compatibility\<close>

definition Contract_Digest :: "'a contract_env_scheme \<Rightarrow> Contract \<Rightarrow> string" where
  "Contract_Digest E c = hex_encode (sha256 E (json_contract E c))"

definition pem_bad :: "'a contract_env_scheme \<Rightarrow> bytes \<Rightarrow> bool" where
  "pem_bad E v \<longleftrightarrow>
     (case pem_decode E v of
        None \<Rightarrow> True
      | Some (b, rest) \<Rightarrow>
          length (TrimSpace rest) \<noteq> 0 \<or> pem_Headers b > 0 \<or>
          pem_Type b \<notin> set [''PRIVATE KEY'', ''RSA PRIVATE KEY'', ''EC PRIVATE KEY'', ''CERTIFICATE''] \<or>
          \<not> x509_parses E (pem_Type b) (pem_Bytes b))"

definition value_bad :: "'a contract_env_scheme \<Rightarrow> Field \<Rightarrow> bytes \<Rightarrow> bool" where
  "value_bad E f v \<longleftrightarrow>
     int (length v) > f_MaxBytes f \<or>
     (if f_Kind f = ''secret'' \<or> f_Kind f = ''string'' then
        \<not> utf8_valid v \<or> ContainsAny v [CHR 0x00, CHR 0x0D, CHR 0x0A]
      else if f_Kind f = ''json'' then \<not> strictjson_Valid E v \<or> TrimSpace v = ''null''
      else if f_Kind f = ''pem'' then pem_bad E v
      else False)"

fun values_loop :: "'a contract_env_scheme \<Rightarrow> Bundle \<Rightarrow> nat \<Rightarrow> Field list \<Rightarrow> nat option" where
  "values_loop E vals tot [] = Some tot"
| "values_loop E vals tot (f # fs) =
     (let v = (case go_lookup vals (f_ID f) of None \<Rightarrow> [] | Some b \<Rightarrow> b) in
      if length v = 0
      then (if f_Required f then None else values_loop E vals (tot + length v) fs)
      else if value_bad E f v then None
      else values_loop E vals (tot + length v) fs)"

definition bundle_get :: "Bundle \<Rightarrow> string \<Rightarrow> bytes" where
  "bundle_get b k = (case go_lookup b k of None \<Rightarrow> [] | Some v \<Rightarrow> v)"

definition ValidateValues :: "'a contract_env_scheme \<Rightarrow> Contract \<Rightarrow> Bundle \<Rightarrow> bool" where
  "ValidateValues E c vals \<longleftrightarrow>
     (if length vals > length (c_Fields c) then False
      else case values_loop E vals 0 (c_Fields c) of
        None \<Rightarrow> False
      | Some tot \<Rightarrow>
          if list_ex (\<lambda>(k, v). k \<notin> set (map f_ID (c_Fields c))) vals then False
          else if tot > MaxBundle then False
          else list_all (\<lambda>d. \<not> (d_Type d = ''env'' \<and> CHR 0x00 \<in> set (bundle_get vals (d_Field d)))) (c_Deliveries c))"

definition Route_Allows :: "Route \<Rightarrow> string \<Rightarrow> string \<Rightarrow> bool" where
  "Route_Allows r meth p \<longleftrightarrow>
     (if meth \<notin> set (r_Methods r) \<or> \<not> SafeRelative p then False
      else list_ex (\<lambda>prefix. prefix = ''/'' \<or> p = prefix \<or> HasPrefix p (prefix @ ''/'')) (r_PathPrefixes r))"

text \<open>\<^verbatim>\<open>http.CanonicalHeaderKey\<close> on a valid header name.\<close>

fun canonical_header :: "bool \<Rightarrow> string \<Rightarrow> string" where
  "canonical_header up [] = []"
| "canonical_header up (c # cs) = (if up then upper_char c else lower_char c) # canonical_header (c = CHR ''-'') cs"

definition Route_HeaderName :: "Route \<Rightarrow> string" where
  "Route_HeaderName r = (if r_Auth r = ''header'' then canonical_header True (r_Header r) else ''Authorization'')"

text \<open>\<^verbatim>\<open>slices.SortFunc\<close> by ID (\<^verbatim>\<open>strings.Compare\<close> is the byte order), then the pointwise comparison.\<close>

fun str_le :: "string \<Rightarrow> string \<Rightarrow> bool" where
  "str_le [] t \<longleftrightarrow> True"
| "str_le (a # s) [] \<longleftrightarrow> False"
| "str_le (a # s) (b # t) \<longleftrightarrow>
     (of_char a :: nat) < of_char b \<or> a = b \<and> str_le s t"

fun insert_field :: "Field \<Rightarrow> Field list \<Rightarrow> Field list" where
  "insert_field f [] = [f]"
| "insert_field f (g # gs) = (if str_le (f_ID f) (f_ID g) then f # g # gs else g # insert_field f gs)"

definition sort_fields :: "Field list \<Rightarrow> Field list" where
  "sort_fields fs = foldr insert_field fs []"

definition field_differs :: "Field \<Rightarrow> Field \<Rightarrow> bool" where
  "field_differs x y \<longleftrightarrow> f_ID x \<noteq> f_ID y \<or> f_Kind x \<noteq> f_Kind y \<or> f_Required x \<noteq> f_Required y \<or> f_MaxBytes x \<noteq> f_MaxBytes y"

definition Compatible :: "Contract \<Rightarrow> Contract \<Rightarrow> bool" where
  "Compatible a b \<longleftrightarrow>
     (if c_OAuthProvider a \<noteq> c_OAuthProvider b \<or> length (c_Fields a) \<noteq> length (c_Fields b) then False
      else list_all (\<lambda>(x, y). \<not> field_differs x y) (zip (sort_fields (c_Fields a)) (sort_fields (c_Fields b))))"

end
