(* ===== verification/Contract_Props.thy ===== *)
theory Contract_Props
  imports Contract
begin

text \<open>
  What the contract rules guarantee: mount targets and request paths are clean and confined,
  accepted values are declared and bounded, and compatibility is equality of the input
  schemas.
\<close>

section \<open>Clean absolute paths\<close>

definition components :: "string \<Rightarrow> string list" where
  "components s = filter (\<lambda>p. p \<noteq> []) (Split CHR ''/'' s)"

abbreviation dots :: "string set" where
  "dots \<equiv> {[], ''.'', ''..''}"

lemma clean_absolute:
  assumes "HasPrefix s ''/''" "path_Clean s = s"
  shows "s = CHR ''/'' # Join CHR ''/'' (components s)" "set (components s) \<inter> dots = {}"
    "\<forall>p \<in> set (components s). CHR ''/'' \<notin> set p"
proof -
  define out where "out = clean_parts True [] (Split CHR ''/'' s)"
  let ?out = out
  from assms have s: "s = CHR ''/'' # Join CHR ''/'' ?out" by (simp add: path_Clean_def Let_def out_def)
  have nodot: "set ?out \<inter> dots = {}" unfolding out_def by (rule clean_parts_no_dots) simp
  have nosep: "\<forall>p \<in> set ?out. CHR ''/'' \<notin> set p"
    unfolding out_def using clean_parts_subset [of True "[]" "Split CHR ''/'' s"] Split_no_sep [of _ "CHR ''/''" s] by auto
  have "Split CHR ''/'' s = [] # Split CHR ''/'' (Join CHR ''/'' ?out)" by (subst s) simp
  moreover have "filter (\<lambda>p. p \<noteq> []) (Split CHR ''/'' (Join CHR ''/'' ?out)) = ?out"
  proof (cases "?out = []")
    case False
    then have "Split CHR ''/'' (Join CHR ''/'' ?out) = ?out" using nosep by (intro Split_Join) auto
    then show ?thesis using nodot by (auto simp: filter_id_conv)
  qed simp
  ultimately have c: "components s = ?out" by (simp add: components_def)
  show "s = CHR ''/'' # Join CHR ''/'' (components s)" "set (components s) \<inter> dots = {}"
    "\<forall>p \<in> set (components s). CHR ''/'' \<notin> set p"
    using s nodot nosep c by simp_all
qed

lemma components_append:
  "components (s @ CHR ''/'' # t) = components s @ components t"
proof -
  have "Split c (s @ c # t) = Split c s @ Split c t" for c
  proof (induction s)
    case (Cons a s)
    then show ?case by (cases "Split c s") auto
  qed simp
  then show ?thesis by (simp add: components_def)
qed

section \<open>Sorted fields\<close>

abbreviation schema :: "Field \<Rightarrow> string \<times> string \<times> bool \<times> int" where
  "schema f \<equiv> (f_ID f, f_Kind f, f_Required f, f_MaxBytes f)"

lemma str_le_refl [simp]: "str_le s s"
  by (induction s) auto

lemma str_le_total: "str_le s t \<or> str_le t s"
  by (induction s t rule: str_le.induct) (auto simp: linorder_neq_iff dest: of_char_eq_iff [THEN iffD1])

lemma str_le_antisym: "str_le s t \<Longrightarrow> str_le t s \<Longrightarrow> s = t"
proof (induction s t rule: str_le.induct)
  case (1 t)
  then show ?case by (cases t) auto
qed auto

lemma str_le_trans: "str_le s t \<Longrightarrow> str_le t u \<Longrightarrow> str_le s u"
proof (induction s t arbitrary: u rule: str_le.induct)
  case (3 a s b t)
  then show ?case by (cases u) auto
qed auto

abbreviation sorted_ids :: "Field list \<Rightarrow> bool" where
  "sorted_ids \<equiv> sorted_wrt (\<lambda>f g. str_le (f_ID f) (f_ID g))"

lemma set_insert_field [simp]: "set (insert_field f fs) = insert f (set fs)"
  by (induction fs) auto

lemma length_insert_field [simp]: "length (insert_field f fs) = Suc (length fs)"
  by (induction fs) auto

lemma sorted_insert_field: "sorted_ids fs \<Longrightarrow> sorted_ids (insert_field f fs)"
proof (induction fs)
  case (Cons g gs)
  then show ?case
    using str_le_total [of "f_ID f" "f_ID g"] by (auto intro: str_le_trans)
qed simp

lemma sort_fields_facts:
  "set (sort_fields fs) = set fs" "length (sort_fields fs) = length fs" "sorted_ids (sort_fields fs)"
  by (induction fs) (auto simp: sort_fields_def sorted_insert_field)

lemma sort_fields_distinct:
  assumes "distinct (map f_ID fs)"
  shows "distinct (map f_ID (sort_fields fs))"
proof (rule card_distinct)
  have "card (set (map f_ID (sort_fields fs))) = card (set (map f_ID fs))" by (simp add: sort_fields_facts)
  with distinct_card [OF assms] show "card (set (map f_ID (sort_fields fs))) = length (map f_ID (sort_fields fs))"
    by (simp add: sort_fields_facts)
qed

text \<open>Two lists sorted by distinct IDs with the same schemas agree position by position.\<close>

lemma sorted_schema_unique:
  "sorted_ids fs \<Longrightarrow> sorted_ids gs \<Longrightarrow> distinct (map f_ID fs) \<Longrightarrow> distinct (map f_ID gs) \<Longrightarrow>
     schema ` set fs = schema ` set gs \<Longrightarrow> map schema fs = map schema gs"
proof (induction fs arbitrary: gs)
  case Nil
  then show ?case by simp
next
  case (Cons f fs)
  then obtain g gs' where gs: "gs = g # gs'" by (cases gs) auto
  have in1: "schema f \<in> schema ` set gs" and in2: "schema g \<in> schema ` set (f # fs)"
  proof -
    have "schema f \<in> schema ` set (f # fs)" "schema g \<in> schema ` set gs" using gs by simp_all
    then show "schema f \<in> schema ` set gs" "schema g \<in> schema ` set (f # fs)"
      using Cons.prems(5) by (simp_all only:)
  qed
  from in1 obtain h where "h \<in> set gs" "f_ID h = f_ID f" by auto
  then have le1: "str_le (f_ID g) (f_ID f)" using Cons.prems(2) gs by (metis set_ConsD sorted_wrt.simps(2) str_le_refl)
  from in2 obtain h where "schema g = schema h" "h \<in> set (f # fs)" by (rule imageE)
  then have "h \<in> set (f # fs)" "f_ID h = f_ID g" by simp_all
  then have le2: "str_le (f_ID f) (f_ID g)" using Cons.prems(1) by (metis set_ConsD sorted_wrt.simps(2) str_le_refl)
  from str_le_antisym [OF le2 le1] have id: "f_ID f = f_ID g" .
  have same: "schema f = schema g"
  proof -
    from in1 gs obtain h where h: "h \<in> set (g # gs')" "schema f = schema h" by auto
    with id have "f_ID h = f_ID g" by simp
    with h Cons.prems(4) gs have "h = g" by (auto simp: image_iff)
    with h show ?thesis by simp
  qed
  have "schema ` set fs = schema ` set gs'"
  proof -
    have "schema f \<notin> schema ` set fs" "schema g \<notin> schema ` set gs'"
      using Cons.prems(3,4) gs by (auto simp: image_iff)
    with Cons.prems(5) same gs show ?thesis by (simp add: insert_ident)
  qed
  with Cons.IH [of gs'] Cons.prems gs same show ?case by simp
qed

lemma zip_schema:
  "length fs = length gs \<Longrightarrow>
     list_all (\<lambda>(x, y). \<not> field_differs x y) (zip fs gs) \<longleftrightarrow> map schema fs = map schema gs"
  by (induction fs gs rule: list_induct2) (auto simp: field_differs_def)

section \<open>Values\<close>

lemma values_loop_facts:
  "values_loop E vals tot fs = Some t \<Longrightarrow>
     t = tot + sum_list (map (\<lambda>f. length (bundle_get vals (f_ID f))) fs) \<and>
     (\<forall>f \<in> set fs. (f_Required f \<longrightarrow> bundle_get vals (f_ID f) \<noteq> []) \<and>
        (bundle_get vals (f_ID f) \<noteq> [] \<longrightarrow> \<not> value_bad E f (bundle_get vals (f_ID f))))"
proof (induction fs arbitrary: tot)
  case (Cons f fs)
  have v: "(case go_lookup vals (f_ID f) of None \<Rightarrow> [] | Some b \<Rightarrow> b) = bundle_get vals (f_ID f)"
    by (simp add: bundle_get_def)
  from Cons.prems have "values_loop E vals (tot + length (bundle_get vals (f_ID f))) fs = Some t"
    "f_Required f \<longrightarrow> bundle_get vals (f_ID f) \<noteq> []"
    "bundle_get vals (f_ID f) \<noteq> [] \<longrightarrow> \<not> value_bad E f (bundle_get vals (f_ID f))"
    by (auto simp: v Let_def split: if_splits)
  with Cons.IH [of "tot + length (bundle_get vals (f_ID f))"] show ?case by auto
qed simp

section \<open>Properties\<close>

text \<open>
  A mount target that passes \<^verbatim>\<open>SafeTarget\<close> is an absolute path of at least one component,
  none of which is empty, \<^verbatim>\<open>.\<close> or \<^verbatim>\<open>..\<close>; it does not lie in or at one of the protected
  directories and has no backslash, NUL or line break.
\<close>

theorem safe_target_is_confined:
  assumes "SafeTarget s"
  shows "s = CHR ''/'' # Join CHR ''/'' (components s) \<and> components s \<noteq> [] \<and>
    set (components s) \<inter> {[], ''.'', ''..''} = {} \<and>
    hd (components s) \<notin> {''proc'', ''sys'', ''dev'', ''etc'', ''bin'', ''sbin'', ''usr''} \<and>
    take 2 (components s) \<noteq> [''var'', ''run''] \<and>
    set s \<inter> {CHR 0x5C, CHR 0x00, CHR 0x0D, CHR 0x0A} = {} \<and> length s \<le> 240"
proof -
  from assms have abs: "HasPrefix s ''/''" "path_Clean s = s" and ne: "s \<noteq> ''/''"
    and no: "\<not> list_ex (\<lambda>p. s = p \<or> HasPrefix s (p @ ''/''))
                [''/proc'', ''/sys'', ''/dev'', ''/etc'', ''/bin'', ''/sbin'', ''/usr'', ''/var/run'']"
    and ch: "set s \<inter> {CHR 0x5C, CHR 0x00, CHR 0x0D, CHR 0x0A} = {}" "length s \<le> 240"
    by (auto simp: SafeTarget_def ContainsAny_def list_ex_iff split: if_splits)
  note cl = clean_absolute [OF abs]
  have ne2: "components s \<noteq> []" using cl(1) ne by auto
  have under: "list_ex (\<lambda>p. s = p \<or> HasPrefix s (p @ ''/'')) [CHR ''/'' # Join CHR ''/'' ps]"
    if pre: "take (length ps) (components s) = ps" "ps \<noteq> []" for ps
  proof -
    define qs where "qs = drop (length ps) (components s)"
    have qs: "components s = ps @ qs"
      using append_take_drop_id [of "length ps" "components s"] pre(1) by (simp add: qs_def)
    have "Join c (ps @ qs) = (if qs = [] then Join c ps else Join c ps @ c # Join c qs)" for c :: char
      using pre(2) by (induction c ps rule: Join.induct) (auto simp: neq_Nil_conv)
    then show ?thesis using cl(1) qs by (auto simp: HasPrefix_iff)
  qed
  have "hd (components s) = d \<Longrightarrow> take (length [d]) (components s) = [d]" for d
    using ne2 by (cases "components s") auto
  then have "hd (components s) \<notin> {''proc'', ''sys'', ''dev'', ''etc'', ''bin'', ''sbin'', ''usr''}"
    using under [of "[_]"] no by fastforce
  moreover have "take 2 (components s) \<noteq> [''var'', ''run'']"
  proof
    assume "take 2 (components s) = [''var'', ''run'']"
    with under [of "[''var'', ''run'']"] no show False by (simp add: numeral_2_eq_2)
  qed
  ultimately show ?thesis using cl ne2 ch by blast
qed

theorem safe_target_is_confined_witness:
  "SafeTarget ''/run/key'' \<and> components ''/run/key'' = [''run'', ''key''] \<and>
   set (components ''/run/key'') \<inter> {[], ''.'', ''..''} = {}"
proof -
  have s: "SafeTarget ''/run/key''"
    by (simp add: SafeTarget_def HasPrefix_def path_Clean_def ContainsAny_def)
  from safe_target_is_confined [OF s] s show ?thesis by (simp add: components_def)
qed

text \<open>
  The proxy's path filter cannot be walked around. A request that a route allows uses one
  of its methods, and its path has no dot component and extends one of the route's prefixes
  by whole components.
\<close>

theorem allowed_path_stays_under_prefix:
  assumes "Route_Allows r meth p" and "list_all SafeRelative (r_PathPrefixes r)"
  shows "meth \<in> set (r_Methods r) \<and> set (components p) \<inter> {[], ''.'', ''..''} = {} \<and>
    (\<exists>q \<in> set (r_PathPrefixes r). \<exists>rest. components p = components q @ rest)"
proof -
  from assms(1) have p: "HasPrefix p ''/''" "path_Clean p = p" "meth \<in> set (r_Methods r)"
    by (auto simp: Route_Allows_def SafeRelative_def split: if_splits)
  from assms(1) obtain q where q: "q \<in> set (r_PathPrefixes r)" "q = ''/'' \<or> p = q \<or> HasPrefix p (q @ ''/'')"
    by (auto simp: Route_Allows_def list_ex_iff split: if_splits)
  have "\<exists>rest. components p = components q @ rest"
    using q(2)
  proof (elim disjE)
    assume "q = ''/''"
    then show ?thesis by (simp add: components_def)
  next
    assume "HasPrefix p (q @ ''/'')"
    then obtain t where "p = q @ CHR ''/'' # t" by (auto simp: HasPrefix_iff)
    then show ?thesis by (auto simp: components_append)
  qed simp
  with p q clean_absolute(2) [OF p(1,2)] show ?thesis by blast
qed

theorem allowed_path_stays_under_prefix_witness:
  "set (components ''/api/v4/x'') \<inter> {[], ''.'', ''..''} = {} \<and> (\<exists>rest. components ''/api/v4/x'' = components ''/api'' @ rest)"
proof -
  let ?r = "\<lparr>r_ID = ''a'', r_BaseURL = [], r_PathPrefixes = [''/api''], r_Methods = [''GET''], r_Auth = ''bearer'', r_Field = ''t'',
     r_PasswordField = [], r_Header = [], r_StaticHeaders = []\<rparr>"
  have "Route_Allows ?r ''GET'' ''/api/v4/x''" "list_all SafeRelative (r_PathPrefixes ?r)"
    by (simp_all add: Route_Allows_def SafeRelative_def HasPrefix_def path_Clean_def ContainsAny_def)
  from allowed_path_stays_under_prefix [OF this] show ?thesis by simp
qed

text \<open>A concrete environment and contract for the witnesses.\<close>

definition demo_contract_env :: contract_env where
  "demo_contract_env = id_env.extend demo_id_env
     \<lparr>parse_url = (\<lambda>s. if HasPrefix s ''https://'' then Some \<lparr>u_Scheme = ''https'',
        u_Hostname = takeWhile (\<lambda>c. c \<noteq> CHR ''/'') (drop 8 s), u_User = False,
        u_RawQuery = [], u_Fragment = [], u_RawPath = [], u_Path = dropWhile (\<lambda>c. c \<noteq> CHR ''/'') (drop 8 s),
        u_Host = takeWhile (\<lambda>c. c \<noteq> CHR ''/'') (drop 8 s), u_Port = []\<rparr> else None),
      pem_decode = (\<lambda>b. None), x509_parses = (\<lambda>t b. False),
      json_contract = (\<lambda>c. c_ID c @ ''@'' @ int_digits (c_Revision c) @ ''/'' @ c_Storage c)\<rparr>"

definition demo_contract :: Contract where
  "demo_contract =
     \<lparr>c_ID = ''github-pat'', c_Revision = 1, c_Title = ''GitHub'', c_Storage = ''local'',
      c_Fields = [\<lparr>f_ID = ''token'', f_Label = ''Token'', f_LabelI18n = [], f_Kind = ''secret'', f_Required = True, f_MaxBytes = 200\<rparr>,
                  \<lparr>f_ID = ''host'', f_Label = ''Host'', f_LabelI18n = [], f_Kind = ''string'', f_Required = False, f_MaxBytes = 100\<rparr>],
      c_Deliveries = [\<lparr>d_Type = ''env'', d_Field = ''token'', d_Target = ''GITHUB_TOKEN'', d_EnvName = [], d_Mapping = []\<rparr>],
      c_State = None, c_Routes = [], c_OAuthProvider = [], c_Intake = [], c_AllowShared = False, c_TitleI18n = []\<rparr>"

lemmas demo_contract_simps = demo_contract_def ValidID_def fieldID_def envName_def is_lower_def is_upper_def is_digit_def
  in_range_def validI18n_def field_bad_def kinds_def delivery_bad_def

lemma demo_contract_valid: "Contract_Validate E demo_contract"
  by (simp add: Contract_Validate_def ValidateStructure_def demo_contract_simps Let_def)

lemma demo_values_valid: "ValidateValues demo_contract_env demo_contract [(''token'', ''ghp_x'')]"
  by (simp add: ValidateValues_def demo_contract_def value_bad_def ContainsAny_def in_range_def MaxBundle_def bundle_get_def Let_def)

text \<open>
  What accepted values are. If \<^verbatim>\<open>ValidateValues\<close> accepts a bundle, it has only declared
  fields, every required field is present and not empty, every value is within the size limit
  of its field, secrets and strings are valid UTF-8 without NUL or line break, the bundle is
  at most 256 KiB (counting each declared field once), and no value delivered through the
  environment has a NUL.
\<close>

theorem accepted_values_are_bounded:
  assumes "ValidateValues E c vals"
  shows "fst ` set vals \<subseteq> f_ID ` set (c_Fields c) \<and>
    (\<forall>f \<in> set (c_Fields c). f_Required f \<longrightarrow> bundle_get vals (f_ID f) \<noteq> []) \<and>
    (\<forall>f \<in> set (c_Fields c). bundle_get vals (f_ID f) \<noteq> [] \<longrightarrow> int (length (bundle_get vals (f_ID f))) \<le> f_MaxBytes f \<and>
       (f_Kind f = ''secret'' \<or> f_Kind f = ''string'' \<longrightarrow>
          utf8_valid (bundle_get vals (f_ID f)) \<and> set (bundle_get vals (f_ID f)) \<inter> {CHR 0x00, CHR 0x0D, CHR 0x0A} = {})) \<and>
    sum_list (map (\<lambda>f. length (bundle_get vals (f_ID f))) (c_Fields c)) \<le> 262144 \<and>
    (\<forall>d \<in> set (c_Deliveries c). d_Type d = ''env'' \<longrightarrow> CHR 0x00 \<notin> set (bundle_get vals (d_Field d)))"
proof -
  from assms obtain t where t: "values_loop E vals 0 (c_Fields c) = Some t"
    and known: "\<not> list_ex (\<lambda>(k, v). k \<notin> set (map f_ID (c_Fields c))) vals" and "t \<le> MaxBundle"
    and env: "list_all (\<lambda>d. \<not> (d_Type d = ''env'' \<and> CHR 0x00 \<in> set (bundle_get vals (d_Field d)))) (c_Deliveries c)"
    by (auto simp: ValidateValues_def split: if_splits option.splits)
  note f = values_loop_facts [OF t]
  have keys: "fst ` set vals \<subseteq> f_ID ` set (c_Fields c)" using known by (auto simp: list_ex_iff)
  have ok: "int (length v) \<le> f_MaxBytes g \<and> (f_Kind g = ''secret'' \<or> f_Kind g = ''string'' \<longrightarrow>
      utf8_valid v \<and> set v \<inter> {CHR 0x00, CHR 0x0D, CHR 0x0A} = {})" if "\<not> value_bad E g v" for g v
    using that by (auto simp: value_bad_def ContainsAny_def list_ex_iff split: if_splits)
  have env': "\<forall>d \<in> set (c_Deliveries c). d_Type d = ''env'' \<longrightarrow> CHR 0x00 \<notin> set (bundle_get vals (d_Field d))"
    using env by (simp add: list_all_iff)
  have size: "sum_list (map (\<lambda>f. length (bundle_get vals (f_ID f))) (c_Fields c)) \<le> 262144"
    using f \<open>t \<le> MaxBundle\<close> by (simp add: MaxBundle_def)
  show ?thesis
    by (intro conjI ballI) (use keys f ok env' size in blast)+
qed

theorem accepted_values_are_bounded_witness:
  "fst ` set [(''token'', ''ghp_x'')] \<subseteq> f_ID ` set (c_Fields demo_contract) \<and>
   sum_list (map (\<lambda>f. length (bundle_get [(''token'', ''ghp_x'')] (f_ID f))) (c_Fields demo_contract)) \<le> 262144"
  using accepted_values_are_bounded [OF demo_values_valid] by (elim conjE) (intro conjI)

text \<open>
  Compatibility is equality of schemas. For contracts with distinct field IDs (which every
  valid contract has) the sort-and-compare of \<^verbatim>\<open>Compatible\<close> answers exactly whether the OAuth
  providers are equal and the two sets of fields agree in ID, kind, requiredness and size, in
  whatever order they are listed.
\<close>

theorem Compatible_iff_same_schema:
  assumes "distinct (map f_ID (c_Fields a))" and "distinct (map f_ID (c_Fields b))"
  shows "Compatible a b \<longleftrightarrow> c_OAuthProvider a = c_OAuthProvider b \<and>
    (\<lambda>f. (f_ID f, f_Kind f, f_Required f, f_MaxBytes f)) ` set (c_Fields a) =
    (\<lambda>f. (f_ID f, f_Kind f, f_Required f, f_MaxBytes f)) ` set (c_Fields b)"
proof -
  let ?A = "sort_fields (c_Fields a)" and ?B = "sort_fields (c_Fields b)"
  have len: "length (c_Fields x) = card (schema ` set (c_Fields x))" if "distinct (map f_ID (c_Fields x))" for x
  proof -
    have "inj_on schema (set (c_Fields x))"
      by (rule inj_onI) (use that in \<open>auto simp: distinct_map dest: inj_onD\<close>)
    then show ?thesis using that by (simp add: card_image distinct_card distinct_map)
  qed
  have "map schema ?A = map schema ?B \<longleftrightarrow> schema ` set (c_Fields a) = schema ` set (c_Fields b)"
  proof
    assume "map schema ?A = map schema ?B"
    then have "set (map schema ?A) = set (map schema ?B)" by simp
    then show "schema ` set (c_Fields a) = schema ` set (c_Fields b)" by (simp add: sort_fields_facts)
  next
    assume "schema ` set (c_Fields a) = schema ` set (c_Fields b)"
    then show "map schema ?A = map schema ?B"
      using sort_fields_distinct [OF assms(1)] sort_fields_distinct [OF assms(2)]
      by (intro sorted_schema_unique) (simp_all add: sort_fields_facts)
  qed
  moreover have "schema ` set (c_Fields a) = schema ` set (c_Fields b) \<Longrightarrow> length (c_Fields a) = length (c_Fields b)"
    using len [OF assms(1)] len [OF assms(2)] by simp
  ultimately show ?thesis
    using zip_schema [of ?A ?B] by (auto simp: Compatible_def sort_fields_facts)
qed

theorem Compatible_iff_same_schema_witness:
  "Compatible demo_contract (demo_contract\<lparr>c_Fields := rev (c_Fields demo_contract), c_Deliveries := []\<rparr>)"
proof -
  have d: "distinct (map f_ID (c_Fields demo_contract))"
    "distinct (map f_ID (c_Fields (demo_contract\<lparr>c_Fields := rev (c_Fields demo_contract), c_Deliveries := []\<rparr>)))"
    by (simp_all add: demo_contract_def)
  show ?thesis by (subst Compatible_iff_same_schema [OF d]) simp
qed

end
