(* ===== verification/Request_Contract.thy ===== *)
theory Request_Contract
  imports Contract_Props
begin

text \<open>
  The contract one request actually collects
  (\<^verbatim>\<open>services/credential-broker/broker/extra.go\<close> and \<^verbatim>\<open>cloneContract\<close> of \<^verbatim>\<open>runtime.go\<close>): the reviewed
  contract, extended by request-scoped optional inputs and with the required fields relaxed
  that the owner left empty. A Go set is a list here.
\<close>

definition cloneContract :: "Contract \<Rightarrow> Contract" where
  "cloneContract c = c"

definition requestContract :: "Contract \<Rightarrow> Extra option \<Rightarrow> string list \<Rightarrow> Contract" where
  "requestContract c extra demoted =
     (let out = cloneContract c;
          out1 = (case extra of
                    None \<Rightarrow> out
                  | Some x \<Rightarrow> out\<lparr>c_Fields := c_Fields out @ x_Fields x, c_Deliveries := c_Deliveries out @ x_Deliveries x\<rparr>)
      in out1\<lparr>c_Fields := map (\<lambda>f. if f_ID f \<in> set demoted then f\<lparr>f_Required := False\<rparr> else f) (c_Fields out1)\<rparr>)"

definition validateExtra :: "Contract \<Rightarrow> Extra option \<Rightarrow> bool" where
  "validateExtra c extra \<longleftrightarrow>
     (case extra of
        None \<Rightarrow> True
      | Some x \<Rightarrow>
          if length (x_Fields x) = 0 \<and> length (x_Deliveries x) = 0 then True
          else if c_OAuthProvider c \<noteq> [] \<or> \<not> Extra_Validate extra then False
          else
            let ids = map f_ID (c_Fields c); targets = map d_Target (c_Deliveries c)
            in list_all (\<lambda>f. f_ID f \<notin> set ids) (x_Fields x) \<and>
               list_all (\<lambda>d. d_Target d \<notin> set targets) (x_Deliveries x))"

definition requiredField :: "Contract \<Rightarrow> string \<Rightarrow> bool" where
  "requiredField c fid =
     (case find (\<lambda>f. f_ID f = fid) (c_Fields c) of None \<Rightarrow> False | Some f \<Rightarrow> f_Required f)"

fun insert_string :: "string \<Rightarrow> string list \<Rightarrow> string list" where
  "insert_string s [] = [s]"
| "insert_string s (t # ts) = (if str_le s t then s # t # ts else t # insert_string s ts)"

definition sortedDemoted :: "string list \<Rightarrow> string list" where
  "sortedDemoted demoted = foldr insert_string demoted []"

definition demotedSet :: "string list \<Rightarrow> string list" where
  "demotedSet demoted = demoted"

section \<open>Lemmas\<close>

text \<open>The loops in closed form.\<close>

lemma fields_loop_eq:
  "fields_loop seen fs =
     (if distinct (map f_ID fs) \<and> f_ID ` set fs \<inter> set seen = {} \<and> (\<forall>f \<in> set fs. \<not> field_bad [] f)
      then Some (rev (map f_ID fs) @ seen) else None)"
  by (induction fs arbitrary: seen) (auto simp: field_bad_def)

lemma extra_fields_loop_eq:
  "extra_fields_loop seen fs =
     (if (\<forall>f \<in> set fs. \<not> f_Required f) then fields_loop seen fs else None)"
  by (induction fs arbitrary: seen) auto

lemma demote_fields_loop:
  "fields_loop seen (map (\<lambda>f. if P f then f\<lparr>f_Required := False\<rparr> else f) fs) = fields_loop seen fs"
  by (induction fs arbitrary: seen) (auto simp: field_bad_def)

lemma extra_deliveries_facts:
  "extra_deliveries_loop flds tg ds = Some rest \<Longrightarrow>
     (\<forall>d \<in> set ds. d_Type d = ''env'' \<and> envName (d_Target d) \<and> d_Field d \<in> set flds \<and> d_EnvName d = [] \<and> d_Mapping d = []) \<and>
     distinct (map d_Target ds) \<and> d_Target ` set ds \<inter> set tg = {}"
proof (induction ds arbitrary: flds tg)
  case (Cons d ds)
  then have go: "extra_deliveries_loop (removeAll (d_Field d) flds) (d_Target d # tg) ds = Some rest"
    and d: "d_Type d = ''env''" "envName (d_Target d)" "d_Target d \<notin> set tg" "d_Field d \<in> set flds" "d_EnvName d = []"
      "d_Mapping d = []"
    by (auto split: if_splits)
  from Cons.IH [OF go] d show ?case by fastforce
qed simp

lemma deliveries_loop_env:
  "(\<forall>d \<in> set ds. d_Type d = ''env'' \<and> envName (d_Target d) \<and> d_Field d \<in> set flds \<and> d_EnvName d = [] \<and> d_Mapping d = []) \<Longrightarrow>
   distinct (map d_Target ds) \<Longrightarrow> d_Target ` set ds \<inter> set tg = {} \<Longrightarrow>
   deliveries_loop flds tg ds = Some (rev (map d_Target ds) @ tg)"
  by (induction ds arbitrary: tg) (auto simp: delivery_bad_def Let_def)

lemma deliveries_loop_append:
  "deliveries_loop flds tg (ds @ es) =
     (case deliveries_loop flds tg ds of None \<Rightarrow> None | Some tg' \<Rightarrow> deliveries_loop flds tg' es)"
  by (induction ds arbitrary: tg) (auto simp: Let_def)

lemma delivery_bad_mono: "set flds \<subseteq> set flds' \<Longrightarrow> delivery_bad flds' d \<Longrightarrow> delivery_bad flds d"
  by (auto simp: delivery_bad_def list_ex_iff split: if_splits)

lemma deliveries_loop_mono:
  "deliveries_loop flds tg ds = Some t \<Longrightarrow> set flds \<subseteq> set flds' \<Longrightarrow> deliveries_loop flds' tg ds = Some t"
  using delivery_bad_mono [of flds flds']
  by (induction ds arbitrary: tg) (auto simp: Let_def split: if_splits)

lemma deliveries_loop_targets:
  "deliveries_loop flds tg ds = Some t \<Longrightarrow>
     set t = set tg \<union> d_Target ` set ds \<union> (d_EnvName ` set ds - {[]})"
  by (induction ds arbitrary: tg) (auto simp: Let_def split: if_splits)

lemma routes_loop_mono:
  "routes_loop E flds oauth ids rs \<Longrightarrow> set flds \<subseteq> set flds' \<Longrightarrow> routes_loop E flds' oauth ids rs"
proof (induction rs arbitrary: ids)
  case (Cons r rs)
  have "route_auth_bad flds' oauth r \<Longrightarrow> route_auth_bad flds oauth r"
    using Cons.prems(2) by (auto simp: route_auth_bad_def split: if_splits)
  with Cons show ?case by (auto split: if_splits)
qed simp

lemma envName_not_abs: "envName t \<Longrightarrow> t \<noteq> CHR ''/'' # s \<and> \<not> HasPrefix t (CHR ''/'' # s)"
  by (cases t) (auto simp: envName_def is_upper_def in_range_def HasPrefix_def)

lemma state_valid_env:
  assumes "state_valid sh tg st" "list_all envName es"
  shows "state_valid sh (es @ tg) st"
proof -
  from assms(1) obtain s where s: "st_Target st = CHR ''/'' # s"
    by (auto simp: state_valid_def SafeTarget_def HasPrefix_iff split: if_splits)
  from assms(2) have "list_all (\<lambda>t. \<not> (t = st_Target st \<or> HasPrefix t (st_Target st @ ''/''))) es"
    using envName_not_abs by (auto simp: list_all_iff s)
  with assms(1) show ?thesis by (simp add: state_valid_def)
qed

section \<open>Properties\<close>

text \<open>
  C27: Extending a reviewed contract keeps it well formed. If the contract is valid and the
  extras pass \<^verbatim>\<open>validateExtra\<close> and do not reuse an \<^verbatim>\<open>env_name\<close> of the contract's file deliveries,
  the effective contract of the request, with any fields demoted, passes every structural
  rule again, keeps every delivery, route, provider and state of the reviewed contract, and
  only adds environment deliveries of optional fields.
\<close>

theorem request_contract_is_valid:
  assumes "ValidateStructure E c" and "validateExtra c (Some x)"
    and "d_Target ` set (x_Deliveries x) \<inter> d_EnvName ` set (c_Deliveries c) = {}"
  shows "ValidateStructure E (requestContract c (Some x) demoted) \<and>
    c_Deliveries (requestContract c (Some x) demoted) = c_Deliveries c @ x_Deliveries x \<and>
    (\<forall>d \<in> set (x_Deliveries x). d_Type d = ''env'' \<and> d_Field d \<in> f_ID ` set (x_Fields x)) \<and>
    c_State (requestContract c (Some x) demoted) = c_State c \<and> c_Routes (requestContract c (Some x) demoted) = c_Routes c \<and>
    c_Storage (requestContract c (Some x) demoted) = c_Storage c"
proof -
  let ?out = "requestContract c (Some x) demoted"
  have shape: "c_Deliveries ?out = c_Deliveries c @ x_Deliveries x" "c_State ?out = c_State c" "c_Routes ?out = c_Routes c"
    "c_Storage ?out = c_Storage c" "c_ID ?out = c_ID c" "c_Revision ?out = c_Revision c" "c_Title ?out = c_Title c"
    "c_OAuthProvider ?out = c_OAuthProvider c" "c_Intake ?out = c_Intake c" "c_TitleI18n ?out = c_TitleI18n c"
    "c_AllowShared ?out = c_AllowShared c" "length (c_Fields ?out) = length (c_Fields c) + length (x_Fields x)"
    "fields_loop [] (c_Fields ?out) = fields_loop [] (c_Fields c @ x_Fields x)"
    by (simp_all add: requestContract_def cloneContract_def Let_def demote_fields_loop del: map_append)
  from assms(1) obtain tg where f1: "fields_loop [] (c_Fields c) = Some (rev (map f_ID (c_Fields c)))"
    and d1: "deliveries_loop (rev (map f_ID (c_Fields c))) [] (c_Deliveries c) = Some tg"
    and st: "case c_State c of None \<Rightarrow> True | Some st \<Rightarrow> state_valid (c_AllowShared c) tg st"
    and rt: "routes_loop E (rev (map f_ID (c_Fields c))) (c_OAuthProvider c) [] (c_Routes c)"
    by (auto simp: ValidateStructure_def fields_loop_eq split: if_splits option.splits)
  have x: "(\<forall>f \<in> set (x_Fields x). \<not> field_bad [] f) \<and> distinct (map f_ID (x_Fields x)) \<and>
      f_ID ` set (x_Fields x) \<inter> f_ID ` set (c_Fields c) = {} \<and>
      (\<forall>d \<in> set (x_Deliveries x). d_Type d = ''env'' \<and> envName (d_Target d) \<and> d_Field d \<in> f_ID ` set (x_Fields x) \<and>
         d_EnvName d = [] \<and> d_Mapping d = []) \<and> distinct (map d_Target (x_Deliveries x)) \<and>
      d_Target ` set (x_Deliveries x) \<inter> d_Target ` set (c_Deliveries c) = {}"
  proof (cases "x_Fields x = [] \<and> x_Deliveries x = []")
    case False
    then obtain rest where "extra_fields_loop [] (x_Fields x) = Some (rev (map f_ID (x_Fields x)))"
      "extra_deliveries_loop (rev (map f_ID (x_Fields x))) [] (x_Deliveries x) = Some rest"
      and "list_all (\<lambda>f. f_ID f \<notin> set (map f_ID (c_Fields c))) (x_Fields x)"
        "list_all (\<lambda>d. d_Target d \<notin> set (map d_Target (c_Deliveries c))) (x_Deliveries x)"
      using assms(2) by (auto simp: validateExtra_def Extra_Validate_def extra_fields_loop_eq fields_loop_eq Let_def
          split: if_splits option.splits)
    with extra_deliveries_facts [OF this(2)] show ?thesis
      by (auto simp: list_all_iff extra_fields_loop_eq fields_loop_eq split: if_splits)
  qed simp
  let ?flds = "rev (map f_ID (c_Fields c @ x_Fields x))"
  have f2: "fields_loop [] (c_Fields c @ x_Fields x) = Some ?flds"
    using f1 x by (auto simp: fields_loop_eq split: if_splits)
  have tgs: "set tg = d_Target ` set (c_Deliveries c) \<union> (d_EnvName ` set (c_Deliveries c) - {[]})"
    using deliveries_loop_targets [OF d1] by simp
  have d2: "deliveries_loop ?flds [] (c_Deliveries c @ x_Deliveries x) = Some (rev (map d_Target (x_Deliveries x)) @ tg)"
  proof -
    from x have "d_Target ` set (x_Deliveries x) \<inter> d_Target ` set (c_Deliveries c) = {}" by (elim conjE)
    then have "d_Target ` set (x_Deliveries x) \<inter> set tg = {}" using assms(3) unfolding tgs by (simp only: Int_Un_distrib) blast
    then have "deliveries_loop ?flds tg (x_Deliveries x) = Some (rev (map d_Target (x_Deliveries x)) @ tg)"
      using x by (intro deliveries_loop_env) auto
    then show ?thesis using deliveries_loop_mono [OF d1, of ?flds] by (simp add: deliveries_loop_append)
  qed
  have env: "list_all envName (rev (map d_Target (x_Deliveries x)))" using x by (simp add: list_all_iff)
  have s2: "case c_State c of None \<Rightarrow> True
      | Some st \<Rightarrow> state_valid (c_AllowShared c) (rev (map d_Target (x_Deliveries x)) @ tg) st"
    using st state_valid_env [OF _ env] by (simp split: option.splits)
  have r2: "routes_loop E ?flds (c_OAuthProvider c) [] (c_Routes c)" using routes_loop_mono [OF rt] by auto
  have valid: "ValidateStructure E ?out"
  proof -
    from assms(1) have "ValidID (c_ID c)" "\<not> c_Revision c < 1" "\<not> c_Revision c > 100000" "length (c_Title c) \<noteq> 0"
      "\<not> length (c_Title c) > 120" "ValidID (c_Storage c)" "validI18n (c_TitleI18n c)"
      by (simp_all add: ValidateStructure_def split: if_splits)
    moreover from assms(1) have "\<not> (c_OAuthProvider c \<noteq> [] \<and> \<not> ValidID (c_OAuthProvider c))"
      "\<not> (c_Intake c \<noteq> [] \<and> c_Intake c \<noteq> ''telegram_qr'')" "\<not> (length (c_Fields c) = 0 \<and> c_OAuthProvider c = [])"
      by (simp_all add: ValidateStructure_def f1 del: length_0_conv split: if_splits)
    ultimately show ?thesis
      using s2 r2 unfolding ValidateStructure_def shape f2 option.case d2 by auto
  qed
  from x have "\<forall>d \<in> set (x_Deliveries x). d_Type d = ''env'' \<and> d_Field d \<in> f_ID ` set (x_Fields x)" by simp
  with valid shape(1-4) show ?thesis by (intro conjI)
qed

definition demo_extra :: Extra where
  "demo_extra = \<lparr>x_Fields = [\<lparr>f_ID = ''region'', f_Label = ''Region'', f_LabelI18n = [], f_Kind = ''string'', f_Required = False, f_MaxBytes = 40\<rparr>],
     x_Deliveries = [\<lparr>d_Type = ''env'', d_Field = ''region'', d_Target = ''REGION'', d_EnvName = [], d_Mapping = []\<rparr>]\<rparr>"

lemma demo_extra_valid: "validateExtra demo_contract (Some demo_extra)"
  by (simp add: validateExtra_def Extra_Validate_def demo_extra_def MaxExtraInputs_def demo_contract_simps Let_def)

theorem request_contract_is_valid_witness:
  "ValidateStructure demo_contract_env (requestContract demo_contract (Some demo_extra) [''token''])"
proof -
  have "ValidateStructure demo_contract_env demo_contract"
    using demo_contract_valid [of demo_contract_env] by (simp add: Contract_Validate_def split: if_splits)
  moreover have "d_Target ` set (x_Deliveries demo_extra) \<inter> d_EnvName ` set (c_Deliveries demo_contract) = {}"
    by (simp add: demo_extra_def demo_contract_def)
  ultimately show ?thesis using request_contract_is_valid [OF _ demo_extra_valid] by blast
qed

definition file_contract :: Contract where
  "file_contract = demo_contract\<lparr>c_Deliveries := [\<lparr>d_Type = ''file'', d_Field = ''token'', d_Target = ''/run/token'',
     d_EnvName = ''REGION'', d_Mapping = []\<rparr>]\<rparr>"

text \<open>
  C28: The hypothesis on \<^verbatim>\<open>env_name\<close> is needed: \<^verbatim>\<open>validateExtra\<close> compares an extra's target with the
  targets of the contract only. A valid contract and extras it accepts exist whose effective
  contract is rejected by \<^verbatim>\<open>ValidateStructure\<close>, the check \<^verbatim>\<open>materialize.Prepare\<close> makes before it
  delivers anything.
\<close>

theorem extra_may_collide_with_env_name:
  "Contract_Validate E file_contract \<and> validateExtra file_contract (Some demo_extra) \<and>
   \<not> ValidateStructure E (requestContract file_contract (Some demo_extra) demoted)"
proof -
  have "SafeTarget ''/run/token''"
    by (simp add: SafeTarget_def HasPrefix_def path_Clean_def ContainsAny_def)
  then have "Contract_Validate E file_contract"
    by (simp add: Contract_Validate_def ValidateStructure_def file_contract_def demo_contract_simps Let_def)
  have "validateExtra file_contract (Some demo_extra)"
    by (simp add: validateExtra_def Extra_Validate_def demo_extra_def MaxExtraInputs_def file_contract_def demo_contract_simps Let_def)
  have "deliveries_loop flds [] (c_Deliveries file_contract @ x_Deliveries demo_extra) = None" for flds
    by (simp add: file_contract_def demo_extra_def Let_def)
  moreover have "c_Deliveries (requestContract file_contract (Some demo_extra) demoted) =
      c_Deliveries file_contract @ x_Deliveries demo_extra"
    by (simp add: requestContract_def cloneContract_def Let_def)
  ultimately have "\<not> ValidateStructure E (requestContract file_contract (Some demo_extra) demoted)"
    by (auto simp: ValidateStructure_def split: option.splits if_splits)
  with \<open>Contract_Validate E file_contract\<close> \<open>validateExtra file_contract (Some demo_extra)\<close> show ?thesis by blast
qed

end
