(* ===== verification/Provider.thy ===== *)
theory Provider
  imports Request_Contract
begin

text \<open>
  The secret-source boundary (\<^verbatim>\<open>services/credential-broker/provider/provider.go\<close>) and the encrypted
  local store behind it (\<^verbatim>\<open>provider/local.go\<close>): references, capabilities, the registry, and the
  four operations of \<^verbatim>\<open>Local\<close> with its optional recovery copy.

  The Go interface \<^verbatim>\<open>Provider\<close> is a record of functions over a type of worlds, the state of
  everything outside the broker. The locale \<open>secret_store\<close> states what a client may rely on;
  it is interpreted by \<^verbatim>\<open>Local\<close>. Files and faults are as in \<open>Journal\<close>; a canceled context is an
  argument.
\<close>

section \<open>The interface\<close>

datatype perr = PUnavailable | PReadOnly | PNotFound | PCanceled

record Ref =
  ref_Provider :: string
  ref_Locator :: string
  ref_Version :: string

record Capabilities =
  cap_Write :: bool
  cap_Delete :: bool
  cap_Versioned :: bool
  cap_Binary :: bool

record 'w Provider =
  p_Read :: "'w \<Rightarrow> Ref \<Rightarrow> 'w \<times> (perr + Bundle)"
  p_Capabilities :: Capabilities
  p_Write :: "'w \<Rightarrow> Bundle \<Rightarrow> 'w \<times> (perr + Ref)"
  p_Delete :: "'w \<Rightarrow> Ref \<Rightarrow> 'w \<times> (perr + unit)"

type_synonym 'w Registry = "(string, 'w Provider) gomap"

definition no_ref :: Ref where
  "no_ref = \<lparr>ref_Provider = [], ref_Locator = [], ref_Version = []\<rparr>"

definition Registry_Resolve :: "'w Registry \<Rightarrow> 'w \<Rightarrow> Ref \<Rightarrow> 'w \<times> (perr + Bundle)" where
  "Registry_Resolve r w ref =
     (case go_lookup r (ref_Provider ref) of
        None \<Rightarrow> (w, Inl PUnavailable)
      | Some p \<Rightarrow> p_Read p w ref)"

definition Registry_Put :: "'w Registry \<Rightarrow> 'w \<Rightarrow> string \<Rightarrow> Bundle \<Rightarrow> 'w \<times> (perr + Ref)" where
  "Registry_Put r w pid b =
     (case go_lookup r pid of
        None \<Rightarrow> (w, Inl PUnavailable)
      | Some p \<Rightarrow>
          if \<not> cap_Write (p_Capabilities p) then (w, Inl PReadOnly)
          else p_Write p w b)"

section \<open>The local store\<close>

record provider_env = contract_env +
  json_bundle :: "Bundle \<Rightarrow> bytes"
  decode_bundle :: "bytes \<Rightarrow> Bundle option"

text \<open>The directories of a store, its keys, the outcomes of its disk operations, and the operating
  system's randomness.\<close>

record Local =
  l_ID :: string
  l_box :: bytes
  l_dir :: "(string, bytes) gomap"
  l_recoveryBox :: "bytes option"
  l_recoveryDir :: "(string, bytes) gomap"
  l_io :: "io list"
  l_random :: "nat \<Rightarrow> bytes"
  l_rng :: nat

definition l_next :: "Local \<Rightarrow> bool \<times> Local" where
  "l_next l = (case pop_io (l_io l) of (IoOk, xs) \<Rightarrow> (True, l\<lparr>l_io := xs\<rparr>) | (IoFail _, xs) \<Rightarrow> (False, l\<lparr>l_io := xs\<rparr>))"

definition locator_ok :: "string \<Rightarrow> bool" where
  "locator_ok s \<longleftrightarrow> length s = 43 \<and> list_all (\<lambda>c. alnum c \<or> c = CHR ''_'' \<or> c = CHR ''-'') s"

definition local_aad :: "Local \<Rightarrow> string \<Rightarrow> bytes" where
  "local_aad l loc = l_ID l @ ''/'' @ loc @ ''/1''"

definition NewLocal :: "bool \<Rightarrow> string \<Rightarrow> (string, bytes) gomap \<Rightarrow> bytes \<Rightarrow> io list \<Rightarrow> (nat \<Rightarrow> bytes) \<Rightarrow> perr + Local" where
  "NewLocal secure pid files key ios rnd =
     (if \<not> secure then Inl PUnavailable
      else case seal_New key of
        None \<Rightarrow> Inl PUnavailable
      | Some b \<Rightarrow> Inr \<lparr>l_ID = pid, l_box = b, l_dir = files, l_recoveryBox = None, l_recoveryDir = [],
                      l_io = ios, l_random = rnd, l_rng = 0\<rparr>)"

definition NewRecoverableLocal :: "bool \<Rightarrow> bool \<Rightarrow> string \<Rightarrow> (string, bytes) gomap \<Rightarrow> (string, bytes) gomap \<Rightarrow> bytes \<Rightarrow> bytes \<Rightarrow>
    io list \<Rightarrow> (nat \<Rightarrow> bytes) \<Rightarrow> perr + Local" where
  "NewRecoverableLocal secure recoverySecure pid files recoveryFiles key recoveryKey ios rnd =
     (case NewLocal secure pid files key ios rnd of
        Inl e \<Rightarrow> Inl e
      | Inr l \<Rightarrow>
          if \<not> recoverySecure then Inl PUnavailable
          else case seal_New recoveryKey of
            None \<Rightarrow> Inl PUnavailable
          | Some rb \<Rightarrow> Inr (l\<lparr>l_recoveryBox := Some rb, l_recoveryDir := recoveryFiles\<rparr>))"

definition Local_Capabilities :: Capabilities where
  "Local_Capabilities = \<lparr>cap_Write = True, cap_Delete = True, cap_Versioned = True, cap_Binary = True\<rparr>"

text \<open>\<^verbatim>\<open>securefs.Create\<close> in one of the directories: refuses an existing name; the file is there once
  the write succeeded, even when the sync of the directory then fails.\<close>

definition create_in :: "(string, bytes) gomap \<Rightarrow> string \<Rightarrow> bytes \<Rightarrow> Local \<Rightarrow> (string, bytes) gomap \<times> Local \<times> bool" where
  "create_in dir name data l =
     (if go_lookup dir name \<noteq> None then (dir, l, False)
      else case l_next l of
        (False, l1) \<Rightarrow> (dir, l1, False)
      | (True, l1) \<Rightarrow> (case l_next l1 of (ok, l2) \<Rightarrow> (go_update name data dir, l2, ok)))"

definition Local_Write :: "'a provider_env_scheme \<Rightarrow> bool \<Rightarrow> Local \<Rightarrow> Bundle \<Rightarrow> Local \<times> (perr + Ref)" where
  "Local_Write E canceled l b =
     (if canceled then (l, Inl PCanceled)
      else
        let raw = json_bundle E b in
        if length raw > 524288 then (l, Inl PUnavailable)
        else
          let loc = Random (l_random l (l_rng l));
              l1 = l\<lparr>l_rng := Suc (l_rng l)\<rparr>;
              enc = box_Seal E (l_box l1) (nonces E (2 * l_rng l)) raw (local_aad l1 loc);
              (l2, ok) = (case l_recoveryBox l1 of
                 None \<Rightarrow> (l1, True)
               | Some rb \<Rightarrow>
                   (case create_in (l_recoveryDir l1) loc
                           (box_Seal E rb (nonces E (2 * l_rng l + 1)) raw (local_aad l1 loc)) l1 of
                      (dir', l2, ok) \<Rightarrow> (l2\<lparr>l_recoveryDir := dir'\<rparr>, ok)))
          in if \<not> ok then (l2, Inl PUnavailable)
             else case create_in (l_dir l2) loc enc l2 of
               (dir', l3, False) \<Rightarrow> (l3\<lparr>l_dir := dir'\<rparr>, Inl PUnavailable)
             | (dir', l3, True) \<Rightarrow>
                 (l3\<lparr>l_dir := dir'\<rparr>, Inr \<lparr>ref_Provider = l_ID l3, ref_Locator = loc, ref_Version = ''1''\<rparr>))"

definition ref_foreign :: "Local \<Rightarrow> Ref \<Rightarrow> bool" where
  "ref_foreign l r \<longleftrightarrow> ref_Provider r \<noteq> l_ID l \<or> \<not> locator_ok (ref_Locator r) \<or> ref_Version r \<noteq> ''1''"

definition read_file :: "Local \<Rightarrow> (string, bytes) gomap \<Rightarrow> string \<Rightarrow> Local \<times> (perr + bytes option)" where
  "read_file l dir name =
     (case go_lookup dir name of
        None \<Rightarrow> (l, Inr None)
      | Some b \<Rightarrow>
          (case l_next l of
             (False, l1) \<Rightarrow> (l1, Inl PUnavailable)
           | (True, l1) \<Rightarrow> (l1, if length b > 614400 then Inl PUnavailable else Inr (Some b))))"

definition unseal_bundle :: "'a provider_env_scheme \<Rightarrow> Local \<Rightarrow> bytes \<Rightarrow> string \<Rightarrow> bytes \<Rightarrow> perr + Bundle" where
  "unseal_bundle E l box loc enc =
     (case box_Open E box enc (local_aad l loc) of
        None \<Rightarrow> Inl PUnavailable
      | Some raw \<Rightarrow>
          (case strictjson_Decode E (decode_bundle E) raw of None \<Rightarrow> Inl PUnavailable | Some b \<Rightarrow> Inr b))"

definition Local_Read :: "'a provider_env_scheme \<Rightarrow> bool \<Rightarrow> Local \<Rightarrow> Ref \<Rightarrow> Local \<times> (perr + Bundle)" where
  "Local_Read E canceled l r =
     (if canceled then (l, Inl PCanceled)
      else if ref_foreign l r then (l, Inl PNotFound)
      else case read_file l (l_dir l) (ref_Locator r) of
        (l1, Inl e) \<Rightarrow> (l1, Inl e)
      | (l1, Inr (Some enc)) \<Rightarrow> (l1, unseal_bundle E l1 (l_box l1) (ref_Locator r) enc)
      | (l1, Inr None) \<Rightarrow>
          (case l_recoveryBox l1 of
             None \<Rightarrow> (l1, Inl PNotFound)
           | Some rb \<Rightarrow>
               (case read_file l1 (l_recoveryDir l1) (ref_Locator r) of
                  (l2, Inl e) \<Rightarrow> (l2, Inl e)
                | (l2, Inr None) \<Rightarrow> (l2, Inl PNotFound)
                | (l2, Inr (Some enc)) \<Rightarrow> (l2, unseal_bundle E l2 rb (ref_Locator r) enc))))"

text \<open>\<^verbatim>\<open>os.Remove\<close> and the sync of the directory. A missing file is an error value of its own.\<close>

definition Local_Delete :: "bool \<Rightarrow> Local \<Rightarrow> Ref \<Rightarrow> Local \<times> (perr + unit)" where
  "Local_Delete canceled l r =
     (if canceled then (l, Inl PCanceled)
      else if ref_foreign l r then (l, Inl PNotFound)
      else
        let loc = ref_Locator r;
            (l1, ok) = (case l_recoveryBox l of
               None \<Rightarrow> (l, True)
             | Some _ \<Rightarrow>
                 (case (if go_lookup (l_recoveryDir l) loc = None then (True, l) else l_next l) of
                    (False, l1) \<Rightarrow> (l1, False)
                  | (True, l1) \<Rightarrow>
                      (case l_next (l1\<lparr>l_recoveryDir := go_delete loc (l_recoveryDir l1)\<rparr>) of (ok, l2) \<Rightarrow> (l2, ok))))
        in if \<not> ok then (l1, Inl PUnavailable)
           else if go_lookup (l_dir l1) loc = None then (l1, Inr ())
           else case l_next l1 of
             (False, l2) \<Rightarrow> (l2, Inl PUnavailable)
           | (True, l2) \<Rightarrow>
               (case l_next (l2\<lparr>l_dir := go_delete loc (l_dir l2)\<rparr>) of
                  (True, l3) \<Rightarrow> (l3, Inr ())
                | (False, l3) \<Rightarrow> (l3, Inl PUnavailable)))"

definition BackupExisting :: "'a provider_env_scheme \<Rightarrow> bool \<Rightarrow> Local \<Rightarrow> Ref \<Rightarrow> Local \<times> (perr + unit)" where
  "BackupExisting E canceled l r =
     (case l_recoveryBox l of
        None \<Rightarrow> (l, Inl PUnavailable)
      | Some rb \<Rightarrow>
          (case Local_Read E canceled l r of
             (l1, Inl e) \<Rightarrow> (l1, Inl e)
           | (l1, Inr values) \<Rightarrow>
               (let raw = json_bundle E values; loc = ref_Locator r in
                case read_file l1 (l_recoveryDir l1) loc of
                  (l2, Inl _) \<Rightarrow> (l2, Inl PUnavailable)
                | (l2, Inr (Some existing)) \<Rightarrow>
                    (l2, if box_Open E rb existing (local_aad l2 loc) \<noteq> Some raw then Inl PUnavailable else Inr ())
                | (l2, Inr None) \<Rightarrow>
                    (case create_in (l_recoveryDir l2) loc
                            (box_Seal E rb (nonces E (2 * l_rng l2 + 1)) raw (local_aad l2 loc)) (l2\<lparr>l_rng := Suc (l_rng l2)\<rparr>) of
                       (dir', l3, ok) \<Rightarrow> (l3\<lparr>l_recoveryDir := dir'\<rparr>, if ok then Inr () else Inl PUnavailable)))))"

end
