(* ===== verification/Provider_Laws.thy ===== *)
theory Provider_Laws
  imports Provider
begin

text \<open>
  The interface \<open>secret_store\<close> the broker relies on, its client lemma that a stored secret stays
  readable until it is deleted, and the interpretation by the encrypted local store.
\<close>

section \<open>The interface\<close>

text \<open>
  \<open>contents\<close> is what an undisturbed read of a reference gives. A successful write stores its
  bundle under a new reference; no operation disturbs another reference; a read never
  returns anything but the contents; a successful delete removes them.
\<close>

datatype ('b, 'r) store_op = SWrite 'b | SRead 'r | SDelete 'r

locale secret_store =
  fixes put :: "'s \<Rightarrow> 'b \<Rightarrow> 's \<times> ('e + 'r)"
    and get :: "'s \<Rightarrow> 'r \<Rightarrow> 's \<times> ('e + 'b)"
    and del :: "'s \<Rightarrow> 'r \<Rightarrow> 's \<times> ('e + unit)"
    and contents :: "'s \<Rightarrow> 'r \<Rightarrow> 'v option"
    and view :: "'b \<Rightarrow> 'v"
    and ok :: "'s \<Rightarrow> bool"
    and storable :: "'b \<Rightarrow> bool"
  assumes write_stored: "ok s \<Longrightarrow> storable b \<Longrightarrow> put s b = (s', Inr r) \<Longrightarrow> contents s r = None \<and> contents s' r = Some (view b)"
    and write_keeps: "ok s \<Longrightarrow> put s b = (s', x) \<Longrightarrow> ok s' \<and> (\<forall>r v. contents s r = Some v \<longrightarrow> contents s' r = Some v)"
    and read_contents: "ok s \<Longrightarrow> get s r = (s', Inr b) \<Longrightarrow> contents s r = Some (view b)"
    and read_keeps: "ok s \<Longrightarrow> get s r = (s', y) \<Longrightarrow> ok s' \<and> contents s' = contents s"
    and delete_removes: "ok s \<Longrightarrow> del s r = (s', Inr ()) \<Longrightarrow> contents s' r = None"
    and delete_keeps: "ok s \<Longrightarrow> del s r = (s', z) \<Longrightarrow> ok s' \<and> (\<forall>r'. r' \<noteq> r \<longrightarrow> contents s' r' = contents s r')"
begin

fun run :: "'s \<Rightarrow> ('b, 'r) store_op list \<Rightarrow> 's" where
  "run s [] = s"
| "run s (SWrite b # xs) = run (fst (put s b)) xs"
| "run s (SRead r # xs) = run (fst (get s r)) xs"
| "run s (SDelete r # xs) = run (fst (del s r)) xs"

lemma run_keeps: "ok s \<Longrightarrow> contents s r = Some v \<Longrightarrow> SDelete r \<notin> set xs \<Longrightarrow> ok (run s xs) \<and> contents (run s xs) r = Some v"
proof (induction xs arbitrary: s)
  case (Cons x xs)
  show ?case
  proof (cases x)
    case (SWrite b)
    with write_keeps [OF Cons.prems(1), of b "fst (put s b)" "snd (put s b)"] Cons show ?thesis by simp
  next
    case (SRead r')
    with read_keeps [OF Cons.prems(1), of r' "fst (get s r')" "snd (get s r')"] Cons show ?thesis by simp
  next
    case (SDelete r')
    with delete_keeps [OF Cons.prems(1), of r' "fst (del s r')" "snd (del s r')"] Cons show ?thesis by simp
  qed
qed simp

lemma stored_secret_reads_back:
  assumes "ok s" "storable b" "put s b = (s1, Inr r)" "SDelete r \<notin> set xs" "get (run s1 xs) r = (s2, Inr b')"
  shows "view b' = view b"
proof -
  have "ok s1" "contents s1 r = Some (view b)"
    using write_keeps [OF assms(1,3)] write_stored [OF assms(1-3)] by simp_all
  from run_keeps [OF this assms(4)] read_contents [OF _ assms(5)] show ?thesis by simp
qed

end

section \<open>The local store provides it\<close>

definition local_contents :: "'a provider_env_scheme \<Rightarrow> Local \<Rightarrow> Ref \<Rightarrow> (string \<Rightarrow> bytes option) option" where
  "local_contents E l r =
     (let dec = (\<lambda>box enc. if length enc > 614400 then None
                  else case unseal_bundle E l box (ref_Locator r) enc of Inl _ \<Rightarrow> None | Inr b \<Rightarrow> Some (map_of b)) in
      if ref_foreign l r then None
      else case go_lookup (l_dir l) (ref_Locator r) of
        Some enc \<Rightarrow> dec (l_box l) enc
      | None \<Rightarrow>
          (case l_recoveryBox l of
             None \<Rightarrow> None
           | Some rb \<Rightarrow> (case go_lookup (l_recoveryDir l) (ref_Locator r) of None \<Rightarrow> None | Some enc \<Rightarrow> dec rb enc)))"

text \<open>A bundle is a Go map whose keys are valid UTF-8; for those, the encoding reads back.\<close>

definition bundle_ok :: "Bundle \<Rightarrow> bool" where
  "bundle_ok b \<longleftrightarrow> go_wf b \<and> list_all (\<lambda>(k, v). utf8_valid k) b"

definition store_ok :: "'a provider_env_scheme \<Rightarrow> Local \<Rightarrow> bool" where
  "store_ok E l \<longleftrightarrow> gcm_ok E \<and> (\<forall>n. length (nonces E n) = 12) \<and> (\<forall>n. length (l_random l n) = 32) \<and>
     (\<forall>b. bundle_ok b \<and> length (json_bundle E b) \<le> 524288 \<longrightarrow>
        (\<exists>b'. strictjson_Decode E (decode_bundle E) (json_bundle E b) = Some b' \<and> map_of b' = map_of b))"

text \<open>Everything but the tape and the counter of random values.\<close>

definition l_erase :: "Local \<Rightarrow> Local" where
  "l_erase l = l\<lparr>l_io := [], l_rng := 0\<rparr>"

lemma l_erase_eqD:
  assumes "l_erase l' = l_erase l"
  shows "l_ID l' = l_ID l" "l_box l' = l_box l" "l_dir l' = l_dir l" "l_recoveryBox l' = l_recoveryBox l"
    "l_recoveryDir l' = l_recoveryDir l" "l_random l' = l_random l"
  using assms by (cases l; cases l'; simp add: l_erase_def)+

lemma l_next_erase: "l_next l = (b, l') \<Longrightarrow> l_erase l' = l_erase l"
  by (auto simp: l_next_def l_erase_def split: prod.splits io.splits)

lemma unseal_erase:
  assumes "l_ID l' = l_ID l"
  shows "unseal_bundle E l' = unseal_bundle E l" "ref_foreign l' = ref_foreign l"
  using assms by (simp_all add: fun_eq_iff unseal_bundle_def local_aad_def ref_foreign_def)

lemma contents_erase: "local_contents E l' = local_contents E l" if "l_erase l' = l_erase l"
  by (rule ext) (simp only: local_contents_def l_erase_eqD [OF that] unseal_erase [OF l_erase_eqD(1) [OF that]])

lemma store_ok_erase: "l_erase l' = l_erase l \<Longrightarrow> store_ok E l' = store_ok E l"
  by (drule l_erase_eqD(6)) (simp add: store_ok_def)

lemma read_file_erase: "read_file l dir name = (l', x) \<Longrightarrow> l_erase l' = l_erase l"
  by (auto simp: read_file_def split: option.splits prod.splits bool.splits dest: l_next_erase)

lemma read_file_Some:
  "read_file l dir name = (l', Inr (Some b)) \<Longrightarrow> go_lookup dir name = Some b \<and> length b \<le> 614400"
  by (auto simp: read_file_def split: option.splits prod.splits bool.splits if_splits)

lemma read_file_None: "read_file l dir name = (l', Inr None) \<Longrightarrow> go_lookup dir name = None"
  by (auto simp: read_file_def split: option.splits prod.splits bool.splits if_splits)

lemma Local_Read_erase: "Local_Read E canceled l r = (l', x) \<Longrightarrow> l_erase l' = l_erase l"
  by (auto simp: Local_Read_def split: if_splits prod.splits sum.splits option.splits dest!: read_file_erase)

lemma Local_Read_contents:
  assumes "Local_Read E canceled l r = (l', Inr b)"
  shows "local_contents E l r = Some (map_of b)"
proof -
  from assms have nf: "\<not> ref_foreign l r" by (auto simp: Local_Read_def split: if_splits)
  obtain l1 x where r1: "read_file l (l_dir l) (ref_Locator r) = (l1, x)" by fastforce
  note e1 = l_erase_eqD [OF read_file_erase [OF r1]]
  show ?thesis
  proof (cases "\<exists>enc. x = Inr (Some enc)")
    case True
    then obtain enc where x: "x = Inr (Some enc)" by blast
    with assms nf r1 have "unseal_bundle E l1 (l_box l1) (ref_Locator r) enc = Inr b"
      by (auto simp: Local_Read_def split: if_splits)
    then show ?thesis
      using read_file_Some [OF r1 [unfolded x]] nf e1 unseal_erase(1) [OF e1(1), of E] by (simp add: local_contents_def)
  next
    case False
    with assms nf r1 have x: "x = Inr None" by (auto simp: Local_Read_def split: if_splits sum.splits option.splits)
    from assms nf r1 x obtain rb where rb: "l_recoveryBox l1 = Some rb"
      by (auto simp: Local_Read_def split: if_splits option.splits)
    obtain l2 y where r2: "read_file l1 (l_recoveryDir l1) (ref_Locator r) = (l2, y)" by fastforce
    note e2 = l_erase_eqD [OF read_file_erase [OF r2]]
    from assms nf r1 x rb r2 obtain enc where y: "y = Inr (Some enc)"
      and u: "unseal_bundle E l2 rb (ref_Locator r) enc = Inr b"
      by (auto simp: Local_Read_def split: if_splits option.splits sum.splits)
    from rb e1(4) have rb0: "l_recoveryBox l = Some rb" by simp
    show ?thesis
      using read_file_None [OF r1 [unfolded x]] read_file_Some [OF r2 [unfolded y]] nf e1 e2 rb0 u
        unseal_erase(1) [OF e1(1), of E] unseal_erase(1) [OF e2(1), of E] by (simp add: local_contents_def)
  qed
qed

lemma create_in_facts:
  assumes "create_in dir name data l = (dir', l', b)"
  shows "l_erase l' = l_erase l" "dir' = dir \<or> (go_lookup dir name = None \<and> dir' = go_update name data dir)"
    "b \<Longrightarrow> go_lookup dir name = None \<and> dir' = go_update name data dir"
  using assms by (auto simp: create_in_def split: if_splits prod.splits bool.splits dest!: l_next_erase)

text \<open>A store that differs from another at most by new files under one name.\<close>

definition extends :: "string \<Rightarrow> Local \<Rightarrow> Local \<Rightarrow> bool" where
  "extends loc l l' \<longleftrightarrow> l_ID l' = l_ID l \<and> l_box l' = l_box l \<and> l_recoveryBox l' = l_recoveryBox l \<and> l_random l' = l_random l \<and>
     (\<forall>k v. go_lookup (l_dir l) k = Some v \<longrightarrow> go_lookup (l_dir l') k = Some v) \<and>
     (\<forall>k v. go_lookup (l_recoveryDir l) k = Some v \<longrightarrow> go_lookup (l_recoveryDir l') k = Some v) \<and>
     (\<forall>k. k \<noteq> loc \<longrightarrow> go_lookup (l_dir l') k = go_lookup (l_dir l) k) \<and>
     (go_lookup (l_dir l) loc = None \<and> l_recoveryBox l \<noteq> None \<and> go_lookup (l_recoveryDir l) loc \<noteq> None \<longrightarrow>
        go_lookup (l_dir l') loc = None)"

lemma locator_Random: "length p = 32 \<Longrightarrow> locator_ok (Random p)"
proof -
  assume p: "length p = 32"
  have ch: "alnum (b64_char d) \<or> b64_char d = CHR ''_'' \<or> b64_char d = CHR ''-''" for d
  proof -
    have "d mod 64 < 64" by simp
    then show ?thesis
      unfolding b64_char_def Let_def alnum_def is_lower_def is_upper_def is_digit_def in_range_def
      by auto
  qed
  from p have "length (Random p) = 43" by (simp add: Random_def b64_encode_def length_b64_nums)
  with ch show ?thesis by (auto simp: locator_ok_def Random_def b64_encode_def list_all_iff dest!: b64_nums_chars)
qed

lemma create_in_frame:
  "create_in dir name data l = (dir', l', ok) \<Longrightarrow>
     l_ID l' = l_ID l \<and> l_box l' = l_box l \<and> l_dir l' = l_dir l \<and> l_recoveryBox l' = l_recoveryBox l \<and>
     l_recoveryDir l' = l_recoveryDir l \<and> l_random l' = l_random l \<and>
     (dir' = dir \<and> \<not> ok \<or> go_lookup dir name = None \<and> dir' = go_update name data dir)"
  using l_erase_eqD [OF create_in_facts(1)] create_in_facts(2,3) by (metis (no_types, lifting))

lemma contents_extends:
  assumes "extends loc l l'" "local_contents E l r = Some v"
  shows "local_contents E l' r = Some v"
proof -
  have dir: "go_lookup (l_dir l') (ref_Locator r) = None" if "go_lookup (l_dir l) (ref_Locator r) = None"
      "l_recoveryBox l \<noteq> None" "go_lookup (l_recoveryDir l) (ref_Locator r) \<noteq> None"
    using assms(1) that by (cases "ref_Locator r = loc") (simp_all add: extends_def)
  have eqs: "ref_foreign l' r = ref_foreign l r" "unseal_bundle E l' = unseal_bundle E l"
    "l_recoveryBox l' = l_recoveryBox l" "l_box l' = l_box l"
    using assms(1) by (auto simp: extends_def ref_foreign_def unseal_bundle_def local_aad_def fun_eq_iff)
  have keep: "go_lookup (l_dir l) k = Some x \<Longrightarrow> go_lookup (l_dir l') k = Some x"
    "go_lookup (l_recoveryDir l) k = Some x \<Longrightarrow> go_lookup (l_recoveryDir l') k = Some x" for k x
    using assms(1) by (simp_all add: extends_def)
  show ?thesis
    using assms(2) dir keep by (auto simp: local_contents_def Let_def eqs split: if_splits option.splits sum.splits)
qed

lemma extends_refl: "extends loc l l'" if "l_erase l' = l_erase l"
  by (simp add: extends_def l_erase_eqD [OF that])

text \<open>One successful or failed \<^verbatim>\<open>Create\<close> in the recovery directory, then one in the store's own.\<close>

lemma Local_Write_extends:
  assumes "Local_Write E False l b = (l', x)" "\<not> length (json_bundle E b) > 524288"
  defines "loc \<equiv> Random (l_random l (l_rng l))"
  shows "extends loc l l' \<and>
    (\<forall>r. x = Inr r \<longrightarrow> r = \<lparr>ref_Provider = l_ID l, ref_Locator = loc, ref_Version = ''1''\<rparr> \<and>
       go_lookup (l_dir l) loc = None \<and> (l_recoveryBox l \<noteq> None \<longrightarrow> go_lookup (l_recoveryDir l) loc = None) \<and>
       (\<exists>n. go_lookup (l_dir l') loc = Some (box_Seal E (l_box l) (nonces E n) (json_bundle E b) (local_aad l loc))))"
proof -
  let ?l1 = "l\<lparr>l_rng := Suc (l_rng l)\<rparr>" and ?raw = "json_bundle E b"
  have aad: "local_aad ?l1 k = local_aad l k" for k by (simp add: local_aad_def)
  show ?thesis
  proof (cases "l_recoveryBox l")
    case None
    obtain dir3 l3 ok3 where c: "create_in (l_dir ?l1) loc (box_Seal E (l_box ?l1) (nonces E (2 * l_rng l)) ?raw (local_aad l loc)) ?l1
        = (dir3, l3, ok3)" by (metis prod_cases3)
    from create_in_frame [OF c] assms None c show ?thesis
      by (cases ok3) (auto simp: Local_Write_def Let_def extends_def gomap_simps aad)
  next
    case (Some rb)
    obtain dir2 l2 ok2 where c: "create_in (l_recoveryDir ?l1) loc (box_Seal E rb (nonces E (2 * l_rng l + 1)) ?raw (local_aad l loc)) ?l1
        = (dir2, l2, ok2)" by (metis prod_cases3)
    let ?l2 = "l2\<lparr>l_recoveryDir := dir2\<rparr>"
    obtain dir3 l3 ok3 where d: "create_in (l_dir ?l2) loc (box_Seal E (l_box ?l1) (nonces E (2 * l_rng l)) ?raw (local_aad l loc)) ?l2
        = (dir3, l3, ok3)" by (metis prod_cases3)
    from create_in_frame [OF c] create_in_frame [OF d] assms Some c d show ?thesis
      by (cases ok2; cases ok3) (auto simp: Local_Write_def Let_def extends_def gomap_simps aad)
  qed
qed


lemma store_ok_extends: "extends loc l l' \<Longrightarrow> store_ok E l \<Longrightarrow> store_ok E l'"
  by (simp add: extends_def store_ok_def)

lemma Local_Write_keeps:
  assumes "Local_Write E False l b = (l', x)"
  shows "\<exists>loc. extends loc l l'"
  using assms Local_Write_extends [OF assms]
  by (cases "length (json_bundle E b) > 524288") (auto simp: Local_Write_def intro: extends_refl)

lemma Local_Write_stored:
  assumes "store_ok E l" "bundle_ok b" "Local_Write E False l b = (l', Inr r)"
  shows "local_contents E l r = None \<and> local_contents E l' r = Some (map_of b)"
proof -
  from assms(3) have len: "\<not> length (json_bundle E b) > 524288" by (auto simp: Local_Write_def)
  let ?loc = "Random (l_random l (l_rng l))"
  note w = Local_Write_extends [OF assms(3) len]
  then obtain n where r: "r = \<lparr>ref_Provider = l_ID l, ref_Locator = ?loc, ref_Version = ''1''\<rparr>"
    and free: "go_lookup (l_dir l) ?loc = None" "l_recoveryBox l \<noteq> None \<longrightarrow> go_lookup (l_recoveryDir l) ?loc = None"
    and new: "go_lookup (l_dir l') ?loc = Some (box_Seal E (l_box l) (nonces E n) (json_bundle E b) (local_aad l ?loc))"
    and ext: "extends ?loc l l'" by blast
  from ext have same: "l_ID l' = l_ID l" "l_box l' = l_box l" by (simp_all add: extends_def)
  from assms(1) have env: "gcm_ok E" "length (nonces E n) = 12" "length (l_random l (l_rng l)) = 32"
    by (simp_all add: store_ok_def)
  from assms(1,2) len obtain b' where dec: "strictjson_Decode E (decode_bundle E) (json_bundle E b) = Some b'" "map_of b' = map_of b"
    by (auto simp: store_ok_def)
  from locator_Random [OF env(3)] r have nf: "\<not> ref_foreign l r" "\<not> ref_foreign l' r" by (simp_all add: ref_foreign_def same)
  have "unseal_bundle E l' (l_box l') ?loc (box_Seal E (l_box l) (nonces E n) (json_bundle E b) (local_aad l ?loc)) = Inr b'"
    using env dec by (simp add: unseal_bundle_def same local_aad_def)
  with nf new len env have "local_contents E l' r = Some (map_of b')" by (simp add: local_contents_def r)
  moreover have "local_contents E l r = None"
    using free by (cases "l_recoveryBox l") (simp_all add: local_contents_def r)
  ultimately show ?thesis using dec(2) by simp
qed

text \<open>A delete removes files under its own locator only.\<close>

lemma Local_Delete_frame:
  assumes "Local_Delete False l r = (l', x)"
  shows "l_ID l' = l_ID l \<and> l_box l' = l_box l \<and> l_recoveryBox l' = l_recoveryBox l \<and> l_random l' = l_random l \<and>
    (\<forall>k. k \<noteq> ref_Locator r \<longrightarrow> go_lookup (l_dir l') k = go_lookup (l_dir l) k \<and>
       go_lookup (l_recoveryDir l') k = go_lookup (l_recoveryDir l) k) \<and>
    (x = Inr () \<longrightarrow> \<not> ref_foreign l r \<and> go_lookup (l_dir l') (ref_Locator r) = None \<and>
       (l_recoveryBox l \<noteq> None \<longrightarrow> go_lookup (l_recoveryDir l') (ref_Locator r) = None)) \<and>
    (ref_foreign l r \<longrightarrow> l' = l)"
proof (cases "ref_foreign l r")
  case True
  with assms show ?thesis by (auto simp: Local_Delete_def)
next
  case False
  have fr: "l_ID m' = l_ID m \<and> l_box m' = l_box m \<and> l_dir m' = l_dir m \<and> l_recoveryBox m' = l_recoveryBox m \<and>
      l_recoveryDir m' = l_recoveryDir m \<and> l_random m' = l_random m" if "l_next m = (ok, m')" for m m' ok
    using l_erase_eqD [OF l_next_erase [OF that]] by simp
  show ?thesis
  proof (cases "l_recoveryBox l")
    case None
    with False assms show ?thesis
      by (auto simp: Local_Delete_def Let_def gomap_simps split: if_splits prod.splits bool.splits dest!: fr)
  next
    case (Some rb)
    with False assms show ?thesis
      by (auto simp: Local_Delete_def Let_def gomap_simps split: if_splits prod.splits bool.splits dest!: fr)
  qed
qed

lemma Local_Delete_keeps:
  assumes "Local_Delete False l r = (l', x)" "r' \<noteq> r"
  shows "local_contents E l' r' = local_contents E l r'"
proof (cases "ref_foreign l r \<or> ref_foreign l r'")
  case True
  then show ?thesis
    using Local_Delete_frame [OF assms(1)] by (auto simp: local_contents_def ref_foreign_def Let_def)
next
  case False
  with assms(2) have "ref_Locator r' \<noteq> ref_Locator r" by (cases r; cases r') (auto simp: ref_foreign_def)
  moreover note f = Local_Delete_frame [OF assms(1)]
  ultimately have "go_lookup (l_dir l') (ref_Locator r') = go_lookup (l_dir l) (ref_Locator r')"
    "go_lookup (l_recoveryDir l') (ref_Locator r') = go_lookup (l_recoveryDir l) (ref_Locator r')"
    "l_ID l' = l_ID l" "l_box l' = l_box l" "l_recoveryBox l' = l_recoveryBox l" by simp_all
  then show ?thesis by (simp only: local_contents_def unseal_erase(1) [of l' l E] unseal_erase(2) [of l' l])
qed

lemma Local_Delete_removes: "Local_Delete False l r = (l', Inr ()) \<Longrightarrow> local_contents E l' r = None"
  using Local_Delete_frame [of l r l' "Inr ()"] by (cases "l_recoveryBox l") (auto simp: local_contents_def)

interpretation ls: secret_store "Local_Write E False" "Local_Read E False" "Local_Delete False" "local_contents E" map_of
    "store_ok E" bundle_ok for E :: "'a provider_env_scheme"
proof unfold_locales
  fix s b s' and r :: Ref
  assume "store_ok E s" "bundle_ok b" "Local_Write E False s b = (s', Inr r)"
  then show "local_contents E s r = None \<and> local_contents E s' r = Some (map_of b)" by (rule Local_Write_stored)
next
  fix s b s' and x :: "perr + Ref"
  assume "store_ok E s" "Local_Write E False s b = (s', x)"
  with Local_Write_keeps show "store_ok E s' \<and> (\<forall>r v. local_contents E s r = Some v \<longrightarrow> local_contents E s' r = Some v)"
    by (metis store_ok_extends contents_extends)
next
  fix s r s' b
  assume "Local_Read E False s r = (s', Inr b)"
  then show "local_contents E s r = Some (map_of b)" by (rule Local_Read_contents)
next
  fix s r s' and y :: "perr + Bundle"
  assume "store_ok E s" "Local_Read E False s r = (s', y)"
  then show "store_ok E s' \<and> local_contents E s' = local_contents E s"
    using Local_Read_erase contents_erase store_ok_erase by metis
next
  fix s r s'
  assume "Local_Delete False s r = (s', Inr ())"
  then show "local_contents E s' r = None" by (rule Local_Delete_removes)
next
  fix s r s' and z :: "perr + unit"
  assume "store_ok E s" "Local_Delete False s r = (s', z)"
  then show "store_ok E s' \<and> (\<forall>r'. r' \<noteq> r \<longrightarrow> local_contents E s' r' = local_contents E s r')"
    using Local_Delete_frame [of s r s' z] Local_Delete_keeps [of s r s' z _ E] by (simp add: store_ok_def)
qed

text \<open>Operations of clients of one local store, in any order.\<close>

fun local_run :: "'a provider_env_scheme \<Rightarrow> Local \<Rightarrow> (Bundle, Ref) store_op list \<Rightarrow> Local" where
  "local_run E l [] = l"
| "local_run E l (SWrite b # xs) = local_run E (fst (Local_Write E False l b)) xs"
| "local_run E l (SRead r # xs) = local_run E (fst (Local_Read E False l r)) xs"
| "local_run E l (SDelete r # xs) = local_run E (fst (Local_Delete False l r)) xs"

lemma local_run_eq: "secret_store.run (Local_Write E False) (Local_Read E False) (Local_Delete False) l xs = local_run E l xs"
  by (induction E l xs rule: local_run.induct) simp_all

text \<open>Without disk faults the contents are what a read returns.\<close>

lemma Local_Read_complete:
  assumes "local_contents E l r = Some v" "l_io l = []"
  shows "\<exists>b. snd (Local_Read E False l r) = Inr b \<and> map_of b = v"
proof -
  have io: "l_next m = (True, m)" if "l_io m = []" for m
    using that by (cases m) (simp add: l_next_def pop_io_def)
  from assms show ?thesis
    by (auto simp: local_contents_def Local_Read_def read_file_def io Let_def split: if_splits option.splits sum.splits)
qed

section \<open>The property\<close>

text \<open>C23: A secret the local store accepted reads back unchanged. Whatever writes, reads and
  deletes of other references follow, and whatever disk faults they meet, a later read of
  its reference returns the values that were written or an error, and without a disk fault
  it does return them.\<close>

theorem stored_secret_reads_back_local:
  assumes "store_ok E l" "bundle_ok b" "Local_Write E False l b = (l1, Inr r)" "SDelete r \<notin> set ops"
  defines "l2 \<equiv> local_run E l1 ops"
  shows "(\<forall>b'. snd (Local_Read E False l2 r) = Inr b' \<longrightarrow> map_of b' = map_of b) \<and>
    (l_io l2 = [] \<longrightarrow> (\<exists>b'. snd (Local_Read E False l2 r) = Inr b' \<and> map_of b' = map_of b))"
proof -
  have "map_of b' = map_of b" if "snd (Local_Read E False l2 r) = Inr b'" for b'
    using ls.stored_secret_reads_back [OF assms(1-4), of "fst (Local_Read E False l2 r)" b'] that
    by (simp add: local_run_eq l2_def prod_eq_iff)
  moreover have "local_contents E l2 r = Some (map_of b)"
    using ls.run_keeps [of E l1 r "map_of b" ops] ls.write_keeps [OF assms(1,3)] ls.write_stored [OF assms(1-3)] assms(4)
    by (simp add: local_run_eq l2_def)
  ultimately show ?thesis using Local_Read_complete by blast
qed

section \<open>A concrete store\<close>

definition demo_bundle_bytes :: "Bundle \<Rightarrow> bytes" where
  "demo_bundle_bytes b = concat (map (\<lambda>(k, v). b64_encode k @ '':'' @ b64_encode v @ '','') b)"

definition demo_decode_bundle :: "bytes \<Rightarrow> Bundle option" where
  "demo_decode_bundle s =
     Some (map (\<lambda>p. (the (b64_decode (hd (Split CHR '':'' p))), the (b64_decode (last (Split CHR '':'' p))))) (butlast (Split CHR '','' s)))"

definition demo_provider_env :: provider_env where
  "demo_provider_env = contract_env.extend demo_contract_env \<lparr>json_bundle = demo_bundle_bytes, decode_bundle = demo_decode_bundle\<rparr>"

definition demo_local :: Local where
  "demo_local = \<lparr>l_ID = ''local'', l_box = replicate 32 CHR ''k'', l_dir = [], l_recoveryBox = Some (replicate 32 CHR ''q''), l_recoveryDir = [],
     l_io = [], l_random = (\<lambda>n. replicate 31 CHR ''r'' @ [char_of n]), l_rng = 0\<rparr>"

lemma b64_no_sep: "c \<in> set (b64_encode s) \<Longrightarrow> c \<noteq> CHR '','' \<and> c \<noteq> CHR '':'' \<and> in_range (CHR 0x00) (CHR 0x7F) c"
proof -
  assume "c \<in> set (b64_encode s)"
  then obtain d where "c = b64_char d" by (auto simp: b64_encode_def dest: b64_nums_chars)
  then have "b64_val c = Some (d mod 64)" by simp
  then show ?thesis by (auto simp: b64_val_def Let_def in_range_def split: if_splits)
qed

lemma utf8_valid_ascii: "(\<And>c. c \<in> set s \<Longrightarrow> in_range (CHR 0x00) (CHR 0x7F) c) \<Longrightarrow> utf8_valid s"
  by (induction s) simp_all

lemma demo_bundle_split: "Split CHR '','' (demo_bundle_bytes b) = map (\<lambda>(k, v). b64_encode k @ '':'' @ b64_encode v) b @ [[]]"
proof (induction b)
  case (Cons x b)
  obtain k v where x: "x = (k, v)" by fastforce
  have "CHR '','' \<notin> set (b64_encode k @ '':'' @ b64_encode v)" using b64_no_sep by auto
  from Split_append [OF this, of "demo_bundle_bytes b"] Cons show ?case by (simp add: demo_bundle_bytes_def x)
qed (simp add: demo_bundle_bytes_def)

lemma demo_bundle_decode: "demo_decode_bundle (demo_bundle_bytes b) = Some b"
proof -
  have "Split CHR '':'' (b64_encode k @ CHR '':'' # b64_encode v) = [b64_encode k, b64_encode v]" for k v
    using b64_no_sep [of "CHR '':''"] by (subst Split_append) (auto intro: Split_single)
  then show ?thesis by (simp add: demo_decode_bundle_def demo_bundle_split o_def case_prod_unfold)
qed

lemma demo_store_ok: "store_ok demo_provider_env demo_local"
proof -
  have utf8: "utf8_valid (demo_bundle_bytes b)" for b
    by (rule utf8_valid_ascii) (auto simp: demo_bundle_bytes_def in_range_def dest: b64_no_sep)
  have tok: "strict_tokens (json_tokens demo_provider_env x)" for x
    by (simp add: strict_tokens_def demo_provider_env_def demo_contract_env_def demo_id_env_def contract_env.defs id_env.defs numeral_nat)
  have "strictjson_Decode demo_provider_env demo_decode_bundle (demo_bundle_bytes b) = Some b" for b
    unfolding strictjson_Decode_def using utf8 tok demo_bundle_decode by simp
  moreover have "gcm_ok demo_provider_env" "length (nonces demo_provider_env n) = 12" "length (l_random demo_local n) = 32"
    "json_bundle demo_provider_env = demo_bundle_bytes" "decode_bundle demo_provider_env = demo_decode_bundle" for n
    by (simp_all add: demo_provider_env_def demo_contract_env_def demo_id_env_def demo_local_def gcm_ok_def contract_env.defs id_env.defs)
  ultimately show ?thesis by (simp add: store_ok_def)
qed

text \<open>Without faults to come, no operation meets one.\<close>

lemma l_next_quiet: "l_io m = [] \<Longrightarrow> l_next m = (True, m)"
  by (cases m) (simp add: l_next_def pop_io_def)

lemma create_in_quiet: "l_io l = [] \<Longrightarrow> create_in d k x l = (if go_lookup d k = None then (go_update k x d, l, True) else (d, l, False))"
  by (simp add: create_in_def l_next_quiet)

lemma read_file_quiet: "l_io l = [] \<Longrightarrow> fst (read_file l d k) = l"
  by (simp add: read_file_def l_next_quiet split: option.splits)

lemma Local_Write_quiet: "l_io l = [] \<Longrightarrow> l_io (fst (Local_Write E False l b)) = []"
  by (simp add: Local_Write_def Let_def create_in_quiet split: option.splits)

lemma Local_Read_quiet: "l_io l = [] \<Longrightarrow> l_io (fst (Local_Read E False l r)) = []"
  using read_file_quiet [of l "l_dir l" "ref_Locator r"] read_file_quiet [of l "l_recoveryDir l" "ref_Locator r"]
  by (auto simp: Local_Read_def split: option.splits prod.splits sum.splits)

theorem stored_secret_reads_back_local_witness:
  "\<exists>l1 r b'. Local_Write demo_provider_env False demo_local [(''token'', ''x'')] = (l1, Inr r) \<and>
     snd (Local_Read demo_provider_env False (local_run demo_provider_env l1 [SWrite [(''token'', ''y'')], SRead r]) r) = Inr b' \<and>
     map_of b' = [''token'' \<mapsto> ''x'']"
proof -
  let ?E = demo_provider_env and ?b = "[(''token'', ''x'')]"
  have ok: "bundle_ok ?b" by (simp add: bundle_ok_def in_range_def)
  have len: "length (json_bundle ?E ?b) \<le> 524288"
    by (simp add: demo_provider_env_def contract_env.defs demo_bundle_bytes_def b64_encode_def length_b64_nums)
  have "l_io demo_local = []" "l_recoveryDir demo_local = []" "l_dir demo_local = []" by (simp_all add: demo_local_def)
  with len obtain l1 r where w: "Local_Write ?E False demo_local ?b = (l1, Inr r)"
    by (cases "l_recoveryBox demo_local") (auto simp: Local_Write_def Let_def create_in_quiet)
  have "l_io l1 = []" using Local_Write_quiet [of demo_local ?E ?b] w by (simp add: demo_local_def)
  then have "l_io (local_run ?E l1 [SWrite [(''token'', ''y'')], SRead r]) = []"
    by (simp add: Local_Write_quiet Local_Read_quiet)
  with stored_secret_reads_back_local [OF demo_store_ok ok w, of "[SWrite [(''token'', ''y'')], SRead r]"] w
  show ?thesis by auto
qed

end
