(* ===== verification/Materialize.thy ===== *)
theory Materialize
  imports Provider_Laws
begin

text \<open>
  The materializer (\<^verbatim>\<open>services/credential-broker/materialize/materialize.go\<close>): lease directories
  under one root, the delivery of values to environment variables and read-only files, the
  writable state directory, its snapshot, and the removal of everything.

  A lease directory holds its delivered files and, when the contract has state, a state
  directory the workload may change. \<^verbatim>\<open>os.Mkdir\<close>, \<^verbatim>\<open>securefs.Create\<close>, \<^verbatim>\<open>securefs.Read\<close> and
  \<^verbatim>\<open>os.RemoveAll\<close> consume outcomes of a tape as in \<open>Journal\<close>; a failed removal leaves the directory
  with some of its files gone.
\<close>

section \<open>Data\<close>

datatype merr = ErrMaterialize | MActive | MFs

record Mount =
  mt_Source :: string
  mt_Target :: string
  mt_ReadOnly :: bool

record Materialized =
  mz_LeaseID :: string
  mz_ExpiresAt :: time
  mz_Env :: "(string, string) gomap"
  mz_Mounts :: "Mount list"

record LeaseDir =
  ld_files :: "(string, bytes) gomap"
  ld_state :: "(string, bytes) gomap option"

record Manager =
  m_root :: string
  m_active :: "string list"
  m_dirs :: "(string, LeaseDir) gomap"
  m_io :: "io list"

record materialize_env = provider_env +
  json_strings :: "(string, string) gomap \<Rightarrow> bytes"

definition leaseID :: "string \<Rightarrow> bool" where
  "leaseID s \<longleftrightarrow> length s = 33 \<and> hd s = CHR ''l'' \<and>
     list_all (\<lambda>c. is_digit c \<or> in_range (CHR ''a'') (CHR ''f'') c) (tl s)"

definition m_next :: "Manager \<Rightarrow> io \<times> Manager" where
  "m_next m = (case pop_io (m_io m) of (x, xs) \<Rightarrow> (x, m\<lparr>m_io := xs\<rparr>))"

text \<open>\<^verbatim>\<open>filepath.Join\<close> of clean parts, and \<^verbatim>\<open>fmt.Sprintf("file-%02d", i)\<close>.\<close>

definition path_join :: "string \<Rightarrow> string \<Rightarrow> string" where
  "path_join a b = a @ ''/'' @ b"

definition file_name :: "nat \<Rightarrow> string" where
  "file_name i = ''file-'' @ (if i < 10 then ''0'' else []) @ nat_digits i"

section \<open>The directory operations\<close>

definition RemoveAll :: "string \<Rightarrow> Manager \<Rightarrow> Manager \<times> bool" where
  "RemoveAll i m =
     (case m_next m of
        (IoOk, m1) \<Rightarrow> (m1\<lparr>m_dirs := go_delete i (m_dirs m1)\<rparr>, True)
      | (IoFail k, m1) \<Rightarrow>
          (case go_lookup (m_dirs m1) i of
             None \<Rightarrow> (m1, False)
           | Some d \<Rightarrow> (m1\<lparr>m_dirs := go_update i (d\<lparr>ld_files := drop k (ld_files d)\<rparr>) (m_dirs m1)\<rparr>, False)))"

definition Mkdir :: "string \<Rightarrow> Manager \<Rightarrow> Manager \<times> bool" where
  "Mkdir i m =
     (if go_lookup (m_dirs m) i \<noteq> None then (m, False)
      else case m_next m of
        (IoFail _, m1) \<Rightarrow> (m1, False)
      | (IoOk, m1) \<Rightarrow> (m1\<lparr>m_dirs := go_update i \<lparr>ld_files = [], ld_state = None\<rparr> (m_dirs m1)\<rparr>, True))"

text \<open>\<^verbatim>\<open>securefs.Create\<close> in the lease directory or in its state directory.\<close>

definition create_file :: "string \<Rightarrow> bool \<Rightarrow> string \<Rightarrow> bytes \<Rightarrow> Manager \<Rightarrow> Manager \<times> bool" where
  "create_file i in_state name data m =
     (case go_lookup (m_dirs m) i of
        None \<Rightarrow> (m, False)
      | Some d \<Rightarrow>
          let here = (if in_state then (case ld_state d of None \<Rightarrow> [] | Some s \<Rightarrow> s) else ld_files d);
              put = (\<lambda>fs. if in_state then d\<lparr>ld_state := Some fs\<rparr> else d\<lparr>ld_files := fs\<rparr>)
          in if go_lookup here name \<noteq> None then (m, False)
             else case m_next m of
               (IoFail _, m1) \<Rightarrow> (m1, False)
             | (IoOk, m1) \<Rightarrow>
                 (case m_next (m1\<lparr>m_dirs := go_update i (put (go_update name data here)) (m_dirs m1)\<rparr>) of
                    (IoOk, m2) \<Rightarrow> (m2, True)
                  | (IoFail _, m2) \<Rightarrow> (m2, False)))"

section \<open>New\<close>

text \<open>An entry of the root directory: its name, and whether it is a real directory.\<close>

fun clean_entries :: "(string \<times> bool) list \<Rightarrow> Manager \<Rightarrow> Manager \<times> (merr + unit)" where
  "clean_entries [] m = (m, Inr ())"
| "clean_entries ((name, isdir) # es) m =
     (if \<not> leaseID name \<or> \<not> isdir then (m, Inl ErrMaterialize)
      else case RemoveAll name m of
        (m1, False) \<Rightarrow> (m1, Inl MFs)
      | (m1, True) \<Rightarrow> clean_entries es m1)"

definition Manager_New :: "string \<Rightarrow> bool \<Rightarrow> bool \<Rightarrow> bool \<Rightarrow> (string \<times> bool) list \<Rightarrow> (string, LeaseDir) gomap \<Rightarrow> io list \<Rightarrow> merr + Manager" where
  "Manager_New root secure requireTmpfs tmpfs entries dirs ios =
     (if \<not> secure then Inl MFs
      else if requireTmpfs \<and> \<not> tmpfs then Inl MFs
      else case clean_entries entries \<lparr>m_root = root, m_active = [], m_dirs = dirs, m_io = ios\<rparr> of
        (_, Inl e) \<Rightarrow> Inl e
      | (m, Inr _) \<Rightarrow> Inr m)"

section \<open>Prepare\<close>

definition delivery_content :: "'a materialize_env_scheme \<Rightarrow> Bundle \<Rightarrow> Delivery \<Rightarrow> bytes option" where
  "delivery_content E b d =
     (if d_Type d = ''json_file'' then Some (json_strings E (map (\<lambda>(k, v). (k, bundle_get b v)) (d_Mapping d)))
      else go_lookup b (d_Field d))"

fun prepare_deliveries :: "'a materialize_env_scheme \<Rightarrow> string \<Rightarrow> Bundle \<Rightarrow> nat \<Rightarrow> Delivery list \<Rightarrow> Manager \<Rightarrow> Materialized \<Rightarrow>
    Manager \<times> (merr + Materialized)" where
  "prepare_deliveries E i b n [] m out = (m, Inr out)"
| "prepare_deliveries E i b n (d # ds) m out =
     (if d_Type d = ''env'' then
        prepare_deliveries E i b (Suc n) ds m
          (case go_lookup b (d_Field d) of None \<Rightarrow> out | Some v \<Rightarrow> out\<lparr>mz_Env := go_update (d_Target d) v (mz_Env out)\<rparr>)
      else case delivery_content E b d of
        None \<Rightarrow> prepare_deliveries E i b (Suc n) ds m out
      | Some raw \<Rightarrow>
          (case create_file i False (file_name n) raw m of
             (m1, False) \<Rightarrow> (m1, Inl ErrMaterialize)
           | (m1, True) \<Rightarrow>
               (let out1 = out\<lparr>mz_Mounts := mz_Mounts out @
                      [\<lparr>mt_Source = path_join (path_join (m_root m1) i) (file_name n), mt_Target = d_Target d, mt_ReadOnly = True\<rparr>]\<rparr>;
                    out2 = (if d_EnvName d \<noteq> [] then out1\<lparr>mz_Env := go_update (d_EnvName d) (d_Target d) (mz_Env out1)\<rparr> else out1)
                in prepare_deliveries E i b (Suc n) ds m1 out2)))"

fun prepare_state_files :: "'a materialize_env_scheme \<Rightarrow> string \<Rightarrow> Bundle \<Rightarrow> StateFile list \<Rightarrow> Manager \<Rightarrow> Manager \<times> bool" where
  "prepare_state_files E i state [] m = (m, True)"
| "prepare_state_files E i state (f # fs) m =
     (case go_lookup state (sf_Name f) of
        None \<Rightarrow> prepare_state_files E i state fs m
      | Some value \<Rightarrow>
          if int (length value) > sf_MaxBytes f \<or> sf_JSON f \<and> \<not> strictjson_Valid E value then (m, False)
          else case create_file i True (sf_Name f) value m of
            (m1, False) \<Rightarrow> (m1, False)
          | (m1, True) \<Rightarrow> prepare_state_files E i state fs m1)"

definition mkdir_state :: "string \<Rightarrow> Manager \<Rightarrow> Manager \<times> bool" where
  "mkdir_state i m =
     (case m_next m of
        (IoFail _, m1) \<Rightarrow> (m1, False)
      | (IoOk, m1) \<Rightarrow>
          (case go_lookup (m_dirs m1) i of
             None \<Rightarrow> (m1, False)
           | Some d \<Rightarrow> (m1\<lparr>m_dirs := go_update i (d\<lparr>ld_state := Some []\<rparr>) (m_dirs m1)\<rparr>, True)))"

definition prepare_body :: "'a materialize_env_scheme \<Rightarrow> string \<Rightarrow> Contract \<Rightarrow> Bundle \<Rightarrow> Bundle \<Rightarrow> Manager \<Rightarrow> Materialized \<Rightarrow>
    Manager \<times> (merr + Materialized)" where
  "prepare_body E i c b state m out =
     (case prepare_deliveries E i b 0 (c_Deliveries c) m out of
        (m1, Inl e) \<Rightarrow> (m1, Inl e)
      | (m1, Inr out1) \<Rightarrow>
          (case c_State c of
             None \<Rightarrow> (m1, Inr out1)
           | Some st \<Rightarrow>
               (case mkdir_state i m1 of
                  (m2, False) \<Rightarrow> (m2, Inl ErrMaterialize)
                | (m2, True) \<Rightarrow>
                    (case prepare_state_files E i state (st_Files st) m2 of
                       (m3, False) \<Rightarrow> (m3, Inl ErrMaterialize)
                     | (m3, True) \<Rightarrow>
                         (m3, Inr (out1\<lparr>mz_Mounts := mz_Mounts out1 @
                            [\<lparr>mt_Source = path_join (path_join (m_root m3) i) ''state'', mt_Target = st_Target st, mt_ReadOnly = False\<rparr>]\<rparr>))))))"

text \<open>The deferred removal runs on every path after \<^verbatim>\<open>Mkdir\<close> that does not reach the end.\<close>

definition Prepare :: "'a materialize_env_scheme \<Rightarrow> string \<Rightarrow> time \<Rightarrow> Contract \<Rightarrow> Bundle \<Rightarrow> Bundle \<Rightarrow> Manager \<Rightarrow>
    Manager \<times> (merr + Materialized)" where
  "Prepare E i expires c b state m =
     (if \<not> leaseID i \<or> \<not> ValidateStructure E c \<or> \<not> ValidateValues E c b then (m, Inl ErrMaterialize)
      else if i \<in> set (m_active m) then (m, Inl MActive)
      else case Mkdir i m of
        (m1, False) \<Rightarrow> (m1, Inl ErrMaterialize)
      | (m1, True) \<Rightarrow>
          (case prepare_body E i c b state m1 \<lparr>mz_LeaseID = i, mz_ExpiresAt = expires, mz_Env = [], mz_Mounts = []\<rparr> of
             (m2, Inl e) \<Rightarrow> (fst (RemoveAll i m2), Inl e)
           | (m2, Inr out) \<Rightarrow> (m2\<lparr>m_active := i # m_active m2\<rparr>, Inr out)))"

section \<open>Snapshot, Remove, Close\<close>

fun snapshot_loop :: "'a json_env_scheme \<Rightarrow> (string, bytes) gomap \<Rightarrow> StateFile list \<Rightarrow> nat \<Rightarrow> Bundle \<Rightarrow> Manager \<Rightarrow> Manager \<times> (merr + Bundle)" where
  "snapshot_loop E dir [] n out m = (m, Inr out)"
| "snapshot_loop E dir (f # fs) n out m =
     (case go_lookup dir (sf_Name f) of
        None \<Rightarrow> snapshot_loop E dir fs n out m
      | Some b \<Rightarrow>
          (case m_next m of
             (IoFail _, m1) \<Rightarrow> (m1, Inl ErrMaterialize)
           | (IoOk, m1) \<Rightarrow>
               if int (length b) > sf_MaxBytes f then (m1, Inl ErrMaterialize)
               else if sf_JSON f \<and> \<not> strictjson_Valid E b then (m1, Inl ErrMaterialize)
               else if n + length b > MaxBundle then (m1, Inl ErrMaterialize)
               else snapshot_loop E dir fs (n + length b) (go_update (sf_Name f) b out) m1))"

definition Snapshot :: "'a json_env_scheme \<Rightarrow> string \<Rightarrow> Contract \<Rightarrow> Manager \<Rightarrow> Manager \<times> (merr + Bundle)" where
  "Snapshot E i c m =
     (case c_State c of
        None \<Rightarrow> (m, Inl ErrMaterialize)
      | Some st \<Rightarrow>
          if \<not> ValidID i \<or> i \<notin> set (m_active m) then (m, Inl ErrMaterialize)
          else
            let dir = (case go_lookup (m_dirs m) i of
                         None \<Rightarrow> []
                       | Some d \<Rightarrow> (case ld_state d of None \<Rightarrow> [] | Some s \<Rightarrow> s))
            in snapshot_loop E dir (st_Files st) 0 [] m)"

definition Manager_Remove :: "string \<Rightarrow> Manager \<Rightarrow> Manager \<times> (merr + unit)" where
  "Manager_Remove i m =
     (if \<not> leaseID i then (m, Inl ErrMaterialize)
      else case RemoveAll i m of
        (m1, False) \<Rightarrow> (m1, Inl ErrMaterialize)
      | (m1, True) \<Rightarrow> (m1\<lparr>m_active := removeAll i (m_active m1)\<rparr>, Inr ()))"

fun close_loop :: "string list \<Rightarrow> Manager \<Rightarrow> bool \<Rightarrow> Manager \<times> bool" where
  "close_loop [] m ok = (m, ok)"
| "close_loop (i # ids) m ok =
     (case RemoveAll i m of
        (m1, False) \<Rightarrow> close_loop ids m1 False
      | (m1, True) \<Rightarrow> close_loop ids (m1\<lparr>m_active := removeAll i (m_active m1)\<rparr>) ok)"

definition Manager_Close :: "Manager \<Rightarrow> Manager \<times> (merr + unit)" where
  "Manager_Close m = (case close_loop (m_active m) m True of (m1, ok) \<Rightarrow> (m1, if ok then Inr () else Inl ErrMaterialize))"

end
