(* ===== verification/Materialize_Props.thy ===== *)
theory Materialize_Props
  imports Materialize
begin

text \<open>
  What the materializer guarantees: it touches one lease directory only, delivers exactly what the
  contract declares, leaves nothing behind when it fails, and its snapshots are
  bounded and return what was prepared.
\<close>

section \<open>Frame\<close>

text \<open>Two managers that agree outside the directory of one lease.\<close>

definition m_frame :: "string \<Rightarrow> Manager \<Rightarrow> Manager \<Rightarrow> bool" where
  "m_frame i m m' \<longleftrightarrow> m_root m' = m_root m \<and> m_active m' = m_active m \<and>
     (\<forall>k. k \<noteq> i \<longrightarrow> go_lookup (m_dirs m') k = go_lookup (m_dirs m) k)"

lemma m_frame_refl [simp]: "m_frame i m m"
  by (simp add: m_frame_def)

lemma m_frame_trans: "m_frame i m m1 \<Longrightarrow> m_frame i m1 m2 \<Longrightarrow> m_frame i m m2"
  by (simp add: m_frame_def)

lemma m_next_frame: "m_next m = (x, m') \<Longrightarrow> m_root m' = m_root m \<and> m_active m' = m_active m \<and> m_dirs m' = m_dirs m"
  by (auto simp: m_next_def split: prod.splits)

lemma RemoveAll_frame: "RemoveAll i m = (m', ok) \<Longrightarrow> m_frame i m m' \<and> (ok \<longrightarrow> go_lookup (m_dirs m') i = None)"
  by (auto simp: RemoveAll_def m_frame_def gomap_simps split: prod.splits io.splits option.splits dest!: m_next_frame)

lemma Mkdir_frame:
  "Mkdir i m = (m', ok) \<Longrightarrow> m_frame i m m' \<and> (ok \<longrightarrow> go_lookup (m_dirs m') i = Some \<lparr>ld_files = [], ld_state = None\<rparr>)"
  by (auto simp: Mkdir_def m_frame_def gomap_simps split: if_splits prod.splits io.splits dest!: m_next_frame)

definition lease_state :: "Manager \<Rightarrow> string \<Rightarrow> (string, bytes) gomap option" where
  "lease_state m i = Option.bind (go_lookup (m_dirs m) i) ld_state"

lemma create_file_frame:
  assumes "create_file i in_state name data m = (m', ok)"
  shows "m_frame i m m'" "\<not> in_state \<Longrightarrow> lease_state m' i = lease_state m i"
    "ok \<Longrightarrow> in_state \<Longrightarrow> lease_state m i = Some s \<Longrightarrow>
       go_lookup s name = None \<and> lease_state m' i = Some (go_update name data s)"
    "ok \<Longrightarrow> go_lookup (m_dirs m') i \<noteq> None"
    "go_lookup (m_dirs m) i \<noteq> None \<Longrightarrow> go_lookup (m_dirs m') i \<noteq> None"
  using assms
  by (auto simp: create_file_def m_frame_def lease_state_def gomap_simps Let_def split: if_splits prod.splits io.splits option.splits
      dest!: m_next_frame)

section \<open>Deliveries\<close>

definition lease_files :: "Manager \<Rightarrow> string \<Rightarrow> (string, bytes) gomap option" where
  "lease_files m i = map_option ld_files (go_lookup (m_dirs m) i)"

lemma create_file_files:
  assumes "create_file i in_state name data m = (m', ok)"
  shows "in_state \<Longrightarrow> lease_files m' i = lease_files m i"
    "ok \<Longrightarrow> \<not> in_state \<Longrightarrow> lease_files m i = Some fs \<Longrightarrow> go_lookup fs name = None \<and> lease_files m' i = Some (go_update name data fs)"
  using assms
  by (auto simp: create_file_def lease_files_def gomap_simps Let_def split: if_splits prod.splits io.splits option.splits dest!: m_next_frame)

text \<open>What the contract declares. The content of a delivered file is the value of its field, or the object that its mapping makes of the values; a file
  whose field has no value is not delivered.\<close>

definition declared_content :: "'a materialize_env_scheme \<Rightarrow> Bundle \<Rightarrow> Delivery \<Rightarrow> bytes option" where
  "declared_content E b d =
     (if d_Type d = ''env'' then None
      else if d_Type d = ''json_file'' then Some (json_strings E (map (\<lambda>(k, f). (k, case go_lookup b f of None \<Rightarrow> [] | Some v \<Rightarrow> v)) (d_Mapping d)))
      else go_lookup b (d_Field d))"

definition declared_env :: "'a materialize_env_scheme \<Rightarrow> Delivery list \<Rightarrow> Bundle \<Rightarrow> string \<Rightarrow> string \<Rightarrow> bool" where
  "declared_env E ds b k v \<longleftrightarrow>
     (\<exists>d\<in>set ds. (d_Type d = ''env'' \<and> d_Target d = k \<and> go_lookup b (d_Field d) = Some v) \<or>
                 (declared_content E b d \<noteq> None \<and> d_EnvName d = k \<and> k \<noteq> [] \<and> d_Target d = v))"

definition declared_file :: "'a materialize_env_scheme \<Rightarrow> nat \<Rightarrow> Delivery list \<Rightarrow> Bundle \<Rightarrow> string \<Rightarrow> bytes \<Rightarrow> bool" where
  "declared_file E n ds b k r \<longleftrightarrow> (\<exists>j<length ds. k = file_name (n + j) \<and> declared_content E b (ds ! j) = Some r)"

fun declared_mounts :: "'a materialize_env_scheme \<Rightarrow> Bundle \<Rightarrow> string \<Rightarrow> nat \<Rightarrow> Delivery list \<Rightarrow> Mount list" where
  "declared_mounts E b root n [] = []"
| "declared_mounts E b root n (d # ds) =
     (if declared_content E b d = None then [] else [\<lparr>mt_Source = path_join root (file_name n), mt_Target = d_Target d, mt_ReadOnly = True\<rparr>]) @
     declared_mounts E b root (Suc n) ds"

lemma content_declared: "d_Type d \<noteq> ''env'' \<Longrightarrow> delivery_content E b d = declared_content E b d"
  by (auto simp: delivery_content_def declared_content_def bundle_get_def)

lemma declared_file_Cons:
  "declared_file E n (d # ds) b k r \<longleftrightarrow> k = file_name n \<and> declared_content E b d = Some r \<or> declared_file E (Suc n) ds b k r"
  by (simp add: declared_file_def Ex_less_Suc2)

lemma declared_env_Cons:
  "declared_env E (d # ds) b k v \<longleftrightarrow>
     d_Type d = ''env'' \<and> d_Target d = k \<and> go_lookup b (d_Field d) = Some v \<or>
     declared_content E b d \<noteq> None \<and> d_EnvName d = k \<and> k \<noteq> [] \<and> d_Target d = v \<or> declared_env E ds b k v"
  by (auto simp: declared_env_def)

text \<open>An environment that extends another by the pairs of a relation.\<close>

definition env_adds :: "(string, string) gomap \<Rightarrow> (string \<Rightarrow> string \<Rightarrow> bool) \<Rightarrow> (string, string) gomap \<Rightarrow> bool" where
  "env_adds env D env' \<longleftrightarrow> (\<forall>k v. go_lookup env' k = Some v \<longrightarrow> go_lookup env k = Some v \<or> D k v) \<and>
     (\<forall>k v. go_lookup env k = Some v \<or> D k v \<longrightarrow> go_lookup env' k \<noteq> None)"

lemma env_adds_update:
  assumes "env_adds (go_update a x env) D env'" "\<And>k v. D' k v \<longleftrightarrow> k = a \<and> v = x \<or> D k v"
  shows "env_adds env D' env'"
proof -
  have s: "go_lookup env' k = Some v \<Longrightarrow> (if k = a then Some x else go_lookup env k) = Some v \<or> D k v"
    and c: "(if k = a then Some x else go_lookup env k) = Some v \<or> D k v \<Longrightarrow> go_lookup env' k \<noteq> None" for k v
    using assms(1) unfolding env_adds_def gomap_simps by blast+
  have "go_lookup env' k = Some v \<Longrightarrow> go_lookup env k = Some v \<or> D' k v" for k v
    using s [of k v] by (auto simp: assms(2) split: if_splits)
  moreover have "go_lookup env k = Some v \<or> D' k v \<Longrightarrow> go_lookup env' k \<noteq> None" for k v
    using c [of k v] c [of k x] by (cases "k = a") (auto simp: assms(2))
  ultimately show ?thesis unfolding env_adds_def by blast
qed

text \<open>A result that extends another by exactly the declared deliveries.\<close>

definition delivered :: "'a materialize_env_scheme \<Rightarrow> string \<Rightarrow> nat \<Rightarrow> Delivery list \<Rightarrow> Bundle \<Rightarrow> (string, bytes) gomap \<Rightarrow> Materialized \<Rightarrow>
    (string, bytes) gomap \<Rightarrow> Materialized \<Rightarrow> bool" where
  "delivered E root n ds b fs out fs' out' \<longleftrightarrow> mz_LeaseID out' = mz_LeaseID out \<and> mz_ExpiresAt out' = mz_ExpiresAt out \<and>
     mz_Mounts out' = mz_Mounts out @ declared_mounts E b root n ds \<and>
     env_adds (mz_Env out) (declared_env E ds b) (mz_Env out') \<and>
     (\<forall>k r. go_lookup fs' k = Some r \<longleftrightarrow> go_lookup fs k = Some r \<or> declared_file E n ds b k r)"

lemma delivered_skip:
  "d_Type d \<noteq> ''env'' \<Longrightarrow> declared_content E b d = None \<Longrightarrow> delivered E root (Suc n) ds b fs out fs' out' \<Longrightarrow> delivered E root n (d # ds) b fs out fs' out'"
  by (simp add: delivered_def env_adds_def declared_env_Cons declared_file_Cons)

lemma delivered_env:
  assumes "d_Type d = ''env''"
    and "delivered E root (Suc n) ds b fs (case go_lookup b (d_Field d) of None \<Rightarrow> out | Some v \<Rightarrow> out\<lparr>mz_Env := go_update (d_Target d) v (mz_Env out)\<rparr>) fs' out'"
  shows "delivered E root n (d # ds) b fs out fs' out'"
proof -
  have c: "declared_content E b d = None" using assms(1) by (simp add: declared_content_def)
  show ?thesis
  proof (cases "go_lookup b (d_Field d)")
    case None
    with assms c show ?thesis by (simp add: delivered_def env_adds_def declared_env_Cons declared_file_Cons)
  next
    case (Some v)
    from assms(2) Some have "delivered E root (Suc n) ds b fs (out\<lparr>mz_Env := go_update (d_Target d) v (mz_Env out)\<rparr>) fs' out'" by simp
    then have r: "env_adds (go_update (d_Target d) v (mz_Env out)) (declared_env E ds b) (mz_Env out')" "mz_LeaseID out' = mz_LeaseID out"
        "mz_ExpiresAt out' = mz_ExpiresAt out" "mz_Mounts out' = mz_Mounts out @ declared_mounts E b root (Suc n) ds"
        "\<forall>k r. go_lookup fs' k = Some r \<longleftrightarrow> go_lookup fs k = Some r \<or> declared_file E (Suc n) ds b k r"
      by (simp_all add: delivered_def)
    have "env_adds (mz_Env out) (declared_env E (d # ds) b) (mz_Env out')"
      by (rule env_adds_update [OF r(1)]) (use assms(1) c Some in \<open>auto simp: declared_env_Cons\<close>)
    with r(2-) c show ?thesis by (simp add: delivered_def declared_file_Cons)
  qed
qed

lemma delivered_mount:
  fixes out :: Materialized and root :: string and n :: nat and d :: Delivery
  defines "out1 \<equiv> out\<lparr>mz_Mounts := mz_Mounts out @ [\<lparr>mt_Source = path_join root (file_name n), mt_Target = d_Target d, mt_ReadOnly = True\<rparr>]\<rparr>"
  assumes "d_Type d \<noteq> ''env''" "declared_content E b d = Some raw" "go_lookup fs (file_name n) = None"
    and "delivered E root (Suc n) ds b (go_update (file_name n) raw fs)
      (if d_EnvName d \<noteq> [] then out1\<lparr>mz_Env := go_update (d_EnvName d) (d_Target d) (mz_Env out1)\<rparr> else out1) fs' out'"
  shows "delivered E root n (d # ds) b fs out fs' out'"
proof -
  have fs: "go_lookup (go_update (file_name n) raw fs) k = Some r \<longleftrightarrow> k = file_name n \<and> r = raw \<or> go_lookup fs k = Some r" for k r
    using assms(4) by (auto simp: gomap_simps)
  have "env_adds (mz_Env out) (declared_env E (d # ds) b) (mz_Env out')"
  proof (cases "d_EnvName d = []")
    case True
    then show ?thesis using assms(2,5) by (auto simp: delivered_def env_adds_def declared_env_Cons out1_def)
  next
    case False
    then have "env_adds (go_update (d_EnvName d) (d_Target d) (mz_Env out)) (declared_env E ds b) (mz_Env out')"
      using assms(5) by (simp add: delivered_def out1_def)
    then show ?thesis by (rule env_adds_update) (use assms(2,3) False in \<open>auto simp: declared_env_Cons\<close>)
  qed
  then show ?thesis using assms(2,3,5) fs by (auto simp: delivered_def declared_file_Cons out1_def)
qed

lemma prepare_deliveries_frame:
  assumes "prepare_deliveries E i b n ds m out = (m', x)" "lease_files m i = Some fs"
  shows "m_frame i m m' \<and> lease_state m' i = lease_state m i \<and> lease_files m' i \<noteq> None \<and>
     (case x of Inl e \<Rightarrow> e = ErrMaterialize
      | Inr out' \<Rightarrow> (\<exists>fs'. lease_files m' i = Some fs' \<and> delivered E (path_join (m_root m) i) n ds b fs out fs' out'))"
  using assms
proof (induction E i b n ds m out arbitrary: fs rule: prepare_deliveries.induct)
  case (1 E i b n m out)
  then show ?case by (auto simp: delivered_def env_adds_def declared_env_def declared_file_def)
next
  case (2 E i b n d ds m out)
  show ?case
  proof (cases "d_Type d = ''env''")
    case True
    let ?out = "case go_lookup b (d_Field d) of None \<Rightarrow> out | Some v \<Rightarrow> out\<lparr>mz_Env := go_update (d_Target d) v (mz_Env out)\<rparr>"
    have "prepare_deliveries E i b (Suc n) ds m ?out = (m', x)" using 2(4) True by simp
    from 2(1) [OF True this 2(5)] show ?thesis using delivered_env [OF True] by (cases x) (fastforce simp del: option.case)+
  next
    case nonenv: False
    show ?thesis
    proof (cases "delivery_content E b d")
      case None
      with 2(2) [OF nonenv None _ 2(5)] 2(4) nonenv delivered_skip [OF nonenv] show ?thesis
        by (cases x) (auto simp: content_declared)
    next
      case (Some raw)
      obtain m1 ok where c: "create_file i False (file_name n) raw m = (m1, ok)" by fastforce
      note f = create_file_frame [OF c] and g = create_file_files [OF c]
      show ?thesis
      proof (cases ok)
        case False
        have "go_lookup (m_dirs m) i \<noteq> None" using 2(5) by (auto simp: lease_files_def)
        then have "lease_files m1 i \<noteq> None" using f(5) by (auto simp: lease_files_def)
        with 2(4) nonenv Some c f(1,2) False show ?thesis by auto
      next
        case True
        define out1 where "out1 = out\<lparr>mz_Mounts := mz_Mounts out @ [\<lparr>mt_Source = path_join (path_join (m_root m1) i) (file_name n),
          mt_Target = d_Target d, mt_ReadOnly = True\<rparr>]\<rparr>"
        define out2 where "out2 = (if d_EnvName d \<noteq> [] then out1\<lparr>mz_Env := go_update (d_EnvName d) (d_Target d) (mz_Env out1)\<rparr> else out1)"
        have run: "prepare_deliveries E i b (Suc n) ds m1 out2 = (m', x)"
          using 2(4) nonenv Some c True by (cases "d_EnvName d = []") (simp_all add: out1_def out2_def Let_def)
        have root: "m_root m1 = m_root m" using f(1) by (simp add: m_frame_def)
        have fs: "go_lookup fs (file_name n) = None" "lease_files m1 i = Some (go_update (file_name n) raw fs)" using g(2) [OF True _ 2(5)] by simp_all
        have ih: "m_frame i m1 m' \<and> lease_state m' i = lease_state m1 i \<and> lease_files m' i \<noteq> None \<and>
          (case x of Inl e \<Rightarrow> e = ErrMaterialize | Inr out' \<Rightarrow> (\<exists>fs'. lease_files m' i = Some fs' \<and>
             delivered E (path_join (m_root m1) i) (Suc n) ds b (go_update (file_name n) raw fs) out2 fs' out'))"
          using 2(3) [OF nonenv Some c [symmetric] _ out1_def out2_def run fs(2)] True by simp
        have "declared_content E b d = Some raw" using Some content_declared [OF nonenv] by metis
        from delivered_mount [OF nonenv this fs(1), of "path_join (m_root m) i" ds out]
        have "delivered E (path_join (m_root m) i) (Suc n) ds b (go_update (file_name n) raw fs) out2 fs' out' \<Longrightarrow>
          delivered E (path_join (m_root m) i) n (d # ds) b fs out fs' out'" for fs' out'
          unfolding out2_def out1_def root .
        with ih f(1,2) m_frame_trans [OF f(1)] show ?thesis unfolding root by (cases x) auto
      qed
    qed
  qed
qed

text \<open>A valid contract uses no name of a variable twice, so what it declares for a name is one value.\<close>

definition delivery_names :: "Delivery \<Rightarrow> string list" where
  "delivery_names d = d_Target d # (if d_EnvName d = [] then [] else [d_EnvName d])"

lemma deliveries_distinct:
  "deliveries_loop flds tg ds = Some t \<Longrightarrow> distinct (concat (map delivery_names ds)) \<and> set (concat (map delivery_names ds)) \<inter> set tg = {}"
proof (induction flds tg ds rule: deliveries_loop.induct)
  case (2 flds tg d ds)
  then show ?case by (cases "d_EnvName d = []") (auto simp: delivery_names_def Let_def split: if_splits)
qed simp

lemma concat_owner: "distinct (concat (map f ds)) \<Longrightarrow> d \<in> set ds \<Longrightarrow> d' \<in> set ds \<Longrightarrow> k \<in> set (f d) \<Longrightarrow> k \<in> set (f d') \<Longrightarrow> d = d'"
  by (induction ds) auto

lemma declared_env_unique:
  assumes "ValidateStructure E c" "declared_env E' (c_Deliveries c) b k v" "declared_env E' (c_Deliveries c) b k v'"
  shows "v = v'"
proof -
  obtain flds t where "deliveries_loop flds [] (c_Deliveries c) = Some t"
    using assms(1) by (auto simp: ValidateStructure_def split: if_splits option.splits)
  note own = concat_owner [OF deliveries_distinct [OF this, THEN conjunct1]]
  obtain d where d: "d \<in> set (c_Deliveries c)" "k \<in> set (delivery_names d)"
      "d_Type d = ''env'' \<and> go_lookup b (d_Field d) = Some v \<or> declared_content E' b d \<noteq> None \<and> d_Target d = v"
    using assms(2) by (auto simp: declared_env_def delivery_names_def)
  obtain d' where d': "d' \<in> set (c_Deliveries c)" "k \<in> set (delivery_names d')"
      "d_Type d' = ''env'' \<and> go_lookup b (d_Field d') = Some v' \<or> declared_content E' b d' \<noteq> None \<and> d_Target d' = v'"
    using assms(3) by (auto simp: declared_env_def delivery_names_def)
  from own [OF d(1) d'(1) d(2) d'(2)] d(3) d'(3) show ?thesis by (auto simp: declared_content_def)
qed

section \<open>State\<close>

definition file_fits :: "'a json_env_scheme \<Rightarrow> StateFile \<Rightarrow> bytes \<Rightarrow> bool" where
  "file_fits E f v \<longleftrightarrow> int (length v) \<le> sf_MaxBytes f \<and> (sf_JSON f \<longrightarrow> strictjson_Valid E v)"

lemma prepare_state_frame:
  assumes "prepare_state_files E i state fs m = (m', ok)" "lease_state m i = Some s"
  shows "m_frame i m m' \<and> lease_files m' i = lease_files m i \<and> (ok \<longrightarrow> (\<exists>s'. lease_state m' i = Some s' \<and>
     (\<forall>k. go_lookup s' k = (if k \<in> sf_Name ` set fs \<and> go_lookup state k \<noteq> None then go_lookup state k else go_lookup s k))) \<and>
     (\<forall>f\<in>set fs. \<forall>v. go_lookup state (sf_Name f) = Some v \<longrightarrow>
        file_fits E f v))"
  using assms
proof (induction E i state fs m arbitrary: s rule: prepare_state_files.induct)
  case (2 E i state f fs m)
  show ?case
  proof (cases "go_lookup state (sf_Name f)")
    case None
    with 2(1) [OF None _ 2(4)] 2(3) show ?thesis by auto
  next
    case (Some v)
    show ?thesis
    proof (cases "int (length v) > sf_MaxBytes f \<or> sf_JSON f \<and> \<not> strictjson_Valid E v")
      case True
      with 2(3) Some show ?thesis by auto
    next
      case False
      obtain m1 ok1 where c: "create_file i True (sf_Name f) v m = (m1, ok1)" by fastforce
      note fr = create_file_frame [OF c] and ff = create_file_files(1) [OF c TrueI]
      show ?thesis
      proof (cases ok1)
        case True
        from fr(3) [OF True _ 2(4)] have s1: "lease_state m1 i = Some (go_update (sf_Name f) v s)" by simp
        from 2(3) Some False c True have run: "prepare_state_files E i state fs m1 = (m', ok)" by simp
        note ih = 2(2) [OF Some False c [symmetric] _ run s1]
        show ?thesis
          using ih True m_frame_trans [OF fr(1)] Some False ff by (fastforce simp: gomap_simps file_fits_def)
      qed (use 2(3) Some False c fr(1) ff in auto)
    qed
  qed
qed auto

lemma mkdir_state_frame:
  "mkdir_state i m = (m', ok) \<Longrightarrow> m_frame i m m' \<and> lease_files m' i = lease_files m i \<and> (ok \<longrightarrow> lease_state m' i = Some [])"
  by (auto simp: mkdir_state_def m_frame_def lease_state_def lease_files_def gomap_simps split: prod.splits io.splits option.splits dest!: m_next_frame)

section \<open>Prepare\<close>

definition state_mount :: "string \<Rightarrow> Contract \<Rightarrow> Mount list" where
  "state_mount root c = (case c_State c of None \<Rightarrow> []
     | Some st \<Rightarrow> [\<lparr>mt_Source = path_join root ''state'', mt_Target = st_Target st, mt_ReadOnly = False\<rparr>])"

text \<open>The state directory holds the saved value of each declared state file, and no directory is made without declared state.\<close>

definition state_restored :: "'a json_env_scheme \<Rightarrow> Contract \<Rightarrow> Bundle \<Rightarrow> (string, bytes) gomap option \<Rightarrow> bool" where
  "state_restored E c state dir \<longleftrightarrow> (case c_State c of None \<Rightarrow> dir = None
     | Some st \<Rightarrow> (\<exists>s. dir = Some s \<and> (\<forall>k. go_lookup s k = (if k \<in> sf_Name ` set (st_Files st) then go_lookup state k else None)) \<and>
         (\<forall>f\<in>set (st_Files st). \<forall>v. go_lookup state (sf_Name f) = Some v \<longrightarrow> file_fits E f v)))"

lemma prepare_body_facts:
  assumes "prepare_body E i c b state m out = (m', x)" "go_lookup (m_dirs m) i = Some \<lparr>ld_files = [], ld_state = None\<rparr>" "mz_Env out = []" "mz_Mounts out = []"
  shows "m_frame i m m' \<and> (\<forall>e. x = Inl e \<longrightarrow> e = ErrMaterialize) \<and> (\<forall>out'. x = Inr out' \<longrightarrow>
     mz_LeaseID out' = mz_LeaseID out \<and> mz_ExpiresAt out' = mz_ExpiresAt out \<and>
     (\<forall>k v. go_lookup (mz_Env out') k = Some v \<longrightarrow> declared_env E (c_Deliveries c) b k v) \<and>
     (\<forall>k v. declared_env E (c_Deliveries c) b k v \<longrightarrow> go_lookup (mz_Env out') k \<noteq> None) \<and>
     mz_Mounts out' = declared_mounts E b (path_join (m_root m) i) 0 (c_Deliveries c) @ state_mount (path_join (m_root m) i) c \<and>
     (\<exists>fs. lease_files m' i = Some fs \<and> (\<forall>k r. go_lookup fs k = Some r \<longleftrightarrow> declared_file E 0 (c_Deliveries c) b k r)) \<and>
     state_restored E c state (lease_state m' i))"
proof -
  obtain m1 y where d: "prepare_deliveries E i b 0 (c_Deliveries c) m out = (m1, y)" by fastforce
  have m0: "lease_files m i = Some []" "lease_state m i = None" using assms(2) by (simp_all add: lease_files_def lease_state_def)
  note pf = prepare_deliveries_frame [OF d m0(1)]
  show ?thesis
  proof (cases y)
    case (Inl e)
    with assms(1) d pf show ?thesis by (auto simp: prepare_body_def)
  next
    case (Inr out1)
    with pf obtain fs where fs: "lease_files m1 i = Some fs" "delivered E (path_join (m_root m) i) 0 (c_Deliveries c) b [] out fs out1" by auto
    note out1 = fs(2) [unfolded delivered_def env_adds_def assms(3,4)]
    show ?thesis
    proof (cases "c_State c")
      case None
      then have r: "m' = m1" "x = Inr out1" using assms(1) d Inr by (simp_all add: prepare_body_def)
      show ?thesis using pf fs(1) out1 m0 by (simp add: r state_mount_def state_restored_def None)
    next
      case (Some st)
      obtain m2 ok2 where k: "mkdir_state i m1 = (m2, ok2)" by fastforce
      note kf = mkdir_state_frame [OF k]
      have fr2: "m_frame i m m2" using pf kf m_frame_trans by blast
      show ?thesis
      proof (cases ok2)
        case False
        with assms(1) d Inr Some k fr2 show ?thesis by (auto simp: prepare_body_def)
      next
        case True
        obtain m3 ok3 where p: "prepare_state_files E i state (st_Files st) m2 = (m3, ok3)" by fastforce
        from kf True have s2: "lease_state m2 i = Some []" by simp
        note sf = prepare_state_frame [OF p s2]
        have fr3: "m_frame i m m3" using fr2 sf m_frame_trans by blast
        then have root3: "m_root m3 = m_root m" by (simp add: m_frame_def)
        have f3: "lease_files m3 i = Some fs" using sf kf fs(1) by simp
        have res: "m' = m3" "x = (if ok3 then Inr (out1\<lparr>mz_Mounts := mz_Mounts out1 @ [\<lparr>mt_Source = path_join (path_join (m_root m) i) ''state'',
            mt_Target = st_Target st, mt_ReadOnly = False\<rparr>]\<rparr>) else Inl ErrMaterialize)"
          using assms(1) d Inr Some k True p root3 by (cases ok3; simp add: prepare_body_def)+
        show ?thesis
        proof (cases ok3)
          case True
          with sf obtain s where "lease_state m3 i = Some s"
            "\<forall>k. go_lookup s k = (if k \<in> sf_Name ` set (st_Files st) \<and> go_lookup state k \<noteq> None then go_lookup state k else go_lookup [] k)"
            and v: "\<forall>f\<in>set (st_Files st). \<forall>v. go_lookup state (sf_Name f) = Some v \<longrightarrow> file_fits E f v" by blast
          then have "state_restored E c state (lease_state m3 i)" by (auto simp: state_restored_def Some)
          then show ?thesis using res True fr3 f3 out1 Some by (simp add: state_mount_def)
        qed (use res fr3 in auto)
      qed
    qed
  qed
qed

lemma Prepare_success:
  assumes "Prepare E i expires c b state m = (m', Inr out)"
  obtains m1 m2 where "leaseID i" "ValidateStructure E c" "ValidateValues E c b" "i \<notin> set (m_active m)" "Mkdir i m = (m1, True)"
    "prepare_body E i c b state m1 \<lparr>mz_LeaseID = i, mz_ExpiresAt = expires, mz_Env = [], mz_Mounts = []\<rparr> = (m2, Inr out)"
    "m' = m2\<lparr>m_active := i # m_active m2\<rparr>"
  using assms by (auto simp: Prepare_def split: if_splits prod.splits bool.splits sum.splits)

lemma leaseID_ValidID: "leaseID i \<Longrightarrow> ValidID i"
  by (cases i) (auto simp: leaseID_def ValidID_def is_lower_def in_range_def list_all_iff)

text \<open>C25: A prepared lease contains exactly what its contract declares. The lease is active afterwards and its id is a generated one. The environment has a variable
  with a value exactly if the contract maps that field of the bundle to it or names it for a delivered file. The directory of the lease has a file with a
  content exactly if it is the file of a declared delivery and the content is the value of its field, or the object of the mapped values. The mounts are
  these files, read-only, each at its declared target, and the state directory, which holds the saved value of each declared state file, within its limit, and
  nothing else. No other lease's directory is touched.\<close>

theorem prepare_delivers_exactly_declared:
  assumes "Prepare E i expires c b state m = (m', Inr out)"
  shows "leaseID i \<and> m_active m' = i # m_active m \<and> mz_LeaseID out = i \<and> mz_ExpiresAt out = expires \<and>
    (\<forall>k v. go_lookup (mz_Env out) k = Some v \<longleftrightarrow> declared_env E (c_Deliveries c) b k v) \<and>
    mz_Mounts out = declared_mounts E b (path_join (m_root m) i) 0 (c_Deliveries c) @ state_mount (path_join (m_root m) i) c \<and>
    (\<exists>d. go_lookup (m_dirs m') i = Some d \<and>
       (\<forall>k r. go_lookup (ld_files d) k = Some r \<longleftrightarrow> declared_file E 0 (c_Deliveries c) b k r) \<and> state_restored E c state (ld_state d)) \<and>
    (\<forall>k. k \<noteq> i \<longrightarrow> go_lookup (m_dirs m') k = go_lookup (m_dirs m) k)"
proof -
  obtain m1 m2 where p: "leaseID i" "ValidateStructure E c" "Mkdir i m = (m1, True)"
    "prepare_body E i c b state m1 \<lparr>mz_LeaseID = i, mz_ExpiresAt = expires, mz_Env = [], mz_Mounts = []\<rparr> = (m2, Inr out)"
    "m' = m2\<lparr>m_active := i # m_active m2\<rparr>" using Prepare_success [OF assms] .
  note k = Mkdir_frame [OF p(3)]
  then have "go_lookup (m_dirs m1) i = Some \<lparr>ld_files = [], ld_state = None\<rparr>" by simp
  note f = prepare_body_facts [OF p(4) this]
  have env: "go_lookup (mz_Env out) n = Some v \<longleftrightarrow> declared_env E (c_Deliveries c) b n v" for n v
  proof
    show "go_lookup (mz_Env out) n = Some v \<Longrightarrow> declared_env E (c_Deliveries c) b n v" using f by simp
    assume d: "declared_env E (c_Deliveries c) b n v"
    then obtain v' where v': "go_lookup (mz_Env out) n = Some v'" using f by auto
    then have "declared_env E (c_Deliveries c) b n v'" using f by simp
    from declared_env_unique [OF p(2) d this] v' show "go_lookup (mz_Env out) n = Some v" by simp
  qed
  have "m_root m1 = m_root m" using k by (simp add: m_frame_def)
  with f k p(1,5) env show ?thesis by (auto simp: m_frame_def lease_files_def lease_state_def)
qed

text \<open>A failed materialization never touches another lease and never makes the lease active.
  What was there under this id before the call is all that is there after it, unless the
  deferred removal itself failed.\<close>

theorem prepare_failure_leaves_nothing:
  assumes "Prepare E i expires c b state m = (m', Inl e)"
  shows "m_active m' = m_active m \<and> (\<forall>k. k \<noteq> i \<longrightarrow> go_lookup (m_dirs m') k = go_lookup (m_dirs m) k) \<and>
    (go_lookup (m_dirs m') i = go_lookup (m_dirs m) i \<or> (\<exists>m2. RemoveAll i m2 = (m', False)))"
proof (cases "leaseID i \<and> ValidateStructure E c \<and> ValidateValues E c b \<and> i \<notin> set (m_active m)")
  case False
  with assms show ?thesis by (auto simp: Prepare_def split: if_splits)
next
  case True
  obtain m1 ok where k: "Mkdir i m = (m1, ok)" by fastforce
  note kf = Mkdir_frame [OF k]
  show ?thesis
  proof (cases ok)
    case False
    with k have "m_dirs m1 = m_dirs m" by (auto simp: Mkdir_def split: if_splits prod.splits io.splits dest!: m_next_frame)
    with False assms True k kf show ?thesis by (auto simp: Prepare_def m_frame_def)
  next
    case made: True
    let ?out = "\<lparr>mz_LeaseID = i, mz_ExpiresAt = expires, mz_Env = [], mz_Mounts = []\<rparr>"
    obtain m2 x where b: "prepare_body E i c b state m1 ?out = (m2, x)" by fastforce
    from made k have free: "go_lookup (m_dirs m) i = None" by (auto simp: Mkdir_def split: if_splits)
    have bf: "m_frame i m1 m2" using prepare_body_facts [OF b] kf made by simp
    obtain ok2 where r: "RemoveAll i m2 = (m', ok2)"
      using assms True k made b by (cases x) (auto simp: Prepare_def intro: prod.exhaust_sel)
    note rf = RemoveAll_frame [OF r]
    have "m_frame i m m'" using kf bf rf m_frame_trans by blast
    then show ?thesis using rf r free by (cases ok2) (auto simp: m_frame_def)
  qed
qed

section \<open>Snapshot\<close>

definition bundle_size :: "Bundle \<Rightarrow> StateFile list \<Rightarrow> nat" where
  "bundle_size dir fs = (\<Sum>f\<leftarrow>fs. case go_lookup dir (sf_Name f) of None \<Rightarrow> 0 | Some b \<Rightarrow> length b)"

text \<open>With enough room, files within their limits and no fault, the loop reads them all.\<close>

lemma snapshot_loop_complete:
  assumes "m_io m = []" "n + bundle_size dir fs \<le> MaxBundle"
    "\<forall>f\<in>set fs. \<forall>v. go_lookup dir (sf_Name f) = Some v \<longrightarrow> file_fits E f v"
  shows "\<exists>v. snapshot_loop E dir fs n out m = (m, Inr v) \<and>
    (\<forall>k. go_lookup v k = (if k \<in> sf_Name ` set fs \<and> go_lookup dir k \<noteq> None then go_lookup dir k else go_lookup out k))"
  using assms(2,3)
proof (induction fs arbitrary: n out)
  case (Cons f fs)
  have quiet: "m_next m = (IoOk, m)" using assms(1) by (cases m) (simp add: m_next_def pop_io_def)
  show ?case
  proof (cases "go_lookup dir (sf_Name f)")
    case None
    with Cons.IH [of n out] Cons.prems show ?thesis by (auto simp: bundle_size_def)
  next
    case (Some b)
    with Cons.prems(1) have room: "n + length b + bundle_size dir fs \<le> MaxBundle" by (simp add: bundle_size_def)
    from Cons.IH [OF room, of "go_update (sf_Name f) b out"] Cons.prems(2) obtain v where
      "snapshot_loop E dir fs (n + length b) (go_update (sf_Name f) b out) m = (m, Inr v)"
      "\<forall>k. go_lookup v k = (if k \<in> sf_Name ` set fs \<and> go_lookup dir k \<noteq> None then go_lookup dir k
         else go_lookup (go_update (sf_Name f) b out) k)" by auto
    with Some quiet room Cons.prems(2) show ?thesis by (auto simp: gomap_simps file_fits_def)
  qed
qed simp

text \<open>Whatever the workload wrote, a successful snapshot is within the bundle limit and holds declared files only.\<close>

lemma snapshot_loop_bounded:
  assumes "snapshot_loop E dir fs n out m = (m', Inr v)" "(\<Sum>(k, x)\<leftarrow>out. length x) \<le> n" "n \<le> MaxBundle"
  shows "(\<Sum>(k, x)\<leftarrow>v. length x) \<le> MaxBundle \<and>
    (\<forall>k x. go_lookup v k = Some x \<longrightarrow> go_lookup out k = Some x \<or>
       (\<exists>f\<in>set fs. sf_Name f = k \<and> go_lookup dir k = Some x \<and> file_fits E f x))"
  using assms
proof (induction E dir fs n out m rule: snapshot_loop.induct)
  case (2 E dir f fs n out m)
  have upd: "(\<Sum>(k, x)\<leftarrow>go_update a y xs. length x) \<le> (\<Sum>(k, x)\<leftarrow>xs. length x) + length y" for a :: string and y :: bytes and xs
    by (induction xs) auto
  show ?case
  proof (cases "go_lookup dir (sf_Name f)")
    case None
    with 2(1) [OF None] 2(3-) show ?thesis by (simp del: split_paired_All) blast
  next
    case (Some b)
    with 2(3) obtain m1 where m1: "m_next m = (IoOk, m1)" by (auto split: prod.splits io.splits)
    with Some 2(3) have c: "\<not> int (length b) > sf_MaxBytes f" "\<not> (sf_JSON f \<and> \<not> strictjson_Valid E b)" "\<not> n + length b > MaxBundle"
      and run: "snapshot_loop E dir fs (n + length b) (go_update (sf_Name f) b out) m1 = (m', Inr v)"
      by (auto split: if_splits)
    from upd [of "sf_Name f" b out] 2(4) have "(\<Sum>(k, x)\<leftarrow>go_update (sf_Name f) b out. length x) \<le> n + length b" by linarith
    note ih = 2(2) [OF Some m1 [symmetric] _ c run this]
    have b: "go_lookup (go_update (sf_Name f) b out) k = Some x \<Longrightarrow> go_lookup out k = Some x \<or> (k = sf_Name f \<and> x = b)" for k x
      by (auto simp: gomap_simps split: if_splits)
    have fit: "file_fits E f b" using c by (auto simp: file_fits_def)
    show ?thesis
    proof (intro conjI allI impI)
      show "(\<Sum>(k, x)\<leftarrow>v. length x) \<le> MaxBundle" using ih c by simp
    next
      fix k x
      assume "go_lookup v k = Some x"
      with ih c b [of k x] Some fit show "go_lookup out k = Some x \<or>
        (\<exists>f\<in>set (f # fs). sf_Name f = k \<and> go_lookup dir k = Some x \<and> file_fits E f x)" by auto
    qed
  qed
qed simp

text \<open>A snapshot holds state files the contract declares, each within its own limit and valid
  JSON where that is declared, at most 256 KiB together, whatever the workload left in its
  state directory. And a state that was materialized and not changed since comes back from
  the snapshot unchanged.\<close>

theorem snapshot_bounded_and_faithful:
  "(Snapshot E i c m = (m', Inr v) \<longrightarrow> (\<Sum>(k, x)\<leftarrow>v. length x) \<le> 262144 \<and>
      (\<exists>st. c_State c = Some st \<and> (\<forall>k x. go_lookup v k = Some x \<longrightarrow>
         (\<exists>f\<in>set (st_Files st). sf_Name f = k \<and> file_fits E f x)))) \<and>
   (Prepare E i expires c b state m0 = (m, Inr out) \<and> c_State c = Some st \<and> m_io m = [] \<and> bundle_size state (st_Files st) \<le> 262144 \<longrightarrow>
      (\<exists>v. Snapshot E i c m = (m, Inr v) \<and>
        (\<forall>k. go_lookup v k = (if k \<in> sf_Name ` set (st_Files st) then go_lookup state k else None))))"
proof (intro conjI impI)
  assume s: "Snapshot E i c m = (m', Inr v)"
  then obtain st where st: "c_State c = Some st" by (auto simp: Snapshot_def split: option.splits)
  from s st obtain dir where "snapshot_loop E dir (st_Files st) 0 [] m = (m', Inr v)"
    by (auto simp: Snapshot_def Let_def split: if_splits)
  from snapshot_loop_bounded [OF this] st show "(\<Sum>(k, x)\<leftarrow>v. length x) \<le> 262144"
    "\<exists>st. c_State c = Some st \<and> (\<forall>k x. go_lookup v k = Some x \<longrightarrow>
         (\<exists>f\<in>set (st_Files st). sf_Name f = k \<and> file_fits E f x))"
    by (auto simp: MaxBundle_def)
next
  assume "Prepare E i expires c b state m0 = (m, Inr out) \<and> c_State c = Some st \<and> m_io m = [] \<and> bundle_size state (st_Files st) \<le> 262144"
  then have p: "Prepare E i expires c b state m0 = (m, Inr out)" and st: "c_State c = Some st" and io: "m_io m = []"
    and size: "bundle_size state (st_Files st) \<le> 262144" by blast+
  obtain m1 m2 where q: "leaseID i" "Mkdir i m0 = (m1, True)"
    "prepare_body E i c b state m1 \<lparr>mz_LeaseID = i, mz_ExpiresAt = expires, mz_Env = [], mz_Mounts = []\<rparr> = (m2, Inr out)"
    "m = m2\<lparr>m_active := i # m_active m2\<rparr>" using Prepare_success [OF p] .
  from Mkdir_frame [OF q(2)] have dir: "go_lookup (m_dirs m1) i = Some \<lparr>ld_files = [], ld_state = None\<rparr>" by simp
  from prepare_body_facts [OF q(3) dir] st obtain s where s: "lease_state m2 i = Some s"
    "\<forall>k. go_lookup s k = (if k \<in> sf_Name ` set (st_Files st) then go_lookup state k else None)"
    "\<forall>f\<in>set (st_Files st). \<forall>v. go_lookup state (sf_Name f) = Some v \<longrightarrow>
           file_fits E f v" by (auto simp: state_restored_def)
  have "bundle_size s (st_Files st) = bundle_size state (st_Files st)"
    unfolding bundle_size_def using s(2) by (intro arg_cong [where f = sum_list] map_cong) auto
  with size have room: "0 + bundle_size s (st_Files st) \<le> MaxBundle" by (simp add: MaxBundle_def)
  have lim: "\<forall>f\<in>set (st_Files st). \<forall>v. go_lookup s (sf_Name f) = Some v \<longrightarrow> file_fits E f v"
    using s(2,3) by auto
  from snapshot_loop_complete [OF io room lim, of "[]"] obtain v where
    v: "snapshot_loop E s (st_Files st) 0 [] m = (m, Inr v)"
    "\<forall>k. go_lookup v k = (if k \<in> sf_Name ` set (st_Files st) \<and> go_lookup s k \<noteq> None then go_lookup s k else None)" by auto
  from s(1) obtain d where d: "go_lookup (m_dirs m) i = Some d" "ld_state d = Some s"
    by (auto simp: lease_state_def q(4) bind_eq_Some_conv)
  have "Snapshot E i c m = (m, Inr v)"
    using v(1) d leaseID_ValidID [OF q(1)] st by (simp add: Snapshot_def q(4) Let_def)
  then show "\<exists>v. Snapshot E i c m = (m, Inr v) \<and>
        (\<forall>k. go_lookup v k = (if k \<in> sf_Name ` set (st_Files st) then go_lookup state k else None))"
    using v(2) s(2) by auto
qed

section \<open>A concrete lease\<close>

definition demo_materialize_env :: materialize_env where
  "demo_materialize_env = provider_env.extend demo_provider_env \<lparr>json_strings = (\<lambda>m. ''{}'')\<rparr>"

definition state_contract :: Contract where
  "state_contract = demo_contract\<lparr>c_State := Some \<lparr>st_Target = ''/run/session'', st_Files = [\<lparr>sf_Name = ''session'', sf_MaxBytes = 64, sf_JSON = False\<rparr>]\<rparr>\<rparr>"

definition demo_lease :: string where
  "demo_lease = CHR ''l'' # replicate 32 CHR ''0''"

definition demo_manager :: Manager where
  "demo_manager = \<lparr>m_root = ''/run/broker'', m_active = [], m_dirs = [], m_io = []\<rparr>"

lemma state_contract_valid: "ValidateStructure E state_contract"
proof -
  have "SafeTarget ''/run/session''" by (simp add: SafeTarget_def HasPrefix_def path_Clean_def ContainsAny_def)
  then show ?thesis
    by (simp add: ValidateStructure_def state_contract_def demo_contract_simps state_valid_def stateName_def alnum_def HasPrefix_def Let_def)
qed

lemma state_values_valid: "ValidateValues E state_contract [(''token'', ''ghp_x'')]"
  by (simp add: ValidateValues_def state_contract_def demo_contract_def value_bad_def ContainsAny_def in_range_def MaxBundle_def bundle_get_def Let_def)

lemma demo_lease_id: "leaseID demo_lease"
  by (simp add: leaseID_def demo_lease_def is_digit_def in_range_def list_all_iff)

lemma demo_prepare:
  "Prepare demo_materialize_env demo_lease t state_contract [(''token'', ''ghp_x'')] [(''session'', ''abc'')] demo_manager =
     (\<lparr>m_root = ''/run/broker'', m_active = [demo_lease],
       m_dirs = [(demo_lease, \<lparr>ld_files = [], ld_state = Some [(''session'', ''abc'')]\<rparr>)], m_io = []\<rparr>,
      Inr \<lparr>mz_LeaseID = demo_lease, mz_ExpiresAt = t, mz_Env = [(''GITHUB_TOKEN'', ''ghp_x'')],
        mz_Mounts = [\<lparr>mt_Source = path_join (path_join ''/run/broker'' demo_lease) ''state'', mt_Target = ''/run/session'', mt_ReadOnly = False\<rparr>]\<rparr>)"
proof -
  have c: "c_Deliveries state_contract = [\<lparr>d_Type = ''env'', d_Field = ''token'', d_Target = ''GITHUB_TOKEN'', d_EnvName = [], d_Mapping = []\<rparr>]"
    "c_State state_contract = Some \<lparr>st_Target = ''/run/session'', st_Files = [\<lparr>sf_Name = ''session'', sf_MaxBytes = 64, sf_JSON = False\<rparr>]\<rparr>"
    by (simp_all add: state_contract_def demo_contract_def)
  show ?thesis
    using demo_lease_id state_contract_valid [of demo_materialize_env] state_values_valid [of demo_materialize_env]
    by (simp add: Prepare_def demo_manager_def Mkdir_def m_next_def pop_io_def prepare_body_def c mkdir_state_def create_file_def Let_def)
qed

theorem prepare_delivers_exactly_declared_witness:
  "\<exists>m' out d. Prepare demo_materialize_env demo_lease 0 state_contract [(''token'', ''ghp_x'')] [(''session'', ''abc'')] demo_manager = (m', Inr out) \<and>
     (\<forall>k v. go_lookup (mz_Env out) k = Some v \<longleftrightarrow> k = ''GITHUB_TOKEN'' \<and> v = ''ghp_x'') \<and>
     go_lookup (m_dirs m') demo_lease = Some d \<and> (\<forall>k r. go_lookup (ld_files d) k \<noteq> Some r) \<and> state_restored demo_materialize_env state_contract [(''session'', ''abc'')] (ld_state d)"
proof -
  have c: "c_Deliveries state_contract = [\<lparr>d_Type = ''env'', d_Field = ''token'', d_Target = ''GITHUB_TOKEN'', d_EnvName = [], d_Mapping = []\<rparr>]"
    by (simp add: state_contract_def demo_contract_def)
  have e: "declared_env demo_materialize_env (c_Deliveries state_contract) [(''token'', ''ghp_x'')] k v \<longleftrightarrow> k = ''GITHUB_TOKEN'' \<and> v = ''ghp_x''" for k v
    by (auto simp: c declared_env_def declared_content_def)
  have f: "\<not> declared_file demo_materialize_env 0 (c_Deliveries state_contract) [(''token'', ''ghp_x'')] k r" for k r
    by (simp add: c declared_file_def declared_content_def)
  from prepare_delivers_exactly_declared [OF demo_prepare [of 0]] demo_prepare [of 0] show ?thesis unfolding e by (metis f)
qed

theorem prepare_failure_leaves_nothing_witness:
  "\<exists>m'. Prepare demo_materialize_env demo_lease 0 state_contract [(''token'', ''ghp_x'')] [(''session'', replicate 65 CHR ''a'')] demo_manager
     = (m', Inl ErrMaterialize) \<and> m_active m' = [] \<and> go_lookup (m_dirs m') ''other'' = None"
proof -
  have c: "c_Deliveries state_contract = [\<lparr>d_Type = ''env'', d_Field = ''token'', d_Target = ''GITHUB_TOKEN'', d_EnvName = [], d_Mapping = []\<rparr>]"
    "c_State state_contract = Some \<lparr>st_Target = ''/run/session'', st_Files = [\<lparr>sf_Name = ''session'', sf_MaxBytes = 64, sf_JSON = False\<rparr>]\<rparr>"
    by (simp_all add: state_contract_def demo_contract_def)
  let ?p = "Prepare demo_materialize_env demo_lease 0 state_contract [(''token'', ''ghp_x'')] [(''session'', replicate 65 CHR ''a'')] demo_manager"
  have "snd ?p = Inl ErrMaterialize"
    using demo_lease_id state_contract_valid [of demo_materialize_env] state_values_valid [of demo_materialize_env]
    by (simp add: Prepare_def demo_manager_def Mkdir_def m_next_def pop_io_def prepare_body_def c mkdir_state_def Let_def)
  then have p: "?p = (fst ?p, Inl ErrMaterialize)" by (simp add: prod_eq_iff)
  have "''other'' \<noteq> demo_lease" by (simp add: demo_lease_def)
  with prepare_failure_leaves_nothing [OF p] p show ?thesis by (intro exI [of _ "fst ?p"]) (simp add: demo_manager_def)
qed

theorem snapshot_bounded_and_faithful_witness:
  "\<exists>m v. Snapshot demo_materialize_env demo_lease state_contract m = (m, Inr v) \<and> go_lookup v = [''session'' \<mapsto> ''abc'']"
proof -
  let ?m = "\<lparr>m_root = ''/run/broker'', m_active = [demo_lease],
       m_dirs = [(demo_lease, \<lparr>ld_files = [], ld_state = Some [(''session'', ''abc'')]\<rparr>)], m_io = []\<rparr>"
  have st: "c_State state_contract = Some \<lparr>st_Target = ''/run/session'', st_Files = [\<lparr>sf_Name = ''session'', sf_MaxBytes = 64, sf_JSON = False\<rparr>]\<rparr>"
    by (simp add: state_contract_def)
  have "bundle_size [(''session'', ''abc'')] [\<lparr>sf_Name = ''session'', sf_MaxBytes = 64, sf_JSON = False\<rparr>] \<le> 262144"
    by (simp add: bundle_size_def)
  with snapshot_bounded_and_faithful [of demo_materialize_env demo_lease state_contract ?m, THEN conjunct2] demo_prepare [of 0] st
  obtain v where "Snapshot demo_materialize_env demo_lease state_contract ?m = (?m, Inr v)"
    "\<forall>k. go_lookup v k = (if k \<in> sf_Name ` set [\<lparr>sf_Name = ''session'', sf_MaxBytes = 64, sf_JSON = False\<rparr>]
       then go_lookup [(''session'', ''abc'')] k else None)"
    by (metis (no_types, lifting) State.select_convs(2) Manager.select_convs(4))
  then show ?thesis by (intro exI [of _ ?m] exI [of _ v]) (auto simp: fun_eq_iff)
qed

end
