(* ===== verification/Broker_Types.thy ===== *)
theory Broker_Types
  imports Materialize_Props
begin

text \<open>
  The data of the broker (\<^verbatim>\<open>services/credential-broker/broker/types.go\<close> and the DTOs of
  \<^verbatim>\<open>api/v1/types.go\<close>): requests, sessions, credentials, grants, leases, checkpointed state, OAuth
  flows, audit events and the journaled mutation.

  The maps that a replay of the journal rebuilds are the record \<open>Tables\<close>; \<open>Broker\<close> extends it by
  the configuration, the leases, the journal, the materializer, and the world the providers
  and OAuth servers live in. The mutex of the Go struct makes each critical section one
  function on \<open>Broker\<close>; the clock is read once per critical section and is an argument, as are
  the random bytes. A cancelled context of a use is the identifier of the use in \<open>b_canceled\<close>.
\<close>

section \<open>Errors\<close>

datatype berr = ErrDenied | ErrNotFound | ErrConflict | ErrExpired | ErrInvalid | ErrUnavailable | ErrReauthorize
  | Denial string | ErrProvider perr | ErrClose

section \<open>Views\<close>

record CreateRequest =
  ci_ContractID :: string
  ci_ContractRevision :: int
  ci_ConnectionID :: string
  ci_OnboardingID :: string
  ci_IdempotencyKey :: string
  ci_OwnerKind :: string
  ci_ConsumerID :: string
  ci_ExternalAlias :: string
  ci_RotateCredentialID :: string
  ci_Extra :: "Extra option"

record Request =
  rq_ID :: string
  rq_ContractID :: string
  rq_ContractRevision :: int
  rq_ConnectionID :: string
  rq_OnboardingID :: string
  rq_ConsumerID :: string
  rq_Status :: string
  rq_CredentialID :: string
  rq_Revision :: nat
  rq_AuthorizationURL :: string
  rq_ExpiresAt :: time

record GrantRequest =
  gi_ContractID :: string
  gi_ContractRevision :: int
  gi_PrincipalID :: string
  gi_ContextID :: string
  gi_RuntimeID :: string
  gi_BindingID :: string
  gi_WorkloadID :: string
  gi_Execution :: string
  gi_IdempotencyKey :: string

record Grant =
  gr_ID :: string
  gr_CredentialID :: string
  gr_PrincipalID :: string
  gr_ContextID :: string
  gr_RuntimeID :: string
  gr_BindingID :: string
  gr_WorkloadID :: string
  gr_Execution :: string
  gr_ContractID :: string
  gr_ContractRevision :: int
  gr_PolicyVersion :: string
  gr_Active :: bool

record AcquireLease =
  al_GrantID :: string
  al_TTLSeconds :: int

record Lease =
  lv_ID :: string
  lv_GrantID :: string
  lv_CredentialID :: string
  lv_Revision :: nat
  lv_ExpiresAt :: time
  lv_Deliveries :: "Delivery list"
  lv_State :: "State option"
  lv_Routes :: "string list"

record Credential =
  cr_ID :: string
  cr_OwnerKind :: string
  cr_PrincipalID :: string
  cr_ContextID :: string
  cr_ConnectionID :: string
  cr_ConsumerID :: string
  cr_Revision :: nat
  cr_Status :: string
  cr_Provider :: string

record Event =
  ev_Sequence :: nat
  ev_At :: time
  ev_Kind :: string
  ev_PrincipalID :: string
  ev_ContextID :: string
  ev_RequestID :: string
  ev_ConnectionID :: string
  ev_OnboardingID :: string
  ev_ConsumerID :: string
  ev_CredentialID :: string
  ev_GrantID :: string
  ev_LeaseID :: string
  ev_ContractID :: string
  ev_BindingID :: string
  ev_WorkloadID :: string
  ev_PolicyVersion :: string

record Events =
  es_Events :: "Event list"
  es_NextCursor :: nat

record RuntimeRelease =
  rl_Checkpoint :: bool
  rl_Quiesced :: bool

record SessionView =
  sv_RequestID :: string
  sv_Title :: string
  sv_TitleI18n :: "(string, string) gomap"
  sv_Status :: string
  sv_Code :: string
  sv_Approved :: bool
  sv_Fields :: "Field list"
  sv_Extra :: "Field list"
  sv_AnyRequired :: bool
  sv_OAuth :: bool

section \<open>Records of the ledger\<close>

record requestRecord =
  rr_View :: Request
  rr_Actor :: Actor
  rr_OwnerKind :: string
  rr_ContractKey :: string
  rr_ContractDigest :: string
  rr_Idempotency :: string
  rr_Fingerprint :: string
  rr_RotateID :: string
  rr_ExpectedRevision :: nat
  rr_ExternalAlias :: string
  rr_OAuthStateHash :: string
  rr_DraftRef :: "Ref option"
  rr_Extra :: "Extra option"
  rr_Demoted :: "string list"

record sessionRecord =
  ss_Hash :: string
  ss_CodeHash :: string
  ss_RequestID :: string
  ss_ExpiresAt :: time
  ss_Approved :: bool
  ss_Consumed :: bool

record credentialRecord =
  cd_View :: Credential
  cd_ContractKey :: string
  cd_ContractDigest :: string
  cd_Ref :: Ref
  cd_Managed :: bool
  cd_OwnedRefs :: "Ref list"
  cd_TokenRevision :: nat
  cd_Extra :: "Extra option"
  cd_Demoted :: "string list"

record grantRecord =
  gd_View :: Grant
  gd_ContractKey :: string
  gd_ContractDigest :: string
  gd_Idempotency :: string
  gd_Fingerprint :: string

record leaseRecord =
  lr_View :: Lease
  lr_Materialized :: "Materialized option"
  lr_StateKey :: string
  lr_Active :: "string list"

record stateRecord =
  sr_OwnedRefs :: "Ref list"
  sr_Key :: string
  sr_Ref :: Ref
  sr_Revision :: nat

record oauthRecord =
  oa_StateHash :: string
  oa_RequestID :: string
  oa_SessionHash :: string
  oa_VerifierRef :: Ref
  oa_ExpiresAt :: time
  oa_Consumed :: bool

record mutation =
  mu_Audit :: Event
  mu_Request :: "requestRecord option"
  mu_Session :: "sessionRecord option"
  mu_Credential :: "credentialRecord option"
  mu_Grant :: "grantRecord option"
  mu_State :: "stateRecord option"
  mu_OAuth :: "oauthRecord option"
  mu_Contract :: "Contract option"

section \<open>Configuration and state\<close>

record ExternalAlias =
  xa_Ref :: Ref
  xa_PrincipalID :: string
  xa_ContextID :: string
  xa_ContractKey :: string

text \<open>What the broker sends to a token endpoint and what it gets back; \<open>None\<close> is a transport error,
  or a body that cannot be read.\<close>

record HttpRequest =
  hr_Method :: string
  hr_URL :: string
  hr_Header :: "(string, string) gomap"
  hr_BasicAuth :: "(string \<times> string) option"
  hr_Body :: bytes

record HttpResponse =
  hs_StatusCode :: int
  hs_Body :: "bytes option"

record 'w OAuthProvider =
  op_ID :: string
  op_AuthorizeURL :: string
  op_TokenURL :: string
  op_ClientID :: string
  op_RedirectURL :: string
  op_Scopes :: "string list"
  op_AuthStyle :: string
  op_SecretSource :: "('w \<Rightarrow> 'w \<times> string option) option"
  op_Client :: "(HttpRequest \<Rightarrow> 'w \<Rightarrow> 'w \<times> HttpResponse option) option"
  op_AuthorizeParameters :: "(string, string) gomap"

record 'w Config =
  cf_Contracts :: "Contract list"
  cf_Providers :: "'w Registry"
  cf_ExternalAliases :: "(string, ExternalAlias) gomap"
  cf_PublicOrigin :: string
  cf_SessionKey :: bytes
  cf_OAuth :: "(string, 'w OAuthProvider) gomap"
  cf_DirectForm :: bool

record Tables =
  b_catalog :: "(string, Contract) gomap"
  b_requests :: "(string, requestRecord) gomap"
  b_sessions :: "(string, sessionRecord) gomap"
  b_credentials :: "(string, credentialRecord) gomap"
  b_grants :: "(string, grantRecord) gomap"
  b_states :: "(string, stateRecord) gomap"
  b_oauth :: "(string, oauthRecord) gomap"
  b_events :: "Event list"

record 'w Broker = Tables +
  b_cfg :: "'w Config"
  b_leases :: "(string, leaseRecord) gomap"
  b_closed :: bool
  b_journal :: Journal
  b_manager :: Manager
  b_world :: 'w
  b_canceled :: "string list"

record broker_env = materialize_env +
  json_mutation :: "mutation \<Rightarrow> bytes"
  decode_mutation :: "bytes \<Rightarrow> mutation option"
  json_create_request :: "CreateRequest \<Rightarrow> bytes"
  json_grant_request :: "GrantRequest \<Rightarrow> bytes"
  decode_contract :: "bytes \<Rightarrow> Contract option"

section \<open>Zero values\<close>

text \<open>What indexing a Go map yields for a missing key.\<close>

definition no_request :: requestRecord where
  "no_request = \<lparr>rr_View = \<lparr>rq_ID = [], rq_ContractID = [], rq_ContractRevision = 0, rq_ConnectionID = [], rq_OnboardingID = [],
     rq_ConsumerID = [], rq_Status = [], rq_CredentialID = [], rq_Revision = 0, rq_AuthorizationURL = [], rq_ExpiresAt = 0\<rparr>,
     rr_Actor = no_actor, rr_OwnerKind = [], rr_ContractKey = [], rr_ContractDigest = [], rr_Idempotency = [],
     rr_Fingerprint = [], rr_RotateID = [], rr_ExpectedRevision = 0, rr_ExternalAlias = [], rr_OAuthStateHash = [],
     rr_DraftRef = None, rr_Extra = None, rr_Demoted = []\<rparr>"

definition no_session :: sessionRecord where
  "no_session = \<lparr>ss_Hash = [], ss_CodeHash = [], ss_RequestID = [], ss_ExpiresAt = 0, ss_Approved = False, ss_Consumed = False\<rparr>"

definition no_credential :: credentialRecord where
  "no_credential = \<lparr>cd_View = \<lparr>cr_ID = [], cr_OwnerKind = [], cr_PrincipalID = [], cr_ContextID = [], cr_ConnectionID = [],
     cr_ConsumerID = [], cr_Revision = 0, cr_Status = [], cr_Provider = []\<rparr>, cd_ContractKey = [], cd_ContractDigest = [],
     cd_Ref = no_ref, cd_Managed = False, cd_OwnedRefs = [], cd_TokenRevision = 0, cd_Extra = None, cd_Demoted = []\<rparr>"

definition no_state :: stateRecord where
  "no_state = \<lparr>sr_OwnedRefs = [], sr_Key = [], sr_Ref = no_ref, sr_Revision = 0\<rparr>"

definition no_contract :: Contract where
  "no_contract = \<lparr>c_ID = [], c_Revision = 0, c_Title = [], c_Storage = [], c_Fields = [], c_Deliveries = [], c_State = None,
     c_Routes = [], c_OAuthProvider = [], c_Intake = [], c_AllowShared = False, c_TitleI18n = []\<rparr>"

definition go_get :: "'v \<Rightarrow> ('k, 'v) gomap \<Rightarrow> 'k \<Rightarrow> 'v" where
  "go_get z m k = (case go_lookup m k of None \<Rightarrow> z | Some v \<Rightarrow> v)"

abbreviation catalog_get :: "'a Tables_scheme \<Rightarrow> string \<Rightarrow> Contract" where
  "catalog_get b k \<equiv> go_get no_contract (b_catalog b) k"

section \<open>Helpers of types.go\<close>

definition contract_key :: "string \<Rightarrow> int \<Rightarrow> string" where
  "contract_key i revision = i @ ''@'' @ int_digits revision"

definition newID :: "string \<Rightarrow> bytes \<Rightarrow> string" where
  "newID pre rnd = pre @ hex_encode rnd"

definition live :: "'w Broker \<Rightarrow> bool" where
  "live b \<longleftrightarrow> \<not> b_closed b \<and> journal_Healthy (b_journal b)"

definition audit :: "time \<Rightarrow> string \<Rightarrow> Actor \<Rightarrow> Event" where
  "audit now kind a = \<lparr>ev_Sequence = 0, ev_At = now, ev_Kind = kind, ev_PrincipalID = a_PrincipalID a, ev_ContextID = a_ContextID a,
     ev_RequestID = [], ev_ConnectionID = [], ev_OnboardingID = [], ev_ConsumerID = [], ev_CredentialID = [], ev_GrantID = [],
     ev_LeaseID = [], ev_ContractID = [], ev_BindingID = [], ev_WorkloadID = [], ev_PolicyVersion = a_PolicyVersion a\<rparr>"

definition managedBy :: "Actor \<Rightarrow> credentialRecord \<Rightarrow> bool" where
  "managedBy a c \<longleftrightarrow>
     (if a_ContextID a \<noteq> cr_ContextID (cd_View c) then False
      else cr_OwnerKind (cd_View c) = ''context'' \<and> a_ContextManager a \<or>
           cr_OwnerKind (cd_View c) = ''user'' \<and> a_PrincipalID a = cr_PrincipalID (cd_View c))"

definition requestBy :: "Actor \<Rightarrow> requestRecord \<Rightarrow> bool" where
  "requestBy a r \<longleftrightarrow> a_PrincipalID a = a_PrincipalID (rr_Actor r) \<and> a_ContextID a = a_ContextID (rr_Actor r)"

definition requestKey :: "'a crypto_scheme \<Rightarrow> Actor \<Rightarrow> string \<Rightarrow> string" where
  "requestKey E a s = Digest E (a_PrincipalID a @ ''/'' @ a_ContextID a @ ''/'' @ s)"

text \<open>A mutation that only carries its audit event.\<close>

definition audit_only :: "Event \<Rightarrow> mutation" where
  "audit_only e = \<lparr>mu_Audit = e, mu_Request = None, mu_Session = None, mu_Credential = None, mu_Grant = None,
     mu_State = None, mu_OAuth = None, mu_Contract = None\<rparr>"

end
