(* ===== verification/OAuth_Provider.thy ===== *)
theory OAuth_Provider
  imports Broker_Types
begin

text \<open>
  Administrator-registered OAuth providers (the first half of \<^verbatim>\<open>broker/oauth.go\<close>): validation, the
  authorization URL with PKCE, the token request, and the strict reading of the token
  response. The HTTP client and the client secret are functions of the world.
\<close>

section \<open>Query strings\<close>

text \<open>\<^verbatim>\<open>url.QueryEscape\<close>, and \<^verbatim>\<open>url.Values.Encode\<close>: sorted by key, one value per key.\<close>

definition upper_hex :: "nat \<Rightarrow> char" where
  "upper_hex d = ''0123456789ABCDEF'' ! (d mod 16)"

definition query_escape_char :: "char \<Rightarrow> string" where
  "query_escape_char c =
     (if is_lower c \<or> is_upper c \<or> is_digit c \<or> c \<in> set ''-_.~'' then [c]
      else if c = CHR '' '' then ''+''
      else [CHR ''%'', upper_hex (of_char c div 16), upper_hex (of_char c)])"

definition QueryEscape :: "string \<Rightarrow> string" where
  "QueryEscape s = concat (map query_escape_char s)"

fun insert_pair :: "string \<times> string \<Rightarrow> (string \<times> string) list \<Rightarrow> (string \<times> string) list" where
  "insert_pair p [] = [p]"
| "insert_pair p (q # qs) = (if str_le (fst p) (fst q) then p # q # qs else q # insert_pair p qs)"

definition Values_Encode :: "(string, string) gomap \<Rightarrow> string" where
  "Values_Encode q =
     Join CHR ''&'' (map (\<lambda>(k, v). QueryEscape k @ ''='' @ QueryEscape v) (foldr insert_pair q []))"

text \<open>\<^verbatim>\<open>strings.Join\<close> with a space, \<^verbatim>\<open>strings.Fields\<close> on ASCII space, and \<^verbatim>\<open>strings.Trim\<close> of quotes.\<close>

definition str_Fields :: "string \<Rightarrow> string list" where
  "str_Fields s = filter (\<lambda>p. p \<noteq> []) (Split CHR '' '' (map (\<lambda>c. if is_space c then CHR '' '' else c) s))"

definition trim_quotes :: "string \<Rightarrow> string" where
  "trim_quotes s = rev (dropWhile (\<lambda>c. c = CHR 0x22) (rev (dropWhile (\<lambda>c. c = CHR 0x22) s)))"

text \<open>\<^verbatim>\<open>strconv.ParseInt(s, 10, 64)\<close>.\<close>

definition ParseInt :: "string \<Rightarrow> int option" where
  "ParseInt s =
     (let neg = HasPrefix s ''-'';
          ds = (if neg \<or> HasPrefix s ''+'' then tl s else s);
          v = (if neg then - int (digits_val ds) else int (digits_val ds))
      in if ds = [] \<or> \<not> list_all is_digit ds \<or> \<not> int64 v then None else Some v)"

section \<open>The provider\<close>

definition oauthAccess :: string where "oauthAccess = ''$oauth_access_token''"
definition oauthRefresh :: string where "oauthRefresh = ''$oauth_refresh_token''"
definition oauthExpiry :: string where "oauthExpiry = ''$oauth_expires_at''"

record oauthTokens =
  ot_Access :: string
  ot_Refresh :: string
  ot_ExpiresIn :: int

text \<open>The token document, \<^verbatim>\<open>expires_in\<close> kept as raw JSON.\<close>

record TokenDoc =
  td_Access :: string
  td_Refresh :: string
  td_TokenType :: string
  td_Expires :: bytes
  td_Scope :: string

record oauth_env = broker_env +
  decode_token_doc :: "bytes \<Rightarrow> TokenDoc option"
  url_with_query :: "URL \<Rightarrow> string \<Rightarrow> string"

definition oauth_url_bad :: "'a contract_env_scheme \<Rightarrow> string \<Rightarrow> bool" where
  "oauth_url_bad E raw \<longleftrightarrow>
     (case parse_url E raw of
        None \<Rightarrow> True
      | Some u \<Rightarrow> u_Hostname u = [] \<or> u_User u \<or> u_RawQuery u \<noteq> [] \<or> u_Fragment u \<noteq> [] \<or> u_Scheme u \<noteq> ''https'')"

definition OAuth_Validate :: "'a contract_env_scheme \<Rightarrow> 'w OAuthProvider \<Rightarrow> bool" where
  "OAuth_Validate E p \<longleftrightarrow>
     \<not> (op_Client p = None \<or> op_ClientID p = [] \<or> length (op_ClientID p) > 512 \<or> length (op_Scopes p) = 0 \<or>
        length (op_Scopes p) > 32 \<or> op_AuthStyle p \<notin> set [''none'', ''post'', ''basic'']) \<and>
     list_all (\<lambda>raw. \<not> oauth_url_bad E raw) [op_AuthorizeURL p, op_TokenURL p, op_RedirectURL p] \<and>
     \<not> (op_AuthStyle p \<noteq> ''none'' \<and> op_SecretSource p = None) \<and>
     list_all (\<lambda>s. \<not> (length s = 0 \<or> length s > 200 \<or> ContainsAny s [CHR '' '', CHR 0x0D, CHR 0x0A, CHR 0x00])) (op_Scopes p) \<and>
     list_all (\<lambda>(k, v). \<not> (k \<notin> set [''access_type'', ''prompt'', ''response_mode''] \<or>
          ContainsAny v [CHR 0x0D, CHR 0x0A, CHR 0x00] \<or> length v > 80) \<and>
        \<not> (k = ''response_mode'' \<and> v \<noteq> ''query'')) (op_AuthorizeParameters p)"

definition authorization_query :: "'a crypto_scheme \<Rightarrow> 'w OAuthProvider \<Rightarrow> string \<Rightarrow> string \<Rightarrow> (string, string) gomap" where
  "authorization_query E p state verifier =
     foldl (\<lambda>q (k, v). go_update k v q)
       [(''response_type'', ''code''), (''client_id'', op_ClientID p), (''redirect_uri'', op_RedirectURL p),
        (''scope'', Join CHR '' '' (op_Scopes p)), (''state'', state),
        (''code_challenge'', b64_encode (sha256 E verifier)), (''code_challenge_method'', ''S256'')]
       (op_AuthorizeParameters p)"

definition authorization :: "'a oauth_env_scheme \<Rightarrow> 'w OAuthProvider \<Rightarrow> string \<Rightarrow> string \<Rightarrow> string" where
  "authorization E p state verifier =
     (case parse_url E (op_AuthorizeURL p) of
        None \<Rightarrow> []
      | Some u \<Rightarrow> url_with_query E u (Values_Encode (authorization_query E p state verifier)))"

text \<open>The response of the token endpoint.\<close>

definition read_tokens :: "'a oauth_env_scheme \<Rightarrow> 'w OAuthProvider \<Rightarrow> HttpResponse \<Rightarrow> berr + oauthTokens" where
  "read_tokens E p res =
     (if hs_StatusCode res \<noteq> 200 then
        (if hs_StatusCode res = 400 \<or> hs_StatusCode res = 401 then Inl ErrReauthorize else Inl ErrUnavailable)
      else case hs_Body res of
        None \<Rightarrow> Inl ErrUnavailable
      | Some raw \<Rightarrow>
          if length raw > 65536 \<or> \<not> strictjson_Valid E raw then Inl ErrUnavailable
          else case decode_token_doc E raw of
            None \<Rightarrow> Inl ErrUnavailable
          | Some doc \<Rightarrow>
              if td_Access doc = [] \<or> length (td_Access doc) > 16384 \<or> length (td_Refresh doc) > 16384 \<or>
                 \<not> EqualFold (td_TokenType doc) ''bearer'' \<or> ContainsAny (td_Access doc @ td_Refresh doc) [CHR 0x0D, CHR 0x0A, CHR 0x00]
              then Inl ErrUnavailable
              else case ParseInt (trim_quotes (td_Expires doc)) of
                None \<Rightarrow> Inl ErrUnavailable
              | Some n \<Rightarrow>
                  if n < 1 \<or> n > 86400 then Inl ErrUnavailable
                  else if td_Scope doc \<noteq> [] \<and> \<not> list_all (\<lambda>want. want \<in> set (str_Fields (td_Scope doc))) (op_Scopes p)
                  then Inl ErrReauthorize
                  else Inr \<lparr>ot_Access = td_Access doc, ot_Refresh = td_Refresh doc, ot_ExpiresIn = n\<rparr>)"

definition token_request :: "'w OAuthProvider \<Rightarrow> string \<Rightarrow> (string, string) gomap \<Rightarrow> HttpRequest" where
  "token_request p secret form =
     \<lparr>hr_Method = ''POST'', hr_URL = op_TokenURL p,
      hr_Header = [(''Content-Type'', ''application/x-www-form-urlencoded''), (''Accept'', ''application/json'')],
      hr_BasicAuth = (if op_AuthStyle p = ''basic'' then Some (QueryEscape (op_ClientID p), QueryEscape secret) else None),
      hr_Body = Values_Encode form\<rparr>"

text \<open>A nil client panics in Go; \<^verbatim>\<open>Validate\<close> refuses such a provider, and the model answers unavailable.\<close>

definition tokens :: "'a oauth_env_scheme \<Rightarrow> 'w OAuthProvider \<Rightarrow> (string, string) gomap \<Rightarrow> 'w \<Rightarrow> 'w \<times> (berr + oauthTokens)" where
  "tokens E p form0 w =
     (let form1 = go_update ''client_id'' (op_ClientID p) form0;
          (w1, sec) = (case op_SecretSource p of
             None \<Rightarrow> (w, Some [])
           | Some src \<Rightarrow> (case src w of (w1, Some s) \<Rightarrow> (w1, if s = [] then None else Some s) | (w1, None) \<Rightarrow> (w1, None)))
      in case sec of
           None \<Rightarrow> (w1, Inl ErrUnavailable)
         | Some secret \<Rightarrow>
             (let form2 = (if op_AuthStyle p = ''post'' then go_update ''client_secret'' secret form1 else form1) in
              case op_Client p of
                None \<Rightarrow> (w1, Inl ErrUnavailable)
              | Some client \<Rightarrow>
                  (case client (token_request p secret form2) w1 of
                     (w2, None) \<Rightarrow> (w2, Inl ErrUnavailable)
                   | (w2, Some res) \<Rightarrow> (w2, read_tokens E p res))))"

definition oauth_exchange :: "'a oauth_env_scheme \<Rightarrow> 'w OAuthProvider \<Rightarrow> string \<Rightarrow> string \<Rightarrow> 'w \<Rightarrow> 'w \<times> (berr + oauthTokens)" where
  "oauth_exchange E p code verifier =
     tokens E p [(''grant_type'', ''authorization_code''), (''code'', code), (''code_verifier'', verifier), (''redirect_uri'', op_RedirectURL p)]"

definition oauth_refresh :: "'a oauth_env_scheme \<Rightarrow> 'w OAuthProvider \<Rightarrow> string \<Rightarrow> 'w \<Rightarrow> 'w \<times> (berr + oauthTokens)" where
  "oauth_refresh E p token = tokens E p [(''grant_type'', ''refresh_token''), (''refresh_token'', token)]"

definition unix :: "time \<Rightarrow> int" where
  "unix t = t div second"

definition mergeTokens :: "Bundle \<Rightarrow> oauthTokens \<Rightarrow> time \<Rightarrow> Bundle" where
  "mergeTokens b t now =
     (let b1 = go_update oauthAccess (ot_Access t) b;
          b2 = go_update oauthExpiry (int_digits (unix (now + ot_ExpiresIn t * second))) b1
      in if ot_Refresh t \<noteq> [] then go_update oauthRefresh (ot_Refresh t) b2 else b2)"

end
