(* ===== verification/Broker_Core.thy ===== *)
theory Broker_Core
  imports OAuth_Provider
begin

text \<open>
  The broker's ledger and its read operations (\<^verbatim>\<open>broker/broker.go\<close>, \<^verbatim>\<open>broker/contracts.go\<close>): start-up and
  replay, \<^verbatim>\<open>apply\<close> and \<^verbatim>\<open>commit\<close>, the views, cancellation of a request, registration of a contract,
  and closing. The release of leases (\<^verbatim>\<open>dropLease\<close>, \<^verbatim>\<open>invalidateCredential\<close>, \<^verbatim>\<open>sweepLocked\<close> of
  \<^verbatim>\<open>broker/grants.go\<close>) stands here because enrollment uses it.
\<close>

section \<open>Mutations\<close>

definition put_opt :: "('v \<Rightarrow> string) \<Rightarrow> 'v option \<Rightarrow> (string, 'v) gomap \<Rightarrow> (string, 'v) gomap" where
  "put_opt k x m = (case x of None \<Rightarrow> m | Some v \<Rightarrow> go_update (k v) v m)"

definition apply_mutation :: "mutation \<Rightarrow> nat \<Rightarrow> 'a Tables_scheme \<Rightarrow> 'a Tables_scheme" where
  "apply_mutation m seq b =
     b\<lparr>b_requests := put_opt (rq_ID \<circ> rr_View) (mu_Request m) (b_requests b),
       b_sessions := put_opt ss_Hash (mu_Session m) (b_sessions b),
       b_credentials := put_opt (cr_ID \<circ> cd_View) (mu_Credential m) (b_credentials b),
       b_grants := put_opt (gr_ID \<circ> gd_View) (mu_Grant m) (b_grants b),
       b_states := put_opt sr_Key (mu_State m) (b_states b),
       b_oauth := put_opt oa_StateHash (mu_OAuth m) (b_oauth b),
       b_catalog := put_opt (\<lambda>c. contract_key (c_ID c) (c_Revision c)) (mu_Contract m) (b_catalog b),
       b_events := b_events b @ [(mu_Audit m)\<lparr>ev_Sequence := seq\<rparr>]\<rparr>"

definition commit :: "'a broker_env_scheme \<Rightarrow> mutation \<Rightarrow> 'w Broker \<Rightarrow> 'w Broker \<times> (berr + nat)" where
  "commit E m b =
     (if \<not> live b then (b, Inl ErrUnavailable)
      else case Append E ''mutation.v1'' (json_mutation E m) (b_journal b) of
        (j, Inl _) \<Rightarrow> (b\<lparr>b_journal := j\<rparr>, Inl ErrUnavailable)
      | (j, Inr seq) \<Rightarrow> (apply_mutation m seq (b\<lparr>b_journal := j\<rparr>), Inr seq))"

section \<open>Leases dropped\<close>

definition dropLease :: "string \<Rightarrow> 'w Broker \<Rightarrow> 'w Broker" where
  "dropLease i b =
     (case go_lookup (b_leases b) i of
        None \<Rightarrow> b
      | Some l \<Rightarrow> b\<lparr>b_canceled := lr_Active l @ b_canceled b,
                    b_manager := fst (Manager_Remove i (b_manager b)),
                    b_leases := go_delete i (b_leases b)\<rparr>)"

definition drop_where :: "(leaseRecord \<Rightarrow> bool) \<Rightarrow> 'w Broker \<Rightarrow> 'w Broker" where
  "drop_where P b = foldl (\<lambda>b (i, l). if P l then dropLease i b else b) b (b_leases b)"

definition invalidateCredential :: "string \<Rightarrow> 'w Broker \<Rightarrow> 'w Broker" where
  "invalidateCredential i = drop_where (\<lambda>l. lv_CredentialID (lr_View l) = i)"

definition sweepLocked :: "time \<Rightarrow> 'w Broker \<Rightarrow> 'w Broker" where
  "sweepLocked now = drop_where (\<lambda>l. \<not> now < lv_ExpiresAt (lr_View l))"

section \<open>Start\<close>

definition origin_ok :: "'a contract_env_scheme \<Rightarrow> 'w Config \<Rightarrow> bool" where
  "origin_ok E cfg \<longleftrightarrow>
     (case parse_url E (cf_PublicOrigin cfg) of
        None \<Rightarrow> False
      | Some u \<Rightarrow>
          \<not> (u_Hostname u = [] \<or> u_User u \<or> u_RawQuery u \<noteq> [] \<or> u_Fragment u \<noteq> [] \<or> u_Path u \<noteq> [] \<or>
             u_Scheme u \<noteq> ''https'' \<and> u_Scheme u \<noteq> ''http'' \<or> length (cf_SessionKey cfg) \<noteq> 32 \<or> cf_Providers cfg = []) \<and>
          \<not> (u_Scheme u = ''http'' \<and> u_Hostname u \<noteq> ''127.0.0.1'' \<and> u_Hostname u \<noteq> ''localhost'' \<and> u_Hostname u \<noteq> ''::1''))"

fun load_contracts :: "'a broker_env_scheme \<Rightarrow> 'w Config \<Rightarrow> Contract list \<Rightarrow> (string, Contract) gomap \<Rightarrow> (string, Contract) gomap option" where
  "load_contracts E cfg [] cat = Some cat"
| "load_contracts E cfg (c # cs) cat =
     (let k = contract_key (c_ID c) (c_Revision c) in
      if \<not> Contract_Validate E c \<or> c_ID (go_get no_contract cat k) \<noteq> [] then None
      else case go_lookup (cf_Providers cfg) (c_Storage c) of
        None \<Rightarrow> None
      | Some p \<Rightarrow>
          if (c_State c \<noteq> None \<or> c_OAuthProvider c \<noteq> []) \<and> \<not> cap_Write (p_Capabilities p) then None
          else if c_OAuthProvider c \<noteq> [] \<and>
                  (case go_lookup (cf_OAuth cfg) (c_OAuthProvider c) of None \<Rightarrow> True | Some o' \<Rightarrow> \<not> OAuth_Validate E o')
          then None
          else case strictjson_Decode E (decode_contract E) (json_contract E c) of
            None \<Rightarrow> None
          | Some c' \<Rightarrow> load_contracts E cfg cs (go_update k c' cat))"

definition mutation_of :: "'a broker_env_scheme \<Rightarrow> Record \<Rightarrow> mutation option" where
  "mutation_of E r =
     (if rec_Kind r \<noteq> ''mutation.v1'' then None else strictjson_Decode E (decode_mutation E) (rec_Data r))"

definition shadows :: "'a contract_env_scheme \<Rightarrow> 'b Tables_scheme \<Rightarrow> mutation \<Rightarrow> bool" where
  "shadows E b m \<longleftrightarrow>
     (case mu_Contract m of
        None \<Rightarrow> False
      | Some c \<Rightarrow>
          (case go_lookup (b_catalog b) (contract_key (c_ID c) (c_Revision c)) of
             None \<Rightarrow> False
           | Some existing \<Rightarrow> Contract_Digest E existing \<noteq> Contract_Digest E c))"

fun replay :: "'a broker_env_scheme \<Rightarrow> Record list \<Rightarrow> 'b Tables_scheme \<Rightarrow> berr + 'b Tables_scheme" where
  "replay E [] b = Inr b"
| "replay E (r # rs) b =
     (case mutation_of E r of
        None \<Rightarrow> Inl ErrUnavailable
      | Some m \<Rightarrow> if shadows E b m then Inl ErrConflict else replay E rs (apply_mutation m (rec_Sequence r) b))"

definition pinned :: "'a contract_env_scheme \<Rightarrow> 'b Tables_scheme \<Rightarrow> string \<Rightarrow> string \<Rightarrow> bool" where
  "pinned E b k digest \<longleftrightarrow> (case go_lookup (b_catalog b) k of None \<Rightarrow> False | Some c \<Rightarrow> Contract_Digest E c = digest)"

definition no_drift :: "'a contract_env_scheme \<Rightarrow> 'b Tables_scheme \<Rightarrow> bool" where
  "no_drift E b \<longleftrightarrow>
     list_all (\<lambda>(_, r). pinned E b (rr_ContractKey r) (rr_ContractDigest r)) (b_requests b) \<and>
     list_all (\<lambda>(_, g). pinned E b (gd_ContractKey g) (gd_ContractDigest g)) (b_grants b)"

fun interrupt_loop :: "'a broker_env_scheme \<Rightarrow> time \<Rightarrow> (string \<times> requestRecord) list \<Rightarrow> 'w Broker \<Rightarrow> 'w Broker \<times> (berr + unit)" where
  "interrupt_loop E now [] b = (b, Inr ())"
| "interrupt_loop E now ((_, r) # rs) b =
     (if rq_Status (rr_View r) = ''exchanging'' then
        let r' = r\<lparr>rr_View := (rr_View r)\<lparr>rq_Status := ''authorizing''\<rparr>, rr_OAuthStateHash := []\<rparr>;
            ev = (audit now ''oauth.interrupted'' (rr_Actor r'))\<lparr>ev_RequestID := rq_ID (rr_View r')\<rparr>
        in case commit E ((audit_only ev)\<lparr>mu_Request := Some r'\<rparr>) b of
             (b1, Inl e) \<Rightarrow> (b1, Inl e)
           | (b1, Inr _) \<Rightarrow> interrupt_loop E now rs b1
      else interrupt_loop E now rs b)"

definition fresh_broker :: "'w Config \<Rightarrow> Journal \<Rightarrow> Manager \<Rightarrow> 'w \<Rightarrow> (string, Contract) gomap \<Rightarrow> 'w Broker" where
  "fresh_broker cfg j mgr w cat =
     \<lparr>b_catalog = cat, b_requests = [], b_sessions = [], b_credentials = [], b_grants = [], b_states = [], b_oauth = [], b_events = [],
      b_cfg = cfg, b_leases = [], b_closed = False, b_journal = j, b_manager = mgr, b_world = w, b_canceled = []\<rparr>"

definition Broker_New :: "'a broker_env_scheme \<Rightarrow> time \<Rightarrow> 'w Config \<Rightarrow> Journal \<Rightarrow> Manager \<Rightarrow> 'w \<Rightarrow> berr + 'w Broker" where
  "Broker_New E now cfg j mgr w =
     (if \<not> origin_ok E cfg then Inl ErrInvalid
      else case load_contracts E cfg (cf_Contracts cfg) [] of
        None \<Rightarrow> Inl ErrInvalid
      | Some cat \<Rightarrow>
          if cat = [] then Inl ErrInvalid
          else case replay E (Records j) (fresh_broker cfg j mgr w cat) of
            Inl e \<Rightarrow> Inl e
          | Inr b \<Rightarrow>
              if \<not> no_drift E b then Inl ErrConflict
              else case interrupt_loop E now (b_requests b) b of
                (_, Inl e) \<Rightarrow> Inl e
              | (b1, Inr _) \<Rightarrow>
                  (case commit E (audit_only (audit now ''broker.started'' no_actor)) b1 of
                     (_, Inl e) \<Rightarrow> Inl e
                   | (b2, Inr _) \<Rightarrow> Inr b2))"

section \<open>Views\<close>

definition Broker_Healthy :: "'w Broker \<Rightarrow> bool" where
  "Broker_Healthy b = live b"

definition state_key :: "'a crypto_scheme \<Rightarrow> string \<Rightarrow> string \<Rightarrow> string \<Rightarrow> string" where
  "state_key E cred ctx binding = Digest E (cred @ ''/'' @ ctx @ ''/'' @ binding)"

definition RecoveryRefs :: "'a crypto_scheme \<Rightarrow> 'b Tables_scheme \<Rightarrow> Ref list" where
  "RecoveryRefs E b =
     map (cd_Ref \<circ> snd) (filter (\<lambda>(_, c). cd_Managed c \<and> cr_Status (cd_View c) = ''active'') (b_credentials b)) @
     concat (map (\<lambda>(_, r). case rr_DraftRef r of
        None \<Rightarrow> [] | Some ref \<Rightarrow> if rq_Status (rr_View r) = ''authorizing'' then [ref] else []) (b_requests b)) @
     concat (map (\<lambda>(_, g).
        let c = go_get no_credential (b_credentials b) (gr_CredentialID (gd_View g)) in
        if \<not> gr_Active (gd_View g) \<or> cr_Status (cd_View c) \<noteq> ''active'' then []
        else case go_lookup (b_states b) (state_key E (cr_ID (cd_View c)) (gr_ContextID (gd_View g)) (gr_BindingID (gd_View g))) of
          None \<Rightarrow> [] | Some s \<Rightarrow> if ref_Provider (sr_Ref s) \<noteq> [] then [sr_Ref s] else []) (b_grants b))"

definition Broker_Close :: "'w Broker \<Rightarrow> 'w Broker \<times> (berr + unit)" where
  "Broker_Close b =
     (if b_closed b then (b, Inr ())
      else case Manager_Close (b_manager b) of
        (mgr, x) \<Rightarrow>
          (b\<lparr>b_closed := True, b_canceled := concat (map (lr_Active \<circ> snd) (b_leases b)) @ b_canceled b,
             b_manager := mgr, b_journal := journal_Close (b_journal b)\<rparr>,
           case x of Inl _ \<Rightarrow> Inl ErrClose | Inr u \<Rightarrow> Inr u))"

definition GetRequest :: "time \<Rightarrow> Actor \<Rightarrow> string \<Rightarrow> 'w Broker \<Rightarrow> berr + Request" where
  "GetRequest now a i b =
     (if \<not> live b then Inl ErrUnavailable
      else case go_lookup (b_requests b) i of
        None \<Rightarrow> Inl ErrNotFound
      | Some r \<Rightarrow>
          if \<not> requestBy a r then Inl ErrNotFound
          else let out = rr_View r in
            Inr (if \<not> now < rq_ExpiresAt out \<and> (rq_Status out = ''pending'' \<or> rq_Status out = ''authorizing'')
                 then out\<lparr>rq_Status := ''expired''\<rparr> else out))"

definition GetCredential :: "Actor \<Rightarrow> string \<Rightarrow> 'w Broker \<Rightarrow> berr + Credential" where
  "GetCredential a i b =
     (if \<not> live b then Inl ErrUnavailable
      else case go_lookup (b_credentials b) i of
        None \<Rightarrow> Inl ErrNotFound
      | Some c \<Rightarrow> if \<not> managedBy a c then Inl ErrNotFound else Inr (cd_View c))"

definition event_visible :: "Actor \<Rightarrow> Event \<Rightarrow> bool" where
  "event_visible a e \<longleftrightarrow> ev_Kind e = ''broker.started'' \<or>
     ev_ContextID e = a_ContextID a \<and> (ev_PrincipalID e = a_PrincipalID a \<or> a_ContextManager a)"

fun events_loop :: "Actor \<Rightarrow> nat \<Rightarrow> nat \<Rightarrow> Event list \<Rightarrow> Events \<Rightarrow> Events" where
  "events_loop a after limit [] out = out"
| "events_loop a after limit (e # es) out =
     (if ev_Sequence e \<le> after then events_loop a after limit es out
      else
        let out1 = out\<lparr>es_NextCursor := ev_Sequence e\<rparr>;
            out2 = (if event_visible a e then out1\<lparr>es_Events := es_Events out1 @ [e]\<rparr> else out1)
        in if length (es_Events out2) \<ge> limit then out2 else events_loop a after limit es out2)"

definition Broker_Events :: "Actor \<Rightarrow> nat \<Rightarrow> int \<Rightarrow> 'b Tables_scheme \<Rightarrow> Events" where
  "Broker_Events a after limit b =
     events_loop a after (if limit < 1 \<or> limit > 100 then 100 else nat limit) (b_events b) \<lparr>es_Events = [], es_NextCursor = after\<rparr>"

definition CancelRequest :: "'a broker_env_scheme \<Rightarrow> time \<Rightarrow> Actor \<Rightarrow> string \<Rightarrow> 'w Broker \<Rightarrow> 'w Broker \<times> (berr + unit)" where
  "CancelRequest E now a i b =
     (case go_lookup (b_requests b) i of
        None \<Rightarrow> (b, Inl ErrNotFound)
      | Some r \<Rightarrow>
          if \<not> requestBy a r then (b, Inl ErrNotFound)
          else if rq_Status (rr_View r) = ''canceled'' then (b, Inr ())
          else if rq_Status (rr_View r) = ''ready'' then (b, Inl ErrConflict)
          else
            let r' = r\<lparr>rr_View := (rr_View r)\<lparr>rq_Status := ''canceled''\<rparr>\<rparr>;
                e = (audit now ''request.canceled'' a)\<lparr>ev_RequestID := i, ev_ConnectionID := rq_ConnectionID (rr_View r'),
                      ev_ConsumerID := rq_ConsumerID (rr_View r')\<rparr>
            in case commit E ((audit_only e)\<lparr>mu_Request := Some r'\<rparr>) b of
                 (b1, Inl err) \<Rightarrow> (b1, Inl err)
               | (b1, Inr _) \<Rightarrow> (b1, Inr ()))"

definition Broker_Catalog :: "'a broker_env_scheme \<Rightarrow> 'b Tables_scheme \<Rightarrow> Contract list" where
  "Broker_Catalog E b =
     map (\<lambda>(_, c). case decode_contract E (json_contract E c) of None \<Rightarrow> no_contract | Some cp \<Rightarrow> cp) (b_catalog b)"

definition validIdempotency :: "string \<Rightarrow> bool" where
  "validIdempotency s \<longleftrightarrow> length s \<ge> 8 \<and> length s \<le> 128 \<and> \<not> ContainsAny s [CHR 0x0D, CHR 0x0A, CHR 0x00]"

section \<open>Contracts registered at run time\<close>

definition first_writable :: "'w Registry \<Rightarrow> string option" where
  "first_writable r =
     List.find (\<lambda>i. case go_lookup r i of None \<Rightarrow> False | Some p \<Rightarrow> cap_Write (p_Capabilities p))
       (foldr insert_string (map fst r) [])"

definition RegisterContract :: "'a broker_env_scheme \<Rightarrow> time \<Rightarrow> Actor \<Rightarrow> Contract \<Rightarrow> 'w Broker \<Rightarrow> 'w Broker \<times> (berr + Contract)" where
  "RegisterContract E now a c0 b =
     (if \<not> live b then (b, Inl ErrUnavailable)
      else if \<not> Actor_Valid a then (b, Inl ErrInvalid)
      else if c_OAuthProvider c0 \<noteq> [] \<or> c_Routes c0 \<noteq> [] then (b, Inl ErrDenied)
      else if (case c_State c0 of
                 None \<Rightarrow> False
               | Some st \<Rightarrow> c_AllowShared c0 \<or> length (st_Files st) \<noteq> 1 \<or> \<not> sf_JSON (st_Files st ! 0) \<or> sf_MaxBytes (st_Files st ! 0) > 65536)
      then (b, Inl ErrDenied)
      else
        let c = (if c_Storage c0 = [] then (case first_writable (cf_Providers (b_cfg b)) of None \<Rightarrow> c0 | Some i \<Rightarrow> c0\<lparr>c_Storage := i\<rparr>) else c0);
            k = contract_key (c_ID c) (c_Revision c)
        in if \<not> Contract_Validate E c \<or> go_lookup (cf_Providers (b_cfg b)) (c_Storage c) = None then (b, Inl ErrInvalid)
           else case go_lookup (b_catalog b) k of
             Some existing \<Rightarrow> (b, if Contract_Digest E existing = Contract_Digest E c then Inr existing else Inl ErrConflict)
           | None \<Rightarrow>
               (case commit E ((audit_only ((audit now ''contract.registered'' a)\<lparr>ev_ContractID := k\<rparr>))\<lparr>mu_Contract := Some c\<rparr>) b of
                  (b1, Inl err) \<Rightarrow> (b1, Inl err)
                | (b1, Inr _) \<Rightarrow> (b1, Inr c)))"

end
