(* ===== verification/Enrollment.thy ===== *)
theory Enrollment
  imports Broker_Core
begin

text \<open>
  Enrollment (\<^verbatim>\<open>broker/enrollment.go\<close>): creation of requests, browser sessions and their approval,
  submission of values, and the step \<^verbatim>\<open>ready\<close> that mints a credential.

  A storage provider that the catalog names but the registry lacks makes the Go code panic;
  \<^verbatim>\<open>New\<close> and \<^verbatim>\<open>RegisterContract\<close> exclude it, and the model answers \<^verbatim>\<open>ErrInvalid\<close> there.
\<close>

section \<open>Codes\<close>

text \<open>\<^verbatim>\<open>base32.StdEncoding.WithPadding(base32.NoPadding)\<close>: groups of five bits, the last padded with zeros.\<close>

definition byte_bits :: "char \<Rightarrow> bool list" where
  "byte_bits c = map (\<lambda>k. odd ((of_char c :: nat) div 2 ^ k)) [7, 6, 5, 4, 3, 2, 1, 0]"

definition b32_char :: "bool list \<Rightarrow> char" where
  "b32_char bs = ''ABCDEFGHIJKLMNOPQRSTUVWXYZ234567'' ! foldl (\<lambda>n x. 2 * n + of_bool x) 0 (take 5 (bs @ replicate 5 False))"

fun b32_bits :: "bool list \<Rightarrow> string" where
  "b32_bits [] = []"
| "b32_bits (x # bs) = b32_char (x # bs) # b32_bits (drop 4 bs)"

definition b32_encode :: "bytes \<Rightarrow> string" where
  "b32_encode s = b32_bits (concat (map byte_bits s))"

definition sessionCode :: "'a crypto_scheme \<Rightarrow> 'w Broker \<Rightarrow> string \<Rightarrow> string" where
  "sessionCode E b raw = take 16 (b32_encode (hmac_sha256 E (cf_SessionKey (b_cfg b)) (''approval/v1/'' @ raw)))"

definition CSRF :: "'a crypto_scheme \<Rightarrow> 'w Broker \<Rightarrow> string \<Rightarrow> string \<Rightarrow> string" where
  "CSRF E b raw request = b32_encode (hmac_sha256 E (cf_SessionKey (b_cfg b)) (''csrf/v1/'' @ request @ ''/'' @ raw))"

section \<open>The providers, as the broker calls them\<close>

definition broker_put :: "string \<Rightarrow> Bundle \<Rightarrow> 'w Broker \<Rightarrow> 'w Broker \<times> (perr + Ref)" where
  "broker_put pid values b = (case Registry_Put (cf_Providers (b_cfg b)) (b_world b) pid values of (w, x) \<Rightarrow> (b\<lparr>b_world := w\<rparr>, x))"

definition broker_resolve :: "Ref \<Rightarrow> 'w Broker \<Rightarrow> 'w Broker \<times> (perr + Bundle)" where
  "broker_resolve ref b = (case Registry_Resolve (cf_Providers (b_cfg b)) (b_world b) ref of (w, x) \<Rightarrow> (b\<lparr>b_world := w\<rparr>, x))"

definition can_write :: "string \<Rightarrow> 'w Broker \<Rightarrow> bool" where
  "can_write pid b \<longleftrightarrow> (case go_lookup (cf_Providers (b_cfg b)) pid of None \<Rightarrow> False | Some p \<Rightarrow> cap_Write (p_Capabilities p))"

section \<open>ready\<close>

definition ready_credential :: "requestRecord \<Rightarrow> string \<Rightarrow> nat \<Rightarrow> Ref \<Rightarrow> bool \<Rightarrow> credentialRecord option \<Rightarrow> credentialRecord" where
  "ready_credential r i revision ref managed old =
     \<lparr>cd_View = \<lparr>cr_ID = i, cr_OwnerKind = rr_OwnerKind r, cr_PrincipalID = a_PrincipalID (rr_Actor r),
        cr_ContextID = a_ContextID (rr_Actor r), cr_ConnectionID = rq_ConnectionID (rr_View r),
        cr_ConsumerID = rq_ConsumerID (rr_View r), cr_Revision = revision, cr_Status = ''active'', cr_Provider = ref_Provider ref\<rparr>,
      cd_ContractKey = rr_ContractKey r, cd_ContractDigest = rr_ContractDigest r, cd_Ref = ref, cd_Managed = managed,
      cd_OwnedRefs = (case old of None \<Rightarrow> [] | Some o' \<Rightarrow> cd_OwnedRefs o') @
        (if managed then (case rr_DraftRef r of None \<Rightarrow> [] | Some d \<Rightarrow> [d]) else []) @ (if managed then [ref] else []),
      cd_TokenRevision = 1, cd_Extra = rr_Extra r, cd_Demoted = rr_Demoted r\<rparr>"

definition ready_mutation :: "time \<Rightarrow> requestRecord \<Rightarrow> credentialRecord \<Rightarrow> sessionRecord option \<Rightarrow> mutation" where
  "ready_mutation now r c s =
     (let r' = r\<lparr>rr_View := (rr_View r)\<lparr>rq_CredentialID := cr_ID (cd_View c), rq_Revision := cr_Revision (cd_View c), rq_Status := ''ready''\<rparr>\<rparr>;
          ev = (audit now ''credential.ready'' (rr_Actor r'))\<lparr>ev_RequestID := rq_ID (rr_View r'), ev_ConnectionID := rq_ConnectionID (rr_View r'),
                 ev_OnboardingID := rq_OnboardingID (rr_View r'), ev_ConsumerID := rq_ConsumerID (rr_View r'), ev_CredentialID := cr_ID (cd_View c)\<rparr>
      in (audit_only ev)\<lparr>mu_Request := Some r', mu_Credential := Some c,
           mu_Session := map_option (\<lambda>s. s\<lparr>ss_Consumed := True\<rparr>) s\<rparr>)"

definition ready :: "'a broker_env_scheme \<Rightarrow> time \<Rightarrow> bytes \<Rightarrow> requestRecord \<Rightarrow> Ref \<Rightarrow> bool \<Rightarrow> sessionRecord option \<Rightarrow> 'w Broker \<Rightarrow>
    'w Broker \<times> (berr + credentialRecord)" where
  "ready E now rnd r ref managed s b =
     (let i = (if rr_RotateID r = [] then newID ''c'' rnd else rr_RotateID r);
          old = go_lookup (b_credentials b) i
      in if rr_RotateID r \<noteq> [] \<and>
            (case old of None \<Rightarrow> True
             | Some o' \<Rightarrow> cr_Status (cd_View o') = ''deleted'' \<or> cr_Revision (cd_View o') \<noteq> rr_ExpectedRevision r)
         then (b, Inl ErrConflict)
         else
           let revision = (if rr_RotateID r = [] then 1 else cr_Revision (cd_View (the old)) + 1);
               c = ready_credential r i revision ref managed old
           in case commit E (ready_mutation now r c s) b of
                (b1, Inl e) \<Rightarrow> (b1, Inl e)
              | (b1, Inr _) \<Rightarrow> (invalidateCredential i b1, Inr c))"

section \<open>Requests\<close>

definition create_input_ok :: "Actor \<Rightarrow> CreateRequest \<Rightarrow> bool" where
  "create_input_ok a inp \<longleftrightarrow>
     \<not> (\<not> Actor_Valid a \<or> \<not> ValidID (ci_ConnectionID inp) \<or> \<not> ValidID (ci_OnboardingID inp) \<or> \<not> validIdempotency (ci_IdempotencyKey inp) \<or>
        ci_OwnerKind inp \<noteq> ''user'' \<and> ci_OwnerKind inp \<noteq> ''context'' \<or> ci_OwnerKind inp = ''context'' \<and> \<not> a_ContextManager a \<or>
        ci_ConsumerID inp \<noteq> [] \<and> \<not> ValidID (ci_ConsumerID inp))"

definition rotate_denied :: "Actor \<Rightarrow> CreateRequest \<Rightarrow> string \<Rightarrow> 'b Tables_scheme \<Rightarrow> bool" where
  "rotate_denied a inp ck b \<longleftrightarrow>
     (case go_lookup (b_credentials b) (ci_RotateCredentialID inp) of
        None \<Rightarrow> True
      | Some c \<Rightarrow> \<not> managedBy a c \<or> cr_Status (cd_View c) = ''deleted'' \<or> cd_ContractKey c \<noteq> ck \<or>
          cr_ConnectionID (cd_View c) \<noteq> ci_ConnectionID inp \<or> cr_OwnerKind (cd_View c) \<noteq> ci_OwnerKind inp \<or>
          cr_ConsumerID (cd_View c) \<noteq> ci_ConsumerID inp)"

definition connection_taken :: "Actor \<Rightarrow> CreateRequest \<Rightarrow> 'b Tables_scheme \<Rightarrow> bool" where
  "connection_taken a inp b \<longleftrightarrow>
     list_ex (\<lambda>(_, c). cr_ContextID (cd_View c) = a_ContextID a \<and> cr_ConnectionID (cd_View c) = ci_ConnectionID inp \<and>
        cr_ConsumerID (cd_View c) = ci_ConsumerID inp \<and> cr_Status (cd_View c) \<noteq> ''deleted'') (b_credentials b)"

definition request_open :: "time \<Rightarrow> requestRecord \<Rightarrow> bool" where
  "request_open now r \<longleftrightarrow>
     (rq_Status (rr_View r) = ''pending'' \<or> rq_Status (rr_View r) = ''authorizing'' \<or> rq_Status (rr_View r) = ''exchanging'') \<and>
     now < rq_ExpiresAt (rr_View r)"

definition request_competes :: "time \<Rightarrow> Actor \<Rightarrow> CreateRequest \<Rightarrow> 'b Tables_scheme \<Rightarrow> bool" where
  "request_competes now a inp b \<longleftrightarrow>
     list_ex (\<lambda>(_, r). rq_ConnectionID (rr_View r) = ci_ConnectionID inp \<and> rq_ConsumerID (rr_View r) = ci_ConsumerID inp \<and>
        a_ContextID (rr_Actor r) = a_ContextID a \<and> request_open now r) (b_requests b)"

definition new_request :: "'a broker_env_scheme \<Rightarrow> time \<Rightarrow> bytes \<Rightarrow> Actor \<Rightarrow> CreateRequest \<Rightarrow> Contract \<Rightarrow> 'w Broker \<Rightarrow> requestRecord" where
  "new_request E now rnd a inp c b =
     (let i = newID ''r'' rnd in
      \<lparr>rr_View = \<lparr>rq_ID = i, rq_ContractID = c_ID c, rq_ContractRevision = c_Revision c, rq_ConnectionID = ci_ConnectionID inp,
         rq_OnboardingID = ci_OnboardingID inp, rq_ConsumerID = ci_ConsumerID inp, rq_Status = ''pending'', rq_CredentialID = [],
         rq_Revision = 0, rq_AuthorizationURL = cf_PublicOrigin (b_cfg b) @ ''/connect/'' @ i, rq_ExpiresAt = now + 900 * second\<rparr>,
       rr_Actor = a, rr_OwnerKind = ci_OwnerKind inp, rr_ContractKey = contract_key (ci_ContractID inp) (ci_ContractRevision inp),
       rr_ContractDigest = Contract_Digest E c, rr_Idempotency = requestKey E a (ci_IdempotencyKey inp),
       rr_Fingerprint = Digest E (json_create_request E inp), rr_RotateID = ci_RotateCredentialID inp,
       rr_ExpectedRevision = (if ci_RotateCredentialID inp \<noteq> [] then cr_Revision (cd_View (go_get no_credential (b_credentials b) (ci_RotateCredentialID inp))) else 0),
       rr_ExternalAlias = ci_ExternalAlias inp, rr_OAuthStateHash = [], rr_DraftRef = None, rr_Extra = ci_Extra inp, rr_Demoted = []\<rparr>)"

definition import_alias :: "'a broker_env_scheme \<Rightarrow> time \<Rightarrow> bytes \<Rightarrow> Actor \<Rightarrow> CreateRequest \<Rightarrow> Contract \<Rightarrow> requestRecord \<Rightarrow> 'w Broker \<Rightarrow>
    'w Broker \<times> (berr + Request)" where
  "import_alias E now rnd a inp c r b =
     (case go_lookup (cf_ExternalAliases (b_cfg b)) (ci_ExternalAlias inp) of
        None \<Rightarrow> (b, Inl ErrDenied)
      | Some al \<Rightarrow>
          if xa_PrincipalID al \<noteq> a_PrincipalID a \<or> xa_ContextID al \<noteq> a_ContextID a \<or>
             xa_ContractKey al \<noteq> contract_key (ci_ContractID inp) (ci_ContractRevision inp) \<or> c_OAuthProvider c \<noteq> []
          then (b, Inl ErrDenied)
          else case broker_resolve (xa_Ref al) b of
            (b1, Inl _) \<Rightarrow> (b1, Inl ErrUnavailable)
          | (b1, Inr value) \<Rightarrow>
              if \<not> ValidateValues E c value then (b1, Inl ErrInvalid)
              else case ready E now rnd (r\<lparr>rr_DraftRef := Some (xa_Ref al)\<rparr>) (xa_Ref al) False None b1 of
                (b2, Inl e) \<Rightarrow> (b2, Inl e)
              | (b2, Inr _) \<Rightarrow> (b2, Inr (rr_View (go_get no_request (b_requests b2) (rq_ID (rr_View r))))))"

definition Broker_CreateRequest :: "'a broker_env_scheme \<Rightarrow> time \<Rightarrow> bytes \<Rightarrow> bytes \<Rightarrow> Actor \<Rightarrow> CreateRequest \<Rightarrow> 'w Broker \<Rightarrow>
    'w Broker \<times> (berr + Request)" where
  "Broker_CreateRequest E now rnd rnd2 a inp b =
     (if \<not> live b then (b, Inl ErrUnavailable)
      else if \<not> create_input_ok a inp then (b, Inl ErrInvalid)
      else
        let ck = contract_key (ci_ContractID inp) (ci_ContractRevision inp) in
        case go_lookup (b_catalog b) ck of
          None \<Rightarrow> (b, Inl ErrInvalid)
        | Some c \<Rightarrow>
            if ci_ExternalAlias inp = [] \<and> \<not> can_write (c_Storage c) b then (b, Inl ErrInvalid)
            else
              let r = new_request E now rnd a inp c b in
              case List.find (\<lambda>(_, q). rr_Idempotency q = rr_Idempotency r) (b_requests b) of
                Some (_, q) \<Rightarrow> (b, if rr_Fingerprint q \<noteq> rr_Fingerprint r then Inl ErrConflict else Inr (rr_View q))
              | None \<Rightarrow>
                  if length (b_requests b) \<ge> 10000 then (b, Inl ErrUnavailable)
                  else if ci_RotateCredentialID inp \<noteq> [] \<and> rotate_denied a inp ck b then (b, Inl ErrDenied)
                  else if ci_RotateCredentialID inp = [] \<and> connection_taken a inp b then (b, Inl ErrConflict)
                  else if request_competes now a inp b then (b, Inl ErrConflict)
                  else if \<not> validateExtra c (ci_Extra inp) then (b, Inl ErrInvalid)
                  else if ci_ExternalAlias inp \<noteq> [] then import_alias E now rnd2 a inp c r b
                  else
                    let e = (audit now ''request.created'' a)\<lparr>ev_RequestID := rq_ID (rr_View r), ev_ConnectionID := ci_ConnectionID inp,
                              ev_OnboardingID := ci_OnboardingID inp, ev_ConsumerID := ci_ConsumerID inp\<rparr>
                    in case commit E ((audit_only e)\<lparr>mu_Request := Some r\<rparr>) b of
                         (b1, Inl err) \<Rightarrow> (b1, Inl err)
                       | (b1, Inr _) \<Rightarrow> (b1, Inr (rr_View r)))"

section \<open>Sessions\<close>

definition session_closed :: "time \<Rightarrow> string \<Rightarrow> sessionRecord \<Rightarrow> requestRecord \<Rightarrow> bool" where
  "session_closed now i s r \<longleftrightarrow> ss_RequestID s \<noteq> i \<or> ss_Consumed s \<or> \<not> now < ss_ExpiresAt s \<or> \<not> now < rq_ExpiresAt (rr_View r) \<or>
     rq_Status (rr_View r) = ''canceled'' \<or> rq_Status (rr_View r) = ''ready''"

definition validSession :: "'a crypto_scheme \<Rightarrow> time \<Rightarrow> string \<Rightarrow> string \<Rightarrow> bool \<Rightarrow> 'b Tables_scheme \<Rightarrow> berr + sessionRecord \<times> requestRecord" where
  "validSession E now raw i approved b =
     (case (go_lookup (b_sessions b) (Digest E raw), go_lookup (b_requests b) i) of
        (Some s, Some r) \<Rightarrow>
          if session_closed now i s r then Inl ErrExpired
          else if approved \<and> \<not> ss_Approved s then Inl ErrDenied
          else Inr (s, r)
      | _ \<Rightarrow> Inl ErrExpired)"

definition session_view :: "'a crypto_scheme \<Rightarrow> 'w Broker \<Rightarrow> string \<Rightarrow> string \<Rightarrow> sessionRecord \<Rightarrow> requestRecord \<Rightarrow> SessionView" where
  "session_view E b i raw s r =
     (let c = catalog_get b (rr_ContractKey r) in
      \<lparr>sv_RequestID = i, sv_Title = c_Title c, sv_TitleI18n = c_TitleI18n c, sv_Status = rq_Status (rr_View r),
       sv_Code = sessionCode E b raw, sv_Approved = ss_Approved s,
       sv_Fields = (if ss_Approved s then c_Fields c else []),
       sv_Extra = (if ss_Approved s then (case rr_Extra r of None \<Rightarrow> [] | Some x \<Rightarrow> x_Fields x) else []),
       sv_AnyRequired = (ss_Approved s \<and> list_ex f_Required (c_Fields c)), sv_OAuth = (c_OAuthProvider c \<noteq> [])\<rparr>)"

definition OpenSession :: "'a broker_env_scheme \<Rightarrow> time \<Rightarrow> bytes \<Rightarrow> string \<Rightarrow> string \<Rightarrow> 'w Broker \<Rightarrow> 'w Broker \<times> (berr + SessionView \<times> string)" where
  "OpenSession E now rnd i raw b =
     (if \<not> live b then (b, Inl ErrUnavailable)
      else case go_lookup (b_requests b) i of
        None \<Rightarrow> (b, Inl ErrNotFound)
      | Some r \<Rightarrow>
          if \<not> now < rq_ExpiresAt (rr_View r) \<or> rq_Status (rr_View r) = ''canceled'' \<or> rq_Status (rr_View r) = ''ready''
          then (b, Inl ErrExpired)
          else
            let s = (if raw \<noteq> [] then go_get no_session (b_sessions b) (Digest E raw) else no_session) in
            if ss_Hash s = [] \<or> ss_Consumed s \<or> ss_RequestID s \<noteq> i \<or> \<not> now < ss_ExpiresAt s then
              if length (filter (\<lambda>(_, x). ss_RequestID x = i \<and> \<not> ss_Consumed x \<and> now < ss_ExpiresAt x) (b_sessions b)) \<ge> 8 \<or>
                 length (b_sessions b) \<ge> 50000
              then (b, Inl ErrConflict)
              else
                let raw' = Random rnd;
                    s' = \<lparr>ss_Hash = Digest E raw', ss_CodeHash = Digest E (sessionCode E b raw'), ss_RequestID = i,
                          ss_ExpiresAt = rq_ExpiresAt (rr_View r), ss_Approved = cf_DirectForm (b_cfg b), ss_Consumed = False\<rparr>;
                    e = (audit now ''session.opened'' (rr_Actor r))\<lparr>ev_RequestID := i\<rparr>
                in case commit E ((audit_only e)\<lparr>mu_Session := Some s'\<rparr>) b of
                     (b1, Inl err) \<Rightarrow> (b1, Inl err)
                   | (b1, Inr _) \<Rightarrow> (b1, Inr (session_view E b1 i raw' s' r, raw'))
            else (b, Inr (session_view E b i raw s r, raw)))"

definition Approve :: "'a broker_env_scheme \<Rightarrow> time \<Rightarrow> Actor \<Rightarrow> string \<Rightarrow> string \<Rightarrow> 'w Broker \<Rightarrow> 'w Broker \<times> (berr + unit)" where
  "Approve E now a i code b =
     (case go_lookup (b_requests b) i of
        None \<Rightarrow> (b, Inl ErrNotFound)
      | Some r \<Rightarrow>
          if \<not> requestBy a r then (b, Inl ErrNotFound)
          else if \<not> live b then (b, Inl ErrUnavailable)
          else if \<not> now < rq_ExpiresAt (rr_View r) \<or> rq_Status (rr_View r) \<noteq> ''pending'' then (b, Inl ErrExpired)
          else
            let code' = ToUpper (filter (\<lambda>c. c \<noteq> CHR ''-'') (TrimSpace code)) in
            if length code' \<noteq> 16 then (b, Inl ErrDenied)
            else case List.find (\<lambda>(_, s). ss_RequestID s = i \<and> \<not> ss_Consumed s \<and> \<not> ss_Approved s \<and> now < ss_ExpiresAt s \<and>
                                   seal_Equal (ss_CodeHash s) (Digest E code')) (b_sessions b) of
              None \<Rightarrow> (b, Inl ErrDenied)
            | Some (_, s) \<Rightarrow>
                if list_ex (\<lambda>(_, x). ss_RequestID x = i \<and> ss_Approved x \<and> \<not> ss_Consumed x) (b_sessions b) then (b, Inl ErrConflict)
                else
                  let e = (audit now ''session.approved'' a)\<lparr>ev_RequestID := i\<rparr> in
                  case commit E ((audit_only e)\<lparr>mu_Session := Some (s\<lparr>ss_Approved := True\<rparr>)\<rparr>) b of
                    (b1, Inl err) \<Rightarrow> (b1, Inl err)
                  | (b1, Inr _) \<Rightarrow> (b1, Inr ()))"

section \<open>Submission\<close>

definition result_unit :: "'s \<times> (berr + 'a) \<Rightarrow> 's \<times> (berr + unit)" where
  "result_unit x = (fst x, case snd x of Inl e \<Rightarrow> Inl e | Inr _ \<Rightarrow> Inr ())"

definition Submit :: "'a broker_env_scheme \<Rightarrow> time \<Rightarrow> bytes \<Rightarrow> string \<Rightarrow> string \<Rightarrow> string \<Rightarrow> Bundle \<Rightarrow> string list \<Rightarrow> 'w Broker \<Rightarrow>
    'w Broker \<times> (berr + unit)" where
  "Submit E now rnd i raw csrf values demoted b =
     (if \<not> live b then (b, Inl ErrUnavailable)
      else case validSession E now raw i True b of
        Inl e \<Rightarrow> (b, Inl e)
      | Inr (s, r) \<Rightarrow>
          if \<not> seal_Equal csrf (CSRF E b raw i) \<or> rq_Status (rr_View r) \<noteq> ''pending'' then (b, Inl ErrDenied)
          else
            let c = catalog_get b (rr_ContractKey r) in
            if \<not> list_all (requiredField c) demoted then (b, Inl ErrInvalid)
            else if \<not> ValidateValues E (requestContract c (rr_Extra r) demoted) values then (b, Inl ErrInvalid)
            else
              let r1 = r\<lparr>rr_Demoted := sortedDemoted demoted\<rparr> in
              case broker_put (c_Storage c) values b of
                (b1, Inl _) \<Rightarrow> (b1, Inl ErrUnavailable)
              | (b1, Inr ref) \<Rightarrow>
                  if c_OAuthProvider c \<noteq> [] then
                    let r2 = r1\<lparr>rr_DraftRef := Some ref, rr_View := (rr_View r1)\<lparr>rq_Status := ''authorizing''\<rparr>\<rparr>;
                        ev = (audit now ''request.authorizing'' (rr_Actor r2))\<lparr>ev_RequestID := i\<rparr>
                    in result_unit (commit E ((audit_only ev)\<lparr>mu_Request := Some r2\<rparr>) b1)
                  else result_unit (ready E now rnd r1 ref True (Some s) b1))"

definition SubmitTelegram :: "'a broker_env_scheme \<Rightarrow> time \<Rightarrow> bytes \<Rightarrow> Actor \<Rightarrow> string \<Rightarrow> Bundle \<Rightarrow> 'w Broker \<Rightarrow> 'w Broker \<times> (berr + unit)" where
  "SubmitTelegram E now rnd a i values b =
     (if \<not> live b then (b, Inl ErrUnavailable)
      else case go_lookup (b_requests b) i of
        None \<Rightarrow> (b, Inl ErrNotFound)
      | Some r \<Rightarrow>
          if \<not> requestBy a r \<or> rq_ContractID (rr_View r) \<noteq> ''telegram-session'' \<or> rq_ContractRevision (rr_View r) \<noteq> 2
          then (b, Inl ErrNotFound)
          else if \<not> now < rq_ExpiresAt (rr_View r) \<or> rq_Status (rr_View r) \<noteq> ''pending'' then (b, Inl ErrExpired)
          else
            let c = catalog_get b (rr_ContractKey r) in
            if \<not> ValidateValues E c values then (b, Inl ErrInvalid)
            else case broker_put (c_Storage c) values b of
              (b1, Inl _) \<Rightarrow> (b1, Inl ErrUnavailable)
            | (b1, Inr ref) \<Rightarrow> result_unit (ready E now rnd r ref True None b1))"

end
