(* ===== verification/Grants.thy ===== *)
theory Grants
  imports Enrollment
begin

text \<open>
  Grants and leases (\<^verbatim>\<open>broker/grants.go\<close>): the creation of a grant with its conflict and isolation
  rules, the acquisition, check, renewal and sweeping of leases, and the revocation and
  deletion of credentials.
\<close>

section \<open>Denials\<close>

definition DenyReason :: "berr \<Rightarrow> string" where
  "DenyReason e = (case e of Denial s \<Rightarrow> s | _ \<Rightarrow> [])"

definition berr_Is :: "berr \<Rightarrow> berr \<Rightarrow> bool" where
  "berr_Is e target \<longleftrightarrow> e = target \<or> (case e of Denial _ \<Rightarrow> target = ErrDenied | _ \<Rightarrow> False)"

section \<open>CreateGrant\<close>

definition grant_input_ok :: "GrantRequest \<Rightarrow> credentialRecord \<Rightarrow> bool" where
  "grant_input_ok inp c \<longleftrightarrow>
     list_all ValidID [gi_PrincipalID inp, gi_ContextID inp, gi_RuntimeID inp, gi_BindingID inp, gi_WorkloadID inp] \<and>
     \<not> (\<not> validIdempotency (gi_IdempotencyKey inp) \<or> gi_Execution inp \<noteq> ''dedicated'' \<and> gi_Execution inp \<noteq> ''shared'' \<or>
        gi_ContextID inp \<noteq> cr_ContextID (cd_View c))"

definition process_scoped :: "Contract \<Rightarrow> bool" where
  "process_scoped c \<longleftrightarrow> length (c_Deliveries c) > 0 \<or> c_State c \<noteq> None"

definition same_binding :: "Grant \<Rightarrow> GrantRequest \<Rightarrow> bool" where
  "same_binding g inp \<longleftrightarrow> gr_BindingID g = gi_BindingID inp \<and> gr_ContextID g = gi_ContextID inp \<and> gr_PrincipalID g = gi_PrincipalID inp"

definition same_grant :: "Actor \<Rightarrow> string \<Rightarrow> string \<Rightarrow> GrantRequest \<Rightarrow> grantRecord \<Rightarrow> bool" where
  "same_grant a cred ck inp g \<longleftrightarrow> gr_CredentialID (gd_View g) = cred \<and> gr_RuntimeID (gd_View g) = gi_RuntimeID inp \<and>
     gr_WorkloadID (gd_View g) = gi_WorkloadID inp \<and> gr_PolicyVersion (gd_View g) = a_PolicyVersion a \<and>
     gr_Execution (gd_View g) = gi_Execution inp \<and> gd_ContractKey g = ck"

definition retires :: "Actor \<Rightarrow> string \<Rightarrow> string \<Rightarrow> GrantRequest \<Rightarrow> grantRecord \<Rightarrow> bool" where
  "retires a cred ck inp g \<longleftrightarrow> gi_Execution inp = ''dedicated'' \<and> gr_Execution (gd_View g) = ''dedicated'' \<and>
     gr_CredentialID (gd_View g) = cred \<and> gr_PrincipalID (gd_View g) = gi_PrincipalID inp \<and> gr_ContextID (gd_View g) = gi_ContextID inp \<and>
     gr_RuntimeID (gd_View g) = gi_RuntimeID inp \<and> gr_PolicyVersion (gd_View g) = a_PolicyVersion a \<and> gd_ContractKey g = ck"

text \<open>The loop over the grants: an early result, or the grants to retire.\<close>

fun grant_loop :: "'b Tables_scheme \<Rightarrow> Actor \<Rightarrow> string \<Rightarrow> string \<Rightarrow> Contract \<Rightarrow> string \<Rightarrow> string \<Rightarrow> GrantRequest \<Rightarrow>
    grantRecord list \<Rightarrow> (string \<times> grantRecord) list \<Rightarrow> (berr + Grant) + grantRecord list" where
  "grant_loop b a cred ck target idem fp inp retire [] = Inr retire"
| "grant_loop b a cred ck target idem fp inp retire ((_, g) # gs) =
     (if gd_Idempotency g = idem then
        Inl (if gd_Fingerprint g \<noteq> fp then Inl ErrConflict else Inr (gd_View g))
      else if \<not> gr_Active (gd_View g) then grant_loop b a cred ck target idem fp inp retire gs
      else if same_binding (gd_View g) inp then
        Inl (if same_grant a cred ck inp g then Inr (gd_View g) else Inl ErrConflict)
      else if gr_WorkloadID (gd_View g) = gi_WorkloadID inp then
        (if retires a cred ck inp g then grant_loop b a cred ck target idem fp inp (retire @ [g]) gs
         else if gi_Execution inp \<noteq> ''shared'' \<or> gr_Execution (gd_View g) \<noteq> ''shared'' then Inl (Inl ErrDenied)
         else if (process_scoped target \<or> process_scoped (catalog_get b (gd_ContractKey g))) \<and>
                 (gr_CredentialID (gd_View g) \<noteq> cred \<or> gd_ContractKey g \<noteq> ck)
         then Inl (Inl ErrDenied)
         else grant_loop b a cred ck target idem fp inp retire gs)
      else grant_loop b a cred ck target idem fp inp retire gs)"

definition deactivated :: "grantRecord \<Rightarrow> grantRecord" where
  "deactivated g = g\<lparr>gd_View := (gd_View g)\<lparr>gr_Active := False\<rparr>\<rparr>"

definition grant_event :: "time \<Rightarrow> string \<Rightarrow> Actor \<Rightarrow> string \<Rightarrow> Grant \<Rightarrow> Event" where
  "grant_event now kind a cred g = (audit now kind a)\<lparr>ev_CredentialID := cred, ev_GrantID := gr_ID g, ev_BindingID := gr_BindingID g,
     ev_WorkloadID := gr_WorkloadID g\<rparr>"

fun retire_loop :: "'a broker_env_scheme \<Rightarrow> time \<Rightarrow> Actor \<Rightarrow> string \<Rightarrow> grantRecord list \<Rightarrow> 'w Broker \<Rightarrow> 'w Broker \<times> (berr + unit)" where
  "retire_loop E now a cred [] b = (b, Inr ())"
| "retire_loop E now a cred (old # olds) b =
     (case commit E ((audit_only (grant_event now ''grant.revoked'' a cred (gd_View old)))\<lparr>mu_Grant := Some (deactivated old)\<rparr>) b of
        (b1, Inl e) \<Rightarrow> (b1, Inl e)
      | (b1, Inr _) \<Rightarrow> retire_loop E now a cred olds (drop_where (\<lambda>l. lv_GrantID (lr_View l) = gr_ID (gd_View old)) b1))"

definition new_grant :: "'a broker_env_scheme \<Rightarrow> bytes \<Rightarrow> Actor \<Rightarrow> string \<Rightarrow> string \<Rightarrow> Contract \<Rightarrow> string \<Rightarrow> string \<Rightarrow> GrantRequest \<Rightarrow> grantRecord" where
  "new_grant E rnd a cred ck target idem fp inp =
     \<lparr>gd_View = \<lparr>gr_ID = newID ''g'' rnd, gr_CredentialID = cred, gr_PrincipalID = gi_PrincipalID inp, gr_ContextID = gi_ContextID inp,
        gr_RuntimeID = gi_RuntimeID inp, gr_BindingID = gi_BindingID inp, gr_WorkloadID = gi_WorkloadID inp, gr_Execution = gi_Execution inp,
        gr_ContractID = c_ID target, gr_ContractRevision = c_Revision target, gr_PolicyVersion = a_PolicyVersion a, gr_Active = True\<rparr>,
      gd_ContractKey = ck, gd_ContractDigest = Contract_Digest E target, gd_Idempotency = idem, gd_Fingerprint = fp\<rparr>"

definition grant_write :: "'a broker_env_scheme \<Rightarrow> time \<Rightarrow> Actor \<Rightarrow> string \<Rightarrow> grantRecord \<Rightarrow> grantRecord list \<Rightarrow> 'w Broker \<Rightarrow> 'w Broker \<times> (berr + Grant)" where
  "grant_write E now a cred g retire b =
     (case retire_loop E now a cred retire b of
        (b1, Inl e) \<Rightarrow> (b1, Inl e)
      | (b1, Inr _) \<Rightarrow>
          (case commit E ((audit_only (grant_event now ''grant.created'' a cred (gd_View g)))\<lparr>mu_Grant := Some g\<rparr>) b1 of
             (b2, Inl e) \<Rightarrow> (b2, Inl e)
           | (b2, Inr _) \<Rightarrow> (b2, Inr (gd_View g))))"

definition CreateGrant :: "'a broker_env_scheme \<Rightarrow> time \<Rightarrow> bytes \<Rightarrow> Actor \<Rightarrow> string \<Rightarrow> GrantRequest \<Rightarrow> 'w Broker \<Rightarrow> 'w Broker \<times> (berr + Grant)" where
  "CreateGrant E now rnd a cred inp b =
     (if \<not> live b then (b, Inl ErrUnavailable)
      else case go_lookup (b_credentials b) cred of
        None \<Rightarrow> (b, Inl ErrNotFound)
      | Some c \<Rightarrow>
          if \<not> managedBy a c then (b, Inl ErrNotFound)
          else if cr_Status (cd_View c) \<noteq> ''active'' then (b, Inl ErrDenied)
          else if \<not> grant_input_ok inp c then (b, Inl ErrInvalid)
          else if cr_OwnerKind (cd_View c) = ''user'' \<and> gi_PrincipalID inp \<noteq> cr_PrincipalID (cd_View c) then (b, Inl ErrDenied)
          else
            let ck = contract_key (gi_ContractID inp) (gi_ContractRevision inp) in
            case go_lookup (b_catalog b) ck of
              None \<Rightarrow> (b, Inl ErrInvalid)
            | Some target \<Rightarrow>
                if \<not> Compatible (catalog_get b (cd_ContractKey c)) target then (b, Inl ErrInvalid)
                else if gi_Execution inp = ''shared'' \<and> \<not> c_AllowShared target then (b, Inl ErrDenied)
                else
                  let fp = Digest E (json_grant_request E inp);
                      idem = requestKey E a (''grant/'' @ cred @ ''/'' @ gi_IdempotencyKey inp)
                  in case grant_loop b a cred ck target idem fp inp [] (b_grants b) of
                       Inl x \<Rightarrow> (b, x)
                     | Inr retire \<Rightarrow>
                         if length (b_grants b) \<ge> 50000 then (b, Inl ErrUnavailable)
                         else grant_write E now a cred (new_grant E rnd a cred ck target idem fp inp) retire b)"

definition grantMatches :: "Actor \<Rightarrow> grantRecord \<Rightarrow> bool" where
  "grantMatches a g \<longleftrightarrow> gr_Active (gd_View g) \<and> a_PrincipalID a = gr_PrincipalID (gd_View g) \<and> a_ContextID a = gr_ContextID (gd_View g) \<and>
     a_RuntimeID a = gr_RuntimeID (gd_View g) \<and> a_PolicyVersion a = gr_PolicyVersion (gd_View g) \<and>
     (a_BindingID a = [] \<or> a_BindingID a = gr_BindingID (gd_View g)) \<and> (a_WorkloadID a = [] \<or> a_WorkloadID a = gr_WorkloadID (gd_View g))"

definition GetGrant :: "Actor \<Rightarrow> string \<Rightarrow> 'w Broker \<Rightarrow> berr + Grant" where
  "GetGrant a i b =
     (if \<not> live b then Inl ErrUnavailable
      else case go_lookup (b_grants b) i of
        None \<Rightarrow> Inl ErrNotFound
      | Some g \<Rightarrow>
          (case go_lookup (b_credentials b) (gr_CredentialID (gd_View g)) of
             None \<Rightarrow> Inl ErrNotFound
           | Some c \<Rightarrow> if \<not> managedBy a c then Inl ErrNotFound else Inr (gd_View g)))"

section \<open>Leases\<close>

definition new_lease :: "bytes \<Rightarrow> time \<Rightarrow> grantRecord \<Rightarrow> credentialRecord \<Rightarrow> Contract \<Rightarrow> Lease" where
  "new_lease rnd expires g c cc =
     \<lparr>lv_ID = newID ''l'' rnd, lv_GrantID = gr_ID (gd_View g), lv_CredentialID = cr_ID (cd_View c), lv_Revision = cr_Revision (cd_View c),
      lv_ExpiresAt = expires, lv_Deliveries = c_Deliveries cc, lv_State = c_State cc, lv_Routes = map r_ID (c_Routes cc)\<rparr>"

definition acquire_write :: "'a broker_env_scheme \<Rightarrow> time \<Rightarrow> Actor \<Rightarrow> grantRecord \<Rightarrow> credentialRecord \<Rightarrow> Lease \<Rightarrow> string \<Rightarrow> 'w Broker \<Rightarrow>
    'w Broker \<times> (berr + Lease)" where
  "acquire_write E now a g c view stateKey b =
     (let ev = (audit now ''lease.acquired'' a)\<lparr>ev_CredentialID := cr_ID (cd_View c), ev_GrantID := gr_ID (gd_View g),
                 ev_LeaseID := lv_ID view, ev_BindingID := gr_BindingID (gd_View g), ev_WorkloadID := gr_WorkloadID (gd_View g)\<rparr>
      in case commit E (audit_only ev) b of
           (b1, Inl e) \<Rightarrow> (b1, Inl e)
         | (b1, Inr _) \<Rightarrow>
             (b1\<lparr>b_leases := go_update (lv_ID view)
                \<lparr>lr_View = view, lr_Materialized = None, lr_StateKey = stateKey, lr_Active = []\<rparr> (b_leases b1)\<rparr>, Inr view))"

definition Acquire :: "'a broker_env_scheme \<Rightarrow> time \<Rightarrow> bytes \<Rightarrow> Actor \<Rightarrow> AcquireLease \<Rightarrow> 'w Broker \<Rightarrow> 'w Broker \<times> (berr + Lease)" where
  "Acquire E now rnd a inp b0 =
     (if \<not> live b0 then (b0, Inl ErrUnavailable)
      else
        let b = sweepLocked now b0 in
        case go_lookup (b_grants b) (al_GrantID inp) of
          None \<Rightarrow> (b, Inl (Denial ''grant_missing''))
        | Some g \<Rightarrow>
            if \<not> grantMatches a g then (b, Inl (Denial ''identity_mismatch''))
            else case go_lookup (b_credentials b) (gr_CredentialID (gd_View g)) of
              None \<Rightarrow> (b, Inl (Denial ''credential_inactive''))
            | Some c \<Rightarrow>
                if cr_Status (cd_View c) \<noteq> ''active'' then (b, Inl (Denial ''credential_inactive''))
                else
                  let ttl = (if al_TTLSeconds inp = 0 then 60 else al_TTLSeconds inp) in
                  if ttl < 1 \<or> ttl > 300 then (b, Inl ErrInvalid)
                  else if length (b_leases b) \<ge> 4096 then (b, Inl ErrUnavailable)
                  else
                    let cc = catalog_get b (gd_ContractKey g);
                        stateKey = (if c_State cc \<noteq> None then state_key E (cr_ID (cd_View c)) (gr_ContextID (gd_View g)) (gr_BindingID (gd_View g)) else [])
                    in if c_State cc \<noteq> None \<and> list_ex (\<lambda>(_, l). lr_StateKey l = stateKey) (b_leases b) then (b, Inl ErrConflict)
                       else acquire_write E now a g c (new_lease rnd (now + ttl * second) g c cc) stateKey b)"

definition lease :: "time \<Rightarrow> Actor \<Rightarrow> string \<Rightarrow> 'w Broker \<Rightarrow> berr + leaseRecord \<times> grantRecord \<times> credentialRecord" where
  "lease now a i b =
     (if \<not> live b then Inl ErrUnavailable
      else case go_lookup (b_leases b) i of
        None \<Rightarrow> Inl ErrDenied
      | Some l \<Rightarrow>
          (case go_lookup (b_grants b) (lv_GrantID (lr_View l)) of
             None \<Rightarrow> Inl ErrDenied
           | Some g \<Rightarrow>
               if \<not> grantMatches a g then Inl ErrDenied
               else case go_lookup (b_credentials b) (lv_CredentialID (lr_View l)) of
                 None \<Rightarrow> Inl ErrExpired
               | Some c \<Rightarrow>
                   if cr_Status (cd_View c) \<noteq> ''active'' \<or> cr_Revision (cd_View c) \<noteq> lv_Revision (lr_View l) \<or> \<not> now < lv_ExpiresAt (lr_View l)
                   then Inl ErrExpired
                   else Inr (l, g, c)))"

definition Sweep :: "time \<Rightarrow> 'w Broker \<Rightarrow> 'w Broker" where
  "Sweep now b = sweepLocked now b"

definition InspectLease :: "time \<Rightarrow> Actor \<Rightarrow> string \<Rightarrow> 'w Broker \<Rightarrow> berr + Lease" where
  "InspectLease now a i b = (case lease now a i b of Inl e \<Rightarrow> Inl e | Inr (l, _, _) \<Rightarrow> Inr (lr_View l))"

definition Renew :: "'a broker_env_scheme \<Rightarrow> time \<Rightarrow> Actor \<Rightarrow> string \<Rightarrow> int \<Rightarrow> 'w Broker \<Rightarrow> 'w Broker \<times> (berr + Lease)" where
  "Renew E now a i seconds b =
     (case lease now a i b of
        Inl e \<Rightarrow> (b, Inl e)
      | Inr (l, g, c) \<Rightarrow>
          if seconds < 1 \<or> seconds > 300 then (b, Inl ErrInvalid)
          else
            let expires = now + seconds * second in
            if expires < lv_ExpiresAt (lr_View l) then (b, Inl ErrInvalid)
            else
              let ev = (audit now ''lease.renewed'' a)\<lparr>ev_LeaseID := i, ev_CredentialID := cr_ID (cd_View c), ev_GrantID := gr_ID (gd_View g)\<rparr> in
              case commit E (audit_only ev) b of
                (b1, Inl e) \<Rightarrow> (b1, Inl e)
              | (b1, Inr _) \<Rightarrow>
                  (let l' = l\<lparr>lr_View := (lr_View l)\<lparr>lv_ExpiresAt := expires\<rparr>,
                              lr_Materialized := map_option (\<lambda>m. m\<lparr>mz_ExpiresAt := expires\<rparr>) (lr_Materialized l)\<rparr>
                   in (b1\<lparr>b_leases := go_update i l' (b_leases b1)\<rparr>, Inr (lr_View l'))))"

section \<open>Revocation and deletion\<close>

definition RevokeGrant :: "'a broker_env_scheme \<Rightarrow> time \<Rightarrow> Actor \<Rightarrow> string \<Rightarrow> 'w Broker \<Rightarrow> 'w Broker \<times> (berr + unit)" where
  "RevokeGrant E now a i b =
     (case go_lookup (b_grants b) i of
        None \<Rightarrow> (b, Inl ErrNotFound)
      | Some g \<Rightarrow>
          (case go_lookup (b_credentials b) (gr_CredentialID (gd_View g)) of
             None \<Rightarrow> (b, Inl ErrNotFound)
           | Some c \<Rightarrow>
               if \<not> managedBy a c then (b, Inl ErrNotFound)
               else if \<not> gr_Active (gd_View g) then (b, Inr ())
               else
                 let ev = (grant_event now ''grant.revoked'' a (cr_ID (cd_View c)) (gd_View g))\<lparr>ev_GrantID := i\<rparr> in
                 case commit E ((audit_only ev)\<lparr>mu_Grant := Some (deactivated g)\<rparr>) b of
                   (b1, Inl e) \<Rightarrow> (b1, Inl e)
                 | (b1, Inr _) \<Rightarrow> (drop_where (\<lambda>l. lv_GrantID (lr_View l) = i) b1, Inr ())))"

fun revoke_grants_loop :: "'a broker_env_scheme \<Rightarrow> time \<Rightarrow> Actor \<Rightarrow> string \<Rightarrow> (string \<times> grantRecord) list \<Rightarrow> 'w Broker \<Rightarrow> 'w Broker \<times> (berr + unit)" where
  "revoke_grants_loop E now a cred [] b = (b, Inr ())"
| "revoke_grants_loop E now a cred ((gid, g) # gs) b =
     (if gr_CredentialID (gd_View g) \<noteq> cred \<or> \<not> gr_Active (gd_View g) then revoke_grants_loop E now a cred gs b
      else
        let ev = (grant_event now ''grant.revoked'' a cred (gd_View g))\<lparr>ev_GrantID := gid\<rparr> in
        case commit E ((audit_only ev)\<lparr>mu_Grant := Some (deactivated g)\<rparr>) b of
          (b1, Inl e) \<Rightarrow> (b1, Inl e)
        | (b1, Inr _) \<Rightarrow> revoke_grants_loop E now a cred gs b1)"

definition RevokeCredential :: "'a broker_env_scheme \<Rightarrow> time \<Rightarrow> Actor \<Rightarrow> string \<Rightarrow> 'w Broker \<Rightarrow> 'w Broker \<times> (berr + unit)" where
  "RevokeCredential E now a i b =
     (case go_lookup (b_credentials b) i of
        None \<Rightarrow> (b, Inl ErrNotFound)
      | Some c \<Rightarrow>
          if \<not> managedBy a c then (b, Inl ErrNotFound)
          else if cr_Status (cd_View c) = ''revoked'' \<or> cr_Status (cd_View c) = ''deleted'' then (b, Inr ())
          else
            let c' = c\<lparr>cd_View := (cd_View c)\<lparr>cr_Status := ''revoked'', cr_Revision := cr_Revision (cd_View c) + 1\<rparr>\<rparr>;
                ev = (audit now ''credential.revoked'' a)\<lparr>ev_CredentialID := i, ev_ConnectionID := cr_ConnectionID (cd_View c'),
                       ev_ConsumerID := cr_ConsumerID (cd_View c')\<rparr>
            in case commit E ((audit_only ev)\<lparr>mu_Credential := Some c'\<rparr>) b of
                 (b1, Inl e) \<Rightarrow> (b1, Inl e)
               | (b1, Inr _) \<Rightarrow> (let b2 = invalidateCredential i b1 in revoke_grants_loop E now a i (b_grants b2) b2))"

text \<open>Deletion of secret versions through the providers; the first failure stops the loop.\<close>

fun delete_refs :: "'w Registry \<Rightarrow> Ref list \<Rightarrow> 'w \<Rightarrow> 'w \<times> bool" where
  "delete_refs reg [] w = (w, True)"
| "delete_refs reg (ref # refs) w =
     (case go_lookup reg (ref_Provider ref) of
        None \<Rightarrow> (w, False)
      | Some p \<Rightarrow>
          if \<not> cap_Delete (p_Capabilities p) then (w, False)
          else case p_Delete p w ref of
            (w1, Inl _) \<Rightarrow> (w1, False)
          | (w1, Inr _) \<Rightarrow> delete_refs reg refs w1)"

fun delete_with :: "'w Provider \<Rightarrow> Ref list \<Rightarrow> 'w \<Rightarrow> 'w \<times> bool" where
  "delete_with p [] w = (w, True)"
| "delete_with p (ref # refs) w = (case p_Delete p w ref of (w1, Inl _) \<Rightarrow> (w1, False) | (w1, Inr _) \<Rightarrow> delete_with p refs w1)"

definition state_belongs :: "'a crypto_scheme \<Rightarrow> string \<Rightarrow> 'b Tables_scheme \<Rightarrow> string \<Rightarrow> bool" where
  "state_belongs E cred b sk \<longleftrightarrow>
     list_ex (\<lambda>(_, g). gr_CredentialID (gd_View g) = cred \<and> state_key E cred (gr_ContextID (gd_View g)) (gr_BindingID (gd_View g)) = sk) (b_grants b)"

fun delete_states :: "'a crypto_scheme \<Rightarrow> 'w Registry \<Rightarrow> string \<Rightarrow> 'b Tables_scheme \<Rightarrow> (string \<times> stateRecord) list \<Rightarrow> 'w \<Rightarrow> 'w \<times> bool" where
  "delete_states E reg cred b [] w = (w, True)"
| "delete_states E reg cred b ((sk, s) # ss) w =
     (if state_belongs E cred b sk then
        (case go_lookup reg (ref_Provider (sr_Ref s)) of
           None \<Rightarrow> (w, False)
         | Some p \<Rightarrow> (case delete_with p (sr_OwnedRefs s) w of (w1, False) \<Rightarrow> (w1, False) | (w1, True) \<Rightarrow> delete_states E reg cred b ss w1))
      else delete_states E reg cred b ss w)"

definition delete_locked :: "'a broker_env_scheme \<Rightarrow> time \<Rightarrow> Actor \<Rightarrow> string \<Rightarrow> 'w Broker \<Rightarrow> 'w Broker \<times> (berr + unit)" where
  "delete_locked E now a i b =
     (let c = go_get no_credential (b_credentials b) i; reg = cf_Providers (b_cfg b) in
      if cr_Status (cd_View c) = ''deleted'' then (b, Inr ())
      else case delete_refs reg (cd_OwnedRefs c) (b_world b) of
        (w1, False) \<Rightarrow> (b\<lparr>b_world := w1\<rparr>, Inl ErrUnavailable)
      | (w1, True) \<Rightarrow>
          (case delete_states E reg i b (b_states b) w1 of
             (w2, False) \<Rightarrow> (b\<lparr>b_world := w2\<rparr>, Inl ErrUnavailable)
           | (w2, True) \<Rightarrow>
               result_unit (commit E ((audit_only ((audit now ''credential.deleted'' a)\<lparr>ev_CredentialID := i\<rparr>))
                 \<lparr>mu_Credential := Some (c\<lparr>cd_View := (cd_View c)\<lparr>cr_Status := ''deleted''\<rparr>\<rparr>)\<rparr>) (b\<lparr>b_world := w2\<rparr>))))"

text \<open>Between the revocation and the deletion the mutex is free; \<open>other\<close> is what others do meanwhile.\<close>

definition DeleteCredential :: "'a broker_env_scheme \<Rightarrow> time \<Rightarrow> time \<Rightarrow> ('w Broker \<Rightarrow> 'w Broker) \<Rightarrow> Actor \<Rightarrow> string \<Rightarrow> 'w Broker \<Rightarrow>
    'w Broker \<times> (berr + unit)" where
  "DeleteCredential E now1 now2 other a i b =
     (case RevokeCredential E now1 a i b of
        (b1, Inl e) \<Rightarrow> (b1, Inl e)
      | (b1, Inr _) \<Rightarrow> delete_locked E now2 a i (other b1))"

end
