(* ===== verification/Runtime.thy ===== *)
theory Runtime
  imports Grants
begin

text \<open>
  Use of leases by the runtime adapter (\<^verbatim>\<open>broker/runtime.go\<close>): beginning and finishing a use, the
  validity check that guards every disclosure, resolution of the secret, materialization,
  and release with an optional checkpoint of state.

  \<^verbatim>\<open>Resolve\<close> and \<^verbatim>\<open>Materialize\<close> call the provider without the mutex. Their models take the clock
  at each reading (\<open>now 0\<close>, \<open>now 1\<close>, ...) and, for each point where the mutex is free, a function
  \<open>other k\<close> for whatever other calls do to the broker there.
\<close>

record Use =
  us_Actor :: Actor
  us_Lease :: string
  us_Op :: string
  us_Deadline :: time
  us_Contract :: Contract
  us_CredentialID :: string
  us_Ref :: Ref

definition BeginUse :: "'a broker_env_scheme \<Rightarrow> time \<Rightarrow> bytes \<Rightarrow> Actor \<Rightarrow> string \<Rightarrow> 'w Broker \<Rightarrow> 'w Broker \<times> (berr + Use)" where
  "BeginUse E now rnd a i b =
     (if \<not> ValidID (a_BindingID a) \<or> \<not> ValidID (a_WorkloadID a) then (b, Inl ErrDenied)
      else case lease now a i b of
        Inl e \<Rightarrow> (b, Inl e)
      | Inr (l, g, c) \<Rightarrow>
          if length (lr_Active l) \<ge> 16 then (b, Inl ErrUnavailable)
          else
            let ev = (audit now ''lease.used'' a)\<lparr>ev_LeaseID := i, ev_GrantID := gr_ID (gd_View g), ev_CredentialID := cr_ID (cd_View c),
                       ev_BindingID := gr_BindingID (gd_View g), ev_WorkloadID := gr_WorkloadID (gd_View g)\<rparr>
            in case commit E (audit_only ev) b of
                 (b1, Inl e) \<Rightarrow> (b1, Inl e)
               | (b1, Inr _) \<Rightarrow>
                   (let op = newID ''u'' rnd in
                    (b1\<lparr>b_leases := go_update i (l\<lparr>lr_Active := op # lr_Active l\<rparr>) (b_leases b1)\<rparr>,
                     Inr \<lparr>us_Actor = a, us_Lease = i, us_Op = op, us_Deadline = lv_ExpiresAt (lr_View l),
                       us_Contract = requestContract (catalog_get b1 (gd_ContractKey g)) (cd_Extra c) (demotedSet (cd_Demoted c)),
                       us_CredentialID = cr_ID (cd_View c), us_Ref = cd_Ref c\<rparr>)))"

definition Finish :: "Use \<Rightarrow> 'w Broker \<Rightarrow> 'w Broker" where
  "Finish u b =
     (let b1 = b\<lparr>b_canceled := us_Op u # b_canceled b\<rparr> in
      case go_lookup (b_leases b1) (us_Lease u) of
        None \<Rightarrow> b1
      | Some l \<Rightarrow> b1\<lparr>b_leases := go_update (us_Lease u) (l\<lparr>lr_Active := removeAll (us_Op u) (lr_Active l)\<rparr>) (b_leases b1)\<rparr>)"

definition Use_Valid :: "time \<Rightarrow> Use \<Rightarrow> 'w Broker \<Rightarrow> bool" where
  "Use_Valid now u b \<longleftrightarrow>
     (case lease now (us_Actor u) (us_Lease u) b of Inl _ \<Rightarrow> False | Inr _ \<Rightarrow> True) \<and>
     us_Op u \<notin> set (b_canceled b) \<and> now < us_Deadline u"

definition reserved :: "string \<Rightarrow> bool" where
  "reserved k \<longleftrightarrow> k \<noteq> [] \<and> hd k = CHR ''$''"

definition without_reserved :: "Bundle \<Rightarrow> Bundle" where
  "without_reserved b = filter (\<lambda>(k, _). \<not> reserved k) b"

definition Resolve :: "'a broker_env_scheme \<Rightarrow> (nat \<Rightarrow> time) \<Rightarrow> (nat \<Rightarrow> 'w Broker \<Rightarrow> 'w Broker) \<Rightarrow> Use \<Rightarrow> 'w Broker \<Rightarrow> 'w Broker \<times> (berr + Bundle)" where
  "Resolve E now other u b =
     (if \<not> Use_Valid (now 0) u b then (b, Inl ErrDenied)
      else case broker_resolve (us_Ref u) (other 0 b) of
        (b1, Inl _) \<Rightarrow> (b1, Inl ErrUnavailable)
      | (b1, Inr value) \<Rightarrow>
          (let b2 = other 1 b1 in
           if \<not> ValidateValues E (us_Contract u) (without_reserved value) \<or> \<not> Use_Valid (now 1) u b2 then (b2, Inl ErrDenied)
           else (b2, Inr value)))"

definition resolve_state :: "stateRecord \<Rightarrow> 'w Broker \<Rightarrow> 'w Broker \<times> (berr + Bundle)" where
  "resolve_state st b =
     (if ref_Provider (sr_Ref st) \<noteq> [] then
        (case broker_resolve (sr_Ref st) b of (b1, Inl _) \<Rightarrow> (b1, Inl ErrUnavailable) | (b1, Inr v) \<Rightarrow> (b1, Inr v))
      else (b, Inr []))"

text \<open>The last critical section of \<^verbatim>\<open>Materialize\<close>.\<close>

definition materialize_commit :: "'a broker_env_scheme \<Rightarrow> time \<Rightarrow> Actor \<Rightarrow> string \<Rightarrow> time \<Rightarrow> Use \<Rightarrow> Bundle \<Rightarrow> Bundle \<Rightarrow> 'w Broker \<Rightarrow>
    'w Broker \<times> (berr + Materialized)" where
  "materialize_commit E now a i expires u values state b =
     (case lease now a i b of
        Inl e \<Rightarrow> (b, Inl e)
      | Inr (l, _, _) \<Rightarrow>
          (case lr_Materialized l of
             Some m \<Rightarrow> (b, Inr m)
           | None \<Rightarrow>
               (case Prepare E i expires (us_Contract u) values state (b_manager b) of
                  (mgr, Inl _) \<Rightarrow> (b\<lparr>b_manager := mgr\<rparr>, Inl ErrUnavailable)
                | (mgr, Inr out) \<Rightarrow>
                    (let ev = (audit now ''lease.materialized'' a)\<lparr>ev_LeaseID := i, ev_CredentialID := us_CredentialID u\<rparr> in
                     case commit E (audit_only ev) (b\<lparr>b_manager := mgr\<rparr>) of
                       (b1, Inl e) \<Rightarrow> (b1\<lparr>b_manager := fst (Manager_Remove i (b_manager b1))\<rparr>, Inl e)
                     | (b1, Inr _) \<Rightarrow>
                         (b1\<lparr>b_leases := go_update i (l\<lparr>lr_Materialized := Some out\<rparr>) (b_leases b1)\<rparr>, Inr out)))))"

definition materialize_used :: "'a broker_env_scheme \<Rightarrow> (nat \<Rightarrow> time) \<Rightarrow> (nat \<Rightarrow> 'w Broker \<Rightarrow> 'w Broker) \<Rightarrow> Actor \<Rightarrow> string \<Rightarrow> Use \<Rightarrow> 'w Broker \<Rightarrow>
    'w Broker \<times> (berr + Materialized)" where
  "materialize_used E now other a i u b =
     (case lease (now 1) a i b of
        Inl e \<Rightarrow> (b, Inl e)
      | Inr (l, _, _) \<Rightarrow>
          (case lr_Materialized l of
             Some m \<Rightarrow> (b, Inr m)
           | None \<Rightarrow>
               (let st = go_get no_state (b_states b) (lr_StateKey l); expires = lv_ExpiresAt (lr_View l) in
                case Resolve E (\<lambda>k. now (2 + k)) (\<lambda>k. other (2 + k)) u (other 1 b) of
                  (b1, Inl e) \<Rightarrow> (b1, Inl e)
                | (b1, Inr values) \<Rightarrow>
                    (case resolve_state st (other 4 b1) of
                       (b2, Inl e) \<Rightarrow> (b2, Inl e)
                     | (b2, Inr state) \<Rightarrow>
                         materialize_commit E (now 4) a i expires u (without_reserved values) state (other 5 b2)))))"

definition Broker_Materialize :: "'a broker_env_scheme \<Rightarrow> (nat \<Rightarrow> time) \<Rightarrow> (nat \<Rightarrow> 'w Broker \<Rightarrow> 'w Broker) \<Rightarrow> bytes \<Rightarrow> Actor \<Rightarrow> string \<Rightarrow>
    'w Broker \<Rightarrow> 'w Broker \<times> (berr + Materialized)" where
  "Broker_Materialize E now other rnd a i b =
     (case BeginUse E (now 0) rnd a i b of
        (b1, Inl e) \<Rightarrow> (b1, Inl e)
      | (b1, Inr u) \<Rightarrow>
          (case materialize_used E now other a i u (other 0 b1) of
             (b2, x) \<Rightarrow> (Finish u (other 6 b2), x)))"

definition checkpoint :: "'a broker_env_scheme \<Rightarrow> time \<Rightarrow> Actor \<Rightarrow> string \<Rightarrow> RuntimeRelease \<Rightarrow> leaseRecord \<Rightarrow> grantRecord \<Rightarrow> credentialRecord \<Rightarrow>
    'w Broker \<Rightarrow> 'w Broker \<times> (berr + unit)" where
  "checkpoint E now a i inp l g c b =
     (if \<not> rl_Quiesced inp \<or> lr_StateKey l = [] \<or> lr_Materialized l = None then (b, Inl ErrInvalid)
      else case Snapshot E i (catalog_get b (gd_ContractKey g)) (b_manager b) of
        (mgr, Inl _) \<Rightarrow> (b\<lparr>b_manager := mgr\<rparr>, Inl ErrInvalid)
      | (mgr, Inr values) \<Rightarrow>
          (case broker_put (c_Storage (catalog_get b (gd_ContractKey g))) values (b\<lparr>b_manager := mgr\<rparr>) of
             (b1, Inl _) \<Rightarrow> (b1, Inl ErrUnavailable)
           | (b1, Inr ref) \<Rightarrow>
               (let old = go_get no_state (b_states b1) (lr_StateKey l);
                    sr = \<lparr>sr_OwnedRefs = sr_OwnedRefs old @ [ref], sr_Key = lr_StateKey l, sr_Ref = ref, sr_Revision = sr_Revision old + 1\<rparr>;
                    ev = (audit now ''state.checkpointed'' a)\<lparr>ev_CredentialID := cr_ID (cd_View c), ev_LeaseID := i,
                           ev_BindingID := gr_BindingID (gd_View g)\<rparr>
                in result_unit (commit E ((audit_only ev)\<lparr>mu_State := Some sr\<rparr>) b1))))"

definition Release :: "'a broker_env_scheme \<Rightarrow> time \<Rightarrow> Actor \<Rightarrow> string \<Rightarrow> RuntimeRelease \<Rightarrow> 'w Broker \<Rightarrow> 'w Broker \<times> (berr + unit)" where
  "Release E now a i inp b =
     (case lease now a i b of
        Inl e \<Rightarrow> (b, Inl e)
      | Inr (l, g, c) \<Rightarrow>
          (case (if rl_Checkpoint inp then checkpoint E now a i inp l g c b else (b, Inr ())) of
             (b1, Inl e) \<Rightarrow> (b1, Inl e)
           | (b1, Inr _) \<Rightarrow>
               (let ev = (audit now ''lease.released'' a)\<lparr>ev_LeaseID := i, ev_CredentialID := cr_ID (cd_View c)\<rparr> in
                case commit E (audit_only ev) b1 of
                  (b2, Inl e) \<Rightarrow> (b2, Inl e)
                | (b2, Inr _) \<Rightarrow> (dropLease i b2, Inr ()))))"

end
