(* ===== verification/OAuth_Flow.thy ===== *)
theory OAuth_Flow
  imports Runtime
begin

text \<open>
  The OAuth flow of the broker (the second half of \<^verbatim>\<open>broker/oauth.go\<close>): the start of an
  authorization, its completion by an exchange that runs without the mutex, and access tokens
  with their refresh. The clock and the interference of other calls are as in \<open>Runtime\<close>.
\<close>

section \<open>Authorization\<close>

definition StartOAuth :: "'a oauth_env_scheme \<Rightarrow> time \<Rightarrow> bytes \<Rightarrow> bytes \<Rightarrow> string \<Rightarrow> string \<Rightarrow> string \<Rightarrow> 'w Broker \<Rightarrow> 'w Broker \<times> (berr + string)" where
  "StartOAuth E now rnd1 rnd2 i raw csrf b =
     (if \<not> live b then (b, Inl ErrUnavailable)
      else case validSession E now raw i True b of
        Inl e \<Rightarrow> (b, Inl e)
      | Inr (s, r) \<Rightarrow>
          if \<not> seal_Equal csrf (CSRF E b raw i) \<or> rq_Status (rr_View r) \<noteq> ''authorizing'' then (b, Inl ErrDenied)
          else
            let c = catalog_get b (rr_ContractKey r) in
            case go_lookup (cf_OAuth (b_cfg b)) (c_OAuthProvider c) of
              None \<Rightarrow> (b, Inl ErrInvalid)
            | Some p \<Rightarrow>
                (let state = Random rnd1; verifier = Random rnd2 in
                 case broker_put (c_Storage c) [(''verifier'', verifier)] b of
                   (b1, Inl _) \<Rightarrow> (b1, Inl ErrUnavailable)
                 | (b1, Inr vref) \<Rightarrow>
                     (let o' = \<lparr>oa_StateHash = Digest E state, oa_RequestID = i, oa_SessionHash = ss_Hash s, oa_VerifierRef = vref,
                                oa_ExpiresAt = now + 300 * second, oa_Consumed = False\<rparr>;
                          r' = r\<lparr>rr_OAuthStateHash := oa_StateHash o'\<rparr>;
                          ev = (audit now ''oauth.started'' (rr_Actor r))\<lparr>ev_RequestID := i\<rparr>
                      in case commit E ((audit_only ev)\<lparr>mu_OAuth := Some o', mu_Request := Some r'\<rparr>) b1 of
                           (b2, Inl e) \<Rightarrow> (b2, Inl e)
                         | (b2, Inr _) \<Rightarrow> (b2, Inr (authorization E p state verifier)))))"

text \<open>The first critical section of \<^verbatim>\<open>CompleteOAuth\<close>: the state is consumed before the exchange.\<close>

definition oauth_claim :: "'a oauth_env_scheme \<Rightarrow> time \<Rightarrow> string \<Rightarrow> string \<Rightarrow> 'w Broker \<Rightarrow>
    'w Broker \<times> (berr + sessionRecord \<times> requestRecord \<times> oauthRecord \<times> Contract \<times> 'w OAuthProvider)" where
  "oauth_claim E now raw state b =
     (if \<not> live b then (b, Inl ErrUnavailable)
      else case go_lookup (b_oauth b) (Digest E state) of
        None \<Rightarrow> (b, Inl ErrDenied)
      | Some o' \<Rightarrow>
          if oa_Consumed o' \<or> oa_SessionHash o' \<noteq> Digest E raw \<or> \<not> now < oa_ExpiresAt o' then (b, Inl ErrDenied)
          else case validSession E now raw (oa_RequestID o') True b of
            Inl _ \<Rightarrow> (b, Inl ErrDenied)
          | Inr (s, r) \<Rightarrow>
              if rr_OAuthStateHash r \<noteq> oa_StateHash o' \<or> rq_Status (rr_View r) \<noteq> ''authorizing'' then (b, Inl ErrDenied)
              else
                let c = catalog_get b (rr_ContractKey r) in
                case (go_lookup (cf_OAuth (b_cfg b)) (c_OAuthProvider c), rr_DraftRef r) of
                  (Some p, Some _) \<Rightarrow>
                    (let o1 = o'\<lparr>oa_Consumed := True\<rparr>; r1 = r\<lparr>rr_View := (rr_View r)\<lparr>rq_Status := ''exchanging''\<rparr>\<rparr>;
                         ev = (audit now ''oauth.exchanging'' (rr_Actor r))\<lparr>ev_RequestID := rq_ID (rr_View r)\<rparr>
                     in case commit E ((audit_only ev)\<lparr>mu_OAuth := Some o1, mu_Request := Some r1\<rparr>) b of
                          (b1, Inl e) \<Rightarrow> (b1, Inl e)
                        | (b1, Inr _) \<Rightarrow> (b1, Inr (s, r1, o1, c, p)))
                | _ \<Rightarrow> (b, Inl ErrInvalid))"

text \<open>The exchange, without the mutex: the draft, the verifier, the token request, and the deletion
  of the verifier whatever came of it.\<close>

definition exchange_values :: "'a oauth_env_scheme \<Rightarrow> time \<Rightarrow> (nat \<Rightarrow> 'w Broker \<Rightarrow> 'w Broker) \<Rightarrow> string \<Rightarrow> requestRecord \<Rightarrow> oauthRecord \<Rightarrow>
    'w OAuthProvider \<Rightarrow> 'w Broker \<Rightarrow> 'w Broker \<times> (berr + Bundle)" where
  "exchange_values E now other code r o' p b =
     (case broker_resolve (the (rr_DraftRef r)) b of
        (b1, Inl e) \<Rightarrow> (b1, Inl (ErrProvider e))
      | (b1, Inr values) \<Rightarrow>
          (let (b3, t) = (case broker_resolve (oa_VerifierRef o') (other 1 b1) of
                 (b2, Inl e) \<Rightarrow> (b2, Inl (ErrProvider e))
               | (b2, Inr proof) \<Rightarrow>
                   (let b2' = other 2 b2 in
                    case oauth_exchange E p code (bundle_get proof ''verifier'') (b_world b2') of
                      (w, x) \<Rightarrow> (b2'\<lparr>b_world := w\<rparr>, x)));
               b4 = other 3 b3;
               b5 = (case go_lookup (cf_Providers (b_cfg b4)) (ref_Provider (oa_VerifierRef o')) of
                       None \<Rightarrow> b4
                     | Some writer \<Rightarrow> b4\<lparr>b_world := fst (p_Delete writer (b_world b4) (oa_VerifierRef o'))\<rparr>)
           in case t of
                Inl e \<Rightarrow> (b5, Inl e)
              | Inr tok \<Rightarrow> (b5, Inr (mergeTokens values tok now))))"

text \<open>The last critical section: only a request that is still exchanging under this state gets a result.\<close>

definition oauth_settle :: "'a oauth_env_scheme \<Rightarrow> time \<Rightarrow> bytes \<Rightarrow> sessionRecord \<Rightarrow> requestRecord \<Rightarrow> oauthRecord \<Rightarrow> Contract \<Rightarrow>
    berr + Bundle \<Rightarrow> 'w Broker \<Rightarrow> 'w Broker \<times> (berr + unit)" where
  "oauth_settle E now rnd s r o' c res b =
     (let current = go_get no_request (b_requests b) (rq_ID (rr_View r));
          back = current\<lparr>rr_View := (rr_View current)\<lparr>rq_Status := ''authorizing''\<rparr>\<rparr>;
          ev = (\<lambda>kind. (audit now kind (rr_Actor r))\<lparr>ev_RequestID := rq_ID (rr_View r)\<rparr>)
      in if rq_Status (rr_View current) \<noteq> ''exchanging'' \<or> rr_OAuthStateHash current \<noteq> oa_StateHash o' \<or>
            \<not> now < rq_ExpiresAt (rr_View current)
         then (b, Inl ErrExpired)
         else case res of
           Inl e \<Rightarrow>
             (case commit E ((audit_only (ev ''oauth.failed''))\<lparr>mu_Request := Some back\<rparr>) b of
                (b1, Inl err) \<Rightarrow> (b1, Inl err)
              | (b1, Inr _) \<Rightarrow> (b1, Inl e))
         | Inr values \<Rightarrow>
             (case broker_put (c_Storage c) values b of
                (b1, Inl _) \<Rightarrow>
                  (fst (commit E ((audit_only (ev ''oauth.persistence_failed''))\<lparr>mu_Request := Some back\<rparr>) b1), Inl ErrUnavailable)
              | (b1, Inr ref) \<Rightarrow> result_unit (ready E now rnd current ref True (Some s) b1)))"

definition CompleteOAuth :: "'a oauth_env_scheme \<Rightarrow> (nat \<Rightarrow> time) \<Rightarrow> (nat \<Rightarrow> 'w Broker \<Rightarrow> 'w Broker) \<Rightarrow> bytes \<Rightarrow> string \<Rightarrow> string \<Rightarrow> string \<Rightarrow>
    'w Broker \<Rightarrow> 'w Broker \<times> (berr + unit)" where
  "CompleteOAuth E now other rnd raw state code b =
     (if length state \<noteq> 43 \<or> length code = 0 \<or> length code > 4096 \<or> ContainsAny code [CHR 0x0D, CHR 0x0A, CHR 0x00] then (b, Inl ErrDenied)
      else case oauth_claim E (now 0) raw state b of
        (b1, Inl e) \<Rightarrow> (b1, Inl e)
      | (b1, Inr (s, r, o', c, p)) \<Rightarrow>
          (case exchange_values E (now 1) other code r o' p (other 0 b1) of
             (b2, res) \<Rightarrow> oauth_settle E (now 2) rnd s r o' c res (other 4 b2)))"

section \<open>Access tokens\<close>

definition identityFromCredential :: "credentialRecord \<Rightarrow> Actor" where
  "identityFromCredential c = no_actor\<lparr>a_PrincipalID := cr_PrincipalID (cd_View c), a_ContextID := cr_ContextID (cd_View c)\<rparr>"

definition requireReauthorization :: "'a broker_env_scheme \<Rightarrow> time \<Rightarrow> string \<Rightarrow> nat \<Rightarrow> 'w Broker \<Rightarrow> 'w Broker \<times> berr" where
  "requireReauthorization E now i revision b =
     (let current = go_get no_credential (b_credentials b) i in
      if cr_Revision (cd_View current) = revision \<and> cr_Status (cd_View current) = ''active'' then
        let c' = current\<lparr>cd_View := (cd_View current)\<lparr>cr_Status := ''reauthorize_required'', cr_Revision := cr_Revision (cd_View current) + 1\<rparr>\<rparr>;
            ev = (audit now ''oauth.reauthorization_required'' (identityFromCredential c'))\<lparr>ev_CredentialID := cr_ID (cd_View c')\<rparr>
        in case commit E ((audit_only ev)\<lparr>mu_Credential := Some c'\<rparr>) b of
             (b1, Inl e) \<Rightarrow> (b1, e)
           | (b1, Inr _) \<Rightarrow> (invalidateCredential (cr_ID (cd_View c')) b1, ErrReauthorize)
      else (b, ErrReauthorize))"

text \<open>The commit of refreshed tokens: only on the credential epoch that was read.\<close>

definition refresh_commit :: "'a broker_env_scheme \<Rightarrow> time \<Rightarrow> string \<Rightarrow> credentialRecord \<Rightarrow> Ref \<Rightarrow> 'w Broker \<Rightarrow> 'w Broker \<times> (berr + unit)" where
  "refresh_commit E now i c ref b =
     (let current = go_get no_credential (b_credentials b) i in
      if \<not> live b \<or> cr_Revision (cd_View current) \<noteq> cr_Revision (cd_View c) \<or> cr_Status (cd_View current) \<noteq> ''active'' \<or>
         cd_TokenRevision current \<noteq> cd_TokenRevision c
      then (b, Inl ErrDenied)
      else
        let c' = current\<lparr>cd_Ref := ref, cd_TokenRevision := cd_TokenRevision current + 1, cd_OwnedRefs := cd_OwnedRefs current @ [ref]\<rparr>;
            ev = (audit now ''oauth.refreshed'' (identityFromCredential c'))\<lparr>ev_CredentialID := cr_ID (cd_View c')\<rparr>
        in result_unit (commit E ((audit_only ev)\<lparr>mu_Credential := Some c'\<rparr>) b))"

definition token_fresh :: "time \<Rightarrow> Bundle \<Rightarrow> bool" where
  "token_fresh now values \<longleftrightarrow>
     (case ParseInt (bundle_get values oauthExpiry) of
        None \<Rightarrow> False
      | Some expiry \<Rightarrow> now + 30 * second < expiry * second \<and> length (bundle_get values oauthAccess) > 0)"

text \<open>The refresh after an expired access token.\<close>

definition refresh_token :: "'a oauth_env_scheme \<Rightarrow> (nat \<Rightarrow> time) \<Rightarrow> (nat \<Rightarrow> 'w Broker \<Rightarrow> 'w Broker) \<Rightarrow> Use \<Rightarrow> credentialRecord \<Rightarrow>
    'w OAuthProvider \<Rightarrow> Bundle \<Rightarrow> 'w Broker \<Rightarrow> 'w Broker \<times> (berr + string)" where
  "refresh_token E now other u c p values b =
     (case oauth_refresh E p (bundle_get values oauthRefresh) (b_world b) of
        (w, Inl _) \<Rightarrow>
          (case requireReauthorization E (now 4) (us_CredentialID u) (cr_Revision (cd_View c)) (other 3 (b\<lparr>b_world := w\<rparr>)) of
             (b1, e) \<Rightarrow> (b1, Inl e))
      | (w, Inr tok) \<Rightarrow>
          (let b1 = other 3 (b\<lparr>b_world := w\<rparr>) in
           case broker_put (c_Storage (catalog_get b1 (cd_ContractKey c))) (mergeTokens values tok (now 4)) b1 of
             (b2, Inl _) \<Rightarrow>
               (case requireReauthorization E (now 5) (us_CredentialID u) (cr_Revision (cd_View c)) (other 4 b2) of (b3, e) \<Rightarrow> (b3, Inl e))
           | (b2, Inr ref) \<Rightarrow>
               (case refresh_commit E (now 5) (us_CredentialID u) c ref (other 4 b2) of
                  (b3, Inl e) \<Rightarrow> (b3, Inl e)
                | (b3, Inr _) \<Rightarrow>
                    (let b4 = other 5 b3 in
                     if \<not> Use_Valid (now 6) u b4 then (b4, Inl ErrDenied) else (b4, Inr (ot_Access tok))))))"

definition AccessToken :: "'a oauth_env_scheme \<Rightarrow> (nat \<Rightarrow> time) \<Rightarrow> (nat \<Rightarrow> 'w Broker \<Rightarrow> 'w Broker) \<Rightarrow> Use \<Rightarrow> 'w Broker \<Rightarrow> 'w Broker \<times> (berr + string)" where
  "AccessToken E now other u b =
     (if \<not> Use_Valid (now 0) u b then (b, Inl ErrDenied)
      else
        let b1 = other 0 b in
        if \<not> Use_Valid (now 1) u b1 then (b1, Inl ErrDenied)
        else
          let b2 = other 1 b1; c = go_get no_credential (b_credentials b2) (us_CredentialID u) in
          case go_lookup (cf_OAuth (b_cfg b2)) (c_OAuthProvider (catalog_get b2 (cd_ContractKey c))) of
            None \<Rightarrow> (b2, Inl ErrInvalid)
          | Some p \<Rightarrow>
              (case broker_resolve (cd_Ref c) (other 2 b2) of
                 (b3, Inl _) \<Rightarrow> (b3, Inl ErrUnavailable)
               | (b3, Inr values) \<Rightarrow>
                   (let b4 = other 6 b3 in
                    if token_fresh (now 2) values then
                      (if \<not> Use_Valid (now 3) u b4 then (b4, Inl ErrDenied) else (b4, Inr (bundle_get values oauthAccess)))
                    else if length (bundle_get values oauthRefresh) = 0 then (b4, Inl ErrReauthorize)
                    else refresh_token E now other u c p values b4)))"

end
