(* ===== verification/Broker_Steps.thy ===== *)
theory Broker_Steps
  imports OAuth_Flow Journal_Laws
begin

text \<open>
  The broker as a transition system. A step writes one allowed mutation through the journal,
  adds or updates a lease, or changes nothing that the ledger records. \<open>allowed\<close> says, for every
  table a mutation touches, how the written entry may follow the entry it replaces; it is the
  abstract specification of the ledger. The operations of the broker are proved to be
  sequences of such steps (theory \<open>Broker_Refine\<close>), and the invariants are proved once, by induction
  over the steps.
\<close>

section \<open>How an entry may follow another\<close>

definition closed_status :: "string \<Rightarrow> bool" where
  "closed_status s \<longleftrightarrow> s = ''canceled'' \<or> s = ''ready''"

definition status_step :: "string \<Rightarrow> string \<Rightarrow> bool" where
  "status_step s t \<longleftrightarrow> \<not> closed_status s \<and>
     (t = ''canceled'' \<or>
      s = ''pending'' \<and> (t = ''authorizing'' \<or> t = ''ready'') \<or>
      s = ''authorizing'' \<and> (t = ''authorizing'' \<or> t = ''exchanging'') \<or>
      s = ''exchanging'' \<and> (t = ''authorizing'' \<or> t = ''ready''))"

text \<open>What a request keeps for ever.\<close>

definition request_core :: "requestRecord \<Rightarrow> string \<times> Actor \<times> string \<times> string \<times> string \<times> string \<times> string \<times> string \<times> string \<times> time" where
  "request_core r = (rq_ID (rr_View r), rr_Actor r, rr_OwnerKind r, rr_ContractKey r, rr_ContractDigest r, rr_Idempotency r,
     rr_Fingerprint r, rq_ConnectionID (rr_View r), rq_ConsumerID (rr_View r), rq_ExpiresAt (rr_View r))"

definition request_step :: "requestRecord option \<Rightarrow> requestRecord \<Rightarrow> bool" where
  "request_step old r \<longleftrightarrow>
     (case old of
        None \<Rightarrow> rq_Status (rr_View r) = ''pending'' \<or> rq_Status (rr_View r) = ''ready''
      | Some q \<Rightarrow> request_core r = request_core q \<and> status_step (rq_Status (rr_View q)) (rq_Status (rr_View r)))"

definition approved_open :: "(string, sessionRecord) gomap \<Rightarrow> string \<Rightarrow> bool" where
  "approved_open ss i \<longleftrightarrow> (\<exists>h s. go_lookup ss h = Some s \<and> ss_RequestID s = i \<and> ss_Approved s \<and> \<not> ss_Consumed s)"

definition session_step :: "bool \<Rightarrow> (string, sessionRecord) gomap \<Rightarrow> sessionRecord \<Rightarrow> bool" where
  "session_step direct ss s \<longleftrightarrow>
     (case go_lookup ss (ss_Hash s) of
        None \<Rightarrow> ss_Approved s \<longrightarrow> direct
      | Some q \<Rightarrow> ss_RequestID s = ss_RequestID q \<and> (ss_Consumed q \<longrightarrow> ss_Consumed s) \<and> (ss_Approved q \<longrightarrow> ss_Approved s) \<and>
          (ss_Approved s \<and> \<not> ss_Approved q \<and> \<not> ss_Consumed s \<longrightarrow> \<not> approved_open ss (ss_RequestID s)))"

definition credential_step :: "credentialRecord option \<Rightarrow> credentialRecord \<Rightarrow> bool" where
  "credential_step old c \<longleftrightarrow>
     (case old of
        None \<Rightarrow> cr_Revision (cd_View c) = 1 \<and> cr_Status (cd_View c) = ''active''
      | Some q \<Rightarrow> cr_Status (cd_View q) \<noteq> ''deleted'' \<and> cr_Revision (cd_View q) \<le> cr_Revision (cd_View c) \<and>
          (cr_Status (cd_View c) = ''active'' \<and> cr_Revision (cd_View c) = cr_Revision (cd_View q) \<longrightarrow> cr_Status (cd_View q) = ''active''))"

text \<open>Two active grants side by side.\<close>

definition coexist :: "'b Tables_scheme \<Rightarrow> grantRecord \<Rightarrow> grantRecord \<Rightarrow> bool" where
  "coexist b g h \<longleftrightarrow>
     \<not> (gr_BindingID (gd_View g) = gr_BindingID (gd_View h) \<and> gr_ContextID (gd_View g) = gr_ContextID (gd_View h) \<and>
        gr_PrincipalID (gd_View g) = gr_PrincipalID (gd_View h)) \<and>
     (gr_WorkloadID (gd_View g) = gr_WorkloadID (gd_View h) \<longrightarrow>
        gr_Execution (gd_View g) = ''shared'' \<and> gr_Execution (gd_View h) = ''shared'' \<and>
        (process_scoped (catalog_get b (gd_ContractKey g)) \<or> process_scoped (catalog_get b (gd_ContractKey h)) \<longrightarrow>
           gr_CredentialID (gd_View g) = gr_CredentialID (gd_View h) \<and> gd_ContractKey g = gd_ContractKey h))"

definition grant_step :: "'b Tables_scheme \<Rightarrow> grantRecord \<Rightarrow> bool" where
  "grant_step b g \<longleftrightarrow>
     (case go_lookup (b_grants b) (gr_ID (gd_View g)) of
        None \<Rightarrow> go_lookup (b_catalog b) (gd_ContractKey g) \<noteq> None \<and>
          (\<forall>i h. go_lookup (b_grants b) i = Some h \<and> gr_Active (gd_View h) \<longrightarrow> coexist b g h)
      | Some q \<Rightarrow> g = deactivated q)"

definition state_step :: "stateRecord option \<Rightarrow> stateRecord \<Rightarrow> bool" where
  "state_step old s \<longleftrightarrow> sr_Revision s = (case old of None \<Rightarrow> 1 | Some q \<Rightarrow> sr_Revision q + 1) \<and> sr_Ref s \<in> set (sr_OwnedRefs s) \<and>
     (\<forall>q. old = Some q \<longrightarrow> set (sr_OwnedRefs q) \<subseteq> set (sr_OwnedRefs s))"

definition oauth_step :: "oauthRecord option \<Rightarrow> oauthRecord \<Rightarrow> bool" where
  "oauth_step old o' \<longleftrightarrow>
     (case old of None \<Rightarrow> \<not> oa_Consumed o' | Some q \<Rightarrow> \<not> oa_Consumed q \<and> o' = q\<lparr>oa_Consumed := True\<rparr>)"

abbreviation opt_all :: "('a \<Rightarrow> bool) \<Rightarrow> 'a option \<Rightarrow> bool" where
  "opt_all P x \<equiv> (case x of None \<Rightarrow> True | Some v \<Rightarrow> P v)"

definition allowed :: "'w Broker \<Rightarrow> mutation \<Rightarrow> bool" where
  "allowed b m \<longleftrightarrow>
     opt_all (\<lambda>r. request_step (go_lookup (b_requests b) (rq_ID (rr_View r))) r) (mu_Request m) \<and>
     opt_all (session_step (cf_DirectForm (b_cfg b)) (b_sessions b)) (mu_Session m) \<and>
     opt_all (\<lambda>c. credential_step (go_lookup (b_credentials b) (cr_ID (cd_View c))) c) (mu_Credential m) \<and>
     opt_all (grant_step b) (mu_Grant m) \<and>
     opt_all (\<lambda>s. state_step (go_lookup (b_states b) (sr_Key s)) s) (mu_State m) \<and>
     opt_all (\<lambda>o'. oauth_step (go_lookup (b_oauth b) (oa_StateHash o')) o') (mu_OAuth m) \<and>
     opt_all (\<lambda>c. go_lookup (b_catalog b) (contract_key (c_ID c) (c_Revision c)) = None) (mu_Contract m)"

section \<open>Steps\<close>

definition quiet :: "'a broker_env_scheme \<Rightarrow> 'w Broker \<Rightarrow> 'w Broker \<Rightarrow> bool" where
  "quiet E b b' \<longleftrightarrow> Tables.truncate b' = Tables.truncate b \<and> b_cfg b' = b_cfg b \<and>
     Records (b_journal b') = Records (b_journal b) \<and> (journal_inv E (b_journal b) \<longrightarrow> journal_inv E (b_journal b')) \<and>
     (\<forall>i l. go_lookup (b_leases b') i = Some l \<longrightarrow> go_lookup (b_leases b) i = Some l) \<and>
     (go_wf (b_leases b) \<longrightarrow> go_wf (b_leases b')) \<and> length (b_leases b') \<le> length (b_leases b)"

text \<open>A new lease: an epoch of a credential that is current, within the number of leases, and alone
  on its state.\<close>

definition lease_fits :: "'w Broker \<Rightarrow> string \<Rightarrow> leaseRecord \<Rightarrow> bool" where
  "lease_fits b i l \<longleftrightarrow> go_lookup (b_leases b) i = None \<and> length (b_leases b) < 4096 \<and>
     (\<exists>c. go_lookup (b_credentials b) (lv_CredentialID (lr_View l)) = Some c \<and> lv_Revision (lr_View l) \<le> cr_Revision (cd_View c)) \<and>
     (lr_StateKey l \<noteq> [] \<longrightarrow> (\<forall>j k. go_lookup (b_leases b) j = Some k \<longrightarrow> lr_StateKey k \<noteq> lr_StateKey l))"

definition lease_core :: "leaseRecord \<Rightarrow> string \<times> string \<times> string \<times> nat \<times> string" where
  "lease_core l = (lv_ID (lr_View l), lv_GrantID (lr_View l), lv_CredentialID (lr_View l), lv_Revision (lr_View l), lr_StateKey l)"

inductive bstep :: "'a broker_env_scheme \<Rightarrow> 'w Broker \<Rightarrow> 'w Broker \<Rightarrow> bool" for E where
  bstep_quiet: "quiet E b b' \<Longrightarrow> bstep E b b'"
| bstep_write: "commit E m b = (b', Inr seq) \<Longrightarrow> allowed b m \<Longrightarrow> bstep E b b'"
| bstep_lease: "lease_fits b i l \<Longrightarrow> bstep E b (b\<lparr>b_leases := go_update i l (b_leases b)\<rparr>)"
| bstep_touch: "go_lookup (b_leases b) i = Some l \<Longrightarrow> lease_core l' = lease_core l \<Longrightarrow>
    bstep E b (b\<lparr>b_leases := go_update i l' (b_leases b)\<rparr>)"

abbreviation bsteps :: "'a broker_env_scheme \<Rightarrow> 'w Broker \<Rightarrow> 'w Broker \<Rightarrow> bool" where
  "bsteps E \<equiv> (bstep E)\<^sup>*\<^sup>*"

inductive_cases bstepE: "bstep E b b'"

section \<open>The well-formed states\<close>

definition keyed :: "'b Tables_scheme \<Rightarrow> bool" where
  "keyed b \<longleftrightarrow>
     (\<forall>i r. go_lookup (b_requests b) i = Some r \<longrightarrow> rq_ID (rr_View r) = i) \<and>
     (\<forall>h s. go_lookup (b_sessions b) h = Some s \<longrightarrow> ss_Hash s = h) \<and>
     (\<forall>i c. go_lookup (b_credentials b) i = Some c \<longrightarrow> cr_ID (cd_View c) = i) \<and>
     (\<forall>i g. go_lookup (b_grants b) i = Some g \<longrightarrow> gr_ID (gd_View g) = i) \<and>
     (\<forall>k s. go_lookup (b_states b) k = Some s \<longrightarrow> sr_Key s = k) \<and>
     (\<forall>h o'. go_lookup (b_oauth b) h = Some o' \<longrightarrow> oa_StateHash o' = h) \<and>
     go_wf (b_requests b) \<and> go_wf (b_sessions b) \<and> go_wf (b_credentials b) \<and> go_wf (b_grants b)"

definition broker_ok :: "'a broker_env_scheme \<Rightarrow> 'w Broker \<Rightarrow> bool" where
  "broker_ok E b \<longleftrightarrow> journal_inv E (b_journal b) \<and> keyed b \<and> go_wf (b_leases b)"

lemma put_opt_lookup [gomap_simps]:
  "go_lookup (put_opt k x m) i = (case x of None \<Rightarrow> go_lookup m i | Some v \<Rightarrow> if i = k v then Some v else go_lookup m i)"
  by (simp add: put_opt_def gomap_simps split: option.split)

lemma go_wf_put_opt [simp, intro]: "go_wf m \<Longrightarrow> go_wf (put_opt k x m)"
  by (simp add: put_opt_def split: option.split)

lemma apply_mutation_sel [simp]:
  "b_requests (apply_mutation m n b) = put_opt (rq_ID \<circ> rr_View) (mu_Request m) (b_requests b)"
  "b_sessions (apply_mutation m n b) = put_opt ss_Hash (mu_Session m) (b_sessions b)"
  "b_credentials (apply_mutation m n b) = put_opt (cr_ID \<circ> cd_View) (mu_Credential m) (b_credentials b)"
  "b_grants (apply_mutation m n b) = put_opt (gr_ID \<circ> gd_View) (mu_Grant m) (b_grants b)"
  "b_states (apply_mutation m n b) = put_opt sr_Key (mu_State m) (b_states b)"
  "b_oauth (apply_mutation m n b) = put_opt oa_StateHash (mu_OAuth m) (b_oauth b)"
  "b_catalog (apply_mutation m n b) = put_opt (\<lambda>c. contract_key (c_ID c) (c_Revision c)) (mu_Contract m) (b_catalog b)"
  "b_events (apply_mutation m n b) = b_events b @ [(mu_Audit m)\<lparr>ev_Sequence := n\<rparr>]"
  by (simp_all add: apply_mutation_def)

lemma apply_mutation_more [simp]:
  "b_cfg (apply_mutation m n b) = b_cfg b" "b_leases (apply_mutation m n b) = b_leases b" "b_closed (apply_mutation m n b) = b_closed b"
  "b_journal (apply_mutation m n b) = b_journal b" "b_manager (apply_mutation m n b) = b_manager b"
  "b_world (apply_mutation m n b) = b_world b" "b_canceled (apply_mutation m n b) = b_canceled b"
  by (simp_all add: apply_mutation_def)

lemma keyed_apply: "keyed b \<Longrightarrow> keyed (apply_mutation m n b)"
  by (auto simp: keyed_def gomap_simps split: option.splits if_splits)

section \<open>commit\<close>

lemma commit_success:
  assumes "commit E m b = (b', Inr seq)"
  obtains j where "live b" "Append E ''mutation.v1'' (json_mutation E m) (b_journal b) = (j, Inr seq)"
    "b' = apply_mutation m seq (b\<lparr>b_journal := j\<rparr>)"
  using assms by (auto simp: commit_def split: if_splits prod.splits sum.splits)

lemma commit_failure:
  assumes "commit E m b = (b', Inl e)" "journal_inv E (b_journal b)"
  shows "quiet E b b' \<and> e = ErrUnavailable"
proof (cases "live b")
  case False
  with assms(1) show ?thesis by (auto simp: commit_def quiet_def)
next
  case True
  with assms(1) obtain j e' where a: "Append E ''mutation.v1'' (json_mutation E m) (b_journal b) = (j, Inl e')"
    and b': "b' = b\<lparr>b_journal := j\<rparr>" "e = ErrUnavailable"
    by (auto simp: commit_def split: prod.splits sum.splits)
  from jl.append_refused [OF assms(2) a] show ?thesis by (auto simp: quiet_def b' Tables.defs)
qed

lemma commit_journal:
  assumes "commit E m b = (b', Inr seq)" "journal_inv E (b_journal b)"
  shows "journal_inv E (b_journal b') \<and> seq = Suc (length (Records (b_journal b))) \<and>
    (\<exists>p. Records (b_journal b') = Records (b_journal b) @
       [\<lparr>rec_Sequence = seq, rec_Previous = p, rec_Kind = ''mutation.v1'', rec_Data = json_mutation E m\<rparr>])"
proof -
  from commit_success [OF assms(1)] obtain j where
    a: "Append E ''mutation.v1'' (json_mutation E m) (b_journal b) = (j, Inr seq)" "b' = apply_mutation m seq (b\<lparr>b_journal := j\<rparr>)" by blast
  have "b_journal b' = j" by (simp add: a(2))
  with jl.append_acknowledged [OF assms(2) a(1)] show ?thesis by blast
qed

lemma tables_eqD:
  assumes "Tables.truncate b' = Tables.truncate b"
  shows "b_catalog b' = b_catalog b" "b_requests b' = b_requests b" "b_sessions b' = b_sessions b" "b_credentials b' = b_credentials b"
    "b_grants b' = b_grants b" "b_states b' = b_states b" "b_oauth b' = b_oauth b" "b_events b' = b_events b"
  using assms by (simp_all add: Tables.defs)

lemma keyed_truncate: "keyed b' = keyed b" if "Tables.truncate b' = Tables.truncate b"
  unfolding keyed_def by (simp only: tables_eqD [OF that])

lemma bstep_ok: "bstep E b b' \<Longrightarrow> broker_ok E b \<Longrightarrow> broker_ok E b'"
proof (induction rule: bstep.induct)
  case (bstep_quiet b b')
  then show ?case using keyed_truncate [of b' b] by (simp add: quiet_def broker_ok_def)
next
  case (bstep_write m b b' seq)
  from commit_journal [OF bstep_write(1)] bstep_write(3) have "journal_inv E (b_journal b')" by (simp add: broker_ok_def)
  moreover obtain j where "b' = apply_mutation m seq (b\<lparr>b_journal := j\<rparr>)" using commit_success [OF bstep_write(1)] by blast
  moreover have "keyed (b\<lparr>b_journal := j\<rparr>)" using bstep_write(3) by (simp add: broker_ok_def keyed_def)
  ultimately show ?case using bstep_write(3) by (simp add: broker_ok_def keyed_apply)
qed (auto simp: broker_ok_def keyed_def)

lemma bsteps_ok: "bsteps E b b' \<Longrightarrow> broker_ok E b \<Longrightarrow> broker_ok E b'"
  by (induction rule: rtranclp_induct) (auto intro: bstep_ok)

end
