(* ===== verification/Broker_Inv.thy ===== *)
theory Broker_Inv
  imports Broker_Steps
begin

text \<open>
  Invariants of the transition system of \<open>Broker_Steps\<close>: what never changes, what only grows, and
  what never coexists, in every state reachable by the steps.
\<close>

section \<open>One step, seen from the tables\<close>

lemma bstep_tables:
  assumes "bstep E b b'"
  obtains (same) "Tables.truncate b' = Tables.truncate b" "b_cfg b' = b_cfg b"
  | (wrote) m seq j where "b' = apply_mutation m seq (b\<lparr>b_journal := j\<rparr>)" "allowed b m"
  using assms
proof (cases rule: bstep.cases)
  case (bstep_write m seq)
  from commit_success [OF bstep_write(1)] wrote bstep_write(2) show ?thesis by metis
qed (auto simp: quiet_def Tables.defs intro: same)

text \<open>Lifting a preserved property of one step to all steps.\<close>

lemma bsteps_invariant:
  assumes "bsteps E b b'" "P b" "\<And>x y. bstep E x y \<Longrightarrow> P x \<Longrightarrow> P y"
  shows "P b'"
  using assms by (induction rule: rtranclp_induct) blast+

lemma bsteps_cfg: "bsteps E b b' \<Longrightarrow> b_cfg b' = b_cfg b"
proof (rule bsteps_invariant [of E b b' "\<lambda>x. b_cfg x = b_cfg b"])
  show "bstep E x y \<Longrightarrow> b_cfg x = b_cfg b \<Longrightarrow> b_cfg y = b_cfg b" for x y
    by (erule bstep_tables) simp_all
qed simp_all

section \<open>Requests\<close>

lemma closed_request_stays:
  assumes "bsteps E b b'" "go_lookup (b_requests b) i = Some r" "closed_status (rq_Status (rr_View r))"
  shows "go_lookup (b_requests b') i = Some r"
proof (rule bsteps_invariant [OF assms(1), of "\<lambda>x. go_lookup (b_requests x) i = Some r"])
  fix x y
  assume s: "bstep E x y" and x: "go_lookup (b_requests x) i = Some r"
  from s show "go_lookup (b_requests y) i = Some r"
  proof (cases rule: bstep_tables)
    case same
    with x show ?thesis by (simp add: tables_eqD(2) [OF same(1)])
  next
    case (wrote m seq j)
    show ?thesis
    proof (cases "mu_Request m")
      case (Some q)
      with wrote(2) have "request_step (go_lookup (b_requests x) (rq_ID (rr_View q))) q" by (simp add: allowed_def)
      then have "rq_ID (rr_View q) \<noteq> i" using x assms(3) by (auto simp: request_step_def status_step_def)
      with Some x show ?thesis by (simp add: wrote(1) gomap_simps)
    qed (use x in \<open>simp add: wrote(1) gomap_simps\<close>)
  qed
qed (rule assms(2))

text \<open>The request keeps its core, and its status moves along \<open>status_step\<close> only.\<close>

lemma request_moves:
  assumes "bsteps E b b'" "go_lookup (b_requests b) i = Some r"
  shows "\<exists>r'. go_lookup (b_requests b') i = Some r' \<and> request_core r' = request_core r \<and>
    status_step\<^sup>*\<^sup>* (rq_Status (rr_View r)) (rq_Status (rr_View r'))"
proof (rule bsteps_invariant [OF assms(1), of "\<lambda>x. \<exists>r'. go_lookup (b_requests x) i = Some r' \<and> request_core r' = request_core r \<and>
    status_step\<^sup>*\<^sup>* (rq_Status (rr_View r)) (rq_Status (rr_View r'))"])
  fix x y
  assume s: "bstep E x y" and "\<exists>r'. go_lookup (b_requests x) i = Some r' \<and> request_core r' = request_core r \<and>
    status_step\<^sup>*\<^sup>* (rq_Status (rr_View r)) (rq_Status (rr_View r'))"
  then obtain r1 where x: "go_lookup (b_requests x) i = Some r1" "request_core r1 = request_core r"
    "status_step\<^sup>*\<^sup>* (rq_Status (rr_View r)) (rq_Status (rr_View r1))" by blast
  from s show "\<exists>r'. go_lookup (b_requests y) i = Some r' \<and> request_core r' = request_core r \<and>
    status_step\<^sup>*\<^sup>* (rq_Status (rr_View r)) (rq_Status (rr_View r'))"
  proof (cases rule: bstep_tables)
    case same
    with x show ?thesis by (simp add: tables_eqD(2) [OF same(1)])
  next
    case (wrote m seq j)
    show ?thesis
    proof (cases "\<exists>q. mu_Request m = Some q \<and> rq_ID (rr_View q) = i")
      case True
      then obtain q where q: "mu_Request m = Some q" "rq_ID (rr_View q) = i" by blast
      with wrote(2) x(1) have "request_core q = request_core r1" "status_step (rq_Status (rr_View r1)) (rq_Status (rr_View q))"
        by (simp_all add: allowed_def request_step_def)
      with q x(2,3) show ?thesis
        by (simp add: wrote(1) gomap_simps rtranclp.rtrancl_into_rtrancl)
    next
      case False
      with x show ?thesis by (auto simp: wrote(1) gomap_simps split: option.splits)
    qed
  qed
qed (use assms(2) in auto)

section \<open>Sessions\<close>

definition one_approved :: "(string, sessionRecord) gomap \<Rightarrow> bool" where
  "one_approved ss \<longleftrightarrow> (\<forall>h s k t. go_lookup ss h = Some s \<and> go_lookup ss k = Some t \<and> ss_RequestID s = ss_RequestID t \<and>
     ss_Approved s \<and> \<not> ss_Consumed s \<and> ss_Approved t \<and> \<not> ss_Consumed t \<longrightarrow> h = k)"

lemma one_approved_put:
  assumes "one_approved ss" "session_step False ss s"
  shows "one_approved (go_update (ss_Hash s) s ss)"
proof (cases "ss_Approved s \<and> \<not> ss_Consumed s")
  case False
  with assms(1) show ?thesis unfolding one_approved_def by (auto simp: gomap_simps split: if_splits)
next
  case True
  with assms(2) obtain q where q: "go_lookup ss (ss_Hash s) = Some q" by (auto simp: session_step_def split: option.splits)
  show ?thesis
  proof (cases "ss_Approved q")
    case approved: True
    with q True assms(2) have "\<not> ss_Consumed q" "ss_RequestID s = ss_RequestID q" by (auto simp: session_step_def)
    with assms(1) q approved show ?thesis unfolding one_approved_def by (auto simp: gomap_simps split: if_splits)
  next
    case notyet: False
    with q True assms(2) have "\<not> approved_open ss (ss_RequestID s)" by (auto simp: session_step_def)
    then have free: "go_lookup ss h = Some t \<Longrightarrow> ss_RequestID t = ss_RequestID s \<Longrightarrow> ss_Approved t \<Longrightarrow> ss_Consumed t" for h t
      unfolding approved_open_def by blast
    show ?thesis
      unfolding one_approved_def
    proof (intro allI impI, elim conjE)
      fix h t k u
      assume "go_lookup (go_update (ss_Hash s) s ss) h = Some t" "go_lookup (go_update (ss_Hash s) s ss) k = Some u"
        "ss_RequestID t = ss_RequestID u" "ss_Approved t" "\<not> ss_Consumed t" "ss_Approved u" "\<not> ss_Consumed u"
      with free [of h t] free [of k u] assms(1) show "h = k"
        unfolding one_approved_def by (metis go_lookup_update option.inject)
    qed
  qed
qed

lemma one_approved_stays:
  assumes "bsteps E b b'" "\<not> cf_DirectForm (b_cfg b)" "one_approved (b_sessions b)"
  shows "one_approved (b_sessions b')"
proof -
  have "one_approved (b_sessions b') \<and> b_cfg b' = b_cfg b"
  proof (rule bsteps_invariant [OF assms(1), of "\<lambda>x. one_approved (b_sessions x) \<and> b_cfg x = b_cfg b"])
    fix x y
    assume s: "bstep E x y" and x: "one_approved (b_sessions x) \<and> b_cfg x = b_cfg b"
    from s show "one_approved (b_sessions y) \<and> b_cfg y = b_cfg b"
    proof (cases rule: bstep_tables)
      case same
      with x show ?thesis by (simp add: tables_eqD(3) [OF same(1)])
    next
      case (wrote m seq j)
      with x assms(2) one_approved_put [of "b_sessions x"] show ?thesis
        by (auto simp: wrote(1) allowed_def put_opt_def split: option.splits)
    qed
  qed (use assms in auto)
  then show ?thesis ..
qed

text \<open>A session keeps its request, and once consumed stays consumed.\<close>

lemma session_stays:
  assumes "bsteps E b b'" "go_lookup (b_sessions b) h = Some s"
  shows "\<exists>s'. go_lookup (b_sessions b') h = Some s' \<and> ss_RequestID s' = ss_RequestID s \<and> (ss_Consumed s \<longrightarrow> ss_Consumed s') \<and>
    (ss_Approved s \<longrightarrow> ss_Approved s')"
proof (rule bsteps_invariant [OF assms(1), of "\<lambda>x. \<exists>s'. go_lookup (b_sessions x) h = Some s' \<and> ss_RequestID s' = ss_RequestID s \<and>
    (ss_Consumed s \<longrightarrow> ss_Consumed s') \<and> (ss_Approved s \<longrightarrow> ss_Approved s')"])
  fix x y
  assume st: "bstep E x y" and "\<exists>s'. go_lookup (b_sessions x) h = Some s' \<and> ss_RequestID s' = ss_RequestID s \<and>
    (ss_Consumed s \<longrightarrow> ss_Consumed s') \<and> (ss_Approved s \<longrightarrow> ss_Approved s')"
  then obtain s1 where x: "go_lookup (b_sessions x) h = Some s1" "ss_RequestID s1 = ss_RequestID s" "ss_Consumed s \<longrightarrow> ss_Consumed s1"
    "ss_Approved s \<longrightarrow> ss_Approved s1" by blast
  from st show "\<exists>s'. go_lookup (b_sessions y) h = Some s' \<and> ss_RequestID s' = ss_RequestID s \<and>
    (ss_Consumed s \<longrightarrow> ss_Consumed s') \<and> (ss_Approved s \<longrightarrow> ss_Approved s')"
  proof (cases rule: bstep_tables)
    case same
    with x show ?thesis by (simp add: tables_eqD(3) [OF same(1)])
  next
    case (wrote m seq j)
    with x show ?thesis
      by (cases "mu_Session m") (auto simp: wrote(1) gomap_simps allowed_def session_step_def)
  qed
qed (use assms(2) in auto)

section \<open>Credentials\<close>

lemma credential_grows:
  assumes "bsteps E b b'" "go_lookup (b_credentials b) i = Some c"
  shows "\<exists>c'. go_lookup (b_credentials b') i = Some c' \<and> cr_Revision (cd_View c) \<le> cr_Revision (cd_View c') \<and>
    (cr_Status (cd_View c) = ''deleted'' \<longrightarrow> c' = c) \<and>
    (cr_Status (cd_View c) \<noteq> ''active'' \<and> cr_Revision (cd_View c') = cr_Revision (cd_View c) \<longrightarrow> cr_Status (cd_View c') \<noteq> ''active'')"
proof -
  define P where "P = (\<lambda>x :: 'a Broker. \<exists>c'. go_lookup (b_credentials x) i = Some c' \<and> cr_Revision (cd_View c) \<le> cr_Revision (cd_View c') \<and>
    (cr_Status (cd_View c) = ''deleted'' \<longrightarrow> c' = c) \<and>
    (cr_Status (cd_View c) \<noteq> ''active'' \<and> cr_Revision (cd_View c') = cr_Revision (cd_View c) \<longrightarrow> cr_Status (cd_View c') \<noteq> ''active''))"
  have "P b'"
  proof (rule bsteps_invariant [OF assms(1)])
    fix x y
    assume s: "bstep E x y" and "P x"
    then obtain c1 where x: "go_lookup (b_credentials x) i = Some c1" "cr_Revision (cd_View c) \<le> cr_Revision (cd_View c1)"
      "cr_Status (cd_View c) = ''deleted'' \<longrightarrow> c1 = c"
      "cr_Status (cd_View c) \<noteq> ''active'' \<and> cr_Revision (cd_View c1) = cr_Revision (cd_View c) \<longrightarrow> cr_Status (cd_View c1) \<noteq> ''active''"
      by (auto simp: P_def)
    from s show "P y"
    proof (cases rule: bstep_tables)
      case same
      with \<open>P x\<close> show ?thesis by (simp add: P_def tables_eqD(4) [OF same(1)])
    next
      case (wrote m seq j)
      show ?thesis
      proof (cases "\<exists>q. mu_Credential m = Some q \<and> cr_ID (cd_View q) = i")
        case True
        then obtain q where q: "mu_Credential m = Some q" "cr_ID (cd_View q) = i" by blast
        with wrote(2) x(1) have "credential_step (Some c1) q" by (simp add: allowed_def)
        with q x show ?thesis by (auto simp: P_def wrote(1) gomap_simps credential_step_def)
      next
        case False
        with x(1) have "go_lookup (b_credentials y) i = Some c1" by (auto simp: wrote(1) gomap_simps split: option.splits)
        with x(2-) show ?thesis unfolding P_def by blast
      qed
    qed
  qed (use assms(2) in \<open>auto simp: P_def\<close>)
  then show ?thesis by (simp only: P_def)
qed

section \<open>OAuth states and contracts\<close>

lemma consumed_oauth_stays:
  assumes "bsteps E b b'" "go_lookup (b_oauth b) h = Some o'" "oa_Consumed o'"
  shows "go_lookup (b_oauth b') h = Some o'"
proof (rule bsteps_invariant [OF assms(1), of "\<lambda>x. go_lookup (b_oauth x) h = Some o'"])
  fix x y
  assume s: "bstep E x y" and x: "go_lookup (b_oauth x) h = Some o'"
  from s show "go_lookup (b_oauth y) h = Some o'"
  proof (cases rule: bstep_tables)
    case same
    with x show ?thesis by (simp add: tables_eqD(7) [OF same(1)])
  next
    case (wrote m seq j)
    with x assms(3) show ?thesis
      by (cases "mu_OAuth m") (auto simp: wrote(1) gomap_simps allowed_def oauth_step_def)
  qed
qed (rule assms(2))

lemma catalog_stays:
  assumes "bsteps E b b'" "go_lookup (b_catalog b) k = Some c"
  shows "go_lookup (b_catalog b') k = Some c"
proof (rule bsteps_invariant [OF assms(1), of "\<lambda>x. go_lookup (b_catalog x) k = Some c"])
  fix x y
  assume s: "bstep E x y" and x: "go_lookup (b_catalog x) k = Some c"
  from s show "go_lookup (b_catalog y) k = Some c"
  proof (cases rule: bstep_tables)
    case same
    with x show ?thesis by (simp add: tables_eqD(1) [OF same(1)])
  next
    case (wrote m seq j)
    with x show ?thesis
      by (cases "mu_Contract m") (auto simp: wrote(1) gomap_simps allowed_def)
  qed
qed (rule assms(2))

section \<open>Grants\<close>

lemma coexist_sym: "coexist b g h \<Longrightarrow> coexist b h g"
  unfolding coexist_def by argo

definition grants_isolated :: "'b Tables_scheme \<Rightarrow> bool" where
  "grants_isolated b \<longleftrightarrow>
     (\<forall>i g. go_lookup (b_grants b) i = Some g \<longrightarrow> go_lookup (b_catalog b) (gd_ContractKey g) \<noteq> None) \<and>
     (\<forall>i g j h. go_lookup (b_grants b) i = Some g \<and> go_lookup (b_grants b) j = Some h \<and> i \<noteq> j \<and>
        gr_Active (gd_View g) \<and> gr_Active (gd_View h) \<longrightarrow> coexist b g h)"

lemma coexist_cong:
  assumes "catalog_get b' (gd_ContractKey g) = catalog_get b (gd_ContractKey g)" "catalog_get b' (gd_ContractKey h) = catalog_get b (gd_ContractKey h)"
  shows "coexist b' g h = coexist b g h"
  by (simp add: coexist_def assms)

lemma deactivated_sel [simp]:
  "gd_ContractKey (deactivated g) = gd_ContractKey g" "\<not> gr_Active (gd_View (deactivated g))" "gr_ID (gd_View (deactivated g)) = gr_ID (gd_View g)"
  by (simp_all add: deactivated_def)

lemma grants_isolated_put:
  assumes "grants_isolated b" "grant_step b g" "b_catalog b' = b_catalog b" "b_grants b' = go_update (gr_ID (gd_View g)) g (b_grants b)"
  shows "grants_isolated b'"
proof -
  have co: "coexist b' x y = coexist b x y" for x y by (rule coexist_cong) (simp_all add: go_get_def assms(3))
  show ?thesis
  proof (cases "go_lookup (b_grants b) (gr_ID (gd_View g))")
    case None
    with assms(2) have g: "go_lookup (b_catalog b) (gd_ContractKey g) \<noteq> None"
      "\<And>i h. go_lookup (b_grants b) i = Some h \<Longrightarrow> gr_Active (gd_View h) \<Longrightarrow> coexist b g h" by (auto simp: grant_step_def)
    show ?thesis
      using assms(1) g coexist_sym [of b g] unfolding grants_isolated_def co assms(3,4) by (simp add: gomap_simps) blast
  next
    case (Some q)
    with assms(2) have "g = deactivated q" by (simp add: grant_step_def)
    with assms(1) Some show ?thesis unfolding grants_isolated_def co assms(3,4) by (auto simp: gomap_simps)
  qed
qed

lemma grants_isolated_catalog:
  assumes "grants_isolated b" "b_grants b' = b_grants b" "\<And>k c. go_lookup (b_catalog b) k = Some c \<Longrightarrow> go_lookup (b_catalog b') k = Some c"
  shows "grants_isolated b'"
proof -
  have key: "\<exists>c. go_lookup (b_catalog b) (gd_ContractKey g) = Some c \<and> go_lookup (b_catalog b') (gd_ContractKey g) = Some c"
    if "go_lookup (b_grants b) i = Some g" for i g using assms(1,3) that unfolding grants_isolated_def by blast
  have "coexist b' g h = coexist b g h" if "go_lookup (b_grants b) i = Some g" "go_lookup (b_grants b) j = Some h" for i j g h
    using key [OF that(1)] key [OF that(2)] by (intro coexist_cong) (auto simp: go_get_def)
  with assms(1) key show ?thesis unfolding grants_isolated_def assms(2) by fastforce
qed

lemma grants_isolated_step:
  assumes "bstep E x y" "grants_isolated x"
  shows "grants_isolated y"
  using assms(1)
proof (cases rule: bstep_tables)
  case same
  show ?thesis by (rule grants_isolated_catalog [OF assms(2)]) (simp_all add: tables_eqD [OF same(1)])
next
  case (wrote m seq j)
  let ?z = "x\<lparr>b_grants := b_grants y\<rparr>"
  have "grants_isolated ?z"
  proof (cases "mu_Grant m")
    case None
    then show ?thesis by (intro grants_isolated_catalog [OF assms(2)]) (simp_all add: wrote(1) put_opt_def)
  next
    case (Some g)
    with wrote(2) have "grant_step x g" by (simp add: allowed_def)
    from grants_isolated_put [OF assms(2) this, of ?z] Some show ?thesis by (simp add: wrote(1) put_opt_def)
  qed
  then show ?thesis
  proof (rule grants_isolated_catalog)
    fix k c
    assume "go_lookup (b_catalog ?z) k = Some c"
    with wrote(2) show "go_lookup (b_catalog y) k = Some c"
      by (auto simp: wrote(1) gomap_simps allowed_def split: option.splits)
  qed simp
qed

lemma grants_isolated_stays: "bsteps E b b' \<Longrightarrow> grants_isolated b \<Longrightarrow> grants_isolated b'"
  by (erule bsteps_invariant) (auto intro: grants_isolated_step)

text \<open>A grant is never re-bound, and never active again once it is not.\<close>

lemma grant_stays:
  assumes "bsteps E b b'" "go_lookup (b_grants b) i = Some g"
  shows "go_lookup (b_grants b') i = Some g \<or> go_lookup (b_grants b') i = Some (deactivated g)"
proof (rule bsteps_invariant [OF assms(1), of "\<lambda>x. go_lookup (b_grants x) i = Some g \<or> go_lookup (b_grants x) i = Some (deactivated g)"])
  fix x y
  assume s: "bstep E x y" and x: "go_lookup (b_grants x) i = Some g \<or> go_lookup (b_grants x) i = Some (deactivated g)"
  from s show "go_lookup (b_grants y) i = Some g \<or> go_lookup (b_grants y) i = Some (deactivated g)"
  proof (cases rule: bstep_tables)
    case same
    with x show ?thesis by (simp add: tables_eqD(5) [OF same(1)])
  next
    case (wrote m seq j)
    have "deactivated (deactivated g) = deactivated g" by (simp add: deactivated_def)
    with wrote(2) x show ?thesis
      by (cases "mu_Grant m") (auto simp: wrote(1) gomap_simps allowed_def grant_step_def)
  qed
qed (use assms(2) in blast)

section \<open>Leases\<close>

definition leases_ok :: "'w Broker \<Rightarrow> bool" where
  "leases_ok b \<longleftrightarrow> length (b_leases b) \<le> 4096 \<and>
     (\<forall>i l. go_lookup (b_leases b) i = Some l \<longrightarrow>
        (\<exists>c. go_lookup (b_credentials b) (lv_CredentialID (lr_View l)) = Some c \<and> lv_Revision (lr_View l) \<le> cr_Revision (cd_View c))) \<and>
     (\<forall>i l j k. go_lookup (b_leases b) i = Some l \<and> go_lookup (b_leases b) j = Some k \<and> lr_StateKey l = lr_StateKey k \<and>
        lr_StateKey l \<noteq> [] \<longrightarrow> i = j)"

lemma leases_okI:
  assumes "length (b_leases b) \<le> 4096"
    and "\<And>i l. go_lookup (b_leases b) i = Some l \<Longrightarrow>
      \<exists>c. go_lookup (b_credentials b) (lv_CredentialID (lr_View l)) = Some c \<and> lv_Revision (lr_View l) \<le> cr_Revision (cd_View c)"
    and "\<And>i l j k. go_lookup (b_leases b) i = Some l \<and> go_lookup (b_leases b) j = Some k \<and> lr_StateKey l = lr_StateKey k \<and>
        lr_StateKey l \<noteq> [] \<Longrightarrow> i = j"
  shows "leases_ok b"
  unfolding leases_ok_def using assms by blast

lemma leases_ok_keys:
  "leases_ok b \<Longrightarrow> go_lookup (b_leases b) i = Some l \<Longrightarrow> go_lookup (b_leases b) j = Some k \<Longrightarrow> lr_StateKey l = lr_StateKey k \<Longrightarrow>
     lr_StateKey l \<noteq> [] \<Longrightarrow> i = j"
  unfolding leases_ok_def by blast

lemma leases_ok_epoch:
  "leases_ok b \<Longrightarrow> go_lookup (b_leases b) i = Some l \<Longrightarrow>
     \<exists>c. go_lookup (b_credentials b) (lv_CredentialID (lr_View l)) = Some c \<and> lv_Revision (lr_View l) \<le> cr_Revision (cd_View c)"
  unfolding leases_ok_def by blast

lemma leases_ok_step: "bstep E x y \<Longrightarrow> leases_ok x \<Longrightarrow> leases_ok y"
proof (induction rule: bstep.induct)
  case (bstep_quiet b b')
  then have same: "b_credentials b' = b_credentials b" by (simp add: quiet_def Tables.defs)
  from bstep_quiet(1) have sub: "go_lookup (b_leases b') i = Some l \<Longrightarrow> go_lookup (b_leases b) i = Some l" for i l by (simp add: quiet_def)
  have "length (b_leases b') \<le> 4096" using bstep_quiet by (simp add: leases_ok_def quiet_def)
  moreover have "\<exists>c. go_lookup (b_credentials b) (lv_CredentialID (lr_View l)) = Some c \<and> lv_Revision (lr_View l) \<le> cr_Revision (cd_View c)"
    if "go_lookup (b_leases b') i = Some l" for i l by (rule leases_ok_epoch [OF bstep_quiet(2) sub [OF that]])
  moreover have "i = j" if "go_lookup (b_leases b') i = Some l \<and> go_lookup (b_leases b') j = Some k \<and> lr_StateKey l = lr_StateKey k \<and>
      lr_StateKey l \<noteq> []" for i l j k
    using that leases_ok_keys [OF bstep_quiet(2) sub sub, of i l j k] by blast
  ultimately show ?case unfolding leases_ok_def same by blast
next
  case (bstep_write m b b' seq)
  from commit_success [OF bstep_write(1)] obtain j where b': "b' = apply_mutation m seq (b\<lparr>b_journal := j\<rparr>)" by blast
  have grow: "\<exists>c'. go_lookup (b_credentials b') i = Some c' \<and> cr_Revision (cd_View c) \<le> cr_Revision (cd_View c')"
    if "go_lookup (b_credentials b) i = Some c" for i c
    using credential_grows [OF r_into_rtranclp [where r = "bstep E", OF bstep.bstep_write [OF bstep_write(1,2)]] that] by blast
  show ?case
    unfolding leases_ok_def
  proof (intro conjI allI impI)
    fix i l
    assume "go_lookup (b_leases b') i = Some l"
    then have "go_lookup (b_leases b) i = Some l" by (simp add: b')
    with bstep_write(3) obtain c where c: "go_lookup (b_credentials b) (lv_CredentialID (lr_View l)) = Some c"
      "lv_Revision (lr_View l) \<le> cr_Revision (cd_View c)" unfolding leases_ok_def by blast
    from grow [OF c(1)] c(2) show "\<exists>c. go_lookup (b_credentials b') (lv_CredentialID (lr_View l)) = Some c \<and>
        lv_Revision (lr_View l) \<le> cr_Revision (cd_View c)" by fastforce
  next
    show "length (b_leases b') \<le> 4096" using bstep_write(3) by (simp add: leases_ok_def b')
  next
    fix i l j k
    assume "go_lookup (b_leases b') i = Some l \<and> go_lookup (b_leases b') j = Some k \<and> lr_StateKey l = lr_StateKey k \<and> lr_StateKey l \<noteq> []"
    moreover have "b_leases b' = b_leases b" by (simp add: b')
    ultimately show "i = j" using leases_ok_keys [OF bstep_write(3), of i l j k] by metis
  qed
next
  case (bstep_lease b i l)
  let ?ls = "go_update i l (b_leases b)"
  from bstep_lease(1) have fits: "go_lookup (b_leases b) i = None" "length (b_leases b) < 4096"
    "\<exists>c. go_lookup (b_credentials b) (lv_CredentialID (lr_View l)) = Some c \<and> lv_Revision (lr_View l) \<le> cr_Revision (cd_View c)"
    and alone: "\<And>j k. lr_StateKey l \<noteq> [] \<Longrightarrow> go_lookup (b_leases b) j = Some k \<Longrightarrow> lr_StateKey k \<noteq> lr_StateKey l"
    by (simp_all add: lease_fits_def)
  have dest: "j = i \<and> k = l \<or> go_lookup (b_leases b) j = Some k" if "go_lookup ?ls j = Some k" for j k
    using that by (simp add: gomap_simps split: if_splits)
  have c1: "length ?ls \<le> 4096" using fits(1,2) by (simp add: length_go_update)
  have c2: "\<exists>c. go_lookup (b_credentials b) (lv_CredentialID (lr_View k)) = Some c \<and> lv_Revision (lr_View k) \<le> cr_Revision (cd_View c)"
    if "go_lookup ?ls j = Some k" for j k
    using dest [OF that] fits(3) leases_ok_epoch [OF bstep_lease(2)] by metis
  have c3: "j = j'" if "go_lookup ?ls j = Some k \<and> go_lookup ?ls j' = Some k' \<and>
      lr_StateKey k = lr_StateKey k' \<and> lr_StateKey k \<noteq> []" for j k j' k'
    using dest [of j k] dest [of j' k'] that alone leases_ok_keys [OF bstep_lease(2)] by metis
  have sel: "b_leases (b\<lparr>b_leases := ?ls\<rparr>) = ?ls" "b_credentials (b\<lparr>b_leases := ?ls\<rparr>) = b_credentials b" by simp_all
  show ?case
  proof (rule leases_okI, unfold sel)
    show "length ?ls \<le> 4096" by (rule c1)
  qed (erule c2, erule c3)
next
  case (bstep_touch b i l l')
  then have core: "lv_CredentialID (lr_View l') = lv_CredentialID (lr_View l)" "lv_Revision (lr_View l') = lv_Revision (lr_View l)"
    "lr_StateKey l' = lr_StateKey l" by (simp_all add: lease_core_def)
  have c1: "length (go_update i l' (b_leases b)) \<le> 4096" using bstep_touch by (simp add: length_go_update leases_ok_def)
  have old: "\<exists>k'. go_lookup (b_leases b) j = Some k' \<and> lv_CredentialID (lr_View k') = lv_CredentialID (lr_View k) \<and>
      lv_Revision (lr_View k') = lv_Revision (lr_View k) \<and> lr_StateKey k' = lr_StateKey k"
    if "go_lookup (go_update i l' (b_leases b)) j = Some k" for j k
    using that bstep_touch(1) core by (auto simp: gomap_simps split: if_splits)
  have c2: "\<exists>c. go_lookup (b_credentials b) (lv_CredentialID (lr_View k)) = Some c \<and> lv_Revision (lr_View k) \<le> cr_Revision (cd_View c)"
    if "go_lookup (go_update i l' (b_leases b)) j = Some k" for j k
    using old [OF that] leases_ok_epoch [OF bstep_touch(3)] by metis
  have c3: "j = j'" if "go_lookup (go_update i l' (b_leases b)) j = Some k \<and> go_lookup (go_update i l' (b_leases b)) j' = Some k' \<and>
      lr_StateKey k = lr_StateKey k' \<and> lr_StateKey k \<noteq> []" for j k j' k'
    using old [of j k] old [of j' k'] that leases_ok_keys [OF bstep_touch(3)] by metis
  have sel: "b_leases (b\<lparr>b_leases := go_update i l' (b_leases b)\<rparr>) = go_update i l' (b_leases b)" "b_credentials (b\<lparr>b_leases := go_update i l' (b_leases b)\<rparr>) = b_credentials b" by simp_all
  show ?case
  proof (rule leases_okI, unfold sel)
    show "length (go_update i l' (b_leases b)) \<le> 4096" by (rule c1)
  qed (erule c2, erule c3)
qed

lemma leases_ok_stays: "bsteps E b b' \<Longrightarrow> leases_ok b \<Longrightarrow> leases_ok b'"
  by (erule bsteps_invariant) (auto intro: leases_ok_step)

section \<open>The ledger\<close>

text \<open>What the replay needs of the codec: a written mutation reads back.\<close>

definition mutation_codec :: "'a broker_env_scheme \<Rightarrow> bool" where
  "mutation_codec E \<longleftrightarrow> (\<forall>m. strictjson_Decode E (decode_mutation E) (json_mutation E m) = Some m)"

definition empty_tables :: "(string, Contract) gomap \<Rightarrow> Tables" where
  "empty_tables cat = \<lparr>b_catalog = cat, b_requests = [], b_sessions = [], b_credentials = [], b_grants = [], b_states = [],
     b_oauth = [], b_events = []\<rparr>"

definition ledger_view :: "'a broker_env_scheme \<Rightarrow> (string, Contract) gomap \<Rightarrow> 'w Broker \<Rightarrow> bool" where
  "ledger_view E cat b \<longleftrightarrow> replay E (Records (b_journal b)) (empty_tables cat) = Inr (Tables.truncate b)"

lemma replay_append:
  "replay E (rs @ ss) t = (case replay E rs t of Inl e \<Rightarrow> Inl e | Inr t' \<Rightarrow> replay E ss t')"
  by (induction rs arbitrary: t) (auto split: option.splits)

lemma truncate_apply: "Tables.truncate (apply_mutation m n b) = apply_mutation m n (Tables.truncate b)"
  by (simp add: apply_mutation_def Tables.defs)

lemma truncate_journal [simp]: "Tables.truncate (b\<lparr>b_journal := j\<rparr>) = Tables.truncate b"
  by (simp add: Tables.defs)

lemma ledger_view_step:
  assumes "bstep E x y" "ledger_view E cat x" "journal_inv E (b_journal x)" "mutation_codec E"
  shows "ledger_view E cat y"
  using assms(1)
proof (cases rule: bstep.cases)
  case bstep_quiet
  with assms(2) show ?thesis by (simp add: ledger_view_def quiet_def)
next
  case (bstep_write m seq)
  from commit_success [OF bstep_write(1)] obtain j where y: "y = apply_mutation m seq (x\<lparr>b_journal := j\<rparr>)" by blast
  from commit_journal [OF bstep_write(1) assms(3)] obtain p where
    rec: "Records (b_journal y) = Records (b_journal x) @ [\<lparr>rec_Sequence = seq, rec_Previous = p, rec_Kind = ''mutation.v1'', rec_Data = json_mutation E m\<rparr>]"
    by blast
  have "\<not> shadows E (Tables.truncate x) m"
    using bstep_write(2) by (auto simp: shadows_def allowed_def Tables.defs split: option.splits)
  then have "replay E (Records (b_journal y)) (empty_tables cat) = Inr (apply_mutation m seq (Tables.truncate x))"
    using assms(2,4) by (simp add: ledger_view_def rec replay_append mutation_of_def mutation_codec_def)
  then show ?thesis by (simp add: ledger_view_def y truncate_apply)
qed (use assms(2) in \<open>auto simp: ledger_view_def Tables.defs\<close>)

lemma ledger_view_stays:
  assumes "bsteps E b b'" "ledger_view E cat b" "broker_ok E b" "mutation_codec E"
  shows "ledger_view E cat b'"
proof -
  have "ledger_view E cat b' \<and> broker_ok E b'"
  proof (rule bsteps_invariant [OF assms(1), of "\<lambda>x. ledger_view E cat x \<and> broker_ok E x"])
    fix x y
    assume s: "bstep E x y" and x: "ledger_view E cat x \<and> broker_ok E x"
    then have "journal_inv E (b_journal x)" by (simp add: broker_ok_def)
    with s x ledger_view_step [OF s _ _ assms(4)] bstep_ok [OF s] show "ledger_view E cat y \<and> broker_ok E y" by blast
  qed (use assms in blast)
  then show ?thesis ..
qed

end
