(* ===== verification/Broker_Refine.thy ===== *)
theory Broker_Refine
  imports Broker_Inv
begin

text \<open>
  Refinement: every operation of the broker is a sequence of steps of \<open>Broker_Steps\<close>. New
  identifiers are assumed fresh where the source draws them from 16 or 32 random bytes, and the
  interference of other calls is any sequence of steps.
\<close>

section \<open>Quiet changes\<close>

lemma quiet_refl [simp]: "quiet E b b"
  by (simp add: quiet_def)

lemma quiet_trans: "quiet E b b1 \<Longrightarrow> quiet E b1 b2 \<Longrightarrow> quiet E b b2"
  by (simp add: quiet_def)

lemma quiet_fields [simp]:
  "quiet E b (b\<lparr>b_world := w\<rparr>)" "quiet E b (b\<lparr>b_manager := mgr\<rparr>)" "quiet E b (b\<lparr>b_canceled := cs\<rparr>)" "quiet E b (b\<lparr>b_closed := x\<rparr>)"
  by (simp_all add: quiet_def Tables.defs)

lemma quiet_steps: "quiet E b b' \<Longrightarrow> bsteps E b b'"
  by (rule r_into_rtranclp) (rule bstep_quiet)

lemma quiet_tables: "quiet E b b' \<Longrightarrow> Tables.truncate b' = Tables.truncate b \<and> b_cfg b' = b_cfg b"
  by (simp add: quiet_def)

lemma dropLease_quiet: "quiet E b (dropLease i b)"
  by (auto simp: dropLease_def quiet_def Tables.defs gomap_simps length_go_delete_le split: option.split)

lemma foldl_quiet: "quiet E b (foldl (\<lambda>b (i, l). if P l then dropLease i b else b) b ls)"
proof (induction ls arbitrary: b)
  case (Cons x ls)
  obtain i l where x: "x = (i, l)" by fastforce
  from quiet_trans [OF dropLease_quiet Cons.IH] Cons.IH show ?case by (simp add: x)
qed simp

lemma drop_where_quiet: "quiet E b (drop_where P b)"
  unfolding drop_where_def by (rule foldl_quiet)

lemma invalidate_quiet: "quiet E b (invalidateCredential i b)"
  unfolding invalidateCredential_def by (rule drop_where_quiet)

lemma sweep_quiet: "quiet E b (sweepLocked now b)"
  unfolding sweepLocked_def by (rule drop_where_quiet)

lemma broker_put_quiet: "broker_put pid v b = (b', x) \<Longrightarrow> quiet E b b'"
  by (auto simp: broker_put_def split: prod.splits)

lemma broker_resolve_quiet: "broker_resolve ref b = (b', x) \<Longrightarrow> quiet E b b'"
  by (auto simp: broker_resolve_def split: prod.splits)

section \<open>Commits\<close>

lemma allowed_audit_only [simp]: "allowed b (audit_only ev)"
  by (simp add: allowed_def audit_only_def)

lemma audit_only_sel [simp]:
  "mu_Request (audit_only ev) = None" "mu_Session (audit_only ev) = None" "mu_Credential (audit_only ev) = None"
  "mu_Grant (audit_only ev) = None" "mu_State (audit_only ev) = None" "mu_OAuth (audit_only ev) = None" "mu_Contract (audit_only ev) = None"
  by (simp_all add: audit_only_def)

lemma commit_steps:
  assumes "commit E m b = (b', x)" "broker_ok E b" "live b \<Longrightarrow> allowed b m"
  shows "bsteps E b b'"
proof (cases x)
  case (Inl e)
  from commit_failure [OF assms(1) [unfolded Inl]] assms(2) show ?thesis by (simp add: broker_ok_def quiet_steps)
next
  case (Inr seq)
  with commit_success [OF assms(1) [unfolded Inr]] assms(3) have "allowed b m" by blast
  with assms(1) Inr show ?thesis by (auto intro: r_into_rtranclp bstep_write)
qed

lemma commit_fst_steps: "broker_ok E b \<Longrightarrow> (live b \<Longrightarrow> allowed b m) \<Longrightarrow> bsteps E b (fst (commit E m b))"
  by (rule commit_steps [of E m b "fst (commit E m b)" "snd (commit E m b)"]) simp_all

lemma quiet_ok: "quiet E b b' \<Longrightarrow> broker_ok E b \<Longrightarrow> broker_ok E b'"
  by (rule bstep_ok [OF bstep_quiet])

lemma keyedD:
  assumes "keyed b"
  shows "go_lookup (b_requests b) i = Some r \<Longrightarrow> rq_ID (rr_View r) = i"
    "go_lookup (b_sessions b) i = Some s \<Longrightarrow> ss_Hash s = i"
    "go_lookup (b_credentials b) i = Some c \<Longrightarrow> cr_ID (cd_View c) = i"
    "go_lookup (b_grants b) i = Some g \<Longrightarrow> gr_ID (gd_View g) = i"
    "go_lookup (b_states b) i = Some st \<Longrightarrow> sr_Key st = i"
    "go_lookup (b_oauth b) i = Some o' \<Longrightarrow> oa_StateHash o' = i"
  using assms by (simp_all add: keyed_def)

lemma broker_ok_keyed: "broker_ok E b \<Longrightarrow> keyed b"
  by (simp add: broker_ok_def)

text \<open>A request moved to another status, with some of its other fields changed.\<close>

lemma allowed_request:
  assumes "go_lookup (b_requests b) i = Some q" "rq_ID (rr_View r) = i" "request_core r = request_core q"
    "status_step (rq_Status (rr_View q)) (rq_Status (rr_View r))"
  shows "allowed b ((audit_only ev)\<lparr>mu_Request := Some r\<rparr>)"
  using assms by (simp add: allowed_def request_step_def)

lemma allowed_contract:
  "go_lookup (b_catalog b) (contract_key (c_ID c) (c_Revision c)) = None \<Longrightarrow> allowed b ((audit_only ev)\<lparr>mu_Contract := Some c\<rparr>)"
  by (simp add: allowed_def)

section \<open>Requests and contracts\<close>

lemma CancelRequest_steps:
  assumes "broker_ok E b" "CancelRequest E now a i b = (b', x)"
  shows "bsteps E b b'"
proof (cases "go_lookup (b_requests b) i")
  case None
  with assms(2) show ?thesis by (simp add: CancelRequest_def)
next
  case (Some r)
  let ?r = "r\<lparr>rr_View := (rr_View r)\<lparr>rq_Status := ''canceled''\<rparr>\<rparr>"
  show ?thesis
  proof (cases "requestBy a r \<and> \<not> closed_status (rq_Status (rr_View r))")
    case False
    with Some assms(2) show ?thesis by (auto simp: CancelRequest_def closed_status_def split: if_splits)
  next
    case True
    have id: "rq_ID (rr_View r) = i" using keyedD(1) [OF broker_ok_keyed [OF assms(1)] Some] .
    have ok: "allowed b ((audit_only ev)\<lparr>mu_Request := Some ?r\<rparr>)" for ev
      by (rule allowed_request [OF Some]) (use True id in \<open>simp_all add: request_core_def status_step_def\<close>)
    from assms(2) Some True obtain ev y where "commit E ((audit_only ev)\<lparr>mu_Request := Some ?r\<rparr>) b = (b', y)"
      by (auto simp: CancelRequest_def closed_status_def Let_def split: if_splits prod.splits sum.splits)
    then show ?thesis by (rule commit_steps [OF _ assms(1) ok])
  qed
qed

lemma RegisterContract_steps:
  assumes "broker_ok E b" "RegisterContract E now a c b = (b', x)"
  shows "bsteps E b b'"
proof (cases "b' = b")
  case False
  define c' where "c' = (if c_Storage c = [] then (case first_writable (cf_Providers (b_cfg b)) of None \<Rightarrow> c | Some i \<Rightarrow> c\<lparr>c_Storage := i\<rparr>) else c)"
  from assms(2) False obtain ev y where "go_lookup (b_catalog b) (contract_key (c_ID c') (c_Revision c')) = None"
    "commit E ((audit_only ev)\<lparr>mu_Contract := Some c'\<rparr>) b = (b', y)"
    unfolding RegisterContract_def Let_def c'_def [symmetric] by (auto split: if_splits option.splits prod.splits sum.splits)
  from commit_steps [OF this(2) assms(1) allowed_contract [OF this(1)]] show ?thesis .
qed simp

lemma Close_steps:
  assumes "Broker_Close b = (b', x)"
  shows "bsteps E b b'"
proof (cases "b_closed b")
  case True
  with assms show ?thesis by (simp add: Broker_Close_def)
next
  case False
  have rec: "Records (journal_Close j) = Records j" "journal_inv E j \<longrightarrow> journal_inv E (journal_Close j)" for j
    by (cases j; simp add: Records_def journal_inv_def journal_Healthy_def)+
  from False assms obtain mgr where "b' = b\<lparr>b_closed := True, b_canceled := concat (map (lr_Active \<circ> snd) (b_leases b)) @ b_canceled b,
      b_manager := mgr, b_journal := journal_Close (b_journal b)\<rparr>"
    by (auto simp: Broker_Close_def split: prod.splits)
  then show ?thesis by (intro quiet_steps) (simp add: quiet_def Tables.defs rec)
qed

section \<open>Enrollment\<close>

text \<open>The write of \<^verbatim>\<open>ready\<close>: a request that may become ready, a session that may be consumed, and a
  credential that is new or follows the epoch the request expects.\<close>

definition may_become_ready :: "(string, requestRecord) gomap \<Rightarrow> requestRecord \<Rightarrow> bool" where
  "may_become_ready rs r \<longleftrightarrow>
     (case go_lookup rs (rq_ID (rr_View r)) of
        None \<Rightarrow> True
      | Some q \<Rightarrow> request_core r = request_core q \<and> (rq_Status (rr_View q) = ''pending'' \<or> rq_Status (rr_View q) = ''exchanging''))"

definition may_consume :: "(string, sessionRecord) gomap \<Rightarrow> sessionRecord option \<Rightarrow> bool" where
  "may_consume ss s \<longleftrightarrow> opt_all (\<lambda>s. \<exists>q. go_lookup ss (ss_Hash s) = Some q \<and> ss_RequestID s = ss_RequestID q \<and> ss_Approved s) s"

lemma ready_steps:
  assumes "ready E now rnd r ref managed s b = (b', x)" "broker_ok E b"
    and "may_become_ready (b_requests b) r" "may_consume (b_sessions b) s"
    and "rr_RotateID r = [] \<Longrightarrow> go_lookup (b_credentials b) (newID ''c'' rnd) = None"
  shows "bsteps E b b'"
proof (cases "b' = b")
  case False
  define i where "i = (if rr_RotateID r = [] then newID ''c'' rnd else rr_RotateID r)"
  define old where "old = go_lookup (b_credentials b) i"
  define revision where "revision = (if rr_RotateID r = [] then 1 else cr_Revision (cd_View (the old)) + 1)"
  define c where "c = ready_credential r i revision ref managed old"
  from assms(1) False have ok: "\<not> (rr_RotateID r \<noteq> [] \<and> (case old of None \<Rightarrow> True
      | Some o' \<Rightarrow> cr_Status (cd_View o') = ''deleted'' \<or> cr_Revision (cd_View o') \<noteq> rr_ExpectedRevision r))"
    unfolding ready_def Let_def i_def [symmetric] old_def [symmetric] by (auto split: if_splits)
  obtain b1 y where w: "commit E (ready_mutation now r c s) b = (b1, y)" by fastforce
  have b': "quiet E b1 b'"
    using assms(1) ok w invalidate_quiet [of E b1 i]
    unfolding ready_def Let_def i_def [symmetric] old_def [symmetric] revision_def [symmetric] c_def [symmetric]
    by (cases y) auto
  have cred: "credential_step (go_lookup (b_credentials b) (cr_ID (cd_View c))) c"
    using ok assms(5) by (auto simp: c_def ready_credential_def credential_step_def revision_def old_def i_def split: option.splits if_splits)
  have sess: "opt_all (session_step (cf_DirectForm (b_cfg b)) (b_sessions b)) (map_option (\<lambda>s. s\<lparr>ss_Consumed := True\<rparr>) s)"
    using assms(4) by (auto simp: may_consume_def session_step_def split: option.splits)
  let ?r = "r\<lparr>rr_View := (rr_View r)\<lparr>rq_CredentialID := cr_ID (cd_View c), rq_Revision := cr_Revision (cd_View c), rq_Status := ''ready''\<rparr>\<rparr>"
  have req: "request_step (go_lookup (b_requests b) (rq_ID (rr_View ?r))) ?r"
    using assms(3) by (auto simp: may_become_ready_def request_step_def status_step_def closed_status_def request_core_def split: option.splits)
  have "allowed b (ready_mutation now r c s)"
    using cred sess req by (simp add: allowed_def ready_mutation_def Let_def)
  from commit_steps [OF w assms(2) this] quiet_steps [OF b'] show ?thesis by (rule rtranclp_trans)
qed simp

lemma allowed_new_request:
  assumes "go_lookup (b_requests b) (rq_ID (rr_View r)) = None" "rq_Status (rr_View r) = ''pending''"
  shows "allowed b ((audit_only ev)\<lparr>mu_Request := Some r\<rparr>)"
  using assms by (simp add: allowed_def request_step_def)

lemma allowed_session:
  assumes "session_step (cf_DirectForm (b_cfg b)) (b_sessions b) s"
  shows "allowed b ((audit_only ev)\<lparr>mu_Session := Some s\<rparr>)"
  using assms by (simp add: allowed_def)

text \<open>Steps up to a state whose tables are the same.\<close>

lemma steps_after_quiet:
  assumes "quiet E b b1" "broker_ok E b" "broker_ok E b1 \<Longrightarrow> bsteps E b1 b'"
  shows "bsteps E b b'"
  using quiet_steps [OF assms(1)] assms(3) [OF quiet_ok [OF assms(1,2)]] by (rule rtranclp_trans)

lemma quiet_sel:
  assumes "quiet E b b'"
  shows "b_requests b' = b_requests b" "b_sessions b' = b_sessions b" "b_credentials b' = b_credentials b" "b_grants b' = b_grants b"
    "b_states b' = b_states b" "b_oauth b' = b_oauth b" "b_catalog b' = b_catalog b" "b_cfg b' = b_cfg b"
  using assms tables_eqD [of b' b] by (simp_all add: quiet_def)

lemma import_alias_steps:
  assumes "import_alias E now rnd a inp c r b = (b', x)" "broker_ok E b"
    "go_lookup (b_requests b) (rq_ID (rr_View r)) = None" "go_lookup (b_credentials b) (newID ''c'' rnd) = None"
  shows "bsteps E b b'"
proof (cases "b' = b")
  case False
  with assms(1) obtain al where al: "go_lookup (cf_ExternalAliases (b_cfg b)) (ci_ExternalAlias inp) = Some al"
    by (auto simp: import_alias_def split: option.splits)
  obtain b1 y where r: "broker_resolve (xa_Ref al) b = (b1, y)" by fastforce
  note q = broker_resolve_quiet [OF r]
  show ?thesis
  proof (cases "b' = b1")
    case True
    with quiet_steps [OF q] show ?thesis by simp
  next
    case nb: False
    with assms(1) False al r obtain z where z: "ready E now rnd (r\<lparr>rr_DraftRef := Some (xa_Ref al)\<rparr>) (xa_Ref al) False None b1 = (b', z)"
      by (auto simp: import_alias_def split: if_splits sum.splits prod.splits)
    show ?thesis
      by (rule steps_after_quiet [OF q assms(2)], rule ready_steps [OF z])
        (use assms(3,4) quiet_sel [OF q] in \<open>simp_all add: may_become_ready_def may_consume_def\<close>)
  qed
qed simp

lemma CreateRequest_steps:
  assumes "Broker_CreateRequest E now rnd rnd2 a inp b = (b', x)" "broker_ok E b"
    "go_lookup (b_requests b) (newID ''r'' rnd) = None" "go_lookup (b_credentials b) (newID ''c'' rnd2) = None"
  shows "bsteps E b b'"
proof (cases "b' = b")
  case False
  with assms(1) obtain c where c: "go_lookup (b_catalog b) (contract_key (ci_ContractID inp) (ci_ContractRevision inp)) = Some c"
    by (auto simp: Broker_CreateRequest_def Let_def split: if_splits option.splits)
  define r where "r = new_request E now rnd a inp c b"
  have r: "rq_ID (rr_View r) = newID ''r'' rnd" "rq_Status (rr_View r) = ''pending''" by (simp_all add: r_def new_request_def Let_def)
  from assms(1) False c consider
      (imported) "import_alias E now rnd2 a inp c r b = (b', x)"
    | (plain) ev y where "commit E ((audit_only ev)\<lparr>mu_Request := Some r\<rparr>) b = (b', y)"
    unfolding Broker_CreateRequest_def Let_def
    by (auto simp: r_def [symmetric] split: if_splits option.splits prod.splits sum.splits)
  then show ?thesis
  proof cases
    case imported
    then show ?thesis by (rule import_alias_steps) (use assms r in simp_all)
  next
    case plain
    then show ?thesis by (rule commit_steps [OF _ assms(2)]) (use assms(3) r in \<open>simp add: allowed_new_request\<close>)
  qed
qed simp

lemma OpenSession_steps:
  assumes "OpenSession E now rnd i raw b = (b', x)" "broker_ok E b" "go_lookup (b_sessions b) (Digest E (Random rnd)) = None"
  shows "bsteps E b b'"
proof (cases "b' = b")
  case False
  from assms(1) False obtain ev s y where "commit E ((audit_only ev)\<lparr>mu_Session := Some s\<rparr>) b = (b', y)"
    "ss_Hash s = Digest E (Random rnd)" "ss_Approved s = cf_DirectForm (b_cfg b)"
    unfolding OpenSession_def Let_def
    by (auto split: if_splits option.splits prod.splits sum.splits)
  note w = this
  with assms(3) have "session_step (cf_DirectForm (b_cfg b)) (b_sessions b) s" by (simp add: session_step_def)
  from commit_steps [OF w(1) assms(2) allowed_session [OF this]] show ?thesis .
qed simp

lemma find_in_set: "List.find P xs = Some x \<Longrightarrow> x \<in> set xs \<and> P x"
  by (induction xs) (auto split: if_splits)

lemma Approve_steps:
  assumes "Approve E now a i code b = (b', x)" "broker_ok E b"
  shows "bsteps E b b'"
proof (cases "b' = b")
  case False
  from assms(1) False obtain ev h s y code' where w: "commit E ((audit_only ev)\<lparr>mu_Session := Some (s\<lparr>ss_Approved := True\<rparr>)\<rparr>) b = (b', y)"
    and f: "List.find (\<lambda>(_, s). ss_RequestID s = i \<and> \<not> ss_Consumed s \<and> \<not> ss_Approved s \<and> now < ss_ExpiresAt s \<and>
                                   seal_Equal (ss_CodeHash s) (Digest E code')) (b_sessions b) = Some (h, s)"
    and free: "\<not> list_ex (\<lambda>(_, x). ss_RequestID x = i \<and> ss_Approved x \<and> \<not> ss_Consumed x) (b_sessions b)"
    unfolding Approve_def Let_def
    by (auto split: if_splits option.splits prod.splits sum.splits)
  from find_in_set [OF f] have mem: "(h, s) \<in> set (b_sessions b)" "ss_RequestID s = i" "\<not> ss_Consumed s" "\<not> ss_Approved s"
    by simp_all
  have "keyed b" using assms(2) by (rule broker_ok_keyed)
  then have "go_wf (b_sessions b)" by (simp add: keyed_def)
  from go_in_lookup [OF this] mem(1) have look: "go_lookup (b_sessions b) h = Some s" by blast
  from keyedD(2) [OF \<open>keyed b\<close> look] have hash: "ss_Hash s = h" .
  have "\<not> approved_open (b_sessions b) i"
    using free by (auto simp: approved_open_def list_ex_iff dest!: go_lookup_in)
  with look hash mem have "session_step (cf_DirectForm (b_cfg b)) (b_sessions b) (s\<lparr>ss_Approved := True\<rparr>)"
    by (simp add: session_step_def)
  from commit_steps [OF w assms(2) allowed_session [OF this]] show ?thesis .
qed simp

lemma validSession_facts:
  assumes "validSession E now raw i True b = Inr (s, r)" "keyed b"
  shows "go_lookup (b_sessions b) (Digest E raw) = Some s" "ss_Hash s = Digest E raw" "go_lookup (b_requests b) i = Some r"
    "rq_ID (rr_View r) = i" "ss_Approved s" "\<not> ss_Consumed s" "ss_RequestID s = i" "\<not> closed_status (rq_Status (rr_View r))"
    "now < ss_ExpiresAt s" "now < rq_ExpiresAt (rr_View r)"
  using assms by (auto simp: validSession_def session_closed_def closed_status_def keyed_def split: option.splits if_splits)

lemma fst_result_unit [simp]: "fst (result_unit x) = fst x"
  by (simp add: result_unit_def)

lemma result_unit_pair: "result_unit p = (b', x) \<Longrightarrow> \<exists>y. p = (b', y)"
  by (cases p) (auto simp: result_unit_def)

lemma Submit_steps:
  assumes "Submit E now rnd i raw csrf values demoted b = (b', x)" "broker_ok E b" "go_lookup (b_credentials b) (newID ''c'' rnd) = None"
  shows "bsteps E b b'"
proof (cases "b' = b")
  case False
  from assms(1) False obtain s r where v: "validSession E now raw i True b = Inr (s, r)" and pend: "rq_Status (rr_View r) = ''pending''"
    by (auto simp: Submit_def split: if_splits sum.splits)
  note f = validSession_facts [OF v broker_ok_keyed [OF assms(2)]]
  let ?c = "catalog_get b (rr_ContractKey r)" and ?r = "r\<lparr>rr_Demoted := sortedDemoted demoted\<rparr>"
  obtain b1 y where p: "broker_put (c_Storage ?c) values b = (b1, y)" by fastforce
  note q = broker_put_quiet [OF p]
  show ?thesis
  proof (cases y)
    case (Inl e)
    with assms(1) False v p have "b' = b1" by (auto simp: Submit_def Let_def split: if_splits)
    with quiet_steps [OF q] show ?thesis by simp
  next
    case (Inr ref)
    show ?thesis
    proof (cases "c_OAuthProvider ?c = []")
      case True
      with assms(1) False v p Inr obtain z where z: "ready E now rnd ?r ref True (Some s) b1 = (b', z)"
        by (auto simp: Submit_def Let_def split: if_splits dest!: result_unit_pair)
      show ?thesis
        by (rule steps_after_quiet [OF q assms(2)], rule ready_steps [OF z])
          (use f pend assms(3) quiet_sel [OF q] in \<open>simp_all add: may_become_ready_def may_consume_def request_core_def\<close>)
    next
      case nooauth: False
      let ?r2 = "?r\<lparr>rr_DraftRef := Some ref, rr_View := (rr_View ?r)\<lparr>rq_Status := ''authorizing''\<rparr>\<rparr>"
      from assms(1) False v p Inr nooauth obtain ev z where z: "commit E ((audit_only ev)\<lparr>mu_Request := Some ?r2\<rparr>) b1 = (b', z)"
        by (auto simp: Submit_def Let_def split: if_splits dest!: result_unit_pair)
      have "allowed b1 ((audit_only ev)\<lparr>mu_Request := Some ?r2\<rparr>)"
        by (rule allowed_request [of _ i r]) (use f pend quiet_sel [OF q] in \<open>simp_all add: request_core_def status_step_def closed_status_def\<close>)
      from steps_after_quiet [OF q assms(2) commit_steps [OF z _ this]] show ?thesis .
    qed
  qed
qed simp

lemma SubmitTelegram_steps:
  assumes "SubmitTelegram E now rnd a i values b = (b', x)" "broker_ok E b" "go_lookup (b_credentials b) (newID ''c'' rnd) = None"
  shows "bsteps E b b'"
proof (cases "b' = b")
  case False
  from assms(1) False obtain r where r: "go_lookup (b_requests b) i = Some r" "rq_Status (rr_View r) = ''pending''"
    by (auto simp: SubmitTelegram_def split: if_splits option.splits)
  have id: "rq_ID (rr_View r) = i" by (rule keyedD(1) [OF broker_ok_keyed [OF assms(2)] r(1)])
  obtain b1 y where p: "broker_put (c_Storage (catalog_get b (rr_ContractKey r))) values b = (b1, y)" by fastforce
  note q = broker_put_quiet [OF p]
  show ?thesis
  proof (cases y)
    case (Inl e)
    with assms(1) False r p have "b' = b1" by (auto simp: SubmitTelegram_def Let_def split: if_splits)
    with quiet_steps [OF q] show ?thesis by simp
  next
    case (Inr ref)
    with assms(1) False r p obtain z where z: "ready E now rnd r ref True None b1 = (b', z)"
      by (auto simp: SubmitTelegram_def Let_def split: if_splits dest!: result_unit_pair)
    show ?thesis
      by (rule steps_after_quiet [OF q assms(2)], rule ready_steps [OF z])
        (use id r assms(3) quiet_sel [OF q] in \<open>simp_all add: may_become_ready_def may_consume_def request_core_def\<close>)
  qed
qed simp

section \<open>Grants\<close>

lemma allowed_grant: "grant_step b g \<Longrightarrow> allowed b ((audit_only ev)\<lparr>mu_Grant := Some g\<rparr>)"
  by (simp add: allowed_def)

lemma allowed_deactivate:
  assumes "go_lookup (b_grants b) (gr_ID (gd_View g)) = Some g \<or> go_lookup (b_grants b) (gr_ID (gd_View g)) = Some (deactivated g)"
  shows "allowed b ((audit_only ev)\<lparr>mu_Grant := Some (deactivated g)\<rparr>)"
proof -
  have "deactivated (deactivated g) = deactivated g" by (simp add: deactivated_def)
  with assms show ?thesis by (intro allowed_grant) (auto simp: grant_step_def)
qed

definition passes :: "'b Tables_scheme \<Rightarrow> string \<Rightarrow> string \<Rightarrow> Contract \<Rightarrow> GrantRequest \<Rightarrow> grantRecord \<Rightarrow> bool" where
  "passes b cred ck target inp g \<longleftrightarrow> \<not> same_binding (gd_View g) inp \<and>
     (gr_WorkloadID (gd_View g) = gi_WorkloadID inp \<longrightarrow>
        gi_Execution inp = ''shared'' \<and> gr_Execution (gd_View g) = ''shared'' \<and>
        (process_scoped target \<or> process_scoped (catalog_get b (gd_ContractKey g)) \<longrightarrow> gr_CredentialID (gd_View g) = cred \<and> gd_ContractKey g = ck))"

lemma grant_loop_Inr:
  assumes "grant_loop b a cred ck target idem fp inp retire gs = Inr rs"
  shows "set retire \<subseteq> set rs \<and> set rs \<subseteq> set retire \<union> {g \<in> snd ` set gs. gr_Active (gd_View g)} \<and>
    (\<forall>(k, g) \<in> set gs. gr_Active (gd_View g) \<longrightarrow> g \<in> set rs \<or> passes b cred ck target inp g)"
  using assms
proof (induction gs arbitrary: retire)
  case (Cons x gs)
  obtain k g where x: "x = (k, g)" by fastforce
  from Cons.prems x have idem: "gd_Idempotency g \<noteq> idem" by (auto split: if_splits)
  show ?case
  proof (cases "gr_Active (gd_View g)")
    case False
    with Cons.prems x idem Cons.IH [of retire] show ?thesis by auto
  next
    case active: True
    with Cons.prems x idem have nb: "\<not> same_binding (gd_View g) inp" by (auto split: if_splits)
    show ?thesis
    proof (cases "gr_WorkloadID (gd_View g) = gi_WorkloadID inp \<and> retires a cred ck inp g")
      case True
      with Cons.prems x idem active nb Cons.IH [of "retire @ [g]"] show ?thesis by auto
    next
      case False
      from Cons.prems x idem active nb False have "grant_loop b a cred ck target idem fp inp retire gs = Inr rs" "passes b cred ck target inp g"
        by (auto simp: passes_def split: if_splits)
      with Cons.IH [of retire] x active show ?thesis by auto
    qed
  qed
qed simp

lemma retire_loop_facts:
  assumes "retire_loop E now a cred olds b = (b', x)" "broker_ok E b"
    "\<forall>g\<in>set olds. go_lookup (b_grants b) (gr_ID (gd_View g)) = Some g \<or> go_lookup (b_grants b) (gr_ID (gd_View g)) = Some (deactivated g)"
  shows "bsteps E b b' \<and> b_catalog b' = b_catalog b \<and>
    (\<forall>i. go_lookup (b_grants b') i = go_lookup (b_grants b) i \<or> (\<exists>g\<in>set olds. go_lookup (b_grants b') i = Some (deactivated g))) \<and>
    (x = Inr () \<longrightarrow> (\<forall>g\<in>set olds. go_lookup (b_grants b') (gr_ID (gd_View g)) = Some (deactivated g)))"
  using assms
proof (induction olds arbitrary: b)
  case (Cons g olds)
  obtain ev b1 y where w: "commit E ((audit_only ev)\<lparr>mu_Grant := Some (deactivated g)\<rparr>) b = (b1, y)"
    and ev: "ev = grant_event now ''grant.revoked'' a cred (gd_View g)" by fastforce
  from Cons.prems(3) have ok: "allowed b ((audit_only ev)\<lparr>mu_Grant := Some (deactivated g)\<rparr>)" by (intro allowed_deactivate) simp
  note st = commit_steps [OF w Cons.prems(2) ok]
  show ?case
  proof (cases y)
    case (Inl e)
    with w ev Cons.prems(1) have "b' = b1" "x = Inl e" by auto
    moreover have "quiet E b b1" using commit_failure [OF w [unfolded Inl]] Cons.prems(2) by (simp add: broker_ok_def)
    ultimately show ?thesis using quiet_steps quiet_sel by (metis Inl_Inr_False)
  next
    case (Inr seq)
    let ?b2 = "drop_where (\<lambda>l. lv_GrantID (lr_View l) = gr_ID (gd_View g)) b1"
    have q: "quiet E b1 ?b2" by (rule drop_where_quiet)
    from commit_success [OF w [unfolded Inr]] obtain j where b1: "b1 = apply_mutation ((audit_only ev)\<lparr>mu_Grant := Some (deactivated g)\<rparr>) seq (b\<lparr>b_journal := j\<rparr>)"
      by blast
    have g2: "go_lookup (b_grants ?b2) i = (if i = gr_ID (gd_View g) then Some (deactivated g) else go_lookup (b_grants b) i)" for i
      unfolding quiet_sel(4) [OF q] by (simp add: b1 gomap_simps)
    have s2: "bsteps E b ?b2" using st quiet_steps [OF q] by (rule rtranclp_trans)
    have ok2: "broker_ok E ?b2" by (rule bsteps_ok [OF s2 Cons.prems(2)])
    from Cons.prems(1) w ev Inr have run: "retire_loop E now a cred olds ?b2 = (b', x)" by simp
    have dd: "deactivated (deactivated h) = deactivated h" for h by (simp add: deactivated_def)
    have "\<forall>h\<in>set olds. go_lookup (b_grants ?b2) (gr_ID (gd_View h)) = Some h \<or> go_lookup (b_grants ?b2) (gr_ID (gd_View h)) = Some (deactivated h)"
    proof
      fix h
      assume "h \<in> set olds"
      with Cons.prems(3) have h: "go_lookup (b_grants b) (gr_ID (gd_View h)) = Some h \<or> go_lookup (b_grants b) (gr_ID (gd_View h)) = Some (deactivated h)" by simp
      from Cons.prems(3) have "go_lookup (b_grants b) (gr_ID (gd_View g)) = Some g \<or> go_lookup (b_grants b) (gr_ID (gd_View g)) = Some (deactivated g)" by simp
      with h show "go_lookup (b_grants ?b2) (gr_ID (gd_View h)) = Some h \<or> go_lookup (b_grants ?b2) (gr_ID (gd_View h)) = Some (deactivated h)"
        unfolding g2 by (metis (no_types) dd option.inject)
    qed
    from Cons.IH [OF run ok2 this] have ih: "bsteps E ?b2 b'" "b_catalog b' = b_catalog ?b2"
      "\<And>i. go_lookup (b_grants b') i = go_lookup (b_grants ?b2) i \<or> (\<exists>g\<in>set olds. go_lookup (b_grants b') i = Some (deactivated g))"
      "x = Inr () \<Longrightarrow> \<forall>g\<in>set olds. go_lookup (b_grants b') (gr_ID (gd_View g)) = Some (deactivated g)" by simp_all
    have cat: "b_catalog ?b2 = b_catalog b" unfolding quiet_sel(7) [OF q] by (simp add: b1 put_opt_def)
    have tab: "go_lookup (b_grants b') i = go_lookup (b_grants b) i \<or> (\<exists>h\<in>set (g # olds). go_lookup (b_grants b') i = Some (deactivated h))" for i
      using ih(3) [of i] g2 [of i] by (auto split: if_splits)
    have done': "go_lookup (b_grants b') (gr_ID (gd_View g)) = Some (deactivated g)" if "x = Inr ()"
    proof -
      have "go_lookup (b_grants ?b2) (gr_ID (gd_View g)) = Some (deactivated g)" by (simp add: g2)
      from grant_stays [OF ih(1) this] dd show ?thesis by auto
    qed
    show ?thesis using rtranclp_trans [OF s2 ih(1)] ih(2,4) cat tab done' by simp
  qed
qed simp

lemma CreateGrant_steps:
  assumes "CreateGrant E now rnd a cred inp b = (b', x)" "broker_ok E b" "go_lookup (b_grants b) (newID ''g'' rnd) = None"
  shows "bsteps E b b'"
proof (cases "b' = b")
  case False
  let ?ck = "contract_key (gi_ContractID inp) (gi_ContractRevision inp)"
  let ?fp = "Digest E (json_grant_request E inp)" and ?idem = "requestKey E a (''grant/'' @ cred @ ''/'' @ gi_IdempotencyKey inp)"
  from assms(1) False obtain target rs where t: "go_lookup (b_catalog b) ?ck = Some target"
    and l: "grant_loop b a cred ?ck target ?idem ?fp inp [] (b_grants b) = Inr rs"
    and gw: "grant_write E now a cred (new_grant E rnd a cred ?ck target ?idem ?fp inp) rs b = (b', x)"
    unfolding CreateGrant_def Let_def by (auto split: if_splits option.splits sum.splits)
  obtain b1 y where r: "retire_loop E now a cred rs b = (b1, y)" by fastforce
  note gl = grant_loop_Inr [OF l]
  have wf: "go_wf (b_grants b)" and kd: "keyed b" using assms(2) by (simp_all add: broker_ok_def keyed_def)
  have "go_lookup (b_grants b) (gr_ID (gd_View g)) = Some g" if "g \<in> set rs" for g
  proof -
    from gl that obtain k where "(k, g) \<in> set (b_grants b)" by auto
    then have "go_lookup (b_grants b) k = Some g" using go_in_lookup [OF wf] by blast
    with keyedD(4) [OF kd this] show ?thesis by simp
  qed
  then have rs: "\<forall>g\<in>set rs. go_lookup (b_grants b) (gr_ID (gd_View g)) = Some g \<or> go_lookup (b_grants b) (gr_ID (gd_View g)) = Some (deactivated g)" by simp
  note f = retire_loop_facts [OF r assms(2) rs]
  from f have st: "bsteps E b b1" and cat: "b_catalog b1 = b_catalog b" by blast+
  from f have tab: "go_lookup (b_grants b1) i = go_lookup (b_grants b) i \<or> (\<exists>g\<in>set rs. go_lookup (b_grants b1) i = Some (deactivated g))" for i
    by blast
  have kd1: "keyed b1" by (rule broker_ok_keyed [OF bsteps_ok [OF st assms(2)]])
  show ?thesis
  proof (cases "b' = b1")
    case True
    with st show ?thesis by simp
  next
    case nb: False
    define g where "g = new_grant E rnd a cred ?ck target ?idem ?fp inp"
    have gw': "grant_write E now a cred g rs b = (b', x)" using gw by (simp only: g_def)
    obtain y: "y = Inr ()" using gw' nb r by (cases y) (simp_all add: grant_write_def)
    let ?ev = "grant_event now ''grant.created'' a cred (gd_View g)"
    obtain b2 z where w2: "commit E ((audit_only ?ev)\<lparr>mu_Grant := Some g\<rparr>) b1 = (b2, z)" by fastforce
    with gw' r y have "b' = b2" by (cases z) (simp_all add: grant_write_def)
    with w2 have w: "commit E ((audit_only ?ev)\<lparr>mu_Grant := Some g\<rparr>) b1 = (b', z)" by simp
    have gid: "gr_ID (gd_View g) = newID ''g'' rnd" by (simp add: g_def new_grant_def)
    have gsel: "gr_BindingID (gd_View g) = gi_BindingID inp" "gr_ContextID (gd_View g) = gi_ContextID inp"
      "gr_PrincipalID (gd_View g) = gi_PrincipalID inp" "gr_WorkloadID (gd_View g) = gi_WorkloadID inp"
      "gr_Execution (gd_View g) = gi_Execution inp" "gr_CredentialID (gd_View g) = cred" "gd_ContractKey g = ?ck"
      by (simp_all add: g_def new_grant_def)
    have cg: "catalog_get b ?ck = target" "catalog_get b1 k = catalog_get b k" for k by (simp_all add: go_get_def cat t)
    have "grant_step b1 g"
      unfolding grant_step_def gid
    proof -
      have "go_lookup (b_grants b1) (newID ''g'' rnd) = None"
      proof (rule ccontr)
        assume "go_lookup (b_grants b1) (newID ''g'' rnd) \<noteq> None"
        with tab [of "newID ''g'' rnd"] assms(3) obtain h where h: "h \<in> set rs" "go_lookup (b_grants b1) (newID ''g'' rnd) = Some (deactivated h)" by auto
        from keyedD(4) [OF kd1 h(2)] have "gr_ID (gd_View h) = newID ''g'' rnd" by simp
        with rs h(1) assms(3) show False by auto
      qed
      moreover have "go_lookup (b_catalog b1) (gd_ContractKey g) \<noteq> None" by (simp add: cat t g_def new_grant_def)
      moreover have "coexist b1 g h" if h: "go_lookup (b_grants b1) i = Some h" "gr_Active (gd_View h)" for i h
      proof -
        from tab [of i] h have "go_lookup (b_grants b) i = Some h" by auto
        then have mem: "(i, h) \<in> set (b_grants b)" by (rule go_lookup_in)
        have "h \<notin> set rs"
        proof
          assume "h \<in> set rs"
          with f y have "go_lookup (b_grants b1) (gr_ID (gd_View h)) = Some (deactivated h)" by simp
          moreover have "gr_ID (gd_View h) = i" using keyedD(4) [OF kd] \<open>go_lookup (b_grants b) i = Some h\<close> by blast
          ultimately show False using h by (metis deactivated_sel(2) option.inject)
        qed
        with gl mem h(2) have "passes b cred ?ck target inp h" by blast
        then show ?thesis unfolding coexist_def passes_def same_binding_def gsel cg by argo
      qed
      ultimately show "case go_lookup (b_grants b1) (newID ''g'' rnd) of
          None \<Rightarrow> go_lookup (b_catalog b1) (gd_ContractKey g) \<noteq> None \<and>
            (\<forall>i h. go_lookup (b_grants b1) i = Some h \<and> gr_Active (gd_View h) \<longrightarrow> coexist b1 g h)
        | Some q \<Rightarrow> g = deactivated q" by auto
    qed
    from commit_steps [OF w bsteps_ok [OF st assms(2)] allowed_grant [OF this]] st show ?thesis by simp
  qed
qed simp

end
