(* ===== verification/Broker_Refine_Use.thy ===== *)
theory Broker_Refine_Use
  imports Broker_Refine
begin

text \<open>
  Refinement, continued: revocation, deletion, leases, their use, and the OAuth flow are
  sequences of steps of \<open>Broker_Steps\<close>.
\<close>

section \<open>Revocation\<close>

lemma RevokeGrant_steps:
  assumes "RevokeGrant E now a i b = (b', x)" "broker_ok E b"
  shows "bsteps E b b'"
proof (cases "b' = b")
  case False
  from assms(1) False obtain g where g: "go_lookup (b_grants b) i = Some g" by (auto simp: RevokeGrant_def split: option.splits)
  from assms(1) False g obtain ev b1 y where w: "commit E ((audit_only ev)\<lparr>mu_Grant := Some (deactivated g)\<rparr>) b = (b1, y)"
    and "b' = b1 \<or> b' = drop_where (\<lambda>l. lv_GrantID (lr_View l) = i) b1"
    by (auto simp: RevokeGrant_def Let_def split: if_splits option.splits prod.splits sum.splits)
  then have q: "quiet E b1 b'" using drop_where_quiet [of E b1] by auto
  have "gr_ID (gd_View g) = i" by (rule keyedD(4) [OF broker_ok_keyed [OF assms(2)] g])
  with g have "allowed b ((audit_only ev)\<lparr>mu_Grant := Some (deactivated g)\<rparr>)" by (intro allowed_deactivate) simp
  from commit_steps [OF w assms(2) this] quiet_steps [OF q] show ?thesis by (rule rtranclp_trans)
qed simp

lemma revoke_grants_loop_steps:
  assumes "revoke_grants_loop E now a cred gs b = (b', x)" "broker_ok E b"
    "\<forall>(k, g)\<in>set gs. gr_ID (gd_View g) = k \<and> (go_lookup (b_grants b) k = Some g \<or> go_lookup (b_grants b) k = Some (deactivated g))"
  shows "bsteps E b b'"
  using assms
proof (induction gs arbitrary: b)
  case (Cons y gs)
  obtain k g where y: "y = (k, g)" by fastforce
  show ?case
  proof (cases "gr_CredentialID (gd_View g) \<noteq> cred \<or> \<not> gr_Active (gd_View g)")
    case True
    with Cons y show ?thesis by simp
  next
    case False
    let ?m = "(audit_only ((grant_event now ''grant.revoked'' a cred (gd_View g))\<lparr>ev_GrantID := k\<rparr>))\<lparr>mu_Grant := Some (deactivated g)\<rparr>"
    obtain b1 z where w: "commit E ?m b = (b1, z)" by fastforce
    have "allowed b ?m" using Cons.prems(3) y by (intro allowed_deactivate) auto
    note st = commit_steps [OF w Cons.prems(2) this]
    show ?thesis
    proof (cases z)
      case (Inl e)
      with w Cons.prems(1) y False st show ?thesis by auto
    next
      case (Inr seq)
      with w Cons.prems(1) y False have run: "revoke_grants_loop E now a cred gs b1 = (b', x)" by simp
      have dd: "deactivated (deactivated h) = deactivated h" for h by (simp add: deactivated_def)
      have "gr_ID (gd_View h) = j \<and> (go_lookup (b_grants b1) j = Some h \<or> go_lookup (b_grants b1) j = Some (deactivated h))"
        if "(j, h) \<in> set gs" for j h
      proof -
        from Cons.prems(3) that have h: "gr_ID (gd_View h) = j" "go_lookup (b_grants b) j = Some h \<or> go_lookup (b_grants b) j = Some (deactivated h)" by auto
        then show ?thesis using grant_stays [OF st, of j h] grant_stays [OF st, of j "deactivated h"] dd by auto
      qed
      then have "\<forall>(k, g)\<in>set gs. gr_ID (gd_View g) = k \<and> (go_lookup (b_grants b1) k = Some g \<or> go_lookup (b_grants b1) k = Some (deactivated g))" by blast
      from Cons.IH [OF run bsteps_ok [OF st Cons.prems(2)] this] st show ?thesis by simp
    qed
  qed
qed simp

lemma allowed_credential:
  "credential_step (go_lookup (b_credentials b) (cr_ID (cd_View c))) c \<Longrightarrow> allowed b ((audit_only ev)\<lparr>mu_Credential := Some c\<rparr>)"
  by (simp add: allowed_def)

lemma RevokeCredential_steps:
  assumes "RevokeCredential E now a i b = (b', x)" "broker_ok E b"
  shows "bsteps E b b'"
proof (cases "b' = b")
  case False
  from assms(1) False obtain c where c: "go_lookup (b_credentials b) i = Some c" "cr_Status (cd_View c) \<noteq> ''deleted''" "managedBy a c"
      "cr_Status (cd_View c) \<noteq> ''revoked''"
    by (auto simp: RevokeCredential_def split: option.splits if_splits)
  let ?c = "c\<lparr>cd_View := (cd_View c)\<lparr>cr_Status := ''revoked'', cr_Revision := cr_Revision (cd_View c) + 1\<rparr>\<rparr>"
  let ?m = "(audit_only ((audit now ''credential.revoked'' a)\<lparr>ev_CredentialID := i, ev_ConnectionID := cr_ConnectionID (cd_View ?c),
                       ev_ConsumerID := cr_ConsumerID (cd_View ?c)\<rparr>))\<lparr>mu_Credential := Some ?c\<rparr>"
  obtain b1 y where w: "commit E ?m b = (b1, y)" by fastforce
  have "cr_ID (cd_View c) = i" by (rule keyedD(3) [OF broker_ok_keyed [OF assms(2)] c(1)])
  with c have "allowed b ?m" by (intro allowed_credential) (simp add: credential_step_def)
  note st = commit_steps [OF w assms(2) this]
  show ?thesis
  proof (cases y)
    case (Inl e)
    with assms(1) c w have "b' = b1" by (simp add: RevokeCredential_def Let_def)
    with st show ?thesis by simp
  next
    case (Inr seq)
    let ?b2 = "invalidateCredential i b1"
    from Inr assms(1) c w have run: "revoke_grants_loop E now a i (b_grants ?b2) ?b2 = (b', x)" by (simp add: RevokeCredential_def Let_def)
    have s2: "bsteps E b ?b2" using st quiet_steps [OF invalidate_quiet] by (rule rtranclp_trans)
    have ok2: "broker_ok E ?b2" by (rule bsteps_ok [OF s2 assms(2)])
    then have wf: "go_wf (b_grants ?b2)" and kd: "keyed ?b2" by (simp_all add: broker_ok_def keyed_def)
    have "\<forall>(k, g)\<in>set (b_grants ?b2). gr_ID (gd_View g) = k \<and> (go_lookup (b_grants ?b2) k = Some g \<or> go_lookup (b_grants ?b2) k = Some (deactivated g))"
      using go_in_lookup [OF wf] keyedD(4) [OF kd] by blast
    from revoke_grants_loop_steps [OF run ok2 this] s2 show ?thesis by simp
  qed
qed simp

lemma delete_locked_steps:
  assumes "delete_locked E now a i b = (b', x)" "broker_ok E b" "go_lookup (b_credentials b) i \<noteq> None"
  shows "bsteps E b b'"
proof -
  from assms(3) obtain c where c: "go_lookup (b_credentials b) i = Some c" by blast
  then have get: "go_get no_credential (b_credentials b) i = c" by (simp add: go_get_def)
  have id: "cr_ID (cd_View c) = i" by (rule keyedD(3) [OF broker_ok_keyed [OF assms(2)] c])
  show ?thesis
  proof (cases "cr_Status (cd_View c) = ''deleted''")
    case True
    with assms(1) show ?thesis by (simp add: delete_locked_def get)
  next
    case False
    let ?c = "c\<lparr>cd_View := (cd_View c)\<lparr>cr_Status := ''deleted''\<rparr>\<rparr>"
    from assms(1) False consider
        (world) w where "b' = b\<lparr>b_world := w\<rparr>"
      | (wrote) w ev y where "commit E ((audit_only ev)\<lparr>mu_Credential := Some ?c\<rparr>) (b\<lparr>b_world := w\<rparr>) = (b', y)"
      by (auto simp: delete_locked_def get Let_def split: prod.splits bool.splits dest!: result_unit_pair)
    then show ?thesis
    proof cases
      case world
      then show ?thesis by (simp add: quiet_steps)
    next
      case wrote
      have q: "quiet E b (b\<lparr>b_world := w\<rparr>)" by simp
      have "allowed (b\<lparr>b_world := w\<rparr>) ((audit_only ev)\<lparr>mu_Credential := Some ?c\<rparr>)"
        using False c id by (intro allowed_credential) (simp add: credential_step_def)
      from steps_after_quiet [OF q assms(2) commit_steps [OF wrote _ this]] show ?thesis .
    qed
  qed
qed

lemma DeleteCredential_steps:
  assumes "DeleteCredential E now1 now2 other a i b = (b', x)" "broker_ok E b" "\<And>z. bsteps E z (other z)"
  shows "bsteps E b b'"
proof -
  obtain b1 y where r: "RevokeCredential E now1 a i b = (b1, y)" by fastforce
  note st = RevokeCredential_steps [OF r assms(2)]
  show ?thesis
  proof (cases y)
    case (Inl e)
    with assms(1) r st show ?thesis by (simp add: DeleteCredential_def)
  next
    case (Inr u)
    have st2: "bsteps E b (other b1)" using st assms(3) by (rule rtranclp_trans)
    from Inr r obtain c where "go_lookup (b_credentials b) i = Some c" by (auto simp: RevokeCredential_def split: option.splits)
    from credential_grows [OF st2 this] have "go_lookup (b_credentials (other b1)) i \<noteq> None" by auto
    moreover from Inr assms(1) r have "delete_locked E now2 a i (other b1) = (b', x)" by (simp add: DeleteCredential_def)
    ultimately have "bsteps E (other b1) b'" using delete_locked_steps bsteps_ok [OF st2 assms(2)] by blast
    with st2 show ?thesis by simp
  qed
qed

section \<open>Leases\<close>

lemma lease_facts:
  assumes "lease now a i b = Inr (l, g, c)"
  shows "live b" "go_lookup (b_leases b) i = Some l" "go_lookup (b_grants b) (lv_GrantID (lr_View l)) = Some g" "grantMatches a g"
    "go_lookup (b_credentials b) (lv_CredentialID (lr_View l)) = Some c" "cr_Status (cd_View c) = ''active''"
    "cr_Revision (cd_View c) = lv_Revision (lr_View l)" "now < lv_ExpiresAt (lr_View l)"
  using assms by (auto simp: lease_def split: if_splits option.splits)

lemma commit_leases: "commit E m b = (b', x) \<Longrightarrow> b_leases b' = b_leases b"
  by (auto simp: commit_def split: if_splits prod.splits sum.splits)

text \<open>An audit record and then a change of a lease that keeps what it stands for.\<close>

lemma audit_touch_steps:
  assumes "commit E (audit_only ev) b = (b1, Inr seq)" "broker_ok E b" "go_lookup (b_leases b) i = Some l" "lease_core l' = lease_core l"
  shows "bsteps E b (b1\<lparr>b_leases := go_update i l' (b_leases b1)\<rparr>)"
proof -
  have "bsteps E b b1" by (rule commit_steps [OF assms(1,2)]) simp
  moreover have "bstep E b1 (b1\<lparr>b_leases := go_update i l' (b_leases b1)\<rparr>)"
    by (rule bstep_touch) (use assms(3,4) in \<open>simp_all add: commit_leases [OF assms(1)]\<close>)
  ultimately show ?thesis by simp
qed

lemma acquire_write_steps:
  assumes "acquire_write E now a g c view sk b = (b', x)" "broker_ok E b"
    "go_lookup (b_leases b) (lv_ID view) = None" "length (b_leases b) < 4096"
    "go_lookup (b_credentials b) (lv_CredentialID view) = Some c" "lv_Revision view \<le> cr_Revision (cd_View c)"
    "\<And>j k. sk \<noteq> [] \<Longrightarrow> go_lookup (b_leases b) j = Some k \<Longrightarrow> lr_StateKey k \<noteq> sk"
  shows "bsteps E b b'"
proof -
  let ?ev = "(audit now ''lease.acquired'' a)\<lparr>ev_CredentialID := cr_ID (cd_View c), ev_GrantID := gr_ID (gd_View g),
                 ev_LeaseID := lv_ID view, ev_BindingID := gr_BindingID (gd_View g), ev_WorkloadID := gr_WorkloadID (gd_View g)\<rparr>"
  let ?l = "\<lparr>lr_View = view, lr_Materialized = None, lr_StateKey = sk, lr_Active = []\<rparr>"
  obtain b1 y where w: "commit E (audit_only ?ev) b = (b1, y)" by fastforce
  have st: "bsteps E b b1" by (rule commit_steps [OF w assms(2)]) simp
  show ?thesis
  proof (cases y)
    case (Inl e)
    with assms(1) w st show ?thesis by (simp add: acquire_write_def Let_def)
  next
    case (Inr seq)
    with assms(1) w have b': "b' = b1\<lparr>b_leases := go_update (lv_ID view) ?l (b_leases b1)\<rparr>" by (simp add: acquire_write_def Let_def)
    from credential_grows [OF st assms(5)] obtain c1 where "go_lookup (b_credentials b1) (lv_CredentialID view) = Some c1"
      "cr_Revision (cd_View c) \<le> cr_Revision (cd_View c1)" by blast
    with assms(6) have "\<exists>c. go_lookup (b_credentials b1) (lv_CredentialID view) = Some c \<and> lv_Revision view \<le> cr_Revision (cd_View c)"
      by (meson le_trans)
    with assms(3,4,7) have "lease_fits b1 (lv_ID view) ?l" by (simp add: lease_fits_def commit_leases [OF w])
    then have "bstep E b1 b'" unfolding b' by (rule bstep_lease)
    with st show ?thesis by simp
  qed
qed

lemma Acquire_steps:
  assumes "Acquire E now rnd a inp b = (b', x)" "broker_ok E b" "go_lookup (b_leases b) (newID ''l'' rnd) = None"
  shows "bsteps E b b'"
proof (cases "b' = b \<or> b' = sweepLocked now b")
  case True
  then show ?thesis using quiet_steps [OF sweep_quiet] by auto
next
  case False
  let ?b = "sweepLocked now b"
  have q: "quiet E b ?b" by (rule sweep_quiet)
  then have sub: "go_lookup (b_leases ?b) i = Some l \<Longrightarrow> go_lookup (b_leases b) i = Some l" for i l by (simp add: quiet_def)
  have ok: "broker_ok E ?b" by (rule quiet_ok [OF q assms(2)])
  from assms(1) False obtain g c expires sk where run: "acquire_write E now a g c (new_lease rnd expires g c (catalog_get ?b (gd_ContractKey g))) sk ?b
        = (b', x)" and g: "go_lookup (b_grants ?b) (al_GrantID inp) = Some g"
    "go_lookup (b_credentials ?b) (gr_CredentialID (gd_View g)) = Some c" and lim: "\<not> 4096 \<le> length (b_leases ?b)"
    and key: "sk = [] \<or> \<not> list_ex (\<lambda>(_, l). lr_StateKey l = sk) (b_leases ?b)"
    unfolding Acquire_def Let_def by (auto split: if_splits option.splits)
  define view where "view = new_lease rnd expires g c (catalog_get ?b (gd_ContractKey g))"
  have free: "lr_StateKey k \<noteq> sk" if "sk \<noteq> []" "go_lookup (b_leases ?b) j = Some k" for j k
    using key that by (auto simp: list_ex_iff dest!: go_lookup_in)
  have "cr_ID (cd_View c) = gr_CredentialID (gd_View g)" by (rule keyedD(3) [OF broker_ok_keyed [OF ok] g(2)])
  with g(2) have cred: "go_lookup (b_credentials ?b) (lv_CredentialID view) = Some c" "lv_Revision view = cr_Revision (cd_View c)"
    "lv_ID view = newID ''l'' rnd" by (simp_all add: view_def new_lease_def)
  have "go_lookup (b_leases ?b) (lv_ID view) = None" using sub [of "newID ''l'' rnd"] assms(3) cred(3) by (cases "go_lookup (b_leases ?b) (lv_ID view)") auto
  from acquire_write_steps [OF run [folded view_def] ok this _ cred(1) _ free] lim cred(2) have "bsteps E ?b b'" by simp
  with quiet_steps [OF q] show ?thesis by simp
qed

text \<open>The same, for an operation that is an audit record followed by such a change.\<close>

lemma audit_then_touch:
  assumes "commit E (audit_only ev) b = (b1, y)" "broker_ok E b" "lease now a i b = Inr (l, g, c)" "lease_core l' = lease_core l"
    "b' = (case y of Inl _ \<Rightarrow> b1 | Inr _ \<Rightarrow> b1\<lparr>b_leases := go_update i l' (b_leases b1)\<rparr>)"
  shows "bsteps E b b'"
  using assms(1,5) audit_touch_steps [OF _ assms(2) lease_facts(2) [OF assms(3)] assms(4), of ev b1] commit_steps [OF assms(1,2)]
  by (cases y) auto

lemma Renew_steps:
  assumes "Renew E now a i seconds b = (b', x)" "broker_ok E b"
  shows "bsteps E b b'"
proof (cases "b' = b")
  case False
  from assms(1) False obtain l g c where l: "lease now a i b = Inr (l, g, c)" by (auto simp: Renew_def split: sum.splits)
  let ?e = "now + seconds * second"
  let ?l = "l\<lparr>lr_View := (lr_View l)\<lparr>lv_ExpiresAt := ?e\<rparr>, lr_Materialized := map_option (\<lambda>m. m\<lparr>mz_ExpiresAt := ?e\<rparr>) (lr_Materialized l)\<rparr>"
  let ?ev = "(audit now ''lease.renewed'' a)\<lparr>ev_LeaseID := i, ev_CredentialID := cr_ID (cd_View c), ev_GrantID := gr_ID (gd_View g)\<rparr>"
  obtain b1 y where w: "commit E (audit_only ?ev) b = (b1, y)" by fastforce
  with assms(1) False l have "b' = (case y of Inl _ \<Rightarrow> b1 | Inr _ \<Rightarrow> b1\<lparr>b_leases := go_update i ?l (b_leases b1)\<rparr>)"
    by (cases y) (auto simp: Renew_def Let_def split: if_splits)
  then show ?thesis by (rule audit_then_touch [OF w assms(2) l, rotated]) (simp add: lease_core_def)
qed simp

section \<open>Use of a lease\<close>

lemma BeginUse_steps:
  assumes "BeginUse E now rnd a i b = (b', x)" "broker_ok E b"
  shows "bsteps E b b'"
proof (cases "b' = b")
  case False
  from assms(1) False obtain l g c where l: "lease now a i b = Inr (l, g, c)" by (auto simp: BeginUse_def split: sum.splits if_splits)
  let ?l = "l\<lparr>lr_Active := newID ''u'' rnd # lr_Active l\<rparr>"
  let ?ev = "(audit now ''lease.used'' a)\<lparr>ev_LeaseID := i, ev_GrantID := gr_ID (gd_View g), ev_CredentialID := cr_ID (cd_View c),
                       ev_BindingID := gr_BindingID (gd_View g), ev_WorkloadID := gr_WorkloadID (gd_View g)\<rparr>"
  obtain b1 y where w: "commit E (audit_only ?ev) b = (b1, y)" by fastforce
  with assms(1) False l have "b' = (case y of Inl _ \<Rightarrow> b1 | Inr _ \<Rightarrow> b1\<lparr>b_leases := go_update i ?l (b_leases b1)\<rparr>)"
    by (cases y) (auto simp: BeginUse_def Let_def split: if_splits)
  then show ?thesis by (rule audit_then_touch [OF w assms(2) l, rotated]) (simp add: lease_core_def)
qed simp

lemma Finish_steps: "bsteps E b (Finish u b)"
proof -
  let ?b1 = "b\<lparr>b_canceled := us_Op u # b_canceled b\<rparr>"
  have st: "bsteps E b ?b1" by (rule quiet_steps) simp
  show ?thesis
  proof (cases "go_lookup (b_leases b) (us_Lease u)")
    case None
    with st show ?thesis by (simp add: Finish_def Let_def)
  next
    case (Some l)
    let ?l = "l\<lparr>lr_Active := removeAll (us_Op u) (lr_Active l)\<rparr>"
    have "bstep E ?b1 (?b1\<lparr>b_leases := go_update (us_Lease u) ?l (b_leases ?b1)\<rparr>)"
      by (rule bstep_touch [of _ _ l]) (simp_all add: Some lease_core_def)
    with st Some show ?thesis by (simp add: Finish_def Let_def)
  qed
qed

lemma Resolve_steps:
  assumes "Resolve E now other u b = (b', x)" "\<And>k z. bsteps E z (other k z)"
  shows "bsteps E b b'"
proof (cases "b' = b")
  case False
  obtain b1 y where r: "broker_resolve (us_Ref u) (other 0 b) = (b1, y)" by fastforce
  have st: "bsteps E b b1" using assms(2) quiet_steps [OF broker_resolve_quiet [OF r]] by (rule rtranclp_trans)
  from assms(1) False r have "b' = b1 \<or> b' = other 1 b1" by (auto simp: Resolve_def Let_def split: if_splits sum.splits)
  with st assms(2) [of b1 1] show ?thesis by auto
qed simp

lemma resolve_state_steps: "resolve_state st b = (b', x) \<Longrightarrow> bsteps E b b'"
  by (auto simp: resolve_state_def split: if_splits prod.splits sum.splits intro: quiet_steps dest!: broker_resolve_quiet [of _ b _ _ E])

lemma materialize_commit_steps:
  assumes "materialize_commit E now a i expires u values state b = (b', x)" "broker_ok E b"
  shows "bsteps E b b'"
proof (cases "b' = b")
  case False
  from assms(1) False obtain l g c where l: "lease now a i b = Inr (l, g, c)" by (auto simp: materialize_commit_def split: sum.splits)
  obtain mgr y where p: "Prepare E i expires (us_Contract u) values state (b_manager b) = (mgr, y)" by fastforce
  let ?b = "b\<lparr>b_manager := mgr\<rparr>" and ?ev = "(audit now ''lease.materialized'' a)\<lparr>ev_LeaseID := i, ev_CredentialID := us_CredentialID u\<rparr>"
  have q: "quiet E b ?b" by simp
  obtain b1 z where w: "commit E (audit_only ?ev) ?b = (b1, z)" by fastforce
  have ok: "broker_ok E ?b" by (rule quiet_ok [OF q assms(2)])
  have s1: "bsteps E b b1" using quiet_steps [OF q] commit_steps [OF w ok] by simp
  show ?thesis
  proof (cases "\<exists>e. y = Inl e")
    case True
    with assms(1) False l p have "b' = ?b" by (auto simp: materialize_commit_def split: option.splits)
    with quiet_steps [OF q] show ?thesis by simp
  next
    case made: False
    then obtain out where out: "y = Inr out" by (cases y) auto
    let ?l = "l\<lparr>lr_Materialized := Some out\<rparr>"
    show ?thesis
    proof (cases z)
      case (Inl e)
      with assms(1) False l p w out have "b' = b1\<lparr>b_manager := fst (Manager_Remove i (b_manager b1))\<rparr>"
        by (auto simp: materialize_commit_def Let_def split: option.splits)
      with s1 show ?thesis by (metis quiet_fields(2) quiet_steps rtranclp_trans)
    next
      case (Inr seq)
      with assms(1) False l p w out have b': "b' = b1\<lparr>b_leases := go_update i ?l (b_leases b1)\<rparr>"
        by (auto simp: materialize_commit_def Let_def split: option.splits)
      have "bsteps E ?b b'"
        unfolding b' by (rule audit_touch_steps [OF w [unfolded Inr] ok]) (use lease_facts(2) [OF l] in \<open>simp_all add: lease_core_def\<close>)
      with quiet_steps [OF q] show ?thesis by simp
    qed
  qed
qed simp

lemma materialize_used_steps:
  assumes "materialize_used E now other a i u b = (b', x)" "broker_ok E b" "\<And>k z. bsteps E z (other k z)"
  shows "bsteps E b b'"
proof (cases "b' = b")
  case False
  from assms(1) False obtain l g c where l: "lease (now 1) a i b = Inr (l, g, c)" by (auto simp: materialize_used_def split: sum.splits)
  let ?st = "go_get no_state (b_states b) (lr_StateKey l)"
  obtain b1 y where r: "Resolve E (\<lambda>k. now (2 + k)) (\<lambda>k. other (2 + k)) u (other 1 b) = (b1, y)" by fastforce
  have s1: "bsteps E b b1" using assms(3) [of b 1] Resolve_steps [OF r assms(3)] by simp
  obtain b2 z where r2: "resolve_state ?st (other 4 b1) = (b2, z)" by fastforce
  have s2: "bsteps E b b2" using s1 assms(3) [of b1 4] resolve_state_steps [OF r2, of E] by simp
  from assms(1) False l r r2 have "b' = b1 \<or> b' = b2 \<or>
      (\<exists>vals state. materialize_commit E (now 4) a i (lv_ExpiresAt (lr_View l)) u vals state (other 5 b2) = (b', x))"
    by (auto simp: materialize_used_def Let_def split: option.splits sum.splits)
  moreover have "bsteps E b b'" if "materialize_commit E (now 4) a i (lv_ExpiresAt (lr_View l)) u vals state (other 5 b2) = (b', x)" for vals state
  proof -
    have s3: "bsteps E b (other 5 b2)" using s2 assms(3) by (rule rtranclp_trans)
    from materialize_commit_steps [OF that bsteps_ok [OF s3 assms(2)]] s3 show ?thesis by simp
  qed
  ultimately show ?thesis using s1 s2 by blast
qed simp

lemma Materialize_steps:
  assumes "Broker_Materialize E now other rnd a i b = (b', x)" "broker_ok E b" "\<And>k z. bsteps E z (other k z)"
  shows "bsteps E b b'"
proof -
  obtain b1 y where u: "BeginUse E (now 0) rnd a i b = (b1, y)" by fastforce
  note s1 = BeginUse_steps [OF u assms(2)]
  show ?thesis
  proof (cases y)
    case (Inl e)
    with assms(1) u s1 show ?thesis by (simp add: Broker_Materialize_def)
  next
    case (Inr us)
    obtain b2 z where m: "materialize_used E now other a i us (other 0 b1) = (b2, z)" by fastforce
    have s2: "bsteps E b (other 0 b1)" using s1 assms(3) by (rule rtranclp_trans)
    have "bsteps E b b2" using s2 materialize_used_steps [OF m bsteps_ok [OF s2 assms(2)] assms(3)] by simp
    moreover have "b' = Finish us (other 6 b2)" using assms(1) u Inr m by (simp add: Broker_Materialize_def)
    ultimately show ?thesis using assms(3) [of b2 6] Finish_steps [of E "other 6 b2" us] by simp
  qed
qed

lemma checkpoint_steps:
  assumes "checkpoint E now a i inp l g c b = (b', x)" "broker_ok E b"
  shows "bsteps E b b'"
proof (cases "b' = b")
  case False
  obtain mgr y where s: "Snapshot E i (catalog_get b (gd_ContractKey g)) (b_manager b) = (mgr, y)" by fastforce
  let ?b = "b\<lparr>b_manager := mgr\<rparr>"
  have q: "quiet E b ?b" by simp
  show ?thesis
  proof (cases y)
    case (Inl e)
    with assms(1) False s have "b' = ?b" by (auto simp: checkpoint_def split: if_splits)
    with quiet_steps [OF q] show ?thesis by simp
  next
    case (Inr vals)
    obtain b1 z where p: "broker_put (c_Storage (catalog_get b (gd_ContractKey g))) vals ?b = (b1, z)" by fastforce
    have q1: "quiet E b b1" using quiet_trans [OF q broker_put_quiet [OF p]] .
    show ?thesis
    proof (cases z)
      case fail: (Inl e)
      with assms(1) False s Inr p have "b' = b1" by (auto simp: checkpoint_def split: if_splits)
      with quiet_steps [OF q1] show ?thesis by simp
    next
      case put: (Inr ref)
      let ?old = "go_get no_state (b_states b1) (lr_StateKey l)"
      let ?sr = "\<lparr>sr_OwnedRefs = sr_OwnedRefs ?old @ [ref], sr_Key = lr_StateKey l, sr_Ref = ref, sr_Revision = sr_Revision ?old + 1\<rparr>"
      from assms(1) False s Inr p put obtain ev v where w: "commit E ((audit_only ev)\<lparr>mu_State := Some ?sr\<rparr>) b1 = (b', v)"
        by (auto simp: checkpoint_def Let_def split: if_splits dest!: result_unit_pair)
      have "allowed b1 ((audit_only ev)\<lparr>mu_State := Some ?sr\<rparr>)"
        by (auto simp: allowed_def state_step_def go_get_def no_state_def split: option.splits)
      from steps_after_quiet [OF q1 assms(2) commit_steps [OF w _ this]] show ?thesis .
    qed
  qed
qed simp

lemma Release_steps:
  assumes "Release E now a i inp b = (b', x)" "broker_ok E b"
  shows "bsteps E b b'"
proof (cases "\<exists>e. lease now a i b = Inl e")
  case True
  with assms(1) show ?thesis by (auto simp: Release_def)
next
  case False
  then obtain l g c where l: "lease now a i b = Inr (l, g, c)" by (cases "lease now a i b") auto
  obtain b1 y where k: "(if rl_Checkpoint inp then checkpoint E now a i inp l g c b else (b, Inr ())) = (b1, y)" by fastforce
  have s1: "bsteps E b b1" using k checkpoint_steps [OF _ assms(2)] by (auto split: if_splits)
  show ?thesis
  proof (cases y)
    case (Inl e)
    with assms(1) l k s1 show ?thesis by (simp add: Release_def)
  next
    case (Inr v)
    from assms(1) l k Inr obtain ev b2 z where w: "commit E (audit_only ev) b1 = (b2, z)" and b': "b' = b2 \<or> b' = dropLease i b2"
      by (auto simp: Release_def Let_def split: prod.splits sum.splits)
    have "bsteps E b b2" using s1 commit_steps [OF w bsteps_ok [OF s1 assms(2)]] by simp
    with b' quiet_steps [OF dropLease_quiet, of E b2 i] show ?thesis by auto
  qed
qed

section \<open>The OAuth flow\<close>

lemma StartOAuth_steps:
  assumes "StartOAuth E now rnd1 rnd2 i raw csrf b = (b', x)" "broker_ok E b" "go_lookup (b_oauth b) (Digest E (Random rnd1)) = None"
  shows "bsteps E b b'"
proof (cases "b' = b")
  case False
  from assms(1) False obtain s r p where v: "validSession E now raw i True b = Inr (s, r)" and st: "rq_Status (rr_View r) = ''authorizing''"
    and p: "go_lookup (cf_OAuth (b_cfg b)) (c_OAuthProvider (catalog_get b (rr_ContractKey r))) = Some p"
    by (auto simp: StartOAuth_def Let_def split: if_splits sum.splits option.splits)
  note f = validSession_facts [OF v broker_ok_keyed [OF assms(2)]]
  obtain b1 y where w: "broker_put (c_Storage (catalog_get b (rr_ContractKey r))) [(''verifier'', Random rnd2)] b = (b1, y)" by fastforce
  note q = broker_put_quiet [OF w]
  show ?thesis
  proof (cases y)
    case (Inl e)
    with assms(1) False v p w have "b' = b1" by (auto simp: StartOAuth_def Let_def split: if_splits)
    with quiet_steps [OF q] show ?thesis by simp
  next
    case (Inr ref)
    let ?o = "\<lparr>oa_StateHash = Digest E (Random rnd1), oa_RequestID = i, oa_SessionHash = ss_Hash s, oa_VerifierRef = ref,
                oa_ExpiresAt = now + 300 * second, oa_Consumed = False\<rparr>"
    let ?r = "r\<lparr>rr_OAuthStateHash := oa_StateHash ?o\<rparr>"
    let ?ev = "(audit now ''oauth.started'' (rr_Actor r))\<lparr>ev_RequestID := i\<rparr>"
    obtain b2 z where c: "commit E ((audit_only ?ev)\<lparr>mu_OAuth := Some ?o, mu_Request := Some ?r\<rparr>) b1 = (b2, z)" by fastforce
    with assms(1) False v p w Inr have "b' = b2" by (cases z) (auto simp: StartOAuth_def Let_def split: if_splits)
    have "request_step (go_lookup (b_requests b1) (rq_ID (rr_View ?r))) ?r"
      using f(3,4) st quiet_sel(1) [OF q] by (simp add: request_step_def request_core_def status_step_def closed_status_def)
    moreover have "oauth_step (go_lookup (b_oauth b1) (oa_StateHash ?o)) ?o" using assms(3) quiet_sel(6) [OF q] by (simp add: oauth_step_def)
    ultimately have "allowed b1 ((audit_only ?ev)\<lparr>mu_OAuth := Some ?o, mu_Request := Some ?r\<rparr>)" by (simp add: allowed_def)
    from steps_after_quiet [OF q assms(2) commit_steps [OF c _ this]] \<open>b' = b2\<close> show ?thesis by simp
  qed
qed simp

lemma oauth_claim_facts:
  assumes "oauth_claim E now raw state b = (b', x)" "broker_ok E b"
  shows "bsteps E b b' \<and> b_credentials b' = b_credentials b \<and> (\<forall>s r o' c p. x = Inr (s, r, o', c, p) \<longrightarrow>
     go_lookup (b_sessions b') (ss_Hash s) = Some s \<and> ss_Approved s \<and> oa_Consumed o' \<and>
     go_lookup (b_oauth b') (Digest E state) = Some o' \<and> go_lookup (b_requests b') (rq_ID (rr_View r)) = Some r)"
proof (cases "b' = b \<and> (\<exists>e. x = Inl e)")
  case False
  from assms(1) False obtain o' s r p d where o: "go_lookup (b_oauth b) (Digest E state) = Some o'" "\<not> oa_Consumed o'"
    and v: "validSession E now raw (oa_RequestID o') True b = Inr (s, r)" "rq_Status (rr_View r) = ''authorizing''"
    and p: "go_lookup (cf_OAuth (b_cfg b)) (c_OAuthProvider (catalog_get b (rr_ContractKey r))) = Some p" "rr_DraftRef r = Some d"
    by (auto simp: oauth_claim_def Let_def split: if_splits sum.splits option.splits)
  note kd = broker_ok_keyed [OF assms(2)]
  note f = validSession_facts [OF v(1) kd]
  let ?o = "o'\<lparr>oa_Consumed := True\<rparr>" and ?r = "r\<lparr>rr_View := (rr_View r)\<lparr>rq_Status := ''exchanging''\<rparr>\<rparr>"
  let ?m = "(audit_only ((audit now ''oauth.exchanging'' (rr_Actor r))\<lparr>ev_RequestID := rq_ID (rr_View r)\<rparr>))\<lparr>mu_OAuth := Some ?o, mu_Request := Some ?r\<rparr>"
  obtain b1 y where w: "commit E ?m b = (b1, y)" by fastforce
  have res: "b' = b1" "x = (case y of Inl e \<Rightarrow> Inl e | Inr _ \<Rightarrow> Inr (s, ?r, ?o, catalog_get b (rr_ContractKey r), p))"
    using assms(1) False o v p w by (cases y; auto simp: oauth_claim_def Let_def split: if_splits)+
  have hash: "oa_StateHash o' = Digest E state" by (rule keyedD(6) [OF kd o(1)])
  have "allowed b ?m" using o hash f(3,4) v(2)
    by (simp add: allowed_def oauth_step_def request_step_def request_core_def status_step_def closed_status_def)
  note st = commit_steps [OF w assms(2) this]
  show ?thesis
  proof (cases y)
    case (Inl e)
    then have "quiet E b b1" using commit_failure [OF w [unfolded Inl]] assms(2) by (simp add: broker_ok_def)
    with Inl res st quiet_sel(3) show ?thesis by auto
  next
    case (Inr seq)
    from commit_success [OF w [unfolded Inr]] obtain j where b1: "b1 = apply_mutation ?m seq (b\<lparr>b_journal := j\<rparr>)" by blast
    have "b_credentials b1 = b_credentials b" "go_lookup (b_sessions b1) (ss_Hash s) = Some s" "go_lookup (b_oauth b1) (Digest E state) = Some ?o"
      "go_lookup (b_requests b1) (rq_ID (rr_View ?r)) = Some ?r"
      using f(1,2) hash by (simp_all add: b1 put_opt_def gomap_simps)
    with Inr res st f(5) show ?thesis by simp
  qed
qed auto

text \<open>Steps that also leave an identifier of a credential unused.\<close>

definition spares :: "'a broker_env_scheme \<Rightarrow> string \<Rightarrow> 'w Broker \<Rightarrow> 'w Broker \<Rightarrow> bool" where
  "spares E i b b' \<longleftrightarrow> bsteps E b b' \<and> (go_lookup (b_credentials b) i = None \<longrightarrow> go_lookup (b_credentials b') i = None)"

lemma spares_trans: "spares E i b b1 \<Longrightarrow> spares E i b1 b2 \<Longrightarrow> spares E i b b2"
  by (auto simp: spares_def intro: rtranclp_trans)

lemma spares_quiet: "quiet E b b' \<Longrightarrow> spares E i b b'"
  using quiet_steps [of E b b'] quiet_sel(3) [of E b b'] by (simp add: spares_def)

lemma exchange_values_spares:
  assumes "exchange_values E now other code r o' p b = (b', x)" "\<And>k z. spares E i z (other k z)"
  shows "spares E i b b'"
proof -
  obtain b1 y where d: "broker_resolve (the (rr_DraftRef r)) b = (b1, y)" by fastforce
  note s1 = spares_quiet [OF broker_resolve_quiet [OF d, of E], of i]
  show ?thesis
  proof (cases y)
    case (Inl e)
    with assms(1) d s1 show ?thesis by (simp add: exchange_values_def)
  next
    case (Inr vals)
    obtain b2 z where v: "broker_resolve (oa_VerifierRef o') (other 1 b1) = (b2, z)" by fastforce
    have s2: "spares E i b b2"
      using spares_trans [OF spares_trans [OF s1 assms(2)] spares_quiet [OF broker_resolve_quiet [OF v]]] .
    have s3: "spares E i b ((other 2 b2)\<lparr>b_world := w\<rparr>)" for w
      using spares_trans [OF spares_trans [OF s2 assms(2)] spares_quiet [OF quiet_fields(1)]] .
    define b3 where "b3 = fst (case z of Inl e \<Rightarrow> (b2, Inl (ErrProvider e) :: berr + oauthTokens)
      | Inr proof' \<Rightarrow> (let b2' = other 2 b2 in case oauth_exchange E p code (bundle_get proof' ''verifier'') (b_world b2') of (w, x) \<Rightarrow> (b2'\<lparr>b_world := w\<rparr>, x)))"
    have s3': "spares E i b b3" using s2 s3 by (cases z) (auto simp: b3_def Let_def split: prod.splits)
    let ?b4 = "other 3 b3"
    have s4: "spares E i b ?b4" using s3' assms(2) by (rule spares_trans)
    have "b' = ?b4 \<or> (\<exists>w. b' = ?b4\<lparr>b_world := w\<rparr>)"
      using assms(1) d Inr v by (auto simp: exchange_values_def b3_def Let_def split: sum.splits prod.splits option.splits)
    then show ?thesis using s4 spares_trans [OF s4 spares_quiet [OF quiet_fields(1)]] by auto
  qed
qed

lemma oauth_settle_steps:
  assumes "oauth_settle E now rnd s r o' c res b = (b', x)" "broker_ok E b"
    and "go_lookup (b_credentials b) (newID ''c'' rnd) = None"
    and "\<exists>q. go_lookup (b_sessions b) (ss_Hash s) = Some q \<and> ss_RequestID q = ss_RequestID s" "ss_Approved s"
  shows "bsteps E b b'"
proof (cases "b' = b")
  case False
  let ?cur = "go_get no_request (b_requests b) (rq_ID (rr_View r))"
  let ?undo = "?cur\<lparr>rr_View := (rr_View ?cur)\<lparr>rq_Status := ''authorizing''\<rparr>\<rparr>"
  from assms(1) False have ex: "rq_Status (rr_View ?cur) = ''exchanging''" by (auto simp: oauth_settle_def Let_def split: if_splits)
  then obtain q where q: "go_lookup (b_requests b) (rq_ID (rr_View r)) = Some q" "?cur = q"
    by (auto simp: go_get_def no_request_def split: option.splits)
  have id: "rq_ID (rr_View q) = rq_ID (rr_View r)" by (rule keyedD(1) [OF broker_ok_keyed [OF assms(2)] q(1)])
  have again: "allowed z ((audit_only ev)\<lparr>mu_Request := Some ?undo\<rparr>)" if "b_requests z = b_requests b" for z ev
    using q id ex that by (intro allowed_request [of z _ q]) (simp_all add: request_core_def status_step_def closed_status_def)
  from assms(1) False consider
      (failed) e ev y where "res = Inl e" "commit E ((audit_only ev)\<lparr>mu_Request := Some ?undo\<rparr>) b = (b', y)"
    | (lost) v b1 ev where "broker_put (c_Storage c) v b = b1" "b' = fst (commit E ((audit_only ev)\<lparr>mu_Request := Some ?undo\<rparr>) (fst b1))"
    | (stored) v b1 ref y where "broker_put (c_Storage c) v b = (b1, Inr ref)" "ready E now rnd ?cur ref True (Some s) b1 = (b', y)"
    by (auto simp: oauth_settle_def Let_def split: if_splits sum.splits prod.splits dest!: result_unit_pair)
  then show ?thesis
  proof cases
    case failed
    from commit_steps [OF failed(2) assms(2) again] show ?thesis by simp
  next
    case lost
    have qq: "quiet E b (fst b1)" by (rule broker_put_quiet [of "c_Storage c" v b "fst b1" "snd b1"]) (simp add: lost(1))
    from commit_fst_steps [OF quiet_ok [OF qq assms(2)] again [OF quiet_sel(1) [OF qq]]]
    show ?thesis unfolding lost(2) by (rule rtranclp_trans [OF quiet_steps [OF qq]])
  next
    case stored
    note qq = broker_put_quiet [OF stored(1)]
    have "may_become_ready (b_requests b1) ?cur" using q id ex quiet_sel(1) [OF qq] by (simp add: may_become_ready_def)
    moreover have "may_consume (b_sessions b1) (Some s)" using assms(4,5) quiet_sel(2) [OF qq] by (auto simp: may_consume_def)
    ultimately show ?thesis
      by (intro steps_after_quiet [OF qq assms(2)] ready_steps [OF stored(2)]) (use assms(3) quiet_sel(3) [OF qq] in simp_all)
  qed
qed simp

lemma CompleteOAuth_steps:
  assumes "CompleteOAuth E now other rnd raw state code b = (b', x)" "broker_ok E b"
    "\<And>k z. spares E (newID ''c'' rnd) z (other k z)" "go_lookup (b_credentials b) (newID ''c'' rnd) = None"
  shows "bsteps E b b'"
proof (cases "b' = b")
  case False
  obtain b1 y where cl: "oauth_claim E (now 0) raw state b = (b1, y)" by fastforce
  note cf = oauth_claim_facts [OF cl assms(2)]
  show ?thesis
  proof (cases y)
    case (Inl e)
    with assms(1) False cl have "b' = b1" by (auto simp: CompleteOAuth_def split: if_splits)
    with cf show ?thesis by simp
  next
    case (Inr t)
    obtain s r o' c p where t: "t = (s, r, o', c, p)" by (metis prod_cases5)
    obtain b2 res where ex: "exchange_values E (now 1) other code r o' p (other 0 b1) = (b2, res)" by fastforce
    have set: "oauth_settle E (now 2) rnd s r o' c res (other 4 b2) = (b', x)"
      using assms(1) False cl Inr t ex by (auto simp: CompleteOAuth_def split: if_splits)
    have sp: "spares E (newID ''c'' rnd) b1 (other 4 b2)"
      using spares_trans [OF spares_trans [OF assms(3) exchange_values_spares [OF ex assms(3)]] assms(3)] .
    then have st: "bsteps E b1 (other 4 b2)" by (simp add: spares_def)
    have s1: "bsteps E b b1" using cf by blast
    have s2: "bsteps E b (other 4 b2)" using s1 st by (rule rtranclp_trans)
    from cf Inr t have ses: "go_lookup (b_sessions b1) (ss_Hash s) = Some s" "ss_Approved s" "b_credentials b1 = b_credentials b" by simp_all
    from session_stays [OF st ses(1)] have q: "\<exists>q. go_lookup (b_sessions (other 4 b2)) (ss_Hash s) = Some q \<and> ss_RequestID q = ss_RequestID s" by blast
    have fr: "go_lookup (b_credentials (other 4 b2)) (newID ''c'' rnd) = None" using sp assms(4) ses(3) by (simp add: spares_def)
    from oauth_settle_steps [OF set bsteps_ok [OF s2 assms(2)] fr q ses(2)] s2 show ?thesis by simp
  qed
qed simp

lemma requireReauthorization_steps:
  assumes "requireReauthorization E now i revision b = (b', e)" "broker_ok E b"
  shows "bsteps E b b'"
proof (cases "b' = b")
  case False
  let ?cur = "go_get no_credential (b_credentials b) i"
  let ?c = "?cur\<lparr>cd_View := (cd_View ?cur)\<lparr>cr_Status := ''reauthorize_required'', cr_Revision := cr_Revision (cd_View ?cur) + 1\<rparr>\<rparr>"
  from assms(1) False have act: "cr_Status (cd_View ?cur) = ''active''" by (auto simp: requireReauthorization_def Let_def split: if_splits)
  then obtain q where q: "go_lookup (b_credentials b) i = Some q" "?cur = q"
    by (auto simp: go_get_def no_credential_def split: option.splits)
  have id: "cr_ID (cd_View q) = i" by (rule keyedD(3) [OF broker_ok_keyed [OF assms(2)] q(1)])
  from assms(1) False obtain ev b1 y where w: "commit E ((audit_only ev)\<lparr>mu_Credential := Some ?c\<rparr>) b = (b1, y)"
    and b': "b' = b1 \<or> b' = invalidateCredential (cr_ID (cd_View ?c)) b1"
    by (auto simp: requireReauthorization_def Let_def split: if_splits prod.splits sum.splits)
  have "allowed b ((audit_only ev)\<lparr>mu_Credential := Some ?c\<rparr>)"
    using q id act by (intro allowed_credential) (simp add: credential_step_def)
  from commit_steps [OF w assms(2) this] b' quiet_steps [OF invalidate_quiet, of E b1] show ?thesis by (auto intro: rtranclp_trans)
qed simp

lemma refresh_commit_steps:
  assumes "refresh_commit E now i c ref b = (b', x)" "broker_ok E b"
  shows "bsteps E b b'"
proof (cases "b' = b")
  case False
  let ?cur = "go_get no_credential (b_credentials b) i"
  let ?c = "?cur\<lparr>cd_Ref := ref, cd_TokenRevision := cd_TokenRevision ?cur + 1, cd_OwnedRefs := cd_OwnedRefs ?cur @ [ref]\<rparr>"
  from assms(1) False have act: "cr_Status (cd_View ?cur) = ''active''" by (auto simp: refresh_commit_def Let_def split: if_splits)
  then obtain q where q: "go_lookup (b_credentials b) i = Some q" "?cur = q"
    by (auto simp: go_get_def no_credential_def split: option.splits)
  have id: "cr_ID (cd_View q) = i" by (rule keyedD(3) [OF broker_ok_keyed [OF assms(2)] q(1)])
  from assms(1) False obtain ev y where w: "commit E ((audit_only ev)\<lparr>mu_Credential := Some ?c\<rparr>) b = (b', y)"
    by (auto simp: refresh_commit_def Let_def split: if_splits dest!: result_unit_pair)
  have "allowed b ((audit_only ev)\<lparr>mu_Credential := Some ?c\<rparr>)"
    using q id act by (intro allowed_credential) (simp add: credential_step_def)
  from commit_steps [OF w assms(2) this] show ?thesis .
qed simp

lemma refresh_token_steps:
  assumes "refresh_token E now other u c p vals b = (b', x)" "broker_ok E b" "\<And>k z. bsteps E z (other k z)"
  shows "bsteps E b b'"
proof -
  obtain w y where t: "oauth_refresh E p (bundle_get vals oauthRefresh) (b_world b) = (w, y)" by fastforce
  let ?b1 = "other 3 (b\<lparr>b_world := w\<rparr>)"
  have s1: "bsteps E b ?b1" using quiet_steps [OF quiet_fields(1)] assms(3) by (rule rtranclp_trans)
  show ?thesis
  proof (cases y)
    case (Inl e)
    with assms(1) t obtain e' where "requireReauthorization E (now 4) (us_CredentialID u) (cr_Revision (cd_View c)) ?b1 = (b', e')"
      by (auto simp: refresh_token_def split: prod.splits)
    from requireReauthorization_steps [OF this bsteps_ok [OF s1 assms(2)]] s1 show ?thesis by simp
  next
    case (Inr tok)
    obtain b2 z where p: "broker_put (c_Storage (catalog_get ?b1 (cd_ContractKey c))) (mergeTokens vals tok (now 4)) ?b1 = (b2, z)" by fastforce
    have s2: "bsteps E b (other 4 b2)" using s1 quiet_steps [OF broker_put_quiet [OF p, of E]] assms(3) [of b2 4] by simp
    note ok = bsteps_ok [OF s2 assms(2)]
    show ?thesis
    proof (cases z)
      case lost: (Inl e)
      with assms(1) t Inr p obtain e' where "requireReauthorization E (now 5) (us_CredentialID u) (cr_Revision (cd_View c)) (other 4 b2) = (b', e')"
        by (auto simp: refresh_token_def Let_def split: prod.splits)
      from requireReauthorization_steps [OF this ok] s2 show ?thesis by simp
    next
      case stored: (Inr ref)
      obtain b3 v where r: "refresh_commit E (now 5) (us_CredentialID u) c ref (other 4 b2) = (b3, v)" by fastforce
      have s3: "bsteps E b b3" using s2 refresh_commit_steps [OF r ok] by simp
      with assms(1) t Inr p stored r have "b' = b3 \<or> b' = other 5 b3"
        by (auto simp: refresh_token_def Let_def split: sum.splits if_splits)
      with s3 assms(3) [of b3 5] show ?thesis by auto
    qed
  qed
qed

lemma AccessToken_steps:
  assumes "AccessToken E now other u b = (b', x)" "broker_ok E b" "\<And>k z. bsteps E z (other k z)"
  shows "bsteps E b b'"
proof (cases "b' = b")
  case False
  let ?b1 = "other 0 b" and ?b2 = "other 1 (other 0 b)"
  let ?c = "go_get no_credential (b_credentials ?b2) (us_CredentialID u)"
  have s1: "bsteps E b ?b1" by (rule assms(3))
  have s2: "bsteps E b ?b2" using s1 assms(3) by (rule rtranclp_trans)
  obtain b3 y where r: "broker_resolve (cd_Ref ?c) (other 2 ?b2) = (b3, y)" by fastforce
  have s3: "bsteps E b b3" using s2 assms(3) [of ?b2 2] quiet_steps [OF broker_resolve_quiet [OF r, of E]] by simp
  have s4: "bsteps E b (other 6 b3)" using s3 assms(3) by (rule rtranclp_trans)
  from assms(1) False r have "b' = ?b1 \<or> b' = ?b2 \<or> b' = b3 \<or> b' = other 6 b3 \<or>
      (\<exists>p vals. refresh_token E now other u ?c p vals (other 6 b3) = (b', x))"
    by (auto simp: AccessToken_def Let_def split: if_splits option.splits sum.splits)
  moreover have "bsteps E b b'" if "refresh_token E now other u ?c p vals (other 6 b3) = (b', x)" for p vals
    using refresh_token_steps [OF that bsteps_ok [OF s4 assms(2)] assms(3)] s4 by simp
  ultimately show ?thesis using s1 s2 s3 s4 by blast
qed simp

end
