(* ===== verification/Broker_Ops.thy ===== *)
theory Broker_Ops
  imports Broker_Refine_Use
begin

text \<open>
  Runs of the broker: every exported operation that may change its state as a constructor of
  \<open>bop\<close>, executed by \<open>run_op\<close> on the definitions of the model, and \<open>broker_run\<close> for the sequences of
  operations. \<open>fresh_op\<close> says that the random bytes of an operation give an identifier that
  is not in use, and that what other calls do while the operation waits for a provider are
  steps of the broker too.
\<close>

section \<open>Operations\<close>

datatype 'w bop =
    OpCreateRequest time bytes bytes Actor CreateRequest
  | OpCancelRequest time Actor string
  | OpRegisterContract time Actor Contract
  | OpOpenSession time bytes string string
  | OpApprove time Actor string string
  | OpSubmit time bytes string string string Bundle "string list"
  | OpSubmitTelegram time bytes Actor string Bundle
  | OpCreateGrant time bytes Actor string GrantRequest
  | OpRevokeGrant time Actor string
  | OpRevokeCredential time Actor string
  | OpDeleteCredential time time "'w Broker \<Rightarrow> 'w Broker" Actor string
  | OpAcquire time bytes Actor AcquireLease
  | OpRenew time Actor string int
  | OpSweep time
  | OpBeginUse time bytes Actor string
  | OpFinish Use
  | OpResolve "nat \<Rightarrow> time" "nat \<Rightarrow> 'w Broker \<Rightarrow> 'w Broker" Use
  | OpMaterialize "nat \<Rightarrow> time" "nat \<Rightarrow> 'w Broker \<Rightarrow> 'w Broker" bytes Actor string
  | OpRelease time Actor string RuntimeRelease
  | OpStartOAuth time bytes bytes string string string
  | OpCompleteOAuth "nat \<Rightarrow> time" "nat \<Rightarrow> 'w Broker \<Rightarrow> 'w Broker" bytes string string string
  | OpAccessToken "nat \<Rightarrow> time" "nat \<Rightarrow> 'w Broker \<Rightarrow> 'w Broker" Use
  | OpClose

fun run_op :: "'a oauth_env_scheme \<Rightarrow> 'w bop \<Rightarrow> 'w Broker \<Rightarrow> 'w Broker" where
  "run_op E (OpCreateRequest t r r2 a inp) b = fst (Broker_CreateRequest E t r r2 a inp b)"
| "run_op E (OpCancelRequest t a i) b = fst (CancelRequest E t a i b)"
| "run_op E (OpRegisterContract t a c) b = fst (RegisterContract E t a c b)"
| "run_op E (OpOpenSession t r i raw) b = fst (OpenSession E t r i raw b)"
| "run_op E (OpApprove t a i code) b = fst (Approve E t a i code b)"
| "run_op E (OpSubmit t r i raw csrf v d) b = fst (Submit E t r i raw csrf v d b)"
| "run_op E (OpSubmitTelegram t r a i v) b = fst (SubmitTelegram E t r a i v b)"
| "run_op E (OpCreateGrant t r a cred inp) b = fst (CreateGrant E t r a cred inp b)"
| "run_op E (OpRevokeGrant t a i) b = fst (RevokeGrant E t a i b)"
| "run_op E (OpRevokeCredential t a i) b = fst (RevokeCredential E t a i b)"
| "run_op E (OpDeleteCredential t t2 oth a i) b = fst (DeleteCredential E t t2 oth a i b)"
| "run_op E (OpAcquire t r a inp) b = fst (Acquire E t r a inp b)"
| "run_op E (OpRenew t a i n) b = fst (Renew E t a i n b)"
| "run_op E (OpSweep t) b = Sweep t b"
| "run_op E (OpBeginUse t r a i) b = fst (BeginUse E t r a i b)"
| "run_op E (OpFinish u) b = Finish u b"
| "run_op E (OpResolve t oth u) b = fst (Resolve E t oth u b)"
| "run_op E (OpMaterialize t oth r a i) b = fst (Broker_Materialize E t oth r a i b)"
| "run_op E (OpRelease t a i inp) b = fst (Release E t a i inp b)"
| "run_op E (OpStartOAuth t r r2 i raw csrf) b = fst (StartOAuth E t r r2 i raw csrf b)"
| "run_op E (OpCompleteOAuth t oth r raw state code) b = fst (CompleteOAuth E t oth r raw state code b)"
| "run_op E (OpAccessToken t oth u) b = fst (AccessToken E t oth u b)"
| "run_op E OpClose b = fst (Broker_Close b)"

fun fresh_op :: "'a oauth_env_scheme \<Rightarrow> 'w bop \<Rightarrow> 'w Broker \<Rightarrow> bool" where
  "fresh_op E (OpCreateRequest t r r2 a inp) b \<longleftrightarrow>
     go_lookup (b_requests b) (newID ''r'' r) = None \<and> go_lookup (b_credentials b) (newID ''c'' r2) = None"
| "fresh_op E (OpOpenSession t r i raw) b \<longleftrightarrow> go_lookup (b_sessions b) (Digest E (Random r)) = None"
| "fresh_op E (OpSubmit t r i raw csrf v d) b \<longleftrightarrow> go_lookup (b_credentials b) (newID ''c'' r) = None"
| "fresh_op E (OpSubmitTelegram t r a i v) b \<longleftrightarrow> go_lookup (b_credentials b) (newID ''c'' r) = None"
| "fresh_op E (OpCreateGrant t r a cred inp) b \<longleftrightarrow> go_lookup (b_grants b) (newID ''g'' r) = None"
| "fresh_op E (OpDeleteCredential t t2 oth a i) b \<longleftrightarrow> (\<forall>z. bsteps E z (oth z))"
| "fresh_op E (OpAcquire t r a inp) b \<longleftrightarrow> go_lookup (b_leases b) (newID ''l'' r) = None"
| "fresh_op E (OpResolve t oth u) b \<longleftrightarrow> (\<forall>k z. bsteps E z (oth k z))"
| "fresh_op E (OpMaterialize t oth r a i) b \<longleftrightarrow> (\<forall>k z. bsteps E z (oth k z))"
| "fresh_op E (OpStartOAuth t r r2 i raw csrf) b \<longleftrightarrow> go_lookup (b_oauth b) (Digest E (Random r)) = None"
| "fresh_op E (OpCompleteOAuth t oth r raw state code) b \<longleftrightarrow>
     go_lookup (b_credentials b) (newID ''c'' r) = None \<and> (\<forall>k z. spares E (newID ''c'' r) z (oth k z))"
| "fresh_op E (OpAccessToken t oth u) b \<longleftrightarrow> (\<forall>k z. bsteps E z (oth k z))"
| "fresh_op E _ b \<longleftrightarrow> True"

inductive broker_run :: "'a oauth_env_scheme \<Rightarrow> 'w Broker \<Rightarrow> 'w Broker \<Rightarrow> bool" for E b where
  run_start: "broker_run E b b"
| run_next: "broker_run E b b' \<Longrightarrow> fresh_op E op b' \<Longrightarrow> broker_run E b (run_op E op b')"

section \<open>Every operation is a sequence of steps\<close>

lemma run_op_steps:
  assumes "broker_ok E b" "fresh_op E op b"
  shows "bsteps E b (run_op E op b)"
proof (cases op)
  case (OpSweep t)
  have "quiet E b (sweepLocked t b)" by (rule sweep_quiet)
  with OpSweep show ?thesis by (simp add: Sweep_def quiet_steps)
qed (use assms in \<open>simp_all add: Finish_steps
  CreateRequest_steps [OF prod.collapse [symmetric]] CancelRequest_steps [OF _ prod.collapse [symmetric]]
  RegisterContract_steps [OF _ prod.collapse [symmetric]] OpenSession_steps [OF prod.collapse [symmetric]]
  Approve_steps [OF prod.collapse [symmetric]] Submit_steps [OF prod.collapse [symmetric]]
  SubmitTelegram_steps [OF prod.collapse [symmetric]] CreateGrant_steps [OF prod.collapse [symmetric]]
  RevokeGrant_steps [OF prod.collapse [symmetric]] RevokeCredential_steps [OF prod.collapse [symmetric]]
  DeleteCredential_steps [OF prod.collapse [symmetric]] Acquire_steps [OF prod.collapse [symmetric]]
  Renew_steps [OF prod.collapse [symmetric]] BeginUse_steps [OF prod.collapse [symmetric]]
  Resolve_steps [OF prod.collapse [symmetric]] Materialize_steps [OF prod.collapse [symmetric]]
  Release_steps [OF prod.collapse [symmetric]] StartOAuth_steps [OF prod.collapse [symmetric]]
  CompleteOAuth_steps [OF prod.collapse [symmetric]] AccessToken_steps [OF prod.collapse [symmetric]]
  Close_steps [OF prod.collapse [symmetric]]\<close>)

lemma broker_run_steps:
  assumes "broker_run E b b'" "broker_ok E b"
  shows "bsteps E b b'" "broker_ok E b'"
proof -
  have "bsteps E b b' \<and> broker_ok E b'"
    using assms
  proof induction
    case (run_next b' op)
    then have "bsteps E b b'" "broker_ok E b'" by blast+
    moreover from run_op_steps [OF this(2) run_next(2)] have "bsteps E b' (run_op E op b')" .
    ultimately show ?case using bsteps_ok [of E b' "run_op E op b'"] by (meson rtranclp_trans)
  qed simp
  then show "bsteps E b b'" "broker_ok E b'" by simp_all
qed

lemma broker_run_trans: "broker_run E b1 b2 \<Longrightarrow> broker_run E b b1 \<Longrightarrow> broker_run E b b2"
  by (induction rule: broker_run.induct) (auto intro: run_next)

lemma commit_live:
  assumes "commit E m b = (b', Inr seq)" "broker_ok E b"
  shows "live b'"
proof -
  from commit_success [OF assms(1)] obtain j where l: "live b" "Append E ''mutation.v1'' (json_mutation E m) (b_journal b) = (j, Inr seq)"
    "b' = apply_mutation m seq (b\<lparr>b_journal := j\<rparr>)" by blast
  obtain c r an c' r' an' where J: "b_journal b = Journal c r an" "j = Journal c' r' an'" by (metis Journal.exhaust)
  have "env_ok E" "journal_ok E c" using assms(2) l(1) by (simp_all add: broker_ok_def journal_inv_def live_def J)
  from Append_core [OF this l(2) [unfolded J]] have "journal_Healthy j" by (auto simp: J journal_Healthy_def journal_ok_def synced_def)
  then show ?thesis using l(1) by (simp add: l(3) live_def)
qed

section \<open>Invariants of runs\<close>

text \<open>A property that every step keeps holds along every run.\<close>

locale step_invariant =
  fixes E :: "'a oauth_env_scheme" and I :: "'w Broker \<Rightarrow> bool"
  assumes step: "bstep E x y \<Longrightarrow> broker_ok E x \<Longrightarrow> I x \<Longrightarrow> I y"
begin

lemma steps_keep: "bsteps E b b' \<Longrightarrow> broker_ok E b \<Longrightarrow> I b \<Longrightarrow> I b'"
  by (induction rule: rtranclp_induct) (auto intro: step bsteps_ok)

lemma run_keeps: "broker_run E b b' \<Longrightarrow> broker_ok E b \<Longrightarrow> I b \<Longrightarrow> I b'"
  by (rule steps_keep [OF broker_run_steps(1)])

end

interpretation iso: step_invariant E grants_isolated for E
  by unfold_locales (rule grants_isolated_step)

interpretation lses: step_invariant E leases_ok for E
  by unfold_locales (rule leases_ok_step)

interpretation appr: step_invariant E "\<lambda>b. \<not> cf_DirectForm (b_cfg b) \<and> one_approved (b_sessions b)" for E
  by unfold_locales (auto simp: bsteps_cfg [OF r_into_rtranclp] elim: one_approved_stays [OF r_into_rtranclp])

interpretation led: step_invariant E "\<lambda>b. mutation_codec E \<longrightarrow> ledger_view E cat b" for E cat
  by unfold_locales (auto simp: broker_ok_def intro: ledger_view_step)

text \<open>The audit trail: one event per journal record, with its number.\<close>

definition trail :: "'w Broker \<Rightarrow> bool" where
  "trail b \<longleftrightarrow> map ev_Sequence (b_events b) = [1..<Suc (length (Records (b_journal b)))]"

lemma trail_step:
  assumes "bstep E x y" "broker_ok E x" "trail x"
  shows "trail y"
  using assms(1)
proof (cases rule: bstep.cases)
  case bstep_quiet
  then have "Tables.truncate y = Tables.truncate x" and same: "Records (b_journal y) = Records (b_journal x)" by (simp_all add: quiet_def)
  from tables_eqD(8) [OF this(1)] same assms(3) show ?thesis by (simp add: trail_def)
next
  case (bstep_write m seq)
  from assms(2) have "journal_inv E (b_journal x)" by (simp add: broker_ok_def)
  from commit_journal [OF bstep_write(1) this] have len: "length (Records (b_journal y)) = seq" "seq = Suc (length (Records (b_journal x)))" by auto
  from commit_success [OF bstep_write(1)] obtain j where "y = apply_mutation m seq (x\<lparr>b_journal := j\<rparr>)" by blast
  then have "b_events y = b_events x @ [(mu_Audit m)\<lparr>ev_Sequence := seq\<rparr>]" by simp
  with assms(3) len show ?thesis by (simp add: trail_def)
qed (use assms(3) in \<open>simp_all add: trail_def\<close>)

interpretation trl: step_invariant E trail for E
  by unfold_locales (rule trail_step)

end
