(* ===== verification/Demo_Codec.thy ===== *)
theory Demo_Codec
  imports OAuth_Provider Demo_Env
begin

text \<open>
  A concrete encoding of journaled mutations, for the hypothesis that a written mutation reads
  back. A codec is an encoder with a decoder that returns the value and the rest of the input;
  the codecs of the ledger's records are composed from those of numbers, strings and lists.
\<close>

type_synonym 'a codec = "('a \<Rightarrow> string) \<times> (string \<Rightarrow> ('a \<times> string) option)"

named_theorems codecs

definition codec_ok :: "'a codec \<Rightarrow> bool" where
  "codec_ok c \<longleftrightarrow> (\<forall>x s. snd c (fst c x @ s) = Some (x, s))"

lemma codec_okD: "codec_ok c \<Longrightarrow> snd c (fst c x @ s) = Some (x, s)"
  by (simp add: codec_ok_def)

definition c_nat :: "nat codec" where
  "c_nat = (\<lambda>n. nat_digits n @ ''|'', \<lambda>s. Some (demo_field s))"

definition c_string :: "string codec" where
  "c_string = (\<lambda>x. nat_digits (length x) @ ''|'' @ x, \<lambda>s. let (n, r) = demo_field s in Some (take n r, drop n r))"

definition c_bool :: "bool codec" where
  "c_bool = (\<lambda>x. if x then ''t'' else ''f'', \<lambda>s. case s of [] \<Rightarrow> None | c # r \<Rightarrow> Some (c = CHR ''t'', r))"

definition c_iso :: "('a \<Rightarrow> 'b) \<Rightarrow> ('b \<Rightarrow> 'a) \<Rightarrow> 'b codec \<Rightarrow> 'a codec" where
  "c_iso f g c = (\<lambda>x. fst c (f x), \<lambda>s. map_option (map_prod g id) (snd c s))"

definition c_pair :: "'a codec \<Rightarrow> 'b codec \<Rightarrow> ('a \<times> 'b) codec" where
  "c_pair c d = (\<lambda>(x, y). fst c x @ fst d y,
     \<lambda>s. case snd c s of None \<Rightarrow> None | Some (x, r) \<Rightarrow> map_option (map_prod (Pair x) id) (snd d r))"

definition c_int :: "int codec" where
  "c_int = c_iso (\<lambda>x. (x < 0, nat \<bar>x\<bar>)) (\<lambda>(neg, n). if neg then - int n else int n) (c_pair c_bool c_nat)"

definition c_option :: "'a codec \<Rightarrow> 'a option codec" where
  "c_option c = (\<lambda>x. case x of None \<Rightarrow> ''f'' | Some y \<Rightarrow> CHR ''t'' # fst c y,
     \<lambda>s. case s of [] \<Rightarrow> None | k # r \<Rightarrow> if k = CHR ''t'' then map_option (map_prod Some id) (snd c r) else Some (None, r))"

fun decode_many :: "(string \<Rightarrow> ('a \<times> string) option) \<Rightarrow> nat \<Rightarrow> string \<Rightarrow> ('a list \<times> string) option" where
  "decode_many d 0 s = Some ([], s)"
| "decode_many d (Suc n) s = (case d s of None \<Rightarrow> None | Some (x, r) \<Rightarrow> map_option (map_prod (Cons x) id) (decode_many d n r))"

definition c_list :: "'a codec \<Rightarrow> 'a list codec" where
  "c_list c = (\<lambda>xs. nat_digits (length xs) @ ''|'' @ concat (map (fst c) xs), \<lambda>s. let (n, r) = demo_field s in decode_many (snd c) n r)"

lemma c_nat_ok [codecs]: "codec_ok c_nat"
  by (simp add: codec_ok_def c_nat_def demo_field_digits)

lemma c_string_ok [codecs]: "codec_ok c_string"
  by (simp add: codec_ok_def c_string_def demo_field_digits)

lemma c_bool_ok [codecs]: "codec_ok c_bool"
  by (simp add: codec_ok_def c_bool_def)

lemma c_iso_ok [codecs]: "codec_ok c \<Longrightarrow> (\<forall>x. g (f x) = x) \<Longrightarrow> codec_ok (c_iso f g c)"
  by (simp add: codec_ok_def c_iso_def)

lemma c_pair_ok [codecs]: "codec_ok c \<Longrightarrow> codec_ok d \<Longrightarrow> codec_ok (c_pair c d)"
  by (simp add: codec_ok_def c_pair_def split: prod.splits)

lemma c_int_ok [codecs]: "codec_ok c_int"
  by (simp add: c_int_def codecs)

lemma c_option_ok [codecs]: "codec_ok c \<Longrightarrow> codec_ok (c_option c)"
  by (simp add: codec_ok_def c_option_def split: option.splits)

lemma decode_many_ok: "codec_ok c \<Longrightarrow> decode_many (snd c) (length xs) (concat (map (fst c) xs) @ s) = Some (xs, s)"
  by (induction xs) (simp_all add: codec_okD)

lemma c_list_ok [codecs]: "codec_ok c \<Longrightarrow> codec_ok (c_list c)"
  by (subst codec_ok_def) (simp add: c_list_def demo_field_digits decode_many_ok)

section \<open>The records of the ledger\<close>

definition codec_Actor :: "Actor codec" where
  "codec_Actor = c_iso (\<lambda>r. (a_PrincipalID r, a_ContextID r, a_RuntimeID r, a_ExternalIdentityID r, a_ConversationID r, a_PolicyVersion r,
     a_ContextManager r, a_BindingID r, a_WorkloadID r))
     (\<lambda>(x0, x1, x2, x3, x4, x5, x6, x7, x8).
       \<lparr>a_PrincipalID = x0, a_ContextID = x1, a_RuntimeID = x2, a_ExternalIdentityID = x3, a_ConversationID = x4, a_PolicyVersion = x5,
        a_ContextManager = x6, a_BindingID = x7, a_WorkloadID = x8\<rparr>)
     (c_pair c_string (c_pair c_string (c_pair c_string (c_pair c_string (c_pair c_string (c_pair c_string (c_pair c_bool (c_pair c_string
     c_string))))))))"

lemma codec_Actor_ok [codecs]: "codec_ok codec_Actor"
  by (simp add: codec_Actor_def codecs)

definition codec_Ref :: "Ref codec" where
  "codec_Ref = c_iso (\<lambda>r. (ref_Provider r, ref_Locator r, ref_Version r))
     (\<lambda>(x0, x1, x2).
       \<lparr>ref_Provider = x0, ref_Locator = x1, ref_Version = x2\<rparr>)
     (c_pair c_string (c_pair c_string c_string))"

lemma codec_Ref_ok [codecs]: "codec_ok codec_Ref"
  by (simp add: codec_Ref_def codecs)

definition codec_Field :: "Field codec" where
  "codec_Field = c_iso (\<lambda>r. (f_ID r, f_Label r, f_LabelI18n r, f_Kind r, f_Required r, f_MaxBytes r))
     (\<lambda>(x0, x1, x2, x3, x4, x5).
       \<lparr>f_ID = x0, f_Label = x1, f_LabelI18n = x2, f_Kind = x3, f_Required = x4, f_MaxBytes = x5\<rparr>)
     (c_pair c_string (c_pair c_string (c_pair (c_list (c_pair c_string c_string)) (c_pair c_string (c_pair c_bool c_int)))))"

lemma codec_Field_ok [codecs]: "codec_ok codec_Field"
  by (simp add: codec_Field_def codecs)

definition codec_Delivery :: "Delivery codec" where
  "codec_Delivery = c_iso (\<lambda>r. (d_Type r, d_Field r, d_Target r, d_EnvName r, d_Mapping r))
     (\<lambda>(x0, x1, x2, x3, x4).
       \<lparr>d_Type = x0, d_Field = x1, d_Target = x2, d_EnvName = x3, d_Mapping = x4\<rparr>)
     (c_pair c_string (c_pair c_string (c_pair c_string (c_pair c_string (c_list (c_pair c_string c_string))))))"

lemma codec_Delivery_ok [codecs]: "codec_ok codec_Delivery"
  by (simp add: codec_Delivery_def codecs)

definition codec_StateFile :: "StateFile codec" where
  "codec_StateFile = c_iso (\<lambda>r. (sf_Name r, sf_MaxBytes r, sf_JSON r))
     (\<lambda>(x0, x1, x2).
       \<lparr>sf_Name = x0, sf_MaxBytes = x1, sf_JSON = x2\<rparr>)
     (c_pair c_string (c_pair c_int c_bool))"

lemma codec_StateFile_ok [codecs]: "codec_ok codec_StateFile"
  by (simp add: codec_StateFile_def codecs)

definition codec_State :: "State codec" where
  "codec_State = c_iso (\<lambda>r. (st_Target r, st_Files r))
     (\<lambda>(x0, x1).
       \<lparr>st_Target = x0, st_Files = x1\<rparr>)
     (c_pair c_string (c_list codec_StateFile))"

lemma codec_State_ok [codecs]: "codec_ok codec_State"
  by (simp add: codec_State_def codecs)

definition codec_Route :: "Route codec" where
  "codec_Route = c_iso (\<lambda>r. (r_ID r, r_BaseURL r, r_PathPrefixes r, r_Methods r, r_Auth r, r_Field r, r_PasswordField r, r_Header r,
     r_StaticHeaders r))
     (\<lambda>(x0, x1, x2, x3, x4, x5, x6, x7, x8).
       \<lparr>r_ID = x0, r_BaseURL = x1, r_PathPrefixes = x2, r_Methods = x3, r_Auth = x4, r_Field = x5, r_PasswordField = x6, r_Header = x7,
        r_StaticHeaders = x8\<rparr>)
     (c_pair c_string (c_pair c_string (c_pair (c_list c_string) (c_pair (c_list c_string) (c_pair c_string (c_pair c_string (c_pair c_string
     (c_pair c_string (c_list (c_pair c_string c_string))))))))))"

lemma codec_Route_ok [codecs]: "codec_ok codec_Route"
  by (simp add: codec_Route_def codecs)

definition codec_Contract :: "Contract codec" where
  "codec_Contract = c_iso (\<lambda>r. (c_ID r, c_Revision r, c_Title r, c_Storage r, c_Fields r, c_Deliveries r, c_State r, c_Routes r,
     c_OAuthProvider r, c_Intake r, c_AllowShared r, c_TitleI18n r))
     (\<lambda>(x0, x1, x2, x3, x4, x5, x6, x7, x8, x9, x10, x11).
       \<lparr>c_ID = x0, c_Revision = x1, c_Title = x2, c_Storage = x3, c_Fields = x4, c_Deliveries = x5, c_State = x6, c_Routes = x7,
        c_OAuthProvider = x8, c_Intake = x9, c_AllowShared = x10, c_TitleI18n = x11\<rparr>)
     (c_pair c_string (c_pair c_int (c_pair c_string (c_pair c_string (c_pair (c_list codec_Field) (c_pair (c_list codec_Delivery)
     (c_pair (c_option codec_State) (c_pair (c_list codec_Route) (c_pair c_string (c_pair c_string (c_pair c_bool
     (c_list (c_pair c_string c_string)))))))))))))"

lemma codec_Contract_ok [codecs]: "codec_ok codec_Contract"
  by (simp add: codec_Contract_def codecs)

definition codec_Extra :: "Extra codec" where
  "codec_Extra = c_iso (\<lambda>r. (x_Fields r, x_Deliveries r))
     (\<lambda>(x0, x1).
       \<lparr>x_Fields = x0, x_Deliveries = x1\<rparr>)
     (c_pair (c_list codec_Field) (c_list codec_Delivery))"

lemma codec_Extra_ok [codecs]: "codec_ok codec_Extra"
  by (simp add: codec_Extra_def codecs)

definition codec_Request :: "Request codec" where
  "codec_Request = c_iso (\<lambda>r. (rq_ID r, rq_ContractID r, rq_ContractRevision r, rq_ConnectionID r, rq_OnboardingID r, rq_ConsumerID r,
     rq_Status r, rq_CredentialID r, rq_Revision r, rq_AuthorizationURL r, rq_ExpiresAt r))
     (\<lambda>(x0, x1, x2, x3, x4, x5, x6, x7, x8, x9, x10).
       \<lparr>rq_ID = x0, rq_ContractID = x1, rq_ContractRevision = x2, rq_ConnectionID = x3, rq_OnboardingID = x4, rq_ConsumerID = x5,
        rq_Status = x6, rq_CredentialID = x7, rq_Revision = x8, rq_AuthorizationURL = x9, rq_ExpiresAt = x10\<rparr>)
     (c_pair c_string (c_pair c_string (c_pair c_int (c_pair c_string (c_pair c_string (c_pair c_string (c_pair c_string (c_pair c_string
     (c_pair c_nat (c_pair c_string c_int))))))))))"

lemma codec_Request_ok [codecs]: "codec_ok codec_Request"
  by (simp add: codec_Request_def codecs)

definition codec_Event :: "Event codec" where
  "codec_Event = c_iso (\<lambda>r. (ev_Sequence r, ev_At r, ev_Kind r, ev_PrincipalID r, ev_ContextID r, ev_RequestID r, ev_ConnectionID r,
     ev_OnboardingID r, ev_ConsumerID r, ev_CredentialID r, ev_GrantID r, ev_LeaseID r, ev_ContractID r, ev_BindingID r, ev_WorkloadID r,
     ev_PolicyVersion r))
     (\<lambda>(x0, x1, x2, x3, x4, x5, x6, x7, x8, x9, x10, x11, x12, x13, x14, x15).
       \<lparr>ev_Sequence = x0, ev_At = x1, ev_Kind = x2, ev_PrincipalID = x3, ev_ContextID = x4, ev_RequestID = x5, ev_ConnectionID = x6,
        ev_OnboardingID = x7, ev_ConsumerID = x8, ev_CredentialID = x9, ev_GrantID = x10, ev_LeaseID = x11, ev_ContractID = x12, ev_BindingID = x13,
        ev_WorkloadID = x14, ev_PolicyVersion = x15\<rparr>)
     (c_pair c_nat (c_pair c_int (c_pair c_string (c_pair c_string (c_pair c_string (c_pair c_string (c_pair c_string (c_pair c_string
     (c_pair c_string (c_pair c_string (c_pair c_string (c_pair c_string (c_pair c_string (c_pair c_string (c_pair c_string c_string)))))))))))))))"

lemma codec_Event_ok [codecs]: "codec_ok codec_Event"
  by (simp add: codec_Event_def codecs)

definition codec_Credential :: "Credential codec" where
  "codec_Credential = c_iso (\<lambda>r. (cr_ID r, cr_OwnerKind r, cr_PrincipalID r, cr_ContextID r, cr_ConnectionID r, cr_ConsumerID r,
     cr_Revision r, cr_Status r, cr_Provider r))
     (\<lambda>(x0, x1, x2, x3, x4, x5, x6, x7, x8).
       \<lparr>cr_ID = x0, cr_OwnerKind = x1, cr_PrincipalID = x2, cr_ContextID = x3, cr_ConnectionID = x4, cr_ConsumerID = x5, cr_Revision = x6,
        cr_Status = x7, cr_Provider = x8\<rparr>)
     (c_pair c_string (c_pair c_string (c_pair c_string (c_pair c_string (c_pair c_string (c_pair c_string (c_pair c_nat (c_pair c_string
     c_string))))))))"

lemma codec_Credential_ok [codecs]: "codec_ok codec_Credential"
  by (simp add: codec_Credential_def codecs)

definition codec_Grant :: "Grant codec" where
  "codec_Grant = c_iso (\<lambda>r. (gr_ID r, gr_CredentialID r, gr_PrincipalID r, gr_ContextID r, gr_RuntimeID r, gr_BindingID r, gr_WorkloadID r,
     gr_Execution r, gr_ContractID r, gr_ContractRevision r, gr_PolicyVersion r, gr_Active r))
     (\<lambda>(x0, x1, x2, x3, x4, x5, x6, x7, x8, x9, x10, x11).
       \<lparr>gr_ID = x0, gr_CredentialID = x1, gr_PrincipalID = x2, gr_ContextID = x3, gr_RuntimeID = x4, gr_BindingID = x5, gr_WorkloadID = x6,
        gr_Execution = x7, gr_ContractID = x8, gr_ContractRevision = x9, gr_PolicyVersion = x10, gr_Active = x11\<rparr>)
     (c_pair c_string (c_pair c_string (c_pair c_string (c_pair c_string (c_pair c_string (c_pair c_string (c_pair c_string (c_pair c_string
     (c_pair c_string (c_pair c_int (c_pair c_string c_bool)))))))))))"

lemma codec_Grant_ok [codecs]: "codec_ok codec_Grant"
  by (simp add: codec_Grant_def codecs)

definition codec_requestRecord :: "requestRecord codec" where
  "codec_requestRecord = c_iso (\<lambda>r. (rr_View r, rr_Actor r, rr_OwnerKind r, rr_ContractKey r, rr_ContractDigest r, rr_Idempotency r,
     rr_Fingerprint r, rr_RotateID r, rr_ExpectedRevision r, rr_ExternalAlias r, rr_OAuthStateHash r, rr_DraftRef r, rr_Extra r, rr_Demoted r))
     (\<lambda>(x0, x1, x2, x3, x4, x5, x6, x7, x8, x9, x10, x11, x12, x13).
       \<lparr>rr_View = x0, rr_Actor = x1, rr_OwnerKind = x2, rr_ContractKey = x3, rr_ContractDigest = x4, rr_Idempotency = x5, rr_Fingerprint = x6,
        rr_RotateID = x7, rr_ExpectedRevision = x8, rr_ExternalAlias = x9, rr_OAuthStateHash = x10, rr_DraftRef = x11, rr_Extra = x12,
        rr_Demoted = x13\<rparr>)
     (c_pair codec_Request (c_pair codec_Actor (c_pair c_string (c_pair c_string (c_pair c_string (c_pair c_string (c_pair c_string (c_pair c_string
     (c_pair c_nat (c_pair c_string (c_pair c_string (c_pair (c_option codec_Ref) (c_pair (c_option codec_Extra) (c_list c_string))))))))))))))"

lemma codec_requestRecord_ok [codecs]: "codec_ok codec_requestRecord"
  by (simp add: codec_requestRecord_def codecs)

definition codec_sessionRecord :: "sessionRecord codec" where
  "codec_sessionRecord = c_iso (\<lambda>r. (ss_Hash r, ss_CodeHash r, ss_RequestID r, ss_ExpiresAt r, ss_Approved r, ss_Consumed r))
     (\<lambda>(x0, x1, x2, x3, x4, x5).
       \<lparr>ss_Hash = x0, ss_CodeHash = x1, ss_RequestID = x2, ss_ExpiresAt = x3, ss_Approved = x4, ss_Consumed = x5\<rparr>)
     (c_pair c_string (c_pair c_string (c_pair c_string (c_pair c_int (c_pair c_bool c_bool)))))"

lemma codec_sessionRecord_ok [codecs]: "codec_ok codec_sessionRecord"
  by (simp add: codec_sessionRecord_def codecs)

definition codec_credentialRecord :: "credentialRecord codec" where
  "codec_credentialRecord = c_iso (\<lambda>r. (cd_View r, cd_ContractKey r, cd_ContractDigest r, cd_Ref r, cd_Managed r, cd_OwnedRefs r,
     cd_TokenRevision r, cd_Extra r, cd_Demoted r))
     (\<lambda>(x0, x1, x2, x3, x4, x5, x6, x7, x8).
       \<lparr>cd_View = x0, cd_ContractKey = x1, cd_ContractDigest = x2, cd_Ref = x3, cd_Managed = x4, cd_OwnedRefs = x5, cd_TokenRevision = x6,
        cd_Extra = x7, cd_Demoted = x8\<rparr>)
     (c_pair codec_Credential (c_pair c_string (c_pair c_string (c_pair codec_Ref (c_pair c_bool (c_pair (c_list codec_Ref) (c_pair c_nat
     (c_pair (c_option codec_Extra) (c_list c_string)))))))))"

lemma codec_credentialRecord_ok [codecs]: "codec_ok codec_credentialRecord"
  by (simp add: codec_credentialRecord_def codecs)

definition codec_grantRecord :: "grantRecord codec" where
  "codec_grantRecord = c_iso (\<lambda>r. (gd_View r, gd_ContractKey r, gd_ContractDigest r, gd_Idempotency r, gd_Fingerprint r))
     (\<lambda>(x0, x1, x2, x3, x4).
       \<lparr>gd_View = x0, gd_ContractKey = x1, gd_ContractDigest = x2, gd_Idempotency = x3, gd_Fingerprint = x4\<rparr>)
     (c_pair codec_Grant (c_pair c_string (c_pair c_string (c_pair c_string c_string))))"

lemma codec_grantRecord_ok [codecs]: "codec_ok codec_grantRecord"
  by (simp add: codec_grantRecord_def codecs)

definition codec_stateRecord :: "stateRecord codec" where
  "codec_stateRecord = c_iso (\<lambda>r. (sr_OwnedRefs r, sr_Key r, sr_Ref r, sr_Revision r))
     (\<lambda>(x0, x1, x2, x3).
       \<lparr>sr_OwnedRefs = x0, sr_Key = x1, sr_Ref = x2, sr_Revision = x3\<rparr>)
     (c_pair (c_list codec_Ref) (c_pair c_string (c_pair codec_Ref c_nat)))"

lemma codec_stateRecord_ok [codecs]: "codec_ok codec_stateRecord"
  by (simp add: codec_stateRecord_def codecs)

definition codec_oauthRecord :: "oauthRecord codec" where
  "codec_oauthRecord = c_iso (\<lambda>r. (oa_StateHash r, oa_RequestID r, oa_SessionHash r, oa_VerifierRef r, oa_ExpiresAt r, oa_Consumed r))
     (\<lambda>(x0, x1, x2, x3, x4, x5).
       \<lparr>oa_StateHash = x0, oa_RequestID = x1, oa_SessionHash = x2, oa_VerifierRef = x3, oa_ExpiresAt = x4, oa_Consumed = x5\<rparr>)
     (c_pair c_string (c_pair c_string (c_pair c_string (c_pair codec_Ref (c_pair c_int c_bool)))))"

lemma codec_oauthRecord_ok [codecs]: "codec_ok codec_oauthRecord"
  by (simp add: codec_oauthRecord_def codecs)

definition codec_mutation :: "mutation codec" where
  "codec_mutation = c_iso (\<lambda>r. (mu_Audit r, mu_Request r, mu_Session r, mu_Credential r, mu_Grant r, mu_State r, mu_OAuth r, mu_Contract r))
     (\<lambda>(x0, x1, x2, x3, x4, x5, x6, x7).
       \<lparr>mu_Audit = x0, mu_Request = x1, mu_Session = x2, mu_Credential = x3, mu_Grant = x4, mu_State = x5, mu_OAuth = x6,
        mu_Contract = x7\<rparr>)
     (c_pair codec_Event (c_pair (c_option codec_requestRecord) (c_pair (c_option codec_sessionRecord) (c_pair (c_option codec_credentialRecord)
     (c_pair (c_option codec_grantRecord) (c_pair (c_option codec_stateRecord) (c_pair (c_option codec_oauthRecord) (c_option codec_Contract))))))))"

lemma codec_mutation_ok [codecs]: "codec_ok codec_mutation"
  by (simp add: codec_mutation_def codecs)

section \<open>The encoding\<close>

definition demo_mutation_bytes :: "mutation \<Rightarrow> bytes" where
  "demo_mutation_bytes m = b64_encode (fst codec_mutation m)"

definition demo_decode_mutation :: "bytes \<Rightarrow> mutation option" where
  "demo_decode_mutation s = Option.bind (b64_decode s) (\<lambda>t. map_option fst (snd codec_mutation t))"

lemma demo_mutation_decode: "demo_decode_mutation (demo_mutation_bytes m) = Some m"
  using codec_okD [OF codec_mutation_ok, of m "[]"] by (simp add: demo_decode_mutation_def demo_mutation_bytes_def)

lemma demo_mutation_utf8: "utf8_valid (demo_mutation_bytes m)"
  by (rule utf8_valid_ascii) (auto simp: demo_mutation_bytes_def dest: b64_no_sep)

end
