(* ===== verification/Demo_Broker.thy ===== *)
theory Demo_Broker
  imports Broker_Ops Demo_Codec
begin

text \<open>
  A concrete broker for the witnesses: an environment that meets the hypotheses on the
  parameters, a journal with room for more records, and a state with a request, a credential, a
  grant, a lease and an OAuth flow.
\<close>

section \<open>A journal with room\<close>

lemma length_nat_digits: "length (nat_digits n) \<le> Suc n"
proof (induction n rule: nat_digits.induct)
  case (1 n)
  show ?case
  proof (cases "n < 10")
    case False
    with 1 have "length (nat_digits (n div 10)) \<le> Suc (n div 10)" by simp
    also have "Suc (n div 10) \<le> n" using False by linarith
    finally show ?thesis using False by (subst nat_digits.simps) simp
  qed (subst nat_digits.simps, simp)
qed

definition roomy :: "'a journal_env_scheme \<Rightarrow> nat \<Rightarrow> Journal \<Rightarrow> bool" where
  "roomy E n J \<longleftrightarrow> env_ok E \<and> json_record E = demo_json \<and> (\<forall>x. length (sha256 E x) = 32) \<and>
     (\<exists>c. J = Journal c None None \<and> journal_ok E c \<and> \<not> j_poisoned c \<and> j_io c = [] \<and> length (j_prev c) \<le> 64 \<and>
       j_seq c + n \<le> 100 \<and> j_size c + n * 6000 \<le> j_limit c)"

lemma Append_clean_frame:
  assumes E: "env_ok E" and ok: "journal_ok E c" and live: "\<not> j_poisoned c" and io: "j_io c = []"
    and kind: "kind \<noteq> []" and len: "length (json_record E (next_record c kind raw)) + 28 \<le> MaxRecord"
    and room: "j_size c + length (json_record E (next_record c kind raw)) + 32 \<le> j_limit c"
  shows "\<exists>c'. Append E kind raw (Journal c None None) = (Journal c' None None, Inr (Suc (j_seq c))) \<and> j_io c' = [] \<and>
    j_size c' \<le> j_size c + length (json_record E (next_record c kind raw)) + 32 \<and>
    j_prev c' = record_hash E (json_record E (next_record c kind raw))"
proof -
  let ?plain = "json_record E (next_record c kind raw)"
  from ok have f: "j_file c \<noteq> None" by (auto simp: journal_ok_def synced_def)
  from frame_clean [OF E io len] obtain c1 buf cmp where
    fr: "frame E c ?plain = (c1, Inr (buf, cmp))" and io1: "j_io c1 = []"
    and small: "length buf \<le> length ?plain + 32" by blast
  have sz: "j_size c1 = j_size c" "j_limit c1 = j_limit c" "j_seq c1 = j_seq c" using erase_eqD [OF frame_shape [OF fr]] by simp_all
  then have rs: "reserve E c ?plain = (c1, Inr (buf, cmp))" using fr small room by (simp add: reserve_def)
  obtain c3 where wr: "write_frame c1 buf = (c3, True)" "j_io c3 = []" "j_size c3 = j_size c1"
    using io1 by (simp add: write_frame_def io_next_clean Let_def)
  show ?thesis
    using live f kind len rs wr sz small by (simp add: Append.simps next_record_def Let_def accept_def)
qed

lemma roomy_append:
  assumes "roomy E (Suc n) J" "length raw \<le> 5000"
  shows "\<exists>J' k. Append E ''mutation.v1'' raw J = (J', Inr k) \<and> roomy E n J'"
proof -
  from assms(1) obtain c where c: "env_ok E" "json_record E = demo_json" "\<forall>x. length (sha256 E x) = 32" "J = Journal c None None"
    "journal_ok E c" "\<not> j_poisoned c" "j_io c = []" "length (j_prev c) \<le> 64" "j_seq c + Suc n \<le> 100" "j_size c + Suc n * 6000 \<le> j_limit c"
    by (auto simp: roomy_def)
  let ?r = "next_record c ''mutation.v1'' raw"
  have "length (demo_json ?r) \<le> 5400"
    using length_nat_digits [of "Suc (j_seq c)"] length_nat_digits [of "length (j_prev c)"] length_nat_digits [of "length ''mutation.v1''"] c(8,9) assms(2)
    by (simp add: demo_json_def next_record_def)
  then have len: "length (json_record E ?r) \<le> 5400" by (simp add: c(2))
  obtain c' where c': "Append E ''mutation.v1'' raw (Journal c None None) = (Journal c' None None, Inr (Suc (j_seq c)))" "j_io c' = []"
    "j_size c' \<le> j_size c + length (json_record E ?r) + 32" "j_prev c' = record_hash E (json_record E ?r)"
    using Append_clean_frame [OF c(1,5,6,7), of "''mutation.v1''" raw] len c(10) by (auto simp: MaxRecord_def)
  from Append_core [OF c(1,5) c'(1)] have "j_seq c' = Suc (j_seq c)" "journal_ok E c'" "\<not> j_poisoned c'" "j_limit c' = j_limit c" by simp_all
  with c c' len have "roomy E n (Journal c' None None)" by (auto simp: roomy_def record_hash_def)
  with c'(1) c(4) show ?thesis by blast
qed

lemma roomy_inv: "roomy E n J \<Longrightarrow> journal_inv E J \<and> journal_Healthy J"
  by (auto simp: roomy_def journal_inv_def journal_Healthy_def journal_ok_def synced_def)

lemma roomy_commit:
  assumes "roomy E (Suc n) (b_journal b)" "\<not> b_closed b" "length (json_mutation E m) \<le> 5000"
  shows "\<exists>j k. commit E m b = (apply_mutation m k (b\<lparr>b_journal := j\<rparr>), Inr k) \<and> roomy E n j"
  using roomy_append [OF assms(1,3)] roomy_inv [OF assms(1)] assms(2) by (auto simp: commit_def live_def)

section \<open>The environment\<close>

definition demo_oauth_env :: oauth_env where
  "demo_oauth_env =
     broker_env.extend
       (materialize_env.extend
          (demo_materialize_env\<lparr>sha256 := (\<lambda>x. take 32 (x @ replicate 32 CHR ''#'')), json_record := demo_json, parse_record := demo_parse\<rparr>)
          \<lparr>json_mutation = (\<lambda>m. ''{}''), decode_mutation = (\<lambda>s. None), json_create_request = ci_ConnectionID,
           json_grant_request = gi_BindingID, decode_contract = (\<lambda>s. Some demo_contract)\<rparr>)
       \<lparr>decode_token_doc = (\<lambda>s. None), url_with_query = (\<lambda>u q. u_Hostname u @ ''?'' @ q)\<rparr>"

text \<open>The same environment with mutations that read back.\<close>

definition codec_env :: oauth_env where
  "codec_env = demo_oauth_env\<lparr>json_mutation := demo_mutation_bytes, decode_mutation := demo_decode_mutation\<rparr>"

lemmas demo_env_defs = demo_oauth_env_def demo_materialize_env_def demo_provider_env_def demo_contract_env_def demo_id_env_def
  broker_env.defs materialize_env.defs provider_env.defs contract_env.defs id_env.defs

lemma demo_oauth_env_sel [simp]:
  "json_mutation demo_oauth_env m = ''{}''" "json_create_request demo_oauth_env = ci_ConnectionID"
  "json_grant_request demo_oauth_env = gi_BindingID" "sha256 demo_oauth_env x = take 32 (x @ replicate 32 CHR ''#'')"
  "json_record demo_oauth_env = demo_json" "decode_contract demo_oauth_env s = Some demo_contract"
  "json_contract demo_oauth_env c = c_ID c @ ''@'' @ int_digits (c_Revision c) @ ''/'' @ c_Storage c"
  by (simp_all add: demo_env_defs)

lemma demo_oauth_env_ok: "env_ok demo_oauth_env"
  by (simp add: env_ok_def gcm_ok_def demo_parse_json demo_env_defs)

lemma codec_env_ok: "env_ok codec_env"
  using demo_oauth_env_ok by (simp add: codec_env_def env_ok_def gcm_ok_def)

lemma codec_env_tokens: "strict_tokens (json_tokens codec_env x)"
  by (simp add: strict_tokens_def codec_env_def demo_env_defs numeral_nat)

lemma codec_env_sel [simp]:
  "json_mutation codec_env = demo_mutation_bytes" "json_record codec_env = demo_json" "decode_contract codec_env s = Some demo_contract"
  "json_contract codec_env c = c_ID c @ ''@'' @ int_digits (c_Revision c) @ ''/'' @ c_Storage c"
  "parse_url codec_env = parse_url demo_contract_env"
  by (simp_all add: codec_env_def) (simp add: demo_env_defs)

lemma codec_env_codec: "strictjson_Decode codec_env (decode_mutation codec_env) (json_mutation codec_env m) = Some m"
  using codec_env_tokens by (simp add: strictjson_Decode_def demo_mutation_utf8) (simp add: codec_env_def demo_mutation_decode)

section \<open>The broker\<close>

definition demo_ref :: Ref where
  "demo_ref = \<lparr>ref_Provider = ''local'', ref_Locator = ''s1'', ref_Version = ''1''\<rparr>"

definition demo_store :: "unit Provider" where
  "demo_store = \<lparr>p_Read = (\<lambda>w ref. (w, Inr [(''token'', ''ghp_x'')])),
     p_Capabilities = \<lparr>cap_Write = True, cap_Delete = True, cap_Versioned = True, cap_Binary = True\<rparr>,
     p_Write = (\<lambda>w v. (w, Inr demo_ref)), p_Delete = (\<lambda>w ref. (w, Inr ()))\<rparr>"

definition demo_oauth_provider :: "unit OAuthProvider" where
  "demo_oauth_provider = \<lparr>op_ID = ''hub'', op_AuthorizeURL = ''https://a'', op_TokenURL = ''https://t'', op_ClientID = ''c'',
     op_RedirectURL = ''https://r'', op_Scopes = [''repo''], op_AuthStyle = ''none'', op_SecretSource = None,
     op_Client = Some (\<lambda>q w. (w, None)), op_AuthorizeParameters = []\<rparr>"

definition demo_cfg :: "unit Config" where
  "demo_cfg = \<lparr>cf_Contracts = [demo_contract], cf_Providers = [(''local'', demo_store)], cf_ExternalAliases = [],
     cf_PublicOrigin = ''https://broker'', cf_SessionKey = demo_key, cf_OAuth = [([], demo_oauth_provider)], cf_DirectForm = False\<rparr>"

text \<open>A request that waits for its exchange, with its session and OAuth state; a credential with one
  grant and one lease on it.\<close>

definition demo_request :: requestRecord where
  "demo_request = no_request\<lparr>rr_View := (rr_View no_request)\<lparr>rq_ID := ''r1'', rq_ContractID := ''github-pat'', rq_ContractRevision := 1,
      rq_Status := ''authorizing'', rq_ExpiresAt := 900 * second\<rparr>,
     rr_Actor := demo_actor, rr_OwnerKind := ''user'', rr_ContractKey := ''github-pat@1'', rr_OAuthStateHash := Digest demo_oauth_env (replicate 43 CHR ''s''),
     rr_DraftRef := Some demo_ref\<rparr>"

definition demo_session :: sessionRecord where
  "demo_session = \<lparr>ss_Hash = Digest demo_oauth_env ''raw'', ss_CodeHash = [], ss_RequestID = ''r1'', ss_ExpiresAt = 900 * second,
     ss_Approved = True, ss_Consumed = False\<rparr>"

definition demo_oauth :: oauthRecord where
  "demo_oauth = \<lparr>oa_StateHash = Digest demo_oauth_env (replicate 43 CHR ''s''), oa_RequestID = ''r1'',
     oa_SessionHash = Digest demo_oauth_env ''raw'', oa_VerifierRef = demo_ref, oa_ExpiresAt = 300 * second, oa_Consumed = False\<rparr>"

definition demo_credential :: credentialRecord where
  "demo_credential = no_credential\<lparr>cd_View := \<lparr>cr_ID = ''c1'', cr_OwnerKind = ''user'', cr_PrincipalID = ''artem'', cr_ContextID = ''home'',
      cr_ConnectionID = ''gh'', cr_ConsumerID = [], cr_Revision = 1, cr_Status = ''active'', cr_Provider = ''local''\<rparr>,
     cd_ContractKey := ''github-pat@1'', cd_Ref := demo_ref, cd_Managed := True, cd_OwnedRefs := [demo_ref], cd_TokenRevision := 1\<rparr>"

definition demo_grant :: grantRecord where
  "demo_grant = \<lparr>gd_View = \<lparr>gr_ID = ''g1'', gr_CredentialID = ''c1'', gr_PrincipalID = ''artem'', gr_ContextID = ''home'', gr_RuntimeID = ''rt1'',
      gr_BindingID = ''b1'', gr_WorkloadID = ''w1'', gr_Execution = ''dedicated'', gr_ContractID = ''github-pat'', gr_ContractRevision = 1,
      gr_PolicyVersion = ''p1'', gr_Active = True\<rparr>,
     gd_ContractKey = ''github-pat@1'', gd_ContractDigest = Contract_Digest demo_oauth_env demo_contract, gd_Idempotency = [], gd_Fingerprint = []\<rparr>"

definition demo_leaserec :: leaseRecord where
  "demo_leaserec = \<lparr>lr_View = \<lparr>lv_ID = ''l1'', lv_GrantID = ''g1'', lv_CredentialID = ''c1'', lv_Revision = 1, lv_ExpiresAt = 60 * second,
      lv_Deliveries = c_Deliveries demo_contract, lv_State = None, lv_Routes = []\<rparr>,
     lr_Materialized = None, lr_StateKey = [], lr_Active = [''u1'']\<rparr>"

definition demo_tables :: Tables where
  "demo_tables = \<lparr>b_catalog = [(''github-pat@1'', demo_contract)], b_requests = [(''r1'', demo_request)],
     b_sessions = [(ss_Hash demo_session, demo_session)], b_credentials = [(''c1'', demo_credential)], b_grants = [(''g1'', demo_grant)],
     b_states = [], b_oauth = [(oa_StateHash demo_oauth, demo_oauth)], b_events = []\<rparr>"

definition demo_broker :: "unit Broker" where
  "demo_broker = Tables.extend demo_tables
     \<lparr>b_cfg = demo_cfg, b_leases = [(''l1'', demo_leaserec)], b_closed = False, b_journal = Journal demo_core None None,
      b_manager = demo_manager, b_world = (), b_canceled = []\<rparr>"

definition empty_broker :: "unit Broker" where
  "empty_broker = fresh_broker demo_cfg (Journal demo_core None None) demo_manager () [(''github-pat@1'', demo_contract)]"

lemma demo_broker_sel [simp]:
  "b_catalog demo_broker = [(''github-pat@1'', demo_contract)]" "b_requests demo_broker = [(''r1'', demo_request)]"
  "b_sessions demo_broker = [(ss_Hash demo_session, demo_session)]" "b_credentials demo_broker = [(''c1'', demo_credential)]"
  "b_grants demo_broker = [(''g1'', demo_grant)]" "b_states demo_broker = []" "b_oauth demo_broker = [(oa_StateHash demo_oauth, demo_oauth)]"
  "b_events demo_broker = []" "b_cfg demo_broker = demo_cfg" "b_leases demo_broker = [(''l1'', demo_leaserec)]" "\<not> b_closed demo_broker"
  "b_journal demo_broker = Journal demo_core None None" "b_manager demo_broker = demo_manager" "b_canceled demo_broker = []"
  by (simp_all add: demo_broker_def demo_tables_def Tables.defs)

lemma empty_broker_sel [simp]:
  "b_catalog empty_broker = [(''github-pat@1'', demo_contract)]" "b_requests empty_broker = []" "b_sessions empty_broker = []"
  "b_credentials empty_broker = []" "b_grants empty_broker = []" "b_states empty_broker = []" "b_oauth empty_broker = []"
  "b_events empty_broker = []" "b_cfg empty_broker = demo_cfg" "b_leases empty_broker = []" "\<not> b_closed empty_broker"
  "b_journal empty_broker = Journal demo_core None None" "b_manager empty_broker = demo_manager" "b_canceled empty_broker = []"
  by (simp_all add: empty_broker_def fresh_broker_def)

lemma demo_core_roomy:
  assumes "env_ok E" "json_record E = demo_json" "\<forall>x. length (sha256 E x) = 32"
  shows "roomy E 50 (Journal demo_core None None)"
proof -
  have "journal_ok E demo_core"
    by (auto simp: journal_ok_def synced_def demo_core_def empty_ledger_def Ledger.truncate_def bounded_records_def)
  with assms show ?thesis by (auto simp: roomy_def demo_core_def)
qed

lemma demo_sha_length: "length (sha256 demo_oauth_env x) = 32"
  by (simp add: min_def)

lemma demo_roomy: "roomy demo_oauth_env 50 (b_journal demo_broker)" "roomy demo_oauth_env 50 (b_journal empty_broker)"
  using demo_core_roomy [OF demo_oauth_env_ok] demo_sha_length by simp_all

lemma codec_roomy: "roomy codec_env 50 (b_journal demo_broker)" "roomy codec_env 50 (b_journal empty_broker)"
  using demo_core_roomy [OF codec_env_ok] demo_sha_length by (simp_all add: codec_env_def)

lemma demo_broker_ok: "broker_ok demo_oauth_env demo_broker"
  using roomy_inv [OF demo_roomy(1)]
  by (simp add: broker_ok_def keyed_def demo_request_def demo_credential_def demo_grant_def)

lemma empty_broker_ok: "broker_ok demo_oauth_env empty_broker" "broker_ok codec_env empty_broker"
  using roomy_inv [OF demo_roomy(2)] roomy_inv [OF codec_roomy(2)] by (simp_all add: broker_ok_def keyed_def)

lemma demo_commit:
  "\<exists>j k. commit demo_oauth_env m demo_broker = (apply_mutation m k (demo_broker\<lparr>b_journal := j\<rparr>), Inr k) \<and> roomy demo_oauth_env 49 j"
  using roomy_commit [of demo_oauth_env 49 demo_broker m] demo_roomy(1) by simp

lemma demo_live: "live demo_broker" "live empty_broker"
  using roomy_inv [OF demo_roomy(1)] roomy_inv [OF demo_roomy(2)] by (simp_all add: live_def)

lemma demo_drop:
  "b_journal (drop_where P b) = b_journal b" "b_closed (drop_where P b) = b_closed b"
proof -
  have drop: "b_journal (dropLease i b) = b_journal b \<and> b_closed (dropLease i b) = b_closed b" for i and b :: "'a Broker"
    by (simp add: dropLease_def split: option.split)
  have "b_journal (foldl (\<lambda>b (i, l). if P l then dropLease i b else b) b ls) = b_journal b \<and>
    b_closed (foldl (\<lambda>b (i, l). if P l then dropLease i b else b) b ls) = b_closed b" for ls
    by (induction ls arbitrary: b) (simp_all add: drop split: prod.split)
  then show "b_journal (drop_where P b) = b_journal b" "b_closed (drop_where P b) = b_closed b" by (simp_all add: drop_where_def)
qed

end
