(* ===== verification/Broker_Props.thy ===== *)
theory Broker_Props
  imports Demo_Broker
begin

text \<open>
  What the broker guarantees about credentials, grants and leases, in every state that its
  operations reach: the operations implement the ledger's specification, revocation is final,
  grants stay isolated, leases are bounded, and a secret is only disclosed under a valid lease.
\<close>

section \<open>Lemmas\<close>

lemma grantMatches_active: "grantMatches a g \<Longrightarrow> gr_Active (gd_View g)"
  by (simp add: grantMatches_def)

text \<open>A grant that is not active serves no lease and gives no new one.\<close>

lemma inactive_grant_refused:
  assumes "go_lookup (b_grants b) i = Some g" "\<not> gr_Active (gd_View g)"
  shows "lease now a k b = Inr (l, g', c) \<Longrightarrow> lv_GrantID (lr_View l) \<noteq> i"
    and "al_GrantID inp = i \<Longrightarrow> \<exists>e. snd (Acquire E now rnd a inp b) = Inl e"
proof -
  show "lease now a k b = Inr (l, g', c) \<Longrightarrow> lv_GrantID (lr_View l) \<noteq> i"
    using assms lease_facts(3,4) [of now a k b l g' c] grantMatches_active [of a g'] by auto
  have "b_grants (sweepLocked now b) = b_grants b" by (rule quiet_sel(4) [OF sweep_quiet])
  then show "al_GrantID inp = i \<Longrightarrow> \<exists>e. snd (Acquire E now rnd a inp b) = Inl e"
    using assms grantMatches_active [of a g] by (auto simp: Acquire_def Let_def)
qed

lemma inactive_grant_dead:
  assumes "bsteps E b b'" "go_lookup (b_grants b) i = Some g" "\<not> gr_Active (gd_View g)"
  shows "(\<forall>t a' k l g c. lease t a' k b' = Inr (l, g, c) \<longrightarrow> lv_GrantID (lr_View l) \<noteq> i) \<and>
    (\<forall>t rnd a' n. \<exists>e. snd (Acquire E t rnd a' \<lparr>al_GrantID = i, al_TTLSeconds = n\<rparr> b') = Inl e)"
proof -
  from grant_stays [OF assms(1,2)] assms(3) obtain g' where g': "go_lookup (b_grants b') i = Some g'" "\<not> gr_Active (gd_View g')" by auto
  show ?thesis
    using inactive_grant_refused(1) [OF g'] inactive_grant_refused(2) [OF g', of "\<lparr>al_GrantID = i, al_TTLSeconds = n\<rparr>" E for n] by fastforce
qed

lemma drop_where_grants: "b_grants (drop_where P b) = b_grants b"
  by (rule quiet_sel(4) [OF drop_where_quiet])

lemma RevokeGrant_inactive:
  assumes "RevokeGrant E now a i b = (b', Inr ())" "broker_ok E b"
  shows "\<exists>g. go_lookup (b_grants b') i = Some g \<and> \<not> gr_Active (gd_View g)"
proof -
  from assms(1) obtain g c where g: "go_lookup (b_grants b) i = Some g" "go_lookup (b_credentials b) (gr_CredentialID (gd_View g)) = Some c"
    by (auto simp: RevokeGrant_def split: option.splits)
  have key: "gr_ID (gd_View g) = i" by (rule keyedD(4) [OF broker_ok_keyed [OF assms(2)] g(1)])
  show ?thesis
  proof (cases "gr_Active (gd_View g)")
    case True
    with assms(1) g obtain ev seq b1 where "commit E ((audit_only ev)\<lparr>mu_Grant := Some (deactivated g)\<rparr>) b = (b1, Inr seq)"
      "b' = drop_where (\<lambda>l. lv_GrantID (lr_View l) = i) b1"
      by (auto simp: RevokeGrant_def Let_def split: if_splits prod.splits sum.splits)
    moreover from commit_success [OF this(1)] obtain j where
      "b1 = apply_mutation ((audit_only ev)\<lparr>mu_Grant := Some (deactivated g)\<rparr>) seq (b\<lparr>b_journal := j\<rparr>)" by blast
    ultimately show ?thesis by (simp add: drop_where_grants gomap_simps key)
  qed (use assms(1) g in \<open>auto simp: RevokeGrant_def split: if_splits\<close>)
qed

text \<open>The loop of \<^verbatim>\<open>RevokeCredential\<close> over the grants.\<close>

lemma revoke_grants_loop_inactive:
  assumes "revoke_grants_loop E now a cred gs b = (b', Inr ())"
    and "\<forall>(k, g)\<in>set gs. gr_ID (gd_View g) = k"
  shows "b_credentials b' = b_credentials b"
    and "go_lookup (b_grants b') k = go_lookup (b_grants b) k \<or> (\<exists>g. (k, g) \<in> set gs \<and> go_lookup (b_grants b') k = Some (deactivated g))"
    and "(k, g) \<in> set gs \<Longrightarrow> gr_CredentialID (gd_View g) = cred \<Longrightarrow> gr_Active (gd_View g) \<Longrightarrow>
      \<exists>g'. go_lookup (b_grants b') k = Some (deactivated g')"
proof -
  have "b_credentials b' = b_credentials b \<and>
    (\<forall>k. go_lookup (b_grants b') k = go_lookup (b_grants b) k \<or> (\<exists>g. (k, g) \<in> set gs \<and> go_lookup (b_grants b') k = Some (deactivated g))) \<and>
    (\<forall>k g. (k, g) \<in> set gs \<and> gr_CredentialID (gd_View g) = cred \<and> gr_Active (gd_View g) \<longrightarrow>
      (\<exists>g'. go_lookup (b_grants b') k = Some (deactivated g')))"
    using assms
  proof (induction gs arbitrary: b)
    case (Cons y gs)
    obtain k g where y: "y = (k, g)" by fastforce
    show ?case
    proof (cases "gr_CredentialID (gd_View g) \<noteq> cred \<or> \<not> gr_Active (gd_View g)")
      case True
      with Cons.prems(1) y have "revoke_grants_loop E now a cred gs b = (b', Inr ())" by simp
      from Cons.IH [OF this] Cons.prems(2) True y show ?thesis by auto
    next
      case False
      with Cons.prems(1) y obtain ev seq b1 where c: "commit E ((audit_only ev)\<lparr>mu_Grant := Some (deactivated g)\<rparr>) b = (b1, Inr seq)"
        and l: "revoke_grants_loop E now a cred gs b1 = (b', Inr ())"
        by (auto simp: Let_def split: prod.splits sum.splits)
      from commit_success [OF c] obtain j where
        b1: "b1 = apply_mutation ((audit_only ev)\<lparr>mu_Grant := Some (deactivated g)\<rparr>) seq (b\<lparr>b_journal := j\<rparr>)" by blast
      have key: "gr_ID (gd_View g) = k" using Cons.prems(2) y by simp
      have gr: "b_grants b1 = go_update k (deactivated g) (b_grants b)" "b_credentials b1 = b_credentials b"
        by (simp_all add: b1 put_opt_def key audit_only_def)
      have "\<forall>(k, g)\<in>set gs. gr_ID (gd_View g) = k" using Cons.prems(2) by simp
      note IH = Cons.IH [OF l this]
      have same: "go_lookup (b_grants b') i = (if i = k then Some (deactivated g) else go_lookup (b_grants b) i) \<or>
        (\<exists>g. (i, g) \<in> set gs \<and> go_lookup (b_grants b') i = Some (deactivated g))" for i
        using IH by (simp add: gr gomap_simps)
      have "go_lookup (b_grants b') i = go_lookup (b_grants b) i \<or> (\<exists>g. (i, g) \<in> set (y # gs) \<and> go_lookup (b_grants b') i = Some (deactivated g))" for i
        using same [of i] y by (cases "i = k") auto
      moreover have "\<exists>g'. go_lookup (b_grants b') k = Some (deactivated g')" using same [of k] by auto
      ultimately show ?thesis using IH gr y by auto
    qed
  qed simp
  then show "b_credentials b' = b_credentials b"
    and "go_lookup (b_grants b') k = go_lookup (b_grants b) k \<or> (\<exists>g. (k, g) \<in> set gs \<and> go_lookup (b_grants b') k = Some (deactivated g))"
    and "(k, g) \<in> set gs \<Longrightarrow> gr_CredentialID (gd_View g) = cred \<Longrightarrow> gr_Active (gd_View g) \<Longrightarrow>
      \<exists>g'. go_lookup (b_grants b') k = Some (deactivated g')" by blast+
qed

lemma RevokeCredential_effect:
  assumes "RevokeCredential E now a i b = (b', Inr ())" "broker_ok E b" "go_lookup (b_credentials b) i = Some c"
    "cr_Status (cd_View c) \<noteq> ''revoked''" "cr_Status (cd_View c) \<noteq> ''deleted''"
  shows "\<exists>c'. go_lookup (b_credentials b') i = Some c' \<and> cr_Status (cd_View c') = ''revoked'' \<and> cr_Revision (cd_View c') = Suc (cr_Revision (cd_View c))"
    and "go_lookup (b_grants b') k = Some g \<Longrightarrow> gr_CredentialID (gd_View g) = i \<Longrightarrow> \<not> gr_Active (gd_View g)"
proof -
  let ?c = "c\<lparr>cd_View := (cd_View c)\<lparr>cr_Status := ''revoked'', cr_Revision := cr_Revision (cd_View c) + 1\<rparr>\<rparr>"
  from assms obtain ev seq b1 where w: "commit E ((audit_only ev)\<lparr>mu_Credential := Some ?c\<rparr>) b = (b1, Inr seq)"
    and l: "revoke_grants_loop E now a i (b_grants (invalidateCredential i b1)) (invalidateCredential i b1) = (b', Inr ())"
    by (auto simp: RevokeCredential_def Let_def split: if_splits prod.splits sum.splits)
  from commit_success [OF w] obtain j where b1: "b1 = apply_mutation ((audit_only ev)\<lparr>mu_Credential := Some ?c\<rparr>) seq (b\<lparr>b_journal := j\<rparr>)" by blast
  have q: "quiet E b1 (invalidateCredential i b1)" unfolding invalidateCredential_def by (rule drop_where_quiet)
  have gr: "b_grants (invalidateCredential i b1) = b_grants b" using quiet_sel(4) [OF q] by (simp add: b1 put_opt_def audit_only_def)
  have cr: "go_lookup (b_credentials (invalidateCredential i b1)) i = Some ?c"
    using quiet_sel(3) [OF q] keyedD(3) [OF broker_ok_keyed [OF assms(2)] assms(3)] by (simp add: b1 gomap_simps)
  have wf: "go_wf (b_grants b)" using assms(2) by (simp add: broker_ok_def keyed_def)
  have keys: "\<forall>(k, g)\<in>set (b_grants b). gr_ID (gd_View g) = k"
    using keyedD(4) [OF broker_ok_keyed [OF assms(2)]] wf by (auto intro: map_of_is_SomeI)
  note L = revoke_grants_loop_inactive [OF l [unfolded gr] keys]
  show "\<exists>c'. go_lookup (b_credentials b') i = Some c' \<and> cr_Status (cd_View c') = ''revoked'' \<and> cr_Revision (cd_View c') = Suc (cr_Revision (cd_View c))"
    using cr L(1) by simp
  assume g: "go_lookup (b_grants b') k = Some g" "gr_CredentialID (gd_View g) = i"
  show "\<not> gr_Active (gd_View g)"
  proof
    assume act: "gr_Active (gd_View g)"
    with L(2) [of k] g(1) have "go_lookup (b_grants b) k = Some g" unfolding gr by (auto simp: deactivated_def)
    from L(3) [OF map_of_SomeD [OF this] g(2) act] g(1) act show False by (auto simp: deactivated_def)
  qed
qed

section \<open>Properties\<close>

text \<open>
  C1: The operations implement the ledger. Whatever sequence of operations runs, from a
  well-formed broker and with identifiers that are not in use, the broker only moves by
  steps of the specification: a write of a mutation that is \<open>allowed\<close> in the state it is applied to,
  a lease that fits, an update of a lease that keeps its grant, credential and epoch, or a
  step that the ledger does not see.
\<close>

theorem operations_refine_ledger:
  assumes "broker_ok E b" and "broker_run E b b'"
  shows "bsteps E b b'"
  using assms by (rule broker_run_steps(1) [rotated])

theorem operations_refine_ledger_witness:
  "bsteps demo_oauth_env demo_broker (run_op demo_oauth_env (OpRevokeGrant 0 demo_actor ''g1'') demo_broker)"
  by (rule operations_refine_ledger [OF demo_broker_ok run_next [OF run_start]]) simp

text \<open>
  C3: Revocation of a grant is final. Once \<^verbatim>\<open>RevokeGrant\<close> has returned without an error, then after
  any further operations no lease on this grant passes the check that guards every use, renewal
  and release, and every \<^verbatim>\<open>Acquire\<close> on the grant is refused.
\<close>

theorem revoked_grant_stays_unusable:
  assumes "broker_ok E b" and "RevokeGrant E now a i b = (b1, Inr ())" and "broker_run E b1 b2"
  shows "(\<forall>t a' k l g c. lease t a' k b2 = Inr (l, g, c) \<longrightarrow> lv_GrantID (lr_View l) \<noteq> i) \<and>
    (\<forall>t rnd a' n. \<exists>e. snd (Acquire E t rnd a' \<lparr>al_GrantID = i, al_TTLSeconds = n\<rparr> b2) = Inl e)"
proof -
  from RevokeGrant_inactive [OF assms(2,1)] obtain g where g: "go_lookup (b_grants b1) i = Some g" "\<not> gr_Active (gd_View g)" by blast
  have "broker_ok E b1" by (rule bsteps_ok [OF RevokeGrant_steps [OF assms(2,1)] assms(1)])
  from inactive_grant_dead [OF broker_run_steps(1) [OF assms(3) this] g] show ?thesis .
qed

text \<open>
  C4: Revocation of a credential is final for everything handed out before it. Once
  \<^verbatim>\<open>RevokeCredential\<close> has revoked a credential, then after any further operations a lease on the
  credential passes the check only if it belongs to a later epoch, and no grant that existed
  at the revocation can back a lease or give a new one: only a new enrollment and a new
  grant open the credential again.
\<close>

theorem revoked_credential_needs_new_epoch_and_grant:
  assumes "broker_ok E b" and "go_lookup (b_credentials b) i = Some cred"
    and "cr_Status (cd_View cred) \<noteq> ''revoked''" and "cr_Status (cd_View cred) \<noteq> ''deleted''"
    and "RevokeCredential E now a i b = (b1, Inr ())" and "broker_run E b1 b2"
  shows "(\<forall>t a' k l g c. lease t a' k b2 = Inr (l, g, c) \<and> lv_CredentialID (lr_View l) = i \<longrightarrow>
        lv_Revision (lr_View l) > Suc (cr_Revision (cd_View cred))) \<and>
    (\<forall>k g. go_lookup (b_grants b1) k = Some g \<and> gr_CredentialID (gd_View g) = i \<longrightarrow>
        (\<forall>t a' k' l g' c. lease t a' k' b2 = Inr (l, g', c) \<longrightarrow> lv_GrantID (lr_View l) \<noteq> k) \<and>
        (\<forall>t rnd a' n. \<exists>e. snd (Acquire E t rnd a' \<lparr>al_GrantID = k, al_TTLSeconds = n\<rparr> b2) = Inl e))"
proof -
  note eff = RevokeCredential_effect [OF assms(5,1,2,3,4)]
  have ok1: "broker_ok E b1" by (rule bsteps_ok [OF RevokeCredential_steps [OF assms(5,1)] assms(1)])
  note st = broker_run_steps(1) [OF assms(6) ok1]
  from eff(1) obtain c1 where c1: "go_lookup (b_credentials b1) i = Some c1" "cr_Status (cd_View c1) = ''revoked''"
    "cr_Revision (cd_View c1) = Suc (cr_Revision (cd_View cred))" by blast
  from credential_grows [OF st c1(1)] c1(2) obtain c2 where c2: "go_lookup (b_credentials b2) i = Some c2"
    "cr_Revision (cd_View c1) \<le> cr_Revision (cd_View c2)"
    "cr_Revision (cd_View c2) = cr_Revision (cd_View c1) \<longrightarrow> cr_Status (cd_View c2) \<noteq> ''active''" by auto
  have "lv_Revision (lr_View l) > Suc (cr_Revision (cd_View cred))" if "lease t a' k b2 = Inr (l, g, c)" "lv_CredentialID (lr_View l) = i" for t a' k l g c
    using lease_facts(5-7) [OF that(1)] that(2) c2 c1(3) by fastforce
  moreover have "(\<forall>t a' k' l g' c. lease t a' k' b2 = Inr (l, g', c) \<longrightarrow> lv_GrantID (lr_View l) \<noteq> k) \<and>
        (\<forall>t rnd a' n. \<exists>e. snd (Acquire E t rnd a' \<lparr>al_GrantID = k, al_TTLSeconds = n\<rparr> b2) = Inl e)"
    if g: "go_lookup (b_grants b1) k = Some g" "gr_CredentialID (gd_View g) = i" for k g
    by (rule inactive_grant_dead [OF st g(1) eff(2) [OF g]])
  ultimately show ?thesis by blast
qed

text \<open>
  C7: Grants stay isolated. In every state that the operations reach from an isolated one, two
  different active grants never share a binding of the same principal and context, and may share a workload
  only if both are shared grants and, when a contract reaches into the process (deliveries or
  state), both are for the same credential and contract.
\<close>

theorem active_grants_stay_isolated:
  assumes "broker_ok E b" and "grants_isolated b" and "broker_run E b b'"
    and "go_lookup (b_grants b') i = Some g" and "go_lookup (b_grants b') j = Some h" and "i \<noteq> j"
    and "gr_Active (gd_View g)" and "gr_Active (gd_View h)"
  shows "(gr_BindingID (gd_View g), gr_ContextID (gd_View g), gr_PrincipalID (gd_View g)) \<noteq>
      (gr_BindingID (gd_View h), gr_ContextID (gd_View h), gr_PrincipalID (gd_View h)) \<and>
    (gr_WorkloadID (gd_View g) = gr_WorkloadID (gd_View h) \<longrightarrow>
       gr_Execution (gd_View g) = ''shared'' \<and> gr_Execution (gd_View h) = ''shared'' \<and>
       (process_scoped (catalog_get b' (gd_ContractKey g)) \<or> process_scoped (catalog_get b' (gd_ContractKey h)) \<longrightarrow>
          gr_CredentialID (gd_View g) = gr_CredentialID (gd_View h) \<and> gd_ContractKey g = gd_ContractKey h))"
proof -
  from iso.run_keeps [OF assms(3,1,2)] assms(4-8) have "coexist b' g h" unfolding grants_isolated_def by blast
  then show ?thesis unfolding coexist_def prod.inject by argo
qed

text \<open>
  C29: Leases are bounded. In every state that the operations reach, there are at most 4096 leases,
  no lease is of an epoch that its credential has not reached, and no two leases share a
  checkpointed state.
\<close>

theorem leases_stay_bounded:
  assumes "broker_ok E b" and "leases_ok b" and "broker_run E b b'"
  shows "length (b_leases b') \<le> 4096 \<and>
    (\<forall>i l. go_lookup (b_leases b') i = Some l \<longrightarrow>
       (\<exists>c. go_lookup (b_credentials b') (lv_CredentialID (lr_View l)) = Some c \<and> lv_Revision (lr_View l) \<le> cr_Revision (cd_View c))) \<and>
    (\<forall>i l j k. go_lookup (b_leases b') i = Some l \<and> go_lookup (b_leases b') j = Some k \<and> lr_StateKey l = lr_StateKey k \<and>
       lr_StateKey l \<noteq> [] \<longrightarrow> i = j)"
  using lses.run_keeps [OF assms(3,1,2)] unfolding leases_ok_def .

text \<open>
  The life of a lease. A lease that \<^verbatim>\<open>Acquire\<close> hands out expires between one and 300 seconds
  from now, and for the actor it was given to it passes the check that guards its use exactly until then,
  as long as nothing else happens.
\<close>

theorem acquired_lease_is_valid_until_expiry:
  assumes "broker_ok E b" and "Acquire E now rnd a inp b = (b', Inr v)"
  shows "now + second \<le> lv_ExpiresAt v \<and> lv_ExpiresAt v \<le> now + 300 * second \<and>
    (\<forall>t. (\<exists>l g c. lease t a (lv_ID v) b' = Inr (l, g, c) \<and> lr_View l = v) \<longleftrightarrow> t < lv_ExpiresAt v)"
proof -
  let ?b = "sweepLocked now b"
  have q: "quiet E b ?b" by (rule sweep_quiet)
  define ttl where "ttl = (if al_TTLSeconds inp = 0 then 60 else al_TTLSeconds inp)"
  have "live b" using assms(2) by (cases "live b") (simp_all add: Acquire_def)
  with assms(2) obtain g c where g: "go_lookup (b_grants ?b) (al_GrantID inp) = Some g" "grantMatches a g"
    "go_lookup (b_credentials ?b) (gr_CredentialID (gd_View g)) = Some c" "cr_Status (cd_View c) = ''active''"
    by (auto simp: Acquire_def Let_def split: option.splits if_split_asm)
  with assms(2) \<open>live b\<close> have ttl: "1 \<le> ttl" "ttl \<le> 300"
    by (auto simp: Acquire_def Let_def ttl_def [symmetric] split: if_split_asm)
  from assms(2) \<open>live b\<close> g ttl obtain cc sk where w: "acquire_write E now a g c (new_lease rnd (now + ttl * second) g c cc) sk ?b = (b', Inr v)"
    unfolding Acquire_def Let_def ttl_def [symmetric] by (simp split: if_split_asm)
  let ?v = "new_lease rnd (now + ttl * second) g c cc"
  have keys: "gr_ID (gd_View g) = al_GrantID inp" "cr_ID (cd_View c) = gr_CredentialID (gd_View g)"
    using keyedD(3,4) [OF broker_ok_keyed [OF quiet_ok [OF q assms(1)]]] g(1,3) by blast+
  from w obtain ev seq b1 where cm: "commit E (audit_only ev) ?b = (b1, Inr seq)" and v: "v = ?v"
    and b': "b' = b1\<lparr>b_leases := go_update (lv_ID ?v) \<lparr>lr_View = ?v, lr_Materialized = None, lr_StateKey = sk, lr_Active = []\<rparr> (b_leases b1)\<rparr>"
    by (auto simp: acquire_write_def Let_def split: prod.splits sum.splits)
  from commit_success [OF cm] obtain j where b1: "b1 = apply_mutation (audit_only ev) seq (?b\<lparr>b_journal := j\<rparr>)" by blast
  have "live b1" by (rule commit_live [OF cm quiet_ok [OF q assms(1)]])
  then have "live b'" by (simp add: b' live_def)
  have tab: "go_lookup (b_grants b') (al_GrantID inp) = Some g" "go_lookup (b_credentials b') (gr_CredentialID (gd_View g)) = Some c"
    using g(1,3) by (simp_all add: b' b1 put_opt_def audit_only_def)
  have vs: "lv_GrantID ?v = al_GrantID inp" "lv_CredentialID ?v = gr_CredentialID (gd_View g)" "lv_Revision ?v = cr_Revision (cd_View c)"
    "lv_ExpiresAt ?v = now + ttl * second" using keys by (simp_all add: new_lease_def)
  have "lease t a (lv_ID ?v) b' = (if t < now + ttl * second
      then Inr (\<lparr>lr_View = ?v, lr_Materialized = None, lr_StateKey = sk, lr_Active = []\<rparr>, g, c) else Inl ErrExpired)" for t
    using \<open>live b'\<close> tab g(2,4) vs by (simp add: lease_def b' gomap_simps)
  then show ?thesis using ttl by (auto simp: v vs)
qed

text \<open>
  C5: A secret is only disclosed under a valid lease. When \<^verbatim>\<open>Resolve\<close> returns a bundle, whatever
  other calls did while it waited for the provider: at its last check the lease of the use is there
  and has not expired, its grant is active and matches the actor, its credential is active and
  still of the epoch of the lease, the use was not canceled, and the values satisfy the contract. In
  particular a revocation during the read keeps the secret back.
\<close>

theorem resolve_discloses_only_under_valid_lease:
  assumes "Resolve E now other u b = (b', Inr value)"
  shows "\<exists>l g c. live b' \<and> go_lookup (b_leases b') (us_Lease u) = Some l \<and> now 1 < lv_ExpiresAt (lr_View l) \<and>
    go_lookup (b_grants b') (lv_GrantID (lr_View l)) = Some g \<and> grantMatches (us_Actor u) g \<and>
    go_lookup (b_credentials b') (lv_CredentialID (lr_View l)) = Some c \<and> cr_Status (cd_View c) = ''active'' \<and>
    cr_Revision (cd_View c) = lv_Revision (lr_View l) \<and>
    us_Op u \<notin> set (b_canceled b') \<and> now 1 < us_Deadline u \<and> ValidateValues E (us_Contract u) (without_reserved value)"
proof -
  from assms have v: "Use_Valid (now 1) u b'" "ValidateValues E (us_Contract u) (without_reserved value)"
    by (auto simp: Resolve_def Let_def split: if_splits prod.splits sum.splits)
  then obtain l g c where "lease (now 1) (us_Actor u) (us_Lease u) b' = Inr (l, g, c)" by (auto simp: Use_Valid_def split: sum.splits)
  from lease_facts [OF this] v show ?thesis by (auto simp: Use_Valid_def)
qed

text \<open>
  Someone else's credential looks like no credential. For an actor that does not manage a
  credential, every operation on it and on its grants answers \<^verbatim>\<open>ErrNotFound\<close> (or that the broker is not
  available) and changes nothing, exactly as for an identifier that does not exist.
\<close>

theorem foreign_credential_looks_absent:
  assumes "\<forall>c. go_lookup (b_credentials b) i = Some c \<longrightarrow> \<not> managedBy a c"
  shows "GetCredential a i b = (if live b then Inl ErrNotFound else Inl ErrUnavailable) \<and>
    CreateGrant E now rnd a i inp b = (b, Inl (if live b then ErrNotFound else ErrUnavailable)) \<and>
    RevokeCredential E now a i b = (b, Inl ErrNotFound) \<and> DeleteCredential E now now2 other a i b = (b, Inl ErrNotFound) \<and>
    (\<forall>k g. go_lookup (b_grants b) k = Some g \<and> gr_CredentialID (gd_View g) = i \<longrightarrow>
       GetGrant a k b = (if live b then Inl ErrNotFound else Inl ErrUnavailable) \<and> RevokeGrant E now a k b = (b, Inl ErrNotFound))"
  using assms
  by (cases "go_lookup (b_credentials b) i")
    (auto simp: GetCredential_def CreateGrant_def RevokeCredential_def DeleteCredential_def GetGrant_def RevokeGrant_def)

section \<open>Witnesses\<close>

lemma demo_managed: "managedBy demo_actor demo_credential"
  by (simp add: managedBy_def demo_actor_def demo_credential_def)

lemma demo_revoke_grant: "\<exists>b1. RevokeGrant demo_oauth_env 0 demo_actor ''g1'' demo_broker = (b1, Inr ())"
proof -
  have g: "gr_CredentialID (gd_View demo_grant) = ''c1''" "gr_Active (gd_View demo_grant)" by (simp_all add: demo_grant_def)
  show ?thesis
    using demo_commit [of "(audit_only ((grant_event 0 ''grant.revoked'' demo_actor (cr_ID (cd_View demo_credential)) (gd_View demo_grant))
        \<lparr>ev_GrantID := ''g1''\<rparr>))\<lparr>mu_Grant := Some (deactivated demo_grant)\<rparr>"]
    by (auto simp: RevokeGrant_def g demo_managed)
qed

theorem revoked_grant_stays_unusable_witness:
  "\<exists>b1. RevokeGrant demo_oauth_env 0 demo_actor ''g1'' demo_broker = (b1, Inr ()) \<and>
     (\<forall>t a' k l g c. lease t a' k (Sweep 5 b1) = Inr (l, g, c) \<longrightarrow> lv_GrantID (lr_View l) \<noteq> ''g1'')"
proof -
  obtain b1 where r: "RevokeGrant demo_oauth_env 0 demo_actor ''g1'' demo_broker = (b1, Inr ())" using demo_revoke_grant by blast
  have "broker_run demo_oauth_env b1 (run_op demo_oauth_env (OpSweep 5) b1)" by (rule run_next [OF run_start]) simp
  from revoked_grant_stays_unusable [OF demo_broker_ok r this] r show ?thesis by auto
qed

lemma demo_revoke_credential: "\<exists>b1. RevokeCredential demo_oauth_env 0 demo_actor ''c1'' demo_broker = (b1, Inr ())"
proof -
  let ?E = demo_oauth_env
  let ?c = "demo_credential\<lparr>cd_View := (cd_View demo_credential)\<lparr>cr_Status := ''revoked'', cr_Revision := cr_Revision (cd_View demo_credential) + 1\<rparr>\<rparr>"
  let ?ev = "(audit 0 ''credential.revoked'' demo_actor)\<lparr>ev_CredentialID := ''c1'', ev_ConnectionID := cr_ConnectionID (cd_View ?c),
                       ev_ConsumerID := cr_ConsumerID (cd_View ?c)\<rparr>"
  let ?m = "(audit_only ?ev)\<lparr>mu_Credential := Some ?c\<rparr>"
  obtain j k where c: "commit ?E ?m demo_broker = (apply_mutation ?m k (demo_broker\<lparr>b_journal := j\<rparr>), Inr k)" "roomy ?E 49 j"
    using demo_commit by blast
  define b1 where "b1 = invalidateCredential ''c1'' (apply_mutation ?m k (demo_broker\<lparr>b_journal := j\<rparr>))"
  have b1: "roomy ?E (Suc 48) (b_journal b1)" "\<not> b_closed b1"
    using c(2) by (simp_all add: b1_def invalidateCredential_def demo_drop)
  have gr: "b_grants b1 = [(''g1'', demo_grant)]"
    by (simp add: b1_def invalidateCredential_def drop_where_grants put_opt_def audit_only_def)
  have "\<exists>b2. revoke_grants_loop ?E 0 demo_actor ''c1'' (b_grants b1) b1 = (b2, Inr ())"
    using roomy_commit [OF b1, of "(audit_only ((grant_event 0 ''grant.revoked'' demo_actor ''c1'' (gd_View demo_grant))
      \<lparr>ev_GrantID := ''g1''\<rparr>))\<lparr>mu_Grant := Some (deactivated demo_grant)\<rparr>"] by (auto simp: gr Let_def)
  moreover have "cr_Status (cd_View demo_credential) = ''active''" by (simp add: demo_credential_def)
  ultimately show ?thesis
    using c(1) by (simp add: RevokeCredential_def Let_def demo_managed b1_def)
qed

theorem revoked_credential_needs_new_epoch_and_grant_witness:
  "\<exists>b1. RevokeCredential demo_oauth_env 0 demo_actor ''c1'' demo_broker = (b1, Inr ()) \<and>
     (\<forall>t a' k l g c. lease t a' k b1 = Inr (l, g, c) \<and> lv_CredentialID (lr_View l) = ''c1'' \<longrightarrow> lv_Revision (lr_View l) > 2)"
proof -
  obtain b1 where r: "RevokeCredential demo_oauth_env 0 demo_actor ''c1'' demo_broker = (b1, Inr ())" using demo_revoke_credential by blast
  have c: "go_lookup (b_credentials demo_broker) ''c1'' = Some demo_credential" "cr_Status (cd_View demo_credential) \<noteq> ''revoked''"
    "cr_Status (cd_View demo_credential) \<noteq> ''deleted''" "cr_Revision (cd_View demo_credential) = 1" by (simp_all add: demo_credential_def)
  have "lv_Revision (lr_View l) > 2" if "lease t a' k b1 = Inr (l, g, c)" "lv_CredentialID (lr_View l) = ''c1''" for t a' k l g c
    using revoked_credential_needs_new_epoch_and_grant [OF demo_broker_ok c(1-3) r run_start, THEN conjunct1, rule_format, OF conjI, OF that] c(4)
    by simp
  with r show ?thesis by blast
qed

text \<open>Two shared grants of one credential on one workload.\<close>

definition shared_broker :: "unit Broker" where
  "shared_broker = demo_broker\<lparr>b_grants := [(''g1'', demo_grant\<lparr>gd_View := (gd_View demo_grant)\<lparr>gr_Execution := ''shared''\<rparr>\<rparr>),
     (''g2'', demo_grant\<lparr>gd_View := (gd_View demo_grant)\<lparr>gr_ID := ''g2'', gr_BindingID := ''b2'', gr_Execution := ''shared''\<rparr>\<rparr>)]\<rparr>"

lemma shared_broker_ok: "broker_ok demo_oauth_env shared_broker" "grants_isolated shared_broker"
proof -
  show "broker_ok demo_oauth_env shared_broker"
    using roomy_inv [OF demo_roomy(1)] by (simp add: shared_broker_def broker_ok_def keyed_def demo_request_def demo_credential_def demo_grant_def)
  show "grants_isolated shared_broker"
    by (auto simp: grants_isolated_def coexist_def shared_broker_def demo_grant_def split: if_splits)
qed

theorem active_grants_stay_isolated_witness:
  "let g = demo_grant\<lparr>gd_View := (gd_View demo_grant)\<lparr>gr_Execution := ''shared''\<rparr>\<rparr>;
       h = demo_grant\<lparr>gd_View := (gd_View demo_grant)\<lparr>gr_ID := ''g2'', gr_BindingID := ''b2'', gr_Execution := ''shared''\<rparr>\<rparr>
   in gr_WorkloadID (gd_View g) = gr_WorkloadID (gd_View h) \<and> gr_CredentialID (gd_View g) = gr_CredentialID (gd_View h) \<and>
      gr_BindingID (gd_View g) \<noteq> gr_BindingID (gd_View h)"
proof -
  let ?g = "demo_grant\<lparr>gd_View := (gd_View demo_grant)\<lparr>gr_Execution := ''shared''\<rparr>\<rparr>"
  let ?h = "demo_grant\<lparr>gd_View := (gd_View demo_grant)\<lparr>gr_ID := ''g2'', gr_BindingID := ''b2'', gr_Execution := ''shared''\<rparr>\<rparr>"
  have l: "go_lookup (b_grants shared_broker) ''g1'' = Some ?g" "go_lookup (b_grants shared_broker) ''g2'' = Some ?h" "''g1'' \<noteq> ''g2''"
    "gr_Active (gd_View ?g)" "gr_Active (gd_View ?h)" by (simp_all add: shared_broker_def demo_grant_def)
  from active_grants_stay_isolated [OF shared_broker_ok run_start l] show ?thesis
    by (simp add: shared_broker_def demo_grant_def go_get_def demo_contract_def process_scoped_def)
qed

lemma demo_leases_ok: "leases_ok demo_broker"
  by (auto simp: leases_ok_def demo_leaserec_def demo_credential_def split: if_splits)

theorem leases_stay_bounded_witness:
  "length (b_leases (Sweep (61 * second) demo_broker)) \<le> 4096"
proof -
  have "broker_run demo_oauth_env demo_broker (run_op demo_oauth_env (OpSweep (61 * second)) demo_broker)" by (rule run_next [OF run_start]) simp
  from leases_stay_bounded [OF demo_broker_ok demo_leases_ok this] show ?thesis by simp
qed

lemma demo_matches: "grantMatches demo_actor demo_grant"
  by (simp add: grantMatches_def demo_actor_def demo_grant_def)

theorem acquired_lease_is_valid_until_expiry_witness:
  "\<exists>b' v. Acquire demo_oauth_env 0 ''xyz'' demo_actor \<lparr>al_GrantID = ''g1'', al_TTLSeconds = 30\<rparr> demo_broker = (b', Inr v) \<and>
     lv_ExpiresAt v = 30 * second \<and> (\<exists>l g c. lease (29 * second) demo_actor (lv_ID v) b' = Inr (l, g, c) \<and> lr_View l = v)"
proof -
  let ?inp = "\<lparr>al_GrantID = ''g1'', al_TTLSeconds = 30\<rparr>"
  have sw: "sweepLocked 0 demo_broker = demo_broker" by (simp add: sweepLocked_def drop_where_def demo_leaserec_def)
  have g: "gr_CredentialID (gd_View demo_grant) = ''c1''" "cr_Status (cd_View demo_credential) = ''active''"
    "gd_ContractKey demo_grant = ''github-pat@1''" "c_State demo_contract = None"
    by (simp_all add: demo_grant_def demo_credential_def demo_contract_def)
  let ?v = "new_lease ''xyz'' (0 + 30 * second) demo_grant demo_credential demo_contract"
  have "\<exists>b'. Acquire demo_oauth_env 0 ''xyz'' demo_actor ?inp demo_broker = (b', Inr ?v)"
    using demo_commit [of "audit_only ((audit 0 ''lease.acquired'' demo_actor)\<lparr>ev_CredentialID := cr_ID (cd_View demo_credential),
        ev_GrantID := gr_ID (gd_View demo_grant), ev_LeaseID := lv_ID ?v, ev_BindingID := gr_BindingID (gd_View demo_grant),
        ev_WorkloadID := gr_WorkloadID (gd_View demo_grant)\<rparr>)"]
    by (auto simp: Acquire_def acquire_write_def Let_def demo_live sw g demo_matches go_get_def)
  then obtain b' where b': "Acquire demo_oauth_env 0 ''xyz'' demo_actor ?inp demo_broker = (b', Inr ?v)" by blast
  moreover have "lv_ExpiresAt ?v = 30 * second" by (simp add: new_lease_def)
  ultimately show ?thesis using acquired_lease_is_valid_until_expiry [OF demo_broker_ok b'] by auto
qed

definition demo_use :: Use where
  "demo_use = \<lparr>us_Actor = demo_actor, us_Lease = ''l1'', us_Op = ''u1'', us_Deadline = 60 * second, us_Contract = demo_contract,
     us_CredentialID = ''c1'', us_Ref = demo_ref\<rparr>"

lemma demo_use_valid: "t < 60 * second \<Longrightarrow> Use_Valid t demo_use demo_broker"
  using demo_matches demo_live(1) by (simp add: Use_Valid_def lease_def demo_use_def demo_leaserec_def demo_credential_def)

lemma demo_oauth_values: "ValidateValues demo_oauth_env demo_contract [(''token'', ''ghp_x'')]"
  by (simp add: ValidateValues_def demo_contract_def value_bad_def ContainsAny_def in_range_def MaxBundle_def bundle_get_def Let_def)

theorem resolve_discloses_only_under_valid_lease_witness:
  "\<exists>b' l. Resolve demo_oauth_env (\<lambda>k. int k) (\<lambda>_. id) demo_use demo_broker = (b', Inr [(''token'', ''ghp_x'')]) \<and>
     go_lookup (b_leases b') ''l1'' = Some l \<and> 1 < lv_ExpiresAt (lr_View l)"
proof -
  have r: "broker_resolve demo_ref demo_broker = (demo_broker, Inr [(''token'', ''ghp_x'')])"
    by (simp add: broker_resolve_def Registry_Resolve_def demo_ref_def demo_cfg_def demo_store_def)
  have "Resolve demo_oauth_env (\<lambda>k. int k) (\<lambda>_. id) demo_use demo_broker = (demo_broker, Inr [(''token'', ''ghp_x'')])"
    using demo_oauth_values r demo_use_valid [of 0] demo_use_valid [of 1]
    by (simp add: Resolve_def demo_use_def without_reserved_def reserved_def)
  from resolve_discloses_only_under_valid_lease [OF this] this show ?thesis by (auto simp: demo_use_def)
qed

theorem foreign_credential_looks_absent_witness:
  "GetCredential (demo_actor\<lparr>a_PrincipalID := ''eve''\<rparr>) ''c1'' demo_broker = Inl ErrNotFound \<and>
   RevokeGrant demo_oauth_env 0 (demo_actor\<lparr>a_PrincipalID := ''eve''\<rparr>) ''g1'' demo_broker = (demo_broker, Inl ErrNotFound)"
proof -
  let ?a = "demo_actor\<lparr>a_PrincipalID := ''eve''\<rparr>"
  have m: "\<not> managedBy ?a demo_credential" by (simp add: managedBy_def demo_credential_def demo_actor_def)
  have g: "gr_CredentialID (gd_View demo_grant) = ''c1''" by (simp add: demo_grant_def)
  from foreign_credential_looks_absent [of demo_broker "''c1''" ?a demo_oauth_env 0] m g demo_live show ?thesis by simp
qed

section \<open>A revocation that was interrupted\<close>

text \<open>
  \<^verbatim>\<open>RevokeCredential\<close> writes the credential first and its grants one by one. When a write in between
  fails, the call reports the failure, but a second call finds the credential revoked and
  reports success at once: the grants that were left stay active, and are usable again
  when the credential is rotated.
\<close>

definition torn_core :: JCore where
  "torn_core = demo_core\<lparr>j_io := [IoOk, IoOk, IoOk, IoFail 0]\<rparr>"

definition torn_broker :: "unit Broker" where
  "torn_broker = demo_broker\<lparr>b_journal := Journal torn_core None None\<rparr>"

lemma torn_first:
  "\<exists>c. Append demo_oauth_env ''mutation.v1'' ''{}'' (Journal torn_core None None) = (Journal c None None, Inr 1) \<and>
     j_io c = [IoFail 0] \<and> \<not> j_poisoned c \<and> j_file c \<noteq> None \<and> length (j_prev c) = 64 \<and> j_seq c = 1"
proof -
  have "deflate demo_oauth_env = id" "gcm_seal demo_oauth_env = (\<lambda>k n p a. p @ replicate 16 CHR ''t'')" "nonces demo_oauth_env = (\<lambda>_. replicate 12 CHR ''n'')"
    by (simp_all add: demo_env_defs)
  then show ?thesis
    by (simp add: Append.simps reserve_def frame_def torn_core_def demo_core_def io_next_def pop_io_def demo_json_def MaxRecord_def
        nat_digits.simps write_frame_def box_Seal_def Let_def put_u32_def accept_def record_hash_def)
qed

lemma nonce_fault:
  assumes "\<not> j_poisoned c" "j_file c \<noteq> None" "kind \<noteq> []" "j_io c = IoFail n # xs"
    "length (json_record E \<lparr>rec_Sequence = j_seq c + 1, rec_Previous = j_prev c, rec_Kind = kind, rec_Data = raw\<rparr>) + 28 \<le> MaxRecord"
  shows "Append E kind raw (Journal c None None) = (Journal (c\<lparr>j_io := xs\<rparr>) None None, Inl (JOther ''nonce''))"
  using assms by (simp add: Append.simps reserve_def frame_def io_next_def pop_io_def Let_def)

text \<open>C31: a revocation whose second commit fails reports an error, but repeating it reports success at
  once and leaves the grant of the revoked credential active: the early return for a revoked credential
  skips the grants that the first attempt did not reach.\<close>

theorem interrupted_revocation_leaves_grants:
  "\<exists>b1 g. RevokeCredential demo_oauth_env 0 demo_actor ''c1'' torn_broker = (b1, Inl ErrUnavailable) \<and>
     RevokeCredential demo_oauth_env 1 demo_actor ''c1'' b1 = (b1, Inr ()) \<and> live b1 \<and>
     go_lookup (b_grants b1) ''g1'' = Some g \<and> gr_CredentialID (gd_View g) = ''c1'' \<and> gr_Active (gd_View g)"
proof -
  let ?E = demo_oauth_env
  let ?c = "demo_credential\<lparr>cd_View := (cd_View demo_credential)\<lparr>cr_Status := ''revoked'', cr_Revision := cr_Revision (cd_View demo_credential) + 1\<rparr>\<rparr>"
  let ?ev = "(audit 0 ''credential.revoked'' demo_actor)\<lparr>ev_CredentialID := ''c1'', ev_ConnectionID := cr_ConnectionID (cd_View ?c),
                       ev_ConsumerID := cr_ConsumerID (cd_View ?c)\<rparr>"
  let ?m = "(audit_only ?ev)\<lparr>mu_Credential := Some ?c\<rparr>"
  obtain c where c: "Append ?E ''mutation.v1'' ''{}'' (Journal torn_core None None) = (Journal c None None, Inr 1)"
    "j_io c = [IoFail 0]" "\<not> j_poisoned c" "j_file c \<noteq> None" "length (j_prev c) = 64" "j_seq c = 1" using torn_first by blast
  have "length (demo_json \<lparr>rec_Sequence = j_seq c + 1, rec_Previous = j_prev c, rec_Kind = ''mutation.v1'', rec_Data = ''{}''\<rparr>) + 28 \<le> MaxRecord"
    using c(5,6) by (simp add: demo_json_def nat_digits.simps MaxRecord_def)
  then have f: "Append ?E ''mutation.v1'' ''{}'' (Journal c None None) = (Journal (c\<lparr>j_io := []\<rparr>) None None, Inl (JOther ''nonce''))"
    using nonce_fault [of c "''mutation.v1''" 0 "[]" ?E "''{}''"] c(2-4) by simp
  define b0 where "b0 = invalidateCredential ''c1'' (apply_mutation ?m 1 (torn_broker\<lparr>b_journal := Journal c None None\<rparr>))"
  define b1 where "b1 = b0\<lparr>b_journal := Journal (c\<lparr>j_io := []\<rparr>) None None\<rparr>"
  have tb: "b_credentials torn_broker = [(''c1'', demo_credential)]" by (simp add: torn_broker_def)
  have lv: "live torn_broker" by (simp add: live_def torn_broker_def torn_core_def demo_core_def journal_Healthy_def)
  have j0: "b_journal b0 = Journal c None None" "\<not> b_closed b0" by (simp_all add: b0_def invalidateCredential_def demo_drop torn_broker_def)
  have l0: "live b0" using c(3,4) by (simp add: live_def j0 journal_Healthy_def)
  have q: "quiet ?E (apply_mutation ?m 1 (torn_broker\<lparr>b_journal := Journal c None None\<rparr>)) b0" unfolding b0_def by (rule invalidate_quiet)
  have gr: "b_grants b0 = [(''g1'', demo_grant)]" using quiet_sel(4) [OF q] by (simp add: torn_broker_def put_opt_def audit_only_def)
  have cr: "go_lookup (b_credentials b0) ''c1'' = Some ?c"
    using quiet_sel(3) [OF q] by (simp add: torn_broker_def gomap_simps) (simp add: demo_credential_def)
  have act: "cr_Status (cd_View demo_credential) = ''active''" by (simp add: demo_credential_def)
  have g: "gr_CredentialID (gd_View demo_grant) = ''c1''" "gr_Active (gd_View demo_grant)" by (simp_all add: demo_grant_def)
  have "commit ?E ?m torn_broker = (apply_mutation ?m 1 (torn_broker\<lparr>b_journal := Journal c None None\<rparr>), Inr 1)"
    using c(1) lv by (simp add: commit_def) (simp add: torn_broker_def)
  then have "RevokeCredential ?E 0 demo_actor ''c1'' torn_broker = revoke_grants_loop ?E 0 demo_actor ''c1'' (b_grants b0) b0"
    using act tb by (simp add: RevokeCredential_def Let_def demo_managed b0_def)
  also have "\<dots> = (b1, Inl ErrUnavailable)"
    using f by (simp add: gr g Let_def commit_def l0 j0(1) b1_def)
  finally have first: "RevokeCredential ?E 0 demo_actor ''c1'' torn_broker = (b1, Inl ErrUnavailable)" .
  have "managedBy demo_actor ?c" using demo_managed by (simp add: managedBy_def split: if_splits)
  then have "RevokeCredential ?E 1 demo_actor ''c1'' b1 = (b1, Inr ())" using cr by (simp add: RevokeCredential_def b1_def)
  moreover have "live b1" using l0 by (simp add: b1_def live_def j0 journal_Healthy_def)
  ultimately show ?thesis using first g gr by (simp add: b1_def)
qed

end
