(* ===== verification/Flow_Props.thy ===== *)
theory Flow_Props
  imports Demo_Broker
begin

text \<open>
  What the broker guarantees about enrollment: requests, browser sessions, OAuth flows, the audit
  trail, and what a restart finds.
\<close>

section \<open>Lemmas\<close>

lemma CancelRequest_canceled:
  assumes "CancelRequest E now a i b = (b', Inr ())" "broker_ok E b"
  shows "\<exists>r. go_lookup (b_requests b') i = Some r \<and> rq_Status (rr_View r) = ''canceled''"
proof -
  from assms(1) obtain r where r: "go_lookup (b_requests b) i = Some r" by (auto simp: CancelRequest_def split: option.splits)
  show ?thesis
  proof (cases "rq_Status (rr_View r) = ''canceled''")
    case True
    with assms(1) r show ?thesis by (auto simp: CancelRequest_def split: if_splits)
  next
    case False
    let ?r = "r\<lparr>rr_View := (rr_View r)\<lparr>rq_Status := ''canceled''\<rparr>\<rparr>"
    from False assms(1) r obtain ev seq where "commit E ((audit_only ev)\<lparr>mu_Request := Some ?r\<rparr>) b = (b', Inr seq)"
      by (auto simp: CancelRequest_def Let_def split: if_splits prod.splits sum.splits)
    moreover from commit_success [OF this] obtain j where "b' = apply_mutation ((audit_only ev)\<lparr>mu_Request := Some ?r\<rparr>) seq (b\<lparr>b_journal := j\<rparr>)"
      by blast
    moreover have "rq_ID (rr_View r) = i" by (rule keyedD(1) [OF broker_ok_keyed [OF assms(2)] r])
    ultimately show ?thesis by (simp add: gomap_simps)
  qed
qed

lemma canceled_request_refused:
  assumes "go_lookup (b_requests b) i = Some r" "rq_Status (rr_View r) = ''canceled''"
  shows "\<exists>e. Submit E t rnd i raw csrf v d b = (b, Inl e)"
    and "\<exists>e. SubmitTelegram E t rnd a i v b = (b, Inl e)"
    and "\<exists>e. StartOAuth E t rnd rnd2 i raw csrf b = (b, Inl e)"
    and "rq_ID (rr_View q) = i \<Longrightarrow> oauth_settle E t rnd s q o' c res b = (b, Inl ErrExpired)"
proof -
  have v: "\<exists>e. validSession E t raw i True b = Inl e"
    using assms by (auto simp: validSession_def session_closed_def split: option.splits)
  from v show "\<exists>e. Submit E t rnd i raw csrf v d b = (b, Inl e)" by (auto simp: Submit_def)
  from v show "\<exists>e. StartOAuth E t rnd rnd2 i raw csrf b = (b, Inl e)" by (auto simp: StartOAuth_def)
  from assms show "\<exists>e. SubmitTelegram E t rnd a i v b = (b, Inl e)" by (auto simp: SubmitTelegram_def)
  from assms show "rq_ID (rr_View q) = i \<Longrightarrow> oauth_settle E t rnd s q o' c res b = (b, Inl ErrExpired)"
    by (auto simp: oauth_settle_def go_get_def)
qed

text \<open>Paging through the audit trail.\<close>

definition visible_after :: "Actor \<Rightarrow> nat \<Rightarrow> Event list \<Rightarrow> Event list" where
  "visible_after a n es = filter (\<lambda>e. n < ev_Sequence e \<and> event_visible a e) es"

lemma events_loop_pages:
  assumes "sorted_wrt (<) (map ev_Sequence es)" "after \<le> es_NextCursor out" "length (es_Events out) < limit"
    and "\<forall>e\<in>set es. ev_Sequence e \<le> after \<or> es_NextCursor out < ev_Sequence e"
  shows "es_NextCursor out \<le> es_NextCursor (events_loop a after limit es out) \<and>
    es_Events (events_loop a after limit es out) = es_Events out @ take (limit - length (es_Events out)) (visible_after a after es) \<and>
    visible_after a (es_NextCursor (events_loop a after limit es out)) es = drop (limit - length (es_Events out)) (visible_after a after es)"
  using assms
proof (induction es arbitrary: out)
  case Nil
  then show ?case by (simp add: visible_after_def)
next
  case (Cons e es)
  have srt: "sorted_wrt (<) (map ev_Sequence es)" and gt: "\<forall>x\<in>set es. ev_Sequence e < ev_Sequence x" using Cons.prems(1) by auto
  show ?case
  proof (cases "ev_Sequence e \<le> after")
    case True
    from Cons.IH [OF srt Cons.prems(2,3)] Cons.prems(4) True Cons.prems(2) show ?thesis by (auto simp: visible_after_def)
  next
    case False
    define out2 where "out2 = (if event_visible a e then out\<lparr>es_NextCursor := ev_Sequence e, es_Events := es_Events out @ [e]\<rparr>
      else out\<lparr>es_NextCursor := ev_Sequence e\<rparr>)"
    have cur: "es_NextCursor out2 = ev_Sequence e" "es_NextCursor out < ev_Sequence e" using False Cons.prems(4) by (auto simp: out2_def)
    have run: "events_loop a after limit (e # es) out = (if limit \<le> length (es_Events out2) then out2 else events_loop a after limit es out2)"
      using False by (simp add: out2_def)
    have rest: "visible_after a (ev_Sequence e) es = visible_after a after es" "visible_after a n (e # es) = visible_after a n es" if "ev_Sequence e \<le> n" for n
      using gt that False by (auto simp: visible_after_def intro!: filter_cong)
    have vis: "visible_after a after (e # es) = (if event_visible a e then e # visible_after a after es else visible_after a after es)"
      using False by (simp add: visible_after_def)
    show ?thesis
    proof (cases "limit \<le> length (es_Events out2)")
      case True
      with Cons.prems(3) have "event_visible a e" "limit - length (es_Events out) = 1" by (auto simp: out2_def split: if_splits)
      then show ?thesis using True cur rest [of "ev_Sequence e"] by (simp add: run vis out2_def del: events_loop.simps)
    next
      case not_full: False
      have "\<forall>x\<in>set es. ev_Sequence x \<le> after \<or> es_NextCursor out2 < ev_Sequence x" using gt cur by simp
      with Cons.IH [OF srt, of out2] not_full False cur(1)
      have IH: "ev_Sequence e \<le> es_NextCursor (events_loop a after limit es out2)"
        "es_Events (events_loop a after limit es out2) = es_Events out2 @ take (limit - length (es_Events out2)) (visible_after a after es)"
        "visible_after a (es_NextCursor (events_loop a after limit es out2)) es = drop (limit - length (es_Events out2)) (visible_after a after es)"
        by auto
      have len: "limit - length (es_Events out) = (if event_visible a e then Suc (limit - length (es_Events out2)) else limit - length (es_Events out2))"
        using Cons.prems(3) not_full by (auto simp: out2_def)
      have ev: "es_Events out2 = (if event_visible a e then es_Events out @ [e] else es_Events out)" by (simp add: out2_def)
      obtain n where n: "limit - length (es_Events out2) = n" by blast
      show ?thesis
        unfolding run if_not_P [OF not_full] vis len IH(2) rest(2) [OF IH(1)] IH(3) n
        using IH(1) cur(2) by (cases "event_visible a e") (simp_all add: ev)
    qed
  qed
qed

text \<open>Replay touches the tables only.\<close>

lemma Tables_extend_more: "Tables.extend (Tables.truncate b) (Tables.more b) = b"
  by (simp add: Tables.defs)

lemma extend_apply: "apply_mutation m n (Tables.extend t x) = Tables.extend (apply_mutation m n t) x"
  by (simp add: apply_mutation_def Tables.defs)

lemma replay_extend: "replay E rs (Tables.extend t x) = map_sum id (\<lambda>t. Tables.extend t x) (replay E rs t)"
proof (induction rs arbitrary: t)
  case (Cons r rs)
  have "shadows E (Tables.extend t x) m = shadows E t m" for m by (simp add: shadows_def Tables.defs split: option.split)
  then show ?case by (simp add: Cons.IH extend_apply split: option.split)
qed simp

lemma fresh_extend: "fresh_broker cfg j mgr w cat = Tables.extend (empty_tables cat) (Tables.more (fresh_broker cfg j mgr w cat))"
  by (simp add: fresh_broker_def empty_tables_def Tables.defs)

lemma truncate_extend: "Tables.truncate (Tables.extend t x) = t"
  by (cases t) (simp add: Tables.defs)

text \<open>What a restart makes of a request whose exchange was under way.\<close>

definition interrupted :: "requestRecord \<Rightarrow> requestRecord" where
  "interrupted r = (if rq_Status (rr_View r) = ''exchanging''
     then r\<lparr>rr_View := (rr_View r)\<lparr>rq_Status := ''authorizing''\<rparr>, rr_OAuthStateHash := []\<rparr> else r)"

definition same_but_requests :: "'w Broker \<Rightarrow> 'w Broker \<Rightarrow> bool" where
  "same_but_requests b b' \<longleftrightarrow> b_catalog b' = b_catalog b \<and> b_sessions b' = b_sessions b \<and> b_credentials b' = b_credentials b \<and>
     b_grants b' = b_grants b \<and> b_states b' = b_states b \<and> b_oauth b' = b_oauth b \<and> b_leases b' = b_leases b"

lemma interrupt_loop_result:
  assumes "interrupt_loop E now rs b = (b', Inr ())" "\<forall>(k, r)\<in>set rs. rq_ID (rr_View r) = k" "distinct (map fst rs)"
  shows "same_but_requests b b' \<and>
    (\<forall>k. go_lookup (b_requests b') k = (case go_lookup rs k of
        None \<Rightarrow> go_lookup (b_requests b) k
      | Some r \<Rightarrow> if rq_Status (rr_View r) = ''exchanging'' then Some (interrupted r) else go_lookup (b_requests b) k))"
  using assms
proof (induction rs arbitrary: b)
  case Nil
  then show ?case by (simp add: same_but_requests_def)
next
  case (Cons y rs)
  obtain k r where y: "y = (k, r)" by fastforce
  have prem: "\<forall>(k, r)\<in>set rs. rq_ID (rr_View r) = k" "distinct (map fst rs)" "rq_ID (rr_View r) = k" "go_lookup rs k = None"
    using Cons.prems(2,3) y by (auto simp: map_of_eq_None_iff)
  show ?case
  proof (cases "rq_Status (rr_View r) = ''exchanging''")
    case False
    with Cons.prems(1) y have "interrupt_loop E now rs b = (b', Inr ())" by simp
    from Cons.IH [OF this prem(1,2)] False prem(4) y show ?thesis by simp
  next
    case True
    then have i: "interrupted r = r\<lparr>rr_View := (rr_View r)\<lparr>rq_Status := ''authorizing''\<rparr>, rr_OAuthStateHash := []\<rparr>" by (simp add: interrupted_def)
    from True Cons.prems(1) y obtain ev seq b1 where c: "commit E ((audit_only ev)\<lparr>mu_Request := Some (interrupted r)\<rparr>) b = (b1, Inr seq)"
      and l: "interrupt_loop E now rs b1 = (b', Inr ())"
      by (auto simp: Let_def i split: prod.splits sum.splits)
    from commit_success [OF c] obtain j where b1: "b1 = apply_mutation ((audit_only ev)\<lparr>mu_Request := Some (interrupted r)\<rparr>) seq (b\<lparr>b_journal := j\<rparr>)"
      by blast
    have "same_but_requests b b1" by (simp add: b1 same_but_requests_def put_opt_def audit_only_def)
    moreover have "go_lookup (b_requests b1) i = (if i = k then Some (interrupted r) else go_lookup (b_requests b) i)" for i
      using prem(3) by (simp add: b1 gomap_simps i)
    ultimately show ?thesis
      using Cons.IH [OF l prem(1,2)] True prem(4) y by (auto simp: same_but_requests_def split: option.splits)
  qed
qed

text \<open>What a created request leaves for its replay.\<close>

lemma find_update:
  "List.find P m = None \<Longrightarrow> go_lookup m k = None \<Longrightarrow> P (k, v) \<Longrightarrow> List.find P (go_update k v m) = Some (k, v)"
  by (induction m) (auto split: if_splits)

lemma ready_request:
  assumes "ready E now rnd r ref managed s b = (b', Inr c)"
  shows "\<exists>r'. b_requests b' = go_update (rq_ID (rr_View r)) r' (b_requests b) \<and> rr_Idempotency r' = rr_Idempotency r \<and>
    rr_Fingerprint r' = rr_Fingerprint r \<and> rq_ID (rr_View r') = rq_ID (rr_View r)" "b_catalog b' = b_catalog b" "b_cfg b' = b_cfg b"
proof -
  from assms obtain i k b1 seq where w: "commit E (ready_mutation now r k s) b = (b1, Inr seq)" "b' = invalidateCredential i b1"
    by (auto simp: ready_def Let_def split: if_splits prod.splits sum.splits)
  from commit_success [OF w(1)] obtain j where b1: "b1 = apply_mutation (ready_mutation now r k s) seq (b\<lparr>b_journal := j\<rparr>)" by blast
  note same = quiet_sel(1,7,8) [OF invalidate_quiet [of E b1 i]]
  let ?r = "r\<lparr>rr_View := (rr_View r)\<lparr>rq_CredentialID := cr_ID (cd_View k), rq_Revision := cr_Revision (cd_View k), rq_Status := ''ready''\<rparr>\<rparr>"
  have "b_requests b' = go_update (rq_ID (rr_View r)) ?r (b_requests b)" 
    unfolding w(2) same by (simp add: b1 put_opt_def ready_mutation_def Let_def)
  then show "\<exists>r'. b_requests b' = go_update (rq_ID (rr_View r)) r' (b_requests b) \<and> rr_Idempotency r' = rr_Idempotency r \<and>
    rr_Fingerprint r' = rr_Fingerprint r \<and> rq_ID (rr_View r') = rq_ID (rr_View r)" by (intro exI [of _ ?r]) simp
  show "b_catalog b' = b_catalog b" "b_cfg b' = b_cfg b" 
    unfolding w(2) same by (simp_all add: b1 put_opt_def ready_mutation_def audit_only_def Let_def)
qed

lemma import_alias_request:
  assumes "import_alias E now rnd a inp c r b = (b', Inr v)"
  shows "\<exists>r'. b_requests b' = go_update (rq_ID (rr_View r)) r' (b_requests b) \<and> rr_Idempotency r' = rr_Idempotency r \<and>
    rr_Fingerprint r' = rr_Fingerprint r \<and> rr_View r' = v" "b_catalog b' = b_catalog b" "b_cfg b' = b_cfg b"
proof -
  from assms obtain ref b1 x k where b1: "broker_resolve ref b = (b1, x)"
    and w: "ready E now rnd (r\<lparr>rr_DraftRef := Some ref\<rparr>) ref False None b1 = (b', Inr k)"
    and v: "v = rr_View (go_get no_request (b_requests b') (rq_ID (rr_View r)))"
    by (auto simp: import_alias_def split: option.splits if_splits prod.splits sum.splits)
  note same = quiet_sel(1,7,8) [OF broker_resolve_quiet [OF b1, of E]]
  from ready_request [OF w] same v show "\<exists>r'. b_requests b' = go_update (rq_ID (rr_View r)) r' (b_requests b) \<and> rr_Idempotency r' = rr_Idempotency r \<and>
    rr_Fingerprint r' = rr_Fingerprint r \<and> rr_View r' = v" "b_catalog b' = b_catalog b" "b_cfg b' = b_cfg b"
    by (auto simp: go_get_def gomap_simps)
qed

lemma create_request_stored:
  assumes "Broker_CreateRequest E now rnd rnd2 a inp b = (b', Inr v)" "go_lookup (b_requests b) (newID ''r'' rnd) = None"
  shows "\<exists>i q. List.find (\<lambda>(_, q). rr_Idempotency q = requestKey E a (ci_IdempotencyKey inp)) (b_requests b') = Some (i, q) \<and>
    rr_Fingerprint q = Digest E (json_create_request E inp) \<and> rr_View q = v" "b_catalog b' = b_catalog b" "b_cfg b' = b_cfg b"
proof -
  let ?key = "\<lambda>q. rr_Idempotency q = requestKey E a (ci_IdempotencyKey inp)"
  from assms(1) obtain c where c: "go_lookup (b_catalog b) (contract_key (ci_ContractID inp) (ci_ContractRevision inp)) = Some c"
    by (auto simp: Broker_CreateRequest_def Let_def split: if_splits option.splits)
  define r where "r = new_request E now rnd a inp c b"
  have r: "rr_Idempotency r = requestKey E a (ci_IdempotencyKey inp)" "rr_Fingerprint r = Digest E (json_create_request E inp)"
    "rq_ID (rr_View r) = newID ''r'' rnd" by (simp_all add: r_def new_request_def Let_def)
  from assms(1) c r consider
      (old) i q where "List.find (\<lambda>(_, q). ?key q) (b_requests b) = Some (i, q)" "b' = b" "rr_Fingerprint q = rr_Fingerprint r" "v = rr_View q"
    | (imported) "List.find (\<lambda>(_, q). ?key q) (b_requests b) = None" "import_alias E now rnd2 a inp c r b = (b', Inr v)"
    | (new) ev seq where "List.find (\<lambda>(_, q). ?key q) (b_requests b) = None" "commit E ((audit_only ev)\<lparr>mu_Request := Some r\<rparr>) b = (b', Inr seq)" "v = rr_View r"
    unfolding Broker_CreateRequest_def Let_def r_def [symmetric]
    by (auto simp: r_def [symmetric] split: if_splits option.splits prod.splits sum.splits)
  then have "(\<exists>i q. List.find (\<lambda>(_, q). ?key q) (b_requests b') = Some (i, q) \<and> rr_Fingerprint q = rr_Fingerprint r \<and> rr_View q = v) \<and>
    b_catalog b' = b_catalog b \<and> b_cfg b' = b_cfg b"
  proof cases
    case imported
    from import_alias_request [OF imported(2)] imported(1) assms(2) r show ?thesis
      by (auto simp: find_update)
  next
    case new
    from commit_success [OF new(2)] obtain j where "b' = apply_mutation ((audit_only ev)\<lparr>mu_Request := Some r\<rparr>) seq (b\<lparr>b_journal := j\<rparr>)" by blast
    with new assms(2) r show ?thesis by (auto simp: put_opt_def audit_only_def find_update)
  qed auto
  with r show "\<exists>i q. List.find (\<lambda>(_, q). ?key q) (b_requests b') = Some (i, q) \<and> rr_Fingerprint q = Digest E (json_create_request E inp) \<and> rr_View q = v"
    "b_catalog b' = b_catalog b" "b_cfg b' = b_cfg b" by auto
qed

text \<open>Numbers written by \<^verbatim>\<open>strconv.FormatInt\<close> and read by \<^verbatim>\<open>strconv.ParseInt\<close>.\<close>

lemma nat_digits_nonempty: "nat_digits n \<noteq> []"
  by (subst nat_digits.simps) simp

lemma nat_digits_all: "list_all is_digit (nat_digits n)"
  using nat_digits_is_digit [of _ n] by (auto simp: list_all_iff)

lemma nat_digits_no_sign: "\<not> HasPrefix (nat_digits n) ''-''" "\<not> HasPrefix (nat_digits n) ''+''"
  using nat_digits_all [of n] nat_digits_nonempty [of n]
  by (cases "nat_digits n"; auto simp: HasPrefix_def is_digit_def in_range_def)+

lemma ParseInt_int_digits:
  assumes "int64 n"
  shows "ParseInt (int_digits n) = Some n"
proof (cases "n < 0")
  case True
  then have "int_digits n = CHR ''-'' # nat_digits (nat (- n))" by (simp add: int_digits_def)
  with True assms nat_digits_all nat_digits_nonempty show ?thesis by (simp add: ParseInt_def HasPrefix_def)
next
  case False
  with assms nat_digits_all nat_digits_nonempty nat_digits_no_sign show ?thesis by (simp add: ParseInt_def int_digits_def)
qed

section \<open>Properties\<close>

text \<open>
  C9: A canceled request never completes. Once \<^verbatim>\<open>CancelRequest\<close> has returned without an error, then
  after any further operations the request is still canceled, and submission of values (by form or by
  Telegram), the start of an authorization, and the last step of an exchange that was already under
  way when the request was canceled are all refused and change nothing.
\<close>

theorem canceled_request_never_completes:
  assumes "broker_ok E b" and "CancelRequest E now a i b = (b1, Inr ())" and "broker_run E b1 b2"
  shows "(\<exists>r. go_lookup (b_requests b2) i = Some r \<and> rq_Status (rr_View r) = ''canceled'') \<and>
    (\<forall>t rnd raw csrf v d. \<exists>e. Submit E t rnd i raw csrf v d b2 = (b2, Inl e)) \<and>
    (\<forall>t rnd a' v. \<exists>e. SubmitTelegram E t rnd a' i v b2 = (b2, Inl e)) \<and>
    (\<forall>t rnd rnd2 raw csrf. \<exists>e. StartOAuth E t rnd rnd2 i raw csrf b2 = (b2, Inl e)) \<and>
    (\<forall>t rnd s q o' c res. rq_ID (rr_View q) = i \<longrightarrow> oauth_settle E t rnd s q o' c res b2 = (b2, Inl ErrExpired))"
proof -
  from CancelRequest_canceled [OF assms(2,1)] obtain r where r: "go_lookup (b_requests b1) i = Some r" "rq_Status (rr_View r) = ''canceled''" by blast
  have "broker_ok E b1" by (rule bsteps_ok [OF CancelRequest_steps [OF assms(1,2)] assms(1)])
  from closed_request_stays [OF broker_run_steps(1) [OF assms(3) this] r(1)] r(2)
  have r2: "go_lookup (b_requests b2) i = Some r" by (simp add: closed_status_def)
  note no = canceled_request_refused [OF r2 r(2), where E = E]
  show ?thesis
  proof (intro conjI allI impI)
    show "\<exists>r. go_lookup (b_requests b2) i = Some r \<and> rq_Status (rr_View r) = ''canceled''" using r2 r(2) by blast
  qed (rule no | erule no)+
qed

text \<open>
  C11: An OAuth state is good for one callback. Once \<^verbatim>\<open>CompleteOAuth\<close> has claimed a state, before
  its exchange with the token endpoint begins, then after any further operations, and whatever
  came of the exchange, a callback with this state is refused and changes nothing.
\<close>

theorem oauth_state_is_single_use:
  assumes "broker_ok E b" and "oauth_claim E t raw state b = (b1, Inr y)" and "broker_run E b1 b2"
  shows "CompleteOAuth E now other rnd raw' state code b2 = (b2, Inl ErrDenied) \<or>
    \<not> live b2 \<and> CompleteOAuth E now other rnd raw' state code b2 = (b2, Inl ErrUnavailable)"
proof -
  obtain s r o' c p where "y = (s, r, o', c, p)" by (metis prod_cases5)
  with oauth_claim_facts [OF assms(2,1)] have st: "bsteps E b b1" and o: "oa_Consumed o'" "go_lookup (b_oauth b1) (Digest E state) = Some o'" by auto
  from consumed_oauth_stays [OF broker_run_steps(1) [OF assms(3) bsteps_ok [OF st assms(1)]] o(2,1)]
  have "go_lookup (b_oauth b2) (Digest E state) = Some o'" .
  with o(1) show ?thesis by (auto simp: CompleteOAuth_def oauth_claim_def)
qed

text \<open>
  At most one approved session. Unless the broker is configured for direct forms, in every
  state that the operations reach a request has at most one browser session that is approved and not yet
  consumed.
\<close>

theorem at_most_one_approved_session:
  assumes "broker_ok E b" and "\<not> cf_DirectForm (b_cfg b)" and "one_approved (b_sessions b)" and "broker_run E b b'"
    and "go_lookup (b_sessions b') h = Some s" and "go_lookup (b_sessions b') k = Some s'" and "ss_RequestID s = ss_RequestID s'"
    and "ss_Approved s" and "ss_Approved s'" and "\<not> ss_Consumed s" and "\<not> ss_Consumed s'"
  shows "h = k"
proof -
  from appr.run_keeps [OF assms(4,1)] assms(2,3) have "one_approved (b_sessions b')" by blast
  with assms(5-) show ?thesis unfolding one_approved_def by blast
qed

text \<open>
  The audit trail pages without loss. In every state that the operations reach, one call of
  \<^verbatim>\<open>Events\<close> returns the first events after the cursor that the actor may see, in order and up to the
  limit (100 when the given one is out of range), and what the returned cursor leaves for the
  next call is exactly the rest of them.
\<close>

theorem events_page_without_loss:
  assumes "broker_ok E b" and "trail b" and "broker_run E b b'"
    and "lim = (if limit < 1 \<or> limit > 100 then 100 else nat limit)"
  shows "es_Events (Broker_Events a after limit b') = take lim (visible_after a after (b_events b')) \<and>
    visible_after a (es_NextCursor (Broker_Events a after limit b')) (b_events b') = drop lim (visible_after a after (b_events b')) \<and>
    after \<le> es_NextCursor (Broker_Events a after limit b')"
proof -
  from trl.run_keeps [OF assms(3,1,2)] have "sorted_wrt (<) (map ev_Sequence (b_events b'))" by (simp add: trail_def del: upt_Suc)
  moreover have "\<forall>e\<in>set (b_events b'). ev_Sequence e \<le> after \<or> after < ev_Sequence e" by auto
  moreover have "0 < lim" using assms(4) by simp
  ultimately show ?thesis
    using events_loop_pages [of "b_events b'" after "\<lparr>es_Events = [], es_NextCursor = after\<rparr>" lim a]
    by (simp add: Broker_Events_def assms(4) [symmetric])
qed

text \<open>
  C2: A restart finds everything that was acknowledged. Let a broker run from a state that its
  journal describes, and let a new process start on the same journal records and with the same contracts. If it
  starts, it has the same contracts, sessions, credentials, grants, checkpointed states and
  OAuth states, every request is as it was, except that an exchange that was under way is back to authorizing with
  its state forgotten, and no lease survives. It does start when no exchange was under way, the
  configuration is accepted and pins the same contracts, and the journal takes the start-up record.
\<close>

theorem restart_recovers_ledger:
  fixes b' :: "'w Broker"
  assumes "broker_ok E b" and "mutation_codec E" and "ledger_view E cat b" and "broker_run E b b'"
    and "load_contracts E cfg (cf_Contracts cfg) [] = Some cat" and "Records j = Records (b_journal b')"
  shows "(\<forall>nb :: 'w Broker. Broker_New E now cfg j mgr w = Inr nb \<longrightarrow>
       b_catalog nb = b_catalog b' \<and> b_sessions nb = b_sessions b' \<and> b_credentials nb = b_credentials b' \<and> b_grants nb = b_grants b' \<and>
       b_states nb = b_states b' \<and> b_oauth nb = b_oauth b' \<and> b_leases nb = [] \<and>
       (\<forall>i. go_lookup (b_requests nb) i = map_option interrupted (go_lookup (b_requests b') i))) \<and>
    (origin_ok E cfg \<and> cat \<noteq> [] \<and> no_drift E b' \<and> journal_Healthy j \<and>
     (\<forall>(i, r)\<in>set (b_requests b'). rq_Status (rr_View r) \<noteq> ''exchanging'') \<and>
     (\<exists>n. snd (Append E ''mutation.v1'' (json_mutation E (audit_only (audit now ''broker.started'' no_actor))) j) = Inr n) \<longrightarrow>
       (\<exists>nb. Broker_New E now cfg j mgr w = Inr nb))"
proof -
  define nb0 where "nb0 = Tables.extend (Tables.truncate b') (Tables.more (fresh_broker cfg j mgr w cat))"
  have "ledger_view E cat b'" using led.run_keeps [OF assms(4,1), of cat] assms(2,3) by blast
  then have rep: "replay E (Records j) (fresh_broker cfg j mgr w cat) = Inr nb0"
    by (subst fresh_extend) (simp add: replay_extend ledger_view_def assms(6) nb0_def)
  have tab: "Tables.truncate nb0 = Tables.truncate b'" by (simp add: nb0_def truncate_extend)
  note same = tables_eqD [OF tab]
  have fresh: "b_leases nb0 = []" "b_journal nb0 = j" "\<not> b_closed nb0" by (simp_all add: nb0_def fresh_broker_def Tables.defs)
  have keyed: "keyed b'" using broker_run_steps(2) [OF assms(4,1)] by (rule broker_ok_keyed)
  then have keys: "\<forall>(k, r)\<in>set (b_requests b'). rq_ID (rr_View r) = k" "distinct (map fst (b_requests b'))"
    by (auto simp: keyed_def intro: map_of_is_SomeI)
  have drift: "no_drift E nb0 = no_drift E b'" by (simp add: no_drift_def pinned_def same)
  show ?thesis
  proof (intro conjI allI impI)
    fix nb :: "'w Broker"
    assume "Broker_New E now cfg j mgr w = Inr nb"
    then obtain b1 seq where il: "interrupt_loop E now (b_requests nb0) nb0 = (b1, Inr ())"
      and cm: "commit E (audit_only (audit now ''broker.started'' no_actor)) b1 = (nb, Inr seq)"
      by (auto simp: Broker_New_def assms(5) rep split: if_splits prod.splits sum.splits)
    from commit_success [OF cm] obtain j' where nb: "nb = apply_mutation (audit_only (audit now ''broker.started'' no_actor)) seq (b1\<lparr>b_journal := j'\<rparr>)" by blast
    note res = interrupt_loop_result [OF il, unfolded same, OF keys]
    have "go_lookup (b_requests b1) i = map_option interrupted (go_lookup (b_requests b') i)" for i
      using res [THEN conjunct2, rule_format, of i] by (auto simp: interrupted_def split: option.splits)
    with res show "b_catalog nb = b_catalog b'" "b_sessions nb = b_sessions b'" "b_credentials nb = b_credentials b'" "b_grants nb = b_grants b'"
       "b_states nb = b_states b'" "b_oauth nb = b_oauth b'" "b_leases nb = []"
       "\<And>i. go_lookup (b_requests nb) i = map_option interrupted (go_lookup (b_requests b') i)"
      by (simp_all add: nb put_opt_def audit_only_def same_but_requests_def same fresh)
  next
    assume a: "origin_ok E cfg \<and> cat \<noteq> [] \<and> no_drift E b' \<and> journal_Healthy j \<and>
     (\<forall>(i, r)\<in>set (b_requests b'). rq_Status (rr_View r) \<noteq> ''exchanging'') \<and>
     (\<exists>n. snd (Append E ''mutation.v1'' (json_mutation E (audit_only (audit now ''broker.started'' no_actor))) j) = Inr n)"
    have "interrupt_loop E now rs z = (z, Inr ())" if "\<forall>(i, r)\<in>set rs. rq_Status (rr_View r) \<noteq> ''exchanging''" for rs and z :: "'w Broker"
      using that by (induction rs) auto
    with a have "interrupt_loop E now (b_requests nb0) nb0 = (nb0, Inr ())" by (simp add: same)
    moreover from a obtain j' n where "Append E ''mutation.v1'' (json_mutation E (audit_only (audit now ''broker.started'' no_actor))) j = (j', Inr n)"
      by (metis prod.collapse)
    ultimately show "\<exists>nb. Broker_New E now cfg j mgr w = Inr nb"
      using a by (simp add: Broker_New_def assms(5) rep drift commit_def live_def fresh)
  qed
qed

text \<open>
  A repeated creation is answered, not repeated. When \<^verbatim>\<open>CreateRequest\<close> has returned a request,
  the same call by the same actor, at any later time and with any randomness, returns the same
  request and changes nothing; the same idempotency key with another input is refused.
\<close>

theorem create_request_is_idempotent:
  assumes "go_lookup (b_requests b) (newID ''r'' rnd) = None"
    and "Broker_CreateRequest E now rnd rnd2 a inp b = (b', Inr v)" and "live b'"
  shows "Broker_CreateRequest E now' rnd' rnd2' a inp b' = (b', Inr v) \<and>
    (\<forall>inp'. ci_IdempotencyKey inp' = ci_IdempotencyKey inp \<and> Digest E (json_create_request E inp') \<noteq> Digest E (json_create_request E inp) \<longrightarrow>
       (\<exists>e. Broker_CreateRequest E now' rnd' rnd2' a inp' b' = (b', Inl e)))"
proof -
  from create_request_stored [OF assms(2,1)] obtain i q where
    q: "List.find (\<lambda>(_, q). rr_Idempotency q = requestKey E a (ci_IdempotencyKey inp)) (b_requests b') = Some (i, q)"
    "rr_Fingerprint q = Digest E (json_create_request E inp)" "rr_View q = v" and same: "b_catalog b' = b_catalog b" "b_cfg b' = b_cfg b" by blast
  have new: "rr_Idempotency (new_request E now' rnd' a x c b') = requestKey E a (ci_IdempotencyKey x)"
    "rr_Fingerprint (new_request E now' rnd' a x c b') = Digest E (json_create_request E x)" for x c
    by (simp_all add: new_request_def Let_def)
  from assms(2) obtain c where guards: "create_input_ok a inp"
    "go_lookup (b_catalog b) (contract_key (ci_ContractID inp) (ci_ContractRevision inp)) = Some c"
    "\<not> (ci_ExternalAlias inp = [] \<and> \<not> can_write (c_Storage c) b)"
    by (auto simp: Broker_CreateRequest_def Let_def split: if_splits option.splits)
  have "can_write x b' = can_write x b" for x by (simp add: can_write_def same(2))
  with guards q assms(3) have "Broker_CreateRequest E now' rnd' rnd2' a inp b' = (b', Inr v)"
    by (simp add: Broker_CreateRequest_def same(1) new)
  moreover have "\<exists>e. Broker_CreateRequest E now' rnd' rnd2' a inp' b' = (b', Inl e)"
    if "ci_IdempotencyKey inp' = ci_IdempotencyKey inp" "Digest E (json_create_request E inp') \<noteq> Digest E (json_create_request E inp)" for inp'
    using that q assms(3) by (auto simp: Broker_CreateRequest_def new Let_def split: option.splits)
  ultimately show ?thesis by blast
qed

text \<open>
  Tokens are stored and expire as the server said. For tokens accepted from a token endpoint,
  the merged bundle holds the access token, keeps the old refresh token unless a new one came, leaves every
  other value alone, and reads as fresh until 31 seconds before the announced expiry and never within
  the last 30 seconds: the expiry survives its writing in decimal seconds and its parsing.
\<close>

theorem merged_tokens_expire_as_announced:
  assumes "read_tokens E p res = Inr t" and "0 \<le> now" and "now < 2 ^ 63"
  shows "bundle_get (mergeTokens b t now) oauthAccess = ot_Access t \<and>
    bundle_get (mergeTokens b t now) oauthRefresh = (if ot_Refresh t = [] then bundle_get b oauthRefresh else ot_Refresh t) \<and>
    (\<forall>k. k \<notin> {oauthAccess, oauthRefresh, oauthExpiry} \<longrightarrow> bundle_get (mergeTokens b t now) k = bundle_get b k) \<and>
    (\<forall>at. at + 31 * second \<le> now + ot_ExpiresIn t * second \<longrightarrow> token_fresh at (mergeTokens b t now)) \<and>
    (\<forall>at. token_fresh at (mergeTokens b t now) \<longrightarrow> at + 30 * second < now + ot_ExpiresIn t * second)"
proof -
  let ?e = "now + ot_ExpiresIn t * second"
  from assms(1) have t: "ot_Access t \<noteq> []" "1 \<le> ot_ExpiresIn t" "ot_ExpiresIn t \<le> 86400"
    by (auto simp: read_tokens_def split: if_splits option.splits)
  have keys: "oauthAccess \<noteq> oauthRefresh" "oauthAccess \<noteq> oauthExpiry" "oauthRefresh \<noteq> oauthExpiry"
    by (simp_all add: oauthAccess_def oauthRefresh_def oauthExpiry_def)
  have e: "0 \<le> ?e" "?e \<le> 2 ^ 63 + 86401 * second" using assms(2,3) t by simp_all
  have "0 \<le> ?e div second" using e(1) by (simp only: pos_imp_zdiv_nonneg_iff zero_less_numeral)
  moreover have "?e div second \<le> (2 ^ 63 + 86401 * second) div second" using e(2) by (rule zdiv_mono1) simp
  ultimately have "int64 (unix ?e)" unfolding int64_def unix_def by simp
  note parse = ParseInt_int_digits [OF this]
  have get: "bundle_get (mergeTokens b t now) oauthAccess = ot_Access t" "bundle_get (mergeTokens b t now) oauthExpiry = int_digits (unix ?e)"
    "bundle_get (mergeTokens b t now) oauthRefresh = (if ot_Refresh t = [] then bundle_get b oauthRefresh else ot_Refresh t)"
    "\<And>k. k \<notin> {oauthAccess, oauthRefresh, oauthExpiry} \<Longrightarrow> bundle_get (mergeTokens b t now) k = bundle_get b k"
    using keys keys [symmetric] by (simp_all add: mergeTokens_def bundle_get_def gomap_simps Let_def)
  have fresh: "token_fresh at (mergeTokens b t now) \<longleftrightarrow> at + 30 * second < unix ?e * second" for at
    using t(1) by (simp add: token_fresh_def get(1,2) parse)
  have unix: "unix ?e * second \<le> ?e" "?e < unix ?e * second + second" by (simp_all add: unix_def)
  show ?thesis using get fresh unix by auto
qed

text \<open>A table with a retired and an active grant on one binding, listed in either order.\<close>

definition order_input :: GrantRequest where
  "order_input = \<lparr>gi_ContractID = ''github-pat'', gi_ContractRevision = 1, gi_PrincipalID = ''artem'', gi_ContextID = ''home'', gi_RuntimeID = ''rt1'',
     gi_BindingID = ''b1'', gi_WorkloadID = ''w1'', gi_Execution = ''dedicated'', gi_IdempotencyKey = ''retry-01''\<rparr>"

definition order_retired :: grantRecord where
  "order_retired = (deactivated demo_grant)\<lparr>gd_Idempotency := requestKey demo_oauth_env demo_actor ''grant/c1/retry-01'',
     gd_Fingerprint := Digest demo_oauth_env ''b1''\<rparr>"

definition order_active :: grantRecord where
  "order_active = demo_grant\<lparr>gd_View := (gd_View demo_grant)\<lparr>gr_ID := ''g2'', gr_CredentialID := ''c2''\<rparr>\<rparr>"

definition order_broker :: "(string \<times> grantRecord) list \<Rightarrow> unit Broker" where
  "order_broker gs = demo_broker\<lparr>b_grants := gs\<rparr>"

lemma order_create:
  "CreateGrant demo_oauth_env now rnd demo_actor ''c1'' order_input (order_broker gs) =
     (case grant_loop (order_broker gs) demo_actor ''c1'' ''github-pat@1'' demo_contract (requestKey demo_oauth_env demo_actor ''grant/c1/retry-01'')
         (Digest demo_oauth_env ''b1'') order_input [] gs of
        Inl x \<Rightarrow> (order_broker gs, x)
      | Inr retire \<Rightarrow> if length gs \<ge> 50000 then (order_broker gs, Inl ErrUnavailable)
          else grant_write demo_oauth_env now demo_actor ''c1'' (new_grant demo_oauth_env rnd demo_actor ''c1'' ''github-pat@1'' demo_contract
            (requestKey demo_oauth_env demo_actor ''grant/c1/retry-01'') (Digest demo_oauth_env ''b1'') order_input) retire (order_broker gs))"
proof -
  have "live (order_broker gs)" using demo_live(1) by (simp add: live_def order_broker_def)
  moreover have "grant_input_ok order_input demo_credential"
    by (simp add: grant_input_ok_def order_input_def demo_credential_def ValidID_def is_lower_def is_digit_def in_range_def validIdempotency_def ContainsAny_def)
  moreover have "managedBy demo_actor demo_credential" by (simp add: managedBy_def demo_actor_def demo_credential_def)
  moreover have "contract_key ''github-pat'' 1 = ''github-pat@1''" by (simp add: contract_key_def int_digits_def nat_digits.simps digit_char_def)
  moreover have "Compatible demo_contract demo_contract" by (simp add: Compatible_def field_differs_def list_all_iff zip_same_conv_map)
  moreover have "b_credentials (order_broker gs) = [(''c1'', demo_credential)]" "b_catalog (order_broker gs) = [(''github-pat@1'', demo_contract)]"
    "b_grants (order_broker gs) = gs" by (simp_all add: order_broker_def)
  moreover have "cr_Status (cd_View demo_credential) = ''active''" "cr_PrincipalID (cd_View demo_credential) = ''artem''"
    "cd_ContractKey demo_credential = ''github-pat@1''" by (simp_all add: demo_credential_def)
  moreover have "gi_ContractID order_input = ''github-pat''" "gi_ContractRevision order_input = 1" "gi_PrincipalID order_input = ''artem''"
    "gi_Execution order_input = ''dedicated''" "gi_IdempotencyKey order_input = ''retry-01''" "gi_BindingID order_input = ''b1''"
    by (simp_all add: order_input_def)
  ultimately show ?thesis by (simp add: CreateGrant_def Let_def go_get_def split: sum.split)
qed

text \<open>
  C30: \<^verbatim>\<open>CreateGrant\<close> depends on the order of a Go map. Two states that hold the same grants, one
  retired with the idempotency key of the call and one active on the same binding, and differ only
  in the order in which the table is visited, give different answers to the same call: the retired
  grant as a success, or a conflict.
\<close>

theorem create_grant_depends_on_map_order:
  "\<exists>b1 b2 :: unit Broker. \<exists>v. b1\<lparr>b_grants := []\<rparr> = b2\<lparr>b_grants := []\<rparr> \<and> (\<forall>k. go_lookup (b_grants b1) k = go_lookup (b_grants b2) k) \<and>
     CreateGrant demo_oauth_env now rnd demo_actor ''c1'' order_input b1 = (b1, Inr v) \<and> \<not> gr_Active v \<and>
     CreateGrant demo_oauth_env now rnd demo_actor ''c1'' order_input b2 = (b2, Inl ErrConflict)"
proof -
  let ?b1 = "order_broker [(''g1'', order_retired), (''g2'', order_active)]" and ?b2 = "order_broker [(''g2'', order_active), (''g1'', order_retired)]"
  have "requestKey demo_oauth_env demo_actor ''grant/c1/retry-01'' \<noteq> []" by (simp add: requestKey_def Digest_def b64_encode_def demo_actor_def)
  moreover have "gd_Idempotency order_active = []" "gr_Active (gd_View order_active)" "same_binding (gd_View order_active) order_input"
    "\<not> same_grant demo_actor ''c1'' ''github-pat@1'' order_input order_active"
    by (simp_all add: order_active_def demo_grant_def order_input_def same_binding_def same_grant_def)
  moreover have "gd_Idempotency order_retired = requestKey demo_oauth_env demo_actor ''grant/c1/retry-01''"
    "gd_Fingerprint order_retired = Digest demo_oauth_env ''b1''" by (simp_all add: order_retired_def)
  ultimately have "CreateGrant demo_oauth_env now rnd demo_actor ''c1'' order_input ?b1 = (?b1, Inr (gd_View order_retired))"
    "CreateGrant demo_oauth_env now rnd demo_actor ''c1'' order_input ?b2 = (?b2, Inl ErrConflict)"
    by (simp_all add: order_create)
  moreover have "\<not> gr_Active (gd_View order_retired)" by (simp add: order_retired_def)
  moreover have "?b1\<lparr>b_grants := []\<rparr> = ?b2\<lparr>b_grants := []\<rparr>" "go_lookup (b_grants ?b1) k = go_lookup (b_grants ?b2) k" for k
    by (simp_all add: order_broker_def)
  ultimately show ?thesis by blast
qed

section \<open>Witnesses\<close>

lemma demo_cancel: "\<exists>b1. CancelRequest demo_oauth_env 0 demo_actor ''r1'' demo_broker = (b1, Inr ())"
proof -
  have r: "requestBy demo_actor demo_request" "rq_Status (rr_View demo_request) = ''authorizing''" by (simp_all add: requestBy_def demo_request_def)
  show ?thesis
    using demo_commit [of "(audit_only ((audit 0 ''request.canceled'' demo_actor)\<lparr>ev_RequestID := ''r1'', ev_ConnectionID := rq_ConnectionID (rr_View demo_request),
        ev_ConsumerID := rq_ConsumerID (rr_View demo_request)\<rparr>))\<lparr>mu_Request := Some (demo_request\<lparr>rr_View := (rr_View demo_request)\<lparr>rq_Status := ''canceled''\<rparr>\<rparr>)\<rparr>"]
    by (auto simp: CancelRequest_def r)
qed

theorem canceled_request_never_completes_witness:
  "\<exists>b1 e. CancelRequest demo_oauth_env 0 demo_actor ''r1'' demo_broker = (b1, Inr ()) \<and>
     StartOAuth demo_oauth_env 1 [] [] ''r1'' ''raw'' [] b1 = (b1, Inl e)"
proof -
  obtain b1 where c: "CancelRequest demo_oauth_env 0 demo_actor ''r1'' demo_broker = (b1, Inr ())" using demo_cancel by blast
  from canceled_request_never_completes [OF demo_broker_ok c run_start, THEN conjunct2, THEN conjunct2, THEN conjunct2, THEN conjunct1,
    rule_format, of 1 "[]" "[]" "''raw''" "[]"] c show ?thesis by (elim exE) (intro exI conjI)
qed

lemma demo_claim: "\<exists>b1 y. oauth_claim demo_oauth_env 0 ''raw'' (replicate 43 CHR ''s'') demo_broker = (b1, Inr y)"
proof -
  let ?E = demo_oauth_env
  have o: "oa_StateHash demo_oauth = Digest ?E (replicate 43 CHR ''s'')" "\<not> oa_Consumed demo_oauth" "oa_SessionHash demo_oauth = Digest ?E ''raw''"
    "oa_ExpiresAt demo_oauth = 300 * second" "oa_RequestID demo_oauth = ''r1''" by (simp_all add: demo_oauth_def)
  have r: "rq_Status (rr_View demo_request) = ''authorizing''" "rr_OAuthStateHash demo_request = Digest ?E (replicate 43 CHR ''s'')"
    "rr_DraftRef demo_request = Some demo_ref" "rr_ContractKey demo_request = ''github-pat@1''" by (simp_all add: demo_request_def)
  have v: "validSession ?E 0 ''raw'' ''r1'' True demo_broker = Inr (demo_session, demo_request)"
    by (simp add: validSession_def session_closed_def demo_session_def demo_request_def)
  have c: "c_OAuthProvider demo_contract = []" "cf_OAuth demo_cfg = [([], demo_oauth_provider)]" by (simp_all add: demo_contract_def demo_cfg_def)
  show ?thesis
    using demo_commit [of "(audit_only ((audit 0 ''oauth.exchanging'' (rr_Actor demo_request))\<lparr>ev_RequestID := rq_ID (rr_View demo_request)\<rparr>))
        \<lparr>mu_OAuth := Some (demo_oauth\<lparr>oa_Consumed := True\<rparr>),
          mu_Request := Some (demo_request\<lparr>rr_View := (rr_View demo_request)\<lparr>rq_Status := ''exchanging''\<rparr>\<rparr>)\<rparr>"]
    by (auto simp: oauth_claim_def demo_live o r v c go_get_def Let_def)
qed

theorem oauth_state_is_single_use_witness:
  "\<exists>b1 y. oauth_claim demo_oauth_env 0 ''raw'' (replicate 43 CHR ''s'') demo_broker = (b1, Inr y) \<and>
     snd (CompleteOAuth demo_oauth_env int (\<lambda>_. id) [] ''raw'' (replicate 43 CHR ''s'') ''code'' b1) \<noteq> Inr ()"
proof -
  obtain b1 y where c: "oauth_claim demo_oauth_env 0 ''raw'' (replicate 43 CHR ''s'') demo_broker = (b1, Inr y)" using demo_claim by blast
  from oauth_state_is_single_use [OF demo_broker_ok c run_start, of int "\<lambda>_. id" "[]" "''raw''" "''code''"] c
  show ?thesis by (intro exI [of _ b1] exI [of _ y]) auto
qed

theorem at_most_one_approved_session_witness:
  "{h. go_lookup (b_sessions (Sweep 0 demo_broker)) h = Some demo_session} = {ss_Hash demo_session}"
proof -
  have sw: "b_sessions (Sweep 0 demo_broker) = b_sessions demo_broker"
    unfolding Sweep_def by (rule quiet_sel(2) [OF sweep_quiet [of demo_oauth_env]])
  have "broker_run demo_oauth_env demo_broker (run_op demo_oauth_env (OpSweep 0) demo_broker)" by (rule run_next [OF run_start]) simp
  then have run: "broker_run demo_oauth_env demo_broker (Sweep 0 demo_broker)" by simp
  have hyps: "\<not> cf_DirectForm (b_cfg demo_broker)" "one_approved (b_sessions demo_broker)"
    "go_lookup (b_sessions (Sweep 0 demo_broker)) (ss_Hash demo_session) = Some demo_session" "ss_Approved demo_session" "\<not> ss_Consumed demo_session"
    by (auto simp: demo_cfg_def one_approved_def sw demo_session_def split: if_splits)
  have "h = ss_Hash demo_session" if "go_lookup (b_sessions (Sweep 0 demo_broker)) h = Some demo_session" for h
    by (rule at_most_one_approved_session [OF demo_broker_ok hyps(1,2) run that hyps(3) refl hyps(4,4,5,5)])
  with hyps(3) show ?thesis by blast
qed

theorem events_page_without_loss_witness:
  "let b' = run_op demo_oauth_env (OpRevokeGrant 0 demo_actor ''g1'') demo_broker
   in es_Events (Broker_Events demo_actor 0 7 b') = take 7 (visible_after demo_actor 0 (b_events b'))"
proof -
  have run: "broker_run demo_oauth_env demo_broker (run_op demo_oauth_env (OpRevokeGrant 0 demo_actor ''g1'') demo_broker)"
    by (rule run_next [OF run_start]) simp
  have "trail demo_broker" by (simp add: trail_def demo_core_def Records_def)
  from events_page_without_loss [OF demo_broker_ok this run, of 7 7 demo_actor 0] show ?thesis by simp
qed

theorem merged_tokens_expire_as_announced_witness:
  "\<exists>(E :: oauth_env) (p :: unit OAuthProvider) res t. read_tokens E p res = Inr t \<and> ot_ExpiresIn t = 3600 \<and> token_fresh (1000 * second) (mergeTokens [] t 0) \<and>
     \<not> token_fresh (3570 * second) (mergeTokens [] t 0)"
proof -
  let ?doc = "\<lparr>td_Access = ''at'', td_Refresh = ''rt'', td_TokenType = ''Bearer'', td_Expires = ''3600'', td_Scope = []\<rparr>"
  let ?E = "demo_oauth_env\<lparr>decode_token_doc := \<lambda>s. Some ?doc\<rparr>"
  let ?t = "\<lparr>ot_Access = ''at'', ot_Refresh = ''rt'', ot_ExpiresIn = 3600\<rparr>"
  have "strictjson_Valid ?E ''{}''"
    by (simp add: strictjson_Valid_def strict_tokens_def demo_env_defs in_range_def numeral_nat)
  moreover have "EqualFold ''Bearer'' ''bearer''" by code_simp
  moreover have "ParseInt (trim_quotes ''3600'') = Some 3600"
    by (simp add: ParseInt_def trim_quotes_def HasPrefix_def is_digit_def in_range_def digits_val_def digit_val_def int64_def)
  ultimately have r: "read_tokens ?E demo_oauth_provider \<lparr>hs_StatusCode = 200, hs_Body = Some ''{}''\<rparr> = Inr ?t"
    by (simp add: read_tokens_def ContainsAny_def)
  from merged_tokens_expire_as_announced [OF r, of 0 "[]"] have "token_fresh (1000 * second) (mergeTokens [] ?t 0)"
    "\<not> token_fresh (3570 * second) (mergeTokens [] ?t 0)" by force+
  with r show ?thesis by (intro exI [of _ ?E] exI [of _ demo_oauth_provider] exI [of _ "\<lparr>hs_StatusCode = 200, hs_Body = Some ''{}''\<rparr>"] exI [of _ ?t]) simp
qed

definition create_input :: CreateRequest where
  "create_input = \<lparr>ci_ContractID = ''github-pat'', ci_ContractRevision = 1, ci_ConnectionID = ''gh'', ci_OnboardingID = ''ob1'',
     ci_IdempotencyKey = ''create-01'', ci_OwnerKind = ''user'', ci_ConsumerID = [], ci_ExternalAlias = [], ci_RotateCredentialID = [], ci_Extra = None\<rparr>"

lemma demo_create:
  "\<exists>b' v. Broker_CreateRequest demo_oauth_env 0 ''xyz'' [] demo_actor create_input empty_broker = (b', Inr v) \<and> live b'"
proof -
  let ?E = demo_oauth_env
  have inp: "ci_ContractID create_input = ''github-pat''" "ci_ContractRevision create_input = 1" "ci_ExternalAlias create_input = []"
    "ci_RotateCredentialID create_input = []" "ci_Extra create_input = None" by (simp_all add: create_input_def)
  have ok: "create_input_ok demo_actor create_input"
    using demo_actor_valid by (simp add: create_input_ok_def create_input_def ValidID_def is_lower_def is_digit_def in_range_def validIdempotency_def ContainsAny_def)
  have key: "contract_key ''github-pat'' 1 = ''github-pat@1''" by (simp add: contract_key_def int_digits_def nat_digits.simps digit_char_def)
  have wr: "can_write (c_Storage demo_contract) empty_broker" by (simp add: can_write_def demo_contract_def demo_cfg_def demo_store_def)
  have ex: "validateExtra demo_contract None" by (simp add: validateExtra_def)
  have free: "\<not> connection_taken demo_actor create_input empty_broker" "\<not> request_competes 0 demo_actor create_input empty_broker"
    by (simp_all add: connection_taken_def request_competes_def)
  let ?r = "new_request ?E 0 ''xyz'' demo_actor create_input demo_contract empty_broker"
  let ?m = "(audit_only ((audit 0 ''request.created'' demo_actor)\<lparr>ev_RequestID := rq_ID (rr_View ?r), ev_ConnectionID := ci_ConnectionID create_input,
      ev_OnboardingID := ci_OnboardingID create_input, ev_ConsumerID := ci_ConsumerID create_input\<rparr>))\<lparr>mu_Request := Some ?r\<rparr>"
  obtain b' k where m: "commit ?E ?m empty_broker = (b', Inr k)" using roomy_commit [of ?E 49 empty_broker ?m] demo_roomy(2) by auto
  then have "Broker_CreateRequest ?E 0 ''xyz'' [] demo_actor create_input empty_broker = (b', Inr (rr_View ?r))"
    by (simp add: Broker_CreateRequest_def demo_live inp ok key wr ex free Let_def)
  with commit_live [OF m empty_broker_ok(1)] show ?thesis by blast
qed

theorem create_request_is_idempotent_witness:
  "\<exists>b' v. Broker_CreateRequest demo_oauth_env 0 ''xyz'' [] demo_actor create_input empty_broker = (b', Inr v) \<and>
     Broker_CreateRequest demo_oauth_env 5 ''abc'' [] demo_actor create_input b' = (b', Inr v)"
proof -
  obtain b' v where c: "Broker_CreateRequest demo_oauth_env 0 ''xyz'' [] demo_actor create_input empty_broker = (b', Inr v)" "live b'" using demo_create by blast
  from create_request_is_idempotent [OF _ c, of 5 "''abc''" "[]"] c show ?thesis by simp
qed

lemma codec_load: "load_contracts codec_env demo_cfg (cf_Contracts demo_cfg) [] = Some [(''github-pat@1'', demo_contract)]"
proof -
  have "contract_key (c_ID demo_contract) (c_Revision demo_contract) = ''github-pat@1''"
    by (simp add: demo_contract_def contract_key_def int_digits_def nat_digits.simps digit_char_def)
  moreover have "strictjson_Decode codec_env (decode_contract codec_env) (json_contract codec_env demo_contract) = Some demo_contract"
    using codec_env_tokens by (simp add: strictjson_Decode_def demo_contract_def int_digits_def nat_digits.simps digit_char_def in_range_def)
  moreover have "c_Storage demo_contract = ''local''" "c_State demo_contract = None" "c_OAuthProvider demo_contract = []" by (simp_all add: demo_contract_def)
  ultimately show ?thesis using demo_contract_valid [of codec_env] by (simp add: demo_cfg_def go_get_def no_contract_def)
qed

lemma started_length: "length (demo_mutation_bytes (audit_only (audit 0 ''broker.started'' no_actor))) \<le> 5000"
  by (simp add: demo_mutation_bytes_def b64_encode_def length_b64_nums codec_mutation_def codec_Event_def audit_only_def audit_def no_actor_def
      c_iso_def c_pair_def c_string_def c_nat_def c_int_def c_bool_def c_option_def nat_digits.simps)

theorem restart_recovers_ledger_witness:
  "\<exists>nb. Broker_New codec_env 0 demo_cfg (b_journal empty_broker) demo_manager () = Inr nb \<and>
     b_catalog nb = b_catalog (Sweep 0 empty_broker) \<and> b_grants nb = [] \<and> b_leases nb = []"
proof -
  let ?cat = "[(''github-pat@1'', demo_contract)]" and ?j = "b_journal empty_broker"
  have codec: "mutation_codec codec_env" using codec_env_codec by (simp add: mutation_codec_def)
  have view: "ledger_view codec_env ?cat empty_broker"
    by (simp add: ledger_view_def Records_def demo_core_def empty_tables_def empty_broker_def fresh_broker_def Tables.defs)
  have "broker_run codec_env empty_broker (run_op codec_env (OpSweep 0) empty_broker)" by (rule run_next [OF run_start]) simp
  then have run: "broker_run codec_env empty_broker (Sweep 0 empty_broker)" by simp
  have sw: "Sweep 0 empty_broker = empty_broker" by (simp add: Sweep_def sweepLocked_def drop_where_def)
  have o: "origin_ok codec_env demo_cfg"
    by (simp add: origin_ok_def demo_contract_env_def id_env.defs demo_cfg_def HasPrefix_def demo_key_def)
  have d: "no_drift codec_env (Sweep 0 empty_broker)" by (simp add: sw no_drift_def)
  have a: "\<exists>n. snd (Append codec_env ''mutation.v1'' (json_mutation codec_env (audit_only (audit 0 ''broker.started'' no_actor))) ?j) = Inr n"
    using roomy_append [of codec_env 49 ?j] codec_roomy(2) started_length by fastforce
  have h: "journal_Healthy ?j" using roomy_inv [OF codec_roomy(2)] by blast
  note R = restart_recovers_ledger [OF empty_broker_ok(2) codec view run codec_load, of ?j 0 demo_manager "()"]
  from R o d a h obtain nb where nb: "Broker_New codec_env 0 demo_cfg ?j demo_manager () = Inr nb" by (auto simp: sw)
  with R show ?thesis by (auto simp: sw)
qed

end
