(* ===== verification/Safenet.thy ===== *)
theory Safenet
  imports Broker_Types "HOL-Library.Word"
begin

text \<open>
  HTTPS clients with a fixed authority (\<^verbatim>\<open>internal/safenet/net.go\<close>): the address policy, the narrow
  exceptions to it, and the client whose transport refuses any other authority and whose
  dialer refuses any address the policy does not allow.

  Addresses of \<^verbatim>\<open>net/netip\<close> are machine words: 32 bits, or 128 bits with a zone. The predicates of
  the package are tests on their leading bits. The resolver, the dialer and the wire are
  functions of the world; a client keeps the addresses of its idle connections.
\<close>

section \<open>Addresses\<close>

datatype Addr = NoAddr | Addr4 "32 word" | Addr6 "128 word" string

record Prefix =
  pf_Addr :: Addr
  pf_Bits :: nat

definition Unmap :: "Addr \<Rightarrow> Addr" where
  "Unmap a = (case a of Addr6 w z \<Rightarrow> if drop_bit 32 w = 0xFFFF then Addr4 (ucast w) else a | _ \<Rightarrow> a)"

definition IsUnspecified :: "Addr \<Rightarrow> bool" where
  "IsUnspecified a \<longleftrightarrow> a = Addr4 0 \<or> a = Addr6 0 []"

definition IsMulticast :: "Addr \<Rightarrow> bool" where
  "IsMulticast a \<longleftrightarrow> (case a of NoAddr \<Rightarrow> False | Addr4 w \<Rightarrow> drop_bit 28 w = 0xE | Addr6 w _ \<Rightarrow> drop_bit 120 w = 0xFF)"

definition IsLinkLocalUnicast :: "Addr \<Rightarrow> bool" where
  "IsLinkLocalUnicast a \<longleftrightarrow> (case a of NoAddr \<Rightarrow> False | Addr4 w \<Rightarrow> drop_bit 16 w = 0xA9FE | Addr6 w _ \<Rightarrow> drop_bit 118 w = 0x3FA)"

definition IsLinkLocalMulticast :: "Addr \<Rightarrow> bool" where
  "IsLinkLocalMulticast a \<longleftrightarrow>
     (case a of NoAddr \<Rightarrow> False | Addr4 w \<Rightarrow> drop_bit 8 w = 0xE00000
      | Addr6 w _ \<Rightarrow> drop_bit 120 w = 0xFF \<and> take_bit 4 (drop_bit 112 w) = 2)"

definition IsLoopback :: "Addr \<Rightarrow> bool" where
  "IsLoopback a \<longleftrightarrow> (case a of NoAddr \<Rightarrow> False | Addr4 w \<Rightarrow> drop_bit 24 w = 0x7F | Addr6 w _ \<Rightarrow> w = 1)"

definition IsPrivate :: "Addr \<Rightarrow> bool" where
  "IsPrivate a \<longleftrightarrow>
     (case a of NoAddr \<Rightarrow> False
      | Addr4 w \<Rightarrow> drop_bit 24 w = 0x0A \<or> drop_bit 20 w = 0xAC1 \<or> drop_bit 16 w = 0xC0A8
      | Addr6 w _ \<Rightarrow> drop_bit 121 w = 0x7E)"

definition IsGlobalUnicast :: "Addr \<Rightarrow> bool" where
  "IsGlobalUnicast a \<longleftrightarrow> a \<noteq> NoAddr \<and> a \<noteq> Addr4 0 \<and> a \<noteq> Addr4 0xFFFFFFFF \<and> a \<noteq> Addr6 0 [] \<and>
     \<not> IsLoopback a \<and> \<not> IsMulticast a \<and> \<not> IsLinkLocalUnicast a"

text \<open>\<^verbatim>\<open>Prefix.Contains\<close>: false across families, for an invalid prefix, and for an address with a zone.\<close>

definition Prefix_Contains :: "Prefix \<Rightarrow> Addr \<Rightarrow> bool" where
  "Prefix_Contains p a \<longleftrightarrow>
     (case (pf_Addr p, a) of
        (Addr4 q, Addr4 w) \<Rightarrow> pf_Bits p \<le> 32 \<and> drop_bit (32 - pf_Bits p) q = drop_bit (32 - pf_Bits p) w
      | (Addr6 q _, Addr6 w z) \<Rightarrow> z = [] \<and> pf_Bits p \<le> 128 \<and> drop_bit (128 - pf_Bits p) q = drop_bit (128 - pf_Bits p) w
      | _ \<Rightarrow> False)"

definition Prefix_Masked :: "Prefix \<Rightarrow> Prefix" where
  "Prefix_Masked p =
     (case pf_Addr p of
        NoAddr \<Rightarrow> p
      | Addr4 q \<Rightarrow> p\<lparr>pf_Addr := Addr4 (push_bit (32 - pf_Bits p) (drop_bit (32 - pf_Bits p) q))\<rparr>
      | Addr6 q _ \<Rightarrow> p\<lparr>pf_Addr := Addr6 (push_bit (128 - pf_Bits p) (drop_bit (128 - pf_Bits p) q)) []\<rparr>)"

abbreviation net4 :: "32 word \<Rightarrow> nat \<Rightarrow> Prefix" where
  "net4 w n \<equiv> \<lparr>pf_Addr = Addr4 w, pf_Bits = n\<rparr>"

abbreviation net6 :: "128 word \<Rightarrow> nat \<Rightarrow> Prefix" where
  "net6 w n \<equiv> \<lparr>pf_Addr = Addr6 w [], pf_Bits = n\<rparr>"

section \<open>The policy\<close>

definition reserved_nets :: "Prefix list" where
  "reserved_nets =
     [net4 0x00000000 8, net4 0x64400000 10, net4 0xC0000000 24, net4 0xC0000200 24, net4 0xC6120000 15, net4 0xC6336400 24,
      net4 0xCB007100 24, net4 0xF0000000 4,
      net6 0x20010DB8000000000000000000000000 32, net6 0x20010000000000000000000000000000 32,
      net6 0x20020000000000000000000000000000 16, net6 0x0064FF9B000000000000000000000000 96]"

definition Allowed :: "Addr \<Rightarrow> Prefix list \<Rightarrow> bool" where
  "Allowed addr exceptions \<longleftrightarrow>
     (let ip = Unmap addr in
      if ip = NoAddr \<or> IsUnspecified ip \<or> IsMulticast ip \<or> IsLinkLocalUnicast ip \<or> IsLinkLocalMulticast ip then False
      else if list_ex (\<lambda>p. Prefix_Contains p ip) exceptions then True
      else if \<not> IsGlobalUnicast ip \<or> IsPrivate ip \<or> IsLoopback ip then False
      else \<not> list_ex (\<lambda>p. Prefix_Contains p ip) reserved_nets)"

text \<open>\<^verbatim>\<open>netip.ParsePrefix\<close> is the argument; only networks of at least 24, or 64, bits are accepted.\<close>

fun ParseExceptions :: "(string \<Rightarrow> Prefix option) \<Rightarrow> string list \<Rightarrow> Prefix list option" where
  "ParseExceptions parse [] = Some []"
| "ParseExceptions parse (s # ss) =
     (case parse s of
        None \<Rightarrow> None
      | Some p \<Rightarrow>
          if (case pf_Addr p of NoAddr \<Rightarrow> False | Addr4 _ \<Rightarrow> pf_Bits p < 24 | Addr6 _ _ \<Rightarrow> pf_Bits p < 64) then None
          else map_option ((#) (Prefix_Masked p)) (ParseExceptions parse ss))"

section \<open>Clients\<close>

text \<open>The TLS version is the wire number of \<^verbatim>\<open>crypto/tls\<close>; a client certificate is its PEM pair.\<close>

record TLSConfig =
  tc_MinVersion :: nat
  tc_ServerName :: string
  tc_InsecureSkipVerify :: bool
  tc_Certificates :: "(bytes \<times> bytes) list"

record Policy =
  po_AllowedCIDRs :: "Prefix list"
  po_TLSConfig :: "TLSConfig option"

record HttpClient =
  hc_Authority :: string
  hc_Hostname :: string
  hc_Port :: string
  hc_TLS :: TLSConfig
  hc_Allowed :: "Prefix list"
  hc_Idle :: "Addr list"

text \<open>The network outside: name resolution, a connection attempt, and one exchange on a connection,
  which says whether the connection stays usable.\<close>

record NetResponse = HttpResponse +
  hs_ContentType :: string

record 'w network =
  net_lookup :: "string \<Rightarrow> 'w \<Rightarrow> 'w \<times> Addr list option"
  net_dial :: "Addr \<Rightarrow> string \<Rightarrow> 'w \<Rightarrow> 'w \<times> bool"
  net_exchange :: "Addr \<Rightarrow> TLSConfig \<Rightarrow> HttpRequest \<Rightarrow> 'w \<Rightarrow> 'w \<times> NetResponse option \<times> bool"

definition VersionTLS12 :: nat where
  "VersionTLS12 = 0x0303"

definition https_port :: "URL \<Rightarrow> string" where
  "https_port u = (if u_Port u = [] then ''443'' else u_Port u)"

definition safenet_New :: "'a contract_env_scheme \<Rightarrow> string \<Rightarrow> Policy \<Rightarrow> HttpClient option" where
  "safenet_New E base p =
     (case parse_url E base of
        None \<Rightarrow> None
      | Some u \<Rightarrow>
          if u_Scheme u \<noteq> ''https'' \<or> u_Hostname u = [] \<or> u_User u \<or> u_Fragment u \<noteq> [] \<or> u_RawQuery u \<noteq> [] \<or> HasSuffix (u_Hostname u) ''.''
          then None
          else
            let client = (\<lambda>tls. Some \<lparr>hc_Authority = u_Host u, hc_Hostname = u_Hostname u, hc_Port = https_port u, hc_TLS = tls,
                  hc_Allowed = po_AllowedCIDRs p, hc_Idle = []\<rparr>)
            in case po_TLSConfig p of
                 None \<Rightarrow> client \<lparr>tc_MinVersion = VersionTLS12, tc_ServerName = u_Hostname u, tc_InsecureSkipVerify = False, tc_Certificates = []\<rparr>
               | Some t \<Rightarrow>
                   if tc_InsecureSkipVerify t then None
                   else client (t\<lparr>tc_ServerName := u_Hostname u,
                     tc_MinVersion := (if tc_MinVersion t < VersionTLS12 then VersionTLS12 else tc_MinVersion t)\<rparr>))"

text \<open>\<^verbatim>\<open>DialContext\<close>, with the host and port the transport asks for.\<close>

fun dial_loop :: "'w network \<Rightarrow> string \<Rightarrow> Addr list \<Rightarrow> 'w \<Rightarrow> 'w \<times> Addr option" where
  "dial_loop N port [] w = (w, None)"
| "dial_loop N port (a # as) w =
     (case net_dial N a port w of (w1, True) \<Rightarrow> (w1, Some a) | (w1, False) \<Rightarrow> dial_loop N port as w1)"

definition DialContext :: "'w network \<Rightarrow> HttpClient \<Rightarrow> string \<Rightarrow> string \<Rightarrow> 'w \<Rightarrow> 'w \<times> Addr option" where
  "DialContext N c h port w =
     (if h \<noteq> hc_Hostname c \<or> port \<noteq> hc_Port c then (w, None)
      else case net_lookup N h w of
        (w1, None) \<Rightarrow> (w1, None)
      | (w1, Some ips) \<Rightarrow>
          if ips = [] \<or> \<not> list_all (\<lambda>ip. Allowed ip (hc_Allowed c)) ips then (w1, None)
          else dial_loop N port ips w1)"

text \<open>\<^verbatim>\<open>fixedTransport.RoundTrip\<close> guards \<^verbatim>\<open>http.Transport.RoundTrip\<close>, which takes an idle connection or
  dials the host of the request, and puts the connection among the idle ones when the exchange leaves it usable.
  Redirects are not followed, so one \<^verbatim>\<open>Do\<close> is one round trip.\<close>

definition RoundTrip_ok :: "HttpClient \<Rightarrow> URL \<Rightarrow> bool" where
  "RoundTrip_ok c u \<longleftrightarrow> \<not> (u_Scheme u \<noteq> ''https'' \<or> u_Host u \<noteq> hc_Authority c \<or> u_User u \<or> u_Fragment u \<noteq> [])"

definition client_connect :: "'w network \<Rightarrow> HttpClient \<Rightarrow> URL \<Rightarrow> 'w \<Rightarrow> HttpClient \<times> 'w \<times> Addr option" where
  "client_connect N c u w =
     (case hc_Idle c of
        a # as \<Rightarrow> (c\<lparr>hc_Idle := as\<rparr>, w, Some a)
      | [] \<Rightarrow> (case DialContext N c (u_Hostname u) (https_port u) w of (w1, x) \<Rightarrow> (c, w1, x)))"

definition client_Do :: "'a contract_env_scheme \<Rightarrow> 'w network \<Rightarrow> HttpClient \<Rightarrow> HttpRequest \<Rightarrow> 'w \<Rightarrow> HttpClient \<times> 'w \<times> NetResponse option" where
  "client_Do E N c req w =
     (case parse_url E (hr_URL req) of
        None \<Rightarrow> (c, w, None)
      | Some u \<Rightarrow>
          if \<not> RoundTrip_ok c u then (c, w, None)
          else case client_connect N c u w of
            (c1, w1, None) \<Rightarrow> (c1, w1, None)
          | (c1, w1, Some a) \<Rightarrow>
              (case net_exchange N a (hc_TLS c1) req w1 of
                 (w2, res, keep) \<Rightarrow> (if keep then c1\<lparr>hc_Idle := a # hc_Idle c1\<rparr> else c1, w2, res)))"

end
