(* ===== verification/Http_Api.thy ===== *)
theory Http_Api
  imports OAuth_Flow Safenet
begin

text \<open>
  The HTTP surfaces of the broker (\<^verbatim>\<open>httpapi/server.go\<close>, \<^verbatim>\<open>httpapi/browser.go\<close>, \<^verbatim>\<open>httpapi/proxy.go\<close>): the
  signed control and runtime API, the identity-bound browser form, the injecting proxy, and
  the limiter of the browser surface.

  A request is handled by \<open>ServeHTTP\<close> on the state of the server: the broker, the rate limiter,
  the number of requests under way, and the cached clients of the proxy. The clock, the
  random bytes and what other calls do to the broker at the points where its mutex is free
  are the fields of \<open>Ctx\<close>. The parsers of \<^verbatim>\<open>mime\<close>, \<^verbatim>\<open>net/url\<close> and \<^verbatim>\<open>net\<close>, and the JSON of the request
  bodies, are fields of the environment; a page is its data, not its HTML.
\<close>

section \<open>Requests and replies\<close>

record HttpIn =
  in_Method :: string
  in_Path :: string
  in_RawPath :: string
  in_RawQuery :: string
  in_RequestURI :: string
  in_Host :: string
  in_RemoteAddr :: string
  in_TLS :: bool
  in_Authorization :: "string list"
  in_Header :: "(string, string) gomap"
  in_Cookies :: "(string, string) gomap"
  in_Body :: bytes
  in_BodyError :: bool

datatype ApiOut = OStatus | OCatalog "Contract list" | OContract Contract | OEvents Events | ORequest Request
  | OCredential Credential | OGrant Grant | OLease Lease | OMaterialized Materialized

datatype HttpOut = OutApi ApiOut | OutError string | OutNotFound | OutProxy bytes string | OutRedirect string
  | OutForm SessionView string string | OutDone string | OutAsset string

text \<open>A cookie that is set: its value and age.\<close>

record Reply =
  rp_Status :: int
  rp_Header :: "(string, string) gomap"
  rp_Out :: HttpOut
  rp_Cookie :: "(string \<times> int) option"

record 'w Ctx =
  cx_now :: "nat \<Rightarrow> time"
  cx_rnd :: "nat \<Rightarrow> bytes"
  cx_other :: "nat \<Rightarrow> 'w Broker \<Rightarrow> 'w Broker"

text \<open>\<open>parse_query\<close> returns the values and whether there was no error; \<open>multipart_parts\<close> the form names and
  bodies of the parts (\<open>None\<close>: the body cannot be read) and whether the stream ends without an error;
  \<open>quality\<close> the value of a language weight in billionths.\<close>

record http_env = oauth_env +
  decode_create_request :: "bytes \<Rightarrow> CreateRequest option"
  decode_grant_request :: "bytes \<Rightarrow> GrantRequest option"
  decode_acquire :: "bytes \<Rightarrow> AcquireLease option"
  decode_release :: "bytes \<Rightarrow> RuntimeRelease option"
  decode_approve :: "bytes \<Rightarrow> string option"
  decode_telegram :: "bytes \<Rightarrow> (string \<times> string \<times> string \<times> string) option"
  decode_ttl :: "bytes \<Rightarrow> int option"
  parse_media_type :: "string \<Rightarrow> (string \<times> (string, string) gomap) option"
  parse_query :: "string \<Rightarrow> (string, string list) gomap \<times> bool"
  split_host_port :: "string \<Rightarrow> (string \<times> string) option"
  parse_ip :: "string \<Rightarrow> bool"
  multipart_parts :: "string \<Rightarrow> bytes \<Rightarrow> (string \<times> bytes option) list \<times> bool"
  quality :: "string \<Rightarrow> int option"
  url_string :: "URL \<Rightarrow> string"
  x509_key_pair :: "bytes \<Rightarrow> bytes \<Rightarrow> bool"

definition header_get :: "HttpIn \<Rightarrow> string \<Rightarrow> string" where
  "header_get r h = go_get [] (in_Header r) h"

definition query_get :: "(string, string list) gomap \<Rightarrow> string \<Rightarrow> string" where
  "query_get q k = (case go_get [] q k of [] \<Rightarrow> [] | x # _ \<Rightarrow> x)"

text \<open>\<^verbatim>\<open>strings.Trim(s, "/")\<close> and \<^verbatim>\<open>strings.SplitN(s, "/", 3)\<close>\<close>

definition trim_slashes :: "string \<Rightarrow> string" where
  "trim_slashes s = rev (dropWhile (\<lambda>c. c = CHR ''/'') (rev (dropWhile (\<lambda>c. c = CHR ''/'') s)))"

definition path_parts :: "string \<Rightarrow> string list" where
  "path_parts p = Split CHR ''/'' (trim_slashes p)"

definition splitN3 :: "string \<Rightarrow> string list" where
  "splitN3 s = (case Split CHR ''/'' s of a # b # c # cs \<Rightarrow> [a, b, Join CHR ''/'' (c # cs)] | ps \<Rightarrow> ps)"

text \<open>\<^verbatim>\<open>strconv.ParseUint(s, 10, 64)\<close>\<close>

definition ParseUint64 :: "string \<Rightarrow> nat option" where
  "ParseUint64 s = (if s = [] \<or> \<not> list_all is_digit s \<or> digits_val s \<ge> 18446744073709551616 then None else Some (digits_val s))"

definition defaultString :: "string \<Rightarrow> string \<Rightarrow> string" where
  "defaultString s d = (if s = [] then d else s)"

section \<open>The limiter\<close>

text \<open>Tokens are counted in billionths, so the refill of two a second is exact for a clock in nanoseconds.\<close>

record bucket =
  bk_tokens :: int
  bk_at :: time

type_synonym limiter = "(string, bucket) gomap"

definition remote_ip :: "string \<Rightarrow> string" where
  "remote_ip remote =
     (if CHR '':'' \<in> set remote then rev (tl (dropWhile (\<lambda>c. c \<noteq> CHR '':'') (rev remote))) else remote)"

definition full_bucket :: int where
  "full_bucket = 20 * second"

definition limiter_evict :: "time \<Rightarrow> limiter \<Rightarrow> limiter" where
  "limiter_evict now l = (if length l \<ge> 1024 then filter (\<lambda>(_, v). \<not> now - bk_at v > 60 * second) l else l)"

definition limiter_take :: "time \<Rightarrow> string \<Rightarrow> bucket \<Rightarrow> limiter \<Rightarrow> limiter \<times> bool" where
  "limiter_take now ip b l =
     (let t = min full_bucket (bk_tokens b + (now - bk_at b) * 2);
          ok = t \<ge> second
      in (go_update ip \<lparr>bk_tokens = (if ok then t - second else t), bk_at = now\<rparr> l, ok))"

definition limiter_allow :: "time \<Rightarrow> string \<Rightarrow> limiter \<Rightarrow> limiter \<times> bool" where
  "limiter_allow now remote l =
     (let ip = remote_ip remote in
      case go_lookup l ip of
        Some b \<Rightarrow> limiter_take now ip b l
      | None \<Rightarrow>
          (let l1 = limiter_evict now l in
           if length l1 \<ge> 1024 then (l1, False)
           else limiter_take now ip \<lparr>bk_tokens = full_bucket, bk_at = now\<rparr> l1))"

section \<open>The server\<close>

record 'w Server =
  srv_broker :: "'w Broker"
  srv_keys :: "(string, TrustedKey) gomap"
  srv_DevHTTP :: bool
  srv_host :: string
  srv_origin :: string
  srv_apiHosts :: "string list"
  srv_policy :: Policy
  srv_slots :: nat
  srv_limits :: limiter
  srv_clients :: "(string, HttpClient) gomap"

text \<open>\<^verbatim>\<open>^[a-z0-9]([a-z0-9.-]{0,251}[a-z0-9])?$\<close>\<close>

definition apiHostPattern :: "string \<Rightarrow> bool" where
  "apiHostPattern s \<longleftrightarrow> s \<noteq> [] \<and> length s \<le> 253 \<and> (is_lower (hd s) \<or> is_digit (hd s)) \<and> (is_lower (last s) \<or> is_digit (last s)) \<and>
     list_all (\<lambda>c. is_lower c \<or> is_digit c \<or> c = CHR ''.'' \<or> c = CHR ''-'') s"

definition trim_brackets :: "string \<Rightarrow> string" where
  "trim_brackets s = rev (dropWhile (\<lambda>c. c \<in> set ''[]'') (rev (dropWhile (\<lambda>c. c \<in> set ''[]'') s)))"

definition validAPIHost :: "'a http_env_scheme \<Rightarrow> string \<Rightarrow> bool" where
  "validAPIHost E v =
     (case (case split_host_port E v of None \<Rightarrow> (v, []) | Some hp \<Rightarrow> hp) of
        (host, port) \<Rightarrow>
          if port \<noteq> [] \<and> (case ParseInt port of None \<Rightarrow> True | Some n \<Rightarrow> n < 1 \<or> n > 65535) then False
          else apiHostPattern (ToLower (TrimSuffix host ''.'')) \<or> parse_ip E (trim_brackets host))"

definition server_New :: "'a http_env_scheme \<Rightarrow> 'w Broker \<Rightarrow> (string, TrustedKey) gomap \<Rightarrow> bool \<Rightarrow> string list \<Rightarrow> Policy \<Rightarrow> 'w Server option" where
  "server_New E b keys dev hosts policy =
     (if keys = [] then None
      else case parse_url E (cf_PublicOrigin (b_cfg b)) of
        None \<Rightarrow> None
      | Some u \<Rightarrow>
          if (if dev then u_Scheme u \<noteq> ''http'' \<or> u_Hostname u \<noteq> ''127.0.0.1'' \<and> u_Hostname u \<noteq> ''localhost'' \<and> u_Hostname u \<noteq> ''::1''
              else u_Scheme u \<noteq> ''https'') then None
          else if length hosts > 8 then None
          else if \<not> list_all (\<lambda>h. validAPIHost E h \<and> h \<noteq> u_Host u) hosts then None
          else Some \<lparr>srv_broker = b, srv_keys = keys, srv_DevHTTP = dev, srv_host = u_Host u,
                     srv_origin = url_string E u, srv_apiHosts = hosts, srv_policy = policy, srv_slots = 0,
                     srv_limits = [], srv_clients = []\<rparr>)"

definition quoted :: "string \<Rightarrow> string" where
  "quoted s = CHR 0x27 # s @ [CHR 0x27]"

definition security_headers :: "bool \<Rightarrow> (string, string) gomap" where
  "security_headers dev =
     [(''Cache-Control'', ''no-store''), (''Pragma'', ''no-cache''), (''X-Content-Type-Options'', ''nosniff''),
      (''Referrer-Policy'', ''no-referrer''), (''X-Frame-Options'', ''DENY''),
      (''Permissions-Policy'', ''camera=(), microphone=(), geolocation=()''),
      (''Content-Security-Policy'', ''default-src '' @ quoted ''none'' @ ''; style-src '' @ quoted ''self'' @ ''; script-src '' @ quoted ''self'' @
         ''; form-action '' @ quoted ''self'' @ ''; frame-ancestors '' @ quoted ''none'' @ ''; base-uri '' @ quoted ''none'')] @
     (if dev then [] else [(''Strict-Transport-Security'', ''max-age=31536000'')])"

definition json_reply :: "int \<Rightarrow> HttpOut \<Rightarrow> Reply" where
  "json_reply status out = \<lparr>rp_Status = status, rp_Header = [(''Content-Type'', ''application/json; charset=utf-8'')], rp_Out = out, rp_Cookie = None\<rparr>"

definition plain_reply :: "int \<Rightarrow> HttpOut \<Rightarrow> Reply" where
  "plain_reply status out = \<lparr>rp_Status = status, rp_Header = [], rp_Out = out, rp_Cookie = None\<rparr>"

abbreviation not_found_reply :: Reply where
  "not_found_reply \<equiv> plain_reply 404 OutNotFound"

definition unauthorized_reply :: Reply where
  "unauthorized_reply = json_reply 401 (OutError ''unauthorized'')"

definition fail_reply :: "berr \<Rightarrow> Reply" where
  "fail_reply e =
     (if berr_Is e ErrDenied then json_reply 403 (OutError ''denied'')
      else if berr_Is e ErrNotFound then json_reply 404 (OutError ''not_found'')
      else if berr_Is e ErrInvalid then json_reply 400 (OutError ''invalid_request'')
      else if berr_Is e ErrConflict then json_reply 409 (OutError ''conflict'')
      else if berr_Is e ErrExpired then json_reply 410 (OutError ''expired'')
      else if berr_Is e ErrReauthorize then json_reply 409 (OutError ''reauthorize_required'')
      else json_reply 503 (OutError ''unavailable''))"

end
