(* ===== verification/Http_Serve.thy ===== *)
theory Http_Serve
  imports Http_Api
begin

text \<open>
  The handlers: the switch of the signed API (\<^verbatim>\<open>Server.api\<close>) as a classification of method and path
  followed by the operation of each case, the injecting proxy (\<^verbatim>\<open>Server.proxy\<close>), the browser surface
  (\<^verbatim>\<open>Server.browser\<close>, \<^verbatim>\<open>readForm\<close>), and \<^verbatim>\<open>Server.ServeHTTP\<close>, which guards them.
\<close>

section \<open>The API\<close>

datatype api_route = RtCatalog | RtRegister | RtEvents | RtCreateRequest | RtGetRequest string | RtApprove string
  | RtTelegram string | RtCancel string | RtGetCredential string | RtDeleteCredential string | RtCreateGrant string
  | RtRevokeCredential string | RtGetGrant string | RtRevokeGrant string | RtAcquire | RtInspect string
  | RtMaterialize string | RtRelease string | RtRenew string | RtNone

definition route_of :: "string \<Rightarrow> string \<Rightarrow> api_route" where
  "route_of m p =
     (let parts = path_parts p; n = length parts in
      if m = ''GET'' \<and> p = ''/v1/contracts'' then RtCatalog
      else if m = ''POST'' \<and> p = ''/v1/contracts'' then RtRegister
      else if m = ''GET'' \<and> p = ''/v1/events'' then RtEvents
      else if m = ''POST'' \<and> p = ''/v1/requests'' then RtCreateRequest
      else if n = 3 \<and> parts ! 1 = ''requests'' \<and> m = ''GET'' then RtGetRequest (parts ! 2)
      else if n = 4 \<and> parts ! 1 = ''requests'' \<and> parts ! 3 = ''approve'' \<and> m = ''POST'' then RtApprove (parts ! 2)
      else if n = 4 \<and> parts ! 1 = ''requests'' \<and> parts ! 3 = ''telegram-submit'' \<and> m = ''POST'' then RtTelegram (parts ! 2)
      else if n = 4 \<and> parts ! 1 = ''requests'' \<and> parts ! 3 = ''cancel'' \<and> m = ''POST'' then RtCancel (parts ! 2)
      else if n = 3 \<and> parts ! 1 = ''credentials'' \<and> m = ''GET'' then RtGetCredential (parts ! 2)
      else if n = 3 \<and> parts ! 1 = ''credentials'' \<and> m = ''DELETE'' then RtDeleteCredential (parts ! 2)
      else if n = 4 \<and> parts ! 1 = ''credentials'' \<and> parts ! 3 = ''grants'' \<and> m = ''POST'' then RtCreateGrant (parts ! 2)
      else if n = 4 \<and> parts ! 1 = ''credentials'' \<and> parts ! 3 = ''revoke'' \<and> m = ''POST'' then RtRevokeCredential (parts ! 2)
      else if n = 3 \<and> parts ! 1 = ''grants'' \<and> m = ''GET'' then RtGetGrant (parts ! 2)
      else if n = 4 \<and> parts ! 1 = ''grants'' \<and> parts ! 3 = ''revoke'' \<and> m = ''POST'' then RtRevokeGrant (parts ! 2)
      else if m = ''POST'' \<and> p = ''/v1/leases'' then RtAcquire
      else if n = 4 \<and> parts ! 1 = ''runtime'' \<and> parts ! 2 = ''leases'' \<and> m = ''GET'' then RtInspect (parts ! 3)
      else if n = 5 \<and> parts ! 1 = ''runtime'' \<and> parts ! 2 = ''leases'' \<and> parts ! 4 = ''materialize'' \<and> m = ''POST'' then RtMaterialize (parts ! 3)
      else if n = 5 \<and> parts ! 1 = ''runtime'' \<and> parts ! 2 = ''leases'' \<and> parts ! 4 = ''release'' \<and> m = ''POST'' then RtRelease (parts ! 3)
      else if n = 5 \<and> parts ! 1 = ''runtime'' \<and> parts ! 2 = ''leases'' \<and> parts ! 4 = ''renew'' \<and> m = ''POST'' then RtRenew (parts ! 3)
      else RtNone)"

definition api_decode :: "'a http_env_scheme \<Rightarrow> (bytes \<Rightarrow> 'v option) \<Rightarrow> bytes \<Rightarrow> 'v option" where
  "api_decode E dec data = strictjson_Decode E dec (if data = [] then ''{}'' else data)"

definition noBody :: "bytes \<Rightarrow> bool" where
  "noBody data \<longleftrightarrow> TrimSpace data = [] \<or> TrimSpace data = ''{}''"

definition answer :: "int \<Rightarrow> ('x \<Rightarrow> ApiOut) \<Rightarrow> 'w Broker \<times> (berr + 'x) \<Rightarrow> 'w Broker \<times> Reply" where
  "answer status out res =
     (case res of (b, Inl e) \<Rightarrow> (b, fail_reply e) | (b, Inr x) \<Rightarrow> (b, json_reply status (OutApi (out x))))"

text \<open>A case that decodes its body first, and one that allows none.\<close>

definition with_body :: "'a http_env_scheme \<Rightarrow> (bytes \<Rightarrow> 'v option) \<Rightarrow> bytes \<Rightarrow> 'w Broker \<Rightarrow> ('v \<Rightarrow> 'w Broker \<times> Reply) \<Rightarrow> 'w Broker \<times> Reply" where
  "with_body E dec data b f = (case api_decode E dec data of None \<Rightarrow> (b, fail_reply ErrInvalid) | Some inp \<Rightarrow> f inp)"

definition without_body :: "bytes \<Rightarrow> 'w Broker \<Rightarrow> 'w Broker \<times> Reply \<Rightarrow> 'w Broker \<times> Reply" where
  "without_body data b res = (if \<not> noBody data then (b, fail_reply ErrInvalid) else res)"

definition telegram_bundle :: "string \<times> string \<times> string \<times> string \<Rightarrow> Bundle" where
  "telegram_bundle t = (case t of (apiID, apiHash, session, user) \<Rightarrow>
     [(''api_id'', apiID), (''api_hash'', apiHash), (''session'', session), (''expected_user_id'', user)])"

definition run_route :: "'a http_env_scheme \<Rightarrow> 'w Ctx \<Rightarrow> HttpIn \<Rightarrow> Actor \<Rightarrow> bytes \<Rightarrow> api_route \<Rightarrow> 'w Broker \<Rightarrow> 'w Broker \<times> Reply" where
  "run_route E cx r a data rt b =
     (let now = cx_now cx 1; rnd = cx_rnd cx; later = (\<lambda>k. cx_now cx (1 + k)); other = cx_other cx in
      case rt of
        RtCatalog \<Rightarrow> (b, json_reply 200 (OutApi (OCatalog (Broker_Catalog E b))))
      | RtRegister \<Rightarrow> with_body E (decode_contract E) data b (\<lambda>c. answer 201 OContract (RegisterContract E now a c b))
      | RtEvents \<Rightarrow>
          (case ParseUint64 (defaultString (query_get (fst (parse_query E (in_RawQuery r))) ''after'') ''0'') of
             None \<Rightarrow> (b, fail_reply ErrInvalid)
           | Some after \<Rightarrow> (b, json_reply 200 (OutApi (OEvents (Broker_Events a after 100 b)))))
      | RtCreateRequest \<Rightarrow> with_body E (decode_create_request E) data b
          (\<lambda>inp. answer 201 ORequest (Broker_CreateRequest E now (rnd 0) (rnd 1) a inp b))
      | RtGetRequest i \<Rightarrow> answer 200 ORequest (b, GetRequest now a i b)
      | RtApprove i \<Rightarrow> with_body E (decode_approve E) data b (\<lambda>code. answer 200 (\<lambda>_. OStatus) (Approve E now a i code b))
      | RtTelegram i \<Rightarrow> with_body E (decode_telegram E) data b
          (\<lambda>t. answer 200 (\<lambda>_. OStatus) (SubmitTelegram E now (rnd 0) a i (telegram_bundle t) b))
      | RtCancel i \<Rightarrow> without_body data b (answer 200 (\<lambda>_. OStatus) (CancelRequest E now a i b))
      | RtGetCredential i \<Rightarrow> answer 200 OCredential (b, GetCredential a i b)
      | RtDeleteCredential i \<Rightarrow> without_body data b
          (answer 200 (\<lambda>_. OStatus) (DeleteCredential E now (cx_now cx 2) (other 0) a i b))
      | RtCreateGrant i \<Rightarrow> with_body E (decode_grant_request E) data b (\<lambda>inp. answer 201 OGrant (CreateGrant E now (rnd 0) a i inp b))
      | RtRevokeCredential i \<Rightarrow> without_body data b (answer 200 (\<lambda>_. OStatus) (RevokeCredential E now a i b))
      | RtGetGrant i \<Rightarrow> answer 200 OGrant (b, GetGrant a i b)
      | RtRevokeGrant i \<Rightarrow> without_body data b (answer 200 (\<lambda>_. OStatus) (RevokeGrant E now a i b))
      | RtAcquire \<Rightarrow> with_body E (decode_acquire E) data b (\<lambda>inp. answer 201 OLease (Acquire E now (rnd 0) a inp b))
      | RtInspect i \<Rightarrow> answer 200 OLease (b, InspectLease now a i b)
      | RtMaterialize i \<Rightarrow> without_body data b (answer 200 OMaterialized (Broker_Materialize E later other (rnd 0) a i b))
      | RtRelease i \<Rightarrow> with_body E (decode_release E) data b (\<lambda>inp. answer 200 (\<lambda>_. OStatus) (Release E now a i inp b))
      | RtRenew i \<Rightarrow> with_body E (decode_ttl E) data b (\<lambda>n. answer 200 OLease (Renew E now a i n b))
      | RtNone \<Rightarrow> (b, fail_reply ErrNotFound))"

definition api :: "'a http_env_scheme \<Rightarrow> 'w Ctx \<Rightarrow> HttpIn \<Rightarrow> Actor \<Rightarrow> bytes \<Rightarrow> 'w Broker \<Rightarrow> 'w Broker \<times> Reply" where
  "api E cx r a data b = run_route E cx r a data (route_of (in_Method r) (in_Path r)) b"


section \<open>The proxy\<close>

text \<open>\<^verbatim>\<open>textproto.CanonicalMIMEHeaderKey\<close>, by which \<^verbatim>\<open>http.Header\<close> keys its entries.\<close>

fun canon_chars :: "bool \<Rightarrow> string \<Rightarrow> string" where
  "canon_chars up [] = []"
| "canon_chars up (c # cs) = (if up then upper_char c else lower_char c) # canon_chars (c = CHR ''-'') cs"

definition token_char :: "char \<Rightarrow> bool" where
  "token_char c \<longleftrightarrow> alnum c \<or> c \<in> set ''!#$%&*+-.^_`|~'' \<or> c = CHR 0x27"

definition CanonicalHeader :: "string \<Rightarrow> string" where
  "CanonicalHeader h = (if list_all token_char h then canon_chars True h else h)"

definition header_set :: "string \<Rightarrow> string \<Rightarrow> (string, string) gomap \<Rightarrow> (string, string) gomap" where
  "header_set h v hs = go_update (CanonicalHeader h) v hs"

definition line_breaks :: "string \<Rightarrow> bool" where
  "line_breaks v \<longleftrightarrow> ContainsAny v [CHR 0x0D, CHR 0x0A, CHR 0x00]"

definition forwarded_headers :: "HttpIn \<Rightarrow> Route \<Rightarrow> (string, string) gomap" where
  "forwarded_headers r route =
     foldl (\<lambda>hs (h, v). header_set h v hs)
       (foldl (\<lambda>hs h. let v = header_get r h in if length v \<le> 1024 \<and> \<not> line_breaks v then header_set h v hs else hs)
          [] [''Accept'', ''Content-Type''])
       (r_StaticHeaders route)"

definition proxy_target :: "HttpIn \<Rightarrow> Route \<Rightarrow> string \<Rightarrow> string" where
  "proxy_target r route path = TrimSuffix (r_BaseURL route) ''/'' @ path @ (if in_RawQuery r \<noteq> [] then ''?'' @ in_RawQuery r else [])"

text \<open>The credential goes into the request: the request, the secret to look for in the answer, and the
  network policy.\<close>

definition proxy_auth :: "'a http_env_scheme \<Rightarrow> 'w Ctx \<Rightarrow> Policy \<Rightarrow> Route \<Rightarrow> Use \<Rightarrow> Bundle \<Rightarrow> HttpRequest \<Rightarrow> 'w Broker \<Rightarrow>
    'w Broker \<times> (berr + HttpRequest \<times> string \<times> Policy)" where
  "proxy_auth E cx policy route u values req b =
     (let secret = go_get [] values (r_Field route);
          set = (\<lambda>h v. req\<lparr>hr_Header := header_set h v (hr_Header req)\<rparr>)
      in if r_Auth route \<noteq> ''mtls'' \<and> line_breaks secret then (b, Inl ErrInvalid)
         else if r_Auth route = ''bearer'' then (b, Inr (set ''Authorization'' (''Bearer '' @ secret), secret, policy))
         else if r_Auth route = ''header'' then (b, Inr (set (r_Header route) secret, secret, policy))
         else if r_Auth route = ''basic'' then
           (let password = go_get [] values (r_PasswordField route) in
            if line_breaks password then (b, Inl ErrInvalid)
            else (b, Inr (req\<lparr>hr_Header := go_delete ''Authorization'' (hr_Header req), hr_BasicAuth := Some (secret, password)\<rparr>, secret, policy)))
         else if r_Auth route = ''oauth2'' then
           (case AccessToken E (\<lambda>k. cx_now cx (100 + k)) (\<lambda>k. cx_other cx (100 + k)) u b of
              (b1, Inl e) \<Rightarrow> (b1, Inl e)
            | (b1, Inr token) \<Rightarrow> (b1, Inr (set ''Authorization'' (''Bearer '' @ token), token, policy)))
         else if r_Auth route = ''mtls'' then
           (let key = go_get [] values (r_PasswordField route) in
            if \<not> x509_key_pair E secret key then (b, Inl ErrInvalid)
            else
              let tc = (case po_TLSConfig policy of
                    None \<Rightarrow> \<lparr>tc_MinVersion = VersionTLS12, tc_ServerName = [], tc_InsecureSkipVerify = False, tc_Certificates = []\<rparr>
                  | Some t \<Rightarrow> t)
              in (b, Inr (req, secret, policy\<lparr>po_TLSConfig := Some (tc\<lparr>tc_Certificates := [(secret, key)]\<rparr>)\<rparr>)))
         else (b, Inl ErrInvalid))"

text \<open>A client from the cache, or a new one, which a route with a client certificate does not share.\<close>

definition proxy_client :: "'a http_env_scheme \<Rightarrow> string \<Rightarrow> Route \<Rightarrow> Policy \<Rightarrow> (string, HttpClient) gomap \<Rightarrow>
    ((string, HttpClient) gomap \<times> HttpClient) option" where
  "proxy_client E key route policy clients =
     (let fresh = map_option (\<lambda>c. (if r_Auth route = ''mtls'' then clients else go_update key c clients, c))
            (safenet_New E (r_BaseURL route) policy)
      in if r_Auth route = ''mtls'' then fresh
         else case go_lookup clients key of Some c \<Rightarrow> Some (clients, c) | None \<Rightarrow> fresh)"

definition proxy_reply :: "'w Ctx \<Rightarrow> Use \<Rightarrow> Bundle \<Rightarrow> string \<Rightarrow> NetResponse option \<Rightarrow> 'w Broker \<Rightarrow> Reply" where
  "proxy_reply cx u values secret res b =
     (case res of
        None \<Rightarrow> fail_reply ErrUnavailable
      | Some x \<Rightarrow>
          if hs_StatusCode x \<ge> 300 \<and> hs_StatusCode x < 400 then fail_reply ErrDenied
          else case hs_Body x of
            None \<Rightarrow> fail_reply ErrUnavailable
          | Some data \<Rightarrow>
              if length data > 1048576 then fail_reply ErrUnavailable
              else if length secret \<ge> 8 \<and> Contains data secret then fail_reply ErrDenied
              else if list_ex (\<lambda>(_, v). length v \<ge> 8 \<and> Contains data v) values then fail_reply ErrDenied
              else if \<not> Use_Valid (cx_now cx 52) u b then fail_reply ErrDenied
              else \<lparr>rp_Status = hs_StatusCode x,
                    rp_Header = (if length (hs_ContentType x) < 200 then [(''Content-Type'', hs_ContentType x)] else []),
                    rp_Out = OutProxy data (hs_ContentType x), rp_Cookie = None\<rparr>)"

definition proxy_send :: "'a http_env_scheme \<Rightarrow> 'w network \<Rightarrow> 'w Ctx \<Rightarrow> string \<Rightarrow> Route \<Rightarrow> Use \<Rightarrow> Bundle \<Rightarrow> string \<Rightarrow> HttpRequest \<Rightarrow> HttpClient \<Rightarrow>
    'w Server \<Rightarrow> 'w Server \<times> Reply" where
  "proxy_send E N cx key route u values secret req client s =
     (let b = cx_other cx 50 (srv_broker s) in
      if \<not> Use_Valid (cx_now cx 50) u b then (s\<lparr>srv_broker := b\<rparr>, fail_reply ErrDenied)
      else case client_Do E N client req (b_world b) of
        (c1, w1, res) \<Rightarrow>
          (let b1 = cx_other cx 51 (b\<lparr>b_world := w1\<rparr>);
               s1 = s\<lparr>srv_broker := b1, srv_clients := (if r_Auth route = ''mtls'' then srv_clients s else go_update key c1 (srv_clients s))\<rparr>
           in (s1, proxy_reply cx u values secret res b1)))"

definition proxy_used :: "'a http_env_scheme \<Rightarrow> 'w network \<Rightarrow> 'w Ctx \<Rightarrow> HttpIn \<Rightarrow> string \<Rightarrow> string \<Rightarrow> bytes \<Rightarrow> Use \<Rightarrow> 'w Server \<Rightarrow> 'w Server \<times> Reply" where
  "proxy_used E N cx r rid path body u s =
     (case find (\<lambda>c. r_ID c = rid) (c_Routes (us_Contract u)) of
        None \<Rightarrow> (s, fail_reply ErrDenied)
      | Some route \<Rightarrow>
          if \<not> Route_Allows route (in_Method r) path then (s, fail_reply ErrDenied)
          else case Resolve E (\<lambda>k. cx_now cx (2 + k)) (\<lambda>k. cx_other cx (1 + k)) u (cx_other cx 0 (srv_broker s)) of
            (b1, Inl e) \<Rightarrow> (s\<lparr>srv_broker := b1\<rparr>, fail_reply e)
          | (b1, Inr values) \<Rightarrow>
              if parse_url E (proxy_target r route path) = None then (s\<lparr>srv_broker := b1\<rparr>, fail_reply ErrInvalid)
              else
                let req = \<lparr>hr_Method = in_Method r, hr_URL = proxy_target r route path, hr_Header = forwarded_headers r route,
                           hr_BasicAuth = None, hr_Body = body\<rparr>
                in case proxy_auth E cx (srv_policy s) route u values req (cx_other cx 3 b1) of
                     (b2, Inl e) \<Rightarrow> (s\<lparr>srv_broker := b2\<rparr>, fail_reply e)
                   | (b2, Inr (req', secret, policy)) \<Rightarrow>
                       (let key = Contract_Digest E (us_Contract u) @ ''/'' @ r_ID route in
                        case proxy_client E key route policy (srv_clients s) of
                          None \<Rightarrow> (s\<lparr>srv_broker := b2\<rparr>, fail_reply ErrDenied)
                        | Some (clients, client) \<Rightarrow>
                            proxy_send E N cx key route u values secret req' client (s\<lparr>srv_broker := b2, srv_clients := clients\<rparr>)))"

definition proxy :: "'a http_env_scheme \<Rightarrow> 'w network \<Rightarrow> 'w Ctx \<Rightarrow> HttpIn \<Rightarrow> Actor \<Rightarrow> bytes \<Rightarrow> 'w Server \<Rightarrow> 'w Server \<times> Reply" where
  "proxy E N cx r a body s =
     (case splitN3 (TrimPrefix (in_Path r) ''/v1/runtime/proxy/'') of
        l # rid # rest \<Rightarrow>
          (case BeginUse E (cx_now cx 1) (cx_rnd cx 0) a l (srv_broker s) of
             (b1, Inl e) \<Rightarrow> (s\<lparr>srv_broker := b1\<rparr>, fail_reply e)
           | (b1, Inr u) \<Rightarrow>
               (case proxy_used E N cx r rid (''/'' @ (case rest of [] \<Rightarrow> [] | p # _ \<Rightarrow> p)) body u (s\<lparr>srv_broker := b1\<rparr>) of
                  (s2, x) \<Rightarrow> (s2\<lparr>srv_broker := Finish u (cx_other cx 53 (srv_broker s2))\<rparr>, x)))
      | _ \<Rightarrow> (s, fail_reply ErrInvalid))"


section \<open>The browser surface\<close>

definition cookieName :: "bool \<Rightarrow> string" where
  "cookieName dev = (if dev then ''cb_dev_session'' else ''__Host-cb_session'')"

definition session_cookie :: "HttpIn \<Rightarrow> 'w Server \<Rightarrow> string" where
  "session_cookie r s = go_get [] (in_Cookies r) (cookieName (srv_DevHTTP s))"

definition normalizeLang :: "string \<Rightarrow> string" where
  "normalizeLang raw =
     (let tag = takeWhile (\<lambda>c. c \<noteq> CHR ''_'' \<and> c \<noteq> CHR ''-'') (ToLower (TrimSpace raw)) in
      if tag \<in> set [''en'', ''ru'', ''kk'', ''es''] then tag else [])"

definition lang_weight :: "'a http_env_scheme \<Rightarrow> string list \<Rightarrow> int" where
  "lang_weight E p =
     (case p of
        _ # w # _ \<Rightarrow> (case quality E (TrimPrefix (TrimSpace w) ''q='') of None \<Rightarrow> second | Some v \<Rightarrow> v)
      | _ \<Rightarrow> second)"

definition negotiateLang :: "'a http_env_scheme \<Rightarrow> string \<Rightarrow> string" where
  "negotiateLang E header =
     fst (foldl (\<lambda>(best, bestQ) part.
            let p = Split CHR '';'' (TrimSpace part); tag = normalizeLang (hd p); q = lang_weight E p in
            if tag \<noteq> [] \<and> q > bestQ then (tag, q) else (best, bestQ))
          (''en'', 0) (Split CHR '','' header))"

definition browserLang :: "'a http_env_scheme \<Rightarrow> HttpIn \<Rightarrow> string" where
  "browserLang E r =
     (let l = normalizeLang (query_get (fst (parse_query E (in_RawQuery r))) ''lang'') in
      if l \<noteq> [] then l else negotiateLang E (header_get r ''Accept-Language''))"

definition localized_view :: "string \<Rightarrow> SessionView \<Rightarrow> SessionView" where
  "localized_view lang v = v\<lparr>sv_Title := Localize (sv_TitleI18n v) lang (sv_Title v),
     sv_Fields := map (\<lambda>f. f\<lparr>f_Label := LabelFor f lang\<rparr>) (sv_Fields v),
     sv_Extra := map (\<lambda>f. f\<lparr>f_Label := LabelFor f lang\<rparr>) (sv_Extra v)\<rparr>"

definition success_reply :: "string \<Rightarrow> Reply" where
  "success_reply lang = \<lparr>rp_Status = 200, rp_Header = [(''Content-Type'', ''text/html; charset=utf-8'')], rp_Out = OutDone lang,
     rp_Cookie = Some ([], -1)\<rparr>"

definition redirect_reply :: "string \<Rightarrow> Reply" where
  "redirect_reply target = \<lparr>rp_Status = 303, rp_Header = [(''Location'', target)], rp_Out = OutRedirect target, rp_Cookie = None\<rparr>"

text \<open>The parts of a posted form: the values, the CSRF token and the demoted fields.\<close>

record form_data =
  fd_values :: Bundle
  fd_csrf :: string
  fd_demoted :: "string list"

fun form_loop :: "nat \<Rightarrow> nat \<Rightarrow> string list \<Rightarrow> form_data \<Rightarrow> (string \<times> bytes option) list \<Rightarrow> form_data option" where
  "form_loop i used seen f [] = Some f"
| "form_loop i used seen f ((name, body) # ps) =
     (if i \<ge> 129 then None
      else if name = [] \<or> name \<in> set seen \<or> length name > 80 then None
      else case body of
        None \<Rightarrow> None
      | Some v \<Rightarrow>
          if length v > 65536 \<or> used + length v > MaxBundle then None
          else if name = ''csrf'' then
            (if length v > 128 then None
             else form_loop (Suc i) (used + length v) (name # seen) (f\<lparr>fd_csrf := v\<rparr>) ps)
          else if HasPrefix name ''opt:'' then
            (if v \<noteq> ''1'' then None
             else form_loop (Suc i) (used + length v) (name # seen) (f\<lparr>fd_demoted := drop 4 name # fd_demoted f\<rparr>) ps)
          else form_loop (Suc i) (used + length v) (name # seen) (f\<lparr>fd_values := go_update name v (fd_values f)\<rparr>) ps)"

definition form_limit :: nat where
  "form_limit = MaxBundle + 32768"

definition readForm :: "'a http_env_scheme \<Rightarrow> HttpIn \<Rightarrow> form_data option" where
  "readForm E r =
     (case parse_media_type E (header_get r ''Content-Type'') of
        None \<Rightarrow> None
      | Some (mt, params) \<Rightarrow>
          if mt \<noteq> ''multipart/form-data'' \<or> go_get [] params ''boundary'' = [] then None
          else case multipart_parts E (go_get [] params ''boundary'') (take form_limit (in_Body r)) of
            (parts, done) \<Rightarrow>
              (case form_loop 0 0 [] \<lparr>fd_values = [], fd_csrf = [], fd_demoted = []\<rparr> parts of
                 None \<Rightarrow> None
               | Some f \<Rightarrow> if \<not> done \<or> fd_csrf f = [] then None else Some f))"

definition browser_callback :: "'a http_env_scheme \<Rightarrow> 'w Ctx \<Rightarrow> HttpIn \<Rightarrow> 'w Server \<Rightarrow> 'w Server \<times> Reply" where
  "browser_callback E cx r s =
     (case parse_query E (in_RawQuery r) of
        (q, ok) \<Rightarrow>
          if \<not> ok \<or> length (go_get [] q ''state'') \<noteq> 1 \<or> length (go_get [] q ''code'') \<noteq> 1 \<or> go_get [] q ''error'' \<noteq> []
          then (s, fail_reply ErrDenied)
          else case CompleteOAuth E (\<lambda>k. cx_now cx (1 + k)) (cx_other cx) (cx_rnd cx 0) (session_cookie r s) (query_get q ''state'') (query_get q ''code'')
                      (srv_broker s) of
            (b, Inl e) \<Rightarrow> (s\<lparr>srv_broker := b\<rparr>, fail_reply e)
          | (b, Inr _) \<Rightarrow> (s\<lparr>srv_broker := b\<rparr>, success_reply (browserLang E r)))"

definition browser_open :: "'a http_env_scheme \<Rightarrow> 'w Ctx \<Rightarrow> HttpIn \<Rightarrow> string \<Rightarrow> 'w Server \<Rightarrow> 'w Server \<times> Reply" where
  "browser_open E cx r i s =
     (case OpenSession E (cx_now cx 1) (cx_rnd cx 0) i (session_cookie r s) (srv_broker s) of
        (b, Inl e) \<Rightarrow> (s\<lparr>srv_broker := b\<rparr>, fail_reply e)
      | (b, Inr (view, raw)) \<Rightarrow>
          (let lang = browserLang E r in
           (s\<lparr>srv_broker := b\<rparr>,
            \<lparr>rp_Status = 200, rp_Header = [(''Content-Type'', ''text/html; charset=utf-8'')],
             rp_Out = OutForm (localized_view lang view) (CSRF E b raw i) lang, rp_Cookie = Some (raw, 900)\<rparr>)))"

definition browser_oauth :: "'a http_env_scheme \<Rightarrow> 'w Ctx \<Rightarrow> HttpIn \<Rightarrow> string \<Rightarrow> 'w Server \<Rightarrow> 'w Server \<times> Reply" where
  "browser_oauth E cx r i s =
     (if map_option fst (parse_media_type E (header_get r ''Content-Type'')) \<noteq> Some ''application/x-www-form-urlencoded'' then (s, fail_reply ErrInvalid)
      else if in_BodyError r \<or> length (in_Body r) > 4096 then (s, fail_reply ErrInvalid)
      else case parse_query E (in_Body r) of
        (form, ok) \<Rightarrow>
          if \<not> ok \<or> length form \<noteq> 1 \<or> length (go_get [] form ''csrf'') \<noteq> 1 then (s, fail_reply ErrInvalid)
          else case StartOAuth E (cx_now cx 1) (cx_rnd cx 0) (cx_rnd cx 1) i (session_cookie r s) (query_get form ''csrf'') (srv_broker s) of
            (b, Inl e) \<Rightarrow> (s\<lparr>srv_broker := b\<rparr>, fail_reply e)
          | (b, Inr target) \<Rightarrow> (s\<lparr>srv_broker := b\<rparr>, redirect_reply target))"

definition browser_submit :: "'a http_env_scheme \<Rightarrow> 'w Ctx \<Rightarrow> HttpIn \<Rightarrow> string \<Rightarrow> 'w Server \<Rightarrow> 'w Server \<times> Reply" where
  "browser_submit E cx r i s =
     (case readForm E r of
        None \<Rightarrow> (s, fail_reply ErrInvalid)
      | Some f \<Rightarrow>
          (case Submit E (cx_now cx 1) (cx_rnd cx 0) i (session_cookie r s) (fd_csrf f) (fd_values f) (fd_demoted f) (srv_broker s) of
             (b, Inl e) \<Rightarrow> (s\<lparr>srv_broker := b\<rparr>, fail_reply e)
           | (b, Inr _) \<Rightarrow>
               (case OpenSession E (cx_now cx 2) (cx_rnd cx 1) i (session_cookie r s) (cx_other cx 0 b) of
                  (b1, Inr (view, _)) \<Rightarrow>
                    (s\<lparr>srv_broker := b1\<rparr>,
                     if sv_Status view = ''authorizing'' then redirect_reply (''/connect/'' @ i @ ''?lang='' @ browserLang E r)
                     else success_reply (browserLang E r))
                | (b1, Inl _) \<Rightarrow> (s\<lparr>srv_broker := b1\<rparr>, success_reply (browserLang E r)))))"

definition origin_denied :: "HttpIn \<Rightarrow> 'w Server \<Rightarrow> bool" where
  "origin_denied r s \<longleftrightarrow>
     (let o' = header_get r ''Origin'' in o' \<noteq> [] \<and> o' \<noteq> ''null'' \<and> o' \<noteq> srv_origin s) \<or>
     header_get r ''Sec-Fetch-Site'' = ''cross-site''"

definition browser :: "'a http_env_scheme \<Rightarrow> 'w Ctx \<Rightarrow> HttpIn \<Rightarrow> 'w Server \<Rightarrow> 'w Server \<times> Reply" where
  "browser E cx r s =
     (let p = path_parts (in_Path r) in
      if in_Path r = ''/form.css'' \<and> in_Method r = ''GET'' then (s, plain_reply 200 (OutAsset ''form.css''))
      else if in_Path r = ''/form.js'' \<and> in_Method r = ''GET'' then (s, plain_reply 200 (OutAsset ''form.js''))
      else if in_Path r = ''/oauth/callback'' \<and> in_Method r = ''GET'' then browser_callback E cx r s
      else if length p < 2 \<or> p ! 0 \<noteq> ''connect'' then (s, not_found_reply)
      else if length p = 2 \<and> in_Method r = ''GET'' then browser_open E cx r (p ! 1) s
      else if length p \<noteq> 3 \<or> in_Method r \<noteq> ''POST'' then (s, not_found_reply)
      else if origin_denied r s then (s, fail_reply ErrDenied)
      else if p ! 2 = ''oauth'' then browser_oauth E cx r (p ! 1) s
      else if p ! 2 \<noteq> ''submit'' then (s, not_found_reply)
      else browser_submit E cx r (p ! 1) s)"

section \<open>The server\<close>

definition browser_path :: "string \<Rightarrow> bool" where
  "browser_path p \<longleftrightarrow> HasPrefix p ''/connect/'' \<or> p = ''/oauth/callback'' \<or> p = ''/form.css'' \<or> p = ''/form.js''"

definition audience_of :: "string \<Rightarrow> string" where
  "audience_of p =
     (if HasPrefix p ''/v1/requests/'' \<and> (HasSuffix p ''/approve'' \<or> HasSuffix p ''/telegram-submit'') then ''broker:approve''
      else if HasPrefix p ''/v1/runtime/'' then ''broker:runtime''
      else ''broker:control'')"

definition body_limit :: "string \<Rightarrow> nat" where
  "body_limit p = (if HasPrefix p ''/v1/runtime/proxy/'' then 1048576 else 65536)"

text \<open>The signed surface, after the path checks.\<close>

definition serve_v1 :: "'a http_env_scheme \<Rightarrow> 'w network \<Rightarrow> 'w Ctx \<Rightarrow> HttpIn \<Rightarrow> 'w Server \<Rightarrow> 'w Server \<times> Reply" where
  "serve_v1 E N cx r s =
     (let p = in_Path r; data = in_Body r in
      if in_BodyError r \<or> length data > body_limit p then (s, json_reply 413 (OutError ''body_too_large''))
      else case in_Authorization r of
        [h] \<Rightarrow>
          if \<not> HasPrefix h ''Bearer '' then (s, unauthorized_reply)
          else (case Verify E (srv_keys s) (unix (cx_now cx 0)) (TrimPrefix h ''Bearer '') (audience_of p) (in_Method r) (in_RequestURI r) data of
             None \<Rightarrow> (s, unauthorized_reply)
           | Some a \<Rightarrow>
               if HasPrefix p ''/v1/runtime/proxy/'' then proxy E N cx r a data s
               else if data \<noteq> [] \<and> map_option fst (parse_media_type E (header_get r ''Content-Type'')) \<noteq> Some ''application/json''
               then (s, fail_reply ErrInvalid)
               else (case api E cx r a data (srv_broker s) of (b, x) \<Rightarrow> (s\<lparr>srv_broker := b\<rparr>, x)))
      | _ \<Rightarrow> (s, unauthorized_reply))"

definition serve_path :: "'a http_env_scheme \<Rightarrow> 'w network \<Rightarrow> 'w Ctx \<Rightarrow> HttpIn \<Rightarrow> 'w Server \<Rightarrow> 'w Server \<times> Reply" where
  "serve_path E N cx r s =
     (let p = in_Path r in
      if p = ''/healthz'' \<and> in_Method r = ''GET'' then
        (s, if \<not> Broker_Healthy (srv_broker s) then fail_reply ErrUnavailable else json_reply 200 (OutApi OStatus))
      else if browser_path p then
        (case limiter_allow (cx_now cx 0) (in_RemoteAddr r) (srv_limits s) of
           (l, False) \<Rightarrow> (s\<lparr>srv_limits := l\<rparr>, json_reply 429 (OutError ''rate_limited''))
         | (l, True) \<Rightarrow> browser E cx r (s\<lparr>srv_limits := l\<rparr>))
      else if \<not> HasPrefix p ''/v1/'' then (s, not_found_reply)
      else serve_v1 E N cx r s)"

definition host_denied :: "HttpIn \<Rightarrow> 'w Server \<Rightarrow> bool" where
  "host_denied r s \<longleftrightarrow>
     in_Host r \<noteq> srv_host s \<and> (browser_path (in_Path r) \<or> in_Host r \<notin> set (srv_apiHosts s)) \<or> \<not> srv_DevHTTP s \<and> \<not> in_TLS r"

definition path_bad :: "HttpIn \<Rightarrow> bool" where
  "path_bad r \<longleftrightarrow> in_RawPath r \<noteq> [] \<or> Contains (in_Path r) ''//'' \<or> ContainsAny (in_Path r) [CHR 0x5C, CHR 0x00]"

definition ServeHTTP :: "'a http_env_scheme \<Rightarrow> 'w network \<Rightarrow> 'w Ctx \<Rightarrow> HttpIn \<Rightarrow> 'w Server \<Rightarrow> 'w Server \<times> Reply" where
  "ServeHTTP E N cx r s =
     (case (if host_denied r s then (s, fail_reply ErrDenied)
            else if path_bad r then (s, fail_reply ErrInvalid)
            else if srv_slots s \<ge> 64 then (s, fail_reply ErrUnavailable)
            else case serve_path E N cx r (s\<lparr>srv_slots := Suc (srv_slots s)\<rparr>) of
              (s1, x) \<Rightarrow> (s1\<lparr>srv_slots := srv_slots s1 - 1\<rparr>, x)) of
        (s', x) \<Rightarrow> (s', x\<lparr>rp_Header := security_headers (srv_DevHTTP s) @ rp_Header x\<rparr>))"

end
