(* ===== verification/Http_Refine.thy ===== *)
theory Http_Refine
  imports Http_Serve Broker_Ops
begin

text \<open>
  The server on top of the ledger: whatever request \<^verbatim>\<open>ServeHTTP\<close> handles, its broker moves by steps of
  the ledger specification (\<open>bstep\<close>), so that what is proved of runs of the broker holds of a server.
  \<open>fresh_ctx\<close> collects what \<open>fresh_op\<close> asks of the single operations: the random bytes of the call give
  identifiers that are not in use, and the calls that run meanwhile are steps too and do
  not use these identifiers.
\<close>

section \<open>Fresh calls\<close>

definition no_new_session :: "string \<Rightarrow> 'w Broker \<Rightarrow> 'w Broker \<Rightarrow> bool" where
  "no_new_session h b b' \<longleftrightarrow> (go_lookup (b_sessions b) h = None \<longrightarrow> go_lookup (b_sessions b') h = None)"

definition fresh_ctx :: "'a broker_env_scheme \<Rightarrow> 'w Ctx \<Rightarrow> 'w Broker \<Rightarrow> bool" where
  "fresh_ctx E cx b \<longleftrightarrow>
     go_lookup (b_requests b) (newID ''r'' (cx_rnd cx 0)) = None \<and>
     go_lookup (b_credentials b) (newID ''c'' (cx_rnd cx 0)) = None \<and> go_lookup (b_credentials b) (newID ''c'' (cx_rnd cx 1)) = None \<and>
     go_lookup (b_grants b) (newID ''g'' (cx_rnd cx 0)) = None \<and> go_lookup (b_leases b) (newID ''l'' (cx_rnd cx 0)) = None \<and>
     go_lookup (b_sessions b) (Digest E (Random (cx_rnd cx 0))) = None \<and> go_lookup (b_sessions b) (Digest E (Random (cx_rnd cx 1))) = None \<and>
     go_lookup (b_oauth b) (Digest E (Random (cx_rnd cx 0))) = None \<and>
     (\<forall>k z. spares E (newID ''c'' (cx_rnd cx 0)) z (cx_other cx k z) \<and> no_new_session (Digest E (Random (cx_rnd cx 1))) z (cx_other cx k z))"

lemma fresh_ctxD:
  assumes "fresh_ctx E cx b"
  shows "\<And>k z. bsteps E z (cx_other cx k z)" "\<And>k z. spares E (newID ''c'' (cx_rnd cx 0)) z (cx_other cx k z)"
  using assms by (simp_all add: fresh_ctx_def spares_def)

section \<open>The API\<close>

lemma fst_answer [simp]: "fst (answer n f res) = fst res"
  by (simp add: answer_def split: prod.split sum.split)

lemma with_op:
  "(\<And>v. bsteps E b (fst (res v))) \<Longrightarrow> bsteps E b (fst (with_body E dec data b (\<lambda>v. answer n f (res v))))"
  by (simp add: with_body_def split: option.split)

lemma without_op: "bsteps E b (fst res) \<Longrightarrow> bsteps E b (fst (without_body data b (answer n f res)))"
  by (simp add: without_body_def)

text \<open>\<open>run_op_steps\<close> for the operation of each route.\<close>

lemmas op_steps =
  run_op_steps [of _ _ "OpRegisterContract _ _ _", simplified] run_op_steps [of _ _ "OpCreateRequest _ _ _ _ _", simplified]
  run_op_steps [of _ _ "OpApprove _ _ _ _", simplified] run_op_steps [of _ _ "OpSubmitTelegram _ _ _ _ _", simplified]
  run_op_steps [of _ _ "OpCancelRequest _ _ _", simplified] run_op_steps [of _ _ "OpDeleteCredential _ _ _ _ _", simplified]
  run_op_steps [of _ _ "OpCreateGrant _ _ _ _ _", simplified] run_op_steps [of _ _ "OpRevokeCredential _ _ _", simplified]
  run_op_steps [of _ _ "OpRevokeGrant _ _ _", simplified] run_op_steps [of _ _ "OpAcquire _ _ _ _", simplified]
  run_op_steps [of _ _ "OpMaterialize _ _ _ _ _", simplified] run_op_steps [of _ _ "OpRelease _ _ _ _", simplified]
  run_op_steps [of _ _ "OpRenew _ _ _ _", simplified]

lemma run_route_steps:
  assumes "broker_ok E b" "fresh_ctx E cx b"
  shows "bsteps E b (fst (run_route E cx r a data rt b))"
  using assms fresh_ctxD(1) [OF assms(2)]
  by (cases rt) (auto simp: run_route_def Let_def fresh_ctx_def split: option.split intro!: with_op without_op op_steps)

section \<open>The proxy\<close>

lemma proxy_auth_steps:
  assumes "proxy_auth E cx policy route u vals req b = (b', x)" "broker_ok E b" "\<And>k z. bsteps E z (cx_other cx k z)"
  shows "bsteps E b b'"
proof (cases "r_Auth route = ''oauth2''")
  case True
  obtain b1 y where t: "AccessToken E (\<lambda>k. cx_now cx (100 + k)) (\<lambda>k. cx_other cx (100 + k)) u b = (b1, y)" by fastforce
  have "bsteps E b b1" by (rule AccessToken_steps [OF t assms(2)]) (rule assms(3))
  moreover have "b' = b \<or> b' = b1" using assms(1) True t by (auto simp: proxy_auth_def Let_def split: if_splits sum.splits)
  ultimately show ?thesis by auto
next
  case False
  then have "b' = b" using assms(1) by (auto simp: proxy_auth_def Let_def split: if_splits)
  then show ?thesis by simp
qed

lemma proxy_send_steps:
  assumes "\<And>k z. bsteps E z (cx_other cx k z)"
  shows "bsteps E (srv_broker s) (srv_broker (fst (proxy_send E' N cx key route u vals secret req client s)))"
proof -
  let ?b = "cx_other cx 50 (srv_broker s)"
  obtain c1 w1 res where d: "client_Do E' N client req (b_world ?b) = (c1, w1, res)" by (metis prod_cases3)
  have "bsteps E ?b (?b\<lparr>b_world := w1\<rparr>)" by (rule quiet_steps) simp
  then have "bsteps E ?b (cx_other cx 51 (?b\<lparr>b_world := w1\<rparr>))" using assms by (rule rtranclp_trans)
  with assms [of "srv_broker s" 50] have "bsteps E (srv_broker s) (cx_other cx 51 (?b\<lparr>b_world := w1\<rparr>))" by (rule rtranclp_trans)
  with assms [of "srv_broker s" 50] show ?thesis by (simp add: proxy_send_def Let_def d)
qed

lemma proxy_used_steps:
  assumes "broker_ok E (srv_broker s)" and other: "\<And>k z. bsteps E z (cx_other cx k z)"
  shows "bsteps E (srv_broker s) (srv_broker (fst (proxy_used E N cx r rid path body u s)))"
proof -
  let ?b = "cx_other cx 0 (srv_broker s)"
  obtain b1 x where r: "Resolve E (\<lambda>k. cx_now cx (2 + k)) (\<lambda>k. cx_other cx (1 + k)) u ?b = (b1, x)" by fastforce
  have "bsteps E ?b b1" by (rule Resolve_steps [OF r]) (rule other)
  with other have s1: "bsteps E (srv_broker s) b1" by (rule rtranclp_trans)
  with other have s2: "bsteps E (srv_broker s) (cx_other cx 3 b1)" by (meson rtranclp_trans)
  note ok = bsteps_ok [OF s2 assms(1)]
  have auth: "bsteps E (srv_broker s) b2"
    if "proxy_auth E cx policy route u vals req (cx_other cx 3 b1) = (b2, y)" for policy route vals req b2 y
    using s2 proxy_auth_steps [OF that ok other] by (rule rtranclp_trans)
  have send: "bsteps E (srv_broker s) (srv_broker (fst (proxy_send E N cx key route u vals secret req client (s\<lparr>srv_broker := b2, srv_clients := cs\<rparr>))))"
    if "bsteps E (srv_broker s) b2" for key route vals secret req client b2 cs
    using rtranclp_trans [OF that proxy_send_steps [OF other, of "s\<lparr>srv_broker := b2, srv_clients := cs\<rparr>", simplified]] .
  show ?thesis
    unfolding proxy_used_def r
    by (auto simp: Let_def s1 intro: auth send split: option.split sum.split prod.split)
qed

lemma proxy_steps:
  assumes "broker_ok E (srv_broker s)" and other: "\<And>k z. bsteps E z (cx_other cx k z)"
  shows "bsteps E (srv_broker s) (srv_broker (fst (proxy E N cx r a body s)))"
proof -
  have fin: "bsteps E (srv_broker s) (Finish u (cx_other cx 53 (srv_broker s2)))"
    if "BeginUse E (cx_now cx 1) (cx_rnd cx 0) a l (srv_broker s) = (b1, x)"
      and u: "proxy_used E N cx r rid path body u (s\<lparr>srv_broker := b1\<rparr>) = (s2, y)" for u rid path b1 l x s2 y
  proof -
    note b = BeginUse_steps [OF that(1) assms(1)]
    from proxy_used_steps [of E "s\<lparr>srv_broker := b1\<rparr>" cx N r rid path body u, OF _ other] bsteps_ok [OF b assms(1)]
    have "bsteps E b1 (srv_broker s2)" by (simp add: u)
    with b other Finish_steps show ?thesis by (meson rtranclp_trans)
  qed
  show ?thesis
    unfolding proxy_def
    by (auto split: list.split prod.split sum.split intro: BeginUse_steps [OF _ assms(1)] fin [simplified])
qed

section \<open>The browser surface\<close>

lemma commit_sessions:
  assumes "commit E m b = (b', x)" "\<And>s. mu_Session m = Some s \<Longrightarrow> go_lookup (b_sessions b) (ss_Hash s) \<noteq> None"
  shows "no_new_session h b b'"
proof (cases x)
  case (Inl e)
  with assms(1) show ?thesis by (auto simp: commit_def no_new_session_def split: if_splits prod.splits sum.splits)
next
  case (Inr n)
  with assms(1) have "commit E m b = (b', Inr n)" by simp
  from commit_success [OF this] obtain j where "b' = apply_mutation m n (b\<lparr>b_journal := j\<rparr>)" by blast
  then have "b_sessions b' = put_opt ss_Hash (mu_Session m) (b_sessions b)" by simp
  then show ?thesis using assms(2) by (cases "mu_Session m") (auto simp: no_new_session_def gomap_simps)
qed

lemma quiet_no_new_session: "quiet E b b' \<Longrightarrow> no_new_session h b b'"
  by (simp add: no_new_session_def quiet_sel)

lemma no_new_session_trans: "no_new_session h b b1 \<Longrightarrow> no_new_session h b1 b2 \<Longrightarrow> no_new_session h b b2"
  by (simp add: no_new_session_def)

lemma ready_no_new_session:
  assumes "ready E now rnd r ref managed s b = (b', x)" "\<And>q. s = Some q \<Longrightarrow> go_lookup (b_sessions b) (ss_Hash q) \<noteq> None"
  shows "no_new_session h b b'"
proof (cases "b' = b")
  case False
  then obtain c b1 y i where w: "commit E (ready_mutation now r c s) b = (b1, y)" "b' = b1 \<or> b' = invalidateCredential i b1"
    using assms(1) by (auto simp: ready_def Let_def split: if_splits prod.splits sum.splits)
  have "no_new_session h b b1"
    by (rule commit_sessions [OF w(1)]) (use assms(2) in \<open>auto simp: ready_mutation_def Let_def\<close>)
  with w(2) quiet_no_new_session [OF invalidate_quiet, of h] no_new_session_trans show ?thesis by blast
qed (simp add: no_new_session_def)

lemma Submit_no_new_session:
  assumes "Submit E now rnd i raw csrf vals demoted b = (b', x)" "broker_ok E b"
  shows "no_new_session h b b'"
proof (cases "b' = b")
  case False
  from assms(1) False obtain s r where v: "validSession E now raw i True b = Inr (s, r)" by (auto simp: Submit_def split: if_splits sum.splits)
  note f = validSession_facts [OF v broker_ok_keyed [OF assms(2)]]
  let ?c = "catalog_get b (rr_ContractKey r)" and ?r = "r\<lparr>rr_Demoted := sortedDemoted demoted\<rparr>"
  obtain b1 y where p: "broker_put (c_Storage ?c) vals b = (b1, y)" by fastforce
  note q = broker_put_quiet [OF p]
  from assms(1) False v p consider "b' = b1" | ref z where "ready E now rnd ?r ref True (Some s) b1 = (b', z)"
    | ev q' z where "commit E ((audit_only ev)\<lparr>mu_Request := q'\<rparr>) b1 = (b', z)"
    by (fastforce simp: Submit_def Let_def split: if_splits sum.splits dest!: result_unit_pair)
  then have "no_new_session h b1 b'"
  proof cases
    case 2
    then show ?thesis by (rule ready_no_new_session) (use f(1,2) quiet_sel [OF q] in simp)
  next
    case 3
    then show ?thesis by (rule commit_sessions) (simp add: audit_only_def)
  qed (simp add: no_new_session_def)
  with quiet_no_new_session [OF q] show ?thesis by (rule no_new_session_trans)
qed (simp add: no_new_session_def)

lemma browser_submit_steps:
  assumes "broker_ok E (srv_broker s)" "fresh_ctx E cx (srv_broker s)"
  shows "bsteps E (srv_broker s) (srv_broker (fst (browser_submit E cx r i s)))"
proof (cases "readForm E r")
  case (Some f)
  let ?b = "srv_broker s" and ?h = "Digest E (Random (cx_rnd cx 1))"
  obtain b x where w: "Submit E (cx_now cx 1) (cx_rnd cx 0) i (session_cookie r s) (fd_csrf f) (fd_values f) (fd_demoted f) ?b = (b, x)" by fastforce
  have s1: "bsteps E ?b b" using Submit_steps [OF w assms(1)] assms(2) by (simp add: fresh_ctx_def)
  then have s2: "bsteps E ?b (cx_other cx 0 b)" using fresh_ctxD(1) [OF assms(2)] by (rule rtranclp_trans)
  have "go_lookup (b_sessions (cx_other cx 0 b)) ?h = None"
    using Submit_no_new_session [OF w assms(1), of ?h] assms(2) by (simp add: fresh_ctx_def no_new_session_def)
  then have s3: "bsteps E ?b b1" if "OpenSession E (cx_now cx 2) (cx_rnd cx 1) i (session_cookie r s) (cx_other cx 0 b) = (b1, y)" for b1 y
    using rtranclp_trans [OF s2 OpenSession_steps [OF that bsteps_ok [OF s2 assms(1)]]] by blast
  show ?thesis
    unfolding browser_submit_def Some option.case w prod.case
    using s1 by (auto split: sum.split prod.split intro: s3)
qed (simp add: browser_submit_def)

lemma browser_steps:
  assumes "broker_ok E (srv_broker s)" "fresh_ctx E cx (srv_broker s)"
  shows "bsteps E (srv_broker s) (srv_broker (fst (browser E cx r s)))"
proof -
  have "bsteps E (srv_broker s) b" if "CompleteOAuth E (\<lambda>k. cx_now cx (1 + k)) (cx_other cx) (cx_rnd cx 0) raw st code (srv_broker s) = (b, x)" for raw st code b x
    using CompleteOAuth_steps [OF that assms(1) fresh_ctxD(2) [OF assms(2)]] assms(2) by (simp add: fresh_ctx_def)
  then have "bsteps E (srv_broker s) (srv_broker (fst (browser_callback E cx r s)))"
    unfolding browser_callback_def by (auto split: prod.split sum.split)
  moreover have "bsteps E (srv_broker s) b" if "OpenSession E t (cx_rnd cx 0) i raw (srv_broker s) = (b, x)" for t i raw b x
    using OpenSession_steps [OF that assms(1)] assms(2) by (simp add: fresh_ctx_def)
  then have "bsteps E (srv_broker s) (srv_broker (fst (browser_open E cx r i s)))" for i
    unfolding browser_open_def by (auto simp: Let_def split: prod.split sum.split)
  moreover have "bsteps E (srv_broker s) b" if "StartOAuth E t (cx_rnd cx 0) r2 i raw csrf (srv_broker s) = (b, x)" for t r2 i raw csrf b x
    using StartOAuth_steps [OF that assms(1)] assms(2) by (simp add: fresh_ctx_def)
  then have "bsteps E (srv_broker s) (srv_broker (fst (browser_oauth E cx r i s)))" for i
    unfolding browser_oauth_def by (auto split: prod.split sum.split)
  ultimately show ?thesis
    using browser_submit_steps [OF assms] by (simp add: browser_def Let_def)
qed

section \<open>The server\<close>

lemma serve_v1_steps:
  assumes "broker_ok E (srv_broker s)" "fresh_ctx E cx (srv_broker s)"
  shows "bsteps E (srv_broker s) (srv_broker (fst (serve_v1 E N cx r s)))"
  using proxy_steps [OF assms(1) fresh_ctxD(1) [OF assms(2)]] run_route_steps [OF assms]
  by (simp add: serve_v1_def api_def Let_def split: list.split option.split prod.split) (metis fst_conv)

lemma ServeHTTP_steps:
  assumes "broker_ok E (srv_broker s)" "fresh_ctx E cx (srv_broker s)"
  shows "bsteps E (srv_broker s) (srv_broker (fst (ServeHTTP E N cx r s)))"
proof -
  have "bsteps E (srv_broker s) (srv_broker (fst (serve_path E N cx r (s\<lparr>srv_slots := n\<rparr>))))" for n
  proof -
    let ?s = "s\<lparr>srv_slots := n\<rparr>"
    have "bsteps E (srv_broker s) (srv_broker (fst (browser E cx r (?s\<lparr>srv_limits := l\<rparr>))))" for l
      using browser_steps [of E "?s\<lparr>srv_limits := l\<rparr>"] assms by simp
    moreover have "bsteps E (srv_broker s) (srv_broker (fst (serve_v1 E N cx r ?s)))"
      using serve_v1_steps [of E ?s] assms by simp
    ultimately show ?thesis by (simp add: serve_path_def Let_def split: prod.split bool.split)
  qed
  then show ?thesis by (simp add: ServeHTTP_def split: prod.split) (metis fst_conv)
qed

text \<open>A server that handles one request after another; other calls run inside \<open>cx_other\<close>.\<close>

inductive server_run :: "'a http_env_scheme \<Rightarrow> 'w network \<Rightarrow> 'w Server \<Rightarrow> 'w Server \<Rightarrow> bool" for E N s where
  serve_start: "server_run E N s s"
| serve_next: "server_run E N s s' \<Longrightarrow> fresh_ctx E cx (srv_broker s') \<Longrightarrow> server_run E N s (fst (ServeHTTP E N cx r s'))"

lemma server_run_steps:
  assumes "server_run E N s s'" "broker_ok E (srv_broker s)"
  shows "bsteps E (srv_broker s) (srv_broker s') \<and> broker_ok E (srv_broker s')"
  using assms
proof induction
  case (serve_next s' cx r)
  then have s1: "bsteps E (srv_broker s) (srv_broker s')" "broker_ok E (srv_broker s')" by blast+
  from ServeHTTP_steps [OF s1(2) serve_next(2)] have "bsteps E (srv_broker s') (srv_broker (fst (ServeHTTP E N cx r s')))" .
  with s1 show ?case using bsteps_ok by (meson rtranclp_trans)
qed simp

end
