(* ===== verification/Http_Limits.thy ===== *)
theory Http_Limits
  imports Http_Api
begin

text \<open>
  The limiter of the browser surface: however its table is evicted, an address gets at most its
  burst and two requests a second, and the table stays within its bound.
\<close>

section \<open>Tokens\<close>

definition limiter_ok :: "time \<Rightarrow> limiter \<Rightarrow> bool" where
  "limiter_ok t l \<longleftrightarrow> go_wf l \<and> length l \<le> 1024 \<and> (\<forall>ip b. go_lookup l ip = Some b \<longrightarrow> 0 \<le> bk_tokens b \<and> bk_at b \<le> t)"

text \<open>The tokens an address has at a time; an address without a bucket has a full one.\<close>

definition tokens_at :: "limiter \<Rightarrow> string \<Rightarrow> time \<Rightarrow> int" where
  "tokens_at l ip t =
     (case go_lookup l ip of None \<Rightarrow> full_bucket | Some b \<Rightarrow> min full_bucket (bk_tokens b + (t - bk_at b) * 2))"

lemma tokens_at_later: "t \<le> t' \<Longrightarrow> tokens_at l ip t' \<le> tokens_at l ip t + 2 * (t' - t)"
  by (auto simp: tokens_at_def min_def split: option.splits)

lemma tokens_at_bounds: "limiter_ok t l \<Longrightarrow> 0 \<le> tokens_at l ip t \<and> tokens_at l ip t \<le> full_bucket"
  by (auto simp: tokens_at_def limiter_ok_def full_bucket_def split: option.splits)

text \<open>Eviction drops only buckets that are full again.\<close>

lemma evict_tokens:
  assumes "limiter_ok t l" "t \<le> now"
  shows "tokens_at (limiter_evict now l) ip now = tokens_at l ip now" "limiter_ok now (limiter_evict now l)"
    "go_lookup l ip = None \<Longrightarrow> go_lookup (limiter_evict now l) ip = None"
proof -
  have look: "go_lookup (filter (\<lambda>(_, v). \<not> now - bk_at v > 60 * second) l) k =
      (case go_lookup l k of None \<Rightarrow> None | Some v \<Rightarrow> if \<not> now - bk_at v > 60 * second then Some v else None)" for k
    using assms(1) go_lookup_filter [of l "\<lambda>_ v. \<not> now - bk_at v > 60 * second" k] by (simp add: limiter_ok_def)
  show "tokens_at (limiter_evict now l) ip now = tokens_at l ip now"
  proof (cases "go_lookup l ip")
    case (Some b)
    then have "0 \<le> bk_tokens b" using assms(1) by (auto simp: limiter_ok_def)
    then show ?thesis using Some look [of ip] by (auto simp: tokens_at_def limiter_evict_def full_bucket_def)
  qed (use look [of ip] in \<open>auto simp: tokens_at_def limiter_evict_def\<close>)
  have "length (limiter_evict now l) \<le> length l" by (simp add: limiter_evict_def)
  then have "length (limiter_evict now l) \<le> 1024" using assms(1) by (simp add: limiter_ok_def)
  then show "limiter_ok now (limiter_evict now l)"
    using assms look by (auto simp: limiter_ok_def limiter_evict_def split: option.splits if_splits) force+
  show "go_lookup l ip = None \<Longrightarrow> go_lookup (limiter_evict now l) ip = None"
    using look [of ip] by (simp add: limiter_evict_def)
qed

lemma take_tokens:
  assumes "limiter_take now ip b l = (l', ok)" "min full_bucket (bk_tokens b + (now - bk_at b) * 2) = tokens_at l ip now"
  shows "tokens_at l' k now = tokens_at l k now - (if ok \<and> k = ip then second else 0)" "ok \<Longrightarrow> second \<le> tokens_at l ip now"
  using assms by (auto simp: limiter_take_def Let_def tokens_at_def gomap_simps full_bucket_def)


lemma take_ok:
  assumes "limiter_take now ip b l = (l', ok)" "limiter_ok now l" "0 \<le> min full_bucket (bk_tokens b + (now - bk_at b) * 2)"
    "go_lookup l ip = None \<longrightarrow> length l < 1024"
  shows "limiter_ok now l'"
  using assms
  by (auto simp: limiter_take_def Let_def limiter_ok_def gomap_simps length_go_update full_bucket_def split: if_splits)

lemma allow_step:
  assumes "limiter_allow now remote l = (l', ok)" "limiter_ok t l" "t \<le> now"
  shows "limiter_ok now l'"
    "tokens_at l' k now = tokens_at l k now - (if ok \<and> k = remote_ip remote then second else 0)"
    "ok \<Longrightarrow> second \<le> tokens_at l (remote_ip remote) now"
proof -
  let ?ip = "remote_ip remote" and ?l1 = "limiter_evict now l"
  note ev = evict_tokens [OF assms(2,3)]
  have now: "limiter_ok now l" using assms(2,3) by (force simp: limiter_ok_def)
  have "limiter_ok now l' \<and> tokens_at l' k now = tokens_at l k now - (if ok \<and> k = ?ip then second else 0) \<and>
      (ok \<longrightarrow> second \<le> tokens_at l ?ip now)"
  proof (cases "go_lookup l ?ip")
    case (Some b)
    with assms(1) have t: "limiter_take now ?ip b l = (l', ok)" by (simp add: limiter_allow_def Let_def)
    have e: "min full_bucket (bk_tokens b + (now - bk_at b) * 2) = tokens_at l ?ip now" by (simp add: tokens_at_def Some)
    have "limiter_ok now l'"
      by (rule take_ok [OF t now]) (use tokens_at_bounds [OF now, of ?ip] Some in \<open>simp_all only: e option.distinct simp_thms\<close>)
    with take_tokens [OF t e] show ?thesis by simp
  next
    case None
    show ?thesis
    proof (cases "length ?l1 \<ge> 1024")
      case True
      with None assms(1) have "l' = ?l1" "\<not> ok" by (auto simp: limiter_allow_def Let_def)
      with ev show ?thesis by simp
    next
      case False
      let ?b = "\<lparr>bk_tokens = full_bucket, bk_at = now\<rparr>"
      from False None assms(1) have t: "limiter_take now ?ip ?b ?l1 = (l', ok)" by (simp add: limiter_allow_def Let_def)
      have e: "min full_bucket (bk_tokens ?b + (now - bk_at ?b) * 2) = tokens_at ?l1 ?ip now"
        using ev(3) [OF None] by (simp add: tokens_at_def)
      have "limiter_ok now l'"
        by (rule take_ok [OF t ev(2)]) (use tokens_at_bounds [OF ev(2), of ?ip] False in \<open>simp_all only: e not_le simp_thms\<close>)
      with take_tokens [OF t e] ev(1) show ?thesis by simp
    qed
  qed
  then show "limiter_ok now l'" "tokens_at l' k now = tokens_at l k now - (if ok \<and> k = ?ip then second else 0)"
    "ok \<Longrightarrow> second \<le> tokens_at l ?ip now" by simp_all
qed

section \<open>Runs\<close>

fun limiter_run :: "(time \<times> string) list \<Rightarrow> limiter \<Rightarrow> limiter \<times> bool list" where
  "limiter_run [] l = (l, [])"
| "limiter_run ((now, remote) # xs) l =
     (case limiter_allow now remote l of (l1, ok) \<Rightarrow> (case limiter_run xs l1 of (l2, oks) \<Rightarrow> (l2, ok # oks)))"

definition passed :: "string \<Rightarrow> (time \<times> string) list \<Rightarrow> bool list \<Rightarrow> nat" where
  "passed ip xs oks = length (filter (\<lambda>((_, remote), ok). ok \<and> remote_ip remote = ip) (zip xs oks))"

lemma limiter_run_tokens:
  "limiter_run xs l = (l', oks) \<Longrightarrow> limiter_ok t l \<Longrightarrow> sorted (t # map fst xs) \<Longrightarrow>
     limiter_ok (last (t # map fst xs)) l' \<and>
     int (passed ip xs oks) * second + tokens_at l' ip (last (t # map fst xs)) \<le> tokens_at l ip t + 2 * (last (t # map fst xs) - t)"
proof (induction xs arbitrary: l oks t)
  case (Cons x xs)
  obtain now remote where x: "x = (now, remote)" by force
  obtain l1 ok where a: "limiter_allow now remote l = (l1, ok)" by force
  with Cons.prems(1) obtain oks' where r: "limiter_run xs l1 = (l', oks')" "oks = ok # oks'" by (auto simp: x split: prod.splits)
  have t: "t \<le> now" "sorted (now # map fst xs)" using Cons.prems(3) by (auto simp: x)
  note step = allow_step [OF a Cons.prems(2) t(1)]
  have "passed ip (x # xs) oks = (if ok \<and> remote_ip remote = ip then 1 else 0) + passed ip xs oks'"
    by (simp add: passed_def r x)
  moreover from Cons.IH [OF r(1) step(1) t(2)] have "limiter_ok (last (now # map fst xs)) l'"
    "int (passed ip xs oks') * second + tokens_at l' ip (last (now # map fst xs)) \<le> tokens_at l1 ip now + 2 * (last (now # map fst xs) - now)"
    by blast+
  moreover have "last (t # map fst (x # xs)) = last (now # map fst xs)" by (simp add: x)
  ultimately show ?case using step(2) [of ip] tokens_at_later [OF t(1), of l ip]
    by (auto simp: algebra_simps split: if_splits)
qed (simp add: passed_def)

section \<open>Properties\<close>

text \<open>
  C34: The rate limit. From any reachable state of the limiter and over any window of requests in order of
  time, the number of requests of one address that pass is at most its burst of 20 and two for
  every second of the window, although the limiter forgets addresses; and it never keeps more
  than 1024 of them.
\<close>

theorem limiter_bounds_rate:
  assumes "limiter_ok t l" and "sorted (t # map fst xs)" and "limiter_run xs l = (l', oks)"
  shows "int (passed ip xs oks) * second \<le> 20 * second + 2 * (last (t # map fst xs) - t) \<and> length l' \<le> 1024 \<and>
    limiter_ok (last (t # map fst xs)) l'"
proof -
  from limiter_run_tokens [OF assms(3,1,2)] have ok: "limiter_ok (last (t # map fst xs)) l'"
    and b: "int (passed ip xs oks) * second + tokens_at l' ip (last (t # map fst xs)) \<le> tokens_at l ip t + 2 * (last (t # map fst xs) - t)"
    by blast+
  from ok b tokens_at_bounds [OF ok, of ip] tokens_at_bounds [OF assms(1), of ip] show ?thesis
    by (simp add: limiter_ok_def full_bucket_def)
qed

theorem limiter_bounds_rate_witness:
  "\<exists>l' oks. limiter_run (replicate 25 (0, ''10.0.0.1:5'')) [] = (l', oks) \<and> passed ''10.0.0.1'' (replicate 25 (0, ''10.0.0.1:5'')) oks \<le> 20 \<and> length l' \<le> 1024"
proof -
  obtain l' oks where r: "limiter_run (replicate 25 (0, ''10.0.0.1:5'')) [] = (l', oks)" by force
  have "limiter_ok 0 []" "sorted (0 # map fst (replicate 25 (0 :: int, ''10.0.0.1:5'')))" by (simp_all add: limiter_ok_def)
  from limiter_bounds_rate [OF this r, of "''10.0.0.1''"] r show ?thesis by auto
qed

end
