(* ===== verification/Remote.thy ===== *)
theory Remote
  imports Broker_Types Provider_Laws
begin

text \<open>
  The remote secret stores (\<^verbatim>\<open>provider/remote.go\<close>): Vault KV version 2, which reads existing objects
  and can write new immutable ones, and Kubernetes secrets, read only. The HTTP client and the
  source of the access token are functions of the world; the JSON documents of the two
  services are read by fields of the environment.
\<close>

section \<open>Paths\<close>

text \<open>\<^verbatim>\<open>^[a-zA-Z0-9_-][a-zA-Z0-9_.-]{0,127}$\<close>\<close>

definition remotePart :: "string \<Rightarrow> bool" where
  "remotePart s \<longleftrightarrow>
     (case s of [] \<Rightarrow> False
      | c # cs \<Rightarrow> (alnum c \<or> c = CHR ''_'' \<or> c = CHR ''-'') \<and> length cs \<le> 127 \<and>
          list_all (\<lambda>c. alnum c \<or> c = CHR ''_'' \<or> c = CHR ''.'' \<or> c = CHR ''-'') cs)"

definition safePath :: "string \<Rightarrow> bool" where
  "safePath p \<longleftrightarrow> \<not> (p = [] \<or> length p > 400) \<and>
     list_all (\<lambda>s. \<not> (\<not> remotePart s \<or> s = ''.'' \<or> s = ''..'')) (Split CHR ''/'' p)"

text \<open>\<^verbatim>\<open>strconv.ParseUint(s, 10, 32)\<close> succeeds.\<close>

definition uint32_text :: "string \<Rightarrow> bool" where
  "uint32_text s \<longleftrightarrow> s \<noteq> [] \<and> list_all is_digit s \<and> digits_val s < 4294967296"

text \<open>\<^verbatim>\<open>url.PathEscape\<close>\<close>

definition PathEscape :: "string \<Rightarrow> string" where
  "PathEscape s = concat (map (\<lambda>c. if alnum c \<or> c \<in> set ''-_.~$&+=:@'' then [c]
     else [CHR ''%'', ''0123456789ABCDEF'' ! (of_char c div 16), ''0123456789ABCDEF'' ! (of_char c mod 16)]) s)"

definition bad_header :: "string \<Rightarrow> bool" where
  "bad_header s \<longleftrightarrow> ContainsAny s [CHR 0x0D, CHR 0x0A, CHR 0x00]"

section \<open>Responses\<close>

type_synonym 'w http_do = "HttpRequest \<Rightarrow> 'w \<Rightarrow> 'w \<times> HttpResponse option"
type_synonym 'w token_source = "'w \<Rightarrow> 'w \<times> string option"

text \<open>The documents: the raw members of \<^verbatim>\<open>data.data\<close> and \<^verbatim>\<open>data.version\<close> of Vault, \<^verbatim>\<open>data\<close> and
  \<^verbatim>\<open>metadata.resourceVersion\<close> of Kubernetes, and a JSON string. An empty body leaves the destination
  at its zero value, which is \<open>None\<close> here.\<close>

record remote_env = provider_env +
  decode_kv_data :: "bytes \<Rightarrow> (string, bytes) gomap option"
  decode_kv_version :: "bytes \<Rightarrow> int option"
  decode_json_string :: "bytes \<Rightarrow> string option"
  decode_secret :: "bytes \<Rightarrow> (Bundle option \<times> string) option"
  json_kv_write :: "Bundle \<Rightarrow> bytes"

definition http_response :: "'a json_env_scheme \<Rightarrow> 'w http_do \<Rightarrow> HttpRequest \<Rightarrow> (bytes \<Rightarrow> 'd option) option \<Rightarrow> 'w \<Rightarrow>
    'w \<times> (perr + 'd option)" where
  "http_response E client req dst w =
     (case client req w of
        (w1, None) \<Rightarrow> (w1, Inl PUnavailable)
      | (w1, Some res) \<Rightarrow>
          (w1,
           if hs_StatusCode res = 404 then Inl PNotFound
           else if hs_StatusCode res < 200 \<or> hs_StatusCode res \<ge> 300 then Inl PUnavailable
           else case hs_Body res of
             None \<Rightarrow> Inl PUnavailable
           | Some b \<Rightarrow>
               if length b > 524288 then Inl PUnavailable
               else case dst of
                 None \<Rightarrow> Inr None
               | Some dec \<Rightarrow>
                   if b = [] then Inr None
                   else if \<not> strictjson_Valid E b then Inl PUnavailable
                   else (case dec b of None \<Rightarrow> Inl PUnavailable | Some d \<Rightarrow> Inr (Some d))))"

section \<open>Vault\<close>

record 'w VaultKV2 =
  v_ID :: string
  v_BaseURL :: string
  v_Mount :: string
  v_Prefix :: string
  v_Namespace :: string
  v_Client :: "'w http_do option"
  v_TokenSource :: "'w token_source option"
  v_Writable :: bool

definition Vault_Capabilities :: "'w VaultKV2 \<Rightarrow> Capabilities" where
  "Vault_Capabilities v = \<lparr>cap_Write = v_Writable v, cap_Delete = v_Writable v, cap_Versioned = True, cap_Binary = True\<rparr>"

definition vault_path :: "'w VaultKV2 \<Rightarrow> string \<Rightarrow> string \<Rightarrow> string" where
  "vault_path v kind loc = ''/v1/'' @ v_Mount v @ ''/'' @ kind @ ''/'' @ v_Prefix v @ ''/'' @ loc"

definition vault_url :: "'w VaultKV2 \<Rightarrow> string \<Rightarrow> string \<Rightarrow> string \<Rightarrow> string" where
  "vault_url v kind loc version = TrimSuffix (v_BaseURL v) ''/'' @ vault_path v kind loc @
     (if version \<noteq> [] then ''?version='' @ version else [])"

text \<open>The request and the client that sends it.\<close>

definition vault_request :: "'a remote_env_scheme \<Rightarrow> 'w VaultKV2 \<Rightarrow> string \<Rightarrow> string \<Rightarrow> string \<Rightarrow> string \<Rightarrow> bytes \<Rightarrow> 'w \<Rightarrow>
    'w \<times> (perr + 'w http_do \<times> HttpRequest)" where
  "vault_request E v meth kind loc version body w =
     (case (v_Client v, v_TokenSource v) of
        (Some client, Some source) \<Rightarrow>
          if \<not> remotePart (v_Mount v) \<or> \<not> safePath (v_Prefix v) \<or> \<not> safePath loc then (w, Inl PUnavailable)
          else if bad_header (v_Namespace v) then (w, Inl PUnavailable)
          else if version \<noteq> [] \<and> \<not> uint32_text version then (w, Inl PNotFound)
          else if parse_url E (vault_url v kind loc version) = None then (w, Inl PUnavailable)
          else (case source w of
             (w1, None) \<Rightarrow> (w1, Inl PUnavailable)
           | (w1, Some token) \<Rightarrow>
               if token = [] \<or> bad_header token then (w1, Inl PUnavailable)
               else (w1, Inr (client, \<lparr>hr_Method = meth, hr_URL = vault_url v kind loc version,
                 hr_Header = (''X-Vault-Token'', token) #
                   (if v_Namespace v \<noteq> [] then [(''X-Vault-Namespace'', v_Namespace v)] else []) @ [(''Content-Type'', ''application/json'')],
                 hr_BasicAuth = None, hr_Body = body\<rparr>)))
      | _ \<Rightarrow> (w, Inl PUnavailable))"

definition kv_marker :: string where
  "kv_marker = CHR 0x22 # ''base64-v1'' @ [CHR 0x22]"

text \<open>The values of an object: base64 members when the broker wrote it, else each member as a string or
  as its raw JSON. A JSON \<^verbatim>\<open>null\<close> leaves the bundle nil.\<close>

definition kv_values :: "'a remote_env_scheme \<Rightarrow> (string, bytes) gomap \<Rightarrow> perr + Bundle" where
  "kv_values E m =
     (if go_lookup m ''_broker_encoding'' = Some kv_marker then
        (case go_lookup m ''values'' of
           None \<Rightarrow> Inl PUnavailable
         | Some raw \<Rightarrow> if raw = ''null'' then Inl PUnavailable
             else (case decode_bundle E raw of None \<Rightarrow> Inl PUnavailable | Some b \<Rightarrow> Inr b))
      else Inr (map (\<lambda>(k, raw). (k, case decode_json_string E raw of Some s \<Rightarrow> s | None \<Rightarrow> raw)) m))"

definition Vault_Read :: "'a remote_env_scheme \<Rightarrow> 'w VaultKV2 \<Rightarrow> 'w \<Rightarrow> Ref \<Rightarrow> 'w \<times> (perr + Bundle)" where
  "Vault_Read E v w ref =
     (if ref_Provider ref \<noteq> v_ID v then (w, Inl PNotFound)
      else case vault_request E v ''GET'' ''data'' (ref_Locator ref) (ref_Version ref) [] w of
        (w1, Inl e) \<Rightarrow> (w1, Inl e)
      | (w1, Inr (client, r)) \<Rightarrow>
          (case http_response E client r (Some (decode_kv_data E)) w1 of
             (w2, Inl e) \<Rightarrow> (w2, Inl e)
           | (w2, Inr doc) \<Rightarrow> (w2, kv_values E (case doc of None \<Rightarrow> [] | Some m \<Rightarrow> m))))"

definition Vault_Write :: "'a remote_env_scheme \<Rightarrow> bytes \<Rightarrow> 'w VaultKV2 \<Rightarrow> 'w \<Rightarrow> Bundle \<Rightarrow> 'w \<times> (perr + Ref)" where
  "Vault_Write E rnd v w b =
     (if \<not> v_Writable v then (w, Inl PReadOnly)
      else let i = Random rnd in
        case vault_request E v ''POST'' ''data'' i [] (json_kv_write E b) w of
          (w1, Inl e) \<Rightarrow> (w1, Inl e)
        | (w1, Inr (client, r)) \<Rightarrow>
            (case http_response E client r (Some (decode_kv_version E)) w1 of
               (w2, Inl e) \<Rightarrow> (w2, Inl e)
             | (w2, Inr doc) \<Rightarrow>
                 (let n = (case doc of None \<Rightarrow> 0 | Some n \<Rightarrow> n) in
                  if n < 1 then (w2, Inl PUnavailable)
                  else (w2, Inr \<lparr>ref_Provider = v_ID v, ref_Locator = i, ref_Version = int_digits n\<rparr>))))"

definition Vault_Delete :: "'a remote_env_scheme \<Rightarrow> 'w VaultKV2 \<Rightarrow> 'w \<Rightarrow> Ref \<Rightarrow> 'w \<times> (perr + unit)" where
  "Vault_Delete E v w ref =
     (if \<not> v_Writable v then (w, Inl PReadOnly)
      else if ref_Provider ref \<noteq> v_ID v \<or> \<not> locator_ok (ref_Locator ref) then (w, Inl PNotFound)
      else case vault_request E v ''DELETE'' ''metadata'' (ref_Locator ref) [] [] w of
        (w1, Inl e) \<Rightarrow> (w1, Inl e)
      | (w1, Inr (client, r)) \<Rightarrow>
          (case http_response E client r (None :: (bytes \<Rightarrow> unit option) option) w1 of
             (w2, Inl PNotFound) \<Rightarrow> (w2, Inr ())
           | (w2, Inl e) \<Rightarrow> (w2, Inl e)
           | (w2, Inr _) \<Rightarrow> (w2, Inr ())))"

definition vault_provider :: "'a remote_env_scheme \<Rightarrow> bytes \<Rightarrow> 'w VaultKV2 \<Rightarrow> 'w Provider" where
  "vault_provider E rnd v = \<lparr>p_Read = Vault_Read E v, p_Capabilities = Vault_Capabilities v, p_Write = Vault_Write E rnd v,
     p_Delete = Vault_Delete E v\<rparr>"

section \<open>Kubernetes\<close>

record 'w Kubernetes =
  k_ID :: string
  k_BaseURL :: string
  k_Namespace :: string
  k_Client :: "'w http_do option"
  k_TokenSource :: "'w token_source option"

definition Kubernetes_Capabilities :: Capabilities where
  "Kubernetes_Capabilities = \<lparr>cap_Write = False, cap_Delete = False, cap_Versioned = True, cap_Binary = True\<rparr>"

definition kube_url :: "'w Kubernetes \<Rightarrow> string \<Rightarrow> string" where
  "kube_url k loc = TrimSuffix (k_BaseURL k) ''/'' @ ''/api/v1/namespaces/'' @ PathEscape (k_Namespace k) @ ''/secrets/'' @ PathEscape loc"

definition Kubernetes_Read :: "'a remote_env_scheme \<Rightarrow> 'w Kubernetes \<Rightarrow> 'w \<Rightarrow> Ref \<Rightarrow> 'w \<times> (perr + Bundle)" where
  "Kubernetes_Read E k w ref =
     (case (k_Client k, k_TokenSource k) of
        (Some client, Some source) \<Rightarrow>
          if ref_Provider ref \<noteq> k_ID k \<or> \<not> remotePart (k_Namespace k) \<or> \<not> remotePart (ref_Locator ref) then (w, Inl PNotFound)
          else if parse_url E (kube_url k (ref_Locator ref)) = None then (w, Inl PUnavailable)
          else (case source w of
             (w1, None) \<Rightarrow> (w1, Inl PUnavailable)
           | (w1, Some token) \<Rightarrow>
               if token = [] \<or> bad_header token then (w1, Inl PUnavailable)
               else (case http_response E client \<lparr>hr_Method = ''GET'', hr_URL = kube_url k (ref_Locator ref),
                         hr_Header = [(''Authorization'', ''Bearer '' @ token)], hr_BasicAuth = None, hr_Body = []\<rparr> (Some (decode_secret E)) w1 of
                  (w2, Inl e) \<Rightarrow> (w2, Inl e)
                | (w2, Inr doc) \<Rightarrow>
                    (w2, case doc of
                           Some (Some data, rv) \<Rightarrow> if ref_Version ref \<noteq> [] \<and> ref_Version ref \<noteq> rv then Inl PNotFound else Inr data
                         | _ \<Rightarrow> Inl PNotFound)))
      | _ \<Rightarrow> (w, Inl PNotFound))"

definition kubernetes_provider :: "'a remote_env_scheme \<Rightarrow> 'w Kubernetes \<Rightarrow> 'w Provider" where
  "kubernetes_provider E k = \<lparr>p_Read = Kubernetes_Read E k, p_Capabilities = Kubernetes_Capabilities,
     p_Write = (\<lambda>w b. (w, Inl PReadOnly)), p_Delete = (\<lambda>w r. (w, Inl PReadOnly))\<rparr>"

end
