(* ===== verification/Remote_Props.thy ===== *)
theory Remote_Props
  imports Remote
begin

text \<open>
  The remote stores: every request of the Vault provider stays under its mount and prefix, and
  a secret written to a KV version 2 service reads as it was written.
\<close>

section \<open>Paths of requests\<close>

lemma Split_append_sep: "Split c (p @ c # s) = Split c p @ Split c s"
  by (induction p) (auto split: list.splits)

lemma clean_parts_safe: "set ps \<inter> {[], ''.'', ''..''} = {} \<Longrightarrow> clean_parts r acc ps = rev acc @ ps"
  by (induction ps arbitrary: acc) auto

text \<open>A path of safe parts after a leading slash is its own canonical form.\<close>

lemma path_Clean_safe:
  assumes "set (Split CHR ''/'' p) \<inter> {[], ''.'', ''..''} = {}"
  shows "path_Clean (CHR ''/'' # p) = CHR ''/'' # p"
proof -
  have "Join CHR ''/'' (clean_parts True [] (Split CHR ''/'' (CHR ''/'' # p))) = p"
    using clean_parts_safe [OF assms, of True "[]"] by simp
  then show ?thesis by (simp add: path_Clean_def HasPrefix_def)
qed

lemma remotePart_char: "remotePart s \<Longrightarrow> c \<in> set s \<Longrightarrow> alnum c \<or> c \<in> set ''_.-''"
  by (auto simp: remotePart_def list_all_iff split: list.splits)

lemma remotePart_no_slash: "remotePart s \<Longrightarrow> CHR ''/'' \<notin> set s"
  by (auto dest!: remotePart_char simp: alnum_def is_lower_def is_upper_def is_digit_def in_range_def)

lemma remotePart_not_dots: "remotePart s \<Longrightarrow> s \<notin> {[], ''.'', ''..''}"
  by (auto simp: remotePart_def alnum_def is_lower_def is_upper_def is_digit_def in_range_def)

lemma safePath_parts: "safePath p \<Longrightarrow> set (Split CHR ''/'' p) \<inter> {[], ''.'', ''..''} = {}"
  using remotePart_not_dots by (auto simp: safePath_def list_all_iff)

lemma Split_vault_path:
  assumes "remotePart (v_Mount v)" "CHR ''/'' \<notin> set kind"
  shows "Split CHR ''/'' (tl (vault_path v kind loc)) =
    ''v1'' # v_Mount v # kind # Split CHR ''/'' (v_Prefix v) @ Split CHR ''/'' loc"
  using assms remotePart_no_slash [OF assms(1)]
  by (simp add: vault_path_def Split_append_sep Split_single)

lemma vault_path_clean:
  assumes "remotePart (v_Mount v)" "safePath (v_Prefix v)" "safePath loc" "kind = ''data'' \<or> kind = ''metadata''"
  shows "path_Clean (vault_path v kind loc) = vault_path v kind loc"
proof -
  have "vault_path v kind loc = CHR ''/'' # tl (vault_path v kind loc)" by (simp add: vault_path_def)
  moreover have "set (Split CHR ''/'' (tl (vault_path v kind loc))) \<inter> {[], ''.'', ''..''} = {}"
    using assms safePath_parts [OF assms(2)] safePath_parts [OF assms(3)] remotePart_not_dots [OF assms(1)]
    by (subst Split_vault_path) auto
  ultimately show ?thesis by (metis path_Clean_safe)
qed

text \<open>What the provider may send.\<close>

definition vault_confined :: "'w VaultKV2 \<Rightarrow> HttpRequest \<Rightarrow> bool" where
  "vault_confined v r \<longleftrightarrow>
     (\<exists>kind loc version. hr_URL r = TrimSuffix (v_BaseURL v) ''/'' @ vault_path v kind loc @ version \<and>
        path_Clean (vault_path v kind loc) = vault_path v kind loc \<and>
        (version = [] \<or> (\<exists>n. version = ''?version='' @ n \<and> list_all is_digit n \<and> digits_val n < 4294967296)) \<and>
        (hr_Method r = ''GET'' \<and> kind = ''data'' \<or> hr_Method r = ''POST'' \<and> kind = ''data'' \<and> locator_ok loc \<or>
         hr_Method r = ''DELETE'' \<and> kind = ''metadata'' \<and> locator_ok loc)) \<and>
     list_all (\<lambda>(h, x). \<not> bad_header x) (hr_Header r)"


lemma vault_request_confined:
  assumes "vault_request E v meth kind loc version body w = (w1, Inr (client, r))"
    and "meth = ''GET'' \<and> kind = ''data'' \<or> meth = ''POST'' \<and> kind = ''data'' \<and> locator_ok loc \<or>
         meth = ''DELETE'' \<and> kind = ''metadata'' \<and> locator_ok loc"
  shows "vault_confined v r" "v_Client v = Some client" "hr_Method r = meth" "hr_Body r = body" "hr_URL r = vault_url v kind loc version"
proof -
  from assms(1) obtain source token where c: "v_Client v = Some client" "v_TokenSource v = Some source" "source w = (w1, Some token)"
    and ok: "remotePart (v_Mount v)" "safePath (v_Prefix v)" "safePath loc" "\<not> bad_header (v_Namespace v)"
      "version = [] \<or> uint32_text version" "\<not> bad_header token"
    and r: "r = \<lparr>hr_Method = meth, hr_URL = vault_url v kind loc version, hr_Header = (''X-Vault-Token'', token) #
        (if v_Namespace v \<noteq> [] then [(''X-Vault-Namespace'', v_Namespace v)] else []) @ [(''Content-Type'', ''application/json'')],
        hr_BasicAuth = None, hr_Body = body\<rparr>"
    by (auto simp: vault_request_def split: option.splits if_splits prod.splits)
  let ?q = "if version \<noteq> [] then ''?version='' @ version else []"
  have "path_Clean (vault_path v kind loc) = vault_path v kind loc"
    using vault_path_clean [OF ok(1-3)] assms(2) by blast
  moreover have "hr_URL r = TrimSuffix (v_BaseURL v) ''/'' @ vault_path v kind loc @ (if version \<noteq> [] then ''?version='' @ version else [])"
    by (simp add: r vault_url_def)
  moreover have "version \<noteq> [] \<Longrightarrow> list_all is_digit version \<and> digits_val version < 4294967296"
    using ok(5) by (simp add: uint32_text_def)
  then have "?q = [] \<or> (\<exists>n. ?q = ''?version='' @ n \<and> list_all is_digit n \<and> digits_val n < 4294967296)" by auto
  moreover have "hr_Method r = meth" by (simp add: r)
  moreover have "list_all (\<lambda>(h, x). \<not> bad_header x) (hr_Header r)"
    using ok(4,6) by (simp add: r bad_header_def ContainsAny_def)
  ultimately show "vault_confined v r" unfolding vault_confined_def using assms(2) by blast
  show "v_Client v = Some client" "hr_Method r = meth" "hr_Body r = body" "hr_URL r = vault_url v kind loc version"
    by (simp_all add: c r)
qed

lemma vault_request_client:
  "v_Client v = Some cl \<Longrightarrow> vault_request E (v\<lparr>v_Client := Some cl'\<rparr>) meth kind loc version body w =
     (case vault_request E v meth kind loc version body w of
        (w1, Inl e) \<Rightarrow> (w1, Inl e) | (w1, Inr (_, r)) \<Rightarrow> (w1, Inr (cl', r)))"
proof -
  have "vault_url (v\<lparr>v_Client := Some cl'\<rparr>) = vault_url v" by (intro ext) (simp add: vault_url_def vault_path_def)
  then show "v_Client v = Some cl \<Longrightarrow> ?thesis"
    by (cases "v_TokenSource v") (simp_all add: vault_request_def split: option.split prod.split)
qed

section \<open>Write and read\<close>

text \<open>A KV version 2 service, as documented: \<open>kv w loc\<close> is the list of versions of an object. A write with
  check-and-set 0 is accepted only for a new object, whose first version it stores; a read of
  version \<open>n\<close> that succeeds returns the data of that version and changes nothing. \<open>doc\<close> is the data member
  of a written document.\<close>

definition kv2_service :: "'a remote_env_scheme \<Rightarrow> 'w VaultKV2 \<Rightarrow> 'w http_do \<Rightarrow> (bytes \<Rightarrow> (string, bytes) gomap) \<Rightarrow> ('w \<Rightarrow> string \<Rightarrow> bytes list) \<Rightarrow> bool" where
  "kv2_service E v cl doc kv \<longleftrightarrow>
     (\<forall>r w w' res raw loc. cl r w = (w', Some res) \<and> 200 \<le> hs_StatusCode res \<and> hs_StatusCode res < 300 \<and> hs_Body res = Some raw \<longrightarrow>
        (hr_Method r = ''POST'' \<and> hr_URL r = vault_url v ''data'' loc [] \<longrightarrow>
           raw \<noteq> [] \<and> decode_kv_version E raw = Some 1 \<and> kv w loc = [] \<and> kv w' loc = [hr_Body r]) \<and>
        (\<forall>n. hr_Method r = ''GET'' \<and> hr_URL r = vault_url v ''data'' loc (nat_digits n) \<longrightarrow>
           raw \<noteq> [] \<and> 1 \<le> n \<and> n \<le> length (kv w loc) \<and> decode_kv_data E raw = Some (doc (kv w loc ! (n - 1))) \<and> kv w' = kv w))"

text \<open>The JSON of a write: its data member carries the marker and the values.\<close>

definition kv_codec :: "'a remote_env_scheme \<Rightarrow> (bytes \<Rightarrow> (string, bytes) gomap) \<Rightarrow> bool" where
  "kv_codec E doc \<longleftrightarrow>
     (\<forall>b. bundle_ok b \<longrightarrow> go_lookup (doc (json_kv_write E b)) ''_broker_encoding'' = Some kv_marker \<and>
        (\<exists>raw b'. go_lookup (doc (json_kv_write E b)) ''values'' = Some raw \<and> raw \<noteq> ''null'' \<and> decode_bundle E raw = Some b' \<and> map_of b' = map_of b))"

lemma http_response_Inr:
  assumes "http_response E client r (Some dec) w = (w', Inr x)"
  obtains res raw where "client r w = (w', Some res)" "200 \<le> hs_StatusCode res" "hs_StatusCode res < 300" "hs_Body res = Some raw"
    "x = (if raw = [] then None else dec raw)" "raw \<noteq> [] \<Longrightarrow> dec raw \<noteq> None"
  using assms by (auto simp: http_response_def split: prod.splits option.splits if_splits intro: that)

lemma vault_request_source:
  assumes "vault_request E v meth kind loc version body w = (w1, y)"
    and "\<And>src w w' t. v_TokenSource v = Some src \<Longrightarrow> src w = (w', t) \<Longrightarrow> kv w' = kv w"
  shows "kv w1 = kv w"
  using assms by (auto simp: vault_request_def split: option.splits if_splits prod.splits)


lemma http_response_cong: "cl' r w = cl r w \<Longrightarrow> http_response E cl' r dst w = http_response E cl r dst w"
  by (simp add: http_response_def)

section \<open>Properties\<close>

text \<open>
  Requests to Vault are confined. Whatever references the broker holds, the three operations
  of the provider behave the same with any other client that agrees on the requests below
  the mount and prefix of the provider: reads of objects, writes of new objects with a generated name, and
  deletions of such objects, at paths that are their own canonical form, with headers free of line
  breaks. No other request is ever sent, and a store that is not writable is only read.
\<close>

theorem vault_requests_are_confined:
  assumes "v_Client v = Some cl"
    and "\<forall>r w. vault_confined v r \<and> (hr_Method r \<noteq> ''GET'' \<longrightarrow> v_Writable v) \<longrightarrow> cl' r w = cl r w"
    and "length rnd = 32"
  shows "Vault_Read E (v\<lparr>v_Client := Some cl'\<rparr>) = Vault_Read E v \<and>
    Vault_Write E rnd (v\<lparr>v_Client := Some cl'\<rparr>) = Vault_Write E rnd v \<and>
    Vault_Delete E (v\<lparr>v_Client := Some cl'\<rparr>) = Vault_Delete E v"
proof (intro conjI ext)
  note req = vault_request_client [OF assms(1), of E cl']
  have eq: "http_response E cl' r dst w = http_response E c r dst w"
    if "vault_request E v meth kind loc version body w0 = (w1, Inr (c, r))" "meth \<noteq> ''GET'' \<longrightarrow> v_Writable v"
      "meth = ''GET'' \<and> kind = ''data'' \<or> meth = ''POST'' \<and> kind = ''data'' \<and> locator_ok loc \<or>
         meth = ''DELETE'' \<and> kind = ''metadata'' \<and> locator_ok loc"
    for meth kind loc version body w0 w1 c r w and dst :: "(bytes \<Rightarrow> 'd option) option"
    using vault_request_confined [OF that(1,3)] that(2) assms(1,2) by (intro http_response_cong) simp
  fix w ref b
  show "Vault_Read E (v\<lparr>v_Client := Some cl'\<rparr>) w ref = Vault_Read E v w ref"
    by (simp add: Vault_Read_def req split: prod.split sum.split) (auto simp: eq)
  show "Vault_Write E rnd (v\<lparr>v_Client := Some cl'\<rparr>) w b = Vault_Write E rnd v w b"
    using locator_Random [OF assms(3)] by (auto simp: Vault_Write_def Let_def req eq split: prod.split sum.split)
  show "Vault_Delete E (v\<lparr>v_Client := Some cl'\<rparr>) w ref = Vault_Delete E v w ref"
    by (auto simp: Vault_Delete_def req eq split: prod.split sum.split)
qed

text \<open>
  A secret written to Vault reads as it was written. On a KV version 2 service, the reference that a
  successful write returns names an object that did not exist before, and while other
  clients leave that object alone, every successful read of the reference returns the bundle written.
\<close>

theorem vault_secret_reads_back:
  assumes "kv2_service E v cl doc kv" and "kv_codec E doc" and "v_Client v = Some cl" and "length rnd = 32"
    and "\<And>src w w' t. v_TokenSource v = Some src \<Longrightarrow> src w = (w', t) \<Longrightarrow> kv w' = kv w"
    and "bundle_ok b" and "Vault_Write E rnd v w b = (w1, Inr ref)"
    and "kv w2 (ref_Locator ref) = kv w1 (ref_Locator ref)" and "Vault_Read E v w2 ref = (w3, Inr b')"
  shows "map_of b' = map_of b \<and> kv w (ref_Locator ref) = []"
proof -
  let ?loc = "Random rnd"
  from assms(7) obtain wa client r n where q: "vault_request E v ''POST'' ''data'' ?loc [] (json_kv_write E b) w = (wa, Inr (client, r))"
    and res: "http_response E client r (Some (decode_kv_version E)) wa = (w1, Inr n)"
    and ref: "ref = \<lparr>ref_Provider = v_ID v, ref_Locator = ?loc, ref_Version = int_digits (case n of None \<Rightarrow> 0 | Some n \<Rightarrow> n)\<rparr>"
    by (auto simp: Vault_Write_def Let_def split: if_splits prod.splits sum.splits)
  note c = vault_request_confined [OF q] locator_Random [OF assms(4)]
  from res obtain rs raw where "client r wa = (w1, Some rs)" "200 \<le> hs_StatusCode rs" "hs_StatusCode rs < 300" "hs_Body rs = Some raw"
    "n = (if raw = [] then None else decode_kv_version E raw)" by (rule http_response_Inr)
  with assms(1,3) c have kv1: "kv wa ?loc = []" "kv w1 ?loc = [json_kv_write E b]" and n: "n = Some 1"
    unfolding kv2_service_def by force+
  have old: "kv w ?loc = []" using kv1(1) vault_request_source [OF q, of kv] assms(5) by simp
  have ver: "ref_Locator ref = ?loc" "ref_Version ref = nat_digits 1" by (simp_all add: ref n int_digits_def)
  from assms(9) obtain wb client2 r2 d where q2: "vault_request E v ''GET'' ''data'' ?loc (nat_digits 1) [] w2 = (wb, Inr (client2, r2))"
    and res2: "http_response E client2 r2 (Some (decode_kv_data E)) wb = (w3, Inr d)"
    and val: "kv_values E (case d of None \<Rightarrow> [] | Some m \<Rightarrow> m) = Inr b'"
    by (auto simp: Vault_Read_def ver split: if_splits prod.splits sum.splits)
  note c2 = vault_request_confined [OF q2]
  from res2 obtain rs2 raw2 where "client2 r2 wb = (w3, Some rs2)" "200 \<le> hs_StatusCode rs2" "hs_StatusCode rs2 < 300" "hs_Body rs2 = Some raw2"
    "d = (if raw2 = [] then None else decode_kv_data E raw2)" by (rule http_response_Inr)
  moreover have "kv wb ?loc = [json_kv_write E b]" using vault_request_source [OF q2, of kv] assms(5,8) ver kv1(2) by simp
  ultimately have "d = Some (doc (json_kv_write E b))" using assms(1,3) c2 unfolding kv2_service_def by fastforce
  with val assms(2,6) have "map_of b' = map_of b" by (auto simp: kv_values_def kv_codec_def)
  with old ver show ?thesis by simp
qed


section \<open>A concrete service\<close>

type_synonym vault_world = "string \<Rightarrow> bytes list"

definition demo_doc :: "bytes \<Rightarrow> (string, bytes) gomap" where
  "demo_doc s = [(''_broker_encoding'', kv_marker), (''values'', tl s)]"

definition demo_remote_env :: remote_env where
  "demo_remote_env = provider_env.extend demo_provider_env
     \<lparr>decode_kv_data = (\<lambda>s. Some (demo_doc s)), decode_kv_version = (\<lambda>s. Some 1), decode_json_string = (\<lambda>s. None),
      decode_secret = (\<lambda>s. None), json_kv_write = (\<lambda>b. CHR ''x'' # demo_bundle_bytes b)\<rparr>"

text \<open>A service that keeps one version per object, keyed by the URL, and answers the first version.\<close>

definition split_query :: "string \<Rightarrow> string \<times> string" where
  "split_query u = (rev (tl (dropWhile (\<lambda>c. c \<noteq> CHR ''?'') (rev u))), rev (takeWhile (\<lambda>c. c \<noteq> CHR ''?'') (rev u)))"

definition demo_kv :: "vault_world http_do" where
  "demo_kv r w =
     (let (u, q) = split_query (hr_URL r) in
      if hr_Method r = ''POST'' \<and> w (hr_URL r) = [] then
        (w(hr_URL r := [hr_Body r]), Some \<lparr>hs_StatusCode = 200, hs_Body = Some ''1''\<rparr>)
      else if hr_Method r = ''GET'' \<and> q = ''version=1'' \<and> w u \<noteq> [] \<and> hd (w u) \<noteq> [] then
        (w, Some \<lparr>hs_StatusCode = 200, hs_Body = Some (hd (w u))\<rparr>)
      else (w, Some \<lparr>hs_StatusCode = 404, hs_Body = Some []\<rparr>))"

definition demo_vault :: "vault_world VaultKV2" where
  "demo_vault = \<lparr>v_ID = ''vault'', v_BaseURL = ''https://v'', v_Mount = ''kv'', v_Prefix = ''broker'', v_Namespace = [],
     v_Client = Some demo_kv, v_TokenSource = Some (\<lambda>w. (w, Some ''t'')), v_Writable = True\<rparr>"

lemma vault_url_version: "vault_url v kind loc (nat_digits n) = vault_url v kind loc [] @ ''?version='' @ nat_digits n"
  by (simp add: vault_url_def nat_digits.simps [of n])

lemma demo_bundle_not_null: "demo_bundle_bytes b \<noteq> ''null''"
proof (cases b rule: rev_cases)
  case (snoc xs x)
  then have "last (demo_bundle_bytes b) = CHR '',''" by (cases x) (simp add: demo_bundle_bytes_def)
  then show ?thesis by auto
qed (simp add: demo_bundle_bytes_def)

lemma split_query_append: "CHR ''?'' \<notin> set q \<Longrightarrow> split_query (u @ CHR ''?'' # q) = (u, q)"
proof -
  assume "CHR ''?'' \<notin> set q"
  then have "takeWhile (\<lambda>c. c \<noteq> CHR ''?'') (rev q @ x # xs) = rev q @ takeWhile (\<lambda>c. c \<noteq> CHR ''?'') (x # xs)"
    "dropWhile (\<lambda>c. c \<noteq> CHR ''?'') (rev q @ x # xs) = dropWhile (\<lambda>c. c \<noteq> CHR ''?'') (x # xs)" for x xs
    by (auto simp: takeWhile_append dropWhile_append)
  then show ?thesis by (simp add: split_query_def)
qed

lemma demo_kv_service: "kv2_service demo_remote_env demo_vault demo_kv demo_doc (\<lambda>w loc. w (vault_url demo_vault ''data'' loc []))"
proof -
  have one: "nat_digits (Suc 0) = ''1''" by (simp add: nat_digits.simps digit_char_def)
  have d: "nat_digits n = ''1'' \<longleftrightarrow> n = Suc 0" for n using nat_digits_inject [of n "Suc 0"] by (simp only: one)
  have "CHR ''?'' \<notin> set (nat_digits n)" for n
    using nat_digits_is_digit [of "CHR ''?''" n] by (auto simp: is_digit_def in_range_def)
  then have "split_query (vault_url v kind loc (nat_digits n)) = (vault_url v kind loc [], ''version='' @ nat_digits n)"
    for v :: "vault_world VaultKV2" and kind loc n
    using split_query_append [of "''version='' @ nat_digits n" "vault_url v kind loc []"] by (simp add: vault_url_version)
  then show ?thesis
    by (auto simp: kv2_service_def demo_kv_def Let_def d demo_remote_env_def provider_env.defs hd_conv_nth Suc_le_eq
      split: if_splits prod.splits)
qed

lemma demo_kv_codec: "kv_codec demo_remote_env demo_doc"
  by (simp add: kv_codec_def demo_doc_def demo_remote_env_def provider_env.defs demo_provider_env_def contract_env.defs
    demo_bundle_not_null demo_bundle_decode)

lemma demo_vault_request:
  "safePath loc \<Longrightarrow> version = [] \<or> uint32_text version \<Longrightarrow> vault_request demo_remote_env demo_vault meth kind loc version body w =
     (w, Inr (demo_kv, \<lparr>hr_Method = meth, hr_URL = vault_url demo_vault kind loc version,
        hr_Header = [(''X-Vault-Token'', ''t''), (''Content-Type'', ''application/json'')], hr_BasicAuth = None, hr_Body = body\<rparr>))"
  by (auto simp: vault_request_def demo_vault_def remotePart_def safePath_def alnum_def is_lower_def is_upper_def is_digit_def in_range_def
    bad_header_def ContainsAny_def vault_url_def demo_remote_env_def provider_env.defs demo_provider_env_def contract_env.defs
    demo_contract_env_def id_env.defs TrimSuffix_def HasSuffix_def HasPrefix_def)


lemma demo_remote_valid: "list_all (in_range (CHR 0x00) (CHR 0x7F)) s \<Longrightarrow> strictjson_Valid demo_remote_env s"
  using utf8_valid_ascii [of s]
  by (simp add: strictjson_Valid_def strict_tokens_def demo_remote_env_def provider_env.defs demo_provider_env_def demo_contract_env_def
    demo_id_env_def contract_env.defs id_env.defs numeral_nat list_all_iff)

definition demo_rnd :: bytes where
  "demo_rnd = replicate 32 CHR 0x00"

lemma locator_safePath: "locator_ok s \<Longrightarrow> safePath s"
proof -
  assume ok: "locator_ok s"
  then have c: "\<forall>c \<in> set s. alnum c \<or> c = CHR ''_'' \<or> c = CHR ''-''" and len: "length s = 43"
    by (auto simp: locator_ok_def list_all_iff)
  then obtain x xs where s: "s = x # xs" by (cases s) auto
  have "CHR ''/'' \<notin> set s" using c by (auto simp: alnum_def is_lower_def is_upper_def is_digit_def in_range_def)
  moreover have "remotePart s" using c len by (auto simp: remotePart_def s list_all_iff)
  moreover have "s \<notin> {[], ''.'', ''..''}" using len by auto
  ultimately show ?thesis using len by (simp add: safePath_def Split_single)
qed

lemma demo_rnd_safe: "safePath (Random demo_rnd)" "length demo_rnd = 32"
  by (simp_all add: locator_safePath locator_Random demo_rnd_def)

text \<open>One write and one read on the service.\<close>

lemma demo_vault_run:
  fixes w :: vault_world
  defines "loc \<equiv> Random demo_rnd" and "b \<equiv> [(''k'', ''v'')]"
  defines "w1 \<equiv> (\<lambda>_. [])(vault_url demo_vault ''data'' loc [] := [json_kv_write demo_remote_env b])"
  defines "ref \<equiv> \<lparr>ref_Provider = ''vault'', ref_Locator = loc, ref_Version = ''1''\<rparr>"
  shows "Vault_Write demo_remote_env demo_rnd demo_vault (\<lambda>_. []) b = (w1, Inr ref)" "Vault_Read demo_remote_env demo_vault w1 ref = (w1, Inr b)"
proof -
  note safe = demo_rnd_safe [folded loc_def]
  have e: "decode_kv_version demo_remote_env raw = Some 1" "decode_kv_data demo_remote_env raw = Some (demo_doc raw)"
    "json_kv_write demo_remote_env c = CHR ''x'' # demo_bundle_bytes c" "decode_bundle demo_remote_env = demo_decode_bundle" for raw c
    by (simp_all add: demo_remote_env_def provider_env.defs demo_provider_env_def contract_env.defs)
  have v: "v_ID demo_vault = ''vault''" "v_Writable demo_vault" by (simp_all add: demo_vault_def)
  have valid: "strictjson_Valid demo_remote_env ''1''" "strictjson_Valid demo_remote_env (CHR ''x'' # demo_bundle_bytes b)"
    using b64_no_sep by (intro demo_remote_valid, fastforce simp: demo_bundle_bytes_def b_def list_all_iff in_range_def)+
  have q: "split_query (vault_url demo_vault ''data'' loc ''1'') = (vault_url demo_vault ''data'' loc [], ''version=1'')"
    using split_query_append [of "''version=1''" "vault_url demo_vault ''data'' loc []"] by (simp add: vault_url_def)
  have small: "length (demo_bundle_bytes b) < 100" by (simp add: demo_bundle_bytes_def b_def b64_encode_def length_b64_nums)
  show "Vault_Write demo_remote_env demo_rnd demo_vault (\<lambda>_. []) b = (w1, Inr ref)"
    using safe valid by (simp add: Vault_Write_def v loc_def [symmetric] demo_vault_request http_response_def demo_kv_def e w1_def ref_def
      int_digits_def nat_digits.simps digit_char_def split: prod.split)
  have "uint32_text ''1''" by (simp add: uint32_text_def is_digit_def in_range_def digits_val_def digit_val_def)
  then show "Vault_Read demo_remote_env demo_vault w1 ref = (w1, Inr b)"
    using safe valid small by (simp add: Vault_Read_def v ref_def demo_vault_request http_response_def demo_kv_def q e w1_def demo_doc_def kv_values_def
      demo_bundle_not_null demo_bundle_decode)
qed

theorem vault_requests_are_confined_witness:
  "Vault_Read demo_remote_env (demo_vault\<lparr>v_Client := Some (\<lambda>r w. if hr_Method r = ''PUT'' then (\<lambda>_. [], None) else demo_kv r w)\<rparr>) = Vault_Read demo_remote_env demo_vault"
proof -
  have c: "v_Client demo_vault = Some demo_kv" by (simp add: demo_vault_def)
  have same: "\<forall>r w. vault_confined demo_vault r \<and> (hr_Method r \<noteq> ''GET'' \<longrightarrow> v_Writable demo_vault) \<longrightarrow>
      (if hr_Method r = ''PUT'' then (\<lambda>_. [], None) else demo_kv r w) = demo_kv r w" by (auto simp: vault_confined_def)
  show ?thesis by (rule vault_requests_are_confined [OF c same demo_rnd_safe(2), THEN conjunct1])
qed

theorem vault_secret_reads_back_witness:
  "\<exists>w1 ref b'. Vault_Write demo_remote_env demo_rnd demo_vault (\<lambda>_. []) [(''k'', ''v'')] = (w1, Inr ref) \<and>
     Vault_Read demo_remote_env demo_vault w1 ref = (w1, Inr b') \<and> map_of b' ''k'' = Some ''v''"
proof -
  have "bundle_ok [(''k'', ''v'')]" by (simp add: bundle_ok_def in_range_def)
  moreover have "v_Client demo_vault = Some demo_kv" "v_TokenSource demo_vault = Some (\<lambda>w. (w, Some ''t''))" by (simp_all add: demo_vault_def)
  ultimately show ?thesis
    using vault_secret_reads_back [OF demo_kv_service demo_kv_codec _ demo_rnd_safe(2) _ _ demo_vault_run(1) refl demo_vault_run(2)]
      demo_vault_run by auto
qed

end
