(* ===== verification/Safenet_Props.thy ===== *)
theory Safenet_Props
  imports Safenet Contract_Props
begin

text \<open>
  What the address policy allows, as intervals of numbers instead of tests on bits, and that
  a client of \<^verbatim>\<open>safenet.New\<close> only ever exchanges data with an allowed address of its own host.
\<close>

section \<open>Prefixes are intervals\<close>

lemma unat_drop_bit: "unat (drop_bit n w) = unat w div 2 ^ n" for w :: "'a::len word"
  using unat_drop_bit_eq [of n w] by (simp only: drop_bit_eq_div)

lemma drop_bit_range:
  "drop_bit n w = c \<longleftrightarrow> unat c * 2 ^ n \<le> unat w \<and> unat w \<le> unat c * 2 ^ n + (2 ^ n - 1)" for w c :: "'a::len word"
proof -
  have "drop_bit n w = c \<longleftrightarrow> unat w div 2 ^ n = unat c"
    by (simp only: word_unat_eq_iff unat_drop_bit)
  also have "\<dots> \<longleftrightarrow> unat c \<le> unat w div 2 ^ n \<and> unat w div 2 ^ n < Suc (unat c)" by auto
  also have "\<dots> \<longleftrightarrow> unat c * 2 ^ n \<le> unat w \<and> unat w < Suc (unat c) * 2 ^ n"
    by (simp only: less_eq_div_iff_mult_less_eq div_less_iff_less_mult zero_less_power zero_less_numeral)
  also have "Suc (unat c) * 2 ^ n = Suc (unat c * 2 ^ n + (2 ^ n - 1))" by simp
  also have "unat w < \<dots> \<longleftrightarrow> unat w \<le> unat c * 2 ^ n + (2 ^ n - 1)" by (rule less_Suc_eq_le)
  finally show ?thesis .
qed

section \<open>The policy in numbers\<close>

text \<open>First and last address of the networks a client never reaches, and of those it reaches only
  through an exception.\<close>

definition in_ranges :: "(nat \<times> nat) list \<Rightarrow> nat \<Rightarrow> bool" where
  "in_ranges rs n \<longleftrightarrow> list_ex (\<lambda>(lo, hi). lo \<le> n \<and> n \<le> hi) rs"

definition dotted :: "nat \<Rightarrow> nat \<Rightarrow> nat \<Rightarrow> nat \<Rightarrow> nat" where
  "dotted a b c d = ((a * 256 + b) * 256 + c) * 256 + d"

definition never4 :: "(nat \<times> nat) list" where
  "never4 = [(0, 0), (dotted 169 254 0 0, dotted 169 254 255 255), (dotted 224 0 0 0, dotted 239 255 255 255)]"

definition special4 :: "(nat \<times> nat) list" where
  "special4 = [(0, dotted 0 255 255 255), (dotted 10 0 0 0, dotted 10 255 255 255), (dotted 100 64 0 0, dotted 100 127 255 255),
     (dotted 127 0 0 0, dotted 127 255 255 255), (dotted 169 254 0 0, dotted 169 254 255 255), (dotted 172 16 0 0, dotted 172 31 255 255),
     (dotted 192 0 0 0, dotted 192 0 0 255), (dotted 192 0 2 0, dotted 192 0 2 255), (dotted 192 168 0 0, dotted 192 168 255 255),
     (dotted 198 18 0 0, dotted 198 19 255 255), (dotted 198 51 100 0, dotted 198 51 100 255), (dotted 203 0 113 0, dotted 203 0 113 255),
     (dotted 224 0 0 0, dotted 239 255 255 255), (dotted 240 0 0 0, dotted 255 255 255 255)]"

lemma list_ex_const: "list_ex (\<lambda>p. Q) ps \<longleftrightarrow> ps \<noteq> [] \<and> Q"
  by (induction ps) auto

text \<open>The policy on an unmapped address: what is never allowed, what an exception allows, and what is
  special.\<close>

definition never :: "Addr \<Rightarrow> bool" where
  "never ip \<longleftrightarrow> ip = NoAddr \<or> IsUnspecified ip \<or> IsMulticast ip \<or> IsLinkLocalUnicast ip \<or> IsLinkLocalMulticast ip"

definition special :: "Addr \<Rightarrow> bool" where
  "special ip \<longleftrightarrow> \<not> IsGlobalUnicast ip \<or> IsPrivate ip \<or> IsLoopback ip \<or> list_ex (\<lambda>p. Prefix_Contains p ip) reserved_nets"

lemma Allowed_alt:
  "Allowed a exc \<longleftrightarrow> \<not> never (Unmap a) \<and> (list_ex (\<lambda>p. Prefix_Contains p (Unmap a)) exc \<or> \<not> special (Unmap a))"
  by (auto simp: Allowed_def never_def special_def Let_def)

lemma word4_le: "unat w \<le> 4294967295" for w :: "32 word"
proof -
  have "unat w < 2 ^ LENGTH(32)" by (rule unsigned_less)
  then show ?thesis by simp
qed

lemma word4_eqs: "w = 0 \<longleftrightarrow> unat w \<le> 0" "w = 0xFFFFFFFF \<longleftrightarrow> 4294967295 \<le> unat w" for w :: "32 word"
  using word4_le [of w] by (auto simp: word_unat_eq_iff)

lemma in_ranges_simps [simp]:
  "in_ranges [] n \<longleftrightarrow> False"
  "in_ranges ((lo, hi) # rs) n \<longleftrightarrow> lo \<le> n \<and> n \<le> hi \<or> in_ranges rs n"
  by (simp_all add: in_ranges_def)

lemma never4_iff: "never (Addr4 w) \<longleftrightarrow> in_ranges never4 (unat w)"
  by (simp add: never_def IsUnspecified_def IsMulticast_def IsLinkLocalUnicast_def IsLinkLocalMulticast_def
      drop_bit_range word4_eqs [of w] never4_def dotted_def) auto

lemma special4_iff: "special (Addr4 w) \<longleftrightarrow> in_ranges special4 (unat w)"
  using word4_le [of w]
  by (simp add: special_def IsGlobalUnicast_def IsPrivate_def IsLoopback_def IsMulticast_def IsLinkLocalUnicast_def
      reserved_nets_def Prefix_Contains_def drop_bit_range word4_eqs [of w] special4_def dotted_def)
    (rule iffI; elim disjE conjE; simp)


text \<open>The same for addresses of 128 bits, by their first sixteen.\<close>

definition net16 :: "nat \<Rightarrow> nat \<Rightarrow> nat \<times> nat" where
  "net16 a b = (a * 2 ^ 112, b * 2 ^ 112 + (2 ^ 112 - 1))"

definition never6 :: "(nat \<times> nat) list" where
  "never6 = [(0, 0), net16 0xFE80 0xFEBF, net16 0xFF00 0xFFFF]"

definition special6 :: "(nat \<times> nat) list" where
  "special6 = [(0, 0), (1, 1), net16 0xFC00 0xFDFF, net16 0xFE80 0xFEBF, net16 0xFF00 0xFFFF, net16 0x2002 0x2002,
     (0x2001 * 2 ^ 112, 0x2001 * 2 ^ 112 + (2 ^ 96 - 1)),
     (0x20010DB8 * 2 ^ 96, 0x20010DB8 * 2 ^ 96 + (2 ^ 96 - 1)),
     (0x64FF9B * 2 ^ 96, 0x64FF9B * 2 ^ 96 + (2 ^ 32 - 1))]"

lemma word6_eqs: "w = 0 \<longleftrightarrow> unat w \<le> 0" "w = 1 \<longleftrightarrow> 1 \<le> unat w \<and> unat w \<le> 1" for w :: "128 word"
  by (auto simp: word_unat_eq_iff)

lemma never6_iff: "never (Addr6 w []) \<longleftrightarrow> in_ranges never6 (unat w)"
  by (simp add: never_def IsUnspecified_def IsMulticast_def IsLinkLocalUnicast_def IsLinkLocalMulticast_def
      drop_bit_range word6_eqs [of w] never6_def net16_def) auto

lemma special6_iff: "special (Addr6 w []) \<longleftrightarrow> in_ranges special6 (unat w)"
  by (simp add: special_def IsGlobalUnicast_def IsPrivate_def IsLoopback_def IsMulticast_def IsLinkLocalUnicast_def
      reserved_nets_def Prefix_Contains_def drop_bit_range word6_eqs [of w] special6_def net16_def)
    (rule iffI; elim disjE conjE; simp)

text \<open>An address with a zone is in no prefix, so neither the exceptions nor the reserved networks apply to it.\<close>

definition zoned6 :: "(nat \<times> nat) list" where
  "zoned6 = [(1, 1), net16 0xFC00 0xFDFF, net16 0xFE80 0xFEBF, net16 0xFF00 0xFFFF]"

lemma zoned_in_no_prefix: "z \<noteq> [] \<Longrightarrow> \<not> Prefix_Contains p (Addr6 w z)"
  by (simp add: Prefix_Contains_def split: Addr.split)

lemma zoned6_iff:
  assumes "z \<noteq> []"
  shows "never (Addr6 w z) \<or> special (Addr6 w z) \<longleftrightarrow> in_ranges zoned6 (unat w)"
  using assms
  by (simp add: never_def special_def IsUnspecified_def IsGlobalUnicast_def IsPrivate_def IsLoopback_def IsMulticast_def IsLinkLocalUnicast_def IsLinkLocalMulticast_def
      zoned_in_no_prefix list_ex_const drop_bit_range word6_eqs [of w] zoned6_def net16_def) auto


section \<open>Exceptions are narrow\<close>

lemma card_same_network: "card {w. drop_bit n q = drop_bit n w} \<le> 2 ^ n" for q :: "'a::len word"
proof -
  let ?lo = "unat (drop_bit n q) * 2 ^ n"
  have "unat ` {w. drop_bit n q = drop_bit n w} \<subseteq> {?lo ..< ?lo + 2 ^ n}"
  proof
    fix k assume "k \<in> unat ` {w. drop_bit n q = drop_bit n w}"
    then obtain w where "k = unat w" "drop_bit n w = drop_bit n q" by auto
    then have "?lo \<le> k" "k \<le> ?lo + (2 ^ n - 1)" using drop_bit_range [of n w "drop_bit n q"] by simp_all
    moreover obtain m where "(2 ^ n :: nat) = Suc m" by (cases "2 ^ n :: nat") auto
    ultimately show "k \<in> {?lo ..< ?lo + 2 ^ n}" by simp
  qed
  then have "card (unat ` {w. drop_bit n q = drop_bit n w}) \<le> 2 ^ n"
    by (metis card_atLeastLessThan add_diff_cancel_left' card_mono finite_atLeastLessThan)
  moreover have "inj_on unat {w. drop_bit n q = drop_bit n w}" by (rule inj_onI) (simp add: word_unat_eq_iff)
  ultimately show ?thesis by (simp add: card_image)
qed

lemma drop_push_drop: "drop_bit n (push_bit n (drop_bit n w)) = drop_bit n w" for w :: "'a::len word"
  by (rule bit_word_eqI) (auto simp: bit_drop_bit_eq bit_push_bit_iff dest: bit_imp_le_length)

lemma Masked_Contains: "Prefix_Contains (Prefix_Masked p) a = Prefix_Contains p a"
  by (cases "pf_Addr p"; cases a)
    (simp_all add: Prefix_Masked_def Prefix_Contains_def drop_push_drop del: drop_bit_push_bit)

definition narrow :: "Prefix \<Rightarrow> bool" where
  "narrow p \<longleftrightarrow> (case pf_Addr p of NoAddr \<Rightarrow> True | Addr4 _ \<Rightarrow> 24 \<le> pf_Bits p | Addr6 _ _ \<Rightarrow> 64 \<le> pf_Bits p)"

lemma not_narrow:
  "(case pf_Addr p of NoAddr \<Rightarrow> False | Addr4 _ \<Rightarrow> pf_Bits p < 24 | Addr6 _ _ \<Rightarrow> pf_Bits p < 64) \<longleftrightarrow> \<not> narrow p"
  by (auto simp: narrow_def split: Addr.splits)

lemma narrow_Masked [simp]: "narrow (Prefix_Masked p) \<longleftrightarrow> narrow p"
  by (simp add: narrow_def Prefix_Masked_def split: Addr.splits)

lemma ParseExceptions_narrow: "ParseExceptions parse ss = Some ps \<Longrightarrow> list_all narrow ps"
  by (induction ss arbitrary: ps) (auto simp: not_narrow split: option.splits if_splits)

lemma narrow_card:
  assumes "narrow p"
  shows "card {w. Prefix_Contains p (Addr4 w)} \<le> 2 ^ 8" "card {w. Prefix_Contains p (Addr6 w z)} \<le> 2 ^ 64"
proof -
  show "card {w. Prefix_Contains p (Addr4 w)} \<le> 2 ^ 8"
  proof (cases "pf_Addr p")
    case (Addr4 q)
    have "card {w. Prefix_Contains p (Addr4 w)} \<le> card {w. drop_bit (32 - pf_Bits p) q = drop_bit (32 - pf_Bits p) w}"
      by (rule card_mono) (auto simp: Prefix_Contains_def Addr4)
    also have "\<dots> \<le> 2 ^ (32 - pf_Bits p)" by (rule card_same_network)
    also have "\<dots> \<le> 2 ^ 8" using assms by (intro power_increasing) (simp_all add: narrow_def Addr4)
    finally show ?thesis .
  qed (simp_all add: Prefix_Contains_def)
  show "card {w. Prefix_Contains p (Addr6 w z)} \<le> 2 ^ 64"
  proof (cases "pf_Addr p")
    case (Addr6 q y)
    have "card {w. Prefix_Contains p (Addr6 w z)} \<le> card {w. drop_bit (128 - pf_Bits p) q = drop_bit (128 - pf_Bits p) w}"
      by (rule card_mono) (auto simp: Prefix_Contains_def Addr6)
    also have "\<dots> \<le> 2 ^ (128 - pf_Bits p)" by (rule card_same_network)
    also have "\<dots> \<le> 2 ^ 64" using assms by (intro power_increasing) (simp_all add: narrow_def Addr6)
    finally show ?thesis .
  qed (simp_all add: Prefix_Contains_def)
qed

lemma word_halves:
  fixes w w' :: "128 word"
  assumes "drop_bit 32 w = drop_bit 32 w'" "(ucast w :: 32 word) = ucast w'"
  shows "w = w'"
proof (rule bit_word_eqI)
  fix n assume "n < LENGTH(128)"
  show "bit w n = bit w' n"
  proof (cases "n < 32")
    case True
    have "bit (ucast w :: 32 word) n = bit (ucast w' :: 32 word) n" by (simp only: assms(2))
    with True show ?thesis by (simp add: bit_ucast_iff)
  next
    case False
    have "bit (drop_bit 32 w) (n - 32) = bit (drop_bit 32 w') (n - 32)" by (simp only: assms(1))
    with False show ?thesis by (simp add: bit_drop_bit_eq)
  qed
qed

lemma narrow_card6:
  assumes "narrow p"
  shows "card {w. Prefix_Contains p (Unmap (Addr6 w []))} \<le> 2 ^ 64"
proof (cases "pf_Addr p")
  case (Addr4 q)
  let ?A = "{w. Prefix_Contains p (Unmap (Addr6 w []))}"
  let ?f = "\<lambda>w :: 128 word. (ucast w :: 32 word)"
  have A: "drop_bit 32 w = 0xFFFF \<and> Prefix_Contains p (Addr4 (?f w))" if "w \<in> ?A" for w
    using that by (auto simp: Prefix_Contains_def Unmap_def Addr4 split: if_splits)
  have "inj_on ?f ?A" by (rule inj_onI) (metis A word_halves)
  then have "card ?A = card (?f ` ?A)" by (simp add: card_image)
  also have "\<dots> \<le> card {v. Prefix_Contains p (Addr4 v)}" by (rule card_mono) (use A in auto)
  also have "\<dots> \<le> 2 ^ 8" by (rule narrow_card(1) [OF assms])
  finally show ?thesis by simp
next
  case (Addr6 q y)
  have "card {w. Prefix_Contains p (Unmap (Addr6 w []))} \<le> card {w. Prefix_Contains p (Addr6 w [])}"
    by (rule card_mono) (auto simp: Prefix_Contains_def Unmap_def Addr6)
  with narrow_card(2) [OF assms, of "[]"] show ?thesis by linarith
qed (simp add: Prefix_Contains_def Unmap_def)

lemma ParseExceptions_length: "ParseExceptions parse ss = Some ps \<Longrightarrow> length ps = length ss"
  by (induction ss arbitrary: ps) (auto split: option.splits if_splits)

lemma opened_card:
  fixes P :: "'a::finite \<Rightarrow> Prefix \<Rightarrow> bool"
  assumes "\<And>w. Q w \<Longrightarrow> \<exists>p \<in> set exc. P w p" and "\<And>p. p \<in> set exc \<Longrightarrow> card {w. P w p} \<le> M"
  shows "card {w. Q w} \<le> M * length exc"
proof -
  have "card {w. Q w} \<le> card (\<Union>p \<in> set exc. {w. P w p})"
    by (rule card_mono) (use assms(1) in auto)
  also have "\<dots> \<le> (\<Sum>p \<in> set exc. card {w. P w p})" by (rule card_UN_le) simp
  also have "\<dots> \<le> M * card (set exc)" using sum_bounded_above [of "set exc" "\<lambda>p. card {w. P w p}" M] assms(2) by (simp add: mult.commute)
  also have "\<dots> \<le> M * length exc" by (simp add: card_length)
  finally show ?thesis .
qed

section \<open>What a client reaches\<close>

text \<open>A sequence of requests on one client, whose idle connections carry over.\<close>

fun client_run :: "'a contract_env_scheme \<Rightarrow> 'w network \<Rightarrow> HttpClient \<Rightarrow> HttpRequest list \<Rightarrow> 'w \<Rightarrow> 'w \<times> NetResponse option list" where
  "client_run E N c [] w = (w, [])"
| "client_run E N c (r # rs) w =
     (case client_Do E N c r w of (c1, w1, x) \<Rightarrow> (case client_run E N c1 rs w1 of (w2, xs) \<Rightarrow> (w2, x # xs)))"

text \<open>Two networks that are the same as far as the client may look: the names and ports of its own
  authority, the allowed addresses, verified TLS of at least version 1.2, and requests to the authority.\<close>

definition same_reachable :: "'a contract_env_scheme \<Rightarrow> HttpClient \<Rightarrow> 'w network \<Rightarrow> 'w network \<Rightarrow> bool" where
  "same_reachable E c N N' \<longleftrightarrow>
     net_lookup N' (hc_Hostname c) = net_lookup N (hc_Hostname c) \<and>
     (\<forall>a. Allowed a (hc_Allowed c) \<longrightarrow> net_dial N' a (hc_Port c) = net_dial N a (hc_Port c)) \<and>
     (\<forall>a t req u. Allowed a (hc_Allowed c) \<and> tc_ServerName t = hc_Hostname c \<and> VersionTLS12 \<le> tc_MinVersion t \<and>
        \<not> tc_InsecureSkipVerify t \<and> parse_url E (hr_URL req) = Some u \<and> u_Scheme u = ''https'' \<and> u_Host u = hc_Authority c
        \<longrightarrow> net_exchange N' a t req = net_exchange N a t req)"

definition client_safe :: "HttpClient \<Rightarrow> bool" where
  "client_safe c \<longleftrightarrow> list_all (\<lambda>a. Allowed a (hc_Allowed c)) (hc_Idle c) \<and> tc_ServerName (hc_TLS c) = hc_Hostname c \<and>
     VersionTLS12 \<le> tc_MinVersion (hc_TLS c) \<and> \<not> tc_InsecureSkipVerify (hc_TLS c)"

text \<open>Everything but the idle connections.\<close>

definition client_core :: "HttpClient \<Rightarrow> HttpClient" where
  "client_core c = c\<lparr>hc_Idle := []\<rparr>"

lemma client_core_eqD:
  "client_core c' = client_core c \<Longrightarrow> hc_Authority c' = hc_Authority c \<and> hc_Hostname c' = hc_Hostname c \<and>
     hc_Port c' = hc_Port c \<and> hc_TLS c' = hc_TLS c \<and> hc_Allowed c' = hc_Allowed c"
  by (cases c; cases c') (simp add: client_core_def)

lemma client_keep:
  "client_safe c \<Longrightarrow> Allowed a (hc_Allowed c) \<Longrightarrow> client_safe (c\<lparr>hc_Idle := a # hc_Idle c\<rparr>)"
  "client_core (c\<lparr>hc_Idle := as\<rparr>) = client_core c"
  by (simp_all add: client_safe_def client_core_def)

lemma safenet_New_safe: "safenet_New E base p = Some c \<Longrightarrow> client_safe c"
  by (auto simp: safenet_New_def client_safe_def VersionTLS12_def split: option.splits if_splits)

lemma dial_loop_in: "dial_loop N port as w = (w', Some a) \<Longrightarrow> a \<in> set as"
  by (induction as arbitrary: w) (auto split: prod.splits bool.splits)

lemma dial_loop_cong:
  "(\<And>a. a \<in> set as \<Longrightarrow> net_dial N' a port = net_dial N a port) \<Longrightarrow> dial_loop N' port as w = dial_loop N port as w"
  by (induction as arbitrary: w) (auto split: prod.splits bool.splits)

lemma DialContext_allowed:
  "DialContext N c h port w = (w', Some a) \<Longrightarrow> Allowed a (hc_Allowed c)"
  by (auto simp: DialContext_def list_all_iff split: if_splits prod.splits option.splits dest: dial_loop_in)

lemma DialContext_cong: "same_reachable E c N N' \<Longrightarrow> DialContext N' c h port w = DialContext N c h port w"
  by (auto simp: DialContext_def same_reachable_def list_all_iff split: prod.splits option.splits intro!: dial_loop_cong)

lemma client_Do_cong:
  assumes "same_reachable E c N N'" "client_safe c"
  shows "client_Do E N' c req w = client_Do E N c req w"
    "client_Do E N c req w = (c1, w1, x) \<Longrightarrow> client_safe c1 \<and> client_core c1 = client_core c"
proof -
  have con: "client_connect N' c u w = client_connect N c u w" for u
    using assms by (simp add: client_connect_def DialContext_cong split: list.splits)
  have safe: "client_connect N c u w = (c2, w2, y) \<Longrightarrow> client_safe c2 \<and> client_core c2 = client_core c \<and>
      (\<forall>a. y = Some a \<longrightarrow> Allowed a (hc_Allowed c2))" for u c2 w2 y
    using assms by (auto simp: client_connect_def client_safe_def client_core_def split: list.splits prod.splits dest: DialContext_allowed)
  have ex: "client_connect N c u w = (c2, w2, Some a) \<Longrightarrow> parse_url E (hr_URL req) = Some u \<Longrightarrow> RoundTrip_ok c u \<Longrightarrow>
      net_exchange N' a (hc_TLS c2) req = net_exchange N a (hc_TLS c2) req" for u c2 w2 a
    using assms safe [of u c2 w2 "Some a"] client_core_eqD [of c2 c]
    unfolding same_reachable_def client_safe_def RoundTrip_ok_def by metis
  show "client_Do E N' c req w = client_Do E N c req w"
    by (auto simp: client_Do_def con ex split: option.splits prod.splits)
  show "client_Do E N c req w = (c1, w1, x) \<Longrightarrow> client_safe c1 \<and> client_core c1 = client_core c"
    using assms(2) by (auto simp: client_Do_def client_keep split: option.splits prod.splits if_splits dest!: safe)
qed

lemma same_reachable_core: "client_core c' = client_core c \<Longrightarrow> same_reachable E c' N N' = same_reachable E c N N'"
  by (drule client_core_eqD) (simp add: same_reachable_def)

lemma client_run_cong: "same_reachable E c N N' \<Longrightarrow> client_safe c \<Longrightarrow> client_run E N' c reqs w = client_run E N c reqs w"
proof (induction reqs arbitrary: c w)
  case (Cons r rs)
  obtain c1 w1 x where d: "client_Do E N c r w = (c1, w1, x)" by (metis prod_cases3)
  note step = client_Do_cong [OF Cons.prems]
  from step(2) [OF d] have "client_safe c1" and core: "client_core c1 = client_core c" by simp_all
  moreover from same_reachable_core [OF core] Cons.prems(1) have "same_reachable E c1 N N'" by blast
  ultimately have "client_run E N' c1 rs w1 = client_run E N c1 rs w1" by (intro Cons.IH)
  then show ?case by (simp add: step(1) d)
qed simp

section \<open>Properties\<close>

text \<open>
  C32: The address policy. An IPv4 address is allowed exactly if it is outside the ranges that are
  never allowed and either one of the exceptions contains it or it is outside every special
  range; an IPv6 address that maps an IPv4 address counts as that address; any other IPv6 address without a zone
  is judged by the IPv6 ranges in the same way. An IPv6 address with a zone is allowed exactly if it is outside four ranges (loopback, private, link-local,
  multicast): exceptions do not apply to it, and the unspecified address and the reserved networks (documentation, Teredo, 6to4, NAT64) are not excluded.
\<close>

theorem Allowed_iff_public_or_excepted:
  "(Allowed (Addr4 v) exc \<longleftrightarrow> \<not> in_ranges never4 (unat v) \<and>
      ((\<exists>p. p \<in> set exc \<and> Prefix_Contains p (Addr4 v)) \<or> \<not> in_ranges special4 (unat v))) \<and>
   (if unat w div 2 ^ 32 = 0xFFFF then Allowed (Addr6 w z) exc = Allowed (Addr4 (of_nat (unat w))) exc
    else if z = [] then (Allowed (Addr6 w z) exc \<longleftrightarrow> \<not> in_ranges never6 (unat w) \<and>
      ((\<exists>p. p \<in> set exc \<and> Prefix_Contains p (Addr6 w z)) \<or> \<not> in_ranges special6 (unat w)))
    else (Allowed (Addr6 w z) exc \<longleftrightarrow> \<not> in_ranges zoned6 (unat w)))"
proof -
  have mapped: "drop_bit 32 w = 0xFFFF \<longleftrightarrow> unat w div 2 ^ 32 = 0xFFFF"
    using unat_drop_bit [of 32 w] by (simp only: word_unat_eq_iff) simp
  have u: "ucast w = (of_nat (unat w) :: 32 word)" by simp
  have v4: "Allowed (Addr4 v) exc \<longleftrightarrow> \<not> in_ranges never4 (unat v) \<and> ((\<exists>p. p \<in> set exc \<and> Prefix_Contains p (Addr4 v)) \<or> \<not> in_ranges special4 (unat v))"
    by (simp add: Allowed_alt Unmap_def never4_iff special4_iff list_ex_iff Bex_def)
  have plain: "Allowed (Addr6 w z) exc \<longleftrightarrow> \<not> never (Addr6 w z) \<and> ((\<exists>p. p \<in> set exc \<and> Prefix_Contains p (Addr6 w z)) \<or> \<not> special (Addr6 w z))"
    if "unat w div 2 ^ 32 \<noteq> 0xFFFF" using that by (simp only: Allowed_alt Unmap_def Addr.case mapped if_False list_ex_iff Bex_def)
  have "Allowed (Addr6 w z) exc = Allowed (Addr4 (of_nat (unat w))) exc" if "unat w div 2 ^ 32 = 0xFFFF"
    by (simp only: Allowed_alt Unmap_def Addr.case mapped that u simp_thms if_True)
  moreover have "Allowed (Addr6 w z) exc \<longleftrightarrow> \<not> in_ranges zoned6 (unat w)" if "unat w div 2 ^ 32 \<noteq> 0xFFFF" "z \<noteq> []"
    using plain [OF that(1)] zoned6_iff [OF that(2), of w] zoned_in_no_prefix [OF that(2)] by blast
  moreover have "Allowed (Addr6 w z) exc \<longleftrightarrow> \<not> in_ranges never6 (unat w) \<and> ((\<exists>p. p \<in> set exc \<and> Prefix_Contains p (Addr6 w z)) \<or> \<not> in_ranges special6 (unat w))"
    if "unat w div 2 ^ 32 \<noteq> 0xFFFF" "z = []"
    using plain [OF that(1)] by (simp only: that(2) never6_iff special6_iff)
  ultimately show ?thesis using v4 by presburger
qed

theorem Allowed_iff_public_or_excepted_witness:
  "Allowed (Addr4 0x08080808) [] \<and> \<not> Allowed (Addr4 0x7F000001) [] \<and> Allowed (Addr6 0xFFFF08080808 []) [] \<and>
   \<not> Allowed (Addr6 0x20010DB8000000000000000000000001 []) [] \<and> Allowed (Addr6 0x20010DB8000000000000000000000001 ''eth0'') []"
  using Allowed_iff_public_or_excepted [of "0x08080808" "[]" "0xFFFF08080808" "[]"]
    Allowed_iff_public_or_excepted [of "0xFFFF08080808" "[]" "0xFFFF08080808" "[]"]
    Allowed_iff_public_or_excepted [of "0x7F000001" "[]" "0x20010DB8000000000000000000000001" "[]"]
    Allowed_iff_public_or_excepted [of "0x7F000001" "[]" "0x20010DB8000000000000000000000001" "''eth0''"]
  by (simp add: in_ranges_def never4_def special4_def dotted_def never6_def special6_def zoned6_def net16_def)

text \<open>
  Exceptions are narrow. Each network that \<^verbatim>\<open>ParseExceptions\<close> accepts contains at most 256 IPv4
  addresses and at most 2 to the 64 IPv6 addresses, so a list of exceptions can open only so
  many addresses that the policy would otherwise refuse.
\<close>

theorem exceptions_open_few_addresses:
  assumes "ParseExceptions parse ss = Some exc"
  shows "card {w. Allowed (Addr4 w) exc \<and> \<not> Allowed (Addr4 w) []} \<le> 256 * length ss \<and>
    card {w. Allowed (Addr6 w []) exc \<and> \<not> Allowed (Addr6 w []) []} \<le> 2 ^ 64 * length ss"
proof -
  note narrow = ParseExceptions_narrow [OF assms]
  have len: "length exc = length ss" using assms by (rule ParseExceptions_length)
  have "card {w. Allowed (Addr4 w) exc \<and> \<not> Allowed (Addr4 w) []} \<le> 256 * length exc"
    by (rule opened_card [where P = "\<lambda>w p. Prefix_Contains p (Addr4 w)"])
      (use narrow narrow_card(1) in \<open>auto simp: Allowed_alt Unmap_def list_ex_iff list_all_iff\<close>)
  moreover have "card {w. Allowed (Addr6 w []) exc \<and> \<not> Allowed (Addr6 w []) []} \<le> 2 ^ 64 * length exc"
    by (rule opened_card [where P = "\<lambda>w p. Prefix_Contains p (Unmap (Addr6 w []))"])
      (use narrow narrow_card6 in \<open>auto simp: Allowed_alt list_ex_iff list_all_iff\<close>)
  ultimately show ?thesis by (simp add: len)
qed

theorem exceptions_open_few_addresses_witness:
  "\<exists>exc. ParseExceptions (\<lambda>s. Some (net4 0x0A000500 24)) [''10.0.5.0/24''] = Some exc \<and> Allowed (Addr4 0x0A000507) exc \<and>
     card {w. Allowed (Addr4 w) exc \<and> \<not> Allowed (Addr4 w) []} \<le> 256"
proof -
  have p: "ParseExceptions (\<lambda>s. Some (net4 0x0A000500 24)) [''10.0.5.0/24''] = Some [net4 0x0A000500 24]"
    by (simp add: Prefix_Masked_def)
  have "Allowed (Addr4 0x0A000507) [net4 0x0A000500 24]"
    by (simp add: Allowed_alt Unmap_def never4_iff never4_def dotted_def Prefix_Contains_def)
  with exceptions_open_few_addresses [OF p] p show ?thesis by auto
qed

text \<open>
  C33: A client stays on its own host. However the network behaves, a sequence of requests on a
  client of \<^verbatim>\<open>safenet.New\<close> goes exactly as it would if every name but its own host, every address
  the policy refuses, every port but its own, every TLS session that is older than 1.2, not verified or
  for another name, and every request to another authority behaved differently: none of them
  is ever used.
\<close>

theorem client_stays_on_its_host:
  assumes "safenet_New E base p = Some c"
    and "same_reachable E c N N'"
  shows "client_run E N' c reqs w = client_run E N c reqs w \<and> hc_Allowed c = po_AllowedCIDRs p \<and>
    (\<exists>u. parse_url E base = Some u \<and> u_Scheme u = ''https'' \<and> hc_Authority c = u_Host u \<and> hc_Hostname c = u_Hostname u)"
  using client_run_cong [OF assms(2) safenet_New_safe [OF assms(1)]] assms(1)
  by (auto simp: safenet_New_def split: option.splits if_splits)

text \<open>A network where the second resolved address of the host is private.\<close>

definition demo_network :: "nat network" where
  "demo_network =
     \<lparr>net_lookup = (\<lambda>h w. (w, if w = 0 then Some [Addr4 0x01010101] else Some [Addr4 0x01010101, Addr4 0x0A000001])),
      net_dial = (\<lambda>a p w. (w, True)),
      net_exchange = (\<lambda>a t r w. (Suc w, Some \<lparr>hs_StatusCode = 200, hs_Body = Some ''ok'', hs_ContentType = []\<rparr>, False))\<rparr>"

definition demo_outgoing :: HttpRequest where
  "demo_outgoing = \<lparr>hr_Method = ''GET'', hr_URL = ''https://h/x'', hr_Header = [], hr_BasicAuth = None, hr_Body = []\<rparr>"

theorem client_stays_on_its_host_witness:
  "\<exists>c. safenet_New demo_contract_env ''https://h'' \<lparr>po_AllowedCIDRs = [], po_TLSConfig = None\<rparr> = Some c \<and>
     client_run demo_contract_env (demo_network\<lparr>net_dial := (\<lambda>a p w. if a = Addr4 0x0A000001 then (7, False) else (w, True))\<rparr>) c
       [demo_outgoing, demo_outgoing] 0 = (1, [Some \<lparr>hs_StatusCode = 200, hs_Body = Some ''ok'', hs_ContentType = []\<rparr>, None])"
proof -
  let ?N = "demo_network\<lparr>net_dial := (\<lambda>a p w. if a = Addr4 0x0A000001 then (7, False) else (w, True))\<rparr>"
  let ?c = "\<lparr>hc_Authority = ''h'', hc_Hostname = ''h'', hc_Port = ''443'', hc_TLS = \<lparr>tc_MinVersion = VersionTLS12, tc_ServerName = ''h'',
     tc_InsecureSkipVerify = False, tc_Certificates = []\<rparr>, hc_Allowed = [], hc_Idle = []\<rparr>"
  have new: "safenet_New demo_contract_env ''https://h'' \<lparr>po_AllowedCIDRs = [], po_TLSConfig = None\<rparr> = Some ?c"
    by (simp add: safenet_New_def demo_contract_env_def id_env.defs HasPrefix_def HasSuffix_def https_port_def)
  have pub: "Allowed (Addr4 0x01010101) []" and priv: "\<not> Allowed (Addr4 0x0A000001) []"
    by (simp_all add: Allowed_alt Unmap_def never4_iff special4_iff never4_def special4_def dotted_def)
  have "same_reachable demo_contract_env ?c demo_network ?N"
    using priv by (auto simp: same_reachable_def demo_network_def)
  from client_stays_on_its_host [OF new this, of "[demo_outgoing, demo_outgoing]" 0]
  have "client_run demo_contract_env ?N ?c [demo_outgoing, demo_outgoing] 0 = client_run demo_contract_env demo_network ?c [demo_outgoing, demo_outgoing] 0"
    by simp
  also have "\<dots> = (1, [Some \<lparr>hs_StatusCode = 200, hs_Body = Some ''ok'', hs_ContentType = []\<rparr>, None])"
    by (simp add: client_Do_def client_connect_def DialContext_def RoundTrip_ok_def demo_network_def demo_outgoing_def pub priv
      demo_contract_env_def id_env.defs HasPrefix_def https_port_def)
  finally show ?thesis using new by blast
qed

end
