(* ===== verification/Http_Props.thy ===== *)
theory Http_Props
  imports Http_Serve Http_Limits Remote_Props Safenet_Props Broker_Props
begin

text \<open>
  The audience under which a path is verified against the operation it reaches. What a request can do once it is verified is in \<open>Http_Flow\<close>.
\<close>

section \<open>Paths and operations\<close>

lemma Contains_iff: "Contains s sub \<longleftrightarrow> (\<exists>a b. s = a @ sub @ b)"
proof (induction s sub rule: Contains.induct)
  case (2 x xs sub)
  show ?case
  proof
    assume "Contains (x # xs) sub"
    then consider "HasPrefix (x # xs) sub" | "Contains xs sub" by auto
    then show "\<exists>a b. x # xs = a @ sub @ b"
    proof cases
      case 1
      then show ?thesis by (metis HasPrefix_iff append_Nil)
    next
      case 2
      with \<open>Contains xs sub = (\<exists>a b. xs = a @ sub @ b)\<close> show ?thesis by (metis append_Cons)
    qed
  next
    assume "\<exists>a b. x # xs = a @ sub @ b"
    then obtain a b where "x # xs = a @ sub @ b" by blast
    then show "Contains (x # xs) sub"
    proof (cases a)
      case Nil
      with \<open>x # xs = a @ sub @ b\<close> show ?thesis by (metis Contains.simps(2) HasPrefix_iff append_Nil)
    qed (use 2 in auto)
  qed
qed simp

lemma trailing_slashes: "\<exists>k. s = rev (dropWhile (\<lambda>c. c = CHR ''/'') (rev s)) @ replicate k (CHR ''/'')"
proof -
  let ?t = "takeWhile (\<lambda>c. c = CHR ''/'') (rev s)"
  have "?t = replicate (length ?t) (CHR ''/'')" by (auto dest: set_takeWhileD intro: replicate_eqI)
  moreover have "s = rev (dropWhile (\<lambda>c. c = CHR ''/'') (rev s)) @ rev ?t"
    by (metis rev_append rev_rev_ident takeWhile_dropWhile_id)
  ultimately show ?thesis by (metis rev_replicate)
qed

text \<open>A path of the signed surface is its parts, joined, with at most one slash behind.\<close>

lemma path_of_parts:
  assumes "HasPrefix p ''/v1/''" "\<not> Contains p ''//''"
  shows "\<exists>rest e. path_parts p = ''v1'' # rest \<and> p = CHR ''/'' # Join CHR ''/'' (''v1'' # rest) @ e \<and> (e = [] \<or> e = ''/'')"
proof -
  from assms(1) obtain q where p: "p = ''/v1/'' @ q" by (auto simp: HasPrefix_iff)
  let ?s = "''v1/'' @ q" and ?t = "trim_slashes p"
  obtain k where k: "?s = ?t @ replicate k (CHR ''/'')" using trailing_slashes [of ?s] by (auto simp: trim_slashes_def p)
  have "k \<le> 1"
  proof (rule ccontr)
    assume "\<not> k \<le> 1"
    then obtain j where "k = Suc (Suc j)" by (metis One_nat_def not_less_eq_eq old.nat.exhaust le0)
    then have "p = (CHR ''/'' # ?t) @ ''//'' @ replicate j (CHR ''/'')" using k by (simp add: p)
    with assms(2) show False unfolding Contains_iff by metis
  qed
  then have e: "replicate k (CHR ''/'') = [] \<or> replicate k (CHR ''/'') = ''/''" by (cases k) auto
  have "\<exists>t'. ?t = ''v1'' @ t' \<and> (t' = [] \<or> hd t' = CHR ''/'')"
  proof (cases "k = 0")
    case True
    then show ?thesis using k by (intro exI [of _ "''/'' @ q"]) simp
  next
    case False
    with e have "?s = ?t @ ''/''" using k by (cases k) auto
    then have "?t = butlast ?s" by (metis butlast_snoc)
    then show ?thesis by (cases q) (auto intro!: exI [of _ "butlast (''/'' @ q)"])
  qed
  then obtain t' where t': "?t = ''v1'' @ t'" "t' = [] \<or> hd t' = CHR ''/''" by blast
  have "\<exists>rest. path_parts p = ''v1'' # rest"
    using t' by (cases t') (auto simp: path_parts_def)
  then obtain rest where r: "path_parts p = ''v1'' # rest" by blast
  have "?t = Join CHR ''/'' (''v1'' # rest)" using Join_Split [of "CHR ''/''" ?t] by (simp add: r [symmetric] path_parts_def)
  with k e r show ?thesis by (intro exI [of _ rest] exI [of _ "replicate k (CHR ''/'')"]) (simp add: p)
qed


lemma v1_parts:
  assumes "HasPrefix p ''/v1/''" "\<not> Contains p ''//''"
  shows "HasPrefix p (''/v1/'' @ x @ ''/'') \<Longrightarrow> CHR ''/'' \<notin> set x \<Longrightarrow> x \<noteq> [] \<Longrightarrow> 1 < length (path_parts p) \<and> path_parts p ! 1 = x"
    "2 < length (path_parts p) \<Longrightarrow> path_parts p ! 1 = x \<Longrightarrow> HasPrefix p (''/v1/'' @ x @ ''/'')"
    "\<not> HasSuffix p ''/'' \<Longrightarrow> p = CHR ''/'' # Join CHR ''/'' (path_parts p)"
proof -
  obtain rest e where r: "path_parts p = ''v1'' # rest" "p = CHR ''/'' # Join CHR ''/'' (''v1'' # rest) @ e" "e = [] \<or> e = ''/''"
    using path_of_parts [OF assms] by blast
  show "2 < length (path_parts p) \<Longrightarrow> path_parts p ! 1 = x \<Longrightarrow> HasPrefix p (''/v1/'' @ x @ ''/'')"
    using r by (cases rest rule: list.exhaust; cases "tl rest") (auto simp: HasPrefix_iff)
  show "\<not> HasSuffix p ''/'' \<Longrightarrow> p = CHR ''/'' # Join CHR ''/'' (path_parts p)"
    using r by (auto simp: HasSuffix_iff)
  assume "HasPrefix p (''/v1/'' @ x @ ''/'')" and x: "CHR ''/'' \<notin> set x" "x \<noteq> []"
  then obtain q where q: "p = ''/v1/'' @ x @ ''/'' @ q" by (auto simp: HasPrefix_iff)
  have "Split CHR ''/'' (Join CHR ''/'' (''v1'' # rest) @ e) = ''v1'' # x # Split CHR ''/'' q"
    using q r(2) x by (simp add: Split_append)
  moreover have "Split CHR ''/'' (Join CHR ''/'' (''v1'' # rest) @ e) = ''v1'' # rest @ (if e = [] then [] else [[]])"
  proof -
    have "Split CHR ''/'' (Join CHR ''/'' (''v1'' # rest)) = ''v1'' # rest"
      by (metis r(1) Join_Split path_parts_def)
    then show ?thesis using r(3) Split_append_sep [of "CHR ''/''" "Join CHR ''/'' (''v1'' # rest)" "[]"] by auto
  qed
  ultimately have "x # Split CHR ''/'' q = rest @ (if e = [] then [] else [[]])" by simp
  then show "1 < length (path_parts p) \<and> path_parts p ! 1 = x" using x by (cases rest) (auto simp: r(1) split: if_splits)
qed

lemma v1_last_part:
  assumes "HasPrefix p ''/v1/''" "\<not> Contains p ''//''" "HasSuffix p (CHR ''/'' # y)" "CHR ''/'' \<notin> set y" "y \<noteq> []"
  shows "last (path_parts p) = y"
proof -
  from assms(3) obtain t where t: "p = t @ CHR ''/'' # y" by (auto simp: HasSuffix_iff)
  have "\<not> HasSuffix p ''/''"
  proof
    assume "HasSuffix p ''/''"
    then have "last p = CHR ''/''" by (auto simp: HasSuffix_iff)
    with t assms(4,5) show False by (auto simp: last_append split: if_splits) (metis last_in_set)
  qed
  define J where "J = Join CHR ''/'' (path_parts p)"
  have j: "p = CHR ''/'' # J" unfolding J_def by (rule v1_parts(3) [OF assms(1,2) \<open>\<not> HasSuffix p ''/''\<close>])
  have s: "path_parts p = Split CHR ''/'' J" by (simp add: J_def path_parts_def)
  show ?thesis
  proof (cases t)
    case Nil
    with t j have "J = y" by simp
    with s Split_single [OF assms(4)] show ?thesis by simp
  next
    case (Cons c t')
    with t j have "J = t' @ CHR ''/'' # y" by simp
    with s assms(4) show ?thesis by (simp add: Split_append_sep Split_single)
  qed
qed

fun runtime_route :: "api_route \<Rightarrow> bool" where
  "runtime_route (RtInspect _) \<longleftrightarrow> True"
| "runtime_route (RtMaterialize _) \<longleftrightarrow> True"
| "runtime_route (RtRelease _) \<longleftrightarrow> True"
| "runtime_route (RtRenew _) \<longleftrightarrow> True"
| "runtime_route _ \<longleftrightarrow> False"

fun approval_route :: "api_route \<Rightarrow> bool" where
  "approval_route (RtApprove _) \<longleftrightarrow> True"
| "approval_route (RtTelegram _) \<longleftrightarrow> True"
| "approval_route _ \<longleftrightarrow> False"

lemma runtime_routeD: "runtime_route (route_of m p) \<Longrightarrow> 2 < length (path_parts p) \<and> path_parts p ! 1 = ''runtime''"
  by (auto simp: route_of_def Let_def split: if_splits)

lemma runtime_pathD:
  "path_parts p ! 1 = ''runtime'' \<Longrightarrow> p \<notin> {''/v1/contracts'', ''/v1/events'', ''/v1/requests'', ''/v1/leases''} \<Longrightarrow>
     runtime_route (route_of m p) \<or> route_of m p = RtNone"
  by (auto simp: route_of_def Let_def)

lemma approval_routeD:
  "approval_route (route_of m p) \<Longrightarrow> length (path_parts p) = 4 \<and> path_parts p ! 1 = ''requests'' \<and>
     (path_parts p ! 3 = ''approve'' \<or> path_parts p ! 3 = ''telegram-submit'')"
  by (auto simp: route_of_def Let_def split: if_splits)

lemma route_of_requests:
  "path_parts p ! 1 = ''requests'' \<Longrightarrow> p \<notin> {''/v1/contracts'', ''/v1/events'', ''/v1/requests'', ''/v1/leases''} \<Longrightarrow>
     route_of m p =
       (if length (path_parts p) = 3 \<and> m = ''GET'' then RtGetRequest (path_parts p ! 2)
        else if length (path_parts p) = 4 \<and> path_parts p ! 3 = ''approve'' \<and> m = ''POST'' then RtApprove (path_parts p ! 2)
        else if length (path_parts p) = 4 \<and> path_parts p ! 3 = ''telegram-submit'' \<and> m = ''POST'' then RtTelegram (path_parts p ! 2)
        else if length (path_parts p) = 4 \<and> path_parts p ! 3 = ''cancel'' \<and> m = ''POST'' then RtCancel (path_parts p ! 2)
        else RtNone)"
  by (simp add: route_of_def Let_def)

lemma approval_pathD:
  assumes "path_parts p ! 1 = ''requests''" "last (path_parts p) \<in> {''approve'', ''telegram-submit''}"
    "p \<notin> {''/v1/contracts'', ''/v1/events'', ''/v1/requests'', ''/v1/leases''}"
  shows "approval_route (route_of m p) \<or> route_of m p \<in> {RtNone, RtGetRequest ''approve'', RtGetRequest ''telegram-submit''}"
proof -
  have "path_parts p \<noteq> []" by (simp add: path_parts_def)
  then have l: "last (path_parts p) = path_parts p ! (length (path_parts p) - 1)" by (rule last_conv_nth)
  note r = route_of_requests [OF assms(1,3), of m]
  consider "length (path_parts p) = 3" | "length (path_parts p) = 4" | "length (path_parts p) \<noteq> 3" "length (path_parts p) \<noteq> 4" by blast
  then show ?thesis
  proof cases
    case 1
    then have "path_parts p ! 2 \<in> {''approve'', ''telegram-submit''}" using assms(2) l by simp
    then show ?thesis using r 1 by (cases "m = ''GET''") auto
  next
    case 2
    then consider "path_parts p ! 3 = ''approve''" | "path_parts p ! 3 = ''telegram-submit''" using assms(2) l by auto
    then show ?thesis using r 2 by cases (cases "m = ''POST''"; simp)+
  next
    case 3
    then show ?thesis using r by simp
  qed
qed

section \<open>Properties\<close>

text \<open>
  Audiences separate the planes. On a path of the signed surface that passes the path checks, an
  operation on a lease of the runtime is reached exactly under the runtime audience; the
  approval audience reaches no operation but the two approvals (and a lookup of a request with
  one of two reserved names); and an approval whose path does not end in a slash is reached under the
  approval audience only.
\<close>

theorem audience_separates_planes:
  assumes "HasPrefix p ''/v1/''" and "\<not> Contains p ''//''"
  shows "(route_of m p \<noteq> RtNone \<longrightarrow> (runtime_route (route_of m p) \<longleftrightarrow> audience_of p = ''broker:runtime'')) \<and>
    (audience_of p = ''broker:approve'' \<longrightarrow>
       approval_route (route_of m p) \<or> route_of m p \<in> {RtNone, RtGetRequest ''approve'', RtGetRequest ''telegram-submit''}) \<and>
    (approval_route (route_of m p) \<and> \<not> HasSuffix p ''/'' \<longrightarrow> audience_of p = ''broker:approve'')"
proof (intro conjI impI)
  note parts = v1_parts [OF assms]
  let ?short = "{''/v1/contracts'', ''/v1/events'', ''/v1/requests'', ''/v1/leases''}"
  have short: "HasPrefix p (''/v1/'' @ x @ ''/'') \<Longrightarrow> x \<in> {''runtime'', ''requests''} \<Longrightarrow> p \<notin> ?short" for x
    by (auto simp: HasPrefix_def)
  assume some: "route_of m p \<noteq> RtNone"
  show "runtime_route (route_of m p) \<longleftrightarrow> audience_of p = ''broker:runtime''"
  proof
    assume "runtime_route (route_of m p)"
    from runtime_routeD [OF this] parts(2) have "HasPrefix p (''/v1/'' @ ''runtime'' @ ''/'')" by blast
    then show "audience_of p = ''broker:runtime''" by (auto simp: audience_of_def HasPrefix_iff)
  next
    assume "audience_of p = ''broker:runtime''"
    then have pre: "HasPrefix p (''/v1/'' @ ''runtime'' @ ''/'')" by (auto simp: audience_of_def split: if_splits)
    with parts(1) [of "''runtime''"] runtime_pathD [of p m] short [OF pre] some show "runtime_route (route_of m p)" by auto
  qed
next
  note parts = v1_parts [OF assms]
  assume "audience_of p = ''broker:approve''"
  then have pre: "HasPrefix p (''/v1/'' @ ''requests'' @ ''/'')" and suf: "HasSuffix p ''/approve'' \<or> HasSuffix p ''/telegram-submit''"
    by (auto simp: audience_of_def split: if_splits)
  from suf v1_last_part [OF assms, of "''approve''"] v1_last_part [OF assms, of "''telegram-submit''"]
  have "last (path_parts p) \<in> {''approve'', ''telegram-submit''}" by auto
  moreover have "path_parts p ! 1 = ''requests''" using parts(1) [OF pre] by simp
  moreover have "p \<notin> {''/v1/contracts'', ''/v1/events'', ''/v1/requests'', ''/v1/leases''}" using pre by (auto simp: HasPrefix_def)
  ultimately show "approval_route (route_of m p) \<or> route_of m p \<in> {RtNone, RtGetRequest ''approve'', RtGetRequest ''telegram-submit''}"
    by (intro approval_pathD)
next
  note parts = v1_parts [OF assms]
  assume a: "approval_route (route_of m p) \<and> \<not> HasSuffix p ''/''"
  then have d: "length (path_parts p) = 4" "path_parts p ! 1 = ''requests''" "path_parts p ! 3 \<in> {''approve'', ''telegram-submit''}"
    using approval_routeD [of m p] by auto
  then have "HasPrefix p (''/v1/'' @ ''requests'' @ ''/'')" using parts(2) by simp
  moreover obtain x y z w where l: "path_parts p = [x, y, z, w]" using d(1) by (auto simp: numeral_eq_Suc length_Suc_conv)
  with a d(3) parts(3) have "p = (CHR ''/'' # x @ CHR ''/'' # y @ CHR ''/'' # z) @ CHR ''/'' # w" "w \<in> {''approve'', ''telegram-submit''}" by auto
  then have "HasSuffix p ''/approve'' \<or> HasSuffix p ''/telegram-submit''" unfolding HasSuffix_iff by blast
  ultimately show "audience_of p = ''broker:approve''" by (simp add: audience_of_def)
qed

theorem audience_separates_planes_witness:
  "runtime_route (route_of ''POST'' ''/v1/runtime/leases/l/renew'') \<and> audience_of ''/v1/runtime/leases/l/renew'' = ''broker:runtime''"
proof -
  have "HasPrefix ''/v1/runtime/leases/l/renew'' ''/v1/''" "\<not> Contains ''/v1/runtime/leases/l/renew'' ''//''"
    "route_of ''POST'' ''/v1/runtime/leases/l/renew'' = RtRenew ''l''"
    by (simp_all add: HasPrefix_def route_of_def path_parts_def trim_slashes_def numeral_nat)
  with audience_separates_planes [of "''/v1/runtime/leases/l/renew''" "''POST''"] show ?thesis by simp
qed

end
