(* ===== verification/Demo_Http.thy ===== *)
theory Demo_Http
  imports Http_Serve Demo_Broker Safenet_Props
begin

text \<open>
  A concrete server for the witnesses: the broker of \<open>Demo_Broker\<close> with one route in its contract,
  an environment whose assertions name one request, and a network with one host.
\<close>

definition proxy_claims :: Claims where
  "proxy_claims = demo_claims\<lparr>cl_IssuedAt := 0, cl_ExpiresAt := 60, cl_Method := ''GET'', cl_RequestURI := ''/v1/runtime/proxy/l1/gh/x'',
     cl_BodySHA256 := Hash demo_oauth_env []\<rparr>"

definition demo_http_env :: http_env where
  "demo_http_env = oauth_env.extend (demo_oauth_env\<lparr>decode_claims := (\<lambda>_. Some proxy_claims)\<rparr>)
     \<lparr>decode_create_request = (\<lambda>_. None), decode_grant_request = (\<lambda>_. None), decode_acquire = (\<lambda>_. Some \<lparr>al_GrantID = ''g1'', al_TTLSeconds = 30\<rparr>), decode_release = (\<lambda>_. None),
      decode_approve = Some, decode_telegram = (\<lambda>_. None), decode_ttl = (\<lambda>_. Some 30), parse_media_type = (\<lambda>_. Some (''multipart/form-data'', [(''boundary'', ''b'')])),
      parse_query = (\<lambda>_. ([], True)), split_host_port = (\<lambda>_. None), parse_ip = (\<lambda>_. False),
      multipart_parts = (\<lambda>_ _. ([(''csrf'', Some ''t''), (''token'', Some ''ghp_x'')], True)), quality = (\<lambda>_. None), url_string = u_Host,
      x509_key_pair = (\<lambda>_ _. False)\<rparr>"

definition demo_route :: Route where
  "demo_route = \<lparr>r_ID = ''gh'', r_BaseURL = ''https://h'', r_PathPrefixes = [''/''], r_Methods = [''GET''], r_Auth = ''bearer'', r_Field = ''token'',
     r_PasswordField = [], r_Header = [], r_StaticHeaders = []\<rparr>"

definition routed_broker :: "unit Broker" where
  "routed_broker = demo_broker\<lparr>b_catalog := [(''github-pat@1'', demo_contract\<lparr>c_Routes := [demo_route]\<rparr>)]\<rparr>"

definition demo_server :: "unit Server" where
  "demo_server = \<lparr>srv_broker = routed_broker, srv_keys = demo_trusted, srv_DevHTTP = False, srv_host = ''h'', srv_origin = ''https://h'', srv_apiHosts = [],
     srv_policy = \<lparr>po_AllowedCIDRs = [], po_TLSConfig = None\<rparr>, srv_slots = 0, srv_limits = [], srv_clients = []\<rparr>"

definition demo_net :: "unit network" where
  "demo_net = \<lparr>net_lookup = (\<lambda>h w. (w, Some [Addr4 0x08080808])), net_dial = (\<lambda>a p w. (w, True)),
     net_exchange = (\<lambda>a t q w. (w, Some \<lparr>hs_StatusCode = 200, hs_Body = Some ''ok'', hs_ContentType = ''text/plain''\<rparr>, False))\<rparr>"

definition demo_ctx :: "unit Ctx" where
  "demo_ctx = \<lparr>cx_now = (\<lambda>_. second), cx_rnd = (\<lambda>k. if k = 0 then ''xyz'' else ''uvw''), cx_other = (\<lambda>_. id)\<rparr>"

definition signed_in :: "string \<Rightarrow> string \<Rightarrow> HttpIn" where
  "signed_in m p = \<lparr>in_Method = m, in_Path = p, in_RawPath = [], in_RawQuery = [], in_RequestURI = p, in_Host = ''h'', in_RemoteAddr = ''1.1.1.1:9'',
     in_TLS = True, in_Authorization = [''Bearer '' @ demo_token], in_Header = [], in_Cookies = [], in_Body = [], in_BodyError = False\<rparr>"

lemma demo_http_env_sel [simp]:
  "sha256 demo_http_env = sha256 demo_oauth_env" "json_record demo_http_env = demo_json" "decode_claims demo_http_env x = Some proxy_claims"
  "ed25519_verify demo_http_env = (\<lambda>k m s. s = m)" "json_tokens demo_http_env = (\<lambda>b. ([TScalar b], True))" "json_mutation demo_http_env m = ''{}''"
  "parse_url demo_http_env = parse_url demo_contract_env" "decode_acquire demo_http_env x = Some \<lparr>al_GrantID = ''g1'', al_TTLSeconds = 30\<rparr>"
  by (simp_all add: demo_http_env_def oauth_env.defs) (simp_all add: demo_env_defs)

lemma demo_http_env_ok: "env_ok demo_http_env"
  using demo_oauth_env_ok by (simp add: demo_http_env_def oauth_env.defs env_ok_def gcm_ok_def)

lemma routed_broker_sel [simp]:
  "b_catalog routed_broker = [(''github-pat@1'', demo_contract\<lparr>c_Routes := [demo_route]\<rparr>)]" "b_requests routed_broker = [(''r1'', demo_request)]"
  "b_sessions routed_broker = [(ss_Hash demo_session, demo_session)]" "b_credentials routed_broker = [(''c1'', demo_credential)]"
  "b_grants routed_broker = [(''g1'', demo_grant)]" "b_states routed_broker = []" "b_oauth routed_broker = [(oa_StateHash demo_oauth, demo_oauth)]"
  "b_cfg routed_broker = demo_cfg" "b_leases routed_broker = [(''l1'', demo_leaserec)]" "\<not> b_closed routed_broker"
  "b_journal routed_broker = Journal demo_core None None" "b_canceled routed_broker = []"
  by (simp_all add: routed_broker_def)

lemma routed_roomy: "roomy demo_http_env 50 (b_journal routed_broker)"
  using demo_core_roomy [OF demo_http_env_ok] demo_sha_length by simp

lemma routed_broker_ok: "broker_ok demo_http_env routed_broker"
  using roomy_inv [OF routed_roomy] by (simp add: broker_ok_def keyed_def demo_request_def demo_credential_def demo_grant_def)

lemma routed_live: "live routed_broker"
  using roomy_inv [OF routed_roomy] by (simp add: live_def)

lemma proxy_Verify:
  "Verify demo_http_env demo_trusted 1 demo_token ''broker:runtime'' ''GET'' ''/v1/runtime/proxy/l1/gh/x'' [] = Some demo_actor"
proof -
  have sp: "Split CHR ''.'' demo_token = [b64_encode ''{}'', b64_encode (assertion_prefix @ b64_encode ''{}'')]"
    unfolding demo_token_def using b64_no_dot by (simp add: Split_append Split_single)
  have "strictjson_Decode demo_http_env (decode_claims demo_http_env) ''{}'' = Some proxy_claims"
    by (simp add: strictjson_Decode_def strict_tokens_def in_range_def numeral_nat)
  moreover have "claims_fresh proxy_claims 1" by (simp add: claims_fresh_def proxy_claims_def demo_claims_def wrap64_def)
  moreover have "ValidID (a_BindingID demo_actor)" "ValidID (a_WorkloadID demo_actor)"
    by (simp_all add: demo_actor_def ValidID_def is_lower_def is_digit_def in_range_def)
  moreover have "cl_KeyID proxy_claims = ''k''" "cl_Version proxy_claims = 1" "cl_Issuer proxy_claims = ''hub''"
    "cl_Audience proxy_claims = ''broker:runtime''" "cl_Method proxy_claims = ''GET''" "cl_RequestURI proxy_claims = ''/v1/runtime/proxy/l1/gh/x''"
    "cl_BodySHA256 proxy_claims = Hash demo_http_env []" "cl_Actor proxy_claims = demo_actor"
    by (simp_all add: proxy_claims_def demo_claims_def Hash_def)
  ultimately show ?thesis
    using demo_token_length demo_actor_valid sp by (simp add: Verify_def demo_trusted_def)
qed

lemma routed_revoke: "\<exists>b1. RevokeGrant demo_http_env 0 demo_actor ''g1'' routed_broker = (b1, Inr ())"
proof -
  have g: "gr_CredentialID (gd_View demo_grant) = ''c1''" "gr_Active (gd_View demo_grant)" by (simp_all add: demo_grant_def)
  have m: "managedBy demo_actor demo_credential" by (simp add: managedBy_def demo_actor_def demo_credential_def)
  show ?thesis
    using roomy_commit [of demo_http_env 49 routed_broker "(audit_only ((grant_event 0 ''grant.revoked'' demo_actor (cr_ID (cd_View demo_credential)) (gd_View demo_grant))
        \<lparr>ev_GrantID := ''g1''\<rparr>))\<lparr>mu_Grant := Some (deactivated demo_grant)\<rparr>"] routed_roomy routed_live
    by (auto simp: RevokeGrant_def g m)
qed

section \<open>A request through the proxy\<close>

definition routed_use :: Use where
  "routed_use = \<lparr>us_Actor = demo_actor, us_Lease = ''l1'', us_Op = newID ''u'' ''xyz'', us_Deadline = 60 * second,
     us_Contract = requestContract (demo_contract\<lparr>c_Routes := [demo_route]\<rparr>) None (demotedSet []), us_CredentialID = ''c1'', us_Ref = demo_ref\<rparr>"

lemma routed_BeginUse:
  obtains b1 where "BeginUse demo_http_env second ''xyz'' demo_actor ''l1'' routed_broker = (b1, Inr routed_use)" "Use_Valid second routed_use b1"
    "broker_resolve demo_ref b1 = (b1, Inr [(''token'', ''ghp_x'')])"
proof -
  let ?ev = "(audit second ''lease.used'' demo_actor)\<lparr>ev_LeaseID := ''l1'', ev_GrantID := ''g1'', ev_CredentialID := ''c1'', ev_BindingID := ''b1'', ev_WorkloadID := ''w1''\<rparr>"
  let ?l = "demo_leaserec\<lparr>lr_Active := [newID ''u'' ''xyz'', ''u1'']\<rparr>"
  obtain j k where c: "commit demo_http_env (audit_only ?ev) routed_broker = (apply_mutation (audit_only ?ev) k (routed_broker\<lparr>b_journal := j\<rparr>), Inr k)"
    using roomy_commit [of demo_http_env 49 routed_broker "audit_only ?ev"] routed_roomy by auto
  define b0 where "b0 = apply_mutation (audit_only ?ev) k (routed_broker\<lparr>b_journal := j\<rparr>)"
  define b1 where "b1 = b0\<lparr>b_leases := [(''l1'', ?l)]\<rparr>"
  have live: "live b1" using commit_live [OF c routed_broker_ok] by (simp add: b1_def b0_def live_def)
  have sel: "b_catalog b0 = b_catalog routed_broker" "b_grants b1 = b_grants routed_broker" "b_credentials b1 = b_credentials routed_broker"
    "b_cfg b1 = demo_cfg" "b_canceled b1 = []" "b_leases b1 = [(''l1'', ?l)]" "b_leases b0 = [(''l1'', demo_leaserec)]"
    by (simp_all add: b1_def b0_def put_opt_def)
  have g: "gr_ID (gd_View demo_grant) = ''g1''" "gr_BindingID (gd_View demo_grant) = ''b1''" "gr_WorkloadID (gd_View demo_grant) = ''w1''"
    "gd_ContractKey demo_grant = ''github-pat@1''" "cr_ID (cd_View demo_credential) = ''c1''" "cd_Ref demo_credential = demo_ref"
    "cr_Status (cd_View demo_credential) = ''active''" "cr_Revision (cd_View demo_credential) = 1" "cd_Extra demo_credential = None" "cd_Demoted demo_credential = []"
    by (simp_all add: demo_grant_def demo_credential_def no_credential_def)
  have m: "grantMatches demo_actor demo_grant" by (simp add: grantMatches_def demo_actor_def demo_grant_def)
  have v: "ValidID (a_BindingID demo_actor)" "ValidID (a_WorkloadID demo_actor)"
    by (simp_all add: demo_actor_def ValidID_def is_lower_def is_digit_def in_range_def)
  have "lease second demo_actor ''l1'' routed_broker = Inr (demo_leaserec, demo_grant, demo_credential)"
    using routed_live m g by (simp add: lease_def demo_leaserec_def)
  then have "BeginUse demo_http_env second ''xyz'' demo_actor ''l1'' routed_broker = (b1, Inr routed_use)"
    using v c sel(1,7) g by (simp add: BeginUse_def b0_def [symmetric] b1_def routed_use_def go_get_def demo_leaserec_def Let_def)
  moreover have "Use_Valid second routed_use b1"
    using live m g sel by (simp add: Use_Valid_def routed_use_def lease_def demo_leaserec_def)
  moreover have "broker_resolve demo_ref b1 = (b1, Inr [(''token'', ''ghp_x'')])"
    using sel by (simp add: broker_resolve_def Registry_Resolve_def demo_ref_def demo_cfg_def demo_store_def)
  ultimately show thesis using that by blast
qed

lemma routed_contract:
  "c_Routes (us_Contract routed_use) = [demo_route]" "ValidateValues demo_http_env (us_Contract routed_use) [(''token'', ''ghp_x'')]"
  by (simp_all add: routed_use_def requestContract_def cloneContract_def demotedSet_def ValidateValues_def demo_contract_def value_bad_def ContainsAny_def in_range_def
    MaxBundle_def bundle_get_def Let_def)

definition demo_client :: HttpClient where
  "demo_client = \<lparr>hc_Authority = ''h'', hc_Hostname = ''h'', hc_Port = ''443'', hc_TLS = \<lparr>tc_MinVersion = VersionTLS12, tc_ServerName = ''h'',
     tc_InsecureSkipVerify = False, tc_Certificates = []\<rparr>, hc_Allowed = [], hc_Idle = []\<rparr>"

lemma demo_client_New: "safenet_New demo_http_env ''https://h'' \<lparr>po_AllowedCIDRs = [], po_TLSConfig = None\<rparr> = Some demo_client"
  by (simp add: safenet_New_def) (simp add: demo_client_def demo_contract_env_def id_env.defs HasPrefix_def HasSuffix_def https_port_def)

lemma demo_client_Do:
  assumes "hr_URL req = ''https://h/x''"
  shows "client_Do demo_http_env demo_net demo_client req () = (demo_client, (), Some \<lparr>hs_StatusCode = 200, hs_Body = Some ''ok'', hs_ContentType = ''text/plain''\<rparr>)"
proof -
  have "Allowed (Addr4 0x08080808) []"
    by (simp add: Allowed_alt Unmap_def never4_iff special4_iff never4_def special4_def dotted_def)
  then show ?thesis
    by (simp add: client_Do_def assms) (simp add: client_connect_def DialContext_def RoundTrip_ok_def demo_net_def demo_client_def
      demo_contract_env_def id_env.defs HasPrefix_def https_port_def)
qed

lemma routed_proxy_used:
  assumes "Resolve demo_http_env (\<lambda>k. second) (\<lambda>k. id) routed_use b1 = (b1, Inr [(''token'', ''ghp_x'')])" "Use_Valid second routed_use b1"
    "srv_broker s = b1" "srv_policy s = \<lparr>po_AllowedCIDRs = [], po_TLSConfig = None\<rparr>" "srv_clients s = []"
  shows "rp_Out (snd (proxy_used demo_http_env demo_net demo_ctx (signed_in ''GET'' p) ''gh'' ''/x'' [] routed_use s)) = OutProxy ''ok'' ''text/plain''"
    "rp_Status (snd (proxy_used demo_http_env demo_net demo_ctx (signed_in ''GET'' p) ''gh'' ''/x'' [] routed_use s)) = 200"
proof -
  let ?r = "signed_in ''GET'' p"
  have al: "Route_Allows demo_route ''GET'' ''/x''"
    by (simp add: Route_Allows_def demo_route_def SafeRelative_def path_Clean_def HasPrefix_def ContainsAny_def)
  have t: "proxy_target ?r demo_route ''/x'' = ''https://h/x''"
    by (simp add: proxy_target_def demo_route_def signed_in_def TrimSuffix_def HasSuffix_def HasPrefix_def)
  have url: "\<exists>u. parse_url demo_contract_env ''https://h/x'' = Some u" by (simp add: demo_contract_env_def id_env.defs HasPrefix_def)
  have auth: "proxy_auth demo_http_env demo_ctx pol demo_route routed_use [(''token'', ''ghp_x'')] q b1 =
      (b1, Inr (q\<lparr>hr_Header := header_set ''Authorization'' ''Bearer ghp_x'' (hr_Header q)\<rparr>, ''ghp_x'', pol))" for pol q
    by (simp add: proxy_auth_def demo_route_def go_get_def line_breaks_def ContainsAny_def Let_def)
  have route: "r_ID demo_route = ''gh''" "r_BaseURL demo_route = ''https://h''" "r_Auth demo_route = ''bearer''" by (simp_all add: demo_route_def)
  have still: "Use_Valid second routed_use (b1\<lparr>b_world := w\<rparr>)" for w
  proof -
    have "b1\<lparr>b_world := w\<rparr> = b1" by (cases b1) simp
    then show ?thesis by (rule ssubst) (rule assms(2))
  qed
  have send: "rp_Out (snd (proxy_send demo_http_env demo_net demo_ctx key demo_route routed_use [(''token'', ''ghp_x'')] ''ghp_x'' q demo_client z)) = OutProxy ''ok'' ''text/plain'' \<and>
    rp_Status (snd (proxy_send demo_http_env demo_net demo_ctx key demo_route routed_use [(''token'', ''ghp_x'')] ''ghp_x'' q demo_client z)) = 200"
    if "srv_broker z = b1" "hr_URL q = ''https://h/x''" for key q z
    using that assms(2) still demo_client_Do [OF that(2)]
    by (simp add: proxy_send_def Let_def demo_ctx_def proxy_reply_def)
  have ctx: "cx_now demo_ctx = (\<lambda>k. second)" "cx_other demo_ctx = (\<lambda>k. id)" by (simp_all add: demo_ctx_def)
  have m: "in_Method ?r = ''GET''" by (simp add: signed_in_def)
  show "rp_Out (snd (proxy_used demo_http_env demo_net demo_ctx ?r ''gh'' ''/x'' [] routed_use s)) = OutProxy ''ok'' ''text/plain''"
    "rp_Status (snd (proxy_used demo_http_env demo_net demo_ctx ?r ''gh'' ''/x'' [] routed_use s)) = 200"
    using assms url send by (auto simp: proxy_used_def routed_contract route al ctx m t auth proxy_client_def demo_client_New Let_def)
qed

lemma proxy_run:
  obtains s' x where "ServeHTTP demo_http_env demo_net demo_ctx (signed_in ''GET'' ''/v1/runtime/proxy/l1/gh/x'') demo_server = (s', x)"
    "rp_Out x = OutProxy ''ok'' ''text/plain''" "rp_Status x = 200"
proof -
  let ?r = "signed_in ''GET'' ''/v1/runtime/proxy/l1/gh/x''" and ?s = "demo_server\<lparr>srv_slots := Suc 0\<rparr>"
  obtain b1 where b: "BeginUse demo_http_env second ''xyz'' demo_actor ''l1'' routed_broker = (b1, Inr routed_use)" "Use_Valid second routed_use b1"
    "broker_resolve demo_ref b1 = (b1, Inr [(''token'', ''ghp_x'')])"
    by (rule routed_BeginUse)
  have "us_Ref routed_use = demo_ref" by (simp add: routed_use_def)
  then have res: "Resolve demo_http_env (\<lambda>k. second) (\<lambda>k. id) routed_use b1 = (b1, Inr [(''token'', ''ghp_x'')])"
    using b(2,3) routed_contract by (simp add: Resolve_def without_reserved_def reserved_def)
  note used = routed_proxy_used [OF res b(2), of "?s\<lparr>srv_broker := b1\<rparr>" "''/v1/runtime/proxy/l1/gh/x''"]
  have sp: "splitN3 (TrimPrefix ''/v1/runtime/proxy/l1/gh/x'' ''/v1/runtime/proxy/'') = [''l1'', ''gh'', ''x'']"
    by (simp add: splitN3_def TrimPrefix_def HasPrefix_def)
  have ctx: "cx_now demo_ctx k = second" "cx_rnd demo_ctx 0 = ''xyz''" for k by (simp_all add: demo_ctx_def)
  have "rp_Out (snd (proxy demo_http_env demo_net demo_ctx ?r demo_actor [] ?s)) = OutProxy ''ok'' ''text/plain''"
    "rp_Status (snd (proxy demo_http_env demo_net demo_ctx ?r demo_actor [] ?s)) = 200"
    using used by (auto simp: proxy_def sp ctx b(1) demo_server_def signed_in_def split: prod.split)
  moreover have "serve_v1 demo_http_env demo_net demo_ctx ?r ?s = proxy demo_http_env demo_net demo_ctx ?r demo_actor [] ?s"
    using proxy_Verify by (simp add: serve_v1_def ctx signed_in_def demo_server_def HasPrefix_def TrimPrefix_def audience_of_def HasSuffix_def body_limit_def unix_def Let_def)
  moreover have "serve_path demo_http_env demo_net demo_ctx ?r ?s = serve_v1 demo_http_env demo_net demo_ctx ?r ?s"
    by (simp add: serve_path_def browser_path_def signed_in_def HasPrefix_def Let_def)
  moreover have "\<not> host_denied ?r demo_server" "\<not> path_bad ?r" "srv_slots demo_server = 0"
    by (simp_all add: host_denied_def path_bad_def signed_in_def demo_server_def ContainsAny_def HasPrefix_def)
  ultimately have "rp_Out (snd (ServeHTTP demo_http_env demo_net demo_ctx ?r demo_server)) = OutProxy ''ok'' ''text/plain''"
    "rp_Status (snd (ServeHTTP demo_http_env demo_net demo_ctx ?r demo_server)) = 200"
    by (auto simp: ServeHTTP_def split: prod.split)
  then show thesis using that [OF prod.collapse [symmetric]] by blast
qed

end
