(* ===== verification/Http_Flow.thy ===== *)
theory Http_Flow
  imports Http_Refine Http_Props Demo_Http
begin

text \<open>
  What a caller of the server can rely on: the signed surface acts only for a verified assertion, the
  proxy answers only under a lease that is valid to the end and never returns the secret it
  injected, a form is bounded, and a revocation holds against every later request. What an assertion can reach is in \<open>Http_Audience\<close>.
\<close>

section \<open>Replies\<close>

lemma json_reply_sel [simp]:
  "rp_Status (json_reply n out) = n" "rp_Out (json_reply n out) = out"
  by (simp_all add: json_reply_def)

lemma unauthorized_reply_sel [simp]:
  "rp_Status unauthorized_reply = 401" "\<exists>c. rp_Out unauthorized_reply = OutError c"
  by (simp_all add: unauthorized_reply_def)

lemma fail_reply_sel [simp]: "400 \<le> rp_Status (fail_reply e)" "\<exists>c. rp_Out (fail_reply e) = OutError c"
  by (simp_all add: fail_reply_def)

lemma fail_reply_out [simp]: "rp_Out (fail_reply e) \<noteq> OutProxy d t" "rp_Out (fail_reply e) \<noteq> OutApi out" "\<not> rp_Status (fail_reply e) < 400"
  by (simp_all add: fail_reply_def)

text \<open>On a path of the signed surface the server answers with the result of \<open>serve_v1\<close>, or refuses.\<close>

lemma ServeHTTP_v1:
  assumes "HasPrefix (in_Path r) ''/v1/''" and "ServeHTTP E N cx r s = (s', x)"
  shows "srv_broker s' = srv_broker s \<and> (\<exists>e. rp_Status x = rp_Status (fail_reply e) \<and> rp_Out x = rp_Out (fail_reply e)) \<or>
    \<not> host_denied r s \<and> \<not> path_bad r \<and>
    (\<exists>s1 y. serve_v1 E N cx r (s\<lparr>srv_slots := Suc (srv_slots s)\<rparr>) = (s1, y) \<and>
       srv_broker s' = srv_broker s1 \<and> rp_Status x = rp_Status y \<and> rp_Out x = rp_Out y)"
proof -
  have "\<not> browser_path (in_Path r)" "in_Path r \<noteq> ''/healthz''" using assms(1) by (auto simp: browser_path_def HasPrefix_iff)
  then have "serve_path E N cx r z = serve_v1 E N cx r z" for z using assms(1) by (simp add: serve_path_def Let_def)
  with assms(2) show ?thesis by (auto simp: ServeHTTP_def split: if_splits prod.splits)
qed

definition verified :: "'a http_env_scheme \<Rightarrow> 'w Ctx \<Rightarrow> HttpIn \<Rightarrow> 'w Server \<Rightarrow> Actor \<Rightarrow> bool" where
  "verified E cx r s a \<longleftrightarrow> (\<exists>tok. in_Authorization r = [''Bearer '' @ tok] \<and>
     Verify E (srv_keys s) (unix (cx_now cx 0)) tok (audience_of (in_Path r)) (in_Method r) (in_RequestURI r) (in_Body r) = Some a)"

lemma serve_v1_cases:
  assumes "serve_v1 E N cx r s = (s', x)"
  obtains (refused) "s' = s" "400 \<le> rp_Status x" "\<exists>c. rp_Out x = OutError c"
  | (proxied) a where "verified E cx r s a" "HasPrefix (in_Path r) ''/v1/runtime/proxy/''" "proxy E N cx r a (in_Body r) s = (s', x)"
  | (called) a b where "verified E cx r s a" "\<not> HasPrefix (in_Path r) ''/v1/runtime/proxy/''"
      "run_route E cx r a (in_Body r) (route_of (in_Method r) (in_Path r)) (srv_broker s) = (b, x)" "s' = s\<lparr>srv_broker := b\<rparr>"
proof -
  have "(s' = s \<and> 400 \<le> rp_Status x \<and> (\<exists>c. rp_Out x = OutError c)) \<or>
    (\<exists>a. verified E cx r s a \<and> HasPrefix (in_Path r) ''/v1/runtime/proxy/'' \<and> proxy E N cx r a (in_Body r) s = (s', x)) \<or>
    (\<exists>a b. verified E cx r s a \<and> \<not> HasPrefix (in_Path r) ''/v1/runtime/proxy/'' \<and>
       run_route E cx r a (in_Body r) (route_of (in_Method r) (in_Path r)) (srv_broker s) = (b, x) \<and> s' = s\<lparr>srv_broker := b\<rparr>)"
  proof (cases "in_Authorization r")
    case Nil
    with assms show ?thesis by (auto simp: serve_v1_def Let_def split: if_splits)
  next
    case (Cons h hs)
    show ?thesis
    proof (cases "hs = [] \<and> HasPrefix h ''Bearer ''")
      case False
      with assms Cons show ?thesis by (auto simp: serve_v1_def Let_def split: if_splits list.splits)
    next
      case True
      then obtain tok where h: "h = ''Bearer '' @ tok" "hs = []" by (auto simp: HasPrefix_iff)
      then have "TrimPrefix h ''Bearer '' = tok" by (simp add: TrimPrefix_def HasPrefix_iff)
      with assms Cons h True show ?thesis
        by (auto simp: serve_v1_def Let_def verified_def api_def split: if_splits option.splits prod.splits)
    qed
  qed
  then show thesis using that by blast
qed

section \<open>The proxy\<close>

text \<open>An answer with upstream data: what \<open>proxy_used\<close> and \<open>proxy\<close> have checked.\<close>

lemma proxy_reply_data:
  assumes "rp_Out (proxy_reply cx u vals secret res b) = OutProxy data ct"
  shows "Use_Valid (cx_now cx 52) u b" "length data \<le> 1048576" "\<forall>k v. (k, v) \<in> set vals \<and> 8 \<le> length v \<longrightarrow> \<not> Contains data v"
    "8 \<le> length secret \<Longrightarrow> \<not> Contains data secret"
    "rp_Status (proxy_reply cx u vals secret res b) < 300 \<or> 400 \<le> rp_Status (proxy_reply cx u vals secret res b)"
  using assms by (auto simp: proxy_reply_def list_ex_iff split: option.splits if_splits)

definition proxy_ran :: "'a http_env_scheme \<Rightarrow> 'w Ctx \<Rightarrow> HttpIn \<Rightarrow> string \<Rightarrow> string \<Rightarrow> Use \<Rightarrow> 'w Broker \<Rightarrow> bytes \<Rightarrow> 'w Broker \<Rightarrow> bool" where
  "proxy_ran E cx r rid path u b data b' \<longleftrightarrow> (\<exists>route b1 vals.
     route \<in> set (c_Routes (us_Contract u)) \<and> r_ID route = rid \<and> Route_Allows route (in_Method r) path \<and>
     Resolve E (\<lambda>k. cx_now cx (2 + k)) (\<lambda>k. cx_other cx (1 + k)) u (cx_other cx 0 b) = (b1, Inr vals) \<and>
     (\<forall>k v. (k, v) \<in> set vals \<and> 8 \<le> length v \<longrightarrow> \<not> Contains data v) \<and> length data \<le> 1048576 \<and> Use_Valid (cx_now cx 52) u b')"

lemma proxy_send_data:
  assumes "proxy_send E N cx key route u vals secret req client s = (s', x)" "rp_Out x = OutProxy data ct"
  shows "x = proxy_reply cx u vals secret (snd (snd (client_Do E N client req (b_world (cx_other cx 50 (srv_broker s)))))) (srv_broker s')"
  using assms by (auto simp: proxy_send_def Let_def split: if_splits prod.splits)

lemma proxy_used_data:
  assumes "proxy_used E N cx r rid path body u s = (s', x)" "rp_Out x = OutProxy data ct"
  shows "proxy_ran E cx r rid path u (srv_broker s) data (srv_broker s')"
proof -
  obtain route where f: "find (\<lambda>c. r_ID c = rid) (c_Routes (us_Contract u)) = Some route" "Route_Allows route (in_Method r) path"
    using assms by (auto simp: proxy_used_def split: option.splits if_splits)
  obtain b1 y where r: "Resolve E (\<lambda>k. cx_now cx (2 + k)) (\<lambda>k. cx_other cx (1 + k)) u (cx_other cx 0 (srv_broker s)) = (b1, y)" by fastforce
  obtain vals where y: "y = Inr vals"
    using assms f by (cases y) (auto simp: proxy_used_def r [simplified])
  obtain b2 z where a: "proxy_auth E cx (srv_policy s) route u vals \<lparr>hr_Method = in_Method r, hr_URL = proxy_target r route path,
      hr_Header = forwarded_headers r route, hr_BasicAuth = None, hr_Body = body\<rparr> (cx_other cx 3 b1) = (b2, z)" by fastforce
  from assms f y obtain req secret policy clients client where
    "proxy_send E N cx (Contract_Digest E (us_Contract u) @ ''/'' @ r_ID route) route u vals secret req client
       (s\<lparr>srv_broker := b2, srv_clients := clients\<rparr>) = (s', x)"
    by (auto simp: proxy_used_def r [simplified] a Let_def split: if_splits sum.splits option.splits prod.splits)
  from proxy_send_data [OF this assms(2)] assms(2) obtain res where "rp_Out (proxy_reply cx u vals secret res (srv_broker s')) = OutProxy data ct" by metis
  note p = proxy_reply_data [OF this]
  have "route \<in> set (c_Routes (us_Contract u)) \<and> r_ID route = rid" using find_in_set [OF f(1)] by simp
  with p(1,2,3) f(2) r y show ?thesis unfolding proxy_ran_def by blast
qed

lemma proxy_data:
  assumes "proxy E N cx r a body s = (s', x)" "rp_Out x = OutProxy data ct"
  obtains l rid rest u b0 b' where "splitN3 (TrimPrefix (in_Path r) ''/v1/runtime/proxy/'') = l # rid # rest"
    "BeginUse E (cx_now cx 1) (cx_rnd cx 0) a l (srv_broker s) = (b0, Inr u)"
    "proxy_ran E cx r rid (''/'' @ (case rest of [] \<Rightarrow> [] | p # _ \<Rightarrow> p)) u b0 data b'" "srv_broker s' = Finish u (cx_other cx 53 b')"
proof -
  obtain l rid rest where sp: "splitN3 (TrimPrefix (in_Path r) ''/v1/runtime/proxy/'') = l # rid # rest"
    using assms by (auto simp: proxy_def split: list.splits)
  obtain b0 u where b: "BeginUse E (cx_now cx 1) (cx_rnd cx 0) a l (srv_broker s) = (b0, Inr u)"
    using assms sp by (cases "BeginUse E (cx_now cx 1) (cx_rnd cx 0) a l (srv_broker s)"; cases "snd (BeginUse E (cx_now cx 1) (cx_rnd cx 0) a l (srv_broker s))")
      (auto simp: proxy_def)
  obtain s2 y where p: "proxy_used E N cx r rid (''/'' @ (case rest of [] \<Rightarrow> [] | p # _ \<Rightarrow> p)) body u (s\<lparr>srv_broker := b0\<rparr>) = (s2, y)" by fastforce
  have "y = x" "srv_broker s' = Finish u (cx_other cx 53 (srv_broker s2))"
    using assms(1) by (auto simp: proxy_def sp b [simplified] p [simplified])
  with proxy_used_data [OF p] assms(2) sp b that show thesis by simp
qed

lemma run_route_no_proxy: "run_route E cx r a data rt b = (b', x) \<Longrightarrow> rp_Out x \<noteq> OutProxy d t"
  by (cases rt) (auto simp: run_route_def Let_def with_body_def without_body_def answer_def split: option.splits if_splits prod.splits sum.splits)

section \<open>Revoked grants\<close>

text \<open>A request that asks for something under the grant: a lease on it by name, or a new one.\<close>

definition lease_on :: "'w Broker \<Rightarrow> string \<Rightarrow> string \<Rightarrow> bool" where
  "lease_on b i k \<longleftrightarrow> (case go_lookup (b_leases b) k of None \<Rightarrow> False | Some l \<Rightarrow> lv_GrantID (lr_View l) = i)"

definition asks_grant :: "'a http_env_scheme \<Rightarrow> HttpIn \<Rightarrow> string \<Rightarrow> 'w Broker \<Rightarrow> bool" where
  "asks_grant E r i b \<longleftrightarrow>
     (if HasPrefix (in_Path r) ''/v1/runtime/proxy/'' then lease_on b i (hd (splitN3 (TrimPrefix (in_Path r) ''/v1/runtime/proxy/'')))
      else case route_of (in_Method r) (in_Path r) of
        RtInspect k \<Rightarrow> lease_on b i k | RtMaterialize k \<Rightarrow> lease_on b i k | RtRelease k \<Rightarrow> lease_on b i k | RtRenew k \<Rightarrow> lease_on b i k
      | RtAcquire \<Rightarrow> (case api_decode E (decode_acquire E) (in_Body r) of None \<Rightarrow> False | Some inp \<Rightarrow> al_GrantID inp = i)
      | _ \<Rightarrow> False)"

definition refused :: "Reply \<Rightarrow> bool" where
  "refused x \<longleftrightarrow> (\<exists>e. x = fail_reply e)"

lemma refused_fail [simp]: "refused (fail_reply e)"
  unfolding refused_def by blast

lemma BeginUse_refused: "lease now a k b = Inl e \<Longrightarrow> \<exists>e'. BeginUse E now rnd a k b = (b, Inl e')"
  by (simp add: BeginUse_def)

lemma answer_refused: "\<exists>e. snd res = Inl e \<Longrightarrow> refused (snd (answer n f res))"
  by (cases res) (auto simp: answer_def)

lemma route_refused:
  assumes dead: "\<And>t a' k l g c. lease t a' k b = Inr (l, g, c) \<Longrightarrow> lv_GrantID (lr_View l) \<noteq> i"
    and acq: "\<And>t rnd a' inp. al_GrantID inp = i \<Longrightarrow> \<exists>e. snd (Acquire E t rnd a' inp b) = Inl e"
    and "asks_grant E r i b" "\<not> HasPrefix (in_Path r) ''/v1/runtime/proxy/''"
  shows "refused (snd (run_route E cx r a (in_Body r) (route_of (in_Method r) (in_Path r)) b))"
proof -
  have off: "\<exists>e. lease t a' k b = Inl e" if "lease_on b i k" for t a' k
  proof (cases "lease t a' k b")
    case (Inr x)
    obtain l g c where "x = (l, g, c)" by (cases x)
    with Inr dead [of t a' k l g c] lease_facts(2) [of t a' k b l g c] that show ?thesis by (simp add: lease_on_def)
  qed simp
  have use: "\<exists>e. snd (Broker_Materialize E t oth rnd a k b) = Inl e" if "lease_on b i k" for t oth rnd k
    using off [OF that, of "t 0" a] BeginUse_refused [of "t 0" a k b _ E rnd] by (auto simp: Broker_Materialize_def)
  show ?thesis
  proof (cases "route_of (in_Method r) (in_Path r)")
    case RtAcquire
    with assms(3,4) obtain inp where "api_decode E (decode_acquire E) (in_Body r) = Some inp" "al_GrantID inp = i"
      by (auto simp: asks_grant_def split: option.splits)
    with RtAcquire acq [of inp "cx_now cx 1" "cx_rnd cx 0" a] show ?thesis
      by (auto simp: run_route_def Let_def with_body_def intro!: answer_refused)
  next
    case (RtInspect k)
    with assms(3,4) off [of k "cx_now cx 1" a] show ?thesis
      by (auto simp: asks_grant_def run_route_def InspectLease_def answer_def)
  next
    case (RtMaterialize k)
    with assms(3,4) use [of k "\<lambda>j. cx_now cx (1 + j)" "cx_other cx" "cx_rnd cx 0"] show ?thesis
      by (auto simp: asks_grant_def run_route_def without_body_def intro!: answer_refused)
  next
    case (RtRelease k)
    with assms(3,4) off [of k "cx_now cx 1" a] show ?thesis
      by (auto simp: asks_grant_def run_route_def Let_def with_body_def Release_def answer_def split: option.split)
  next
    case (RtRenew k)
    with assms(3,4) off [of k "cx_now cx 1" a] show ?thesis
      by (auto simp: asks_grant_def run_route_def Let_def with_body_def Renew_def answer_def split: option.split)
  qed (use assms(3,4) in \<open>simp_all add: asks_grant_def\<close>)
qed

lemma proxy_refused:
  assumes dead: "\<And>t a' k l g c. lease t a' k (srv_broker s) = Inr (l, g, c) \<Longrightarrow> lv_GrantID (lr_View l) \<noteq> i"
    and "asks_grant E r i (srv_broker s)" "HasPrefix (in_Path r) ''/v1/runtime/proxy/''"
  shows "refused (snd (proxy E N cx r a body s))"
proof (cases "splitN3 (TrimPrefix (in_Path r) ''/v1/runtime/proxy/'')")
  case (Cons k ks)
  with assms(2,3) have on: "lease_on (srv_broker s) i k" by (simp add: asks_grant_def)
  have "\<exists>e. lease (cx_now cx 1) a k (srv_broker s) = Inl e"
  proof (cases "lease (cx_now cx 1) a k (srv_broker s)")
    case (Inr x)
    obtain l g c where "x = (l, g, c)" by (cases x)
    with Inr dead [of _ a k l g c] lease_facts(2) [of _ a k "srv_broker s" l g c] on show ?thesis by (simp add: lease_on_def)
  qed simp
  with BeginUse_refused [of "cx_now cx 1" a k "srv_broker s" _ E "cx_rnd cx 0"] Cons show ?thesis
    by (auto simp: proxy_def split: list.split)
qed (simp add: proxy_def)

section \<open>Forms\<close>

lemma go_update_new: "k \<notin> fst ` set m \<Longrightarrow> go_update k v m = m @ [(k, v)]"
  by (induction m) auto

definition form_size :: "form_data \<Rightarrow> nat" where
  "form_size f = sum_list (map (length \<circ> snd) (fd_values f))"

text \<open>The loop invariant of \<^verbatim>\<open>readForm\<close>: the bytes and the names so far cover the values.\<close>

definition form_ok :: "nat \<Rightarrow> string list \<Rightarrow> form_data \<Rightarrow> bool" where
  "form_ok used seen f \<longleftrightarrow> form_size f \<le> used \<and> used \<le> MaxBundle \<and> fst ` set (fd_values f) \<subseteq> set seen \<and>
     distinct (map fst (fd_values f)) \<and> length (fd_values f) \<le> length seen \<and> length (fd_csrf f) \<le> 128 \<and>
     (\<forall>x \<in> set (fd_values f). length (snd x) \<le> 65536 \<and> length (fst x) \<le> 80)"

lemma form_ok_steps:
  assumes "form_ok used seen f" "name \<notin> set seen" "used + length v \<le> MaxBundle"
  shows "length v \<le> 128 \<Longrightarrow> form_ok (used + length v) (name # seen) (f\<lparr>fd_csrf := v\<rparr>)"
    "form_ok (used + length v) (name # seen) (f\<lparr>fd_demoted := d\<rparr>)"
    "length v \<le> 65536 \<Longrightarrow> length name \<le> 80 \<Longrightarrow> form_ok (used + length v) (name # seen) (f\<lparr>fd_values := go_update name v (fd_values f)\<rparr>)"
proof -
  have "name \<notin> fst ` set (fd_values f)" using assms(1,2) by (auto simp: form_ok_def)
  note new = go_update_new [OF this]
  show "length v \<le> 128 \<Longrightarrow> form_ok (used + length v) (name # seen) (f\<lparr>fd_csrf := v\<rparr>)"
    "form_ok (used + length v) (name # seen) (f\<lparr>fd_demoted := d\<rparr>)"
    using assms by (auto simp: form_ok_def form_size_def)
  show "length v \<le> 65536 \<Longrightarrow> length name \<le> 80 \<Longrightarrow> form_ok (used + length v) (name # seen) (f\<lparr>fd_values := go_update name v (fd_values f)\<rparr>)"
    unfolding new using assms \<open>name \<notin> fst ` set (fd_values f)\<close> by (auto simp: form_ok_def form_size_def)
qed

lemma form_loop_ok:
  assumes "form_loop (length seen) used seen f ps = Some f'" "form_ok used seen f" "length seen \<le> 129"
  shows "\<exists>used' seen'. form_ok used' seen' f' \<and> length seen' \<le> 129"
  using assms
proof (induction "length seen" used seen f ps rule: form_loop.induct)
  case (1 used seen f)
  then show ?case by auto
next
  case (2 used seen f name body ps)
  then obtain v where v: "body = Some v" "name \<notin> set seen" "length name \<le> 80" "length v \<le> 65536" "used + length v \<le> MaxBundle" "length seen < 129"
    "\<not> length seen \<ge> 129" "\<not> (name = [] \<or> name \<in> set seen \<or> length name > 80)" "\<not> (length v > 65536 \<or> used + length v > MaxBundle)"
    by (fastforce split: if_splits option.splits)
  note ok = form_ok_steps [OF \<open>form_ok used seen f\<close> v(2,5)]
  show ?case
  proof (cases "name = ''csrf''")
    case True
    with 2(4) v have "length v \<le> 128" "form_loop (length (name # seen)) (used + length v) (name # seen) (f\<lparr>fd_csrf := v\<rparr>) ps = Some f'"
      by (simp_all split: if_splits)
    with 2(1) [OF v(7,8,1,9) True] ok(1) v(6) show ?thesis by simp
  next
    case csrf: False
    show ?thesis
    proof (cases "HasPrefix name ''opt:''")
      case True
      with 2(4) v csrf have "v = ''1''"
        "form_loop (length (name # seen)) (used + length v) (name # seen) (f\<lparr>fd_demoted := drop 4 name # fd_demoted f\<rparr>) ps = Some f'"
        by (simp_all split: if_splits)
      with 2(2) [OF v(7,8,1,9) csrf True] ok(2) v(6) show ?thesis by simp
    next
      case False
      with 2(4) v csrf have
        "form_loop (length (name # seen)) (used + length v) (name # seen) (f\<lparr>fd_values := go_update name v (fd_values f)\<rparr>) ps = Some f'"
        by simp
      with 2(3) [OF v(7,8,1,9) csrf False] ok(3) v(3,4,6) show ?thesis by simp
    qed
  qed
qed

section \<open>Properties\<close>

text \<open>
  C15: The signed surface acts only for a verified actor. If a request to a path under /v1/ changes the broker
  or is answered without an error, then it came over an accepted host and connection, with one
  bearer assertion that \<^verbatim>\<open>Verify\<close> accepts for the audience of the path and for this method, URI and body.
\<close>

theorem signed_surface_needs_verified_actor:
  assumes "HasPrefix (in_Path r) ''/v1/''" and "ServeHTTP E N cx r s = (s', x)"
    and "srv_broker s' \<noteq> srv_broker s \<or> rp_Status x < 400"
  shows "\<not> host_denied r s \<and> \<not> path_bad r \<and> (\<exists>tok a. in_Authorization r = [''Bearer '' @ tok] \<and>
    Verify E (srv_keys s) (unix (cx_now cx 0)) tok (audience_of (in_Path r)) (in_Method r) (in_RequestURI r) (in_Body r) = Some a)"
proof -
  let ?s = "s\<lparr>srv_slots := Suc (srv_slots s)\<rparr>"
  from ServeHTTP_v1 [OF assms(1,2)] assms(3) obtain s1 y where v: "\<not> host_denied r s" "\<not> path_bad r" "serve_v1 E N cx r ?s = (s1, y)"
    "srv_broker s' = srv_broker s1" "rp_Status x = rp_Status y"
    by auto
  from v(3) have "\<exists>a. verified E cx r ?s a"
    by (cases rule: serve_v1_cases) (use assms(3) v in auto)
  with v show ?thesis by (auto simp: verified_def)
qed

theorem signed_surface_needs_verified_actor_witness:
  "\<exists>a. Verify demo_http_env demo_trusted 1 demo_token ''broker:runtime'' ''GET'' ''/v1/runtime/proxy/l1/gh/x'' [] = Some a"
proof -
  let ?p = "''/v1/runtime/proxy/l1/gh/x''"
  obtain s' x where p: "ServeHTTP demo_http_env demo_net demo_ctx (signed_in ''GET'' ?p) demo_server = (s', x)" "rp_Status x = 200"
    using proxy_run by metis
  have "HasPrefix (in_Path (signed_in ''GET'' ?p)) ''/v1/''" by (simp add: signed_in_def HasPrefix_def)
  from signed_surface_needs_verified_actor [OF this p(1)] p(2) show ?thesis
    by (auto simp: signed_in_def demo_server_def demo_ctx_def audience_of_def HasPrefix_def HasSuffix_def unix_def)
qed

text \<open>
  C14: The proxy keeps the secret and the lease. When a request is answered with upstream data, then the path
  names a lease and a route of the contract of that lease which allows the method and path; the
  data is at most 1 MiB and contains no resolved value of eight bytes or more; and after the exchange, at
  the last check, the lease, its grant and the epoch of its credential were still valid and the use was not
  canceled. The use is finished in the state the request leaves.
\<close>

theorem proxy_returns_no_secret:
  assumes "HasPrefix (in_Path r) ''/v1/''" and "ServeHTTP E N cx r s = (s', x)" and "rp_Out x = OutProxy data ct"
  shows "\<exists>a l rid rest u b0 route b1 vals b'.
    splitN3 (TrimPrefix (in_Path r) ''/v1/runtime/proxy/'') = l # rid # rest \<and>
    BeginUse E (cx_now cx 1) (cx_rnd cx 0) a l (srv_broker s) = (b0, Inr u) \<and>
    route \<in> set (c_Routes (us_Contract u)) \<and> r_ID route = rid \<and>
    Route_Allows route (in_Method r) (''/'' @ (case rest of [] \<Rightarrow> [] | p # _ \<Rightarrow> p)) \<and>
    Resolve E (\<lambda>k. cx_now cx (2 + k)) (\<lambda>k. cx_other cx (1 + k)) u (cx_other cx 0 b0) = (b1, Inr vals) \<and>
    (\<forall>k v. (k, v) \<in> set vals \<and> 8 \<le> length v \<longrightarrow> \<not> Contains data v) \<and> length data \<le> 1048576 \<and>
    Use_Valid (cx_now cx 52) u b' \<and> srv_broker s' = Finish u (cx_other cx 53 b')"
proof -
  let ?s = "s\<lparr>srv_slots := Suc (srv_slots s)\<rparr>"
  from ServeHTTP_v1 [OF assms(1,2)] assms(3) obtain s1 y where v: "serve_v1 E N cx r ?s = (s1, y)"
    "srv_broker s' = srv_broker s1" "rp_Out y = OutProxy data ct"
    by (metis fail_reply_out(1))
  from v(1) show ?thesis
  proof (cases rule: serve_v1_cases)
    case (proxied a)
    obtain l rid rest u b0 b' where p:
      "splitN3 (TrimPrefix (in_Path r) ''/v1/runtime/proxy/'') = l # rid # rest"
      "BeginUse E (cx_now cx 1) (cx_rnd cx 0) a l (srv_broker ?s) = (b0, Inr u)"
      "proxy_ran E cx r rid (''/'' @ (case rest of [] \<Rightarrow> [] | p # _ \<Rightarrow> p)) u b0 data b'" "srv_broker s1 = Finish u (cx_other cx 53 b')"
      by (rule proxy_data [OF proxied(3) v(3)])
    from p(3) obtain route b1 vals where "route \<in> set (c_Routes (us_Contract u)) \<and> r_ID route = rid \<and>
      Route_Allows route (in_Method r) (''/'' @ (case rest of [] \<Rightarrow> [] | p # _ \<Rightarrow> p)) \<and>
      Resolve E (\<lambda>k. cx_now cx (2 + k)) (\<lambda>k. cx_other cx (1 + k)) u (cx_other cx 0 b0) = (b1, Inr vals) \<and>
      (\<forall>k v. (k, v) \<in> set vals \<and> 8 \<le> length v \<longrightarrow> \<not> Contains data v) \<and> length data \<le> 1048576 \<and> Use_Valid (cx_now cx 52) u b'"
      unfolding proxy_ran_def by blast
    moreover have "srv_broker ?s = srv_broker s" by simp
    ultimately show ?thesis using p(1,2,4) v(2) by metis
  next
    case (called a b)
    then show ?thesis using v(3) run_route_no_proxy by metis
  qed (use v(3) in auto)
qed

theorem proxy_returns_no_secret_witness:
  "\<exists>s' x a u b0 route. ServeHTTP demo_http_env demo_net demo_ctx (signed_in ''GET'' ''/v1/runtime/proxy/l1/gh/x'') demo_server = (s', x) \<and>
     rp_Out x = OutProxy ''ok'' ''text/plain'' \<and> BeginUse demo_http_env second ''xyz'' a ''l1'' routed_broker = (b0, Inr u) \<and>
     route \<in> set (c_Routes (us_Contract u)) \<and> r_ID route = ''gh''"
proof -
  let ?p = "''/v1/runtime/proxy/l1/gh/x''"
  obtain s' x where p: "ServeHTTP demo_http_env demo_net demo_ctx (signed_in ''GET'' ?p) demo_server = (s', x)" "rp_Out x = OutProxy ''ok'' ''text/plain''"
    using proxy_run by metis
  have "HasPrefix (in_Path (signed_in ''GET'' ?p)) ''/v1/''" by (simp add: signed_in_def HasPrefix_def)
  moreover have "splitN3 (TrimPrefix ?p ''/v1/runtime/proxy/'') = [''l1'', ''gh'', ''x'']"
    by (simp add: splitN3_def TrimPrefix_def HasPrefix_def)
  moreover have "in_Path (signed_in ''GET'' ?p) = ?p" "srv_broker demo_server = routed_broker" "cx_now demo_ctx 1 = second" "cx_rnd demo_ctx 0 = ''xyz''"
    by (simp_all add: signed_in_def demo_server_def demo_ctx_def)
  ultimately show ?thesis using proxy_returns_no_secret [OF _ p] p by auto
qed

text \<open>
  C13: A revocation holds against HTTP. After \<^verbatim>\<open>RevokeGrant\<close> has succeeded, whatever requests the server
  handles, every later request that asks for something under the grant is refused with an error: to
  inspect, materialize, renew or release a lease on it, to use such a lease in the proxy, or to
  acquire a new one.
\<close>

theorem revoked_grant_refused_over_http:
  assumes "broker_ok E (srv_broker s)" and "RevokeGrant E now a i (srv_broker s) = (b1, Inr ())"
    and "server_run E N (s\<lparr>srv_broker := b1\<rparr>) s2"
    and "HasPrefix (in_Path r) ''/v1/''" and "asks_grant E r i (srv_broker s2)"
  shows "400 \<le> rp_Status (snd (ServeHTTP E N cx r s2)) \<and> (\<exists>c. rp_Out (snd (ServeHTTP E N cx r s2)) = OutError c)"
proof -
  from RevokeGrant_inactive [OF assms(2,1)] obtain g where g: "go_lookup (b_grants b1) i = Some g" "\<not> gr_Active (gd_View g)" by blast
  have "broker_ok E b1" by (rule bsteps_ok [OF RevokeGrant_steps [OF assms(2,1)] assms(1)])
  with server_run_steps [OF assms(3)] have "bsteps E b1 (srv_broker s2)" by simp
  from inactive_grant_dead [OF this g]
  have dead: "lease t a' k (srv_broker s2) = Inr (l, g', c) \<Longrightarrow> lv_GrantID (lr_View l) \<noteq> i"
    and acq: "al_GrantID inp = i \<Longrightarrow> \<exists>e. snd (Acquire E t rnd a' inp (srv_broker s2)) = Inl e" for t a' k l g' c rnd inp
    by (blast, metis AcquireLease.surjective old.unit.exhaust)
  let ?s = "s2\<lparr>srv_slots := Suc (srv_slots s2)\<rparr>"
  obtain s3 x where x: "ServeHTTP E N cx r s2 = (s3, x)" by fastforce
  from ServeHTTP_v1 [OF assms(4) x] show ?thesis
  proof (elim disjE conjE exE)
    fix s1 y assume v: "serve_v1 E N cx r ?s = (s1, y)" "rp_Status x = rp_Status y" "rp_Out x = rp_Out y"
    have "400 \<le> rp_Status y \<and> (\<exists>c. rp_Out y = OutError c)"
      using v(1)
    proof (cases rule: serve_v1_cases)
      case (proxied a')
      have "refused y" using proxy_refused [of ?s i E r N cx a' "in_Body r", OF _ _ proxied(2)] dead assms(5) proxied(3) by auto
      then show ?thesis using fail_reply_sel by (auto simp: refused_def)
    next
      case (called a' b)
      have "refused y" using route_refused [OF _ _ assms(5) called(2), of cx a'] dead acq called(3) by simp
      then show ?thesis using fail_reply_sel by (auto simp: refused_def)
    qed simp
    with v x show ?thesis by simp
  qed (use x fail_reply_sel in auto)
qed

theorem revoked_grant_refused_over_http_witness:
  "\<exists>b1. RevokeGrant demo_http_env 0 demo_actor ''g1'' routed_broker = (b1, Inr ()) \<and>
     400 \<le> rp_Status (snd (ServeHTTP demo_http_env demo_net demo_ctx (signed_in ''POST'' ''/v1/leases'') (demo_server\<lparr>srv_broker := b1\<rparr>)))"
proof -
  obtain b1 where r: "RevokeGrant demo_http_env 0 demo_actor ''g1'' (srv_broker demo_server) = (b1, Inr ())"
    using routed_revoke by (auto simp: demo_server_def)
  let ?s = "demo_server\<lparr>srv_broker := b1\<rparr>" and ?r = "signed_in ''POST'' ''/v1/leases''"
  have v1: "HasPrefix (in_Path ?r) ''/v1/''" "\<not> HasPrefix (in_Path ?r) ''/v1/runtime/proxy/''" by (simp_all add: signed_in_def HasPrefix_def)
  have "route_of (in_Method ?r) (in_Path ?r) = RtAcquire" by (simp add: signed_in_def route_of_def path_parts_def trim_slashes_def numeral_nat)
  moreover have "api_decode demo_http_env (decode_acquire demo_http_env) (in_Body ?r) = Some \<lparr>al_GrantID = ''g1'', al_TTLSeconds = 30\<rparr>"
    by (simp add: api_decode_def signed_in_def strictjson_Decode_def strict_tokens_def in_range_def numeral_nat)
  ultimately have "asks_grant demo_http_env ?r ''g1'' (srv_broker ?s)" using v1(2) by (simp add: asks_grant_def)
  from revoked_grant_refused_over_http [OF _ r serve_start v1(1) this] routed_broker_ok r show ?thesis by (auto simp: demo_server_def)
qed

text \<open>
  A posted form is bounded. The values that \<^verbatim>\<open>readForm\<close> hands to the broker have distinct names of at
  most 80 bytes, there are at most 129 of them, none is longer than 64 KiB, together they are
  within the limit of a bundle, and the form carried a CSRF token of at most 128 bytes.
\<close>

theorem accepted_form_is_bounded:
  assumes "readForm E r = Some f"
  shows "distinct (map fst (fd_values f)) \<and> length (fd_values f) \<le> 129 \<and> sum_list (map (length \<circ> snd) (fd_values f)) \<le> MaxBundle \<and>
    list_all (\<lambda>(k, v). length k \<le> 80 \<and> length v \<le> 65536) (fd_values f) \<and> fd_csrf f \<noteq> [] \<and> length (fd_csrf f) \<le> 128"
proof -
  from assms obtain parts where l: "form_loop (length ([] :: string list)) 0 [] \<lparr>fd_values = [], fd_csrf = [], fd_demoted = []\<rparr> parts = Some f" "fd_csrf f \<noteq> []"
    by (auto simp: readForm_def split: option.splits prod.splits if_splits)
  have "form_ok 0 [] \<lparr>fd_values = [], fd_csrf = [], fd_demoted = []\<rparr>" by (simp add: form_ok_def form_size_def)
  from form_loop_ok [OF l(1) this] l(2) show ?thesis by (auto simp: form_ok_def form_size_def list_all_iff)
qed

theorem accepted_form_is_bounded_witness:
  "\<exists>f. readForm demo_http_env (signed_in ''POST'' ''/connect/r1/submit'') = Some f \<and> length (fd_values f) \<le> 129 \<and> fd_csrf f \<noteq> []"
proof -
  have "\<exists>f. readForm demo_http_env (signed_in ''POST'' ''/connect/r1/submit'') = Some f"
    by (simp add: readForm_def demo_http_env_def oauth_env.defs go_get_def MaxBundle_def HasPrefix_def)
  with accepted_form_is_bounded [of demo_http_env "signed_in ''POST'' ''/connect/r1/submit''"] show ?thesis by blast
qed

end
