(* ===== verification/Http_Audience.thy ===== *)
theory Http_Audience
  imports Http_Flow
begin

text \<open>
  What an assertion can reach. The audience of an assertion limits the operations its bearer can perform through the server, and one
  spelling of a path gets around the audience of approvals.
\<close>

section \<open>Audiences\<close>





section \<open>A slash behind an approval\<close>

lemma slash_route:
  assumes "i \<noteq> []" "CHR ''/'' \<notin> set i"
  shows "route_of ''POST'' (''/v1/requests/'' @ i @ ''/approve/'') = RtApprove i"
    "audience_of (''/v1/requests/'' @ i @ ''/approve/'') = ''broker:control''" "audience_of (''/v1/requests/'' @ i @ ''/approve'') = ''broker:approve''"
proof -
  have "path_parts (''/v1/requests/'' @ i @ ''/approve/'') = [''v1'', ''requests'', i, ''approve'']"
    using assms by (simp add: path_parts_def trim_slashes_def Split_append Split_single)
  then show "route_of ''POST'' (''/v1/requests/'' @ i @ ''/approve/'') = RtApprove i" by (simp add: route_of_def numeral_nat)
  show "audience_of (''/v1/requests/'' @ i @ ''/approve/'') = ''broker:control''" "audience_of (''/v1/requests/'' @ i @ ''/approve'') = ''broker:approve''"
    by (auto simp: audience_of_def HasPrefix_iff HasSuffix_iff)
qed

text \<open>
  C35: A slash gets around the audience of approvals. A request to approve whose path ends in a slash and which carries an assertion for
  broker:control is carried out: whatever \<^verbatim>\<open>Approve\<close> does for the actor of that assertion is the effect and the answer of the server. Without the slash
  the same server asks for an assertion for broker:approve.
\<close>

theorem slash_approves_under_control_audience:
  assumes "i \<noteq> []" "CHR ''/'' \<notin> set i" "in_Method r = ''POST''" "in_Path r = ''/v1/requests/'' @ i @ ''/approve/''"
    and "\<not> host_denied r s" "\<not> path_bad r" "srv_slots s < 64" "length (in_Body r) \<le> 65536" "\<not> in_BodyError r"
    and "in_Authorization r = [''Bearer '' @ tok]" "Verify E (srv_keys s) (unix (cx_now cx 0)) tok ''broker:control'' ''POST'' (in_RequestURI r) (in_Body r) = Some a"
    and "map_option fst (parse_media_type E (header_get r ''Content-Type'')) = Some ''application/json''" "api_decode E (decode_approve E) (in_Body r) = Some code" "Approve E (cx_now cx 1) a i code (srv_broker s) = (b', Inr ())"
  shows "srv_broker (fst (ServeHTTP E N cx r s)) = b' \<and> rp_Status (snd (ServeHTTP E N cx r s)) = 200 \<and>
    audience_of (''/v1/requests/'' @ i @ ''/approve'') = ''broker:approve''"
proof -
  let ?s = "s\<lparr>srv_slots := Suc (srv_slots s)\<rparr>" and ?p = "''/v1/requests/'' @ i @ ''/approve/''"
  note rt = slash_route [OF assms(1,2)]
  have p: "HasPrefix ?p ''/v1/''" "\<not> HasPrefix ?p ''/v1/runtime/proxy/''" "\<not> browser_path ?p" "?p \<noteq> ''/healthz''"
    by (auto simp: HasPrefix_iff browser_path_def)
  have t: "HasPrefix (''Bearer '' @ tok) ''Bearer ''" "TrimPrefix (''Bearer '' @ tok) ''Bearer '' = tok" by (simp_all add: TrimPrefix_def HasPrefix_iff)
  have "api E cx r a (in_Body r) (srv_broker s) = (b', json_reply 200 (OutApi OStatus))"
    using assms(3,4,13,14) rt(1) by (simp add: api_def run_route_def with_body_def answer_def Let_def)
  then have "serve_v1 E N cx r ?s = (?s\<lparr>srv_broker := b'\<rparr>, json_reply 200 (OutApi OStatus))"
    using assms(3,4,8-12) p t rt(2) by (simp add: serve_v1_def body_limit_def Let_def del: append_Cons append.simps)
  then have "serve_path E N cx r ?s = (?s\<lparr>srv_broker := b'\<rparr>, json_reply 200 (OutApi OStatus))"
    using assms(4) p by (simp only: serve_path_def Let_def if_False simp_thms if_True)
  then show ?thesis using assms(5-7) rt(3) by (simp add: ServeHTTP_def)
qed

text \<open>A server with one pending request, a session that waits for its approval, and a key that is trusted for the control plane.\<close>

definition approve_claims :: Claims where
  "approve_claims = proxy_claims\<lparr>cl_Audience := ''broker:control'', cl_Method := ''POST'', cl_RequestURI := ''/v1/requests/r1/approve/'',
     cl_BodySHA256 := Hash demo_http_env ''{}''\<rparr>"

definition approve_in :: HttpIn where
  "approve_in = (signed_in ''POST'' ''/v1/requests/r1/approve/'')\<lparr>in_Body := ''{}'', in_Header := [(''Content-Type'', ''application/json'')]\<rparr>"

definition approve_env :: http_env where
  "approve_env = demo_http_env\<lparr>decode_claims := (\<lambda>_. Some approve_claims), decode_approve := (\<lambda>_. Some (replicate 16 CHR ''A'')),
     parse_media_type := (\<lambda>_. Some (''application/json'', []))\<rparr>"

definition waiting_session :: sessionRecord where
  "waiting_session = demo_session\<lparr>ss_Approved := False, ss_CodeHash := Digest approve_env (replicate 16 CHR ''A'')\<rparr>"

definition waiting_broker :: "unit Broker" where
  "waiting_broker = routed_broker\<lparr>b_requests := [(''r1'', demo_request\<lparr>rr_View := (rr_View demo_request)\<lparr>rq_Status := ''pending''\<rparr>\<rparr>)],
     b_sessions := [(ss_Hash waiting_session, waiting_session)]\<rparr>"

definition waiting_server :: "unit Server" where
  "waiting_server = demo_server\<lparr>srv_broker := waiting_broker,
     srv_keys := [(''k'', \<lparr>tk_PublicKey = replicate 32 CHR ''p'', tk_Issuer = ''hub'', tk_Audiences = [''broker:control'']\<rparr>)]\<rparr>"

lemma approve_env_sel [simp]:
  "sha256 approve_env = sha256 demo_oauth_env" "json_record approve_env = demo_json" "decode_claims approve_env x = Some approve_claims"
  "ed25519_verify approve_env = (\<lambda>k m s. s = m)" "json_tokens approve_env = (\<lambda>b. ([TScalar b], True))" "json_mutation approve_env m = ''{}''"
  "decode_approve approve_env x = Some (replicate 16 CHR ''A'')" "parse_media_type approve_env x = Some (''application/json'', [])"
  by (simp_all add: approve_env_def)

lemma approve_env_ok: "env_ok approve_env"
  using demo_http_env_ok by (simp add: approve_env_def env_ok_def gcm_ok_def)

lemma waiting_roomy: "roomy approve_env 50 (b_journal waiting_broker)"
  using demo_core_roomy [OF approve_env_ok] demo_sha_length by (simp add: waiting_broker_def)

lemma waiting_Verify:
  "Verify approve_env (srv_keys waiting_server) 1 demo_token ''broker:control'' ''POST'' ''/v1/requests/r1/approve/'' ''{}'' = Some demo_actor"
proof -
  have sp: "Split CHR ''.'' demo_token = [b64_encode ''{}'', b64_encode (assertion_prefix @ b64_encode ''{}'')]"
    unfolding demo_token_def using b64_no_dot by (simp add: Split_append Split_single)
  have "strictjson_Decode approve_env (decode_claims approve_env) ''{}'' = Some approve_claims"
    by (simp add: strictjson_Decode_def strict_tokens_def in_range_def numeral_nat)
  moreover have "claims_fresh approve_claims 1" by (simp add: claims_fresh_def approve_claims_def proxy_claims_def demo_claims_def wrap64_def)
  moreover have "cl_KeyID approve_claims = ''k''" "cl_Version approve_claims = 1" "cl_Issuer approve_claims = ''hub''"
    "cl_Audience approve_claims = ''broker:control''" "cl_Method approve_claims = ''POST''" "cl_RequestURI approve_claims = ''/v1/requests/r1/approve/''"
    "cl_BodySHA256 approve_claims = Hash approve_env ''{}''" "cl_Actor approve_claims = demo_actor"
    by (simp_all add: approve_claims_def proxy_claims_def demo_claims_def Hash_def)
  ultimately show ?thesis
    using demo_token_length demo_actor_valid sp by (simp add: Verify_def waiting_server_def)
qed

lemma waiting_Approve:
  "\<exists>j k e. Approve approve_env second demo_actor ''r1'' (replicate 16 CHR ''A'') waiting_broker =
     (apply_mutation ((audit_only e)\<lparr>mu_Session := Some (waiting_session\<lparr>ss_Approved := True\<rparr>)\<rparr>) k (waiting_broker\<lparr>b_journal := j\<rparr>), Inr ())"
proof -
  let ?e = "(audit second ''session.approved'' demo_actor)\<lparr>ev_RequestID := ''r1''\<rparr>"
  obtain j k where c: "commit approve_env ((audit_only ?e)\<lparr>mu_Session := Some (waiting_session\<lparr>ss_Approved := True\<rparr>)\<rparr>) waiting_broker =
      (apply_mutation ((audit_only ?e)\<lparr>mu_Session := Some (waiting_session\<lparr>ss_Approved := True\<rparr>)\<rparr>) k (waiting_broker\<lparr>b_journal := j\<rparr>), Inr k)"
    using roomy_commit [of approve_env 49 waiting_broker "(audit_only ?e)\<lparr>mu_Session := Some (waiting_session\<lparr>ss_Approved := True\<rparr>)\<rparr>"] waiting_roomy
    by (auto simp: waiting_broker_def)
  have live: "live waiting_broker" using roomy_inv [OF waiting_roomy] by (simp add: live_def waiting_broker_def)
  have code: "ToUpper (filter (\<lambda>c. c \<noteq> CHR ''-'') (TrimSpace (replicate 16 CHR ''A''))) = replicate 16 CHR ''A''" by code_simp
  have "Approve approve_env second demo_actor ''r1'' (replicate 16 CHR ''A'') waiting_broker =
      (apply_mutation ((audit_only ?e)\<lparr>mu_Session := Some (waiting_session\<lparr>ss_Approved := True\<rparr>)\<rparr>) k (waiting_broker\<lparr>b_journal := j\<rparr>), Inr ())"
    using live c code
    by (simp add: Approve_def waiting_broker_def requestBy_def demo_request_def waiting_session_def demo_session_def seal_Equal_def Let_def)
  then show ?thesis by blast
qed

theorem slash_approves_under_control_audience_witness:
  "\<exists>q. go_lookup (b_sessions (srv_broker waiting_server)) (ss_Hash waiting_session) = Some waiting_session \<and> \<not> ss_Approved waiting_session \<and>
     go_lookup (b_sessions (srv_broker (fst (ServeHTTP approve_env demo_net demo_ctx approve_in waiting_server)))) (ss_Hash waiting_session) = Some q \<and>
     ss_Approved q"
proof -
  let ?r = "approve_in"
  obtain j k e where a: "Approve approve_env second demo_actor ''r1'' (replicate 16 CHR ''A'') waiting_broker =
     (apply_mutation ((audit_only e)\<lparr>mu_Session := Some (waiting_session\<lparr>ss_Approved := True\<rparr>)\<rparr>) k (waiting_broker\<lparr>b_journal := j\<rparr>), Inr ())"
    using waiting_Approve by blast
  have r: "in_Method ?r = ''POST''" "in_Path ?r = ''/v1/requests/'' @ ''r1'' @ ''/approve/''" "in_RequestURI ?r = ''/v1/requests/r1/approve/''" "in_Body ?r = ''{}''" "\<not> in_BodyError ?r"
    "in_Authorization ?r = [''Bearer '' @ demo_token]" "\<not> host_denied ?r waiting_server" "\<not> path_bad ?r" "srv_slots waiting_server < 64"
    by (simp_all add: approve_in_def signed_in_def host_denied_def path_bad_def waiting_server_def demo_server_def ContainsAny_def HasPrefix_def)
  have d: "api_decode approve_env (decode_approve approve_env) ''{}'' = Some (replicate 16 CHR ''A'')"
    by (simp add: api_decode_def strictjson_Decode_def strict_tokens_def in_range_def numeral_nat)
  have c: "unix (cx_now demo_ctx 0) = 1" "cx_now demo_ctx 1 = second" "srv_broker waiting_server = waiting_broker"
    by (simp_all add: demo_ctx_def unix_def waiting_server_def)
  have "srv_broker (fst (ServeHTTP approve_env demo_net demo_ctx ?r waiting_server)) =
      apply_mutation ((audit_only e)\<lparr>mu_Session := Some (waiting_session\<lparr>ss_Approved := True\<rparr>)\<rparr>) k (waiting_broker\<lparr>b_journal := j\<rparr>)"
    using slash_approves_under_control_audience [of "''r1''" approve_in waiting_server demo_token approve_env demo_ctx demo_actor "replicate 16 CHR ''A''"]
      waiting_Verify a d r c by (simp del: append_Cons append.simps)
  then show ?thesis by (simp add: c waiting_broker_def waiting_session_def put_opt_def gomap_simps)
qed

end
