(* ===== verification/Calendar.thy ===== *)
theory Calendar
  imports OAuth_Provider
begin

text \<open>
  The part of Go's \<^verbatim>\<open>time\<close> package that the schedules of \<^verbatim>\<open>internal/routines\<close> use: instants in
  nanoseconds since the Unix epoch, locations as the offset in effect at a Unix second, the clock and
  calendar fields of an instant in a location (with the cycle arithmetic of the package),
  \<^verbatim>\<open>time.Date\<close>, and the saturating difference of instants.
\<close>

section \<open>Instants and locations\<close>

type_synonym location = "int \<Rightarrow> int"

abbreviation (input) minute :: time where
  "minute \<equiv> 60 * second"

abbreviation (input) hour :: time where
  "hour \<equiv> 3600 * second"

definition UTC :: location where
  "UTC s = 0"

text \<open>The zero \<^verbatim>\<open>time.Time\<close>: the first of January of the year 1.\<close>

definition zero_time :: time where
  "zero_time = -62135596800 * second"

definition go_Truncate :: "time \<Rightarrow> int \<Rightarrow> time" where
  "go_Truncate t d = t - (t - zero_time) mod d"

text \<open>\<^verbatim>\<open>Time.Sub\<close> saturates at the ends of an \<^verbatim>\<open>int64\<close>.\<close>

definition go_Sub :: "time \<Rightarrow> time \<Rightarrow> int" where
  "go_Sub t u = max (- (2 ^ 63)) (min (2 ^ 63 - 1) (t - u))"

text \<open>\<^verbatim>\<open>a / b\<close> on integers truncates towards zero.\<close>

definition go_quot :: "int \<Rightarrow> int \<Rightarrow> int" where
  "go_quot a b = sgn a * sgn b * (\<bar>a\<bar> div \<bar>b\<bar>)"

definition go_rem :: "int \<Rightarrow> int \<Rightarrow> int" where
  "go_rem a b = a - go_quot a b * b"

definition zone_offset :: "location \<Rightarrow> time \<Rightarrow> int" where
  "zone_offset loc t = loc (t div second)"

definition local_second :: "location \<Rightarrow> time \<Rightarrow> int" where
  "local_second loc t = t div second + zone_offset loc t"

definition t_Second :: "location \<Rightarrow> time \<Rightarrow> int" where
  "t_Second loc t = local_second loc t mod 60"

definition t_Minute :: "location \<Rightarrow> time \<Rightarrow> int" where
  "t_Minute loc t = local_second loc t mod 3600 div 60"

definition t_Hour :: "location \<Rightarrow> time \<Rightarrow> int" where
  "t_Hour loc t = local_second loc t mod 86400 div 3600"

definition local_day :: "location \<Rightarrow> time \<Rightarrow> int" where
  "local_day loc t = local_second loc t div 86400"

text \<open>The epoch was a Thursday.\<close>

definition t_Weekday :: "location \<Rightarrow> time \<Rightarrow> int" where
  "t_Weekday loc t = (local_day loc t + 4) mod 7"

section \<open>Dates\<close>

definition isLeap :: "int \<Rightarrow> bool" where
  "isLeap y \<longleftrightarrow> y mod 4 = 0 \<and> (y mod 100 \<noteq> 0 \<or> y mod 400 = 0)"

definition daysBefore :: "int list" where
  "daysBefore = [0, 31, 59, 90, 120, 151, 181, 212, 243, 273, 304, 334, 365]"

text \<open>Year and day of the year of a day since the epoch: cycles of 400, 100 and 4 years, with the last
  day of a cycle kept in the cycle.\<close>

definition year_day :: "int \<Rightarrow> int \<times> int" where
  "year_day day =
     (let d = day + 719162;
          n400 = d div 146097; d1 = d mod 146097;
          n100 = (let n = d1 div 36524 in n - n div 4); d2 = d1 - 36524 * n100;
          n4 = d2 div 1461; d3 = d2 mod 1461;
          n1 = (let n = d3 div 365 in n - n div 4)
      in (400 * n400 + 100 * n100 + 4 * n4 + n1 + 1, d3 - 365 * n1))"

definition month_of :: "int \<Rightarrow> int \<times> int" where
  "month_of day =
     (let month = day div 31; end = daysBefore ! nat (month + 1)
      in if day \<ge> end then (month + 2, day - end + 1) else (month + 1, day - daysBefore ! nat month + 1))"

definition month_day :: "bool \<Rightarrow> int \<Rightarrow> int \<times> int" where
  "month_day leap yday =
     (if leap \<and> yday = 59 then (2, 29) else month_of (if leap \<and> yday > 59 then yday - 1 else yday))"

definition civil :: "int \<Rightarrow> int \<times> int \<times> int" where
  "civil day = (case year_day day of (y, yday) \<Rightarrow> (y, month_day (isLeap y) yday))"

definition t_Year :: "location \<Rightarrow> time \<Rightarrow> int" where
  "t_Year loc t = fst (civil (local_day loc t))"

definition t_Month :: "location \<Rightarrow> time \<Rightarrow> int" where
  "t_Month loc t = fst (snd (civil (local_day loc t)))"

definition t_Day :: "location \<Rightarrow> time \<Rightarrow> int" where
  "t_Day loc t = snd (snd (civil (local_day loc t)))"

definition days_of :: "int \<Rightarrow> int \<Rightarrow> int \<Rightarrow> int" where
  "days_of y m d = 365 * (y - 1) + (y - 1) div 4 - (y - 1) div 100 + (y - 1) div 400 +
     daysBefore ! nat (m - 1) + (if isLeap y \<and> m > 2 then 1 else 0) + (d - 1) - 719162"

text \<open>\<^verbatim>\<open>time.Date\<close> for a valid month: the offset at the wall time read as UTC leads to a first guess, and the
  offset at the guess is the one used.\<close>

definition time_Date :: "location \<Rightarrow> int \<Rightarrow> int \<Rightarrow> int \<Rightarrow> int \<Rightarrow> int \<Rightarrow> int \<Rightarrow> time" where
  "time_Date loc y m d h mi s =
     (let unix = days_of y m d * 86400 + h * 3600 + mi * 60 + s; offset = loc unix
      in (if offset = 0 then unix else unix - loc (unix - offset)) * second)"

definition AddDate :: "location \<Rightarrow> time \<Rightarrow> int \<Rightarrow> time" where
  "AddDate loc t n = time_Date loc (t_Year loc t) (t_Month loc t) (t_Day loc t + n) (t_Hour loc t) (t_Minute loc t) (t_Second loc t) + t mod second"

section \<open>Formats\<close>

text \<open>\<^verbatim>\<open>appendInt\<close> pads with zeros; the layouts \<^verbatim>\<open>2006-01-02\<close> and \<^verbatim>\<open>15:04\<close>.\<close>

definition appendInt :: "nat \<Rightarrow> int \<Rightarrow> string" where
  "appendInt w x = (let ds = nat_digits (nat \<bar>x\<bar>) in (if x < 0 then ''-'' else []) @ replicate (w - length ds) CHR ''0'' @ ds)"

definition format_date :: "location \<Rightarrow> time \<Rightarrow> string" where
  "format_date loc t = appendInt 4 (t_Year loc t) @ ''-'' @ appendInt 2 (t_Month loc t) @ ''-'' @ appendInt 2 (t_Day loc t)"

definition format_clock :: "location \<Rightarrow> time \<Rightarrow> string" where
  "format_clock loc t = appendInt 2 (t_Hour loc t) @ '':'' @ appendInt 2 (t_Minute loc t)"

text \<open>\<^verbatim>\<open>time.Parse("15:04", s)\<close>: one or two digits for the hour, two for the minute.\<close>

definition parse_clock :: "string \<Rightarrow> (int \<times> int) option" where
  "parse_clock s =
     (let hs = (if length s \<ge> 2 \<and> is_digit (s ! 1) then take 2 s else take 1 s); r = drop (length hs) s in
      if hs = [] \<or> \<not> list_all is_digit hs \<or> length r \<noteq> 3 \<or> hd r \<noteq> CHR '':'' \<or> \<not> list_all is_digit (tl r) then None
      else if digits_val hs \<ge> 24 \<or> digits_val (tl r) \<ge> 60 then None
      else Some (int (digits_val hs), int (digits_val (tl r))))"

section \<open>Durations\<close>

text \<open>\<^verbatim>\<open>time.ParseDuration\<close>. The integer part is bounded by \<open>2 ^ 63\<close>; of a fraction, the digits that still fit in an
  \<^verbatim>\<open>int64\<close> count, and its value in nanoseconds is a product of floating-point numbers: that product,
  \<^verbatim>\<open>uint64(float64(f) * (float64(unit) / scale))\<close>, is the parameter of a \<open>clock_env\<close>.\<close>

record clock_env =
  float_part :: "int \<Rightarrow> int \<Rightarrow> int \<Rightarrow> int"

fun leadingInt :: "int \<Rightarrow> string \<Rightarrow> (int \<times> string) option" where
  "leadingInt x [] = Some (x, [])"
| "leadingInt x (c # s) =
     (if \<not> is_digit c then Some (x, c # s)
      else if x > 2 ^ 63 div 10 \<or> 10 * x + int (digit_val c) > 2 ^ 63 then None
      else leadingInt (10 * x + int (digit_val c)) s)"

fun leadingFraction :: "int \<Rightarrow> int \<Rightarrow> bool \<Rightarrow> string \<Rightarrow> int \<times> int \<times> string" where
  "leadingFraction x scale overflow [] = (x, scale, [])"
| "leadingFraction x scale overflow (c # s) =
     (if \<not> is_digit c then (x, scale, c # s)
      else if overflow \<or> x > (2 ^ 63 - 1) div 10 \<or> 10 * x + int (digit_val c) > 2 ^ 63 then leadingFraction x scale True s
      else leadingFraction (10 * x + int (digit_val c)) (10 * scale) False s)"

definition unitMap :: "(string \<times> int) list" where
  "unitMap = [(''ns'', 1), (''us'', 1000), ([CHR 0xC2, CHR 0xB5, CHR ''s''], 1000), ([CHR 0xCE, CHR 0xBC, CHR ''s''], 1000),
     (''ms'', 1000000), (''s'', 1000000000), (''m'', 60000000000), (''h'', 3600000000000)]"

text \<open>One element of the sequence: a number, perhaps a fraction, and a unit.\<close>

definition duration_fraction :: "string \<Rightarrow> bool \<times> int \<times> int \<times> string" where
  "duration_fraction s =
     (if s \<noteq> [] \<and> hd s = CHR ''.'' then
        (case leadingFraction 0 1 False (tl s) of (f, scale, r) \<Rightarrow> (length r \<noteq> length (tl s), f, scale, r))
      else (False, 0, 1, s))"

definition duration_unit :: "'a clock_env_scheme \<Rightarrow> int \<Rightarrow> int \<Rightarrow> int \<Rightarrow> string \<Rightarrow> (int \<times> string) option" where
  "duration_unit K v f scale s =
     (let u = takeWhile (\<lambda>c. c \<noteq> CHR ''.'' \<and> \<not> is_digit c) s in
      if u = [] then None
      else case map_of unitMap u of
        None \<Rightarrow> None
      | Some unit \<Rightarrow>
          if v > 2 ^ 63 div unit then None
          else let w = v * unit + (if f > 0 then float_part K f scale unit else 0)
               in if f > 0 \<and> w > 2 ^ 63 then None else Some (w, drop (length u) s))"

definition duration_part :: "'a clock_env_scheme \<Rightarrow> string \<Rightarrow> (int \<times> string) option" where
  "duration_part K s =
     (if s = [] \<or> \<not> (hd s = CHR ''.'' \<or> is_digit (hd s)) then None
      else case leadingInt 0 s of
        None \<Rightarrow> None
      | Some (v, s1) \<Rightarrow>
          (case duration_fraction s1 of (post, f, scale, s2) \<Rightarrow>
             if length s1 = length s \<and> \<not> post then None else duration_unit K v f scale s2))"

lemma leadingInt_length: "leadingInt x s = Some (v, r) \<Longrightarrow> length r \<le> length s"
  by (induction x s rule: leadingInt.induct) (auto split: if_splits)

lemma leadingFraction_length: "leadingFraction x sc ov s = (f, sc', r) \<Longrightarrow> length r \<le> length s"
  by (induction x sc ov s rule: leadingFraction.induct) (auto split: if_splits)

lemma duration_fraction_length: "duration_fraction s = (post, f, sc, r) \<Longrightarrow> length r \<le> length s"
  using leadingFraction_length [of 0 1 False "tl s"] by (fastforce simp: duration_fraction_def split: if_splits prod.splits)

lemma duration_unit_shorter:
  assumes "duration_unit K v f sc s = Some (w, r)"
  shows "length r < length s"
proof -
  let ?u = "takeWhile (\<lambda>c. c \<noteq> CHR ''.'' \<and> \<not> is_digit c) s"
  have "?u \<noteq> [] \<and> r = drop (length ?u) s"
    using assms by (auto simp: duration_unit_def Let_def split: if_splits option.splits)
  moreover from this have "s \<noteq> []" by auto
  ultimately show ?thesis by (auto simp: length_greater_0_conv [symmetric] simp del: length_greater_0_conv takeWhile_eq_Nil_iff)
qed

lemma duration_part_shorter:
  assumes "duration_part K s = Some (w, r)"
  shows "length r < length s"
proof -
  obtain v s1 post f sc s2 where "leadingInt 0 s = Some (v, s1)" "duration_fraction s1 = (post, f, sc, s2)" "duration_unit K v f sc s2 = Some (w, r)"
    using assms by (auto simp: duration_part_def split: if_splits option.splits prod.splits)
  then show ?thesis using leadingInt_length duration_fraction_length duration_unit_shorter by fastforce
qed

function duration_sum :: "'a clock_env_scheme \<Rightarrow> int \<Rightarrow> string \<Rightarrow> int option" where
  "duration_sum K d s =
     (if s = [] then Some d
      else case duration_part K s of
        None \<Rightarrow> None
      | Some (v, r) \<Rightarrow> if d + v > 2 ^ 63 then None else duration_sum K (d + v) r)"
  by pat_completeness auto
termination by (relation "measure (\<lambda>(K, d, s). length s)") (auto dest: duration_part_shorter)

declare duration_sum.simps [simp del]

definition parse_duration :: "'a clock_env_scheme \<Rightarrow> string \<Rightarrow> int option" where
  "parse_duration K s =
     (let sign = (s \<noteq> [] \<and> hd s \<in> {CHR ''-'', CHR ''+''}); neg = (sign \<and> hd s = CHR ''-''); r = (if sign then tl s else s) in
      if r = ''0'' then Some 0
      else if r = [] then None
      else Option.bind (duration_sum K 0 r) (\<lambda>d.
        if neg then Some (- d) else if d > 2 ^ 63 - 1 then None else Some d))"

section \<open>Timestamps\<close>

text \<open>\<^verbatim>\<open>time.Parse(time.RFC3339, s)\<close>: a four digit year, two digits for the other fields (the hour may have one), an
  optional fraction of which nine digits count, and \<^verbatim>\<open>Z\<close> or an offset.\<close>

definition getnum :: "bool \<Rightarrow> string \<Rightarrow> (int \<times> string) option" where
  "getnum fixed s =
     (if s = [] \<or> \<not> is_digit (hd s) then None
      else if length s < 2 \<or> \<not> is_digit (s ! 1) then (if fixed then None else Some (int (digit_val (hd s)), tl s))
      else Some (int (digits_val (take 2 s)), drop 2 s))"

definition skip_char :: "char \<Rightarrow> string \<Rightarrow> string option" where
  "skip_char c s = (if s \<noteq> [] \<and> hd s = c then Some (tl s) else None)"

definition bounded :: "int \<Rightarrow> int \<Rightarrow> (int \<times> string) option \<Rightarrow> (int \<times> string) option" where
  "bounded lo hi r = Option.bind r (\<lambda>(n, s). if lo \<le> n \<and> n \<le> hi then Some (n, s) else None)"

definition long_year :: "string \<Rightarrow> (int \<times> string) option" where
  "long_year s = (if length s < 4 \<or> \<not> list_all is_digit (take 4 s) then None else Some (int (digits_val (take 4 s)), drop 4 s))"

definition fraction :: "string \<Rightarrow> int \<times> string" where
  "fraction s =
     (if length s \<ge> 2 \<and> hd s \<in> {CHR ''.'', CHR '',''} \<and> is_digit (s ! 1) then
        (let ds = takeWhile is_digit (tl s); k = take 9 ds
         in (int (digits_val k) * 10 ^ (9 - length k), drop (length ds) (tl s)))
      else (0, s))"

definition iso_zone :: "string \<Rightarrow> int option" where
  "iso_zone s =
     (if s = ''Z'' then Some 0
      else if length s \<noteq> 6 \<or> s ! 3 \<noteq> CHR '':'' \<or> hd s \<notin> {CHR ''+'', CHR ''-''} then None
      else Option.bind (bounded 0 24 (getnum True (take 2 (tl s)))) (\<lambda>(hr, _).
        Option.bind (bounded 0 60 (getnum True (drop 4 s))) (\<lambda>(mm, _).
          Some ((if hd s = CHR ''-'' then -1 else 1) * (hr * 3600 + mm * 60)))))"

definition daysIn :: "int \<Rightarrow> int \<Rightarrow> int" where
  "daysIn m y = (if m = 2 \<and> isLeap y then 29 else daysBefore ! nat m - daysBefore ! nat (m - 1))"

definition parse_rfc3339 :: "string \<Rightarrow> time option" where
  "parse_rfc3339 s =
     Option.bind (long_year s) (\<lambda>(y, s).
     Option.bind (skip_char CHR ''-'' s) (\<lambda>s.
     Option.bind (bounded 1 12 (getnum True s)) (\<lambda>(mo, s).
     Option.bind (skip_char CHR ''-'' s) (\<lambda>s.
     Option.bind (getnum True s) (\<lambda>(dd, s).
     Option.bind (skip_char CHR ''T'' s) (\<lambda>s.
     Option.bind (bounded 0 23 (getnum False s)) (\<lambda>(hh, s).
     Option.bind (skip_char CHR '':'' s) (\<lambda>s.
     Option.bind (bounded 0 59 (getnum True s)) (\<lambda>(mi, s).
     Option.bind (skip_char CHR '':'' s) (\<lambda>s.
     Option.bind (bounded 0 59 (getnum True s)) (\<lambda>(sec, s).
       case fraction s of (ns, s) \<Rightarrow>
     Option.bind (iso_zone s) (\<lambda>zone.
       if dd < 1 \<or> dd > daysIn mo y then None
       else Some (time_Date UTC y mo dd hh mi sec + ns - zone * second)))))))))))))"

section \<open>The fields are in range\<close>

lemma clock_range:
  "0 \<le> t_Minute loc t \<and> t_Minute loc t < 60" "0 \<le> t_Hour loc t \<and> t_Hour loc t < 24" "0 \<le> t_Weekday loc t \<and> t_Weekday loc t < 7"
  by (simp_all add: t_Minute_def t_Hour_def t_Weekday_def) (auto simp: div_less_iff_less_mult pos_imp_zdiv_nonneg_iff)

lemma month_of_range:
  assumes "0 \<le> day" "day \<le> 364"
  shows "1 \<le> fst (month_of day) \<and> fst (month_of day) \<le> 12 \<and> 1 \<le> snd (month_of day) \<and> snd (month_of day) \<le> 31"
proof -
  define m r where "m = day div 31" and "r = day mod 31"
  have day: "day = 31 * m + r" "0 \<le> r" "r \<le> 30" by (simp_all add: m_def r_def)
  with assms have "0 \<le> m" "m < 12" by linarith+
  then have "m = 0 \<or> m = 1 \<or> m = 2 \<or> m = 3 \<or> m = 4 \<or> m = 5 \<or> m = 6 \<or> m = 7 \<or> m = 8 \<or> m = 9 \<or> m = 10 \<or> m = 11" by arith
  then show ?thesis
    unfolding month_of_def m_def [symmetric] Let_def
    by (elim disjE) (use day assms in \<open>simp_all add: daysBefore_def\<close>)
qed

lemma month_day_range:
  assumes "0 \<le> yday" "yday \<le> (if leap then 365 else 364)"
  shows "1 \<le> fst (month_day leap yday) \<and> fst (month_day leap yday) \<le> 12 \<and> 1 \<le> snd (month_day leap yday) \<and> snd (month_day leap yday) \<le> 31"
  using month_of_range [of yday] month_of_range [of "yday - 1"] assms by (auto simp: month_day_def)

text \<open>The last day of four cycles stays in the fourth.\<close>

lemma cycle_cut:
  fixes k d :: int
  assumes "0 < k" "0 \<le> d" "d \<le> 4 * k"
  defines "n \<equiv> d div k - d div k div 4"
  shows "0 \<le> n" "n \<le> 3" "0 \<le> d - k * n" "d - k * n \<le> k" "d - k * n = k \<longrightarrow> n = 3 \<and> d = 4 * k"
proof -
  have "0 \<le> n \<and> n \<le> 3 \<and> 0 \<le> d - k * n \<and> d - k * n \<le> k \<and> (d - k * n = k \<longrightarrow> n = 3 \<and> d = 4 * k)"
  proof (cases "d = 4 * k")
    case True
    with assms(1) show ?thesis by (simp add: n_def)
  next
    case False
    with assms have "d < 4 * k" by simp
    moreover have "k * (d div k) + d mod k = d" "0 \<le> d mod k" using assms by simp_all
    ultimately have "k * (d div k) < k * 4" by linarith
    then have "d div k < 4" using assms(1) by (simp only: mult_less_cancel_left_pos)
    moreover have "0 \<le> d div k" using assms by (simp add: pos_imp_zdiv_nonneg_iff)
    ultimately have q: "0 \<le> d div k" "d div k \<le> 3" by simp_all
    then have "n = d div k" by (simp add: n_def)
    moreover have "d - k * (d div k) = d mod k" by (simp add: minus_mult_div_eq_mod)
    moreover have "0 \<le> d mod k" "d mod k < k" using assms by simp_all
    ultimately show ?thesis using q by simp
  qed
  then show "0 \<le> n" "n \<le> 3" "0 \<le> d - k * n" "d - k * n \<le> k" "d - k * n = k \<longrightarrow> n = 3 \<and> d = 4 * k" by simp_all
qed

lemma year_day_range:
  assumes "year_day day = (y, yday)"
  shows "0 \<le> yday \<and> yday \<le> (if isLeap y then 365 else 364)"
proof -
  define d where "d = day + 719162"
  define d1 where "d1 = d mod 146097"
  define n100 where "n100 = d1 div 36524 - d1 div 36524 div 4"
  define d2 where "d2 = d1 - 36524 * n100"
  define d3 where "d3 = d2 mod 1461"
  define n1 where "n1 = d3 div 365 - d3 div 365 div 4"
  have e: "y = 400 * (d div 146097) + 100 * n100 + 4 * (d2 div 1461) + n1 + 1" "yday = d3 - 365 * n1"
    using assms unfolding year_day_def Let_def d_def [symmetric] d1_def [symmetric] n100_def [symmetric] d2_def [symmetric]
      d3_def [symmetric] n1_def [symmetric] by (simp_all only: prod.inject)
  have d1: "0 \<le> d1" "d1 \<le> 146096" by (simp_all add: d1_def)
  have n100: "0 \<le> n100" "n100 \<le> 3" "0 \<le> d2" "d2 \<le> 36524" "d2 = 36524 \<longrightarrow> n100 = 3"
    using cycle_cut [of 36524 d1] d1 unfolding n100_def [symmetric] d2_def [symmetric] by simp_all
  have d3: "0 \<le> d3" "d3 \<le> 1460" by (simp_all add: d3_def)
  have n1: "0 \<le> yday" "yday \<le> 365" "yday = 365 \<longrightarrow> n1 = 3 \<and> d3 = 1460"
    using cycle_cut [of 365 d3] d3 unfolding n1_def [symmetric] e(2) by simp_all
  define c where "c = d2 div 1461"
  have d2: "d2 = 1461 * c + d3" by (simp add: c_def d3_def)
  have q: "0 \<le> c" "c \<le> 24" "d3 = 1460 \<and> c = 24 \<longrightarrow> d2 = 36524" using d2 d3 n100(3,4) by arith+
  show ?thesis
  proof (cases "yday = 365")
    case True
    with n1 have n: "n1 = 3" "d3 = 1460" by simp_all
    have y: "y = 4 * (100 * (d div 146097) + 25 * n100 + c + 1)" "y = 100 * (4 * (d div 146097) + n100) + (4 * c + 4)"
      using e(1) n by (simp_all add: c_def)
    have "isLeap y"
    proof (cases "c = 24")
      case True
      with q(3) n n100(5) have "y = 400 * (d div 146097 + 1)" using y(2) by simp
      then show ?thesis by (simp add: isLeap_def)
    next
      case False
      then have "(4 * c + 4) mod 100 = 4 * c + 4" using q by (simp add: mod_pos_pos_trivial)
      then have "y mod 100 \<noteq> 0" using q unfolding y(2) mod_mult_self4 by simp
      then show ?thesis unfolding isLeap_def by (simp add: y(1))
    qed
    with True show ?thesis by simp
  next
    case False
    with n1 show ?thesis by auto
  qed
qed

lemma date_range: "1 \<le> t_Month loc t \<and> t_Month loc t \<le> 12" "1 \<le> t_Day loc t \<and> t_Day loc t \<le> 31"
proof -
  obtain y yday where y: "year_day (local_day loc t) = (y, yday)" by fastforce
  from month_day_range [of yday "isLeap y"] year_day_range [OF y]
  show "1 \<le> t_Month loc t \<and> t_Month loc t \<le> 12" "1 \<le> t_Day loc t \<and> t_Day loc t \<le> 31"
    by (simp_all add: t_Month_def t_Day_def civil_def y)
qed

end
