(* ===== verification/Routine_Timing.thy ===== *)
theory Routine_Timing
  imports Calendar
begin

text \<open>
  The calendar arithmetic of routines (\<^verbatim>\<open>internal/routines/cron.go\<close> and \<^verbatim>\<open>timing.go\<close>): five-field cron
  expressions, one-time expressions, and anchored intervals with local windows, weekdays, extra times
  and absolute bounds.

  A loop whose end is not a syntactic matter is a \<^verbatim>\<open>partial_function\<close> into \<open>option\<close>: \<open>None\<close> means that it
  does not return. What returns is an \<open>outcome\<close>: a value, an error, or a panic (an index out of range).
  An \<^verbatim>\<open>int\<close> has 64 bits: sums and products of Go integers that may leave them are wrapped.
\<close>

datatype 'a outcome = Returns 'a | Fails string | Panics

fun and_then :: "'a outcome option \<Rightarrow> ('a \<Rightarrow> 'b outcome option) \<Rightarrow> 'b outcome option" where
  "and_then (Some (Returns x)) f = f x"
| "and_then (Some (Fails e)) f = Some (Fails e)"
| "and_then (Some Panics) f = Some Panics"
| "and_then None f = None"

section \<open>Cron fields\<close>

text \<open>\<^verbatim>\<open>strings.SplitN(s, sep, 2)\<close> where the separator occurs.\<close>

definition cut_at :: "char \<Rightarrow> string \<Rightarrow> string \<times> string" where
  "cut_at c s = (takeWhile (\<lambda>x. x \<noteq> c) s, tl (dropWhile (\<lambda>x. x \<noteq> c) s))"

text \<open>\<^verbatim>\<open>for i := start; i <= end; i += step { ok[i] = true }\<close>\<close>

partial_function (option) mark_steps :: "int \<Rightarrow> int \<Rightarrow> int \<Rightarrow> bool list \<Rightarrow> bool list outcome option" where
  "mark_steps i stop step ok =
     (if i \<le> stop then
        (if i < 0 \<or> i \<ge> int (length ok) then Some Panics
         else mark_steps (wrap64 (i + step)) stop step (ok[nat i := True]))
      else Some (Returns ok))"

definition cron_step :: "string \<Rightarrow> (string \<times> int) outcome" where
  "cron_step part =
     (if CHR ''/'' \<in> set part then
        (case cut_at CHR ''/'' part of
           (a, b) \<Rightarrow> (case ParseInt b of None \<Rightarrow> Fails ''invalid step'' | Some n \<Rightarrow> if n \<le> 0 then Fails ''invalid step'' else Returns (a, n)))
      else Returns (part, 1))"

definition cron_range :: "int \<Rightarrow> int \<Rightarrow> string \<Rightarrow> (int \<times> int) outcome" where
  "cron_range lo hi s =
     (if s = ''*'' then Returns (lo, hi)
      else if CHR ''-'' \<in> set s then
        (case cut_at CHR ''-'' s of
           (x, y) \<Rightarrow>
             (case (ParseInt x, ParseInt y) of
                (Some a, Some b) \<Rightarrow> if a < lo \<or> b > hi \<or> a > b then Fails ''invalid range'' else Returns (a, b)
              | _ \<Rightarrow> Fails ''invalid range''))
      else
        (case ParseInt s of
           None \<Rightarrow> Fails ''invalid value''
         | Some a \<Rightarrow> if a < lo \<or> a > hi then Fails ''invalid value'' else Returns (a, a)))"

fun cron_parts :: "int \<Rightarrow> int \<Rightarrow> bool list \<Rightarrow> string list \<Rightarrow> bool list outcome option" where
  "cron_parts lo hi ok [] = Some (Returns ok)"
| "cron_parts lo hi ok (part # parts) =
     and_then (Some (cron_step part)) (\<lambda>(rangePart, step).
       and_then (Some (cron_range lo hi rangePart)) (\<lambda>(start, stop).
         and_then (mark_steps start stop step ok) (\<lambda>ok'. cron_parts lo hi ok' parts)))"

definition parseCronField :: "string \<Rightarrow> int \<Rightarrow> int \<Rightarrow> bool list outcome option" where
  "parseCronField field lo hi =
     (let ok = replicate (nat (hi + 1)) False in
      if field = ''*'' then Some (Returns (map (\<lambda>i. lo \<le> int i) [0..<nat (hi + 1)]))
      else cron_parts lo hi ok (Split CHR '','' field))"

section \<open>Cron expressions\<close>

definition at_index :: "bool list \<Rightarrow> int \<Rightarrow> bool outcome" where
  "at_index xs i = (if 0 \<le> i \<and> i < int (length xs) then Returns (xs ! nat i) else Panics)"

text \<open>\<^verbatim>\<open>x && y\<close> and \<^verbatim>\<open>x || y\<close> evaluate their second operand only when it matters.\<close>

definition go_and :: "bool outcome \<Rightarrow> bool outcome \<Rightarrow> bool outcome" where
  "go_and x y = (case x of Returns True \<Rightarrow> y | _ \<Rightarrow> x)"

definition go_or :: "bool outcome \<Rightarrow> bool outcome \<Rightarrow> bool outcome" where
  "go_or x y = (case x of Returns False \<Rightarrow> y | _ \<Rightarrow> x)"

record cron_sets =
  cs_minute :: "bool list"
  cs_hour :: "bool list"
  cs_dom :: "bool list"
  cs_month :: "bool list"
  cs_dow :: "bool list"
  cs_any_dom :: bool
  cs_any_dow :: bool

definition cron_due :: "cron_sets \<Rightarrow> location \<Rightarrow> time \<Rightarrow> bool outcome" where
  "cron_due c loc t =
     go_and (at_index (cs_minute c) (t_Minute loc t))
       (go_and (at_index (cs_hour c) (t_Hour loc t))
         (go_and (at_index (cs_month c) (t_Month loc t))
           (if \<not> cs_any_dom c \<and> \<not> cs_any_dow c
            then go_or (at_index (cs_dom c) (t_Day loc t)) (at_index (cs_dow c) (t_Weekday loc t))
            else go_and (go_or (Returns (cs_any_dom c)) (at_index (cs_dom c) (t_Day loc t)))
                   (go_or (Returns (cs_any_dow c)) (at_index (cs_dow c) (t_Weekday loc t))))))"

partial_function (option) cron_scan :: "cron_sets \<Rightarrow> location \<Rightarrow> time \<Rightarrow> time \<Rightarrow> time outcome option" where
  "cron_scan c loc limit t =
     (if \<not> t > limit then
        (case cron_due c loc t of
           Returns due \<Rightarrow> if due then Some (Returns t) else cron_scan c loc limit (t + minute)
         | Fails e \<Rightarrow> Some (Fails e)
         | Panics \<Rightarrow> Some Panics)
      else Some (Fails ''no upcoming cron occurrence''))"

text \<open>The five fields are parsed before any error is looked at, so a panic in one of them comes before an error in
  another.\<close>

definition cron_fields :: "string list \<Rightarrow> cron_sets outcome option" where
  "cron_fields fs =
     (case (parseCronField (fs ! 0) 0 59, parseCronField (fs ! 1) 0 23, parseCronField (fs ! 2) 1 31, parseCronField (fs ! 3) 1 12,
            parseCronField (fs ! 4) 0 6) of
        (Some r0, Some r1, Some r2, Some r3, Some r4) \<Rightarrow>
          if r0 = Panics \<or> r1 = Panics \<or> r2 = Panics \<or> r3 = Panics \<or> r4 = Panics then Some Panics
          else (case (r0, r1, r2, r3, r4) of
             (Returns m, Returns h, Returns d, Returns mo, Returns w) \<Rightarrow>
               Some (Returns \<lparr>cs_minute = m, cs_hour = h, cs_dom = d, cs_month = mo, cs_dow = w,
                 cs_any_dom = (fs ! 2 = ''*''), cs_any_dow = (fs ! 4 = ''*'')\<rparr>)
           | _ \<Rightarrow> Some (Fails ''invalid cron field''))
      | _ \<Rightarrow> None)"

definition NextCron :: "string \<Rightarrow> location \<Rightarrow> time \<Rightarrow> time outcome option" where
  "NextCron expr loc from =
     (let fs = str_Fields expr in
      if length fs \<noteq> 5 then Some (Fails ''cron expression must have 5 fields'')
      else and_then (cron_fields fs) (\<lambda>c.
        let t = go_Truncate from minute + minute; limit = t + 400 * 24 * hour
        in cron_scan c loc limit t))"

definition NextExpression :: "string \<Rightarrow> location \<Rightarrow> time \<Rightarrow> time outcome option" where
  "NextExpression expr loc from =
     (let e = TrimSpace expr in
      if HasPrefix e ''once:'' then
        (case parse_rfc3339 (TrimPrefix e ''once:'') of
           None \<Rightarrow> Some (Fails ''invalid once expression'')
         | Some due \<Rightarrow> if \<not> due > from then Some (Fails ''invalid once expression'') else Some (Returns due))
      else NextCron e loc from)"

section \<open>Timing\<close>

record RoutineWindow =
  rw_From :: string
  rw_To :: string

record RoutineTiming =
  rt_Windows :: "RoutineWindow list"
  rt_At :: "string list"
  rt_Weekdays :: "int list"
  rt_StartAt :: time
  rt_EndAt :: time

text \<open>The fields of a \<^verbatim>\<open>commodel.Schedule\<close> that the arithmetic reads.\<close>

record Schedule =
  sc_Expression :: string
  sc_Delivery :: string
  sc_Timing :: "RoutineTiming option"
  sc_IntervalAnchor :: time

definition timing_error :: "RoutineTiming \<Rightarrow> string option" where
  "timing_error p =
     (if length (rt_Windows p) > 8 \<or> length (rt_At p) > 24 then Some ''timing exceeds bounds''
      else if rt_EndAt p \<noteq> zero_time \<and> rt_StartAt p \<noteq> zero_time \<and> \<not> rt_EndAt p > rt_StartAt p then Some ''end_at must follow start_at''
      else if \<not> list_all (\<lambda>w. 0 \<le> w \<and> w \<le> 6) (rt_Weekdays p) \<or> \<not> distinct (rt_Weekdays p) then Some ''invalid or duplicate weekday''
      else if \<not> list_all (\<lambda>w. rw_From w \<noteq> rw_To w) (rt_Windows p) \<or> \<not> distinct (rt_Windows p) then Some ''invalid or duplicate window''
      else if \<not> distinct (rt_At p) then Some ''duplicate extra time''
      else None)"

definition day_allowed :: "RoutineTiming \<Rightarrow> location \<Rightarrow> time \<Rightarrow> bool" where
  "day_allowed p loc t \<longleftrightarrow> rt_Weekdays p = [] \<or> t_Weekday loc t \<in> set (rt_Weekdays p)"

text \<open>The closure \<^verbatim>\<open>take\<close>: the earliest admissible instant so far.\<close>

definition take_slot :: "RoutineTiming \<Rightarrow> time \<Rightarrow> time \<Rightarrow> time \<Rightarrow> time" where
  "take_slot p from best t =
     (if t > from \<and> (rt_StartAt p = zero_time \<or> \<not> t < rt_StartAt p) \<and> (rt_EndAt p = zero_time \<or> t < rt_EndAt p) \<and> (best = zero_time \<or> t < best)
      then t else best)"

text \<open>\<^verbatim>\<open>t.Add((from.Sub(t)/d + 1) * d)\<close>: the next point of the grid after \<^verbatim>\<open>from\<close>.\<close>

definition grid_after :: "time \<Rightarrow> int \<Rightarrow> time \<Rightarrow> time" where
  "grid_after from d t = (if \<not> t > from then t + wrap64 ((go_quot (go_Sub from t) d + 1) * d) else t)"

function interval_loop :: "RoutineTiming \<Rightarrow> location \<Rightarrow> time \<Rightarrow> int \<Rightarrow> int \<Rightarrow> time \<Rightarrow> time \<Rightarrow> time" where
  "interval_loop p loc from d n t best =
     (if n < 576001 \<and> go_Sub t from \<le> 401 * 24 * hour then
        (if rt_EndAt p \<noteq> zero_time \<and> \<not> t < rt_EndAt p then best
         else if day_allowed p loc t then take_slot p from best t
         else interval_loop p loc from d (n + 1) (t + d) best)
      else best)"
  by pat_completeness auto
termination by (relation "measure (\<lambda>(p, loc, from, d, n, t, best). nat (576001 - n))") auto

partial_function (option) window_scan :: "location \<Rightarrow> int \<Rightarrow> time \<Rightarrow> time \<Rightarrow> time \<Rightarrow> time \<Rightarrow> time option option" where
  "window_scan loc d wallStart wallEnd stop t =
     (if t < stop then
        (let wall = time_Date UTC (t_Year loc t) (t_Month loc t) (t_Day loc t) (t_Hour loc t) (t_Minute loc t) (t_Second loc t) in
         if \<not> wall < wallStart \<and> wall < wallEnd then Some (Some t)
         else window_scan loc d wallStart wallEnd stop (t + d))
      else Some None)"

definition window_slot :: "location \<Rightarrow> time \<Rightarrow> int \<Rightarrow> time \<Rightarrow> RoutineWindow \<Rightarrow> time option outcome option" where
  "window_slot loc from d day w =
     (case parse_clock (rw_From w) of
        None \<Rightarrow> Some (Fails ''clock'')
      | Some (ah, am) \<Rightarrow>
          (case parse_clock (rw_To w) of
             None \<Rightarrow> Some (Fails ''clock'')
           | Some (bh, bm) \<Rightarrow>
               (let y = t_Year loc day; m = t_Month loc day; dd = t_Day loc day;
                    overnight = (bh * 60 + bm < ah * 60 + am);
                    start = time_Date loc y m dd ah am 0;
                    endDay = (if overnight then AddDate loc day 1 else day);
                    stop = time_Date loc (t_Year loc endDay) (t_Month loc endDay) (t_Day loc endDay) bh bm 0;
                    wallStart = time_Date UTC y m dd ah am 0;
                    wallEnd = (let e = time_Date UTC y m dd bh bm 0 in if overnight then AddDate UTC e 1 else e);
                    shift = \<bar>wrap64 ((zone_offset loc (start - 48 * hour) - zone_offset loc (stop + 48 * hour)) * second)\<bar>
                in map_option Returns (window_scan loc d wallStart wallEnd (stop + shift) (grid_after from d start)))))"

fun windows_loop :: "RoutineTiming \<Rightarrow> location \<Rightarrow> time \<Rightarrow> int \<Rightarrow> time \<Rightarrow> time \<Rightarrow> RoutineWindow list \<Rightarrow> time outcome option" where
  "windows_loop p loc from d day best [] = Some (Returns best)"
| "windows_loop p loc from d day best (w # ws) =
     and_then (window_slot loc from d day w) (\<lambda>x.
       windows_loop p loc from d day (case x of None \<Rightarrow> best | Some t \<Rightarrow> take_slot p from best t) ws)"

definition fold_deltas :: "int list" where
  "fold_deltas = [-2 * hour, - hour, -30 * minute, 30 * minute, hour, 2 * hour]"

definition at_candidates :: "location \<Rightarrow> time \<Rightarrow> string \<Rightarrow> int \<times> int \<Rightarrow> time list" where
  "at_candidates loc day v hm =
     (let t = time_Date loc (t_Year loc day) (t_Month loc day) (t_Day loc day) (fst hm) (snd hm) 0 in
      (if format_clock loc t = v then [t] else []) @
      filter (\<lambda>u. format_date loc u @ '' '' @ format_clock loc u = format_date loc day @ '' '' @ v) (map (\<lambda>delta. t + delta) fold_deltas))"

fun at_loop :: "RoutineTiming \<Rightarrow> location \<Rightarrow> time \<Rightarrow> time \<Rightarrow> time \<Rightarrow> string list \<Rightarrow> time outcome" where
  "at_loop p loc from day best [] = Returns best"
| "at_loop p loc from day best (v # vs) =
     (case parse_clock v of
        None \<Rightarrow> Fails ''clock''
      | Some hm \<Rightarrow> at_loop p loc from day (foldl (take_slot p from) best (at_candidates loc day v hm)) vs)"

function day_loop :: "RoutineTiming \<Rightarrow> location \<Rightarrow> time \<Rightarrow> int \<Rightarrow> int \<Rightarrow> time \<Rightarrow> time \<Rightarrow> time outcome option" where
  "day_loop p loc from d n day best =
     (if n < 403 then
        (if best \<noteq> zero_time \<and> day > best \<or> rt_EndAt p \<noteq> zero_time \<and> day > rt_EndAt p then Some (Returns best)
         else if \<not> day_allowed p loc day then day_loop p loc from d (n + 1) (AddDate loc day 1) best
         else
           (case and_then (windows_loop p loc from d day best (rt_Windows p)) (\<lambda>b. Some (at_loop p loc from day b (rt_At p))) of
              Some (Returns b) \<Rightarrow> day_loop p loc from d (n + 1) (AddDate loc day 1) b
            | r \<Rightarrow> r))
      else Some (Returns best))"
  by pat_completeness auto
termination by (relation "measure (\<lambda>(p, loc, from, d, n, day, best). nat (403 - n))") auto

definition NextInterval :: "RoutineTiming \<Rightarrow> location \<Rightarrow> time \<Rightarrow> int \<Rightarrow> time \<Rightarrow> time outcome option" where
  "NextInterval p loc from0 d anchor =
     (let from = (if rt_StartAt p \<noteq> zero_time \<and> from0 < rt_StartAt p then rt_StartAt p - 1 else from0);
          day = AddDate loc (time_Date loc (t_Year loc from) (t_Month loc from) (t_Day loc from) 0 0 0) (-1);
          best = (if rt_Windows p = []
                  then interval_loop p loc from d 0 (grid_after from d (if anchor = zero_time then from else anchor)) zero_time
                  else zero_time)
      in and_then (day_loop p loc from d 0 day best) (\<lambda>b.
           Some (if b = zero_time then Fails ''routine has no future slot within its bounds'' else Returns b)))"

definition no_timing :: RoutineTiming where
  "no_timing = \<lparr>rt_Windows = [], rt_At = [], rt_Weekdays = [], rt_StartAt = zero_time, rt_EndAt = zero_time\<rparr>"

definition NextSchedule :: "'a clock_env_scheme \<Rightarrow> Schedule \<Rightarrow> location \<Rightarrow> time \<Rightarrow> time outcome option" where
  "NextSchedule K inp loc from =
     (let e = TrimSpace (sc_Expression inp); every = HasPrefix e ''every:'' in
      if every \<and> sc_Delivery inp = ''stream'' then Some (Fails ''stream delivery does not use interval schedules'')
      else if sc_Timing inp \<noteq> None \<and> (\<not> every \<or> sc_Delivery inp = ''stream'') then Some (Fails ''timing requires a polled interval routine'')
      else case Option.bind (sc_Timing inp) timing_error of
        Some err \<Rightarrow> Some (Fails err)
      | None \<Rightarrow>
          if \<not> every then NextExpression (sc_Expression inp) loc from
          else case parse_duration K (TrimPrefix e ''every:'') of
            None \<Rightarrow> Some (Fails ''duration'')
          | Some d \<Rightarrow>
              if d < minute \<or> d > 365 * 24 * hour \<or> go_rem d second \<noteq> 0
              then Some (Fails ''interval must be integral seconds from 1m through 8760h'')
              else NextInterval (case sc_Timing inp of None \<Rightarrow> no_timing | Some p \<Rightarrow> p) loc from d (sc_IntervalAnchor inp))"

declare mark_steps.simps [code] cron_scan.simps [code] window_scan.simps [code]

end
