(* ===== verification/Routine_Props.thy ===== *)
theory Routine_Props
  imports Routine_Timing
begin

text \<open>
  What the schedules promise: every computation of a next slot ends, and panics for one kind of expression only, the slot of a cron expression
  is the earliest minute that matches its fields, and the slot of an interval lies after the given
  instant, within the bounds, and on the grid, in a window, or at an extra time.
\<close>

declare interval_loop.simps [simp del] day_loop.simps [simp del]

section \<open>Cron fields\<close>

text \<open>The loop over a range either runs out of the integers (and panics) or marks the points of the range.\<close>

lemma wrap64_sum:
  assumes "0 \<le> i" "0 < step" "i < 9223372036854775808" "step < 9223372036854775808"
  shows "wrap64 (i + step) = (if i + step < 9223372036854775808 then i + step else i + step - 18446744073709551616)"
proof (cases "i + step < 9223372036854775808")
  case True
  with assms have "int64 (i + step)" by (simp add: int64_def)
  with True show ?thesis by (simp add: wrap64_id)
next
  case False
  have "wrap64 (i + step) = wrap64 (i + step - 18446744073709551616)" unfolding wrap64_def diff_add_eq minus_mod_self2 ..
  moreover have "int64 (i + step - 18446744073709551616)" using False assms by (simp add: int64_def)
  ultimately show ?thesis using False by (simp add: wrap64_id)
qed

lemma mark_steps_cases:
  assumes "0 \<le> i" "stop < int (length ok)" "0 < step" "step < 9223372036854775808" "int (length ok) < 9223372036854775808"
  shows "mark_steps i stop step ok = Some Panics \<and> i \<le> stop \<and> stop + step \<ge> 9223372036854775808 \<or>
    (\<exists>ok'. mark_steps i stop step ok = Some (Returns ok') \<and> length ok' = length ok \<and>
       (\<forall>v. 0 \<le> v \<and> v < int (length ok) \<longrightarrow> ok' ! nat v = (ok ! nat v \<or> i \<le> v \<and> v \<le> stop \<and> (v - i) mod step = 0)))"
  using assms
proof (induction "nat (stop + 1 - i)" arbitrary: i ok rule: less_induct)
  case less
  show ?case
  proof (cases "i \<le> stop")
    case False
    then show ?thesis by (auto simp: mark_steps.simps [of i])
  next
    case True
    let ?ok = "ok[nat i := True]"
    have m: "mark_steps i stop step ok = mark_steps (wrap64 (i + step)) stop step ?ok"
      using True less(2,3) by (simp add: mark_steps.simps [of i])
    show ?thesis
    proof (cases "i + step < 9223372036854775808")
      case big: False
      then have "wrap64 (i + step) < 0" using less(2-) wrap64_sum [of i step] True by auto
      then have "mark_steps (wrap64 (i + step)) stop step ?ok = Some Panics" using True less(2) by (simp add: mark_steps.simps)
      with m big True show ?thesis by simp
    next
      case small: True
      then have w: "wrap64 (i + step) = i + step" using less(2-) wrap64_sum [of i step] True by auto
      have ih: "mark_steps (i + step) stop step ?ok = Some Panics \<and> i + step \<le> stop \<and> stop + step \<ge> 9223372036854775808 \<or>
        (\<exists>ok'. mark_steps (i + step) stop step ?ok = Some (Returns ok') \<and> length ok' = length ok \<and>
          (\<forall>v. 0 \<le> v \<and> v < int (length ok) \<longrightarrow> ok' ! nat v = (?ok ! nat v \<or> i + step \<le> v \<and> v \<le> stop \<and> (v - (i + step)) mod step = 0)))"
        using less(1) [of "i + step" ?ok] less(2-) True by simp
      have pt: "(?ok ! nat v \<or> i + step \<le> v \<and> v \<le> stop \<and> (v - (i + step)) mod step = 0) =
          (ok ! nat v \<or> i \<le> v \<and> v \<le> stop \<and> (v - i) mod step = 0)" if "0 \<le> v" "v < int (length ok)" for v
      proof (cases "v = i")
        case True
        with that less(2) \<open>i \<le> stop\<close> show ?thesis by (simp add: nth_list_update)
      next
        case False
        then have "?ok ! nat v = ok ! nat v" using that less(2) by (simp add: nth_list_update nat_eq_iff)
        moreover have "(v - (i + step)) mod step = (v - i) mod step" by (simp add: diff_diff_add [symmetric] minus_mod_self2)
        moreover have "(v - i) mod step = 0 \<and> i \<le> v \<Longrightarrow> i + step \<le> v"
          using False less(4) by (auto dest!: mod_0_imp_dvd dest: zdvd_imp_le)
        ultimately show ?thesis using less(4) by auto
      qed
      show ?thesis using ih True unfolding m w using pt by (auto split: if_splits)
    qed
  qed
qed

text \<open>The first addition decides: a range of a field is far shorter than a step that overflows.\<close>

lemma mark_steps_panics:
  assumes "0 \<le> i" "i \<le> stop" "stop < int (length ok)" "0 < step" "step < 9223372036854775808" "int (length ok) < 1000000"
  shows "mark_steps i stop step ok = Some Panics \<longleftrightarrow> i + step \<ge> 9223372036854775808"
proof -
  have m: "mark_steps i stop step ok = mark_steps (wrap64 (i + step)) stop step (ok[nat i := True])"
    using assms(1-3) by (simp add: mark_steps.simps [of i])
  show ?thesis
  proof (cases "i + step < 9223372036854775808")
    case False
    then have "wrap64 (i + step) < 0" using assms wrap64_sum [of i step] by auto
    then have "mark_steps (wrap64 (i + step)) stop step (ok[nat i := True]) = Some Panics" using assms by (simp add: mark_steps.simps)
    with m False show ?thesis by simp
  next
    case True
    then have "wrap64 (i + step) = i + step" using assms wrap64_sum [of i step] by auto
    then have "mark_steps i stop step ok \<noteq> Some Panics"
      using m mark_steps_cases [of "i + step" stop "ok[nat i := True]" step] assms by auto
    with True show ?thesis by simp
  qed
qed


definition part_matches :: "int \<Rightarrow> int \<Rightarrow> int \<Rightarrow> string \<Rightarrow> bool" where
  "part_matches lo hi v part \<longleftrightarrow>
     (case cron_step part of
        Returns (r, step) \<Rightarrow> (case cron_range lo hi r of Returns (a, b) \<Rightarrow> a \<le> v \<and> v \<le> b \<and> (v - a) mod step = 0 | _ \<Rightarrow> False)
      | _ \<Rightarrow> False)"

text \<open>What a field means: \<^verbatim>\<open>*\<close> is everything, and a list matches what one of its parts matches.\<close>

definition field_matches :: "string \<Rightarrow> int \<Rightarrow> int \<Rightarrow> int \<Rightarrow> bool" where
  "field_matches field lo hi v \<longleftrightarrow> (if field = ''*'' then lo \<le> v else list_ex (part_matches lo hi v) (Split CHR '','' field))"

text \<open>The range and the step of a part, if both are valid; a part whose first addition leaves the integers; a field that has such a part
  and no invalid part before it.\<close>

definition part_range :: "int \<Rightarrow> int \<Rightarrow> string \<Rightarrow> (int \<times> int) option" where
  "part_range lo hi part =
     (case cron_step part of
        Returns (r, step) \<Rightarrow> (case cron_range lo hi r of Returns (a, b) \<Rightarrow> Some (a, step) | _ \<Rightarrow> None)
      | _ \<Rightarrow> None)"

definition part_overflows :: "int \<Rightarrow> int \<Rightarrow> string \<Rightarrow> bool" where
  "part_overflows lo hi part \<longleftrightarrow> (case part_range lo hi part of None \<Rightarrow> False | Some (a, step) \<Rightarrow> a + step > 9223372036854775807)"

definition parts_overflow :: "int \<Rightarrow> int \<Rightarrow> string list \<Rightarrow> bool" where
  "parts_overflow lo hi parts \<longleftrightarrow> (\<exists>n<length parts. part_overflows lo hi (parts ! n) \<and> (\<forall>m<n. part_range lo hi (parts ! m) \<noteq> None))"

lemma parts_overflow_Cons [simp]:
  "parts_overflow lo hi (p # ps) \<longleftrightarrow> part_overflows lo hi p \<or> part_range lo hi p \<noteq> None \<and> parts_overflow lo hi ps"
  unfolding parts_overflow_def by (simp add: Ex_less_Suc2 All_less_Suc2) blast

lemma parts_overflow_Nil [simp]: "\<not> parts_overflow lo hi []"
  by (simp add: parts_overflow_def)

lemma cron_step_bounds: "cron_step part = Returns (r, n) \<Longrightarrow> 0 < n \<and> n < 9223372036854775808"
  by (auto simp: cron_step_def ParseInt_def Let_def int64_def split: if_splits option.splits prod.splits)

lemma cron_range_bounds: "cron_range lo hi r = Returns (a, b) \<Longrightarrow> lo \<le> hi \<Longrightarrow> lo \<le> a \<and> b \<le> hi \<and> a \<le> b"
  by (auto simp: cron_range_def split: if_splits option.splits prod.splits)

lemma cron_parts_cases:
  assumes "0 \<le> lo" "lo \<le> hi" "hi < 1000" "length ok = nat (hi + 1)"
  shows "\<exists>r. cron_parts lo hi ok parts = Some r \<and>
    (r = Panics \<longleftrightarrow> parts_overflow lo hi parts) \<and>
    (\<forall>ok'. r = Returns ok' \<longrightarrow> length ok' = length ok \<and>
       (\<forall>v. 0 \<le> v \<and> v \<le> hi \<longrightarrow> ok' ! nat v = (ok ! nat v \<or> list_ex (part_matches lo hi v) parts)))"
  using assms
proof (induction parts arbitrary: ok)
  case (Cons part parts)
  show ?case
  proof (cases "cron_step part")
    case (Returns x)
    then obtain r n where s: "cron_step part = Returns (r, n)" by (cases x) auto
    show ?thesis
    proof (cases "cron_range lo hi r")
      case R: (Returns y)
      then obtain a b where rg: "cron_range lo hi r = Returns (a, b)" by (cases y) auto
      note bd = cron_step_bounds [OF s] cron_range_bounds [OF rg Cons(3)]
      have len: "b < int (length ok)" "int (length ok) < 1000000" "0 \<le> a" using bd Cons(2-) by auto
      have pr: "part_range lo hi part = Some (a, n)" by (simp add: part_range_def s rg)
      have po: "mark_steps a b n ok = Some Panics \<longleftrightarrow> part_overflows lo hi part"
        using mark_steps_panics [of a b ok n] bd len by (auto simp: part_overflows_def pr)
      from mark_steps_cases [of a b ok n] bd len
      consider "mark_steps a b n ok = Some Panics"
        | ok1 where "mark_steps a b n ok = Some (Returns ok1)" "length ok1 = length ok"
          "\<forall>v. 0 \<le> v \<and> v < int (length ok) \<longrightarrow> ok1 ! nat v = (ok ! nat v \<or> a \<le> v \<and> v \<le> b \<and> (v - a) mod n = 0)" by auto
      then show ?thesis
      proof cases
        case 1
        with po show ?thesis by (simp add: s rg)
      next
        case 2
        from Cons(1) [of ok1] Cons(2-) 2(2) obtain q where q: "cron_parts lo hi ok1 parts = Some q" "q = Panics \<longleftrightarrow> parts_overflow lo hi parts"
          "\<forall>ok'. q = Returns ok' \<longrightarrow> length ok' = length ok1 \<and> (\<forall>v. 0 \<le> v \<and> v \<le> hi \<longrightarrow> ok' ! nat v = (ok1 ! nat v \<or> list_ex (part_matches lo hi v) parts))"
          by auto
        have "part_matches lo hi v part \<longleftrightarrow> a \<le> v \<and> v \<le> b \<and> (v - a) mod n = 0" for v by (simp add: part_matches_def s rg)
        moreover have "\<not> part_overflows lo hi part" using po 2(1) by simp
        ultimately show ?thesis using q 2 Cons(2-) by (auto simp: s rg pr)
      qed
    next
      case (Fails e)
      then show ?thesis by (simp add: s part_overflows_def part_range_def)
    next
      case Panics
      then show ?thesis by (auto simp: cron_range_def split: if_splits option.splits prod.splits)
    qed
  next
    case Panics
    then show ?thesis by (auto simp: cron_step_def split: if_splits option.splits prod.splits)
  next
    case (Fails e)
    then show ?thesis by (simp add: part_overflows_def part_range_def)
  qed
qed simp

text \<open>When the scan of a field panics, as a condition on its text.\<close>

definition field_overflows :: "string \<Rightarrow> int \<Rightarrow> int \<Rightarrow> bool" where
  "field_overflows field lo hi \<longleftrightarrow> parts_overflow lo hi (Split CHR '','' field)"

lemma star_in_range: "lo < 1000 \<Longrightarrow> \<not> field_overflows ''*'' lo hi"
  by (simp add: field_overflows_def part_overflows_def part_range_def cron_step_def cron_range_def)

lemma parseCronField_cases:
  assumes "0 \<le> lo" "lo \<le> hi" "hi < 1000"
  shows "\<exists>r. parseCronField field lo hi = Some r \<and> (r = Panics \<longleftrightarrow> field_overflows field lo hi) \<and>
    (\<forall>ok. r = Returns ok \<longrightarrow> length ok = nat (hi + 1) \<and> (\<forall>v. 0 \<le> v \<and> v \<le> hi \<longrightarrow> ok ! nat v = field_matches field lo hi v))"
proof (cases "field = ''*''")
  case True
  with assms star_in_range [of lo hi] show ?thesis by (simp add: parseCronField_def field_matches_def)
next
  case False
  with cron_parts_cases [of lo hi "replicate (nat (hi + 1)) False" "Split CHR '','' field"] assms show ?thesis
    by (simp add: parseCronField_def field_matches_def field_overflows_def)
qed

section \<open>Cron expressions\<close>

definition cron_matches :: "string list \<Rightarrow> location \<Rightarrow> time \<Rightarrow> bool" where
  "cron_matches fs loc t \<longleftrightarrow>
     field_matches (fs ! 0) 0 59 (t_Minute loc t) \<and> field_matches (fs ! 1) 0 23 (t_Hour loc t) \<and> field_matches (fs ! 3) 1 12 (t_Month loc t) \<and>
     (let dom = field_matches (fs ! 2) 1 31 (t_Day loc t); dow = field_matches (fs ! 4) 0 6 (t_Weekday loc t) in
      if fs ! 2 \<noteq> ''*'' \<and> fs ! 4 \<noteq> ''*'' then dom \<or> dow else dom \<and> dow)"

definition cron_overflows :: "string list \<Rightarrow> bool" where
  "cron_overflows fs \<longleftrightarrow> field_overflows (fs ! 0) 0 59 \<or> field_overflows (fs ! 1) 0 23 \<or> field_overflows (fs ! 2) 1 31 \<or>
     field_overflows (fs ! 3) 1 12 \<or> field_overflows (fs ! 4) 0 6"

lemma cron_fields_cases:
  "\<exists>r. cron_fields fs = Some r \<and> (r = Panics \<longleftrightarrow> cron_overflows fs) \<and>
     (\<forall>c. r = Returns c \<longrightarrow> (\<forall>loc t. cron_due c loc t = Returns (cron_matches fs loc t)))"
proof -
  obtain r0 where r0: "parseCronField (fs ! 0) 0 59 = Some r0" "r0 = Panics \<longleftrightarrow> field_overflows (fs ! 0) 0 59"
    "\<forall>ok. r0 = Returns ok \<longrightarrow> length ok = 60 \<and> (\<forall>v. 0 \<le> v \<and> v \<le> 59 \<longrightarrow> ok ! nat v = field_matches (fs ! 0) 0 59 v)"
    using parseCronField_cases [of 0 59 "fs ! 0"] by auto
  obtain r1 where r1: "parseCronField (fs ! 1) 0 23 = Some r1" "r1 = Panics \<longleftrightarrow> field_overflows (fs ! 1) 0 23"
    "\<forall>ok. r1 = Returns ok \<longrightarrow> length ok = 24 \<and> (\<forall>v. 0 \<le> v \<and> v \<le> 23 \<longrightarrow> ok ! nat v = field_matches (fs ! 1) 0 23 v)"
    using parseCronField_cases [of 0 23 "fs ! 1"] by auto
  obtain r2 where r2: "parseCronField (fs ! 2) 1 31 = Some r2" "r2 = Panics \<longleftrightarrow> field_overflows (fs ! 2) 1 31"
    "\<forall>ok. r2 = Returns ok \<longrightarrow> length ok = 32 \<and> (\<forall>v. 0 \<le> v \<and> v \<le> 31 \<longrightarrow> ok ! nat v = field_matches (fs ! 2) 1 31 v)"
    using parseCronField_cases [of 1 31 "fs ! 2"] by auto
  obtain r3 where r3: "parseCronField (fs ! 3) 1 12 = Some r3" "r3 = Panics \<longleftrightarrow> field_overflows (fs ! 3) 1 12"
    "\<forall>ok. r3 = Returns ok \<longrightarrow> length ok = 13 \<and> (\<forall>v. 0 \<le> v \<and> v \<le> 12 \<longrightarrow> ok ! nat v = field_matches (fs ! 3) 1 12 v)"
    using parseCronField_cases [of 1 12 "fs ! 3"] by auto
  obtain r4 where r4: "parseCronField (fs ! 4) 0 6 = Some r4" "r4 = Panics \<longleftrightarrow> field_overflows (fs ! 4) 0 6"
    "\<forall>ok. r4 = Returns ok \<longrightarrow> length ok = 7 \<and> (\<forall>v. 0 \<le> v \<and> v \<le> 6 \<longrightarrow> ok ! nat v = field_matches (fs ! 4) 0 6 v)"
    using parseCronField_cases [of 0 6 "fs ! 4"] by auto
  have over: "cron_overflows fs \<longleftrightarrow> r0 = Panics \<or> r1 = Panics \<or> r2 = Panics \<or> r3 = Panics \<or> r4 = Panics"
    unfolding cron_overflows_def r0(2) r1(2) r2(2) r3(2) r4(2) ..
  show ?thesis
  proof (cases "r0 = Panics \<or> r1 = Panics \<or> r2 = Panics \<or> r3 = Panics \<or> r4 = Panics")
    case True
    then have "cron_fields fs = Some Panics" unfolding cron_fields_def r0(1) r1(1) r2(1) r3(1) r4(1) by simp
    moreover have "cron_overflows fs" using True over by simp
    ultimately show ?thesis by simp
  next
    case False
    show ?thesis
    proof (cases "\<exists>m h d mo w. r0 = Returns m \<and> r1 = Returns h \<and> r2 = Returns d \<and> r3 = Returns mo \<and> r4 = Returns w")
      case True
      then obtain m h d mo w where R: "r0 = Returns m" "r1 = Returns h" "r2 = Returns d" "r3 = Returns mo" "r4 = Returns w" by blast
      let ?c = "\<lparr>cs_minute = m, cs_hour = h, cs_dom = d, cs_month = mo, cs_dow = w, cs_any_dom = (fs ! 2 = ''*''), cs_any_dow = (fs ! 4 = ''*'')\<rparr>"
      have "cron_fields fs = Some (Returns ?c)" unfolding cron_fields_def r0(1) r1(1) r2(1) r3(1) r4(1) R by simp
      moreover have "cron_due ?c loc t = Returns (cron_matches fs loc t)" for loc t
      proof -
        note rg = clock_range [of loc t] date_range [of loc t]
        have ix: "at_index m (t_Minute loc t) = Returns (field_matches (fs ! 0) 0 59 (t_Minute loc t))"
          "at_index h (t_Hour loc t) = Returns (field_matches (fs ! 1) 0 23 (t_Hour loc t))"
          "at_index d (t_Day loc t) = Returns (field_matches (fs ! 2) 1 31 (t_Day loc t))"
          "at_index mo (t_Month loc t) = Returns (field_matches (fs ! 3) 1 12 (t_Month loc t))"
          "at_index w (t_Weekday loc t) = Returns (field_matches (fs ! 4) 0 6 (t_Weekday loc t))"
          using rg r0(3) r1(3) r2(3) r3(3) r4(3) by (simp_all add: at_index_def R)
        have star: "field_matches ''*'' 1 31 (t_Day loc t)" "field_matches ''*'' 0 6 (t_Weekday loc t)" using rg by (simp_all add: field_matches_def)
        show ?thesis
          using star by (auto simp: cron_due_def cron_matches_def ix go_and_def go_or_def Let_def split: bool.splits)
      qed
      ultimately show ?thesis using False over by auto
    next
      case none: False
      then have "cron_fields fs = Some (Fails ''invalid cron field'')"
        using False unfolding cron_fields_def r0(1) r1(1) r2(1) r3(1) r4(1) by (cases r0; cases r1; cases r2; cases r3; cases r4) simp_all
      then show ?thesis using False over by simp
    qed
  qed
qed

text \<open>The scan returns the first minute that is due, if there is one within the limit.\<close>

lemma cron_scan_cases:
  assumes "\<forall>loc t. cron_due c loc t = Returns (P loc t)"
  shows "(\<exists>k. cron_scan c loc limit t = Some (Returns (t + int k * minute)) \<and> t + int k * minute \<le> limit \<and> P loc (t + int k * minute) \<and>
      (\<forall>j<k. \<not> P loc (t + int j * minute))) \<or>
    cron_scan c loc limit t = Some (Fails ''no upcoming cron occurrence'') \<and> (\<forall>j. t + int j * minute \<le> limit \<longrightarrow> \<not> P loc (t + int j * minute))"
proof (induction "nat (limit + 1 - t)" arbitrary: t rule: less_induct)
  case less
  consider "t > limit" | "t \<le> limit" "P loc t" | "t \<le> limit" "\<not> P loc t" by fastforce
  then show ?case
  proof cases
    case 1
    then show ?thesis by (auto simp: cron_scan.simps [of c loc limit t])
  next
    case 2
    then show ?thesis using assms by (intro disjI1 exI [of _ 0]) (simp add: cron_scan.simps [of c loc limit t])
  next
    case 3
    then have s: "cron_scan c loc limit t = cron_scan c loc limit (t + minute)" using assms by (simp add: cron_scan.simps [of c loc limit t])
    have z: "P loc (t + int j * minute) \<Longrightarrow> \<exists>i. j = Suc i" for j using 3 by (cases j) auto
    have "nat (limit + 1 - (t + minute)) < nat (limit + 1 - t)" using 3 by simp
    from less [OF this] show ?thesis
    proof (elim disjE conjE exE)
      fix k assume k: "cron_scan c loc limit (t + minute) = Some (Returns (t + minute + int k * minute))" "t + minute + int k * minute \<le> limit"
        "P loc (t + minute + int k * minute)" "\<forall>j<k. \<not> P loc (t + minute + int j * minute)"
      have e: "t + minute + int j * minute = t + int (Suc j) * minute" for j by (simp add: algebra_simps)
      have "\<not> P loc (t + int j * minute)" if "j < Suc k" for j using that k(4) z [of j] unfolding e by auto
      with k show ?thesis unfolding s e by (intro disjI1 exI [of _ "Suc k"]) simp
    next
      assume k: "cron_scan c loc limit (t + minute) = Some (Fails ''no upcoming cron occurrence'')"
        "\<forall>j. t + minute + int j * minute \<le> limit \<longrightarrow> \<not> P loc (t + minute + int j * minute)"
      have e: "t + minute + int j * minute = t + int (Suc j) * minute" for j by (simp add: algebra_simps)
      have "\<forall>j. t + int j * minute \<le> limit \<longrightarrow> \<not> P loc (t + int j * minute)" using k(2) z unfolding e by metis
      with k(1) show ?thesis unfolding s by blast
    qed
  qed
qed

section \<open>Every loop returns\<close>

lemma window_scan_cases:
  assumes "0 < d"
  shows "\<exists>x. window_scan loc d ws we stop t = Some x \<and>
    (\<forall>u. x = Some u \<longrightarrow> (\<exists>k. u = t + int k * d) \<and>
       (let wall = time_Date UTC (t_Year loc u) (t_Month loc u) (t_Day loc u) (t_Hour loc u) (t_Minute loc u) (t_Second loc u) in ws \<le> wall \<and> wall < we))"
proof (induction "nat (stop - t)" arbitrary: t rule: less_induct)
  case less
  let ?wall = "time_Date UTC (t_Year loc t) (t_Month loc t) (t_Day loc t) (t_Hour loc t) (t_Minute loc t) (t_Second loc t)"
  consider "\<not> t < stop" | "t < stop" "ws \<le> ?wall \<and> ?wall < we" | "t < stop" "\<not> (ws \<le> ?wall \<and> ?wall < we)" by blast
  then show ?case
  proof cases
    case 1
    then show ?thesis by (simp add: window_scan.simps [of loc d ws we stop t])
  next
    case 2
    then show ?thesis by (intro exI [of _ "Some t"]) (auto simp: window_scan.simps [of loc d ws we stop t] Let_def intro: exI [of _ 0])
  next
    case 3
    then have s: "window_scan loc d ws we stop t = window_scan loc d ws we stop (t + d)"
      by (subst window_scan.simps) (auto simp: Let_def)
    have "nat (stop - (t + d)) < nat (stop - t)" using 3 assms by simp
    from less [OF this] obtain x where x: "window_scan loc d ws we stop (t + d) = Some x"
      "\<forall>u. x = Some u \<longrightarrow> (\<exists>k. u = t + d + int k * d) \<and>
       (let wall = time_Date UTC (t_Year loc u) (t_Month loc u) (t_Day loc u) (t_Hour loc u) (t_Minute loc u) (t_Second loc u) in ws \<le> wall \<and> wall < we)"
      by blast
    have "\<exists>k. u = t + int k * d" if uk: "\<exists>k. u = t + d + int k * d" for u
    proof -
      from uk obtain k where "u = t + int (Suc k) * d" by (auto simp: algebra_simps)
      then show ?thesis by blast
    qed
    with x show ?thesis unfolding s by blast
  qed
qed

lemma cron_next_cases:
  assumes "length (str_Fields expr) = 5"
  shows "\<exists>r. NextCron expr loc from = Some r \<and>
    (r = Panics \<longleftrightarrow> cron_overflows (str_Fields expr)) \<and>
    (let first = go_Truncate from minute + minute; limit = first + 400 * 24 * hour in
     (\<forall>t. r = Returns t \<longrightarrow> (\<exists>k. t = first + int k * minute \<and> t \<le> limit \<and> cron_matches (str_Fields expr) loc t \<and>
        (\<forall>j<k. \<not> cron_matches (str_Fields expr) loc (first + int j * minute)))) \<and>
     (r = Fails ''no upcoming cron occurrence'' \<longrightarrow> (\<forall>j. first + int j * minute \<le> limit \<longrightarrow> \<not> cron_matches (str_Fields expr) loc (first + int j * minute))))"
proof -
  let ?fs = "str_Fields expr"
  obtain r where r: "cron_fields ?fs = Some r" "r = Panics \<longleftrightarrow> cron_overflows ?fs"
    "\<forall>c. r = Returns c \<longrightarrow> (\<forall>loc t. cron_due c loc t = Returns (cron_matches ?fs loc t))"
    using cron_fields_cases by blast
  show ?thesis
  proof (cases r)
    case (Returns c)
    let ?first = "go_Truncate from minute + minute" and ?limit = "go_Truncate from minute + minute + 400 * 24 * hour"
    have "\<forall>loc t. cron_due c loc t = Returns (cron_matches ?fs loc t)" using r(3) Returns by blast
    moreover have "NextCron expr loc from = cron_scan c loc ?limit ?first" by (simp add: NextCron_def assms r(1) Returns Let_def)
    ultimately show ?thesis using cron_scan_cases [of c "cron_matches ?fs" loc ?limit ?first] r(2) Returns unfolding Let_def by auto
  next
    case (Fails e)
    moreover from Fails r(1) have "e = ''invalid cron field''"
      by (auto simp: cron_fields_def split: option.splits outcome.splits if_splits)
    ultimately show ?thesis using r(2) by (simp add: NextCron_def assms r(1) Let_def)
  next
    case Panics
    with r(2) show ?thesis by (simp add: NextCron_def assms r(1) Let_def)
  qed
qed

section \<open>Interval slots\<close>

definition wall_clock :: "location \<Rightarrow> time \<Rightarrow> time" where
  "wall_clock loc t = time_Date UTC (t_Year loc t) (t_Month loc t) (t_Day loc t) (t_Hour loc t) (t_Minute loc t) (t_Second loc t)"

definition within_bounds :: "RoutineTiming \<Rightarrow> time \<Rightarrow> time \<Rightarrow> bool" where
  "within_bounds p from t \<longleftrightarrow> from < t \<and> (rt_StartAt p = zero_time \<or> rt_StartAt p \<le> t) \<and> (rt_EndAt p = zero_time \<or> t < rt_EndAt p)"

text \<open>The wall clock is in the window that opens on an allowed day: opening included, close excluded, an
  overnight window up to the close of the next day.\<close>

definition window_open :: "location \<Rightarrow> time \<Rightarrow> RoutineWindow \<Rightarrow> time \<Rightarrow> bool" where
  "window_open loc day w t \<longleftrightarrow>
     (case (parse_clock (rw_From w), parse_clock (rw_To w)) of
        (Some (ah, am), Some (bh, bm)) \<Rightarrow>
          (let opening = time_Date UTC (t_Year loc day) (t_Month loc day) (t_Day loc day) ah am 0;
               close = time_Date UTC (t_Year loc day) (t_Month loc day) (t_Day loc day) bh bm 0
           in opening \<le> wall_clock loc t \<and> wall_clock loc t < (if bh * 60 + bm < ah * 60 + am then AddDate UTC close 1 else close))
      | _ \<Rightarrow> False)"

text \<open>The distance from the origin of a grid, plus one interval, is a duration (less than 292 years).\<close>

definition near :: "time \<Rightarrow> int \<Rightarrow> time \<Rightarrow> bool" where
  "near from d a \<longleftrightarrow> from - a + d \<le> 9223372036854775807"

text \<open>The first point of the grid with origin \<open>a\<close>, at or after its origin and after \<open>from\<close>, that falls on an allowed day.\<close>

definition first_on_grid :: "RoutineTiming \<Rightarrow> location \<Rightarrow> time \<Rightarrow> int \<Rightarrow> time \<Rightarrow> time \<Rightarrow> bool" where
  "first_on_grid p loc from d a t \<longleftrightarrow> d dvd (t - a) \<and> a \<le> t \<and> (\<forall>u. from < u \<and> a \<le> u \<and> u < t \<and> d dvd (u - a) \<longrightarrow> \<not> day_allowed p loc u)"

definition grid_slot :: "RoutineTiming \<Rightarrow> location \<Rightarrow> time \<Rightarrow> int \<Rightarrow> time \<Rightarrow> time \<Rightarrow> bool" where
  "grid_slot p loc from d anchor t \<longleftrightarrow> rt_Windows p = [] \<and> day_allowed p loc t \<and>
     (let a = (if anchor = zero_time then from else anchor) in near from d a \<longrightarrow> first_on_grid p loc from d a t)"

text \<open>The grid of a window starts when it opens.\<close>

definition window_grid :: "location \<Rightarrow> time \<Rightarrow> int \<Rightarrow> time \<Rightarrow> RoutineWindow \<Rightarrow> time \<Rightarrow> bool" where
  "window_grid loc from d day w t \<longleftrightarrow>
     (case parse_clock (rw_From w) of None \<Rightarrow> False
      | Some (ah, am) \<Rightarrow> (let a = time_Date loc (t_Year loc day) (t_Month loc day) (t_Day loc day) ah am 0 in near from d a \<longrightarrow> d dvd (t - a)))"

definition window_day :: "RoutineTiming \<Rightarrow> location \<Rightarrow> time \<Rightarrow> int \<Rightarrow> time \<Rightarrow> bool" where
  "window_day p loc from d t \<longleftrightarrow> (\<exists>day w. day_allowed p loc day \<and> w \<in> set (rt_Windows p) \<and> window_open loc day w t \<and> window_grid loc from d day w t)"

definition extra_time :: "RoutineTiming \<Rightarrow> location \<Rightarrow> time \<Rightarrow> bool" where
  "extra_time p loc t \<longleftrightarrow> (\<exists>day hm. day_allowed p loc day \<and> format_clock loc t \<in> set (rt_At p) \<and> parse_clock (format_clock loc t) = Some hm \<and>
     \<bar>t - time_Date loc (t_Year loc day) (t_Month loc day) (t_Day loc day) (fst hm) (snd hm) 0\<bar> \<le> 2 * hour)"

definition is_slot :: "RoutineTiming \<Rightarrow> location \<Rightarrow> time \<Rightarrow> int \<Rightarrow> time \<Rightarrow> time \<Rightarrow> bool" where
  "is_slot p loc from d anchor t \<longleftrightarrow>
     within_bounds p from t \<and> (grid_slot p loc from d anchor t \<or> window_day p loc from d t \<or> extra_time p loc t)"

abbreviation slot_or_none :: "RoutineTiming \<Rightarrow> location \<Rightarrow> time \<Rightarrow> int \<Rightarrow> time \<Rightarrow> time \<Rightarrow> bool" where
  "slot_or_none p loc from d anchor b \<equiv> b = zero_time \<or> is_slot p loc from d anchor b"

lemma take_slot_ok:
  "slot_or_none p loc from d anchor best \<Longrightarrow> grid_slot p loc from d anchor t \<or> window_day p loc from d t \<or> extra_time p loc t \<Longrightarrow>
     slot_or_none p loc from d anchor (take_slot p from best t)"
  by (auto simp: take_slot_def is_slot_def within_bounds_def)

lemma div_mult_le: "0 < d \<Longrightarrow> (x::int) div d * d \<le> x"
  by (simp add: minus_mod_eq_div_mult [symmetric])

lemma grid_after_near:
  assumes "0 < d" "near from d a"
  shows "grid_after from d a = (if a \<le> from then a + ((from - a) div d + 1) * d else a)"
proof (cases "a \<le> from")
  case True
  let ?q = "(from - a) div d"
  have q: "0 \<le> ?q" "?q * d \<le> from - a" using True assms(1) div_mult_le [OF assms(1)] by (simp_all add: pos_imp_zdiv_nonneg_iff)
  have s: "go_Sub from a = from - a" using True assms by (simp add: go_Sub_def near_def)
  have "0 \<le> (?q + 1) * d" using q(1) assms(1) by simp
  moreover have "(?q + 1) * d \<le> 9223372036854775807" using q(2) assms(2) by (simp add: near_def algebra_simps)
  ultimately have "int64 ((?q + 1) * d)" by (simp add: int64_def)
  then have "wrap64 ((?q + 1) * d) = (?q + 1) * d" by (rule wrap64_id)
  moreover have "go_quot (from - a) d = ?q" using True assms(1) by (cases "from = a") (simp_all add: go_quot_def)
  ultimately show ?thesis using True by (simp add: grid_after_def s)
qed (simp add: grid_after_def)

lemma grid_after_first:
  assumes "0 < d" "near from d a"
  shows "d dvd (grid_after from d a - a)" "a \<le> grid_after from d a"
    "from < u \<Longrightarrow> a \<le> u \<Longrightarrow> d dvd (u - a) \<Longrightarrow> \<exists>j. u = grid_after from d a + int j * d"
proof -
  let ?g = "grid_after from d a"
  note g = grid_after_near [OF assms]
  show dv: "d dvd (?g - a)" by (simp add: g)
  show "a \<le> ?g" using assms(1) by (auto simp: g pos_imp_zdiv_nonneg_iff)
  assume u: "from < u" "a \<le> u" "d dvd (u - a)"
  from u(3) dv have "d dvd ((u - a) - (?g - a))" by (rule dvd_diff)
  then obtain k where k: "u - ?g = d * k" by (auto elim: dvdE)
  have "?g - d \<le> from \<or> ?g = a"
  proof (cases "a \<le> from")
    case True
    have "(from - a) div d * d \<le> from - a" by (rule div_mult_le [OF assms(1)])
    with True show ?thesis by (simp add: g algebra_simps)
  qed (simp add: g)
  then have "- d < d * k"
  proof
    assume "?g - d \<le> from" with u(1) k show ?thesis by simp
  next
    assume "?g = a" with u(2) k assms(1) show ?thesis by simp
  qed
  then have "d * (- 1) < d * k" by simp
  then have "-1 < k" using assms(1) by (simp only: mult_less_cancel_left_pos)
  then have "u = ?g + int (nat k) * d" using k by (simp add: algebra_simps)
  then show "\<exists>j. u = ?g + int j * d" by blast
qed

text \<open>The loop has passed over every earlier point of the grid.\<close>

lemma interval_loop_ok:
  assumes "rt_Windows p = []" "0 < d" "slot_or_none p loc from d anchor best"
    "\<exists>k. t = grid_after from d (if anchor = zero_time then from else anchor) + int k * d \<and>
      (\<forall>j<k. \<not> day_allowed p loc (grid_after from d (if anchor = zero_time then from else anchor) + int j * d))"
  shows "slot_or_none p loc from d anchor (interval_loop p loc from d n t best)"
  using assms
proof (induction p loc "from" d n t best rule: interval_loop.induct)
  case (1 p loc fr d n t best)
  let ?a = "if anchor = zero_time then fr else anchor"
  let ?g = "grid_after fr d ?a"
  from 1(5) obtain k where k: "t = ?g + int k * d" "\<forall>j<k. \<not> day_allowed p loc (?g + int j * d)" by blast
  show ?case
  proof (cases "day_allowed p loc t")
    case False
    then have "\<forall>j<Suc k. \<not> day_allowed p loc (?g + int j * d)" using k by (auto simp: less_Suc_eq)
    moreover have "t + d = ?g + int (Suc k) * d" using k(1) by (simp add: algebra_simps)
    ultimately have "\<exists>k. t + d = ?g + int k * d \<and> (\<forall>j<k. \<not> day_allowed p loc (?g + int j * d))" by blast
    with 1 False show ?thesis by (simp add: interval_loop.simps [of p loc fr d n t best])
  next
    case True
    have "first_on_grid p loc fr d ?a t" if nr: "near fr d ?a"
      unfolding first_on_grid_def
    proof (intro conjI allI impI)
      note g = grid_after_first [OF 1(3) nr]
      have "t - ?a = (?g - ?a) + int k * d" using k(1) by simp
      then show "d dvd (t - ?a)" using g(1) by (metis dvd_add dvd_triv_right)
      have "0 \<le> int k * d" using 1(3) by simp
      then show "?a \<le> t" using g(2) k(1) by linarith
      fix u assume u: "fr < u \<and> ?a \<le> u \<and> u < t \<and> d dvd (u - ?a)"
      then obtain j where j: "u = ?g + int j * d" using g(3) by blast
      with u k(1) 1(3) have "j < k" by simp
      with k(2) j show "\<not> day_allowed p loc u" by blast
    qed
    then have "grid_slot p loc fr d anchor t" using True 1(2) by (simp add: grid_slot_def Let_def)
    then have "slot_or_none p loc fr d anchor (take_slot p fr best t)" using take_slot_ok [OF 1(4)] by blast
    with True 1(4) show ?thesis by (simp add: interval_loop.simps [of p loc fr d n t best])
  qed
qed

lemma window_slot_cases:
  assumes "0 < d"
  shows "\<exists>r. window_slot loc from d day w = Some r \<and> r \<noteq> Panics \<and> (\<forall>u. r = Returns (Some u) \<longrightarrow> window_open loc day w u \<and> window_grid loc from d day w u)"
proof (cases "parse_clock (rw_From w)")
  case a: (Some hm)
  show ?thesis
  proof (cases "parse_clock (rw_To w)")
    case b: (Some hm')
    obtain ah am bh bm where c: "hm = (ah, am)" "hm' = (bh, bm)" by (cases hm; cases hm')
    let ?ws = "time_Date UTC (t_Year loc day) (t_Month loc day) (t_Day loc day) ah am 0"
    let ?we = "(let e = time_Date UTC (t_Year loc day) (t_Month loc day) (t_Day loc day) bh bm 0 in
      if bh * 60 + bm < ah * 60 + am then AddDate UTC e 1 else e)"
    let ?a = "time_Date loc (t_Year loc day) (t_Month loc day) (t_Day loc day) ah am 0"
    have "\<exists>stop. window_slot loc from d day w = map_option Returns (window_scan loc d ?ws ?we stop (grid_after from d ?a))"
      unfolding window_slot_def a b c option.case prod.case Let_def by blast
    then obtain stop where w: "window_slot loc from d day w = map_option Returns (window_scan loc d ?ws ?we stop (grid_after from d ?a))" by blast
    have "near from d ?a \<Longrightarrow> d dvd (grid_after from d ?a + int k * d - ?a)" for k
      using grid_after_first(1) [OF assms, of "from" ?a] by (metis add_diff_eq diff_add_eq dvd_add dvd_triv_right)
    with window_scan_cases [OF assms, of loc ?ws ?we stop "grid_after from d ?a"] show ?thesis
      unfolding w window_open_def window_grid_def a b c wall_clock_def Let_def by auto
  qed (simp add: window_slot_def a split: prod.split)
qed (simp add: window_slot_def)

lemma windows_loop_ok:
  assumes "0 < d" "day_allowed p loc day" "set ws \<subseteq> set (rt_Windows p)" "slot_or_none p loc from d anchor best"
  shows "\<exists>r. windows_loop p loc from d day best ws = Some r \<and> r \<noteq> Panics \<and> (\<forall>b. r = Returns b \<longrightarrow> slot_or_none p loc from d anchor b)"
  using assms(3,4)
proof (induction ws arbitrary: best)
  case (Cons w ws)
  obtain r where r: "window_slot loc from d day w = Some r" "r \<noteq> Panics" "\<forall>u. r = Returns (Some u) \<longrightarrow> window_open loc day w u \<and> window_grid loc from d day w u"
    using window_slot_cases [OF assms(1)] by blast
  show ?case
  proof (cases r)
    case (Returns x)
    have "window_day p loc from d u" if "x = Some u" for u using that r(3) Returns Cons(2) assms(2) unfolding window_day_def by auto
    then have "slot_or_none p loc from d anchor (case x of None \<Rightarrow> best | Some t \<Rightarrow> take_slot p from best t)"
      using Cons(3) take_slot_ok by (cases x) auto
    from Cons(1) [OF _ this] Cons(2) show ?thesis by (simp add: r(1) Returns)
  qed (use r in simp_all)
qed simp

lemma appendInt2:
  assumes "0 \<le> x" "x < 100"
  shows "length (appendInt 2 x) = 2 \<and> list_all is_digit (appendInt 2 x)"
proof (cases "nat x < 10")
  case True
  then have "nat_digits (nat x) = [digit_char (nat x)]" by (simp add: nat_digits.simps)
  with assms show ?thesis by (simp add: appendInt_def is_digit_digit_char) (simp add: is_digit_def in_range_def)
next
  case False
  have "nat x div 10 < 10" using assms by (simp add: div_less_iff_less_mult)
  then have "nat_digits (nat x) = [digit_char (nat x div 10), digit_char (nat x)]" using False by (simp add: nat_digits.simps)
  with assms show ?thesis by (simp add: appendInt_def is_digit_digit_char)
qed

text \<open>A formatted clock has five characters and begins with a digit, so it ends the formatted date and time.\<close>

lemma format_clock_shape:
  "length (format_clock loc t) = 5" "format_clock loc t ! 0 \<noteq> CHR '' ''"
proof -
  have h: "length (appendInt 2 (t_Hour loc t)) = 2" "list_all is_digit (appendInt 2 (t_Hour loc t))"
    and m: "length (appendInt 2 (t_Minute loc t)) = 2"
    using appendInt2 clock_range [of loc t] by auto
  then show "length (format_clock loc t) = 5" by (simp add: format_clock_def)
  from h obtain c cs where "appendInt 2 (t_Hour loc t) = c # cs" "is_digit c" by (cases "appendInt 2 (t_Hour loc t)") auto
  then show "format_clock loc t ! 0 \<noteq> CHR '' ''" by (auto simp: format_clock_def is_digit_def in_range_def)
qed

lemma parse_clock_length: "parse_clock v = Some hm \<Longrightarrow> length v = 4 \<or> length v = 5"
  by (auto simp: parse_clock_def Let_def min_def split: if_splits)

lemma dated_clock:
  assumes "x @ '' '' @ format_clock loc u = y @ '' '' @ v" "length v = 4 \<or> length v = 5"
  shows "format_clock loc u = v"
proof (cases "length v = 5")
  case True
  with assms(1) format_clock_shape(1) [of loc u] have "x @ '' '' = y @ '' '' \<and> format_clock loc u = v"
    by (intro append_eq_append_conv [THEN iffD1]) simp_all
  then show ?thesis by simp
next
  case False
  with assms(2) have "length v = 4" by simp
  with assms(1) format_clock_shape(1) [of loc u] have "x @ '' '' = y \<and> format_clock loc u = '' '' @ v"
    by (intro append_eq_append_conv [THEN iffD1]) simp_all
  then have "format_clock loc u ! 0 = CHR '' ''" by simp
  with format_clock_shape(2) [of loc u] show ?thesis by simp
qed

lemma at_candidates_ok:
  assumes "u \<in> set (at_candidates loc day v hm)" "parse_clock v = Some hm"
  shows "format_clock loc u = v" "\<bar>u - time_Date loc (t_Year loc day) (t_Month loc day) (t_Day loc day) (fst hm) (snd hm) 0\<bar> \<le> 2 * hour"
proof -
  define t where "t = time_Date loc (t_Year loc day) (t_Month loc day) (t_Day loc day) (fst hm) (snd hm) 0"
  have "u = t \<and> format_clock loc t = v \<or>
    (\<exists>delta. delta \<in> set fold_deltas \<and> u = t + delta) \<and> format_date loc u @ '' '' @ format_clock loc u = format_date loc day @ '' '' @ v"
    using assms(1) unfolding at_candidates_def Let_def t_def [symmetric] set_append set_filter set_map by (cases "format_clock loc t = v") auto
  moreover have "delta \<in> set fold_deltas \<Longrightarrow> \<bar>delta\<bar> \<le> 2 * hour" for delta by (auto simp: fold_deltas_def)
  ultimately have "format_clock loc u = v \<and> \<bar>u - t\<bar> \<le> 2 * hour"
    using dated_clock [OF _ parse_clock_length [OF assms(2)], of "format_date loc u" loc u "format_date loc day"] by fastforce
  then show "format_clock loc u = v" "\<bar>u - time_Date loc (t_Year loc day) (t_Month loc day) (t_Day loc day) (fst hm) (snd hm) 0\<bar> \<le> 2 * hour"
    unfolding t_def by simp_all
qed

lemma take_slots_ok:
  assumes "slot_or_none p loc from d anchor best" "\<And>u. u \<in> set us \<Longrightarrow> extra_time p loc u"
  shows "slot_or_none p loc from d anchor (foldl (take_slot p from) best us)"
  using assms
proof (induction us arbitrary: best)
  case (Cons u us)
  have "slot_or_none p loc from d anchor (take_slot p from best u)" using take_slot_ok [OF Cons(2), of u] Cons(3) [of u] by auto
  from Cons(1) [OF this] Cons(3) show ?case by simp
qed simp

lemma at_loop_ok:
  assumes "day_allowed p loc day" "set vs \<subseteq> set (rt_At p)" "slot_or_none p loc from d anchor best"
  shows "at_loop p loc from day best vs \<noteq> Panics \<and> (\<forall>b. at_loop p loc from day best vs = Returns b \<longrightarrow> slot_or_none p loc from d anchor b)"
  using assms(2,3)
proof (induction vs arbitrary: best)
  case (Cons v vs)
  show ?case
  proof (cases "parse_clock v")
    case (Some hm)
    have "extra_time p loc u" if u: "u \<in> set (at_candidates loc day v hm)" for u
      using at_candidates_ok [OF u Some] Some Cons(2) assms(1) unfolding extra_time_def by auto
    from take_slots_ok [OF Cons(3) this] have "slot_or_none p loc from d anchor (foldl (take_slot p from) best (at_candidates loc day v hm))" .
    from Cons(1) [OF _ this] Cons(2) show ?thesis by (simp add: Some)
  qed simp
qed simp

lemma day_loop_ok:
  assumes "0 < d" "slot_or_none p loc from d anchor best"
  shows "\<exists>r. day_loop p loc from d n day best = Some r \<and> r \<noteq> Panics \<and> (\<forall>b. r = Returns b \<longrightarrow> slot_or_none p loc from d anchor b)"
  using assms
proof (induction p loc "from" d n day best rule: day_loop.induct)
  case (1 p loc fr d n day best)
  show ?case
  proof (cases "n < 403 \<and> \<not> (best \<noteq> zero_time \<and> day > best \<or> rt_EndAt p \<noteq> zero_time \<and> day > rt_EndAt p)")
    case stop: False
    then show ?thesis using 1(4) by (simp add: day_loop.simps [of p loc fr d n day best])
  next
    case True
    show ?thesis
    proof (cases "day_allowed p loc day")
      case False
      with True 1(1) [OF _ _ _ 1(3,4)] 1(4) show ?thesis by (auto simp: day_loop.simps [of p loc fr d n day best])
    next
      case ok: True
      obtain r where r: "windows_loop p loc fr d day best (rt_Windows p) = Some r" "r \<noteq> Panics"
        "\<forall>b. r = Returns b \<longrightarrow> slot_or_none p loc fr d anchor b"
        using windows_loop_ok [OF 1(3) ok order_refl 1(4)] by blast
      show ?thesis
      proof (cases r)
        case (Returns b)
        note at = at_loop_ok [OF ok order_refl, of b fr d anchor] r(3)
        show ?thesis
        proof (cases "at_loop p loc fr day b (rt_At p)")
          case R: (Returns b')
          have "slot_or_none p loc fr d anchor b'" using at R Returns by auto
          from 1(2) [OF _ _ _ _ _ 1(3) this] True ok R 1(4) show ?thesis
            by (auto simp: day_loop.simps [of p loc fr d n day best] r(1) Returns)
        next
          case (Fails e)
          with True ok 1(4) show ?thesis by (auto simp: day_loop.simps [of p loc fr d n day best] r(1) Returns)
        next
          case Panics
          with at Returns show ?thesis by auto
        qed
      next
        case (Fails e)
        with True ok r 1(4) show ?thesis by (auto simp: day_loop.simps [of p loc fr d n day best])
      next
        case Panics
        with r show ?thesis by simp
      qed
    qed
  qed
qed

lemma NextInterval_cases:
  assumes "0 < d"
  shows "\<exists>r. NextInterval p loc from0 d anchor = Some r \<and> r \<noteq> Panics \<and>
    (\<forall>t. r = Returns t \<longrightarrow> is_slot p loc (if rt_StartAt p \<noteq> zero_time \<and> from0 < rt_StartAt p then rt_StartAt p - 1 else from0) d anchor t)"
proof -
  let ?from = "if rt_StartAt p \<noteq> zero_time \<and> from0 < rt_StartAt p then rt_StartAt p - 1 else from0"
  let ?best = "if rt_Windows p = [] then interval_loop p loc ?from d 0 (grid_after ?from d (if anchor = zero_time then ?from else anchor)) zero_time
    else zero_time"
  have "slot_or_none p loc ?from d anchor ?best"
  proof (cases "rt_Windows p = []")
    case True
    have "slot_or_none p loc ?from d anchor (interval_loop p loc ?from d 0 (grid_after ?from d (if anchor = zero_time then ?from else anchor)) zero_time)"
      by (rule interval_loop_ok [OF True assms]) (simp, rule exI [of _ 0], simp)
    with True show ?thesis by simp
  qed simp
  from day_loop_ok [OF assms this] obtain r where r: "day_loop p loc ?from d 0
      (AddDate loc (time_Date loc (t_Year loc ?from) (t_Month loc ?from) (t_Day loc ?from) 0 0 0) (-1)) ?best = Some r" "r \<noteq> Panics"
    "\<forall>b. r = Returns b \<longrightarrow> slot_or_none p loc ?from d anchor b" by blast
  show ?thesis
    unfolding NextInterval_def Let_def r(1) using r(2,3) by (cases r) auto
qed

section \<open>Properties\<close>

lemma cron_panics_iff:
  "NextCron expr loc from = Some Panics \<longleftrightarrow> length (str_Fields expr) = 5 \<and> cron_overflows (str_Fields expr)"
proof (cases "length (str_Fields expr) = 5")
  case True
  with cron_next_cases [OF True, of loc "from"] show ?thesis by auto
next
  case False
  then show ?thesis by (simp add: NextCron_def Let_def)
qed

lemma expression_panics_iff:
  "NextExpression expr loc from = Some Panics \<longleftrightarrow>
     \<not> HasPrefix (TrimSpace expr) ''once:'' \<and> length (str_Fields (TrimSpace expr)) = 5 \<and> cron_overflows (str_Fields (TrimSpace expr))"
  using cron_panics_iff [of "TrimSpace expr" loc "from"] by (auto simp: NextExpression_def Let_def split: option.split)

text \<open>
  C21: The computation of the next slot terminates. Whatever the expression, the timing, the location and the instant, none of the loops
  of \<^verbatim>\<open>NextSchedule\<close> (over the values of a cron field, over the minutes of a cron search, over an interval, over the days and windows of a timing) runs
  forever. It ends with an instant or an error, except that it panics, at every instant and in every location, exactly for a schedule without timing whose expression
  is neither an interval nor a single time and has five fields, one of which has a part whose start plus step exceeds the largest integer, with no invalid part
  before it: the sum wraps to a negative index.
\<close>

theorem next_schedule_terminates:
  "(\<exists>r. NextSchedule K inp loc from = Some r) \<and>
   (NextSchedule K inp loc from = Some Panics \<longleftrightarrow>
      (let e = TrimSpace (sc_Expression inp) in sc_Timing inp = None \<and> \<not> HasPrefix e ''every:'' \<and> \<not> HasPrefix e ''once:'' \<and>
        length (str_Fields e) = 5 \<and> cron_overflows (str_Fields e)))"
proof -
  have cron: "\<exists>r. NextCron e loc from = Some r" for e
    using cron_next_cases [of e loc "from"] by (cases "length (str_Fields e) = 5") (auto simp: NextCron_def Let_def)
  have "\<exists>r. NextExpression e loc from = Some r" for e
    using cron by (simp add: NextExpression_def Let_def split: option.split)
  moreover have i: "\<exists>r. NextInterval p loc from d a = Some r \<and> r \<noteq> Panics" if "minute \<le> d" for p d a
    using NextInterval_cases [of d p loc "from" a] that by auto
  moreover have "\<exists>r. NextInterval p loc from d a = Some r" if "minute \<le> d" for p d a using i [OF that] by blast
  ultimately have "\<exists>r. NextSchedule K inp loc from = Some r"
    unfolding NextSchedule_def Let_def by (auto split: option.split)
  moreover have "NextInterval p loc from d a \<noteq> Some Panics" if "minute \<le> d" for p d a using i [OF that, of p a] by auto
  then have "NextSchedule K inp loc from = Some Panics \<longleftrightarrow> sc_Timing inp = None \<and> \<not> HasPrefix (TrimSpace (sc_Expression inp)) ''every:'' \<and> NextExpression (sc_Expression inp) loc from = Some Panics"
    unfolding NextSchedule_def Let_def by (auto split: option.split)
  ultimately show ?thesis unfolding Let_def expression_panics_iff by blast
qed

lemma Truncate_minute:
  "go_Truncate x minute \<le> x" "x < go_Truncate x minute + minute" "(go_Truncate x minute - zero_time) mod minute = 0"
proof -
  have "0 \<le> (x - zero_time) mod minute" "(x - zero_time) mod minute < minute" by simp_all
  then show "go_Truncate x minute \<le> x" "x < go_Truncate x minute + minute" unfolding go_Truncate_def by linarith+
  show "(go_Truncate x minute - zero_time) mod minute = 0"
    unfolding go_Truncate_def by (simp add: diff_right_commute [of x] mod_eq_0_iff_dvd dvd_minus_mod)
qed

lemma minutes_after:
  assumes "x < u" "(u - zero_time) mod minute = 0"
  shows "\<exists>j. u = go_Truncate x minute + minute + int j * minute"
proof -
  let ?f = "go_Truncate x minute"
  have "minute dvd (u - zero_time)" "minute dvd (?f - zero_time)" using assms(2) Truncate_minute(3) [of x] by (simp_all add: mod_eq_0_iff_dvd)
  then have "minute dvd ((u - zero_time) - (?f - zero_time))" by (rule dvd_diff)
  moreover have "(u - zero_time) - (?f - zero_time) = u - ?f" by simp
  ultimately have "minute dvd (u - ?f)" by (simp only:)
  then obtain k where k: "u - ?f = minute * k" ..
  have "0 < u - ?f" using assms(1) Truncate_minute(1) [of x] by simp
  with k have "0 < k" by simp
  then have "u = ?f + minute + int (nat (k - 1)) * minute" using k by (simp add: algebra_simps)
  then show ?thesis by blast
qed

text \<open>
  C22: A cron slot is the earliest match. If \<^verbatim>\<open>NextCron\<close> returns an instant, it is a full minute after the given
  instant, at most 400 days after the next minute, it matches the five fields in the location (with the
  rule that a day matches one of the two day fields when both are restricted), and no earlier minute
  after the given instant matches. If it reports that there is none, no minute of the 400 days matches.
\<close>

theorem next_cron_is_earliest:
  "(NextCron expr loc from = Some (Returns t) \<longrightarrow>
      from < t \<and> (t - zero_time) mod minute = 0 \<and> t \<le> go_Truncate from minute + minute + 400 * 24 * hour \<and> cron_matches (str_Fields expr) loc t \<and>
      (\<forall>u. from < u \<and> u < t \<and> (u - zero_time) mod minute = 0 \<longrightarrow> \<not> cron_matches (str_Fields expr) loc u)) \<and>
   (NextCron expr loc from = Some (Fails ''no upcoming cron occurrence'') \<longrightarrow>
      (\<forall>u. from < u \<and> u \<le> go_Truncate from minute + minute + 400 * 24 * hour \<and> (u - zero_time) mod minute = 0 \<longrightarrow>
        \<not> cron_matches (str_Fields expr) loc u))"
proof (cases "length (str_Fields expr) = 5")
  case False
  then show ?thesis by (simp add: NextCron_def Let_def)
next
  case True
  let ?first = "go_Truncate from minute + minute"
  have later: "from < ?first + int k * minute" "(?first + int k * minute - zero_time) mod minute = 0" for k
  proof -
    show "from < ?first + int k * minute" using Truncate_minute(2) [of "from"] by simp
    have "?first + int k * minute - zero_time = go_Truncate from minute - zero_time + minute * (1 + int k)" by (simp add: algebra_simps)
    then show "(?first + int k * minute - zero_time) mod minute = 0" using Truncate_minute(3) [of "from"] by (simp only: mod_mult_self2)
  qed
  note c = cron_next_cases [OF True, of loc "from", unfolded Let_def]
  show ?thesis
  proof (intro conjI impI)
    assume "NextCron expr loc from = Some (Returns t)"
    with c obtain k where k: "t = ?first + int k * minute" "t \<le> ?first + 400 * 24 * hour" "cron_matches (str_Fields expr) loc t"
      "\<forall>j<k. \<not> cron_matches (str_Fields expr) loc (?first + int j * minute)" by auto
    show "from < t" "(t - zero_time) mod minute = 0" "t \<le> ?first + 400 * 24 * hour" "cron_matches (str_Fields expr) loc t"
      using k later [of k] by simp_all
    show "\<forall>u. from < u \<and> u < t \<and> (u - zero_time) mod minute = 0 \<longrightarrow> \<not> cron_matches (str_Fields expr) loc u"
    proof (intro allI impI)
      fix u assume u: "from < u \<and> u < t \<and> (u - zero_time) mod minute = 0"
      then obtain j where j: "u = ?first + int j * minute" using minutes_after [of "from" u] by auto
      with u k(1) have "j < k" by simp
      with k(4) j show "\<not> cron_matches (str_Fields expr) loc u" by blast
    qed
  next
    assume "NextCron expr loc from = Some (Fails ''no upcoming cron occurrence'')"
    with c have n: "\<forall>j. ?first + int j * minute \<le> ?first + 400 * 24 * hour \<longrightarrow> \<not> cron_matches (str_Fields expr) loc (?first + int j * minute)" by auto
    show "\<forall>u. from < u \<and> u \<le> ?first + 400 * 24 * hour \<and> (u - zero_time) mod minute = 0 \<longrightarrow> \<not> cron_matches (str_Fields expr) loc u"
    proof (intro allI impI)
      fix u assume u: "from < u \<and> u \<le> ?first + 400 * 24 * hour \<and> (u - zero_time) mod minute = 0"
      then obtain j where j: "u = ?first + int j * minute" using minutes_after [of "from" u] by auto
      with n u show "\<not> cron_matches (str_Fields expr) loc u" by blast
    qed
  qed
qed

lemma cron_every: "parseCronField ''*'' lo hi = Some (Returns (map (\<lambda>i. lo \<le> int i) [0..<nat (hi + 1)]))"
  by (simp add: parseCronField_def)

lemma demo_cron: "NextCron ''1 0 * * *'' UTC 0 = Some (Returns minute)"
  by code_simp

theorem next_cron_is_earliest_witness:
  "cron_matches [''1'', ''0'', ''*'', ''*'', ''*''] UTC minute \<and> NextCron ''1 0 * * *'' UTC 0 = Some (Returns minute)"
  using next_cron_is_earliest [of "''1 0 * * *''" UTC 0 minute] demo_cron by (simp add: str_Fields_def is_space_def)

lemma big_step: "str_Fields ''1/9223372036854775807 * * * *'' = [''1/9223372036854775807'', ''*'', ''*'', ''*'', ''*'']"
    "field_overflows ''1/9223372036854775807'' 0 59"
proof -
  show "str_Fields ''1/9223372036854775807 * * * *'' = [''1/9223372036854775807'', ''*'', ''*'', ''*'', ''*'']" by (simp add: str_Fields_def is_space_def)
  have "ParseInt ''1'' = Some 1" "ParseInt ''9223372036854775807'' = Some 9223372036854775807"
    by (simp_all add: ParseInt_def HasPrefix_def is_digit_def in_range_def digits_val_def digit_val_def int64_def)
  then show "field_overflows ''1/9223372036854775807'' 0 59"
    by (simp add: field_overflows_def part_overflows_def part_range_def cron_step_def cut_at_def cron_range_def)
qed

lemma big_step_fields: "TrimSpace ''1/9223372036854775807 * * * *'' = ''1/9223372036854775807 * * * *''"
    "\<not> HasPrefix ''1/9223372036854775807 * * * *'' ''every:''" "\<not> HasPrefix ''1/9223372036854775807 * * * *'' ''once:''"
  by (simp_all add: TrimSpace_def is_space_def HasPrefix_def)

theorem next_schedule_terminates_witness:
  "NextSchedule \<lparr>float_part = \<lambda>_ _ _. 0\<rparr> \<lparr>sc_Expression = ''1/9223372036854775807 * * * *'', sc_Delivery = [], sc_Timing = None, sc_IntervalAnchor = zero_time\<rparr> UTC 0 = Some Panics \<and>
   (\<exists>r. NextSchedule \<lparr>float_part = \<lambda>_ _ _. 0\<rparr> \<lparr>sc_Expression = ''1 0 * * *'', sc_Delivery = [], sc_Timing = None, sc_IntervalAnchor = zero_time\<rparr> UTC 0 = Some r \<and> r \<noteq> Panics)"
proof -
  let ?K = "\<lparr>float_part = \<lambda>_ _ _. 0\<rparr>"
  let ?bad = "\<lparr>sc_Expression = ''1/9223372036854775807 * * * *'', sc_Delivery = [], sc_Timing = None, sc_IntervalAnchor = zero_time\<rparr>"
  let ?good = "\<lparr>sc_Expression = ''1 0 * * *'', sc_Delivery = [], sc_Timing = None, sc_IntervalAnchor = zero_time\<rparr>"
  have "NextSchedule ?K ?bad UTC 0 = Some Panics"
    using next_schedule_terminates [of ?K ?bad UTC 0] big_step big_step_fields by (simp add: cron_overflows_def Let_def)
  moreover have "\<not> cron_overflows (str_Fields (TrimSpace (sc_Expression ?good)))" by code_simp
  then have "\<exists>r. NextSchedule ?K ?good UTC 0 = Some r \<and> r \<noteq> Panics"
    using next_schedule_terminates [of ?K ?good UTC 0] unfolding Let_def by metis
  ultimately show ?thesis by blast
qed

text \<open>
  C36: An interval slot keeps to its rules. If the schedule of an interval yields an instant, the interval is between a
  minute and a year, the instant is later than the given one, not before the start and before the end, and it is
  one of these. When there are no windows: the first instant after the given one that is a whole number of intervals after the anchor and falls on an
  allowed weekday. An instant whose wall clock lies in a window that opens on an allowed weekday, a whole number of intervals after the
  opening. Or an instant whose wall clock is one of the extra times, at most two hours from that time of an allowed day. The grid is
  that of the anchor, or of the opening, as long as it lies less than 292 years back, the range of a \<^verbatim>\<open>time.Duration\<close>.
\<close>

theorem interval_slot_is_admissible:
  assumes "NextSchedule K inp loc from = Some (Returns t)" "HasPrefix (TrimSpace (sc_Expression inp)) ''every:''"
  shows "\<exists>d p fr. parse_duration K (TrimPrefix (TrimSpace (sc_Expression inp)) ''every:'') = Some d \<and> minute \<le> d \<and> d \<le> 365 * 24 * hour \<and>
     p = (case sc_Timing inp of None \<Rightarrow> no_timing | Some p \<Rightarrow> p) \<and> fr = max from (if rt_StartAt p = zero_time then from else rt_StartAt p - 1) \<and>
     within_bounds p from t \<and> (grid_slot p loc fr d (sc_IntervalAnchor inp) t \<or> window_day p loc fr d t \<or> extra_time p loc t)"
proof -
  define p where "p = (case sc_Timing inp of None \<Rightarrow> no_timing | Some p \<Rightarrow> p)"
  obtain d where d: "parse_duration K (TrimPrefix (TrimSpace (sc_Expression inp)) ''every:'') = Some d" "minute \<le> d" "d \<le> 365 * 24 * hour"
    and i: "NextInterval p loc from d (sc_IntervalAnchor inp) = Some (Returns t)"
    using assms unfolding NextSchedule_def Let_def p_def by (auto split: if_splits option.splits)
  let ?fr = "if rt_StartAt p \<noteq> zero_time \<and> from < rt_StartAt p then rt_StartAt p - 1 else from"
  have "0 < d" using d(2) by simp
  from NextInterval_cases [OF this, of p loc "from" "sc_IntervalAnchor inp"] i have s: "is_slot p loc ?fr d (sc_IntervalAnchor inp) t" by simp
  then have "within_bounds p from t" by (auto simp: is_slot_def within_bounds_def split: if_splits)
  moreover have "?fr = max from (if rt_StartAt p = zero_time then from else rt_StartAt p - 1)" by (auto simp: max_def)
  ultimately show ?thesis using s d p_def unfolding is_slot_def by (intro exI [of _ d] exI [of _ p] exI [of _ ?fr]) blast
qed

text \<open>Every minute, on a grid that starts ten seconds before the epoch.\<close>

definition demo_schedule :: Schedule where
  "demo_schedule = \<lparr>sc_Expression = ''every:1m'', sc_Delivery = [], sc_Timing = None, sc_IntervalAnchor = -10 * second\<rparr>"

lemma demo_interval: "NextSchedule \<lparr>float_part = \<lambda>_ _ _. 0\<rparr> demo_schedule UTC 0 = Some (Returns (50 * second))"
  by code_simp

theorem interval_slot_is_admissible_witness:
  "NextSchedule \<lparr>float_part = \<lambda>_ _ _. 0\<rparr> demo_schedule UTC 0 = Some (Returns (50 * second)) \<and>
   first_on_grid no_timing UTC 0 minute (-10 * second) (50 * second)"
proof -
  have e: "HasPrefix (TrimSpace (sc_Expression demo_schedule)) ''every:''"
    "parse_duration \<lparr>float_part = \<lambda>_ _ _. 0\<rparr> (TrimPrefix (TrimSpace (sc_Expression demo_schedule)) ''every:'') = Some minute" by code_simp+
  have s: "sc_Timing demo_schedule = None" "sc_IntervalAnchor demo_schedule = -10 * second" by (simp_all add: demo_schedule_def)
  from interval_slot_is_admissible [OF demo_interval e(1)] e(2) s
  have "grid_slot no_timing UTC 0 minute (-10 * second) (50 * second) \<or> window_day no_timing UTC 0 minute (50 * second) \<or> extra_time no_timing UTC (50 * second)"
    by (auto simp: no_timing_def)
  then have "grid_slot no_timing UTC 0 minute (-10 * second) (50 * second)" by (simp add: window_day_def extra_time_def no_timing_def)
  then show ?thesis using demo_interval by (simp add: grid_slot_def near_def Let_def zero_time_def)
qed

text \<open>
  An extra time without its leading zero never fires. The entry \<^verbatim>\<open>9:05\<close> passes the parser, which accepts a one digit
  hour, but it is compared with a zero-padded clock: no day of any location has an instant for it.
\<close>

theorem unpadded_extra_time_never_fires:
  "parse_clock ''9:05'' = Some (9, 5) \<and> at_candidates loc day ''9:05'' (9, 5) = []"
proof -
  have p: "parse_clock ''9:05'' = Some (9, 5)"
    by (simp add: parse_clock_def is_digit_def in_range_def digits_val_def digit_val_def)
  have "u \<notin> set (at_candidates loc day ''9:05'' (9, 5))" for u
    using at_candidates_ok(1) [OF _ p, of u loc day] format_clock_shape(1) [of loc u] by auto
  then have "set (at_candidates loc day ''9:05'' (9, 5)) = {}" by (simp only: empty_iff subset_eq set_eq_iff simp_thms)
  with p show ?thesis by simp
qed

end
