(* ===== verification/Spool_Disk.thy ===== *)
theory Spool_Disk
  imports Calendar "HOL-Library.List_Lexorder" "HOL-Library.Char_ord" "HOL-Library.Product_Lexorder"
begin

text \<open>
  The data of the job spool of the communication hub (\<^verbatim>\<open>internal/communication/spool.go\<close>, \<^verbatim>\<open>job_mapping.go\<close>, \<^verbatim>\<open>budget.go\<close> and the
  records of \<^verbatim>\<open>internal/commodel\<close>): jobs, mappings, the budget ledger, deliveries, and the state \<open>spool\<close>, which is
  the directories on disk and what the process keeps in memory.

  A file holds a record, or \<open>None\<close> when its text does not parse. An operation is a function on the state that returns a value
  or an error, and every access to the disk first takes the next entry of a list of faults: the access works, fails
  without effect, or takes effect and reports failure (a rename that worked before a directory sync that did not). A
  crash is covered by a list in which every entry fails from some point on.
\<close>

section \<open>Records\<close>

text \<open>\<^verbatim>\<open>identity.Envelope\<close> and \<^verbatim>\<open>commodel.Job\<close>, with the fields that the spool reads.\<close>

record Envelope =
  ev_Schema :: int
  ev_PrincipalID :: string
  ev_ExternalIdentityID :: string
  ev_ContextID :: string
  ev_RuntimeID :: string
  ev_ConversationID :: string
  ev_DeliveryTargetID :: string
  ev_PolicyVersion :: string

record Job =
  jb_Envelope :: Envelope
  jb_OperationalEpoch :: nat
  jb_ID :: string
  jb_AssignmentID :: string
  jb_AssignmentPlanRevision :: nat
  jb_OrganizationID :: string
  jb_UserID :: string
  jb_ActorID :: string
  jb_ScopeID :: string
  jb_Channel :: string
  jb_Trigger :: string
  jb_IdempotencyKey :: string
  jb_ChatID :: int
  jb_TaskID :: string
  jb_TopicID :: int
  jb_SlackChannel :: string
  jb_SlackThread :: string
  jb_Text :: string
  jb_Sensitive :: bool
  jb_TextSHA256 :: string
  jb_TokenEstimate :: int
  jb_CreatedAt :: time

record PendingControl =
  pc_NextAttemptAt :: time
  pc_Caller :: Envelope
  pc_Action :: string
  pc_RequestID :: string
  pc_Choice :: string
  pc_State :: string

record RunOutcome =
  ro_Text :: string
  ro_JobID :: string
  ro_SessionID :: string
  ro_RunID :: string
  ro_RuntimeGeneration :: string
  ro_Status :: string
  ro_LastEvent :: string

record JobMapping =
  mp_OperationalEpoch :: nat
  mp_IdentitySchema :: int
  mp_ExternalIdentityID :: string
  mp_ObservationAttempts :: nat
  mp_NextObservationAt :: time
  mp_Control :: "PendingControl option"
  mp_CancelRequested :: bool
  mp_JobID :: string
  mp_IdempotencyKey :: string
  mp_Fingerprint :: string
  mp_PrincipalID :: string
  mp_ActorID :: string
  mp_ContextID :: string
  mp_ScopeID :: string
  mp_RuntimeID :: string
  mp_ConversationID :: string
  mp_DeliveryTargetID :: string
  mp_OrganizationID :: string
  mp_UserID :: string
  mp_PolicyVersion :: string
  mp_Channel :: string
  mp_Trigger :: string
  mp_AssignmentID :: string
  mp_TaskID :: string
  mp_TopicID :: int
  mp_ChatID :: int
  mp_StatusText :: string
  mp_Status :: string
  mp_SessionID :: string
  mp_RunID :: string
  mp_RuntimeGeneration :: string
  mp_UncertainSince :: time
  mp_CreatedAt :: time
  mp_UpdatedAt :: time
  mp_TerminalAt :: time
  mp_LastKnownEvent :: string
  mp_EventPosition :: nat
  mp_LastEventID :: string
  mp_ApprovalID :: string
  mp_ApprovalChoices :: "string list"
  mp_ApprovalDeadline :: time
  mp_ApprovalState :: string
  mp_Result :: string

record ConversationMapping =
  cm_PrincipalID :: string
  cm_ContextID :: string
  cm_ConversationID :: string
  cm_SessionID :: string
  cm_UpdatedAt :: time

record Task =
  tk_TaskID :: string
  tk_PrincipalID :: string
  tk_ChatID :: int
  tk_ConversationID :: string

record masterHold =
  mh_PrincipalID :: string
  mh_ContextID :: string
  mh_Active :: bool
  mh_Epoch :: nat

record usageEntry =
  ue_ActorID :: string
  ue_InitialSnapshot :: bool
  ue_DurationMS :: "int option"
  ue_Version :: int
  ue_SessionID :: string
  ue_ContextID :: string
  ue_Model :: string
  ue_MeasuredAt :: time
  ue_InputCounter :: "int option"
  ue_OutputCounter :: "int option"
  ue_ScopeID :: string
  ue_JobID :: string
  ue_RunID :: string
  ue_InputTokens :: "int option"
  ue_OutputTokens :: "int option"

text \<open>The metering journal: its complete lines, and what follows the last line break.\<close>

record usage_file =
  uf_lines :: "string list"
  uf_tail :: string

record Delivery =
  dl_ID :: string
  dl_OccurrenceID :: string
  dl_JobID :: string
  dl_ConversationID :: string
  dl_DeliveryTargetID :: string
  dl_Channel :: string
  dl_ChatID :: int
  dl_TaskID :: string
  dl_TopicID :: int
  dl_SlackChannel :: string
  dl_SlackThread :: string
  dl_Text :: string
  dl_Format :: string
  dl_NotBefore :: time
  dl_Buttons :: "(string \<times> string) list"
  dl_ApprovalJobID :: string
  dl_ApprovalID :: string
  dl_ApprovalRunID :: string
  dl_ApprovalGeneration :: string
  dl_TelegramMessageID :: int
  dl_EditMessageID :: int
  dl_StreamPosition :: nat
  dl_StatusClosed :: bool
  dl_Control :: bool
  dl_CreatedAt :: time

record ExecuteResponse =
  er_JobID :: string
  er_SessionID :: string
  er_RunID :: string
  er_RuntimeGeneration :: string
  er_Status :: string
  er_LastEvent :: string
  er_Text :: string
  er_EventID :: string
  er_ApprovalID :: string
  er_ApprovalChoices :: "string list"
  er_ApprovalSummary :: string

record streamReceipt =
  sr_JobID :: string
  sr_Position :: nat
  sr_Event :: ExecuteResponse
  sr_Delivery :: "Delivery option"
  sr_ApprovalDeadline :: time
  sr_StatusDelivery :: bool

text \<open>A file of the events directory: a receipt, a record of another owner, or neither.\<close>

datatype event_file = Receipt streamReceipt | ForeignEvent | BadEvent

text \<open>The record behind a button, and a record in the archive.\<close>

record approvalCallback =
  ac_JobID :: string
  ac_RequestID :: string
  ac_Choice :: string

datatype archived =
    ArchivedJob string "Job option"
  | ArchivedDelivery string "Delivery option"
  | ArchivedEvent string event_file
  | ArchivedMapping string "JobMapping option"
  | ArchivedUsage "usageEntry list"

section \<open>The budget ledger\<close>

record reservation =
  rv_JobID :: string
  rv_ScopeID :: string
  rv_Principal :: string
  rv_Estimate :: int
  rv_State :: string
  rv_Charged :: int
  rv_CreatedAt :: time

record scopeBudget =
  sb_PendingJobs :: int
  sb_ReservedTokens :: int
  sb_SettledIn :: int
  sb_SettledOut :: int
  sb_Unknown :: int
  sb_Day :: string

record budgetLedger =
  bl_Reservations :: "(string, reservation) gomap"
  bl_Scopes :: "(string, scopeBudget) gomap"

record spoolLimits =
  sl_MaxPendingPerScope :: int
  sl_MaxPendingTotal :: int
  sl_ScopeTokenDaily :: int
  sl_MaxBytes :: int
  sl_MaxDeliveries :: int
  sl_MaxParallelPerContext :: int

section \<open>The state\<close>

datatype jdir = Pending | Running | Done | Failed

datatype odir = OutPending | OutSending | OutDone | OutFailed

datatype fault = Fine | Lost | Kept

record spool =
  d_jobs :: "jdir \<Rightarrow> (string, Job option) gomap"
  d_mappings :: "(string, JobMapping option) gomap"
  d_by_key :: "(string, string option) gomap"
  d_conversations :: "(string, ConversationMapping option) gomap"
  d_tasks :: "(string \<times> string, Task option) gomap"
  d_cursor :: "string option option"
  d_budget :: "budgetLedger option option"
  d_usage :: "usage_file option"
  d_outbox :: "odir \<Rightarrow> (string, Delivery option) gomap"
  d_events :: "(string, event_file) gomap"
  d_offset :: "int option option"
  d_callbacks :: "(string, approvalCallback option) gomap"
  d_archive :: "(string, archived list) gomap"
  m_secret :: "(string, string) gomap"
  m_inFlight :: "(string, string) gomap"
  m_active :: "string list option"
  m_budget :: budgetLedger
  m_budgetBroken :: bool
  m_limits :: spoolLimits
  m_holds :: "masterHold list option"
  sp_io :: "fault list"

text \<open>SHA-256, the JSON of a fingerprint and of a metering record, the size of an encoded job, what a channel does to a delivery, and the
  translated texts are parameters.\<close>

record fingerprint =
  fp_OperationalEpoch :: nat
  fp_Envelope :: Envelope
  fp_OrganizationID :: string
  fp_UserID :: string
  fp_ActorID :: string
  fp_ScopeID :: string
  fp_Channel :: string
  fp_Trigger :: string
  fp_SlackChannel :: string
  fp_SlackThread :: string
  fp_TextHash :: string

record spool_env =
  hash256 :: "string \<Rightarrow> string"
  fingerprint_json :: "fingerprint \<Rightarrow> string"
  file_size :: "string \<Rightarrow> Job option \<Rightarrow> int"
  channel_normalize :: "string \<Rightarrow> (Delivery \<Rightarrow> Delivery option) option"
  editable_status :: "string \<Rightarrow> bool"
  lang_of :: "string \<Rightarrow> string"
  locale_T :: "string \<Rightarrow> string \<Rightarrow> string list \<Rightarrow> string"
  json_valid :: "string \<Rightarrow> bool"
  usage_encode :: "usageEntry \<Rightarrow> string"
  usage_decode :: "string \<Rightarrow> usageEntry option"

section \<open>Operations that may fail\<close>

datatype spool_err = NotExist | IOError | SpoolErr string

type_synonym 'a spool_m = "spool \<Rightarrow> (spool_err + 'a) \<times> spool"

definition ret :: "'a \<Rightarrow> 'a spool_m" where
  "ret x s = (Inr x, s)"

definition fails :: "spool_err \<Rightarrow> 'a spool_m" where
  "fails e s = (Inl e, s)"

definition bind :: "'a spool_m \<Rightarrow> ('a \<Rightarrow> 'b spool_m) \<Rightarrow> 'b spool_m" where
  "bind m f s = (case m s of (Inl e, t) \<Rightarrow> (Inl e, t) | (Inr x, t) \<Rightarrow> f x t)"

abbreviation andthen :: "unit spool_m \<Rightarrow> 'b spool_m \<Rightarrow> 'b spool_m" where
  "andthen m k \<equiv> bind m (\<lambda>_. k)"

text \<open>The error becomes a value, for code that looks at it.\<close>

definition attempt :: "'a spool_m \<Rightarrow> (spool_err + 'a) spool_m" where
  "attempt m s = (case m s of (r, t) \<Rightarrow> (Inr r, t))"

definition gets :: "(spool \<Rightarrow> 'a) \<Rightarrow> 'a spool_m" where
  "gets f s = (Inr (f s), s)"

definition modify :: "(spool \<Rightarrow> spool) \<Rightarrow> unit spool_m" where
  "modify f s = (Inr (), f s)"

fun for_each :: "'a list \<Rightarrow> ('a \<Rightarrow> unit spool_m) \<Rightarrow> unit spool_m" where
  "for_each [] f = ret ()"
| "for_each (x # xs) f = andthen (f x) (for_each xs f)"

section \<open>The disk\<close>

definition io_step :: "fault spool_m" where
  "io_step s = (case sp_io s of [] \<Rightarrow> (Inr Fine, s) | f # fs \<Rightarrow> (Inr f, s\<lparr>sp_io := fs\<rparr>))"

text \<open>\<^verbatim>\<open>os.ReadFile\<close> and \<^verbatim>\<open>os.Stat\<close> on a file that may be absent, and \<^verbatim>\<open>os.ReadDir\<close>, in the order of names.\<close>

definition fs_read :: "(spool \<Rightarrow> 'a option) \<Rightarrow> 'a spool_m" where
  "fs_read g = bind io_step (\<lambda>f.
     if f \<noteq> Fine then fails IOError
     else bind (gets g) (\<lambda>x. case x of None \<Rightarrow> fails NotExist | Some v \<Rightarrow> ret v))"

definition fs_stat :: "(spool \<Rightarrow> 'a option) \<Rightarrow> unit spool_m" where
  "fs_stat g = bind (fs_read g) (\<lambda>_. ret ())"

definition fs_readdir :: "(spool \<Rightarrow> (string \<times> 'a) list) \<Rightarrow> (string \<times> 'a) list spool_m" where
  "fs_readdir g = bind io_step (\<lambda>f. if f \<noteq> Fine then fails IOError else gets (\<lambda>s. sort_key fst (g s)))"

text \<open>\<^verbatim>\<open>atomicJSON\<close>: the temporary file is renamed into place and the directory is synced.\<close>

definition fs_write :: "(spool \<Rightarrow> spool) \<Rightarrow> unit spool_m" where
  "fs_write upd = bind io_step (\<lambda>f.
     case f of Fine \<Rightarrow> modify upd | Lost \<Rightarrow> fails IOError | Kept \<Rightarrow> andthen (modify upd) (fails IOError))"

text \<open>\<^verbatim>\<open>os.Rename\<close> between two directories of jobs, or of the outbox.\<close>

definition fs_rename :: "jdir \<Rightarrow> jdir \<Rightarrow> string \<Rightarrow> unit spool_m" where
  "fs_rename a b n = bind io_step (\<lambda>f.
     if f \<noteq> Fine then fails IOError
     else bind (gets (\<lambda>s. go_lookup (d_jobs s a) n)) (\<lambda>x. case x of
       None \<Rightarrow> fails NotExist
     | Some j \<Rightarrow> modify (\<lambda>s. let m = (d_jobs s)(a := go_delete n (d_jobs s a)) in s\<lparr>d_jobs := m(b := go_update n j (m b))\<rparr>)))"

definition fs_rename_out :: "odir \<Rightarrow> odir \<Rightarrow> string \<Rightarrow> unit spool_m" where
  "fs_rename_out a b n = bind io_step (\<lambda>f.
     if f \<noteq> Fine then fails IOError
     else bind (gets (\<lambda>s. go_lookup (d_outbox s a) n)) (\<lambda>x. case x of
       None \<Rightarrow> fails NotExist
     | Some j \<Rightarrow> modify (\<lambda>s. let m = (d_outbox s)(a := go_delete n (d_outbox s a)) in s\<lparr>d_outbox := m(b := go_update n j (m b))\<rparr>)))"

section \<open>Names\<close>

text \<open>\<^verbatim>\<open>commodel.FileID\<close>: a clean identifier passes, any other is replaced by its hash.\<close>

definition id_char :: "char \<Rightarrow> bool" where
  "id_char c \<longleftrightarrow> is_lower c \<or> is_upper c \<or> is_digit c \<or> c \<in> {CHR ''.'', CHR ''_'', CHR ''-''}"

definition FileID :: "'a spool_env_scheme \<Rightarrow> string \<Rightarrow> string" where
  "FileID E i = (if i \<noteq> [] \<and> list_all id_char i then i else ''id-'' @ hex_encode (hash256 E i))"

definition job_file :: "'a spool_env_scheme \<Rightarrow> string \<Rightarrow> string" where
  "job_file E i = FileID E i @ ''.json''"

definition nul :: string where
  "nul = [CHR 0x00]"

definition conversationPath :: "'a spool_env_scheme \<Rightarrow> string \<Rightarrow> string \<Rightarrow> string \<Rightarrow> string" where
  "conversationPath E pr cx cv = hex_encode (hash256 E (pr @ nul @ cx @ nul @ cv)) @ ''.json''"

definition idempotencyIndexPath :: "'a spool_env_scheme \<Rightarrow> string \<Rightarrow> string" where
  "idempotencyIndexPath E key = hex_encode (hash256 E key) @ ''.json''"

section \<open>Mappings of jobs\<close>

definition JobFingerprint :: "'a spool_env_scheme \<Rightarrow> Job \<Rightarrow> string" where
  "JobFingerprint E job =
     (let textHash = (if jb_TextSHA256 job = [] then hex_encode (hash256 E (jb_Text job)) else jb_TextSHA256 job)
      in hex_encode (hash256 E (fingerprint_json E
          \<lparr>fp_OperationalEpoch = jb_OperationalEpoch job, fp_Envelope = jb_Envelope job, fp_OrganizationID = jb_OrganizationID job,
           fp_UserID = jb_UserID job, fp_ActorID = jb_ActorID job, fp_ScopeID = jb_ScopeID job, fp_Channel = jb_Channel job,
           fp_Trigger = jb_Trigger job, fp_SlackChannel = jb_SlackChannel job, fp_SlackThread = jb_SlackThread job, fp_TextHash = textHash\<rparr>)))"

definition MappingFromJob :: "'a spool_env_scheme \<Rightarrow> Job \<Rightarrow> time \<Rightarrow> JobMapping" where
  "MappingFromJob E job now =
     \<lparr>mp_OperationalEpoch = jb_OperationalEpoch job, mp_IdentitySchema = ev_Schema (jb_Envelope job),
      mp_ExternalIdentityID = ev_ExternalIdentityID (jb_Envelope job), mp_ObservationAttempts = 0, mp_NextObservationAt = zero_time,
      mp_Control = None, mp_CancelRequested = False, mp_JobID = jb_ID job, mp_IdempotencyKey = jb_IdempotencyKey job,
      mp_Fingerprint = JobFingerprint E job, mp_PrincipalID = ev_PrincipalID (jb_Envelope job), mp_ActorID = jb_ActorID job,
      mp_ContextID = ev_ContextID (jb_Envelope job), mp_ScopeID = jb_ScopeID job, mp_RuntimeID = ev_RuntimeID (jb_Envelope job),
      mp_ConversationID = ev_ConversationID (jb_Envelope job), mp_DeliveryTargetID = ev_DeliveryTargetID (jb_Envelope job),
      mp_OrganizationID = jb_OrganizationID job, mp_UserID = jb_UserID job, mp_PolicyVersion = ev_PolicyVersion (jb_Envelope job),
      mp_Channel = jb_Channel job, mp_Trigger = jb_Trigger job, mp_AssignmentID = jb_AssignmentID job, mp_TaskID = jb_TaskID job,
      mp_TopicID = jb_TopicID job, mp_ChatID = jb_ChatID job, mp_StatusText = [], mp_Status = ''accepted'', mp_SessionID = [], mp_RunID = [],
      mp_RuntimeGeneration = [], mp_UncertainSince = zero_time, mp_CreatedAt = now, mp_UpdatedAt = now, mp_TerminalAt = zero_time,
      mp_LastKnownEvent = ''job.accepted'', mp_EventPosition = 0, mp_LastEventID = [], mp_ApprovalID = [], mp_ApprovalChoices = [],
      mp_ApprovalDeadline = zero_time, mp_ApprovalState = [], mp_Result = []\<rparr>"

definition TerminalStatus :: "string \<Rightarrow> bool" where
  "TerminalStatus st \<longleftrightarrow> st \<in> {''completed'', ''failed'', ''cancelled'', ''interrupted''}"

definition loadMappingLocked :: "'a spool_env_scheme \<Rightarrow> string \<Rightarrow> JobMapping spool_m" where
  "loadMappingLocked E i = bind (fs_read (\<lambda>s. go_lookup (d_mappings s) (job_file E i))) (\<lambda>c. case c of
       None \<Rightarrow> fails (SpoolErr ''invalid job mapping'')
     | Some m \<Rightarrow> if mp_JobID m \<noteq> i then fails (SpoolErr ''invalid job mapping'') else ret m)"

end
