(* ===== verification/Spool_Budget.thy ===== *)
theory Spool_Budget
  imports Spool_Disk
begin

text \<open>
  The reservation and settlement ledger of the spool (\<^verbatim>\<open>internal/communication/budget.go\<close>): admission reserves an estimate against the
  scope of a job, an outcome settles it, and a reconciliation closes the reservations whose job is gone. Token sums are
  64-bit integers and wrap.
\<close>

definition defaultTokenEstimate :: int where
  "defaultTokenEstimate = 8192"

definition installationScope :: string where
  "installationScope = ''_install''"

definition new_ledger :: budgetLedger where
  "new_ledger = \<lparr>bl_Reservations = [], bl_Scopes = []\<rparr>"

definition empty_bucket :: scopeBudget where
  "empty_bucket = \<lparr>sb_PendingJobs = 0, sb_ReservedTokens = 0, sb_SettledIn = 0, sb_SettledOut = 0, sb_Unknown = 0, sb_Day = []\<rparr>"

text \<open>An absent file is an empty ledger, an unreadable one breaks admission.\<close>

definition loadBudget :: "budgetLedger spool_m" where
  "loadBudget = bind (attempt (fs_read d_budget)) (\<lambda>r. case r of
       Inl NotExist \<Rightarrow> ret new_ledger
     | Inl e \<Rightarrow> fails e
     | Inr None \<Rightarrow> fails (SpoolErr ''budget ledger corrupt'')
     | Inr (Some l) \<Rightarrow> ret l)"

definition saveBudgetLocked :: "unit spool_m" where
  "saveBudgetLocked = fs_write (\<lambda>s. s\<lparr>d_budget := Some (Some (m_budget s))\<rparr>)"

text \<open>\<^verbatim>\<open>bucketLocked\<close>: the counters of a scope, with the settled totals of another day dropped. The pointer it returns is the entry
  of the map, so the entry itself is rolled.\<close>

definition roll_day :: "string \<Rightarrow> scopeBudget \<Rightarrow> scopeBudget" where
  "roll_day today b = (if sb_Day b \<noteq> today then b\<lparr>sb_Day := today, sb_SettledIn := 0, sb_SettledOut := 0, sb_Unknown := 0\<rparr> else b)"

definition bucket_of :: "string \<Rightarrow> budgetLedger \<Rightarrow> scopeBudget" where
  "bucket_of scope l = (case go_lookup (bl_Scopes l) scope of None \<Rightarrow> empty_bucket | Some b \<Rightarrow> b)"

definition put_bucket :: "string \<Rightarrow> scopeBudget \<Rightarrow> budgetLedger \<Rightarrow> budgetLedger" where
  "put_bucket scope b l = l\<lparr>bl_Scopes := go_update scope b (bl_Scopes l)\<rparr>"

definition put_reservation :: "string \<Rightarrow> reservation \<Rightarrow> budgetLedger \<Rightarrow> budgetLedger" where
  "put_reservation i r l = l\<lparr>bl_Reservations := go_update i r (bl_Reservations l)\<rparr>"

definition bucketLocked :: "time \<Rightarrow> string \<Rightarrow> scopeBudget spool_m" where
  "bucketLocked now scope s =
     (let b = roll_day (format_date UTC now) (bucket_of scope (m_budget s))
      in (Inr b, s\<lparr>m_budget := put_bucket scope b (m_budget s)\<rparr>))"

definition write_bucket :: "string \<Rightarrow> scopeBudget \<Rightarrow> unit spool_m" where
  "write_bucket scope b = modify (\<lambda>s. s\<lparr>m_budget := put_bucket scope b (m_budget s)\<rparr>)"

definition write_reservation :: "string \<Rightarrow> reservation \<Rightarrow> unit spool_m" where
  "write_reservation i r = modify (\<lambda>s. s\<lparr>m_budget := put_reservation i r (m_budget s)\<rparr>)"

section \<open>Admission\<close>

fun total_size :: "'a spool_env_scheme \<Rightarrow> int \<Rightarrow> (string \<times> Job option) list \<Rightarrow> int spool_m" where
  "total_size E n [] = ret n"
| "total_size E n ((name, j) # es) =
     bind io_step (\<lambda>f. total_size E (if f = Fine then wrap64 (n + file_size E name j) else n) es)"

definition scope_full :: "time \<Rightarrow> string \<Rightarrow> unit spool_m" where
  "scope_full now scope = bind (gets m_limits) (\<lambda>lim.
     if sl_MaxPendingPerScope lim > 0 then
       bind (bucketLocked now scope) (\<lambda>b.
         if sb_PendingJobs b \<ge> sl_MaxPendingPerScope lim then fails (SpoolErr ''scope queue full'') else ret ())
     else ret ())"

definition spool_full :: "unit spool_m" where
  "spool_full = bind (gets m_limits) (\<lambda>lim. bind (gets m_budget) (\<lambda>l.
     if sl_MaxPendingTotal lim > 0 \<and> sum_list (map (sb_PendingJobs \<circ> snd) (bl_Scopes l)) \<ge> sl_MaxPendingTotal lim
     then fails (SpoolErr ''spool queue full'') else ret ()))"

definition tokens_exhausted :: "time \<Rightarrow> string \<Rightarrow> int \<Rightarrow> unit spool_m" where
  "tokens_exhausted now scope estimate = bind (gets m_limits) (\<lambda>lim.
     if sl_ScopeTokenDaily lim > 0 then
       bind (bucketLocked now scope) (\<lambda>b.
         if wrap64 (sb_SettledIn b + sb_SettledOut b + sb_ReservedTokens b + estimate) > sl_ScopeTokenDaily lim
         then fails (SpoolErr ''daily token budget exhausted'') else ret ())
     else ret ())"

definition storage_full :: "'a spool_env_scheme \<Rightarrow> unit spool_m" where
  "storage_full E = bind (gets m_limits) (\<lambda>lim.
     if sl_MaxBytes lim > 0 then
       bind (fs_readdir (\<lambda>s. d_jobs s Pending)) (\<lambda>es. bind (total_size E 0 es) (\<lambda>n.
         if n \<ge> sl_MaxBytes lim then fails (SpoolErr ''spool storage ceiling reached'') else ret ()))
     else ret ())"

definition checkCeilingsLocked :: "'a spool_env_scheme \<Rightarrow> time \<Rightarrow> string \<Rightarrow> int \<Rightarrow> unit spool_m" where
  "checkCeilingsLocked E now scope estimate =
     andthen (scope_full now scope) (andthen spool_full (andthen (tokens_exhausted now scope estimate) (storage_full E)))"

definition job_scope :: "Job \<Rightarrow> string" where
  "job_scope job = (if jb_ScopeID job = [] then installationScope else jb_ScopeID job)"

definition job_estimate :: "Job \<Rightarrow> int" where
  "job_estimate job = (if jb_TokenEstimate job = 0 then defaultTokenEstimate else jb_TokenEstimate job)"

definition open_reservation :: "time \<Rightarrow> Job \<Rightarrow> reservation" where
  "open_reservation now job =
     \<lparr>rv_JobID = jb_ID job, rv_ScopeID = job_scope job, rv_Principal = ev_PrincipalID (jb_Envelope job), rv_Estimate = job_estimate job,
      rv_State = ''open'', rv_Charged = 0, rv_CreatedAt = now\<rparr>"

definition reserveLocked :: "'a spool_env_scheme \<Rightarrow> time \<Rightarrow> Job \<Rightarrow> unit spool_m" where
  "reserveLocked E now job = bind (gets m_budgetBroken) (\<lambda>broken.
     if broken then fails (SpoolErr ''budget ledger corrupt'')
     else if jb_TokenEstimate job < 0 then fails (SpoolErr ''invalid token estimate'')
     else bind (gets (\<lambda>s. go_lookup (bl_Reservations (m_budget s)) (jb_ID job))) (\<lambda>old.
       if old \<noteq> None then ret ()
       else andthen (checkCeilingsLocked E now (job_scope job) (job_estimate job))
         (andthen (write_reservation (jb_ID job) (open_reservation now job))
           (bind (bucketLocked now (job_scope job)) (\<lambda>b.
             andthen (write_bucket (job_scope job)
                 (b\<lparr>sb_PendingJobs := sb_PendingJobs b + 1, sb_ReservedTokens := wrap64 (sb_ReservedTokens b + job_estimate job)\<rparr>))
               saveBudgetLocked)))))"

section \<open>Settlement\<close>

text \<open>The lines of the journal as \<^verbatim>\<open>bufio.Scanner\<close> gives them: a line of 64 KiB or more stops the scan, and a trailing carriage return is dropped.\<close>

definition drop_cr :: "string \<Rightarrow> string" where
  "drop_cr l = (if l \<noteq> [] \<and> last l = CHR 0x0D then butlast l else l)"

fun scan_usage :: "'a spool_env_scheme \<Rightarrow> string list \<Rightarrow> usageEntry list option" where
  "scan_usage E [] = Some []"
| "scan_usage E (l # ls) =
     (if length l > 65535 then None
      else if drop_cr l = [] then scan_usage E ls
      else case usage_decode E (drop_cr l) of None \<Rightarrow> None | Some e \<Rightarrow> map_option (Cons e) (scan_usage E ls))"

definition usage_text :: "usage_file \<Rightarrow> string list" where
  "usage_text f = uf_lines f @ (if uf_tail f = [] then [] else [uf_tail f])"

definition usageEntriesLocked :: "'a spool_env_scheme \<Rightarrow> usageEntry list spool_m" where
  "usageEntriesLocked E = bind (attempt (fs_read d_usage)) (\<lambda>r. case r of
       Inl NotExist \<Rightarrow> ret []
     | Inl e \<Rightarrow> fails e
     | Inr f \<Rightarrow> (case scan_usage E (usage_text f) of None \<Rightarrow> fails (SpoolErr ''invalid usage entry'') | Some es \<Rightarrow> ret es))"

definition token_sum :: "(usageEntry \<Rightarrow> int option) \<Rightarrow> usageEntry list \<Rightarrow> int" where
  "token_sum f es = foldl (\<lambda>n e. case f e of None \<Rightarrow> n | Some k \<Rightarrow> wrap64 (n + k)) 0 es"

definition release_bucket :: "scopeBudget \<Rightarrow> reservation \<Rightarrow> scopeBudget" where
  "release_bucket b r = b\<lparr>sb_PendingJobs := sb_PendingJobs b - 1, sb_ReservedTokens := wrap64 (sb_ReservedTokens b - rv_Estimate r)\<rparr>"

text \<open>What the metering entries of a job make of its reservation and of the counters of its scope.\<close>

definition settle_with :: "usageEntry list \<Rightarrow> reservation \<Rightarrow> scopeBudget \<Rightarrow> reservation \<times> scopeBudget" where
  "settle_with es r b =
     (let out = token_sum ue_OutputTokens es; inp = token_sum ue_InputTokens es;
          measured = list_ex (\<lambda>e. ue_InputTokens e \<noteq> None \<or> ue_OutputTokens e \<noteq> None) es
      in if es = [] then (r\<lparr>rv_State := ''released'', rv_Charged := 0\<rparr>, b)
         else if \<not> measured then (r\<lparr>rv_State := ''settled'', rv_Charged := rv_Estimate r\<rparr>, b\<lparr>sb_Unknown := wrap64 (sb_Unknown b + 1)\<rparr>)
         else (r\<lparr>rv_State := ''settled'', rv_Charged := wrap64 (inp + out)\<rparr>,
               b\<lparr>sb_SettledIn := wrap64 (sb_SettledIn b + inp), sb_SettledOut := wrap64 (sb_SettledOut b + out)\<rparr>))"

definition settleReservationLocked :: "'a spool_env_scheme \<Rightarrow> time \<Rightarrow> string \<Rightarrow> unit spool_m" where
  "settleReservationLocked E now i = bind (gets (\<lambda>s. go_lookup (bl_Reservations (m_budget s)) i)) (\<lambda>old. case old of
       None \<Rightarrow> ret ()
     | Some r \<Rightarrow>
         if rv_State r \<noteq> ''open'' then ret ()
         else bind (usageEntriesLocked E) (\<lambda>es. bind (bucketLocked now (rv_ScopeID r)) (\<lambda>b.
           case settle_with (filter (\<lambda>e. ue_JobID e = i) es) r (release_bucket b r) of (r', b') \<Rightarrow>
             andthen (write_bucket (rv_ScopeID r) b') (andthen (write_reservation i r') saveBudgetLocked))))"

section \<open>Reconciliation\<close>

definition job_live :: "'a spool_env_scheme \<Rightarrow> string \<Rightarrow> bool spool_m" where
  "job_live E i = bind (attempt (fs_stat (\<lambda>s. go_lookup (d_jobs s Pending) (job_file E i)))) (\<lambda>p.
     bind (attempt (fs_stat (\<lambda>s. go_lookup (d_jobs s Running) (job_file E i)))) (\<lambda>r. ret (p = Inr () \<or> r = Inr ())))"

definition reconcile_one :: "'a spool_env_scheme \<Rightarrow> time \<Rightarrow> string \<Rightarrow> bool spool_m" where
  "reconcile_one E now i = bind (gets (\<lambda>s. go_lookup (bl_Reservations (m_budget s)) i)) (\<lambda>old. case old of
       None \<Rightarrow> ret False
     | Some r \<Rightarrow>
         if rv_State r \<noteq> ''open'' then ret False
         else bind (job_live E i) (\<lambda>live.
           if live then ret False
           else bind (attempt (loadMappingLocked E i)) (\<lambda>m.
             if (case m of Inr mp \<Rightarrow> TerminalStatus (mp_Status mp) | Inl _ \<Rightarrow> False)
             then andthen (settleReservationLocked E now i) (ret True)
             else bind (bucketLocked now (rv_ScopeID r)) (\<lambda>b.
               andthen (write_bucket (rv_ScopeID r) (release_bucket b r))
                 (andthen (write_reservation i (r\<lparr>rv_State := ''released''\<rparr>)) (ret True))))))"

fun reconcile_loop :: "'a spool_env_scheme \<Rightarrow> time \<Rightarrow> bool \<Rightarrow> string list \<Rightarrow> bool spool_m" where
  "reconcile_loop E now changed [] = ret changed"
| "reconcile_loop E now changed (i # is) = bind (reconcile_one E now i) (\<lambda>c. reconcile_loop E now (changed \<or> c) is)"

definition reconcileBudgetLocked :: "'a spool_env_scheme \<Rightarrow> time \<Rightarrow> unit spool_m" where
  "reconcileBudgetLocked E now = bind (gets (\<lambda>s. map fst (bl_Reservations (m_budget s)))) (\<lambda>is.
     bind (reconcile_loop E now False is) (\<lambda>changed. if changed then saveBudgetLocked else ret ()))"

end
