(* ===== verification/Spool_Mapping.thy ===== *)
theory Spool_Mapping
  imports Spool_Budget
begin

text \<open>
  The durable mappings of jobs (\<^verbatim>\<open>internal/communication/job_mapping.go\<close>, \<^verbatim>\<open>control.go\<close> and \<^verbatim>\<open>stream.go\<close>): the index by idempotency
  key, the cache of active mappings, the guarded update of a mapping with an outcome, the lanes in flight, and the requests
  to cancel and to approve.
\<close>

section \<open>Writing mappings\<close>

definition writeIdempotencyIndexLocked :: "'a spool_env_scheme \<Rightarrow> string \<Rightarrow> string \<Rightarrow> unit spool_m" where
  "writeIdempotencyIndexLocked E key i = fs_write (\<lambda>s. s\<lparr>d_by_key := go_update (idempotencyIndexPath E key) (Some i) (d_by_key s)\<rparr>)"

definition mark_active :: "JobMapping \<Rightarrow> spool \<Rightarrow> spool" where
  "mark_active m s =
     s\<lparr>m_active := map_option (\<lambda>ids. if TerminalStatus (mp_Status m) then removeAll (mp_JobID m) ids
        else if mp_JobID m \<in> set ids then ids else mp_JobID m # ids) (m_active s)\<rparr>"

definition writeMappingLocked :: "'a spool_env_scheme \<Rightarrow> JobMapping \<Rightarrow> unit spool_m" where
  "writeMappingLocked E m =
     andthen (fs_write (\<lambda>s. s\<lparr>d_mappings := go_update (job_file E (mp_JobID m)) (Some m) (d_mappings s)\<rparr>))
       (andthen (modify (mark_active m))
         (if TrimSpace (mp_IdempotencyKey m) \<noteq> [] then writeIdempotencyIndexLocked E (mp_IdempotencyKey m) (mp_JobID m) else ret ()))"

text \<open>The cache is rebuilt from the files that name their own job and are not terminal.\<close>

definition active_file :: "'a spool_env_scheme \<Rightarrow> string \<times> JobMapping option \<Rightarrow> string list" where
  "active_file E e =
     (case snd e of None \<Rightarrow> []
      | Some m \<Rightarrow> if mp_JobID m \<noteq> [] \<and> \<not> TerminalStatus (mp_Status m) \<and> fst e = job_file E (mp_JobID m) then [mp_JobID m] else [])"

fun scan_active :: "'a spool_env_scheme \<Rightarrow> string list \<Rightarrow> (string \<times> JobMapping option) list \<Rightarrow> string list spool_m" where
  "scan_active E ids [] = ret ids"
| "scan_active E ids (e # es) =
     (if \<not> HasSuffix (fst e) ''.json'' then scan_active E ids es
      else bind (attempt (fs_read (\<lambda>s. go_lookup (d_mappings s) (fst e)))) (\<lambda>r.
        case r of Inl _ \<Rightarrow> scan_active E ids es | Inr c \<Rightarrow> scan_active E (List.union (active_file E (fst e, c)) ids) es))"

definition activeMappingIDs :: "'a spool_env_scheme \<Rightarrow> string list spool_m" where
  "activeMappingIDs E = bind (gets m_active) (\<lambda>a. case a of
       Some ids \<Rightarrow> ret (sort ids)
     | None \<Rightarrow> bind (fs_readdir d_mappings) (\<lambda>es. bind (scan_active E [] es) (\<lambda>ids.
         andthen (modify (\<lambda>s. s\<lparr>m_active := Some ids\<rparr>)) (ret (sort ids)))))"

fun active_jobs :: "'a spool_env_scheme \<Rightarrow> string \<Rightarrow> string \<Rightarrow> JobMapping list \<Rightarrow> string list \<Rightarrow> JobMapping list spool_m" where
  "active_jobs E pr tid out [] = ret (rev out)"
| "active_jobs E pr tid out (i # is) = bind (attempt (loadMappingLocked E i)) (\<lambda>r.
     active_jobs E pr tid (case r of
         Inl _ \<Rightarrow> out
       | Inr m \<Rightarrow> if mp_PrincipalID m \<noteq> pr \<or> TerminalStatus (mp_Status m) \<or> mp_CancelRequested m \<or> mp_TaskID m \<noteq> tid then out else m # out) is)"

definition ActiveJobsForTask :: "'a spool_env_scheme \<Rightarrow> string \<Rightarrow> string \<Rightarrow> JobMapping list spool_m" where
  "ActiveJobsForTask E pr tid = bind (activeMappingIDs E) (active_jobs E pr tid [])"

definition Mapping :: "'a spool_env_scheme \<Rightarrow> string \<Rightarrow> JobMapping option spool_m" where
  "Mapping E i = bind (attempt (loadMappingLocked E i)) (\<lambda>r. case r of
     Inl NotExist \<Rightarrow> ret None | Inl e \<Rightarrow> fails e | Inr m \<Rightarrow> ret (Some m))"

section \<open>Lanes\<close>

definition mappingHoldsContext :: "JobMapping \<Rightarrow> bool" where
  "mappingHoldsContext m \<longleftrightarrow> \<not> TerminalStatus (mp_Status m) \<and> mp_RunID m \<noteq> [] \<and> mp_SessionID m \<noteq> [] \<and> mp_RuntimeGeneration m \<noteq> []"

definition jobContextKey :: "string \<Rightarrow> string \<Rightarrow> string \<Rightarrow> string" where
  "jobContextKey pr cx cv = (if cv = [] then pr @ nul @ cx else pr @ nul @ cx @ nul @ cv)"

definition jobFairKey :: "string \<Rightarrow> string \<Rightarrow> string" where
  "jobFairKey pr cx = pr @ nul @ cx"

definition mapping_lane :: "JobMapping \<Rightarrow> string" where
  "mapping_lane m = jobContextKey (mp_PrincipalID m) (mp_ContextID m) (mp_ConversationID m)"

definition releaseInFlightLocked :: "string \<Rightarrow> unit spool_m" where
  "releaseInFlightLocked i = modify (\<lambda>s. s\<lparr>m_inFlight := filter (\<lambda>(k, h). h \<noteq> i) (m_inFlight s)\<rparr>)"

definition lane_in :: "string \<Rightarrow> string \<Rightarrow> bool" where
  "lane_in fair k \<longleftrightarrow> k = fair \<or> HasPrefix k (fair @ nul)"

definition contextLanesHeldLocked :: "string \<Rightarrow> spool \<Rightarrow> nat" where
  "contextLanesHeldLocked fair s = length (filter (\<lambda>(k, _). lane_in fair k) (m_inFlight s))"

definition SessionFor :: "'a spool_env_scheme \<Rightarrow> string \<Rightarrow> string \<Rightarrow> string \<Rightarrow> ConversationMapping option spool_m" where
  "SessionFor E pr cx cv = bind (attempt (fs_read (\<lambda>s. go_lookup (d_conversations s) (conversationPath E pr cx cv)))) (\<lambda>r. case r of
     Inl NotExist \<Rightarrow> ret None
   | Inl e \<Rightarrow> fails e
   | Inr None \<Rightarrow> fails (SpoolErr ''invalid conversation mapping'')
   | Inr (Some c) \<Rightarrow> ret (Some c))"

section \<open>Outcomes\<close>

text \<open>The guards of \<^verbatim>\<open>updateMappingLocked\<close>, in order.\<close>

definition outcome_refused :: "JobMapping \<Rightarrow> RunOutcome \<Rightarrow> string \<Rightarrow> string option" where
  "outcome_refused m r status =
     (if TerminalStatus (mp_Status m) \<and> status \<noteq> [] \<and> status \<noteq> mp_Status m then Some ''job already terminal''
      else if TerminalStatus (mp_Status m) \<and> mp_Result m \<noteq> [] \<and> ro_Text r \<noteq> [] \<and> ro_Text r \<noteq> mp_Result m then Some ''terminal result cannot change''
      else if ro_JobID r \<noteq> [] \<and> ro_JobID r \<noteq> mp_JobID m then Some ''runtime returned a different job identity''
      else if mp_RuntimeGeneration m \<noteq> [] \<and> ro_RuntimeGeneration r \<noteq> [] \<and> ro_RuntimeGeneration r \<noteq> mp_RuntimeGeneration m
        then Some ''runtime returned a stale generation''
      else if mp_RunID m \<noteq> [] \<and> ro_RunID r \<noteq> [] \<and> ro_RunID r \<noteq> mp_RunID m then Some ''runtime returned a different run identity''
      else if mp_SessionID m \<noteq> [] \<and> ro_SessionID r \<noteq> [] \<and> ro_SessionID r \<noteq> mp_SessionID m then Some ''runtime returned a different session identity''
      else None)"

definition or_old :: "string \<Rightarrow> string \<Rightarrow> string" where
  "or_old new old = (if new \<noteq> [] then new else old)"

definition outcome_applied :: "time \<Rightarrow> JobMapping \<Rightarrow> RunOutcome \<Rightarrow> string \<Rightarrow> bool \<Rightarrow> JobMapping" where
  "outcome_applied now m r status terminal =
     m\<lparr>mp_SessionID := or_old (ro_SessionID r) (mp_SessionID m), mp_RunID := or_old (ro_RunID r) (mp_RunID m),
       mp_RuntimeGeneration := or_old (ro_RuntimeGeneration r) (mp_RuntimeGeneration m),
       mp_LastKnownEvent := or_old (ro_LastEvent r) (mp_LastKnownEvent m), mp_Status := or_old status (mp_Status m),
       mp_UncertainSince := (if terminal then zero_time else if status = ''uncertain'' \<and> mp_UncertainSince m = zero_time then now else mp_UncertainSince m),
       mp_Control := (if terminal then map_option (\<lambda>c. c\<lparr>pc_State := ''closed''\<rparr>) (mp_Control m) else mp_Control m),
       mp_Result := (if TrimSpace (ro_Text r) \<noteq> [] \<and> length (ro_Text r) \<le> 2 * 1024 * 1024 then ro_Text r else mp_Result m),
       mp_UpdatedAt := now, mp_TerminalAt := (if terminal then now else mp_TerminalAt m)\<rparr>"

definition write_conversation :: "'a spool_env_scheme \<Rightarrow> time \<Rightarrow> JobMapping \<Rightarrow> string \<Rightarrow> unit spool_m" where
  "write_conversation E now m sid = fs_write (\<lambda>s. s\<lparr>d_conversations :=
     go_update (conversationPath E (mp_PrincipalID m) (mp_ContextID m) (mp_ConversationID m))
       (Some \<lparr>cm_PrincipalID = mp_PrincipalID m, cm_ContextID = mp_ContextID m, cm_ConversationID = mp_ConversationID m, cm_SessionID = sid, cm_UpdatedAt = now\<rparr>)
       (d_conversations s)\<rparr>)"

definition free_lane :: "JobMapping \<Rightarrow> spool \<Rightarrow> spool" where
  "free_lane m s = (if go_lookup (m_inFlight s) (mapping_lane m) = Some (mp_JobID m)
     then s\<lparr>m_inFlight := go_delete (mapping_lane m) (m_inFlight s)\<rparr> else s)"

definition updateMappingLocked :: "'a spool_env_scheme \<Rightarrow> time \<Rightarrow> string \<Rightarrow> RunOutcome \<Rightarrow> string \<Rightarrow> bool \<Rightarrow> unit spool_m" where
  "updateMappingLocked E now i r status terminal = bind (loadMappingLocked E i) (\<lambda>m.
     case outcome_refused m r status of
       Some e \<Rightarrow> fails (SpoolErr e)
     | None \<Rightarrow>
         let m' = outcome_applied now m r status terminal in
         andthen (if ro_SessionID r \<noteq> [] then write_conversation E now m (ro_SessionID r) else ret ())
           (andthen (writeMappingLocked E m')
             (andthen (if terminal then settleReservationLocked E now i else ret ())
               (if \<not> mappingHoldsContext m' then modify (free_lane m') else ret ()))))"

definition RecordOutcome :: "'a spool_env_scheme \<Rightarrow> time \<Rightarrow> string \<Rightarrow> RunOutcome \<Rightarrow> unit spool_m" where
  "RecordOutcome E now i r =
     (let status = (if ro_Status r = [] then ''completed'' else ro_Status r)
      in updateMappingLocked E now i r status (TerminalStatus status))"

section \<open>Control requests\<close>

definition ownsMapping :: "Envelope \<Rightarrow> JobMapping \<Rightarrow> bool" where
  "ownsMapping c m \<longleftrightarrow> ev_Schema c \<noteq> 0 \<and> ev_Schema c = mp_IdentitySchema m \<and> ev_ExternalIdentityID c \<noteq> [] \<and>
     ev_ExternalIdentityID c = mp_ExternalIdentityID m \<and> ev_PrincipalID c = mp_PrincipalID m \<and> ev_ContextID c = mp_ContextID m \<and>
     ev_ConversationID c = mp_ConversationID m \<and> ev_DeliveryTargetID c = mp_DeliveryTargetID m \<and> ev_RuntimeID c = mp_RuntimeID m \<and>
     ev_PolicyVersion c = mp_PolicyVersion m"

definition RequestCancel :: "'a spool_env_scheme \<Rightarrow> time \<Rightarrow> string \<Rightarrow> Envelope \<Rightarrow> JobMapping spool_m" where
  "RequestCancel E now i caller = bind (loadMappingLocked E i) (\<lambda>m.
     if \<not> ownsMapping caller m then fails (SpoolErr ''job ownership mismatch'')
     else if TerminalStatus (mp_Status m) \<or> mp_CancelRequested m then ret m
     else
       let m1 = m\<lparr>mp_CancelRequested := True, mp_UpdatedAt := now,
             mp_Control := Some \<lparr>pc_NextAttemptAt = zero_time, pc_Caller = caller, pc_Action = ''cancel'', pc_RequestID = [], pc_Choice = [], pc_State = ''pending''\<rparr>\<rparr>;
           m2 = (if mp_Status m = ''accepted'' \<and> mp_RunID m = []
                 then m1\<lparr>mp_Status := ''cancelled'', mp_TerminalAt := now, mp_LastKnownEvent := ''job.cancelled''\<rparr> else m1)
       in andthen (writeMappingLocked E m2) (ret m2))"

definition RequestApproval :: "'a spool_env_scheme \<Rightarrow> time \<Rightarrow> string \<Rightarrow> Envelope \<Rightarrow> string \<Rightarrow> string \<Rightarrow> unit spool_m" where
  "RequestApproval E now i caller rid choice = bind (loadMappingLocked E i) (\<lambda>m.
     if \<not> ownsMapping caller m then fails (SpoolErr ''job ownership mismatch'')
     else case (case mp_Control m of Some c \<Rightarrow> if pc_Action c = ''approve'' \<and> pc_RequestID c = rid then Some c else None | None \<Rightarrow> None) of
       Some c \<Rightarrow>
         if pc_State c \<in> {''pending'', ''uncertain''} \<and> \<not> now < mp_ApprovalDeadline m then fails (SpoolErr ''approval is expired'')
         else if pc_Choice c = choice then ret ()
         else fails (SpoolErr ''conflicting approval'')
     | None \<Rightarrow>
         if mp_CancelRequested m \<or> mp_ApprovalState m \<noteq> ''pending'' \<or> rid = [] \<or> mp_ApprovalID m \<noteq> rid \<or>
            choice \<notin> set (mp_ApprovalChoices m) \<or> \<not> now < mp_ApprovalDeadline m
         then fails (SpoolErr ''approval is stale or invalid'')
         else writeMappingLocked E (m\<lparr>mp_Control :=
           Some \<lparr>pc_NextAttemptAt = zero_time, pc_Caller = caller, pc_Action = ''approve'', pc_RequestID = rid, pc_Choice = choice, pc_State = ''pending''\<rparr>\<rparr>))"

section \<open>Stream events\<close>

definition outcomeFromEvent :: "ExecuteResponse \<Rightarrow> RunOutcome" where
  "outcomeFromEvent e = \<lparr>ro_Text = er_Text e, ro_JobID = er_JobID e, ro_SessionID = er_SessionID e, ro_RunID = er_RunID e,
     ro_RuntimeGeneration = er_RuntimeGeneration e, ro_Status = er_Status e, ro_LastEvent = er_LastEvent e\<rparr>"

definition ownsStreamMapping :: "Job \<Rightarrow> JobMapping \<Rightarrow> bool" where
  "ownsStreamMapping j m \<longleftrightarrow> ownsMapping (jb_Envelope j) m \<and> jb_ActorID j = mp_ActorID m \<and> jb_UserID j = mp_UserID m \<and>
     jb_OrganizationID j = mp_OrganizationID m \<and> jb_ScopeID j = mp_ScopeID m \<and> jb_Channel j = mp_Channel m \<and>
     jb_Trigger j = mp_Trigger m \<and> jb_IdempotencyKey j = mp_IdempotencyKey m"

definition RebindObservation :: "'a spool_env_scheme \<Rightarrow> Job \<Rightarrow> ExecuteResponse \<Rightarrow> unit spool_m" where
  "RebindObservation E j e = bind (loadMappingLocked E (jb_ID j)) (\<lambda>m.
     if \<not> ownsStreamMapping j m \<or> mp_RunID m \<noteq> er_RunID e \<or> mp_SessionID m \<noteq> er_SessionID e \<or> er_JobID e \<noteq> jb_ID j \<or>
        er_RuntimeGeneration e = [] \<or> TerminalStatus (mp_Status m)
     then fails (SpoolErr ''recovery binding mismatch'')
     else writeMappingLocked E (m\<lparr>mp_RuntimeGeneration := er_RuntimeGeneration e\<rparr>))"

definition staleReceipt :: "JobMapping \<Rightarrow> ExecuteResponse \<Rightarrow> bool" where
  "staleReceipt m e \<longleftrightarrow> TerminalStatus (mp_Status m) \<and>
     (er_Status e \<noteq> [] \<and> er_Status e \<noteq> mp_Status m \<or> mp_Result m \<noteq> [] \<and> er_Text e \<noteq> [] \<and> er_Text e \<noteq> mp_Result m)"

definition receipt_marks :: "streamReceipt \<Rightarrow> JobMapping \<Rightarrow> JobMapping" where
  "receipt_marks r m =
     (let e = sr_Event r; m1 = m\<lparr>mp_EventPosition := sr_Position r, mp_LastEventID := er_EventID e\<rparr>;
          m2 = (case sr_Delivery r of Some d \<Rightarrow> if sr_StatusDelivery r \<and> TrimSpace (dl_Text d) \<noteq> [] then m1\<lparr>mp_StatusText := dl_Text d\<rparr> else m1 | None \<Rightarrow> m1);
          m3 = (if er_LastEvent e = ''approval.request''
                then m2\<lparr>mp_ApprovalID := er_ApprovalID e, mp_ApprovalChoices := er_ApprovalChoices e, mp_ApprovalDeadline := sr_ApprovalDeadline r, mp_ApprovalState := ''pending''\<rparr>
                else m2)
      in if TerminalStatus (er_Status e) \<and> mp_ApprovalID m3 \<noteq> [] then m3\<lparr>mp_ApprovalState := ''closed''\<rparr> else m3)"

text \<open>The result says whether the receipt was stale, which the caller treats apart from the other errors.\<close>

definition applyStreamReceiptLocked :: "'a spool_env_scheme \<Rightarrow> time \<Rightarrow> streamReceipt \<Rightarrow> bool spool_m" where
  "applyStreamReceiptLocked E now r = bind (loadMappingLocked E (sr_JobID r)) (\<lambda>m.
     if er_JobID (sr_Event r) \<noteq> sr_JobID r \<or> er_EventID (sr_Event r) = [] then fails (SpoolErr ''invalid receipt event binding'')
     else if (case sr_Delivery r of None \<Rightarrow> False | Some d \<Rightarrow>
         dl_ConversationID d \<noteq> mp_ConversationID m \<or> dl_DeliveryTargetID d \<noteq> mp_DeliveryTargetID m \<or> (dl_JobID d \<noteq> [] \<and> dl_JobID d \<noteq> sr_JobID r))
       then fails (SpoolErr ''receipt delivery audience mismatch'')
     else if sr_Position r \<le> mp_EventPosition m then ret False
     else if staleReceipt m (sr_Event r) then ret True
     else andthen (updateMappingLocked E now (sr_JobID r) (outcomeFromEvent (sr_Event r)) (er_Status (sr_Event r)) (TerminalStatus (er_Status (sr_Event r))))
       (bind (loadMappingLocked E (sr_JobID r)) (\<lambda>m'. andthen (writeMappingLocked E (receipt_marks r m')) (ret False))))"

end
