(* ===== verification/Spool_Queue.thy ===== *)
theory Spool_Queue
  imports Spool_Mapping
begin

text \<open>
  The queue of jobs (\<^verbatim>\<open>internal/communication/spool.go\<close>): admission with idempotency keys and budget, the fair claim of the next job,
  completion and failure. The directories are the state machine; a rename is a transition. A claim whose \<^verbatim>\<open>Info\<close> call fails ends like
  one whose read fails, so the two share an access; the modification times are an argument.
\<close>

section \<open>Admission\<close>

fun scan_key :: "'a spool_env_scheme \<Rightarrow> string \<Rightarrow> (string \<times> JobMapping option) list \<Rightarrow> JobMapping option spool_m" where
  "scan_key E key [] = ret None"
| "scan_key E key (e # es) =
     (if \<not> HasSuffix (fst e) ''.json'' then scan_key E key es
      else bind (fs_read (\<lambda>s. go_lookup (d_mappings s) (fst e))) (\<lambda>c. case c of
        None \<Rightarrow> fails (SpoolErr ''invalid job mapping'')
      | Some m \<Rightarrow>
          if mp_JobID m = [] then fails (SpoolErr ''invalid job mapping'')
          else if mp_IdempotencyKey m = key then bind (attempt (writeIdempotencyIndexLocked E key (mp_JobID m))) (\<lambda>_. ret (Some m))
          else scan_key E key es))"

definition findIdempotencyLocked :: "'a spool_env_scheme \<Rightarrow> string \<Rightarrow> JobMapping option spool_m" where
  "findIdempotencyLocked E key = bind (attempt (fs_read (\<lambda>s. go_lookup (d_by_key s) (idempotencyIndexPath E key)))) (\<lambda>r.
     let scan = bind (fs_readdir d_mappings) (scan_key E key) in
     case r of
       Inr (Some i) \<Rightarrow>
         if i \<noteq> [] then bind (attempt (loadMappingLocked E i)) (\<lambda>l. case l of
             Inr m \<Rightarrow> if mp_IdempotencyKey m = key then ret (Some m) else scan
           | Inl _ \<Rightarrow> scan)
         else scan
     | Inr None \<Rightarrow> scan
     | Inl NotExist \<Rightarrow> scan
     | Inl e \<Rightarrow> fails e)"

definition defaultTaskID :: string where
  "defaultTaskID = ''default''"

definition loadTaskLocked :: "string \<Rightarrow> string \<Rightarrow> Task spool_m" where
  "loadTaskLocked pr tid = bind (fs_read (\<lambda>s. go_lookup (d_tasks s) (pr, tid))) (\<lambda>c. case c of
       None \<Rightarrow> fails (SpoolErr ''invalid task record'')
     | Some t \<Rightarrow> if tk_TaskID t \<noteq> tid \<or> tk_PrincipalID t \<noteq> pr then fails (SpoolErr ''invalid task record'') else ret t)"

definition bind_task :: "Job \<Rightarrow> Job spool_m" where
  "bind_task job =
     (if jb_TaskID job \<noteq> [] \<and> jb_TaskID job \<noteq> defaultTaskID then
        bind (attempt (loadTaskLocked (ev_PrincipalID (jb_Envelope job)) (jb_TaskID job))) (\<lambda>r. case r of
          Inl _ \<Rightarrow> fails (SpoolErr ''task binding unavailable'')
        | Inr t \<Rightarrow>
            if tk_ChatID t \<noteq> jb_ChatID job then fails (SpoolErr ''task binding audience mismatch'')
            else if jb_Trigger job \<noteq> ''cron'' then ret (job\<lparr>jb_Envelope := (jb_Envelope job)\<lparr>ev_ConversationID := tk_ConversationID t\<rparr>\<rparr>)
            else ret job)
      else ret job)"

text \<open>An active hold of the context suppresses the job (\<open>None\<close>), a settled one stamps its epoch.\<close>

fun apply_holds :: "masterHold list \<Rightarrow> Job \<Rightarrow> Job option" where
  "apply_holds [] job = Some job"
| "apply_holds (h # hs) job =
     (if mh_PrincipalID h \<noteq> ev_PrincipalID (jb_Envelope job) \<or> mh_ContextID h \<noteq> ev_ContextID (jb_Envelope job) then apply_holds hs job
      else if mh_Active h then None
      else apply_holds hs (job\<lparr>jb_OperationalEpoch := mh_Epoch h\<rparr>))"

fun stat_any :: "string \<Rightarrow> jdir list \<Rightarrow> bool spool_m" where
  "stat_any n [] = ret False"
| "stat_any n (d # ds) = bind (attempt (fs_stat (\<lambda>s. go_lookup (d_jobs s d) n))) (\<lambda>r. case r of
     Inr _ \<Rightarrow> ret True | Inl NotExist \<Rightarrow> stat_any n ds | Inl e \<Rightarrow> fails e)"

definition seal_secret :: "'a spool_env_scheme \<Rightarrow> Job \<Rightarrow> Job" where
  "seal_secret E job = (if jb_Sensitive job then job\<lparr>jb_TextSHA256 := hex_encode (hash256 E (jb_Text job)), jb_Text := []\<rparr> else job)"

definition admit :: "'a spool_env_scheme \<Rightarrow> time \<Rightarrow> Job \<Rightarrow> bool spool_m" where
  "admit E now job =
     andthen (modify (\<lambda>s. if jb_Sensitive job then s\<lparr>m_secret := go_update (jb_ID job) (jb_Text job) (m_secret s)\<rparr> else s))
       (andthen (reconcileBudgetLocked E now)
         (andthen (reserveLocked E now (seal_secret E job))
           (andthen (fs_write (\<lambda>s. s\<lparr>d_jobs := (d_jobs s)(Pending := go_update (job_file E (jb_ID job)) (Some (seal_secret E job)) (d_jobs s Pending))\<rparr>))
             (if TrimSpace (jb_IdempotencyKey job) \<noteq> []
              then andthen (writeMappingLocked E ((MappingFromJob E (seal_secret E job) (jb_CreatedAt job))\<lparr>mp_Fingerprint := JobFingerprint E job\<rparr>)) (ret True)
              else ret True))))"

definition admit_new :: "'a spool_env_scheme \<Rightarrow> time \<Rightarrow> Job \<Rightarrow> bool spool_m" where
  "admit_new E now job = bind (stat_any (job_file E (jb_ID job)) [Pending, Running, Done, Failed]) (\<lambda>found.
     if found then ret False else admit E now job)"

definition enqueueLocked :: "'a spool_env_scheme \<Rightarrow> time \<Rightarrow> Job \<Rightarrow> bool spool_m" where
  "enqueueLocked E now job0 = bind (bind_task job0) (\<lambda>job1. bind (gets m_holds) (\<lambda>holds.
     case (case holds of None \<Rightarrow> Some job1 | Some hs \<Rightarrow> apply_holds hs job1) of
       None \<Rightarrow> ret True
     | Some job \<Rightarrow>
         if TrimSpace (jb_IdempotencyKey job) \<noteq> [] then
           bind (findIdempotencyLocked E (jb_IdempotencyKey job)) (\<lambda>f. case f of
             Some m \<Rightarrow>
               if mp_Fingerprint m \<noteq> JobFingerprint E job then fails (SpoolErr ''idempotency key already used with different payload'')
               else ret False
           | None \<Rightarrow> admit_new E now job)
         else admit_new E now job))"

text \<open>\<^verbatim>\<open>refreshHolds\<close> is a callback: it fails, or leaves a projection of the holds.\<close>

definition Enqueue :: "'a spool_env_scheme \<Rightarrow> time \<Rightarrow> (masterHold list option) option \<Rightarrow> Job \<Rightarrow> bool spool_m" where
  "Enqueue E now refreshed job = (case refreshed of
       None \<Rightarrow> fails (SpoolErr ''hold projection'')
     | Some hs \<Rightarrow> andthen (modify (\<lambda>s. s\<lparr>m_holds := hs\<rparr>)) (enqueueLocked E now job))"

section \<open>Claim\<close>

text \<open>What the claim asks of the routines engine: whether an assignment still wakes, whether an occurrence is current.\<close>

record routines_view =
  wakes :: "string \<Rightarrow> nat \<Rightarrow> bool"
  occurrence_current :: "string \<Rightarrow> bool"

fun read_candidates :: "(string \<times> Job option) list \<Rightarrow> (string \<times> Job) list spool_m" where
  "read_candidates [] = ret []"
| "read_candidates (e # es) =
     (if \<not> HasSuffix (fst e) ''.json'' then read_candidates es
      else bind (fs_read (\<lambda>s. go_lookup (d_jobs s Pending) (fst e))) (\<lambda>c. case c of
        None \<Rightarrow> fails (SpoolErr ''invalid job'')
      | Some j \<Rightarrow> bind (read_candidates es) (\<lambda>cs. ret ((fst e, j) # cs))))"

definition read_cursor :: "string spool_m" where
  "read_cursor = bind (attempt (fs_read d_cursor)) (\<lambda>r. case r of
     Inl NotExist \<Rightarrow> ret [] | Inl e \<Rightarrow> fails e | Inr None \<Rightarrow> fails (SpoolErr ''invalid cursor'') | Inr (Some c) \<Rightarrow> ret c)"

definition job_fair :: "Job \<Rightarrow> string" where
  "job_fair j = jobFairKey (ev_PrincipalID (jb_Envelope j)) (ev_ContextID (jb_Envelope j))"

definition job_lane :: "Job \<Rightarrow> string" where
  "job_lane j = jobContextKey (ev_PrincipalID (jb_Envelope j)) (ev_ContextID (jb_Envelope j)) (ev_ConversationID (jb_Envelope j))"

text \<open>A scheduled job counts as background until it has been parked for five minutes.\<close>

definition background :: "time \<Rightarrow> (string \<Rightarrow> time) \<Rightarrow> string \<times> Job \<Rightarrow> bool" where
  "background now parked c \<longleftrightarrow> jb_Trigger (snd c) = ''cron'' \<and> go_Sub now (parked (fst c)) < 5 * minute"

text \<open>The comparison of \<^verbatim>\<open>sort.SliceStable\<close>: scopes after the cursor first, then the scope, then foreground work, then the name.\<close>

definition claim_rank :: "time \<Rightarrow> (string \<Rightarrow> time) \<Rightarrow> string \<Rightarrow> string \<times> Job \<Rightarrow> bool \<times> string \<times> bool \<times> string" where
  "claim_rank now parked cursor c = (\<not> job_fair (snd c) > cursor, job_fair (snd c), background now parked c, fst c)"

definition cancel_pending :: "'a spool_env_scheme \<Rightarrow> time \<Rightarrow> string \<Rightarrow> Job \<Rightarrow> string \<Rightarrow> unit spool_m" where
  "cancel_pending E now n j ev =
     andthen (updateMappingLocked E now (jb_ID j)
         \<lparr>ro_Text = [], ro_JobID = [], ro_SessionID = [], ro_RunID = [], ro_RuntimeGeneration = [], ro_Status = ''cancelled'', ro_LastEvent = ev\<rparr> ''cancelled'' True)
       (fs_rename Pending Failed n)"

definition terminal_dir :: "string \<Rightarrow> jdir" where
  "terminal_dir st = (if st = ''completed'' then Done else Failed)"

definition lane_blocked :: "Job \<Rightarrow> spool \<Rightarrow> bool" where
  "lane_blocked j s \<longleftrightarrow>
     (case go_lookup (m_inFlight s) (job_lane j) of Some h \<Rightarrow> h \<noteq> jb_ID j | None \<Rightarrow> False) \<or>
     (case go_lookup (m_inFlight s) (job_lane j) of Some h \<Rightarrow> h | None \<Rightarrow> []) \<noteq> jb_ID j \<and>
       sl_MaxParallelPerContext (m_limits s) > 0 \<and> int (contextLanesHeldLocked (job_fair j) s) \<ge> sl_MaxParallelPerContext (m_limits s)"

text \<open>The payload that the claim hands out: nothing for a run that was already admitted, the secret text for a sensitive job.\<close>

definition claim_text :: "string \<Rightarrow> Job \<Rightarrow> JobMapping option \<Rightarrow> Job spool_m" where
  "claim_text n j mo =
     (if (case mo of Some m \<Rightarrow> mp_RunID m \<noteq> [] \<and> mp_SessionID m \<noteq> [] | None \<Rightarrow> False) then ret (j\<lparr>jb_Text := []\<rparr>)
      else if jb_Sensitive j then bind (gets (\<lambda>s. case go_lookup (m_secret s) (jb_ID j) of Some t \<Rightarrow> t | None \<Rightarrow> [])) (\<lambda>t.
        if t = [] then bind (attempt (fs_rename Running Failed n)) (\<lambda>_. fails (SpoolErr ''sensitive job payload unavailable after restart''))
        else ret (j\<lparr>jb_Text := t\<rparr>))
      else ret j)"

definition hold_lane :: "Job \<Rightarrow> Job \<Rightarrow> Job option spool_m" where
  "hold_lane j j' = andthen (modify (\<lambda>s. s\<lparr>m_inFlight := go_update (job_lane j) (jb_ID j) (m_inFlight s)\<rparr>)) (ret (Some j'))"

definition mark_running :: "'a spool_env_scheme \<Rightarrow> time \<Rightarrow> Job \<Rightarrow> unit spool_m" where
  "mark_running E now j =
     (if TrimSpace (jb_IdempotencyKey j) \<noteq> [] then
        updateMappingLocked E now (jb_ID j) \<lparr>ro_Text = [], ro_JobID = jb_ID j, ro_SessionID = [], ro_RunID = [],
          ro_RuntimeGeneration = [], ro_Status = ''running'', ro_LastEvent = ''job.claimed''\<rparr> ''running'' False
      else ret ())"

text \<open>What follows the move to the running directory, for the mapping that was read or its error: \<open>Some\<close> job, or \<open>None\<close> to go on with
  the next candidate.\<close>

definition start_claimed :: "'a spool_env_scheme \<Rightarrow> time \<Rightarrow> string \<Rightarrow> Job \<Rightarrow> spool_err + JobMapping \<Rightarrow> Job option spool_m" where
  "start_claimed E now n j r = (case r of
       Inl e \<Rightarrow> if jb_IdempotencyKey j \<noteq> [] then fails e else bind (claim_text n j None) (hold_lane j)
     | Inr m \<Rightarrow>
         if TerminalStatus (mp_Status m) then andthen (fs_rename Running (terminal_dir (mp_Status m)) n) (ret None)
         else bind (claim_text n j (Some m)) (\<lambda>j'. andthen (mark_running E now j) (hold_lane j j')))"

definition take_candidate :: "'a spool_env_scheme \<Rightarrow> time \<Rightarrow> string \<Rightarrow> Job \<Rightarrow> Job option spool_m" where
  "take_candidate E now n j =
     andthen (fs_write (\<lambda>s. s\<lparr>d_cursor := Some (Some (job_fair j))\<rparr>))
       (andthen (fs_rename Pending Running n)
         (bind (attempt (loadMappingLocked E (jb_ID j))) (start_claimed E now n j)))"

fun claim_loop :: "'a spool_env_scheme \<Rightarrow> time \<Rightarrow> routines_view \<Rightarrow> (string \<times> Job) list \<Rightarrow> Job option spool_m" where
  "claim_loop E now V [] = ret None"
| "claim_loop E now V (c # cs) =
     (let n = fst c; j = snd c in
      if jb_AssignmentID j \<noteq> [] \<and> jb_AssignmentPlanRevision j \<noteq> 0 \<and> \<not> wakes V (jb_AssignmentID j) (jb_AssignmentPlanRevision j)
      then andthen (cancel_pending E now n j ''assignment.cancelled'') (claim_loop E now V cs)
      else if jb_Trigger j = ''cron'' \<and> HasPrefix (jb_ID j) ''routine-'' \<and> \<not> occurrence_current V (jb_ID j)
      then andthen (cancel_pending E now n j ''routine.cancelled'') (claim_loop E now V cs)
      else bind (gets (lane_blocked j)) (\<lambda>blocked.
        if blocked then claim_loop E now V cs
        else bind (take_candidate E now n j) (\<lambda>r. case r of Some j' \<Rightarrow> ret (Some j') | None \<Rightarrow> claim_loop E now V cs)))"

definition ClaimJob :: "'a spool_env_scheme \<Rightarrow> time \<Rightarrow> routines_view \<Rightarrow> (string \<Rightarrow> time) \<Rightarrow> Job option spool_m" where
  "ClaimJob E now V parked = bind (fs_readdir (\<lambda>s. d_jobs s Pending)) (\<lambda>es.
     bind (read_candidates es) (\<lambda>cs. bind read_cursor (\<lambda>cursor.
       claim_loop E now V (sort_key (claim_rank now parked cursor) cs))))"

section \<open>Completion\<close>

definition plain_outcome :: "string \<Rightarrow> string \<Rightarrow> RunOutcome" where
  "plain_outcome status ev =
     \<lparr>ro_Text = [], ro_JobID = [], ro_SessionID = [], ro_RunID = [], ro_RuntimeGeneration = [], ro_Status = status, ro_LastEvent = ev\<rparr>"

definition CompleteJob :: "'a spool_env_scheme \<Rightarrow> time \<Rightarrow> string \<Rightarrow> unit spool_m" where
  "CompleteJob E now i =
     andthen (releaseInFlightLocked i)
       (andthen (fs_rename Running Done (job_file E i))
         (bind (attempt (loadMappingLocked E i)) (\<lambda>r. case r of
            Inr _ \<Rightarrow> updateMappingLocked E now i (plain_outcome ''completed'' ''job.completed'') ''completed'' True
          | Inl _ \<Rightarrow> ret ())))"

definition fail_status :: "string \<Rightarrow> string" where
  "fail_status st = (if st \<in> {''uncertain'', ''cancelled'', ''interrupted''} then st else ''failed'')"

definition FailJob :: "'a spool_env_scheme \<Rightarrow> time \<Rightarrow> string \<Rightarrow> unit spool_m" where
  "FailJob E now i =
     andthen (modify (\<lambda>s. s\<lparr>m_secret := go_delete i (m_secret s)\<rparr>))
       (bind (attempt (loadMappingLocked E i)) (\<lambda>r0.
         if (case r0 of Inr m \<Rightarrow> mp_Status m = ''completed'' | Inl _ \<Rightarrow> False)
         then andthen (releaseInFlightLocked i) (fs_rename Running Done (job_file E i))
         else bind (attempt (fs_rename Running Failed (job_file E i))) (\<lambda>moved.
           bind (attempt (loadMappingLocked E i)) (\<lambda>r1. case r1 of
             Inr m \<Rightarrow>
               (let st = fail_status (mp_Status m) in
                bind (attempt (updateMappingLocked E now i (plain_outcome st (''job.'' @ st)) st (st \<noteq> ''uncertain''))) (\<lambda>upd.
                  case moved of Inl e \<Rightarrow> fails e | Inr _ \<Rightarrow> (case upd of Inl e \<Rightarrow> fails e | Inr _ \<Rightarrow> ret ())))
           | Inl _ \<Rightarrow> andthen (releaseInFlightLocked i) (case moved of Inl e \<Rightarrow> fails e | Inr _ \<Rightarrow> ret ())))))"

end
