(* ===== verification/Spool_Recover.thy ===== *)
theory Spool_Recover
  imports Spool_Queue
begin

text \<open>
  The outbox of deliveries (\<^verbatim>\<open>spool_delivery.go\<close>), the start of a process on an existing spool (\<^verbatim>\<open>NewSpool\<close>, \<^verbatim>\<open>openSpool\<close>, \<^verbatim>\<open>recover\<close> and
  their loops in \<^verbatim>\<open>spool.go\<close> and \<^verbatim>\<open>stream.go\<close>), and \<^verbatim>\<open>RequeueObservations\<close> (\<^verbatim>\<open>recovery.go\<close>).
\<close>

section \<open>The outbox\<close>

definition normalizeDelivery :: "'a spool_env_scheme \<Rightarrow> Delivery \<Rightarrow> Delivery option" where
  "normalizeDelivery E d =
     (if dl_Format d \<noteq> [] \<and> dl_Format d \<noteq> ''markdown'' then None
      else let d1 = (if dl_Channel d = [] then d\<lparr>dl_Channel := ''telegram_bot''\<rparr> else d) in
      case channel_normalize E (dl_Channel d1) of
        None \<Rightarrow> None
      | Some f \<Rightarrow> map_option (\<lambda>d2. if dl_ApprovalID d2 \<noteq> [] then d2\<lparr>dl_Control := True\<rparr> else d2) (f d1))"

fun stat_out :: "string \<Rightarrow> odir list \<Rightarrow> bool spool_m" where
  "stat_out n [] = ret False"
| "stat_out n (d # ds) = bind (attempt (fs_stat (\<lambda>s. go_lookup (d_outbox s d) n))) (\<lambda>r. case r of
     Inr _ \<Rightarrow> ret True | Inl NotExist \<Rightarrow> stat_out n ds | Inl e \<Rightarrow> fails e)"

fun count_ordinary :: "nat \<Rightarrow> (string \<times> Delivery option) list \<Rightarrow> nat spool_m" where
  "count_ordinary k [] = ret k"
| "count_ordinary k (e # es) =
     (if \<not> HasSuffix (fst e) ''.json'' then count_ordinary k es
      else bind (fs_read (\<lambda>s. go_lookup (d_outbox s OutPending) (fst e))) (\<lambda>c. case c of
        None \<Rightarrow> fails (SpoolErr ''invalid delivery'')
      | Some d \<Rightarrow> count_ordinary (if dl_Control d then k else Suc k) es))"

definition outbox_full :: "Delivery \<Rightarrow> unit spool_m" where
  "outbox_full d = bind (gets m_limits) (\<lambda>lim.
     if \<not> dl_Control d \<and> sl_MaxDeliveries lim > 0 then
       bind (fs_readdir (\<lambda>s. d_outbox s OutPending)) (\<lambda>es. bind (count_ordinary 0 es) (\<lambda>k.
         if int k \<ge> sl_MaxDeliveries lim then fails (SpoolErr ''outbox queue full'') else ret ()))
     else ret ())"

definition enqueueDeliveryLocked :: "'a spool_env_scheme \<Rightarrow> Delivery \<Rightarrow> unit spool_m" where
  "enqueueDeliveryLocked E d0 =
     (let d = (if dl_OccurrenceID d0 = [] \<and> HasPrefix (dl_JobID d0) ''routine-'' then d0\<lparr>dl_OccurrenceID := dl_JobID d0\<rparr> else d0) in
      bind (stat_out (job_file E (dl_ID d)) [OutPending, OutSending, OutDone, OutFailed]) (\<lambda>found.
        if found then ret ()
        else andthen (outbox_full d)
          (fs_write (\<lambda>s. s\<lparr>d_outbox := (d_outbox s)(OutPending := go_update (job_file E (dl_ID d)) (Some d) (d_outbox s OutPending))\<rparr>))))"

definition EnqueueDelivery :: "'a spool_env_scheme \<Rightarrow> Delivery \<Rightarrow> unit spool_m" where
  "EnqueueDelivery E d = (case normalizeDelivery E d of
     None \<Rightarrow> fails (SpoolErr ''invalid delivery identity'') | Some d' \<Rightarrow> enqueueDeliveryLocked E d')"

definition LoadOffset :: "int spool_m" where
  "LoadOffset = bind (attempt (fs_read d_offset)) (\<lambda>r. case r of
     Inl NotExist \<Rightarrow> ret 0
   | Inl e \<Rightarrow> fails e
   | Inr None \<Rightarrow> fails (SpoolErr ''invalid Telegram update offset'')
   | Inr (Some n) \<Rightarrow> if n < 0 then fails (SpoolErr ''invalid Telegram update offset'') else ret n)"

definition SaveOffset :: "int \<Rightarrow> unit spool_m" where
  "SaveOffset n = (if n < 0 then fails (SpoolErr ''negative Telegram update offset'') else fs_write (\<lambda>s. s\<lparr>d_offset := Some (Some n)\<rparr>))"

text \<open>One of the two scans of \<^verbatim>\<open>ClaimDelivery\<close>: at most 256 names, the first delivery that is due (and of the control plane, in
  the first scan) moves to the directory of deliveries under way.\<close>

fun claim_scan :: "time \<Rightarrow> bool \<Rightarrow> string list \<Rightarrow> Delivery option spool_m" where
  "claim_scan now control_only [] = ret None"
| "claim_scan now control_only (n # ns) = bind (fs_read (\<lambda>s. go_lookup (d_outbox s OutPending) n)) (\<lambda>c. case c of
     None \<Rightarrow> fails (SpoolErr ''invalid delivery'')
   | Some d \<Rightarrow>
       if control_only \<and> \<not> dl_Control d \<or> dl_NotBefore d > now then claim_scan now control_only ns
       else andthen (fs_rename_out OutPending OutSending n) (ret (Some d)))"

definition ClaimDelivery :: "time \<Rightarrow> Delivery option spool_m" where
  "ClaimDelivery now = bind (fs_readdir (\<lambda>s. d_outbox s OutPending)) (\<lambda>es.
     let names = take 256 (filter (\<lambda>n. HasSuffix n ''.json'') (map fst es)) in
     bind (claim_scan now True names) (\<lambda>r. case r of Some d \<Rightarrow> ret (Some d) | None \<Rightarrow> claim_scan now False names))"

definition CompleteDelivery :: "'a spool_env_scheme \<Rightarrow> string \<Rightarrow> unit spool_m" where
  "CompleteDelivery E i = fs_rename_out OutSending OutDone (job_file E i)"

definition UncertainDelivery :: "'a spool_env_scheme \<Rightarrow> string \<Rightarrow> unit spool_m" where
  "UncertainDelivery E i = fs_rename_out OutSending OutFailed (job_file E i)"

definition RetryDelivery :: "'a spool_env_scheme \<Rightarrow> string \<Rightarrow> unit spool_m" where
  "RetryDelivery E i = fs_rename_out OutSending OutPending (job_file E i)"

definition UpdateSending :: "'a spool_env_scheme \<Rightarrow> Delivery \<Rightarrow> unit spool_m" where
  "UpdateSending E d = bind (attempt (fs_stat (\<lambda>s. go_lookup (d_outbox s OutSending) (job_file E (dl_ID d))))) (\<lambda>r. case r of
     Inl NotExist \<Rightarrow> ret ()
   | Inl e \<Rightarrow> fails e
   | Inr _ \<Rightarrow> fs_write (\<lambda>s. s\<lparr>d_outbox := (d_outbox s)(OutSending := go_update (job_file E (dl_ID d)) (Some d) (d_outbox s OutSending))\<rparr>))"

section \<open>Recovery\<close>

text \<open>A job that was claimed when the process died. The identifier is the name of the file without its suffix.\<close>

definition recover_job :: "'a spool_env_scheme \<Rightarrow> time \<Rightarrow> string \<Rightarrow> unit spool_m" where
  "recover_job E now n = bind (attempt (loadMappingLocked E (TrimSuffix n ''.json''))) (\<lambda>r. case r of
       Inl NotExist \<Rightarrow> fs_rename Running Pending n
     | Inl e \<Rightarrow> fails e
     | Inr m \<Rightarrow>
         if TerminalStatus (mp_Status m) then fs_rename Running (terminal_dir (mp_Status m)) n
         else andthen (writeMappingLocked E (m\<lparr>mp_Status := ''uncertain'', mp_LastKnownEvent := ''run.unknown'', mp_UpdatedAt := now\<rparr>))
           (fs_rename Running (if mp_RunID m \<noteq> [] \<and> mp_SessionID m \<noteq> [] then Pending else Failed) n))"

definition recoverJobs :: "'a spool_env_scheme \<Rightarrow> time \<Rightarrow> unit spool_m" where
  "recoverJobs E now = bind (fs_readdir (\<lambda>s. d_jobs s Running)) (\<lambda>es.
     for_each (map fst (filter (\<lambda>e. HasSuffix (fst e) ''.json'') es)) (recover_job E now))"

definition recoverFiles :: "odir \<Rightarrow> odir \<Rightarrow> unit spool_m" where
  "recoverFiles a b = bind (fs_readdir (\<lambda>s. d_outbox s a)) (\<lambda>es.
     for_each (map fst (filter (\<lambda>e. HasSuffix (fst e) ''.json'') es)) (fs_rename_out a b))"

definition dir_status :: "jdir \<Rightarrow> string" where
  "dir_status d = (case d of Pending \<Rightarrow> ''accepted'' | Running \<Rightarrow> ''running'' | Done \<Rightarrow> ''completed'' | Failed \<Rightarrow> ''failed'')"

definition rebuild_mapping :: "'a spool_env_scheme \<Rightarrow> jdir \<Rightarrow> string \<Rightarrow> unit spool_m" where
  "rebuild_mapping E d n = bind (fs_read (\<lambda>s. go_lookup (d_jobs s d) n)) (\<lambda>c. case c of
       None \<Rightarrow> ret ()
     | Some job \<Rightarrow>
         if jb_IdempotencyKey job = [] then ret ()
         else bind (attempt (fs_stat (\<lambda>s. go_lookup (d_mappings s) (job_file E (jb_ID job))))) (\<lambda>st.
           andthen (if st = Inl NotExist then writeMappingLocked E ((MappingFromJob E job (jb_CreatedAt job))\<lparr>mp_Status := dir_status d\<rparr>) else ret ())
             (bind (attempt (loadMappingLocked E (jb_ID job))) (\<lambda>r. case r of
                Inr m \<Rightarrow> if mappingHoldsContext m then modify (\<lambda>s. s\<lparr>m_inFlight := go_update (mapping_lane m) (jb_ID job) (m_inFlight s)\<rparr>) else ret ()
              | Inl _ \<Rightarrow> ret ()))))"

definition rebuildMappings :: "'a spool_env_scheme \<Rightarrow> unit spool_m" where
  "rebuildMappings E = for_each [Pending, Running, Done, Failed] (\<lambda>d. bind (fs_readdir (\<lambda>s. d_jobs s d)) (\<lambda>es.
     for_each (map fst (filter (\<lambda>e. HasSuffix (fst e) ''.json'') es)) (rebuild_mapping E d)))"

definition rebuild_index :: "'a spool_env_scheme \<Rightarrow> string \<Rightarrow> unit spool_m" where
  "rebuild_index E n = bind (fs_read (\<lambda>s. go_lookup (d_mappings s) n)) (\<lambda>c. case c of
       None \<Rightarrow> ret ()
     | Some m \<Rightarrow>
         if TrimSpace (mp_IdempotencyKey m) = [] then ret ()
         else bind (attempt (fs_stat (\<lambda>s. go_lookup (d_by_key s) (idempotencyIndexPath E (mp_IdempotencyKey m))))) (\<lambda>st. case st of
           Inr _ \<Rightarrow> ret () | Inl _ \<Rightarrow> writeIdempotencyIndexLocked E (mp_IdempotencyKey m) (mp_JobID m)))"

definition rebuildIdempotencyIndex :: "'a spool_env_scheme \<Rightarrow> unit spool_m" where
  "rebuildIdempotencyIndex E = bind (fs_readdir d_mappings) (\<lambda>es.
     for_each (map fst (filter (\<lambda>e. HasSuffix (fst e) ''.json'') es)) (rebuild_index E))"

fun read_receipts :: "(string \<times> event_file) list \<Rightarrow> streamReceipt list spool_m" where
  "read_receipts [] = ret []"
| "read_receipts (e # es) =
     (if \<not> HasSuffix (fst e) ''.json'' then read_receipts es
      else bind (fs_read (\<lambda>s. go_lookup (d_events s) (fst e))) (\<lambda>c. case c of
        Receipt r \<Rightarrow> if sr_JobID r = [] \<or> sr_Position r = 0 then fails (SpoolErr ''invalid stream receipt'')
          else bind (read_receipts es) (\<lambda>rs. ret (r # rs))
      | ForeignEvent \<Rightarrow> read_receipts es
      | BadEvent \<Rightarrow> fails (SpoolErr ''invalid stream receipt'')))"

definition replay_receipt :: "'a spool_env_scheme \<Rightarrow> time \<Rightarrow> streamReceipt \<Rightarrow> unit spool_m" where
  "replay_receipt E now r = bind (applyStreamReceiptLocked E now r) (\<lambda>stale.
     if stale then ret () else case sr_Delivery r of None \<Rightarrow> ret () | Some d \<Rightarrow> EnqueueDelivery E d)"

definition recoverStreamEvents :: "'a spool_env_scheme \<Rightarrow> time \<Rightarrow> unit spool_m" where
  "recoverStreamEvents E now = bind (fs_readdir d_events) (\<lambda>es. bind (read_receipts es) (\<lambda>rs.
     for_each (sort_key (\<lambda>r. (sr_JobID r, sr_Position r)) rs) (replay_receipt E now)))"

definition recover_spool :: "'a spool_env_scheme \<Rightarrow> time \<Rightarrow> unit spool_m" where
  "recover_spool E now =
     andthen (recoverJobs E now) (andthen (recoverFiles OutSending OutFailed) (andthen (rebuildMappings E)
       (andthen (rebuildIdempotencyIndex E) (andthen (recoverStreamEvents E now) (reconcileBudgetLocked E now)))))"

text \<open>\<^verbatim>\<open>openSpool\<close>: nothing of the old process's memory is left, and the ledger is read from disk.\<close>

definition openSpool :: "spoolLimits \<Rightarrow> unit spool_m" where
  "openSpool lim =
     andthen (modify (\<lambda>s. s\<lparr>m_secret := [], m_inFlight := [], m_active := None, m_budget := new_ledger, m_budgetBroken := False, m_limits := lim, m_holds := None\<rparr>))
       (bind (attempt loadBudget) (\<lambda>r. case r of
          Inl _ \<Rightarrow> modify (\<lambda>s. s\<lparr>m_budgetBroken := True\<rparr>)
        | Inr l \<Rightarrow> modify (\<lambda>s. s\<lparr>m_budget := l\<rparr>)))"

definition NewSpool :: "'a spool_env_scheme \<Rightarrow> spoolLimits \<Rightarrow> time \<Rightarrow> unit spool_m" where
  "NewSpool E lim now = andthen (openSpool lim) (recover_spool E now)"

section \<open>Observation of uncertain runs\<close>

fun observation_delay :: "nat \<Rightarrow> int \<Rightarrow> int" where
  "observation_delay 0 d = d"
| "observation_delay (Suc k) d = (if 2 * d \<ge> 30 * second then 30 * second else observation_delay k (2 * d))"

definition delayed :: "time \<Rightarrow> JobMapping \<Rightarrow> JobMapping" where
  "delayed now m =
     (let k = (if mp_ObservationAttempts m < 6 then mp_ObservationAttempts m + 1 else mp_ObservationAttempts m)
      in m\<lparr>mp_ObservationAttempts := k, mp_NextObservationAt := now + observation_delay (k - 1) (5 * second)\<rparr>)"

definition admitted :: "JobMapping \<Rightarrow> bool" where
  "admitted m \<longleftrightarrow> mp_RunID m \<noteq> [] \<and> mp_SessionID m \<noteq> [] \<and> mp_RuntimeGeneration m \<noteq> []"

definition requeue_one :: "'a spool_env_scheme \<Rightarrow> time \<Rightarrow> int \<Rightarrow> bool \<Rightarrow> string \<Rightarrow> unit spool_m" where
  "requeue_one E now budget unknown n = bind (attempt (fs_read (\<lambda>s. go_lookup (d_jobs s Failed) n))) (\<lambda>c. case c of
       Inr (Some job) \<Rightarrow>
         bind (attempt (loadMappingLocked E (jb_ID job))) (\<lambda>r. case r of
           Inl NotExist \<Rightarrow> ret ()
         | Inl e \<Rightarrow> fails e
         | Inr m \<Rightarrow>
             if mp_Status m \<noteq> ''uncertain'' \<or> now < mp_NextObservationAt m then ret ()
             else if \<not> admitted m \<and> \<not> unknown then ret ()
             else if mp_Fingerprint m \<noteq> JobFingerprint E job \<or> mp_JobID m \<noteq> jb_ID job \<or> n \<noteq> job_file E (jb_ID job)
               then fails (SpoolErr ''recovery job binding mismatch'')
             else bind (if \<not> now < mp_UncertainSince m + budget
                        then stat_out (job_file E (''job-'' @ jb_ID job @ ''-uncertain'')) [OutPending, OutSending, OutDone, OutFailed] else ret False) (\<lambda>noticed.
               if noticed then ret ()
               else andthen (writeMappingLocked E (delayed now m)) (fs_rename Failed Pending n)))
     | _ \<Rightarrow> fails (SpoolErr ''invalid recovery job''))"

definition RequeueObservations :: "'a spool_env_scheme \<Rightarrow> time \<Rightarrow> int \<Rightarrow> bool \<Rightarrow> unit spool_m" where
  "RequeueObservations E now budget unknown = bind (fs_readdir (\<lambda>s. d_jobs s Failed)) (\<lambda>es.
     for_each (map fst (filter (\<lambda>e. HasSuffix (fst e) ''.json'') es)) (requeue_one E now budget unknown))"

end
