(* ===== verification/Spool_Stream.thy ===== *)
theory Spool_Stream
  imports Spool_Recover
begin

text \<open>
  Live events of a run (\<^verbatim>\<open>RecordStreamEvent\<close> of \<^verbatim>\<open>internal/communication/stream.go\<close>): the checks of an event, the write-ahead receipt with
  the delivery it announces, the durable buttons of an approval (\<^verbatim>\<open>spool.go\<close>), and the single editable status message of a job. Attachments
  and spoken payloads, which the spool only carries, are left out.
\<close>

section \<open>Approval buttons\<close>

fun approvalButtonsLocked :: "'a spool_env_scheme \<Rightarrow> string \<Rightarrow> string \<Rightarrow> string list \<Rightarrow> (string \<times> string) list spool_m" where
  "approvalButtonsLocked E jid rid [] = ret []"
| "approvalButtonsLocked E jid rid (c # cs) =
     (let i = hex_encode (take 12 (hash256 E (jid @ nul @ rid @ nul @ c))) in
      andthen (fs_write (\<lambda>s. s\<lparr>d_callbacks := go_update (i @ ''.json'') (Some \<lparr>ac_JobID = jid, ac_RequestID = rid, ac_Choice = c\<rparr>) (d_callbacks s)\<rparr>))
        (bind (approvalButtonsLocked E jid rid cs) (\<lambda>bs. ret ((c, ''a:'' @ i) # bs))))"

definition callback_char :: "char \<Rightarrow> bool" where
  "callback_char c \<longleftrightarrow> is_digit c \<or> CHR ''a'' \<le> c \<and> c \<le> CHR ''f''"

definition ApprovalCallback :: "string \<Rightarrow> approvalCallback spool_m" where
  "ApprovalCallback data =
     (let i = TrimPrefix data ''a:'' in
      if i = data \<or> length i \<noteq> 24 \<or> \<not> list_all callback_char i then fails (SpoolErr ''unknown callback'')
      else bind (attempt (fs_read (\<lambda>s. go_lookup (d_callbacks s) (i @ ''.json'')))) (\<lambda>r. case r of
          Inr (Some a) \<Rightarrow> if ac_JobID a = [] \<or> ac_RequestID a = [] \<or> ac_Choice a = [] then fails (SpoolErr ''unknown callback'') else ret a
        | _ \<Rightarrow> fails (SpoolErr ''unknown callback'')))"

section \<open>The status message\<close>

text \<open>A still pending edit absorbs the newest text; later ones of an older position are dropped.\<close>

fun absorb_edits :: "Delivery \<Rightarrow> Delivery \<Rightarrow> bool \<Rightarrow> string list \<Rightarrow> unit spool_m" where
  "absorb_edits d sent first [] = ret ()"
| "absorb_edits d sent first (n # ns) =
     bind (attempt (fs_read (\<lambda>s. go_lookup (d_outbox s OutPending) n))) (\<lambda>r.
       andthen (case r of
           Inr (Some p) \<Rightarrow>
             if dl_StreamPosition p \<ge> dl_StreamPosition d then ret ()
             else if first
             then bind (attempt (fs_write (\<lambda>s. s\<lparr>d_outbox := (d_outbox s)(OutPending := go_update n
                 (Some (p\<lparr>dl_Text := dl_Text d, dl_EditMessageID := dl_TelegramMessageID sent, dl_StreamPosition := dl_StreamPosition d\<rparr>)) (d_outbox s OutPending))\<rparr>))) (\<lambda>_. ret ())
             else bind (attempt (fs_write (\<lambda>s. s\<lparr>d_outbox := (d_outbox s)(OutPending := go_delete n (d_outbox s OutPending))\<rparr>))) (\<lambda>_. ret ())
         | _ \<Rightarrow> ret ())
         (absorb_edits d sent False ns))"

text \<open>\<^verbatim>\<open>filepath.Glob\<close>: a directory that cannot be read matches nothing.\<close>

definition edit_names :: "'a spool_env_scheme \<Rightarrow> string \<Rightarrow> string list spool_m" where
  "edit_names E i = bind (attempt (fs_readdir (\<lambda>s. d_outbox s OutPending))) (\<lambda>r. case r of
     Inl _ \<Rightarrow> ret []
   | Inr es \<Rightarrow> (let p = FileID E i @ ''-edit-'' in ret (filter (\<lambda>n. HasPrefix n p \<and> HasSuffix n ''.json'' \<and> length n \<ge> length p + 5) (map fst es))))"

definition put_pending :: "'a spool_env_scheme \<Rightarrow> Delivery \<Rightarrow> unit spool_m" where
  "put_pending E d = fs_write (\<lambda>s. s\<lparr>d_outbox := (d_outbox s)(OutPending := go_update (job_file E (dl_ID d)) (Some d) (d_outbox s OutPending))\<rparr>)"

definition edit_status :: "'a spool_env_scheme \<Rightarrow> Delivery \<Rightarrow> Delivery \<Rightarrow> unit spool_m" where
  "edit_status E d sent = bind (edit_names E (dl_ID d)) (\<lambda>ns.
     if ns \<noteq> [] then absorb_edits d sent True ns
     else put_pending E (d\<lparr>dl_ID := dl_ID d @ ''-edit-'' @ nat_digits (dl_StreamPosition d), dl_EditMessageID := dl_TelegramMessageID sent\<rparr>))"

fun in_flight :: "string \<Rightarrow> odir list \<Rightarrow> bool spool_m" where
  "in_flight n [] = ret False"
| "in_flight n (d # ds) = bind (attempt (fs_stat (\<lambda>s. go_lookup (d_outbox s d) n))) (\<lambda>r. case r of Inr _ \<Rightarrow> ret True | Inl _ \<Rightarrow> in_flight n ds)"

definition upsert_unsent :: "'a spool_env_scheme \<Rightarrow> Delivery \<Rightarrow> unit spool_m" where
  "upsert_unsent E d = bind (in_flight (job_file E (dl_ID d)) [OutSending, OutFailed]) (\<lambda>flying.
     if flying then ret ()
     else bind (attempt (fs_read (\<lambda>s. go_lookup (d_outbox s OutDone) (job_file E (dl_ID d))))) (\<lambda>r. case r of
       Inl NotExist \<Rightarrow> put_pending E d
     | Inl e \<Rightarrow> fails e
     | Inr None \<Rightarrow> ret ()
     | Inr (Some sent) \<Rightarrow> if dl_StatusClosed sent \<or> dl_TelegramMessageID sent \<le> 0 then ret () else edit_status E d sent))"

definition UpsertStatusDelivery :: "'a spool_env_scheme \<Rightarrow> Delivery \<Rightarrow> unit spool_m" where
  "UpsertStatusDelivery E d0 = (case normalizeDelivery E d0 of
     None \<Rightarrow> fails (SpoolErr ''invalid delivery identity'')
   | Some d \<Rightarrow> bind (attempt (fs_read (\<lambda>s. go_lookup (d_outbox s OutPending) (job_file E (dl_ID d))))) (\<lambda>r. case r of
       Inr (Some p) \<Rightarrow> if dl_StatusClosed p then ret () else put_pending E d
     | Inr None \<Rightarrow> put_pending E d
     | Inl _ \<Rightarrow> upsert_unsent E d))"

definition CloseStatusDelivery :: "'a spool_env_scheme \<Rightarrow> string \<Rightarrow> (int \<times> int) spool_m" where
  "CloseStatusDelivery E jid =
     (let n = job_file E (''job-'' @ jid @ ''-status'') in
      bind (attempt (fs_read (\<lambda>s. go_lookup (d_outbox s OutDone) n))) (\<lambda>r. case r of
        Inr (Some sent) \<Rightarrow>
          if dl_StatusClosed sent then ret (0, 0)
          else bind (attempt (fs_write (\<lambda>s. s\<lparr>d_outbox := (d_outbox s)(OutDone := go_update n (Some (sent\<lparr>dl_StatusClosed := True\<rparr>)) (d_outbox s OutDone))\<rparr>))) (\<lambda>w.
            case w of Inl _ \<Rightarrow> ret (0, 0) | Inr _ \<Rightarrow> ret (dl_ChatID sent, dl_TelegramMessageID sent))
      | _ \<Rightarrow> ret (0, 0)))"

section \<open>Recording an event\<close>

definition projected_events :: "string list" where
  "projected_events = [''run.admitted'', ''run.started'', ''tool.start'', ''tool.end'', ''approval.request'', ''run.completed'', ''run.failed'', ''run.cancelled'',
     ''run.interrupted'', ''run.unknown'']"

definition progress_event :: "string \<Rightarrow> bool" where
  "progress_event ev \<longleftrightarrow> ev \<in> {''tool.start'', ''tool.end'', ''run.started''}"

definition event_refused :: "Job \<Rightarrow> ExecuteResponse \<Rightarrow> string option" where
  "event_refused job e =
     (if er_JobID e \<noteq> jb_ID job \<or> er_EventID e = [] \<or> length (er_EventID e) > 256 \<or> er_RuntimeGeneration e = [] \<or> er_RunID e = [] \<or> er_SessionID e = [] \<or>
         length (er_Text e) > 2 * 1024 * 1024 then Some ''invalid stream identity or output''
      else if er_LastEvent e \<notin> set projected_events then Some ''unsupported projected event''
      else if TerminalStatus (er_Status e) \<and> er_LastEvent e \<noteq> ''run.'' @ er_Status e then Some ''terminal projection mismatch''
      else if er_LastEvent e = ''approval.request'' \<and> (er_ApprovalID e = [] \<or> length (er_ApprovalID e) > 256) then Some ''invalid approval request identity''
      else None)"

text \<open>The event as it is stored: known choices of an approval only, and a text only for progress and the final answer.\<close>

definition event_projected :: "ExecuteResponse \<Rightarrow> ExecuteResponse" where
  "event_projected e =
     (let e1 = (if er_LastEvent e = ''approval.request''
                then e\<lparr>er_ApprovalChoices := filter (\<lambda>c. c \<in> {''once'', ''session'', ''always'', ''deny''}) (er_ApprovalChoices e)\<rparr> else e)
      in if er_Status e \<noteq> ''completed'' \<and> \<not> progress_event (er_LastEvent e) then e1\<lparr>er_Text := []\<rparr> else e1)"

definition stream_refused :: "Job \<Rightarrow> ExecuteResponse \<Rightarrow> JobMapping \<Rightarrow> string option" where
  "stream_refused job e m =
     (if \<not> ownsStreamMapping job m \<or> mp_RuntimeGeneration m \<noteq> [] \<and> mp_RuntimeGeneration m \<noteq> er_RuntimeGeneration e \<or>
         mp_RunID m \<noteq> [] \<and> mp_RunID m \<noteq> er_RunID e \<or> mp_SessionID m \<noteq> [] \<and> mp_SessionID m \<noteq> er_SessionID e then Some ''stream binding mismatch''
      else if TerminalStatus (mp_Status m) \<and> mp_Status m \<noteq> er_Status e then Some ''terminal run cannot return to active state''
      else if TerminalStatus (mp_Status m) \<and> mp_Result m \<noteq> [] \<and> er_Text e \<noteq> mp_Result m then Some ''terminal result cannot change''
      else None)"

definition failureMessage :: "'a spool_env_scheme \<Rightarrow> string \<Rightarrow> string \<Rightarrow> string \<Rightarrow> string" where
  "failureMessage E lang jid status =
     locale_T E lang (if status = ''cancelled'' then ''job.cancelled'' else if status = ''interrupted'' then ''job.interrupted'' else ''job.failed'') [jid]"

text \<open>The announcement of an event: its text, the identifier of the delivery, whether it is markdown and whether it is the status message.\<close>

definition terminal_text :: "'a spool_env_scheme \<Rightarrow> time \<Rightarrow> string \<Rightarrow> Job \<Rightarrow> ExecuteResponse \<Rightarrow> JobMapping \<Rightarrow> string" where
  "terminal_text E now lang job e m =
     (if er_Status e = ''cancelled'' \<and> mp_ApprovalID m \<noteq> [] \<and> mp_ApprovalDeadline m \<noteq> zero_time \<and> \<not> now < mp_ApprovalDeadline m
      then locale_T E lang (case mp_Control m of Some c \<Rightarrow> if pc_Choice c = ''deny'' then ''job.approval-denied'' else ''job.approval-expired''
                            | None \<Rightarrow> ''job.approval-expired'') [jb_ID job]
      else failureMessage E lang (jb_ID job) (er_Status e))"

fun join_with :: "string \<Rightarrow> string list \<Rightarrow> string" where
  "join_with sep [] = []"
| "join_with sep [p] = p"
| "join_with sep (p # q # ps) = p @ sep @ join_with sep (q # ps)"

definition approval_text :: "'a spool_env_scheme \<Rightarrow> string \<Rightarrow> Job \<Rightarrow> ExecuteResponse \<Rightarrow> time \<Rightarrow> string" where
  "approval_text E lang job e deadline =
     locale_T E lang ''job.approval-needed'' [] @ (if er_ApprovalSummary e \<noteq> [] then [CHR 0x0A] @ er_ApprovalSummary e else []) @
     [CHR 0x0A] @ locale_T E lang ''job.approval-window'' [format_clock UTC deadline @ '' UTC''] @
     [CHR 0x0A] @ locale_T E lang ''job.approval-hint'' [jb_ID job, er_ApprovalID e, join_with '', '' (er_ApprovalChoices e), jb_ID job]"

definition progress_text :: "'a spool_env_scheme \<Rightarrow> string \<Rightarrow> ExecuteResponse \<Rightarrow> JobMapping \<Rightarrow> string" where
  "progress_text E lang e m =
     (let t = TrimSpace (er_Text e); t1 = (if t = [] \<and> er_LastEvent e = ''run.started'' then locale_T E lang ''chat.working'' [] else t)
      in if t1 = TrimSpace (mp_Result m) then [] else t1)"

definition announcement :: "'a spool_env_scheme \<Rightarrow> time \<Rightarrow> string \<Rightarrow> Job \<Rightarrow> ExecuteResponse \<Rightarrow> JobMapping \<Rightarrow> time \<Rightarrow> string \<times> string \<times> bool \<times> bool" where
  "announcement E now h job e m deadline =
     (let lang = lang_of E (mp_PrincipalID m); i = ''job-'' @ jb_ID job @ ''-event-'' @ h
      in if er_Status e = ''completed'' then (er_Text e, ''job-'' @ jb_ID job @ ''-response'', True, False)
         else if TerminalStatus (er_Status e) then (terminal_text E now lang job e m, ''job-'' @ jb_ID job @ ''-error'', False, False)
         else if er_LastEvent e = ''approval.request'' then (approval_text E lang job e deadline, i, False, False)
         else if progress_event (er_LastEvent e)
         then let t = progress_text E lang e m
              in if t \<noteq> [] \<and> editable_status E (jb_Channel job) then (t, ''job-'' @ jb_ID job @ ''-status'', False, True) else (t, i, True, False)
         else ([], i, False, False))"

definition silenced :: "Job \<Rightarrow> ExecuteResponse \<Rightarrow> string \<Rightarrow> bool" where
  "silenced job e t \<longleftrightarrow> jb_AssignmentID job \<noteq> [] \<and> (TrimSpace t = ''NO_ACTIONABLE_EVENT'' \<or> progress_event (er_LastEvent e))"

definition event_delivery :: "time \<Rightarrow> Job \<Rightarrow> ExecuteResponse \<Rightarrow> nat \<Rightarrow> string \<Rightarrow> string \<Rightarrow> bool \<Rightarrow> (string \<times> string) list \<Rightarrow> Delivery" where
  "event_delivery now job e pos t i markdown bs =
     (let approval = (er_LastEvent e = ''approval.request'') in
      \<lparr>dl_ID = i, dl_OccurrenceID = [], dl_JobID = (if er_Status e \<noteq> ''completed'' then [] else jb_ID job), dl_ConversationID = ev_ConversationID (jb_Envelope job),
       dl_DeliveryTargetID = ev_DeliveryTargetID (jb_Envelope job), dl_Channel = jb_Channel job, dl_ChatID = jb_ChatID job, dl_TaskID = jb_TaskID job,
       dl_TopicID = jb_TopicID job, dl_SlackChannel = jb_SlackChannel job, dl_SlackThread = jb_SlackThread job, dl_Text = t,
       dl_Format = (if markdown then ''markdown'' else []), dl_NotBefore = zero_time, dl_Buttons = bs,
       dl_ApprovalJobID = (if approval then jb_ID job else []), dl_ApprovalID = (if approval then er_ApprovalID e else []),
       dl_ApprovalRunID = (if approval then er_RunID e else []), dl_ApprovalGeneration = (if approval then er_RuntimeGeneration e else []),
       dl_TelegramMessageID = 0, dl_EditMessageID = 0, dl_StreamPosition = pos, dl_StatusClosed = False, dl_Control = False, dl_CreatedAt = now\<rparr>)"

text \<open>A new event: the receipt is written ahead of the mapping and the outbox.\<close>

definition new_receipt :: "'a spool_env_scheme \<Rightarrow> time \<Rightarrow> string \<Rightarrow> Job \<Rightarrow> ExecuteResponse \<Rightarrow> JobMapping \<Rightarrow> streamReceipt spool_m" where
  "new_receipt E now h job e m =
     (let deadline = (if er_LastEvent e = ''approval.request'' then now + 2 * minute else zero_time); pos = mp_EventPosition m + 1 in
      case announcement E now h job e m deadline of (t, i, markdown, status) \<Rightarrow>
        bind (if t = [] \<or> silenced job e t then ret None
              else bind (if er_LastEvent e = ''approval.request'' then approvalButtonsLocked E (jb_ID job) (er_ApprovalID e) (er_ApprovalChoices e) else ret [])
                (\<lambda>bs. ret (Some (event_delivery now job e pos t i markdown bs))))
          (\<lambda>d. let r = \<lparr>sr_JobID = jb_ID job, sr_Position = pos, sr_Event = e, sr_Delivery = d, sr_ApprovalDeadline = deadline,
                         sr_StatusDelivery = (d \<noteq> None \<and> status)\<rparr>
                in andthen (fs_write (\<lambda>s. s\<lparr>d_events := go_update (h @ ''.json'') (Receipt r) (d_events s)\<rparr>)) (ret r)))"

definition event_receipt :: "'a spool_env_scheme \<Rightarrow> time \<Rightarrow> Job \<Rightarrow> ExecuteResponse \<Rightarrow> JobMapping \<Rightarrow> streamReceipt spool_m" where
  "event_receipt E now job e m =
     (let h = hex_encode (hash256 E (jb_ID job @ nul @ er_EventID e)) in
      bind (attempt (fs_read (\<lambda>s. go_lookup (d_events s) (h @ ''.json'')))) (\<lambda>r. case r of
        Inl NotExist \<Rightarrow> new_receipt E now h job e m
      | Inl err \<Rightarrow> fails err
      | Inr (Receipt old) \<Rightarrow>
          if sr_JobID old \<noteq> jb_ID job \<or> er_EventID (sr_Event old) \<noteq> er_EventID e then fails (SpoolErr ''invalid stream receipt'') else ret old
      | Inr _ \<Rightarrow> fails (SpoolErr ''invalid stream receipt'')))"

definition hand_over :: "'a spool_env_scheme \<Rightarrow> time \<Rightarrow> streamReceipt \<Rightarrow> unit spool_m" where
  "hand_over E now r = bind (applyStreamReceiptLocked E now r) (\<lambda>stale.
     if stale then fails (SpoolErr ''stale stream receipt'')
     else case sr_Delivery r of
       None \<Rightarrow> ret ()
     | Some d \<Rightarrow> if sr_StatusDelivery r then UpsertStatusDelivery E d else EnqueueDelivery E d)"

definition RecordStreamEvent :: "'a spool_env_scheme \<Rightarrow> time \<Rightarrow> Job \<Rightarrow> ExecuteResponse \<Rightarrow> unit spool_m" where
  "RecordStreamEvent E now job e0 =
     (if er_LastEvent e0 = ''run.heartbeat'' then if er_JobID e0 \<noteq> jb_ID job then fails (SpoolErr ''invalid stream identity or output'') else ret ()
      else case event_refused job e0 of
        Some err \<Rightarrow> fails (SpoolErr err)
      | None \<Rightarrow>
          let e = event_projected e0 in
          bind (loadMappingLocked E (jb_ID job)) (\<lambda>m. case stream_refused job e m of
            Some err \<Rightarrow> fails (SpoolErr err)
          | None \<Rightarrow> bind (event_receipt E now job e m) (hand_over E now)))"

end
