(* ===== verification/Spool_Usage.thy ===== *)
theory Spool_Usage
  imports Spool_Stream
begin

text \<open>
  The metering journal (\<^verbatim>\<open>internal/communication/usage_journal.go\<close>, and its compaction in \<^verbatim>\<open>spool.go\<close>): a file of lines to which every attempt of
  a job appends the growth of its session's token counters. The last line may be torn by a crash; it is repaired before a write.
\<close>

section \<open>Recording\<close>

record SessionUsage =
  su_DurationMS :: "int option"
  su_SessionID :: string
  su_SessionFound :: bool
  su_FetchedAt :: time
  su_Model :: string
  su_InputTokens :: "int option"
  su_OutputTokens :: "int option"

fun bad_line :: "'a spool_env_scheme \<Rightarrow> string list \<Rightarrow> string option" where
  "bad_line E [] = None"
| "bad_line E (l # ls) =
     (if length l + 1 > 64 * 1024 then Some ''usage record exceeds limit''
      else if l \<noteq> [] \<and> \<not> json_valid E l then Some ''usage journal contains a corrupt completed record''
      else bad_line E ls)"

definition put_usage :: "usage_file \<Rightarrow> unit spool_m" where
  "put_usage f = fs_write (\<lambda>s. s\<lparr>d_usage := Some f\<rparr>)"

text \<open>The quarantine of a torn tail is a file of its own, outside the state.\<close>

definition repair_tail :: "'a spool_env_scheme \<Rightarrow> usage_file \<Rightarrow> unit spool_m" where
  "repair_tail E f =
     (case bad_line E (uf_lines f) of
        Some e \<Rightarrow> fails (SpoolErr e)
      | None \<Rightarrow>
          if uf_tail f = [] then ret ()
          else if length (uf_tail f) > 64 * 1024 then fails (SpoolErr ''usage record exceeds limit'')
          else if json_valid E (uf_tail f) then put_usage \<lparr>uf_lines = uf_lines f @ [uf_tail f], uf_tail = []\<rparr>
          else andthen (fs_write (\<lambda>s. s)) (put_usage (f\<lparr>uf_tail := []\<rparr>)))"

definition repairUsageTailLocked :: "'a spool_env_scheme \<Rightarrow> unit spool_m" where
  "repairUsageTailLocked E = bind (attempt (fs_read d_usage)) (\<lambda>r. case r of
     Inl NotExist \<Rightarrow> ret () | Inl e \<Rightarrow> fails e | Inr f \<Rightarrow> repair_tail E f)"

text \<open>The growth of a counter since the previous record of the session; a counter that is unknown or fell gives no value.\<close>

definition usage_delta :: "SessionUsage \<Rightarrow> usageEntry option \<Rightarrow> int option \<Rightarrow> int option \<Rightarrow> int option" where
  "usage_delta report previous value base = (case value of
     None \<Rightarrow> None
   | Some v \<Rightarrow>
       if v < 0 \<or> \<not> su_SessionFound report \<or> su_SessionID report = [] then None
       else if previous = None then Some v
       else case base of None \<Rightarrow> None | Some l \<Rightarrow> if v < l then None else Some (wrap64 (v - l)))"

definition same_session :: "usageEntry \<Rightarrow> usageEntry \<Rightarrow> bool" where
  "same_session e e' \<longleftrightarrow> ue_Version e' = 2 \<and> ue_ScopeID e' = ue_ScopeID e \<and> ue_ContextID e' = ue_ContextID e \<and> ue_SessionID e' = ue_SessionID e"

definition plain_entry :: "time \<Rightarrow> Job \<Rightarrow> string \<Rightarrow> SessionUsage \<Rightarrow> usageEntry" where
  "plain_entry now job run report =
     \<lparr>ue_ActorID = jb_ActorID job, ue_InitialSnapshot = False, ue_DurationMS = su_DurationMS report, ue_Version = 2, ue_SessionID = su_SessionID report,
      ue_ContextID = ev_ContextID (jb_Envelope job), ue_Model = su_Model report,
      ue_MeasuredAt = (if su_FetchedAt report = zero_time then now else su_FetchedAt report), ue_InputCounter = su_InputTokens report,
      ue_OutputCounter = su_OutputTokens report, ue_ScopeID = jb_ScopeID job, ue_JobID = jb_ID job, ue_RunID = run, ue_InputTokens = None, ue_OutputTokens = None\<rparr>"

definition usage_entry :: "usageEntry list \<Rightarrow> SessionUsage \<Rightarrow> usageEntry \<Rightarrow> usageEntry" where
  "usage_entry es report e =
     (let previous = find (same_session e) (rev es)
      in e\<lparr>ue_InputTokens := usage_delta report previous (su_InputTokens report) (Option.bind previous ue_InputCounter),
           ue_OutputTokens := usage_delta report previous (su_OutputTokens report) (Option.bind previous ue_OutputCounter),
           ue_InitialSnapshot := (previous = None \<and> su_SessionFound report \<and> su_SessionID report \<noteq> [])\<rparr>)"

definition append_line :: "string \<Rightarrow> usage_file option \<Rightarrow> usage_file" where
  "append_line l fo = (case fo of
     None \<Rightarrow> \<lparr>uf_lines = [l], uf_tail = []\<rparr>
   | Some f \<Rightarrow> \<lparr>uf_lines = uf_lines f @ [uf_tail f @ l], uf_tail = []\<rparr>)"

definition recorded :: "usageEntry list \<Rightarrow> usageEntry \<Rightarrow> bool" where
  "recorded es e \<longleftrightarrow> list_ex (\<lambda>x. ue_JobID x = ue_JobID e \<and> ue_RunID x = ue_RunID e) es"

definition RecordUsage :: "'a spool_env_scheme \<Rightarrow> time \<Rightarrow> Job \<Rightarrow> string \<Rightarrow> SessionUsage \<Rightarrow> unit spool_m" where
  "RecordUsage E now job run report =
     (let e = plain_entry now job run report in
      andthen (repairUsageTailLocked E) (bind (usageEntriesLocked E) (\<lambda>es.
        if recorded es e then ret ()
        else fs_write (\<lambda>s. s\<lparr>d_usage := Some (append_line (usage_encode E (usage_entry es report e)) (d_usage s))\<rparr>))))"

section \<open>Totals\<close>

record UsageTotals =
  ut_InitialSnapshots :: int
  ut_UnknownJobs :: int
  ut_LegacyJobs :: int
  ut_Jobs :: int
  ut_InputTokens :: int
  ut_OutputTokens :: int

definition add_usage :: "UsageTotals \<Rightarrow> usageEntry \<Rightarrow> UsageTotals" where
  "add_usage t e =
     (let t1 = t\<lparr>ut_Jobs := ut_Jobs t + 1\<rparr>
      in if ue_Version e \<noteq> 2 then t1\<lparr>ut_LegacyJobs := ut_LegacyJobs t + 1\<rparr>
         else t1\<lparr>ut_UnknownJobs := ut_UnknownJobs t + (if ue_InputTokens e = None \<or> ue_OutputTokens e = None then 1 else 0),
                 ut_InitialSnapshots := ut_InitialSnapshots t + (if ue_InitialSnapshot e then 1 else 0),
                 ut_InputTokens := (case ue_InputTokens e of None \<Rightarrow> ut_InputTokens t | Some k \<Rightarrow> wrap64 (ut_InputTokens t + k)),
                 ut_OutputTokens := (case ue_OutputTokens e of None \<Rightarrow> ut_OutputTokens t | Some k \<Rightarrow> wrap64 (ut_OutputTokens t + k))\<rparr>)"

definition counts_in :: "string \<Rightarrow> time \<Rightarrow> string \<Rightarrow> usageEntry \<Rightarrow> bool" where
  "counts_in scope since model e \<longleftrightarrow> ue_ScopeID e = scope \<and>
     \<not> (since \<noteq> zero_time \<and> ue_MeasuredAt e \<noteq> zero_time \<and> ue_MeasuredAt e < since \<or> model \<noteq> [] \<and> ue_Model e \<noteq> model)"

definition UsageTotalsSince :: "'a spool_env_scheme \<Rightarrow> string \<Rightarrow> time \<Rightarrow> string \<Rightarrow> UsageTotals spool_m" where
  "UsageTotalsSince E scope since model = bind (usageEntriesLocked E) (\<lambda>es.
     ret (foldl add_usage \<lparr>ut_InitialSnapshots = 0, ut_UnknownJobs = 0, ut_LegacyJobs = 0, ut_Jobs = 0, ut_InputTokens = 0, ut_OutputTokens = 0\<rparr>
       (filter (counts_in scope since model) es)))"

section \<open>Compaction\<close>

definition usageJournalMaxEntries :: nat where
  "usageJournalMaxEntries = 65536"

definition session_key :: "usageEntry \<Rightarrow> string option" where
  "session_key e = (if ue_Version e = 2 \<and> ue_SessionID e \<noteq> [] then Some (ue_ScopeID e @ nul @ ue_ContextID e @ nul @ ue_SessionID e) else None)"

text \<open>An entry is a baseline if it is the last one with its key.\<close>

fun mark_baselines :: "usageEntry list \<Rightarrow> (usageEntry \<times> bool) list" where
  "mark_baselines [] = []"
| "mark_baselines (e # es) = (e, session_key e \<noteq> None \<and> \<not> list_ex (\<lambda>x. session_key x = session_key e) es) # mark_baselines es"

fun drop_plain :: "nat \<Rightarrow> (usageEntry \<times> bool) list \<Rightarrow> usageEntry list \<times> usageEntry list" where
  "drop_plain k [] = ([], [])"
| "drop_plain k ((e, b) # es) =
     (if k > 0 \<and> \<not> b then (case drop_plain (k - 1) es of (ks, xs) \<Rightarrow> (ks, e # xs))
      else (case drop_plain k es of (ks, xs) \<Rightarrow> (e # ks, xs)))"

text \<open>What stays and what leaves the journal.\<close>

definition split_usage :: "time \<Rightarrow> int \<Rightarrow> usageEntry list \<Rightarrow> usageEntry list \<times> usageEntry list" where
  "split_usage cutoff maxEntries es =
     (let aged = (\<lambda>p. ue_MeasuredAt (fst p) < cutoff \<and> \<not> snd p); ms = mark_baselines es; keep = filter (\<lambda>p. \<not> aged p) ms; old = map fst (filter aged ms);
          cap = (if maxEntries \<le> 0 then usageJournalMaxEntries else nat maxEntries)
      in if length keep > cap
         then (case drop_plain (length keep - cap) keep of (ks, xs) \<Rightarrow>
           (drop (length ks - cap) ks, old @ xs @ take (length ks - cap) ks))
         else (map fst keep, old))"

definition bundle_day :: "time \<Rightarrow> string" where
  "bundle_day now = filter (\<lambda>c. c \<noteq> CHR ''-'') (format_date UTC now)"

definition appendArchiveLocked :: "string \<Rightarrow> archived \<Rightarrow> unit spool_m" where
  "appendArchiveLocked name r = fs_write (\<lambda>s. s\<lparr>d_archive :=
     go_update name ((case go_lookup (d_archive s) name of None \<Rightarrow> [] | Some rs \<Rightarrow> rs) @ [r]) (d_archive s)\<rparr>)"

definition compactUsageLocked :: "'a spool_env_scheme \<Rightarrow> time \<Rightarrow> int \<Rightarrow> int \<Rightarrow> unit spool_m" where
  "compactUsageLocked E now retention maxEntries =
     andthen (repairUsageTailLocked E) (bind (usageEntriesLocked E) (\<lambda>es.
       case split_usage (now - retention) maxEntries es of (keep, evicted) \<Rightarrow>
         if evicted = [] then ret ()
         else andthen (appendArchiveLocked (''usage-'' @ bundle_day now @ ''.jsonl.gz'') (ArchivedUsage evicted))
           (put_usage \<lparr>uf_lines = map (usage_encode E) keep, uf_tail = []\<rparr>)))"

end
