(* ===== verification/Spool_Compact.thy ===== *)
theory Spool_Compact
  imports Spool_Usage
begin

text \<open>
  Compaction of the spool (\<^verbatim>\<open>Compact\<close> of \<^verbatim>\<open>internal/communication/spool.go\<close>): settled files older than the retention, or beyond the number a
  directory may hold, are appended to a bundle of the day and then removed; old bundles are purged. The modification times of files and the
  sizes of bundles are arguments. The compaction of routine occurrences works on directories of the routines engine and
  is represented by its success.
\<close>

record CompactLimits =
  cl_MaxTerminalFiles :: int
  cl_ArchiveMaxBytes :: int
  cl_MaxUsageEntries :: int

text \<open>A directory as \<^verbatim>\<open>compactDirLocked\<close> sees it: its name, its files, and how a file enters the archive and leaves the directory.\<close>

record 'c hot_dir =
  hd_name :: string
  hd_files :: "spool \<Rightarrow> (string \<times> 'c) list"
  hd_wrap :: "string \<Rightarrow> 'c \<Rightarrow> archived"
  hd_remove :: "string \<Rightarrow> spool \<Rightarrow> spool"

definition jobs_dir :: "string \<Rightarrow> jdir \<Rightarrow> Job option hot_dir" where
  "jobs_dir label d = \<lparr>hd_name = label, hd_files = (\<lambda>s. d_jobs s d), hd_wrap = ArchivedJob,
     hd_remove = (\<lambda>n s. s\<lparr>d_jobs := (d_jobs s)(d := go_delete n (d_jobs s d))\<rparr>)\<rparr>"

definition outbox_dir :: "string \<Rightarrow> odir \<Rightarrow> Delivery option hot_dir" where
  "outbox_dir label d = \<lparr>hd_name = label, hd_files = (\<lambda>s. d_outbox s d), hd_wrap = ArchivedDelivery,
     hd_remove = (\<lambda>n s. s\<lparr>d_outbox := (d_outbox s)(d := go_delete n (d_outbox s d))\<rparr>)\<rparr>"

definition events_dir :: "event_file hot_dir" where
  "events_dir = \<lparr>hd_name = ''events'', hd_files = d_events, hd_wrap = ArchivedEvent, hd_remove = (\<lambda>n s. s\<lparr>d_events := go_delete n (d_events s)\<rparr>)\<rparr>"

definition mappings_dir :: "JobMapping option hot_dir" where
  "mappings_dir = \<lparr>hd_name = ''mappings'', hd_files = d_mappings, hd_wrap = ArchivedMapping, hd_remove = (\<lambda>n s. s\<lparr>d_mappings := go_delete n (d_mappings s)\<rparr>)\<rparr>"

definition archiveTerminalLocked :: "'c hot_dir \<Rightarrow> time \<Rightarrow> string \<Rightarrow> unit spool_m" where
  "archiveTerminalLocked D now n = bind (fs_read (\<lambda>s. go_lookup (hd_files D s) n)) (\<lambda>c.
     andthen (appendArchiveLocked (map (\<lambda>x. if x = CHR ''/'' then CHR ''-'' else x) (hd_name D) @ ''-'' @ bundle_day now @ ''.jsonl.gz'') (hd_wrap D n c))
       (fs_write (hd_remove D n)))"

text \<open>The scan: aged files leave at once, the others are candidates for the bound on the number of files.\<close>

fun compact_scan :: "'c hot_dir \<Rightarrow> (string \<Rightarrow> bool) \<Rightarrow> (string \<Rightarrow> bool spool_m) \<Rightarrow> time \<Rightarrow> nat \<Rightarrow> string list \<Rightarrow> string list \<Rightarrow> (nat \<times> string list) spool_m" where
  "compact_scan D aged guard now seen rest [] = ret (seen, rest)"
| "compact_scan D aged guard now seen rest (n # ns) =
     (if \<not> HasSuffix n ''.json'' then compact_scan D aged guard now seen rest ns
      else bind (guard n) (\<lambda>ok.
        if \<not> ok then compact_scan D aged guard now seen rest ns
        else bind io_step (\<lambda>f.
          if f = Fine \<and> aged n then andthen (archiveTerminalLocked D now n) (compact_scan D aged guard now (Suc seen) rest ns)
          else bind io_step (\<lambda>g. if g \<noteq> Fine then fails IOError else compact_scan D aged guard now (Suc seen) (rest @ [n]) ns))))"

definition compactDirLocked :: "'c hot_dir \<Rightarrow> (string \<Rightarrow> string \<Rightarrow> time) \<Rightarrow> time \<Rightarrow> (string \<Rightarrow> bool spool_m) \<Rightarrow> int \<Rightarrow> time \<Rightarrow> unit spool_m" where
  "compactDirLocked D mtime cutoff guard maxFiles now = bind (fs_readdir (hd_files D)) (\<lambda>es.
     bind (compact_scan D (\<lambda>n. mtime (hd_name D) n < cutoff) guard now 0 [] (map fst es)) (\<lambda>(seen, rest).
       if maxFiles \<le> 0 \<or> int seen \<le> maxFiles \<or> rest = [] then ret ()
       else for_each (take (seen - nat maxFiles) (sort_key (mtime (hd_name D)) rest)) (archiveTerminalLocked D now)))"

section \<open>Guards\<close>

definition no_guard :: "string \<Rightarrow> bool spool_m" where
  "no_guard n = ret True"

definition failedTerminalLocked :: "'a spool_env_scheme \<Rightarrow> string \<Rightarrow> bool spool_m" where
  "failedTerminalLocked E n = bind (attempt (fs_read (\<lambda>s. go_lookup (d_jobs s Failed) n))) (\<lambda>r. case r of
     Inr (Some job) \<Rightarrow> bind (attempt (loadMappingLocked E (jb_ID job))) (\<lambda>l. case l of
         Inl NotExist \<Rightarrow> ret True | Inl _ \<Rightarrow> ret False | Inr m \<Rightarrow> ret (TerminalStatus (mp_Status m)))
   | _ \<Rightarrow> ret False)"

definition liveDeliveryIDsLocked :: "string list spool_m" where
  "liveDeliveryIDsLocked = bind (fs_readdir (\<lambda>s. d_outbox s OutPending)) (\<lambda>ps. bind (fs_readdir (\<lambda>s. d_outbox s OutSending)) (\<lambda>qs.
     ret (map (\<lambda>e. TrimSuffix (fst e) ''.json'') (ps @ qs))))"

definition receiptClosed :: "'a spool_env_scheme \<Rightarrow> string list \<Rightarrow> string \<Rightarrow> bool spool_m" where
  "receiptClosed E ids n = bind (attempt (fs_read (\<lambda>s. go_lookup (d_events s) n))) (\<lambda>r. case r of
     Inr (Receipt rc) \<Rightarrow> (case sr_Delivery rc of None \<Rightarrow> ret True | Some d \<Rightarrow> ret (FileID E (dl_ID d) \<notin> set ids))
   | _ \<Rightarrow> ret True)"

section \<open>Compaction\<close>

definition compact_mapping :: "'a spool_env_scheme \<Rightarrow> (string \<Rightarrow> string \<Rightarrow> time) \<Rightarrow> time \<Rightarrow> time \<Rightarrow> string \<Rightarrow> unit spool_m" where
  "compact_mapping E mtime cutoff now n = bind (fs_read (\<lambda>s. go_lookup (d_mappings s) n)) (\<lambda>c. case c of
       None \<Rightarrow> ret ()
     | Some m \<Rightarrow>
         if mp_JobID m = [] \<or> \<not> TerminalStatus (mp_Status m) \<or> mp_ApprovalState m = ''pending'' then ret ()
         else bind io_step (\<lambda>f.
           if \<not> (f = Fine \<and> mtime ''mappings'' n < cutoff) then ret ()
           else bind (job_live E (mp_JobID m)) (\<lambda>live.
             if live then ret ()
             else andthen (archiveTerminalLocked mappings_dir now n)
               (if TrimSpace (mp_IdempotencyKey m) \<noteq> []
                then bind (attempt (fs_write (\<lambda>s. s\<lparr>d_by_key := go_delete (idempotencyIndexPath E (mp_IdempotencyKey m)) (d_by_key s)\<rparr>))) (\<lambda>_. ret ())
                else ret ()))))"

definition compact_mappings :: "'a spool_env_scheme \<Rightarrow> (string \<Rightarrow> string \<Rightarrow> time) \<Rightarrow> time \<Rightarrow> time \<Rightarrow> unit spool_m" where
  "compact_mappings E mtime cutoff now = bind (fs_readdir d_mappings) (\<lambda>es.
     for_each (map fst (filter (\<lambda>e. HasSuffix (fst e) ''.json'') es)) (compact_mapping E mtime cutoff now))"

text \<open>Everything but the purge of old bundles.\<close>

definition compact_hot :: "'a spool_env_scheme \<Rightarrow> (string \<Rightarrow> string \<Rightarrow> time) \<Rightarrow> bool \<Rightarrow> time \<Rightarrow> int \<Rightarrow> CompactLimits \<Rightarrow> unit spool_m" where
  "compact_hot E mtime occurrences_ok now retention lim =
     (let cutoff = now - retention; k = cl_MaxTerminalFiles lim in
      andthen (compactDirLocked (jobs_dir ''done'' Done) mtime cutoff no_guard k now)
      (andthen (compactDirLocked (outbox_dir ''outbox/done'' OutDone) mtime cutoff no_guard k now)
      (andthen (compactDirLocked (outbox_dir ''outbox/failed'' OutFailed) mtime cutoff no_guard k now)
      (andthen (compactDirLocked (jobs_dir ''failed'' Failed) mtime cutoff (failedTerminalLocked E) k now)
      (bind liveDeliveryIDsLocked (\<lambda>live.
       andthen (compactDirLocked events_dir mtime cutoff (receiptClosed E live) k now)
      (andthen (compactUsageLocked E now retention (cl_MaxUsageEntries lim))
      (andthen (if occurrences_ok then ret () else fails IOError)
         (compact_mappings E mtime cutoff now)))))))))"

fun purge_loop :: "(string \<Rightarrow> time) \<Rightarrow> (string \<Rightarrow> int) \<Rightarrow> time \<Rightarrow> int \<Rightarrow> int \<Rightarrow> string list \<Rightarrow> unit spool_m" where
  "purge_loop mtm weight cutoff maxBytes bytes [] = ret ()"
| "purge_loop mtm weight cutoff maxBytes bytes (n # ns) =
     (if \<not> mtm n < cutoff \<and> \<not> (maxBytes > 0 \<and> bytes > maxBytes) then ret ()
      else andthen (fs_write (\<lambda>s. s\<lparr>d_archive := go_delete n (d_archive s)\<rparr>)) (purge_loop mtm weight cutoff maxBytes (bytes - weight n) ns))"

definition purgeArchivesLocked :: "(string \<Rightarrow> time) \<Rightarrow> (string \<Rightarrow> int) \<Rightarrow> time \<Rightarrow> int \<Rightarrow> int \<Rightarrow> unit spool_m" where
  "purgeArchivesLocked mtm weight now retention maxBytes = bind (fs_readdir d_archive) (\<lambda>es.
     let names = filter (\<lambda>n. HasSuffix n ''.jsonl.gz'') (map fst es) in
     andthen (for_each names (\<lambda>_. bind io_step (\<lambda>f. if f = Fine then ret () else fails IOError)))
       (purge_loop mtm weight (now - retention) maxBytes (sum_list (map weight names)) (sort_key mtm names)))"

definition Compact :: "'a spool_env_scheme \<Rightarrow> (string \<Rightarrow> string \<Rightarrow> time) \<Rightarrow> (string \<Rightarrow> int) \<Rightarrow> bool \<Rightarrow> time \<Rightarrow> int \<Rightarrow> CompactLimits \<Rightarrow> unit spool_m" where
  "Compact E mtime weight occurrences_ok now retention lim =
     andthen (compact_hot E mtime occurrences_ok now retention lim) (purgeArchivesLocked (mtime ''archive'') weight now retention (cl_ArchiveMaxBytes lim))"

end
