(* ===== verification/Spool_Logic.thy ===== *)
theory Spool_Logic
  imports Spool_Compact
begin

text \<open>
  Reasoning about operations of the spool. \<open>keeps R m\<close>: whatever the faults, the operation relates the state before to the state
  after by \<open>R\<close>; \<open>tri R P m Q\<close> adds a condition on the state before and one on the result and the state after. For a reflexive and transitive
  relation both compose along the sequence of an operation, which the locale \<open>step_logic\<close> proves once.
\<close>

definition keeps :: "(spool \<Rightarrow> spool \<Rightarrow> bool) \<Rightarrow> 'a spool_m \<Rightarrow> bool" where
  "keeps R m \<longleftrightarrow> (\<forall>s. R s (snd (m s)))"

definition tri :: "(spool \<Rightarrow> spool \<Rightarrow> bool) \<Rightarrow> (spool \<Rightarrow> bool) \<Rightarrow> 'a spool_m \<Rightarrow> (spool_err + 'a \<Rightarrow> spool \<Rightarrow> bool) \<Rightarrow> bool" where
  "tri R P m Q \<longleftrightarrow> (\<forall>s. P s \<longrightarrow> R s (snd (m s)) \<and> Q (fst (m s)) (snd (m s)))"

named_theorems kept \<open>operations that keep a relation\<close>

lemma keeps_if [kept]: "(b \<Longrightarrow> keeps R m) \<Longrightarrow> (\<not> b \<Longrightarrow> keeps R m') \<Longrightarrow> keeps R (if b then m else m')"
  by simp

lemma keeps_option [kept]:
  "(x = None \<Longrightarrow> keeps R m) \<Longrightarrow> (\<And>y. x = Some y \<Longrightarrow> keeps R (f y)) \<Longrightarrow> keeps R (case x of None \<Rightarrow> m | Some y \<Rightarrow> f y)"
  by (cases x) simp_all

lemma keeps_sum [kept]:
  "(\<And>e. x = Inl e \<Longrightarrow> keeps R (g e)) \<Longrightarrow> (\<And>y. x = Inr y \<Longrightarrow> keeps R (f y)) \<Longrightarrow> keeps R (case x of Inl e \<Rightarrow> g e | Inr y \<Rightarrow> f y)"
  by (cases x) simp_all

lemma keeps_err [kept]:
  "keeps R a \<Longrightarrow> keeps R b \<Longrightarrow> (\<And>m. keeps R (c m)) \<Longrightarrow> keeps R (case e of NotExist \<Rightarrow> a | IOError \<Rightarrow> b | SpoolErr m \<Rightarrow> c m)"
  by (cases e) simp_all

lemma keeps_prod [kept]: "(\<And>x y. p = (x, y) \<Longrightarrow> keeps R (f x y)) \<Longrightarrow> keeps R (case p of (x, y) \<Rightarrow> f x y)"
  by (cases p) simp

lemma keeps_Let [kept]: "keeps R (f t) \<Longrightarrow> keeps R (Let t f)"
  by simp

lemma keeps_event [kept]:
  "(\<And>r. keeps R (f r)) \<Longrightarrow> keeps R a \<Longrightarrow> keeps R b \<Longrightarrow> keeps R (case c of Receipt r \<Rightarrow> f r | ForeignEvent \<Rightarrow> a | BadEvent \<Rightarrow> b)"
  by (cases c) simp_all

lemma keeps_modify [kept]: "(\<And>s. R s (f s)) \<Longrightarrow> keeps R (modify f)"
  by (simp add: keeps_def modify_def)

lemma attempt_snd [simp]: "snd (attempt m s) = snd (m s)"
  by (simp add: attempt_def split: prod.split)

lemma attempt_fst [simp]: "fst (attempt m s) = Inr (fst (m s))"
  by (simp add: attempt_def split: prod.split)

lemma keeps_attempt [kept]: "keeps R m \<Longrightarrow> keeps R (attempt m)"
  by (simp add: keeps_def)

lemma bind_fst_snd:
  "fst (bind m f s) = (case fst (m s) of Inl e \<Rightarrow> Inl e | Inr x \<Rightarrow> fst (f x (snd (m s))))"
  "snd (bind m f s) = (case fst (m s) of Inl e \<Rightarrow> snd (m s) | Inr x \<Rightarrow> snd (f x (snd (m s))))"
  by (cases "m s"; cases "fst (m s)"; simp add: bind_def)+

lemma keepsD: "keeps R m \<Longrightarrow> R s (snd (m s))"
  by (simp add: keeps_def)

lemma keeps_mono: "keeps R m \<Longrightarrow> (\<And>s t. R s t \<Longrightarrow> R' s t) \<Longrightarrow> keeps R' m"
  by (simp add: keeps_def)

lemma triD: "tri R P m Q \<Longrightarrow> P s \<Longrightarrow> R s (snd (m s)) \<and> Q (fst (m s)) (snd (m s))"
  by (simp add: tri_def)

lemma keeps_tri: "keeps R m \<longleftrightarrow> tri R (\<lambda>_. True) m (\<lambda>_ _. True)"
  by (simp add: keeps_def tri_def)

lemma tri_conseq: "tri R P m Q \<Longrightarrow> (\<And>s. P' s \<Longrightarrow> P s) \<Longrightarrow> (\<And>r s. Q r s \<Longrightarrow> Q' r s) \<Longrightarrow> tri R P' m Q'"
  by (simp add: tri_def)

lemma tri_if: "(b \<Longrightarrow> tri R P m Q) \<Longrightarrow> (\<not> b \<Longrightarrow> tri R P m' Q) \<Longrightarrow> tri R P (if b then m else m') Q"
  by simp

lemma tri_attempt: "tri R P m (\<lambda>r. Q (Inr r)) \<Longrightarrow> tri R P (attempt m) Q"
  by (simp add: tri_def)

lemma tri_modify: "(\<And>s. P s \<Longrightarrow> R s (f s) \<and> Q (Inr ()) (f s)) \<Longrightarrow> tri R P (modify f) Q"
  by (simp add: tri_def modify_def)

text \<open>Only the list of faults moves.\<close>

definition only_io :: "spool \<Rightarrow> spool \<Rightarrow> bool" where
  "only_io s t \<longleftrightarrow> (\<exists>io. t = s\<lparr>sp_io := io\<rparr>)"

locale step_logic =
  fixes R :: "spool \<Rightarrow> spool \<Rightarrow> bool"
  assumes R_refl: "R s s"
    and R_trans: "R s t \<Longrightarrow> R t u \<Longrightarrow> R s u"
    and R_io: "R s (s\<lparr>sp_io := io\<rparr>)"
begin

lemma keeps_ret: "keeps R (ret x)"
  by (simp add: keeps_def ret_def R_refl)

lemma keeps_fails: "keeps R (fails e)"
  by (simp add: keeps_def fails_def R_refl)

lemma keeps_gets: "keeps R (gets f)"
  by (simp add: keeps_def gets_def R_refl)

lemma keeps_bind: "keeps R m \<Longrightarrow> (\<And>x. keeps R (f x)) \<Longrightarrow> keeps R (bind m f)"
  unfolding keeps_def by (auto simp: bind_fst_snd split: sum.split intro: R_trans)

lemma keeps_io_step: "keeps R io_step"
  by (auto simp: keeps_def io_step_def R_refl R_io split: list.split)

lemma keeps_for_each: "(\<And>x. x \<in> set xs \<Longrightarrow> keeps R (f x)) \<Longrightarrow> keeps R (for_each xs f)"
  by (induction xs) (auto intro!: keeps_bind keeps_ret)

lemma keeps_read: "keeps R (fs_read g)"
  unfolding fs_read_def by (intro kept keeps_bind keeps_io_step keeps_fails keeps_gets keeps_ret)

lemma keeps_stat: "keeps R (fs_stat g)"
  unfolding fs_stat_def by (intro keeps_bind keeps_read keeps_ret)

lemma keeps_readdir: "keeps R (fs_readdir g)"
  unfolding fs_readdir_def by (intro kept keeps_bind keeps_io_step keeps_fails keeps_gets)

lemma keeps_fault: "keeps R a \<Longrightarrow> keeps R b \<Longrightarrow> keeps R c \<Longrightarrow> keeps R (case f of Fine \<Rightarrow> a | Lost \<Rightarrow> b | Kept \<Rightarrow> c)"
  by (cases f) simp_all

lemma keeps_write: "(\<And>s. R s (upd s)) \<Longrightarrow> keeps R (fs_write upd)"
  unfolding fs_write_def by (intro keeps_bind keeps_io_step keeps_fault keeps_modify keeps_fails)

lemma keeps_load: "keeps R (loadMappingLocked E i)"
  unfolding loadMappingLocked_def by (intro kept keeps_bind keeps_read keeps_fails keeps_ret)

lemmas keeps_steps = keeps_ret keeps_fails keeps_gets keeps_bind keeps_io_step keeps_for_each keeps_read keeps_stat keeps_readdir keeps_load

lemma tri_bind:
  assumes "tri R P m Q1" "\<And>x. tri R (Q1 (Inr x)) (f x) Q" "\<And>e s. Q1 (Inl e) s \<Longrightarrow> Q (Inl e) s"
  shows "tri R P (bind m f) Q"
  unfolding tri_def
proof (intro allI impI)
  fix s assume "P s"
  with assms(1) have 1: "R s (snd (m s))" "Q1 (fst (m s)) (snd (m s))" by (simp_all add: tri_def)
  show "R s (snd (bind m f s)) \<and> Q (fst (bind m f s)) (snd (bind m f s))"
  proof (cases "fst (m s)")
    case (Inl e)
    with 1 assms(3) show ?thesis by (simp add: bind_fst_snd)
  next
    case (Inr x)
    with 1 assms(2) [of x] have "R (snd (m s)) (snd (f x (snd (m s))))" "Q (fst (f x (snd (m s)))) (snd (f x (snd (m s))))" by (simp_all add: tri_def)
    with 1(1) Inr show ?thesis by (auto simp: bind_fst_snd intro: R_trans)
  qed
qed

lemma tri_keeps: "keeps R m \<Longrightarrow> tri R P m (\<lambda>_ _. True)"
  by (simp add: keeps_def tri_def)

lemma tri_ret: "(\<And>s. P s \<Longrightarrow> Q (Inr x) s) \<Longrightarrow> tri R P (ret x) Q"
  by (simp add: tri_def ret_def R_refl)

lemma tri_fails: "(\<And>s. P s \<Longrightarrow> Q (Inl e) s) \<Longrightarrow> tri R P (fails e) Q"
  by (simp add: tri_def fails_def R_refl)

end

lemma io_step_only: "only_io s (snd (io_step s))"
proof (cases "sp_io s")
  case Nil
  have "s = s\<lparr>sp_io := sp_io s\<rparr>" by simp
  with Nil show ?thesis unfolding only_io_def io_step_def by (metis list.simps(4) snd_conv)
qed (auto simp: only_io_def io_step_def)

lemma io_step_Inr: "\<exists>f. fst (io_step s) = Inr f"
  by (auto simp: io_step_def split: list.split)

lemma only_io_refl: "only_io s s"
  unfolding only_io_def by (rule exI [of _ "sp_io s"]) simp

lemma only_io_trans: "only_io s t \<Longrightarrow> only_io t u \<Longrightarrow> only_io s u"
  unfolding only_io_def by fastforce

lemma only_io_io: "only_io s (s\<lparr>sp_io := io\<rparr>)"
  unfolding only_io_def by blast

interpretation quiet: step_logic only_io
  by unfold_locales (rule only_io_refl, erule (1) only_io_trans, rule only_io_io)

text \<open>What a read finds.\<close>

lemma fs_read_value: "fst (fs_read g s) = Inr v \<Longrightarrow> (\<And>io. g (s\<lparr>sp_io := io\<rparr>) = g s) \<Longrightarrow> g s = Some v"
  by (auto simp: fs_read_def bind_fst_snd gets_def ret_def fails_def io_step_def split: list.splits if_splits option.splits)

lemma fs_read_absent: "fst (fs_read g s) = Inl NotExist \<Longrightarrow> (\<And>io. g (s\<lparr>sp_io := io\<rparr>) = g s) \<Longrightarrow> g s = None"
  by (auto simp: fs_read_def bind_fst_snd gets_def ret_def fails_def io_step_def split: list.splits if_splits option.splits)

lemma load_value:
  assumes "fst (loadMappingLocked E i s) = Inr m"
  shows "go_lookup (d_mappings s) (job_file E i) = Some (Some m)" "mp_JobID m = i"
proof -
  let ?g = "\<lambda>s. go_lookup (d_mappings s) (job_file E i)"
  obtain c where c: "fst (fs_read ?g s) = Inr c" "c = Some m" "mp_JobID m = i"
    using assms by (auto simp: loadMappingLocked_def bind_fst_snd fails_def ret_def split: sum.splits option.splits if_splits)
  from fs_read_value [OF c(1)] c show "?g s = Some (Some m)" "mp_JobID m = i" by simp_all
qed

lemma load_absent: "fst (loadMappingLocked E i s) = Inl NotExist \<Longrightarrow> go_lookup (d_mappings s) (job_file E i) = None"
  using fs_read_absent [of "\<lambda>s. go_lookup (d_mappings s) (job_file E i)" s]
  by (auto simp: loadMappingLocked_def bind_fst_snd fails_def ret_def split: sum.splits option.splits if_splits)

lemma only_io_fields:
  assumes "only_io s t"
  shows "d_jobs t = d_jobs s" "d_mappings t = d_mappings s" "d_budget t = d_budget s" "m_budget t = m_budget s" "m_inFlight t = m_inFlight s"
    "d_outbox t = d_outbox s" "m_limits t = m_limits s" "m_secret t = m_secret s" "m_active t = m_active s" "d_by_key t = d_by_key s"
  using assms by (auto simp: only_io_def)

lemma load_quiet: "only_io s (snd (loadMappingLocked E i s))"
  using quiet.keeps_load by (rule keepsD)

end
