(* ===== verification/Spool_Life.thy ===== *)
theory Spool_Life
  imports Spool_Logic
begin

text \<open>
  The life of a job as its directory and its mapping show it. \<open>job_step\<close> is the specification: the moves between directories that are
  allowed, with what the mapping must say for the moves that make a claimed job claimable again, and what may change in a
  mapping. Every operation of the spool is a sequence of such steps for every job, under every list of faults.
\<close>

section \<open>The specification\<close>

text \<open>What never changes in a mapping: the binding to principal, context, conversation, audience and payload, a run or session identity
  once it is known, and the status and result once they are terminal.\<close>

definition same_job_binding :: "JobMapping \<Rightarrow> JobMapping \<Rightarrow> bool" where
  "same_job_binding m m' \<longleftrightarrow> mp_JobID m' = mp_JobID m \<and> mp_IdempotencyKey m' = mp_IdempotencyKey m \<and> mp_Fingerprint m' = mp_Fingerprint m \<and>
     mp_PrincipalID m' = mp_PrincipalID m \<and> mp_ContextID m' = mp_ContextID m \<and> mp_ConversationID m' = mp_ConversationID m \<and>
     mp_DeliveryTargetID m' = mp_DeliveryTargetID m \<and> mp_UserID m' = mp_UserID m \<and> mp_ScopeID m' = mp_ScopeID m"

definition evolves :: "JobMapping \<Rightarrow> JobMapping \<Rightarrow> bool" where
  "evolves m m' \<longleftrightarrow> same_job_binding m m' \<and>
     (mp_RunID m \<noteq> [] \<longrightarrow> mp_RunID m' = mp_RunID m) \<and> (mp_SessionID m \<noteq> [] \<longrightarrow> mp_SessionID m' = mp_SessionID m) \<and>
     (TerminalStatus (mp_Status m) \<longrightarrow> mp_Status m' = mp_Status m \<and> (mp_Result m \<noteq> [] \<longrightarrow> mp_Result m' = mp_Result m))"

definition has_run :: "JobMapping \<Rightarrow> bool" where
  "has_run m \<longleftrightarrow> mp_RunID m \<noteq> [] \<and> mp_SessionID m \<noteq> []"

definition shift :: "jdir \<Rightarrow> jdir \<Rightarrow> jdir set \<Rightarrow> jdir set" where
  "shift a b P = insert b (P - {a})"

text \<open>The flag says whether runs that were never admitted may be requeued (\<^verbatim>\<open>reconcileAdmissionUnknown\<close>).\<close>

inductive job_step :: "bool \<Rightarrow> jdir set \<times> JobMapping option option \<Rightarrow> jdir set \<times> JobMapping option option \<Rightarrow> bool" for U where
  forward: "a \<in> P \<Longrightarrow> (a, b) \<in> {(Pending, Running), (Running, Done), (Running, Failed)} \<Longrightarrow> job_step U (P, mf) (shift a b P, mf)"
| cancelled: "Pending \<in> P \<Longrightarrow> TerminalStatus (mp_Status m) \<Longrightarrow> job_step U (P, Some (Some m)) (shift Pending Failed P, Some (Some m))"
| unmapped: "Running \<in> P \<Longrightarrow> job_step U (P, None) (shift Running Pending P, None)"
| observe: "Running \<in> P \<Longrightarrow> has_run m \<Longrightarrow> job_step U (P, Some (Some m)) (shift Running Pending P, Some (Some m))"
| requeue: "Failed \<in> P \<Longrightarrow> mp_Status m = ''uncertain'' \<Longrightarrow> has_run m \<or> U \<Longrightarrow> job_step U (P, Some (Some m)) (shift Failed Pending P, Some (Some m))"
| update: "evolves m m' \<Longrightarrow> job_step U (P, Some (Some m)) (P, Some (Some m'))"
| mapped: "job_step U (P, None) (P, Some (Some m))"

inductive_cases job_stepE [elim]: "job_step U (P, mf) (P', mf')"

abbreviation job_steps :: "bool \<Rightarrow> jdir set \<times> JobMapping option option \<Rightarrow> jdir set \<times> JobMapping option option \<Rightarrow> bool" where
  "job_steps U \<equiv> (job_step U)\<^sup>*\<^sup>*"

section \<open>The relation on states\<close>

definition places :: "string \<Rightarrow> spool \<Rightarrow> jdir set" where
  "places n s = {d. go_lookup (d_jobs s d) n \<noteq> None}"

definition job_view :: "string \<Rightarrow> spool \<Rightarrow> jdir set \<times> JobMapping option option" where
  "job_view n s = (places n s, go_lookup (d_mappings s) n)"

text \<open>Files are named after the job they hold.\<close>

definition named :: "'a spool_env_scheme \<Rightarrow> spool \<Rightarrow> bool" where
  "named E s \<longleftrightarrow> (\<forall>d n c. go_lookup (d_jobs s d) n = Some c \<longrightarrow> (\<exists>i. n = job_file E i) \<and> (\<forall>j. c = Some j \<longrightarrow> n = job_file E (jb_ID j)))"

text \<open>Every job that is somewhere, except those of \<open>X\<close>, stays somewhere and moves by steps.\<close>

definition lives :: "'a spool_env_scheme \<Rightarrow> bool \<Rightarrow> string set \<Rightarrow> spool \<Rightarrow> spool \<Rightarrow> bool" where
  "lives E U X s t \<longleftrightarrow> (named E s \<longrightarrow> named E t \<and>
     (\<forall>n. n \<notin> X \<longrightarrow> places n s \<noteq> {} \<longrightarrow> places n t \<noteq> {} \<and> job_steps U (job_view n s) (job_view n t)))"

definition same_jobs :: "spool \<Rightarrow> spool \<Rightarrow> bool" where
  "same_jobs s t \<longleftrightarrow> d_jobs t = d_jobs s \<and> d_mappings t = d_mappings s"

lemma same_jobsI: "d_jobs t = d_jobs s \<Longrightarrow> d_mappings t = d_mappings s \<Longrightarrow> same_jobs s t"
  by (simp add: same_jobs_def)

lemma same_jobs_lives: "same_jobs s t \<Longrightarrow> lives E U X s t"
  by (simp add: same_jobs_def lives_def named_def places_def job_view_def)

lemma lives_trans: "lives E U X s t \<Longrightarrow> lives E U X t u \<Longrightarrow> lives E U X s u"
  unfolding lives_def by (meson rtranclp_trans)

interpretation frame: step_logic same_jobs
  by unfold_locales (simp_all add: same_jobs_def)

interpretation life: step_logic "lives E U X" for E :: "'a spool_env_scheme" and U X
proof (unfold_locales, goal_cases)
  case (1 s) show ?case by (rule same_jobs_lives) (simp add: same_jobs_def)
next
  case (2 s t u) then show ?case by (rule lives_trans)
next
  case (3 s io) show ?case by (rule same_jobs_lives) (simp add: same_jobs_def)
qed

lemma frame_life: "keeps same_jobs m \<Longrightarrow> keeps (lives E U X) m"
  by (erule keeps_mono) (rule same_jobs_lives)

section \<open>Operations that touch neither jobs nor mappings\<close>

lemmas [kept] = frame.keeps_steps

lemma frame_write [kept]: "(\<And>s. same_jobs s (upd s)) \<Longrightarrow> keeps same_jobs (fs_write upd)"
  by (rule frame.keeps_write)

lemma frame_bucket [kept]: "keeps same_jobs (bucketLocked now scope)"
  by (simp add: keeps_def bucketLocked_def Let_def same_jobs_def)

lemma frame_budget_steps [kept]:
  "keeps same_jobs (write_bucket scope b)" "keeps same_jobs (write_reservation i r)" "keeps same_jobs saveBudgetLocked"
  unfolding write_bucket_def write_reservation_def saveBudgetLocked_def by (intro kept; simp add: same_jobs_def)+

lemma frame_total_size [kept]: "keeps same_jobs (total_size E n es)"
  by (induction E n es rule: total_size.induct) (auto intro!: kept)

lemma frame_ceilings [kept]: "keeps same_jobs (checkCeilingsLocked E now scope est)"
  unfolding checkCeilingsLocked_def scope_full_def spool_full_def tokens_exhausted_def storage_full_def by (intro kept)

lemma frame_reserve [kept]: "keeps same_jobs (reserveLocked E now job)"
  unfolding reserveLocked_def by (intro kept)

lemma frame_settle [kept]: "keeps same_jobs (settleReservationLocked E now i)"
  unfolding settleReservationLocked_def usageEntriesLocked_def by (intro kept)

lemma frame_reconcile [kept]: "keeps same_jobs (reconcileBudgetLocked E now)"
proof -
  have one: "keeps same_jobs (reconcile_one E now i)" for i
    unfolding reconcile_one_def job_live_def by (intro kept)
  have "keeps same_jobs (reconcile_loop E now c is)" for c "is"
    by (induction "is" arbitrary: c) (auto intro!: kept one)
  then show ?thesis unfolding reconcileBudgetLocked_def by (intro kept)
qed

lemma frame_index [kept]: "keeps same_jobs (writeIdempotencyIndexLocked E key i)"
  unfolding writeIdempotencyIndexLocked_def by (intro kept) (simp add: same_jobs_def)

lemma frame_conversation [kept]: "keeps same_jobs (write_conversation E now m sid)"
  unfolding write_conversation_def by (intro kept) (simp add: same_jobs_def)

lemma frame_scan_key [kept]: "keeps same_jobs (scan_key E key es)"
  by (induction E key es rule: scan_key.induct) (auto intro!: kept)

lemma frame_find [kept]: "keeps same_jobs (findIdempotencyLocked E key)"
  unfolding findIdempotencyLocked_def by (intro kept)

lemma frame_bind_task [kept]: "keeps same_jobs (bind_task job)"
  unfolding bind_task_def loadTaskLocked_def by (intro kept)

lemma frame_stat_any [kept]: "keeps same_jobs (stat_any n ds)"
  by (induction n ds rule: stat_any.induct) (auto intro!: kept)

lemma frame_release [kept]: "keeps same_jobs (releaseInFlightLocked i)"
  unfolding releaseInFlightLocked_def by (intro kept) (simp add: same_jobs_def)

lemma frame_rename_out [kept]: "keeps same_jobs (fs_rename_out a b n)"
  unfolding fs_rename_out_def by (intro kept) (simp add: same_jobs_def Let_def)

lemma frame_stat_out [kept]: "keeps same_jobs (stat_out n ds)"
  by (induction n ds rule: stat_out.induct) (auto intro!: kept)

lemma frame_delivery [kept]: "keeps same_jobs (enqueueDeliveryLocked E d)"
proof -
  have "keeps same_jobs (count_ordinary k es)" for k es
    by (induction k es rule: count_ordinary.induct) (auto intro!: kept)
  then show ?thesis unfolding enqueueDeliveryLocked_def outbox_full_def by (intro kept) (simp_all add: same_jobs_def)
qed

lemma frame_EnqueueDelivery [kept]: "keeps same_jobs (EnqueueDelivery E d)"
  unfolding EnqueueDelivery_def by (intro kept)

lemma frame_claim_scan [kept]: "keeps same_jobs (claim_scan now c ns)"
  by (induction now c ns rule: claim_scan.induct) (auto intro!: kept)

lemma frame_outbox_ops [kept]:
  "keeps same_jobs (ClaimDelivery now)" "keeps same_jobs (CompleteDelivery E i)" "keeps same_jobs (UncertainDelivery E i)"
  "keeps same_jobs (RetryDelivery E i)" "keeps same_jobs (UpdateSending E d)" "keeps same_jobs (SaveOffset k)"
  "keeps same_jobs (recoverFiles a b)" "keeps same_jobs (rebuildIdempotencyIndex E)" "keeps same_jobs (openSpool lim)"
  unfolding ClaimDelivery_def CompleteDelivery_def UncertainDelivery_def RetryDelivery_def UpdateSending_def SaveOffset_def recoverFiles_def
    rebuildIdempotencyIndex_def rebuild_index_def openSpool_def loadBudget_def
  by (intro kept; simp add: same_jobs_def)+

lemma frame_active [kept]: "keeps same_jobs (activeMappingIDs E)" "keeps same_jobs (ActiveJobsForTask E pr tid)"
proof -
  have "keeps same_jobs (scan_active E ids es)" for ids es
    by (induction E ids es rule: scan_active.induct) (auto intro!: kept)
  then show a: "keeps same_jobs (activeMappingIDs E)" unfolding activeMappingIDs_def by (intro kept; simp add: same_jobs_def)
  have "keeps same_jobs (active_jobs E pr tid out is)" for out "is"
    by (induction E pr tid out "is" rule: active_jobs.induct) (auto intro!: kept)
  then show "keeps same_jobs (ActiveJobsForTask E pr tid)" unfolding ActiveJobsForTask_def by (intro kept a)
qed

lemma frame_loops [kept]:
  "keeps same_jobs (absorb_edits d sent b ns)" "keeps same_jobs (in_flight n ds)" "keeps same_jobs (approvalButtonsLocked E jid rid cs)"
proof -
  show "keeps same_jobs (absorb_edits d sent b ns)" by (induction d sent b ns rule: absorb_edits.induct) (auto intro!: kept same_jobsI)
  show "keeps same_jobs (in_flight n ds)" by (induction n ds rule: in_flight.induct) (auto intro!: kept)
  show "keeps same_jobs (approvalButtonsLocked E jid rid cs)"
    by (induction E jid rid cs rule: approvalButtonsLocked.induct) (auto intro!: kept same_jobsI simp: Let_def)
qed

lemma frame_status [kept]:
  "keeps same_jobs (UpsertStatusDelivery E d)" "keeps same_jobs (CloseStatusDelivery E jid)" "keeps same_jobs (ApprovalCallback data)"
  unfolding UpsertStatusDelivery_def upsert_unsent_def edit_status_def edit_names_def put_pending_def CloseStatusDelivery_def ApprovalCallback_def Let_def
  by (intro kept; simp add: same_jobs_def)+

lemma frame_receipt [kept]: "keeps same_jobs (event_receipt E now job e m)"
  unfolding event_receipt_def new_receipt_def Let_def by (intro kept) (simp add: same_jobs_def)

lemma frame_usage [kept]: "keeps same_jobs (RecordUsage E now job run report)" "keeps same_jobs (repairUsageTailLocked E)"
  unfolding RecordUsage_def repairUsageTailLocked_def repair_tail_def put_usage_def usageEntriesLocked_def Let_def by (intro kept; simp add: same_jobs_def)+

section \<open>Mappings evolve\<close>

definition stored :: "'a spool_env_scheme \<Rightarrow> JobMapping \<Rightarrow> spool \<Rightarrow> bool" where
  "stored E m s \<longleftrightarrow> go_lookup (d_mappings s) (job_file E (mp_JobID m)) = Some (Some m)"

definition unmapped_job :: "'a spool_env_scheme \<Rightarrow> string \<Rightarrow> spool \<Rightarrow> bool" where
  "unmapped_job E i s \<longleftrightarrow> go_lookup (d_mappings s) (job_file E i) = None"

lemma evolves_refl: "evolves m m"
  by (simp add: evolves_def same_job_binding_def)

lemma outcome_accepted:
  assumes "outcome_refused m r status = None"
  shows "TerminalStatus (mp_Status m) \<Longrightarrow> status = [] \<or> status = mp_Status m"
    "TerminalStatus (mp_Status m) \<Longrightarrow> mp_Result m \<noteq> [] \<Longrightarrow> ro_Text r = [] \<or> ro_Text r = mp_Result m"
    "mp_RunID m \<noteq> [] \<Longrightarrow> ro_RunID r = [] \<or> ro_RunID r = mp_RunID m"
    "mp_SessionID m \<noteq> [] \<Longrightarrow> ro_SessionID r = [] \<or> ro_SessionID r = mp_SessionID m"
  using assms unfolding outcome_refused_def by (force split: if_splits)+

lemma evolves_applied:
  assumes "outcome_refused m r status = None"
  shows "evolves m (outcome_applied now m r status terminal)"
proof -
  note a = outcome_accepted [OF assms]
  have "or_old status (mp_Status m) = mp_Status m" if "TerminalStatus (mp_Status m)" using a(1) [OF that] by (auto simp: or_old_def)
  moreover have "(if TrimSpace (ro_Text r) \<noteq> [] \<and> length (ro_Text r) \<le> 2 * 1024 * 1024 then ro_Text r else mp_Result m) = mp_Result m"
    if "TerminalStatus (mp_Status m)" "mp_Result m \<noteq> []" using a(2) [OF that] by (auto simp: TrimSpace_def)
  moreover have "or_old (ro_RunID r) (mp_RunID m) = mp_RunID m" if "mp_RunID m \<noteq> []" using a(3) [OF that] by (auto simp: or_old_def)
  moreover have "or_old (ro_SessionID r) (mp_SessionID m) = mp_SessionID m" if "mp_SessionID m \<noteq> []" using a(4) [OF that] by (auto simp: or_old_def)
  ultimately show ?thesis by (simp add: evolves_def same_job_binding_def outcome_applied_def del: mult_Suc)
qed

lemma only_io_same: "only_io s t \<Longrightarrow> same_jobs s t"
  by (auto simp: only_io_def same_jobs_def)

lemma stored_same: "stored E m s \<Longrightarrow> same_jobs s t \<Longrightarrow> stored E m t"
  by (simp add: same_jobs_def stored_def)

lemma stored_io: "stored E m s \<Longrightarrow> only_io s t \<Longrightarrow> stored E m t"
  by (auto intro: stored_same only_io_same)

lemma tri_same: "keeps same_jobs m \<Longrightarrow> (\<And>s t. P s \<Longrightarrow> same_jobs s t \<Longrightarrow> P t) \<Longrightarrow> tri (lives E U X) P m (\<lambda>_. P)"
  unfolding keeps_def tri_def using same_jobs_lives by blast

lemma tri_load:
  assumes "\<And>s t. P s \<Longrightarrow> only_io s t \<Longrightarrow> P t"
  shows "tri (lives E U X) P (loadMappingLocked E i)
    (\<lambda>r s. P s \<and> (\<forall>m. r = Inr m \<longrightarrow> stored E m s \<and> mp_JobID m = i) \<and> (r = Inl NotExist \<longrightarrow> unmapped_job E i s))"
  unfolding tri_def
proof (intro allI impI)
  fix s assume P: "P s"
  let ?t = "snd (loadMappingLocked E i s)"
  have q: "only_io s ?t" by (rule load_quiet)
  then have d: "d_mappings ?t = d_mappings s" by (rule only_io_fields)
  show "lives E U X s ?t \<and> P ?t \<and> (\<forall>m. fst (loadMappingLocked E i s) = Inr m \<longrightarrow> stored E m ?t \<and> mp_JobID m = i) \<and>
    (fst (loadMappingLocked E i s) = Inl NotExist \<longrightarrow> unmapped_job E i ?t)"
    using same_jobs_lives [OF only_io_same [OF q]] assms [OF P q] load_value [of E i s] load_absent [of E i s] d
    by (auto simp: stored_def unmapped_job_def)
qed

lemma lives_mapping:
  assumes "go_lookup (d_mappings s) (job_file E (mp_JobID m)) = None \<or>
    (\<exists>m0. go_lookup (d_mappings s) (job_file E (mp_JobID m)) = Some (Some m0) \<and> evolves m0 m) \<or> job_file E (mp_JobID m) \<in> X"
    and "d_jobs t = d_jobs s" "d_mappings t = go_update (job_file E (mp_JobID m)) (Some m) (d_mappings s)"
  shows "lives E U X s t"
  unfolding lives_def
proof (intro conjI allI impI)
  show "named E s \<Longrightarrow> named E t" by (simp add: named_def assms(2))
  fix n assume n: "n \<notin> X" "places n s \<noteq> {}"
  have p: "places n t = places n s" by (simp add: places_def assms(2))
  with n show "places n t \<noteq> {}" by simp
  show "job_steps U (job_view n s) (job_view n t)"
  proof (cases "n = job_file E (mp_JobID m)")
    case True
    then have "go_lookup (d_mappings t) n = Some (Some m)" by (simp add: assms(3) gomap_simps)
    then have "job_step U (job_view n s) (job_view n t)"
      using assms(1) n True unfolding job_view_def p by (elim disjE exE conjE) (simp_all add: job_step.intros)
    then show ?thesis by blast
  next
    case False
    then show ?thesis by (simp add: job_view_def p assms(3) gomap_simps)
  qed
qed

lemma tri_writeMapping:
  assumes "\<And>s. P s \<Longrightarrow> unmapped_job E (mp_JobID m) s \<or> (\<exists>m0. stored E m0 s \<and> evolves m0 m) \<or> job_file E (mp_JobID m) \<in> X"
    and "\<And>s t. P s \<Longrightarrow> only_io s t \<Longrightarrow> P t"
  shows "tri (lives E U X) P (writeMappingLocked E m) (\<lambda>r s. r = Inr () \<longrightarrow> stored E m s)"
proof -
  let ?upd = "\<lambda>s. s\<lparr>d_mappings := go_update (job_file E (mp_JobID m)) (Some m) (d_mappings s)\<rparr>"
  have up: "lives E U X s (?upd s)" if "P s" for s
  proof (rule lives_mapping)
    show "go_lookup (d_mappings s) (job_file E (mp_JobID m)) = None \<or>
      (\<exists>m0. go_lookup (d_mappings s) (job_file E (mp_JobID m)) = Some (Some m0) \<and> evolves m0 m) \<or> job_file E (mp_JobID m) \<in> X"
      using assms(1) [OF that] by (auto simp: unmapped_job_def stored_def evolves_def same_job_binding_def)
  qed simp_all
  have 1: "tri (lives E U X) P (fs_write ?upd) (\<lambda>r s. r = Inr () \<longrightarrow> stored E m s)"
    unfolding fs_write_def
  proof (rule life.tri_bind)
    show "tri (lives E U X) P io_step (\<lambda>_. P)"
      unfolding tri_def using io_step_only same_jobs_lives [OF only_io_same] assms(2) by blast
    fix f show "tri (lives E U X) P (case f of Fine \<Rightarrow> modify ?upd | Lost \<Rightarrow> fails IOError | Kept \<Rightarrow> andthen (modify ?upd) (fails IOError)) (\<lambda>r s. r = Inr () \<longrightarrow> stored E m s)"
      using up by (cases f) (auto simp: tri_def modify_def fails_def bind_def stored_def gomap_simps life.R_refl)
  qed simp
  have 2: "tri (lives E U X) (stored E m) (andthen (modify (mark_active m))
      (if TrimSpace (mp_IdempotencyKey m) \<noteq> [] then writeIdempotencyIndexLocked E (mp_IdempotencyKey m) (mp_JobID m) else ret ())) (\<lambda>_. stored E m)"
  proof (rule tri_same)
    show "keeps same_jobs (andthen (modify (mark_active m))
      (if TrimSpace (mp_IdempotencyKey m) \<noteq> [] then writeIdempotencyIndexLocked E (mp_IdempotencyKey m) (mp_JobID m) else ret ()))"
      by (intro kept) (simp add: same_jobs_def mark_active_def)
  qed (rule stored_same)
  show ?thesis
    unfolding writeMappingLocked_def
  proof (rule life.tri_bind [OF 1])
    show "tri (lives E U X) (\<lambda>s. Inr x = Inr () \<longrightarrow> stored E m s) (andthen (modify (mark_active m))
      (if TrimSpace (mp_IdempotencyKey m) \<noteq> [] then writeIdempotencyIndexLocked E (mp_IdempotencyKey m) (mp_JobID m) else ret ())) (\<lambda>r s. r = Inr () \<longrightarrow> stored E m s)" for x :: unit
      by (rule tri_conseq [OF 2]) simp_all
  qed simp
qed

lemma tri_fact: "(A \<Longrightarrow> tri R P m Q) \<Longrightarrow> tri R (\<lambda>s. P s \<and> A) m Q"
  by (auto simp: tri_def)

text \<open>An update of a mapping is a step, and on success the stored mapping has the requested status.\<close>

lemma tri_updateMapping:
  "tri (lives E U X) (\<lambda>_. True) (updateMappingLocked E now i r status terminal)
     (\<lambda>v s. v = Inr () \<longrightarrow> (\<exists>m. stored E m s \<and> mp_JobID m = i \<and> (status \<noteq> [] \<longrightarrow> mp_Status m = status)))"
  (is "tri _ _ _ ?Q")
  unfolding updateMappingLocked_def
proof (rule life.tri_bind)
  show "tri (lives E U X) (\<lambda>_. True) (loadMappingLocked E i) (\<lambda>v s. \<forall>m. v = Inr m \<longrightarrow> stored E m s \<and> mp_JobID m = i)"
    by (rule tri_conseq [OF tri_load]) auto
  fix m
  let ?m = "outcome_applied now m r status terminal"
  let ?fin = "andthen (if terminal then settleReservationLocked E now i else ret ()) (if \<not> mappingHoldsContext ?m then modify (free_lane ?m) else ret ())"
  let ?conv = "if ro_SessionID r \<noteq> [] then write_conversation E now m (ro_SessionID r) else ret ()"
  have id: "mp_JobID ?m = mp_JobID m" "status \<noteq> [] \<longrightarrow> mp_Status ?m = status" by (simp_all add: outcome_applied_def or_old_def)
  have last: "tri (lives E U X) (stored E ?m) ?fin ?Q" if "mp_JobID m = i"
  proof (rule tri_conseq [OF tri_same [where P = "stored E ?m"]])
    show "keeps same_jobs ?fin" by (intro kept) (simp add: same_jobs_def free_lane_def)
  qed (use id that stored_same in auto)
  have wr: "tri (lives E U X) (stored E m) (andthen (writeMappingLocked E ?m) ?fin) ?Q"
    if "outcome_refused m r status = None" "mp_JobID m = i"
  proof (rule life.tri_bind [OF tri_writeMapping])
    show "unmapped_job E (mp_JobID ?m) s \<or> (\<exists>m0. stored E m0 s \<and> evolves m0 ?m) \<or> job_file E (mp_JobID ?m) \<in> X" if "stored E m s" for s
      using that evolves_applied [OF \<open>outcome_refused m r status = None\<close>] by blast
    show "stored E m s \<Longrightarrow> only_io s t \<Longrightarrow> stored E m t" for s t by (rule stored_io)
    show "tri (lives E U X) (\<lambda>s. Inr x = Inr () \<longrightarrow> stored E ?m s) ?fin ?Q" for x :: unit
      by (rule tri_conseq [OF last]) (use that in auto)
  qed simp
  have "tri (lives E U X) (stored E m) (andthen ?conv (andthen (writeMappingLocked E ?m) ?fin)) ?Q"
    if "outcome_refused m r status = None" "mp_JobID m = i"
  proof (rule life.tri_bind [OF tri_same [where P = "stored E m"]])
    show "keeps same_jobs ?conv" by (intro kept)
  qed (use wr [OF that] stored_same in auto)
  then have body: "tri (lives E U X) (stored E m) (case outcome_refused m r status of Some e \<Rightarrow> fails (SpoolErr e) | None \<Rightarrow>
      Let ?m (\<lambda>m'. andthen ?conv (andthen (writeMappingLocked E m') (andthen (if terminal then settleReservationLocked E now i else ret ())
        (if \<not> mappingHoldsContext m' then modify (free_lane m') else ret ()))))) ?Q" if "mp_JobID m = i"
    using that by (cases "outcome_refused m r status") (auto intro: life.tri_fails simp: Let_def)
  show "tri (lives E U X) (\<lambda>s. \<forall>m'. Inr m = Inr m' \<longrightarrow> stored E m' s \<and> mp_JobID m' = i) (case outcome_refused m r status of Some e \<Rightarrow> fails (SpoolErr e) | None \<Rightarrow>
      Let ?m (\<lambda>m'. andthen ?conv (andthen (writeMappingLocked E m') (andthen (if terminal then settleReservationLocked E now i else ret ())
        (if \<not> mappingHoldsContext m' then modify (free_lane m') else ret ()))))) ?Q"
    by (rule tri_conseq [where P = "\<lambda>s. stored E m s \<and> mp_JobID m = i"], rule tri_fact, rule body) auto
qed simp

end
