(* ===== verification/Spool_Refine.thy ===== *)
theory Spool_Refine
  imports Spool_Life
begin

text \<open>
  Every operation of the spool moves every job by steps of \<open>job_step\<close>: admission, claim, completion, failure, control requests, stream events,
  the recovery of a new process and the requeueing of observations.
\<close>

section \<open>Moves\<close>

lemma named_tri: "tri (lives E U X) (named E) m Q \<Longrightarrow> keeps (lives E U X) m"
  by (auto simp: tri_def keeps_def lives_def)

lemma named_same: "named E s \<Longrightarrow> same_jobs s t \<Longrightarrow> named E t"
  by (simp add: named_def same_jobs_def)

lemma lives_rename:
  assumes "a \<noteq> b" "go_lookup (d_jobs s a) n = Some j" "n \<in> X \<or> job_steps U (job_view n s) (shift a b (places n s), go_lookup (d_mappings s) n)"
    and t: "d_mappings t = d_mappings s" "d_jobs t = (let m = (d_jobs s)(a := go_delete n (d_jobs s a)) in m(b := go_update n j (m b)))"
  shows "lives E U X s t"
proof -
  have look: "go_lookup (d_jobs t d) k = (if k = n then (if d = b then Some j else if d = a then None else go_lookup (d_jobs s d) k) else go_lookup (d_jobs s d) k)" for d k
    using assms(1) by (auto simp: t(2) Let_def gomap_simps)
  have pn: "places n t = shift a b (places n s)" using assms(1) by (auto simp: places_def look shift_def)
  have pk: "places k t = places k s" if "k \<noteq> n" for k using that by (simp add: places_def look)
  show ?thesis
    unfolding lives_def
  proof (intro conjI allI impI)
    show "named E t" if "named E s" using that assms(2) unfolding named_def look by (metis option.inject option.distinct(1))
    fix k assume k: "k \<notin> X" "places k s \<noteq> {}"
    show "places k t \<noteq> {}" using k pk pn by (cases "k = n") (auto simp: shift_def)
    show "job_steps U (job_view k s) (job_view k t)"
      using k assms(3) by (cases "k = n") (auto simp: job_view_def pn pk t(1))
  qed
qed

lemma tri_rename:
  assumes "a \<noteq> b" "\<And>s t. P s \<Longrightarrow> only_io s t \<Longrightarrow> P t"
    "\<And>s. P s \<Longrightarrow> a \<in> places n s \<Longrightarrow> n \<in> X \<or> job_steps U (job_view n s) (shift a b (places n s), go_lookup (d_mappings s) n)"
  shows "tri (lives E U X) P (fs_rename a b n) (\<lambda>_ _. True)"
  unfolding fs_rename_def
proof (rule life.tri_bind [where ?Q1.0 = "\<lambda>_. P"])
  show "tri (lives E U X) P io_step (\<lambda>_. P)"
    unfolding tri_def using io_step_only same_jobs_lives [OF only_io_same] assms(2) by blast
  fix f
  show "tri (lives E U X) P (if f \<noteq> Fine then fails IOError else bind (gets (\<lambda>s. go_lookup (d_jobs s a) n)) (\<lambda>x. case x of
       None \<Rightarrow> fails NotExist
     | Some j \<Rightarrow> modify (\<lambda>s. let m = (d_jobs s)(a := go_delete n (d_jobs s a)) in s\<lparr>d_jobs := m(b := go_update n j (m b))\<rparr>))) (\<lambda>_ _. True)"
    unfolding tri_def
  proof (intro allI impI conjI TrueI)
    fix s assume P: "P s"
    show "lives E U X s (snd ((if f \<noteq> Fine then fails IOError else bind (gets (\<lambda>s. go_lookup (d_jobs s a) n)) (\<lambda>x. case x of
       None \<Rightarrow> fails NotExist
     | Some j \<Rightarrow> modify (\<lambda>s. let m = (d_jobs s)(a := go_delete n (d_jobs s a)) in s\<lparr>d_jobs := m(b := go_update n j (m b))\<rparr>))) s))"
    proof (cases "f = Fine \<and> go_lookup (d_jobs s a) n \<noteq> None")
      case False
      then show ?thesis by (cases f) (simp_all add: fails_def bind_def gets_def life.R_refl)
    next
      case True
      then obtain j where j: "f = Fine" "go_lookup (d_jobs s a) n = Some j" by auto
      have "lives E U X s (let m = (d_jobs s)(a := go_delete n (d_jobs s a)) in s\<lparr>d_jobs := m(b := go_update n j (m b))\<rparr>)"
        by (rule lives_rename [OF assms(1) j(2) assms(3) [OF P]]) (simp_all add: places_def j Let_def)
      with j show ?thesis by (simp add: bind_def gets_def modify_def)
    qed
  qed
qed simp

lemma forward_view: "a \<in> places n s \<Longrightarrow> (a, b) \<in> {(Pending, Running), (Running, Done), (Running, Failed)} \<Longrightarrow>
  job_steps U (job_view n s) (shift a b (places n s), go_lookup (d_mappings s) n)"
  unfolding job_view_def by (rule r_into_rtranclp) (rule job_step.forward)

lemma keeps_forward [kept]:
  "keeps (lives E U X) (fs_rename Pending Running n)" "keeps (lives E U X) (fs_rename Running Done n)" "keeps (lives E U X) (fs_rename Running Failed n)"
  unfolding keeps_tri by (rule tri_rename; simp add: forward_view)+

lemma keeps_terminal_dir [kept]: "keeps (lives E U X) (fs_rename Running (terminal_dir st) n)"
  by (simp add: terminal_dir_def kept)

lemmas [kept] = life.keeps_steps

lemma keeps_updateMapping [kept]: "keeps (lives E U X) (updateMappingLocked E now i r status terminal)"
  unfolding keeps_tri by (rule tri_conseq [OF tri_updateMapping]) simp_all

lemma frame_life_modify [kept]: "(\<And>s. same_jobs s (f s)) \<Longrightarrow> keeps (lives E U X) (modify f)"
  by (rule keeps_modify) (rule same_jobs_lives)

lemma frame_life_write [kept]: "(\<And>s. same_jobs s (f s)) \<Longrightarrow> keeps (lives E U X) (fs_write f)"
  by (rule life.keeps_write) (rule same_jobs_lives)

lemma writeMapping_evolves:
  assumes "evolves m0 m"
  shows "tri (lives E U X) (stored E m0) (writeMappingLocked E m) (\<lambda>r s. r = Inr () \<longrightarrow> stored E m s)"
  by (rule tri_writeMapping) (use assms stored_io in blast)+

text \<open>Read a mapping, check it, write a later version of it.\<close>

lemma keeps_load_then:
  assumes "\<And>m. mp_JobID m = i \<Longrightarrow> tri (lives E U X) (stored E m) (f m) (\<lambda>_ _. True)"
  shows "keeps (lives E U X) (bind (loadMappingLocked E i) f)"
  unfolding keeps_tri
proof (rule life.tri_bind)
  show "tri (lives E U X) (\<lambda>_. True) (loadMappingLocked E i) (\<lambda>v s. \<forall>m. v = Inr m \<longrightarrow> stored E m s \<and> mp_JobID m = i)"
    by (rule tri_conseq [OF tri_load]) auto
  show "tri (lives E U X) (\<lambda>s. \<forall>m'. Inr m = Inr m' \<longrightarrow> stored E m' s \<and> mp_JobID m' = i) (f m) (\<lambda>_ _. True)" for m
    by (rule tri_conseq [where P = "\<lambda>s. stored E m s \<and> mp_JobID m = i"], rule tri_fact, erule assms) auto
qed simp

lemma tri_True: "keeps R m \<Longrightarrow> tri R P m (\<lambda>_ _. True)"
  by (simp add: keeps_def tri_def)

lemma tri_write_ret:
  "evolves m0 m \<Longrightarrow> tri (lives E U X) (stored E m0) (andthen (writeMappingLocked E m) (ret x)) (\<lambda>_ _. True)"
  by (rule life.tri_bind [OF writeMapping_evolves]) (simp_all add: tri_True kept)

section \<open>Control requests and stream events\<close>

lemma keeps_RequestCancel [kept]: "keeps (lives E U X) (RequestCancel E now i caller)"
  unfolding RequestCancel_def Let_def
  by (intro keeps_load_then tri_if life.tri_fails life.tri_ret TrueI tri_write_ret) (auto simp: evolves_def same_job_binding_def)

lemma keeps_RequestApproval [kept]: "keeps (lives E U X) (RequestApproval E now i caller rid choice)"
proof -
  have "tri (lives E U X) (stored E m) (writeMappingLocked E (m\<lparr>mp_Control := c\<rparr>)) (\<lambda>_ _. True)" for m c
    by (rule tri_conseq [OF writeMapping_evolves [of m]]) (simp_all add: evolves_def same_job_binding_def)
  then show ?thesis
    unfolding RequestApproval_def
    by (intro keeps_load_then tri_if life.tri_fails TrueI) (auto intro!: tri_if life.tri_fails life.tri_ret split: option.split)
qed

lemma keeps_Rebind [kept]: "keeps (lives E U X) (RebindObservation E j e)"
  unfolding RebindObservation_def
  by (intro keeps_load_then tri_if life.tri_fails TrueI tri_conseq [OF writeMapping_evolves]) (auto simp: evolves_def same_job_binding_def)

lemma evolves_marks: "evolves m (receipt_marks r m)"
  by (simp add: evolves_def same_job_binding_def receipt_marks_def Let_def split: option.split)

lemma keeps_applyReceipt [kept]: "keeps (lives E U X) (applyStreamReceiptLocked E now r)"
proof -
  define tail where "tail = bind (loadMappingLocked E (sr_JobID r)) (\<lambda>m'. andthen (writeMappingLocked E (receipt_marks r m')) (ret False))"
  have "keeps (lives E U X) tail" unfolding tail_def by (rule keeps_load_then) (rule tri_write_ret [OF evolves_marks])
  then show ?thesis unfolding applyStreamReceiptLocked_def tail_def [symmetric] by (intro kept)
qed

lemma keeps_RecordStreamEvent [kept]: "keeps (lives E U X) (RecordStreamEvent E now job e)"
proof -
  have "keeps (lives E U X) (UpsertStatusDelivery E d)" "keeps (lives E U X) (EnqueueDelivery E d)" for d
    by (intro frame_life frame_status frame_EnqueueDelivery)+
  then have "keeps (lives E U X) (hand_over E now r)" for r unfolding hand_over_def by (intro kept)
  moreover have "keeps (lives E U X) (event_receipt E now job e m)" for e m by (intro frame_life frame_receipt)
  ultimately show ?thesis unfolding RecordStreamEvent_def Let_def by (intro kept)
qed

lemma keeps_RecordOutcome [kept]: "keeps (lives E U X) (RecordOutcome E now i r)"
  unfolding RecordOutcome_def by (intro kept)

section \<open>Completion\<close>

lemma frame_life_release [kept]: "keeps (lives E U X) (releaseInFlightLocked i)"
  by (rule frame_life) (rule frame_release)

lemma keeps_CompleteJob [kept]: "keeps (lives E U X) (CompleteJob E now i)"
  unfolding CompleteJob_def by (intro kept)

lemma keeps_FailJob [kept]: "keeps (lives E U X) (FailJob E now i)"
  unfolding FailJob_def by (intro kept) (simp add: same_jobs_def)

section \<open>Claim\<close>

lemma keeps_claim_text [kept]: "keeps (lives E U X) (claim_text n j mo)"
  unfolding claim_text_def by (intro kept)

lemma keeps_take [kept]: "keeps (lives E U X) (take_candidate E now n j)"
  unfolding take_candidate_def start_claimed_def hold_lane_def mark_running_def by (intro kept; simp add: same_jobs_def)

lemma cancelled_view: "stored E m s \<Longrightarrow> TerminalStatus (mp_Status m) \<Longrightarrow> Pending \<in> places (job_file E (mp_JobID m)) s \<Longrightarrow>
  job_steps U (job_view (job_file E (mp_JobID m)) s) (shift Pending Failed (places (job_file E (mp_JobID m)) s), go_lookup (d_mappings s) (job_file E (mp_JobID m)))"
  unfolding job_view_def stored_def by (rule r_into_rtranclp) (simp add: job_step.cancelled)

lemma keeps_cancel_pending: "keeps (lives E U X) (cancel_pending E now (job_file E (jb_ID j)) j ev)"
  unfolding keeps_tri cancel_pending_def
proof (rule life.tri_bind [OF tri_updateMapping])
  show "tri (lives E U X) (\<lambda>s. Inr x = Inr () \<longrightarrow> (\<exists>m. stored E m s \<and> mp_JobID m = jb_ID j \<and> (''cancelled'' \<noteq> [] \<longrightarrow> mp_Status m = ''cancelled'')))
      (fs_rename Pending Failed (job_file E (jb_ID j))) (\<lambda>_ _. True)" for x :: unit
  proof (rule tri_conseq [OF tri_rename])
    fix s assume "\<exists>m. stored E m s \<and> mp_JobID m = jb_ID j \<and> mp_Status m = ''cancelled''" and p: "Pending \<in> places (job_file E (jb_ID j)) s"
    then obtain m where m: "stored E m s" "mp_JobID m = jb_ID j" "mp_Status m = ''cancelled''" by blast
    then have "TerminalStatus (mp_Status m)" by (simp add: TerminalStatus_def)
    from cancelled_view [OF m(1) this, of U] m(2) p
    show "job_file E (jb_ID j) \<in> X \<or> job_steps U (job_view (job_file E (jb_ID j)) s) (shift Pending Failed (places (job_file E (jb_ID j)) s), go_lookup (d_mappings s) (job_file E (jb_ID j)))"
      by simp
  qed (auto intro: stored_io)
qed simp

lemma keeps_claim_loop:
  "list_all (\<lambda>c. fst c = job_file E (jb_ID (snd c))) cs \<Longrightarrow> keeps (lives E U X) (claim_loop E now V cs)"
proof (induction cs)
  case (Cons c cs)
  then have "fst c = job_file E (jb_ID (snd c))" "keeps (lives E U X) (claim_loop E now V cs)" by simp_all
  then show ?case by (auto simp: Let_def intro!: kept keeps_cancel_pending)
qed (simp add: kept)

lemma tri_frame:
  assumes "keeps only_io m" "\<And>s. P s \<Longrightarrow> Q (fst (m s)) s" "\<And>r s t. Q r s \<Longrightarrow> only_io s t \<Longrightarrow> Q r t"
  shows "tri (lives E U X) P m Q"
  using assms unfolding keeps_def tri_def by (meson only_io_same same_jobs_lives)

lemma tri_read_candidates:
  "tri (lives E U X) (named E) (read_candidates es) (\<lambda>r s. named E s \<and> (\<forall>cs. r = Inr cs \<longrightarrow> list_all (\<lambda>c. fst c = job_file E (jb_ID (snd c))) cs))"
proof (induction es)
  case Nil
  show ?case by (simp add: life.tri_ret)
next
  case (Cons e es)
  let ?rd = "fs_read (\<lambda>s. go_lookup (d_jobs s Pending) (fst e))"
  let ?ok = "\<lambda>cs :: (string \<times> Job) list. list_all (\<lambda>c. fst c = job_file E (jb_ID (snd c))) cs"
  let ?Q = "\<lambda>r s. named E s \<and> (\<forall>cs. r = Inr cs \<longrightarrow> ?ok cs)"
  have rd: "tri (lives E U X) (named E) ?rd (\<lambda>r s. named E s \<and> (\<forall>j. r = Inr (Some j) \<longrightarrow> fst e = job_file E (jb_ID j)))"
  proof (rule tri_frame)
    show "keeps only_io ?rd" by (rule quiet.keeps_read)
    show "named E s \<and> (\<forall>j. fst (?rd s) = Inr (Some j) \<longrightarrow> fst e = job_file E (jb_ID j))" if "named E s" for s
      using that fs_read_value [of "\<lambda>s. go_lookup (d_jobs s Pending) (fst e)" s] by (auto simp: named_def)
  qed (auto intro: named_same only_io_same)
  have rest: "tri (lives E U X) (named E) (bind (read_candidates es) (\<lambda>cs. ret ((fst e, j) # cs))) ?Q" if "fst e = job_file E (jb_ID j)" for j
    by (rule life.tri_bind [OF Cons.IH]) (use that in \<open>auto intro!: life.tri_ret\<close>)
  have "tri (lives E U X) (\<lambda>s. named E s \<and> (\<forall>j. c = Some j \<longrightarrow> fst e = job_file E (jb_ID j)))
      (case c of None \<Rightarrow> fails (SpoolErr ''invalid job'') | Some j \<Rightarrow> bind (read_candidates es) (\<lambda>cs. ret ((fst e, j) # cs))) ?Q" for c
  proof (cases c)
    case None
    then show ?thesis by (auto intro!: life.tri_fails)
  next
    case (Some j)
    then show ?thesis by (auto intro!: tri_fact rest)
  qed
  then have "tri (lives E U X) (named E) (bind ?rd (\<lambda>c. case c of None \<Rightarrow> fails (SpoolErr ''invalid job'') | Some j \<Rightarrow> bind (read_candidates es) (\<lambda>cs. ret ((fst e, j) # cs)))) ?Q"
    by (intro life.tri_bind [OF rd]) auto
  with Cons.IH show ?case by (simp add: tri_if)
qed

lemma keeps_ClaimJob [kept]: "keeps (lives E U X) (ClaimJob E now V parked)"
proof (rule named_tri)
  have loop: "keeps (lives E U X) (claim_loop E now V (sort_key f cs))" if "list_all (\<lambda>c. fst c = job_file E (jb_ID (snd c))) cs" for f :: "_ \<Rightarrow> bool \<times> string \<times> bool \<times> string" and cs
    using that by (intro keeps_claim_loop) (simp add: list_all_iff)
  have cur: "keeps (lives E U X) (bind read_cursor (\<lambda>cursor. claim_loop E now V (sort_key (claim_rank now parked cursor) cs)))"
    if "list_all (\<lambda>c. fst c = job_file E (jb_ID (snd c))) cs" for cs
    unfolding read_cursor_def by (rule life.keeps_bind) (auto intro!: kept loop that)
  show "tri (lives E U X) (named E) (ClaimJob E now V parked) (\<lambda>_ _. True)"
    unfolding ClaimJob_def
  proof (rule life.tri_bind [where ?Q1.0 = "\<lambda>_. named E"], goal_cases)
    case 1
    show ?case by (rule tri_frame) (auto intro: quiet.keeps_readdir named_same only_io_same)
  next
    case (2 es)
    show ?case
    proof (rule life.tri_bind [OF tri_read_candidates], goal_cases)
      case (1 cs)
      then show ?case
        by (rule tri_conseq [where P = "\<lambda>s. True \<and> list_all (\<lambda>c. fst c = job_file E (jb_ID (snd c))) cs" and Q = "\<lambda>_ _. True"], intro tri_fact tri_True cur) auto
    qed simp
  qed simp
qed

section \<open>Recovery\<close>

lemma id_char_hex: "list_all id_char (hex_encode s)"
proof -
  have "id_char (hex_char k)" for k
  proof -
    have "hex_char k \<in> set ''0123456789abcdef''" unfolding hex_char_def by (rule nth_mem) simp
    moreover have "list_all id_char ''0123456789abcdef''" by (simp add: id_char_def is_digit_def is_lower_def in_range_def)
    ultimately show ?thesis unfolding list_all_iff by blast
  qed
  then show ?thesis by (induction s) (simp_all add: hex_encode_def hex_byte_def)
qed

text \<open>The stem of a file name is a clean identifier, so it names the same file.\<close>

lemma FileID_clean: "FileID E i \<noteq> [] \<and> list_all id_char (FileID E i)"
proof -
  have "list_all id_char ''id-''" by (simp add: id_char_def is_lower_def in_range_def)
  then show ?thesis by (simp add: FileID_def id_char_hex)
qed

lemma job_file_stem: "job_file E (TrimSuffix (job_file E i) ''.json'') = job_file E i"
proof -
  have "HasSuffix (job_file E i) ''.json''" by (auto simp: job_file_def HasSuffix_iff)
  then have "TrimSuffix (job_file E i) ''.json'' = FileID E i" by (simp add: TrimSuffix_def job_file_def)
  moreover have "FileID E (FileID E i) = FileID E i" using FileID_clean [of E i] by (simp add: FileID_def [of E "FileID E i"])
  ultimately show ?thesis by (simp add: job_file_def)
qed

lemma observe_view:
  "stored E m s \<Longrightarrow> has_run m \<Longrightarrow> Running \<in> places (job_file E (mp_JobID m)) s \<Longrightarrow>
    job_steps U (job_view (job_file E (mp_JobID m)) s) (shift Running Pending (places (job_file E (mp_JobID m)) s), go_lookup (d_mappings s) (job_file E (mp_JobID m)))"
  unfolding job_view_def stored_def by (rule r_into_rtranclp) (simp add: job_step.observe)

lemma keeps_recover_job:
  assumes "n = job_file E i"
  shows "keeps (lives E U X) (recover_job E now n)"
  unfolding keeps_tri recover_job_def
proof (rule life.tri_bind)
  let ?i = "TrimSuffix n ''.json''"
  have n: "job_file E ?i = n" using job_file_stem assms by simp
  show "tri (lives E U X) (\<lambda>_. True) (attempt (loadMappingLocked E ?i))
    (\<lambda>r s. \<forall>v. r = Inr v \<longrightarrow> (\<forall>m. v = Inr m \<longrightarrow> stored E m s \<and> mp_JobID m = ?i) \<and> (v = Inl NotExist \<longrightarrow> unmapped_job E ?i s))"
    by (rule tri_attempt) (rule tri_conseq [OF tri_load], auto)
  fix v
  let ?k = "case v of Inl NotExist \<Rightarrow> fs_rename Running Pending n | Inl e \<Rightarrow> fails e
     | Inr m \<Rightarrow>
         if TerminalStatus (mp_Status m) then fs_rename Running (terminal_dir (mp_Status m)) n
         else andthen (writeMappingLocked E (m\<lparr>mp_Status := ''uncertain'', mp_LastKnownEvent := ''run.unknown'', mp_UpdatedAt := now\<rparr>))
           (fs_rename Running (if mp_RunID m \<noteq> [] \<and> mp_SessionID m \<noteq> [] then Pending else Failed) n)"
  have absent: "tri (lives E U X) (unmapped_job E ?i) (fs_rename Running Pending n) (\<lambda>_ _. True)"
  proof (rule tri_rename)
    fix s assume "unmapped_job E ?i s" "Running \<in> places n s"
    then have "job_step U (job_view n s) (shift Running Pending (places n s), go_lookup (d_mappings s) n)"
      by (simp add: unmapped_job_def n job_view_def job_step.unmapped)
    then show "n \<in> X \<or> job_steps U (job_view n s) (shift Running Pending (places n s), go_lookup (d_mappings s) n)" by blast
  qed (auto simp: unmapped_job_def dest: only_io_fields(2))
  have found: "tri (lives E U X) (stored E m) (if TerminalStatus (mp_Status m) then fs_rename Running (terminal_dir (mp_Status m)) n
         else andthen (writeMappingLocked E (m\<lparr>mp_Status := ''uncertain'', mp_LastKnownEvent := ''run.unknown'', mp_UpdatedAt := now\<rparr>))
           (fs_rename Running (if mp_RunID m \<noteq> [] \<and> mp_SessionID m \<noteq> [] then Pending else Failed) n)) (\<lambda>_ _. True)" if id: "mp_JobID m = ?i" for m
  proof (rule tri_if)
    show "tri (lives E U X) (stored E m) (fs_rename Running (terminal_dir (mp_Status m)) n) (\<lambda>_ _. True)" by (intro tri_True kept)
    assume nt: "\<not> TerminalStatus (mp_Status m)"
    let ?m = "m\<lparr>mp_Status := ''uncertain'', mp_LastKnownEvent := ''run.unknown'', mp_UpdatedAt := now\<rparr>"
    have "evolves m ?m" using nt by (simp add: evolves_def same_job_binding_def)
    from writeMapping_evolves [OF this]
    show "tri (lives E U X) (stored E m) (andthen (writeMappingLocked E ?m) (fs_rename Running (if mp_RunID m \<noteq> [] \<and> mp_SessionID m \<noteq> [] then Pending else Failed) n)) (\<lambda>_ _. True)"
    proof (rule life.tri_bind, goal_cases)
      case (1 x)
      have p: "tri (lives E U X) (stored E ?m) (fs_rename Running Pending n) (\<lambda>_ _. True)" if "has_run m"
      proof (rule tri_rename)
        fix s assume "stored E ?m s" "Running \<in> places n s"
        with observe_view [of E ?m s U] that n id show "n \<in> X \<or> job_steps U (job_view n s) (shift Running Pending (places n s), go_lookup (d_mappings s) n)"
          by (simp add: has_run_def)
      qed (auto intro: stored_io)
      have f: "tri (lives E U X) (stored E ?m) (fs_rename Running Failed n) (\<lambda>_ _. True)" by (intro tri_True kept)
      show ?case
      proof (cases "has_run m")
        case True
        then have eq: "(if mp_RunID m \<noteq> [] \<and> mp_SessionID m \<noteq> [] then Pending else Failed) = Pending" by (simp add: has_run_def)
        show ?thesis unfolding eq by (rule tri_conseq [OF p [OF True]]) simp_all
      next
        case False
        then have eq: "(if mp_RunID m \<noteq> [] \<and> mp_SessionID m \<noteq> [] then Pending else Failed) = Failed" by (simp add: has_run_def)
        show ?thesis unfolding eq by (rule tri_conseq [OF f]) simp_all
      qed
    qed simp
  qed
  show "tri (lives E U X) (\<lambda>s. \<forall>w. Inr v = Inr w \<longrightarrow> (\<forall>m. w = Inr m \<longrightarrow> stored E m s \<and> mp_JobID m = ?i) \<and> (w = Inl NotExist \<longrightarrow> unmapped_job E ?i s)) ?k (\<lambda>_ _. True)"
  proof (cases v)
    case (Inr m)
    have "tri (lives E U X) (\<lambda>s. stored E m s \<and> mp_JobID m = ?i) ?k (\<lambda>_ _. True)" unfolding Inr sum.case by (rule tri_fact) (rule found)
    then show ?thesis by (rule tri_conseq) (simp_all add: Inr)
  next
    case (Inl e)
    show ?thesis
    proof (cases e)
      case NotExist
      have "tri (lives E U X) (unmapped_job E ?i) ?k (\<lambda>_ _. True)" unfolding Inl NotExist sum.case spool_err.case by (rule absent)
      then show ?thesis by (rule tri_conseq) (simp_all add: Inl NotExist)
    qed (use Inl in \<open>simp_all add: tri_True kept\<close>)
  qed
qed simp

lemma keeps_recoverJobs [kept]: "keeps (lives E U X) (recoverJobs E now)"
proof (rule named_tri)
  have each: "keeps (lives E U X) (for_each (map fst (filter (\<lambda>e. HasSuffix (fst e) ''.json'') es)) (recover_job E now))"
    if "\<forall>n \<in> set (map fst es). \<exists>i. n = job_file E i" for es :: "(string \<times> Job option) list"
    using that by (intro life.keeps_for_each) (auto intro: keeps_recover_job)
  show "tri (lives E U X) (named E) (recoverJobs E now) (\<lambda>_ _. True)"
    unfolding recoverJobs_def
  proof (rule life.tri_bind)
    show "tri (lives E U X) (named E) (fs_readdir (\<lambda>s. d_jobs s Running)) (\<lambda>r _. \<forall>es. r = Inr es \<longrightarrow> (\<forall>n \<in> set (map fst es). \<exists>i. n = job_file E i))"
    proof (rule tri_frame [OF quiet.keeps_readdir])
      fix s assume nm: "named E s"
      have "\<exists>i. n = job_file E i" if "(n, c) \<in> set (d_jobs s Running)" for n c
      proof -
        from that obtain c' where "go_lookup (d_jobs s Running) n = Some c'" by (metis map_of_eq_None_iff not_Some_eq image_eqI fst_conv)
        with nm show ?thesis unfolding named_def by blast
      qed
      then show "\<forall>es. fst (fs_readdir (\<lambda>s. d_jobs s Running) s) = Inr es \<longrightarrow> (\<forall>n \<in> set (map fst es). \<exists>i. n = job_file E i)"
        by (auto simp: fs_readdir_def bind_fst_snd gets_def fails_def io_step_def split: list.splits if_splits)
    qed
    show "tri (lives E U X) (\<lambda>_. \<forall>es'. Inr es = Inr es' \<longrightarrow> (\<forall>n \<in> set (map fst es'). \<exists>i. n = job_file E i))
        (for_each (map fst (filter (\<lambda>e. HasSuffix (fst e) ''.json'') es)) (recover_job E now)) (\<lambda>_ _. True)" for es :: "(string \<times> Job option) list"
      using each [of es] by (auto simp: tri_def keeps_def)
  qed simp
qed

lemma keeps_rebuild_mapping [kept]: "keeps (lives E U X) (rebuild_mapping E d n)"
proof -
  define mp where "mp job = (MappingFromJob E job (jb_CreatedAt job))\<lparr>mp_Status := dir_status d\<rparr>" for job
  have id: "mp_JobID (mp job) = jb_ID job" for job by (simp add: mp_def MappingFromJob_def)
  define put where "put job = bind (attempt (fs_stat (\<lambda>s. go_lookup (d_mappings s) (job_file E (jb_ID job))))) (\<lambda>st.
      andthen (if st = Inl NotExist then writeMappingLocked E (mp job) else ret ())
             (bind (attempt (loadMappingLocked E (jb_ID job))) (\<lambda>r. case r of
                Inr m \<Rightarrow> if mappingHoldsContext m then modify (\<lambda>s. s\<lparr>m_inFlight := go_update (mapping_lane m) (jb_ID job) (m_inFlight s)\<rparr>) else ret ()
              | Inl _ \<Rightarrow> ret ())))" for job
  have "keeps (lives E U X) (put job)" for job
    unfolding keeps_tri put_def
  proof (rule life.tri_bind)
    let ?g = "\<lambda>s. go_lookup (d_mappings s) (job_file E (jb_ID job))"
    show "tri (lives E U X) (\<lambda>_. True) (attempt (fs_stat ?g)) (\<lambda>r s. r = Inr (Inl NotExist) \<longrightarrow> unmapped_job E (jb_ID job) s)"
    proof (rule tri_attempt, rule tri_frame [OF quiet.keeps_stat])
      show "Inr (fst (fs_stat ?g s)) = Inr (Inl NotExist) \<longrightarrow> unmapped_job E (jb_ID job) s" for s
        using fs_read_absent [of ?g s] by (auto simp: fs_stat_def bind_fst_snd ret_def unmapped_job_def split: sum.splits)
    qed (auto simp: unmapped_job_def dest: only_io_fields(2))
    fix st
    let ?fin = "bind (attempt (loadMappingLocked E (jb_ID job))) (\<lambda>r. case r of
                Inr m \<Rightarrow> if mappingHoldsContext m then modify (\<lambda>s. s\<lparr>m_inFlight := go_update (mapping_lane m) (jb_ID job) (m_inFlight s)\<rparr>) else ret ()
              | Inl _ \<Rightarrow> ret ())"
    have e: "keeps (lives E U X) ?fin" by (intro kept) (simp add: same_jobs_def)
    have w: "tri (lives E U X) (\<lambda>s. Inr st = Inr (Inl NotExist) \<longrightarrow> unmapped_job E (jb_ID job) s) (if st = Inl NotExist then writeMappingLocked E (mp job) else ret ()) (\<lambda>_ _. True)"
    proof (cases "st = Inl NotExist")
      case True
      have "tri (lives E U X) (unmapped_job E (jb_ID job)) (writeMappingLocked E (mp job)) (\<lambda>r s. r = Inr () \<longrightarrow> stored E (mp job) s)"
        by (rule tri_writeMapping) (auto simp: id unmapped_job_def dest: only_io_fields(2))
      then have "tri (lives E U X) (unmapped_job E (jb_ID job)) (writeMappingLocked E (mp job)) (\<lambda>_ _. True)" by (rule tri_conseq) simp_all
      with True show ?thesis by simp
    qed (simp add: tri_True kept)
    from e show "tri (lives E U X) (\<lambda>s. Inr st = Inr (Inl NotExist) \<longrightarrow> unmapped_job E (jb_ID job) s)
       (andthen (if st = Inl NotExist then writeMappingLocked E (mp job) else ret ()) ?fin) (\<lambda>_ _. True)"
      by (intro life.tri_bind [OF w] tri_True) simp_all
  qed simp
  then show ?thesis
    unfolding rebuild_mapping_def mp_def [symmetric] put_def [symmetric] by (intro kept)
qed

lemma keeps_rebuildMappings [kept]: "keeps (lives E U X) (rebuildMappings E)"
  unfolding rebuildMappings_def by (intro kept)

lemma keeps_recoverStreamEvents [kept]: "keeps (lives E U X) (recoverStreamEvents E now)"
proof -
  have "keeps (lives E U X) (read_receipts es)" for es
    by (induction es rule: read_receipts.induct) (auto intro!: kept)
  moreover have "keeps (lives E U X) (EnqueueDelivery E d)" for d by (rule frame_life) (rule frame_EnqueueDelivery)
  ultimately show ?thesis unfolding recoverStreamEvents_def replay_receipt_def by (intro kept)
qed

lemma keeps_NewSpool [kept]: "keeps (lives E U X) (NewSpool E lim now)"
proof -
  have "keeps (lives E U X) (openSpool lim)" "keeps (lives E U X) (recoverFiles OutSending OutFailed)"
    "keeps (lives E U X) (rebuildIdempotencyIndex E)" "keeps (lives E U X) (reconcileBudgetLocked E now)"
    by (intro frame_life frame_outbox_ops frame_reconcile)+
  then show ?thesis unfolding NewSpool_def recover_spool_def by (intro kept)
qed

section \<open>Requeueing\<close>

lemma evolves_delayed: "evolves m (delayed now m)"
  by (simp add: delayed_def Let_def evolves_def same_job_binding_def)

lemma requeue_view:
  "stored E m s \<Longrightarrow> mp_Status m = ''uncertain'' \<Longrightarrow> has_run m \<or> U \<Longrightarrow> Failed \<in> places (job_file E (mp_JobID m)) s \<Longrightarrow>
    job_steps U (job_view (job_file E (mp_JobID m)) s) (shift Failed Pending (places (job_file E (mp_JobID m)) s), go_lookup (d_mappings s) (job_file E (mp_JobID m)))"
  unfolding job_view_def stored_def by (rule r_into_rtranclp) (simp add: job_step.requeue)

lemma tri_requeue_move:
  assumes "mp_Status m = ''uncertain''" "has_run m \<or> U" "n = job_file E (mp_JobID m)"
  shows "tri (lives E U X) (stored E m) (andthen (writeMappingLocked E (delayed now m)) (fs_rename Failed Pending n)) (\<lambda>_ _. True)"
proof (rule life.tri_bind [OF writeMapping_evolves [OF evolves_delayed]])
  have d: "mp_Status (delayed now m) = ''uncertain''" "has_run (delayed now m) \<or> U" "n = job_file E (mp_JobID (delayed now m))"
    using assms by (simp_all add: delayed_def Let_def has_run_def)
  have "tri (lives E U X) (stored E (delayed now m)) (fs_rename Failed Pending n) (\<lambda>_ _. True)"
  proof (rule tri_rename)
    show "n \<in> X \<or> job_steps U (job_view n s) (shift Failed Pending (places n s), go_lookup (d_mappings s) n)"
      if "stored E (delayed now m) s" "Failed \<in> places n s" for s
      using requeue_view [OF that(1) d(1,2)] that(2) d(3) by simp
  qed (auto intro: stored_io)
  then show "tri (lives E U X) (\<lambda>s. Inr x = Inr () \<longrightarrow> stored E (delayed now m) s) (fs_rename Failed Pending n) (\<lambda>_ _. True)" for x :: unit
    by (rule tri_conseq) simp_all
qed simp

lemma keeps_requeue_one [kept]:
  assumes "u \<Longrightarrow> U"
  shows "keeps (lives E U X) (requeue_one E now budget u n)"
proof -
  define move where "move m job = bind (if \<not> now < mp_UncertainSince m + budget
       then stat_out (job_file E (''job-'' @ jb_ID job @ ''-uncertain'')) [OutPending, OutSending, OutDone, OutFailed] else ret False) (\<lambda>noticed.
         if noticed then ret () else andthen (writeMappingLocked E (delayed now m)) (fs_rename Failed Pending n))" for m and job :: Job
  have mv: "tri (lives E U X) (stored E m) (move m job) (\<lambda>_ _. True)"
    if "mp_Status m = ''uncertain''" "has_run m \<or> U" "n = job_file E (mp_JobID m)" for m job
    unfolding move_def
  proof (rule life.tri_bind [OF tri_same [where P = "stored E m"]])
    show "keeps same_jobs (if \<not> now < mp_UncertainSince m + budget
       then stat_out (job_file E (''job-'' @ jb_ID job @ ''-uncertain'')) [OutPending, OutSending, OutDone, OutFailed] else ret False)" by (intro kept)
    show "tri (lives E U X) (stored E m) (if noticed then ret () else andthen (writeMappingLocked E (delayed now m)) (fs_rename Failed Pending n)) (\<lambda>_ _. True)" for noticed
      using tri_requeue_move [OF that] by (intro tri_if) (simp_all add: tri_True kept)
  qed (auto intro: stored_same)
  define look where "look job = bind (attempt (loadMappingLocked E (jb_ID job))) (\<lambda>r. case r of
           Inl NotExist \<Rightarrow> ret ()
         | Inl e \<Rightarrow> fails e
         | Inr m \<Rightarrow>
             if mp_Status m \<noteq> ''uncertain'' \<or> now < mp_NextObservationAt m then ret ()
             else if \<not> admitted m \<and> \<not> u then ret ()
             else if mp_Fingerprint m \<noteq> JobFingerprint E job \<or> mp_JobID m \<noteq> jb_ID job \<or> n \<noteq> job_file E (jb_ID job)
               then fails (SpoolErr ''recovery job binding mismatch'')
             else move m job)" for job
  have "keeps (lives E U X) (look job)" for job
    unfolding keeps_tri look_def
  proof (rule life.tri_bind)
    show "tri (lives E U X) (\<lambda>_. True) (attempt (loadMappingLocked E (jb_ID job))) (\<lambda>r s. \<forall>m. r = Inr (Inr m) \<longrightarrow> stored E m s)"
      by (rule tri_attempt) (rule tri_conseq [OF tri_load], auto)
    fix v
    let ?k = "case v of
           Inl NotExist \<Rightarrow> ret ()
         | Inl e \<Rightarrow> fails e
         | Inr m \<Rightarrow>
             if mp_Status m \<noteq> ''uncertain'' \<or> now < mp_NextObservationAt m then ret ()
             else if \<not> admitted m \<and> \<not> u then ret ()
             else if mp_Fingerprint m \<noteq> JobFingerprint E job \<or> mp_JobID m \<noteq> jb_ID job \<or> n \<noteq> job_file E (jb_ID job)
               then fails (SpoolErr ''recovery job binding mismatch'')
             else move m job"
    show "tri (lives E U X) (\<lambda>s. \<forall>m. Inr v = Inr (Inr m) \<longrightarrow> stored E m s) ?k (\<lambda>_ _. True)"
    proof (cases v)
      case (Inl e)
      then show ?thesis by (cases e) (simp_all add: tri_True kept)
    next
      case (Inr m)
      have "tri (lives E U X) (stored E m) ?k (\<lambda>_ _. True)"
        unfolding Inr sum.case
        by (intro tri_if life.tri_ret life.tri_fails TrueI mv) (use assms in \<open>auto simp: admitted_def has_run_def\<close>)
      then show ?thesis by (rule tri_conseq) (simp_all add: Inr)
    qed
  qed simp
  then show ?thesis
    unfolding requeue_one_def move_def [symmetric] look_def [symmetric] by (intro kept)
qed

lemma keeps_Requeue: "(u \<Longrightarrow> U) \<Longrightarrow> keeps (lives E U X) (RequeueObservations E now budget u)"
  unfolding RequeueObservations_def by (intro kept)

section \<open>Admission\<close>

lemma stat_any_False:
  "fst (stat_any n ds s) = Inr False \<Longrightarrow> d \<in> set ds \<Longrightarrow> go_lookup (d_jobs s d) n = None"
proof (induction ds arbitrary: s)
  case (Cons d' ds)
  let ?g = "\<lambda>s. go_lookup (d_jobs s d') n"
  have same: "d_jobs (snd (fs_stat ?g s)) = d_jobs s" using keepsD [OF quiet.keeps_stat] by (rule only_io_fields)
  from Cons(2) have 1: "fst (fs_stat ?g s) = Inl NotExist" and 3: "fst (stat_any n ds (snd (fs_stat ?g s))) = Inr False"
    by (auto simp: bind_fst_snd ret_def fails_def split: sum.splits spool_err.splits)
  from 1 have "?g s = None" using fs_read_absent [of ?g s] by (auto simp: fs_stat_def bind_fst_snd ret_def split: sum.splits)
  with Cons(1) [OF 3] Cons(3) same show ?case by auto
qed simp

lemma lives_unplaced: "lives E U {n} s t \<Longrightarrow> places n s = {} \<Longrightarrow> lives E U {} s t"
  by (auto simp: lives_def)

lemma MappingFromJob_id: "mp_JobID (MappingFromJob E job now) = jb_ID job"
  by (simp add: MappingFromJob_def)

lemma seal_secret_id [simp]: "jb_ID (seal_secret E job) = jb_ID job"
  by (simp add: seal_secret_def)

lemma keeps_put_job:
  "keeps (lives E U {job_file E (jb_ID j)}) (fs_write (\<lambda>s. s\<lparr>d_jobs := (d_jobs s)(Pending := go_update (job_file E (jb_ID j)) (Some j) (d_jobs s Pending))\<rparr>))"
proof (rule life.keeps_write)
  fix s :: spool
  let ?n = "job_file E (jb_ID j)"
  let ?t = "s\<lparr>d_jobs := (d_jobs s)(Pending := go_update ?n (Some j) (d_jobs s Pending))\<rparr>"
  have look: "go_lookup (d_jobs ?t d) k = (if d = Pending \<and> k = ?n then Some (Some j) else go_lookup (d_jobs s d) k)" for d k by (simp add: gomap_simps)
  show "lives E U {?n} s ?t"
    unfolding lives_def
  proof (intro impI conjI allI)
    assume "named E s"
    then show "named E ?t" unfolding named_def look by (metis option.inject)
    fix k assume k: "k \<notin> {?n}" "places k s \<noteq> {}"
    then have "places k ?t = places k s" unfolding places_def look by simp
    with k show "places k ?t \<noteq> {}" "job_steps U (job_view k s) (job_view k ?t)" by (simp_all add: job_view_def)
  qed
qed

lemma keeps_admit: "keeps (lives E U {job_file E (jb_ID job)}) (admit E now job)"
proof -
  let ?n = "job_file E (jb_ID job)"
  define w where "w = writeMappingLocked E ((MappingFromJob E (seal_secret E job) (jb_CreatedAt job))\<lparr>mp_Fingerprint := JobFingerprint E job\<rparr>)"
  have "keeps (lives E U {?n}) w"
    unfolding keeps_tri w_def
    by (rule tri_conseq [OF tri_writeMapping [where P = "\<lambda>_. True"]]) (simp_all add: MappingFromJob_id)
  moreover have "keeps (lives E U {?n}) (reconcileBudgetLocked E now)" "keeps (lives E U {?n}) (reserveLocked E now (seal_secret E job))"
    by (intro frame_life frame_reconcile frame_reserve)+
  moreover define p where "p = fs_write (\<lambda>s. s\<lparr>d_jobs := (d_jobs s)(Pending := go_update ?n (Some (seal_secret E job)) (d_jobs s Pending))\<rparr>)"
  have "keeps (lives E U {?n}) p" using keeps_put_job [of E U "seal_secret E job"] by (simp add: p_def)
  ultimately show ?thesis
    unfolding admit_def w_def [symmetric] p_def [symmetric] by (intro kept) (simp_all add: same_jobs_def)
qed

lemma keeps_admit_new [kept]: "keeps (lives E U {}) (admit_new E now job)"
  unfolding keeps_tri admit_new_def
proof (rule life.tri_bind)
  let ?n = "job_file E (jb_ID job)"
  let ?st = "stat_any ?n [Pending, Running, Done, Failed]"
  have q: "keeps same_jobs ?st" by (rule frame_stat_any)
  show "tri (lives E U {}) (\<lambda>_. True) ?st (\<lambda>r s. r = Inr False \<longrightarrow> places ?n s = {})"
    unfolding tri_def
  proof (intro allI impI conjI)
    fix s :: spool
    show "lives E U {} s (snd (?st s))" using keepsD [OF q] by (rule same_jobs_lives)
    assume "fst (?st s) = Inr False"
    from stat_any_False [OF this] have "go_lookup (d_jobs s d) ?n = None" for d by (cases d) auto
    with keepsD [OF q, of s] show "places ?n (snd (?st s)) = {}" by (simp add: places_def same_jobs_def)
  qed
  show "tri (lives E U {}) (\<lambda>s. Inr found = Inr False \<longrightarrow> places ?n s = {}) (if found then ret False else admit E now job) (\<lambda>_ _. True)" for found
  proof (cases found)
    case False
    have "lives E U {} t (snd (admit E now job t))" if "places ?n t = {}" for t
      by (rule lives_unplaced [OF _ that]) (rule keepsD [OF keeps_admit])
    with False show ?thesis by (simp add: tri_def)
  qed (simp add: tri_True kept)
qed simp

lemma keeps_enqueueLocked [kept]: "keeps (lives E U {}) (enqueueLocked E now job)"
proof -
  have "keeps (lives E U {}) (bind_task j)" "keeps (lives E U {}) (findIdempotencyLocked E key)" for j key
    by (intro frame_life frame_bind_task frame_find)+
  then show ?thesis unfolding enqueueLocked_def by (intro kept)
qed

lemma keeps_Enqueue: "keeps (lives E U {}) (Enqueue E now hs job)"
  unfolding Enqueue_def by (intro kept) (simp add: same_jobs_def)

end
