(* ===== verification/Spool_Run.thy ===== *)
theory Spool_Run
  imports Spool_Refine
begin

text \<open>
  Runs of the spool: every operation that may change its state, under every list of faults, restarts of the process included,
  and other writers of the directories that the spool only reads. What a claim hands out, and what stays true of a job after it.
\<close>

section \<open>Runs\<close>

datatype sop =
    EnqueueOp time "masterHold list option option" Job
  | ClaimOp time routines_view "string \<Rightarrow> time"
  | CompleteOp time string
  | FailOp time string
  | OutcomeOp time string RunOutcome
  | CancelOp time string Envelope
  | ApproveOp time string Envelope string string
  | RebindOp Job ExecuteResponse
  | ReceiptOp time streamReceipt
  | StreamOp time Job ExecuteResponse
  | StatusOp Delivery
  | CloseStatusOp string
  | RequeueOp time int bool
  | RestartOp spoolLimits time
  | DeliverOp Delivery
  | ClaimDeliveryOp time
  | CompleteDeliveryOp string
  | UncertainDeliveryOp string
  | RetryDeliveryOp string
  | UpdateSendingOp Delivery
  | OffsetOp int
  | ActiveOp
  | UsageOp time Job string SessionUsage

definition void :: "'a spool_m \<Rightarrow> unit spool_m" where
  "void m = bind m (\<lambda>_. ret ())"

fun run_sop :: "'a spool_env_scheme \<Rightarrow> sop \<Rightarrow> unit spool_m" where
  "run_sop E (EnqueueOp now hs job) = void (Enqueue E now hs job)"
| "run_sop E (ClaimOp now V parked) = void (ClaimJob E now V parked)"
| "run_sop E (CompleteOp now i) = CompleteJob E now i"
| "run_sop E (FailOp now i) = FailJob E now i"
| "run_sop E (OutcomeOp now i r) = RecordOutcome E now i r"
| "run_sop E (CancelOp now i c) = void (RequestCancel E now i c)"
| "run_sop E (ApproveOp now i c rid choice) = RequestApproval E now i c rid choice"
| "run_sop E (RebindOp j e) = RebindObservation E j e"
| "run_sop E (ReceiptOp now r) = void (applyStreamReceiptLocked E now r)"
| "run_sop E (StreamOp now j e) = RecordStreamEvent E now j e"
| "run_sop E (StatusOp d) = UpsertStatusDelivery E d"
| "run_sop E (CloseStatusOp i) = void (CloseStatusDelivery E i)"
| "run_sop E (RequeueOp now budget u) = RequeueObservations E now budget u"
| "run_sop E (RestartOp lim now) = NewSpool E lim now"
| "run_sop E (DeliverOp d) = EnqueueDelivery E d"
| "run_sop E (ClaimDeliveryOp now) = void (ClaimDelivery now)"
| "run_sop E (CompleteDeliveryOp i) = CompleteDelivery E i"
| "run_sop E (UncertainDeliveryOp i) = UncertainDelivery E i"
| "run_sop E (RetryDeliveryOp i) = RetryDelivery E i"
| "run_sop E (UpdateSendingOp d) = UpdateSending E d"
| "run_sop E (OffsetOp k) = SaveOffset k"
| "run_sop E ActiveOp = void (activeMappingIDs E)"
| "run_sop E (UsageOp now job run report) = RecordUsage E now job run report"

fun requeues_unknown :: "sop \<Rightarrow> bool" where
  "requeues_unknown (RequeueOp now budget u) = u"
| "requeues_unknown _ = False"

text \<open>A run of operations that satisfy \<open>A\<close>. The last rule is another writer: metering, task records and event receipts are written by code
  outside the spool.\<close>

inductive spool_run :: "'a spool_env_scheme \<Rightarrow> (sop \<Rightarrow> bool) \<Rightarrow> spool \<Rightarrow> spool \<Rightarrow> bool" for E A where
  start: "spool_run E A s s"
| operation: "spool_run E A s t \<Longrightarrow> A op \<Longrightarrow> spool_run E A s (snd (run_sop E op (t\<lparr>sp_io := faults\<rparr>)))"
| world: "spool_run E A s t \<Longrightarrow> spool_run E A s (t\<lparr>d_usage := u, d_tasks := k, d_events := e\<rparr>)"

lemma keeps_void [kept]: "keeps R m \<Longrightarrow> keeps R (void m)"
  unfolding keeps_def void_def by (simp add: bind_fst_snd ret_def split: sum.split)

lemma keeps_run_sop:
  assumes "requeues_unknown op \<longrightarrow> U"
  shows "keeps (lives E U {}) (run_sop E op)"
proof (cases op)
  case (RequeueOp now budget u)
  with assms show ?thesis by (simp add: keeps_Requeue)
qed (simp_all add: kept keeps_Enqueue frame_life)

text \<open>A relation that every operation keeps holds between the ends of a run.\<close>

context step_logic
begin

lemma run_keeps:
  assumes "spool_run E A s t" "\<And>op. A op \<Longrightarrow> keeps R (run_sop E op)" "\<And>s u k e. R s (s\<lparr>d_usage := u, d_tasks := k, d_events := e\<rparr>)"
  shows "R s t"
  using assms(1)
proof (induction rule: spool_run.induct)
  case (operation s t op faults)
  have "R t (t\<lparr>sp_io := faults\<rparr>)" by (rule R_io)
  moreover have "R (t\<lparr>sp_io := faults\<rparr>) (snd (run_sop E op (t\<lparr>sp_io := faults\<rparr>)))" by (rule keepsD [OF assms(2) [OF operation(2)]])
  ultimately show ?case using operation(3) R_trans by blast
next
  case (world s t e k u)
  then show ?case using assms(3) R_trans by blast
qed (rule R_refl)

end

lemma run_lives:
  assumes "spool_run E A s t" "\<And>op. A op \<Longrightarrow> requeues_unknown op \<Longrightarrow> U"
  shows "lives E U {} s t"
proof (rule life.run_keeps [OF assms(1)])
  show "keeps (lives E U {}) (run_sop E op)" if "A op" for op using assms(2) [OF that] by (intro keeps_run_sop impI)
qed (simp add: same_jobs_lives same_jobs_def)

section \<open>What a claim does\<close>

lemma rename_result:
  assumes "fst (fs_rename a b n s) = Inr ()" "a \<noteq> b"
  shows "a \<in> places n s" "places n (snd (fs_rename a b n s)) = shift a b (places n s)"
    "d_mappings (snd (fs_rename a b n s)) = d_mappings s" "m_inFlight (snd (fs_rename a b n s)) = m_inFlight s"
  using assms by (auto simp: fs_rename_def bind_fst_snd gets_def modify_def fails_def io_step_def places_def shift_def Let_def gomap_simps
      split: list.splits if_splits option.splits)

lemma write_cursor_result:
  "fst (fs_write (\<lambda>s. s\<lparr>d_cursor := c\<rparr>) s) = Inr () \<Longrightarrow> d_jobs (snd (fs_write (\<lambda>s. s\<lparr>d_cursor := c\<rparr>) s)) = d_jobs s \<and>
     d_mappings (snd (fs_write (\<lambda>s. s\<lparr>d_cursor := c\<rparr>) s)) = d_mappings s \<and> m_inFlight (snd (fs_write (\<lambda>s. s\<lparr>d_cursor := c\<rparr>) s)) = m_inFlight s"
  by (auto simp: fs_write_def bind_fst_snd modify_def fails_def io_step_def split: list.splits fault.splits)

lemma claim_text_result:
  assumes "fst (claim_text n j mo s) = Inr j'"
  shows "snd (claim_text n j mo s) = s" "jb_ID j' = jb_ID j" "jb_IdempotencyKey j' = jb_IdempotencyKey j" "jb_Envelope j' = jb_Envelope j"
    "jb_Text j' \<noteq> [] \<Longrightarrow> mo = Some m \<Longrightarrow> \<not> has_run m"
  using assms by (auto simp: claim_text_def bind_fst_snd gets_def ret_def fails_def has_run_def job_lane_def split: if_splits option.splits sum.splits)

lemma keeps_places_update: "places n (snd (updateMappingLocked E now i r st tm s)) = places n s"
proof -
  have w: "keeps (\<lambda>s t. d_jobs t = d_jobs s) (writeMappingLocked E m)" for m
    unfolding writeMappingLocked_def fs_write_def io_step_def writeIdempotencyIndexLocked_def mark_active_def
    by (auto simp: keeps_def bind_fst_snd modify_def fails_def ret_def split: list.split fault.split sum.split)
  have b: "keeps (\<lambda>s t. d_jobs t = d_jobs s) m" if "keeps same_jobs m" for m :: "'z spool_m"
    using that by (simp add: keeps_def same_jobs_def)
  have s: "keeps (\<lambda>s t. d_jobs t = d_jobs s) (settleReservationLocked E now i)" for now i by (rule b) (rule frame_settle)
  have c: "keeps (\<lambda>s t. d_jobs t = d_jobs s) (write_conversation E now m k)" for m k by (rule b) (rule frame_conversation)
  have l: "keeps (\<lambda>s t. d_jobs t = d_jobs s) (loadMappingLocked E i)" by (rule b) (rule frame.keeps_load)
  have "d_jobs (snd (updateMappingLocked E now i r st tm s)) = d_jobs s"
    using w s c l unfolding updateMappingLocked_def keeps_def
    by (simp add: bind_fst_snd Let_def modify_def ret_def fails_def free_lane_def split: sum.split option.split)
  then show ?thesis by (simp add: places_def)
qed

lemma bind_Inr:
  assumes "fst (bind m f s) = Inr y"
  obtains x where "fst (m s) = Inr x" "fst (f x (snd (m s))) = Inr y" "snd (bind m f s) = snd (f x (snd (m s)))"
  using assms by (cases "fst (m s)") (auto simp: bind_fst_snd)

lemma hold_lane_result:
  assumes "fst (hold_lane j x u) = Inr (Some y)"
  shows "y = x" "snd (hold_lane j x u) = u\<lparr>m_inFlight := go_update (job_lane j) (jb_ID j) (m_inFlight u)\<rparr>"
  using assms by (simp_all add: hold_lane_def bind_fst_snd modify_def ret_def)

lemma mark_running_result:
  assumes "fst (mark_running E now j s) = Inr ()" "go_lookup (d_mappings s) (job_file E (jb_ID j)) = Some (Some m)"
  shows "\<exists>m'. go_lookup (d_mappings (snd (mark_running E now j s))) (job_file E (jb_ID j)) = Some (Some m')"
    "places n (snd (mark_running E now j s)) = places n s"
proof -
  let ?oc = "\<lparr>ro_Text = [], ro_JobID = jb_ID j, ro_SessionID = [], ro_RunID = [], ro_RuntimeGeneration = [], ro_Status = ''running'', ro_LastEvent = ''job.claimed''\<rparr>"
  show "\<exists>m'. go_lookup (d_mappings (snd (mark_running E now j s))) (job_file E (jb_ID j)) = Some (Some m')"
    using triD [OF tri_updateMapping [of E True "{}" now "jb_ID j" ?oc "''running''" False], of s] assms
    by (cases "TrimSpace (jb_IdempotencyKey j) = []") (auto simp: mark_running_def ret_def stored_def)
  show "places n (snd (mark_running E now j s)) = places n s" by (simp add: mark_running_def keeps_places_update ret_def)
qed

text \<open>What a successful start knows of the mapping that was read.\<close>

lemma start_result:
  assumes "fst (start_claimed E now n j r s) = Inr (Some j')" and "\<And>m. r = Inr m \<Longrightarrow> go_lookup (d_mappings s) (job_file E (jb_ID j)) = Some (Some m)"
  defines "t \<equiv> snd (start_claimed E now n j r s)"
  shows "jb_ID j' = jb_ID j \<and> jb_IdempotencyKey j' = jb_IdempotencyKey j \<and> jb_Envelope j' = jb_Envelope j \<and> places k t = places k s \<and>
    go_lookup (m_inFlight t) (job_lane j) = Some (jb_ID j) \<and>
    (jb_IdempotencyKey j \<noteq> [] \<longrightarrow> (\<exists>m m'. r = Inr m \<and> \<not> TerminalStatus (mp_Status m) \<and> (jb_Text j' \<noteq> [] \<longrightarrow> \<not> has_run m) \<and>
      go_lookup (d_mappings t) (job_file E (jb_ID j)) = Some (Some m')))"
proof (cases r)
  case (Inl e)
  with assms(1) have k: "jb_IdempotencyKey j = []" by (auto simp: start_claimed_def fails_def split: if_splits)
  with Inl have eq: "start_claimed E now n j r = bind (claim_text n j None) (hold_lane j)" by (simp add: start_claimed_def)
  from assms(1) [unfolded eq] obtain j2 where j2: "fst (claim_text n j None s) = Inr j2" "fst (hold_lane j j2 (snd (claim_text n j None s))) = Inr (Some j')"
    "t = snd (hold_lane j j2 (snd (claim_text n j None s)))" unfolding t_def eq by (rule bind_Inr)
  with claim_text_result [OF j2(1)] hold_lane_result [OF j2(2)] k show ?thesis by (simp add: places_def gomap_simps)
next
  case (Inr m)
  have nt: "\<not> TerminalStatus (mp_Status m)"
  proof
    assume "TerminalStatus (mp_Status m)"
    with assms(1) Inr have "fst (andthen (fs_rename Running (terminal_dir (mp_Status m)) n) (ret None) s) = Inr (Some j')" by (simp add: start_claimed_def)
    then show False by (rule bind_Inr) (simp add: ret_def)
  qed
  with Inr have eq: "start_claimed E now n j r = bind (claim_text n j (Some m)) (\<lambda>j'. andthen (mark_running E now j) (hold_lane j j'))" by (simp add: start_claimed_def)
  from assms(1) [unfolded eq] obtain j2 where j2: "fst (claim_text n j (Some m) s) = Inr j2"
    "fst (andthen (mark_running E now j) (hold_lane j j2) (snd (claim_text n j (Some m) s))) = Inr (Some j')"
    "t = snd (andthen (mark_running E now j) (hold_lane j j2) (snd (claim_text n j (Some m) s)))" unfolding t_def eq by (rule bind_Inr)
  note c = claim_text_result [OF j2(1)]
  from j2(2) obtain z where z: "fst (mark_running E now j s) = Inr z" "fst (hold_lane j j2 (snd (mark_running E now j s))) = Inr (Some j')"
    "t = snd (hold_lane j j2 (snd (mark_running E now j s)))" unfolding j2(3) c(1) by (rule bind_Inr)
  have z1: "fst (mark_running E now j s) = Inr ()" using z(1) by simp
  note mr = mark_running_result [OF z1 assms(2) [OF Inr]] and h = hold_lane_result [OF z(2)]
  have tt: "t = (snd (mark_running E now j s))\<lparr>m_inFlight := go_update (job_lane j) (jb_ID j) (m_inFlight (snd (mark_running E now j s)))\<rparr>" using h z(3) by simp
  have "places k t = places k s" using mr(2) [of k] by (simp add: tt places_def)
  moreover have "\<exists>m'. go_lookup (d_mappings t) (job_file E (jb_ID j)) = Some (Some m')" using mr(1) by (simp add: tt)
  moreover have "go_lookup (m_inFlight t) (job_lane j) = Some (jb_ID j)" by (simp add: tt gomap_simps)
  ultimately show ?thesis using c(2-4) c(5) [OF _ refl] nt h(1) Inr by blast
qed

text \<open>A successful claim of one candidate: the file was pending and is running, the lane is held, and for a job with an idempotency key
  there was a mapping that was not terminal, and without a run if the payload is handed out.\<close>

lemma take_result:
  assumes "fst (take_candidate E now n j s) = Inr (Some j')" and n: "n = job_file E (jb_ID j)"
  defines "t \<equiv> snd (take_candidate E now n j s)"
  shows "jb_ID j' = jb_ID j \<and> jb_IdempotencyKey j' = jb_IdempotencyKey j \<and> jb_Envelope j' = jb_Envelope j"
    "Pending \<in> places n s \<and> places n t = shift Pending Running (places n s)"
    "go_lookup (m_inFlight t) (job_lane j) = Some (jb_ID j)"
    "jb_IdempotencyKey j \<noteq> [] \<Longrightarrow> (\<exists>m m'. go_lookup (d_mappings s) n = Some (Some m) \<and> \<not> TerminalStatus (mp_Status m) \<and>
      (jb_Text j' \<noteq> [] \<longrightarrow> \<not> has_run m) \<and> go_lookup (d_mappings t) n = Some (Some m'))"
proof -
  let ?w = "fs_write (\<lambda>s. s\<lparr>d_cursor := Some (Some (job_fair j))\<rparr>)"
  let ?ld = "bind (attempt (loadMappingLocked E (jb_ID j))) (start_claimed E now n j)"
  define s1 where "s1 = snd (?w s)"
  define s2 where "s2 = snd (fs_rename Pending Running n s1)"
  define s3 where "s3 = snd (loadMappingLocked E (jb_ID j) s2)"
  define r where "r = fst (loadMappingLocked E (jb_ID j) s2)"
  from assms(1) obtain x1 where 1: "fst (?w s) = Inr x1" "fst (andthen (fs_rename Pending Running n) ?ld s1) = Inr (Some j')"
      "t = snd (andthen (fs_rename Pending Running n) ?ld s1)"
    unfolding s1_def t_def take_candidate_def by (rule bind_Inr)
  from 1(1) write_cursor_result [of "Some (Some (job_fair j))" s] have d1: "d_jobs s1 = d_jobs s" "d_mappings s1 = d_mappings s" by (simp_all add: s1_def)
  from 1(2) obtain x2 where 2: "fst (fs_rename Pending Running n s1) = Inr x2" "fst (?ld s2) = Inr (Some j')" "t = snd (?ld s2)"
    unfolding s2_def 1(3) by (rule bind_Inr)
  have d2: "Pending \<in> places n s" "places n s2 = shift Pending Running (places n s)" "d_mappings s2 = d_mappings s"
    using rename_result [of Pending Running n s1, folded s2_def] 2(1) d1 by (simp_all add: places_def)
  have "only_io s2 s3" unfolding s3_def by (rule load_quiet)
  with d2 have d3: "places n s3 = shift Pending Running (places n s)" "d_mappings s3 = d_mappings s" by (simp_all add: places_def only_io_fields)
  have st: "fst (start_claimed E now n j r s3) = Inr (Some j')" "t = snd (start_claimed E now n j r s3)"
    using 2(2,3) by (simp_all add: bind_fst_snd s3_def r_def)
  have lv: "go_lookup (d_mappings s3) (job_file E (jb_ID j)) = Some (Some m)" if "r = Inr m" for m
    using load_value(1) [of E "jb_ID j" s2 m] that d2(3) d3(2) by (simp add: r_def)
  from start_result [OF st(1) lv, of n] st(2) lv d2 d3 n show "jb_ID j' = jb_ID j \<and> jb_IdempotencyKey j' = jb_IdempotencyKey j \<and> jb_Envelope j' = jb_Envelope j"
    "Pending \<in> places n s \<and> places n t = shift Pending Running (places n s)" "go_lookup (m_inFlight t) (job_lane j) = Some (jb_ID j)"
    "jb_IdempotencyKey j \<noteq> [] \<Longrightarrow> (\<exists>m m'. go_lookup (d_mappings s) n = Some (Some m) \<and> \<not> TerminalStatus (mp_Status m) \<and>
      (jb_Text j' \<noteq> [] \<longrightarrow> \<not> has_run m) \<and> go_lookup (d_mappings t) n = Some (Some m'))" by auto
qed

text \<open>The candidate whose claim succeeded, and the state in which its turn came.\<close>

lemma claim_loop_result:
  assumes "fst (claim_loop E now V cs s) = Inr (Some j)" "list_all (\<lambda>c. fst c = job_file E (jb_ID (snd c))) cs"
  shows "\<exists>c \<in> set cs. \<exists>t. lives E U X s t \<and> \<not> lane_blocked (snd c) t \<and> fst (take_candidate E now (fst c) (snd c) t) = Inr (Some j) \<and>
    snd (claim_loop E now V cs s) = snd (take_candidate E now (fst c) (snd c) t)"
  using assms
proof (induction cs arbitrary: s)
  case Nil
  then show ?case by (simp add: ret_def)
next
  case (Cons c cs)
  let ?L = "\<lambda>s. \<exists>c' \<in> set (c # cs). \<exists>t. lives E U X s t \<and> \<not> lane_blocked (snd c') t \<and> fst (take_candidate E now (fst c') (snd c') t) = Inr (Some j)"
  have step: "\<exists>c' \<in> set cs. \<exists>t'. lives E U X s t' \<and> \<not> lane_blocked (snd c') t' \<and> fst (take_candidate E now (fst c') (snd c') t') = Inr (Some j) \<and>
      snd (claim_loop E now V cs t) = snd (take_candidate E now (fst c') (snd c') t')"
    if "lives E U X s t" "fst (claim_loop E now V cs t) = Inr (Some j)" for t
    using Cons.IH [OF that(2)] Cons(3) lives_trans [OF that(1)] by auto
  have n: "fst c = job_file E (jb_ID (snd c))" using Cons(3) by simp
  let ?c1 = "jb_AssignmentID (snd c) \<noteq> [] \<and> jb_AssignmentPlanRevision (snd c) \<noteq> 0 \<and> \<not> wakes V (jb_AssignmentID (snd c)) (jb_AssignmentPlanRevision (snd c))"
  let ?c2 = "jb_Trigger (snd c) = ''cron'' \<and> HasPrefix (jb_ID (snd c)) ''routine-'' \<and> \<not> occurrence_current V (jb_ID (snd c))"
  show ?case
  proof (cases "?c1 \<or> ?c2")
    case True
    then have "claim_loop E now V (c # cs) = andthen (cancel_pending E now (fst c) (snd c) (if ?c1 then ''assignment.cancelled'' else ''routine.cancelled'')) (claim_loop E now V cs)"
      by (cases ?c1) (simp_all only: claim_loop.simps Let_def if_True if_False simp_thms)
    then obtain ev where eq: "claim_loop E now V (c # cs) = andthen (cancel_pending E now (fst c) (snd c) ev) (claim_loop E now V cs)" ..
    let ?t = "snd (cancel_pending E now (fst c) (snd c) ev s)"
    have "lives E U X s ?t" unfolding n by (rule keepsD [OF keeps_cancel_pending])
    moreover from Cons(2) [unfolded eq] have "fst (claim_loop E now V cs ?t) = Inr (Some j)" "snd (claim_loop E now V (c # cs) s) = snd (claim_loop E now V cs ?t)"
      unfolding eq by (auto elim: bind_Inr)
    ultimately show ?thesis using step by (auto simp del: claim_loop.simps)
  next
    case False
    show ?thesis
    proof (cases "lane_blocked (snd c) s")
      case True
      with False have "claim_loop E now V (c # cs) s = claim_loop E now V cs s" by (auto simp: Let_def bind_def gets_def)
      with Cons(2) step [OF life.R_refl] show ?thesis by auto
    next
      case free: False
      let ?tk = "take_candidate E now (fst c) (snd c)"
      have eq: "claim_loop E now V (c # cs) s = bind ?tk (\<lambda>r. case r of Some j' \<Rightarrow> ret (Some j') | None \<Rightarrow> claim_loop E now V cs) s"
        using False free by (auto simp: Let_def bind_def [of "gets _"] gets_def)
      from Cons(2) obtain r where r: "fst (?tk s) = Inr r" "fst ((case r of Some j' \<Rightarrow> ret (Some j') | None \<Rightarrow> claim_loop E now V cs) (snd (?tk s))) = Inr (Some j)"
        "snd (claim_loop E now V (c # cs) s) = snd ((case r of Some j' \<Rightarrow> ret (Some j') | None \<Rightarrow> claim_loop E now V cs) (snd (?tk s)))"
        unfolding eq by (rule bind_Inr)
      show ?thesis
      proof (cases r)
        case None
        have l: "lives E U X s (snd (?tk s))" by (rule keepsD [OF keeps_take])
        have "fst (claim_loop E now V cs (snd (?tk s))) = Inr (Some j)" "snd (claim_loop E now V (c # cs) s) = snd (claim_loop E now V cs (snd (?tk s)))"
          using r(2,3) by (simp_all only: None option.case)
        with step [OF l] show ?thesis by (auto simp del: claim_loop.simps)
      next
        case (Some j')
        have "fst (?tk s) = Inr (Some j)" "snd (claim_loop E now V (c # cs) s) = snd (?tk s)"
          using r by (simp_all only: Some option.case ret_def fst_conv snd_conv sum.inject)
        with free show ?thesis by (intro bexI [of _ c] exI [of _ s]) (simp_all del: claim_loop.simps add: life.R_refl)
      qed
    qed
  qed
qed

lemma ClaimJob_result:
  assumes "fst (ClaimJob E now V parked s) = Inr (Some j)" "named E s"
  defines "n \<equiv> job_file E (jb_ID j)" and "s' \<equiv> snd (ClaimJob E now V parked s)"
  obtains t where "lives E U {} s t" "\<not> lane_blocked j t" "Pending \<in> places n t" "places n s' = shift Pending Running (places n t)"
    "go_lookup (m_inFlight s') (job_lane j) = Some (jb_ID j)"
    "jb_IdempotencyKey j \<noteq> [] \<Longrightarrow> (\<exists>m m'. go_lookup (d_mappings t) n = Some (Some m) \<and> \<not> TerminalStatus (mp_Status m) \<and>
      (jb_Text j \<noteq> [] \<longrightarrow> \<not> has_run m) \<and> go_lookup (d_mappings s') n = Some (Some m'))"
proof -
  let ?rd = "fs_readdir (\<lambda>s. d_jobs s Pending)" and ?ok = "\<lambda>cs :: (string \<times> Job) list. list_all (\<lambda>c. fst c = job_file E (jb_ID (snd c))) cs"
  let ?go = "\<lambda>cs. bind read_cursor (\<lambda>cursor. claim_loop E now V (sort_key (claim_rank now parked cursor) cs))"
  have same: "lives E U {} a b" if "only_io a b" for a b using that by (intro same_jobs_lives only_io_same)
  from assms(1) obtain es where 1: "fst (bind (read_candidates es) ?go (snd (?rd s))) = Inr (Some j)" "s' = snd (bind (read_candidates es) ?go (snd (?rd s)))"
    unfolding s'_def ClaimJob_def by (rule bind_Inr)
  have q: "only_io s (snd (?rd s))" by (rule keepsD [OF quiet.keeps_readdir])
  have nm: "named E (snd (?rd s))" by (rule named_same [OF assms(2) only_io_same [OF q]])
  define s1 where "s1 = snd (read_candidates es (snd (?rd s)))"
  from 1(1) obtain cs where 2: "fst (read_candidates es (snd (?rd s))) = Inr cs" "fst (?go cs s1) = Inr (Some j)" "s' = snd (?go cs s1)"
    unfolding 1(2) s1_def by (rule bind_Inr)
  from triD [OF tri_read_candidates [of E U "{}" es] nm] 2(1) have l1: "lives E U {} (snd (?rd s)) s1" and ok: "?ok cs" by (auto simp: s1_def)
  from 2(2) obtain cursor where 3: "fst (claim_loop E now V (sort_key (claim_rank now parked cursor) cs) (snd (read_cursor s1))) = Inr (Some j)"
    "s' = snd (claim_loop E now V (sort_key (claim_rank now parked cursor) cs) (snd (read_cursor s1)))"
    unfolding 2(3) by (rule bind_Inr)
  have l2: "lives E U {} s1 (snd (read_cursor s1))" by (rule keepsD) (auto simp: read_cursor_def intro!: kept)
  from claim_loop_result [OF 3(1), of U "{}"] ok obtain c t where c: "c \<in> set cs" "lives E U {} (snd (read_cursor s1)) t" "\<not> lane_blocked (snd c) t"
    "fst (take_candidate E now (fst c) (snd c) t) = Inr (Some j)" "s' = snd (take_candidate E now (fst c) (snd c) t)"
    unfolding 3(2) by (auto simp: list_all_iff)
  have "fst c = job_file E (jb_ID (snd c))" using ok c(1) by (auto simp: list_all_iff)
  note tk = take_result [OF c(4) this, folded c(5)]
  have env: "jb_ID j = jb_ID (snd c)" "jb_Envelope j = jb_Envelope (snd c)" "jb_IdempotencyKey j = jb_IdempotencyKey (snd c)" "n = fst c"
    using tk(1) \<open>fst c = _\<close> by (simp_all add: n_def)
  show thesis
  proof (rule that)
    show "lives E U {} s t" using same [OF q] l1 l2 c(2) lives_trans by blast
    show "\<not> lane_blocked j t" using c(3) unfolding lane_blocked_def job_lane_def job_fair_def env .
  qed (use tk env in \<open>simp_all add: job_lane_def\<close>)
qed

section \<open>A job whose payload was handed out\<close>

text \<open>Once the payload of a job is handed out, it is not handed out again: the job is not claimable, or its mapping is terminal or
  names the run that was admitted.\<close>

definition spent :: "jdir set \<times> JobMapping option option \<Rightarrow> bool" where
  "spent v \<longleftrightarrow> (\<exists>m. snd v = Some (Some m) \<and> (TerminalStatus (mp_Status m) \<or> has_run m \<or> Pending \<notin> fst v))"

lemma spent_step: "job_step False v v' \<Longrightarrow> spent v \<Longrightarrow> spent v'"
  by (induction rule: job_step.induct) (auto simp: spent_def shift_def evolves_def has_run_def)

lemma spent_steps: "job_steps False v v' \<Longrightarrow> spent v \<Longrightarrow> spent v'"
  by (induction rule: rtranclp_induct) (auto intro: spent_step)

lemma lives_spent: "lives E False {} s t \<Longrightarrow> named E s \<Longrightarrow> places n s \<noteq> {} \<Longrightarrow> spent (job_view n s) \<Longrightarrow> named E t \<and> places n t \<noteq> {} \<and> spent (job_view n t)"
  unfolding lives_def using spent_steps by blast

lemma terminal_step:
  "job_step U v v' \<Longrightarrow> snd v = Some (Some m) \<Longrightarrow> \<exists>m'. snd v' = Some (Some m') \<and> evolves m m'"
  by (induction rule: job_step.induct) (auto simp: evolves_refl)

lemma evolves_trans: "evolves a b \<Longrightarrow> evolves b c \<Longrightarrow> evolves a c"
  unfolding evolves_def same_job_binding_def by auto

lemma mapping_steps:
  assumes "job_steps U v v'" "snd v = Some (Some m)"
  shows "\<exists>m'. snd v' = Some (Some m') \<and> evolves m m'"
  using assms(1)
proof (induction rule: rtranclp_induct)
  case base
  with assms(2) show ?case by (auto simp: evolves_refl)
next
  case (step y z)
  then obtain m1 where "snd y = Some (Some m1)" "evolves m m1" by blast
  with terminal_step [OF step(2)] evolves_trans show ?case by blast
qed

end
