(* ===== verification/Spool_Ledger.thy ===== *)
theory Spool_Ledger
  imports Spool_Run
begin

text \<open>
  The budget ledger as an invariant of every run: the counters of a scope are the number and the priced sum of its open reservations,
  in memory and on disk, and the ceilings on pending jobs bound them.
\<close>

section \<open>Sums over a map\<close>

definition total_of :: "('v \<Rightarrow> int) \<Rightarrow> ('k, 'v) gomap \<Rightarrow> int" where
  "total_of f m = sum_list (map (f \<circ> snd) m)"

lemma total_update:
  "go_wf m \<Longrightarrow> total_of f (go_update k v m) = total_of f m - (case go_lookup m k of None \<Rightarrow> 0 | Some w \<Rightarrow> f w) + f v"
proof (induction m)
  case (Cons a m)
  then show ?case by (cases a) (auto simp: total_of_def map_of_eq_None_iff image_iff split: option.splits)
qed (simp add: total_of_def)

lemma wrap64_add: "wrap64 (wrap64 a + b) = wrap64 (a + b)"
proof -
  have "(((a + 9223372036854775808) mod 18446744073709551616 - 9223372036854775808) + b + 9223372036854775808) mod 18446744073709551616
    = ((a + 9223372036854775808) mod 18446744073709551616 + b) mod 18446744073709551616" by (simp add: algebra_simps)
  also have "\<dots> = (a + 9223372036854775808 + b) mod 18446744073709551616" by (rule mod_add_left_eq)
  finally show ?thesis by (simp add: wrap64_def algebra_simps)
qed

section \<open>Ledgers\<close>

text \<open>What a reservation adds to the counters of a scope.\<close>

definition counted :: "string \<Rightarrow> reservation \<Rightarrow> bool" where
  "counted sc r \<longleftrightarrow> rv_State r = ''open'' \<and> rv_ScopeID r = sc"

definition open_jobs :: "string \<Rightarrow> budgetLedger \<Rightarrow> int" where
  "open_jobs sc l = total_of (\<lambda>r. if counted sc r then 1 else 0) (bl_Reservations l)"

definition open_tokens :: "string \<Rightarrow> budgetLedger \<Rightarrow> int" where
  "open_tokens sc l = total_of (\<lambda>r. if counted sc r then rv_Estimate r else 0) (bl_Reservations l)"

definition pending_total :: "budgetLedger \<Rightarrow> int" where
  "pending_total l = total_of sb_PendingJobs (bl_Scopes l)"

definition balanced :: "budgetLedger \<Rightarrow> bool" where
  "balanced l \<longleftrightarrow> go_wf (bl_Reservations l) \<and> go_wf (bl_Scopes l) \<and>
     (\<forall>sc. sb_PendingJobs (bucket_of sc l) = open_jobs sc l \<and> sb_ReservedTokens (bucket_of sc l) = wrap64 (open_tokens sc l))"

definition capped :: "spoolLimits \<Rightarrow> budgetLedger \<Rightarrow> bool" where
  "capped lim l \<longleftrightarrow>
     (sl_MaxPendingPerScope lim > 0 \<longrightarrow> (\<forall>sc. sb_PendingJobs (bucket_of sc l) \<le> sl_MaxPendingPerScope lim)) \<and>
     (sl_MaxPendingTotal lim > 0 \<longrightarrow> pending_total l \<le> sl_MaxPendingTotal lim)"

lemma bucket_put [simp]:
  "bucket_of sc (put_bucket sc' b l) = (if sc = sc' then b else bucket_of sc l)"
  "bucket_of sc (put_reservation i r l) = bucket_of sc l"
  by (simp_all add: bucket_of_def put_bucket_def put_reservation_def gomap_simps)

lemma put_parts [simp]:
  "bl_Reservations (put_bucket sc b l) = bl_Reservations l" "bl_Scopes (put_bucket sc b l) = go_update sc b (bl_Scopes l)"
  "bl_Reservations (put_reservation i r l) = go_update i r (bl_Reservations l)" "bl_Scopes (put_reservation i r l) = bl_Scopes l"
  by (simp_all add: put_bucket_def put_reservation_def)

lemma put_bucket_twice [simp]: "put_bucket sc b (put_bucket sc b' l) = put_bucket sc b l"
  by (simp add: put_bucket_def AList.update_last)

lemma put_commute: "put_bucket sc b (put_reservation i r l) = put_reservation i r (put_bucket sc b l)"
  by (simp add: put_bucket_def put_reservation_def)

lemma rolled [simp]:
  "sb_PendingJobs (roll_day d b) = sb_PendingJobs b" "sb_ReservedTokens (roll_day d b) = sb_ReservedTokens b"
  by (simp_all add: roll_day_def)

lemma pending_put:
  "go_wf (bl_Scopes l) \<Longrightarrow> pending_total (put_bucket sc b l) = pending_total l - sb_PendingJobs (bucket_of sc l) + sb_PendingJobs b"
  by (simp add: pending_total_def total_update bucket_of_def empty_bucket_def split: option.split)

lemma pending_reservation [simp]: "pending_total (put_reservation i r l) = pending_total l"
  by (simp add: pending_total_def)

lemma balanced_empty: "balanced new_ledger"
  by (simp add: balanced_def new_ledger_def bucket_of_def empty_bucket_def open_jobs_def open_tokens_def total_of_def wrap64_def)

lemma capped_empty: "capped lim new_ledger"
  by (simp add: capped_def new_ledger_def bucket_of_def empty_bucket_def pending_total_def total_of_def)

text \<open>A reservation is written and the counters of its scope follow.\<close>

definition contribution :: "reservation option \<Rightarrow> int \<times> int" where
  "contribution ro = (case ro of Some r \<Rightarrow> if rv_State r = ''open'' then (1, rv_Estimate r) else (0, 0) | None \<Rightarrow> (0, 0))"

lemma balanced_put:
  assumes bal: "balanced l" and old: "\<And>r. go_lookup (bl_Reservations l) i = Some r \<Longrightarrow> rv_ScopeID r = rv_ScopeID r'"
    and jobs: "sb_PendingJobs b = sb_PendingJobs (bucket_of (rv_ScopeID r') l) + fst (contribution (Some r')) - fst (contribution (go_lookup (bl_Reservations l) i))"
    and tokens: "sb_ReservedTokens b = wrap64 (sb_ReservedTokens (bucket_of (rv_ScopeID r') l) + (snd (contribution (Some r')) - snd (contribution (go_lookup (bl_Reservations l) i))))"
  shows "balanced (put_reservation i r' (put_bucket (rv_ScopeID r') b l))"
proof -
  let ?l = "put_reservation i r' (put_bucket (rv_ScopeID r') b l)"
  from bal have wf: "go_wf (bl_Reservations l)" "go_wf (bl_Scopes l)"
    and c: "\<And>sc. sb_PendingJobs (bucket_of sc l) = open_jobs sc l" "\<And>sc. sb_ReservedTokens (bucket_of sc l) = wrap64 (open_tokens sc l)"
    by (simp_all add: balanced_def)
  have j: "open_jobs sc ?l = (if sc = rv_ScopeID r' then open_jobs sc l + fst (contribution (Some r')) - fst (contribution (go_lookup (bl_Reservations l) i)) else open_jobs sc l)" for sc
    using old by (auto simp: open_jobs_def total_update [OF wf(1)] counted_def contribution_def split: option.split)
  have t: "open_tokens sc ?l = (if sc = rv_ScopeID r' then open_tokens sc l + (snd (contribution (Some r')) - snd (contribution (go_lookup (bl_Reservations l) i))) else open_tokens sc l)" for sc
    using old by (auto simp: open_tokens_def total_update [OF wf(1)] counted_def contribution_def split: option.split)
  show ?thesis using wf unfolding balanced_def j t by (simp add: c jobs tokens wrap64_add)
qed

lemma balanced_roll: "balanced l \<Longrightarrow> balanced (put_bucket sc (roll_day d (bucket_of sc l)) l)"
  by (auto simp: balanced_def open_jobs_def open_tokens_def)

lemma capped_put:
  assumes "capped lim l" "go_wf (bl_Scopes l)" "sb_PendingJobs b \<le> sb_PendingJobs (bucket_of sc l)"
  shows "capped lim (put_reservation i r (put_bucket sc b l))" "capped lim (put_bucket sc b l)"
  using assms by (auto simp: capped_def pending_put intro: order_trans)

lemma capped_grow:
  assumes "capped lim l" "go_wf (bl_Scopes l)" "sb_PendingJobs b = sb_PendingJobs (bucket_of sc l) + 1"
    "sl_MaxPendingPerScope lim > 0 \<longrightarrow> sb_PendingJobs (bucket_of sc l) < sl_MaxPendingPerScope lim"
    "sl_MaxPendingTotal lim > 0 \<longrightarrow> pending_total l < sl_MaxPendingTotal lim"
  shows "capped lim (put_reservation i r (put_bucket sc b l))"
  using assms by (auto simp: capped_def pending_put)

section \<open>The invariant\<close>

text \<open>In memory and on disk; with limits given, they are those of the process and bound both.\<close>

definition sound_ledger :: "spoolLimits option \<Rightarrow> budgetLedger \<Rightarrow> bool" where
  "sound_ledger lo l \<longleftrightarrow> balanced l \<and> (\<forall>lim. lo = Some lim \<longrightarrow> capped lim l)"

definition book :: "spoolLimits option \<Rightarrow> spool \<Rightarrow> bool" where
  "book lo s \<longleftrightarrow> (\<forall>lim. lo = Some lim \<longrightarrow> m_limits s = lim) \<and> sound_ledger lo (m_budget s) \<and>
     (\<forall>l. d_budget s = Some (Some l) \<longrightarrow> sound_ledger lo l)"

definition still :: "spoolLimits option \<Rightarrow> spool \<Rightarrow> spool \<Rightarrow> bool" where
  "still lo s t \<longleftrightarrow> (book lo s \<longrightarrow> book lo t)"

lemma still_same: "m_budget t = m_budget s \<Longrightarrow> d_budget t = d_budget s \<Longrightarrow> m_limits t = m_limits s \<Longrightarrow> still lo s t"
  by (simp add: still_def book_def)

interpretation still: step_logic "still lo" for lo
  by unfold_locales (simp_all add: still_same, simp add: still_def)

lemma book_ledger: "book lo s \<Longrightarrow> sound_ledger lo l \<Longrightarrow> book lo (s\<lparr>m_budget := l\<rparr>)"
  by (simp add: book_def)

lemma keeps_save: "keeps (still lo) saveBudgetLocked"
  unfolding saveBudgetLocked_def by (rule still.keeps_write) (simp add: still_def book_def)

lemma sound_roll: "sound_ledger lo l \<Longrightarrow> sound_ledger lo (put_bucket sc (roll_day d (bucket_of sc l)) l)"
  using capped_put(2) [of _ l "roll_day d (bucket_of sc l)" sc] by (simp add: sound_ledger_def balanced_roll) (simp add: balanced_def)

lemma keeps_bucket: "keeps (still lo) (bucketLocked now sc)"
  by (auto simp: keeps_def still_def bucketLocked_def Let_def book_def intro: sound_roll)

text \<open>An open reservation is closed.\<close>

lemma sound_close:
  assumes "sound_ledger lo l" "go_lookup (bl_Reservations l) i = Some r" "rv_State r = ''open''" "rv_State r' \<noteq> ''open''" "rv_ScopeID r' = rv_ScopeID r"
    "sb_PendingJobs b = sb_PendingJobs (bucket_of (rv_ScopeID r) l) - 1" "sb_ReservedTokens b = wrap64 (sb_ReservedTokens (bucket_of (rv_ScopeID r) l) - rv_Estimate r)"
  shows "sound_ledger lo (put_reservation i r' (put_bucket (rv_ScopeID r) b l))"
  using assms balanced_put [of l i r' b] by (auto simp: sound_ledger_def contribution_def balanced_def intro!: capped_put(1))

lemma settle_with_closes:
  assumes "settle_with es r b = (r', b')"
  shows "rv_State r' \<noteq> ''open''" "rv_ScopeID r' = rv_ScopeID r" "sb_PendingJobs b' = sb_PendingJobs b" "sb_ReservedTokens b' = sb_ReservedTokens b"
  using assms by (auto simp: settle_with_def Let_def split: if_splits)

lemma close_then:
  "bind (bucketLocked now sc) (\<lambda>b. case F b of (r', b') \<Rightarrow> andthen (write_bucket sc b') (andthen (write_reservation i r') k)) s =
     (case F (roll_day (format_date UTC now) (bucket_of sc (m_budget s))) of (r', b') \<Rightarrow> k (s\<lparr>m_budget := put_reservation i r' (put_bucket sc b' (m_budget s))\<rparr>))"
  by (simp add: bind_def bucketLocked_def write_bucket_def write_reservation_def modify_def Let_def split: prod.split)

lemma keeps_close:
  assumes "keeps (still lo) k" "\<And>b r' b'. F b = (r', b') \<Longrightarrow> rv_State r' \<noteq> ''open'' \<and> rv_ScopeID r' = rv_ScopeID r \<and>
      sb_PendingJobs b' = sb_PendingJobs b - 1 \<and> sb_ReservedTokens b' = wrap64 (sb_ReservedTokens b - rv_Estimate r)"
    and r: "rv_State r = ''open''"
  shows "tri (still lo) (\<lambda>s. go_lookup (bl_Reservations (m_budget s)) i = Some r)
    (bind (bucketLocked now (rv_ScopeID r)) (\<lambda>b. case F b of (r', b') \<Rightarrow> andthen (write_bucket (rv_ScopeID r) b') (andthen (write_reservation i r') k))) (\<lambda>_ _. True)"
  unfolding tri_def
proof (intro allI impI conjI TrueI)
  fix s :: spool assume l: "go_lookup (bl_Reservations (m_budget s)) i = Some r"
  obtain r' b' where f: "F (roll_day (format_date UTC now) (bucket_of (rv_ScopeID r) (m_budget s))) = (r', b')" by fastforce
  let ?t = "s\<lparr>m_budget := put_reservation i r' (put_bucket (rv_ScopeID r) b' (m_budget s))\<rparr>"
  have "sound_ledger lo (m_budget s) \<Longrightarrow> sound_ledger lo (m_budget ?t)"
    using assms(2) [OF f] by (simp add: sound_close [OF _ l r])
  then have "still lo s ?t" by (simp add: still_def book_def)
  moreover have "still lo ?t (snd (k ?t))" by (rule keepsD [OF assms(1)])
  ultimately show "still lo s (snd (bind (bucketLocked now (rv_ScopeID r)) (\<lambda>b. case F b of (r', b') \<Rightarrow>
      andthen (write_bucket (rv_ScopeID r) b') (andthen (write_reservation i r') k)) s))"
    unfolding close_then f by (auto intro: still.R_trans)
qed

lemma tri_quiet: "keeps only_io m \<Longrightarrow> (\<And>s t. P s \<Longrightarrow> only_io s t \<Longrightarrow> P t) \<Longrightarrow> tri (still lo) P m (\<lambda>_. P)"
  unfolding keeps_def tri_def using still_same only_io_fields(3,4,7) by blast

lemma lookup_quiet: "go_lookup (bl_Reservations (m_budget s)) i = v \<Longrightarrow> only_io s t \<Longrightarrow> go_lookup (bl_Reservations (m_budget t)) i = v"
  by (simp add: only_io_fields)

text \<open>A branch on the reservation of a job.\<close>

lemma keeps_reservation:
  assumes "\<And>r. tri (still lo) (\<lambda>s. go_lookup (bl_Reservations (m_budget s)) i = Some r) (f (Some r)) (\<lambda>_ _. True)"
    "tri (still lo) (\<lambda>s. go_lookup (bl_Reservations (m_budget s)) i = None) (f None) (\<lambda>_ _. True)"
  shows "keeps (still lo) (bind (gets (\<lambda>s. go_lookup (bl_Reservations (m_budget s)) i)) f)"
  unfolding keeps_def
proof
  fix s
  have "still lo s (snd (f (go_lookup (bl_Reservations (m_budget s)) i) s))"
    using assms by (cases "go_lookup (bl_Reservations (m_budget s)) i") (auto simp: tri_def)
  then show "still lo s (snd (bind (gets (\<lambda>s. go_lookup (bl_Reservations (m_budget s)) i)) f s))" by (simp add: bind_def gets_def)
qed

lemma quiet_reads: "keeps only_io (usageEntriesLocked E)" "keeps only_io (job_live E i)" "keeps only_io (attempt (loadMappingLocked E i))"
  unfolding usageEntriesLocked_def job_live_def by (intro kept quiet.keeps_steps)+

lemma keeps_settle: "keeps (still lo) (settleReservationLocked E now i)"
  unfolding settleReservationLocked_def
proof (rule keeps_reservation)
  fix r
  let ?P = "\<lambda>s. go_lookup (bl_Reservations (m_budget s)) i = Some r"
  have q: "tri (still lo) ?P (usageEntriesLocked E) (\<lambda>_. ?P)"
    by (rule tri_quiet [OF quiet_reads(1) lookup_quiet])
  have "tri (still lo) ?P (bind (usageEntriesLocked E) (\<lambda>es. bind (bucketLocked now (rv_ScopeID r)) (\<lambda>b.
           case settle_with (filter (\<lambda>e. ue_JobID e = i) es) r (release_bucket b r) of (r', b') \<Rightarrow>
             andthen (write_bucket (rv_ScopeID r) b') (andthen (write_reservation i r') saveBudgetLocked)))) (\<lambda>_ _. True)" if "rv_State r = ''open''"
  proof (rule still.tri_bind [OF q], rule keeps_close [OF keeps_save])
    fix es b r' b' assume "settle_with es r (release_bucket b r) = (r', b')"
    from settle_with_closes [OF this] show "rv_State r' \<noteq> ''open'' \<and> rv_ScopeID r' = rv_ScopeID r \<and> sb_PendingJobs b' = sb_PendingJobs b - 1 \<and>
        sb_ReservedTokens b' = wrap64 (sb_ReservedTokens b - rv_Estimate r)" by (simp add: release_bucket_def)
  qed (simp_all add: that)
  then show "tri (still lo) ?P (case Some r of None \<Rightarrow> ret () | Some r \<Rightarrow> if rv_State r \<noteq> ''open'' then ret ()
         else bind (usageEntriesLocked E) (\<lambda>es. bind (bucketLocked now (rv_ScopeID r)) (\<lambda>b.
           case settle_with (filter (\<lambda>e. ue_JobID e = i) es) r (release_bucket b r) of (r', b') \<Rightarrow>
             andthen (write_bucket (rv_ScopeID r) b') (andthen (write_reservation i r') saveBudgetLocked)))) (\<lambda>_ _. True)"
    by (simp add: still.tri_ret)
qed (simp add: still.tri_ret)

lemma keeps_reconcile_one: "keeps (still lo) (reconcile_one E now i)"
  unfolding reconcile_one_def
proof (rule keeps_reservation)
  fix r
  let ?P = "\<lambda>s. go_lookup (bl_Reservations (m_budget s)) i = Some r"
  note ql = tri_quiet [OF quiet_reads(2) lookup_quiet] tri_quiet [OF quiet_reads(3) lookup_quiet]
  have cl: "tri (still lo) ?P (bind (bucketLocked now (rv_ScopeID r)) (\<lambda>b.
      andthen (write_bucket (rv_ScopeID r) (release_bucket b r)) (andthen (write_reservation i (r\<lparr>rv_State := ''released''\<rparr>)) (ret True)))) (\<lambda>_ _. True)" if "rv_State r = ''open''"
    using keeps_close [of lo "ret True" "\<lambda>b. (r\<lparr>rv_State := ''released''\<rparr>, release_bucket b r)" r i now, OF still.keeps_ret _ that] by (simp add: release_bucket_def)
  have st: "tri (still lo) ?P (andthen (settleReservationLocked E now i) (ret True)) (\<lambda>_ _. True)"
    by (rule tri_True) (intro still.keeps_bind keeps_settle still.keeps_ret)
  have "tri (still lo) ?P (bind (job_live E i) (\<lambda>live.
           if live then ret False
           else bind (attempt (loadMappingLocked E i)) (\<lambda>m.
             if (case m of Inr mp \<Rightarrow> TerminalStatus (mp_Status mp) | Inl _ \<Rightarrow> False)
             then andthen (settleReservationLocked E now i) (ret True)
             else bind (bucketLocked now (rv_ScopeID r)) (\<lambda>b.
               andthen (write_bucket (rv_ScopeID r) (release_bucket b r))
                 (andthen (write_reservation i (r\<lparr>rv_State := ''released''\<rparr>)) (ret True)))))) (\<lambda>_ _. True)" if "rv_State r = ''open''"
    by (intro still.tri_bind [OF ql(1)] tri_if still.tri_bind [OF ql(2)] st cl [OF that] still.tri_ret TrueI)
  then show "tri (still lo) ?P (case Some r of None \<Rightarrow> ret False | Some r \<Rightarrow>
         if rv_State r \<noteq> ''open'' then ret False
         else bind (job_live E i) (\<lambda>live.
           if live then ret False
           else bind (attempt (loadMappingLocked E i)) (\<lambda>m.
             if (case m of Inr mp \<Rightarrow> TerminalStatus (mp_Status mp) | Inl _ \<Rightarrow> False)
             then andthen (settleReservationLocked E now i) (ret True)
             else bind (bucketLocked now (rv_ScopeID r)) (\<lambda>b.
               andthen (write_bucket (rv_ScopeID r) (release_bucket b r))
                 (andthen (write_reservation i (r\<lparr>rv_State := ''released''\<rparr>)) (ret True)))))) (\<lambda>_ _. True)"
    by (simp add: still.tri_ret)
qed (simp add: still.tri_ret)

lemma keeps_reconcile: "keeps (still lo) (reconcileBudgetLocked E now)"
proof -
  have "keeps (still lo) (reconcile_loop E now c is)" for c "is"
    by (induction "is" arbitrary: c) (auto intro!: still.keeps_bind still.keeps_ret keeps_reconcile_one)
  then show ?thesis unfolding reconcileBudgetLocked_def by (intro kept still.keeps_steps keeps_save)
qed

section \<open>Admission\<close>

text \<open>The check of the ceilings only rolls days, and a success leaves room.\<close>

definition rolls :: "spool \<Rightarrow> spool \<Rightarrow> bool" where
  "rolls s t \<longleftrightarrow> bl_Reservations (m_budget t) = bl_Reservations (m_budget s) \<and> m_limits t = m_limits s \<and>
     (\<forall>sc. sb_PendingJobs (bucket_of sc (m_budget t)) = sb_PendingJobs (bucket_of sc (m_budget s))) \<and>
     (go_wf (bl_Scopes (m_budget s)) \<longrightarrow> go_wf (bl_Scopes (m_budget t)) \<and> pending_total (m_budget t) = pending_total (m_budget s))"

interpretation rolls: step_logic rolls
  by unfold_locales (auto simp: rolls_def)

lemma rolls_bucket: "keeps rolls (bucketLocked now sc)"
  by (auto simp: keeps_def rolls_def bucketLocked_def Let_def pending_put)

lemmas [kept] = rolls.keeps_steps rolls_bucket still.keeps_steps still.keeps_write keeps_save keeps_bucket keeps_settle keeps_reconcile

lemma quiet_size: "keeps only_io (total_size E n es)"
  by (induction E n es rule: total_size.induct) (auto intro!: quiet.keeps_steps)

lemma rolls_ceilings:
  "keeps rolls (scope_full now sc)" "keeps rolls spool_full" "keeps rolls (tokens_exhausted now sc e)" "keeps rolls (storage_full E)"
proof -
  have "keeps rolls (total_size E n es)" for n es by (rule keeps_mono [OF quiet_size]) (auto simp: only_io_def rolls_def)
  then show "keeps rolls (storage_full E)" unfolding storage_full_def by (intro kept)
qed (unfold scope_full_def spool_full_def tokens_exhausted_def, (intro kept)+)

lemma still_ceilings: "keeps (still lo) (checkCeilingsLocked E now sc e)"
proof -
  have "keeps (still lo) (total_size E n es)" for n es by (rule keeps_mono [OF quiet_size]) (auto simp: only_io_def still_same)
  then show ?thesis unfolding checkCeilingsLocked_def scope_full_def spool_full_def tokens_exhausted_def storage_full_def by (intro kept)
qed

lemma ceilings_leave_room:
  assumes "fst (checkCeilingsLocked E now sc e s) = Inr ()" "go_wf (bl_Scopes (m_budget s))"
  defines "t \<equiv> snd (checkCeilingsLocked E now sc e s)"
  shows "rolls s t"
    "sl_MaxPendingPerScope (m_limits t) > 0 \<Longrightarrow> sb_PendingJobs (bucket_of sc (m_budget t)) < sl_MaxPendingPerScope (m_limits t)"
    "sl_MaxPendingTotal (m_limits t) > 0 \<Longrightarrow> pending_total (m_budget t) < sl_MaxPendingTotal (m_limits t)"
proof -
  show r: "rolls s t" unfolding t_def checkCeilingsLocked_def by (rule keepsD) (intro kept rolls_ceilings)
  from assms(1) obtain x where 1: "fst (scope_full now sc s) = Inr x"
      "fst (andthen spool_full (andthen (tokens_exhausted now sc e) (storage_full E)) (snd (scope_full now sc s))) = Inr ()"
    unfolding checkCeilingsLocked_def by (rule bind_Inr)
  from 1(2) obtain y where 2: "fst (spool_full (snd (scope_full now sc s))) = Inr y" by (rule bind_Inr)
  have rs: "rolls s (snd (scope_full now sc s))" by (rule keepsD [OF rolls_ceilings(1)])
  have "sl_MaxPendingPerScope (m_limits s) > 0 \<Longrightarrow> sb_PendingJobs (bucket_of sc (m_budget s)) < sl_MaxPendingPerScope (m_limits s)"
    using 1(1) by (auto simp: scope_full_def bind_fst_snd gets_def bucketLocked_def fails_def Let_def split: if_splits)
  with r show "sl_MaxPendingPerScope (m_limits t) > 0 \<Longrightarrow> sb_PendingJobs (bucket_of sc (m_budget t)) < sl_MaxPendingPerScope (m_limits t)"
    by (simp add: rolls_def)
  have "sl_MaxPendingTotal (m_limits s) > 0 \<Longrightarrow> pending_total (m_budget s) < sl_MaxPendingTotal (m_limits s)"
    using 2 rs assms(2) by (auto simp: spool_full_def bind_fst_snd gets_def fails_def rolls_def pending_total_def total_of_def split: if_splits)
  with r assms(2) show "sl_MaxPendingTotal (m_limits t) > 0 \<Longrightarrow> pending_total (m_budget t) < sl_MaxPendingTotal (m_limits t)"
    by (simp add: rolls_def)
qed

lemma sound_open:
  assumes "sound_ledger lo l" "go_lookup (bl_Reservations l) (jb_ID job) = None"
    and room: "\<And>lim. lo = Some lim \<Longrightarrow> sl_MaxPendingPerScope lim > 0 \<Longrightarrow> sb_PendingJobs (bucket_of (job_scope job) l) < sl_MaxPendingPerScope lim"
    "\<And>lim. lo = Some lim \<Longrightarrow> sl_MaxPendingTotal lim > 0 \<Longrightarrow> pending_total l < sl_MaxPendingTotal lim"
    and b: "sb_PendingJobs b = sb_PendingJobs (bucket_of (job_scope job) l) + 1" "sb_ReservedTokens b = wrap64 (sb_ReservedTokens (bucket_of (job_scope job) l) + job_estimate job)"
  shows "sound_ledger lo (put_reservation (jb_ID job) (open_reservation now job) (put_bucket (job_scope job) b l))"
  using assms balanced_put [of l "jb_ID job" "open_reservation now job" b]
  by (auto simp: sound_ledger_def contribution_def open_reservation_def balanced_def intro!: capped_grow)

lemma keeps_reserve: "keeps (still lo) (reserveLocked E now job)"
proof -
  let ?P = "\<lambda>s. go_lookup (bl_Reservations (m_budget s)) (jb_ID job) = None"
  let ?k = "andthen (write_reservation (jb_ID job) (open_reservation now job))
           (bind (bucketLocked now (job_scope job)) (\<lambda>b.
             andthen (write_bucket (job_scope job)
                 (b\<lparr>sb_PendingJobs := sb_PendingJobs b + 1, sb_ReservedTokens := wrap64 (sb_ReservedTokens b + job_estimate job)\<rparr>))
               saveBudgetLocked))"
  let ?m = "andthen (checkCeilingsLocked E now (job_scope job) (job_estimate job)) ?k"
  have "still lo s (snd (?m s))" if n: "?P s" for s
  proof (cases "fst (checkCeilingsLocked E now (job_scope job) (job_estimate job) s)")
    case (Inl e)
    with keepsD [OF still_ceilings] show ?thesis by (simp add: bind_fst_snd)
  next
    case (Inr u)
    define t where "t = snd (checkCeilingsLocked E now (job_scope job) (job_estimate job) s)"
    let ?b = "roll_day (format_date UTC now) (bucket_of (job_scope job) (m_budget t))"
    let ?b' = "?b\<lparr>sb_PendingJobs := sb_PendingJobs ?b + 1, sb_ReservedTokens := wrap64 (sb_ReservedTokens ?b + job_estimate job)\<rparr>"
    let ?u = "t\<lparr>m_budget := put_reservation (jb_ID job) (open_reservation now job) (put_bucket (job_scope job) ?b' (m_budget t))\<rparr>"
    have st: "still lo s t" unfolding t_def by (rule keepsD [OF still_ceilings])
    have run: "?m s = saveBudgetLocked ?u"
      using Inr by (auto simp: bind_def t_def bucketLocked_def write_bucket_def write_reservation_def modify_def Let_def put_commute split: prod.split sum.split)
    have "book lo ?u" if bs: "book lo s"
    proof -
      have bt: "book lo t" using st bs by (simp add: still_def)
      have "go_wf (bl_Scopes (m_budget s))" using bs by (simp add: book_def sound_ledger_def balanced_def)
      note room = ceilings_leave_room [OF _ this, of E now "job_scope job" "job_estimate job", folded t_def]
      have ok: "fst (checkCeilingsLocked E now (job_scope job) (job_estimate job) s) = Inr ()" using Inr by simp
      have "?P t" using room(1) [OF ok] n by (simp add: rolls_def)
      moreover have "m_limits t = lim" if "lo = Some lim" for lim using bt that by (simp add: book_def)
      ultimately have "sound_ledger lo (m_budget ?u)"
        using bt room(2,3) [OF ok] by (auto simp: book_def intro!: sound_open)
      then show ?thesis using book_ledger [OF bt] by simp
    qed
    then have "still lo s ?u" by (simp add: still_def)
    then show ?thesis unfolding run by (rule still.R_trans) (rule keepsD [OF keeps_save])
  qed
  then have "tri (still lo) ?P ?m (\<lambda>_ _. True)" by (simp add: tri_def)
  then show ?thesis unfolding reserveLocked_def
    by (intro kept keeps_reservation) (simp_all add: still.tri_ret)
qed

section \<open>Every run\<close>

lemmas [kept] = keeps_reserve

lemma still_moves [kept]: "keeps (still lo) (fs_rename a b n)" "keeps (still lo) (fs_rename_out c d n)" "keeps (still lo) (releaseInFlightLocked i)"
  unfolding fs_rename_def fs_rename_out_def releaseInFlightLocked_def by (intro kept; simp add: still_same Let_def)+

lemma still_writes [kept]:
  "keeps (still lo) (writeIdempotencyIndexLocked E key i)" "keeps (still lo) (write_conversation E now m sid)" "keeps (still lo) (modify (mark_active m))"
  unfolding writeIdempotencyIndexLocked_def write_conversation_def by (intro kept; simp add: still_same mark_active_def)+

lemma still_writeMapping [kept]: "keeps (still lo) (writeMappingLocked E m)"
  unfolding writeMappingLocked_def by (intro kept) (simp_all add: still_same mark_active_def)

lemma still_updateMapping [kept]: "keeps (still lo) (updateMappingLocked E now i r st tm)"
  unfolding updateMappingLocked_def by (intro kept) (simp_all add: still_same free_lane_def)

lemma still_applyReceipt [kept]: "keeps (still lo) (applyStreamReceiptLocked E now r)"
  unfolding applyStreamReceiptLocked_def by (intro kept)

lemma still_loops [kept]:
  "keeps (still lo) (read_candidates es)" "keeps (still lo) (stat_any n ds)" "keeps (still lo) (scan_key E key ms)" "keeps (still lo) (read_receipts rs)"
  "keeps (still lo) (claim_scan now c ns)" "keeps (still lo) (scan_active E ids as)" "keeps (still lo) (stat_out n os)" "keeps (still lo) (count_ordinary k cs)"
proof -
  show "keeps (still lo) (count_ordinary k cs)" by (induction k cs rule: count_ordinary.induct) (auto intro!: kept)
  show "keeps (still lo) (read_candidates es)" by (induction es) (auto intro!: kept)
  show "keeps (still lo) (stat_any n ds)" by (induction n ds rule: stat_any.induct) (auto intro!: kept)
  show "keeps (still lo) (scan_key E key ms)" by (induction E key ms rule: scan_key.induct) (auto intro!: kept)
  show "keeps (still lo) (read_receipts rs)" by (induction rs) (auto intro!: kept)
  show "keeps (still lo) (claim_scan now c ns)" by (induction now c ns rule: claim_scan.induct) (auto intro!: kept)
  show "keeps (still lo) (scan_active E ids as)" by (induction E ids as rule: scan_active.induct) (auto intro!: kept)
  show "keeps (still lo) (stat_out n os)" by (induction n os rule: stat_out.induct) (auto intro!: kept)
qed

lemma still_outbox [kept]: "keeps (still lo) (EnqueueDelivery E d)"
  unfolding EnqueueDelivery_def enqueueDeliveryLocked_def outbox_full_def by (intro kept) (simp_all add: still_same)

lemma still_stream_loops [kept]:
  "keeps (still lo) (absorb_edits d sent b ns)" "keeps (still lo) (in_flight n ds)" "keeps (still lo) (approvalButtonsLocked E jid rid cs)"
proof -
  show "keeps (still lo) (absorb_edits d sent b ns)" by (induction d sent b ns rule: absorb_edits.induct) (auto intro!: kept simp: still_same)
  show "keeps (still lo) (in_flight n ds)" by (induction n ds rule: in_flight.induct) (auto intro!: kept)
  show "keeps (still lo) (approvalButtonsLocked E jid rid cs)"
    by (induction E jid rid cs rule: approvalButtonsLocked.induct) (auto intro!: kept simp: still_same Let_def)
qed

lemma still_stream [kept]:
  "keeps (still lo) (UpsertStatusDelivery E d)" "keeps (still lo) (CloseStatusDelivery E jid)" "keeps (still lo) (RecordStreamEvent E now job e)"
proof -
  show up: "keeps (still lo) (UpsertStatusDelivery E d)" for d
    unfolding UpsertStatusDelivery_def upsert_unsent_def edit_status_def edit_names_def put_pending_def Let_def
    by (intro kept; simp add: still_same)
  show "keeps (still lo) (CloseStatusDelivery E jid)" unfolding CloseStatusDelivery_def Let_def by (intro kept; simp add: still_same)
  show "keeps (still lo) (RecordStreamEvent E now job e)"
    unfolding RecordStreamEvent_def event_receipt_def new_receipt_def hand_over_def Let_def by (intro kept up) (simp_all add: still_same)
qed

lemma still_usage [kept]: "keeps (still lo) (RecordUsage E now job run report)"
  unfolding RecordUsage_def repairUsageTailLocked_def repair_tail_def put_usage_def usageEntriesLocked_def Let_def by (intro kept) (simp_all add: still_same)

lemma still_admit [kept]: "keeps (still lo) (admit E now job)"
  unfolding admit_def by (intro kept) (simp_all add: still_same)

lemma still_Enqueue [kept]: "keeps (still lo) (Enqueue E now hs job)"
  unfolding Enqueue_def enqueueLocked_def bind_task_def loadTaskLocked_def findIdempotencyLocked_def admit_new_def Let_def
  by (intro kept) (simp_all add: still_same)

lemma still_take [kept]: "keeps (still lo) (take_candidate E now n j)"
  unfolding take_candidate_def start_claimed_def hold_lane_def mark_running_def claim_text_def by (intro kept) (simp_all add: still_same)

lemma still_ClaimJob [kept]: "keeps (still lo) (ClaimJob E now V parked)"
proof -
  have "keeps (still lo) (claim_loop E now V cs)" for cs
    by (induction cs) (auto simp: Let_def cancel_pending_def intro!: kept)
  then show ?thesis unfolding ClaimJob_def read_cursor_def by (intro kept)
qed

lemma still_mapping_ops [kept]:
  "keeps (still lo) (CompleteJob E now i)" "keeps (still lo) (FailJob E now i)" "keeps (still lo) (RecordOutcome E now i r)"
  "keeps (still lo) (RequestCancel E now i c)" "keeps (still lo) (RequestApproval E now i c rid choice)" "keeps (still lo) (RebindObservation E j e)"
  unfolding CompleteJob_def FailJob_def RecordOutcome_def RequestCancel_def RequestApproval_def RebindObservation_def Let_def
  by ((intro kept); simp add: still_same)+

lemma still_outbox_ops [kept]:
  "keeps (still lo) (ClaimDelivery now)" "keeps (still lo) (CompleteDelivery E i)" "keeps (still lo) (UncertainDelivery E i)"
  "keeps (still lo) (RetryDelivery E i)" "keeps (still lo) (UpdateSending E d)" "keeps (still lo) (SaveOffset k)" "keeps (still lo) (activeMappingIDs E)"
  unfolding ClaimDelivery_def CompleteDelivery_def UncertainDelivery_def RetryDelivery_def UpdateSending_def SaveOffset_def activeMappingIDs_def Let_def
  by ((intro kept); simp add: still_same)+

lemma still_recover [kept]: "keeps (still lo) (recover_spool E now)"
  unfolding recover_spool_def recoverJobs_def recover_job_def recoverFiles_def rebuildMappings_def rebuild_mapping_def rebuildIdempotencyIndex_def rebuild_index_def
    recoverStreamEvents_def replay_receipt_def
  by (intro kept) (simp_all add: still_same)

lemma still_Requeue [kept]: "keeps (still lo) (RequeueObservations E now budget u)"
  unfolding RequeueObservations_def requeue_one_def by (intro kept)

text \<open>A new process reads the ledger from disk, with the limits of its environment.\<close>

lemma still_open:
  assumes "\<And>l. lo = Some l \<Longrightarrow> lim = l"
  shows "keeps (still lo) (openSpool lim)"
  unfolding keeps_def
proof
  fix s
  show "still lo s (snd (openSpool lim s))"
    using assms balanced_empty capped_empty
    by (auto simp: still_def openSpool_def bind_fst_snd modify_def loadBudget_def fs_read_def io_step_def gets_def ret_def fails_def book_def sound_ledger_def
        split: list.split option.split fault.split spool_err.split)
qed

lemma still_NewSpool: "(\<And>l. lo = Some l \<Longrightarrow> lim = l) \<Longrightarrow> keeps (still lo) (NewSpool E lim now)"
  unfolding NewSpool_def by (intro still.keeps_bind still_recover still_open)

fun restart_limits :: "sop \<Rightarrow> spoolLimits option" where
  "restart_limits (RestartOp lim now) = Some lim"
| "restart_limits _ = None"

lemma still_run_sop:
  assumes "\<And>l lim. lo = Some l \<Longrightarrow> restart_limits op = Some lim \<Longrightarrow> lim = l"
  shows "keeps (still lo) (run_sop E op)"
proof (cases op)
  case (RestartOp lim now)
  with assms show ?thesis by (simp add: still_NewSpool)
qed (simp_all add: kept)

lemma run_book:
  assumes "spool_run E A s t" "\<And>op l lim. A op \<Longrightarrow> lo = Some l \<Longrightarrow> restart_limits op = Some lim \<Longrightarrow> lim = l"
  shows "still lo s t"
proof (rule still.run_keeps [OF assms(1)])
  show "keeps (still lo) (run_sop E op)" if "A op" for op using assms(2) [OF that] by (rule still_run_sop)
qed (simp add: still_same)

end
