(* ===== verification/Spool_Shut.thy ===== *)
theory Spool_Shut
  imports Spool_Ledger
begin

text \<open>
  Closed reservations stay closed: no operation of admission opens a reservation again, and a reconciliation closes the reservation of a job that is
  neither pending nor running and has no mapping.
\<close>

definition closed_for :: "string \<Rightarrow> spool \<Rightarrow> bool" where
  "closed_for i s \<longleftrightarrow> (\<exists>r. go_lookup (bl_Reservations (m_budget s)) i = Some r \<and> rv_State r \<noteq> ''open'')"

definition reserved_for :: "string \<Rightarrow> spool \<Rightarrow> bool" where
  "reserved_for i s \<longleftrightarrow> go_lookup (bl_Reservations (m_budget s)) i \<noteq> None"

definition shut :: "string \<Rightarrow> string \<Rightarrow> spool \<Rightarrow> spool \<Rightarrow> bool" where
  "shut n i s t \<longleftrightarrow> (closed_for i s \<longrightarrow> closed_for i t) \<and> (reserved_for i s \<longrightarrow> reserved_for i t) \<and>
     (go_lookup (d_jobs s Pending) n \<noteq> None \<longrightarrow> go_lookup (d_jobs t Pending) n \<noteq> None)"

interpretation shut: step_logic "shut n i" for n i
  by unfold_locales (auto simp: shut_def closed_for_def reserved_for_def)

lemma shut_same: "bl_Reservations (m_budget t) = bl_Reservations (m_budget s) \<Longrightarrow> d_jobs t = d_jobs s \<Longrightarrow> shut n i s t"
  by (simp add: shut_def closed_for_def reserved_for_def)

lemma shut_bucket: "keeps (shut n i) (bucketLocked now sc)" "keeps (shut n i) (write_bucket sc b)" "keeps (shut n i) saveBudgetLocked"
proof -
  show "keeps (shut n i) saveBudgetLocked" unfolding saveBudgetLocked_def by (rule shut.keeps_write) (simp add: shut_same)
qed (simp_all add: keeps_def bucketLocked_def write_bucket_def modify_def Let_def shut_same)

lemma shut_reservation: "rv_State r \<noteq> ''open'' \<Longrightarrow> keeps (shut n i) (write_reservation j r)"
  by (auto simp: keeps_def write_reservation_def modify_def shut_def closed_for_def reserved_for_def gomap_simps)

lemmas [kept] = shut.keeps_steps shut.keeps_write shut_bucket shut_reservation

lemma shut_settle [kept]: "keeps (shut n i) (settleReservationLocked E now j)"
  unfolding settleReservationLocked_def usageEntriesLocked_def
  by (intro kept) (auto dest: settle_with_closes(1))

lemma shut_reconcile_one [kept]: "keeps (shut n i) (reconcile_one E now j)"
  unfolding reconcile_one_def job_live_def by (intro kept) simp

lemma shut_ceilings [kept]: "keeps (shut n i) (checkCeilingsLocked E now sc e)"
proof -
  have "keeps (shut n i) (total_size E k es)" for k es by (rule keeps_mono [OF quiet_size]) (auto simp: only_io_def shut_same)
  then show ?thesis unfolding checkCeilingsLocked_def scope_full_def spool_full_def tokens_exhausted_def storage_full_def by (intro kept)
qed

text \<open>Admission of a job whose reservation exists reserves nothing.\<close>

lemma reserve_again:
  "tri (shut n (jb_ID job)) (closed_for (jb_ID job)) (reserveLocked E now job) (\<lambda>_. closed_for (jb_ID job))"
  unfolding tri_def
proof (intro allI impI)
  fix s assume "closed_for (jb_ID job) s"
  then show "shut n (jb_ID job) s (snd (reserveLocked E now job s)) \<and> closed_for (jb_ID job) (snd (reserveLocked E now job s))"
    by (auto simp: reserveLocked_def bind_fst_snd gets_def fails_def ret_def closed_for_def shut.R_refl)
qed

lemma shut_keeps: "keeps (shut n i) m \<Longrightarrow> tri (shut n i) (closed_for i) m (\<lambda>_. closed_for i)"
  by (auto simp: keeps_def tri_def shut_def)

text \<open>A job that was reserved and never landed.\<close>

definition stranded :: "'a spool_env_scheme \<Rightarrow> string \<Rightarrow> spool \<Rightarrow> bool" where
  "stranded E i s \<longleftrightarrow> reserved_for i s \<and> go_lookup (d_jobs s Pending) (job_file E i) = None \<and> go_lookup (d_jobs s Running) (job_file E i) = None \<and>
     go_lookup (d_mappings s) (job_file E i) = None"

lemma stranded_keeps:
  assumes "keeps (shut n i) m" "keeps same_jobs m"
  shows "tri (shut n i) (stranded E i) m (\<lambda>_. stranded E i)"
  using assms unfolding keeps_def tri_def stranded_def shut_def same_jobs_def by simp

lemma stat_absent: "g s = None \<Longrightarrow> (\<And>io. g (s\<lparr>sp_io := io\<rparr>) = g s) \<Longrightarrow> fst (fs_stat g s) \<noteq> Inr ()"
  using fs_read_value [of g s] by (auto simp: fs_stat_def bind_fst_snd split: sum.splits)

lemma stranded_not_live:
  assumes "stranded E i s"
  shows "fst (job_live E i s) = Inr False"
proof -
  define t where "t = snd (fs_stat (\<lambda>s. go_lookup (d_jobs s Pending) (job_file E i)) s)"
  have "only_io s t" unfolding t_def by (rule keepsD [OF quiet.keeps_stat])
  then have "go_lookup (d_jobs t Running) (job_file E i) = None" using assms by (simp add: stranded_def only_io_fields)
  then have "fst (fs_stat (\<lambda>s. go_lookup (d_jobs s Running) (job_file E i)) t) \<noteq> Inr ()" by (intro stat_absent) simp_all
  moreover have "fst (fs_stat (\<lambda>s. go_lookup (d_jobs s Pending) (job_file E i)) s) \<noteq> Inr ()"
    using assms by (intro stat_absent) (simp_all add: stranded_def)
  ultimately show ?thesis by (simp add: job_live_def bind_fst_snd ret_def t_def)
qed

lemma reconcile_one_closes:
  assumes "stranded E i s"
  shows "closed_for i (snd (reconcile_one E now i s))"
proof -
  from assms obtain r where r: "go_lookup (bl_Reservations (m_budget s)) i = Some r" by (auto simp: stranded_def reserved_for_def)
  show ?thesis
  proof (cases "rv_State r = ''open''")
    case False
    with r show ?thesis by (simp add: reconcile_one_def bind_fst_snd gets_def ret_def closed_for_def)
  next
    case True
    define s1 where "s1 = snd (job_live E i s)"
    define s2 where "s2 = snd (loadMappingLocked E i s1)"
    have q: "only_io s s1" "only_io s1 s2" unfolding s1_def s2_def by (rule keepsD [OF quiet_reads(2)], rule load_quiet)
    have "\<exists>e. fst (loadMappingLocked E i s1) = Inl e"
      using load_value(1) [of E i s1] assms q(1) by (cases "fst (loadMappingLocked E i s1)") (auto simp: stranded_def only_io_fields)
    then obtain e where e: "fst (loadMappingLocked E i s1) = Inl e" by blast
    have "snd (reconcile_one E now i s) = snd (bind (bucketLocked now (rv_ScopeID r)) (\<lambda>b. andthen (write_bucket (rv_ScopeID r) (release_bucket b r))
        (andthen (write_reservation i (r\<lparr>rv_State := ''released''\<rparr>)) (ret True))) s2)"
      using r True e stranded_not_live [OF assms] by (simp add: reconcile_one_def bind_fst_snd [of "gets _"] bind_fst_snd [of "job_live E i"] bind_fst_snd [of "attempt _"] gets_def s1_def s2_def)
    then show ?thesis by (simp add: bind_fst_snd bucketLocked_def write_bucket_def write_reservation_def modify_def ret_def Let_def closed_for_def gomap_simps)
  qed
qed

lemma frame_reconcile_one: "keeps same_jobs (reconcile_one E now j)"
  unfolding reconcile_one_def job_live_def by (intro kept)

lemma shut_reconcile_loop [kept]: "keeps (shut n i) (reconcile_loop E now c is)"
  by (induction "is" arbitrary: c) (auto intro!: kept)

lemma reconcile_loop_closes:
  "i \<in> set is \<Longrightarrow> tri (shut n i) (stranded E i) (reconcile_loop E now c is) (\<lambda>r s. \<forall>x. r = Inr x \<longrightarrow> closed_for i s)"
proof (induction "is" arbitrary: c)
  case (Cons j js)
  show ?case
  proof (cases "j = i")
    case True
    have "tri (shut n i) (stranded E i) (reconcile_one E now i) (\<lambda>_. closed_for i)"
      using reconcile_one_closes shut_reconcile_one unfolding tri_def keeps_def by blast
    then have "tri (shut n i) (stranded E i) (reconcile_loop E now c (j # js)) (\<lambda>_. closed_for i)"
      unfolding reconcile_loop.simps True by (rule shut.tri_bind) (intro shut_keeps kept)
    then show ?thesis by (rule tri_conseq) simp_all
  next
    case False
    with Cons show ?thesis unfolding reconcile_loop.simps
      by (intro shut.tri_bind [OF stranded_keeps [OF shut_reconcile_one frame_reconcile_one]]) auto
  qed
qed simp

lemma reconcile_closes:
  "tri (shut n i) (stranded E i) (reconcileBudgetLocked E now) (\<lambda>r s. \<forall>x. r = Inr x \<longrightarrow> closed_for i s)"
  unfolding tri_def
proof (intro allI impI)
  fix s assume st: "stranded E i s"
  let ?is = "map fst (bl_Reservations (m_budget s))" and ?Q = "\<lambda>r s. \<forall>x. r = Inr x \<longrightarrow> closed_for i s"
  let ?m = "bind (reconcile_loop E now False ?is) (\<lambda>changed. if changed then saveBudgetLocked else ret ())"
  have "i \<in> set ?is" using st by (auto simp: stranded_def reserved_for_def dest: map_of_SomeD intro: rev_image_eqI)
  then have "tri (shut n i) (stranded E i) ?m ?Q"
  proof (rule shut.tri_bind [OF reconcile_loop_closes])
    have "keeps (shut n i) (if x then saveBudgetLocked else ret ())" for x by (intro kept)
    then show "tri (shut n i) (\<lambda>s. \<forall>y. Inr x = Inr y \<longrightarrow> closed_for i s) (if x then saveBudgetLocked else ret ()) ?Q" for x
      by (intro tri_conseq [OF shut_keeps]) simp_all
  qed simp
  moreover have "reconcileBudgetLocked E now s = ?m s" by (simp add: reconcileBudgetLocked_def bind_def [of "gets _"] gets_def)
  ultimately show "shut n i s (snd (reconcileBudgetLocked E now s)) \<and> ?Q (fst (reconcileBudgetLocked E now s)) (snd (reconcileBudgetLocked E now s))"
    using st by (simp add: tri_def)
qed

lemma shut_writeMapping [kept]: "keeps (shut n i) (writeMappingLocked E m)"
  unfolding writeMappingLocked_def writeIdempotencyIndexLocked_def by (intro kept) (simp_all add: shut_same mark_active_def)

text \<open>A second admission of a job whose first one stopped between the ledger and the job file.\<close>

lemma admit_stranded:
  assumes "stranded E (jb_ID job) s" "fst (admit E now job s) = Inr x"
  shows "go_lookup (d_jobs (snd (admit E now job s)) Pending) (job_file E (jb_ID job)) \<noteq> None \<and> closed_for (jb_ID job) (snd (admit E now job s))"
proof -
  let ?i = "jb_ID job" and ?n = "job_file E (jb_ID job)"
  let ?P = "\<lambda>r s. \<forall>x. r = Inr x \<longrightarrow> closed_for ?i s" and ?Q = "\<lambda>r s. \<forall>x. r = Inr x \<longrightarrow> go_lookup (d_jobs s Pending) ?n \<noteq> None \<and> closed_for ?i s"
  have id: "jb_ID (seal_secret E job) = ?i" by (simp add: seal_secret_def)
  have 5: "tri (shut ?n ?i) (\<lambda>s. go_lookup (d_jobs s Pending) ?n \<noteq> None \<and> closed_for ?i s) m ?Q" if "keeps (shut ?n ?i) m" for m :: "bool spool_m"
    using that by (auto simp: keeps_def tri_def shut_def)
  let ?w = "fs_write (\<lambda>s. s\<lparr>d_jobs := (d_jobs s)(Pending := go_update ?n (Some (seal_secret E job)) (d_jobs s Pending))\<rparr>)"
  have 4: "tri (shut ?n ?i) (closed_for ?i) ?w (\<lambda>r s. \<forall>x. r = Inr x \<longrightarrow> go_lookup (d_jobs s Pending) ?n \<noteq> None \<and> closed_for ?i s)"
    by (auto simp: tri_def fs_write_def bind_fst_snd io_step_def modify_def fails_def shut_def closed_for_def reserved_for_def gomap_simps split: list.split fault.split)
  let ?map = "if TrimSpace (jb_IdempotencyKey job) \<noteq> []
      then andthen (writeMappingLocked E ((MappingFromJob E (seal_secret E job) (jb_CreatedAt job))\<lparr>mp_Fingerprint := JobFingerprint E job\<rparr>)) (ret True) else ret True"
  have "keeps (shut ?n ?i) ?map" by (intro kept)
  from tri_conseq [OF 5 [OF this], of "\<lambda>s. \<forall>x. Inr () = Inr x \<longrightarrow> go_lookup (d_jobs s Pending) ?n \<noteq> None \<and> closed_for ?i s"]
  have 3: "tri (shut ?n ?i) (closed_for ?i) (andthen ?w ?map) ?Q" by (intro shut.tri_bind [OF 4]) simp_all
  have 2: "tri (shut ?n ?i) (closed_for ?i) (andthen (reserveLocked E now (seal_secret E job)) (andthen ?w ?map)) ?Q"
    by (rule shut.tri_bind [OF reserve_again [of ?n "seal_secret E job" E now, unfolded id]], rule 3) simp
  have "tri (shut ?n ?i) (stranded E ?i) (admit E now job) ?Q"
    unfolding admit_def
  proof (rule shut.tri_bind [where ?Q1.0 = "\<lambda>_. stranded E ?i"])
    show "tri (shut ?n ?i) (stranded E ?i) (modify (\<lambda>s. if jb_Sensitive job then s\<lparr>m_secret := go_update ?i (jb_Text job) (m_secret s)\<rparr> else s)) (\<lambda>_. stranded E ?i)"
      by (rule tri_modify) (auto simp: shut_same stranded_def reserved_for_def)
    show "tri (shut ?n ?i) (stranded E ?i) (andthen (reconcileBudgetLocked E now) (andthen (reserveLocked E now (seal_secret E job)) (andthen ?w ?map))) ?Q"
      by (rule shut.tri_bind [OF reconcile_closes], rule tri_conseq [OF 2]) auto
  qed simp
  with assms show ?thesis unfolding tri_def by blast
qed

end
