(* ===== verification/Spool_Tidy.thy ===== *)
theory Spool_Tidy
  imports Spool_Shut
begin

text \<open>
  What compaction may remove. The locale \<open>compactable\<close> states what a directory and its guard must provide for \<open>compactDirLocked\<close>; it is interpreted on
  the five directories that the code compacts.
\<close>

section \<open>The relation\<close>

definition in_archive :: "archived \<Rightarrow> spool \<Rightarrow> bool" where
  "in_archive r s \<longleftrightarrow> (\<exists>b rs. go_lookup (d_archive s) b = Some rs \<and> r \<in> set rs)"

text \<open>A file that may still be needed: a failed job whose mapping is not terminal, or whose text does not parse; a mapping that is not terminal, or waits for
  an approval.\<close>

definition failed_needed :: "'a spool_env_scheme \<Rightarrow> spool \<Rightarrow> Job option \<Rightarrow> bool" where
  "failed_needed E s c \<longleftrightarrow> (case c of None \<Rightarrow> True | Some j \<Rightarrow> (\<exists>m. stored E m s \<and> mp_JobID m = jb_ID j \<and> \<not> TerminalStatus (mp_Status m)))"

definition mapping_needed :: "JobMapping option \<Rightarrow> bool" where
  "mapping_needed c \<longleftrightarrow> (case c of None \<Rightarrow> True | Some m \<Rightarrow> \<not> TerminalStatus (mp_Status m) \<or> mp_ApprovalState m = ''pending'')"

definition kept_or_archived :: "(string, 'c) gomap \<Rightarrow> (string, 'c) gomap \<Rightarrow> (string \<Rightarrow> 'c \<Rightarrow> archived) \<Rightarrow> ('c \<Rightarrow> bool) \<Rightarrow> spool \<Rightarrow> bool" where
  "kept_or_archived m m' wrap needed t \<longleftrightarrow>
     (\<forall>n c. go_lookup m n = Some c \<longrightarrow> go_lookup m' n = Some c \<or> \<not> needed c \<and> in_archive (wrap n c) t)"

definition tidy :: "'a spool_env_scheme \<Rightarrow> spool \<Rightarrow> spool \<Rightarrow> bool" where
  "tidy E s t \<longleftrightarrow>
     d_jobs t Pending = d_jobs s Pending \<and> d_jobs t Running = d_jobs s Running \<and>
     d_outbox t OutPending = d_outbox s OutPending \<and> d_outbox t OutSending = d_outbox s OutSending \<and>
     (\<forall>r. in_archive r s \<longrightarrow> in_archive r t) \<and>
     kept_or_archived (d_jobs s Done) (d_jobs t Done) ArchivedJob (\<lambda>_. False) t \<and>
     kept_or_archived (d_jobs s Failed) (d_jobs t Failed) ArchivedJob (failed_needed E s) t \<and>
     kept_or_archived (d_outbox s OutDone) (d_outbox t OutDone) ArchivedDelivery (\<lambda>_. False) t \<and>
     kept_or_archived (d_outbox s OutFailed) (d_outbox t OutFailed) ArchivedDelivery (\<lambda>_. False) t \<and>
     kept_or_archived (d_events s) (d_events t) ArchivedEvent (\<lambda>_. False) t \<and>
     kept_or_archived (d_mappings s) (d_mappings t) ArchivedMapping mapping_needed t"

lemma kept_refl: "kept_or_archived m m wrap needed t"
  by (simp add: kept_or_archived_def)

lemma kept_trans:
  assumes "kept_or_archived m m1 wrap needed t" "kept_or_archived m1 m2 wrap needed' u" "\<And>r. in_archive r t \<Longrightarrow> in_archive r u"
    "\<And>n c. go_lookup m n = Some c \<Longrightarrow> needed c \<Longrightarrow> needed' c"
  shows "kept_or_archived m m2 wrap needed u"
  using assms unfolding kept_or_archived_def by metis

lemma kept_remove:
  assumes "in_archive (wrap n c) t" "go_lookup m n = Some c" "\<not> needed c"
  shows "kept_or_archived m (go_delete n m) wrap needed t"
  using assms by (auto simp: kept_or_archived_def gomap_simps)

lemma tidyD:
  assumes "tidy E s t"
  shows "d_jobs t Pending = d_jobs s Pending" "d_jobs t Running = d_jobs s Running" "d_outbox t OutPending = d_outbox s OutPending"
    "d_outbox t OutSending = d_outbox s OutSending" "\<And>r. in_archive r s \<Longrightarrow> in_archive r t"
    "kept_or_archived (d_jobs s Done) (d_jobs t Done) ArchivedJob (\<lambda>_. False) t"
    "kept_or_archived (d_jobs s Failed) (d_jobs t Failed) ArchivedJob (failed_needed E s) t"
    "kept_or_archived (d_outbox s OutDone) (d_outbox t OutDone) ArchivedDelivery (\<lambda>_. False) t"
    "kept_or_archived (d_outbox s OutFailed) (d_outbox t OutFailed) ArchivedDelivery (\<lambda>_. False) t"
    "kept_or_archived (d_events s) (d_events t) ArchivedEvent (\<lambda>_. False) t"
    "kept_or_archived (d_mappings s) (d_mappings t) ArchivedMapping mapping_needed t"
  using assms unfolding tidy_def by blast+

lemma tidy_stored: "tidy E s t \<Longrightarrow> stored E m s \<Longrightarrow> mapping_needed (Some m) \<Longrightarrow> stored E m t"
  using tidyD(11) unfolding kept_or_archived_def stored_def by blast

lemma tidy_needed: "tidy E s t \<Longrightarrow> failed_needed E s c \<Longrightarrow> failed_needed E t c"
  using tidy_stored [of E s t] by (cases c) (auto simp: failed_needed_def mapping_needed_def)

lemma tidy_trans:
  assumes "tidy E s t" "tidy E t u"
  shows "tidy E s u"
proof -
  note a = tidyD [OF assms(1)] and b = tidyD [OF assms(2)]
  have k: "kept_or_archived (d_jobs s Done) (d_jobs u Done) ArchivedJob (\<lambda>_. False) u"
    "kept_or_archived (d_jobs s Failed) (d_jobs u Failed) ArchivedJob (failed_needed E s) u"
    "kept_or_archived (d_outbox s OutDone) (d_outbox u OutDone) ArchivedDelivery (\<lambda>_. False) u"
    "kept_or_archived (d_outbox s OutFailed) (d_outbox u OutFailed) ArchivedDelivery (\<lambda>_. False) u"
    "kept_or_archived (d_events s) (d_events u) ArchivedEvent (\<lambda>_. False) u"
    "kept_or_archived (d_mappings s) (d_mappings u) ArchivedMapping mapping_needed u"
    by (rule kept_trans [OF a(6) b(6) b(5)], assumption, assumption, rule kept_trans [OF a(7) b(7) b(5)], assumption, erule tidy_needed [OF assms(1)],
      rule kept_trans [OF a(8) b(8) b(5)], assumption, assumption, rule kept_trans [OF a(9) b(9) b(5)], assumption, assumption,
      rule kept_trans [OF a(10) b(10) b(5)], assumption, assumption, rule kept_trans [OF a(11) b(11) b(5)], assumption, assumption)
  show ?thesis unfolding tidy_def using k a(1-5) b(1-5) by simp
qed

lemma tidy_same:
  assumes "d_jobs t = d_jobs s" "d_outbox t = d_outbox s" "d_events t = d_events s" "d_mappings t = d_mappings s" "\<And>r. in_archive r s \<Longrightarrow> in_archive r t"
  shows "tidy E s t"
  using assms(5) unfolding tidy_def assms(1-4) by (simp add: kept_refl)

interpretation tidy: step_logic "tidy E" for E :: "'a spool_env_scheme"
  by unfold_locales (auto intro: tidy_same tidy_trans simp: in_archive_def)

section \<open>Compacting a directory\<close>

definition archive_add :: "string \<Rightarrow> archived \<Rightarrow> spool \<Rightarrow> spool" where
  "archive_add b r s = s\<lparr>d_archive := go_update b ((case go_lookup (d_archive s) b of None \<Rightarrow> [] | Some rs \<Rightarrow> rs) @ [r]) (d_archive s)\<rparr>"

lemma in_archive_add: "in_archive r (archive_add b r s)"
  by (auto simp: in_archive_def archive_add_def gomap_simps)

lemma in_archive_grows:
  assumes "in_archive x s"
  shows "in_archive x (archive_add b r s)"
proof -
  from assms obtain a rs where a: "go_lookup (d_archive s) a = Some rs" "x \<in> set rs" by (auto simp: in_archive_def)
  then have "go_lookup (d_archive (archive_add b r s)) a = Some (if a = b then rs @ [r] else rs)" by (auto simp: archive_add_def gomap_simps)
  with a(2) show ?thesis unfolding in_archive_def by (metis UnI1 set_append)
qed

lemma in_archive_io: "only_io s t \<Longrightarrow> in_archive r t = in_archive r s"
  unfolding only_io_def in_archive_def by (elim exE) simp

lemma archive_add_fields [simp]:
  "d_jobs (archive_add b r s) = d_jobs s" "d_mappings (archive_add b r s) = d_mappings s" "d_outbox (archive_add b r s) = d_outbox s"
  "d_events (archive_add b r s) = d_events s"
  by (simp_all add: archive_add_def)

lemma write_cases:
  obtains v where "only_io s v" "snd (fs_write u s) = v" "fst (fs_write u s) \<noteq> Inr ()" | v where "only_io s v" "snd (fs_write u s) = u v"
proof -
  have "only_io s (snd (io_step s))" by (rule io_step_only)
  moreover obtain f where "fst (io_step s) = Inr f" using io_step_Inr by blast
  ultimately show thesis using that by (cases f) (auto simp: fs_write_def bind_fst_snd fails_def modify_def)
qed

locale compactable = step_logic R for R +
  fixes D :: "'c hot_dir" and guard :: "string \<Rightarrow> bool spool_m" and P :: "spool \<Rightarrow> bool" and G :: "string \<Rightarrow> spool \<Rightarrow> bool"
  assumes guard_quiet: "keeps only_io (guard n)"
    and guard_sound: "P s \<Longrightarrow> fst (guard n s) = Inr True \<Longrightarrow> G n s"
    and P_io: "P s \<Longrightarrow> only_io s t \<Longrightarrow> P t"
    and G_io: "G n s \<Longrightarrow> only_io s t \<Longrightarrow> G n t"
    and files_io: "only_io s t \<Longrightarrow> hd_files D t = hd_files D s"
    and add_step: "R s (archive_add b r s)"
    and add_stable: "P s \<Longrightarrow> P (archive_add b r s)" "G n s \<Longrightarrow> G n (archive_add b r s)" "hd_files D (archive_add b r s) = hd_files D s"
    and remove_step: "P s \<Longrightarrow> G n s \<Longrightarrow> go_lookup (hd_files D s) n = Some c \<Longrightarrow> in_archive (hd_wrap D n c) s \<Longrightarrow> R s (hd_remove D n s)"
    and remove_stable: "P s \<Longrightarrow> P (hd_remove D n s)" "G k s \<Longrightarrow> G k (hd_remove D n s)"
begin

definition free :: "string set \<Rightarrow> spool \<Rightarrow> bool" where
  "free K s \<longleftrightarrow> P s \<and> (\<forall>k \<in> K. G k s)"

lemma free_io: "free K s \<Longrightarrow> only_io s t \<Longrightarrow> free K t"
  unfolding free_def using P_io G_io by blast

lemma R_quiet: "only_io s t \<Longrightarrow> R s t"
  using R_io by (auto simp: only_io_def)

lemma free_add: "free K s \<Longrightarrow> free K (archive_add b r s)"
  unfolding free_def using add_stable by blast

lemma free_remove: "free K s \<Longrightarrow> free K (hd_remove D n s)"
  unfolding free_def using remove_stable by blast

lemma tri_archive:
  assumes "n \<in> K"
  shows "tri R (free K) (archiveTerminalLocked D now n) (\<lambda>_. free K)"
  unfolding archiveTerminalLocked_def
proof (rule tri_bind)
  show "tri R (free K) (fs_read (\<lambda>s. go_lookup (hd_files D s) n)) (\<lambda>r s. free K s \<and> (\<forall>c. r = Inr c \<longrightarrow> go_lookup (hd_files D s) n = Some c))"
    unfolding tri_def
  proof (intro allI impI)
    fix s assume f: "free K s"
    let ?m = "fs_read (\<lambda>s. go_lookup (hd_files D s) n)"
    have q: "only_io s (snd (?m s))" by (rule keepsD [OF quiet.keeps_read])
    have "go_lookup (hd_files D s) n = Some c" if "fst (?m s) = Inr c" for c
      by (rule fs_read_value [OF that]) (simp add: files_io [OF only_io_io])
    with q f show "R s (snd (?m s)) \<and> free K (snd (?m s)) \<and> (\<forall>c. fst (?m s) = Inr c \<longrightarrow> go_lookup (hd_files D (snd (?m s))) n = Some c)"
      by (auto simp: files_io [OF q] intro: R_quiet free_io)
  qed
  fix c
  let ?b = "map (\<lambda>x. if x = CHR ''/'' then CHR ''-'' else x) (hd_name D) @ ''-'' @ bundle_day now @ ''.jsonl.gz''" and ?w = "hd_wrap D n c"
  show "tri R (\<lambda>s. free K s \<and> (\<forall>c'. Inr c = Inr c' \<longrightarrow> go_lookup (hd_files D s) n = Some c')) (andthen (appendArchiveLocked ?b ?w) (fs_write (hd_remove D n))) (\<lambda>_. free K)"
  proof (rule tri_bind [where ?Q1.0 = "\<lambda>r s. free K s \<and> (r = Inr () \<longrightarrow> go_lookup (hd_files D s) n = Some c \<and> in_archive ?w s)"])
    show "tri R (\<lambda>s. free K s \<and> (\<forall>c'. Inr c = Inr c' \<longrightarrow> go_lookup (hd_files D s) n = Some c')) (appendArchiveLocked ?b ?w)
      (\<lambda>r s. free K s \<and> (r = Inr () \<longrightarrow> go_lookup (hd_files D s) n = Some c \<and> in_archive ?w s))"
      unfolding tri_def
    proof (intro allI impI)
      fix s assume "free K s \<and> (\<forall>c'. Inr c = Inr c' \<longrightarrow> go_lookup (hd_files D s) n = Some c')"
      then have s: "free K s" "go_lookup (hd_files D s) n = Some c" by simp_all
      have a: "appendArchiveLocked ?b ?w = fs_write (archive_add ?b ?w)" unfolding appendArchiveLocked_def archive_add_def ..
      show "R s (snd (appendArchiveLocked ?b ?w s)) \<and> free K (snd (appendArchiveLocked ?b ?w s)) \<and>
          (fst (appendArchiveLocked ?b ?w s) = Inr () \<longrightarrow> go_lookup (hd_files D (snd (appendArchiveLocked ?b ?w s))) n = Some c \<and> in_archive ?w (snd (appendArchiveLocked ?b ?w s)))"
        unfolding a
      proof (rule write_cases [of s "archive_add ?b ?w"], goal_cases)
        case (1 v)
        then show ?case using s R_quiet free_io by auto
      next
        case (2 v)
        have "R s (archive_add ?b ?w v)" using R_trans [OF R_quiet [OF 2(1)] add_step] .
        then show ?case unfolding 2(2) using s free_add [OF free_io [OF s(1) 2(1)]] in_archive_add by (simp add: add_stable(3) files_io [OF 2(1)])
      qed
    qed
    fix x :: unit
    show "tri R (\<lambda>s. free K s \<and> (Inr x = Inr () \<longrightarrow> go_lookup (hd_files D s) n = Some c \<and> in_archive ?w s)) (fs_write (hd_remove D n)) (\<lambda>_. free K)"
      unfolding tri_def
    proof (intro allI impI)
      fix s assume "free K s \<and> (Inr x = Inr () \<longrightarrow> go_lookup (hd_files D s) n = Some c \<and> in_archive ?w s)"
      then have s: "free K s" "go_lookup (hd_files D s) n = Some c" "in_archive ?w s" by simp_all
      show "R s (snd (fs_write (hd_remove D n) s)) \<and> free K (snd (fs_write (hd_remove D n) s))"
      proof (rule write_cases [of s "hd_remove D n"], goal_cases)
        case (1 v)
        then show ?case using s R_quiet free_io by auto
      next
        case (2 v)
        have "in_archive ?w v" "go_lookup (hd_files D v) n = Some c" "free K v" using s 2(1) free_io by (auto simp: in_archive_io [OF 2(1)] files_io [OF 2(1)])
        then have "R v (hd_remove D n v)" using assms unfolding free_def by (blast intro: remove_step)
        with 2(1) show ?case unfolding 2(2) using R_trans [OF R_quiet] free_remove [OF \<open>free K v\<close>] by blast
      qed
    qed
  qed simp
qed simp

lemma tri_guard: "tri R (free K) (guard n) (\<lambda>r s. free K s \<and> (r = Inr True \<longrightarrow> G n s))"
  unfolding tri_def
proof (intro allI impI)
  fix s assume f: "free K s"
  have q: "only_io s (snd (guard n s))" by (rule keepsD [OF guard_quiet])
  with f show "R s (snd (guard n s)) \<and> free K (snd (guard n s)) \<and> (fst (guard n s) = Inr True \<longrightarrow> G n (snd (guard n s)))"
    using guard_sound G_io R_quiet free_io unfolding free_def by blast
qed

lemma tri_step: "(\<And>s t. Q s \<Longrightarrow> only_io s t \<Longrightarrow> Q t) \<Longrightarrow> tri R Q io_step (\<lambda>_. Q)"
  unfolding tri_def using io_step_only R_quiet by blast

lemma tri_scan:
  "tri R (free (set rest)) (compact_scan D aged guard now k rest ns) (\<lambda>r s. \<forall>k' rest'. r = Inr (k', rest') \<longrightarrow> free (set rest') s)"
proof (induction ns arbitrary: k rest)
  case Nil
  show ?case by (auto intro: tri_ret)
next
  case (Cons n ns)
  let ?Q = "\<lambda>r s. \<forall>k' rest'. r = Inr (k', rest') \<longrightarrow> free (set rest') s" and ?loop = "compact_scan D aged guard now"
  note IH = Cons.IH
  have skip: "tri R (free K) (?loop j rest ns) ?Q" if "set rest \<subseteq> K" for K j
    by (rule tri_conseq [OF IH]) (use that in \<open>auto simp: free_def\<close>)
  have arch: "tri R (free (insert n (set rest))) (andthen (archiveTerminalLocked D now n) (?loop (Suc k) rest ns)) ?Q"
    by (rule tri_bind [OF tri_archive]) (simp_all add: skip subset_insertI)
  have more: "tri R (free (insert n (set rest))) (?loop (Suc k) (rest @ [n]) ns) ?Q"
    by (rule tri_conseq [OF IH]) (auto simp: free_def)
  have next_one: "tri R (free (insert n (set rest))) (bind io_step (\<lambda>g. if g \<noteq> Fine then fails IOError else ?loop (Suc k) (rest @ [n]) ns)) ?Q"
    by (rule tri_bind [OF tri_step [OF free_io]], assumption, assumption, rule tri_if, rule tri_fails, simp, rule more, simp)
  have taken: "tri R (free (insert n (set rest))) (bind io_step (\<lambda>f. if f = Fine \<and> aged n then andthen (archiveTerminalLocked D now n) (?loop (Suc k) rest ns)
      else bind io_step (\<lambda>g. if g \<noteq> Fine then fails IOError else ?loop (Suc k) (rest @ [n]) ns))) ?Q"
    by (rule tri_bind [OF tri_step [OF free_io]], assumption, assumption, rule tri_if, rule arch, rule next_one, simp)
  have "tri R (free (set rest)) (bind (guard n) (\<lambda>ok. if \<not> ok then ?loop k rest ns else bind io_step (\<lambda>f.
      if f = Fine \<and> aged n then andthen (archiveTerminalLocked D now n) (?loop (Suc k) rest ns)
      else bind io_step (\<lambda>g. if g \<noteq> Fine then fails IOError else ?loop (Suc k) (rest @ [n]) ns)))) ?Q"
  proof (rule tri_bind [OF tri_guard], rule tri_if)
    fix ok
    show "tri R (\<lambda>s. free (set rest) s \<and> (Inr ok = Inr True \<longrightarrow> G n s)) (?loop k rest ns) ?Q" by (rule tri_conseq [OF skip [of "set rest"]]) simp_all
    assume "\<not> \<not> ok"
    then show "tri R (\<lambda>s. free (set rest) s \<and> (Inr ok = Inr True \<longrightarrow> G n s)) (bind io_step (\<lambda>f. if f = Fine \<and> aged n then andthen (archiveTerminalLocked D now n) (?loop (Suc k) rest ns)
      else bind io_step (\<lambda>g. if g \<noteq> Fine then fails IOError else ?loop (Suc k) (rest @ [n]) ns))) ?Q"
      by (intro tri_conseq [OF taken]) (auto simp: free_def)
  qed simp
  with skip [of "set rest" k] show ?case by simp
qed

lemma tri_archive_all: "set ns \<subseteq> K \<Longrightarrow> tri R (free K) (for_each ns (archiveTerminalLocked D now)) (\<lambda>_. free K)"
proof (induction ns)
  case (Cons n ns)
  then show ?case unfolding for_each.simps by (intro tri_bind [OF tri_archive]) auto
qed (simp add: tri_ret)

text \<open>A directory whose guard is sound is compacted within the relation.\<close>

theorem compact_dir: "tri R P (compactDirLocked D mtime cutoff guard maxFiles now) (\<lambda>_ _. True)"
  unfolding compactDirLocked_def
proof (rule tri_bind [where ?Q1.0 = "\<lambda>_. P"])
  show "tri R P (fs_readdir (hd_files D)) (\<lambda>_. P)"
    unfolding tri_def using keepsD [OF quiet.keeps_readdir] R_quiet P_io by blast
  fix es :: "(string \<times> 'c) list"
  let ?fin = "\<lambda>(seen, rest). if maxFiles \<le> 0 \<or> int seen \<le> maxFiles \<or> rest = [] then ret ()
       else for_each (take (seen - nat maxFiles) (sort_key (mtime (hd_name D)) rest)) (archiveTerminalLocked D now)"
  have ev: "tri R (free (set rest)) (?fin (k, rest)) (\<lambda>_ _. True)" for k rest
  proof -
    have "set (take (k - nat maxFiles) (sort_key (mtime (hd_name D)) rest)) \<subseteq> set rest" by (metis set_take_subset set_sort)
    from tri_archive_all [OF this] show ?thesis by (auto intro: tri_ret tri_conseq)
  qed
  show "tri R P (bind (compact_scan D (\<lambda>n. mtime (hd_name D) n < cutoff) guard now 0 [] (map fst es)) ?fin) (\<lambda>_ _. True)"
  proof (rule tri_bind)
    show "tri R P (compact_scan D (\<lambda>n. mtime (hd_name D) n < cutoff) guard now 0 [] (map fst es)) (\<lambda>r s. \<forall>k' rest'. r = Inr (k', rest') \<longrightarrow> free (set rest') s)"
      by (rule tri_conseq [OF tri_scan]) (simp_all add: free_def)
    show "tri R (\<lambda>s. \<forall>k' rest'. Inr x = Inr (k', rest') \<longrightarrow> free (set rest') s) (?fin x) (\<lambda>_ _. True)" for x
      using ev [of "snd x" "fst x"] by (cases x) (auto intro: tri_conseq)
  qed simp
qed simp

end

section \<open>The directories\<close>

lemma add_tidy: "tidy E s (archive_add b r s)"
  by (rule tidy_same) (simp_all add: in_archive_grows)

lemma remove_archive [simp]:
  "in_archive r (s\<lparr>d_jobs := j\<rparr>) = in_archive r s" "in_archive r (s\<lparr>d_outbox := q\<rparr>) = in_archive r s" "in_archive r (s\<lparr>d_events := e\<rparr>) = in_archive r s"
  "in_archive r (s\<lparr>d_mappings := m\<rparr>) = in_archive r s"
  by (simp_all add: in_archive_def)

lemma remove_tidy:
  "go_lookup (d_jobs s Done) n = Some c \<Longrightarrow> in_archive (ArchivedJob n c) s \<Longrightarrow> tidy E s (hd_remove (jobs_dir l Done) n s)"
  "go_lookup (d_jobs s Failed) n = Some c \<Longrightarrow> in_archive (ArchivedJob n c) s \<Longrightarrow> \<not> failed_needed E s c \<Longrightarrow> tidy E s (hd_remove (jobs_dir l Failed) n s)"
  "go_lookup (d_outbox s OutDone) n = Some d \<Longrightarrow> in_archive (ArchivedDelivery n d) s \<Longrightarrow> tidy E s (hd_remove (outbox_dir l OutDone) n s)"
  "go_lookup (d_outbox s OutFailed) n = Some d \<Longrightarrow> in_archive (ArchivedDelivery n d) s \<Longrightarrow> tidy E s (hd_remove (outbox_dir l OutFailed) n s)"
  "go_lookup (d_events s) n = Some e \<Longrightarrow> in_archive (ArchivedEvent n e) s \<Longrightarrow> tidy E s (hd_remove events_dir n s)"
  "go_lookup (d_mappings s) n = Some m \<Longrightarrow> in_archive (ArchivedMapping n m) s \<Longrightarrow> \<not> mapping_needed m \<Longrightarrow> tidy E s (hd_remove mappings_dir n s)"
  unfolding tidy_def jobs_dir_def outbox_dir_def events_dir_def mappings_dir_def
  by (simp_all add: kept_refl kept_remove)

lemma dir_files [simp]:
  "hd_files (jobs_dir l d) s = d_jobs s d" "hd_files (outbox_dir l q) s = d_outbox s q" "hd_files events_dir s = d_events s" "hd_files mappings_dir s = d_mappings s"
  "hd_wrap (jobs_dir l d) = ArchivedJob" "hd_wrap (outbox_dir l q) = ArchivedDelivery" "hd_wrap events_dir = ArchivedEvent" "hd_wrap mappings_dir = ArchivedMapping"
  by (simp_all add: jobs_dir_def outbox_dir_def events_dir_def mappings_dir_def)

lemma only_io_events: "only_io s t \<Longrightarrow> d_events t = d_events s"
  by (auto simp: only_io_def)

lemma quiet_guards: "keeps only_io (no_guard n)" "keeps only_io (failedTerminalLocked E n)" "keeps only_io (receiptClosed E ids n)" "keeps only_io (ret False)"
proof -
  show "keeps only_io (no_guard n)" unfolding no_guard_def by (intro quiet.keeps_steps)
  show "keeps only_io (failedTerminalLocked E n)" unfolding failedTerminalLocked_def by (intro kept quiet.keeps_steps)
  show "keeps only_io (receiptClosed E ids n)" unfolding receiptClosed_def by (intro kept quiet.keeps_steps)
  show "keeps only_io (ret False)" by (intro quiet.keeps_steps)
qed

lemmas compact_facts = quiet_guards only_io_fields only_io_events add_tidy

interpretation done_dir: compactable "tidy E" "jobs_dir l Done" no_guard "\<lambda>_. True" "\<lambda>_ _. True" for E :: "'a spool_env_scheme" and l
  by unfold_locales (auto simp: compact_facts intro: remove_tidy)

interpretation out_done_dir: compactable "tidy E" "outbox_dir l OutDone" no_guard "\<lambda>_. True" "\<lambda>_ _. True" for E :: "'a spool_env_scheme" and l
  by unfold_locales (auto simp: compact_facts intro: remove_tidy)

interpretation out_failed_dir: compactable "tidy E" "outbox_dir l OutFailed" no_guard "\<lambda>_. True" "\<lambda>_ _. True" for E :: "'a spool_env_scheme" and l
  by unfold_locales (auto simp: compact_facts intro: remove_tidy)

interpretation receipts_dir: compactable "tidy E" events_dir "receiptClosed E ids" "\<lambda>_. True" "\<lambda>_ _. True" for E :: "'a spool_env_scheme" and ids
  by unfold_locales (auto simp: compact_facts intro: remove_tidy)

text \<open>A failed job leaves only if its mapping is gone or terminal.\<close>

lemma failed_guard_sound:
  assumes "fst (failedTerminalLocked E n s) = Inr True" "go_lookup (d_jobs s Failed) n = Some c"
  shows "\<not> failed_needed E s c"
proof -
  let ?rd = "fs_read (\<lambda>s. go_lookup (d_jobs s Failed) n)"
  have q: "only_io s (snd (?rd s))" by (rule keepsD [OF quiet.keeps_read])
  from assms(1) obtain j where j: "fst (?rd s) = Inr (Some j)"
    by (auto simp: failedTerminalLocked_def bind_fst_snd ret_def split: sum.splits option.splits)
  with fs_read_value [OF this] assms(2) have c: "c = Some j" by simp
  let ?l = "fst (loadMappingLocked E (jb_ID j) (snd (?rd s)))"
  have l: "?l = Inl NotExist \<or> (\<exists>m. ?l = Inr m \<and> TerminalStatus (mp_Status m))"
    using assms(1) j by (auto simp: failedTerminalLocked_def bind_fst_snd ret_def split: sum.splits option.splits spool_err.splits)
  show ?thesis
    using l load_absent [of E "jb_ID j" "snd (?rd s)"] load_value [of E "jb_ID j" "snd (?rd s)"] q
    by (auto simp: c failed_needed_def stored_def only_io_fields)
qed

lemma failed_needed_cong: "d_mappings t = d_mappings s \<Longrightarrow> failed_needed E t c = failed_needed E s c"
  by (simp add: failed_needed_def stored_def split: option.split)

interpretation failed_dir: compactable "tidy E" "jobs_dir l Failed" "failedTerminalLocked E" "\<lambda>_. True"
  "\<lambda>n s. \<forall>c. go_lookup (d_jobs s Failed) n = Some c \<longrightarrow> \<not> failed_needed E s c" for E :: "'a spool_env_scheme" and l
proof (unfold_locales, goal_cases)
  case (2 s n)
  then show ?case using failed_guard_sound by blast
next
  case (4 n s t)
  then show ?case using failed_needed_cong [of t s E] by (auto simp: only_io_fields)
next
  case (8 n s b r)
  then show ?case using failed_needed_cong [of "archive_add b r s" s E] by auto
next
  case (12 k s n)
  then show ?case using failed_needed_cong [of "hd_remove (jobs_dir l Failed) n s" s E] by (auto simp: jobs_dir_def gomap_simps)
qed (auto simp: compact_facts intro: remove_tidy)

lemma tidy_mapping:
  "go_lookup (d_mappings s) n = Some m \<Longrightarrow> in_archive (ArchivedMapping n m) s \<Longrightarrow> \<not> mapping_needed m \<Longrightarrow> tidy E s (s\<lparr>d_mappings := go_delete n (d_mappings s)\<rparr>)"
  using remove_tidy(6) by (simp add: mappings_dir_def)

interpretation mapping_dir: compactable "tidy E" mappings_dir "\<lambda>_. ret False" "\<lambda>_. True"
  "\<lambda>n s. \<forall>c. go_lookup (d_mappings s) n = Some c \<longrightarrow> \<not> mapping_needed c" for E :: "'a spool_env_scheme"
  by unfold_locales (auto simp: compact_facts ret_def mappings_dir_def gomap_simps intro: tidy_mapping)

section \<open>Compaction\<close>

lemmas [kept] = tidy.keeps_steps tidy.keeps_write

lemma tidy_mapping_step: "keeps (tidy E) (compact_mapping E mtime cutoff now n)"
  unfolding compact_mapping_def keeps_tri
proof (rule tidy.tri_bind)
  let ?G = "\<lambda>c s. go_lookup (d_mappings s) n = Some c"
  have io: "?G c s \<Longrightarrow> only_io s t \<Longrightarrow> ?G c t" for c s t by (simp add: only_io_fields)
  show "tri (tidy E) (\<lambda>_. True) (fs_read (\<lambda>s. go_lookup (d_mappings s) n)) (\<lambda>r s. \<forall>c. r = Inr c \<longrightarrow> ?G c s)"
    unfolding tri_def
  proof (intro allI impI conjI)
    fix s c
    have q: "only_io s (snd (fs_read (\<lambda>s. go_lookup (d_mappings s) n) s))" by (rule keepsD [OF quiet.keeps_read])
    then show "tidy E s (snd (fs_read (\<lambda>s. go_lookup (d_mappings s) n) s))" by (rule mapping_dir.R_quiet)
    assume "fst (fs_read (\<lambda>s. go_lookup (d_mappings s) n) s) = Inr c"
    from fs_read_value [OF this] q show "?G c (snd (fs_read (\<lambda>s. go_lookup (d_mappings s) n) s))" by (simp add: only_io_fields)
  qed
  fix c
  let ?idx = "\<lambda>m. if TrimSpace (mp_IdempotencyKey m) \<noteq> []
      then bind (attempt (fs_write (\<lambda>s. s\<lparr>d_by_key := go_delete (idempotencyIndexPath E (mp_IdempotencyKey m)) (d_by_key s)\<rparr>))) (\<lambda>_. ret ()) else ret ()"
  let ?go = "\<lambda>m. bind io_step (\<lambda>f. if \<not> (f = Fine \<and> mtime ''mappings'' n < cutoff) then ret ()
      else bind (job_live E (mp_JobID m)) (\<lambda>live. if live then ret () else andthen (archiveTerminalLocked mappings_dir now n) (?idx m)))"
  have arch: "tri (tidy E) (?G (Some m)) (archiveTerminalLocked mappings_dir now n) (\<lambda>_ _. True)" if "\<not> mapping_needed (Some m)" for m
    by (rule tri_conseq [OF mapping_dir.tri_archive [of n "{n}"]]) (use that in \<open>auto simp: mapping_dir.free_def\<close>)
  have idx: "keeps (tidy E) (?idx m)" for m by (intro kept) (rule tidy_same; simp add: in_archive_def)
  have go: "tri (tidy E) (?G (Some m)) (?go m) (\<lambda>_ _. True)" if "\<not> mapping_needed (Some m)" for m
  proof (rule tidy.tri_bind [where ?Q1.0 = "\<lambda>_. ?G (Some m)"])
    show "tri (tidy E) (?G (Some m)) io_step (\<lambda>_. ?G (Some m))" by (rule mapping_dir.tri_step) (rule io)
    have "tri (tidy E) (?G (Some m)) (job_live E (mp_JobID m)) (\<lambda>_. ?G (Some m))"
      unfolding tri_def using keepsD [OF quiet_reads(2)] mapping_dir.R_quiet io by blast
    then have "tri (tidy E) (?G (Some m)) (bind (job_live E (mp_JobID m)) (\<lambda>live. if live then ret () else andthen (archiveTerminalLocked mappings_dir now n) (?idx m))) (\<lambda>_ _. True)"
      by (rule tidy.tri_bind) (intro tri_if tidy.tri_ret TrueI tidy.tri_bind [OF arch [OF that]] tri_True idx | simp)+
    then show "tri (tidy E) (?G (Some m)) (if \<not> (f = Fine \<and> mtime ''mappings'' n < cutoff) then ret ()
      else bind (job_live E (mp_JobID m)) (\<lambda>live. if live then ret () else andthen (archiveTerminalLocked mappings_dir now n) (?idx m))) (\<lambda>_ _. True)" for f
      by (simp add: tidy.tri_ret)
  qed simp
  show "tri (tidy E) (\<lambda>s. \<forall>c'. Inr c = Inr c' \<longrightarrow> ?G c' s) (case c of None \<Rightarrow> ret () | Some m \<Rightarrow>
      if mp_JobID m = [] \<or> \<not> TerminalStatus (mp_Status m) \<or> mp_ApprovalState m = ''pending'' then ret () else ?go m) (\<lambda>_ _. True)"
  proof (cases c)
    case (Some m)
    then show ?thesis using tri_conseq [OF go [of m]] by (auto simp: mapping_needed_def intro: tidy.tri_ret)
  qed (simp add: tidy.tri_ret)
qed simp

lemma tidy_dir: "keeps (tidy E) (compactDirLocked (jobs_dir l Done) mtime cutoff no_guard k now)"
    "keeps (tidy E) (compactDirLocked (jobs_dir l Failed) mtime cutoff (failedTerminalLocked E) k now)"
    "keeps (tidy E) (compactDirLocked (outbox_dir l OutDone) mtime cutoff no_guard k now)"
    "keeps (tidy E) (compactDirLocked (outbox_dir l OutFailed) mtime cutoff no_guard k now)"
    "keeps (tidy E) (compactDirLocked events_dir mtime cutoff (receiptClosed E ids) k now)"
  unfolding keeps_tri by (rule done_dir.compact_dir failed_dir.compact_dir out_done_dir.compact_dir out_failed_dir.compact_dir receipts_dir.compact_dir)+

lemma tidy_usage: "keeps (tidy E) (compactUsageLocked E' now retention k)"
proof -
  have u: "tidy E s (s\<lparr>d_usage := f\<rparr>)" for s f by (rule tidy_same) (simp_all add: in_archive_def)
  have ap: "keeps (tidy E) (appendArchiveLocked b r)" for b r
    using tidy.keeps_write [OF add_tidy] unfolding appendArchiveLocked_def archive_add_def .
  show ?thesis
    unfolding compactUsageLocked_def repairUsageTailLocked_def repair_tail_def put_usage_def usageEntriesLocked_def by (intro kept ap u tidy.R_refl)
qed

theorem tidy_hot: "keeps (tidy E) (compact_hot E mtime ok now retention lim)"
  unfolding compact_hot_def liveDeliveryIDsLocked_def compact_mappings_def by (intro kept tidy_dir tidy_usage tidy_mapping_step)

text \<open>The purge touches the archive only.\<close>

definition archive_only :: "spool \<Rightarrow> spool \<Rightarrow> bool" where
  "archive_only s t \<longleftrightarrow> (\<exists>a io. t = s\<lparr>d_archive := a, sp_io := io\<rparr>)"

lemma archive_onlyI: "archive_only s (s\<lparr>d_archive := a\<rparr>)" "archive_only s (s\<lparr>sp_io := io\<rparr>)" "archive_only s s"
proof -
  have "s\<lparr>d_archive := a\<rparr> = s\<lparr>d_archive := a, sp_io := sp_io s\<rparr>" "s\<lparr>sp_io := io\<rparr> = s\<lparr>d_archive := d_archive s, sp_io := io\<rparr>"
    "s = s\<lparr>d_archive := d_archive s, sp_io := sp_io s\<rparr>" by simp_all
  then show "archive_only s (s\<lparr>d_archive := a\<rparr>)" "archive_only s (s\<lparr>sp_io := io\<rparr>)" "archive_only s s" unfolding archive_only_def by blast+
qed

interpretation purged: step_logic archive_only
  by unfold_locales (simp add: archive_onlyI, fastforce simp: archive_only_def, simp add: archive_onlyI)

lemma purge_keeps: "keeps archive_only (purgeArchivesLocked mtm weight now retention maxBytes)"
proof -
  have "keeps archive_only (purge_loop mtm weight cutoff maxBytes bytes ns)" for cutoff bytes ns
  proof (induction ns arbitrary: bytes)
    case (Cons n ns)
    then show ?case unfolding purge_loop.simps by (intro keeps_if purged.keeps_ret purged.keeps_bind purged.keeps_write archive_onlyI)
  qed (simp add: purged.keeps_ret)
  then show ?thesis unfolding purgeArchivesLocked_def by (intro keeps_Let keeps_if purged.keeps_steps)
qed

end
