(* ===== verification/Spool_Orphan.thy ===== *)
theory Spool_Orphan
  imports Spool_Tidy
begin

text \<open>
  A receipt of the stream whose job is gone: no mapping and no job file can give it one. Recovery keeps it that way until it replays
  the receipt, and the replay then fails.
\<close>

section \<open>Nothing brings a mapping into being\<close>

definition bare :: "'a spool_env_scheme \<Rightarrow> string \<Rightarrow> spool \<Rightarrow> bool" where
  "bare E n s \<longleftrightarrow> go_lookup (d_mappings s) n = None \<and> (\<forall>d k j. go_lookup (d_jobs s d) k = Some (Some j) \<longrightarrow> job_file E (jb_ID j) \<noteq> n)"

definition stays_bare :: "'a spool_env_scheme \<Rightarrow> string \<Rightarrow> spool \<Rightarrow> spool \<Rightarrow> bool" where
  "stays_bare E n s t \<longleftrightarrow> (bare E n s \<longrightarrow> bare E n t)"

interpretation bare: step_logic "stays_bare E n" for E :: "'a spool_env_scheme" and n
proof (unfold_locales, goal_cases)
  case (3 s io)
  show ?case unfolding stays_bare_def bare_def by simp
qed (simp_all add: stays_bare_def)

lemma same_jobs_bare: "same_jobs s t \<Longrightarrow> stays_bare E n s t"
  by (simp add: same_jobs_def stays_bare_def bare_def)

lemma frame_bare: "keeps same_jobs m \<Longrightarrow> keeps (stays_bare E n) m"
  by (erule keeps_mono) (rule same_jobs_bare)

lemmas [kept] = bare.keeps_steps

lemma bare_attempt_load [kept]:
  assumes "\<And>r. (\<And>m. r = Inr m \<Longrightarrow> mp_JobID m = i \<and> job_file E i \<noteq> n) \<Longrightarrow> keeps (stays_bare E n) (f r)"
  shows "keeps (stays_bare E n) (bind (attempt (loadMappingLocked E i)) f)"
  unfolding keeps_def stays_bare_def
proof (intro allI impI)
  fix s assume b: "bare E n s"
  let ?r = "fst (loadMappingLocked E i s)" and ?t = "snd (loadMappingLocked E i s)"
  have "bare E n ?t" using b same_jobs_bare [OF only_io_same [OF load_quiet]] unfolding stays_bare_def by blast
  moreover have "mp_JobID m = i \<and> job_file E i \<noteq> n" if "?r = Inr m" for m
    using load_value [OF that] b by (auto simp: bare_def)
  ultimately show "bare E n (snd (bind (attempt (loadMappingLocked E i)) f s))"
    using keepsD [OF assms, of ?r ?t] by (simp add: bind_fst_snd stays_bare_def)
qed

lemma bare_load:
  assumes "\<And>m. mp_JobID m = i \<Longrightarrow> job_file E i \<noteq> n \<Longrightarrow> keeps (stays_bare E n) (f m)"
  shows "keeps (stays_bare E n) (bind (loadMappingLocked E i) f)"
proof -
  have "bind (loadMappingLocked E i) f = bind (attempt (loadMappingLocked E i)) (\<lambda>r. case r of Inl e \<Rightarrow> fails e | Inr m \<Rightarrow> f m)"
    by (rule ext) (auto simp: bind_def attempt_def fails_def split: prod.split sum.split)
  then show ?thesis using assms by (simp only:) (intro kept; simp)
qed

lemma bare_write: "job_file E (mp_JobID m) \<noteq> n \<Longrightarrow> keeps (stays_bare E n) (writeMappingLocked E m)"
  unfolding writeMappingLocked_def
  by (intro kept frame_bare [OF frame_index] bare.keeps_write) (auto simp: stays_bare_def bare_def gomap_simps mark_active_def)

lemma bare_rename [kept]: "keeps (stays_bare E n) (fs_rename a b k)"
  unfolding keeps_def stays_bare_def
proof (intro allI impI)
  fix s assume b: "bare E n s"
  have "only_io s (snd (io_step s))" by (rule io_step_only)
  with b have "bare E n (snd (io_step s))" by (simp add: bare_def only_io_fields)
  then show "bare E n (snd (fs_rename a b k s))"
    by (auto simp: fs_rename_def bind_fst_snd gets_def modify_def fails_def bare_def gomap_simps Let_def split: sum.splits option.splits if_splits fault.splits)
qed

lemma bare_update: "keeps (stays_bare E n) (updateMappingLocked E now i r status terminal)"
proof -
  have "mp_JobID (outcome_applied now m r status terminal) = mp_JobID m" for m by (simp add: outcome_applied_def)
  moreover have "stays_bare E n s (free_lane m s)" for m s by (rule same_jobs_bare) (simp add: free_lane_def same_jobs_def)
  ultimately show ?thesis
    unfolding updateMappingLocked_def Let_def
    by (intro bare_load keeps_option keeps_if keeps_modify bare.keeps_bind bare.keeps_ret bare.keeps_fails
      frame_bare [OF frame_conversation] frame_bare [OF frame_settle] bare_write) simp_all
qed

lemma bare_receipt: "keeps (stays_bare E n) (applyStreamReceiptLocked E now r)"
  unfolding applyStreamReceiptLocked_def
  by (intro bare_load keeps_if bare.keeps_fails bare.keeps_ret bare.keeps_bind bare_update bare_write) (simp add: receipt_marks_def Let_def split: option.split)

lemma bare_replay: "keeps (stays_bare E n) (replay_receipt E now r)"
  unfolding replay_receipt_def
  by (intro bare.keeps_bind bare_receipt keeps_if keeps_option bare.keeps_ret frame_bare [OF frame_EnqueueDelivery])

lemma bare_recover_job: "keeps (stays_bare E n) (recover_job E now k)"
  unfolding recover_job_def by (intro kept bare_write; simp)

lemma bare_rebuild: "keeps (stays_bare E n) (rebuild_mapping E d k)"
  unfolding keeps_def stays_bare_def
proof (intro allI impI)
  fix s assume b: "bare E n s"
  let ?rd = "fs_read (\<lambda>s. go_lookup (d_jobs s d) k)"
  have t: "bare E n (snd (?rd s))" using keepsD [OF bare.keeps_read] b unfolding stays_bare_def by blast
  show "bare E n (snd (rebuild_mapping E d k s))"
  proof (cases "fst (?rd s)")
    case (Inl e)
    with t show ?thesis by (simp add: rebuild_mapping_def bind_fst_snd [of ?rd])
  next
    case (Inr c)
    show ?thesis
    proof (cases c)
      case None
      with t Inr show ?thesis by (simp add: rebuild_mapping_def bind_fst_snd [of ?rd] ret_def)
    next
      case (Some job)
      have "job_file E (jb_ID job) \<noteq> n" using fs_read_value [OF Inr] b by (auto simp: bare_def Some)
      then have w: "keeps (stays_bare E n) (writeMappingLocked E ((MappingFromJob E job c')\<lparr>mp_Status := st\<rparr>))" for c' st
        by (intro bare_write) (simp add: MappingFromJob_def)
      define rest where "rest = (if jb_IdempotencyKey job = [] then ret ()
         else bind (attempt (fs_stat (\<lambda>s. go_lookup (d_mappings s) (job_file E (jb_ID job))))) (\<lambda>st.
           andthen (if st = Inl NotExist then writeMappingLocked E ((MappingFromJob E job (jb_CreatedAt job))\<lparr>mp_Status := dir_status d\<rparr>) else ret ())
             (bind (attempt (loadMappingLocked E (jb_ID job))) (\<lambda>r. case r of
                Inr m \<Rightarrow> if mappingHoldsContext m then modify (\<lambda>s. s\<lparr>m_inFlight := go_update (mapping_lane m) (jb_ID job) (m_inFlight s)\<rparr>) else ret ()
              | Inl _ \<Rightarrow> ret ()))))"
      have "keeps (stays_bare E n) rest" unfolding rest_def by (intro kept w) (rule same_jobs_bare, simp add: same_jobs_def)
      moreover have "snd (rebuild_mapping E d k s) = snd (rest (snd (?rd s)))" using Inr by (simp add: rebuild_mapping_def bind_fst_snd [of ?rd] Some rest_def)
      ultimately show ?thesis using t by (simp add: keeps_def stays_bare_def)
    qed
  qed
qed

section \<open>The receipts are read\<close>

definition same_events :: "spool \<Rightarrow> spool \<Rightarrow> bool" where
  "same_events s t \<longleftrightarrow> d_events t = d_events s"

interpretation events: step_logic same_events
  by unfold_locales (simp_all add: same_events_def)

lemmas [kept] = events.keeps_steps events.keeps_write

lemma events_writes [kept]:
  "keeps same_events (writeMappingLocked E m)" "keeps same_events (fs_rename a b k)" "keeps same_events (fs_rename_out c d k)"
  "keeps same_events (writeIdempotencyIndexLocked E key i)"
  unfolding writeMappingLocked_def writeIdempotencyIndexLocked_def fs_rename_def fs_rename_out_def
  by (intro kept; simp add: same_events_def mark_active_def Let_def)+

lemma before_replay:
  fixes R :: "spool \<Rightarrow> spool \<Rightarrow> bool"
  assumes "step_logic R" "keeps R (openSpool lim)" "keeps R (recoverJobs E now)" "keeps R (recoverFiles OutSending OutFailed)" "keeps R (rebuildMappings E)"
    "keeps R (rebuildIdempotencyIndex E)" "fst (NewSpool E lim now s) = Inr ()"
  obtains t where "R s t" "fst (recoverStreamEvents E now t) = Inr ()"
proof -
  note tr = step_logic.R_trans [OF assms(1)]
  from assms(7) have 1: "fst (recover_spool E now (snd (openSpool lim s))) = Inr ()" unfolding NewSpool_def by (auto elim: bind_Inr)
  let ?s1 = "snd (openSpool lim s)" let ?s2 = "snd (recoverJobs E now ?s1)" let ?s3 = "snd (recoverFiles OutSending OutFailed ?s2)"
  let ?s4 = "snd (rebuildMappings E ?s3)" let ?s5 = "snd (rebuildIdempotencyIndex E ?s4)"
  from 1 have "fst (recoverStreamEvents E now ?s5) = Inr ()" unfolding recover_spool_def by (elim bind_Inr) simp
  moreover have "R s ?s5" by (rule tr [OF tr [OF tr [OF tr]]]) (rule keepsD, rule assms)+
  ultimately show thesis using that by blast
qed

lemma read_receipts_has:
  assumes "fst (read_receipts es s) = Inr rs" "e \<in> set es" "HasSuffix (fst e) ''.json''" "go_lookup (d_events s) (fst e) = Some (Receipt r)"
  shows "r \<in> set rs"
  using assms
proof (induction es arbitrary: s rs)
  case (Cons x es)
  let ?rd = "fs_read (\<lambda>s. go_lookup (d_events s) (fst x))"
  have q: "only_io s (snd (?rd s))" by (rule keepsD [OF quiet.keeps_read])
  show ?case
  proof (cases "HasSuffix (fst x) ''.json''")
    case False
    with Cons show ?thesis by auto
  next
    case True
    with Cons.prems(1) obtain c where c: "fst (?rd s) = Inr c" by (auto elim: bind_Inr)
    from fs_read_value [OF c] have v: "go_lookup (d_events s) (fst x) = Some c" by simp
    have e: "go_lookup (d_events (snd (?rd s))) (fst e) = Some (Receipt r)" using Cons.prems(4) q by (simp add: only_io_events)
    show ?thesis
    proof (cases c)
      case (Receipt r')
      with Cons.prems(1) True c obtain rs' where rs': "fst (read_receipts es (snd (?rd s))) = Inr rs'" "rs = r' # rs'"
        by (auto simp: bind_fst_snd fails_def ret_def split: sum.splits if_splits)
      show ?thesis
      proof (cases "fst e = fst x")
        case True
        with v Cons.prems(4) Receipt rs'(2) show ?thesis by simp
      next
        case False
        then have "e \<in> set es" using Cons.prems(2) by auto
        from Cons.IH [OF rs'(1) this Cons.prems(3) e] rs'(2) show ?thesis by simp
      qed
    next
      case ForeignEvent
      then have "fst (read_receipts es (snd (?rd s))) = Inr rs" "e \<in> set es"
        using Cons.prems True c v by (auto simp: bind_fst_snd)
      then show ?thesis using Cons.IH Cons.prems(3) e by blast
    next
      case BadEvent
      with Cons.prems(1) True c show ?thesis by (simp add: bind_fst_snd fails_def)
    qed
  qed
qed simp

lemma for_each_fails:
  assumes "fst (for_each xs f s) = Inr ()" "x \<in> set xs" "\<And>y. y \<in> set xs \<Longrightarrow> keeps R (f y)" "step_logic R"
  obtains t where "R s t" "fst (f x t) = Inr ()"
  using assms
proof (induction xs arbitrary: s thesis)
  case (Cons y ys)
  from Cons.prems(2) obtain u where u: "fst (f y s) = Inr u" "fst (for_each ys f (snd (f y s))) = Inr ()" by (auto elim: bind_Inr)
  show ?case
  proof (cases "x = y")
    case True
    then show ?thesis using Cons.prems(1) [OF step_logic.R_refl [OF Cons.prems(5)]] u(1) by simp
  next
    case False
    have k: "\<And>z. z \<in> set ys \<Longrightarrow> keeps R (f z)" using Cons.prems(4) by simp
    have x: "x \<in> set ys" using False Cons.prems(3) by simp
    obtain t where "R (snd (f y s)) t" "fst (f x t) = Inr ()" using Cons.IH [OF _ u(2) x k Cons.prems(5)] by blast
    moreover have "R s (snd (f y s))" using Cons.prems(4) [of y] by (simp add: keepsD)
    ultimately show ?thesis using Cons.prems(1,5) step_logic.R_trans by blast
  qed
qed simp

lemma bare_recovery:
  "keeps (stays_bare E n) (openSpool lim)" "keeps (stays_bare E n) (recoverJobs E now)" "keeps (stays_bare E n) (recoverFiles a b)"
  "keeps (stays_bare E n) (rebuildMappings E)" "keeps (stays_bare E n) (rebuildIdempotencyIndex E)"
proof -
  show "keeps (stays_bare E n) (openSpool lim)" "keeps (stays_bare E n) (recoverFiles a b)" "keeps (stays_bare E n) (rebuildIdempotencyIndex E)"
    by (rule frame_bare, rule frame_outbox_ops)+
qed (unfold recoverJobs_def rebuildMappings_def, (intro kept bare_recover_job bare_rebuild)+)

lemma events_recovery:
  "keeps same_events (openSpool lim)" "keeps same_events (recoverJobs E now)" "keeps same_events (recoverFiles a b)"
  "keeps same_events (rebuildMappings E)" "keeps same_events (rebuildIdempotencyIndex E)"
  unfolding openSpool_def loadBudget_def recoverJobs_def recover_job_def recoverFiles_def rebuildMappings_def rebuild_mapping_def rebuildIdempotencyIndex_def rebuild_index_def
  by (intro kept; simp add: same_events_def)+

text \<open>The state at the replay: the receipt is still there, and its job is still gone.\<close>

definition orphaned :: "'a spool_env_scheme \<Rightarrow> string \<Rightarrow> spool \<Rightarrow> spool \<Rightarrow> bool" where
  "orphaned E n s t \<longleftrightarrow> stays_bare E n s t \<and> same_events s t"

interpretation orphaned: step_logic "orphaned E n" for E :: "'a spool_env_scheme" and n
  by unfold_locales (auto simp: orphaned_def bare.R_refl events.R_refl bare.R_io events.R_io intro: bare.R_trans events.R_trans)

lemma orphanedI: "keeps (stays_bare E n) m \<Longrightarrow> keeps same_events m \<Longrightarrow> keeps (orphaned E n) m"
  by (simp add: keeps_def orphaned_def)

lemmas orphaned_recovery = orphanedI [OF bare_recovery(1) events_recovery(1)] orphanedI [OF bare_recovery(2) events_recovery(2)]
  orphanedI [OF bare_recovery(3) events_recovery(3)] orphanedI [OF bare_recovery(4) events_recovery(4)] orphanedI [OF bare_recovery(5) events_recovery(5)]

lemma replay_orphan: "bare E (job_file E (sr_JobID r)) s \<Longrightarrow> fst (replay_receipt E now r s) \<noteq> Inr ()"
  using load_value(1) [of E "sr_JobID r" s]
  by (cases "fst (loadMappingLocked E (sr_JobID r) s)") (auto simp: replay_receipt_def applyStreamReceiptLocked_def bind_fst_snd bare_def)

theorem orphan_blocks:
  assumes "go_lookup (d_events s) k = Some (Receipt r)" "HasSuffix k ''.json''" "bare E (job_file E (sr_JobID r)) s"
  shows "fst (NewSpool E lim now s) \<noteq> Inr ()"
proof
  let ?n = "job_file E (sr_JobID r)" and ?rd = "fs_readdir d_events"
  assume "fst (NewSpool E lim now s) = Inr ()"
  then obtain t where t: "orphaned E ?n s t" "fst (recoverStreamEvents E now t) = Inr ()"
    using before_replay [OF orphaned.step_logic_axioms orphaned_recovery] by blast
  then have b: "bare E ?n t" "go_lookup (d_events t) k = Some (Receipt r)" using assms by (auto simp: orphaned_def stays_bare_def same_events_def)
  from t(2) obtain es rs where es: "fst (?rd t) = Inr es" "fst (read_receipts es (snd (?rd t))) = Inr rs"
      "fst (for_each (sort_key (\<lambda>r. (sr_JobID r, sr_Position r)) rs) (replay_receipt E now) (snd (read_receipts es (snd (?rd t))))) = Inr ()"
    unfolding recoverStreamEvents_def by (elim bind_Inr) blast
  have q: "only_io t (snd (?rd t))" by (rule keepsD [OF quiet.keeps_readdir])
  have "(k, Receipt r) \<in> set es" using es(1) map_of_SomeD [OF b(2)]
    by (auto simp: fs_readdir_def bind_fst_snd gets_def fails_def io_step_def split: list.splits if_splits)
  then have r: "r \<in> set rs" using read_receipts_has [OF es(2), of "(k, Receipt r)" r] assms(2) b(2) q by (simp add: only_io_events)
  have "keeps (stays_bare E ?n) (read_receipts es')" for es'
    by (induction es') (auto intro!: kept)
  then have u: "bare E ?n (snd (read_receipts es (snd (?rd t))))"
    using keepsD [OF bare.keeps_readdir] b(1) unfolding keeps_def stays_bare_def by blast
  obtain v where v: "stays_bare E ?n (snd (read_receipts es (snd (?rd t)))) v" "fst (replay_receipt E now r v) = Inr ()"
    by (rule for_each_fails [OF es(3) _ bare_replay bare.step_logic_axioms, of r]) (use r in auto)
  with u replay_orphan show False unfolding stays_bare_def by blast
qed

end
