(* ===== verification/Spool_Demo.thy ===== *)
theory Spool_Demo
  imports Spool_Orphan
begin

text \<open>
  A concrete environment, an empty spool and a job, on which the hypotheses of the properties of the spool are evaluated.
\<close>

definition demo_spool_env :: spool_env where
  "demo_spool_env = \<lparr>hash256 = (\<lambda>x. take 4 x), fingerprint_json = fp_TextHash, file_size = (\<lambda>_ _. 1), channel_normalize = (\<lambda>_. Some Some),
     editable_status = (\<lambda>_. True), lang_of = (\<lambda>_. ''en''), locale_T = (\<lambda>l k as. k), json_valid = (\<lambda>_. True), usage_encode = ue_JobID, usage_decode = (\<lambda>_. None)\<rparr>"

definition demo_limits :: spoolLimits where
  "demo_limits = \<lparr>sl_MaxPendingPerScope = 16, sl_MaxPendingTotal = 128, sl_ScopeTokenDaily = 0, sl_MaxBytes = 0, sl_MaxDeliveries = 1024, sl_MaxParallelPerContext = 8\<rparr>"

definition fresh_spool :: "spoolLimits \<Rightarrow> spool" where
  "fresh_spool lim =
     \<lparr>d_jobs = (\<lambda>_. []), d_mappings = [], d_by_key = [], d_conversations = [], d_tasks = [], d_cursor = None, d_budget = None, d_usage = None,
      d_outbox = (\<lambda>_. []), d_events = [], d_offset = None, d_callbacks = [], d_archive = [], m_secret = [], m_inFlight = [], m_active = None, m_budget = new_ledger,
      m_budgetBroken = False, m_limits = lim, m_holds = None, sp_io = []\<rparr>"

definition demo_envelope :: Envelope where
  "demo_envelope = \<lparr>ev_Schema = 1, ev_PrincipalID = ''p'', ev_ExternalIdentityID = ''x'', ev_ContextID = ''c'', ev_RuntimeID = ''r'',
     ev_ConversationID = ''v'', ev_DeliveryTargetID = ''t'', ev_PolicyVersion = ''1''\<rparr>"

definition demo_job :: "string \<Rightarrow> Job" where
  "demo_job i = \<lparr>jb_Envelope = demo_envelope, jb_OperationalEpoch = 0, jb_ID = i, jb_AssignmentID = [], jb_AssignmentPlanRevision = 0,
     jb_OrganizationID = ''o'', jb_UserID = ''u'', jb_ActorID = ''a'', jb_ScopeID = ''s'', jb_Channel = ''telegram_bot'', jb_Trigger = ''message'',
     jb_IdempotencyKey = ''k'', jb_ChatID = 0, jb_TaskID = [], jb_TopicID = 0, jb_SlackChannel = [], jb_SlackThread = [], jb_Text = ''hello'',
     jb_Sensitive = False, jb_TextSHA256 = [], jb_TokenEstimate = 0, jb_CreatedAt = 0\<rparr>"

definition demo_view :: routines_view where
  "demo_view = \<lparr>wakes = (\<lambda>_ _. True), occurrence_current = (\<lambda>_. True)\<rparr>"

definition demo_enqueued :: "string \<Rightarrow> spool" where
  "demo_enqueued i = snd (Enqueue demo_spool_env 0 (Some None) (demo_job i) (fresh_spool demo_limits))"

definition demo_claimed :: "string \<Rightarrow> spool" where
  "demo_claimed i = snd (ClaimJob demo_spool_env 0 demo_view (\<lambda>_. 0) (demo_enqueued i))"

definition demo_run_started :: RunOutcome where
  "demo_run_started = \<lparr>ro_Text = [], ro_JobID = ''a'', ro_SessionID = ''S'', ro_RunID = ''R'', ro_RuntimeGeneration = ''g'', ro_Status = ''running'', ro_LastEvent = ''run.started''\<rparr>"

definition demo_crashed :: spool where
  "demo_crashed = snd (run_sop demo_spool_env (RestartOp demo_limits 1) ((snd (run_sop demo_spool_env (OutcomeOp 0 ''a'' demo_run_started) ((demo_claimed ''a'')\<lparr>sp_io := []\<rparr>)))\<lparr>sp_io := []\<rparr>))"

text \<open>The write of the job file is lost, after the ledger was saved.\<close>

definition demo_stranded :: spool where
  "demo_stranded = (snd (Enqueue demo_spool_env 0 (Some None) (demo_job ''a'') ((fresh_spool demo_limits)\<lparr>sp_io := replicate 7 Fine @ [Lost]\<rparr>)))\<lparr>sp_io := []\<rparr>"

definition demo_delivery :: "string \<Rightarrow> bool \<Rightarrow> time \<Rightarrow> Delivery" where
  "demo_delivery i control due = \<lparr>dl_ID = i, dl_OccurrenceID = [], dl_JobID = [], dl_ConversationID = ''v'', dl_DeliveryTargetID = ''t'', dl_Channel = ''telegram_bot'',
     dl_ChatID = 0, dl_TaskID = [], dl_TopicID = 0, dl_SlackChannel = [], dl_SlackThread = [], dl_Text = ''hi'', dl_Format = [], dl_NotBefore = due, dl_Buttons = [],
     dl_ApprovalJobID = [], dl_ApprovalID = [], dl_ApprovalRunID = [], dl_ApprovalGeneration = [], dl_TelegramMessageID = 0, dl_EditMessageID = 0,
     dl_StreamPosition = 0, dl_StatusClosed = False, dl_Control = control, dl_CreatedAt = 0\<rparr>"

definition demo_outbox :: spool where
  "demo_outbox = (fresh_spool demo_limits)\<lparr>d_outbox := (\<lambda>_. [])(OutPending :=
     [(''a.json'', Some (demo_delivery ''a'' False 5)), (''b.json'', Some (demo_delivery ''b'' True 5)), (''c.json'', Some (demo_delivery ''c'' True 20))])\<rparr>"

section \<open>What the evaluations give\<close>

lemma fresh_named: "named E (fresh_spool lim)"
  by (simp add: named_def fresh_spool_def)

lemma fresh_book: "book (Some lim) (fresh_spool lim)" "book None (fresh_spool lim)"
  by (simp_all add: book_def sound_ledger_def fresh_spool_def balanced_empty capped_empty)

lemma fresh_io: "(fresh_spool lim)\<lparr>sp_io := []\<rparr> = fresh_spool lim"
  by (simp add: fresh_spool_def)

lemma demo_enqueued_run: "spool_run demo_spool_env (\<lambda>_. True) (fresh_spool demo_limits) (demo_enqueued i)"
  using spool_run.operation [OF spool_run.start, of "\<lambda>_. True" "EnqueueOp 0 (Some None) (demo_job i)" demo_spool_env "fresh_spool demo_limits" "[]"]
  by (simp add: fresh_io demo_enqueued_def void_def bind_fst_snd ret_def split: sum.splits)

lemma demo_enqueued_named: "named demo_spool_env (demo_enqueued i)"
  using keepsD [OF keeps_Enqueue [of demo_spool_env True 0 "Some None" "demo_job i"], of "fresh_spool demo_limits"] fresh_named [of demo_spool_env demo_limits]
  by (simp add: lives_def demo_enqueued_def)

lemma demo_claimed_named: "named demo_spool_env (demo_claimed i)"
  using keepsD [OF keeps_ClaimJob [of demo_spool_env True "{}" 0 demo_view "\<lambda>_. 0"], of "demo_enqueued i"] demo_enqueued_named [of i]
  by (simp add: lives_def demo_claimed_def)

lemma demo_claimed_placed: "places ''a.json'' (demo_claimed ''a'') \<noteq> {}"
proof -
  have "go_lookup (d_jobs (demo_claimed ''a'') Running) ''a.json'' \<noteq> None" by code_simp
  then show ?thesis by (auto simp: places_def)
qed

lemma demo_crash_run: "spool_run demo_spool_env (\<lambda>op. \<not> requeues_unknown op) (demo_claimed ''a'') demo_crashed"
  unfolding demo_crashed_def by (intro spool_run.operation spool_run.start) simp_all

lemma demo_first_claim:
  "\<exists>j. fst (ClaimJob demo_spool_env 0 demo_view (\<lambda>_. 0) (demo_enqueued ''a'')) = Inr (Some j) \<and> jb_IdempotencyKey j \<noteq> [] \<and> jb_Text j = ''hello'' \<and> jb_ID j = ''a''"
proof -
  have "(case fst (ClaimJob demo_spool_env 0 demo_view (\<lambda>_. 0) (demo_enqueued ''a'')) of
      Inr (Some j) \<Rightarrow> jb_IdempotencyKey j = ''k'' \<and> jb_Text j = ''hello'' \<and> jb_ID j = ''a'' | _ \<Rightarrow> False)" by code_simp
  then show ?thesis by (auto split: sum.splits option.splits)
qed

lemma demo_second_claim:
  "\<exists>j. fst (ClaimJob demo_spool_env 0 demo_view (\<lambda>_. 0) demo_crashed) = Inr (Some j) \<and> jb_IdempotencyKey j \<noteq> [] \<and> jb_ID j = ''a''"
proof -
  have "(case fst (ClaimJob demo_spool_env 0 demo_view (\<lambda>_. 0) demo_crashed) of
      Inr (Some j) \<Rightarrow> jb_IdempotencyKey j = ''k'' \<and> jb_ID j = ''a'' | _ \<Rightarrow> False)" by code_simp
  then show ?thesis by (auto split: sum.splits option.splits)
qed

end
