(* ===== verification/Spool_Props.thy ===== *)
theory Spool_Props
  imports Spool_Demo
begin

text \<open>
  The properties of the spool: the refinement of the life of a job, prompts that are submitted once, terminal statuses that stay, the
  balance of the budget ledger, and the order of deliveries, with two faults of the code that the model shows.
\<close>

section \<open>The life of a job\<close>

text \<open>
  C16: Whatever operations other than compaction run, with whatever faults of the disk and restarts of the process, a job that is in the spool stays in the spool, and
  its directory and mapping move only by steps of \<open>job_step\<close>: a claimed job becomes claimable again only if it was never mapped,
  or its run was admitted, or (when unknown admissions are reconciled) its mapping says uncertain.
\<close>

theorem spool_refines_job_life:
  assumes "spool_run E A s t" "named E s" "places n s \<noteq> {}" "\<And>op. A op \<Longrightarrow> requeues_unknown op \<Longrightarrow> U"
  shows "places n t \<noteq> {} \<and> job_steps U (job_view n s) (job_view n t)"
proof -
  have "lives E U {} s t" by (rule run_lives [OF assms(1)]) (rule assms(4))
  with assms(2,3) show ?thesis by (simp add: lives_def)
qed

theorem spool_refines_job_life_witness:
  "places ''a.json'' demo_crashed \<noteq> {} \<and> job_steps False (job_view ''a.json'' (demo_claimed ''a'')) (job_view ''a.json'' demo_crashed)"
  by (rule spool_refines_job_life [OF demo_crash_run demo_claimed_named demo_claimed_placed]) simp



text \<open>
  C18: A terminal status is final, and so are the binding of a mapping and the run it names: no operation other than compaction, and no fault or restart, changes
  them while the job is in the spool.
\<close>

theorem terminal_status_is_final:
  assumes "spool_run E A s t" "named E s" "places n s \<noteq> {}" "go_lookup (d_mappings s) n = Some (Some m)"
  shows "\<exists>m'. go_lookup (d_mappings t) n = Some (Some m') \<and> same_job_binding m m' \<and>
    (TerminalStatus (mp_Status m) \<longrightarrow> mp_Status m' = mp_Status m) \<and> (has_run m \<longrightarrow> mp_RunID m' = mp_RunID m \<and> mp_SessionID m' = mp_SessionID m)"
proof -
  have "job_steps True (job_view n s) (job_view n t)" using run_lives [OF assms(1) TrueI] assms(2,3) by (simp add: lives_def)
  from mapping_steps [OF this, of m] assms(4) show ?thesis by (auto simp: job_view_def evolves_def has_run_def)
qed

theorem terminal_status_is_final_witness:
  "\<exists>m m'. go_lookup (d_mappings (demo_claimed ''a'')) ''a.json'' = Some (Some m) \<and> go_lookup (d_mappings demo_crashed) ''a.json'' = Some (Some m') \<and> same_job_binding m m'"
proof -
  have "case go_lookup (d_mappings (demo_claimed ''a'')) ''a.json'' of Some (Some m) \<Rightarrow> True | _ \<Rightarrow> False" by code_simp
  then obtain m where "go_lookup (d_mappings (demo_claimed ''a'')) ''a.json'' = Some (Some m)" by (auto split: option.splits)
  with terminal_status_is_final [OF demo_crash_run demo_claimed_named demo_claimed_placed this] show ?thesis by blast
qed

section \<open>The ledger\<close>

text \<open>
  C19: In every state that operations other than compaction reach, the counters of a scope are the number of its open reservations and the sum of their estimates (as a 64-bit
  integer), and while the limits of the environment stay the same, no scope has more open reservations than its ceiling and the counters of all scopes together
  stay under the ceiling of the spool.
\<close>

theorem ledger_balances_under_ceilings:
  assumes "spool_run E A s t" "book None s"
  shows "sb_PendingJobs (bucket_of sc (m_budget t)) = open_jobs sc (m_budget t) \<and>
    sb_ReservedTokens (bucket_of sc (m_budget t)) = wrap64 (open_tokens sc (m_budget t)) \<and>
    (book (Some lim) s \<and> (\<forall>op lim'. A op \<and> restart_limits op = Some lim' \<longrightarrow> lim' = lim) \<longrightarrow>
      (sl_MaxPendingPerScope lim > 0 \<longrightarrow> open_jobs sc (m_budget t) \<le> sl_MaxPendingPerScope lim) \<and>
      (sl_MaxPendingTotal lim > 0 \<longrightarrow> pending_total (m_budget t) \<le> sl_MaxPendingTotal lim))"
proof -
  have "book None t" using run_book [OF assms(1), of None] assms(2) unfolding still_def by blast
  then have b: "balanced (m_budget t)" unfolding book_def sound_ledger_def by blast
  have "capped lim (m_budget t)" if "book (Some lim) s" "\<forall>op lim'. A op \<and> restart_limits op = Some lim' \<longrightarrow> lim' = lim"
  proof -
    have "still (Some lim) s t" by (rule run_book [OF assms(1)]) (use that(2) in blast)
    with that(1) have "book (Some lim) t" unfolding still_def by blast
    then show ?thesis unfolding book_def sound_ledger_def by blast
  qed
  with b show ?thesis by (auto simp: balanced_def capped_def)
qed

theorem ledger_balances_under_ceilings_witness:
  "open_jobs ''s'' (m_budget (demo_enqueued ''a'')) = 1 \<and> sb_PendingJobs (bucket_of ''s'' (m_budget (demo_enqueued ''a''))) = 1"
proof -
  have "open_jobs ''s'' (m_budget (demo_enqueued ''a'')) = 1" by code_simp
  with ledger_balances_under_ceilings [OF demo_enqueued_run fresh_book(2), of "''s''" "''a''"] show ?thesis by simp
qed

section \<open>Deliveries\<close>

definition outbox_names :: "spool \<Rightarrow> string list" where
  "outbox_names s = take 256 (filter (\<lambda>n. HasSuffix n ''.json'') (map fst (sort_key fst (d_outbox s OutPending))))"

definition outbox_window :: "spool \<Rightarrow> Delivery list" where
  "outbox_window s = map (\<lambda>n. the (the (go_lookup (d_outbox s OutPending) n))) (outbox_names s)"

lemma read_fine: "sp_io s = [] \<Longrightarrow> fs_read g s = (case g s of None \<Rightarrow> Inl NotExist | Some v \<Rightarrow> Inr v, s)"
  by (simp add: fs_read_def bind_def io_step_def gets_def ret_def fails_def split: option.split)

lemma readdir_fine: "sp_io s = [] \<Longrightarrow> bind (fs_readdir g) f s = f (sort_key fst (g s)) s"
  by (simp add: fs_readdir_def bind_def io_step_def gets_def)

lemma rename_out_fine:
  "sp_io s = [] \<Longrightarrow> go_lookup (d_outbox s a) n = Some c \<Longrightarrow> fs_rename_out a b n s =
     (Inr (), let m = (d_outbox s)(a := go_delete n (d_outbox s a)) in s\<lparr>d_outbox := m(b := go_update n c (m b))\<rparr>)"
  by (simp add: fs_rename_out_def bind_def io_step_def gets_def modify_def)

text \<open>A scan takes the first delivery that qualifies, and moves nothing if there is none.\<close>

lemma claim_scan_fine:
  assumes "sp_io s = []" "\<forall>n \<in> set ns. \<exists>d. go_lookup (d_outbox s OutPending) n = Some (Some d)"
  shows "fst (claim_scan now c ns s) = Inr (find (\<lambda>d. (c \<longrightarrow> dl_Control d) \<and> dl_NotBefore d \<le> now) (map (\<lambda>n. the (the (go_lookup (d_outbox s OutPending) n))) ns)) \<and>
    (fst (claim_scan now c ns s) = Inr None \<longrightarrow> snd (claim_scan now c ns s) = s) \<and>
    (\<forall>d. fst (claim_scan now c ns s) = Inr (Some d) \<longrightarrow> (\<exists>n. go_lookup (d_outbox s OutPending) n = Some (Some d) \<and>
      go_lookup (d_outbox (snd (claim_scan now c ns s)) OutPending) n = None \<and> go_lookup (d_outbox (snd (claim_scan now c ns s)) OutSending) n = Some (Some d)))"
  using assms
proof (induction ns)
  case (Cons n ns)
  then obtain d where d: "go_lookup (d_outbox s OutPending) n = Some (Some d)" by auto
  show ?case
  proof (cases "c \<and> \<not> dl_Control d \<or> dl_NotBefore d > now")
    case True
    with Cons d show ?thesis by (auto simp: bind_def read_fine)
  next
    case False
    with Cons.prems(1) d show ?thesis by (auto simp: bind_def read_fine rename_out_fine ret_def gomap_simps Let_def)
  qed
qed (simp add: ret_def)

text \<open>
  C37: Without faults a claim of the outbox looks at the first 256 names: it takes the first due delivery of the control plane among them, else
  the first due delivery, and moves its file to the directory of deliveries under way. A delivery beyond the window is not
  seen, whatever its kind.
\<close>

theorem delivery_claim_prefers_control:
  assumes "sp_io s = []" "\<forall>n \<in> set (outbox_names s). \<exists>d. go_lookup (d_outbox s OutPending) n = Some (Some d)"
  shows "fst (ClaimDelivery now s) = Inr (case find (\<lambda>d. dl_Control d \<and> dl_NotBefore d \<le> now) (outbox_window s) of
      Some d \<Rightarrow> Some d | None \<Rightarrow> find (\<lambda>d. dl_NotBefore d \<le> now) (outbox_window s)) \<and>
    (\<forall>d. fst (ClaimDelivery now s) = Inr (Some d) \<longrightarrow> (\<exists>n. go_lookup (d_outbox s OutPending) n = Some (Some d) \<and>
      go_lookup (d_outbox (snd (ClaimDelivery now s)) OutPending) n = None \<and> go_lookup (d_outbox (snd (ClaimDelivery now s)) OutSending) n = Some (Some d)))"
proof -
  have run: "ClaimDelivery now s = bind (claim_scan now True (outbox_names s)) (\<lambda>r. case r of Some d \<Rightarrow> ret (Some d) | None \<Rightarrow> claim_scan now False (outbox_names s)) s"
    unfolding ClaimDelivery_def outbox_names_def Let_def by (simp add: readdir_fine [OF assms(1)] cong: option.case_cong)
  note c = claim_scan_fine [OF assms, of now True] and o = claim_scan_fine [OF assms, of now False]
  show ?thesis
  proof (cases "find (\<lambda>d. dl_Control d \<and> dl_NotBefore d \<le> now) (outbox_window s)")
    case None
    then have "fst (claim_scan now True (outbox_names s) s) = Inr None" "snd (claim_scan now True (outbox_names s) s) = s"
      using c by (simp_all add: outbox_window_def)
    with None o show ?thesis unfolding run by (simp add: bind_fst_snd outbox_window_def)
  next
    case (Some d)
    then have f: "fst (claim_scan now True (outbox_names s) s) = Inr (Some d)" using c by (simp add: outbox_window_def)
    let ?t = "snd (claim_scan now True (outbox_names s) s)"
    have "\<exists>n. go_lookup (d_outbox s OutPending) n = Some (Some d) \<and> go_lookup (d_outbox ?t OutPending) n = None \<and> go_lookup (d_outbox ?t OutSending) n = Some (Some d)"
      using c f by blast
    with Some f show ?thesis unfolding run by (simp add: bind_fst_snd ret_def)
  qed
qed

theorem delivery_claim_prefers_control_witness:
  "fst (ClaimDelivery 10 demo_outbox) = Inr (Some (demo_delivery ''b'' True 5)) \<and>
     (\<exists>n. go_lookup (d_outbox (snd (ClaimDelivery 10 demo_outbox)) OutSending) n = Some (Some (demo_delivery ''b'' True 5)))"
proof -
  have ok: "list_all (\<lambda>n. case go_lookup (d_outbox demo_outbox OutPending) n of Some (Some d) \<Rightarrow> True | _ \<Rightarrow> False) (outbox_names demo_outbox)"
    "sp_io demo_outbox = []" by code_simp+
  have "\<forall>n \<in> set (outbox_names demo_outbox). \<exists>d. go_lookup (d_outbox demo_outbox OutPending) n = Some (Some d)"
    using ok(1) by (fastforce simp: list_all_iff split: option.splits)
  note c = delivery_claim_prefers_control [OF ok(2) this, of 10]
  have "find (\<lambda>d. dl_Control d \<and> dl_NotBefore d \<le> 10) (outbox_window demo_outbox) = Some (demo_delivery ''b'' True 5)" by code_simp
  with c show ?thesis by auto
qed

section \<open>Faults of the code\<close>

text \<open>
  C38: Recovery takes the name of a claimed file as the identifier of its job. For an identifier that is stored under its hash, with a
  mapping, the lookup finds the mapping of another identifier and a new process never starts, with or without faults.
\<close>

theorem hashed_id_blocks_recovery:
  assumes "named E s" "go_lookup (d_jobs s Running) (job_file E i) = Some c" "FileID E i \<noteq> i"
    and "go_lookup (d_mappings s) (job_file E i) = Some (Some m)" "mp_JobID m = i"
  shows "fst (NewSpool E lim now s) \<noteq> Inr ()"
proof
  let ?n = "job_file E i"
  assume "fst (NewSpool E lim now s) = Inr ()"
  then obtain x where "fst (recover_spool E now (snd (openSpool lim s))) = Inr ()" unfolding NewSpool_def by (rule bind_Inr)
  then obtain y where 1: "fst (recoverJobs E now (snd (openSpool lim s))) = Inr y" unfolding recover_spool_def by (rule bind_Inr)
  define s1 where "s1 = snd (openSpool lim s)"
  have sj: "same_jobs s s1" unfolding s1_def by (rule keepsD [OF frame_outbox_ops(9)])
  from 1 obtain es where 2: "fst (fs_readdir (\<lambda>s. d_jobs s Running) s1) = Inr es"
      "fst (for_each (map fst (filter (\<lambda>e. HasSuffix (fst e) ''.json'') es)) (recover_job E now) (snd (fs_readdir (\<lambda>s. d_jobs s Running) s1))) = Inr ()"
    unfolding recoverJobs_def s1_def by (auto elim: bind_Inr)
  define s2 where "s2 = snd (fs_readdir (\<lambda>s. d_jobs s Running) s1)"
  have q: "same_jobs s1 s2" unfolding s2_def by (rule keepsD [OF frame.keeps_readdir])
  have es: "set es = set (d_jobs s Running)"
    using 2(1) sj by (auto simp: fs_readdir_def bind_fst_snd gets_def fails_def io_step_def same_jobs_def split: list.splits if_splits)
  have "?n \<in> set (map fst (filter (\<lambda>e. HasSuffix (fst e) ''.json'') es))"
    using map_of_SomeD [OF assms(2)] es by (force simp: job_file_def HasSuffix_iff)
  moreover have "keeps (lives E True {}) (recover_job E now k)" if "k \<in> set (map fst (filter (\<lambda>e. HasSuffix (fst e) ''.json'') es))" for k
  proof -
    from that es have "k \<in> fst ` set (d_jobs s Running)" by auto
    then obtain c' where "go_lookup (d_jobs s Running) k = Some c'" by (metis map_of_eq_None_iff not_Some_eq)
    with assms(1) obtain l where "k = job_file E l" unfolding named_def by blast
    then show ?thesis by (rule keeps_recover_job)
  qed
  ultimately obtain t where t: "lives E True {} s2 t" "fst (recover_job E now ?n t) = Inr ()"
    using for_each_fails [OF 2(2) [folded s2_def], of ?n "lives E True {}"] life.step_logic_axioms by blast
  have s2: "named E s2" "places ?n s2 \<noteq> {}" "snd (job_view ?n s2) = Some (Some m)"
    using assms(1,2,4) sj q by (auto simp: same_jobs_def named_def places_def job_view_def)
  from t(1) s2(1,2) have "job_steps True (job_view ?n s2) (job_view ?n t)" by (simp add: lives_def)
  from mapping_steps [OF this s2(3)] obtain m' where m': "go_lookup (d_mappings t) ?n = Some (Some m')" "mp_JobID m' = i"
    using assms(5) by (auto simp: job_view_def evolves_def same_job_binding_def)
  have stem: "TrimSuffix ?n ''.json'' = FileID E i" by (simp add: TrimSuffix_def job_file_def HasSuffix_iff)
  have n: "job_file E (FileID E i) = ?n" using job_file_stem [of E i] stem by simp
  have "\<exists>e. fst (loadMappingLocked E (FileID E i) t) = Inl e \<and> e \<noteq> NotExist"
    using m' assms(3) by (auto simp: loadMappingLocked_def n fs_read_def bind_fst_snd io_step_def gets_def ret_def fails_def split: list.split)
  with t(2) stem show False by (auto simp: recover_job_def bind_fst_snd fails_def split: spool_err.splits)
qed

theorem hashed_id_blocks_recovery_witness: "fst (NewSpool demo_spool_env demo_limits 1 (demo_claimed ''a b'')) \<noteq> Inr ()"
proof -
  have ev: "FileID demo_spool_env ''a b'' \<noteq> ''a b''" "(case go_lookup (d_mappings (demo_claimed ''a b'')) (job_file demo_spool_env ''a b'') of Some (Some m) \<Rightarrow> mp_JobID m = ''a b'' | _ \<Rightarrow> False)"
    "go_lookup (d_jobs (demo_claimed ''a b'') Running) (job_file demo_spool_env ''a b'') \<noteq> None" by code_simp+
  from ev(2) obtain m where m: "go_lookup (d_mappings (demo_claimed ''a b'')) (job_file demo_spool_env ''a b'') = Some (Some m)" "mp_JobID m = ''a b''" by (auto split: option.splits)
  from ev(3) obtain c where "go_lookup (d_jobs (demo_claimed ''a b'') Running) (job_file demo_spool_env ''a b'') = Some c" by blast
  from hashed_id_blocks_recovery [OF demo_claimed_named this ev(1) m] show ?thesis .
qed

text \<open>
  C39: A job whose reservation was saved but whose file was never written is admitted by a retry without an open reservation: the reconciliation
  releases the reservation of the first attempt, and the reservation step does nothing for a job that has one, in whatever state. The
  job runs and no counter of its scope shows it.
\<close>

theorem retried_enqueue_is_unpriced:
  assumes "go_lookup (bl_Reservations (m_budget s)) (jb_ID job) \<noteq> None" "go_lookup (d_mappings s) (job_file E (jb_ID job)) = None"
    and "go_lookup (d_jobs s Pending) (job_file E (jb_ID job)) = None" "go_lookup (d_jobs s Running) (job_file E (jb_ID job)) = None"
    and "fst (admit E now job s) = Inr x"
  shows "go_lookup (d_jobs (snd (admit E now job s)) Pending) (job_file E (jb_ID job)) \<noteq> None \<and>
    (\<exists>r. go_lookup (bl_Reservations (m_budget (snd (admit E now job s)))) (jb_ID job) = Some r \<and> rv_State r \<noteq> ''open'')"
  using admit_stranded [OF _ assms(5)] assms(1-4) unfolding stranded_def reserved_for_def closed_for_def by blast

theorem retried_enqueue_is_unpriced_witness:
  "go_lookup (d_jobs (snd (admit demo_spool_env 0 (demo_job ''a'') demo_stranded)) Pending) (job_file demo_spool_env ''a'') \<noteq> None \<and>
    (\<exists>r. go_lookup (bl_Reservations (m_budget (snd (admit demo_spool_env 0 (demo_job ''a'') demo_stranded)))) ''a'' = Some r \<and> rv_State r \<noteq> ''open'')"
proof -
  have i: "jb_ID (demo_job ''a'') = ''a''" by (simp add: demo_job_def)
  have "go_lookup (bl_Reservations (m_budget demo_stranded)) ''a'' \<noteq> None" "go_lookup (d_mappings demo_stranded) (job_file demo_spool_env ''a'') = None"
    "go_lookup (d_jobs demo_stranded Pending) (job_file demo_spool_env ''a'') = None" "go_lookup (d_jobs demo_stranded Running) (job_file demo_spool_env ''a'') = None"
    by code_simp+
  moreover have "fst (admit demo_spool_env 0 (demo_job ''a'') demo_stranded) = Inr True" by code_simp
  ultimately show ?thesis using retried_enqueue_is_unpriced [of demo_stranded "demo_job ''a''" demo_spool_env 0 True] by (simp only: i) blast
qed

end
