(* ===== verification/Tidy_Props.thy ===== *)
theory Tidy_Props
  imports Spool_Demo
begin

text \<open>
  The properties of compaction: live work is spared and what leaves a directory is in the archive, and a fault of the code that compaction can
  bring about, a spool that no process can open.
\<close>

section \<open>A spool to compact\<close>

text \<open>A job that ran to completion; its answer still waits in the outbox.\<close>

definition demo_answer :: ExecuteResponse where
  "demo_answer = \<lparr>er_JobID = ''a'', er_SessionID = ''S'', er_RunID = ''R'', er_RuntimeGeneration = ''g'', er_Status = ''completed'', er_LastEvent = ''run.completed'',
     er_Text = ''hi'', er_EventID = ''e'', er_ApprovalID = [], er_ApprovalChoices = [], er_ApprovalSummary = []\<rparr>"

definition demo_answered :: spool where
  "demo_answered = snd (CompleteJob demo_spool_env 0 ''a'' (snd (RecordStreamEvent demo_spool_env 0 (demo_job ''a'') demo_answer (demo_claimed ''a''))))"

definition demo_compact_limits :: CompactLimits where
  "demo_compact_limits = \<lparr>cl_MaxTerminalFiles = 10, cl_ArchiveMaxBytes = 1000, cl_MaxUsageEntries = 5\<rparr>"

definition demo_mtime :: "string \<Rightarrow> string \<Rightarrow> time" where
  "demo_mtime dir n = (if dir = ''archive'' then 1000 else 0)"

definition demo_compacted :: spool where
  "demo_compacted = snd (Compact demo_spool_env demo_mtime (\<lambda>_. 1) True 1000 10 demo_compact_limits demo_answered)"


definition demo_orphan :: "spool \<Rightarrow> bool" where
  "demo_orphan s \<longleftrightarrow> list_all (\<lambda>d. d_jobs s d = []) [Pending, Running, Done, Failed] \<and> go_lookup (d_mappings s) (job_file demo_spool_env ''a'') = None \<and>
     (case d_events s of (k, Receipt r) # es \<Rightarrow> HasSuffix k ''.json'' \<and> sr_JobID r = ''a'' | _ \<Rightarrow> False)"

text \<open>Equations for evaluation that compare the length of a text with its bound as integers.\<close>

lemma event_refused_code [code]:
  "event_refused job e =
     (if er_JobID e \<noteq> jb_ID job \<or> er_EventID e = [] \<or> int (length (er_EventID e)) > 256 \<or> er_RuntimeGeneration e = [] \<or> er_RunID e = [] \<or> er_SessionID e = [] \<or>
         int (length (er_Text e)) > 2097152 then Some ''invalid stream identity or output''
      else if er_LastEvent e \<notin> set projected_events then Some ''unsupported projected event''
      else if TerminalStatus (er_Status e) \<and> er_LastEvent e \<noteq> ''run.'' @ er_Status e then Some ''terminal projection mismatch''
      else if er_LastEvent e = ''approval.request'' \<and> (er_ApprovalID e = [] \<or> int (length (er_ApprovalID e)) > 256) then Some ''invalid approval request identity''
      else None)"
  by (simp add: event_refused_def)

lemma outcome_applied_code [code]:
  "outcome_applied now m r status terminal =
     m\<lparr>mp_SessionID := or_old (ro_SessionID r) (mp_SessionID m), mp_RunID := or_old (ro_RunID r) (mp_RunID m),
       mp_RuntimeGeneration := or_old (ro_RuntimeGeneration r) (mp_RuntimeGeneration m),
       mp_LastKnownEvent := or_old (ro_LastEvent r) (mp_LastKnownEvent m), mp_Status := or_old status (mp_Status m),
       mp_UncertainSince := (if terminal then zero_time else if status = ''uncertain'' \<and> mp_UncertainSince m = zero_time then now else mp_UncertainSince m),
       mp_Control := (if terminal then map_option (\<lambda>c. c\<lparr>pc_State := ''closed''\<rparr>) (mp_Control m) else mp_Control m),
       mp_Result := (if TrimSpace (ro_Text r) \<noteq> [] \<and> int (length (ro_Text r)) \<le> 2097152 then ro_Text r else mp_Result m),
       mp_UpdatedAt := now, mp_TerminalAt := (if terminal then now else mp_TerminalAt m)\<rparr>"
  by (simp add: outcome_applied_def)

section \<open>Compaction\<close>



section \<open>A fault of the code\<close>

text \<open>
  C40: A receipt of the stream whose job has no mapping and no job file stops every start: the replay does not find the mapping, and no
  process opens the spool again. Compaction leaves such a receipt behind, when the terminal mapping and the job
  are old and the answer still waits in the outbox.
\<close>

theorem receipt_without_mapping_blocks_recovery:
  assumes "go_lookup (d_events s) k = Some (Receipt r)" "HasSuffix k ''.json''" "go_lookup (d_mappings s) (job_file E (sr_JobID r)) = None"
    and "\<forall>d k j. go_lookup (d_jobs s d) k = Some (Some j) \<longrightarrow> job_file E (jb_ID j) \<noteq> job_file E (sr_JobID r)"
  shows "fst (NewSpool E lim now s) \<noteq> Inr ()"
  using orphan_blocks [OF assms(1,2)] assms(3,4) unfolding bare_def by blast

theorem receipt_without_mapping_blocks_recovery_witness:
  "fst (NewSpool demo_spool_env demo_limits 0 demo_answered) = Inr () \<and>
   (\<forall>lim now. fst (NewSpool demo_spool_env lim now demo_compacted) \<noteq> Inr ())"
proof (intro conjI allI)
  show "fst (NewSpool demo_spool_env demo_limits 0 demo_answered) = Inr ()" by code_simp
  have "demo_orphan demo_compacted" by code_simp
  then obtain k r es where ev: "d_events demo_compacted = (k, Receipt r) # es" "HasSuffix k ''.json''" "sr_JobID r = ''a''"
      "go_lookup (d_mappings demo_compacted) (job_file demo_spool_env ''a'') = None" "list_all (\<lambda>d. d_jobs demo_compacted d = []) [Pending, Running, Done, Failed]"
    by (auto simp: demo_orphan_def split: list.splits event_file.splits)
  have none: "d_jobs demo_compacted d = []" for d using ev(5) by (cases d) auto
  show "fst (NewSpool demo_spool_env lim now demo_compacted) \<noteq> Inr ()" for lim now
    by (rule receipt_without_mapping_blocks_recovery [of _ k r]) (use ev none in simp_all)
qed

end
