(* ===== verification/Spec2Isabelle.thy ===== *)
theory Spec2Isabelle
  imports Journal_Props Recovery_Props Materialize_Props Broker_Props Flow_Props Http_Audience Routine_Props Spool_Props Tidy_Props
begin

text \<open>
  \<^bold>\<open>Hermes Hub: the credential broker, the routine schedules and the job spool.\<close>

  Hermes Hub runs personal agents. Its agents never hold credentials: a separate process, the
  credential broker (\<^verbatim>\<open>services/credential-broker\<close>), collects a secret from a person in a browser form or by
  OAuth, stores it in a secret store, binds it to one user, agent, tool and workload with a grant,
  and lends it for at most five minutes as a lease, which the runtime uses through an authenticating
  HTTP proxy or as files in a private directory. Everything the broker decides is first
  written to an encrypted, hash-chained journal. This development models the broker from the journal's bytes
  to its HTTP surface, the calendar arithmetic of routines (\<^verbatim>\<open>internal/routines\<close>), and the spool of the communication hub
  (\<^verbatim>\<open>internal/communication\<close>): a directory tree in which chat messages and scheduled wake-ups become jobs, are priced, claimed,
  run and answered, and which must not lose a job or submit a prompt twice when the process dies.

  \<^bold>\<open>How the parts interact.\<close> A request enters \<^verbatim>\<open>httpapi\<close>, which checks host, path and, on the signed surface, the
  assertion (\<^verbatim>\<open>identity\<close>, over \<^verbatim>\<open>strictjson\<close>), and calls one operation of \<^verbatim>\<open>broker\<close>. An operation validates its input against
  the contract (\<^verbatim>\<open>contract\<close>, \<^verbatim>\<open>broker/extra.go\<close>), appends a mutation to the \<^verbatim>\<open>journal\<close> (frames sealed by \<^verbatim>\<open>seal\<close>, mirrored to a replica
  and an anchor) and only then applies it to its tables; secrets go to a \<^verbatim>\<open>provider\<close> (the local encrypted store, or
  Vault and Kubernetes over a \<^verbatim>\<open>safenet\<close> client); leases are turned into files by \<^verbatim>\<open>materialize\<close> or used by the proxy.
  The spool is a process of its own: \<^verbatim>\<open>Enqueue\<close> reserves tokens in the budget ledger, writes the job file and its mapping; \<^verbatim>\<open>ClaimJob\<close>
  moves the file and marks the mapping; outcomes and stream events update the mapping and settle the reservation; answers
  wait in the outbox; a new process sorts what the old one left; compaction moves settled files to an archive.

  \<^bold>\<open>Conventions.\<close> Paths below are relative to \<^verbatim>\<open>services/credential-broker\<close> unless they start with \<^verbatim>\<open>internal/routines\<close>, \<^verbatim>\<open>internal/communication\<close> or
  \<^verbatim>\<open>internal/commodel\<close>. A Go
  map is an association list read with \<open>map_of\<close>, in some iteration order; a string or byte slice is a \<open>string\<close>; an
  instant is a number of nanoseconds; an error is the left side of a sum. The clock and random bytes are
  arguments. A value that code outside this repository computes (AES-GCM, SHA-256, Ed25519, gzip, the
  JSON encoder, DNS, TCP and TLS, an upstream server) is a field of an environment record, and the chain
  of these records grows with the layers; laws on it (a box opens to what was sealed, an encoded
  record decodes) are hypotheses of the theorems that need them, and \<open>Demo_Env\<close>, \<open>Demo_Codec\<close>, \<open>Demo_Broker\<close> and
  \<open>Demo_Http\<close> give concrete functions that meet all of them, on which the witnesses run. Where an operation releases its lock
  (around a store, an OAuth exchange, an upstream call), the state it finds afterwards is the result of an
  arbitrary function \<open>other\<close>: the theorems hold for every interference that is itself a run of operations.

  \<^bold>\<open>Theories and sources.\<close>

  \<^item> \<open>Prelude\<close>: byte strings, path cleaning, decimal and hexadecimal text, association lists.
  \<^item> \<open>Seal\<close> (\<^verbatim>\<open>internal/seal/seal.go\<close>), \<open>Journal\<close> (\<^verbatim>\<open>internal/journal/journal.go\<close>), \<open>Journal_Recovery\<close> (\<^verbatim>\<open>internal/journal/recovery.go\<close>): open
    and strict replay, frames, append with disk faults, compaction, replica and anchor. \<open>Journal_Laws\<close> proves the
    invariant and the locale \<open>ledger\<close>: an append that succeeds extends the records by one. It is interpreted on \<^verbatim>\<open>Append\<close>.
  \<^item> \<open>Strict_Json\<close> (\<^verbatim>\<open>internal/strictjson/json.go\<close>), \<open>Identity\<close> (\<^verbatim>\<open>identity/identity.go\<close>), \<open>Contract\<close> and \<open>Contract_Props\<close>
    (\<^verbatim>\<open>contract/contract.go\<close>), \<open>Request_Contract\<close> (\<^verbatim>\<open>broker/extra.go\<close>).
  \<^item> \<open>Provider\<close> (\<^verbatim>\<open>provider/provider.go\<close>, \<^verbatim>\<open>provider/local.go\<close>); \<open>Provider_Laws\<close> has the locale \<open>secret_store\<close>, interpreted on the local
    store. \<open>Remote\<close> (\<^verbatim>\<open>provider/remote.go\<close>). \<open>Materialize\<close> (\<^verbatim>\<open>materialize/materialize.go\<close> and what it uses of \<^verbatim>\<open>internal/securefs\<close>).
  \<^item> \<open>Broker_Types\<close>, \<open>Broker_Core\<close>, \<open>Enrollment\<close>, \<open>Grants\<close>, \<open>Runtime\<close>, \<open>OAuth_Provider\<close>, \<open>OAuth_Flow\<close> (\<^verbatim>\<open>broker/*.go\<close>): the state record \<open>broker\<close>,
    start-up and replay of the journal, and every exported operation with its guards, errors and journal writes.
  \<^item> \<open>Broker_Steps\<close>: the abstract specification, a step relation \<open>bstep\<close> on the ledger with one allowed mutation per
    rule. \<open>Broker_Inv\<close>: its invariants by rule induction. \<open>Broker_Refine\<close>, \<open>Broker_Refine_Use\<close>: every operation is a sequence of
    steps. \<open>Broker_Ops\<close>: runs of operations, and the locale \<open>step_invariant\<close> (what one step keeps, every run keeps), interpreted for
    isolation of grants, bounds of leases, uniqueness of approved sessions, agreement with the ledger, and the trail.
  \<^item> \<open>Safenet\<close> (\<^verbatim>\<open>internal/safenet/net.go\<close>), addresses as words of 32 and 128 bits.
  \<^item> \<open>Http_Api\<close>, \<open>Http_Serve\<close> (\<^verbatim>\<open>httpapi/server.go\<close>, \<^verbatim>\<open>proxy.go\<close>, \<^verbatim>\<open>browser.go\<close>, \<^verbatim>\<open>webtext.go\<close>): limiter, host check, audiences, routes, proxy,
    forms, cookies. \<open>Http_Refine\<close>: every request is a sequence of ledger steps.
  \<^item> \<open>Calendar\<close>: the used part of Go's \<^verbatim>\<open>time\<close> package. \<open>Routine_Timing\<close> (\<^verbatim>\<open>internal/routines/cron.go\<close>, \<^verbatim>\<open>timing.go\<close>).
  \<^item> \<open>Spool_Disk\<close> (records of \<^verbatim>\<open>internal/commodel\<close>, the state \<open>spool\<close> of \<^verbatim>\<open>internal/communication/spool.go\<close>, and the disk), \<open>Spool_Budget\<close> (\<^verbatim>\<open>budget.go\<close>),
    \<open>Spool_Mapping\<close> (\<^verbatim>\<open>job_mapping.go\<close>, and the spool side of \<^verbatim>\<open>control.go\<close> and \<^verbatim>\<open>stream.go\<close>), \<open>Spool_Queue\<close> (admission, claim and completion of \<^verbatim>\<open>spool.go\<close>),
    \<open>Spool_Recover\<close> (\<^verbatim>\<open>spool_delivery.go\<close>, recovery of \<^verbatim>\<open>spool.go\<close> and \<^verbatim>\<open>stream.go\<close>, \<^verbatim>\<open>recovery.go\<close>), \<open>Spool_Stream\<close> (\<^verbatim>\<open>RecordStreamEvent\<close> and the status message
    of \<^verbatim>\<open>stream.go\<close>, approval buttons of \<^verbatim>\<open>spool.go\<close>), \<open>Spool_Usage\<close> (\<^verbatim>\<open>usage_journal.go\<close>), \<open>Spool_Compact\<close> (\<^verbatim>\<open>Compact\<close> of \<^verbatim>\<open>spool.go\<close>). Every access to the disk takes the next entry of a list of
    faults: it works, fails without effect, or takes effect and reports failure; a crash is a list that only fails from some point on.
  \<^item> \<open>Spool_Logic\<close>: the locale \<open>step_logic\<close>, a reflexive and transitive relation that every access to the disk keeps, with rules for the
    sequence, the branches and the loops of an operation. It is interpreted for what only reads, for what leaves jobs alone (\<open>frame\<close>), for the
    life of a job (\<open>life\<close>), for the ledger (\<open>still\<close>, \<open>rolls\<close>) and for closed reservations (\<open>shut\<close>). \<open>Spool_Life\<close>: the specification \<open>job_step\<close>;
    \<open>Spool_Refine\<close>: every operation is a sequence of its steps. \<open>Spool_Run\<close>: runs of operations and what a claim does. \<open>Spool_Ledger\<close>, \<open>Spool_Shut\<close>:
    the budget. \<open>Spool_Tidy\<close>: the locale \<open>compactable\<close> (a directory with a guard that lets only settled files go), interpreted on the five directories
    that compaction works on. \<open>Spool_Orphan\<close>: starts on a spool with a receipt whose job is gone. \<open>Spool_Demo\<close>: a concrete spool for the witnesses.

  \<^bold>\<open>What is shown.\<close>

  \<^item> Journal (\<open>Journal_Props\<close>, \<open>Recovery_Props\<close>): an acknowledged append survives reopening, and the loss of the primary file when
    there is a replica; a failed one leaves the old or the new history; compaction keeps the records; the head
    hash determines the history; an open is pinned to the anchor.
  \<^item> Boundaries (\<open>Strict_Json\<close>, \<open>Identity\<close>, \<open>Contract_Props\<close>, \<open>Request_Contract\<close>, \<open>Safenet_Props\<close>, \<open>Remote_Props\<close>): the JSON gate accepts exactly the strict
    documents; an accepted assertion was signed by a trusted key for this request and audience; allowed paths are confined;
    the address policy is an explicit set of ranges (zoned IPv6 addresses included) and a client connects only to them; a Vault secret reads as written.
  \<^item> Files (\<open>Materialize_Props\<close>, \<open>Provider_Laws\<close>): a prepared lease holds exactly the declared variables, files, contents, mounts and saved state, a failure leaves nothing;
    a stored secret reads unchanged until it is deleted.
  \<^item> Broker (\<open>Broker_Props\<close>, \<open>Flow_Props\<close>): the operations refine the ledger; a restart recovers it; revocation of a grant or a
    credential is final; a secret is disclosed only under a lease that is valid at the end; grants stay isolated, leases
    bounded, OAuth states single use, canceled requests never complete, events page without loss.
  \<^item> Server (\<open>Http_Props\<close>, \<open>Http_Limits\<close>, \<open>Http_Refine\<close>, \<open>Http_Flow\<close>, \<open>Http_Audience\<close>): requests refine the ledger; the signed surface acts only for verified
    assertions, and the audience of an assertion limits the operations it reaches; a revoked grant is refused over HTTP; the proxy returns no secret; the limiter bounds the rate.
  \<^item> Schedules (\<open>Routine_Props\<close>): every computation of a next slot ends, and it panics exactly when a cron step overflows; a cron slot is the earliest matching minute; an
    interval slot is the first point of the grid of its anchor, or is aligned in a window, or is an extra time, within its days and bounds.
  \<^item> Spool (\<open>Spool_Props\<close>): under every sequence of operations other than compaction, faults and restarts a job stays in the spool and moves only by the steps
    of its specification; the prompt of a job with an idempotency key that was handed out is not handed out again unless unknown
    admissions are reconciled; terminal statuses, bindings and run identities are
    final; the counters of the budget are the open reservations and stay under the ceilings; a claim of the outbox prefers
    the control plane within its window. \<open>Tidy_Props\<close>: compaction leaves live work alone and archives what it removes.

  \<^bold>\<open>Defects of the code that the model shows.\<close> Extra fields can collide with an environment name of the contract; \<^verbatim>\<open>CreateGrant\<close> answers by map order
  when a retired and an active grant compete; a \<^verbatim>\<open>RevokeCredential\<close> that failed half way succeeds when repeated and leaves
  grants active; an approval path with a trailing slash is carried out for an assertion of the control audience; a zoned IPv6 address escapes the reserved networks; a cron step near
  the largest integer panics; an extra time without leading zero is accepted and never fires; a job identifier that is stored under its
  hash stops every later start of the spool; an admission that is retried after a lost write runs unpriced; a control delivery
  behind 256 others is not seen; compaction can archive the mapping of a job whose receipt stays, and then no process opens the spool. Each is a
  theorem.

  \<^bold>\<open>Bounds and fuel.\<close> The JSON reader runs on fuel that the length of the text always exceeds, proved with its
  equivalence to the grammar. A loop of the schedules that ends for arithmetic reasons is a \<^verbatim>\<open>partial_function\<close> in the option monad, and
  that it ends is a theorem (the limits are those of the code: 400 days of minutes, 576001 interval points, 403 days). The
  limits of the broker (4096 leases, 300 seconds, 10000 sessions, the journal's record and file size) are the code's
  constants. Journal lengths and Go integers that cannot overflow within these limits are naturals and integers; 64-bit wrap-around
  is written out where it can happen (assertion times, cron steps, token sums). The 256 names of an outbox scan are the code's.

  \<^bold>\<open>Idealised.\<close> One critical section reads the clock once. The limiter's floating-point tokens are exact integers in units
  of a billionth. \<^verbatim>\<open>strings.Fields\<close> and \<^verbatim>\<open>TrimSpace\<close> know the ASCII spaces. The spool reads the clock once per operation, and its lock makes each
  operation one step; a rename is durable at once (the death of the process is modelled, a loss of power after a rename is not). An error of closing a journal file is ignored as the
  code ignores it. The nanoseconds of a fractional duration, a floating-point product in Go, are a parameter.

  \<^bold>\<open>Not modelled.\<close> The broker's configuration files, start-up and command line (\<^verbatim>\<open>app\<close>, \<^verbatim>\<open>cmd\<close>), its HTTP client (\<^verbatim>\<open>client\<close>), HTML templates
  and translated texts: glue and data. Of the spool: the compaction of routine occurrences (an argument says whether it succeeded), artifact
  blobs and other attachments that are only carried, the task commands. The rest of Hermes Hub (the gateway and channels of \<^verbatim>\<open>internal/communication\<close>, \<^verbatim>\<open>toolhub\<close>, \<^verbatim>\<open>supervisor\<close>, \<^verbatim>\<open>runtime\<close>, \<^verbatim>\<open>stack\<close>, the
  other files of \<^verbatim>\<open>routines\<close>, the commands) orchestrates chats, containers and connectors and is outside this development.
\<close>

end
